(* ===== verification/Prelude.thy ===== *)
theory Prelude
  imports Main "HOL-Library.Word" "HOL-Library.Char_ord" "HOL-Library.List_Lexorder"
begin

text \<open>
  The shared prelude of the Safire development: the C++ runtime the sources rely on.

  \<^item> \<open>std::string\<close> is a byte list (\<^typ>\<open>string\<close>); \<open>compare\<close> and the order of
    \<open>std::map\<close>, \<open>std::set\<close> and LevelDB keys are the lexicographic order of bytes,
    provided by \<open>List_Lexorder\<close> over \<open>Char_ord\<close>.
  \<^item> \<open>long\<close> and \<open>int\<close> are \<^typ>\<open>int\<close>; the places where a value enters the program from
    text (\<open>strtol\<close>, \<open>atol\<close>, \<open>atoi\<close>) clamp or truncate to the machine range.
  \<^item> \<open>std::map\<close> is an association list sorted by key, with \<open>operator[]\<close>'s insertion of
    a default on a read written out as \<open>sm_touch\<close>.

  The collections \<open>str_simps\<close>, \<open>smap_simps\<close> and \<open>exact_simps\<close> carry the rewrite rules the
  component proofs share.
\<close>

named_theorems str_simps \<open>rules about the C string functions\<close>
named_theorems smap_simps \<open>rules about sorted maps\<close>
named_theorems exact_simps \<open>rules under which double arithmetic is exact\<close>

section \<open>Strings\<close>

definition slen :: "string \<Rightarrow> int" where
  "slen s = int (length s)"

definition starts_with :: "string \<Rightarrow> string \<Rightarrow> bool" where
  "starts_with s p \<longleftrightarrow> take (length p) s = p"

text \<open>\<open>std::string::find (pattern)\<close> from the start, then from a position; \<open>None\<close> is \<open>npos\<close>.\<close>

fun find_sub :: "string \<Rightarrow> string \<Rightarrow> nat option" where
  "find_sub p [] = (if p = [] then Some 0 else None)"
| "find_sub p (c # cs) =
     (if starts_with (c # cs) p then Some 0 else map_option Suc (find_sub p cs))"

definition find_str :: "string \<Rightarrow> string \<Rightarrow> nat \<Rightarrow> nat option" where
  "find_str s p pos =
     (if length s < pos then None else map_option ((+) pos) (find_sub p (drop pos s)))"

definition substr :: "string \<Rightarrow> nat \<Rightarrow> nat \<Rightarrow> string" where
  "substr s pos n = take n (drop pos s)"

text \<open>\<open>c_str ()\<close> read by a C function: the bytes before the first NUL.\<close>

definition c_str :: "string \<Rightarrow> string" where
  "c_str s = takeWhile (\<lambda>c. c \<noteq> CHR 0x00) s"

definition code :: "char \<Rightarrow> int" where
  "code c = int (of_char c)"

definition c_isspace :: "char \<Rightarrow> bool" where
  "c_isspace c \<longleftrightarrow> 9 \<le> code c \<and> code c \<le> 13 \<or> code c = 32"

definition c_isdigit :: "char \<Rightarrow> bool" where
  "c_isdigit c \<longleftrightarrow> 48 \<le> code c \<and> code c \<le> 57"

definition c_isupper :: "char \<Rightarrow> bool" where
  "c_isupper c \<longleftrightarrow> 65 \<le> code c \<and> code c \<le> 90"

definition c_islower :: "char \<Rightarrow> bool" where
  "c_islower c \<longleftrightarrow> 97 \<le> code c \<and> code c \<le> 122"

definition c_isalnum :: "char \<Rightarrow> bool" where
  "c_isalnum c \<longleftrightarrow> c_isdigit c \<or> c_isupper c \<or> c_islower c"

definition c_tolower :: "char \<Rightarrow> char" where
  "c_tolower c = (if c_isupper c then char_of (nat (code c) + 32) else c)"

section \<open>Integers as text\<close>

definition LONG_MAX :: int where "LONG_MAX = 9223372036854775807"
definition LONG_MIN :: int where "LONG_MIN = - 9223372036854775808"

definition in_long :: "int \<Rightarrow> bool" where
  "in_long n \<longleftrightarrow> LONG_MIN \<le> n \<and> n \<le> LONG_MAX"

definition clamp_long :: "int \<Rightarrow> int" where
  "clamp_long n = max LONG_MIN (min LONG_MAX n)"

definition digit_val :: "char \<Rightarrow> int" where
  "digit_val c = code c - 48"

definition digits_val :: "string \<Rightarrow> int" where
  "digits_val ds = foldl (\<lambda>a c. 10 * a + digit_val c) 0 ds"

text \<open>
  \<open>strtol (text, &end, 10)\<close>: the value, the unread rest (\<open>end\<close>), whether digits were
  read at all (\<open>end != text\<close>) and whether the value was out of range (\<open>ERANGE\<close>).
\<close>

record strtol_result =
  st_value :: int
  st_rest :: string
  st_read :: bool
  st_erange :: bool

definition split_sign :: "string \<Rightarrow> bool \<times> string" where
  "split_sign s = (case s of [] \<Rightarrow> (False, s)
     | c # cs \<Rightarrow> if c = CHR ''-'' then (True, cs) else if c = CHR ''+'' then (False, cs) else (False, s))"

definition strtol :: "string \<Rightarrow> strtol_result" where
  "strtol text =
     (let s = c_str text;
          (neg, body) = split_sign (dropWhile c_isspace s);
          ds = takeWhile c_isdigit body;
          v = (if neg then - digits_val ds else digits_val ds)
      in if ds = [] then \<lparr>st_value = 0, st_rest = s, st_read = False, st_erange = False\<rparr>
         else \<lparr>st_value = clamp_long v, st_rest = dropWhile c_isdigit body, st_read = True,
               st_erange = \<not> in_long v\<rparr>)"

definition atol :: "string \<Rightarrow> int" where
  "atol text = st_value (strtol text)"

definition atoi :: "string \<Rightarrow> int" where
  "atoi text = signed_take_bit 31 (atol text)"

text \<open>Decimal printing of a \<open>long\<close> (\<open>operator<<\<close> and \<open>lexical_cast\<close> on integers).\<close>

definition digit_char :: "nat \<Rightarrow> char" where
  "digit_char d = char_of (48 + d)"

fun show_nat :: "nat \<Rightarrow> string" where
  "show_nat n = (if n < 10 then [digit_char n] else show_nat (n div 10) @ [digit_char (n mod 10)])"

declare show_nat.simps [simp del]

definition show_long :: "int \<Rightarrow> string" where
  "show_long n = (if n < 0 then CHR ''-'' # show_nat (nat (- n)) else show_nat (nat n))"

lemma code_digit_char [simp]: "d < 10 \<Longrightarrow> code (digit_char d) = 48 + int d"
proof -
  assume "d < 10"
  then have "(of_char (digit_char d) :: nat) = 48 + d" by (simp add: digit_char_def)
  then have "int (of_char (digit_char d)) = 48 + int d" by simp
  then show ?thesis by (simp add: code_def)
qed

lemma isdigit_digit_char [simp]: "d < 10 \<Longrightarrow> c_isdigit (digit_char d)"
  by (simp add: c_isdigit_def)

lemma digit_val_digit_char [simp]: "d < 10 \<Longrightarrow> digit_val (digit_char d) = int d"
  by (simp add: digit_val_def)

lemma show_nat_isdigit: "list_all c_isdigit (show_nat n)"
  by (induction n rule: show_nat.induct) (subst show_nat.simps, simp)

lemma show_nat_neq_Nil [simp]: "show_nat n \<noteq> []"
  by (subst show_nat.simps) simp

lemma digits_val_snoc: "digits_val (ds @ [c]) = 10 * digits_val ds + digit_val c"
  by (simp add: digits_val_def)

lemma digits_val_show_nat [str_simps]: "digits_val (show_nat n) = int n"
proof (induction n rule: show_nat.induct)
  case (1 n)
  show ?case
  proof (cases "n < 10")
    case True
    then show ?thesis by (subst show_nat.simps) (simp add: digits_val_def)
  next
    case False
    with "1.IH" show ?thesis
      by (subst show_nat.simps) (simp add: digits_val_snoc, presburger)
  qed
qed

lemma isdigit_not [simp]:
  "\<not> c_isdigit (CHR 0x00)" "\<not> c_isdigit (CHR ''-'')" "\<not> c_isdigit (CHR ''+'')"
  "\<not> c_isdigit (CHR 0x22)" "\<not> c_isdigit (CHR ''{'')" "\<not> c_isdigit (CHR ''}'')"
  by (simp_all add: c_isdigit_def code_def)

lemma isdigit_not_space: "c_isdigit c \<Longrightarrow> \<not> c_isspace c"
  by (auto simp: c_isdigit_def c_isspace_def)

lemma takeWhile_list_all: "list_all P xs \<Longrightarrow> takeWhile P xs = xs"
  by (induction xs) auto

lemma dropWhile_list_all: "list_all P xs \<Longrightarrow> dropWhile P xs = []"
  by (induction xs) auto

lemma c_str_id: "CHR 0x00 \<notin> set s \<Longrightarrow> c_str s = s"
  unfolding c_str_def by (rule takeWhile_list_all) (auto simp: list_all_iff)

lemma c_str_idem [simp]: "c_str (c_str s) = c_str s"
  unfolding c_str_def by (rule takeWhile_list_all) (auto simp: list_all_iff dest: set_takeWhileD)

lemma digits_no_nul: "list_all c_isdigit s \<Longrightarrow> CHR 0x00 \<notin> set s"
  by (auto simp: list_all_iff dest: bspec)

lemma show_nat_chars: "c \<in> set (show_nat n) \<Longrightarrow> c_isdigit c"
  using show_nat_isdigit [of n] by (simp add: list_all_iff)

lemma show_long_chars: "c \<in> set (show_long n) \<Longrightarrow> c_isdigit c \<or> c = CHR ''-''"
  by (auto simp: show_long_def dest: show_nat_chars split: if_splits)

lemma strtol_digits:
  assumes "list_all c_isdigit ds" and "ds \<noteq> []"
  shows "strtol ds = \<lparr>st_value = clamp_long (digits_val ds), st_rest = [], st_read = True,
    st_erange = \<not> in_long (digits_val ds)\<rparr>"
    and "strtol (CHR ''-'' # ds) = \<lparr>st_value = clamp_long (- digits_val ds), st_rest = [],
      st_read = True, st_erange = \<not> in_long (- digits_val ds)\<rparr>"
proof -
  obtain d ds' where ds: "ds = d # ds'" using assms(2) by (cases ds) auto
  have d: "c_isdigit d" using assms(1) ds by simp
  have nd: "\<not> c_isspace d" "d \<noteq> CHR ''-''" "d \<noteq> CHR ''+''"
    using isdigit_not_space [OF d] d by auto
  have c: "c_str ds = ds" "c_str (CHR ''-'' # ds) = CHR ''-'' # ds"
    using digits_no_nul [OF assms(1)] by (auto intro!: c_str_id)
  have sp: "\<not> c_isspace (CHR ''-'')" by (simp add: c_isspace_def code_def)
  have sgn: "split_sign ds = (False, ds)" using nd by (simp add: split_sign_def ds)
  have sp': "dropWhile c_isspace ds = ds" using nd by (simp add: ds)
  show "strtol ds = \<lparr>st_value = clamp_long (digits_val ds), st_rest = [], st_read = True,
      st_erange = \<not> in_long (digits_val ds)\<rparr>"
    using assms by (simp add: strtol_def Let_def c sgn sp' takeWhile_list_all dropWhile_list_all)
  show "strtol (CHR ''-'' # ds) = \<lparr>st_value = clamp_long (- digits_val ds), st_rest = [],
      st_read = True, st_erange = \<not> in_long (- digits_val ds)\<rparr>"
    using assms sp by (simp add: strtol_def Let_def c split_sign_def takeWhile_list_all dropWhile_list_all)
qed

lemma strtol_show_long [str_simps]:
  assumes "in_long n"
  shows "strtol (show_long n) =
    \<lparr>st_value = n, st_rest = [], st_read = True, st_erange = False\<rparr>"
  using assms
  by (auto simp: show_long_def strtol_digits [OF show_nat_isdigit show_nat_neq_Nil] digits_val_show_nat
      clamp_long_def in_long_def)

lemma atol_show_long [str_simps]: "in_long n \<Longrightarrow> atol (show_long n) = n"
  by (simp add: atol_def strtol_show_long)

lemma clamp_long_in_long: "in_long (clamp_long n)"
  by (simp add: in_long_def clamp_long_def LONG_MAX_def LONG_MIN_def)

lemma atol_in_long: "in_long (atol s)"
  by (auto simp: atol_def strtol_def Let_def clamp_long_in_long split: prod.splits)
     (simp add: in_long_def LONG_MAX_def LONG_MIN_def)

section \<open>Searching strings\<close>

lemma starts_with_append [simp]: "starts_with (p @ s) p"
  by (simp add: starts_with_def)

lemma starts_with_Nil [simp]: "starts_with s []"
  by (simp add: starts_with_def)

lemma starts_with_Cons [simp]:
  "starts_with (c # s) (d # p) \<longleftrightarrow> c = d \<and> starts_with s p"
  "\<not> starts_with [] (d # p)"
  by (auto simp: starts_with_def)

lemma starts_withD: "starts_with s p \<Longrightarrow> \<exists>t. s = p @ t"
  by (metis append_take_drop_id starts_with_def)

lemma find_sub_prefix [simp]: "find_sub p (p @ s) = Some 0"
  by (cases "p @ s") (auto simp: starts_with_append simp flip: append_Cons dest: sym)

lemma find_sub_Some_starts: "find_sub p s = Some i \<Longrightarrow> starts_with (drop i s) p \<and> i \<le> length s"
  by (induction s arbitrary: i) (auto split: if_splits)

lemma find_sub_bound: "find_sub p s = Some i \<Longrightarrow> i + length p \<le> length s"
proof -
  assume "find_sub p s = Some i"
  from find_sub_Some_starts [OF this] obtain t where "drop i s = p @ t" "i \<le> length s"
    by (auto dest: starts_withD)
  then show ?thesis by (metis add_le_cancel_left diff_diff_add le_add1 le_add_diff_inverse length_append length_drop)
qed

text \<open>A pattern whose first byte does not occur in a gap cannot begin in the gap.\<close>

lemma find_sub_skip:
  assumes "c \<notin> set g"
  shows "find_sub (c # p) (g @ (c # p) @ t) = Some (length g)"
  using assms by (induction g) (auto simp: starts_with_def)

lemma find_sub_skip_gen:
  assumes "\<And>i. i < length g \<Longrightarrow> \<not> starts_with (drop i (g @ t)) p"
  shows "find_sub p (g @ t) = map_option ((+) (length g)) (find_sub p t)"
  using assms
proof (induction g)
  case Nil
  then show ?case by (simp add: option.map_ident)
next
  case (Cons x g)
  have "\<not> starts_with (x # g @ t) p" using Cons.prems [of 0] by simp
  moreover have "find_sub p (g @ t) = map_option ((+) (length g)) (find_sub p t)"
    using Cons.prems [of "Suc _"] by (intro Cons.IH) auto
  ultimately show ?case by (cases "find_sub p t") auto
qed

section \<open>Sorted maps\<close>

type_synonym ('k, 'v) smap = "('k \<times> 'v) list"

fun sm_put :: "'k::linorder \<Rightarrow> 'v \<Rightarrow> ('k, 'v) smap \<Rightarrow> ('k, 'v) smap" where
  "sm_put k v [] = [(k, v)]"
| "sm_put k v (e # m) =
     (if fst e = k then (k, v) # m
      else if fst e < k then e # sm_put k v m
      else (k, v) # e # m)"

definition sm_get :: "('k, 'v) smap \<Rightarrow> 'k \<Rightarrow> 'v option" where
  "sm_get m k = map_of m k"

definition sm_del :: "'k \<Rightarrow> ('k, 'v) smap \<Rightarrow> ('k, 'v) smap" where
  "sm_del k m = filter (\<lambda>e. fst e \<noteq> k) m"

definition sm_at :: "'v \<Rightarrow> ('k, 'v) smap \<Rightarrow> 'k \<Rightarrow> 'v" where
  "sm_at d m k = (case sm_get m k of None \<Rightarrow> d | Some v \<Rightarrow> v)"

text \<open>The insertion that \<open>m[k]\<close> makes when it reads an absent key.\<close>

definition sm_touch :: "'k::linorder \<Rightarrow> 'v \<Rightarrow> ('k, 'v) smap \<Rightarrow> ('k, 'v) smap" where
  "sm_touch k d m = (if sm_get m k = None then sm_put k d m else m)"

definition sm_inv :: "('k::linorder, 'v) smap \<Rightarrow> bool" where
  "sm_inv m \<longleftrightarrow> sorted_wrt (<) (map fst m)"

lemma sm_get_put [smap_simps]: "sm_get (sm_put k v m) = (sm_get m)(k \<mapsto> v)"
  unfolding sm_get_def by (induction m) auto

lemma sm_get_del [smap_simps]: "sm_get (sm_del k m) = (sm_get m)(k := None)"
  unfolding sm_get_def sm_del_def by (induction m) auto

lemma sm_get_Nil [smap_simps]: "sm_get [] = Map.empty"
  by (simp add: sm_get_def fun_eq_iff)

lemma sm_at_put [smap_simps]: "sm_at d (sm_put k v m) x = (if x = k then v else sm_at d m x)"
  by (simp add: sm_at_def sm_get_put)

lemma sm_at_touch [smap_simps]: "sm_at d (sm_touch k d m) x = sm_at d m x"
  by (auto simp: sm_touch_def sm_at_put) (simp add: sm_at_def)

lemma sm_at_Nil [smap_simps]: "sm_at d [] x = d"
  by (simp add: sm_at_def sm_get_Nil)

lemma keys_sm_put: "set (map fst (sm_put k v m)) = insert k (set (map fst m))"
  by (induction m) auto

lemma sm_inv_Nil [smap_simps]: "sm_inv []"
  by (simp add: sm_inv_def)

lemma set_sm_put: "set (sm_put k v m) \<subseteq> insert (k, v) (set m)"
  by (induction m) auto

lemma sm_inv_put [smap_simps]: "sm_inv m \<Longrightarrow> sm_inv (sm_put k v m)"
proof (induction m)
  case Nil
  then show ?case by (simp add: sm_inv_def)
next
  case (Cons e m)
  have m: "sm_inv m" and e: "\<forall>x \<in> set (map fst m). fst e < x"
    using Cons.prems by (auto simp: sm_inv_def)
  show ?case
  proof (cases "fst e < k")
    case True
    have "\<forall>x \<in> set (map fst (sm_put k v m)). fst e < x"
      using e True by (simp only: keys_sm_put) auto
    with Cons.IH [OF m] True show ?thesis by (auto simp: sm_inv_def)
  next
    case False
    with Cons.prems e show ?thesis by (auto simp: sm_inv_def)
  qed
qed

lemma sm_inv_touch [smap_simps]: "sm_inv m \<Longrightarrow> sm_inv (sm_touch k d m)"
  by (simp add: sm_touch_def sm_inv_put)

lemma sm_inv_del [smap_simps]: "sm_inv m \<Longrightarrow> sm_inv (sm_del k m)"
  unfolding sm_inv_def sm_del_def by (induction m) auto

lemma sm_inv_distinct: "sm_inv m \<Longrightarrow> distinct (map fst m)"
  by (simp add: sm_inv_def strict_sorted_iff)

section \<open>Finding an element by its key\<close>

text \<open>
  The loop that returns the index of the first element with a given key; \<open>None\<close> is the
  \<open>-1\<close> of the source.
\<close>

fun key_index :: "('m \<Rightarrow> string) \<Rightarrow> 'm list \<Rightarrow> string \<Rightarrow> nat option" where
  "key_index key [] k = None"
| "key_index key (m # ms) k = (if key m = k then Some 0 else map_option Suc (key_index key ms k))"

lemma key_index_None: "key_index key ms k = None \<longleftrightarrow> k \<notin> key ` set ms"
  by (induction ms) auto

lemma key_index_Some: "key_index key ms k = Some i \<Longrightarrow> i < length ms \<and> key (ms ! i) = k"
  by (induction ms arbitrary: i) (auto split: if_splits)

lemma key_index_update:
  "(\<And>m. key (f m) = key m) \<Longrightarrow> key_index key (ms[i := f (ms ! i)]) k = key_index key ms k"
  by (induction ms arbitrary: i) (auto split: nat.splits)

lemma map_key_update: "key x = key (ms ! i) \<Longrightarrow> map key (ms[i := x]) = map key ms"
  by (metis list_update_id map_update)

end
