(* ===== verification/Binary64.thy ===== *)
theory Binary64
  imports Complex_Main "HOL-Library.Log_Nat" Prelude
begin

text \<open>
  The C++ type \<open>double\<close>: IEEE 754 binary64 with rounding to nearest, ties to even.
  Finite values are exact rationals; \<open>round_double\<close> rounds an exact result to 53
  significant bits, with gradual underflow at \<open>2 powi (-1074)\<close> and overflow at
  \<open>2 ^ 1024\<close>. The sources only add, subtract, negate, compare and take absolute values,
  so those are the operations given. Addition and subtraction of finite values never
  underflow, so the sign of an exact zero follows the IEEE rule (\<open>+0\<close> unless both
  operands are \<open>-0\<close>).

  The lemmas say when the arithmetic is exact: on the grid of multiples of \<open>1 / 2 ^ k\<close>,
  as long as the results stay within \<open>2 ^ (53 - k)\<close>.
\<close>

section \<open>Rounding\<close>

datatype double = DFin rat | DNegZero | DInf bool | DNaN

definition ilog2 :: "rat \<Rightarrow> int" where
  "ilog2 q = (if 1 \<le> q then bitlen \<lfloor>q\<rfloor> - 1 else - bitlen (\<lceil>1 / q\<rceil> - 1))"

definition round_half_even :: "rat \<Rightarrow> int" where
  "round_half_even x =
     (let f = \<lfloor>x\<rfloor>; r = x - of_int f
      in if r < 1 / 2 then f else if 1 / 2 < r then f + 1 else if even f then f else f + 1)"

definition ulp_exp :: "rat \<Rightarrow> int" where
  "ulp_exp q = max (ilog2 \<bar>q\<bar> - 52) (- 1074)"

definition round_fin :: "rat \<Rightarrow> rat" where
  "round_fin q =
     (if q = 0 then 0
      else let u = 2 powi (ulp_exp q) in of_int (round_half_even (q / u)) * u)"

definition round_double :: "rat \<Rightarrow> double" where
  "round_double q =
     (let r = round_fin q in if 2 ^ 1024 \<le> \<bar>r\<bar> then DInf (r < 0) else DFin r)"

section \<open>Operations\<close>

fun dval :: "double \<Rightarrow> rat option" where
  "dval (DFin q) = Some q"
| "dval DNegZero = Some 0"
| "dval (DInf s) = None"
| "dval DNaN = None"

fun dneg :: "double \<Rightarrow> double" where
  "dneg (DFin q) = (if q = 0 then DNegZero else DFin (- q))"
| "dneg DNegZero = DFin 0"
| "dneg (DInf s) = DInf (\<not> s)"
| "dneg DNaN = DNaN"

definition dadd :: "double \<Rightarrow> double \<Rightarrow> double" where
  "dadd a b =
     (case (a, b) of
        (DNaN, _) \<Rightarrow> DNaN
      | (_, DNaN) \<Rightarrow> DNaN
      | (DInf s, DInf t) \<Rightarrow> if s = t then DInf s else DNaN
      | (DInf s, _) \<Rightarrow> DInf s
      | (_, DInf t) \<Rightarrow> DInf t
      | (DNegZero, DNegZero) \<Rightarrow> DNegZero
      | (DNegZero, DFin y) \<Rightarrow> DFin y
      | (DFin x, DNegZero) \<Rightarrow> DFin x
      | (DFin x, DFin y) \<Rightarrow> round_double (x + y))"

definition dsub :: "double \<Rightarrow> double \<Rightarrow> double" where
  "dsub a b = dadd a (dneg b)"

fun dabs :: "double \<Rightarrow> double" where
  "dabs (DFin q) = DFin \<bar>q\<bar>"
| "dabs DNegZero = DFin 0"
| "dabs (DInf s) = DInf False"
| "dabs DNaN = DNaN"

text \<open>\<open>a < b\<close>; every comparison with a NaN is false.\<close>

definition dlt :: "double \<Rightarrow> double \<Rightarrow> bool" where
  "dlt a b =
     (case (a, b) of
        (DNaN, _) \<Rightarrow> False
      | (_, DNaN) \<Rightarrow> False
      | (DInf s, DInf t) \<Rightarrow> s \<and> \<not> t
      | (DInf s, _) \<Rightarrow> s
      | (_, DInf t) \<Rightarrow> \<not> t
      | _ \<Rightarrow> the (dval a) < the (dval b))"

definition dle :: "double \<Rightarrow> double \<Rightarrow> bool" where
  "dle a b =
     (case (a, b) of
        (DNaN, _) \<Rightarrow> False
      | (_, DNaN) \<Rightarrow> False
      | (DInf s, DInf t) \<Rightarrow> s \<or> \<not> t
      | (DInf s, _) \<Rightarrow> s
      | (_, DInf t) \<Rightarrow> \<not> t
      | _ \<Rightarrow> the (dval a) \<le> the (dval b))"

text \<open>The literal \<open>0.000001\<close>: the nearest double.\<close>

definition EPS :: double where
  "EPS = round_double (1 / 1000000)"

section \<open>Exactness\<close>

lemma bitlen_lower: "0 < x \<Longrightarrow> (2::rat) powi (bitlen x - 1) \<le> of_int x"
proof -
  assume x: "0 < x"
  then have "2 ^ nat (bitlen x - 1) \<le> x" using bitlen_bounds [OF x] by simp
  then have "of_int (2 ^ nat (bitlen x - 1)) \<le> (of_int x :: rat)" by (simp only: of_int_le_iff)
  moreover have "1 \<le> bitlen x" using x bitlen_nonneg [of x] bitlen_eq_zero_iff [of x] by linarith
  ultimately show ?thesis by (simp add: power_int_def)
qed

lemma bitlen_upper: "0 \<le> x \<Longrightarrow> of_int x < (2::rat) powi (bitlen x)"
proof (cases "x = 0")
  case True
  then show ?thesis by simp
next
  case False
  assume "0 \<le> x"
  with False have x: "0 < x" by simp
  then have "x < 2 ^ nat (bitlen x)" using bitlen_bounds [OF x] by simp
  then have "(of_int x :: rat) < of_int (2 ^ nat (bitlen x))" by (simp only: of_int_less_iff)
  then show ?thesis using bitlen_nonneg [of x] by (simp add: power_int_def)
qed

lemma ilog2_le: "0 < q \<Longrightarrow> 2 powi (ilog2 q) \<le> q"
proof (cases "1 \<le> q")
  case True
  then have f: "0 < \<lfloor>q\<rfloor>" by linarith
  have "2 powi (ilog2 q) \<le> (of_int \<lfloor>q\<rfloor> :: rat)"
    using bitlen_lower [OF f] True by (simp add: ilog2_def)
  then show ?thesis using of_int_floor_le [of q] by linarith
next
  case False
  assume q: "0 < q"
  define c where "c = \<lceil>1 / q\<rceil> - 1"
  have "1 / q > 1" using False q by (simp add: field_simps)
  then have "1 < \<lceil>1 / q\<rceil>" by linarith
  then have c: "0 \<le> c" unfolding c_def by linarith
  have "(of_int c :: rat) < 2 powi (bitlen c)" by (rule bitlen_upper [OF c])
  moreover have pw: "(2::rat) powi (bitlen c) = of_int (2 ^ nat (bitlen c))"
    using bitlen_nonneg [of c] by (simp add: power_int_def)
  ultimately have "c < 2 ^ nat (bitlen c)" by (simp only: of_int_less_iff)
  then have "\<lceil>1 / q\<rceil> \<le> 2 ^ nat (bitlen c)" by (simp add: c_def)
  then have "1 / q \<le> of_int (2 ^ nat (bitlen c))" by (simp only: ceiling_le_iff)
  then have le: "1 / q \<le> 2 powi (bitlen c)" by (simp only: pw)
  have pos: "(0::rat) < 2 powi (bitlen c)" by (rule zero_less_power_int) simp
  have "1 / 2 powi (bitlen c) \<le> q" using le q pos by (simp add: field_simps)
  then show ?thesis using False by (simp add: ilog2_def power_int_minus_divide flip: c_def)
qed

lemma ilog2_less: "0 < q \<Longrightarrow> q < 2 powi e \<Longrightarrow> ilog2 q < e"
  using ilog2_le [of q] power_int_strict_increasing [of e "ilog2 q" "2::rat"]
  by (metis linorder_not_less order_less_imp_not_less order_less_le_trans power_int_increasing
      one_le_numeral order_trans)

lemma round_half_even_of_int [simp]: "round_half_even (of_int n) = n"
  by (simp add: round_half_even_def)

lemma round_fin_scaled:
  assumes "q = of_int m * 2 powi e" and "ulp_exp q \<le> e"
  shows "round_fin q = q"
proof (cases "q = 0")
  case True
  then show ?thesis by (simp add: round_fin_def)
next
  case False
  define E where "E = ulp_exp q"
  have "q / 2 powi E = of_int m * 2 powi (e - E)"
    by (simp add: assms(1) power_int_diff)
  also have "\<dots> = of_int (m * 2 ^ nat (e - E))"
    using assms(2) by (simp add: E_def power_int_def)
  finally have "q / 2 powi E = of_int (m * 2 ^ nat (e - E))" .
  then have "of_int (round_half_even (q / 2 powi E)) = q / 2 powi E"
    by (simp only: round_half_even_of_int)
  then show ?thesis using False by (simp add: round_fin_def E_def)
qed

definition on_grid :: "nat \<Rightarrow> rat \<Rightarrow> bool" where
  "on_grid k q \<longleftrightarrow> q * 2 ^ k \<in> \<int>"

lemma on_grid_0 [exact_simps]: "on_grid k 0"
  by (simp add: on_grid_def)

lemma on_grid_add [exact_simps]: "on_grid k x \<Longrightarrow> on_grid k y \<Longrightarrow> on_grid k (x + y)"
  by (simp add: on_grid_def distrib_right)

lemma on_grid_diff [exact_simps]: "on_grid k x \<Longrightarrow> on_grid k y \<Longrightarrow> on_grid k (x - y)"
  by (simp add: on_grid_def left_diff_distrib)

lemma on_grid_minus [exact_simps]: "on_grid k x \<Longrightarrow> on_grid k (- x)"
  by (simp add: on_grid_def)

lemma on_grid_sum_list: "(\<And>x. x \<in> set xs \<Longrightarrow> on_grid k x) \<Longrightarrow> on_grid k (sum_list xs)"
  by (induction xs) (auto simp: exact_simps)

lemma on_grid_of_int [exact_simps]: "on_grid k (of_int n)"
  by (simp add: on_grid_def)

lemma on_grid_numeral [exact_simps]: "on_grid k 1" "on_grid k (numeral w)"
  by (simp_all add: on_grid_def)

lemma ulp_exp_bound:
  assumes "q \<noteq> 0" and "\<bar>q\<bar> < 2 powi (53 + e)" and "- 1074 \<le> e"
  shows "ulp_exp q \<le> e"
  using ilog2_less [of "\<bar>q\<bar>" "53 + e"] assms by (simp add: ulp_exp_def)

text \<open>A multiple of \<open>1 / 2 ^ k\<close> within \<open>2 ^ 53 / 2 ^ k\<close> is a double.\<close>

theorem round_fin_grid:
  assumes g: "on_grid k q" and b: "\<bar>q\<bar> \<le> 2 ^ 53 / 2 ^ k" and k: "k \<le> 1074"
  shows "round_fin q = q"
proof (cases "q = 0")
  case True
  then show ?thesis by (simp add: round_fin_def)
next
  case False
  obtain m where m: "q * 2 ^ k = of_int m" using g by (auto simp: on_grid_def elim: Ints_cases)
  have q: "q = of_int m * 2 powi (- int k)"
    using m by (simp add: power_int_minus field_simps)
  have pw: "(2::rat) powi (53 + - int k) = 2 ^ 53 / 2 ^ k"
    by (subst power_int_add) (simp_all add: power_int_minus_divide)
  show ?thesis
  proof (cases "\<bar>q\<bar> = 2 ^ 53 / 2 ^ k")
    case False
    with b have "\<bar>q\<bar> < 2 powi (53 + - int k)" by (simp only: pw)
    then have "ulp_exp q \<le> - int k" using \<open>q \<noteq> 0\<close> k by (intro ulp_exp_bound) auto
    then show ?thesis by (rule round_fin_scaled [OF q])
  next
    case True
    then have "\<bar>of_int m :: rat\<bar> = 2 ^ 53" using m by (auto simp: field_simps abs_if split: if_splits)
    then have "of_int \<bar>m\<bar> = (of_int (2 ^ 53) :: rat)" by simp
    then have "\<bar>m\<bar> = 2 ^ 53" by (simp only: of_int_eq_iff)
    then have "even \<bar>m\<bar>" by simp
    then have "even m" by simp
    then obtain n where n: "m = 2 * n" by blast
    have q': "q = of_int n * 2 powi (1 - int k)"
      using q by (simp add: n power_int_diff power_int_minus_divide)
    have "(2::rat) powi (53 + (1 - int k)) = 2 * (2 ^ 53 / 2 ^ k)"
      using pw by (simp add: power_int_diff)
    moreover have "(0::rat) < 2 ^ 53 / 2 ^ k" by simp
    ultimately have "\<bar>q\<bar> < 2 powi (53 + (1 - int k))" using True by linarith
    then have "ulp_exp q \<le> 1 - int k" using \<open>q \<noteq> 0\<close> k by (intro ulp_exp_bound) auto
    then show ?thesis by (rule round_fin_scaled [OF q'])
  qed
qed

lemma round_double_grid [exact_simps]:
  assumes "on_grid k q" and "\<bar>q\<bar> \<le> 2 ^ 53 / 2 ^ k" and "k \<le> 1074"
  shows "round_double q = DFin q"
proof -
  have "\<bar>q\<bar> \<le> 2 ^ 53"
  proof (rule order_trans [OF assms(2)])
    have "(2::rat) ^ 53 / 2 ^ k \<le> 2 ^ 53 / 1" by (rule divide_left_mono) auto
    then show "(2::rat) ^ 53 / 2 ^ k \<le> 2 ^ 53" by simp
  qed
  moreover have "(2::rat) ^ 53 < 2 ^ 1024" by (rule power_strict_increasing) auto
  ultimately show ?thesis by (simp add: round_double_def round_fin_grid [OF assms] Let_def)
qed

text \<open>Small integers are exact.\<close>

lemma round_double_int: "\<bar>n\<bar> \<le> 2 ^ 53 \<Longrightarrow> round_double (of_int n) = DFin (of_int n)"
proof (rule round_double_grid [of 0])
  assume "\<bar>n\<bar> \<le> 2 ^ 53"
  then have "(of_int \<bar>n\<bar> :: rat) \<le> of_int (2 ^ 53)" by (simp only: of_int_le_iff)
  then show "\<bar>of_int n :: rat\<bar> \<le> 2 ^ 53 / 2 ^ 0" by simp
qed (simp_all add: on_grid_def)

section \<open>Arithmetic of values\<close>

lemma dlt_fin [simp]: "dlt (DFin x) (DFin y) \<longleftrightarrow> x < y"
  by (simp add: dlt_def)

lemma dle_fin [simp]: "dle (DFin x) (DFin y) \<longleftrightarrow> x \<le> y"
  by (simp add: dle_def)

lemma dlt_val: "dval a = Some x \<Longrightarrow> dval b = Some y \<Longrightarrow> dlt a b \<longleftrightarrow> x < y"
  by (cases a; cases b) (auto simp: dlt_def)

lemma dle_val: "dval a = Some x \<Longrightarrow> dval b = Some y \<Longrightarrow> dle a b \<longleftrightarrow> x \<le> y"
  by (cases a; cases b) (auto simp: dle_def)

lemma dval_dneg [simp]: "dval (dneg a) = map_option uminus (dval a)"
  by (cases a) auto

lemma dval_dabs [simp]: "dval (dabs a) = map_option abs (dval a)"
  by (cases a) auto

lemma dadd_fin: "dadd (DFin x) (DFin y) = round_double (x + y)"
  by (simp add: dadd_def)

text \<open>Addition is exact on the grid; the value of the sum is the sum of the values.\<close>

definition grid_le :: "nat \<Rightarrow> double \<Rightarrow> rat \<Rightarrow> bool" where
  "grid_le k a B \<longleftrightarrow> (\<exists>x. dval a = Some x \<and> on_grid k x \<and> \<bar>x\<bar> \<le> B)"

definition grid_cap :: "nat \<Rightarrow> rat" where
  "grid_cap k = 2 ^ 53 / 2 ^ k"

lemma dadd_exact:
  assumes "dval a = Some x" "dval b = Some y" "on_grid k x" "on_grid k y"
    and "\<bar>x + y\<bar> \<le> grid_cap k" and "k \<le> 1074"
  shows "dval (dadd a b) = Some (x + y)"
proof -
  have "round_double (x + y) = DFin (x + y)"
    using assms by (intro round_double_grid) (auto simp: grid_cap_def exact_simps)
  then show ?thesis using assms(1,2) by (cases a; cases b) (auto simp: dadd_def)
qed

lemma dsub_exact:
  assumes "dval a = Some x" "dval b = Some y" "on_grid k x" "on_grid k y"
    and "\<bar>x - y\<bar> \<le> grid_cap k" and "k \<le> 1074"
  shows "dval (dsub a b) = Some (x - y)"
  using dadd_exact [of a x "dneg b" "- y" k] assms by (simp add: dsub_def exact_simps)

section \<open>The rounding error\<close>

lemma round_half_even_error: "\<bar>of_int (round_half_even x) - x\<bar> \<le> 1 / 2"
  using floor_correct [of x] by (auto simp: round_half_even_def Let_def abs_le_iff split: if_splits)

lemma round_fin_error:
  assumes "\<bar>q\<bar> < 2 powi (53 + e)" and "- 1074 \<le> e"
  shows "\<bar>round_fin q - q\<bar> \<le> 2 powi e / 2"
proof (cases "q = 0")
  case True
  then show ?thesis by (simp add: round_fin_def)
next
  case False
  define u :: rat where "u = 2 powi (ulp_exp q)"
  have u: "0 < u" unfolding u_def by (rule zero_less_power_int) simp
  have "round_fin q - q = (of_int (round_half_even (q / u)) - q / u) * u"
    using False u by (simp add: round_fin_def u_def [symmetric] left_diff_distrib)
  then have "\<bar>round_fin q - q\<bar> = \<bar>of_int (round_half_even (q / u)) - q / u\<bar> * u"
    using u by (simp add: abs_mult)
  also have "\<dots> \<le> 1 / 2 * u" using round_half_even_error u by (intro mult_right_mono) auto
  also have "\<dots> \<le> 2 powi e / 2"
    using ulp_exp_bound [OF False assms] unfolding u_def by (simp add: power_int_increasing)
  finally show ?thesis .
qed

text \<open>The tolerance \<open>EPS\<close> lies between \<open>1 / 2 ^ 20\<close> and \<open>1 / 2 ^ 19\<close>.\<close>

lemma EPS_small: "\<exists>e. EPS = DFin e \<and> 0 < e \<and> 1 / 2 ^ 20 < e \<and> e < 1 / 2 ^ 19"
proof -
  define r where "r = round_fin (1 / 1000000)"
  have "\<bar>r - 1 / 1000000\<bar> \<le> 2 powi (- 72) / 2"
    unfolding r_def by (rule round_fin_error) (simp_all add: power_int_def power_divide)
  moreover have "(2::rat) powi (- 72) / 2 = 1 / 9444732965739290427392" by (simp add: power_int_def power_divide)
  ultimately have r: "1 / 1000000 - 1 / 9444732965739290427392 \<le> r" "r \<le> 1 / 1000000 + 1 / 9444732965739290427392"
    by linarith+
  then have b: "0 < r" "r < 1 / 2 ^ 19" "1 / 2 ^ 20 < r" by simp_all
  have "r < 2 ^ 1024" by (rule less_le_trans [OF b(2)]) simp
  then have "EPS = DFin r" using b(1) by (simp add: EPS_def round_double_def Let_def r_def [symmetric])
  with b show ?thesis by blast
qed

lemma grid_gap: "on_grid k x \<Longrightarrow> on_grid k y \<Longrightarrow> x < y \<Longrightarrow> x + 1 / 2 ^ k \<le> y"
proof -
  assume "on_grid k x" "on_grid k y" and lt: "x < y"
  then obtain m n where m: "x * 2 ^ k = of_int m" and n: "y * 2 ^ k = of_int n" by (auto simp: on_grid_def elim!: Ints_cases)
  have "x * 2 ^ k < y * 2 ^ k" using lt by simp
  then have "m + 1 \<le> n" unfolding m n by simp
  then have "x * 2 ^ k + 1 \<le> y * 2 ^ k" unfolding m n by (metis of_int_1 of_int_add of_int_le_iff)
  then show ?thesis by (simp add: field_simps)
qed

text \<open>
  On a grid no finer than \<open>1 / 2 ^ 18\<close> the comparison with the tolerance is exact: a balance
  that passes \<open>balance + 0.000001 < amount\<close> covers the amount.
\<close>

lemma tolerance_exact:
  assumes x: "dval a = Some x" "on_grid k x" and y: "dval b = Some y" "on_grid k y"
    and k: "k \<le> 18" and cap: "\<bar>x\<bar> + 1 \<le> grid_cap k" and pass: "\<not> dlt (dadd a EPS) b"
  shows "y \<le> x"
proof (rule ccontr)
  assume "\<not> y \<le> x"
  then have gap: "x + 1 / 2 ^ k \<le> y" using grid_gap [OF x(2) y(2)] by simp
  obtain e where e: "EPS = DFin e" "0 < e" "e < 1 / 2 ^ 19" using EPS_small by blast
  have h: "(1::rat) / 2 ^ 18 \<le> 1 / 2 ^ k" using k by (intro divide_left_mono power_increasing) auto
  then have h2: "(1::rat) / 2 ^ 19 \<le> (1 / 2 ^ k) / 2" by simp
  have pw: "(2::rat) powi (53 + - int k) = 2 ^ 53 / 2 ^ k"
    by (subst power_int_add) (simp_all add: power_int_minus_divide)
  have lt: "\<bar>x + e\<bar> < 2 powi (53 + - int k)" unfolding pw using cap e by (simp add: grid_cap_def)
  have err: "\<bar>round_fin (x + e) - (x + e)\<bar> \<le> (1 / 2 ^ k) / 2"
    using round_fin_error [OF lt] k by (simp add: power_int_minus_divide)
  define r where "r = round_fin (x + e)"
  have r: "r < y" using err e(3) h2 gap unfolding r_def [symmetric] by linarith
  define P h :: rat where "P = 2 ^ 53 / 2 ^ k" and "h = 1 / 2 ^ k / 2"
  have "(1::rat) \<le> 2 ^ k" by simp
  then have "(1::rat) \<le> 2 * 2 ^ k" by linarith
  then have "h \<le> 1" unfolding h_def by (simp add: field_simps)
  moreover have "P \<le> 2 ^ 53"
  proof -
    have "(2::rat) ^ 53 / 2 ^ k \<le> 2 ^ 53 / 1" by (rule divide_left_mono) auto
    then show ?thesis by (simp add: P_def)
  qed
  moreover have "\<bar>x + e\<bar> < P" "\<bar>r - (x + e)\<bar> \<le> h"
    using lt err by (simp_all only: pw P_def h_def r_def)
  ultimately have "\<bar>r\<bar> \<le> 2 ^ 53 + 1" by linarith
  moreover have "(2::rat) ^ 53 + 1 < 2 ^ 1024"
  proof -
    have "(2::rat) ^ 53 + 1 < 2 ^ 54" by simp
    also have "(2::rat) ^ 54 \<le> 2 ^ 1024" by (rule power_increasing) auto
    finally show ?thesis .
  qed
  ultimately have "round_double (x + e) = DFin r" by (simp add: round_double_def r_def [symmetric])
  then have "dval (dadd a EPS) = Some r \<or> (a = DNegZero \<and> dval (dadd a EPS) = Some e)"
    using x(1) by (cases a) (auto simp: dadd_def e(1))
  moreover have "e < y" if "x = 0"
  proof -
    define g :: rat where "g = 1 / 2 ^ k"
    have "0 < g" by (simp add: g_def)
    moreover have "x + g \<le> y" "e < g / 2" using gap h2 e(3) by (simp_all only: g_def)
    ultimately show ?thesis using that by linarith
  qed
  ultimately show False using pass y(1) r x(1) dlt_val by fastforce
qed

section \<open>Rounding is symmetric\<close>

lemma round_half_even_minus: "round_half_even (- x) = - round_half_even x"
proof (cases "x \<in> \<int>")
  case True
  then obtain n where "x = of_int n" by (auto elim: Ints_cases)
  then show ?thesis using round_half_even_of_int [of n] round_half_even_of_int [of "- n"] by simp
next
  case False
  have "x \<noteq> of_int \<lfloor>x\<rfloor>" using False by (metis Ints_of_int)
  then have f: "\<lfloor>- x\<rfloor> = - \<lfloor>x\<rfloor> - 1"
    using floor_minus [of x] ceiling_altdef [of x] by simp
  show ?thesis unfolding round_half_even_def Let_def f by auto
qed

lemma round_fin_minus: "round_fin (- q) = - round_fin q"
  by (simp add: round_fin_def ulp_exp_def Let_def round_half_even_minus)

definition representable :: "double \<Rightarrow> bool" where
  "representable d \<longleftrightarrow> (case d of DFin q \<Rightarrow> round_double q = DFin q | _ \<Rightarrow> True)"

lemma round_half_even_pos: "1 \<le> x \<Longrightarrow> 1 \<le> round_half_even x"
  by (simp add: round_half_even_def Let_def)

lemma representable_min:
  assumes "representable (DFin q)" and "0 < q"
  shows "2 powi (- 1074) \<le> q"
proof -
  define u :: rat where "u = 2 powi (ulp_exp q)"
  have u: "0 < u" unfolding u_def by (rule zero_less_power_int) simp
  have "round_fin q = q" using assms(1) by (auto simp: representable_def round_double_def Let_def split: if_splits)
  then have q: "of_int (round_half_even (q / u)) * u = q" using assms(2) by (simp add: round_fin_def u_def Let_def)
  then have "0 < round_half_even (q / u)" using assms(2) u by (metis mult_le_0_iff not_le of_int_0_less_iff of_int_le_0_iff order_less_imp_le)
  then have "(1::rat) \<le> of_int (round_half_even (q / u))" by simp
  then have "u \<le> q" using u q by (metis mult_le_cancel_right1 not_less_iff_gr_or_eq)
  moreover have "(2::rat) powi (- 1074) \<le> u" unfolding u_def by (rule power_int_increasing) (simp_all add: ulp_exp_def)
  ultimately show ?thesis by linarith
qed

lemma round_fin_pos:
  assumes "2 powi (- 1074) \<le> q"
  shows "0 < round_fin q"
proof -
  define u :: rat where "u = 2 powi (ulp_exp q)"
  have u: "0 < u" unfolding u_def by (rule zero_less_power_int) simp
  have q0: "0 < q" using assms zero_less_power_int [of "2::rat" "- 1074"] by linarith
  have "u \<le> q"
  proof (cases "ulp_exp q = - 1074")
    case True
    then show ?thesis using assms by (simp add: u_def)
  next
    case False
    then have "ulp_exp q \<le> ilog2 q" using q0 by (simp add: ulp_exp_def max_def split: if_splits)
    then have "u \<le> 2 powi (ilog2 q)" unfolding u_def by (intro power_int_increasing) auto
    also have "\<dots> \<le> q" by (rule ilog2_le [OF q0])
    finally show ?thesis .
  qed
  then have "1 \<le> q / u" using u by simp
  then have "1 \<le> round_half_even (q / u)" by (rule round_half_even_pos)
  then have "(0::rat) < of_int (round_half_even (q / u)) * u" using u by simp
  then show ?thesis using q0 by (simp add: round_fin_def u_def Let_def)
qed

text \<open>\<open>- a - f\<close> is \<open>- (a + f)\<close> for a positive amount and a fee that is not negative.\<close>

lemma dneg_sum:
  assumes "\<not> dle a (DFin 0)" and "\<not> dlt f (DFin 0)" and "representable a"
  shows "dsub (dneg a) f = dneg (dadd a f)"
proof (cases "\<exists>p q. a = DFin p \<and> f = DFin q \<and> q \<noteq> 0")
  case True
  then obtain p q where p: "a = DFin p" and q: "f = DFin q" "q \<noteq> 0" by blast
  have pos: "0 < p" "0 < q" using assms(1,2) p q by auto
  have "2 powi (- 1074) \<le> p + q" using representable_min [of p] assms(3) p pos by simp
  then have "0 < round_fin (p + q)" by (rule round_fin_pos)
  moreover have "round_fin (- p + - q) = - round_fin (p + q)" using round_fin_minus [of "p + q"] by simp
  ultimately have "round_double (- p + - q) = dneg (round_double (p + q))"
    by (simp add: round_double_def Let_def del: add_uminus_conv_diff)
  then show ?thesis using pos by (simp add: p q dsub_def dadd_fin)
next
  case False
  have "a = DFin p \<Longrightarrow> round_double p = DFin p \<and> round_double (- p) = DFin (- p) \<and> 0 < p" for p
    using assms(1,3) by (auto simp: representable_def round_double_def Let_def round_fin_minus split: if_splits)
  then show ?thesis using assms(1,2) False by (cases a; cases f) (auto simp: dsub_def dadd_def dle_def dlt_def)
qed

end
