(* ===== verification/NetworkConfig.thy ===== *)
theory NetworkConfig
  imports Prelude
begin

text \<open>
  \<open>src/src/networkconfig.h\<close>: the node's configuration file \<open>safire.conf\<close>. The record is
  the class, \<open>load_config\<close> folds the lines of the file over the defaults as \<open>load\<close> does,
  \<open>save_config\<close> is the text \<open>save\<close> writes. The round trip shows that a configuration the
  node writes is the configuration it reads back.
\<close>

section \<open>The configuration and its text\<close>

record network_config =
  nc_network :: string
  genesisBlock :: int
  genesisHash :: string
  defaultPeer :: string
  publicPeerUrl :: string
  storageProfile :: string
  recoveryPublicKey :: string
  strictGenesis :: bool
  enableNatTraversal :: bool
  enableBlockCreation :: bool
  hasBlockCreationSetting :: bool

definition default_config :: network_config where
  "default_config =
     \<lparr>nc_network = ''main'', genesisBlock = -1, genesisHash = [], defaultPeer = [],
      publicPeerUrl = [], storageProfile = ''desktop'', recoveryPublicKey = [],
      strictGenesis = True, enableNatTraversal = False, enableBlockCreation = True,
      hasBlockCreationSetting = False\<rparr>"

definition hasExpectedGenesis :: "network_config \<Rightarrow> bool" where
  "hasExpectedGenesis c \<longleftrightarrow> strictGenesis c \<and> 0 < genesisBlock c \<and> 0 < slen (genesisHash c)"

definition genesisMatches :: "network_config \<Rightarrow> int \<Rightarrow> string \<Rightarrow> bool" where
  "genesisMatches c blockNumber blockHash =
     (if hasExpectedGenesis c = False then True
      else genesisBlock c = blockNumber \<and> genesisHash c = blockHash)"

definition is_trim_char :: "char \<Rightarrow> bool" where
  "is_trim_char c \<longleftrightarrow> c = CHR '' '' \<or> c = CHR 0x09 \<or> c = CHR 0x0D \<or> c = CHR 0x0A"

definition trim :: "string \<Rightarrow> string" where
  "trim v = rev (dropWhile is_trim_char (rev (dropWhile is_trim_char v)))"

definition lower_ascii :: "char \<Rightarrow> char" where
  "lower_ascii c = (if CHR ''A'' \<le> c \<and> c \<le> CHR ''Z'' then char_of (nat (code c) - 65 + 97) else c)"

definition normalizeStorageProfile :: "string \<Rightarrow> string" where
  "normalizeStorageProfile value =
     (let normalized = map lower_ascii (trim value)
      in if normalized = ''server'' \<or> normalized = ''full'' then ''server''
         else if normalized = ''mobile'' \<or> normalized = ''phone'' then ''mobile''
         else ''desktop'')"

definition normalizedStorageProfile :: "network_config \<Rightarrow> string" where
  "normalizedStorageProfile c = normalizeStorageProfile (storageProfile c)"

definition carryForwardPeriodBlocks :: "network_config \<Rightarrow> int" where
  "carryForwardPeriodBlocks c = 30 * 24 * 60 * 4"

definition carryForwardCheckpointAgeBlocks :: "network_config \<Rightarrow> int" where
  "carryForwardCheckpointAgeBlocks c = carryForwardPeriodBlocks c"

definition pruneHorizonBlocks :: "network_config \<Rightarrow> int" where
  "pruneHorizonBlocks c =
     (let profile = normalizedStorageProfile c
      in if profile = ''server'' then 0
         else if profile = ''mobile'' then 90 * 24 * 60 * 4
         else 365 * 24 * 60 * 4)"

definition prunesOldBlocks :: "network_config \<Rightarrow> bool" where
  "prunesOldBlocks c \<longleftrightarrow> 0 < pruneHorizonBlocks c"

text \<open>\<open>std::getline\<close> over the file: the lines without their newline.\<close>

abbreviation NL :: char where "NL \<equiv> CHR 0x0A"

fun getlines :: "string \<Rightarrow> string \<Rightarrow> string list" where
  "getlines cur [] = (if cur = [] then [] else [cur])"
| "getlines cur (c # cs) = (if c = NL then cur # getlines [] cs else getlines (cur @ [c]) cs)"

definition config_set :: "string \<Rightarrow> string \<Rightarrow> network_config \<Rightarrow> network_config" where
  "config_set key value c =
     (if key = ''network'' then c\<lparr>nc_network := value\<rparr>
      else if key = ''genesis_block'' then c\<lparr>genesisBlock := atol value\<rparr>
      else if key = ''genesis_hash'' then c\<lparr>genesisHash := value\<rparr>
      else if key = ''default_peer'' then c\<lparr>defaultPeer := value\<rparr>
      else if key = ''public_peer_url'' \<or> key = ''advertised_peer'' then c\<lparr>publicPeerUrl := value\<rparr>
      else if key = ''storage_profile'' \<or> key = ''storage''
        then c\<lparr>storageProfile := normalizeStorageProfile value\<rparr>
      else if key = ''recovery_public_key'' \<or> key = ''genesis_public_key'' \<or> key = ''recovery_key''
        then c\<lparr>recoveryPublicKey := value\<rparr>
      else if key = ''strict_genesis''
        then c\<lparr>strictGenesis := value \<noteq> ''0'' \<and> value \<noteq> ''false'' \<and> value \<noteq> ''no''\<rparr>
      else if key = ''enable_nat'' \<or> key = ''enable_nat_traversal''
        then c\<lparr>enableNatTraversal := value = ''1'' \<or> value = ''true'' \<or> value = ''yes''\<rparr>
      else if key = ''creator_mode'' \<or> key = ''enable_block_creation'' \<or> key = ''block_creator_mode''
        then c\<lparr>enableBlockCreation := value = ''1'' \<or> value = ''true'' \<or> value = ''yes'' \<or> value = ''on'',
               hasBlockCreationSetting := True\<rparr>
      else c)"

definition config_line :: "network_config \<Rightarrow> string \<Rightarrow> network_config" where
  "config_line c line =
     (let separator = (case find_sub ''='' line of None \<Rightarrow> find_sub '':'' line | Some i \<Rightarrow> Some i)
      in case separator of
           None \<Rightarrow> c
         | Some i \<Rightarrow> config_set (trim (take i line)) (trim (drop (i + 1) line)) c)"

definition load_config :: "string \<Rightarrow> network_config" where
  "load_config content = foldl config_line default_config (getlines [] content)"

definition bit_text :: "bool \<Rightarrow> string" where
  "bit_text b = (if b then ''1'' else ''0'')"

definition save_config :: "network_config \<Rightarrow> string" where
  "save_config c =
     ''network='' @ nc_network c @ [NL] @
     ''genesis_block='' @ show_long (genesisBlock c) @ [NL] @
     ''genesis_hash='' @ genesisHash c @ [NL] @
     ''default_peer='' @ defaultPeer c @ [NL] @
     ''public_peer_url='' @ publicPeerUrl c @ [NL] @
     ''storage_profile='' @ normalizeStorageProfile (storageProfile c) @ [NL] @
     ''recovery_public_key='' @ recoveryPublicKey c @ [NL] @
     ''strict_genesis='' @ bit_text (strictGenesis c) @ [NL] @
     ''enable_nat='' @ bit_text (enableNatTraversal c) @ [NL] @
     ''creator_mode='' @ bit_text (enableBlockCreation c) @ [NL]"

section \<open>Reading back what was written\<close>

text \<open>A value that survives a line of the file: no newline, no blanks at its ends.\<close>

definition line_value :: "string \<Rightarrow> bool" where
  "line_value v \<longleftrightarrow> NL \<notin> set v \<and> trim v = v"

lemma getlines_line: "NL \<notin> set l \<Longrightarrow> getlines cur (l @ NL # rest) = (cur @ l) # getlines [] rest"
  by (induction l arbitrary: cur) auto

lemma find_eq_key: "CHR ''='' \<notin> set k \<Longrightarrow> find_sub ''='' (k @ CHR ''='' # v) = Some (length k)"
  using find_sub_skip [of "CHR ''=''" k "[]" v] by simp

lemma config_line_key:
  assumes "CHR ''='' \<notin> set k" and "trim k = k" and "line_value v"
  shows "config_line c (k @ CHR ''='' # v) = config_set k v c"
  using assms by (simp add: config_line_def find_eq_key line_value_def)

lemma foldl_getlines_line:
  assumes "CHR ''='' \<notin> set k" and "trim k = k" and "NL \<notin> set k" and "line_value v"
  shows "foldl config_line c (getlines [] (k @ CHR ''='' # v @ NL # rest)) =
    foldl config_line (config_set k v c) (getlines [] rest)"
proof -
  have "getlines [] ((k @ CHR ''='' # v) @ NL # rest) = (k @ CHR ''='' # v) # getlines [] rest"
    using assms by (subst getlines_line) (auto simp: line_value_def)
  then show ?thesis using config_line_key [OF assms(1,2,4)] by simp
qed

lemma trim_no_blank: "\<forall>c \<in> set v. \<not> is_trim_char c \<Longrightarrow> trim v = v"
  by (simp add: trim_def dropWhile_eq_self_iff) (metis hd_in_set rev_rev_ident set_rev dropWhile_eq_self_iff)

lemma line_value_no_blank: "\<forall>c \<in> set v. \<not> is_trim_char c \<Longrightarrow> line_value v"
  by (auto simp: line_value_def trim_no_blank is_trim_char_def)

lemma line_value_show_long [simp]: "line_value (show_long n)"
proof (rule line_value_no_blank, rule ballI)
  fix c
  assume "c \<in> set (show_long n)"
  then have "c_isdigit c \<or> c = CHR ''-''" by (rule show_long_chars)
  then show "\<not> is_trim_char c" by (auto simp: is_trim_char_def c_isdigit_def code_def)
qed

lemma line_value_bit_text [simp]: "line_value (bit_text b)"
  by (rule line_value_no_blank) (simp add: bit_text_def is_trim_char_def)

lemma normalizeStorageProfile_cases:
  "normalizeStorageProfile v \<in> {''server'', ''mobile'', ''desktop''}"
  by (simp add: normalizeStorageProfile_def Let_def)

lemma line_value_profile [simp]: "line_value (normalizeStorageProfile v)"
  using normalizeStorageProfile_cases [of v]
  by (auto intro!: line_value_no_blank simp: is_trim_char_def)

lemma normalizeStorageProfile_idem [simp]:
  "normalizeStorageProfile (normalizeStorageProfile v) = normalizeStorageProfile v"
proof -
  have "normalizeStorageProfile p = p" if "p \<in> {''server'', ''mobile'', ''desktop''}" for p
    using that by (auto simp: normalizeStorageProfile_def trim_def is_trim_char_def lower_ascii_def)
  then show ?thesis using normalizeStorageProfile_cases by blast
qed

definition config_saved :: "network_config \<Rightarrow> network_config" where
  "config_saved c = c\<lparr>storageProfile := normalizedStorageProfile c, hasBlockCreationSetting := True\<rparr>"

definition config_printable :: "network_config \<Rightarrow> bool" where
  "config_printable c \<longleftrightarrow>
     line_value (nc_network c) \<and> line_value (genesisHash c) \<and> line_value (defaultPeer c) \<and>
     line_value (publicPeerUrl c) \<and> line_value (recoveryPublicKey c) \<and> in_long (genesisBlock c)"

definition conf_text :: "(string \<times> string) list \<Rightarrow> string" where
  "conf_text kvs = concat (map (\<lambda>(k, v). k @ CHR ''='' # v @ [NL]) kvs)"

definition config_entries :: "network_config \<Rightarrow> (string \<times> string) list" where
  "config_entries c =
     [(''network'', nc_network c), (''genesis_block'', show_long (genesisBlock c)),
      (''genesis_hash'', genesisHash c), (''default_peer'', defaultPeer c),
      (''public_peer_url'', publicPeerUrl c),
      (''storage_profile'', normalizeStorageProfile (storageProfile c)),
      (''recovery_public_key'', recoveryPublicKey c),
      (''strict_genesis'', bit_text (strictGenesis c)),
      (''enable_nat'', bit_text (enableNatTraversal c)),
      (''creator_mode'', bit_text (enableBlockCreation c))]"

lemma save_config_entries: "save_config c = conf_text (config_entries c)"
  by (simp add: save_config_def conf_text_def config_entries_def)

definition conf_key :: "string \<Rightarrow> bool" where
  "conf_key k \<longleftrightarrow> CHR ''='' \<notin> set k \<and> NL \<notin> set k \<and> trim k = k"

lemma foldl_conf_text:
  assumes "\<forall>(k, v) \<in> set kvs. conf_key k \<and> line_value v"
  shows "foldl config_line c (getlines [] (conf_text kvs)) =
    foldl (\<lambda>c (k, v). config_set k v c) c kvs"
  using assms
  by (induction kvs arbitrary: c) (auto simp: conf_text_def conf_key_def foldl_getlines_line)

lemma trim_keys:
  "trim ''network'' = ''network''" "trim ''genesis_block'' = ''genesis_block''"
  "trim ''genesis_hash'' = ''genesis_hash''" "trim ''default_peer'' = ''default_peer''"
  "trim ''public_peer_url'' = ''public_peer_url''" "trim ''storage_profile'' = ''storage_profile''"
  "trim ''recovery_public_key'' = ''recovery_public_key''" "trim ''strict_genesis'' = ''strict_genesis''"
  "trim ''enable_nat'' = ''enable_nat''" "trim ''creator_mode'' = ''creator_mode''"
  by (simp_all add: trim_def is_trim_char_def)

text \<open>
  A configuration written by \<open>save\<close> is read back by \<open>load\<close> as it was, up to the
  normalisation of the storage profile and the record that the creator mode was set.
\<close>

theorem config_roundtrip:
  assumes "config_printable c"
  shows "load_config (save_config c) = config_saved c"
proof -
  have "\<forall>(k, v) \<in> set (config_entries c). conf_key k \<and> line_value v"
    using assms by (simp add: config_entries_def conf_key_def trim_keys config_printable_def)
  then have "load_config (save_config c) =
      foldl (\<lambda>c (k, v). config_set k v c) default_config (config_entries c)"
    by (simp only: load_config_def save_config_entries foldl_conf_text)
  also have "\<dots> = config_saved c"
    using assms
    by (simp add: config_entries_def config_set_def config_printable_def atol_show_long
        default_config_def config_saved_def normalizedStorageProfile_def bit_text_def)
  finally show ?thesis .
qed

theorem config_roundtrip_witness:
  "load_config (save_config (default_config\<lparr>genesisBlock := 7\<rparr>)) =
    config_saved (default_config\<lparr>genesisBlock := 7\<rparr>)"
proof -
  have "config_printable (default_config\<lparr>genesisBlock := 7\<rparr>)"
    by (simp add: config_printable_def default_config_def line_value_def trim_def is_trim_char_def
        in_long_def LONG_MAX_def LONG_MIN_def)
  then show ?thesis by (rule config_roundtrip)
qed

end
