(* ===== verification/Records.thy ===== *)
theory Records
  imports Binary64 NetworkConfig
begin

text \<open>
  The data of the chain: \<open>CFunctions::record_structure\<close> and \<open>block_structure\<close> of
  \<open>src/src/functions/functions.h\<close>, their JSON text, their size limits, their hashes and the
  Merkle root of \<open>src/src/functions/functions.cpp\<close>, and the signature check of
  \<open>src/src/ecdsacrypto.cpp\<close>.

  What the node takes from outside its own sources is the record \<open>env\<close>, an argument of
  every definition that uses it: OpenSSL's SHA-256 and its ECDSA verification,
  \<open>boost::lexical_cast\<close> on doubles, the system clock and the offset learnt from peers, the
  text of \<open>safire.conf\<close>, and the value an enumeration variable has when the code leaves it
  uninitialised. Members the sources never read (\<open>internal_validated\<close>, \<open>file_index\<close>,
  \<open>block_records\<close>) are left out.
\<close>

section \<open>The environment\<close>

datatype transaction_type =
    JOIN_NETWORK | ISSUE_CURRENCY | TRANSFER_CURRENCY | CARRY_FORWARD | PERIOD_SUMMARY
  | VOTE | HEART_BEAT | UPDATE_NAME | OTHER_TYPE int

record env =
  e_sha256 :: "string \<Rightarrow> nat list" \<comment> \<open>the digest bytes of OpenSSL's \<open>SHA256_*\<close>\<close>
  e_ecdsa :: "string \<Rightarrow> string \<Rightarrow> string \<Rightarrow> string \<Rightarrow> bool" \<comment> \<open>digest, r, s, key: \<open>ECDSA_do_verify\<close>\<close>
  e_lexical :: "double \<Rightarrow> string" \<comment> \<open>\<open>boost::lexical_cast<std::string> (double)\<close>\<close>
  e_local_epoch :: int \<comment> \<open>\<open>time (0)\<close>\<close>
  e_time_offset :: int \<comment> \<open>\<open>networkTimeOffset\<close>\<close>
  e_conf :: string \<comment> \<open>the text of \<open>safire.conf\<close>\<close>
  e_lexical_long :: "string \<Rightarrow> int option" \<comment> \<open>\<open>boost::lexical_cast<long>\<close>; \<open>None\<close> is \<open>bad_lexical_cast\<close>\<close>
  e_uninit_type :: transaction_type \<comment> \<open>an uninitialised \<open>transaction_types\<close> variable\<close>

definition getEpoch :: "env \<Rightarrow> int" where
  "getEpoch E = e_local_epoch E + e_time_offset E"

text \<open>C++ division truncates towards zero.\<close>

definition cdiv :: "int \<Rightarrow> int \<Rightarrow> int" where
  "cdiv a b = sgn a * sgn b * (\<bar>a\<bar> div \<bar>b\<bar>)"

lemma cdiv_nonneg: "0 \<le> a \<Longrightarrow> 0 < b \<Longrightarrow> cdiv a b = a div b"
  by (cases "a = 0") (auto simp: cdiv_def sgn_if)

definition getCurrentTimeBlock :: "env \<Rightarrow> int" where
  "getCurrentTimeBlock E = cdiv (getEpoch E) 15"

definition env_config :: "env \<Rightarrow> network_config" where
  "env_config E = load_config (e_conf E)"

section \<open>Records and blocks\<close>

record record_structure =
  r_network :: string
  r_time :: string
  r_type :: transaction_type
  r_nonce :: int
  r_amount :: double
  r_fee :: double
  r_sender :: string
  r_recipient :: string
  r_hash :: string
  r_signature :: string
  r_name :: string
  r_value :: string

record block_structure =
  b_network :: string
  b_number :: int
  b_time :: string
  b_previous_id :: int
  b_previous_hash :: string
  b_merkle_root :: string
  b_creator :: string
  b_hash :: string
  b_signature :: string
  b_records :: "record_structure list"

text \<open>A block that was default-constructed and then had its \<open>number\<close> set to \<open>-1\<close>.\<close>

definition no_block :: block_structure where
  "no_block =
     \<lparr>b_network = [], b_number = -1, b_time = [], b_previous_id = 0, b_previous_hash = [],
      b_merkle_root = [], b_creator = [], b_hash = [], b_signature = [], b_records = []\<rparr>"

definition HEARTBEAT_VALID_BLOCKS :: int where "HEARTBEAT_VALID_BLOCKS = 5760"
definition HEARTBEAT_RENEW_BLOCKS :: int where "HEARTBEAT_RENEW_BLOCKS = 5520"
definition CARRY_FORWARD_REWARD :: double where "CARRY_FORWARD_REWARD = DFin 1"
definition MAX_RECORD_NAME_BYTES :: int where "MAX_RECORD_NAME_BYTES = 64"
definition MAX_RECORD_VALUE_BYTES :: int where "MAX_RECORD_VALUE_BYTES = 256"
definition MAX_RECORD_NETWORK_BYTES :: int where "MAX_RECORD_NETWORK_BYTES = 32"
definition MAX_RECORD_TIME_BYTES :: int where "MAX_RECORD_TIME_BYTES = 32"
definition MAX_RECORD_KEY_BYTES :: int where "MAX_RECORD_KEY_BYTES = 256"
definition MAX_RECORD_HASH_BYTES :: int where "MAX_RECORD_HASH_BYTES = 128"
definition MAX_RECORD_SIGNATURE_BYTES :: int where "MAX_RECORD_SIGNATURE_BYTES = 512"
definition MAX_RECORD_JSON_BYTES :: int where "MAX_RECORD_JSON_BYTES = 2048"
definition MAX_BLOCK_RECORDS :: int where "MAX_BLOCK_RECORDS = 1000"
definition MAX_BLOCK_JSON_BYTES :: int where "MAX_BLOCK_JSON_BYTES = 131072"

fun type_number :: "transaction_type \<Rightarrow> int" where
  "type_number JOIN_NETWORK = 0"
| "type_number ISSUE_CURRENCY = 1"
| "type_number TRANSFER_CURRENCY = 2"
| "type_number CARRY_FORWARD = 3"
| "type_number PERIOD_SUMMARY = 4"
| "type_number VOTE = 5"
| "type_number HEART_BEAT = 6"
| "type_number UPDATE_NAME = 7"
| "type_number (OTHER_TYPE n) = n"

section \<open>JSON text\<close>

abbreviation DQ :: char where "DQ \<equiv> CHR 0x22"

text \<open>\<open>"name":"value"\<close>, the shape of every member the code prints.\<close>

definition jfield :: "string \<Rightarrow> string \<Rightarrow> string" where
  "jfield name value = DQ # name @ [DQ, CHR '':'', DQ] @ value @ [DQ]"

definition record_fields :: "env \<Rightarrow> record_structure \<Rightarrow> string" where
  "record_fields E r =
     jfield ''network'' (r_network r) @ '','' @
     jfield ''time'' (r_time r) @ '','' @
     jfield ''name'' (r_name r) @ '','' @
     jfield ''typ'' (show_long (type_number (r_type r))) @ '','' @
     (if 0 < r_nonce r then jfield ''nonce'' (show_long (r_nonce r)) @ '','' else []) @
     jfield ''amt'' (e_lexical E (r_amount r)) @ '','' @
     jfield ''fee'' (e_lexical E (r_fee r)) @ '','' @
     jfield ''sndkey'' (r_sender r) @ '','' @
     jfield ''rcvkey'' (r_recipient r) @ '','' @
     jfield ''value'' (r_value r) @ '','' @
     jfield ''hash'' (r_hash r) @ '','' @
     jfield ''sig'' (r_signature r)"

definition recordJSON :: "env \<Rightarrow> record_structure \<Rightarrow> string" where
  "recordJSON E r = ''{'' @ [DQ] @ ''record'' @ [DQ] @ '':{ '' @ record_fields E r @ ''}}'' @ [NL]"

definition block_fields :: "block_structure \<Rightarrow> string" where
  "block_fields b =
     jfield ''creator_key'' (b_creator b) @ '','' @
     jfield ''network'' (b_network b) @ '','' @
     jfield ''number'' (show_long (b_number b)) @ '','' @
     jfield ''time'' (b_time b) @ '','' @
     jfield ''previous_block_id'' (show_long (b_previous_id b)) @ '','' @
     jfield ''previous_block_hash'' (b_previous_hash b) @ '','' @
     (if b_merkle_root b \<noteq> [] then jfield ''records_merkle_root'' (b_merkle_root b) @ '','' else []) @
     jfield ''hash'' (b_hash b) @ '','' @
     jfield ''signature'' (b_signature b) @ '',''"

definition blockJSON :: "env \<Rightarrow> block_structure \<Rightarrow> string" where
  "blockJSON E b =
     ''{'' @ [DQ] @ ''block'' @ [DQ] @ '':{'' @ block_fields b @
     [DQ] @ ''records'' @ [DQ] @ '':{'' @ [NL] @
     concat (map (recordJSON E) (b_records b)) @ ''}}}'' @ [NL]"

section \<open>Size limits\<close>

definition recordSizeError :: "env \<Rightarrow> record_structure \<Rightarrow> string" where
  "recordSizeError E r =
     (if MAX_RECORD_NETWORK_BYTES < slen (r_network r) then ''network field is too long''
      else if MAX_RECORD_TIME_BYTES < slen (r_time r) then ''time field is too long''
      else if MAX_RECORD_NAME_BYTES < slen (r_name r) then ''name field is too long''
      else if MAX_RECORD_VALUE_BYTES < slen (r_value r) then ''value field is too long''
      else if MAX_RECORD_KEY_BYTES < slen (r_sender r) then ''sender public key is too long''
      else if MAX_RECORD_KEY_BYTES < slen (r_recipient r) then ''recipient public key is too long''
      else if MAX_RECORD_HASH_BYTES < slen (r_hash r) then ''hash field is too long''
      else if MAX_RECORD_SIGNATURE_BYTES < slen (r_signature r) then ''signature field is too long''
      else if MAX_RECORD_JSON_BYTES < slen (recordJSON E r) then ''serialized record is too large''
      else [])"

definition isRecordSizeValid :: "env \<Rightarrow> record_structure \<Rightarrow> bool" where
  "isRecordSizeValid E r \<longleftrightarrow> recordSizeError E r = []"

section \<open>Hashes and signatures\<close>

text \<open>\<open>sha256\<close>: the C string up to its NUL, hashed by OpenSSL and printed with \<open>%02x\<close>.\<close>

definition hex_digit :: "nat \<Rightarrow> char" where
  "hex_digit n = (if n < 10 then char_of (48 + n) else char_of (87 + n))"

definition hex_byte :: "nat \<Rightarrow> string" where
  "hex_byte n = [hex_digit (n div 16 mod 16), hex_digit (n mod 16)]"

definition sha256 :: "env \<Rightarrow> string \<Rightarrow> string" where
  "sha256 E s = concat (map hex_byte (take 32 (e_sha256 E (c_str s))))"

text \<open>
  \<open>VerifyMessageCompressed\<close>: lengths first, then OpenSSL on the first 32 characters of the
  hexadecimal digest followed by a NUL, and the two halves of the signature.
\<close>

definition VerifyMessageCompressed :: "env \<Rightarrow> string \<Rightarrow> string \<Rightarrow> string \<Rightarrow> int" where
  "VerifyMessageCompressed E message signature publicKey =
     (if slen signature \<noteq> 128 then 0
      else if slen publicKey < 66 then 0
      else if e_ecdsa E (take 32 (sha256 E message) @ [CHR 0x00]) (take 64 signature)
                (take 64 (drop 64 signature)) publicKey then 1 else 0)"

definition getRecordHash :: "env \<Rightarrow> record_structure \<Rightarrow> string" where
  "getRecordHash E r =
     sha256 E (r_network r @ r_time r @ show_long (type_number (r_type r)) @
       (if 0 < r_nonce r then show_long (r_nonce r) else []) @
       e_lexical E (r_amount r) @ e_lexical E (r_fee r) @
       r_sender r @ r_recipient r @ r_name r @ r_value r)"

definition block_header_text :: "block_structure \<Rightarrow> string" where
  "block_header_text b =
     b_network b @ show_long (b_number b) @ b_time b @ b_previous_hash b @ b_creator b @ b_merkle_root b"

definition record_hash_or_computed :: "env \<Rightarrow> record_structure \<Rightarrow> string" where
  "record_hash_or_computed E r = (if r_hash r = [] then getRecordHash E r else r_hash r)"

definition getBlockHash :: "env \<Rightarrow> block_structure \<Rightarrow> string" where
  "getBlockHash E b =
     sha256 E (if b_merkle_root b = []
               then foldl (\<lambda>content r. content @ record_hash_or_computed E r)
                      (block_header_text b) (b_records b)
               else block_header_text b)"

text \<open>One level of the tree: neighbours are hashed together, an odd one with itself.\<close>

fun merkle_level :: "env \<Rightarrow> string list \<Rightarrow> string list" where
  "merkle_level E [] = []"
| "merkle_level E [x] = [sha256 E (x @ x)]"
| "merkle_level E (x # y # xs) = sha256 E (x @ y) # merkle_level E xs"

lemma length_merkle_level: "length (merkle_level E xs) = (length xs + 1) div 2"
  by (induction E xs rule: merkle_level.induct) auto

function merkle_reduce :: "env \<Rightarrow> string list \<Rightarrow> string list" where
  "merkle_reduce E level = (if 1 < length level then merkle_reduce E (merkle_level E level) else level)"
  by pat_completeness auto
termination
  by (relation "measure (\<lambda>(E, level). length level)") (auto simp: length_merkle_level)

declare merkle_reduce.simps [simp del]

definition getRecordsMerkleRoot :: "env \<Rightarrow> record_structure list \<Rightarrow> string" where
  "getRecordsMerkleRoot E records =
     (let level = map (record_hash_or_computed E) records
      in if level = [] then sha256 E [] else hd (merkle_reduce E level))"

section \<open>Facts about the hashes\<close>

lemma length_merkle_reduce: "level \<noteq> [] \<Longrightarrow> length (merkle_reduce E level) = 1"
proof (induction E level rule: merkle_reduce.induct)
  case (1 E level)
  show ?case
  proof (cases "1 < length level")
    case True
    then have "merkle_level E level \<noteq> []" using length_merkle_level [of E level] by auto
    with True "1.IH" show ?thesis by (subst merkle_reduce.simps) simp
  next
    case False
    with "1.prems" show ?thesis by (subst merkle_reduce.simps) (cases level, auto)
  qed
qed

lemma getBlockHash_merkle:
  "b_merkle_root b \<noteq> [] \<Longrightarrow> getBlockHash E (b\<lparr>b_records := rs\<rparr>) = getBlockHash E b"
  by (simp add: getBlockHash_def block_header_text_def)

lemma hex_digit_not: "n < 16 \<Longrightarrow> hex_digit n \<noteq> DQ \<and> hex_digit n \<noteq> CHR ''{'' \<and> hex_digit n \<noteq> CHR ''}'' \<and> hex_digit n \<noteq> CHR 0x00"
proof -
  have *: "\<forall>n \<in> set [0..<16]. hex_digit n \<noteq> DQ \<and> hex_digit n \<noteq> CHR ''{'' \<and> hex_digit n \<noteq> CHR ''}'' \<and> hex_digit n \<noteq> CHR 0x00"
    by code_simp
  assume "n < 16"
  then show ?thesis using * by (auto simp del: upt_rec_numeral)
qed

lemma sha256_chars: "c \<in> set (sha256 E s) \<Longrightarrow> c \<noteq> DQ \<and> c \<noteq> CHR ''{'' \<and> c \<noteq> CHR ''}'' \<and> c \<noteq> CHR 0x00"
  by (auto simp: sha256_def hex_byte_def intro!: hex_digit_not [THEN conjunct1]
      dest: hex_digit_not [THEN conjunct2] simp: hex_digit_not)

lemma length_sha256: "length (e_sha256 E (c_str s)) = 32 \<Longrightarrow> length (sha256 E s) = 64"
proof -
  have "length (concat (map hex_byte xs)) = 2 * length xs" for xs
    by (induction xs) (auto simp: hex_byte_def)
  moreover assume "length (e_sha256 E (c_str s)) = 32"
  ultimately show ?thesis by (simp add: sha256_def)
qed

lemma VerifyMessageCompressed_range: "VerifyMessageCompressed E m s k \<in> {0, 1}"
  by (simp add: VerifyMessageCompressed_def)

section \<open>A concrete environment\<close>

text \<open>
  An environment in which every digest is thirty-two zero bytes, every signature of the right
  length verifies and every double prints as \<open>0\<close>: enough to run the definitions on
  concrete inputs.
\<close>

definition demo_env :: env where
  "demo_env =
     \<lparr>e_sha256 = (\<lambda>s. replicate 32 0), e_ecdsa = (\<lambda>d r s k. True), e_lexical = (\<lambda>d. ''0''),
      e_local_epoch = 1500, e_time_offset = 0, e_conf = [], e_lexical_long = (\<lambda>s. None), e_uninit_type = OTHER_TYPE 99\<rparr>"

end
