(* ===== verification/JsonFormat.thy ===== *)
theory JsonFormat
  imports Records
begin

text \<open>
  The hand-written JSON reader of \<open>src/src/functions/functions.cpp\<close>: \<open>parseSectionString\<close> and
  its numeric variants, \<open>parseSectionBlock\<close>, \<open>parseRecordJson\<close> and \<open>parseBlockJson\<close>, with the
  C library's \<open>strtod\<close> under \<open>atof\<close>.

  The main result is the round trip from \<open>blockJSON\<close>, with its exact side condition:
  \<open>parseSectionBlock\<close> drops too little of its input after each record, so the record at
  position \<open>k\<close> is read once only if the text of its members is longer than \<open>13 * k\<close>.
\<close>

section \<open>atof\<close>

definition c_isxdigit :: "char \<Rightarrow> bool" where
  "c_isxdigit c \<longleftrightarrow> c_isdigit c \<or> 97 \<le> code (c_tolower c) \<and> code (c_tolower c) \<le> 102"

definition xdigit_val :: "char \<Rightarrow> int" where
  "xdigit_val c = (if c_isdigit c then code c - 48 else code (c_tolower c) - 87)"

text \<open>Mantissa digits before and after the point, then the rest.\<close>

definition split_mantissa :: "(char \<Rightarrow> bool) \<Rightarrow> string \<Rightarrow> string \<times> string \<times> string" where
  "split_mantissa P b =
     (let ip = takeWhile P b; r = dropWhile P b
      in case r of [] \<Rightarrow> (ip, [], r)
         | c # t \<Rightarrow> if c = CHR ''.'' then (ip, takeWhile P t, dropWhile P t) else (ip, [], r))"

definition exponent_part :: "char \<Rightarrow> string \<Rightarrow> int" where
  "exponent_part e r =
     (case r of [] \<Rightarrow> 0
      | c # t \<Rightarrow> if c_tolower c = e
          then let (neg, u) = split_sign t; ds = takeWhile c_isdigit u
               in if ds = [] then 0 else if neg then - digits_val ds else digits_val ds
          else 0)"

definition decimal_value :: "string \<Rightarrow> rat option" where
  "decimal_value b =
     (let (ip, fp, r) = split_mantissa c_isdigit b
      in if ip = [] \<and> fp = [] then None
         else Some (of_int (digits_val (ip @ fp)) *
                10 powi (exponent_part (CHR ''e'') r - int (length fp))))"

definition hex_value :: "string \<Rightarrow> rat option" where
  "hex_value b =
     (let (ip, fp, r) = split_mantissa c_isxdigit b
      in if ip = [] \<and> fp = [] then None
         else Some (of_int (foldl (\<lambda>a c. 16 * a + xdigit_val c) 0 (ip @ fp)) *
                2 powi (exponent_part (CHR ''p'') r - 4 * int (length fp))))"

definition atof :: "string \<Rightarrow> double" where
  "atof text =
     (let (neg, b) = split_sign (dropWhile c_isspace (c_str text));
          low = map c_tolower b;
          signed = (\<lambda>d. if neg then dneg d else d)
      in if starts_with low ''inf'' then DInf neg
         else if starts_with low ''nan'' then DNaN
         else if starts_with low ''0x'' \<and> hex_value (drop 2 b) \<noteq> None
           then signed (round_double (the (hex_value (drop 2 b))))
         else case decimal_value b of None \<Rightarrow> DFin 0 | Some q \<Rightarrow> signed (round_double q))"

section \<open>Sections\<close>

definition parseSectionString :: "string \<Rightarrow> string \<Rightarrow> string \<Rightarrow> string" where
  "parseSectionString content start end' =
     (case find_sub start content of
        None \<Rightarrow> []
      | Some start_i \<Rightarrow>
          (case find_str content end' (start_i + length start) of
             None \<Rightarrow> []
           | Some end_i \<Rightarrow> substr content (start_i + length start) (end_i - (start_i + length start))))"

definition parseSectionDouble :: "string \<Rightarrow> string \<Rightarrow> string \<Rightarrow> double" where
  "parseSectionDouble content start end' = atof (parseSectionString content start end')"

definition parseSectionLong :: "string \<Rightarrow> string \<Rightarrow> string \<Rightarrow> int" where
  "parseSectionLong content start end' = atol (parseSectionString content start end')"

definition parseSectionInt :: "string \<Rightarrow> string \<Rightarrow> string \<Rightarrow> int" where
  "parseSectionInt content start end' = atoi (parseSectionString content start end')"

text \<open>
  The loop that follows the braces: the offset of the character at which the depth is zero
  again, once a brace was opened. Reads past the end of the string do not change the depth,
  so the loop is over the characters that are there.
\<close>

fun block_end :: "string \<Rightarrow> int \<Rightarrow> bool \<Rightarrow> nat option" where
  "block_end [] d started = None"
| "block_end (c # cs) d started =
     (let started' = (started \<or> c = CHR ''{'');
          d' = (if c = CHR ''{'' then d + 1 else if c = CHR ''}'' then d - 1 else d)
      in if d' = 0 \<and> started' then Some 0 else map_option Suc (block_end cs d' started'))"

text \<open>
  \<open>parseSectionBlock\<close> returns the text between the braces and what it leaves in \<open>content\<close>:
  with \<open>i = start.length () + j\<close> the source keeps \<open>content.substr (i - start.length ())\<close>.
\<close>

definition parseSectionBlock :: "string \<Rightarrow> string \<Rightarrow> string \<times> string" where
  "parseSectionBlock content start =
     (case find_sub start content of
        None \<Rightarrow> ([], content)
      | Some start_i \<Rightarrow>
          (case block_end (drop (start_i + length start) content) 0 False of
             None \<Rightarrow> ([], content)
           | Some j \<Rightarrow> (substr content (start_i + length start + 1) (j - 1), drop j content)))"

definition jkey :: "string \<Rightarrow> string" where
  "jkey name = DQ # name @ [DQ, CHR '':'', DQ]"

definition parse_type :: "env \<Rightarrow> int \<Rightarrow> transaction_type" where
  "parse_type E n =
     (if n = 0 then JOIN_NETWORK else if n = 1 then ISSUE_CURRENCY
      else if n = 2 then TRANSFER_CURRENCY else if n = 3 then CARRY_FORWARD
      else if n = 4 then PERIOD_SUMMARY else if n = 5 then VOTE
      else if n = 6 then HEART_BEAT else if n = 7 then UPDATE_NAME else e_uninit_type E)"

definition parseRecordJson :: "env \<Rightarrow> string \<Rightarrow> record_structure" where
  "parseRecordJson E s =
     (let str = (\<lambda>name. parseSectionString s (jkey name) [DQ]);
          name = str ''name''
      in \<lparr>r_network = str ''network'', r_time = str ''time'',
          r_type = parse_type E (parseSectionInt s (jkey ''typ'') [DQ]),
          r_nonce = parseSectionLong s (jkey ''nonce'') [DQ],
          r_amount = parseSectionDouble s (jkey ''amt'') [DQ],
          r_fee = parseSectionDouble s (jkey ''fee'') [DQ],
          r_sender = str ''sndkey'', r_recipient = str ''rcvkey'',
          r_hash = str ''hash'', r_signature = str ''sig'',
          r_name = (if name = [] then str ''name:'' else name),
          r_value = str ''value''\<rparr>)"

definition RECORD_KEY :: string where
  "RECORD_KEY = DQ # ''record'' @ [DQ, CHR '':'']"

definition RECORDS_KEY :: string where
  "RECORDS_KEY = DQ # ''records'' @ [DQ, CHR '':'']"

lemma block_end_pos: "block_end s 0 False = Some j \<Longrightarrow> 0 < j"
  by (cases s) (auto simp: Let_def split: if_splits)

lemma parseSectionBlock_shorter:
  assumes "fst (parseSectionBlock content start) \<noteq> []"
  shows "length (snd (parseSectionBlock content start)) < length content"
  using assms
  by (auto simp: parseSectionBlock_def substr_def split: option.splits)

text \<open>The loop that reads the records of a block, one \<open>"record":\<close> section after the other.\<close>

function record_sections :: "string \<Rightarrow> string list" where
  "record_sections content =
     (let section = fst (parseSectionBlock content RECORD_KEY)
      in if section = [] then []
         else section # record_sections (snd (parseSectionBlock content RECORD_KEY)))"
  by pat_completeness auto
termination
  by (relation "measure length") (auto intro: parseSectionBlock_shorter)

declare record_sections.simps [simp del]

definition parse_block_section :: "env \<Rightarrow> string \<Rightarrow> block_structure" where
  "parse_block_section E s =
     (let str = (\<lambda>name. parseSectionString s (jkey name) [DQ]);
          records = map (parseRecordJson E) (record_sections (fst (parseSectionBlock s RECORDS_KEY)));
          prev = parseSectionLong s (jkey ''previous_block_id'') [DQ];
          time = str ''time'';
          network = str ''network''
      in \<lparr>b_network = (if records \<noteq> [] \<and> prev \<le> 0 \<and> network = [] then r_network (hd records) else network),
          b_number = parseSectionLong s (jkey ''number'') [DQ],
          b_time = (if records \<noteq> [] \<and> time = [] then r_time (hd records) else time),
          b_previous_id = prev,
          b_previous_hash = str ''previous_block_hash'',
          b_merkle_root = str ''records_merkle_root'',
          b_creator = str ''creator_key'',
          b_hash = str ''hash'',
          b_signature = str ''signature'',
          b_records = records\<rparr>)"

text \<open>The outermost objects of a text, as the outer loop of \<open>parseBlockJson\<close> finds them.\<close>

function json_objects :: "string \<Rightarrow> string list" where
  "json_objects s =
     (case find_sub ''{'' s of
        None \<Rightarrow> []
      | Some i \<Rightarrow>
          (case block_end (drop i s) 0 True of
             None \<Rightarrow> []
           | Some j \<Rightarrow> take (j + 1) (drop i s) # json_objects (drop (i + j + 1) s)))"
  by pat_completeness auto
termination
  by (relation "measure length") (auto dest: find_sub_bound)

declare json_objects.simps [simp del]

definition parseBlockJson :: "env \<Rightarrow> string \<Rightarrow> block_structure list" where
  "parseBlockJson E json =
     filter (\<lambda>b. 0 < b_number b \<and> b_hash b \<noteq> []) (map (parse_block_section E) (json_objects json))"

section \<open>Finding the members of an object\<close>

text \<open>\<open>skips p g t\<close>: a search for \<open>p\<close> in \<open>g @ t\<close> passes over \<open>g\<close>.\<close>

definition skips :: "string \<Rightarrow> string \<Rightarrow> string \<Rightarrow> bool" where
  "skips p g t \<longleftrightarrow> find_sub p (g @ t) = map_option ((+) (length g)) (find_sub p t)"

lemma skips_Nil [simp]: "skips p [] t"
  by (cases "find_sub p t") (auto simp: skips_def)

lemma skips_append: "skips p g (h @ t) \<Longrightarrow> skips p h t \<Longrightarrow> skips p (g @ h) t"
  by (cases "find_sub p t") (auto simp: skips_def)

lemma skips_char: "\<not> starts_with (c # t) p \<Longrightarrow> skips p [c] t"
  by (simp add: skips_def option.map_comp comp_def)
     (metis (no_types, lifting) One_nat_def option.map_cong plus_1_eq_Suc)

lemma skips_Cons: "\<not> starts_with (c # g @ t) p \<Longrightarrow> skips p g t \<Longrightarrow> skips p (c # g) t"
  using skips_append [of p "[c]" g t] skips_char [of c "g @ t" p] by simp

lemma skips_free: "c \<notin> set g \<Longrightarrow> skips (c # p) g t"
  by (induction g) (auto intro!: skips_Cons)

lemma skips_found: "skips p g (p @ t) \<Longrightarrow> find_sub p (g @ p @ t) = Some (length g)"
  by (simp add: skips_def)

lemma skips_None: "skips p g t \<Longrightarrow> find_sub p t = None \<Longrightarrow> find_sub p (g @ t) = None"
  by (simp add: skips_def)

lemma starts_with_sep:
  assumes "c \<notin> set k" and "c \<notin> set key"
  shows "starts_with (k @ c # t) (key @ c # p) \<longleftrightarrow> k = key \<and> starts_with t p"
  using assms
proof (induction k arbitrary: key)
  case Nil
  then show ?case by (cases key) auto
next
  case (Cons x k)
  then show ?case by (cases key) auto
qed

text \<open>
  A member name the readers ask for: not empty, free of quotes, and not beginning with a
  character that follows a closing quote.
\<close>

definition good_key :: "string \<Rightarrow> bool" where
  "good_key key \<longleftrightarrow> key \<noteq> [] \<and> DQ \<notin> set key \<and> hd key \<notin> set '':,}''"

definition after_field :: "string \<Rightarrow> bool" where
  "after_field t \<longleftrightarrow> t = [] \<or> hd t \<in> set '',}''"

lemma starts_with_hd_neq: "t \<noteq> [] \<Longrightarrow> p \<noteq> [] \<Longrightarrow> hd t \<noteq> hd p \<Longrightarrow> \<not> starts_with t p"
  by (cases t; cases p) auto

lemma jfield_skip:
  assumes key: "good_key key" and k: "DQ \<notin> set k" "k \<noteq> key" and v: "DQ \<notin> set v"
    and t: "after_field t"
  shows "skips (jkey key) (jfield k v) t"
proof -
  let ?p = "key @ [DQ, CHR '':'', DQ]"
  have hdp: "?p \<noteq> []" "hd ?p = hd key" using key by (auto simp: good_key_def)
  have 1: "\<not> starts_with (DQ # k @ DQ # u) (DQ # ?p)" for u
    using starts_with_sep [OF k(1), of key u "[CHR '':'', DQ]"] key k by (auto simp: good_key_def)
  have 2: "\<not> starts_with (DQ # CHR '':'' # u) (DQ # ?p)" for u
    using starts_with_hd_neq [of "CHR '':'' # u" ?p] hdp key by (auto simp: good_key_def)
  have 3: "\<not> starts_with (DQ # v @ DQ # t) (DQ # ?p)"
    using starts_with_sep [OF v, of key t "[CHR '':'', DQ]"] key t
    by (cases t) (auto simp: good_key_def after_field_def)
  have 4: "\<not> starts_with (DQ # t) (DQ # ?p)"
    using starts_with_hd_neq [of t ?p] hdp key t
    by (cases t) (auto simp: good_key_def after_field_def starts_with_def)
  have "skips (DQ # ?p) (DQ # k @ DQ # CHR '':'' # DQ # v @ [DQ]) t"
    using 1 2 3 4 k(1) v
    by (intro skips_Cons skips_append skips_free skips_char) auto
  then show ?thesis by (simp add: jkey_def jfield_def)
qed

text \<open>Members separated by commas, as an association list.\<close>

fun fields_text :: "(string \<times> string) list \<Rightarrow> string" where
  "fields_text [] = []"
| "fields_text [(k, v)] = jfield k v"
| "fields_text ((k, v) # kv # kvs) = jfield k v @ CHR '','' # fields_text (kv # kvs)"

definition quote_free :: "(string \<times> string) list \<Rightarrow> bool" where
  "quote_free kvs \<longleftrightarrow> (\<forall>(k, v) \<in> set kvs. DQ \<notin> set k \<and> DQ \<notin> set v)"

lemma quote_free_Cons [simp]:
  "quote_free ((k, v) # kvs) \<longleftrightarrow> DQ \<notin> set k \<and> DQ \<notin> set v \<and> quote_free kvs"
  by (auto simp: quote_free_def)

lemma quote_free_Nil [simp]: "quote_free []"
  by (simp add: quote_free_def)

lemma not_starts_jkey_comma: "\<not> starts_with (CHR '','' # t) (jkey key)"
  by (simp add: jkey_def)

lemma fields_text_skips:
  assumes "good_key key" "quote_free kvs" "key \<notin> fst ` set kvs" "after_field t"
  shows "skips (jkey key) (fields_text kvs) t"
  using assms(2-4)
proof (induction kvs rule: fields_text.induct)
  case 1
  then show ?case by simp
next
  case (2 k v)
  then show ?case using jfield_skip [OF assms(1)] by auto
next
  case (3 k v kv kvs)
  have "skips (jkey key) (fields_text (kv # kvs)) t" using 3 by auto
  then have "skips (jkey key) (CHR '','' # fields_text (kv # kvs)) t"
    by (rule skips_Cons [OF not_starts_jkey_comma])
  moreover have "skips (jkey key) (jfield k v) ((CHR '','' # fields_text (kv # kvs)) @ t)"
    using 3 by (intro jfield_skip [OF assms(1)]) (auto simp: after_field_def)
  ultimately show ?case by (simp add: skips_append)
qed

text \<open>\<open>has_section content p v\<close>: the first occurrence of \<open>p\<close> is followed by \<open>v\<close> and a quote.\<close>

definition has_section :: "string \<Rightarrow> string \<Rightarrow> string \<Rightarrow> bool" where
  "has_section content p v \<longleftrightarrow>
     (\<exists>g t. content = g @ p @ v @ DQ # t \<and> skips p g (p @ v @ DQ # t))"

lemma has_section_skip:
  "skips p g t \<Longrightarrow> has_section t p v \<Longrightarrow> has_section (g @ t) p v"
  unfolding has_section_def by (metis append.assoc skips_append)

lemma has_section_jfield:
  "has_section (jfield k v @ t) (jkey k) v"
  unfolding has_section_def
  by (rule exI [of _ "[]"]) (simp add: jfield_def jkey_def)

lemma fields_text_has_section:
  assumes "good_key key" "quote_free kvs" "map_of kvs key = Some v" "after_field t"
  shows "has_section (fields_text kvs @ t) (jkey key) v"
  using assms(2-4)
proof (induction kvs rule: fields_text.induct)
  case 1
  then show ?case by simp
next
  case (2 k w)
  then show ?case by (auto simp: has_section_jfield split: if_splits)
next
  case (3 k w kv kvs)
  show ?case
  proof (cases "key = k")
    case True
    with 3 show ?thesis by (auto simp: has_section_jfield)
  next
    case False
    with 3 have "has_section (fields_text (kv # kvs) @ t) (jkey key) v" by auto
    then have "has_section ((CHR '','' # fields_text (kv # kvs)) @ t) (jkey key) v"
      using has_section_skip [OF skips_char [OF not_starts_jkey_comma]] by simp
    moreover have "skips (jkey key) (jfield k w) ((CHR '','' # fields_text (kv # kvs)) @ t)"
      using 3 False by (intro jfield_skip [OF assms(1)]) (auto simp: after_field_def)
    ultimately show ?thesis using has_section_skip by fastforce
  qed
qed

lemma parseSectionString_found:
  assumes "has_section content p v" and "DQ \<notin> set v"
  shows "parseSectionString content p [DQ] = v"
proof -
  obtain g t where c: "content = g @ p @ v @ DQ # t" and s: "skips p g (p @ v @ DQ # t)"
    using assms(1) by (auto simp: has_section_def)
  have 1: "find_sub p content = Some (length g)" using skips_found [OF s] by (simp add: c)
  have "find_sub [DQ] (v @ DQ # t) = Some (length v)"
    using find_sub_skip [OF assms(2), of "[]" t] by simp
  then have 2: "find_str content [DQ] (length g + length p) = Some (length g + length p + length v)"
    by (simp add: find_str_def c)
  show ?thesis by (simp add: parseSectionString_def 1 2) (simp add: substr_def c)
qed

lemma parseSectionString_absent: "find_sub p content = None \<Longrightarrow> parseSectionString content p e = []"
  by (simp add: parseSectionString_def)

section \<open>A record read back\<close>

definition record_entries :: "env \<Rightarrow> record_structure \<Rightarrow> (string \<times> string) list" where
  "record_entries E r =
     [(''network'', r_network r), (''time'', r_time r), (''name'', r_name r),
      (''typ'', show_long (type_number (r_type r)))] @
     (if 0 < r_nonce r then [(''nonce'', show_long (r_nonce r))] else []) @
     [(''amt'', e_lexical E (r_amount r)), (''fee'', e_lexical E (r_fee r)),
      (''sndkey'', r_sender r), (''rcvkey'', r_recipient r), (''value'', r_value r),
      (''hash'', r_hash r), (''sig'', r_signature r)]"

lemma record_fields_entries: "record_fields E r = fields_text (record_entries E r)"
  by (simp add: record_fields_def record_entries_def)

text \<open>Text that can stand between quotes in the JSON the node writes.\<close>

definition plain :: "string \<Rightarrow> bool" where
  "plain s \<longleftrightarrow> DQ \<notin> set s \<and> CHR ''{'' \<notin> set s \<and> CHR ''}'' \<notin> set s"

text \<open>A double whose printed form is plain and is read back as it was.\<close>

definition printable_double :: "env \<Rightarrow> double \<Rightarrow> bool" where
  "printable_double E d \<longleftrightarrow> plain (e_lexical E d) \<and> atof (e_lexical E d) = d"

definition printable_record :: "env \<Rightarrow> record_structure \<Rightarrow> bool" where
  "printable_record E r \<longleftrightarrow>
     plain (r_network r) \<and> plain (r_time r) \<and> plain (r_name r) \<and> plain (r_sender r) \<and>
     plain (r_recipient r) \<and> plain (r_value r) \<and> plain (r_hash r) \<and> plain (r_signature r) \<and>
     printable_double E (r_amount r) \<and> printable_double E (r_fee r) \<and>
     0 \<le> r_nonce r \<and> in_long (r_nonce r) \<and> (\<forall>n. r_type r \<noteq> OTHER_TYPE n)"

lemma plain_show_long [simp]: "plain (show_long n)"
  unfolding plain_def using show_long_chars [of _ n] isdigit_not by fastforce

lemma record_entries_quote_free: "printable_record E r \<Longrightarrow> quote_free (record_entries E r)"
  using plain_show_long
  by (simp add: record_entries_def printable_record_def printable_double_def plain_def)

lemma type_number_range:
  "(\<forall>n. t \<noteq> OTHER_TYPE n) \<Longrightarrow> 0 \<le> type_number t \<and> type_number t \<le> 7 \<and> parse_type E (type_number t) = t"
  by (cases t) (auto simp: parse_type_def)

lemma atoi_show_long: "0 \<le> n \<Longrightarrow> n < 2 ^ 31 \<Longrightarrow> atoi (show_long n) = n"
  by (subst atoi_def, subst atol_show_long)
     (auto simp: in_long_def LONG_MAX_def LONG_MIN_def signed_take_bit_int_eq_self)

lemma good_keys [simp]:
  "good_key ''network''" "good_key ''time''" "good_key ''name''" "good_key ''typ''" "good_key ''nonce''"
  "good_key ''amt''" "good_key ''fee''" "good_key ''sndkey''" "good_key ''rcvkey''" "good_key ''value''"
  "good_key ''hash''" "good_key ''sig''" "good_key ''name:''" "good_key ''creator_key''"
  "good_key ''number''" "good_key ''previous_block_id''" "good_key ''previous_block_hash''"
  "good_key ''records_merkle_root''" "good_key ''signature''"
  by (simp_all add: good_key_def)

text \<open>Text around the members of a record in which no search for a member stops.\<close>

definition shell :: "string \<Rightarrow> string \<Rightarrow> bool" where
  "shell pre post \<longleftrightarrow> DQ \<notin> set post \<and> after_field post \<and> (\<forall>key t. good_key key \<longrightarrow> skips (jkey key) pre t)"

lemma shell_blank: "shell '' '' []"
  by (auto simp: shell_def after_field_def jkey_def intro!: skips_char)

definition record_open :: string where
  "record_open = ''{'' @ [DQ] @ ''record'' @ [DQ] @ '':{ ''"

lemma record_open_skips:
  assumes "good_key key"
  shows "skips (jkey key) record_open t"
proof -
  have 1: "\<not> starts_with (DQ # ''record'' @ DQ # CHR '':'' # CHR ''{'' # u) (DQ # key @ DQ # [CHR '':'', DQ])" for u
    using starts_with_sep [of DQ "''record''" key "CHR '':'' # CHR ''{'' # u" "[CHR '':'', DQ]"] assms by (auto simp: good_key_def)
  have 2: "\<not> starts_with (DQ # CHR '':'' # u) (DQ # key @ DQ # [CHR '':'', DQ])" for u
    using assms by (cases key) (auto simp: good_key_def)
  have "skips (jkey key) (CHR ''{'' # DQ # ''record'' @ DQ # '':{ '') t"
    unfolding jkey_def by (intro skips_Cons skips_append skips_free) (use 1 [of "CHR '' '' # t"] 2 [of "CHR ''{'' # CHR '' '' # t"] in auto)
  then show ?thesis by (simp add: record_open_def)
qed

lemma shell_record: "DQ \<notin> set t \<Longrightarrow> shell record_open (''}}'' @ t)"
  using record_open_skips by (auto simp: shell_def after_field_def)

lemma record_section_found:
  assumes "printable_record E r" "shell pre post" "good_key key" "map_of (record_entries E r) key = Some v"
  shows "parseSectionString (pre @ record_fields E r @ post) (jkey key) [DQ] = v"
proof -
  have q: "quote_free (record_entries E r)" by (rule record_entries_quote_free [OF assms(1)])
  have "has_section (fields_text (record_entries E r) @ post) (jkey key) v"
    by (rule fields_text_has_section [OF assms(3) q assms(4)]) (use assms(2) in \<open>simp add: shell_def\<close>)
  then have "has_section (pre @ record_fields E r @ post) (jkey key) v"
    using assms(2,3) by (simp add: record_fields_entries shell_def has_section_skip)
  moreover have "DQ \<notin> set v" using q map_of_SomeD [OF assms(4)] by (auto simp: quote_free_def)
  ultimately show ?thesis using parseSectionString_found by simp
qed

lemma record_section_absent:
  assumes "printable_record E r" "shell pre post" "good_key key" "key \<notin> fst ` set (record_entries E r)"
  shows "parseSectionString (pre @ record_fields E r @ post) (jkey key) [DQ] = []"
proof -
  have q: "quote_free (record_entries E r)" by (rule record_entries_quote_free [OF assms(1)])
  have "skips (jkey key) (fields_text (record_entries E r)) (post @ [])"
    by (rule fields_text_skips [OF assms(3) q assms(4)]) (use assms(2) in \<open>simp add: shell_def\<close>)
  moreover have "skips (jkey key) post []" using assms(2) by (auto simp: jkey_def shell_def intro!: skips_free)
  ultimately have "skips (jkey key) (pre @ record_fields E r @ post) []"
    using assms(2,3) by (intro skips_append) (simp_all add: record_fields_entries shell_def)
  then have "find_sub (jkey key) ((pre @ record_fields E r @ post) @ []) = None"
    by (rule skips_None) (simp add: jkey_def)
  then show ?thesis by (simp add: parseSectionString_absent)
qed

lemma atol_Nil [simp]: "atol [] = 0"
  by (simp add: atol_def strtol_def c_str_def split_sign_def)

lemma parseRecordJson_shell:
  assumes "printable_record E r" and "shell pre post"
  shows "parseRecordJson E (pre @ record_fields E r @ post) = r"
proof -
  note found = record_section_found [OF assms]
  have str: "parseSectionString (pre @ record_fields E r @ post) (jkey k) [DQ] = v"
    if "(k, v) \<in> {(''network'', r_network r), (''time'', r_time r), (''name'', r_name r),
      (''typ'', show_long (type_number (r_type r))), (''amt'', e_lexical E (r_amount r)),
      (''fee'', e_lexical E (r_fee r)), (''sndkey'', r_sender r), (''rcvkey'', r_recipient r),
      (''value'', r_value r), (''hash'', r_hash r), (''sig'', r_signature r)}" for k v
    using that by (auto intro!: found simp: record_entries_def)
  have other_name: "parseSectionString (pre @ record_fields E r @ post) (jkey ''name:'') [DQ] = []"
    by (rule record_section_absent [OF assms]) (auto simp: record_entries_def)
  have nonce: "parseSectionLong (pre @ record_fields E r @ post) (jkey ''nonce'') [DQ] = r_nonce r"
  proof (cases "0 < r_nonce r")
    case True
    then have "parseSectionString (pre @ record_fields E r @ post) (jkey ''nonce'') [DQ] = show_long (r_nonce r)"
      by (intro found) (auto simp: record_entries_def)
    then show ?thesis using assms by (simp add: parseSectionLong_def atol_show_long printable_record_def)
  next
    case False
    then have "parseSectionString (pre @ record_fields E r @ post) (jkey ''nonce'') [DQ] = []"
      by (intro record_section_absent [OF assms]) (auto simp: record_entries_def)
    then show ?thesis using assms False by (simp add: parseSectionLong_def printable_record_def)
  qed
  have ty: "parse_type E (atoi (show_long (type_number (r_type r)))) = r_type r"
    using assms type_number_range [of "r_type r" E] by (simp add: printable_record_def atoi_show_long)
  show ?thesis
    using assms
    by (simp add: parseRecordJson_def Let_def str nonce other_name parseSectionInt_def ty parseSectionDouble_def
        printable_record_def printable_double_def)
qed

lemma parseRecordJson_fields: "printable_record E r \<Longrightarrow> parseRecordJson E (CHR '' '' # record_fields E r) = r"
  using parseRecordJson_shell [OF _ shell_blank] by simp

lemma parseRecordJson_recordJSON: "printable_record E r \<Longrightarrow> parseRecordJson E (recordJSON E r) = r"
  using parseRecordJson_shell [OF _ shell_record, of E r "[NL]"] by (simp add: recordJSON_def record_open_def)

section \<open>The records of a block read back\<close>

definition no_brace :: "string \<Rightarrow> bool" where
  "no_brace s \<longleftrightarrow> CHR ''{'' \<notin> set s \<and> CHR ''}'' \<notin> set s"

lemma no_brace_append [simp]: "no_brace (s @ t) \<longleftrightarrow> no_brace s \<and> no_brace t"
  by (auto simp: no_brace_def)

lemma block_end_gap:
  assumes "no_brace g" and "d \<noteq> 0 \<or> \<not> started"
  shows "block_end (g @ t) d started = map_option ((+) (length g)) (block_end t d started)"
  using assms
proof (induction g)
  case Nil
  then show ?case by (cases "block_end t d started") auto
next
  case (Cons c g)
  then show ?case by (cases "block_end t d started") (auto simp: no_brace_def Let_def)
qed

lemma fields_text_no_brace:
  "(\<forall>(k, v) \<in> set kvs. no_brace k \<and> no_brace v) \<Longrightarrow> no_brace (fields_text kvs)"
  by (induction kvs rule: fields_text.induct) (auto simp: jfield_def no_brace_def)

lemma record_fields_no_brace: "printable_record E r \<Longrightarrow> no_brace (record_fields E r)"
  using plain_show_long unfolding record_fields_entries
  by (intro fields_text_no_brace)
     (auto simp: record_entries_def printable_record_def printable_double_def plain_def no_brace_def)

text \<open>The braces of one record are balanced.\<close>

lemma block_end_recordJSON:
  assumes "printable_record E r" and "0 < d"
  shows "block_end (recordJSON E r @ t) d True =
    map_option ((+) (length (recordJSON E r))) (block_end t d True)"
proof -
  note gap = block_end_gap [OF record_fields_no_brace [OF assms(1)]]
  show ?thesis
    using assms(2) by (cases "block_end t d True") (simp_all add: recordJSON_def gap)
qed

text \<open>A search for the next record passes over the rest of the one before.\<close>

definition okey :: "string \<Rightarrow> string" where
  "okey name = DQ # name @ [DQ, CHR '':'']"

lemma RECORD_KEY_okey: "RECORD_KEY = okey ''record''" and RECORDS_KEY_okey: "RECORDS_KEY = okey ''records''"
  by (simp_all add: RECORD_KEY_def RECORDS_KEY_def okey_def)

lemma jfield_skip_okey:
  assumes key: "good_key key" and k: "DQ \<notin> set k" "k \<noteq> key" and v: "DQ \<notin> set v" and t: "after_field t"
  shows "skips (okey key) (jfield k v) t"
proof -
  let ?p = "key @ [DQ, CHR '':'']"
  have hdp: "?p \<noteq> []" "hd ?p = hd key" using key by (auto simp: good_key_def)
  have 1: "\<not> starts_with (DQ # k @ DQ # u) (DQ # ?p)" for u
    using starts_with_sep [OF k(1), of key u "[CHR '':'']"] key k by (auto simp: good_key_def)
  have 2: "\<not> starts_with (DQ # CHR '':'' # u) (DQ # ?p)" for u
    using starts_with_hd_neq [of "CHR '':'' # u" ?p] hdp key by (auto simp: good_key_def)
  have 3: "\<not> starts_with (DQ # v @ DQ # t) (DQ # ?p)"
    using starts_with_sep [OF v, of key t "[CHR '':'']"] key t
    by (cases t) (auto simp: good_key_def after_field_def)
  have 4: "\<not> starts_with (DQ # t) (DQ # ?p)"
    using starts_with_hd_neq [of t ?p] hdp key t
    by (cases t) (auto simp: good_key_def after_field_def starts_with_def)
  have "skips (DQ # ?p) (DQ # k @ DQ # CHR '':'' # DQ # v @ [DQ]) t"
    using 1 2 3 4 k(1) v
    by (intro skips_Cons skips_append skips_free skips_char) auto
  then show ?thesis by (simp add: okey_def jfield_def)
qed

lemma fields_text_skips_okey:
  assumes key: "good_key key" and t: "after_field t" and "quote_free kvs" "key \<notin> fst ` set kvs"
  shows "skips (okey key) (fields_text kvs) t"
  using assms(3,4)
proof (induction kvs rule: fields_text.induct)
  case 1
  then show ?case by simp
next
  case (2 k v)
  then show ?case using jfield_skip_okey [OF key _ _ _ t] by auto
next
  case (3 k v kv kvs)
  have "skips (okey key) (CHR '','' # fields_text (kv # kvs)) t"
    using 3 by (intro skips_Cons) (auto simp: okey_def)
  moreover have "skips (okey key) (jfield k v) ((CHR '','' # fields_text (kv # kvs)) @ t)"
    using 3 by (intro jfield_skip_okey [OF key]) (auto simp: after_field_def)
  ultimately show ?case by (simp add: skips_append)
qed

lemma find_sub_least:
  "find_sub p s = Some n \<Longrightarrow> i < n \<Longrightarrow> \<not> starts_with (drop i s) p"
proof (induction s arbitrary: n i)
  case Nil
  then show ?case by (auto split: if_splits)
next
  case (Cons c s)
  then show ?case by (cases i) (auto split: if_splits)
qed

lemma find_sub_none: "find_sub p s = None \<Longrightarrow> \<not> starts_with (drop i s) p"
proof (induction s arbitrary: i)
  case Nil
  then show ?case by (cases p) (auto split: if_splits)
next
  case (Cons c s)
  then show ?case by (cases i) (auto split: if_splits)
qed

lemma skips_iff: "skips p g t \<longleftrightarrow> (\<forall>i < length g. \<not> starts_with (drop i (g @ t)) p)"
proof
  assume "skips p g t"
  then have eq: "find_sub p (g @ t) = map_option ((+) (length g)) (find_sub p t)"
    by (simp only: skips_def)
  show "\<forall>i < length g. \<not> starts_with (drop i (g @ t)) p"
  proof (cases "find_sub p t")
    case None
    with eq have "find_sub p (g @ t) = None" by simp
    then show ?thesis using find_sub_none by blast
  next
    case (Some n)
    with eq have "find_sub p (g @ t) = Some (length g + n)" by simp
    then show ?thesis using find_sub_least by (metis trans_less_add1)
  qed
next
  assume "\<forall>i < length g. \<not> starts_with (drop i (g @ t)) p"
  then show "skips p g t" unfolding skips_def by (intro find_sub_skip_gen) auto
qed

lemma skips_drop: "skips p g t \<Longrightarrow> skips p (drop n g) t"
proof (cases "n \<le> length g")
  case True
  assume s: "skips p g t"
  have "\<not> starts_with (drop i (drop n g @ t)) p" if "i < length (drop n g)" for i
  proof -
    have "drop i (drop n g @ t) = drop (n + i) (g @ t)" using that True by (simp add: add.commute)
    then show ?thesis using s that by (simp only: skips_iff) auto
  qed
  then show ?thesis by (simp only: skips_iff) blast
qed simp

definition record_tail :: "env \<Rightarrow> record_structure \<Rightarrow> string" where
  "record_tail E r = ''record'' @ [DQ, CHR '':''] @ ''{ '' @ record_fields E r @ ''}}'' @ [NL]"

lemma recordJSON_tail: "recordJSON E r = CHR ''{'' # DQ # record_tail E r"
  by (simp add: recordJSON_def record_tail_def)

lemma record_tail_skips: "printable_record E r \<Longrightarrow> skips RECORD_KEY (record_tail E r) t"
proof -
  assume r: "printable_record E r"
  have "skips RECORD_KEY (record_fields E r) (''}}'' @ [NL] @ t)"
    unfolding record_fields_entries RECORD_KEY_okey
    by (rule fields_text_skips_okey [OF _ _ record_entries_quote_free [OF r]])
       (auto simp: record_entries_def good_key_def after_field_def)
  then have "skips RECORD_KEY ((''record'' @ [DQ, CHR '':''] @ ''{ '') @ record_fields E r @ ''}}'' @ [NL]) t"
    by (intro skips_append skips_Cons) (auto simp: RECORD_KEY_def intro!: skips_free)
  then show ?thesis by (simp add: record_tail_def)
qed

text \<open>One step of the loop: what it returns and what it leaves.\<close>

lemma parseSectionBlock_record:
  assumes r: "printable_record E r" and g: "skips RECORD_KEY g (recordJSON E r @ t)"
    and len: "length g \<le> length (record_fields E r)"
  shows "parseSectionBlock (g @ recordJSON E r @ t) RECORD_KEY =
    (CHR '' '' # record_fields E r,
     drop (length (record_fields E r) - length g) (record_tail E r) @ t)"
proof -
  let ?F = "record_fields E r"
  let ?u = "CHR ''{'' # CHR '' '' # ?F @ ''}}'' @ NL # t"
  have content: "g @ recordJSON E r @ t = (g @ ''{'') @ RECORD_KEY @ ?u"
    by (simp add: recordJSON_def RECORD_KEY_def)
  have "skips RECORD_KEY (g @ ''{'') (RECORD_KEY @ ?u)"
    using g by (intro skips_append skips_char) (auto simp: recordJSON_def RECORD_KEY_def)
  from skips_found [OF this] have find: "find_sub RECORD_KEY (g @ recordJSON E r @ t) = Some (length g + 1)"
    by (simp only: content) simp
  have dropped: "drop (length g + 1 + length RECORD_KEY) (g @ recordJSON E r @ t) = ?u"
    by (simp only: content) simp
  have close: "block_end ?u 0 False = Some (length ?F + 2)"
    using block_end_gap [OF record_fields_no_brace [OF r], of 1 True] by simp
  have sub: "substr (g @ recordJSON E r @ t) (length g + 1 + length RECORD_KEY + 1) (length ?F + 2 - 1) =
      CHR '' '' # ?F"
  proof -
    have "drop (length g + 1 + length RECORD_KEY + 1) (g @ recordJSON E r @ t) = drop 1 ?u"
      by (simp only: content) simp
    then show ?thesis by (simp add: substr_def)
  qed
  have rest: "drop (length ?F + 2) (g @ recordJSON E r @ t) =
      drop (length ?F - length g) (record_tail E r) @ t"
  proof -
    have "length ?F + 2 = length (g @ [CHR ''{'', DQ]) + (length ?F - length g)" using len by simp
    moreover have "g @ recordJSON E r @ t = (g @ [CHR ''{'', DQ]) @ record_tail E r @ t"
      by (simp add: recordJSON_tail)
    ultimately have "drop (length ?F + 2) (g @ recordJSON E r @ t) =
        drop (length ?F - length g) (record_tail E r @ t)"
      by (simp only: drop_append) simp
    also have "\<dots> = drop (length ?F - length g) (record_tail E r) @ t"
    proof -
      have "length ?F - length g \<le> length (record_tail E r)" by (simp add: record_tail_def)
      then show ?thesis by simp
    qed
    finally show ?thesis .
  qed
  show ?thesis
    unfolding parseSectionBlock_def find option.case dropped close sub rest ..
qed

lemma record_sections_read:
  assumes "\<forall>r \<in> set rs. printable_record E r"
    and "skips RECORD_KEY g (concat (map (recordJSON E) rs))"
    and "\<forall>k < length rs. length g + 13 * k \<le> length (record_fields E (rs ! k))"
  shows "record_sections (g @ concat (map (recordJSON E) rs)) =
    map (\<lambda>r. CHR '' '' # record_fields E r) rs"
  using assms
proof (induction rs arbitrary: g)
  case Nil
  then have "find_sub RECORD_KEY (g @ []) = None" by (intro skips_None) (auto simp: RECORD_KEY_def)
  then show ?case by (subst record_sections.simps) (simp add: parseSectionBlock_def)
next
  case (Cons r rs)
  let ?C = "concat (map (recordJSON E) rs)"
  let ?g = "drop (length (record_fields E r) - length g) (record_tail E r)"
  have r: "printable_record E r" using Cons.prems by simp
  have len: "length g \<le> length (record_fields E r)" using Cons.prems(3) by (auto dest: spec [of _ 0])
  have step: "parseSectionBlock (g @ recordJSON E r @ ?C) RECORD_KEY = (CHR '' '' # record_fields E r, ?g @ ?C)"
    using Cons.prems by (intro parseSectionBlock_record [OF r _ len]) simp
  have lg: "length ?g = length g + 13" using len by (simp add: record_tail_def)
  have "record_sections (?g @ ?C) = map (\<lambda>r. CHR '' '' # record_fields E r) rs"
  proof (rule Cons.IH)
    show "\<forall>k < length rs. length ?g + 13 * k \<le> length (record_fields E (rs ! k))"
      unfolding lg using Cons.prems(3) by (auto dest: spec [of _ "Suc _"])
  qed (use Cons.prems record_tail_skips [OF r] in \<open>auto intro: skips_drop\<close>)
  then show ?case using step by (subst record_sections.simps) simp
qed

section \<open>A block read back\<close>

definition block_entries :: "block_structure \<Rightarrow> (string \<times> string) list" where
  "block_entries b =
     [(''creator_key'', b_creator b), (''network'', b_network b),
      (''number'', show_long (b_number b)), (''time'', b_time b),
      (''previous_block_id'', show_long (b_previous_id b)),
      (''previous_block_hash'', b_previous_hash b)] @
     (if b_merkle_root b \<noteq> [] then [(''records_merkle_root'', b_merkle_root b)] else []) @
     [(''hash'', b_hash b), (''signature'', b_signature b)]"

lemma block_fields_entries: "block_fields b = fields_text (block_entries b) @ '',''"
  by (simp add: block_fields_def block_entries_def)

text \<open>
  A block the node can write and read back: plain text in every member, numbers that fit a
  \<open>long\<close>, a time and a network (which the reader would otherwise take from the first
  record), and records long enough for their position.
\<close>

definition plain_block :: "env \<Rightarrow> block_structure \<Rightarrow> bool" where
  "plain_block E b \<longleftrightarrow>
     plain (b_creator b) \<and> plain (b_network b) \<and> plain (b_time b) \<and> plain (b_previous_hash b) \<and>
     plain (b_merkle_root b) \<and> plain (b_hash b) \<and> plain (b_signature b) \<and>
     in_long (b_number b) \<and> in_long (b_previous_id b) \<and>
     (b_records b \<noteq> [] \<longrightarrow> b_time b \<noteq> [] \<and> (b_previous_id b \<le> 0 \<longrightarrow> b_network b \<noteq> [])) \<and>
     (\<forall>r \<in> set (b_records b). printable_record E r)"

definition records_fit :: "env \<Rightarrow> record_structure list \<Rightarrow> bool" where
  "records_fit E rs \<longleftrightarrow> (\<forall>k < length rs. 13 * k < length (record_fields E (rs ! k)))"

definition printable_block :: "env \<Rightarrow> block_structure \<Rightarrow> bool" where
  "printable_block E b \<longleftrightarrow> plain_block E b \<and> records_fit E (b_records b)"

definition block_prefix :: string where
  "block_prefix = ''{'' @ [DQ] @ ''block'' @ [DQ] @ '':{''"

definition records_text :: "env \<Rightarrow> block_structure \<Rightarrow> string" where
  "records_text E b = NL # concat (map (recordJSON E) (b_records b))"

definition block_object :: "env \<Rightarrow> block_structure \<Rightarrow> string" where
  "block_object E b =
     block_prefix @ fields_text (block_entries b) @ '','' @ RECORDS_KEY @ ''{'' @ records_text E b @ ''}}}''"

lemma blockJSON_object: "blockJSON E b = block_object E b @ [NL]"
  by (simp add: blockJSON_def block_object_def block_prefix_def block_fields_entries RECORDS_KEY_def
      records_text_def)

lemma block_entries_quote_free: "plain_block E b \<Longrightarrow> quote_free (block_entries b)"
  using plain_show_long by (simp add: block_entries_def plain_block_def plain_def)

lemma block_entries_no_brace: "plain_block E b \<Longrightarrow> no_brace (fields_text (block_entries b))"
  using plain_show_long
  by (intro fields_text_no_brace) (auto simp: block_entries_def plain_block_def plain_def no_brace_def)

lemma block_end_records:
  "\<forall>r \<in> set rs. printable_record E r \<Longrightarrow> 0 < d \<Longrightarrow>
    block_end (concat (map (recordJSON E) rs) @ t) d True =
    map_option ((+) (length (concat (map (recordJSON E) rs)))) (block_end t d True)"
proof (induction rs)
  case Nil
  then show ?case by (cases "block_end t d True") auto
next
  case (Cons r rs)
  then show ?case by (cases "block_end t d True") (simp_all add: block_end_recordJSON)
qed

lemma block_end_object:
  assumes "plain_block E b"
  shows "block_end (block_object E b @ t) 0 True = Some (length (block_object E b) - 1)"
proof -
  note gap = block_end_gap [OF block_entries_no_brace [OF assms]]
  have rs: "\<forall>r \<in> set (b_records b). printable_record E r" using assms by (simp add: plain_block_def)
  show ?thesis
    by (simp add: block_object_def block_prefix_def RECORDS_KEY_def records_text_def gap
        block_end_records [OF rs])
qed

lemma json_objects_block:
  assumes "plain_block E b"
  shows "json_objects (blockJSON E b) = [block_object E b]"
proof -
  have f: "find_sub ''{'' (blockJSON E b) = Some 0"
    by (simp add: blockJSON_object block_object_def block_prefix_def)
  have len: "0 < length (block_object E b)" by (simp add: block_object_def block_prefix_def)
  have "json_objects [NL] = []" by (subst json_objects.simps) simp
  then show ?thesis
    using block_end_object [OF assms, of "[NL]"] len f
    by (subst json_objects.simps) (simp add: blockJSON_object)
qed

text \<open>Passing over an object member \<open>"name":{\<close>, which is not a text member.\<close>

lemma opener_skips:
  assumes "good_key key" "DQ \<notin> set name" "name \<noteq> key" "DQ \<notin> set u"
  shows "skips (jkey key) (okey name @ CHR ''{'' # u) t" and "skips (okey key) (okey name @ CHR ''{'' # u) t"
proof -
  have 1: "\<not> starts_with (name @ DQ # w) (key @ DQ # p)" for w p
    using starts_with_sep [OF assms(2), of key w p] assms by (auto simp: good_key_def)
  have 2: "\<not> starts_with (CHR '':'' # w) (key @ p)" for w p
    using assms(1) by (cases key) (auto simp: good_key_def)
  have "skips (DQ # key @ DQ # p) ((DQ # name @ [DQ]) @ CHR '':'' # CHR ''{'' # u) t" for p
    using 1 [of _ p] 2 [of _ "DQ # p"] assms
    by (intro skips_append skips_Cons skips_free skips_char) (auto simp: good_key_def)
  from this [of "[CHR '':'', DQ]"] this [of "[CHR '':'']"]
  show "skips (jkey key) (okey name @ CHR ''{'' # u) t" and "skips (okey key) (okey name @ CHR ''{'' # u) t"
    by (simp_all add: jkey_def okey_def)
qed

lemma block_prefix_okey: "block_prefix = CHR ''{'' # okey ''block'' @ ''{''"
  by (simp add: block_prefix_def okey_def)

lemma block_prefix_skips:
  "good_key key \<Longrightarrow> key \<noteq> ''block'' \<Longrightarrow> skips (jkey key) block_prefix t \<and> skips (okey key) block_prefix t"
  unfolding block_prefix_okey
  by (auto intro!: skips_Cons opener_skips [where u = "[]"]) (simp_all add: jkey_def okey_def)

lemma block_section_found:
  assumes b: "plain_block E b" and key: "good_key key" "key \<noteq> ''block''"
    and v: "map_of (block_entries b) key = Some v"
  shows "parseSectionString (block_object E b) (jkey key) [DQ] = v"
proof -
  have q: "quote_free (block_entries b)" by (rule block_entries_quote_free [OF b])
  have "has_section (block_object E b) (jkey key) v"
    unfolding block_object_def using block_prefix_skips [OF key]
    by (intro has_section_skip fields_text_has_section [OF key(1) q v]) (auto simp: after_field_def)
  moreover have "DQ \<notin> set v" using q map_of_SomeD [OF v] by (auto simp: quote_free_def)
  ultimately show ?thesis by (rule parseSectionString_found)
qed

lemma recordJSON_skips:
  assumes "printable_record E r" "good_key key" "key \<noteq> ''record''" "key \<notin> fst ` set (record_entries E r)"
  shows "skips (jkey key) (recordJSON E r) t"
proof -
  have "skips (jkey key) (record_fields E r) (''}}'' @ [NL] @ t)"
    unfolding record_fields_entries
    by (rule fields_text_skips [OF assms(2) record_entries_quote_free [OF assms(1)] assms(4)])
       (simp add: after_field_def)
  then have "skips (jkey key) ((okey ''record'' @ CHR ''{'' # '' '') @ record_fields E r @ ''}}'' @ [NL]) t"
    using assms by (intro skips_append opener_skips) (auto simp: jkey_def intro!: skips_free)
  then have "skips (jkey key) (CHR ''{'' # (okey ''record'' @ CHR ''{'' # '' '') @ record_fields E r @ ''}}'' @ [NL]) t"
    by (intro skips_Cons) (auto simp: jkey_def)
  then show ?thesis by (simp add: recordJSON_def okey_def)
qed

lemma records_skips:
  assumes "\<forall>r \<in> set rs. printable_record E r" "good_key key" "key \<noteq> ''record''"
    "\<forall>r \<in> set rs. key \<notin> fst ` set (record_entries E r)"
  shows "skips (jkey key) (concat (map (recordJSON E) rs)) t"
  using assms(1,4)
  by (induction rs) (auto intro!: skips_append recordJSON_skips simp: assms(2,3))

lemma block_section_no_merkle:
  assumes b: "plain_block E b" and m: "b_merkle_root b = []"
  shows "parseSectionString (block_object E b) (jkey ''records_merkle_root'') [DQ] = []"
proof -
  let ?k = "''records_merkle_root''"
  have q: "quote_free (block_entries b)" by (rule block_entries_quote_free [OF b])
  have rs: "skips (jkey ?k) (concat (map (recordJSON E) (b_records b))) (''}}}'' @ [])"
    using b by (intro records_skips) (auto simp: plain_block_def record_entries_def)
  define T where "T = (okey ''records'' @ CHR ''{'' # [NL]) @ concat (map (recordJSON E) (b_records b)) @ ''}}}''"
  have T: "skips (jkey ?k) T []"
    unfolding T_def using rs by (intro skips_append opener_skips) (auto simp: jkey_def intro!: skips_free)
  have f: "skips (jkey ?k) (fields_text (block_entries b)) (('','' @ T) @ [])"
    using m by (intro fields_text_skips [OF _ q]) (auto simp: after_field_def block_entries_def)
  have comma: "skips (jkey ?k) '','' (T @ [])"
    by (rule skips_char) (rule not_starts_jkey_comma)
  have "skips (jkey ?k) (block_prefix @ fields_text (block_entries b) @ '','' @ T) []"
    using block_prefix_skips [of ?k] by (intro skips_append f comma T) auto
  then have "find_sub (jkey ?k) ((block_object E b) @ []) = None"
    by (intro skips_None) (simp_all add: block_object_def records_text_def RECORDS_KEY_okey jkey_def T_def)
  then show ?thesis by (simp add: parseSectionString_absent)
qed

lemma block_records_section:
  assumes b: "plain_block E b"
  shows "fst (parseSectionBlock (block_object E b) RECORDS_KEY) = records_text E b"
proof -
  let ?g = "block_prefix @ fields_text (block_entries b) @ '',''"
  have q: "quote_free (block_entries b)" by (rule block_entries_quote_free [OF b])
  have rs: "\<forall>r \<in> set (b_records b). printable_record E r" using b by (simp add: plain_block_def)
  have "skips RECORDS_KEY ?g (RECORDS_KEY @ ''{'' @ records_text E b @ ''}}}'')"
    unfolding RECORDS_KEY_okey using block_prefix_skips [of "''records''"]
    by (intro skips_append fields_text_skips_okey [OF _ _ q])
       (auto simp: good_key_def after_field_def block_entries_def okey_def intro!: skips_char)
  from skips_found [OF this] have f: "find_sub RECORDS_KEY (block_object E b) = Some (length ?g)"
    by (simp add: block_object_def)
  have d: "drop (length ?g + length RECORDS_KEY) (block_object E b) = ''{'' @ records_text E b @ ''}}}''"
    by (simp add: block_object_def)
  have e: "block_end (''{'' @ records_text E b @ ''}}}'') 0 False = Some (length (records_text E b) + 1)"
    by (simp add: records_text_def block_end_records [OF rs])
  have "drop (length ?g + length RECORDS_KEY + 1) (block_object E b) = records_text E b @ ''}}}''"
    by (simp add: block_object_def)
  then have "substr (block_object E b) (length ?g + length RECORDS_KEY + 1) (length (records_text E b) + 1 - 1) =
      records_text E b"
    by (simp add: substr_def)
  then show ?thesis unfolding parseSectionBlock_def f option.case d e by (simp only: fst_conv)
qed

lemma block_record_sections:
  assumes b: "printable_block E b"
  shows "map (parseRecordJson E) (record_sections (records_text E b)) = b_records b"
proof -
  have rs: "\<forall>r \<in> set (b_records b). printable_record E r"
    using b by (simp add: printable_block_def plain_block_def)
  have "record_sections ([NL] @ concat (map (recordJSON E) (b_records b))) =
      map (\<lambda>r. CHR '' '' # record_fields E r) (b_records b)"
    using b by (intro record_sections_read [OF rs])
       (auto simp: printable_block_def records_fit_def RECORD_KEY_def intro!: skips_free)
  then have "map (parseRecordJson E) (record_sections (records_text E b)) =
      map (\<lambda>r. parseRecordJson E (CHR '' '' # record_fields E r)) (b_records b)"
    by (simp add: records_text_def)
  also have "\<dots> = map (\<lambda>r. r) (b_records b)"
    using rs by (intro map_cong) (auto simp: parseRecordJson_fields)
  finally show ?thesis by simp
qed

lemma parse_block_object:
  assumes b: "printable_block E b"
  shows "parse_block_section E (block_object E b) = b"
proof -
  have pb: "plain_block E b" using b by (simp add: printable_block_def)
  have str: "parseSectionString (block_object E b) (jkey k) [DQ] = v"
    if "(k, v) \<in> {(''creator_key'', b_creator b), (''network'', b_network b),
      (''number'', show_long (b_number b)), (''time'', b_time b),
      (''previous_block_id'', show_long (b_previous_id b)), (''previous_block_hash'', b_previous_hash b),
      (''hash'', b_hash b), (''signature'', b_signature b)}" for k v
    using that by (auto intro!: block_section_found [OF pb] simp: block_entries_def)
  have m: "parseSectionString (block_object E b) (jkey ''records_merkle_root'') [DQ] = b_merkle_root b"
  proof (cases "b_merkle_root b = []")
    case True
    then show ?thesis using block_section_no_merkle [OF pb] by simp
  next
    case False
    then show ?thesis by (intro block_section_found [OF pb]) (auto simp: block_entries_def)
  qed
  have defaults: "b_records b \<noteq> [] \<Longrightarrow> b_time b \<noteq> []"
      "b_records b \<noteq> [] \<Longrightarrow> b_previous_id b \<le> 0 \<Longrightarrow> b_network b \<noteq> []"
    and longs: "in_long (b_number b)" "in_long (b_previous_id b)"
    using pb by (auto simp: plain_block_def)
  show ?thesis
    using defaults longs
    by (auto simp: parse_block_section_def block_records_section [OF pb] block_record_sections [OF b]
        Let_def str m parseSectionLong_def atol_show_long)
qed

lemma parse_printed_block:
  assumes "printable_block E b" and "0 < b_number b" and "b_hash b \<noteq> []"
  shows "parseBlockJson E (blockJSON E b) = [b]"
  using assms by (simp add: parseBlockJson_def json_objects_block printable_block_def parse_block_object)

text \<open>
  C12. What \<open>blockJSON\<close> writes, \<open>parseBlockJson\<close> reads back: for a printable block with a
  positive number and a hash, the reader returns exactly that block.
\<close>

theorem parseBlockJson_blockJSON:
  assumes "printable_block E b" and "0 < b_number b" and "b_hash b \<noteq> []"
  shows "parseBlockJson E (blockJSON E b) = [b]"
  using assms by (rule parse_printed_block)

end
