(* ===== verification/KvStore.thy ===== *)
theory KvStore
  imports Prelude
begin

text \<open>
  The interface of LevelDB as the node uses it (\<open>Get\<close>, \<open>Put\<close>, \<open>Delete\<close>, \<open>Write\<close> of a batch,
  iteration in key order): a locale with the laws the database promises, what follows from
  them for batches and deletions, and its interpretation on sorted association lists, the
  model of an open database. The handle \<^typ>\<open>'a option\<close> is the pointer \<open>CBlockDB::db\<close>, which is
  null when the database could not be opened.
\<close>

section \<open>The interface\<close>

datatype db_op = Put string string | Delete string

locale kv_store =
  fixes get :: "'d \<Rightarrow> string \<Rightarrow> string option"
    and put :: "string \<Rightarrow> string \<Rightarrow> 'd \<Rightarrow> 'd"
    and del :: "string \<Rightarrow> 'd \<Rightarrow> 'd"
    and keys :: "'d \<Rightarrow> string list"
    and ok :: "'d \<Rightarrow> bool"
  assumes get_put: "get (put k v d) = (get d)(k \<mapsto> v)"
    and get_del: "get (del k d) = (get d)(k := None)"
    and keys_get: "set (keys d) = dom (get d)"
    and keys_sorted: "ok d \<Longrightarrow> sorted_wrt (<) (keys d)"
    and ok_put: "ok d \<Longrightarrow> ok (put k v d)"
    and ok_del: "ok d \<Longrightarrow> ok (del k d)"
begin

lemma get_fold_del: "get (fold del ks d) = (\<lambda>k. if k \<in> set ks then None else get d k)"
  by (induction ks arbitrary: d) (auto simp: get_del fun_eq_iff)

lemma ok_fold_del: "ok d \<Longrightarrow> ok (fold del ks d)"
  by (induction ks arbitrary: d) (auto simp: ok_del)

text \<open>Deleting every key leaves an empty store.\<close>

lemma get_del_all: "get (fold del (keys d) d) = Map.empty"
proof
  fix k
  show "get (fold del (keys d) d) k = None"
    by (cases "get d k") (auto simp: get_fold_del keys_get)
qed

lemma get_fold_put:
  "distinct (map fst kvs) \<Longrightarrow> (k, v) \<in> set kvs \<Longrightarrow> get (fold (\<lambda>(k, v). put k v) kvs d) k = Some v"
proof (induction kvs arbitrary: d)
  case Nil
  then show ?case by simp
next
  case (Cons kv kvs)
  have other: "get (fold (\<lambda>(k, v). put k v) kvs d') k = get d' k" if "k \<notin> fst ` set kvs" for d' k
    using that by (induction kvs arbitrary: d') (auto simp: get_put)
  show ?case
  proof (cases "(k, v) = kv")
    case True
    with Cons.prems show ?thesis by (auto simp: other get_put)
  next
    case False
    with Cons show ?thesis by (auto simp: split_beta)
  qed
qed

end

section \<open>Open databases\<close>

type_synonym kvdb = "(string, string) smap"

definition kv_keys :: "kvdb \<Rightarrow> string list" where
  "kv_keys d = map fst d"

lemma kv_keys_dom: "set (kv_keys d) = dom (sm_get d)"
  unfolding kv_keys_def sm_get_def by (simp add: dom_map_of_conv_image_fst)

interpretation ldb: kv_store "sm_get :: kvdb \<Rightarrow> string \<Rightarrow> string option" sm_put sm_del kv_keys sm_inv
  by unfold_locales (auto simp: smap_simps kv_keys_dom, simp add: sm_inv_def kv_keys_def)

definition apply_op :: "db_op \<Rightarrow> kvdb \<Rightarrow> kvdb" where
  "apply_op op d = (case op of Put k v \<Rightarrow> sm_put k v d | Delete k \<Rightarrow> sm_del k d)"

text \<open>\<open>db->Write (batch)\<close>: all operations in order.\<close>

definition write_batch :: "db_op list \<Rightarrow> kvdb \<Rightarrow> kvdb" where
  "write_batch ops d = fold apply_op ops d"

lemma write_batch_ok: "sm_inv d \<Longrightarrow> sm_inv (write_batch ops d)"
  unfolding write_batch_def
  by (induction ops arbitrary: d) (auto simp: apply_op_def smap_simps split: db_op.splits)

lemma write_batch_deletes: "write_batch (map Delete ks) d = fold sm_del ks d"
  unfolding write_batch_def by (induction ks arbitrary: d) (auto simp: apply_op_def)

text \<open>The value \<open>db->Get\<close> leaves in a string that was empty before.\<close>

definition db_text :: "kvdb \<Rightarrow> string \<Rightarrow> string" where
  "db_text d k = (case sm_get d k of None \<Rightarrow> [] | Some v \<Rightarrow> v)"

lemma db_text_put [smap_simps]: "db_text (sm_put k v d) x = (if x = k then v else db_text d x)"
  by (simp add: db_text_def smap_simps)

text \<open>Iteration from a key on, as \<open>Seek\<close> and \<open>Next\<close> do, while the prefix lasts.\<close>

definition keys_with_prefix :: "kvdb \<Rightarrow> string \<Rightarrow> string list" where
  "keys_with_prefix d prefix =
     takeWhile (\<lambda>k. starts_with k prefix) (dropWhile (\<lambda>k. k < prefix) (kv_keys d))"

section \<open>The prefix scan finds exactly the keys with the prefix\<close>

lemma prefix_not_less: "starts_with k p \<Longrightarrow> \<not> k < p"
proof (induction p arbitrary: k)
  case Nil
  then show ?case by simp
next
  case (Cons c p)
  then show ?case by (cases k) auto
qed

lemma prefix_between: "p \<le> x \<Longrightarrow> x < y \<Longrightarrow> starts_with y p \<Longrightarrow> starts_with x p"
proof (induction p arbitrary: x y)
  case Nil
  then show ?case by simp
next
  case (Cons c p)
  then obtain ys where y: "y = c # ys" "starts_with ys p" by (cases y) auto
  from Cons.prems(1) obtain d xs where x: "x = d # xs" by (cases x) auto
  have "d = c" "p \<le> xs" "xs < ys" using Cons.prems(1,2) x y by auto
  with Cons.IH y x show ?case by auto
qed

lemma takeWhile_sorted_prefix:
  assumes "sorted_wrt (<) ks" and "\<forall>k \<in> set ks. p \<le> k"
  shows "takeWhile (\<lambda>k. starts_with k p) ks = filter (\<lambda>k. starts_with k p) ks"
  using assms
proof (induction ks)
  case Nil
  then show ?case by simp
next
  case (Cons k ks)
  show ?case
  proof (cases "starts_with k p")
    case True
    with Cons show ?thesis by simp
  next
    case False
    with Cons.prems have "\<forall>y \<in> set ks. \<not> starts_with y p" using prefix_between by auto
    with False show ?thesis by (simp add: filter_empty_conv)
  qed
qed

lemma dropWhile_sorted_ge:
  fixes ks :: "'a::linorder list"
  assumes "sorted_wrt (<) ks"
  shows "\<forall>k \<in> set (dropWhile (\<lambda>k. k < p) ks). p \<le> k"
  using assms
proof (induction ks)
  case Nil
  then show ?case by simp
next
  case (Cons k ks)
  show ?case
  proof (cases "k < p")
    case True
    with Cons show ?thesis by simp
  next
    case False
    then have "p \<le> k" by simp
    then show ?thesis using Cons.prems by auto
  qed
qed

lemma keys_with_prefix_filter:
  assumes "sm_inv d"
  shows "keys_with_prefix d p = filter (\<lambda>k. starts_with k p) (kv_keys d)"
proof -
  let ?ks = "kv_keys d"
  have s: "sorted_wrt (<) ?ks" by (rule ldb.keys_sorted [OF assms])
  have ge: "\<forall>k \<in> set (dropWhile (\<lambda>k. k < p) ?ks). p \<le> k"
    by (rule dropWhile_sorted_ge [OF s])
  have "sorted_wrt (<) (dropWhile (\<lambda>k. k < p) ?ks)" using s by (simp add: sorted_wrt_dropWhile)
  then have "keys_with_prefix d p = filter (\<lambda>k. starts_with k p) (dropWhile (\<lambda>k. k < p) ?ks)"
    unfolding keys_with_prefix_def using ge by (rule takeWhile_sorted_prefix)
  also have "\<dots> = filter (\<lambda>k. starts_with k p) ?ks"
  proof -
    have "filter (\<lambda>k. starts_with k p) (takeWhile (\<lambda>k. k < p) ?ks) = []"
      using prefix_not_less by (auto simp: filter_empty_conv dest: set_takeWhileD)
    then show ?thesis by (metis append_Nil filter_append takeWhile_dropWhile_id)
  qed
  finally show ?thesis .
qed

end
