(* ===== verification/BlockStore.thy ===== *)
theory BlockStore
  imports JsonFormat KvStore "HOL-Library.Product_Lexorder"
begin

text \<open>
  The reading half of \<open>src/src/blockdb.cpp\<close>: the key scheme of the database, the lookups of
  blocks by hash and by number, the successor of a block, the stored blocks, fork
  statistics, the highest stored block and the check of a block's envelope. The store is
  the value of \<open>CBlockDB::getDatabase ()\<close>, \<open>None\<close> for a null pointer.
\<close>

type_synonym dbh = "kvdb option"

section \<open>Keys and values\<close>

definition chainMetaKey :: "string \<Rightarrow> string" where "chainMetaKey name = ''chain:'' @ name"
definition nextHashKey :: "string \<Rightarrow> string" where "nextHashKey parentHash = ''next:'' @ parentHash"
definition blockHashKey :: "string \<Rightarrow> string" where "blockHashKey hash = ''block:'' @ hash"
definition canonicalHashKey :: "int \<Rightarrow> string" where "canonicalHashKey n = ''canonical:'' @ show_long n"
definition forkBlockKey :: "block_structure \<Rightarrow> string" where
  "forkBlockKey b = ''slot:'' @ show_long (b_number b) @ '':'' @ b_hash b"
definition reorgMetaKey :: "string \<Rightarrow> string" where "reorgMetaKey name = ''last_reorg_'' @ name"
definition forkVariantCountKey :: string where "forkVariantCountKey = ''fork_variant_count''"
definition forkVariantLatestBlockKey :: string where
  "forkVariantLatestBlockKey = ''fork_variant_latest_block''"
definition legacyBlockKey :: "int \<Rightarrow> string" where "legacyBlockKey n = ''b_'' @ show_long n"
definition nextBlockKey :: "int \<Rightarrow> string" where "nextBlockKey n = ''next_block_'' @ show_long n"

definition parseLongValue :: "string \<Rightarrow> int option" where
  "parseLongValue text =
     (if text = [] then None
      else let r = strtol text
           in if \<not> st_read r \<or> st_rest r \<noteq> [] then None else Some (st_value r))"

definition readKey :: "dbh \<Rightarrow> string \<Rightarrow> string option" where
  "readKey db key =
     (case db of None \<Rightarrow> None
      | Some d \<Rightarrow> (case sm_get d key of None \<Rightarrow> None | Some v \<Rightarrow> if v = [] then None else Some v))"

definition readLongKey :: "dbh \<Rightarrow> string \<Rightarrow> int option" where
  "readLongKey db key = Option.bind (readKey db key) parseLongValue"

definition db_put :: "string \<Rightarrow> string \<Rightarrow> dbh \<Rightarrow> dbh" where
  "db_put k v db = map_option (sm_put k v) db"

definition writeLongKey :: "string \<Rightarrow> int \<Rightarrow> dbh \<Rightarrow> dbh" where
  "writeLongKey key value db = db_put key (show_long value) db"

definition db_str :: "dbh \<Rightarrow> string \<Rightarrow> string" where
  "db_str db k = (case db of None \<Rightarrow> [] | Some d \<Rightarrow> db_text d k)"

lemma parseLongValue_show [simp]: "in_long n \<Longrightarrow> parseLongValue (show_long n) = Some n"
  by (auto simp: parseLongValue_def strtol_show_long Let_def) (simp add: show_long_def split: if_splits)

lemma db_str_put [smap_simps]: "db_str (db_put k v (Some d)) x = (if x = k then v else db_str (Some d) x)"
  by (simp add: db_str_def db_put_def smap_simps)

lemma readKey_db_str: "readKey db k = (if db_str db k = [] then None else Some (db_str db k))"
  by (auto simp: readKey_def db_str_def db_text_def split: option.splits)

section \<open>Looking blocks up\<close>

definition first_block :: "block_structure list \<Rightarrow> block_structure" where
  "first_block bs = (case bs of [] \<Rightarrow> no_block | b # _ \<Rightarrow> b)"

definition parseSingleBlockJson :: "env \<Rightarrow> string \<Rightarrow> block_structure" where
  "parseSingleBlockJson E json = (if json = [] then no_block else first_block (parseBlockJson E json))"

definition rawBlockByHash :: "env \<Rightarrow> dbh \<Rightarrow> string \<Rightarrow> block_structure" where
  "rawBlockByHash E db hash =
     (case readKey db (blockHashKey hash) of None \<Rightarrow> no_block | Some json \<Rightarrow> parseSingleBlockJson E json)"

definition rawCanonicalHash :: "env \<Rightarrow> dbh \<Rightarrow> int \<Rightarrow> string" where
  "rawCanonicalHash E db number =
     (case readKey db (canonicalHashKey number) of
        Some hash \<Rightarrow> hash
      | None \<Rightarrow> (case readKey db (legacyBlockKey number) of
                   None \<Rightarrow> []
                 | Some json \<Rightarrow> b_hash (parseSingleBlockJson E json)))"

definition getBlockByHash :: "env \<Rightarrow> dbh \<Rightarrow> string \<Rightarrow> block_structure" where
  "getBlockByHash E db hash =
     (if hash = [] then no_block
      else case db of None \<Rightarrow> no_block
           | Some d \<Rightarrow> first_block (parseBlockJson E (db_text d (blockHashKey hash))))"

definition getBlock :: "env \<Rightarrow> dbh \<Rightarrow> int \<Rightarrow> block_structure" where
  "getBlock E db number =
     (case db of None \<Rightarrow> no_block
      | Some d \<Rightarrow>
          let canonicalHash = db_text d (canonicalHashKey number);
              block = (if canonicalHash \<noteq> [] then getBlockByHash E db canonicalHash else no_block)
          in if canonicalHash \<noteq> [] \<and> 0 < b_number block then block
             else case parseBlockJson E (db_text d (legacyBlockKey number)) of
                    [] \<Rightarrow> block | b # _ \<Rightarrow> b)"

definition read_id :: "dbh \<Rightarrow> string \<Rightarrow> string \<Rightarrow> int" where
  "read_id db key legacy =
     (case db of None \<Rightarrow> -1
      | Some d \<Rightarrow>
          let text = (if db_text d key = [] then db_text d legacy else db_text d key)
          in case parseLongValue text of None \<Rightarrow> -1 | Some v \<Rightarrow> v)"

definition getFirstBlockId :: "dbh \<Rightarrow> int" where
  "getFirstBlockId db = read_id db (chainMetaKey ''first_block'') ''first_block_id''"

definition getLatestBlockId :: "dbh \<Rightarrow> int" where
  "getLatestBlockId db = read_id db (chainMetaKey ''latest_block'') ''latest_block_id''"

definition getLatestBlockHash :: "env \<Rightarrow> dbh \<Rightarrow> string" where
  "getLatestBlockHash E db =
     (case db of None \<Rightarrow> []
      | Some d \<Rightarrow>
          if db_text d (chainMetaKey ''latest_hash'') \<noteq> [] then db_text d (chainMetaKey ''latest_hash'')
          else if 0 < getLatestBlockId db then b_hash (getBlock E db (getLatestBlockId db)) else [])"

definition getSchemaVersion :: "dbh \<Rightarrow> int" where
  "getSchemaVersion db =
     (case readLongKey db (chainMetaKey ''schema_version'') of None \<Rightarrow> 0 | Some v \<Rightarrow> signed_take_bit 31 v)"

section \<open>Parents, children, preferences\<close>

definition preferBlockVariant :: "block_structure \<Rightarrow> block_structure \<Rightarrow> bool" where
  "preferBlockVariant candidate current =
     (if b_number current \<le> 0 then True
      else if length (b_records candidate) \<noteq> length (b_records current)
        then length (b_records current) < length (b_records candidate)
      else b_hash candidate < b_hash current)"

definition childConnectsToParent :: "block_structure \<Rightarrow> block_structure \<Rightarrow> bool" where
  "childConnectsToParent child parent =
     (if b_number child \<le> 0 \<or> b_number parent \<le> 0 then False
      else if b_previous_id child \<noteq> b_number parent then False
      else if b_number child \<le> b_previous_id child then False
      else if b_previous_hash child = [] \<or> b_hash parent = [] then False
      else b_previous_hash child = b_hash parent)"

definition preferChainChild ::
    "block_structure \<Rightarrow> block_structure \<Rightarrow> (string, int) smap \<Rightarrow> (string, int) smap \<Rightarrow> bool" where
  "preferChainChild candidate current bestLengthByHash bestTipByHash =
     (if b_number current \<le> 0 then True
      else
        let candidateLength = sm_at 1 bestLengthByHash (b_hash candidate);
            currentLength = sm_at 1 bestLengthByHash (b_hash current)
        in if candidateLength \<noteq> currentLength then currentLength < candidateLength
           else
             let candidateTip = sm_at (b_number candidate) bestTipByHash (b_hash candidate);
                 currentTip = sm_at (b_number current) bestTipByHash (b_hash current)
             in if candidateTip \<noteq> currentTip then currentTip < candidateTip
                else preferBlockVariant candidate current)"

definition preferChainPath :: "block_structure list \<Rightarrow> block_structure list \<Rightarrow> bool" where
  "preferChainPath candidate current =
     (if current = [] then True
      else if length candidate \<noteq> length current then length current < length candidate
      else if b_number (last candidate) \<noteq> b_number (last current)
        then b_number (last current) < b_number (last candidate)
      else b_hash (last candidate) < b_hash (last current))"

definition is_block_key :: "string \<Rightarrow> bool" where
  "is_block_key k \<longleftrightarrow> starts_with k ''block:'' \<or> starts_with k ''b_'' \<or> starts_with k ''bf_''"

definition add_stored :: "block_structure list \<Rightarrow> block_structure \<Rightarrow> block_structure list" where
  "add_stored blocks b =
     (if 0 < b_number b \<and> b_hash b \<notin> b_hash ` set blocks then blocks @ [b] else blocks)"

text \<open>
  \<open>getStoredBlocks\<close>: the blocks under every block key, in key order, each hash once. The set
  \<open>seenHashes\<close> of the source is the set of the hashes of the blocks collected so far.
\<close>

definition getStoredBlocks :: "env \<Rightarrow> dbh \<Rightarrow> block_structure list" where
  "getStoredBlocks E db =
     (case db of None \<Rightarrow> []
      | Some d \<Rightarrow>
          foldl (\<lambda>blocks (k, v). if is_block_key k then foldl add_stored blocks (parseBlockJson E v) else blocks)
            [] d)"

definition getNextBlockByHash :: "env \<Rightarrow> dbh \<Rightarrow> block_structure \<Rightarrow> block_structure" where
  "getNextBlockByHash E db block =
     (if b_number block \<le> 0 \<or> b_hash block = [] then no_block
      else
        let nextHash = db_str db (nextHashKey (b_hash block));
            next1 = (if nextHash \<noteq> [] then getBlockByHash E db nextHash else no_block)
        in if nextHash \<noteq> [] \<and> childConnectsToParent next1 block then next1
           else
             let legacyNextId = (case parseLongValue (db_str db (nextBlockKey (b_number block))) of
                                   None \<Rightarrow> -1 | Some v \<Rightarrow> v);
                 next2 = (if 0 < legacyNextId then getBlock E db legacyNextId else next1)
             in if 0 < legacyNextId \<and> 0 < b_number next2 \<and> childConnectsToParent next2 block then next2
                else foldl (\<lambda>next c. if childConnectsToParent c block \<and> preferBlockVariant c next then c else next)
                       next2 (getStoredBlocks E db))"

definition getNextBlockId :: "env \<Rightarrow> dbh \<Rightarrow> int \<Rightarrow> int" where
  "getNextBlockId E db previousBlockId =
     (case db of None \<Rightarrow> -1
      | Some d \<Rightarrow>
          let result = (case parseLongValue (db_text d (nextBlockKey previousBlockId)) of None \<Rightarrow> -1 | Some v \<Rightarrow> v)
          in if result \<le> 0
             then let previousBlock = getBlock E db previousBlockId;
                      nextHash = (if b_hash previousBlock \<noteq> [] then db_text d (nextHashKey (b_hash previousBlock)) else []);
                      nextBlock = getBlockByHash E db nextHash
                  in if b_hash previousBlock \<noteq> [] \<and> nextHash \<noteq> [] \<and> childConnectsToParent nextBlock previousBlock
                     then b_number nextBlock else result
             else result)"

definition getNextBlock :: "env \<Rightarrow> dbh \<Rightarrow> block_structure \<Rightarrow> block_structure" where
  "getNextBlock E db block =
     (let nextBlock = getNextBlockByHash E db block
      in if 0 < b_number nextBlock then nextBlock
         else let nextBlock = getBlock E db (getNextBlockId E db (b_number block))
              in if 0 < b_number nextBlock \<and> childConnectsToParent nextBlock block then nextBlock
                 else nextBlock\<lparr>b_number := -1\<rparr>)"

text \<open>
  The walk along the chain that many functions make: from a block on, stop before a block
  that is past the limit, after the latest one, where there is no successor, and after
  100000 blocks. The visited blocks, in order.
\<close>

function walk_chain ::
    "(block_structure \<Rightarrow> block_structure) \<Rightarrow> (int \<Rightarrow> bool) \<Rightarrow> int \<Rightarrow> int \<Rightarrow> block_structure \<Rightarrow> block_structure list" where
  "walk_chain nxt past latest guard block =
     (if 0 < b_number block \<and> guard < 100000 \<and> \<not> past (b_number block)
      then block #
        (if b_number block = latest then []
         else let nextBlock = nxt block
              in if b_number nextBlock \<le> 0 \<or> b_number nextBlock = b_number block then []
                 else walk_chain nxt past latest (guard + 1) nextBlock)
      else [])"
  by pat_completeness auto
termination
  by (relation "measure (\<lambda>(nxt, past, latest, guard, block). nat (100000 - guard))") auto

declare walk_chain.simps [simp del]

definition getConnectedLatestBlockId :: "env \<Rightarrow> dbh \<Rightarrow> int \<times> dbh" where
  "getConnectedLatestBlockId E db =
     (let firstBlockId = getFirstBlockId db
      in if firstBlockId < 0 then (-1, db)
         else let block = getBlock E db firstBlockId;
                  visited = walk_chain (getNextBlock E db) (\<lambda>n. False) (-1) 0 block;
                  latest = (if visited = [] then b_number block else b_number (last visited))
              in (latest, db_put (chainMetaKey ''connected_latest'') (show_long latest) db))"

section \<open>Forks and the highest stored block\<close>

record ForkVariantStats =
  fv_count :: int
  fv_latest_block :: int

text \<open>The number in a key \<open>slot:<number>:<hash>\<close>.\<close>

definition slot_number_text :: "string \<Rightarrow> string option" where
  "slot_number_text key =
     (case find_str key '':'' 0 of
        None \<Rightarrow> None
      | Some firstColon \<Rightarrow>
          (case find_str key '':'' (firstColon + 1) of
             None \<Rightarrow> None
           | Some secondColon \<Rightarrow> Some (substr key (firstColon + 1) (secondColon - firstColon - 1))))"

definition count_slot :: "env \<Rightarrow> (int, int) smap option \<Rightarrow> string \<Rightarrow> (int, int) smap option" where
  "count_slot E variants key =
     (case variants of None \<Rightarrow> None
      | Some m \<Rightarrow>
          if starts_with key ''slot:''
          then (case slot_number_text key of
                  None \<Rightarrow> Some m
                | Some text \<Rightarrow> map_option (\<lambda>n. sm_put n (sm_at 0 m n + 1) m) (e_lexical_long E text))
          else Some m)"

text \<open>\<open>None\<close> when \<open>lexical_cast\<close> throws on a key.\<close>

definition scanForkVariantStats :: "env \<Rightarrow> dbh \<Rightarrow> ForkVariantStats option" where
  "scanForkVariantStats E db =
     (case db of None \<Rightarrow> Some \<lparr>fv_count = 0, fv_latest_block = -1\<rparr>
      | Some d \<Rightarrow>
          map_option
            (foldl (\<lambda>stats (n, c).
               if 1 < c then stats\<lparr>fv_count := fv_count stats + (c - 1),
                                   fv_latest_block := max (fv_latest_block stats) n\<rparr>
               else stats) \<lparr>fv_count = 0, fv_latest_block = -1\<rparr>)
            (foldl (count_slot E) (Some []) (kv_keys d)))"

definition scanForkVariantCount :: "env \<Rightarrow> dbh \<Rightarrow> int option" where
  "scanForkVariantCount E db = map_option fv_count (scanForkVariantStats E db)"

fun fork_at_or_after :: "int \<Rightarrow> int set \<Rightarrow> string list \<Rightarrow> bool" where
  "fork_at_or_after minimumBlock seen [] = False"
| "fork_at_or_after minimumBlock seen (key # ks) =
     (case (if starts_with key ''slot:'' then Option.bind (slot_number_text key) parseLongValue else None) of
        None \<Rightarrow> fork_at_or_after minimumBlock seen ks
      | Some n \<Rightarrow>
          if n < minimumBlock then fork_at_or_after minimumBlock seen ks
          else if n \<in> seen then True else fork_at_or_after minimumBlock (insert n seen) ks)"

definition hasForkVariantAtOrAfter :: "dbh \<Rightarrow> int \<Rightarrow> bool" where
  "hasForkVariantAtOrAfter db minimumBlock =
     (case db of None \<Rightarrow> False
      | Some d \<Rightarrow> if minimumBlock \<le> 0 then False else fork_at_or_after minimumBlock {} (kv_keys d))"

definition scanHighestStoredBlock :: "env \<Rightarrow> dbh \<Rightarrow> int" where
  "scanHighestStoredBlock E db =
     foldl (\<lambda>highest b. if 0 < b_number b \<and> b_hash b \<noteq> [] then max highest (b_number b) else highest)
       (-1) (getStoredBlocks E db)"

definition highestStoredBlock :: "env \<Rightarrow> dbh \<Rightarrow> int \<times> dbh" where
  "highestStoredBlock E db =
     (case readLongKey db (chainMetaKey ''stored_highest_block'') of
        Some highest \<Rightarrow> (highest, db)
      | None \<Rightarrow>
          let highest = scanHighestStoredBlock E db
          in (highest, if 0 < highest then writeLongKey (chainMetaKey ''stored_highest_block'') highest db else db))"

definition maybeUpdateHighestStoredBlock :: "int \<Rightarrow> dbh \<Rightarrow> dbh" where
  "maybeUpdateHighestStoredBlock blockNumber db =
     (if db = None \<or> blockNumber \<le> 0 then db
      else case readLongKey db (chainMetaKey ''stored_highest_block'') of
             None \<Rightarrow> writeLongKey (chainMetaKey ''stored_highest_block'') blockNumber db
           | Some highest \<Rightarrow>
               if highest < blockNumber then writeLongKey (chainMetaKey ''stored_highest_block'') blockNumber db
               else db)"

section \<open>Envelopes\<close>

definition blockEnvelopeIsValid :: "env \<Rightarrow> block_structure \<Rightarrow> bool" where
  "blockEnvelopeIsValid E b =
     (if b_number b \<le> 0 \<or> b_hash b = [] \<or> b_creator b = [] then False
      else if MAX_BLOCK_RECORDS < int (length (b_records b)) then False
      else if b_merkle_root b \<noteq> [] \<and> getRecordsMerkleRoot E (b_records b) \<noteq> b_merkle_root b then False
      else if getBlockHash E b \<noteq> b_hash b then False
      else b_signature b \<noteq> [] \<and> VerifyMessageCompressed E (b_hash b) (b_signature b) (b_creator b) = 1)"

end
