(* ===== verification/NameRegistry.thy ===== *)
theory NameRegistry
  imports Prelude
begin

text \<open>
  The contract of a registry of public names, shared by \<open>claimPublicName\<close> of
  \<open>src/src/functions/ledgerstate.cpp\<close> and \<open>claimBranchName\<close> of
  \<open>src/src/functions/chainvalidator.cpp\<close>: a list of members with a key and a name each, and a
  map from normalised names to owners. The locale states what a claim does, and proves once
  that no two members ever share a normalised name.
\<close>

type_synonym owners = "(string, string) smap"

definition registry_inv ::
    "('m \<Rightarrow> string) \<Rightarrow> ('m \<Rightarrow> string) \<Rightarrow> (string \<Rightarrow> string option) \<Rightarrow> 'm list \<Rightarrow> owners \<Rightarrow> bool" where
  "registry_inv key name norm ms os \<longleftrightarrow>
     distinct (map key ms) \<and>
     (\<forall>m \<in> set ms. name m = [] \<or> (\<exists>u. norm (name m) = Some u \<and> sm_get os u = Some (key m))) \<and>
     (\<forall>u k. sm_get os u = Some k \<longrightarrow> (\<exists>m \<in> set ms. key m = k \<and> norm (name m) = Some u))"

locale name_registry =
  fixes key :: "'m \<Rightarrow> string"
    and name :: "'m \<Rightarrow> string"
    and set_name :: "string \<Rightarrow> 'm \<Rightarrow> 'm"
    and norm :: "string \<Rightarrow> string option"
    and claim :: "'m list \<Rightarrow> owners \<Rightarrow> string \<Rightarrow> string \<Rightarrow> bool \<times> 'm list \<times> owners"
  assumes key_set_name: "key (set_name n m) = key m"
    and name_set_name: "name (set_name n m) = n"
    and norm_Nil: "norm [] = None"
    and claim_refused: "claim ms os k n = (False, ms', os') \<Longrightarrow> ms' = ms \<and> os' = os"
    and claim_granted: "claim ms os k n = (True, ms', os') \<Longrightarrow>
      \<exists>u i. norm n = Some u \<and> key_index key ms k = Some i \<and> sm_get os u \<in> {None, Some k} \<and>
        ms' = ms[i := set_name n (ms ! i)] \<and>
        (name (ms ! i) = [] \<or> norm (name (ms ! i)) \<noteq> None \<longrightarrow>
          sm_get os' = (\<lambda>v. if v = u then Some k
            else if norm (name (ms ! i)) = Some v \<and> sm_get os v = Some k then None else sm_get os v))"
begin

abbreviation reg_inv :: "'m list \<Rightarrow> owners \<Rightarrow> bool" where
  "reg_inv \<equiv> registry_inv key name norm"

lemma reg_inv_Nil: "reg_inv [] []"
  by (simp add: registry_inv_def smap_simps)

lemma claim_keys: "claim ms os k n = (r, ms', os') \<Longrightarrow> map key ms' = map key ms"
proof (cases r)
  case True
  assume "claim ms os k n = (r, ms', os')"
  with True have "claim ms os k n = (True, ms', os')" by simp
  from claim_granted [OF this] obtain i where "ms' = ms[i := set_name n (ms ! i)]" by blast
  then show ?thesis by (simp add: map_key_update key_set_name)
next
  case False
  assume "claim ms os k n = (r, ms', os')"
  with False show ?thesis using claim_refused [of ms os k n ms' os'] by simp
qed

lemma reg_inv_join:
  assumes "reg_inv ms os" and "key m \<notin> key ` set ms" and "name m = []"
  shows "reg_inv (ms @ [m]) os"
  using assms by (auto simp: registry_inv_def)

lemma update_members:
  assumes "distinct (map key ms)" and "i < length ms" and "key (ms ! i) = k"
  shows "set (ms[i := set_name n (ms ! i)]) = insert (set_name n (ms ! i)) {m \<in> set ms. key m \<noteq> k}"
proof -
  have "m \<in> set (ms[i := x]) \<longleftrightarrow> m = x \<or> m \<in> set ms \<and> key m \<noteq> k" for m x
  proof
    assume "m \<in> set (ms[i := x])"
    then obtain j where j: "j < length ms" "m = ms[i := x] ! j" by (auto simp: in_set_conv_nth)
    show "m = x \<or> m \<in> set ms \<and> key m \<noteq> k"
    proof (cases "j = i")
      case True
      with j show ?thesis by simp
    next
      case False
      with j have "m = ms ! j" by simp
      moreover have "key (ms ! j) \<noteq> key (ms ! i)"
        using False j(1) assms(1,2) nth_eq_iff_index_eq [of "map key ms" j i] by auto
      ultimately show ?thesis using j(1) assms(3) by auto
    qed
  next
    assume "m = x \<or> m \<in> set ms \<and> key m \<noteq> k"
    then show "m \<in> set (ms[i := x])"
    proof
      assume "m = x"
      then show ?thesis using assms(2) by (auto simp: set_update_memI)
    next
      assume m: "m \<in> set ms \<and> key m \<noteq> k"
      then obtain j where "j < length ms" "m = ms ! j" by (auto simp: in_set_conv_nth)
      moreover with m assms(3) have "j \<noteq> i" by auto
      ultimately show ?thesis by (metis length_list_update nth_list_update_neq nth_mem)
    qed
  qed
  then show ?thesis by blast
qed

text \<open>Only keys and names matter.\<close>

lemma reg_inv_cong:
  assumes "map (\<lambda>m. (key m, name m)) ms' = map (\<lambda>m. (key m, name m)) ms"
  shows "reg_inv ms' os = reg_inv ms os"
proof -
  have "registry_inv key name norm ms os \<longleftrightarrow>
     distinct (map fst (map (\<lambda>m. (key m, name m)) ms)) \<and>
     (\<forall>(k, n) \<in> set (map (\<lambda>m. (key m, name m)) ms). n = [] \<or> (\<exists>u. norm n = Some u \<and> sm_get os u = Some k)) \<and>
     (\<forall>u k. sm_get os u = Some k \<longrightarrow> (\<exists>(k', n) \<in> set (map (\<lambda>m. (key m, name m)) ms). k' = k \<and> norm n = Some u))" for ms
    by (simp add: registry_inv_def comp_def)
  then show ?thesis by (simp only: assms)
qed

text \<open>A claim, granted or refused, keeps the registry consistent.\<close>

lemma reg_inv_claim:
  assumes inv: "reg_inv ms os" and c: "claim ms os k n = (r, ms', os')"
  shows "reg_inv ms' os'"
proof (cases r)
  case False
  with c inv show ?thesis using claim_refused [of ms os k n ms' os'] by simp
next
  case True
  with c have "claim ms os k n = (True, ms', os')" by simp
  from claim_granted [OF this] obtain u i where u: "norm n = Some u" and i: "key_index key ms k = Some i"
    and free: "sm_get os u \<in> {None, Some k}" and ms': "ms' = ms[i := set_name n (ms ! i)]"
    and os': "name (ms ! i) = [] \<or> norm (name (ms ! i)) \<noteq> None \<longrightarrow>
      sm_get os' = (\<lambda>v. if v = u then Some k
        else if norm (name (ms ! i)) = Some v \<and> sm_get os v = Some k then None else sm_get os v)"
    by blast
  from key_index_Some [OF i] have il: "i < length ms" and ik: "key (ms ! i) = k" by auto
  have mi: "ms ! i \<in> set ms" using il by simp
  have d: "distinct (map key ms)"
    and named: "\<And>m. m \<in> set ms \<Longrightarrow> name m = [] \<or> (\<exists>u. norm (name m) = Some u \<and> sm_get os u = Some (key m))"
    and owned: "\<And>u k. sm_get os u = Some k \<Longrightarrow> \<exists>m \<in> set ms. key m = k \<and> norm (name m) = Some u"
    using inv by (auto simp: registry_inv_def)
  have get: "sm_get os' = (\<lambda>v. if v = u then Some k
        else if norm (name (ms ! i)) = Some v \<and> sm_get os v = Some k then None else sm_get os v)"
    using os' named [OF mi] by auto
  have set': "set ms' = insert (set_name n (ms ! i)) {m \<in> set ms. key m \<noteq> k}"
    unfolding ms' by (rule update_members [OF d il ik])
  have only: "m = ms ! i" if "m \<in> set ms" "key m = k" for m
    using that d mi ik by (auto simp: distinct_map dest: inj_onD)
  show ?thesis
    unfolding registry_inv_def
  proof (intro conjI ballI allI impI)
    show "distinct (map key ms')" using d claim_keys [OF c] by simp
  next
    fix m
    assume "m \<in> set ms'"
    then consider "m = set_name n (ms ! i)" | "m \<in> set ms" "key m \<noteq> k" by (auto simp: set')
    then show "name m = [] \<or> (\<exists>u. norm (name m) = Some u \<and> sm_get os' u = Some (key m))"
    proof cases
      case 1
      then show ?thesis by (simp add: u get name_set_name key_set_name ik)
    next
      case 2
      show ?thesis
      proof (cases "name m = []")
        case False
        with named [OF 2(1)] obtain w where w: "norm (name m) = Some w" "sm_get os w = Some (key m)" by blast
        then have "sm_get os' w = Some (key m)" using 2(2) free by (auto simp: get)
        with w show ?thesis by blast
      qed simp
    qed
  next
    fix v q
    assume v: "sm_get os' v = Some q"
    show "\<exists>m \<in> set ms'. key m = q \<and> norm (name m) = Some v"
    proof (cases "v = u")
      case True
      with v have "q = k" by (simp add: get)
      with True show ?thesis by (auto simp: set' key_set_name ik name_set_name u)
    next
      case False
      with v have q: "sm_get os v = Some q" and nk: "\<not> (norm (name (ms ! i)) = Some v \<and> sm_get os v = Some k)"
        by (auto simp: get split: if_splits)
      from owned [OF q] obtain m where m: "m \<in> set ms" "key m = q" "norm (name m) = Some v" by blast
      then have "key m \<noteq> k" using only nk q by auto
      with m show ?thesis by (auto simp: set')
    qed
  qed
qed

text \<open>Uniqueness: members whose names normalise alike are one member.\<close>

lemma name_unique:
  assumes "reg_inv ms os" and "m \<in> set ms" "m' \<in> set ms"
    and "norm (name m) = norm (name m')" and "norm (name m) \<noteq> None"
  shows "m = m'"
proof -
  have "name m \<noteq> []" "name m' \<noteq> []" using assms norm_Nil by auto
  moreover have "\<And>x. x \<in> set ms \<Longrightarrow> name x = [] \<or> (\<exists>u. norm (name x) = Some u \<and> sm_get os u = Some (key x))"
    using assms(1) by (simp add: registry_inv_def)
  ultimately have "key m = key m'" using assms(2-4) by (metis option.inject)
  then show ?thesis using assms(1-3) by (auto simp: registry_inv_def distinct_map dest: inj_onD)
qed

end

end
