(* ===== verification/Selector.thy ===== *)
theory Selector
  imports Records
begin

text \<open>
  \<open>src/src/functions/selector.cpp\<close>: which member may create the block of a time slot. The
  slot's seed is hashed, the first sixteen hexadecimal digits are accumulated in an
  \<open>unsigned long long\<close> and reduced modulo the number of active members. Selection works
  from a checkpoint two epochs back, falls back to the latest state, and then to the
  recovery key for at most ten blocks in a row.
\<close>

section \<open>Definitions\<close>

definition hexValue :: "char \<Rightarrow> int" where
  "hexValue c =
     (if 48 \<le> code c \<and> code c \<le> 57 then code c - 48
      else if 97 \<le> code c \<and> code c \<le> 102 then 10 + (code c - 97)
      else if 65 \<le> code c \<and> code c \<le> 70 then 10 + (code c - 65)
      else 0)"

definition getEpochSizeBlocks :: int where "getEpochSizeBlocks = 100"
definition getSelectionLagEpochs :: int where "getSelectionLagEpochs = 2"
definition getRecoveryWindowBlocks :: int where "getRecoveryWindowBlocks = 10"

definition getEpochForBlock :: "int \<Rightarrow> int \<Rightarrow> int" where
  "getEpochForBlock blockNumber genesis =
     (if genesis \<le> 0 \<or> blockNumber \<le> genesis then 0
      else cdiv (blockNumber - genesis) getEpochSizeBlocks)"

definition getSelectionBoundaryBlock :: "int \<Rightarrow> int \<Rightarrow> int" where
  "getSelectionBoundaryBlock blockNumber genesis =
     (if genesis \<le> 0 then blockNumber
      else let currentEpoch = getEpochForBlock blockNumber genesis
           in if currentEpoch < getSelectionLagEpochs then genesis
              else genesis + (currentEpoch - getSelectionLagEpochs + 1) * getEpochSizeBlocks - 1)"

definition seed_value :: "string \<Rightarrow> 64 word" where
  "seed_value hash =
     foldl (\<lambda>value c. push_bit 4 value + word_of_int (hexValue c)) 0 (c_str (take 16 hash))"

definition getSelectedIndexForBlock :: "env \<Rightarrow> int \<Rightarrow> string \<Rightarrow> int \<Rightarrow> int" where
  "getSelectedIndexForBlock E blockNumber selectionSeedHash userCount =
     (if userCount \<le> 0 then -1
      else let seed = selectionSeedHash @ '':'' @ show_long blockNumber
           in uint (seed_value (sha256 E seed) mod word_of_int userCount))"

definition getSelectedUserForBlock :: "env \<Rightarrow> int \<Rightarrow> string \<Rightarrow> string list \<Rightarrow> string" where
  "getSelectedUserForBlock E blockNumber selectionSeedHash activeUsers =
     (let index = getSelectedIndexForBlock E blockNumber selectionSeedHash (int (length activeUsers))
      in if index < 0 \<or> int (length activeUsers) \<le> index then [] else activeUsers ! nat index)"

text \<open>The creator, and the values of \<open>*recoveryMode\<close> and \<open>*latestStateFallback\<close>.\<close>

definition getAuthorizedCreatorForBlock ::
    "env \<Rightarrow> int \<Rightarrow> string \<Rightarrow> string list \<Rightarrow> string \<Rightarrow> string list \<Rightarrow> string \<Rightarrow> int \<Rightarrow> string \<times> bool \<times> bool" where
  "getAuthorizedCreatorForBlock E blockNumber selectionSeedHash checkpointActiveUsers latestSeedHash
      latestActiveUsers recoveryKey consecutiveRecoveryBlocks =
     (if checkpointActiveUsers \<noteq> [] \<and> selectionSeedHash \<noteq> []
        then (getSelectedUserForBlock E blockNumber selectionSeedHash checkpointActiveUsers, False, False)
      else if latestActiveUsers \<noteq> [] \<and> latestSeedHash \<noteq> []
        then (getSelectedUserForBlock E blockNumber latestSeedHash latestActiveUsers, False, True)
      else if recoveryKey \<noteq> [] \<and> consecutiveRecoveryBlocks < getRecoveryWindowBlocks
        then (recoveryKey, True, False)
      else ([], False, False))"

text \<open>The static list \<open>CSelector::users\<close> and the operations on it.\<close>

definition addUser :: "string \<Rightarrow> string list \<Rightarrow> string list" where
  "addUser user users =
     (let exists = foldl (\<lambda>e u. if u = user then True else e) False users
      in if exists = False then users @ [user] else users)"

definition getSelectedUser :: "env \<Rightarrow> string list \<Rightarrow> int \<Rightarrow> string" where
  "getSelectedUser E users time = getSelectedUserForBlock E time [] users"

definition isSelected :: "env \<Rightarrow> string list \<Rightarrow> string \<Rightarrow> bool" where
  "isSelected E users publicKey =
     (if users = [] then False
      else getSelectedUserForBlock E (cdiv (getEpoch E) 15) [] users = publicKey)"

section \<open>The seed\<close>

lemma hexValue_bounds: "0 \<le> hexValue c \<and> hexValue c \<le> 15"
  by (auto simp: hexValue_def)

definition hex_number :: "string \<Rightarrow> int" where
  "hex_number s = foldl (\<lambda>a c. 16 * a + hexValue c) 0 s"

lemma hex_number_snoc: "hex_number (s @ [c]) = 16 * hex_number s + hexValue c"
  by (simp add: hex_number_def)

lemma hex_number_bounds: "0 \<le> hex_number s \<and> hex_number s < 16 ^ length s"
proof (induction s rule: rev_induct)
  case Nil
  then show ?case by (simp add: hex_number_def)
next
  case (snoc c s)
  then show ?case using hexValue_bounds [of c] by (simp add: hex_number_snoc)
qed

lemma seed_fold: "foldl (\<lambda>value c. push_bit 4 value + word_of_int (hexValue c)) 0 s =
    (word_of_int (hex_number s) :: 64 word)"
proof (induction s rule: rev_induct)
  case Nil
  then show ?case by (simp add: hex_number_def)
next
  case (snoc c s)
  then show ?case
    by (simp add: hex_number_snoc push_bit_eq_mult wi_hom_syms mult.commute)
qed

text \<open>Sixteen hexadecimal digits fill the 64 bits exactly: the shifts lose nothing.\<close>

lemma uint_seed_value: "uint (seed_value hash) = hex_number (c_str (take 16 hash))"
proof -
  let ?s = "c_str (take 16 hash)"
  have "length ?s \<le> 16" 
    using length_takeWhile_le [of "\<lambda>c. c \<noteq> CHR 0x00" "take 16 hash"] by (simp add: c_str_def)
  then have "(16::int) ^ length ?s \<le> 16 ^ 16" by (intro power_increasing) auto
  then have "hex_number ?s < 2 ^ 64" using hex_number_bounds [of ?s] by simp
  then show ?thesis
    using hex_number_bounds [of ?s]
    by (simp add: seed_value_def seed_fold uint_word_of_int take_bit_int_eq_self)
qed

section \<open>Selection\<close>

lemma index_mod:
  assumes "0 < n" and "n < 2 ^ 63"
  shows "getSelectedIndexForBlock E b seed n =
      hex_number (c_str (take 16 (sha256 E (seed @ '':'' @ show_long b)))) mod n"
proof -
  have "uint (word_of_int n :: 64 word) = n"
    using assms by (simp add: uint_word_of_int take_bit_int_eq_self)
  then show ?thesis
    using assms by (simp add: getSelectedIndexForBlock_def uint_mod uint_seed_value)
qed

text \<open>
  The slot's index is the number written by the first sixteen digits of the seed's
  hash, reduced modulo the number of users: the 64-bit accumulation never wraps, and the
  index is in range.
\<close>

theorem selected_index:
  assumes "0 < n" and "n < 2 ^ 63"
  shows "getSelectedIndexForBlock E b seed n =
      hex_number (c_str (take 16 (sha256 E (seed @ '':'' @ show_long b)))) mod n \<and>
    0 \<le> getSelectedIndexForBlock E b seed n \<and> getSelectedIndexForBlock E b seed n < n"
  using assms by (simp add: index_mod)

theorem selected_index_witness:
  "getSelectedIndexForBlock demo_env 7 ''s'' 3 =
      hex_number (c_str (take 16 (sha256 demo_env (''s'' @ '':'' @ show_long 7)))) mod 3 \<and>
    0 \<le> getSelectedIndexForBlock demo_env 7 ''s'' 3 \<and> getSelectedIndexForBlock demo_env 7 ''s'' 3 < 3"
  by (rule selected_index) simp_all

lemma selected_user_in:
  assumes "users \<noteq> []" and "int (length users) < 2 ^ 63"
  shows "getSelectedUserForBlock E b seed users \<in> set users"
proof -
  let ?i = "getSelectedIndexForBlock E b seed (int (length users))"
  have "0 \<le> ?i \<and> ?i < int (length users)" using assms by (simp add: index_mod)
  then show ?thesis by (simp add: getSelectedUserForBlock_def nat_less_iff not_less)
qed

text \<open>
  Only an entitled key is ever authorised: a non-empty answer is an active member of
  the checkpoint, or of the latest state when the checkpoint has none, or the recovery key
  when neither has any and fewer than ten recovery blocks precede; and the two flags say
  which of the three it is.
\<close>

theorem authorized_creator_entitled:
  assumes "int (length checkpoint) < 2 ^ 63" and "int (length latest) < 2 ^ 63"
    and "getAuthorizedCreatorForBlock E b seed checkpoint lseed latest rkey run = (creator, recovery, fallback)"
    and "creator \<noteq> []"
  shows "if recovery then creator = rkey \<and> run < 10 \<and> (checkpoint = [] \<or> seed = []) \<and> (latest = [] \<or> lseed = [])
    else if fallback then creator \<in> set latest \<and> (checkpoint = [] \<or> seed = [])
    else creator \<in> set checkpoint"
  using assms selected_user_in [of checkpoint E b seed] selected_user_in [of latest E b lseed]
  by (auto simp: getAuthorizedCreatorForBlock_def getRecoveryWindowBlocks_def split: if_splits)

theorem authorized_creator_entitled_witness:
  "getAuthorizedCreatorForBlock demo_env 5 ''s'' [] ''t'' [] ''r'' 9 = (''r'', True, False) \<and>
    (if True then ''r'' = ''r'' \<and> (9::int) < 10 \<and> ([] = ([] :: string list) \<or> ''s'' = []) \<and>
        ([] = ([] :: string list) \<or> ''t'' = [])
     else if False then ''r'' \<in> set [] \<and> ([] = ([] :: string list) \<or> ''s'' = []) else ''r'' \<in> set [])"
proof -
  have "getAuthorizedCreatorForBlock demo_env 5 ''s'' [] ''t'' [] ''r'' 9 = (''r'', True, False)"
    by (simp add: getAuthorizedCreatorForBlock_def getRecoveryWindowBlocks_def)
  with authorized_creator_entitled [OF _ _ this] show ?thesis by simp
qed

text \<open>
  Selection for a block works from a settled state: the boundary lies between the
  genesis block and the block, and once it has left the genesis block it is between 101 and
  200 slots behind the block.
\<close>

theorem selection_boundary_lag:
  assumes "0 < g" and "g < b"
  shows "g \<le> getSelectionBoundaryBlock b g \<and> getSelectionBoundaryBlock b g < b \<and>
    (getSelectionBoundaryBlock b g = g \<or>
      101 \<le> b - getSelectionBoundaryBlock b g \<and> b - getSelectionBoundaryBlock b g \<le> 200)"
proof -
  define e where "e = (b - g) div 100"
  have ep: "getEpochForBlock b g = e"
    using assms by (simp add: getEpochForBlock_def getEpochSizeBlocks_def cdiv_nonneg e_def)
  have "100 * e \<le> b - g" "b - g < 100 * e + 100" unfolding e_def by presburger+
  then show ?thesis
    using assms
    by (simp add: getSelectionBoundaryBlock_def ep getSelectionLagEpochs_def getEpochSizeBlocks_def)
qed

theorem selection_boundary_lag_witness:
  "(1000::int) \<le> getSelectionBoundaryBlock 1450 1000 \<and> getSelectionBoundaryBlock 1450 1000 < 1450 \<and>
    (getSelectionBoundaryBlock 1450 1000 = 1000 \<or>
      101 \<le> 1450 - getSelectionBoundaryBlock 1450 1000 \<and> 1450 - getSelectionBoundaryBlock 1450 1000 \<le> 200)"
  by (rule selection_boundary_lag) simp_all

lemma addUser_set: "set (addUser u us) = insert u (set us)"
  and addUser_distinct: "distinct us \<Longrightarrow> distinct (addUser u us)"
proof -
  have *: "foldl (\<lambda>e v. if v = u then True else e) x us \<longleftrightarrow> x \<or> u \<in> set us" for x
    by (induction us arbitrary: x) auto
  show "set (addUser u us) = insert u (set us)" by (auto simp: addUser_def *)
  show "distinct us \<Longrightarrow> distinct (addUser u us)" by (auto simp: addUser_def *)
qed

end
