(* ===== verification/LedgerState.thy ===== *)
theory LedgerState
  imports BlockStore NameRegistry Selector
begin

text \<open>
  \<open>src/src/functions/ledgerstate.cpp\<close>: the state of the ledger that a walk along the
  accepted chain builds (balances, nonces, members and their names, heartbeats, carry-forward
  rewards), the cache of built states, balances at a checkpoint and the block below a number
  of confirmations. A record whose hash was met before is skipped.

  The two sets that \<open>build\<close> keeps beside the members of its result (\<open>acceptedRecordHashes\<close>,
  \<open>acceptedCarryForwardKeys\<close>) receive the same insertions as \<open>result.accepted_record_hashes\<close>
  and \<open>result.accepted_carry_forward_keys\<close> and start empty like them, so the model has one of
  each. A \<open>latest_block\<close> that was never assigned is \<open>no_block\<close>; the source leaves its numbers
  unset and tells it by its empty hash.
\<close>

section \<open>Data\<close>

record member_state =
  ms_key :: string
  ms_name :: string
  ms_join_block :: int
  ms_last_heartbeat :: int
  ms_active :: bool

type_synonym balances = "(string, double) smap"

record ledger_state =
  ls_balances :: balances
  ls_nonces :: "(string, int) smap"
  ls_names :: "(string, string) smap"
  ls_accepted :: "string set"
  ls_cf_keys :: "string set"
  ls_members :: "member_state list"
  ls_active_keys :: "string list"
  ls_issued :: double
  ls_total :: double
  ls_wallet :: double
  ls_joined :: bool
  ls_active_heartbeat :: bool
  ls_renewal_due :: bool
  ls_has_heartbeats :: bool
  ls_last_heartbeat :: int
  ls_first_id :: int
  ls_latest_id :: int
  ls_count :: int
  ls_latest_block :: block_structure

section \<open>The cache of built states\<close>

type_synonym ledger_cache = "(string, ledger_state) smap"

definition ledgerStateCacheKey :: "string \<Rightarrow> int \<Rightarrow> int \<Rightarrow> string \<Rightarrow> int \<Rightarrow> int \<Rightarrow> string" where
  "ledgerStateCacheKey walletPublicKey firstBlockId latestBlockId latestBlockHash stopBlock currentTimeBlock =
     walletPublicKey @ ''|'' @ show_long firstBlockId @ ''|'' @ show_long latestBlockId @ ''|'' @
     latestBlockHash @ ''|'' @ show_long stopBlock @ ''|'' @ show_long currentTimeBlock"

definition cachedLedgerState :: "ledger_cache \<Rightarrow> string \<Rightarrow> ledger_state option" where
  "cachedLedgerState cache key = sm_get cache key"

definition cacheLedgerState :: "string \<Rightarrow> ledger_state \<Rightarrow> ledger_cache \<Rightarrow> ledger_cache" where
  "cacheLedgerState key st cache = (let c = sm_put key st cache in drop (length c - 256) c)"

section \<open>Names\<close>

definition name_char_ok :: "char \<Rightarrow> bool" where
  "name_char_ok c \<longleftrightarrow> c_isalnum c \<or> c = CHR ''-'' \<or> c = CHR ''_''"

definition normalizedPublicName :: "string \<Rightarrow> string" where
  "normalizedPublicName name =
     (if slen name < 3 \<or> 32 < slen name then []
      else if list_all name_char_ok name then map c_tolower name else [])"

definition memberIndexByKey :: "member_state list \<Rightarrow> string \<Rightarrow> nat option" where
  "memberIndexByKey members publicKey = key_index ms_key members publicKey"

definition claimPublicName ::
    "member_state list \<Rightarrow> owners \<Rightarrow> string \<Rightarrow> string \<Rightarrow> bool \<times> member_state list \<times> owners" where
  "claimPublicName members nameOwners publicKey name =
     (let normalized = normalizedPublicName name
      in if normalized = [] then (False, members, nameOwners)
         else case memberIndexByKey members publicKey of
           None \<Rightarrow> (False, members, nameOwners)
         | Some memberIndex \<Rightarrow>
             if sm_get nameOwners normalized \<noteq> None \<and> sm_get nameOwners normalized \<noteq> Some publicKey
             then (False, members, nameOwners)
             else
               let previousName = normalizedPublicName (ms_name (members ! memberIndex));
                   nameOwners = (if previousName \<noteq> [] \<and> sm_get nameOwners previousName = Some publicKey
                                 then sm_del previousName nameOwners else nameOwners)
               in (True, members[memberIndex := (members ! memberIndex)\<lparr>ms_name := name\<rparr>],
                   sm_put normalized publicKey nameOwners))"

section \<open>Balances\<close>

definition addBalanceDelta :: "string \<Rightarrow> double \<Rightarrow> balances \<Rightarrow> balances" where
  "addBalanceDelta publicKey amount bal =
     (if publicKey = [] then bal else sm_put publicKey (dadd (sm_at (DFin 0) bal publicKey) amount) bal)"

definition parseCarryForwardValueLong :: "string \<Rightarrow> string \<Rightarrow> int" where
  "parseCarryForwardValueLong value key =
     (let prefix = key @ ''=''
      in case find_str value prefix 0 of
           None \<Rightarrow> -1
         | Some found \<Rightarrow>
             let start = found + length prefix;
                 section = (case find_str value '';'' start of
                              None \<Rightarrow> drop start value | Some end \<Rightarrow> substr value start (end - start))
             in if section = [] then -1 else atol section)"

definition carryForwardKey :: "record_structure \<Rightarrow> string" where
  "carryForwardKey r =
     (let period = parseCarryForwardValueLong (r_value r) ''period''
      in if r_recipient r = [] \<or> period < 0 then [] else r_recipient r @ '':'' @ show_long period)"

definition isBasicCarryForwardRecord :: "record_structure \<Rightarrow> int \<Rightarrow> bool" where
  "isBasicCarryForwardRecord r blockNumber =
     (if r_type r \<noteq> CARRY_FORWARD then False
      else if r_sender r = [] \<or> r_recipient r = [] then False
      else
        let checkpoint = parseCarryForwardValueLong (r_value r) ''checkpoint'';
            period = parseCarryForwardValueLong (r_value r) ''period''
        in if checkpoint < 0 \<or> period < 0 \<or> blockNumber \<le> checkpoint then False
           else dle (DFin 0) (r_amount r))"

definition issue_amount :: "double \<Rightarrow> double" where
  "issue_amount amount = (if dlt (DFin 1) amount \<or> dlt amount (DFin 0) then DFin 1 else amount)"

definition applyRecordToBalances ::
    "block_structure \<Rightarrow> record_structure \<Rightarrow> balances \<times> double \<Rightarrow> balances \<times> double" where
  "applyRecordToBalances b r = (\<lambda>(bal, issuedSupply).
     if r_type r = ISSUE_CURRENCY then
       (addBalanceDelta (r_recipient r) (issue_amount (r_amount r)) bal,
        dadd issuedSupply (issue_amount (r_amount r)))
     else if r_type r = TRANSFER_CURRENCY then
       (addBalanceDelta (b_creator b) (r_fee r)
         (addBalanceDelta (r_sender r) (dsub (dneg (r_amount r)) (r_fee r))
           (addBalanceDelta (r_recipient r) (r_amount r) bal)), issuedSupply)
     else if r_type r = VOTE then
       (addBalanceDelta (b_creator b) (r_fee r) (addBalanceDelta (r_sender r) (dneg (r_fee r)) bal),
        issuedSupply)
     else (bal, issuedSupply))"

definition checkpoint_record ::
    "block_structure \<Rightarrow> string set \<times> balances \<times> double \<Rightarrow> record_structure \<Rightarrow> string set \<times> balances \<times> double" where
  "checkpoint_record b = (\<lambda>(accepted, bs) r.
     if r_hash r \<noteq> [] \<and> r_hash r \<in> accepted then (accepted, bs)
     else (if r_hash r \<noteq> [] then insert (r_hash r) accepted else accepted, applyRecordToBalances b r bs))"

definition balancesThroughBlock :: "env \<Rightarrow> dbh \<Rightarrow> int \<Rightarrow> balances" where
  "balancesThroughBlock E db checkpointBlock =
     (let firstBlockId = getFirstBlockId db; latestBlockId = getLatestBlockId db
      in if firstBlockId < 0 \<or> latestBlockId < 0 \<or> checkpointBlock < firstBlockId then []
         else fst (snd (foldl (\<lambda>s b. foldl (checkpoint_record b) s (b_records b)) ({}, [], DFin 0)
                (walk_chain (getNextBlock E db) (\<lambda>n. checkpointBlock < n) latestBlockId 0
                   (getBlock E db firstBlockId)))))"

definition carryForwardSnapshotMatches :: "env \<Rightarrow> dbh \<Rightarrow> record_structure \<Rightarrow> bool" where
  "carryForwardSnapshotMatches E db r =
     (let checkpoint = parseCarryForwardValueLong (r_value r) ''checkpoint''
      in if checkpoint < 0 then False
         else dlt (dabs (dsub (sm_at (DFin 0) (balancesThroughBlock E db checkpoint) (r_recipient r)) (r_amount r))) EPS)"

section \<open>Building the state\<close>

text \<open>The result under construction with the local maps \<open>nameOwners\<close> and \<open>latestHeartbeatBlockByUser\<close>.\<close>

record build_state =
  bs_result :: ledger_state
  bs_owners :: owners
  bs_heartbeats :: "(string, int) smap"

definition build_start :: "dbh \<Rightarrow> int \<Rightarrow> ledger_state" where
  "build_start db stopBlock =
     (let latest = getLatestBlockId db
      in \<lparr>ls_balances = [], ls_nonces = [], ls_names = [], ls_accepted = {}, ls_cf_keys = {},
          ls_members = [], ls_active_keys = [], ls_issued = DFin 0, ls_total = DFin 0, ls_wallet = DFin 0,
          ls_joined = False, ls_active_heartbeat = False, ls_renewal_due = False, ls_has_heartbeats = False,
          ls_last_heartbeat = -1, ls_first_id = getFirstBlockId db,
          ls_latest_id = (if 0 < stopBlock \<and> (latest < 0 \<or> stopBlock < latest) then stopBlock else latest),
          ls_count = 0, ls_latest_block = no_block\<rparr>)"

definition build_claim :: "string \<Rightarrow> string \<Rightarrow> build_state \<Rightarrow> build_state" where
  "build_claim publicKey name s =
     (case claimPublicName (ls_members (bs_result s)) (bs_owners s) publicKey name of
        (ok, members, owners) \<Rightarrow> s\<lparr>bs_result := (bs_result s)\<lparr>ls_members := members\<rparr>, bs_owners := owners\<rparr>)"

definition build_join :: "string \<Rightarrow> block_structure \<Rightarrow> record_structure \<Rightarrow> build_state \<Rightarrow> build_state" where
  "build_join wallet b r s =
     (let member = \<lparr>ms_key = r_sender r, ms_name = [], ms_join_block = b_number b,
                    ms_last_heartbeat = -1, ms_active = False\<rparr>;
          s = (if memberIndexByKey (ls_members (bs_result s)) (r_sender r) = None
               then let s = s\<lparr>bs_result := (bs_result s)\<lparr>ls_members := ls_members (bs_result s) @ [member]\<rparr>\<rparr>
                    in if r_name r \<noteq> [] then build_claim (r_sender r) (r_name r) s else s
               else s)
      in if r_sender r = wallet then s\<lparr>bs_result := (bs_result s)\<lparr>ls_joined := True\<rparr>\<rparr> else s)"

definition build_heartbeat :: "string \<Rightarrow> block_structure \<Rightarrow> record_structure \<Rightarrow> build_state \<Rightarrow> build_state" where
  "build_heartbeat wallet b r s =
     s\<lparr>bs_result := (bs_result s)\<lparr>ls_has_heartbeats := True,
          ls_last_heartbeat := (if r_sender r = wallet then b_number b else ls_last_heartbeat (bs_result s))\<rparr>,
       bs_heartbeats := sm_put (r_sender r) (b_number b) (bs_heartbeats s)\<rparr>"

definition build_carry_forward :: "record_structure \<Rightarrow> build_state \<Rightarrow> build_state" where
  "build_carry_forward r s =
     (let key = carryForwardKey r; st = bs_result s
      in if key \<noteq> [] \<and> key \<notin> ls_cf_keys st
         then s\<lparr>bs_result := st\<lparr>ls_cf_keys := insert key (ls_cf_keys st),
                ls_balances := addBalanceDelta (r_sender r) CARRY_FORWARD_REWARD (ls_balances st),
                ls_issued := dadd (ls_issued st) CARRY_FORWARD_REWARD\<rparr>\<rparr>
         else s)"

definition build_membership ::
    "env \<Rightarrow> dbh \<Rightarrow> string \<Rightarrow> block_structure \<Rightarrow> record_structure \<Rightarrow> build_state \<Rightarrow> build_state" where
  "build_membership E db wallet b r s =
     (if r_type r = JOIN_NETWORK \<and> r_sender r \<noteq> [] then build_join wallet b r s
      else if r_type r = UPDATE_NAME \<and> r_sender r \<noteq> [] \<and> r_name r \<noteq> []
        then build_claim (r_sender r) (r_name r) s
      else if r_type r = HEART_BEAT \<and> r_sender r \<noteq> [] then build_heartbeat wallet b r s
      else if isBasicCarryForwardRecord r (b_number b) \<and> carryForwardSnapshotMatches E db r
        then build_carry_forward r s
      else s)"

definition build_nonce :: "record_structure \<Rightarrow> (string, int) smap \<Rightarrow> (string, int) smap" where
  "build_nonce r nonces =
     (if r_type r = TRANSFER_CURRENCY
      then let nonces = sm_touch (r_sender r) 0 nonces
           in if sm_at 0 nonces (r_sender r) < r_nonce r then sm_put (r_sender r) (r_nonce r) nonces else nonces
      else nonces)"

definition build_money :: "block_structure \<Rightarrow> record_structure \<Rightarrow> build_state \<Rightarrow> build_state" where
  "build_money b r s =
     (let st = bs_result s;
          (bal, issued) = applyRecordToBalances b r (ls_balances st, ls_issued st)
      in s\<lparr>bs_result := st\<lparr>ls_balances := bal, ls_issued := issued,
             ls_nonces := build_nonce r (ls_nonces st)\<rparr>\<rparr>)"

definition build_record ::
    "env \<Rightarrow> dbh \<Rightarrow> string \<Rightarrow> block_structure \<Rightarrow> build_state \<Rightarrow> record_structure \<Rightarrow> build_state" where
  "build_record E db wallet b s r =
     (if r_hash r \<noteq> [] \<and> r_hash r \<in> ls_accepted (bs_result s) then s
      else
        let s = (if r_hash r \<noteq> []
                 then s\<lparr>bs_result := (bs_result s)\<lparr>ls_accepted := insert (r_hash r) (ls_accepted (bs_result s))\<rparr>\<rparr>
                 else s)
        in build_money b r (build_membership E db wallet b r s))"

definition build_block :: "env \<Rightarrow> dbh \<Rightarrow> string \<Rightarrow> build_state \<Rightarrow> block_structure \<Rightarrow> build_state" where
  "build_block E db wallet s b =
     foldl (build_record E db wallet b)
       (s\<lparr>bs_result := (bs_result s)\<lparr>ls_latest_block := b, ls_count := ls_count (bs_result s) + 1\<rparr>\<rparr>)
       (b_records b)"

text \<open>The loop over the members after the walk, one member at a time.\<close>

definition finish_member :: "int \<Rightarrow> (string, int) smap \<Rightarrow> ledger_state \<Rightarrow> member_state \<Rightarrow> ledger_state" where
  "finish_member heartbeatCutoff heartbeats st m =
     (let last = sm_at (-1) heartbeats (ms_key m);
          active = (\<not> ls_has_heartbeats st \<or> heartbeatCutoff \<le> last);
          m = m\<lparr>ms_last_heartbeat := last, ms_active := ms_active m \<or> active\<rparr>
      in st\<lparr>ls_members := ls_members st @ [m],
            ls_active_keys := (if active then ls_active_keys st @ [ms_key m] else ls_active_keys st),
            ls_names := (if ms_name m \<noteq> [] then sm_put (ms_key m) (ms_name m) (ls_names st) else ls_names st)\<rparr>)"

definition finish_heartbeat :: "int \<Rightarrow> int \<Rightarrow> ledger_state \<Rightarrow> ledger_state" where
  "finish_heartbeat heartbeatCutoff heartbeatRenewCutoff st =
     (if \<not> ls_joined st then st
      else if \<not> ls_has_heartbeats st then st\<lparr>ls_active_heartbeat := True, ls_renewal_due := True\<rparr>
      else if heartbeatCutoff \<le> ls_last_heartbeat st
        then st\<lparr>ls_active_heartbeat := True, ls_renewal_due := ls_last_heartbeat st < heartbeatRenewCutoff\<rparr>
      else st\<lparr>ls_active_heartbeat := False, ls_renewal_due := True\<rparr>)"

definition finish_wallet :: "string \<Rightarrow> ledger_state \<Rightarrow> ledger_state" where
  "finish_wallet wallet st =
     (let st = st\<lparr>ls_total := foldl (\<lambda>t e. dadd t (snd e)) (ls_total st) (ls_balances st)\<rparr>
      in if wallet \<noteq> []
         then st\<lparr>ls_balances := sm_touch wallet (DFin 0) (ls_balances st),
                 ls_wallet := sm_at (DFin 0) (ls_balances st) wallet\<rparr>
         else st)"

definition build_finish :: "int \<Rightarrow> string \<Rightarrow> build_state \<Rightarrow> ledger_state" where
  "build_finish currentTimeBlock wallet s =
     (let cutoff = currentTimeBlock - HEARTBEAT_VALID_BLOCKS;
          renewCutoff = currentTimeBlock - HEARTBEAT_RENEW_BLOCKS;
          st = bs_result s;
          st = foldl (finish_member cutoff (bs_heartbeats s)) (st\<lparr>ls_members := []\<rparr>) (ls_members st)
      in finish_wallet wallet (finish_heartbeat cutoff renewCutoff st))"

text \<open>The blocks \<open>build\<close> visits, and the state it computes when the cache does not have it.\<close>

definition build_chain :: "env \<Rightarrow> dbh \<Rightarrow> int \<Rightarrow> block_structure list" where
  "build_chain E db stopBlock =
     walk_chain (getNextBlock E db) (\<lambda>n. 0 < stopBlock \<and> stopBlock < n) (ls_latest_id (build_start db stopBlock)) 0
       (getBlock E db (getFirstBlockId db))"

definition build_compute :: "env \<Rightarrow> dbh \<Rightarrow> string \<Rightarrow> int \<Rightarrow> ledger_state" where
  "build_compute E db wallet stopBlock =
     build_finish (getCurrentTimeBlock E) wallet
       (foldl (build_block E db wallet)
         \<lparr>bs_result = build_start db stopBlock, bs_owners = [], bs_heartbeats = []\<rparr>
         (build_chain E db stopBlock))"

definition build :: "env \<Rightarrow> dbh \<Rightarrow> string \<Rightarrow> int \<Rightarrow> ledger_cache \<Rightarrow> ledger_state \<times> ledger_cache" where
  "build E db walletPublicKey stopBlock cache =
     (let result = build_start db stopBlock
      in if ls_first_id result < 0 \<or> ls_latest_id result < 0 then (result, cache)
         else
           let cacheTip = getBlock E db (ls_latest_id result);
               cacheKey = ledgerStateCacheKey walletPublicKey (ls_first_id result) (ls_latest_id result)
                            (b_hash cacheTip) stopBlock (getCurrentTimeBlock E)
           in case cachedLedgerState cache cacheKey of
                Some st \<Rightarrow> (st, cache)
              | None \<Rightarrow>
                  let result = build_compute E db walletPublicKey stopBlock
                  in (result, cacheLedgerState cacheKey result cache))"

section \<open>The other operations\<close>

definition balanceAtBlock :: "env \<Rightarrow> dbh \<Rightarrow> string \<Rightarrow> int \<Rightarrow> double" where
  "balanceAtBlock E db publicKey checkpointBlock =
     (if publicKey = [] then DFin 0 else sm_at (DFin 0) (balancesThroughBlock E db checkpointBlock) publicKey)"

definition confirmedStopBlock :: "env \<Rightarrow> dbh \<Rightarrow> int \<Rightarrow> int" where
  "confirmedStopBlock E db confirmationBlocks =
     (let firstBlockId = getFirstBlockId db; latestBlockId = getLatestBlockId db
      in if firstBlockId < 0 \<or> latestBlockId < 0 then -1
         else if confirmationBlocks \<le> 0 then latestBlockId
         else
           let connectedBlocks = map b_number
                 (walk_chain (getNextBlock E db) (\<lambda>n. False) latestBlockId 0 (getBlock E db firstBlockId))
           in if int (length connectedBlocks) \<le> confirmationBlocks then firstBlockId - 1
              else connectedBlocks ! nat (int (length connectedBlocks) - confirmationBlocks - 1))"

definition activeMemberKeysAt :: "ledger_state \<Rightarrow> int \<Rightarrow> string list" where
  "activeMemberKeysAt st blockNumber =
     (let blockNumber = (if blockNumber \<le> 0 then ls_latest_id st else blockNumber);
          heartbeatCutoff = blockNumber - HEARTBEAT_VALID_BLOCKS
      in map ms_key (filter (\<lambda>m. \<not> ls_has_heartbeats st \<or> heartbeatCutoff \<le> ms_last_heartbeat m) (ls_members st)))"

end
