(* ===== verification/ChainValidator.thy ===== *)
theory ChainValidator
  imports LedgerState
begin

text \<open>
  \<open>src/src/functions/chainvalidator.cpp\<close>: \<open>validateConnectedChain\<close>, which checks a whole
  branch from its genesis block, and \<open>validateBlockForStorage\<close>, which checks one block against
  the database before it is stored. A check returns \<open>Inl reason\<close> where the source sets
  \<open>reason\<close> and returns false, and \<open>Inr\<close> of the state it goes on with otherwise.

  The two functions begin with the same checks of a block and of a record; those are one
  definition each here. \<open>parseCarryForwardValueLong\<close>, \<open>carryForwardKey\<close>,
  \<open>isBasicCarryForwardRecord\<close> and \<open>memberIndexByKey\<close> are the same text in this file and in
  \<open>ledgerstate.cpp\<close>, and are those of \<open>LedgerState\<close>.
\<close>

section \<open>Names, members, snapshots\<close>

definition INVALID_NAME :: string where "INVALID_NAME = ''#invalid''"

definition normalizedBranchName :: "string \<Rightarrow> string" where
  "normalizedBranchName name =
     (if name = [] then []
      else if slen name < 3 \<or> 32 < slen name then INVALID_NAME
      else if list_all name_char_ok name then map c_tolower name else INVALID_NAME)"

definition recordRequiresSenderSignature :: "record_structure \<Rightarrow> bool" where
  "recordRequiresSenderSignature r \<longleftrightarrow>
     r_type r = JOIN_NETWORK \<or> r_type r = ISSUE_CURRENCY \<or> r_type r = TRANSFER_CURRENCY \<or>
     r_type r = CARRY_FORWARD \<or> r_type r = VOTE \<or> r_type r = HEART_BEAT \<or> r_type r = UPDATE_NAME"

record BranchMember =
  bm_key :: string
  bm_name :: string
  bm_join_block :: int
  bm_last_heartbeat :: int

record BranchSnapshot =
  sn_number :: int
  sn_hash :: string
  sn_members :: "BranchMember list"
  sn_has_heartbeats :: bool

definition branchMemberIndexByKey :: "BranchMember list \<Rightarrow> string \<Rightarrow> nat option" where
  "branchMemberIndexByKey members publicKey = key_index bm_key members publicKey"

definition branchNameTakenByAnother :: "owners \<Rightarrow> string \<Rightarrow> string \<Rightarrow> bool" where
  "branchNameTakenByAnother nameOwners name owner =
     (let normalized = normalizedBranchName name
      in if normalized = [] then False
         else if normalized = INVALID_NAME then True
         else sm_get nameOwners normalized \<noteq> None \<and> sm_get nameOwners normalized \<noteq> Some owner)"

definition claimBranchName ::
    "BranchMember list \<Rightarrow> owners \<Rightarrow> string \<Rightarrow> string \<Rightarrow> bool \<times> BranchMember list \<times> owners" where
  "claimBranchName members nameOwners publicKey name =
     (let normalized = normalizedBranchName name
      in if normalized = [] \<or> normalized = INVALID_NAME then (False, members, nameOwners)
         else case branchMemberIndexByKey members publicKey of
           None \<Rightarrow> (False, members, nameOwners)
         | Some memberIndex \<Rightarrow>
             if branchNameTakenByAnother nameOwners name publicKey then (False, members, nameOwners)
             else
               let previousName = normalizedBranchName (bm_name (members ! memberIndex));
                   nameOwners = (if previousName \<noteq> [] \<and> sm_get nameOwners previousName = Some publicKey
                                 then sm_del previousName nameOwners else nameOwners)
               in (True, members[memberIndex := (members ! memberIndex)\<lparr>bm_name := name\<rparr>],
                   sm_put normalized publicKey nameOwners))"

definition activeMemberKeysForBlock :: "BranchMember list \<Rightarrow> bool \<Rightarrow> int \<Rightarrow> string list" where
  "activeMemberKeysForBlock members chainHasHeartbeatRecords blockNumber =
     (let heartbeatCutoff = blockNumber - HEARTBEAT_VALID_BLOCKS
      in map bm_key (filter (\<lambda>m. \<not> chainHasHeartbeatRecords \<or> heartbeatCutoff \<le> bm_last_heartbeat m) members))"

definition configuredRecoveryPublicKey :: "network_config \<Rightarrow> string \<Rightarrow> string" where
  "configuredRecoveryPublicKey config genesisCreatorKey =
     (if recoveryPublicKey config \<noteq> [] then recoveryPublicKey config else genesisCreatorKey)"

text \<open>
  The blocks before the one that is checked are given in order; the loop runs back from the
  last one.
\<close>

definition consecutiveRecoveryBlocksInBranch :: "block_structure list \<Rightarrow> string \<Rightarrow> int" where
  "consecutiveRecoveryBlocksInBranch before recoveryKey =
     (if recoveryKey = [] then 0
      else int (length (takeWhile (\<lambda>b. b_creator b = recoveryKey)
             (take (nat getRecoveryWindowBlocks) (rev before)))))"

definition selectionSnapshotForBlock :: "BranchSnapshot list \<Rightarrow> int \<Rightarrow> int \<Rightarrow> BranchSnapshot option" where
  "selectionSnapshotForBlock snapshots blockNumber genesis =
     (if snapshots = [] then None
      else
        let boundary = getSelectionBoundaryBlock blockNumber genesis;
            upto = takeWhile (\<lambda>s. sn_number s \<le> boundary) snapshots
        in Some (if upto = [] then hd snapshots else last upto))"

section \<open>Checks shared by both validators\<close>

definition check_block_header :: "env \<Rightarrow> block_structure \<Rightarrow> string + unit" where
  "check_block_header E b =
     (if b_number b \<le> 0 then Inl ''block number is invalid''
      else if b_hash b = [] then Inl ''block hash is missing''
      else if MAX_BLOCK_RECORDS < int (length (b_records b)) then Inl ''too many records''
      else if b_merkle_root b \<noteq> [] \<and> getRecordsMerkleRoot E (b_records b) \<noteq> b_merkle_root b
        then Inl ''records merkle root mismatch''
      else if getBlockHash E b \<noteq> b_hash b then Inl ''block hash mismatch''
      else if b_creator b = [] then Inl ''block creator is missing''
      else if b_signature b = [] \<or> VerifyMessageCompressed E (b_hash b) (b_signature b) (b_creator b) \<noteq> 1
        then Inl ''block signature is invalid''
      else Inr ())"

definition check_record_form :: "env \<Rightarrow> string set \<Rightarrow> record_structure \<Rightarrow> string + unit" where
  "check_record_form E blockRecordHashes r =
     (if \<not> isRecordSizeValid E r then Inl ''record is oversized''
      else if r_hash r = [] \<or> getRecordHash E r \<noteq> r_hash r then Inl ''record hash mismatch''
      else if r_hash r \<in> blockRecordHashes then Inl ''duplicate record hash in block''
      else Inr ())"

definition check_record_signature :: "env \<Rightarrow> record_structure \<Rightarrow> string + unit" where
  "check_record_signature E r =
     (if recordRequiresSenderSignature r \<and> r_sender r = [] then Inl ''record sender key is missing''
      else if recordRequiresSenderSignature r \<and>
          (r_signature r = [] \<or> VerifyMessageCompressed E (r_hash r) (r_signature r) (r_sender r) \<noteq> 1)
        then Inl ''record signature is invalid''
      else Inr ())"

text \<open>\<open>balances[key] += amount\<close> and \<open>balances[key] -= amount\<close>.\<close>

definition credit :: "string \<Rightarrow> double \<Rightarrow> balances \<Rightarrow> balances" where
  "credit key amount bal = sm_put key (dadd (sm_at (DFin 0) bal key) amount) bal"

definition debit :: "string \<Rightarrow> double \<Rightarrow> balances \<Rightarrow> balances" where
  "debit key amount bal = sm_put key (dsub (sm_at (DFin 0) bal key) amount) bal"

definition transfer_balances :: "block_structure \<Rightarrow> record_structure \<Rightarrow> balances \<Rightarrow> balances" where
  "transfer_balances b r bal =
     credit (b_creator b) (r_fee r)
       (debit (r_sender r) (dadd (r_amount r) (r_fee r)) (credit (r_recipient r) (r_amount r) bal))"

definition transfer_debit :: "record_structure \<Rightarrow> double" where
  "transfer_debit r = (if r_sender r = r_recipient r then r_fee r else dadd (r_amount r) (r_fee r))"

section \<open>The connected chain\<close>

record branch_state =
  br_balances :: balances
  br_nonces :: "(string, int) smap"
  br_members :: "BranchMember list"
  br_owners :: owners
  br_accepted :: "string set"
  br_cf_keys :: "string set"
  br_snapshots :: "BranchSnapshot list"
  br_has_heartbeats :: bool

definition branch_start :: branch_state where
  "branch_start =
     \<lparr>br_balances = [], br_nonces = [], br_members = [], br_owners = [], br_accepted = {}, br_cf_keys = {},
      br_snapshots = [], br_has_heartbeats = False\<rparr>"

definition branch_issue :: "block_structure \<Rightarrow> branch_state \<Rightarrow> record_structure \<Rightarrow> string + branch_state" where
  "branch_issue b s r =
     (if dlt (r_amount r) (DFin 0) \<or> dlt (DFin 1) (r_amount r) then Inl ''issue amount is invalid''
      else if r_sender r \<noteq> b_creator b \<or> r_recipient r \<noteq> b_creator b
        then Inl ''issue reward must pay the block creator''
      else Inr (s\<lparr>br_balances := credit (r_recipient r) (r_amount r) (br_balances s)\<rparr>))"

definition branch_transfer :: "block_structure \<Rightarrow> branch_state \<Rightarrow> record_structure \<Rightarrow> string + branch_state" where
  "branch_transfer b s r =
     (if dle (r_amount r) (DFin 0) \<or> dlt (r_fee r) (DFin 0) then Inl ''transfer amount or fee is invalid''
      else
        let rooted = b_merkle_root b \<noteq> [];
            nonces = (if rooted then sm_touch (r_sender r) 0 (br_nonces s) else br_nonces s)
        in if rooted \<and> r_nonce r \<noteq> sm_at 0 nonces (r_sender r) + 1 then Inl ''transfer nonce is invalid''
           else
             let bal = sm_touch (r_sender r) (DFin 0) (br_balances s)
             in if dlt (dadd (sm_at (DFin 0) bal (r_sender r)) EPS) (transfer_debit r)
                then Inl ''transfer overspends sender balance''
                else Inr (s\<lparr>br_balances := transfer_balances b r bal,
                            br_nonces := (if rooted then sm_put (r_sender r) (r_nonce r) nonces else nonces)\<rparr>))"

definition branch_vote :: "block_structure \<Rightarrow> branch_state \<Rightarrow> record_structure \<Rightarrow> string + branch_state" where
  "branch_vote b s r =
     (if dlt (r_fee r) (DFin 0) then Inl ''vote fee overspends sender balance''
      else
        let bal = sm_touch (r_sender r) (DFin 0) (br_balances s)
        in if dlt (dadd (sm_at (DFin 0) bal (r_sender r)) EPS) (r_fee r)
           then Inl ''vote fee overspends sender balance''
           else Inr (s\<lparr>br_balances := credit (b_creator b) (r_fee r) (debit (r_sender r) (r_fee r) bal)\<rparr>))"

definition branch_claim :: "string \<Rightarrow> string \<Rightarrow> branch_state \<Rightarrow> string + branch_state" where
  "branch_claim key name s =
     (case claimBranchName (br_members s) (br_owners s) key name of
        (ok, members, owners) \<Rightarrow>
          if ok then Inr (s\<lparr>br_members := members, br_owners := owners\<rparr>)
          else Inl ''public name is unavailable'')"

definition branch_join ::
    "bool \<Rightarrow> block_structure \<Rightarrow> branch_state \<Rightarrow> record_structure \<Rightarrow> string + branch_state" where
  "branch_join isGenesis b s r =
     (if \<not> isGenesis \<and> branchMemberIndexByKey (br_members s) (r_sender r) \<noteq> None then Inl ''member already joined''
      else if r_name r \<noteq> [] \<and> branchNameTakenByAnother (br_owners s) (r_name r) (r_sender r)
        then Inl ''public name is unavailable''
      else
        let member = \<lparr>bm_key = r_sender r, bm_name = [], bm_join_block = b_number b, bm_last_heartbeat = -1\<rparr>;
            s = (if branchMemberIndexByKey (br_members s) (r_sender r) = None
                 then s\<lparr>br_members := br_members s @ [member]\<rparr> else s)
        in if r_name r \<noteq> [] then branch_claim (r_sender r) (r_name r) s else Inr s)"

definition branch_update_name :: "branch_state \<Rightarrow> record_structure \<Rightarrow> string + branch_state" where
  "branch_update_name s r =
     (if branchMemberIndexByKey (br_members s) (r_sender r) = None then Inl ''name update sender is not a member''
      else if r_name r = [] then Inl ''public name is unavailable''
      else branch_claim (r_sender r) (r_name r) s)"

definition branch_heartbeat ::
    "bool \<Rightarrow> block_structure \<Rightarrow> branch_state \<Rightarrow> record_structure \<Rightarrow> string + branch_state" where
  "branch_heartbeat isGenesis b s r =
     (case branchMemberIndexByKey (br_members s) (r_sender r) of
        None \<Rightarrow> if \<not> isGenesis then Inl ''heartbeat sender is not a member'' else Inr s
      | Some i \<Rightarrow>
          Inr (s\<lparr>br_members := (br_members s)[i := (br_members s ! i)\<lparr>bm_last_heartbeat := b_number b\<rparr>],
                 br_has_heartbeats := True\<rparr>))"

definition branch_carry_forward ::
    "block_structure \<Rightarrow> branch_state \<Rightarrow> record_structure \<Rightarrow> string + branch_state" where
  "branch_carry_forward b s r =
     (let checkpoint = parseCarryForwardValueLong (r_value r) ''checkpoint'';
          period = parseCarryForwardValueLong (r_value r) ''period''
      in if dlt (r_amount r) (DFin 0) \<or> checkpoint < 0 \<or> period < 0 \<or> b_number b \<le> checkpoint
         then Inl ''carry-forward amount is invalid''
         else
           let key = carryForwardKey r
           in if key \<noteq> [] \<and> key \<notin> br_cf_keys s
              then Inr (s\<lparr>br_cf_keys := insert key (br_cf_keys s),
                          br_balances := credit (r_sender r) CARRY_FORWARD_REWARD (br_balances s)\<rparr>)
              else Inr s)"

definition branch_rules ::
    "bool \<Rightarrow> block_structure \<Rightarrow> branch_state \<Rightarrow> record_structure \<Rightarrow> string + branch_state" where
  "branch_rules isGenesis b s r =
     (case r_type r of
        ISSUE_CURRENCY \<Rightarrow> branch_issue b s r
      | TRANSFER_CURRENCY \<Rightarrow> branch_transfer b s r
      | VOTE \<Rightarrow> branch_vote b s r
      | JOIN_NETWORK \<Rightarrow> branch_join isGenesis b s r
      | UPDATE_NAME \<Rightarrow> branch_update_name s r
      | HEART_BEAT \<Rightarrow> branch_heartbeat isGenesis b s r
      | CARRY_FORWARD \<Rightarrow> branch_carry_forward b s r
      | PERIOD_SUMMARY \<Rightarrow> Inl ''period summary records are not accepted''
      | OTHER_TYPE n \<Rightarrow> Inl ''unknown record type'')"

definition branch_record ::
    "env \<Rightarrow> bool \<Rightarrow> block_structure \<Rightarrow> string set \<Rightarrow> branch_state \<Rightarrow> record_structure \<Rightarrow> string + branch_state" where
  "branch_record E isGenesis b blockRecordHashes s r =
     (case check_record_form E blockRecordHashes r of Inl e \<Rightarrow> Inl e
      | Inr _ \<Rightarrow>
          if r_hash r \<in> br_accepted s then Inl ''duplicate record hash already exists in chain''
          else case check_record_signature E r of Inl e \<Rightarrow> Inl e
               | Inr _ \<Rightarrow> branch_rules isGenesis b (s\<lparr>br_accepted := insert (r_hash r) (br_accepted s)\<rparr>) r)"

fun branch_records ::
    "env \<Rightarrow> bool \<Rightarrow> block_structure \<Rightarrow> string set \<Rightarrow> branch_state \<Rightarrow> record_structure list \<Rightarrow> string + branch_state" where
  "branch_records E isGenesis b hashes s [] = Inr s"
| "branch_records E isGenesis b hashes s (r # rs) =
     (case branch_record E isGenesis b hashes s r of Inl e \<Rightarrow> Inl e
      | Inr s \<Rightarrow> branch_records E isGenesis b (insert (r_hash r) hashes) s rs)"

definition branch_genesis :: "network_config \<Rightarrow> block_structure \<Rightarrow> string + unit" where
  "branch_genesis config b =
     (if 0 < b_previous_id b \<or> b_previous_hash b \<noteq> [] then Inl ''genesis block has a parent''
      else if \<not> genesisMatches config (b_number b) (b_hash b) then Inl ''genesis block does not match safire.conf''
      else Inr ())"

text \<open>The creator that the branch before the block selects for it.\<close>

definition branch_selected ::
    "env \<Rightarrow> network_config \<Rightarrow> block_structure list \<Rightarrow> branch_state \<Rightarrow> BranchSnapshot \<Rightarrow> block_structure \<Rightarrow> string" where
  "branch_selected E config before s snapshot b =
     (let recoveryKey = configuredRecoveryPublicKey config (b_creator (hd before))
      in fst (getAuthorizedCreatorForBlock E (b_number b) (sn_hash snapshot)
           (activeMemberKeysForBlock (sn_members snapshot) (sn_has_heartbeats snapshot) (b_number b))
           (b_hash (last before))
           (activeMemberKeysForBlock (br_members s) (br_has_heartbeats s) (b_number b))
           recoveryKey (consecutiveRecoveryBlocksInBranch before recoveryKey)))"

definition branch_successor ::
    "env \<Rightarrow> network_config \<Rightarrow> block_structure list \<Rightarrow> branch_state \<Rightarrow> block_structure \<Rightarrow> string + unit" where
  "branch_successor E config before s b =
     (let parent = last before
      in if b_previous_id b \<noteq> b_number parent then Inl ''previous block id does not match parent''
         else if b_number b \<le> b_previous_id b then Inl ''previous block id is not before block number''
         else if b_previous_hash b \<noteq> b_hash parent then Inl ''previous block hash does not match parent''
         else case selectionSnapshotForBlock (br_snapshots s) (b_number b) (b_number (hd before)) of
           None \<Rightarrow> Inl ''selection checkpoint is missing''
         | Some snapshot \<Rightarrow>
             if sn_hash snapshot = [] then Inl ''selection checkpoint is missing''
             else
               let selectedCreator = branch_selected E config before s snapshot b
               in if selectedCreator = [] then Inl ''no active members or recovery creator can create blocks''
                  else if selectedCreator \<noteq> b_creator b then Inl ''block creator is not selected for this slot''
                  else Inr ())"

definition branch_snapshot :: "block_structure \<Rightarrow> branch_state \<Rightarrow> branch_state" where
  "branch_snapshot b s =
     s\<lparr>br_snapshots := br_snapshots s @
         [\<lparr>sn_number = b_number b, sn_hash = b_hash b, sn_members = br_members s,
           sn_has_heartbeats = br_has_heartbeats s\<rparr>]\<rparr>"

definition branch_block ::
    "env \<Rightarrow> network_config \<Rightarrow> block_structure list \<Rightarrow> branch_state \<Rightarrow> block_structure \<Rightarrow> string + branch_state" where
  "branch_block E config before s b =
     (case check_block_header E b of Inl e \<Rightarrow> Inl e
      | Inr _ \<Rightarrow>
          (case (if before = [] then branch_genesis config b else branch_successor E config before s b) of
             Inl e \<Rightarrow> Inl e
           | Inr _ \<Rightarrow>
               (case branch_records E (before = []) b {} s (b_records b) of
                  Inl e \<Rightarrow> Inl e
                | Inr s \<Rightarrow> Inr (branch_snapshot b s))))"

fun branch_blocks ::
    "env \<Rightarrow> network_config \<Rightarrow> block_structure list \<Rightarrow> branch_state \<Rightarrow> block_structure list \<Rightarrow> string + branch_state" where
  "branch_blocks E config before s [] = Inr s"
| "branch_blocks E config before s (b # bs) =
     (case branch_block E config before s b of Inl e \<Rightarrow> Inl e
      | Inr s \<Rightarrow> branch_blocks E config (before @ [b]) s bs)"

definition validateConnectedChain :: "env \<Rightarrow> block_structure list \<Rightarrow> string + unit" where
  "validateConnectedChain E chain =
     (if chain = [] then Inl ''candidate chain is empty''
      else case branch_blocks E (env_config E) [] branch_start chain of Inl e \<Rightarrow> Inl e | Inr _ \<Rightarrow> Inr ())"

end
