(* ===== verification/StorageValidator.thy ===== *)
theory StorageValidator
  imports ChainValidator
begin

text \<open>
  \<open>CChainValidator::validateBlockForStorage\<close> of \<open>src/src/functions/chainvalidator.cpp\<close>: the
  checks of one block against the database, and the cache of ledger states by block hash
  that it reads and fills. Its effects are on two caches, that one and the cache of
  \<open>LedgerState.build\<close>, which the record \<open>caches\<close> holds.

  A default-initialised \<open>CLedgerState::state\<close> has empty containers and unset numbers and
  flags; the argument \<open>u\<close> stands for what the unset members happen to hold.
\<close>

section \<open>The cache of states by block hash\<close>

record caches =
  c_ledger :: ledger_cache
  c_states :: "(string, ledger_state) smap"

definition cachedLedgerStateForBlock :: "(string, ledger_state) smap \<Rightarrow> block_structure \<Rightarrow> ledger_state option" where
  "cachedLedgerStateForBlock states b =
     (case sm_get states (b_hash b) of
        None \<Rightarrow> None
      | Some st \<Rightarrow>
          if ls_latest_id st \<noteq> b_number b \<or> b_hash (ls_latest_block st) \<noteq> b_hash b then None else Some st)"

definition cacheLedgerStateForBlock ::
    "block_structure \<Rightarrow> ledger_state \<Rightarrow> (string, ledger_state) smap \<Rightarrow> (string, ledger_state) smap" where
  "cacheLedgerStateForBlock b st states =
     (if b_hash b = [] \<or> b_number b \<le> 0 then states
      else let states = sm_put (b_hash b) st states
           in if 2048 < length states then tl states else states)"

definition carryForwardBalanceMatches :: "env \<Rightarrow> dbh \<Rightarrow> record_structure \<Rightarrow> bool" where
  "carryForwardBalanceMatches E db r =
     (let checkpoint = parseCarryForwardValueLong (r_value r) ''checkpoint''
      in if checkpoint < 0 then False
         else dlt (dabs (dsub (balanceAtBlock E db (r_recipient r) checkpoint) (r_amount r))) EPS)"

section \<open>Applying a block to a cached state\<close>

definition cached_join :: "block_structure \<Rightarrow> record_structure \<Rightarrow> ledger_state \<Rightarrow> ledger_state" where
  "cached_join b r st =
     (let member = \<lparr>ms_key = r_sender r, ms_name = [], ms_join_block = b_number b,
                    ms_last_heartbeat = -1, ms_active = False\<rparr>;
          st = (if memberIndexByKey (ls_members st) (r_sender r) = None
                then st\<lparr>ls_members := ls_members st @ [member]\<rparr> else st)
      in if r_name r \<noteq> []
         then case memberIndexByKey (ls_members st) (r_sender r) of
                None \<Rightarrow> st
              | Some i \<Rightarrow> st\<lparr>ls_members := (ls_members st)[i := (ls_members st ! i)\<lparr>ms_name := r_name r\<rparr>],
                              ls_names := sm_put (r_sender r) (r_name r) (ls_names st)\<rparr>
         else st)"

definition cached_rename :: "record_structure \<Rightarrow> ledger_state \<Rightarrow> ledger_state" where
  "cached_rename r st =
     (case memberIndexByKey (ls_members st) (r_sender r) of
        None \<Rightarrow> st
      | Some i \<Rightarrow> st\<lparr>ls_members := (ls_members st)[i := (ls_members st ! i)\<lparr>ms_name := r_name r\<rparr>],
                      ls_names := sm_put (r_sender r) (r_name r) (ls_names st)\<rparr>)"

definition cached_heartbeat :: "block_structure \<Rightarrow> record_structure \<Rightarrow> ledger_state \<Rightarrow> ledger_state" where
  "cached_heartbeat b r st =
     (case memberIndexByKey (ls_members st) (r_sender r) of
        None \<Rightarrow> st
      | Some i \<Rightarrow> st\<lparr>ls_members := (ls_members st)[i := (ls_members st ! i)\<lparr>ms_last_heartbeat := b_number b\<rparr>],
                      ls_has_heartbeats := True\<rparr>)"

definition cached_transfer :: "block_structure \<Rightarrow> record_structure \<Rightarrow> ledger_state \<Rightarrow> ledger_state" where
  "cached_transfer b r st =
     (let nonces = sm_touch (r_sender r) 0 (ls_nonces st)
      in st\<lparr>ls_balances := transfer_balances b r (ls_balances st),
            ls_nonces := (if sm_at 0 nonces (r_sender r) < r_nonce r
                          then sm_put (r_sender r) (r_nonce r) nonces else nonces)\<rparr>)"

definition cached_carry_forward :: "record_structure \<Rightarrow> ledger_state \<Rightarrow> ledger_state" where
  "cached_carry_forward r st =
     (let key = carryForwardKey r
      in if key \<noteq> [] \<and> key \<notin> ls_cf_keys st
         then st\<lparr>ls_cf_keys := insert key (ls_cf_keys st),
                 ls_balances := credit (r_sender r) CARRY_FORWARD_REWARD (ls_balances st),
                 ls_issued := dadd (ls_issued st) CARRY_FORWARD_REWARD\<rparr>
         else st)"

definition applyRecordToCachedState ::
    "env \<Rightarrow> dbh \<Rightarrow> block_structure \<Rightarrow> ledger_state \<Rightarrow> record_structure \<Rightarrow> ledger_state" where
  "applyRecordToCachedState E db b st r =
     (let st = (if r_hash r \<noteq> [] then st\<lparr>ls_accepted := insert (r_hash r) (ls_accepted st)\<rparr> else st)
      in case r_type r of
           ISSUE_CURRENCY \<Rightarrow> st\<lparr>ls_balances := credit (r_recipient r) (r_amount r) (ls_balances st),
                                ls_issued := dadd (ls_issued st) (r_amount r)\<rparr>
         | TRANSFER_CURRENCY \<Rightarrow> cached_transfer b r st
         | VOTE \<Rightarrow> st\<lparr>ls_balances := credit (b_creator b) (r_fee r) (debit (r_sender r) (r_fee r) (ls_balances st))\<rparr>
         | JOIN_NETWORK \<Rightarrow> cached_join b r st
         | UPDATE_NAME \<Rightarrow> cached_rename r st
         | HEART_BEAT \<Rightarrow> cached_heartbeat b r st
         | CARRY_FORWARD \<Rightarrow>
             if isBasicCarryForwardRecord r (b_number b) \<and> carryForwardBalanceMatches E db r
             then cached_carry_forward r st else st
         | _ \<Rightarrow> st)"

definition applyBlockToCachedState :: "env \<Rightarrow> dbh \<Rightarrow> ledger_state \<Rightarrow> block_structure \<Rightarrow> ledger_state" where
  "applyBlockToCachedState E db parentState b =
     foldl (applyRecordToCachedState E db b)
       (parentState\<lparr>ls_first_id := (if ls_first_id parentState < 0 then b_number b else ls_first_id parentState),
                    ls_latest_id := b_number b, ls_latest_block := b, ls_count := ls_count parentState + 1\<rparr>)
       (b_records b)"

section \<open>Questions about the state and the store\<close>

definition recordExistsInChain :: "env \<Rightarrow> dbh \<Rightarrow> string \<Rightarrow> int \<Rightarrow> bool" where
  "recordExistsInChain E db recordHash stopBlock =
     (if recordHash = [] then False
      else
        let firstBlockId = getFirstBlockId db
        in if firstBlockId < 0 \<or> stopBlock < firstBlockId then False
           else \<exists>b \<in> set (walk_chain (getNextBlock E db) (\<lambda>n. stopBlock < n) stopBlock 0 (getBlock E db firstBlockId)).
                  \<exists>r \<in> set (b_records b). r_hash r = recordHash)"

definition nameTakenByAnother :: "ledger_state \<Rightarrow> string \<Rightarrow> string \<Rightarrow> bool" where
  "nameTakenByAnother st name owner =
     (let normalized = normalizedBranchName name
      in if normalized = [] then False
         else if normalized = INVALID_NAME then True
         else \<exists>e \<in> set (ls_names st). normalizedBranchName (snd e) = normalized \<and> fst e \<noteq> owner)"

definition isJoinedMember :: "ledger_state \<Rightarrow> string \<Rightarrow> bool" where
  "isJoinedMember st publicKey \<longleftrightarrow> (\<exists>m \<in> set (ls_members st). ms_key m = publicKey)"

function recovery_run :: "env \<Rightarrow> dbh \<Rightarrow> string \<Rightarrow> block_structure \<Rightarrow> int \<Rightarrow> int" where
  "recovery_run E db recoveryKey parent count =
     (if 0 < b_number parent \<and> b_creator parent = recoveryKey \<and> count < getRecoveryWindowBlocks
      then if b_previous_hash parent = [] then count + 1
           else let previous = getBlockByHash E db (b_previous_hash parent)
                in if b_number previous \<le> 0 \<or> b_number previous = b_number parent then count + 1
                   else recovery_run E db recoveryKey previous (count + 1)
      else count)"
  by pat_completeness auto
termination
  by (relation "measure (\<lambda>(E, db, key, parent, count). nat (getRecoveryWindowBlocks - count))") auto

declare recovery_run.simps [simp del]

definition consecutiveRecoveryBlocksInStore :: "env \<Rightarrow> dbh \<Rightarrow> block_structure \<Rightarrow> string \<Rightarrow> int" where
  "consecutiveRecoveryBlocksInStore E db parent recoveryKey =
     (if recoveryKey = [] then 0 else recovery_run E db recoveryKey parent 0)"

section \<open>The rules for records\<close>

record storage_state =
  sv_balances :: balances
  sv_nonces :: "(string, int) smap"
  sv_hashes :: "string set"

definition storage_transfer :: "bool \<Rightarrow> block_structure \<Rightarrow> storage_state \<Rightarrow> record_structure \<Rightarrow> string + storage_state" where
  "storage_transfer enforce b s r =
     (if dle (r_amount r) (DFin 0) \<or> dlt (r_fee r) (DFin 0) then Inl ''transfer amount or fee is invalid''
      else
        let rooted = (enforce \<and> b_merkle_root b \<noteq> []);
            nonces = (if rooted then sm_touch (r_sender r) 0 (sv_nonces s) else sv_nonces s)
        in if rooted \<and> r_nonce r \<noteq> sm_at 0 nonces (r_sender r) + 1 then Inl ''transfer nonce is invalid''
           else
             let bal = sm_touch (r_sender r) (DFin 0) (sv_balances s)
             in if enforce \<and> dlt (dadd (sm_at (DFin 0) bal (r_sender r)) EPS) (transfer_debit r)
                then Inl ''transfer overspends sender balance''
                else Inr (s\<lparr>sv_balances := transfer_balances b r bal,
                            sv_nonces := (if rooted then sm_put (r_sender r) (r_nonce r) nonces else nonces)\<rparr>))"

definition storage_rules ::
    "bool \<Rightarrow> bool \<Rightarrow> ledger_state \<Rightarrow> block_structure \<Rightarrow> storage_state \<Rightarrow> record_structure \<Rightarrow> string + storage_state" where
  "storage_rules enforce isGenesis parentState b s r =
     (case r_type r of
        ISSUE_CURRENCY \<Rightarrow>
          if dlt (r_amount r) (DFin 0) \<or> dlt (DFin 1) (r_amount r) then Inl ''issue amount is invalid''
          else if r_sender r \<noteq> b_creator b \<or> r_recipient r \<noteq> b_creator b
            then Inl ''issue reward must pay the block creator''
          else Inr (s\<lparr>sv_balances := credit (r_recipient r) (r_amount r) (sv_balances s)\<rparr>)
      | TRANSFER_CURRENCY \<Rightarrow> storage_transfer enforce b s r
      | VOTE \<Rightarrow>
          let bal = (if \<not> dlt (r_fee r) (DFin 0) \<and> enforce then sm_touch (r_sender r) (DFin 0) (sv_balances s) else sv_balances s)
          in if dlt (r_fee r) (DFin 0) \<or> enforce \<and> dlt (dadd (sm_at (DFin 0) bal (r_sender r)) EPS) (r_fee r)
             then Inl ''vote fee overspends sender balance''
             else Inr (s\<lparr>sv_balances := credit (b_creator b) (r_fee r) (debit (r_sender r) (r_fee r) bal)\<rparr>)
      | JOIN_NETWORK \<Rightarrow>
          if enforce \<and> \<not> isGenesis \<and> isJoinedMember parentState (r_sender r) then Inl ''member already joined''
          else if enforce \<and> r_name r \<noteq> [] \<and> nameTakenByAnother parentState (r_name r) (r_sender r)
            then Inl ''public name is unavailable''
          else Inr s
      | UPDATE_NAME \<Rightarrow>
          if enforce \<and> \<not> isJoinedMember parentState (r_sender r) then Inl ''name update sender is not a member''
          else if r_name r = [] \<or> enforce \<and> nameTakenByAnother parentState (r_name r) (r_sender r)
            then Inl ''public name is unavailable''
          else Inr s
      | HEART_BEAT \<Rightarrow>
          if enforce \<and> \<not> isGenesis \<and> \<not> isJoinedMember parentState (r_sender r)
          then Inl ''heartbeat sender is not a member'' else Inr s
      | CARRY_FORWARD \<Rightarrow>
          if dlt (r_amount r) (DFin 0) then Inl ''carry-forward amount is invalid'' else Inr s
      | _ \<Rightarrow> Inr s)"

definition storage_record ::
    "env \<Rightarrow> dbh \<Rightarrow> bool \<Rightarrow> bool \<Rightarrow> ledger_state \<Rightarrow> block_structure \<Rightarrow> block_structure \<Rightarrow> storage_state \<Rightarrow>
     record_structure \<Rightarrow> string + storage_state" where
  "storage_record E db enforce isGenesis parentState parent b s r =
     (case check_record_form E (sv_hashes s) r of Inl e \<Rightarrow> Inl e
      | Inr _ \<Rightarrow>
          if (if enforce then r_hash r \<in> ls_accepted parentState
              else \<not> isGenesis \<and> recordExistsInChain E db (r_hash r) (b_number parent))
          then Inl ''duplicate record hash already exists in chain''
          else case check_record_signature E r of Inl e \<Rightarrow> Inl e
               | Inr _ \<Rightarrow> storage_rules enforce isGenesis parentState b
                            (s\<lparr>sv_hashes := insert (r_hash r) (sv_hashes s)\<rparr>) r)"

fun storage_records ::
    "env \<Rightarrow> dbh \<Rightarrow> bool \<Rightarrow> bool \<Rightarrow> ledger_state \<Rightarrow> block_structure \<Rightarrow> block_structure \<Rightarrow> storage_state \<Rightarrow>
     record_structure list \<Rightarrow> string + storage_state" where
  "storage_records E db enforce isGenesis parentState parent b s [] = Inr s"
| "storage_records E db enforce isGenesis parentState parent b s (r # rs) =
     (case storage_record E db enforce isGenesis parentState parent b s r of Inl e \<Rightarrow> Inl e
      | Inr s \<Rightarrow> storage_records E db enforce isGenesis parentState parent b s rs)"

section \<open>The block\<close>

definition unset_state :: "ledger_state \<Rightarrow> ledger_state" where
  "unset_state u =
     u\<lparr>ls_balances := [], ls_nonces := [], ls_names := [], ls_accepted := {}, ls_cf_keys := {},
       ls_members := [], ls_active_keys := [], ls_latest_block := no_block\<rparr>"

definition storage_parent :: "env \<Rightarrow> dbh \<Rightarrow> block_structure \<Rightarrow> string + block_structure" where
  "storage_parent E db b =
     (if b_previous_hash b = [] then Inl ''previous block hash is missing''
      else
        let parent = getBlockByHash E db (b_previous_hash b)
        in if b_number parent \<le> 0 then Inl ''parent block is missing''
           else if b_number parent \<noteq> b_previous_id b then Inl ''previous block id does not match parent hash''
           else if b_number b \<le> b_previous_id b then Inl ''previous block id is not before block number''
           else Inr parent)"

definition storage_enforced :: "env \<Rightarrow> dbh \<Rightarrow> block_structure \<Rightarrow> block_structure \<Rightarrow> bool" where
  "storage_enforced E db parent b =
     (let canonicalParent = getBlock E db (b_number parent);
          canonicalSameSlot = getBlock E db (b_number b);
          parentIsCanonical = (b_number canonicalParent = b_number parent \<and> b_hash canonicalParent = b_hash parent);
          sameSlotFork = (b_number canonicalSameSlot = b_number b \<and> b_hash canonicalSameSlot \<noteq> [] \<and>
                          b_hash canonicalSameSlot \<noteq> b_hash b);
          extendsCanonicalTip = (b_previous_id b = getLatestBlockId db)
      in parentIsCanonical \<and> \<not> sameSlotFork \<and> extendsCanonicalTip)"

definition storage_parent_state :: "env \<Rightarrow> dbh \<Rightarrow> block_structure \<Rightarrow> caches \<Rightarrow> ledger_state \<times> caches" where
  "storage_parent_state E db parent cs =
     (case cachedLedgerStateForBlock (c_states cs) parent of
        Some st \<Rightarrow> (st, cs)
      | None \<Rightarrow>
          (case build E db [] (b_number parent) (c_ledger cs) of
             (st, ledger) \<Rightarrow>
               (st, cs\<lparr>c_ledger := ledger, c_states := cacheLedgerStateForBlock parent st (c_states cs)\<rparr>)))"

definition storage_selected ::
    "env \<Rightarrow> dbh \<Rightarrow> block_structure \<Rightarrow> block_structure \<Rightarrow> ledger_state \<Rightarrow> ledger_state \<Rightarrow> string" where
  "storage_selected E db parent b parentState selectionState =
     (let genesis = getBlock E db (getFirstBlockId db);
          recoveryKey = configuredRecoveryPublicKey (env_config E) (b_creator genesis)
      in fst (getAuthorizedCreatorForBlock E (b_number b) (b_hash (ls_latest_block selectionState))
           (activeMemberKeysAt selectionState (b_number b)) (b_hash parent)
           (activeMemberKeysAt parentState (b_number b)) recoveryKey
           (consecutiveRecoveryBlocksInStore E db parent recoveryKey)))"

text \<open>The selection check of an enforced block: the state of the parent, or the reason to refuse it.\<close>

definition storage_selection ::
    "env \<Rightarrow> dbh \<Rightarrow> block_structure \<Rightarrow> block_structure \<Rightarrow> caches \<Rightarrow> (string + ledger_state) \<times> caches" where
  "storage_selection E db parent b cs =
     (case storage_parent_state E db parent cs of
        (parentState, cs) \<Rightarrow>
          let boundary = getSelectionBoundaryBlock (b_number b) (getFirstBlockId db)
          in case build E db [] boundary (c_ledger cs) of
               (selectionState, ledger) \<Rightarrow>
                 let cs = cs\<lparr>c_ledger := ledger\<rparr>;
                     selectionState = (if b_hash (ls_latest_block selectionState) = [] then parentState else selectionState);
                     selectedCreator = storage_selected E db parent b parentState selectionState
                 in (if selectedCreator = [] then Inl ''no active members or recovery creator can create blocks''
                     else if selectedCreator \<noteq> b_creator b then Inl ''block creator is not selected for this slot''
                     else Inr parentState, cs))"

definition storage_body ::
    "env \<Rightarrow> dbh \<Rightarrow> bool \<Rightarrow> bool \<Rightarrow> ledger_state \<Rightarrow> block_structure \<Rightarrow> block_structure \<Rightarrow> caches \<Rightarrow> (string + unit) \<times> caches" where
  "storage_body E db enforce isGenesis parentState parent b cs =
     (case storage_records E db enforce isGenesis parentState parent b
             \<lparr>sv_balances = ls_balances parentState, sv_nonces = ls_nonces parentState, sv_hashes = {}\<rparr> (b_records b) of
        Inl e \<Rightarrow> (Inl e, cs)
      | Inr _ \<Rightarrow>
          (Inr (), if enforce
                   then cs\<lparr>c_states := cacheLedgerStateForBlock b (applyBlockToCachedState E db parentState b) (c_states cs)\<rparr>
                   else cs))"

definition validateBlockForStorage ::
    "env \<Rightarrow> ledger_state \<Rightarrow> dbh \<Rightarrow> block_structure \<Rightarrow> caches \<Rightarrow> (string + unit) \<times> caches" where
  "validateBlockForStorage E u db b cs =
     (case check_block_header E b of Inl e \<Rightarrow> (Inl e, cs)
      | Inr _ \<Rightarrow>
          if b_previous_id b \<le> 0
          then if \<not> genesisMatches (env_config E) (b_number b) (b_hash b)
               then (Inl ''genesis block does not match safire.conf'', cs)
               else storage_body E db True True (unset_state u) no_block b cs
          else case storage_parent E db b of Inl e \<Rightarrow> (Inl e, cs)
               | Inr parent \<Rightarrow>
                   if storage_enforced E db parent b
                   then case storage_selection E db parent b cs of
                          (Inl e, cs) \<Rightarrow> (Inl e, cs)
                        | (Inr parentState, cs) \<Rightarrow> storage_body E db True False parentState parent b cs
                   else storage_body E db False False (unset_state u) parent b cs)"

end
