(* ===== verification/BlockIndex.thy ===== *)
theory BlockIndex
  imports StorageValidator
begin

text \<open>
  The writing half of \<open>src/src/blockdb.cpp\<close>: the first and latest block, the validated
  checkpoint, the migration of the key scheme, \<open>AddBlock\<close>, the rebuilding of the index of the
  best chain, the adoption of a stored chain, fork variants and deletion. Every operation
  returns the database it leaves behind; \<open>db->Put\<close> is \<open>db_put\<close>. An operation that can end with
  a \<open>bad_lexical_cast\<close> returns \<open>None\<close> in that case, with the database as it is then.
\<close>

definition VALIDATED_CHECKPOINT_DEPTH :: int where "VALIDATED_CHECKPOINT_DEPTH = 2000"
definition CHECKPOINT_FAST_VALIDATE_LIMIT :: int where "CHECKPOINT_FAST_VALIDATE_LIMIT = 20000"
definition MAX_REBUILD_CHAIN_DEPTH :: int where "MAX_REBUILD_CHAIN_DEPTH = 20000"
definition MAX_REBUILD_CHAIN_CANDIDATES :: int where "MAX_REBUILD_CHAIN_CANDIDATES = 256"
definition CURRENT_SCHEMA_VERSION :: int where "CURRENT_SCHEMA_VERSION = 2"

section \<open>First and latest block\<close>

definition setFirstBlockId :: "int \<Rightarrow> dbh \<Rightarrow> dbh" where
  "setFirstBlockId number db =
     db_put (chainMetaKey ''first_block'') (show_long number) (db_put ''first_block_id'' (show_long number) db)"

definition setLatestBlockId :: "env \<Rightarrow> int \<Rightarrow> dbh \<Rightarrow> dbh" where
  "setLatestBlockId E number db =
     (let db = db_put ''latest_block_id'' (show_long number) db;
          db = db_put (chainMetaKey ''latest_block'') (show_long number) db;
          latestBlock = getBlock E db number
      in if b_hash latestBlock \<noteq> [] then db_put (chainMetaKey ''latest_hash'') (b_hash latestBlock) db else db)"

section \<open>The validated checkpoint\<close>

definition readValidatedCheckpoint :: "dbh \<Rightarrow> (int \<times> string) option" where
  "readValidatedCheckpoint db =
     (case readLongKey db (chainMetaKey ''validated_checkpoint_block'') of
        None \<Rightarrow> None
      | Some checkpointBlock \<Rightarrow>
          (case readKey db (chainMetaKey ''validated_checkpoint_hash'') of
             None \<Rightarrow> None
           | Some checkpointHash \<Rightarrow>
               if 0 < checkpointBlock \<and> checkpointHash \<noteq> [] then Some (checkpointBlock, checkpointHash) else None))"

definition checkpointMatchesCanonical :: "env \<Rightarrow> dbh \<Rightarrow> int \<Rightarrow> string \<Rightarrow> block_structure option" where
  "checkpointMatchesCanonical E db checkpointBlock checkpointHash =
     (if checkpointBlock \<le> 0 \<or> checkpointHash = [] then None
      else if rawCanonicalHash E db checkpointBlock \<noteq> checkpointHash then None
      else
        let checkpoint = rawBlockByHash E db checkpointHash
        in if b_number checkpoint = checkpointBlock \<and> b_hash checkpoint = checkpointHash \<and>
              blockEnvelopeIsValid E checkpoint then Some checkpoint else None)"

function checkpoint_back :: "env \<Rightarrow> dbh \<Rightarrow> int \<Rightarrow> block_structure \<Rightarrow> block_structure" where
  "checkpoint_back E db walked checkpoint =
     (if walked < VALIDATED_CHECKPOINT_DEPTH \<and> b_previous_hash checkpoint \<noteq> []
      then let previous = rawBlockByHash E db (b_previous_hash checkpoint)
           in if \<not> childConnectsToParent checkpoint previous \<or> \<not> blockEnvelopeIsValid E previous then checkpoint
              else checkpoint_back E db (walked + 1) previous
      else checkpoint)"
  by pat_completeness auto
termination
  by (relation "measure (\<lambda>(E, db, walked, checkpoint). nat (VALIDATED_CHECKPOINT_DEPTH - walked))") auto

declare checkpoint_back.simps [simp del]

definition maybeAdvanceValidatedCheckpoint :: "env \<Rightarrow> block_structure \<Rightarrow> dbh \<Rightarrow> dbh" where
  "maybeAdvanceValidatedCheckpoint E tip db =
     (if db = None \<or> b_number tip \<le> 0 \<or> b_hash tip = [] \<or> \<not> blockEnvelopeIsValid E tip then db
      else
        let current = readValidatedCheckpoint db
        in if (case current of None \<Rightarrow> False
               | Some (block, _) \<Rightarrow> b_number tip - block < VALIDATED_CHECKPOINT_DEPTH * 2) then db
           else
             let checkpoint = checkpoint_back E db 0 tip
             in if b_number checkpoint \<le> 0 \<or> b_hash checkpoint = [] then db
                else if (case current of None \<Rightarrow> False | Some (block, _) \<Rightarrow> b_number checkpoint \<le> block) then db
                else db_put (chainMetaKey ''validated_checkpoint_hash'') (b_hash checkpoint)
                       (db_put (chainMetaKey ''validated_checkpoint_block'') (show_long (b_number checkpoint)) db))"

function checkpoint_forward :: "env \<Rightarrow> dbh \<Rightarrow> int \<Rightarrow> int \<Rightarrow> block_structure \<Rightarrow> (int \<times> block_structure) option" where
  "checkpoint_forward E db latestBlockId steps current =
     (if b_number current < latestBlockId \<and> steps < CHECKPOINT_FAST_VALIDATE_LIMIT
      then case readKey db (nextHashKey (b_hash current)) of
             None \<Rightarrow> None
           | Some nextHash \<Rightarrow>
               let next = rawBlockByHash E db nextHash
               in if \<not> childConnectsToParent next current \<or> \<not> blockEnvelopeIsValid E next then None
                  else checkpoint_forward E db latestBlockId (steps + 1) next
      else Some (steps, current))"
  by pat_completeness auto
termination
  by (relation "measure (\<lambda>(E, db, latest, steps, current). nat (CHECKPOINT_FAST_VALIDATE_LIMIT - steps))") auto

declare checkpoint_forward.simps [simp del]

definition fork_after_checkpoint :: "dbh \<Rightarrow> int \<Rightarrow> bool" where
  "fork_after_checkpoint db checkpointBlock =
     (case Option.bind (readKey db forkVariantCountKey) parseLongValue of
        None \<Rightarrow> False
      | Some forkCount \<Rightarrow>
          0 < forkCount \<and>
          (case readLongKey db forkVariantLatestBlockKey of None \<Rightarrow> True | Some latest \<Rightarrow> checkpointBlock \<le> latest) \<and>
          hasForkVariantAtOrAfter db checkpointBlock)"

text \<open>The tip when the fast path succeeds, and the database (the height of the stored blocks may have been noted).\<close>

definition tryValidatedCheckpointFastPath :: "env \<Rightarrow> dbh \<Rightarrow> int option \<times> dbh" where
  "tryValidatedCheckpointFastPath E db =
     (if db = None then (None, db)
      else
        let latestBlockId = getLatestBlockId db
        in if latestBlockId \<le> 0 then (None, db)
           else case readValidatedCheckpoint db of
             None \<Rightarrow> (None, db)
           | Some (checkpointBlock, checkpointHash) \<Rightarrow>
               if latestBlockId < checkpointBlock then (None, db)
               else case highestStoredBlock E db of
                 (highest, db) \<Rightarrow>
                   if latestBlockId < highest then (None, db)
                   else case checkpointMatchesCanonical E db checkpointBlock checkpointHash of
                     None \<Rightarrow> (None, db)
                   | Some start \<Rightarrow>
                       if fork_after_checkpoint db checkpointBlock then (None, db)
                       else case checkpoint_forward E db latestBlockId 0 start of
                         None \<Rightarrow> (None, db)
                       | Some (steps, current) \<Rightarrow>
                           if b_number current \<noteq> latestBlockId \<or> CHECKPOINT_FAST_VALIDATE_LIMIT \<le> steps then (None, db)
                           else
                             let canonicalTip = getBlock E db latestBlockId
                             in if b_number canonicalTip \<noteq> latestBlockId \<or> b_hash canonicalTip \<noteq> b_hash current
                                then (None, db)
                                else (Some (b_number current),
                                      maybeAdvanceValidatedCheckpoint E current
                                        (db_put (chainMetaKey ''connected_latest'') (show_long (b_number current)) db)))"

section \<open>Migration of the key scheme\<close>

definition migrate_long :: "string \<Rightarrow> string \<Rightarrow> dbh \<Rightarrow> int \<times> dbh" where
  "migrate_long key legacy db =
     (case readLongKey db key of
        Some v \<Rightarrow> (v, db)
      | None \<Rightarrow> (case readLongKey db legacy of Some v \<Rightarrow> (v, db_put key (show_long v) db) | None \<Rightarrow> (-1, db)))"

definition migrate_next :: "env \<Rightarrow> dbh \<Rightarrow> string \<Rightarrow> dbh" where
  "migrate_next E db key =
     (case (parseLongValue (drop (length ''next_block_'') key), Option.bind (readKey db key) parseLongValue) of
        (Some parentId, Some childId) \<Rightarrow>
          let parent = rawBlockByHash E db (rawCanonicalHash E db parentId);
              child = rawBlockByHash E db (rawCanonicalHash E db childId)
          in if b_hash parent \<noteq> [] \<and> childConnectsToParent child parent
             then db_put (nextHashKey (b_hash parent)) (b_hash child) db else db
      | _ \<Rightarrow> db)"

text \<open>The database and the static flag \<open>schemaMigrated\<close>.\<close>

definition migrateSchema :: "env \<Rightarrow> dbh \<times> bool \<Rightarrow> dbh \<times> bool" where
  "migrateSchema E = (\<lambda>(db, schemaMigrated).
     case db of
       None \<Rightarrow> (db, schemaMigrated)
     | Some d \<Rightarrow>
         if schemaMigrated then (db, schemaMigrated)
         else if db_str db (chainMetaKey ''schema_version'') = show_long CURRENT_SCHEMA_VERSION then (db, True)
         else
           let (firstBlockId, db) = migrate_long (chainMetaKey ''first_block'') ''first_block_id'' db;
               (latestBlockId, db) = migrate_long (chainMetaKey ''latest_block'') ''latest_block_id'' db;
               db = (if 0 < latestBlockId \<and> readKey db (chainMetaKey ''latest_hash'') = None
                        \<and> rawCanonicalHash E db latestBlockId \<noteq> []
                     then db_put (chainMetaKey ''latest_hash'') (rawCanonicalHash E db latestBlockId) db else db);
               legacyNextKeys = filter (\<lambda>k. starts_with k ''next_block_'') (kv_keys (the db));
               db = foldl (migrate_next E) db legacyNextKeys
           in (db_put (chainMetaKey ''schema_version'') (show_long CURRENT_SCHEMA_VERSION) db, True))"

section \<open>Adding a block\<close>

fun add_record_checks :: "env \<Rightarrow> string set \<Rightarrow> record_structure list \<Rightarrow> bool" where
  "add_record_checks E recordHashes [] = True"
| "add_record_checks E recordHashes (r # rs) =
     (if \<not> isRecordSizeValid E r then False
      else if r_hash r \<noteq> [] \<and> r_hash r \<in> recordHashes then False
      else add_record_checks E (if r_hash r \<noteq> [] then insert (r_hash r) recordHashes else recordHashes) rs)"

text \<open>The checks \<open>AddBlock\<close> makes before it looks at the database.\<close>

definition add_block_checks :: "env \<Rightarrow> block_structure \<Rightarrow> bool" where
  "add_block_checks E b =
     (if b_number b \<le> b_previous_id b \<and> b_previous_id b \<noteq> -1 then False
      else if b_previous_id b \<le> 0 \<and> \<not> genesisMatches (env_config E) (b_number b) (b_hash b) then False
      else if MAX_BLOCK_RECORDS < int (length (b_records b)) then False
      else if \<not> add_record_checks E {} (b_records b) then False
      else slen (blockJSON E b) \<le> MAX_BLOCK_JSON_BYTES)"

text \<open>The counters of fork variants; \<open>None\<close> when \<open>lexical_cast\<close> throws.\<close>

definition add_fork_variant :: "env \<Rightarrow> block_structure \<Rightarrow> dbh \<Rightarrow> dbh option" where
  "add_fork_variant E b db =
     (let value = db_str db forkVariantCountKey;
          forkCount = (if value \<noteq> [] then map_option (\<lambda>n. n + 1) (e_lexical_long E value) else scanForkVariantCount E db)
      in case forkCount of
           None \<Rightarrow> None
         | Some n \<Rightarrow>
             let db = db_put forkVariantCountKey (show_long n) db;
                 latest = (case readLongKey db forkVariantLatestBlockKey of None \<Rightarrow> -1 | Some v \<Rightarrow> v)
             in Some (if latest < b_number b then db_put forkVariantLatestBlockKey (show_long (b_number b)) db else db))"

definition add_next_index :: "env \<Rightarrow> block_structure \<Rightarrow> dbh \<Rightarrow> dbh" where
  "add_next_index E b db =
     (if b_previous_id b \<le> -1 then db
      else
        let key = nextBlockKey (b_previous_id b);
            existingId = db_str db key;
            writeId = (existingId = [] \<or> existingId = show_long (b_number b) \<or>
                       b_number (getBlock E db (atol existingId)) \<le> 0);
            db = (if writeId then db_put key (show_long (b_number b)) db else db)
        in if b_previous_hash b = [] then db
           else
             let hkey = nextHashKey (b_previous_hash b);
                 existingHash = db_str db hkey;
                 writeHash = (existingHash = [] \<or> existingHash = b_hash b \<or>
                   \<not> childConnectsToParent (getBlockByHash E db existingHash) (getBlockByHash E db (b_previous_hash b)))
             in if writeHash then db_put hkey (b_hash b) db else db)"

definition add_advance_tip :: "env \<Rightarrow> block_structure \<Rightarrow> dbh \<Rightarrow> dbh" where
  "add_advance_tip E b db =
     (let latestBlockId = getLatestBlockId db
      in if b_previous_id b \<le> 0 \<and> latestBlockId < 0 then setLatestBlockId E (b_number b) db
         else if b_previous_id b = latestBlockId
           then let latestBlock = getBlock E db latestBlockId
                in if b_number latestBlock = latestBlockId \<and> b_hash latestBlock \<noteq> [] \<and>
                      b_hash latestBlock = b_previous_hash b
                   then maybeAdvanceValidatedCheckpoint E b (setLatestBlockId E (b_number b) db)
                   else db
         else db)"

text \<open>Storing a block that passed validation.\<close>

definition add_store :: "env \<Rightarrow> block_structure \<Rightarrow> dbh \<Rightarrow> bool option \<times> dbh" where
  "add_store E b db =
     (let db = db_put (blockHashKey (b_hash b)) (blockJSON E b) db;
          db = db_put (forkBlockKey b) (b_hash b) db;
          db = maybeUpdateHighestStoredBlock (b_number b) db;
          canonicalBlock = getBlock E db (b_number b);
          shouldWriteCanonical = (b_number canonicalBlock \<le> 0 \<or> preferBlockVariant b canonicalBlock);
          db = (if shouldWriteCanonical
                then db_put (legacyBlockKey (b_number b)) (blockJSON E b)
                       (db_put (canonicalHashKey (b_number b)) (b_hash b) db)
                else db);
          sameSlotVariant = 0 < b_number canonicalBlock
      in case (if sameSlotVariant then add_fork_variant E b db else Some db) of
           None \<Rightarrow> (None, db)
         | Some db \<Rightarrow>
             if sameSlotVariant \<and> \<not> shouldWriteCanonical then (Some True, db)
             else (Some True, add_advance_tip E b (add_next_index E b db)))"

definition AddBlock ::
    "env \<Rightarrow> ledger_state \<Rightarrow> block_structure \<Rightarrow> dbh \<times> caches \<Rightarrow> bool option \<times> dbh \<times> caches" where
  "AddBlock E u b = (\<lambda>(db, cs).
     if db = None then (Some False, db, cs)
     else if \<not> add_block_checks E b then (Some False, db, cs)
     else if db_str db (blockHashKey (b_hash b)) \<noteq> [] then (Some True, db, cs)
     else case validateBlockForStorage E u db b cs of
       (Inl reason, cs) \<Rightarrow> (Some False, db, cs)
     | (Inr _, cs) \<Rightarrow> (case add_store E b db of (r, db) \<Rightarrow> (r, db, cs)))"

section \<open>Rebuilding the index of the best chain\<close>

type_synonym children = "(string, block_structure list) smap"

definition block_by_hash :: "block_structure list \<Rightarrow> (string, block_structure) smap" where
  "block_by_hash blocks =
     foldl (\<lambda>m b. if b_hash b = [] then m else sm_put (b_hash b) b m) [] blocks"

definition genesis_candidates :: "int \<Rightarrow> block_structure list \<Rightarrow> block_structure list" where
  "genesis_candidates firstBlockId blocks =
     filter (\<lambda>b. b_hash b \<noteq> [] \<and> b_number b = firstBlockId \<and> b_previous_id b \<le> 0) blocks"

definition add_child :: "(string, block_structure) smap \<Rightarrow> children \<Rightarrow> block_structure \<Rightarrow> children" where
  "add_child byHash m b =
     (if b_hash b = [] \<or> b_previous_hash b = [] then m
      else case sm_get byHash (b_previous_hash b) of
             None \<Rightarrow> m
           | Some parent \<Rightarrow>
               if childConnectsToParent b parent
               then sm_put (b_previous_hash b) (sm_at [] m (b_previous_hash b) @ [b]) m else m)"

definition children_by_parent :: "block_structure list \<Rightarrow> children" where
  "children_by_parent blocks = foldl (add_child (block_by_hash blocks)) [] blocks"

definition by_number :: "block_structure list \<Rightarrow> block_structure list" where
  "by_number bs = sort_key (\<lambda>b. (b_number b, b_hash b)) bs"

definition by_number_down :: "block_structure list \<Rightarrow> block_structure list" where
  "by_number_down bs = sort_key (\<lambda>b. (- b_number b, b_hash b)) bs"

record best_index =
  bi_length :: "(string, int) smap"
  bi_tip :: "(string, int) smap"
  bi_child :: "(string, string) smap"

definition best_child :: "children \<Rightarrow> best_index \<Rightarrow> block_structure \<Rightarrow> block_structure" where
  "best_child childrenByParentHash bi block =
     foldl (\<lambda>best child.
        if b_hash child = [] \<or> b_hash child = b_hash block then best
        else if preferChainChild child best (bi_length bi) (bi_tip bi) then child else best)
       no_block (by_number_down (sm_at [] childrenByParentHash (b_hash block)))"

definition best_step :: "children \<Rightarrow> best_index \<Rightarrow> block_structure \<Rightarrow> best_index" where
  "best_step childrenByParentHash bi block =
     (let bestChild = best_child childrenByParentHash bi block;
          found = (0 < b_number bestChild \<and> b_hash bestChild \<noteq> []);
          bestLength = (if found then (case sm_get (bi_length bi) (b_hash bestChild) of None \<Rightarrow> 2 | Some n \<Rightarrow> n + 1) else 1);
          bestTip = (if found then (case sm_get (bi_tip bi) (b_hash bestChild) of None \<Rightarrow> b_number bestChild | Some n \<Rightarrow> n)
                     else b_number block)
      in \<lparr>bi_length = sm_put (b_hash block) bestLength (bi_length bi),
          bi_tip = sm_put (b_hash block) bestTip (bi_tip bi),
          bi_child = (if found then sm_put (b_hash block) (b_hash bestChild) (bi_child bi) else bi_child bi)\<rparr>)"

definition best_index_of :: "block_structure list \<Rightarrow> best_index" where
  "best_index_of blocks =
     foldl (best_step (children_by_parent blocks)) \<lparr>bi_length = [], bi_tip = [], bi_child = []\<rparr>
       (by_number_down (filter (\<lambda>b. b_hash b \<noteq> []) blocks))"

function best_chain_from ::
    "(string, block_structure) smap \<Rightarrow> (string, string) smap \<Rightarrow> block_structure list \<Rightarrow> block_structure \<Rightarrow> block_structure list" where
  "best_chain_from byHash bestChildByHash bestChain current =
     (if 0 < b_number current \<and> b_hash current \<noteq> [] \<and> b_hash current \<notin> b_hash ` set bestChain
      then
        let bestChain = bestChain @ [current]
        in if MAX_REBUILD_CHAIN_DEPTH \<le> int (length bestChain) then bestChain
           else case sm_get bestChildByHash (b_hash current) of
                  None \<Rightarrow> bestChain
                | Some nextHash \<Rightarrow>
                    (case sm_get byHash nextHash of
                       None \<Rightarrow> bestChain
                     | Some next \<Rightarrow> best_chain_from byHash bestChildByHash bestChain next)
      else bestChain)"
  by pat_completeness auto
termination
  by (relation "measure (\<lambda>(m, c, chain, current). nat (MAX_REBUILD_CHAIN_DEPTH - int (length chain)))") auto

declare best_chain_from.simps [simp del]

text \<open>The best chain of the stored blocks, before it is validated.\<close>

definition candidate_chain :: "env \<Rightarrow> dbh \<Rightarrow> int \<Rightarrow> block_structure list \<Rightarrow> block_structure list" where
  "candidate_chain E db firstBlockId blocks =
     (let firstBlock = getBlock E db firstBlockId;
          stored = genesis_candidates firstBlockId blocks;
          useFirst = (stored = [] \<and> 0 < b_number firstBlock);
          genesisCandidates = by_number (if useFirst then [firstBlock] else stored);
          byHash = (if useFirst then sm_put (b_hash firstBlock) firstBlock (block_by_hash blocks) else block_by_hash blocks);
          bi = best_index_of blocks;
          bestGenesis = foldl (\<lambda>best c. if preferChainChild c best (bi_length bi) (bi_tip bi) then c else best)
                          no_block genesisCandidates
      in best_chain_from byHash (bi_child bi) [] bestGenesis)"

function longest_valid :: "env \<Rightarrow> block_structure list \<Rightarrow> block_structure list" where
  "longest_valid E bestChain =
     (if bestChain = [] then []
      else if validateConnectedChain E bestChain = Inr () then bestChain
      else longest_valid E (butlast bestChain))"
  by pat_completeness auto
termination
  by (relation "measure (\<lambda>(E, chain). length chain)") auto

declare longest_valid.simps [simp del]

definition is_next_key :: "string \<Rightarrow> bool" where
  "is_next_key k \<longleftrightarrow> starts_with k ''next_block_'' \<or> starts_with k ''next:''"

definition clear_next_keys :: "dbh \<Rightarrow> dbh" where
  "clear_next_keys db = map_option (\<lambda>d. fold sm_del (filter is_next_key (kv_keys d)) d) db"

text \<open>The index entries of one block of the chain, given the blocks that follow it.\<close>

definition index_block :: "env \<Rightarrow> block_structure \<Rightarrow> block_structure list \<Rightarrow> dbh \<Rightarrow> dbh" where
  "index_block E b following db =
     (let db = db_put (canonicalHashKey (b_number b)) (b_hash b) db;
          db = db_put (blockHashKey (b_hash b)) (blockJSON E b) db;
          db = db_put (legacyBlockKey (b_number b)) (blockJSON E b) db
      in case following of
           [] \<Rightarrow> db
         | child # _ \<Rightarrow>
             db_put (nextHashKey (b_hash b)) (b_hash child) (db_put (nextBlockKey (b_number b)) (show_long (b_number child)) db))"

fun index_chain :: "env \<Rightarrow> block_structure list \<Rightarrow> dbh \<Rightarrow> dbh" where
  "index_chain E [] db = db"
| "index_chain E (b # bs) db = index_chain E bs (index_block E b bs db)"

definition note_reorg :: "env \<Rightarrow> string \<Rightarrow> block_structure \<Rightarrow> block_structure \<Rightarrow> dbh \<Rightarrow> dbh" where
  "note_reorg E reason previousTip newTip db =
     db_put (reorgMetaKey ''reason'') reason
       (db_put (reorgMetaKey ''time'') (show_long (e_local_epoch E))
         (db_put (reorgMetaKey ''new_hash'') (b_hash newTip)
           (db_put (reorgMetaKey ''new_block'') (show_long (b_number newTip))
             (db_put (reorgMetaKey ''previous_hash'') (b_hash previousTip)
               (db_put (reorgMetaKey ''previous_block'') (show_long (b_number previousTip)) db)))))"

text \<open>Writing the index of the chain that was chosen, and what follows from a change of the tip.\<close>

definition rebuild_write :: "env \<Rightarrow> block_structure \<Rightarrow> block_structure list \<Rightarrow> dbh \<Rightarrow> dbh" where
  "rebuild_write E previousTip bestChain db =
     (let newTip = last bestChain;
          db = index_chain E bestChain (clear_next_keys db);
          db = setLatestBlockId E (b_number newTip) db;
          db = db_put (chainMetaKey ''connected_latest'') (show_long (b_number newTip)) db;
          db = maybeAdvanceValidatedCheckpoint E newTip db
      in if 0 < b_number previousTip \<and> b_hash previousTip \<noteq> [] \<and> 0 < b_number newTip \<and> b_hash newTip \<noteq> [] \<and>
            b_hash previousTip \<noteq> b_hash newTip
         then note_reorg E ''best chain index rebuilt'' previousTip newTip db else db)"

definition rebuildBestChainIndex :: "env \<Rightarrow> dbh \<Rightarrow> int \<times> dbh" where
  "rebuildBestChainIndex E db =
     (let firstBlockId = getFirstBlockId db
      in if firstBlockId < 0 \<or> db = None then (-1, db)
         else
           let previousTipId = getLatestBlockId db;
               previousTip = (if 0 < previousTipId then getBlock E db previousTipId else no_block)
           in case tryValidatedCheckpointFastPath E db of
                (Some tip, db) \<Rightarrow> (tip, db)
              | (None, db) \<Rightarrow>
                  let blocks = getStoredBlocks E db
                  in if blocks = [] then (-1, db)
                     else
                       let bestChain = longest_valid E (candidate_chain E db firstBlockId blocks)
                       in if bestChain = [] then (-1, db)
                          else (b_number (last bestChain), rebuild_write E previousTip bestChain db))"

section \<open>Adopting a stored chain\<close>

text \<open>The blocks from the tip back to the genesis block, or \<open>None\<close>.\<close>

function adopt_back ::
    "env \<Rightarrow> dbh \<Rightarrow> int \<Rightarrow> block_structure list \<Rightarrow> block_structure \<Rightarrow> block_structure list option" where
  "adopt_back E db firstBlockId reverseChain current =
     (if 0 < b_number current \<and> b_hash current \<noteq> []
      then if b_hash current \<in> b_hash ` set reverseChain then None
           else if \<not> blockEnvelopeIsValid E current then None
           else
             let reverseChain = reverseChain @ [current]
             in if b_previous_id current \<le> 0
                then if b_number current \<noteq> firstBlockId \<or> \<not> genesisMatches (env_config E) (b_number current) (b_hash current)
                     then None else Some reverseChain
                else if b_previous_hash current = [] \<or> b_number current \<le> b_previous_id current then None
                else
                  let parent = getBlockByHash E db (b_previous_hash current)
                  in if \<not> childConnectsToParent current parent then None
                     else adopt_back E db firstBlockId reverseChain parent
      else Some reverseChain)"
  by pat_completeness auto
termination
  by (relation "measure (\<lambda>(E, db, first, chain, current). nat (b_number current))")
     (auto simp: childConnectsToParent_def split: if_splits)

declare adopt_back.simps [simp del]

fun divergent_index :: "env \<Rightarrow> dbh \<Rightarrow> int \<Rightarrow> block_structure list \<Rightarrow> int" where
  "divergent_index E db i [] = i"
| "divergent_index E db i (b # bs) =
     (let canonicalBlock = getBlock E db (b_number b)
      in if b_number canonicalBlock = b_number b \<and> b_hash canonicalBlock = b_hash b
         then divergent_index E db (i + 1) bs else i)"

definition adopt_write :: "env \<Rightarrow> block_structure \<Rightarrow> block_structure list \<Rightarrow> dbh \<Rightarrow> dbh" where
  "adopt_write E previousTip chain db =
     (let newTip = last chain;
          first = divergent_index E db 0 chain;
          firstDivergentIndex = (if 0 < first then first - 1 else first);
          db = index_chain E (drop (nat firstDivergentIndex) chain) db;
          db = setLatestBlockId E (b_number newTip) db;
          db = db_put (chainMetaKey ''connected_latest'') (show_long (b_number newTip)) db;
          db = maybeAdvanceValidatedCheckpoint E newTip db
      in if 0 < b_number previousTip \<and> b_hash previousTip \<noteq> [] \<and> b_hash previousTip \<noteq> b_hash newTip
         then note_reorg E ''peer hash-linked tip adopted'' previousTip newTip db else db)"

text \<open>\<open>Some\<close> of the adopted tip where the source returns true.\<close>

definition adoptStoredChainEndingAtHash :: "env \<Rightarrow> string \<Rightarrow> dbh \<Rightarrow> int option \<times> dbh" where
  "adoptStoredChainEndingAtHash E tipHash db =
     (if tipHash = [] \<or> db = None then (None, db)
      else
        let firstBlockId = getFirstBlockId db
        in if firstBlockId \<le> 0 then (None, db)
           else
             let previousTipId = getLatestBlockId db;
                 previousTip = (if 0 < previousTipId then getBlock E db previousTipId else no_block);
                 tip = getBlockByHash E db tipHash
             in if b_number tip \<le> 0 \<or> b_hash tip \<noteq> tipHash then (None, db)
                else case adopt_back E db firstBlockId [] tip of
                  None \<Rightarrow> (None, db)
                | Some reverseChain \<Rightarrow>
                    if reverseChain = [] \<or> b_number (last reverseChain) \<noteq> firstBlockId then (None, db)
                    else
                      let chain = rev reverseChain; newTip = last chain
                      in if 0 < b_number previousTip \<and> b_hash previousTip \<noteq> [] \<and>
                            b_number newTip \<le> b_number previousTip \<and> b_hash previousTip = b_hash newTip
                         then (Some (b_number previousTip), db)
                         else (Some (b_number newTip), adopt_write E previousTip chain db))"

section \<open>Fork variants, reorganisations, deletion\<close>

record fork_variant =
  fk_block_number :: int
  fk_hash :: string
  fk_previous_hash :: string
  fk_creator :: string
  fk_canonical :: bool

record reorg_info =
  ri_previous_block :: int
  ri_previous_hash :: string
  ri_new_block :: int
  ri_new_hash :: string
  ri_time :: int
  ri_reason :: string

definition getForkVariantCount :: "env \<Rightarrow> dbh \<Rightarrow> int option \<times> dbh" where
  "getForkVariantCount E db =
     (if db = None then (Some 0, db)
      else case scanForkVariantStats E db of
             None \<Rightarrow> (None, db)
           | Some stats \<Rightarrow>
               let db = db_put forkVariantCountKey (show_long (fv_count stats)) db
               in (Some (fv_count stats),
                   if 0 < fv_latest_block stats
                   then db_put forkVariantLatestBlockKey (show_long (fv_latest_block stats)) db else db))"

definition variants_by_block :: "block_structure list \<Rightarrow> (int, int) smap" where
  "variants_by_block blocks =
     foldl (\<lambda>m b. if 0 < b_number b \<and> b_hash b \<noteq> [] then sm_put (b_number b) (sm_at 0 m (b_number b) + 1) m else m)
       [] blocks"

definition getForkVariants :: "env \<Rightarrow> dbh \<Rightarrow> int \<Rightarrow> fork_variant list" where
  "getForkVariants E db limit =
     (let blocks = getStoredBlocks E db;
          forked = filter (\<lambda>b. 0 < b_number b \<and> b_hash b \<noteq> [] \<and> 1 < sm_at 0 (variants_by_block blocks) (b_number b)) blocks;
          variant = (\<lambda>b. let canonicalBlock = getBlock E db (b_number b)
                         in \<lparr>fk_block_number = b_number b, fk_hash = b_hash b, fk_previous_hash = b_previous_hash b,
                             fk_creator = b_creator b,
                             fk_canonical = (b_hash canonicalBlock \<noteq> [] \<and> b_hash canonicalBlock = b_hash b)\<rparr>);
          variants = sort_key (\<lambda>v. (- fk_block_number v, \<not> fk_canonical v, fk_hash v)) (map variant forked)
      in if 0 < limit \<and> limit < int (length variants) then take (nat limit) variants else variants)"

text \<open>\<open>None\<close> when \<open>lexical_cast\<close> throws on one of the numbers.\<close>

definition reorg_number :: "env \<Rightarrow> dbh \<Rightarrow> string \<Rightarrow> int \<Rightarrow> int option" where
  "reorg_number E db name absent =
     (let text = db_str db (reorgMetaKey name) in if text = [] then Some absent else e_lexical_long E text)"

definition getLastReorgInfo :: "env \<Rightarrow> dbh \<Rightarrow> reorg_info option" where
  "getLastReorgInfo E db =
     (case (reorg_number E db ''previous_block'' (-1), reorg_number E db ''new_block'' (-1), reorg_number E db ''time'' 0) of
        (Some previousBlock, Some newBlock, Some time) \<Rightarrow>
          Some \<lparr>ri_previous_block = previousBlock, ri_previous_hash = db_str db (reorgMetaKey ''previous_hash''),
                ri_new_block = newBlock, ri_new_hash = db_str db (reorgMetaKey ''new_hash''), ri_time = time,
                ri_reason = db_str db (reorgMetaKey ''reason'')\<rparr>
      | _ \<Rightarrow> None)"

definition DeleteAll :: "dbh \<Rightarrow> dbh" where
  "DeleteAll db = map_option (\<lambda>d. fold sm_del (kv_keys d) d) db"

end
