(* ===== verification/Mempool.thy ===== *)
theory Mempool
  imports LedgerState
begin

text \<open>
  The queue of pending records of \<open>src/src/functions/functions.cpp\<close>: records wait in the
  database under \<open>mempool:record:<sequence>:<hash>\<close>, with an index by hash, and, where the
  database is not open, in the file \<open>queue.dat\<close>. The state is the pair of the database and the
  text of that file. The balance at a checkpoint that this file computes for carry-forward
  records is here too.
\<close>

section \<open>Keys\<close>

definition MEMPOOL_RECORD_PREFIX :: string where "MEMPOOL_RECORD_PREFIX = ''mempool:record:''"
definition MEMPOOL_HASH_PREFIX :: string where "MEMPOOL_HASH_PREFIX = ''mempool:hash:''"
definition MEMPOOL_SEQUENCE_KEY :: string where "MEMPOOL_SEQUENCE_KEY = ''mempool:next_sequence''"

definition pad20 :: "string \<Rightarrow> string" where
  "pad20 s = replicate (20 - length s) (CHR ''0'') @ s"

definition mempoolRecordKey :: "int \<Rightarrow> string \<Rightarrow> string" where
  "mempoolRecordKey sequence hash =
     MEMPOOL_RECORD_PREFIX @ pad20 (show_long sequence) @ '':'' @ (if hash \<noteq> [] then hash else ''nohash'')"

definition nextMempoolSequence :: "kvdb \<Rightarrow> int" where
  "nextMempoolSequence d =
     (case sm_get d MEMPOOL_SEQUENCE_KEY of None \<Rightarrow> 1 | Some value \<Rightarrow> if atol value < 1 then 1 else atol value)"

section \<open>Usable records\<close>

definition isExpiredHeartbeatRecord :: "env \<Rightarrow> record_structure \<Rightarrow> int \<Rightarrow> bool" where
  "isExpiredHeartbeatRecord E r currentBlock =
     (if r_type r \<noteq> HEART_BEAT then False
      else if r_time r = [] then True
      else
        let h = strtol (r_time r)
        in if st_erange h \<or> \<not> st_read h \<or> st_rest h \<noteq> [] then True
           else st_value h <
             (if currentBlock < 0 then getCurrentTimeBlock E else currentBlock) - HEARTBEAT_VALID_BLOCKS)"

definition pendingRecordLooksUsable :: "env \<Rightarrow> record_structure \<Rightarrow> bool" where
  "pendingRecordLooksUsable E r \<longleftrightarrow>
     (r_sender r \<noteq> [] \<or> r_recipient r \<noteq> []) \<and> isRecordSizeValid E r \<and> \<not> isExpiredHeartbeatRecord E r (-1)"

definition recordExistsInAcceptedChain :: "env \<Rightarrow> dbh \<Rightarrow> string \<Rightarrow> bool" where
  "recordExistsInAcceptedChain E db recordHash =
     (if recordHash = [] then False
      else
        let firstBlockId = getFirstBlockId db; latestBlockId = getLatestBlockId db
        in if firstBlockId < 0 \<or> latestBlockId < 0 then False
           else \<exists>b \<in> set (walk_chain (getNextBlock E db) (\<lambda>n. False) latestBlockId 0 (getBlock E db firstBlockId)).
                  \<exists>r \<in> set (b_records b). r_hash r = recordHash)"

section \<open>The queue\<close>

type_synonym queue = "dbh \<times> string"

definition legacyQueueRecords :: "env \<Rightarrow> string \<Rightarrow> record_structure list" where
  "legacyQueueRecords E file = filter (pendingRecordLooksUsable E) (map (parseRecordJson E) (getlines [] file))"

text \<open>Whether a record that the database holds is still to be offered.\<close>

definition still_pending :: "env \<Rightarrow> dbh \<Rightarrow> record_structure \<Rightarrow> bool" where
  "still_pending E db r \<longleftrightarrow>
     pendingRecordLooksUsable E r \<and> \<not> (r_hash r \<noteq> [] \<and> recordExistsInAcceptedChain E db (r_hash r))"

definition databaseMempoolRecords :: "env \<Rightarrow> dbh \<Rightarrow> record_structure list \<times> dbh" where
  "databaseMempoolRecords E db =
     (case db of None \<Rightarrow> ([], db)
      | Some d \<Rightarrow>
          let found = map (\<lambda>k. (k, parseRecordJson E (db_text d k))) (keys_with_prefix d MEMPOOL_RECORD_PREFIX);
              cleanup = concat (map (\<lambda>(k, r). if still_pending E db r then []
                          else Delete k # (if r_hash r \<noteq> [] then [Delete (MEMPOOL_HASH_PREFIX @ r_hash r)] else [])) found)
          in (filter (still_pending E db) (map snd found), Some (write_batch cleanup d)))"

definition clearDatabaseMempool :: "dbh \<Rightarrow> dbh" where
  "clearDatabaseMempool db =
     map_option (\<lambda>d. write_batch (map Delete (keys_with_prefix d MEMPOOL_RECORD_PREFIX) @
                                  map Delete (keys_with_prefix d MEMPOOL_HASH_PREFIX)) d) db"

fun dedupe_from :: "string set \<Rightarrow> record_structure list \<Rightarrow> record_structure list" where
  "dedupe_from seenHashes [] = []"
| "dedupe_from seenHashes (r # rs) =
     (if r_hash r \<noteq> [] \<and> r_hash r \<in> seenHashes then dedupe_from seenHashes rs
      else r # dedupe_from (if r_hash r \<noteq> [] then insert (r_hash r) seenHashes else seenHashes) rs)"

definition dedupePendingRecords :: "record_structure list \<Rightarrow> record_structure list" where
  "dedupePendingRecords input = dedupe_from {} input"

definition addToQueue :: "env \<Rightarrow> record_structure \<Rightarrow> queue \<Rightarrow> int \<times> queue" where
  "addToQueue E r = (\<lambda>(db, file).
     if \<not> isRecordSizeValid E r then (0, (db, file))
     else if isExpiredHeartbeatRecord E r (-1) then (1, (db, file))
     else if r_hash r \<noteq> [] \<and> recordExistsInAcceptedChain E db (r_hash r) then (1, (db, file))
     else
       case db of
         Some d \<Rightarrow>
           if r_hash r \<noteq> [] \<and> (sm_get d (MEMPOOL_HASH_PREFIX @ r_hash r) \<noteq> None \<or>
                (\<exists>l \<in> set (legacyQueueRecords E file). r_hash l = r_hash r)) then (1, (db, file))
           else
             let sequence = nextMempoolSequence d;
                 recordKey = mempoolRecordKey sequence (r_hash r);
                 batch = [Put recordKey (recordJSON E r)] @
                   (if r_hash r \<noteq> [] then [Put (MEMPOOL_HASH_PREFIX @ r_hash r) recordKey] else []) @
                   [Put MEMPOOL_SEQUENCE_KEY (show_long (sequence + 1))]
             in (1, (Some (write_batch batch d), file))
       | None \<Rightarrow>
           if r_hash r \<noteq> [] \<and> (\<exists>l \<in> set (legacyQueueRecords E file). r_hash l = r_hash r) then (1, (db, file))
           else (1, (db, file @ recordJSON E r)))"

definition peekQueueRecords :: "env \<Rightarrow> queue \<Rightarrow> record_structure list \<times> queue" where
  "peekQueueRecords E = (\<lambda>(db, file).
     case databaseMempoolRecords E db of
       (dbRecords, db) \<Rightarrow> (dedupePendingRecords (dbRecords @ legacyQueueRecords E file), (db, file)))"

definition parseQueueRecords :: "env \<Rightarrow> queue \<Rightarrow> record_structure list \<times> queue" where
  "parseQueueRecords E = (\<lambda>(db, file).
     case databaseMempoolRecords E db of
       (dbRecords, db) \<Rightarrow>
         (dedupePendingRecords (dbRecords @ legacyQueueRecords E file), (clearDatabaseMempool db, [])))"

section \<open>The balance for carry-forward records\<close>

definition basic_carry_forward :: "record_structure \<Rightarrow> int \<Rightarrow> bool" where
  "basic_carry_forward r blockNumber =
     (if r_type r \<noteq> CARRY_FORWARD then False
      else if r_sender r = [] \<or> r_recipient r = [] then False
      else
        let checkpoint = parseCarryForwardValueLong (r_value r) ''checkpoint'';
            period = parseCarryForwardValueLong (r_value r) ''period''
        in if checkpoint < 0 \<or> period < 0 \<or> blockNumber \<le> checkpoint then False
           else \<not> dlt (r_amount r) (DFin 0))"

definition account_record ::
    "string \<Rightarrow> block_structure \<Rightarrow> string set \<times> double \<Rightarrow> record_structure \<Rightarrow> string set \<times> double" where
  "account_record account b = (\<lambda>(keys, balance) r.
     if r_type r = ISSUE_CURRENCY \<and> r_recipient r = account then (keys, dadd balance (r_amount r))
     else if r_type r = TRANSFER_CURRENCY then
       let balance = (if r_recipient r = account then dadd balance (r_amount r) else balance);
           balance = (if r_sender r = account \<and> r_recipient r \<noteq> account
                      then dsub (dsub balance (r_amount r)) (r_fee r) else balance)
       in (keys, if b_creator b = account then dadd balance (r_fee r) else balance)
     else if r_type r = VOTE then
       let balance = (if r_sender r = account then dsub balance (r_fee r) else balance)
       in (keys, if b_creator b = account then dadd balance (r_fee r) else balance)
     else if basic_carry_forward r (b_number b) then
       let key = carryForwardKey r
       in if key \<noteq> [] \<and> key \<notin> keys
          then (insert key keys, if r_sender r = account then dadd balance CARRY_FORWARD_REWARD else balance)
          else (keys, balance)
     else (keys, balance))"

definition accountBalanceAtBlockForCarryForward :: "env \<Rightarrow> dbh \<Rightarrow> string \<Rightarrow> int \<Rightarrow> double" where
  "accountBalanceAtBlockForCarryForward E db accountPublicKey checkpointBlock =
     (let firstBlockId = getFirstBlockId db; latestBlockId = getLatestBlockId db
      in if accountPublicKey = [] \<or> firstBlockId < 0 \<or> latestBlockId < 0 then DFin 0
         else snd (foldl (\<lambda>s b. foldl (account_record accountPublicKey b) s (b_records b)) ({}, DFin 0)
                (walk_chain (getNextBlock E db) (\<lambda>n. checkpointBlock < n) latestBlockId 0 (getBlock E db firstBlockId))))"

definition account_snapshot_matches :: "env \<Rightarrow> dbh \<Rightarrow> record_structure \<Rightarrow> bool" where
  "account_snapshot_matches E db r =
     (let checkpoint = parseCarryForwardValueLong (r_value r) ''checkpoint''
      in if checkpoint < 0 then False
         else dlt (dabs (dsub (accountBalanceAtBlockForCarryForward E db (r_recipient r) checkpoint) (r_amount r))) EPS)"

end
