(* ===== verification/Wallet.thy ===== *)
theory Wallet
  imports NetworkConfig
begin

text \<open>
  \<open>src/src/wallet.cpp\<close>: the accounts of the node in \<open>wallets.dat\<close>, with the active account and
  the account that creates blocks, and the older \<open>wallet.dat\<close> with a single pair of keys. The
  state is the content of the two files, \<open>None\<close> where a file does not exist, and whether files
  can be opened for writing. Key generation is a pair of keys that is given.
\<close>

section \<open>Files and accounts\<close>

record account =
  a_id :: string
  a_label :: string
  a_private :: string
  a_public :: string

record wallet_files =
  wf_legacy :: "string option"
  wf_store :: "string option"
  wf_writable :: bool

abbreviation TAB :: char where "TAB \<equiv> CHR 0x09"
abbreviation CR :: char where "CR \<equiv> CHR 0x0D"

definition safeLabel :: "string \<Rightarrow> string" where
  "safeLabel label =
     (let label = map (\<lambda>c. if c = TAB \<or> c = NL \<or> c = CR then CHR '' '' else c) (trim label)
      in if label = [] then ''Account'' else label)"

text \<open>\<open>std::getline\<close> with a delimiter, item after item: an empty last item is not delivered.\<close>

fun split_items :: "char \<Rightarrow> string \<Rightarrow> string \<Rightarrow> string list" where
  "split_items d cur [] = (if cur = [] then [] else [cur])"
| "split_items d cur (c # cs) = (if c = d then cur # split_items d [] cs else split_items d (cur @ [c]) cs)"

definition splitTabs :: "string \<Rightarrow> string list" where
  "splitTabs line = split_items TAB [] line"

definition line_from :: "string \<Rightarrow> nat \<Rightarrow> nat \<Rightarrow> string" where
  "line_from content start skip =
     (case find_str content [NL] start of
        None \<Rightarrow> drop (start + skip) content
      | Some e \<Rightarrow> substr content (start + skip) (e - start - skip))"

text \<open>
  What \<open>readLegacyWallet\<close> assigns to its two arguments, if it gets that far, and the keys it answers
  \<open>true\<close> with: one of the keys it assigned may be empty, and then it answers \<open>false\<close>.
\<close>

definition legacy_keys :: "wallet_files \<Rightarrow> (string \<times> string) option" where
  "legacy_keys w =
     (case wf_legacy w of
        None \<Rightarrow> None
      | Some content \<Rightarrow>
          (case (find_sub ''private:'' content, find_sub ''public:'' content) of
             (Some privateStart, Some publicStart) \<Rightarrow>
               Some (line_from content privateStart 8, line_from content publicStart 7)
           | _ \<Rightarrow> None))"

definition readLegacyWallet :: "wallet_files \<Rightarrow> (string \<times> string) option" where
  "readLegacyWallet w =
     (case legacy_keys w of
        None \<Rightarrow> None
      | Some (privateKey, publicKey) \<Rightarrow> if privateKey \<noteq> [] \<and> publicKey \<noteq> [] then Some (privateKey, publicKey) else None)"

definition writeLegacyWallet :: "string \<Rightarrow> string \<Rightarrow> wallet_files \<Rightarrow> wallet_files" where
  "writeLegacyWallet privateKey publicKey w =
     (if wf_writable w
      then w\<lparr>wf_legacy := Some (''private:'' @ privateKey @ [NL] @ ''public:'' @ publicKey @ [NL])\<rparr> else w)"

type_synonym store = "account list \<times> string \<times> string"

definition store_line :: "store \<Rightarrow> string \<Rightarrow> store" where
  "store_line = (\<lambda>(accounts, activeId, creatorId) line.
     if starts_with line ''active:'' then (accounts, trim (drop 7 line), creatorId)
     else if starts_with line ''creator:'' then (accounts, activeId, trim (drop 8 line))
     else if \<not> starts_with line (''wallet'' @ [TAB]) then (accounts, activeId, creatorId)
     else case splitTabs line of
            _ # i # label # private_key # public_key # _ \<Rightarrow>
              let account = \<lparr>a_id = (if i = [] then public_key else i), a_label = label, a_private = private_key, a_public = public_key\<rparr>
              in if public_key \<noteq> [] \<and> private_key \<noteq> [] then (accounts @ [account], activeId, creatorId)
                 else (accounts, activeId, creatorId)
          | _ \<Rightarrow> (accounts, activeId, creatorId))"

text \<open>Whether the file is there, and what it holds.\<close>

definition readWalletStore :: "wallet_files \<Rightarrow> bool \<times> store" where
  "readWalletStore w =
     (case wf_store w of
        None \<Rightarrow> (False, ([], [], []))
      | Some content \<Rightarrow>
          (case foldl store_line ([], [], []) (split_items NL [] content) of
             (accounts, activeId, creatorId) \<Rightarrow>
               (True, (accounts, if activeId = [] \<and> accounts \<noteq> [] then a_id (hd accounts) else activeId,
                       if creatorId = [] \<and> accounts \<noteq> [] then a_id (hd accounts) else creatorId))))"

definition account_line :: "account \<Rightarrow> string" where
  "account_line a = ''wallet'' @ [TAB] @ a_id a @ [TAB] @ safeLabel (a_label a) @ [TAB] @ a_private a @ [TAB] @ a_public a @ [NL]"

definition store_text :: "store \<Rightarrow> string" where
  "store_text = (\<lambda>(accounts, activeId, creatorId).
     ''active:'' @ activeId @ [NL] @ ''creator:'' @ creatorId @ [NL] @ concat (map account_line accounts))"

definition writeWalletStore :: "store \<Rightarrow> wallet_files \<Rightarrow> bool \<times> wallet_files" where
  "writeWalletStore s w = (if wf_writable w then (True, w\<lparr>wf_store := Some (store_text s)\<rparr>) else (False, w))"

section \<open>Operations\<close>

definition ensureWalletStore :: "wallet_files \<Rightarrow> bool \<times> wallet_files" where
  "ensureWalletStore w =
     (case readWalletStore w of
        (found, (accounts, activeId, creatorId)) \<Rightarrow>
          if found \<and> accounts \<noteq> [] then (True, w)
          else case readLegacyWallet w of
                 None \<Rightarrow> (False, w)
               | Some (privateKey, publicKey) \<Rightarrow>
                   writeWalletStore
                     (accounts @ [\<lparr>a_id = publicKey, a_label = ''Main'', a_private = privateKey, a_public = publicKey\<rparr>],
                      publicKey, publicKey) w)"

definition wallet_fileExists :: "string \<Rightarrow> bool \<Rightarrow> wallet_files \<Rightarrow> bool" where
  "wallet_fileExists fileName otherExists w =
     (if fileName = ''wallet.dat'' then wf_store w \<noteq> None \<or> wf_legacy w \<noteq> None
      else if fileName = ''wallets.dat'' then wf_store w \<noteq> None
      else otherExists)"

definition wallet_write :: "string \<Rightarrow> string \<Rightarrow> wallet_files \<Rightarrow> bool \<times> wallet_files" where
  "wallet_write privateKey publicKey w =
     (let w = writeLegacyWallet privateKey publicKey w;
          (accounts, activeId, creatorId) = snd (readWalletStore w);
          found = (\<exists>a \<in> set accounts. a_public a = publicKey);
          accounts = map (\<lambda>a. if a_public a = publicKey then a\<lparr>a_private := privateKey, a_id := publicKey\<rparr> else a) accounts;
          accounts = (if found then accounts
                      else accounts @ [\<lparr>a_id = publicKey, a_label = (if accounts = [] then ''Main'' else ''Account''),
                                        a_private = privateKey, a_public = publicKey\<rparr>]);
          activeId = (if activeId = [] then publicKey else activeId);
          creatorId = (if creatorId = [] then a_id (hd accounts) else creatorId)
      in writeWalletStore (accounts, activeId, creatorId) w)"

definition matches :: "string \<Rightarrow> account \<Rightarrow> bool" where
  "matches i a \<longleftrightarrow> a_id a = i \<or> a_public a = i"

definition readAccount :: "string \<Rightarrow> wallet_files \<Rightarrow> (string \<times> string) option \<times> wallet_files" where
  "readAccount i w =
     (let w = snd (ensureWalletStore w);
          (accounts, activeId, creatorId) = snd (readWalletStore w);
          i = (if i = [] then activeId else i)
      in (map_option (\<lambda>a. (a_private a, a_public a)) (find (matches i) accounts), w))"

definition listAccounts :: "wallet_files \<Rightarrow> account list \<times> wallet_files" where
  "listAccounts w = (let w = snd (ensureWalletStore w) in (fst (snd (readWalletStore w)), w))"

definition activeAccountId :: "wallet_files \<Rightarrow> string \<times> wallet_files" where
  "activeAccountId w = (let w = snd (ensureWalletStore w) in (fst (snd (snd (readWalletStore w))), w))"

definition creatorAccountId :: "wallet_files \<Rightarrow> string \<times> wallet_files" where
  "creatorAccountId w = (let w = snd (ensureWalletStore w) in (snd (snd (snd (readWalletStore w))), w))"

definition wallet_read :: "wallet_files \<Rightarrow> (string \<times> string) option \<times> wallet_files" where
  "wallet_read w =
     (case ensureWalletStore w of
        (False, w) \<Rightarrow> (readLegacyWallet w, w)
      | (True, w) \<Rightarrow> (case activeAccountId w of (i, w) \<Rightarrow> readAccount i w))"

definition readCreatorAccount :: "wallet_files \<Rightarrow> (string \<times> string) option \<times> wallet_files" where
  "readCreatorAccount w =
     (case ensureWalletStore w of
        (False, w) \<Rightarrow> (readLegacyWallet w, w)
      | (True, w) \<Rightarrow> (case creatorAccountId w of (i, w) \<Rightarrow> readAccount i w))"

text \<open>
  What \<open>read\<close> and \<open>readCreatorAccount\<close> leave in their arguments when they answer \<open>false\<close>: nothing, or
  what \<open>readLegacyWallet\<close> assigned.
\<close>

definition keys_left :: "wallet_files \<Rightarrow> (string \<times> string) option" where
  "keys_left w = (case ensureWalletStore w of (False, w) \<Rightarrow> legacy_keys w | (True, w) \<Rightarrow> None)"

text \<open>The new pair of keys is given; \<open>None\<close> when no private key could be made.\<close>

definition createAccount :: "(string \<times> string) option \<Rightarrow> string \<Rightarrow> wallet_files \<Rightarrow> (bool \<times> account option) \<times> wallet_files" where
  "createAccount keys label w =
     (case keys of
        None \<Rightarrow> ((False, None), w)
      | Some (privateKey, publicKey) \<Rightarrow>
          let w = snd (ensureWalletStore w);
              (accounts, activeId, creatorId) = snd (readWalletStore w);
              created = \<lparr>a_id = publicKey, a_label = safeLabel label, a_private = privateKey, a_public = publicKey\<rparr>;
              accounts = accounts @ [created];
              activeId = (if activeId = [] then a_id created else activeId);
              creatorId = (if creatorId = [] then a_id (hd accounts) else creatorId);
              (ok, w) = writeWalletStore (accounts, activeId, creatorId) w
          in ((ok, Some created), w))"

definition setActiveAccount :: "string \<Rightarrow> wallet_files \<Rightarrow> bool \<times> wallet_files" where
  "setActiveAccount i w =
     (let w = snd (ensureWalletStore w);
          (accounts, activeId, creatorId) = snd (readWalletStore w)
      in case find (matches i) accounts of
           None \<Rightarrow> (False, w)
         | Some a \<Rightarrow>
             writeWalletStore (accounts, a_id a, if creatorId = [] then a_id (hd accounts) else creatorId)
               (writeLegacyWallet (a_private a) (a_public a) w))"

definition setCreatorAccount :: "string \<Rightarrow> wallet_files \<Rightarrow> bool \<times> wallet_files" where
  "setCreatorAccount i w =
     (let w = snd (ensureWalletStore w);
          (accounts, activeId, creatorId) = snd (readWalletStore w)
      in case find (matches i) accounts of
           None \<Rightarrow> (False, w)
         | Some a \<Rightarrow> writeWalletStore (accounts, activeId, a_id a) w)"

section \<open>The store read back\<close>

text \<open>Text that survives as a field of the store.\<close>

definition field :: "string \<Rightarrow> bool" where
  "field s \<longleftrightarrow> s \<noteq> [] \<and> TAB \<notin> set s \<and> NL \<notin> set s"

definition account_ok :: "account \<Rightarrow> bool" where
  "account_ok a \<longleftrightarrow> field (a_id a) \<and> trim (a_id a) = a_id a \<and> field (a_private a) \<and> field (a_public a) \<and>
     safeLabel (a_label a) = a_label a"

definition store_ok :: "store \<Rightarrow> bool" where
  "store_ok = (\<lambda>(accounts, activeId, creatorId).
     list_all account_ok accounts \<and> accounts \<noteq> [] \<and> activeId \<noteq> [] \<and> creatorId \<noteq> [] \<and>
     NL \<notin> set activeId \<and> trim activeId = activeId \<and> NL \<notin> set creatorId \<and> trim creatorId = creatorId)"

lemma split_items_field: "d \<notin> set s \<Longrightarrow> split_items d cur (s @ d # rest) = (cur @ s) # split_items d [] rest"
  by (induction s arbitrary: cur) auto

lemma split_items_last: "d \<notin> set s \<Longrightarrow> split_items d cur s = (if cur @ s = [] then [] else [cur @ s])"
  by (induction s arbitrary: cur) auto

lemma trim_ends: "trim s = [] \<or> (\<not> is_trim_char (hd (trim s)) \<and> \<not> is_trim_char (last (trim s)))"
proof -
  let ?t = "dropWhile is_trim_char s"
  have l: "trim s = [] \<or> \<not> is_trim_char (last (trim s))"
    using hd_dropWhile [of is_trim_char "rev ?t"] by (auto simp: trim_def last_rev)
  have "trim s = [] \<or> hd (trim s) = hd ?t"
  proof (cases "trim s = []")
    case False
    have "?t = rev (takeWhile is_trim_char (rev ?t) @ dropWhile is_trim_char (rev ?t))" by simp
    then have "?t = trim s @ rev (takeWhile is_trim_char (rev ?t))" by (simp only: rev_append trim_def)
    then show ?thesis using False by (metis hd_append2)
  qed simp
  moreover have "?t = [] \<or> \<not> is_trim_char (hd ?t)" using hd_dropWhile [of is_trim_char s] by blast
  moreover have "?t = [] \<Longrightarrow> trim s = []" by (auto simp: trim_def dest: set_dropWhileD)
  ultimately show ?thesis using l by metis
qed

lemma trim_id: "s = [] \<or> (\<not> is_trim_char (hd s) \<and> \<not> is_trim_char (last s)) \<Longrightarrow> trim s = s"
proof (cases "s = []")
  case False
  assume "s = [] \<or> (\<not> is_trim_char (hd s) \<and> \<not> is_trim_char (last s))"
  then have "dropWhile is_trim_char s = s" "dropWhile is_trim_char (rev s) = rev s"
    using False by (auto simp: dropWhile_eq_self_iff hd_rev)
  then show ?thesis by (simp add: trim_def)
qed (simp add: trim_def)

lemma safeLabel_chars: "TAB \<notin> set (safeLabel l)" "NL \<notin> set (safeLabel l)"
  by (auto simp: safeLabel_def Let_def)

lemma safeLabel_idem: "safeLabel (safeLabel l) = safeLabel l"
proof (cases "trim l = []")
  case True
  have "safeLabel ''Account'' = ''Account''" by code_simp
  then show ?thesis using True by (simp add: safeLabel_def)
next
  case False
  let ?f = "\<lambda>c. if c = TAB \<or> c = NL \<or> c = CR then CHR '' '' else c"
  have e: "\<not> is_trim_char (hd (trim l))" "\<not> is_trim_char (last (trim l))" using trim_ends [of l] False by auto
  have f: "\<not> is_trim_char c \<Longrightarrow> ?f c = c" "?f (?f c) = ?f c" for c by (auto simp: is_trim_char_def)
  have "hd (map ?f (trim l)) = hd (trim l)" "last (map ?f (trim l)) = last (trim l)"
    using f(1) [OF e(1)] f(1) [OF e(2)] False by (simp_all add: hd_map last_map)
  then have "trim (map ?f (trim l)) = map ?f (trim l)" using e by (intro trim_id) simp
  moreover have "map ?f (map ?f (trim l)) = map ?f (trim l)" using f(2) by simp
  ultimately show ?thesis using False by (simp add: safeLabel_def Let_def)
qed

lemma splitTabs_account:
  assumes "account_ok a"
  shows "splitTabs (''wallet'' @ [TAB] @ a_id a @ [TAB] @ a_label a @ [TAB] @ a_private a @ [TAB] @ a_public a) =
    [''wallet'', a_id a, a_label a, a_private a, a_public a]"
proof -
  have l: "TAB \<notin> set (a_label a)" using assms safeLabel_chars(1) [of "a_label a"] by (simp add: account_ok_def)
  have "splitTabs (''wallet'' @ TAB # (a_id a @ TAB # (a_label a @ TAB # (a_private a @ TAB # a_public a)))) =
      [''wallet'', a_id a, a_label a, a_private a, a_public a]"
    unfolding splitTabs_def using assms l
    by (subst split_items_field, simp, subst split_items_field, simp add: account_ok_def field_def, subst split_items_field, simp,
        subst split_items_field, simp add: account_ok_def field_def, subst split_items_last) (simp_all add: account_ok_def field_def)
  then show ?thesis by simp
qed

lemma store_line_account:
  assumes "account_ok a"
  shows "store_line (as, i, c) (''wallet'' @ [TAB] @ a_id a @ [TAB] @ a_label a @ [TAB] @ a_private a @ [TAB] @ a_public a) = (as @ [a], i, c)"
  using splitTabs_account [OF assms] assms
  by (simp add: store_line_def account_ok_def field_def)

lemma store_lines_accounts:
  assumes "list_all account_ok accounts"
  shows "foldl store_line (as, i, c) (split_items NL [] (concat (map account_line accounts))) = (as @ accounts, i, c)"
  using assms
proof (induction accounts arbitrary: as)
  case (Cons a accounts)
  let ?l = "''wallet'' @ [TAB] @ a_id a @ [TAB] @ a_label a @ [TAB] @ a_private a @ [TAB] @ a_public a"
  have a: "account_ok a" using Cons.prems by simp
  then have "NL \<notin> set ?l" using safeLabel_chars(2) [of "a_label a"] by (auto simp: account_ok_def field_def)
  moreover have "account_line a @ t = ?l @ NL # t" for t using a by (simp add: account_line_def account_ok_def)
  ultimately have "split_items NL [] (account_line a @ t) = ?l # split_items NL [] t" for t
    using split_items_field [of NL ?l "[]" t] by simp
  then show ?case using Cons store_line_account [OF a, of as i c] by simp
qed simp

lemma read_store_text:
  assumes "store_ok s" and "wf_store w = Some (store_text s)"
  shows "readWalletStore w = (True, s)"
proof -
  obtain accounts i c where s: "s = (accounts, i, c)" by (cases s)
  have ok: "list_all account_ok accounts" "accounts \<noteq> []" "i \<noteq> []" "c \<noteq> []" "NL \<notin> set i" "trim i = i" "NL \<notin> set c" "trim c = c"
    using assms(1) by (simp_all add: store_ok_def s)
  have "split_items NL [] (store_text s) = (''active:'' @ i) # (''creator:'' @ c) # split_items NL [] (concat (map account_line accounts))"
    using split_items_field [of NL "''active:'' @ i" "[]" "''creator:'' @ c @ NL # concat (map account_line accounts)"] ok
      split_items_field [of NL "''creator:'' @ c" "[]" "concat (map account_line accounts)"]
    by (simp add: store_text_def s)
  moreover have "store_line ([], [], []) (''active:'' @ i) = ([], i, [])" "store_line ([], i, []) (''creator:'' @ c) = ([], i, c)"
    using ok by (simp_all add: store_line_def)
  ultimately show ?thesis
    using store_lines_accounts [OF ok(1), of "[]" i c] ok by (simp add: readWalletStore_def assms(2) s)
qed

text \<open>A directory that can be written and whose store is well formed.\<close>

definition wallet_ok :: "wallet_files \<Rightarrow> store \<Rightarrow> bool" where
  "wallet_ok w s \<longleftrightarrow> wf_writable w \<and> readWalletStore w = (True, s) \<and> store_ok s"

lemma write_ok: "store_ok s \<Longrightarrow> wf_writable w \<Longrightarrow> \<exists>w'. writeWalletStore s w = (True, w') \<and> wallet_ok w' s \<and> wf_legacy w' = wf_legacy w"
  using read_store_text [of s "w\<lparr>wf_store := Some (store_text s)\<rparr>"] by (simp add: writeWalletStore_def wallet_ok_def)

lemma ensure_ok: "wallet_ok w s \<Longrightarrow> ensureWalletStore w = (True, w)"
  by (cases s) (auto simp: ensureWalletStore_def wallet_ok_def store_ok_def)

lemma legacy_ok [simp]: "wallet_ok (writeLegacyWallet p q w) s = wallet_ok w s"
  by (simp add: wallet_ok_def writeLegacyWallet_def readWalletStore_def)

text \<open>The older file read back, for keys in hexadecimal, or at least without the letter \<open>p\<close>.\<close>

lemma legacy_readback:
  assumes "wf_writable w" and "field p" and "field q" and "CHR ''p'' \<notin> set p"
  shows "readLegacyWallet (writeLegacyWallet p q w) = Some (p, q)"
proof -
  have nl: "NL \<notin> set p" "NL \<notin> set q" "p \<noteq> []" "q \<noteq> []" using assms(2,3) by (auto simp: field_def)
  let ?u = "''public:'' @ q @ [NL]"
  let ?t = "''private:'' @ p @ [NL] @ ?u"
  have "drop (length xs) (xs @ ys) = ys" for xs ys :: string by simp
  moreover have "9 + length p = length (''private:'' @ p @ [NL])" "?t = (''private:'' @ p @ [NL]) @ ?u" by simp_all
  ultimately have d: "drop (9 + length p) ?t = ?u" by metis
  have "find_str ?t [NL] 0 = Some (8 + length p)"
    using find_sub_skip [of NL "''private:'' @ p" "[]" ?u] nl by (simp add: find_str_def)
  then have 1: "line_from ?t 0 8 = p" by (simp add: line_from_def substr_def)
  have "find_sub [NL] ?u = Some (7 + length q)" using find_sub_skip [of NL "''public:'' @ q" "[]" "[]"] nl by simp
  then have "find_str ?t [NL] (9 + length p) = Some (16 + length p + length q)" using d by (simp add: find_str_def del: find_sub.simps)
  moreover have "drop (16 + length p) ?t = drop 7 ?u" using arg_cong [OF d, of "drop 7"] by (simp add: add.commute)
  ultimately have 2: "line_from ?t (9 + length p) 7 = q" by (simp add: line_from_def substr_def)
  have "find_sub ''public:'' ((p @ [NL]) @ ?u) = Some (length (p @ [NL]))"
    using find_sub_skip [of "CHR ''p''" "p @ [NL]" "''ublic:''" "q @ [NL]"] assms(4) by simp
  then have 3: "find_sub ''public:'' ?t = Some (9 + length p)" by simp
  have 4: "find_sub ''private:'' ?t = Some 0" by simp
  have "readLegacyWallet (w\<lparr>wf_legacy := Some t\<rparr>) = Some (p, q)"
    if "line_from t 0 8 = p" "line_from t (9 + length p) 7 = q" "find_sub ''public:'' t = Some (9 + length p)" "find_sub ''private:'' t = Some 0" for t
    using that nl by (simp add: readLegacyWallet_def legacy_keys_def)
  then show ?thesis using 1 2 3 4 assms(1) by (simp only: writeLegacyWallet_def if_True)
qed

lemma find_matches: "find P xs = Some a \<Longrightarrow> a \<in> set xs \<and> P a"
  by (induction xs) (auto split: if_splits)

lemma find_first: "find P xs = Some a \<Longrightarrow> Q a \<Longrightarrow> (\<And>x. x \<in> set xs \<Longrightarrow> Q x \<Longrightarrow> P x) \<Longrightarrow> find Q xs = Some a"
  by (induction xs) (auto split: if_splits)

section \<open>The store as an abstract wallet\<close>

datatype wallet_op = Write string string | Create string string string | SetActive string | SetCreator string

text \<open>What an operation does to the files, and what it should do to the accounts.\<close>

fun wallet_exec :: "wallet_op \<Rightarrow> wallet_files \<Rightarrow> bool \<times> wallet_files" where
  "wallet_exec (Write p q) w = wallet_write p q w"
| "wallet_exec (Create p q l) w = (let r = createAccount (Some (p, q)) l w in (fst (fst r), snd r))"
| "wallet_exec (SetActive i) w = setActiveAccount i w"
| "wallet_exec (SetCreator i) w = setCreatorAccount i w"

definition new_account :: "string \<Rightarrow> string \<Rightarrow> string \<Rightarrow> account" where
  "new_account p q l = \<lparr>a_id = q, a_label = l, a_private = p, a_public = q\<rparr>"

fun wallet_spec :: "wallet_op \<Rightarrow> store \<Rightarrow> bool \<times> store" where
  "wallet_spec (Write p q) (as, i, c) =
     (True, (if q \<in> a_public ` set as then map (\<lambda>a. if a_public a = q then a\<lparr>a_private := p, a_id := q\<rparr> else a) as
             else as @ [new_account p q ''Account''], i, c))"
| "wallet_spec (Create p q l) (as, i, c) = (True, (as @ [new_account p q (safeLabel l)], i, c))"
| "wallet_spec (SetActive x) (as, i, c) =
     (case find (matches x) as of None \<Rightarrow> (False, (as, i, c)) | Some a \<Rightarrow> (True, (as, a_id a, c)))"
| "wallet_spec (SetCreator x) (as, i, c) =
     (case find (matches x) as of None \<Rightarrow> (False, (as, i, c)) | Some a \<Rightarrow> (True, (as, i, a_id a)))"

fun op_keys :: "wallet_op \<Rightarrow> bool" where
  "op_keys (Write p q) \<longleftrightarrow> field p \<and> field q \<and> trim q = q"
| "op_keys (Create p q l) \<longleftrightarrow> field p \<and> field q \<and> trim q = q"
| "op_keys _ \<longleftrightarrow> True"

lemma new_account_ok: "field p \<Longrightarrow> field q \<Longrightarrow> trim q = q \<Longrightarrow> safeLabel l = l \<Longrightarrow> account_ok (new_account p q l)"
  by (simp add: account_ok_def new_account_def)

lemma spec_ok: "store_ok s \<Longrightarrow> op_keys op \<Longrightarrow> store_ok (snd (wallet_spec op s))"
proof -
  assume s: "store_ok s" and o: "op_keys op"
  obtain as i c where sdef: "s = (as, i, c)" by (cases s)
  have labels: "safeLabel ''Account'' = ''Account''" by code_simp
  have found: "field (a_id a) \<and> trim (a_id a) = a_id a" if "find (matches x) as = Some a" for x a
    using find_matches [OF that] s by (auto simp: sdef store_ok_def list_all_iff account_ok_def)
  show ?thesis
  proof (cases op)
    case (Write p q)
    then have "list_all account_ok (map (\<lambda>a. if a_public a = q then a\<lparr>a_private := p, a_id := q\<rparr> else a) as)"
      using s o by (auto simp: sdef store_ok_def list_all_iff account_ok_def)
    then show ?thesis using s o new_account_ok [of p q "''Account''"] labels by (auto simp: Write sdef store_ok_def)
  next
    case (Create p q l)
    then show ?thesis using s o new_account_ok [of p q "safeLabel l"] by (auto simp: sdef store_ok_def safeLabel_idem)
  next
    case (SetActive x)
    then show ?thesis using s found [of x] by (auto simp: sdef store_ok_def field_def split: option.splits)
  next
    case (SetCreator x)
    then show ?thesis using s found [of x] by (auto simp: sdef store_ok_def field_def split: option.splits)
  qed
qed

lemma exec_spec:
  assumes w: "wallet_ok w s" and o: "op_keys op"
  shows "fst (wallet_exec op w) = fst (wallet_spec op s) \<and> wallet_ok (snd (wallet_exec op w)) (snd (wallet_spec op s))"
proof -
  obtain as i c where s: "s = (as, i, c)" by (cases s)
  have r: "readWalletStore w = (True, (as, i, c))" "store_ok s" "wf_writable w" "as \<noteq> []" "i \<noteq> []" "c \<noteq> []"
    using w by (auto simp: wallet_ok_def s store_ok_def)
  have e: "ensureWalletStore w = (True, w)" by (rule ensure_ok [OF w])
  have wr: "fst (writeWalletStore s' w') \<and> wallet_ok (snd (writeWalletStore s' w')) s'"
    if "store_ok s'" "wf_writable w'" for s' w' using write_ok [OF that] by auto
  have l: "readWalletStore (writeLegacyWallet p q w) = (True, (as, i, c))" "wf_writable (writeLegacyWallet p q w)" for p q
    using r by (simp_all add: writeLegacyWallet_def readWalletStore_def)
  note ok = spec_ok [OF r(2) o]
  show ?thesis
  proof (cases op)
    case (Write p q)
    have ok1: "store_ok (as', i, c)" if "snd (wallet_spec op s) = (as', i, c)" for as' using ok that by simp
    show ?thesis
    proof (cases "q \<in> a_public ` set as")
      case True
      let ?as = "map (\<lambda>a. if a_public a = q then a\<lparr>a_private := p, a_id := q\<rparr> else a) as"
      have "\<exists>a \<in> set as. a_public a = q" using True by auto
      then have "wallet_exec op w = writeWalletStore (?as, i, c) (writeLegacyWallet p q w)"
        using r l by (simp add: Write wallet_write_def Let_def)
      then show ?thesis using wr [OF ok1 l(2) [of p q]] True by (simp add: Write s)
    next
      case False
      then have "\<not> (\<exists>a \<in> set as. a_public a = q)" "map (\<lambda>a. if a_public a = q then a\<lparr>a_private := p, a_id := q\<rparr> else a) as = as"
        by (auto intro!: map_idI)
      then have "wallet_exec op w = writeWalletStore (as @ [new_account p q ''Account''], i, c) (writeLegacyWallet p q w)"
        using r l by (simp add: Write wallet_write_def Let_def new_account_def)
      then show ?thesis using wr [OF ok1 l(2) [of p q]] False by (simp add: Write s)
    qed
  next
    case (Create p q l')
    have "store_ok (as @ [new_account p q (safeLabel l')], i, c)" using ok by (simp add: Create s)
    from wr [OF this r(3)] show ?thesis
      using r e by (cases "writeWalletStore (as @ [new_account p q (safeLabel l')], i, c) w")
        (simp add: Create s createAccount_def Let_def new_account_def)
  next
    case (SetActive x)
    show ?thesis
    proof (cases "find (matches x) as")
      case None
      then show ?thesis using r e w by (simp add: SetActive s setActiveAccount_def Let_def)
    next
      case (Some a)
      have "store_ok (as, a_id a, c)" using ok Some by (simp add: SetActive s)
      from wr [OF this l(2)] show ?thesis using r e Some by (simp add: SetActive s setActiveAccount_def Let_def)
    qed
  next
    case (SetCreator x)
    show ?thesis
    proof (cases "find (matches x) as")
      case None
      then show ?thesis using r e w by (simp add: SetCreator s setCreatorAccount_def Let_def)
    next
      case (Some a)
      have "store_ok (as, i, a_id a)" using ok Some by (simp add: SetCreator s)
      from wr [OF this r(3)] show ?thesis using r e Some by (simp add: SetCreator s setCreatorAccount_def Let_def)
    qed
  qed
qed

text \<open>Reading follows the active account.\<close>

definition active_keys :: "store \<Rightarrow> (string \<times> string) option" where
  "active_keys = (\<lambda>(as, i, c). map_option (\<lambda>a. (a_private a, a_public a)) (find (matches i) as))"

lemma read_active: "wallet_ok w s \<Longrightarrow> wallet_read w = (active_keys s, w)"
proof -
  assume w: "wallet_ok w s"
  obtain as i c where s: "s = (as, i, c)" by (cases s)
  have r: "readWalletStore w = (True, (as, i, c))" "i \<noteq> []" using w by (auto simp: wallet_ok_def s store_ok_def)
  then show ?thesis using ensure_ok [OF w] by (simp add: wallet_read_def activeAccountId_def readAccount_def active_keys_def s Let_def)
qed

lemma spec_keeps: "a_public ` set (fst s) \<subseteq> a_public ` set (fst (snd (wallet_spec op s)))"
proof -
  obtain as i c where s: "s = (as, i, c)" by (cases s)
  have "a_public ` set (map (\<lambda>a. if a_public a = q then a\<lparr>a_private := p, a_id := q\<rparr> else a) as) = a_public ` set as" for p q
    unfolding set_map image_image by (intro image_cong) auto
  then show ?thesis by (cases op) (auto simp: s simp del: set_map list.set_map split: option.splits)
qed

text \<open>
  C22. The two wallet files implement the abstract wallet: starting from a directory with a
  well-formed store, after any sequence of writing keys, creating accounts and choosing the
  active or the creating account, the store that is read back is well formed and is what the
  operations on the list of accounts give, every public key is still there, and reading the
  wallet returns the keys of the active account.
\<close>

theorem wallet_refines:
  assumes "wallet_ok w s" and "list_all op_keys ops"
  defines "w' \<equiv> fold (\<lambda>op w. snd (wallet_exec op w)) ops w" and "s' \<equiv> fold (\<lambda>op s. snd (wallet_spec op s)) ops s"
  shows "readWalletStore w' = (True, s') \<and> store_ok s' \<and> fst (wallet_read w') = active_keys s' \<and>
    a_public ` set (fst s) \<subseteq> a_public ` set (fst s')"
proof -
  have "wallet_ok (fold (\<lambda>op w. snd (wallet_exec op w)) ops w) (fold (\<lambda>op s. snd (wallet_spec op s)) ops s) \<and>
      a_public ` set (fst s) \<subseteq> a_public ` set (fst (fold (\<lambda>op s. snd (wallet_spec op s)) ops s))"
    using assms(1,2)
  proof (induction ops arbitrary: w s)
    case (Cons op ops)
    have "wallet_ok (snd (wallet_exec op w)) (snd (wallet_spec op s))" using exec_spec [OF Cons.prems(1)] Cons.prems(2) by simp
    from Cons.IH [OF this] Cons.prems(2) spec_keeps [of s op] show ?case by auto
  qed simp
  then have "wallet_ok w' s'" "a_public ` set (fst s) \<subseteq> a_public ` set (fst s')" by (simp_all add: w'_def s'_def)
  then show ?thesis using read_active [of w' s'] by (simp add: wallet_ok_def)
qed

text \<open>
  Choosing an account takes effect in both files: after \<open>setActiveAccount\<close> has found an
  account whose identifier names no other account, \<open>read\<close> returns its keys, and so does the
  older wallet file (keys in hexadecimal hold no letter \<open>p\<close>).
\<close>

theorem set_active_takes_effect:
  assumes "wallet_ok w (as, i, c)" and "find (matches x) as = Some a"
    and "list_all (\<lambda>b. \<not> matches (a_id a) b \<or> b = a) as" and "CHR ''p'' \<notin> set (a_private a)"
  shows "fst (wallet_read (snd (setActiveAccount x w))) = Some (a_private a, a_public a) \<and>
    readLegacyWallet (snd (setActiveAccount x w)) = Some (a_private a, a_public a)"
proof -
  have a: "a \<in> set as" using find_matches [OF assms(2)] by simp
  then have ok: "field (a_private a)" "field (a_public a)" "wf_writable w" "c \<noteq> []"
    using assms(1) by (auto simp: wallet_ok_def store_ok_def list_all_iff account_ok_def)
  have "wallet_ok (snd (wallet_exec (SetActive x) w)) (snd (wallet_spec (SetActive x) (as, i, c)))"
    using exec_spec [OF assms(1), of "SetActive x"] by (simp only: op_keys.simps)
  then have w': "wallet_ok (snd (setActiveAccount x w)) (as, a_id a, c)" using assms(2) by simp
  have "find (matches (a_id a)) as = Some a"
  proof -
    obtain b where b: "find (matches (a_id a)) as = Some b"
      using a by (cases "find (matches (a_id a)) as") (auto simp: find_None_iff matches_def)
    then show ?thesis using find_matches [OF b] assms(3) by (auto simp: list_all_iff)
  qed
  then have "fst (wallet_read (snd (setActiveAccount x w))) = Some (a_private a, a_public a)"
    using read_active [OF w'] by (simp add: active_keys_def)
  moreover have "snd (setActiveAccount x w) =
      (writeLegacyWallet (a_private a) (a_public a) w)\<lparr>wf_store := Some (store_text (as, a_id a, c))\<rparr>"
    using assms(1,2) ensure_ok [OF assms(1)] ok
    by (simp add: setActiveAccount_def wallet_ok_def writeWalletStore_def writeLegacyWallet_def Let_def)
  then have "readLegacyWallet (snd (setActiveAccount x w)) = readLegacyWallet (writeLegacyWallet (a_private a) (a_public a) w)"
    by (simp add: readLegacyWallet_def legacy_keys_def)
  ultimately show ?thesis using legacy_readback [OF ok(3,1,2) assms(4)] by simp
qed

definition demo_wallet :: wallet_files where
  "demo_wallet = \<lparr>wf_legacy = None, wf_store = Some (store_text ([new_account ''1f'' ''02ab'' ''Main''], ''02ab'', ''02ab'')), wf_writable = True\<rparr>"

lemma demo_wallet_ok: "wallet_ok demo_wallet ([new_account ''1f'' ''02ab'' ''Main''], ''02ab'', ''02ab'')"
proof -
  have "store_ok ([new_account ''1f'' ''02ab'' ''Main''], ''02ab'', ''02ab'')" by code_simp
  then show ?thesis using read_store_text by (simp add: wallet_ok_def demo_wallet_def)
qed

theorem wallet_refines_witness:
  "readWalletStore (fold (\<lambda>op w. snd (wallet_exec op w)) [Create ''2e'' ''03cd'' '' Savings '', SetActive ''03cd''] demo_wallet) =
     (True, ([new_account ''1f'' ''02ab'' ''Main'', new_account ''2e'' ''03cd'' ''Savings''], ''03cd'', ''02ab''))"
proof -
  have "list_all op_keys [Create ''2e'' ''03cd'' '' Savings '', SetActive ''03cd'']" by code_simp
  moreover have "fold (\<lambda>op s. snd (wallet_spec op s)) [Create ''2e'' ''03cd'' '' Savings '', SetActive ''03cd'']
      ([new_account ''1f'' ''02ab'' ''Main''], ''02ab'', ''02ab'') =
      ([new_account ''1f'' ''02ab'' ''Main'', new_account ''2e'' ''03cd'' ''Savings''], ''03cd'', ''02ab'')" by code_simp
  ultimately show ?thesis using wallet_refines [OF demo_wallet_ok] by metis
qed

theorem set_active_takes_effect_witness:
  "fst (wallet_read (snd (setActiveAccount ''02ab'' demo_wallet))) = Some (''1f'', ''02ab'')"
proof -
  have "find (matches ''02ab'') [new_account ''1f'' ''02ab'' ''Main''] = Some (new_account ''1f'' ''02ab'' ''Main'')" by code_simp
  from set_active_takes_effect [OF demo_wallet_ok this] show ?thesis by (simp add: new_account_def)
qed

end
