(* ===== verification/PeerTable.thy ===== *)
theory PeerTable
  imports BlockIndex Mempool Wallet
begin

text \<open>
  The table of peers of \<open>src/src/network/localpeerclient.cpp\<close>: addresses, the status of each
  peer and its score, the file \<open>peers.dat\<close>, the back-off and stable-tip counters, the schedule
  of creators and the choice of the peers to talk to.

  The static members and the globals of the file are the record \<open>node\<close>, together with the
  block database and its caches. What lies outside the node is the record \<open>world\<close>: the answer
  to each HTTP request, the clock, the moment at which another thread calls \<open>stop\<close> or holds the
  lock of the download. Each
  of them is a function of the number of events seen so far (\<open>n_events\<close>), so that a peer may
  answer the same request differently each time and nothing is assumed about its answers.
  \<open>std::sort\<close> leaves open the order of elements its comparison does not tell apart: it is a
  stable sort after a permutation \<open>w_ties\<close>. libcurl's escaping and the signing function are
  parameters, too.
\<close>

section \<open>State\<close>

record peer_status =
  p_url :: string
  p_publicKey :: string
  p_publicName :: string
  p_firstBlockId :: int
  p_firstBlockHash :: string
  p_latestBlockId :: int
  p_latestBlockHash :: string
  p_protocolVersion :: int
  p_consensusRulesVersion :: int
  p_rulesCompatible :: bool
  p_score :: int
  p_successes :: int
  p_failures :: int
  p_lastSeenEpoch :: int
  p_lastSuccessEpoch :: int
  p_firstFailureEpoch :: int
  p_genesisMatch :: bool
  p_reachable :: bool
  p_lastError :: string

datatype http_request = Get string | Post string string

record world =
  w_env :: env
  w_uninit :: ledger_state \<comment> \<open>unset members of a default-initialised state\<close>
  w_http :: "nat \<Rightarrow> http_request \<Rightarrow> string" \<comment> \<open>libcurl; the empty text when there is no answer\<close>
  w_clock :: "nat \<Rightarrow> int" \<comment> \<open>\<open>time (0)\<close>\<close>
  w_stop :: "nat \<Rightarrow> bool" \<comment> \<open>another thread has called \<open>stop\<close>\<close>
  w_busy :: "nat \<Rightarrow> bool" \<comment> \<open>another thread holds \<open>g_syncFromPeerMutex\<close>\<close>
  w_escape :: "string \<Rightarrow> string" \<comment> \<open>\<open>curl_easy_escape\<close>\<close>
  w_ties :: "peer_status list \<Rightarrow> peer_status list"
  w_sign :: "string \<Rightarrow> string \<Rightarrow> string" \<comment> \<open>\<open>SignMessage\<close>: private key and message\<close>
  w_writable :: bool \<comment> \<open>\<open>peers.dat\<close> can be written\<close>

record node =
  n_db :: dbh
  n_caches :: caches
  n_peers :: "string list"
  n_statuses :: "(string, peer_status) smap"
  n_configured :: "string set"
  n_advertised :: string
  n_running :: bool
  n_peers_dat :: string
  n_backoff_until :: int
  n_backoff_failures :: int
  n_stable_id :: int
  n_stable_hash :: string
  n_stable_checks :: int
  n_offset :: int
  n_events :: nat

definition PEER_PURGE_SECONDS :: int where "PEER_PURGE_SECONDS = 259200"
definition MAX_BLOCKS_PER_SYNC_BATCH :: int where "MAX_BLOCKS_PER_SYNC_BATCH = 5000"
definition MAX_BLOCKS_PER_SYNC_REQUEST :: int where "MAX_BLOCKS_PER_SYNC_REQUEST = 250"
definition MAX_BLOCK_NUMBER_REPAIR_SCAN :: int where "MAX_BLOCK_NUMBER_REPAIR_SCAN = 500"
definition MAX_BLOCKS_PER_PUSH_BATCH :: int where "MAX_BLOCKS_PER_PUSH_BATCH = 200"
definition MAX_KNOWN_PEERS :: int where "MAX_KNOWN_PEERS = 64"
definition MAX_ACTIVE_SYNC_PEERS :: int where "MAX_ACTIVE_SYNC_PEERS = 12"
definition MAX_GOSSIP_FANOUT :: int where "MAX_GOSSIP_FANOUT = 8"
definition ANNOUNCE_INTERVAL_SECONDS :: int where "ANNOUNCE_INTERVAL_SECONDS = 60"
definition PEER_STATUS_REFRESH_SECONDS :: int where "PEER_STATUS_REFRESH_SECONDS = 10"
definition PEER_SYNC_BACKOFF_BASE_SECONDS :: int where "PEER_SYNC_BACKOFF_BASE_SECONDS = 5"
definition PEER_SYNC_BACKOFF_MAX_SECONDS :: int where "PEER_SYNC_BACKOFF_MAX_SECONDS = 60"
definition REQUIRED_STABLE_TIP_CHECKS :: int where "REQUIRED_STABLE_TIP_CHECKS = 2"
definition PROTOCOL_VERSION :: int where "PROTOCOL_VERSION = 1"
definition CONSENSUS_RULES_VERSION :: int where "CONSENSUS_RULES_VERSION = 2"

text \<open>One event: a request, a look at the clock, a look at the flag \<open>running\<close>.\<close>

definition event :: "node \<Rightarrow> node" where
  "event s = s\<lparr>n_events := Suc (n_events s)\<rparr>"

definition http :: "world \<Rightarrow> http_request \<Rightarrow> node \<Rightarrow> string \<times> node" where
  "http W rq s = (w_http W (n_events s) rq, event s)"

definition local_epoch :: "world \<Rightarrow> node \<Rightarrow> int \<times> node" where
  "local_epoch W s = (w_clock W (n_events s), event s)"

definition is_running :: "world \<Rightarrow> node \<Rightarrow> bool \<times> node" where
  "is_running W s =
     (let r = (n_running s \<and> \<not> w_stop W (n_events s)) in (r, event (s\<lparr>n_running := r\<rparr>)))"

text \<open>The environment of the storage functions at this moment.\<close>

definition env_now :: "world \<Rightarrow> node \<Rightarrow> env" where
  "env_now W s = (w_env W)\<lparr>e_local_epoch := w_clock W (n_events s), e_time_offset := n_offset s\<rparr>"

section \<open>Addresses\<close>

definition trimTrailingSlash :: "string \<Rightarrow> string" where
  "trimTrailingSlash value = rev (dropWhile (\<lambda>c. c = CHR ''/'') (rev value))"

definition looksLikePeerUrl :: "string \<Rightarrow> bool" where
  "looksLikePeerUrl value \<longleftrightarrow> starts_with value ''http://'' \<or> starts_with value ''https://''"

definition normalizePeerUrl :: "string \<Rightarrow> string" where
  "normalizePeerUrl peerUrl =
     (let peer = trimTrailingSlash (trim peerUrl) in if looksLikePeerUrl peer then peer else [])"

definition emptyPeerStatus :: "string \<Rightarrow> peer_status" where
  "emptyPeerStatus peer =
     \<lparr>p_url = peer, p_publicKey = [], p_publicName = [], p_firstBlockId = -1, p_firstBlockHash = [],
      p_latestBlockId = -1, p_latestBlockHash = [], p_protocolVersion = 0, p_consensusRulesVersion = 0,
      p_rulesCompatible = False, p_score = 0, p_successes = 0, p_failures = 0, p_lastSeenEpoch = 0,
      p_lastSuccessEpoch = 0, p_firstFailureEpoch = 0, p_genesisMatch = False, p_reachable = False,
      p_lastError = ''not checked''\<rparr>"

definition parseLongOrZero :: "string \<Rightarrow> int" where
  "parseLongOrZero value = (if value = [] then 0 else atol value)"

text \<open>The loop over the occurrences of \<open>"url":"\<close>, on the text that is left.\<close>

function parsePeerUrlsFromJson :: "string \<Rightarrow> string list" where
  "parsePeerUrlsFromJson json =
     (case find_sub (jkey ''url'') json of
        None \<Rightarrow> []
      | Some i \<Rightarrow>
          let rest = drop (i + 7) json
          in case find_sub [DQ] rest of
               None \<Rightarrow> []
             | Some j \<Rightarrow>
                 let url = normalizePeerUrl (take j rest)
                 in (if url \<noteq> [] then [url] else []) @ parsePeerUrlsFromJson (drop (j + 1) rest))"
  by pat_completeness auto
termination
  by (relation "measure length") (auto dest!: find_sub_bound simp: jkey_def)

declare parsePeerUrlsFromJson.simps [simp del]

section \<open>The stable tip and the back-off\<close>

definition resetStablePeerTip :: "node \<Rightarrow> node" where
  "resetStablePeerTip s = s\<lparr>n_stable_id := -1, n_stable_hash := [], n_stable_checks := 0\<rparr>"

definition noteStablePeerTip :: "int \<Rightarrow> string \<Rightarrow> node \<Rightarrow> bool \<times> node" where
  "noteStablePeerTip blockId hash s =
     (if blockId \<le> 0 \<or> hash = [] then (False, resetStablePeerTip s)
      else
        let s = (if n_stable_id s = blockId \<and> n_stable_hash s = hash
                 then if n_stable_checks s < REQUIRED_STABLE_TIP_CHECKS
                      then s\<lparr>n_stable_checks := n_stable_checks s + 1\<rparr> else s
                 else s\<lparr>n_stable_id := blockId, n_stable_hash := hash, n_stable_checks := 1\<rparr>)
        in (REQUIRED_STABLE_TIP_CHECKS \<le> n_stable_checks s, s))"

definition peerSyncBackoffActive :: "world \<Rightarrow> node \<Rightarrow> bool \<times> node" where
  "peerSyncBackoffActive W s = (let (now, s) = local_epoch W s in (now < n_backoff_until s, s))"

definition notePeerSyncProgress :: "node \<Rightarrow> node" where
  "notePeerSyncProgress s = s\<lparr>n_backoff_failures := 0, n_backoff_until := 0\<rparr>"

definition notePeerSyncStall :: "world \<Rightarrow> node \<Rightarrow> node" where
  "notePeerSyncStall W s =
     (let (now, s) = local_epoch W s
      in if now < n_backoff_until s then s
         else
           let failures = (if n_backoff_failures s < 12 then n_backoff_failures s + 1 else n_backoff_failures s);
               delay = PEER_SYNC_BACKOFF_BASE_SECONDS * failures;
               delay = (if PEER_SYNC_BACKOFF_MAX_SECONDS < delay then PEER_SYNC_BACKOFF_MAX_SECONDS else delay)
           in s\<lparr>n_backoff_failures := failures, n_backoff_until := now + delay\<rparr>)"

section \<open>The file of peers\<close>

definition cache_line :: "(string, peer_status) smap \<Rightarrow> string \<Rightarrow> string" where
  "cache_line statuses peer =
     (let status = sm_at (emptyPeerStatus peer) statuses peer
      in peer @ [TAB] @ show_long (p_lastSuccessEpoch status) @ [TAB] @
         show_long (p_firstFailureEpoch status) @ [TAB] @ show_long (p_score status) @ [NL])"

definition writePeerCache :: "string list \<Rightarrow> (string, peer_status) smap \<Rightarrow> string set \<Rightarrow> string" where
  "writePeerCache peerUrls statuses configured =
     concat (map (cache_line statuses) (filter (\<lambda>p. p \<notin> configured) peerUrls))"

definition savePeerCache :: "world \<Rightarrow> node \<Rightarrow> node" where
  "savePeerCache W s =
     (if w_writable W
      then s\<lparr>n_peers_dat := writePeerCache (n_peers s) (n_statuses s) (n_configured s)\<rparr> else s)"

definition cached_status :: "string list \<Rightarrow> peer_status option" where
  "cached_status parts =
     (if parts = [] then None
      else
        let peer = normalizePeerUrl (parts ! 0)
        in if peer = [] then None
           else
             let st = emptyPeerStatus peer;
                 st = (if 1 < length parts then st\<lparr>p_lastSuccessEpoch := parseLongOrZero (parts ! 1)\<rparr> else st);
                 st = (if 2 < length parts then st\<lparr>p_firstFailureEpoch := parseLongOrZero (parts ! 2)\<rparr> else st);
                 st = (if 3 < length parts then st\<lparr>p_score := atoi (parts ! 3)\<rparr> else st)
             in Some st)"

definition loadPeerCache :: "string \<Rightarrow> peer_status list" where
  "loadPeerCache file = List.map_filter (\<lambda>line. cached_status (split_items TAB [] line)) (getlines [] file)"

section \<open>The status of a peer\<close>

definition status_long :: "string \<Rightarrow> string \<Rightarrow> int" where
  "status_long statusJson name =
     (if find_sub (jkey name) statusJson = None then -1 else parseSectionLong statusJson (jkey name) [DQ])"

definition status_string :: "string \<Rightarrow> string \<Rightarrow> string" where
  "status_string statusJson name =
     (if find_sub (jkey name) statusJson = None then [] else parseSectionString statusJson (jkey name) [DQ])"

text \<open>The versions are read as \<open>long\<close> and returned as \<open>int\<close>.\<close>

definition status_version :: "string \<Rightarrow> string \<Rightarrow> int" where
  "status_version statusJson name =
     (if find_sub (jkey name) statusJson = None then 0
      else signed_take_bit 31 (parseSectionLong statusJson (jkey name) [DQ]))"

definition latestBlockFromStatus :: "string \<Rightarrow> int" where
  "latestBlockFromStatus statusJson = status_long statusJson ''latest_block_id''"

definition firstBlockFromStatus :: "string \<Rightarrow> int" where
  "firstBlockFromStatus statusJson = status_long statusJson ''first_block_id''"

definition firstBlockHashFromStatus :: "string \<Rightarrow> string" where
  "firstBlockHashFromStatus statusJson = status_string statusJson ''first_block_hash''"

definition latestBlockHashFromStatus :: "string \<Rightarrow> string" where
  "latestBlockHashFromStatus statusJson = status_string statusJson ''latest_block_hash''"

definition publicKeyFromStatus :: "string \<Rightarrow> string" where
  "publicKeyFromStatus statusJson = status_string statusJson ''public_key''"

definition publicNameFromStatus :: "string \<Rightarrow> string" where
  "publicNameFromStatus statusJson = status_string statusJson ''public_name''"

definition protocolVersionFromStatus :: "string \<Rightarrow> int" where
  "protocolVersionFromStatus statusJson = status_version statusJson ''protocol_version''"

definition consensusRulesVersionFromStatus :: "string \<Rightarrow> int" where
  "consensusRulesVersionFromStatus statusJson = status_version statusJson ''consensus_rules_version''"

definition genesisMatchFromStatus :: "string \<Rightarrow> bool" where
  "genesisMatchFromStatus statusJson \<longleftrightarrow> find_sub (jfield ''genesis_match'' ''yes'') statusJson \<noteq> None"

text \<open>What is read of a non-empty answer to \<open>/api/status\<close>, and the first score it gives.\<close>

definition read_status :: "network_config \<Rightarrow> int \<Rightarrow> string \<Rightarrow> string \<Rightarrow> peer_status" where
  "read_status config now peer json =
     (let protocol = protocolVersionFromStatus json; rules = consensusRulesVersionFromStatus json;
          first = firstBlockFromStatus json; firstHash = firstBlockHashFromStatus json;
          latest = latestBlockFromStatus json
      in (emptyPeerStatus peer)
           \<lparr>p_firstBlockId := first, p_firstBlockHash := firstHash, p_latestBlockId := latest,
            p_latestBlockHash := latestBlockHashFromStatus json, p_publicKey := publicKeyFromStatus json,
            p_publicName := publicNameFromStatus json, p_protocolVersion := protocol,
            p_consensusRulesVersion := rules,
            p_rulesCompatible := (protocol = PROTOCOL_VERSION \<and> rules = CONSENSUS_RULES_VERSION),
            p_genesisMatch := (genesisMatches config first firstHash \<and> genesisMatchFromStatus json),
            p_reachable := (0 \<le> latest), p_lastSeenEpoch := now\<rparr>)"

definition status_failed :: "int \<Rightarrow> int \<Rightarrow> string \<Rightarrow> peer_status \<Rightarrow> peer_status" where
  "status_failed score now error st = st\<lparr>p_score := score, p_firstFailureEpoch := now, p_lastError := error\<rparr>"

definition judge_status :: "int \<Rightarrow> peer_status \<Rightarrow> peer_status" where
  "judge_status now st =
     (if \<not> p_reachable st then status_failed (-5) now ''missing latest block'' st
      else if \<not> p_genesisMatch st then status_failed (-20) now ''genesis mismatch'' st
      else if \<not> p_rulesCompatible st then status_failed (-100) now ''consensus rules mismatch'' st
      else st\<lparr>p_score := 10, p_lastSuccessEpoch := now, p_firstFailureEpoch := 0, p_lastError := []\<rparr>)"

definition statusFromPeer :: "world \<Rightarrow> string \<Rightarrow> node \<Rightarrow> peer_status \<times> node" where
  "statusFromPeer W peer s =
     (let (now, s) = local_epoch W s;
          (peerStatus, s) = http W (Get (peer @ ''/api/status'')) s
      in if peerStatus = [] then (status_failed (-5) now ''empty status response'' (emptyPeerStatus peer), s)
         else (judge_status now (read_status (env_config (w_env W)) now peer peerStatus), s))"

text \<open>
  Scores are of type \<open>int\<close>, and \<open>peers.dat\<close> may hold any: an addition near the limits wraps around.
\<close>

definition score_plus :: "int \<Rightarrow> int \<Rightarrow> int" where
  "score_plus score d = signed_take_bit 31 (score + d)"

definition mergePeerStatus :: "peer_status \<Rightarrow> peer_status \<Rightarrow> peer_status" where
  "mergePeerStatus current update =
     (let merged = update\<lparr>p_successes := p_successes update + p_successes current,
                          p_failures := p_failures update + p_failures current,
                          p_lastSuccessEpoch := max (p_lastSuccessEpoch current) (p_lastSuccessEpoch update)\<rparr>
      in if p_reachable update \<and> p_genesisMatch update \<and> p_rulesCompatible update
         then merged\<lparr>p_successes := p_successes merged + 1, p_score := min 100 (score_plus (p_score current) 10),
                     p_firstFailureEpoch := 0,
                     p_lastSuccessEpoch := (if 0 < p_lastSuccessEpoch update then p_lastSuccessEpoch update
                                            else p_lastSuccessEpoch merged),
                     p_lastError := []\<rparr>
         else merged\<lparr>p_failures := p_failures merged + 1, p_score := max (-100) (score_plus (p_score current) (-15)),
                     p_firstFailureEpoch := (if 0 < p_firstFailureEpoch current then p_firstFailureEpoch current
                                             else p_firstFailureEpoch merged),
                     p_lastError := (if p_lastError merged = [] then ''peer check failed'' else p_lastError merged)\<rparr>)"

section \<open>The table\<close>

definition status_of :: "node \<Rightarrow> string \<Rightarrow> peer_status" where
  "status_of s peer = sm_at (emptyPeerStatus peer) (n_statuses s) peer"

definition set_status :: "string \<Rightarrow> peer_status \<Rightarrow> node \<Rightarrow> node" where
  "set_status peer st s = s\<lparr>n_statuses := sm_put peer st (n_statuses s)\<rparr>"

definition known :: "node \<Rightarrow> string \<Rightarrow> bool" where
  "known s peer \<longleftrightarrow> sm_get (n_statuses s) peer \<noteq> None"

definition addPeer :: "world \<Rightarrow> string \<Rightarrow> bool \<Rightarrow> node \<Rightarrow> bool \<times> node" where
  "addPeer W peerUrl persist s =
     (let peer = normalizePeerUrl peerUrl
      in if peer = [] then (False, s)
         else if n_advertised s \<noteq> [] \<and> peer = n_advertised s then (False, s)
         else if known s peer then (False, s)
         else if MAX_KNOWN_PEERS \<le> int (length (n_peers s)) then (False, s)
         else
           let s = set_status peer (emptyPeerStatus peer) (s\<lparr>n_peers := n_peers s @ [peer]\<rparr>)
           in (True, if persist then savePeerCache W s else s))"

definition addVerifiedPeer :: "world \<Rightarrow> string \<Rightarrow> bool \<Rightarrow> node \<Rightarrow> bool \<times> node" where
  "addVerifiedPeer W peerUrl persist s =
     (let peer = normalizePeerUrl peerUrl
      in if peer = [] then (False, s)
         else if n_advertised s \<noteq> [] \<and> peer = n_advertised s then (False, s)
         else if known s peer then (False, s)
         else
           let (status, s) = statusFromPeer W peer s
           in if \<not> p_reachable status \<or> \<not> p_genesisMatch status \<or> \<not> p_rulesCompatible status then (False, s)
              else case addPeer W peer False s of
                     (False, s) \<Rightarrow> (False, s)
                   | (True, s) \<Rightarrow>
                       let s = set_status peer status s in (True, if persist then savePeerCache W s else s))"

definition purge_expired :: "node \<Rightarrow> int \<Rightarrow> string \<Rightarrow> bool" where
  "purge_expired s now peer \<longleftrightarrow>
     (let status = status_of s peer
      in peer \<notin> n_configured s \<and> 0 < p_firstFailureEpoch status \<and>
         PEER_PURGE_SECONDS \<le> now - p_firstFailureEpoch status \<and>
         (p_lastSuccessEpoch status = 0 \<or> p_lastSuccessEpoch status < p_firstFailureEpoch status))"

fun purge_peers :: "int \<Rightarrow> string list \<Rightarrow> node \<Rightarrow> string list \<times> node" where
  "purge_peers now [] s = ([], s)"
| "purge_peers now (peer # ps) s =
     (if purge_expired s now peer
      then purge_peers now ps (s\<lparr>n_statuses := sm_del peer (n_statuses s)\<rparr>)
      else let (kept, s) = purge_peers now ps s in (peer # kept, s))"

definition purgeUnavailablePeers :: "world \<Rightarrow> node \<Rightarrow> node" where
  "purgeUnavailablePeers W s =
     (let (now, s) = local_epoch W s;
          (keptPeers, s) = purge_peers now (n_peers s) s
      in if length keptPeers < length (n_peers s) then savePeerCache W (s\<lparr>n_peers := keptPeers\<rparr>) else s)"

fun set_configured :: "string list \<Rightarrow> node \<Rightarrow> node" where
  "set_configured [] s = s"
| "set_configured (url # urls) s =
     (let peer = normalizePeerUrl url
      in set_configured urls
           (if peer \<noteq> [] \<and> \<not> known s peer
            then set_status peer (emptyPeerStatus peer)
                   (s\<lparr>n_peers := n_peers s @ [peer], n_configured := insert peer (n_configured s)\<rparr>)
            else s))"

fun add_cached :: "world \<Rightarrow> peer_status list \<Rightarrow> node \<Rightarrow> node" where
  "add_cached W [] s = s"
| "add_cached W (st # sts) s =
     (let (added, s) = addPeer W (p_url st) False s
      in add_cached W sts (if added then set_status (p_url st) st s else s))"

definition setPeers :: "world \<Rightarrow> string list \<Rightarrow> node \<Rightarrow> node" where
  "setPeers W peerUrls s =
     (let s = set_configured peerUrls (s\<lparr>n_peers := [], n_statuses := [], n_configured := {}\<rparr>);
          s = (if peerUrls \<noteq> [] then purgeUnavailablePeers W (add_cached W (loadPeerCache (n_peers_dat s)) s) else s)
      in s\<lparr>n_running := True\<rparr>)"

definition setAdvertisedPeer :: "string \<Rightarrow> node \<Rightarrow> node" where
  "setAdvertisedPeer peerUrl s = s\<lparr>n_advertised := normalizePeerUrl peerUrl\<rparr>"

definition touch_status :: "string \<Rightarrow> node \<Rightarrow> node" where
  "touch_status peer s = (if known s peer then s else set_status peer (emptyPeerStatus peer) s)"

fun status_loop :: "world \<Rightarrow> bool \<Rightarrow> string list \<Rightarrow> node \<Rightarrow> peer_status list \<times> node" where
  "status_loop W refresh [] s = ([], s)"
| "status_loop W refresh (peer # ps) s =
     (let s = touch_status peer s;
          s = (if refresh
               then let (status, s) = statusFromPeer W peer s
                    in set_status peer (mergePeerStatus (status_of s peer) status) s
               else s);
          (rest, s') = status_loop W refresh ps s
      in (status_of s peer # rest, s'))"

definition getPeerStatuses :: "world \<Rightarrow> bool \<Rightarrow> node \<Rightarrow> peer_status list \<times> node" where
  "getPeerStatuses W refresh s =
     (let (statuses, s) = status_loop W refresh (n_peers s) s
      in (statuses, if refresh \<and> n_peers s \<noteq> [] then savePeerCache W s else s))"

definition shouldSkipPeerForScore :: "node \<Rightarrow> peer_status \<Rightarrow> bool" where
  "shouldSkipPeerForScore s status \<longleftrightarrow>
     p_score status < -40 \<and> normalizePeerUrl (p_url status) \<notin> n_configured s"

definition notePeerSuccess :: "world \<Rightarrow> string \<Rightarrow> node \<Rightarrow> node" where
  "notePeerSuccess W peerUrl s =
     (let peer = normalizePeerUrl peerUrl
      in if peer = [] then s
         else
           let s = touch_status peer s; st = status_of s peer; (now, s) = local_epoch W s
           in savePeerCache W (set_status peer
                (st\<lparr>p_successes := p_successes st + 1, p_lastSeenEpoch := now, p_lastSuccessEpoch := now,
                    p_firstFailureEpoch := 0, p_reachable := True, p_score := min 100 (score_plus (p_score st) 3),
                    p_lastError := []\<rparr>) s))"

definition notePeerFailure :: "world \<Rightarrow> string \<Rightarrow> string \<Rightarrow> node \<Rightarrow> node" where
  "notePeerFailure W peerUrl error s =
     (let peer = normalizePeerUrl peerUrl
      in if peer = [] then s
         else
           let s = touch_status peer s; (now, s) = local_epoch W s; st = status_of s peer
           in savePeerCache W (set_status peer
                (st\<lparr>p_failures := p_failures st + 1, p_lastSeenEpoch := now,
                    p_firstFailureEpoch := (if p_firstFailureEpoch st = 0 then now else p_firstFailureEpoch st),
                    p_score := max (-100) (score_plus (p_score st) (-8)),
                    p_lastError := (if error = [] then ''request failed'' else error)\<rparr>) s))"

end
