(* ===== verification/PeerClient.thy ===== *)
theory PeerClient
  imports PeerTable
begin

text \<open>
  The rest of \<open>src/src/network/localpeerclient.cpp\<close> but the download of blocks: the schedule of
  creators, the peers to talk to, discovery and announcement, the best peer and the decision
  whether the node may create blocks, the network time, handoffs, pushing and broadcasting.
\<close>

section \<open>The schedule of creators\<close>

record creator_schedule_slot =
  sl_blockId :: int
  sl_selectionBoundaryBlock :: int
  sl_selectionCheckpointBlock :: int
  sl_selectionCheckpointHash :: string
  sl_creatorKey :: string
  sl_creatorPeerUrl :: string

definition ledger_at :: "world \<Rightarrow> int \<Rightarrow> node \<Rightarrow> ledger_state \<times> node" where
  "ledger_at W stopBlock s =
     (let (st, cache) = build (env_now W s) (n_db s) [] stopBlock (c_ledger (n_caches s))
      in (st, s\<lparr>n_caches := (n_caches s)\<lparr>c_ledger := cache\<rparr>\<rparr>))"

definition creator_url :: "node \<Rightarrow> string \<Rightarrow> string" where
  "creator_url s creatorKey =
     (if creatorKey = [] then []
      else case find (\<lambda>st. p_publicKey st = creatorKey \<and> p_reachable st \<and> p_genesisMatch st \<and>
                        \<not> shouldSkipPeerForScore s st) (map snd (n_statuses s)) of
             None \<Rightarrow> [] | Some st \<Rightarrow> p_url st)"

text \<open>The loop over the slots, with the boundary and the state of the last selection.\<close>

fun schedule_slots ::
    "world \<Rightarrow> int \<Rightarrow> int list \<Rightarrow> int \<times> ledger_state \<Rightarrow> node \<Rightarrow> creator_schedule_slot list \<times> node" where
  "schedule_slots W firstBlockId [] c s = ([], s)"
| "schedule_slots W firstBlockId (slot # slots) c s =
     (let selectionBoundary = getSelectionBoundaryBlock slot firstBlockId;
          (st, s) = (if selectionBoundary \<noteq> fst c then ledger_at W selectionBoundary s else (snd c, s));
          keys = activeMemberKeysAt st selectionBoundary;
          creatorKey = getSelectedUserForBlock (env_now W s) slot (b_hash (ls_latest_block st)) keys;
          item = \<lparr>sl_blockId = slot, sl_selectionBoundaryBlock = selectionBoundary,
                  sl_selectionCheckpointBlock = b_number (ls_latest_block st),
                  sl_selectionCheckpointHash = b_hash (ls_latest_block st),
                  sl_creatorKey = creatorKey, sl_creatorPeerUrl = creator_url s creatorKey\<rparr>;
          (rest, s) = schedule_slots W firstBlockId slots (selectionBoundary, st) s
      in (item # rest, s))"

definition getUpcomingCreatorSchedule :: "world \<Rightarrow> int \<Rightarrow> node \<Rightarrow> creator_schedule_slot list \<times> node" where
  "getUpcomingCreatorSchedule W slotCount s =
     (if slotCount \<le> 0 then ([], s)
      else
        let slotCount = min 200 slotCount; firstBlockId = getFirstBlockId (n_db s)
        in if firstBlockId \<le> 0 then ([], s)
           else
             let (now, s) = local_epoch W s; currentSlot = cdiv (now + n_offset s) 15
             in schedule_slots W firstBlockId (map (\<lambda>i. currentSlot + int i) [0..<nat slotCount]) (-1, w_uninit W) s)"

fun add_new_peer :: "string list \<Rightarrow> string list \<Rightarrow> string list" where
  "add_new_peer seen [] = seen"
| "add_new_peer seen (url # urls) =
     (let peer = normalizePeerUrl url
      in add_new_peer (if peer = [] \<or> peer \<in> set seen then seen else seen @ [peer]) urls)"

definition getPriorityPeersForUpcomingCreators :: "world \<Rightarrow> int \<Rightarrow> node \<Rightarrow> string list \<times> node" where
  "getPriorityPeersForUpcomingCreators W slotCount s =
     (let (schedule, s) = getUpcomingCreatorSchedule W slotCount s
      in (add_new_peer [] (map sl_creatorPeerUrl schedule), s))"

section \<open>The peers to talk to\<close>

text \<open>
  A loop that fills the list of chosen peers up to its limit: the candidates, each with the
  decision to skip it; \<open>seenPeers\<close> holds what the list holds.
\<close>

fun gossip_fill :: "int \<Rightarrow> string list \<Rightarrow> (string \<times> bool) list \<Rightarrow> string list" where
  "gossip_fill maxPeers ordered [] = ordered"
| "gossip_fill maxPeers ordered ((url, skip) # cs) =
     (if maxPeers \<le> int (length ordered) then ordered
      else
        let peer = normalizePeerUrl url
        in gossip_fill maxPeers (if peer = [] \<or> peer \<in> set ordered \<or> skip then ordered else ordered @ [peer]) cs)"

definition skip_known :: "node \<Rightarrow> string \<Rightarrow> bool" where
  "skip_known s peer \<longleftrightarrow> known s peer \<and> shouldSkipPeerForScore s (status_of s peer)"

definition gossip_order :: "peer_status \<Rightarrow> int \<times> int \<times> int" where
  "gossip_order st = (- p_score st, - p_lastSuccessEpoch st, - p_latestBlockId st)"

definition getGossipPeers :: "world \<Rightarrow> int \<Rightarrow> bool \<Rightarrow> node \<Rightarrow> string list \<times> node" where
  "getGossipPeers W maxPeers includeCreatorPriority s =
     (if maxPeers \<le> 0 then ([], s)
      else
        let (ordered, s) =
              (if includeCreatorPriority
               then let (priorityPeers, s) = getPriorityPeersForUpcomingCreators W 30 s
                    in (gossip_fill maxPeers [] (map (\<lambda>p. (p, skip_known s (normalizePeerUrl p))) priorityPeers), s)
               else ([], s));
            (statuses, s) = getPeerStatuses W False s;
            statuses = sort_key gossip_order (w_ties W statuses);
            ordered = gossip_fill maxPeers ordered (map (\<lambda>st. (p_url st, shouldSkipPeerForScore s st)) statuses)
        in (gossip_fill maxPeers ordered (map (\<lambda>p. (p, False)) (n_peers s)), s))"

section \<open>Discovery and announcement\<close>

fun discover_in :: "world \<Rightarrow> string \<Rightarrow> string list \<Rightarrow> node \<Rightarrow> node" where
  "discover_in W peer [] s = s"
| "discover_in W peer (d # ds) s =
     (case is_running W s of
        (False, s) \<Rightarrow> s
      | (True, s) \<Rightarrow> discover_in W peer ds (if d = peer \<or> known s d then s else snd (addVerifiedPeer W d True s)))"

fun discover_from :: "world \<Rightarrow> string list \<Rightarrow> node \<Rightarrow> node" where
  "discover_from W [] s = s"
| "discover_from W (peer # ps) s =
     (case is_running W s of
        (False, s) \<Rightarrow> s
      | (True, s) \<Rightarrow>
          let (response, s) = http W (Get (peer @ ''/api/peers'')) s
          in if response = [] then discover_from W ps (notePeerFailure W peer ''empty peers response'' s)
             else discover_from W ps (discover_in W peer (parsePeerUrlsFromJson response) (notePeerSuccess W peer s)))"

definition discoverPeers :: "world \<Rightarrow> node \<Rightarrow> node" where
  "discoverPeers W s =
     (case is_running W s of
        (False, s) \<Rightarrow> s
      | (True, s) \<Rightarrow>
          let (currentPeers, s) = getGossipPeers W MAX_GOSSIP_FANOUT False s
          in purgeUnavailablePeers W (discover_from W currentPeers s))"

definition contains :: "string \<Rightarrow> string \<Rightarrow> bool" where
  "contains response part \<longleftrightarrow> find_sub part response \<noteq> None"

definition ok_or_known :: "string \<Rightarrow> bool" where
  "ok_or_known response \<longleftrightarrow> contains response (jfield ''status'' ''ok'') \<or> contains response (jfield ''status'' ''known'')"

definition announce_to :: "world \<Rightarrow> string \<Rightarrow> node \<Rightarrow> node" where
  "announce_to W peer s =
     (let body = ''{'' @ jfield ''url'' (n_advertised s) @ ''}'';
          (response, s) = http W (Post (peer @ ''/api/peers/announce'') body) s;
          encodedPeer = w_escape W (n_advertised s);
          (response, s) = (if \<not> ok_or_known response \<and> encodedPeer \<noteq> []
                           then http W (Get (peer @ ''/api/peers/announce?url='' @ encodedPeer)) s else (response, s))
      in if ok_or_known response then notePeerSuccess W peer s
         else notePeerFailure W peer (if response = [] then ''peer announce failed'' else response) s)"

fun announce_loop :: "world \<Rightarrow> string list \<Rightarrow> node \<Rightarrow> node" where
  "announce_loop W [] s = s"
| "announce_loop W (p # ps) s =
     (case is_running W s of
        (False, s) \<Rightarrow> s
      | (True, s) \<Rightarrow>
          let peer = normalizePeerUrl p
          in announce_loop W ps
               (if peer = [] \<or> peer = n_advertised s \<or> skip_known s peer then s else announce_to W peer s))"

definition announceToPeers :: "world \<Rightarrow> node \<Rightarrow> node" where
  "announceToPeers W s =
     (case is_running W s of
        (False, s) \<Rightarrow> s
      | (True, s) \<Rightarrow>
          if n_advertised s = [] \<or> n_peers s = [] then s
          else let (currentPeers, s) = getGossipPeers W MAX_GOSSIP_FANOUT False s in announce_loop W currentPeers s)"

definition stop :: "node \<Rightarrow> node" where
  "stop s = s\<lparr>n_running := False\<rparr>"

section \<open>The best peer\<close>

definition refresh_status :: "world \<Rightarrow> string \<Rightarrow> node \<Rightarrow> peer_status \<times> node" where
  "refresh_status W peer s =
     (let (status, s) = statusFromPeer W peer s;
          s = touch_status peer s
      in (status, savePeerCache W (set_status peer (mergePeerStatus (status_of s peer) status) s)))"

definition getPeerLatestBlockId :: "world \<Rightarrow> string \<Rightarrow> node \<Rightarrow> int \<times> node" where
  "getPeerLatestBlockId W peerUrl s =
     (case is_running W s of
        (False, s) \<Rightarrow> (-1, s)
      | (True, s) \<Rightarrow>
          let peer = normalizePeerUrl peerUrl
          in if peer = [] then (-1, s)
             else
               let (status, s) = refresh_status W peer s; s = purgeUnavailablePeers W s
               in if \<not> p_genesisMatch status \<or> \<not> p_reachable status \<or> \<not> p_rulesCompatible status then (-1, s)
                  else (p_latestBlockId status, s))"

lemma peers_event [simp]: "n_peers (event s) = n_peers s"
  by (simp add: event_def)

lemma peers_epoch [simp]: "n_peers (snd (local_epoch W s)) = n_peers s"
  by (simp add: local_epoch_def)

lemma peers_http [simp]: "n_peers (snd (http W rq s)) = n_peers s"
  by (simp add: http_def)

lemma peers_running [simp]: "n_peers (snd (is_running W s)) = n_peers s"
  by (simp add: is_running_def Let_def)

lemma peers_save [simp]: "n_peers (savePeerCache W s) = n_peers s"
  by (simp add: savePeerCache_def)

lemma peers_set_status [simp]: "n_peers (set_status p st s) = n_peers s"
  by (simp add: set_status_def)

lemma peers_touch [simp]: "n_peers (touch_status p s) = n_peers s"
  by (simp add: touch_status_def)

lemma peers_status [simp]: "n_peers (snd (statusFromPeer W p s)) = n_peers s"
  by (simp add: statusFromPeer_def local_epoch_def http_def Let_def)

lemma peers_refresh [simp]: "n_peers (snd (refresh_status W p s)) = n_peers s"
  by (simp add: refresh_status_def Let_def case_prod_beta)

lemma purge_peers_length: "length (fst (purge_peers now ps s)) \<le> length ps"
  by (induction now ps s rule: purge_peers.induct) (auto simp: Let_def le_SucI split: prod.splits)

lemma purge_peers_same [simp]: "n_peers (snd (purge_peers now ps s)) = n_peers s"
  by (induction now ps s rule: purge_peers.induct) (auto simp: Let_def split: prod.splits)

lemma purge_length: "length (n_peers (purgeUnavailablePeers W s)) \<le> length (n_peers s)"
  by (simp add: purgeUnavailablePeers_def Let_def local_epoch_def case_prod_beta)

lemma latest_id_length: "length (n_peers (snd (getPeerLatestBlockId W p s))) \<le> length (n_peers s)"
proof -
  have "length (n_peers (purgeUnavailablePeers W (snd (refresh_status W q (snd (is_running W s)))))) \<le> length (n_peers s)" for q
    using purge_length [of W "snd (refresh_status W q (snd (is_running W s)))"] by simp
  then show ?thesis by (simp add: getPeerLatestBlockId_def Let_def case_prod_beta split: bool.split)
qed

text \<open>
  The loop that refreshes old statuses. It runs over the indices of \<open>peers\<close>, from which the
  refresh of one peer may remove others.
\<close>

definition status_outdated :: "node \<Rightarrow> int \<Rightarrow> string \<Rightarrow> bool" where
  "status_outdated s now peer \<longleftrightarrow>
     \<not> known s peer \<or> p_lastSeenEpoch (status_of s peer) = 0 \<or>
     PEER_STATUS_REFRESH_SECONDS \<le> now - p_lastSeenEpoch (status_of s peer)"

function refresh_outdated :: "world \<Rightarrow> int \<Rightarrow> nat \<Rightarrow> node \<Rightarrow> node" where
  "refresh_outdated W now i s =
     (if i < length (n_peers s)
      then refresh_outdated W now (Suc i)
             (if status_outdated s now (n_peers s ! i) then snd (getPeerLatestBlockId W (n_peers s ! i) s) else s)
      else s)"
  by pat_completeness auto
termination
proof (relation "measure (\<lambda>(W, now, i, s). length (n_peers s) - i)", goal_cases)
  case (2 W now i s)
  then show ?case using latest_id_length [of W "n_peers s ! i" s] by auto
qed simp

declare refresh_outdated.simps [simp del]

text \<open>The first of the usable peers with the highest tip and, among those, the highest score.\<close>

definition usable :: "node \<Rightarrow> peer_status \<Rightarrow> bool" where
  "usable s st \<longleftrightarrow> p_reachable st \<and> p_genesisMatch st \<and> p_rulesCompatible st \<and> \<not> shouldSkipPeerForScore s st"

definition better_peer :: "peer_status \<Rightarrow> peer_status \<Rightarrow> bool" where
  "better_peer st best \<longleftrightarrow> p_latestBlockId best < p_latestBlockId st \<or>
     p_latestBlockId st = p_latestBlockId best \<and> p_score best < p_score st"

fun best_peer :: "node \<Rightarrow> peer_status option \<Rightarrow> peer_status list \<Rightarrow> peer_status option" where
  "best_peer s best [] = best"
| "best_peer s best (st # sts) =
     best_peer s
       (if usable s st \<and> (case best of None \<Rightarrow> True | Some b \<Rightarrow> better_peer st b) then Some st else best) sts"

definition getBestPeerStatus :: "world \<Rightarrow> node \<Rightarrow> peer_status \<times> node" where
  "getBestPeerStatus W s =
     (let (now, s) = local_epoch W s;
          s = refresh_outdated W now 0 s;
          (statuses, s) = getPeerStatuses W False s
      in (case best_peer s None statuses of None \<Rightarrow> emptyPeerStatus [] | Some st \<Rightarrow> st, s))"

definition getBestPeerLatestBlockId :: "world \<Rightarrow> node \<Rightarrow> int \<times> node" where
  "getBestPeerLatestBlockId W s = (let (best, s) = getBestPeerStatus W s in (p_latestBlockId best, s))"

definition getBestPeerLatestBlockHash :: "world \<Rightarrow> node \<Rightarrow> string \<times> node" where
  "getBestPeerLatestBlockHash W s = (let (best, s) = getBestPeerStatus W s in (p_latestBlockHash best, s))"

text \<open>Whether the node may create blocks, and the reason.\<close>

definition canCreateBlocks :: "world \<Rightarrow> node \<Rightarrow> (bool \<times> string) \<times> node" where
  "canCreateBlocks W s =
     (if n_peers s = [] then ((True, ''ok''), s)
      else
        let (bestPeer, s) = getBestPeerStatus W s; localLatestBlockId = getLatestBlockId (n_db s)
        in if p_latestBlockId bestPeer < 0
             then ((False, ''no compatible peer tip''), notePeerSyncStall W (resetStablePeerTip s))
           else if localLatestBlockId < 0 then ((False, ''local chain is empty''), resetStablePeerTip s)
           else if localLatestBlockId < p_latestBlockId bestPeer
             then ((False, ''behind peer latest block''), resetStablePeerTip s)
           else if p_latestBlockHash bestPeer = [] then ((False, ''peer latest hash unknown''), resetStablePeerTip s)
           else if p_latestBlockId bestPeer < localLatestBlockId
             then ((False, ''ahead of peer latest block''), resetStablePeerTip s)
           else
             let localTip = getBlock (env_now W s) (n_db s) localLatestBlockId
             in if 0 < b_number localTip \<and> b_hash localTip \<noteq> [] \<and> b_hash localTip = p_latestBlockHash bestPeer
                then case noteStablePeerTip (p_latestBlockId bestPeer) (p_latestBlockHash bestPeer) s of
                       (isStable, s) \<Rightarrow> (if isStable then (True, ''ok'') else (False, ''peer tip not stable yet''), s)
                else ((False, ''peer chain hash mismatch''), notePeerSyncStall W (resetStablePeerTip s)))"

definition isSyncedWithPeers :: "world \<Rightarrow> node \<Rightarrow> bool \<times> node" where
  "isSyncedWithPeers W s = (let (r, s) = canCreateBlocks W s in (fst r, s))"

section \<open>The network time\<close>

fun time_offsets :: "world \<Rightarrow> peer_status list \<Rightarrow> node \<Rightarrow> int list \<times> node" where
  "time_offsets W [] s = ([], s)"
| "time_offsets W (st # sts) s =
     (case is_running W s of
        (False, s) \<Rightarrow> ([], s)
      | (True, s) \<Rightarrow>
          if shouldSkipPeerForScore s st then time_offsets W sts s
          else
            let (before, s) = local_epoch W s;
                (response, s) = http W (Get (p_url st @ ''/api/time'')) s;
                (after, s) = local_epoch W s;
                peerEpoch = parseSectionLong response (jkey ''epoch'') [DQ];
                localMidpoint = before + cdiv (after - before) 2
            in if \<not> contains response (jkey ''epoch'') \<or> peerEpoch \<le> 0 then time_offsets W sts s
               else let (offsets, s) = time_offsets W sts s in ((peerEpoch - localMidpoint) # offsets, s))"

definition median_offset :: "int list \<Rightarrow> int" where
  "median_offset offsets = sort offsets ! (length offsets div 2)"

definition syncNetworkTime :: "world \<Rightarrow> node \<Rightarrow> bool \<times> node" where
  "syncNetworkTime W s =
     (case is_running W s of
        (False, s) \<Rightarrow> (False, s)
      | (True, s) \<Rightarrow>
          if n_peers s = [] then (False, s)
          else
            let (statuses, s) = getPeerStatuses W False s;
                (offsets, s) = time_offsets W statuses s
            in if offsets = [] then (False, s) else (True, s\<lparr>n_offset := median_offset offsets\<rparr>))"

definition isClockHealthy :: "node \<Rightarrow> bool" where
  "isClockHealthy s \<longleftrightarrow> -30 < n_offset s \<and> n_offset s < 30"

section \<open>Handoffs\<close>

fun join_with :: "string \<Rightarrow> string list \<Rightarrow> string" where
  "join_with sep [] = []"
| "join_with sep [x] = x"
| "join_with sep (x # y # xs) = x @ sep @ join_with sep (y # xs)"

definition handoffMemberSetHash :: "env \<Rightarrow> string list \<Rightarrow> string" where
  "handoffMemberSetHash E activeMemberKeys = sha256 E (join_with '','' activeMemberKeys)"

definition handoffHashSeed :: "env \<Rightarrow> int \<Rightarrow> string \<Rightarrow> string \<Rightarrow> string \<Rightarrow> int \<Rightarrow> string \<Rightarrow> string \<Rightarrow> string" where
  "handoffHashSeed E blockNumber blockHash parentHash creatorKey nextSlot nextCreator activeMemberSetHash =
     sha256 E (join_with ''|''
       [show_long blockNumber, blockHash, parentHash, creatorKey, show_long nextSlot, nextCreator, activeMemberSetHash])"

definition handoffJson :: "world \<Rightarrow> block_structure \<Rightarrow> string \<Rightarrow> node \<Rightarrow> string \<times> node" where
  "handoffJson W b creatorPrivateKey s =
     (if b_number b \<le> 0 \<or> b_hash b = [] \<or> creatorPrivateKey = [] then ([], s)
      else
        let nextSlot = b_number b + 1;
            selectionBoundary = getSelectionBoundaryBlock nextSlot (getFirstBlockId (n_db s));
            (ledgerState, s) = ledger_at W selectionBoundary s;
            E = env_now W s;
            activeMemberKeys = activeMemberKeysAt ledgerState (ls_latest_id ledgerState);
            nextCreator = getSelectedUserForBlock E nextSlot (b_hash (ls_latest_block ledgerState)) activeMemberKeys;
            activeMemberSetHash = handoffMemberSetHash E activeMemberKeys;
            handoffHash = handoffHashSeed E (b_number b) (b_hash b) (b_previous_hash b) (b_creator b) nextSlot
                            nextCreator activeMemberSetHash;
            signature = w_sign W creatorPrivateKey handoffHash
        in (''{'' @ jfield ''type'' ''BLOCK_HANDOFF'' @ '','' @ jfield ''block_number'' (show_long (b_number b)) @ '','' @
            jfield ''block_hash'' (b_hash b) @ '','' @ jfield ''parent_hash'' (b_previous_hash b) @ '','' @
            jfield ''creator'' (b_creator b) @ '','' @ jfield ''next_slot'' (show_long nextSlot) @ '','' @
            jfield ''next_creator'' nextCreator @ '','' @ jfield ''active_member_set_hash'' activeMemberSetHash @ '','' @
            jfield ''handoff_hash'' handoffHash @ '','' @ jfield ''signature'' signature @ ''}'', s))"

section \<open>Pushing blocks\<close>

record push_result =
  pr_candidateBlocks :: int
  pr_pushedBlocks :: int
  pr_failedBlockId :: int
  pr_response :: string

definition nothing_pushed :: push_result where
  "nothing_pushed = \<lparr>pr_candidateBlocks = 0, pr_pushedBlocks = 0, pr_failedBlockId = -1, pr_response = []\<rparr>"

definition acceptedResponse :: "string \<Rightarrow> bool" where
  "acceptedResponse response \<longleftrightarrow>
     contains response (jfield ''status'' ''accepted'') \<or> contains response (jfield ''status'' ''stored'') \<or>
     contains response (jfield ''status'' ''known'') \<or> contains response (jfield ''status'' ''ok'') \<or>
     response = ''accepted''"

definition block_accepted :: "string \<Rightarrow> bool" where
  "block_accepted response \<longleftrightarrow> contains response (jfield ''status'' ''accepted'') \<or> response = ''accepted''"

definition submitBlockToPeer :: "world \<Rightarrow> string \<Rightarrow> block_structure \<Rightarrow> node \<Rightarrow> (bool \<times> string) \<times> node" where
  "submitBlockToPeer W peer b s =
     (let blockJson = blockJSON (env_now W s) b;
          (response, s) = http W (Post (peer @ ''/api/blocks/submit'') blockJson) s
      in if block_accepted response then ((True, response), s)
         else
           let encodedBlock = w_escape W blockJson
           in if encodedBlock = [] then ((False, ''unable to encode block''), s)
              else let (response, s) = http W (Get (peer @ ''/api/blocks/submit?block='' @ encodedBlock)) s
                   in ((block_accepted response, response), s))"

definition connectedBlocksAfter :: "world \<Rightarrow> int \<Rightarrow> node \<Rightarrow> block_structure list" where
  "connectedBlocksAfter W blockNumber s =
     (let E = env_now W s; firstBlockId = getFirstBlockId (n_db s)
      in if firstBlockId < 0 then []
         else filter (\<lambda>b. blockNumber < b_number b)
                (walk_chain (getNextBlock E (n_db s)) (\<lambda>n. False) (-1) 0 (getBlock E (n_db s) firstBlockId)))"

definition push_failed :: "world \<Rightarrow> string \<Rightarrow> string \<Rightarrow> node \<Rightarrow> node" where
  "push_failed W peer response s =
     (let s = touch_status peer s; (now, s) = local_epoch W s; st = status_of s peer
      in savePeerCache W (set_status peer
           (st\<lparr>p_failures := p_failures st + 1,
               p_firstFailureEpoch := (if p_firstFailureEpoch st = 0 then now else p_firstFailureEpoch st),
               p_score := max (-100) (score_plus (p_score st) (-10)),
               p_lastError := (if response = [] then ''push failed'' else response)\<rparr>) s))"

definition push_done :: "world \<Rightarrow> string \<Rightarrow> node \<Rightarrow> node" where
  "push_done W peer s =
     (let s = touch_status peer s; (now, s) = local_epoch W s; st = status_of s peer
      in savePeerCache W (set_status peer
           (st\<lparr>p_successes := p_successes st + 1, p_lastSuccessEpoch := now, p_firstFailureEpoch := 0,
               p_score := min 100 (score_plus (p_score st) 1)\<rparr>) s))"

text \<open>The loop over the blocks to push; \<open>noted\<close> says whether the status of the peer is updated.\<close>

fun push_blocks :: "world \<Rightarrow> bool \<Rightarrow> string \<Rightarrow> push_result \<Rightarrow> block_structure list \<Rightarrow> node \<Rightarrow> push_result \<times> node" where
  "push_blocks W noted peer result [] s = (result, s)"
| "push_blocks W noted peer result (b # bs) s =
     (if MAX_BLOCKS_PER_PUSH_BATCH \<le> pr_pushedBlocks result then (result, s)
      else case is_running W s of
        (False, s) \<Rightarrow> (result\<lparr>pr_response := ''stopping''\<rparr>, s)
      | (True, s) \<Rightarrow>
          (case submitBlockToPeer W peer b s of
             ((False, response), s) \<Rightarrow>
               (result\<lparr>pr_failedBlockId := b_number b, pr_response := response\<rparr>,
                if noted then push_failed W peer response s else s)
           | ((True, response), s) \<Rightarrow>
               push_blocks W noted peer (result\<lparr>pr_pushedBlocks := pr_pushedBlocks result + 1\<rparr>) bs
                 (if noted then push_done W peer s else s)))"

definition push_start :: "world \<Rightarrow> peer_status \<Rightarrow> node \<Rightarrow> int" where
  "push_start W status s =
     (let peerLatestBlockId = (if p_genesisMatch status \<and> p_reachable status then p_latestBlockId status else -1);
          localPeerTip = getBlock (env_now W s) (n_db s) peerLatestBlockId
      in if peerLatestBlockId < 0 then -1
         else if p_latestBlockHash status \<noteq> [] \<and>
                 (b_number localPeerTip \<le> 0 \<or> b_hash localPeerTip \<noteq> p_latestBlockHash status)
         then getFirstBlockId (n_db s) - 1
         else peerLatestBlockId - 100)"

definition pushToPeerDetailed :: "world \<Rightarrow> string \<Rightarrow> node \<Rightarrow> push_result \<times> node" where
  "pushToPeerDetailed W peerUrl s =
     (case is_running W s of
        (False, s) \<Rightarrow> (nothing_pushed\<lparr>pr_response := ''stopping''\<rparr>, s)
      | (True, s) \<Rightarrow>
          let peer = normalizePeerUrl peerUrl
          in if peer = [] then (nothing_pushed\<lparr>pr_response := ''empty peer URL''\<rparr>, s)
             else
               let (status, s) = refresh_status W peer s
               in if \<not> p_rulesCompatible status
                  then (nothing_pushed\<lparr>pr_response := ''consensus rules mismatch''\<rparr>, s)
                  else
                    let pushStartBlock = push_start W status s
                    in if getLatestBlockId (n_db s) < 0 \<or> getFirstBlockId (n_db s) < 0 \<or>
                          getLatestBlockId (n_db s) \<le> pushStartBlock
                       then (nothing_pushed, s)
                       else
                         let blocks = connectedBlocksAfter W pushStartBlock s
                         in push_blocks W True peer (nothing_pushed\<lparr>pr_candidateBlocks := int (length blocks)\<rparr>) blocks s)"

definition pushToPeer :: "world \<Rightarrow> string \<Rightarrow> node \<Rightarrow> int \<times> node" where
  "pushToPeer W peerUrl s = (let (result, s) = pushToPeerDetailed W peerUrl s in (pr_pushedBlocks result, s))"

definition pushFullChainToPeerDetailed :: "world \<Rightarrow> string \<Rightarrow> node \<Rightarrow> push_result \<times> node" where
  "pushFullChainToPeerDetailed W peerUrl s =
     (case is_running W s of
        (False, s) \<Rightarrow> (nothing_pushed\<lparr>pr_response := ''stopping''\<rparr>, s)
      | (True, s) \<Rightarrow>
          let peer = normalizePeerUrl peerUrl
          in if peer = [] then (nothing_pushed\<lparr>pr_response := ''empty peer URL''\<rparr>, s)
             else
               let (status, s) = statusFromPeer W peer s
               in if \<not> p_rulesCompatible status
                  then (nothing_pushed\<lparr>pr_response := ''consensus rules mismatch''\<rparr>, s)
                  else if getLatestBlockId (n_db s) < 0 \<or> getFirstBlockId (n_db s) < 0 then (nothing_pushed, s)
                  else
                    let blocks = connectedBlocksAfter W (-1) s
                    in push_blocks W False peer (nothing_pushed\<lparr>pr_candidateBlocks := int (length blocks)\<rparr>) blocks s)"

section \<open>Broadcasting\<close>

text \<open>
  One peer is offered an announcement first, then the text itself, then the text in the query
  of a URL; \<open>accepted\<close> decides on the two latter answers.
\<close>

definition offer :: "world \<Rightarrow> (string \<Rightarrow> bool) \<Rightarrow> string \<Rightarrow> string \<Rightarrow> string \<Rightarrow> string \<Rightarrow> string \<Rightarrow> string \<Rightarrow> node \<Rightarrow> node" where
  "offer W accepted path query announcement body failure peer s =
     (let (response, s) = (if announcement \<noteq> [] then http W (Post (peer @ path @ ''/announce'') announcement) s else ([], s))
      in if announcement \<noteq> [] \<and> acceptedResponse response then notePeerSuccess W peer s
         else
           let (response, s) = http W (Post (peer @ path @ ''/submit'') body) s
           in if accepted response then notePeerSuccess W peer s
              else
                let encoded = w_escape W body;
                    (response, s) = (if encoded \<noteq> [] then http W (Get (peer @ path @ ''/submit?'' @ query @ ''='' @ encoded)) s
                                     else (response, s))
                in if accepted response then notePeerSuccess W peer s
                   else notePeerFailure W peer (if response = [] then failure else response) s)"

fun broadcast :: "world \<Rightarrow> (string \<Rightarrow> node \<Rightarrow> node) \<Rightarrow> string list \<Rightarrow> node \<Rightarrow> node" where
  "broadcast W send [] s = s"
| "broadcast W send (peer # ps) s =
     (case is_running W s of
        (False, s) \<Rightarrow> s
      | (True, s) \<Rightarrow> broadcast W send ps (if skip_known s peer then s else send peer s))"

definition broadcastRecord :: "world \<Rightarrow> record_structure \<Rightarrow> node \<Rightarrow> node" where
  "broadcastRecord W r s =
     (case is_running W s of
        (False, s) \<Rightarrow> s
      | (True, s) \<Rightarrow>
          if n_peers s = [] \<or> \<not> isRecordSizeValid (env_now W s) r \<or> isExpiredHeartbeatRecord (env_now W s) r (-1) then s
          else
            let recordJson = recordJSON (env_now W s) r;
                (orderedPeers, s) = getGossipPeers W MAX_GOSSIP_FANOUT True s;
                announcement = (if n_advertised s \<noteq> [] \<and> r_hash r \<noteq> []
                  then ''{'' @ jfield ''hash'' (r_hash r) @ '','' @ jfield ''from'' (n_advertised s) @ ''}'' else [])
            in broadcast W (offer W (\<lambda>resp. contains resp ''accepted'') ''/api/records'' ''record'' announcement recordJson
                 ''record broadcast failed'') orderedPeers s)"

definition broadcastBlock :: "world \<Rightarrow> block_structure \<Rightarrow> node \<Rightarrow> node" where
  "broadcastBlock W b s =
     (case is_running W s of
        (False, s) \<Rightarrow> s
      | (True, s) \<Rightarrow>
          if n_peers s = [] then s
          else
            let E = env_now W s; blockJson = blockJSON E b
            in if MAX_BLOCK_RECORDS < int (length (b_records b)) \<or> MAX_BLOCK_JSON_BYTES < slen blockJson \<or>
                  \<not> list_all (isRecordSizeValid E) (b_records b) then s
               else
                 let (orderedPeers, s) = getGossipPeers W MAX_GOSSIP_FANOUT True s;
                     announcement = (if n_advertised s \<noteq> []
                       then ''{'' @ jfield ''block'' (show_long (b_number b)) @ '','' @ jfield ''hash'' (b_hash b) @ '','' @
                            jfield ''from'' (n_advertised s) @ ''}'' else [])
                 in broadcast W (offer W acceptedResponse ''/api/blocks'' ''block'' announcement blockJson
                      ''block broadcast failed'') orderedPeers s)"

fun handoff_loop :: "world \<Rightarrow> string \<Rightarrow> string list \<Rightarrow> node \<Rightarrow> node" where
  "handoff_loop W body [] s = s"
| "handoff_loop W body (p # ps) s =
     (let peer = normalizePeerUrl p
      in if peer = [] then handoff_loop W body ps s
         else
           let (response, s) = http W (Post (peer @ ''/api/handoff/submit'') body) s
           in handoff_loop W body ps
                (if contains response (jfield ''status'' ''accepted'') \<or> contains response (jfield ''status'' ''ok'')
                 then notePeerSuccess W peer s
                 else notePeerFailure W peer (if response = [] then ''handoff broadcast failed'' else response) s))"

definition broadcastHandoff :: "world \<Rightarrow> block_structure \<Rightarrow> string \<Rightarrow> node \<Rightarrow> node" where
  "broadcastHandoff W b creatorPrivateKey s =
     (let (body, s) = handoffJson W b creatorPrivateKey s
      in if body = [] then s
         else let (localPeers, s) = getGossipPeers W MAX_GOSSIP_FANOUT True s in handoff_loop W body localPeers s)"

end
