(* ===== verification/PeerSync.thy ===== *)
theory PeerSync
  imports PeerClient
begin

text \<open>
  The download of blocks of \<open>src/src/network/localpeerclient.cpp\<close>: storing what a peer sends,
  the four ways to pull blocks from it, \<open>syncFromPeer\<close> and one round of \<open>syncThread\<close>.

  Storing a block may end with an exception (\<open>bad_lexical_cast\<close> in \<open>AddBlock\<close>), which leaves all
  these functions: their results are an option, together with the node as it is then. The
  reference parameter \<open>changed\<close> is an argument and a part of the result.
\<close>

section \<open>Actions that may throw\<close>

type_synonym 'a act = "node \<Rightarrow> 'a option \<times> node"

definition give :: "'a \<Rightarrow> 'a act" where
  "give a s = (Some a, s)"

definition andthen :: "'a act \<Rightarrow> ('a \<Rightarrow> 'b act) \<Rightarrow> 'b act" where
  "andthen f g s = (case f s of (None, s) \<Rightarrow> (None, s) | (Some a, s) \<Rightarrow> g a s)"

definition calm :: "(node \<Rightarrow> 'a \<times> node) \<Rightarrow> 'a act" where
  "calm f s = (case f s of (a, s) \<Rightarrow> (Some a, s))"

definition peek :: "(node \<Rightarrow> 'a) \<Rightarrow> 'a act" where
  "peek f s = (Some (f s), s)"

definition update :: "(node \<Rightarrow> node) \<Rightarrow> unit act" where
  "update f s = (Some (), f s)"

section \<open>Storing blocks\<close>

definition storeBlock :: "world \<Rightarrow> block_structure \<Rightarrow> bool act" where
  "storeBlock W b s =
     (let E = env_now W s
      in if b_number b \<le> 0 then (Some False, s)
         else if 0 < b_number (getBlockByHash E (n_db s) (b_hash b)) then (Some False, s)
         else case AddBlock E (w_uninit W) b (n_db s, n_caches s) of
           (added, db, cs) \<Rightarrow>
             (added,
              s\<lparr>n_db := (if added = Some True \<and> getFirstBlockId db = -1 \<and> b_previous_id b \<le> 0
                         then setFirstBlockId (b_number b) db else db), n_caches := cs\<rparr>))"

fun store_all :: "world \<Rightarrow> block_structure list \<Rightarrow> bool \<Rightarrow> bool act" where
  "store_all W [] stored = give stored"
| "store_all W (b # bs) stored = andthen (storeBlock W b) (\<lambda>st. store_all W bs (st \<or> stored))"

definition storeBlocks :: "world \<Rightarrow> string \<Rightarrow> bool act" where
  "storeBlocks W blockJson = andthen (peek (\<lambda>s. parseBlockJson (env_now W s) blockJson)) (\<lambda>bs. store_all W bs False)"

fun store_parsed :: "world \<Rightarrow> block_structure list \<Rightarrow> int \<Rightarrow> bool \<Rightarrow> (int \<times> bool) act" where
  "store_parsed W [] storedCount changed = give (storedCount, changed)"
| "store_parsed W (b # bs) storedCount changed =
     (if b_number b \<le> 0 \<or> b_hash b = [] then store_parsed W bs storedCount changed
      else andthen (storeBlock W b) (\<lambda>stored.
             store_parsed W bs (if stored then storedCount + 1 else storedCount) (stored \<or> changed)))"

definition storeParsedBlocks :: "world \<Rightarrow> block_structure list \<Rightarrow> bool \<Rightarrow> (int \<times> bool) act" where
  "storeParsedBlocks W blocks changed = store_parsed W blocks 0 changed"

definition latest_id :: "node \<Rightarrow> int" where
  "latest_id s = getLatestBlockId (n_db s)"

definition rebuild :: "world \<Rightarrow> node \<Rightarrow> int \<times> node" where
  "rebuild W s = (let (tip, db) = rebuildBestChainIndex (env_now W s) (n_db s) in (tip, s\<lparr>n_db := db\<rparr>))"

text \<open>The rebuild after a pull: a tip above the one noted before is a change.\<close>

definition rebuild_after :: "world \<Rightarrow> int \<Rightarrow> bool \<Rightarrow> bool act" where
  "rebuild_after W latestBefore changed = andthen (calm (rebuild W)) (\<lambda>tip. give (changed \<or> latestBefore < tip))"

text \<open>The latest block; where it is not above an earlier one the index is rebuilt first.\<close>

definition latest_or_rebuild :: "world \<Rightarrow> int \<Rightarrow> bool \<Rightarrow> node \<Rightarrow> (int \<times> bool) \<times> node" where
  "latest_or_rebuild W before changed s =
     (let latest = latest_id s
      in if latest \<le> before
         then let (repaired, s) = rebuild W s
              in if latest < repaired then ((repaired, True), s) else ((latest, changed), s)
         else ((latest, changed), s))"

definition adoptStoredPeerTip :: "world \<Rightarrow> peer_status \<Rightarrow> bool \<Rightarrow> (bool \<times> bool) act" where
  "adoptStoredPeerTip W status changed s =
     (let E = env_now W s; hash = p_latestBlockHash status
      in if p_latestBlockId status \<le> 0 \<or> hash = [] then (Some (False, changed), s)
         else
           let beforeLatestBlockId = latest_id s; storedTip = getBlockByHash E (n_db s) hash
           in if b_number storedTip \<noteq> p_latestBlockId status \<or> b_hash storedTip \<noteq> hash then (Some (False, changed), s)
              else case adoptStoredChainEndingAtHash E hash (n_db s) of
                (None, db) \<Rightarrow> (Some (False, changed), s\<lparr>n_db := db\<rparr>)
              | (Some adoptedTipId, db) \<Rightarrow>
                  if beforeLatestBlockId < adoptedTipId then (Some (True, True), s\<lparr>n_db := db\<rparr>)
                  else (Some (adoptedTipId = beforeLatestBlockId \<and> getLatestBlockHash E db = hash, changed), s\<lparr>n_db := db\<rparr>))"

section \<open>Pulling a chain\<close>

definition fetch :: "world \<Rightarrow> string \<Rightarrow> string act" where
  "fetch W url = calm (http W (Get url))"

definition parsed :: "world \<Rightarrow> string \<Rightarrow> block_structure list act" where
  "parsed W response = peek (\<lambda>s. parseBlockJson (env_now W s) response)"

text \<open>The blocks after a hash: a batch, or where there is no answer, one block.\<close>

definition fetch_after :: "world \<Rightarrow> string \<Rightarrow> string \<Rightarrow> int \<Rightarrow> string act" where
  "fetch_after W peer hash limit =
     andthen (fetch W (peer @ ''/api/blocks/batch-after-hash/'' @ hash @ ''/'' @ show_long limit)) (\<lambda>response.
       if response = [] then fetch W (peer @ ''/api/blocks/after-hash/'' @ hash) else give response)"

definition request_limit :: "int \<Rightarrow> int \<Rightarrow> int" where
  "request_limit maxBlocksPerSync received = min MAX_BLOCKS_PER_SYNC_REQUEST (maxBlocksPerSync - received)"

definition bad_block :: "block_structure \<Rightarrow> bool" where
  "bad_block b \<longleftrightarrow> b_number b \<le> 0 \<or> b_hash b = []"

text \<open>
  The loop over the blocks of one answer. The result has the last block that was stored, the
  number received, \<open>changed\<close>, and whether the loop ended at a block without number or hash.
\<close>

fun store_batch ::
    "world \<Rightarrow> int \<Rightarrow> block_structure list \<Rightarrow> block_structure \<Rightarrow> int \<Rightarrow> bool \<Rightarrow> (block_structure \<times> int \<times> bool \<times> bool) act" where
  "store_batch W maxBlocks [] peerBlock received changed = give (peerBlock, received, changed, False)"
| "store_batch W maxBlocks (b # bs) peerBlock received changed =
     (if maxBlocks \<le> received then give (peerBlock, received, changed, False)
      else if bad_block b then give (peerBlock, received, changed, True)
      else andthen (storeBlock W b) (\<lambda>stored. store_batch W maxBlocks bs b (received + 1) (stored \<or> changed)))"

lemma store_batch_received:
  "store_batch W m bs pb n c s = (Some (pb', n', c', bad), s') \<Longrightarrow> n \<le> n'"
proof (induction bs arbitrary: pb n c s)
  case (Cons b bs)
  then show ?case by (fastforce simp: give_def andthen_def split: if_splits prod.splits option.splits)
qed (simp add: give_def)

datatype pulled = Ended bool bool | Exhausted int bool

text \<open>
  The loop of \<open>pullPeerCanonicalChain\<close>: \<open>Ended\<close> where it returns from the function, with the
  result and \<open>changed\<close>; \<open>Exhausted\<close> where its condition fails, with the number received.
\<close>

function canonical_loop ::
    "world \<Rightarrow> string \<Rightarrow> int \<Rightarrow> int \<Rightarrow> int \<Rightarrow> block_structure \<Rightarrow> int \<Rightarrow> bool \<Rightarrow> node \<Rightarrow> pulled option \<times> node" where
  "canonical_loop W peer peerLatestBlockId maxBlocks latestBefore peerBlock received changed s =
     (if \<not> (0 < b_number peerBlock \<and> b_number peerBlock < peerLatestBlockId \<and> received < maxBlocks)
      then (Some (Exhausted received changed), s)
      else
        let leave = (\<lambda>received changed. andthen (rebuild_after W latestBefore changed) (\<lambda>changed. give (Ended (1 < received) changed)))
        in case fetch_after W peer (b_hash peerBlock) (request_limit maxBlocks received) s of
             (None, s) \<Rightarrow> (None, s)
           | (Some response, s) \<Rightarrow>
               let blocks = parseBlockJson (env_now W s) response
               in if response = [] \<or> blocks = [] then leave received changed s
                  else case store_batch W maxBlocks blocks peerBlock received changed s of
                    (None, s) \<Rightarrow> (None, s)
                  | (Some (peerBlock', received', changed', bad), s) \<Rightarrow>
                      if received' = received \<or> bad then leave received' changed' s
                      else canonical_loop W peer peerLatestBlockId maxBlocks latestBefore peerBlock' received' changed' s)"
  by pat_completeness auto
termination
proof (relation "measure (\<lambda>(W, peer, latest, maxBlocks, before, pb, received, changed, s). nat (maxBlocks - received))", goal_cases)
  case (2 W peer latest maxBlocks before pb received changed s)
  then show ?case by (auto dest!: store_batch_received [OF sym])
qed simp

declare canonical_loop.simps [simp del]

definition pullPeerCanonicalChain :: "world \<Rightarrow> string \<Rightarrow> int \<Rightarrow> int \<Rightarrow> bool \<Rightarrow> (bool \<times> bool) act" where
  "pullPeerCanonicalChain W peer peerLatestBlockId maxBlocks changed =
     andthen (peek latest_id) (\<lambda>latestBefore.
     andthen (fetch W (peer @ ''/api/blocks/first'')) (\<lambda>response.
     andthen (parsed W response) (\<lambda>blocks.
       if response = [] \<or> blocks = [] \<or> bad_block (hd blocks) \<or>
          \<not> genesisMatches (env_config (w_env W)) (b_number (hd blocks)) (b_hash (hd blocks))
       then give (False, changed)
       else
         andthen (storeBlock W (hd blocks)) (\<lambda>stored.
         andthen (canonical_loop W peer peerLatestBlockId maxBlocks latestBefore (hd blocks) 1 (stored \<or> changed)) (\<lambda>r.
           case r of
             Ended result changed \<Rightarrow> give (result, changed)
           | Exhausted received changed \<Rightarrow>
               andthen (rebuild_after W latestBefore changed) (\<lambda>changed. give (0 < received, changed)))))))"

text \<open>The loop of \<open>pullPeerCanonicalChainFromBlock\<close>: the number received and \<open>changed\<close>.\<close>

function from_block_loop ::
    "world \<Rightarrow> string \<Rightarrow> int \<Rightarrow> int \<Rightarrow> block_structure \<Rightarrow> int \<Rightarrow> bool \<Rightarrow> node \<Rightarrow> (int \<times> bool) option \<times> node" where
  "from_block_loop W peer peerLatestBlockId maxBlocks peerBlock received changed s =
     (if \<not> (0 < b_number peerBlock \<and> b_number peerBlock < peerLatestBlockId \<and> received < maxBlocks)
      then (Some (received, changed), s)
      else
        case fetch_after W peer (b_hash peerBlock) (request_limit maxBlocks received) s of
          (None, s) \<Rightarrow> (None, s)
        | (Some response, s) \<Rightarrow>
            let blocks = parseBlockJson (env_now W s) response
            in if response = [] \<or> blocks = [] then (Some (received, changed), s)
               else case store_batch W maxBlocks blocks peerBlock received changed s of
                 (None, s) \<Rightarrow> (None, s)
               | (Some (peerBlock', received', changed', bad), s) \<Rightarrow>
                   if received' = received then (Some (received', changed'), s)
                   else from_block_loop W peer peerLatestBlockId maxBlocks peerBlock' received' changed' s)"
  by pat_completeness auto
termination
proof (relation "measure (\<lambda>(W, peer, latest, maxBlocks, pb, received, changed, s). nat (maxBlocks - received))", goal_cases)
  case (2 W peer latest maxBlocks pb received changed s)
  then show ?case by (auto dest!: store_batch_received [OF sym])
qed simp

declare from_block_loop.simps [simp del]

definition pullPeerCanonicalChainFromBlock :: "world \<Rightarrow> string \<Rightarrow> int \<Rightarrow> int \<Rightarrow> int \<Rightarrow> bool \<Rightarrow> (bool \<times> bool) act" where
  "pullPeerCanonicalChainFromBlock W peer startBlockId peerLatestBlockId maxBlocks changed =
     (if peerLatestBlockId < 0 \<or> startBlockId < 0 then give (False, changed)
      else
        andthen (peek latest_id) (\<lambda>latestBefore.
        andthen (fetch W (peer @ ''/api/blocks/'' @ show_long startBlockId)) (\<lambda>response.
        andthen (parsed W response) (\<lambda>blocks.
          if response = [] \<or> blocks = [] \<or> bad_block (hd blocks) then give (False, changed)
          else
            andthen (storeBlock W (hd blocks)) (\<lambda>stored.
            andthen (from_block_loop W peer peerLatestBlockId maxBlocks (hd blocks) 1 (stored \<or> changed)) (\<lambda>(received, changed).
            andthen (rebuild_after W latestBefore changed) (\<lambda>changed. give (0 < received, changed))))))))"

text \<open>
  The loop of \<open>pullPeerHashLinkedFromTip\<close>; the result has \<open>progressed\<close> and \<open>changed\<close>. The number
  received grows by the number of blocks of each answer, which no limit bounds.
\<close>

function hash_linked_loop ::
    "world \<Rightarrow> string \<Rightarrow> int \<Rightarrow> int \<Rightarrow> int \<Rightarrow> bool \<Rightarrow> bool \<Rightarrow> node \<Rightarrow> (bool \<times> bool) option \<times> node" where
  "hash_linked_loop W peer peerLatestBlockId maxBlocks received progressed changed s =
     (if maxBlocks \<le> received then (Some (progressed, changed), s)
      else
        let before = latest_id s; latestBlock = getBlock (env_now W s) (n_db s) before
        in if -1 < peerLatestBlockId \<and> peerLatestBlockId \<le> before then (Some (progressed, changed), s)
           else if bad_block latestBlock then (Some (progressed, changed), s)
           else case fetch_after W peer (b_hash latestBlock) (request_limit maxBlocks received) s of
             (None, s) \<Rightarrow> (None, s)
           | (Some response, s) \<Rightarrow>
               let blocks = parseBlockJson (env_now W s) response
               in if response = [] \<or> blocks = [] then (Some (progressed, changed), s)
                  else case storeParsedBlocks W blocks changed s of
                    (None, s) \<Rightarrow> (None, s)
                  | (Some (storedCount, changed), s) \<Rightarrow>
                      let received' = received + max 1 (int (length blocks));
                          ((latest, changed), s) = latest_or_rebuild W before changed s
                      in if before < latest
                         then hash_linked_loop W peer peerLatestBlockId maxBlocks received' True changed s
                         else if storedCount \<le> 0 then (Some (progressed, changed), s)
                         else hash_linked_loop W peer peerLatestBlockId maxBlocks received' progressed changed s)"
  by pat_completeness auto
termination
  by (relation "measure (\<lambda>(W, peer, latest, maxBlocks, received, progressed, changed, s). nat (maxBlocks - received))") auto

declare hash_linked_loop.simps [simp del]

definition pullPeerHashLinkedFromTip :: "world \<Rightarrow> string \<Rightarrow> int \<Rightarrow> int \<Rightarrow> bool \<Rightarrow> (bool \<times> bool) act" where
  "pullPeerHashLinkedFromTip W peer peerLatestBlockId maxBlocks changed =
     hash_linked_loop W peer peerLatestBlockId maxBlocks 0 False changed"

text \<open>The blocks of one answer that have a number, whatever their number is.\<close>

fun store_numbered :: "world \<Rightarrow> block_structure list \<Rightarrow> int \<Rightarrow> bool \<Rightarrow> (int \<times> bool) act" where
  "store_numbered W [] received changed = give (received, changed)"
| "store_numbered W (b # bs) received changed =
     (if 0 < b_number b
      then andthen (storeBlock W b) (\<lambda>stored. store_numbered W bs (received + 1) (stored \<or> changed))
      else store_numbered W bs received changed)"

function range_loop ::
    "world \<Rightarrow> string \<Rightarrow> int \<Rightarrow> int \<Rightarrow> int \<Rightarrow> int \<Rightarrow> int \<Rightarrow> bool \<Rightarrow> node \<Rightarrow> (int \<times> bool) option \<times> node" where
  "range_loop W peer peerLatestBlockId maxBlocks blockId scanned received changed s =
     (if \<not> (blockId \<le> peerLatestBlockId \<and> received < maxBlocks \<and> scanned < MAX_BLOCK_NUMBER_REPAIR_SCAN)
      then (Some (received, changed), s)
      else
        case fetch W (peer @ ''/api/blocks/'' @ show_long blockId) s of
          (None, s) \<Rightarrow> (None, s)
        | (Some response, s) \<Rightarrow>
            if response = []
            then range_loop W peer peerLatestBlockId maxBlocks (blockId + 1) (scanned + 1) received changed s
            else case store_numbered W (parseBlockJson (env_now W s) response) received changed s of
                   (None, s) \<Rightarrow> (None, s)
                 | (Some (received, changed), s) \<Rightarrow>
                     range_loop W peer peerLatestBlockId maxBlocks (blockId + 1) (scanned + 1) received changed s)"
  by pat_completeness auto
termination
  by (relation "measure (\<lambda>(W, peer, latest, maxBlocks, blockId, scanned, received, changed, s).
        nat (MAX_BLOCK_NUMBER_REPAIR_SCAN - scanned))") auto

declare range_loop.simps [simp del]

definition pullPeerBlocksByNumberRange :: "world \<Rightarrow> string \<Rightarrow> int \<Rightarrow> int \<Rightarrow> int \<Rightarrow> bool \<Rightarrow> (bool \<times> bool) act" where
  "pullPeerBlocksByNumberRange W peer startBlockId peerLatestBlockId maxBlocks changed =
     (if peerLatestBlockId < 0 then give (False, changed)
      else
        andthen (peek latest_id) (\<lambda>latestBefore.
        andthen (range_loop W peer peerLatestBlockId maxBlocks (max 0 startBlockId) 0 0 changed) (\<lambda>(received, changed).
        andthen (rebuild_after W latestBefore changed) (\<lambda>changed. give (0 < received, changed)))))"

definition repair_window ::
    "world \<Rightarrow> string \<Rightarrow> int \<Rightarrow> int \<Rightarrow> int \<Rightarrow> int \<Rightarrow> bool \<Rightarrow> (bool \<times> bool) act" where
  "repair_window W peer firstBlockId localLatestBlockId peerLatestBlockId maxBlocks changed =
     (let startBlockId = max firstBlockId (localLatestBlockId - 3000)
      in andthen (pullPeerCanonicalChainFromBlock W peer startBlockId peerLatestBlockId maxBlocks changed) (\<lambda>(pulled, changed).
           if pulled then give (True, changed)
           else pullPeerBlocksByNumberRange W peer startBlockId peerLatestBlockId maxBlocks changed))"

definition pullPeerForkRepairWindow ::
    "world \<Rightarrow> string \<Rightarrow> int \<Rightarrow> int \<Rightarrow> int \<Rightarrow> int \<Rightarrow> bool \<Rightarrow> (bool \<times> bool) act" where
  "pullPeerForkRepairWindow W peer firstBlockId localLatestBlockId peerLatestBlockId maxBlocks changed =
     (if peerLatestBlockId < 0 \<or> firstBlockId < 0 then give (False, changed)
      else
        andthen (peek (\<lambda>s. getBlock (env_now W s) (n_db s) localLatestBlockId)) (\<lambda>localTip.
        andthen (peek latest_id) (\<lambda>beforeParentRepair.
          if 0 < b_number localTip \<and> firstBlockId \<le> b_previous_id localTip \<and> b_previous_id localTip < b_number localTip
          then
            andthen (pullPeerCanonicalChainFromBlock W peer (b_previous_id localTip) peerLatestBlockId maxBlocks changed)
              (\<lambda>(parentPulled, changed).
            andthen (peek latest_id) (\<lambda>afterParentRepair.
              if parentPulled \<and> beforeParentRepair < afterParentRepair then give (True, changed)
              else repair_window W peer firstBlockId localLatestBlockId peerLatestBlockId maxBlocks changed))
          else repair_window W peer firstBlockId localLatestBlockId peerLatestBlockId maxBlocks changed)))"

section \<open>Synchronising with one peer\<close>

text \<open>
  One turn of the loop of \<open>syncFromPeer\<close>: \<open>Again\<close> with the latest block, the number received and
  \<open>changed\<close> where the loop goes on, \<open>Leave\<close> where it ends.
\<close>

datatype turn = Again int int bool | Leave bool

text \<open>
  What the loop tries where an answer brings nothing new: the latest block, a rebuilt index,
  the blocks linked to the tip, the window of repair. \<open>Inl\<close> is a latest block above the one
  before, \<open>Inr\<close> the result of the last attempt.
\<close>

definition try_repair ::
    "world \<Rightarrow> string \<Rightarrow> int \<Rightarrow> int \<Rightarrow> int \<Rightarrow> int \<Rightarrow> bool \<Rightarrow> (int \<times> bool + bool \<times> int \<times> bool) act" where
  "try_repair W peer firstBlockId peerLatestBlockId before maxBlocks changed =
     andthen (calm (latest_or_rebuild W before changed)) (\<lambda>(latest, changed).
       if before < latest then give (Inl (latest, changed))
       else
         andthen (pullPeerHashLinkedFromTip W peer peerLatestBlockId maxBlocks changed) (\<lambda>(progressed, changed).
         andthen (peek latest_id) (\<lambda>latest.
           if progressed \<and> before < latest then give (Inl (latest, changed))
           else
             andthen (pullPeerForkRepairWindow W peer firstBlockId before peerLatestBlockId maxBlocks changed) (\<lambda>(pulled, changed).
             andthen (peek latest_id) (\<lambda>latest. give (Inr (pulled, latest, changed)))))))"

definition step_no_answer ::
    "world \<Rightarrow> string \<Rightarrow> peer_status \<Rightarrow> int \<Rightarrow> int \<Rightarrow> int \<Rightarrow> int \<Rightarrow> bool \<Rightarrow> turn act" where
  "step_no_answer W peer status firstBlockId peerLatestBlockId before received changed =
     andthen (try_repair W peer firstBlockId peerLatestBlockId before (MAX_BLOCKS_PER_SYNC_BATCH - received) changed) (\<lambda>r.
       case r of
         Inl (latest, changed) \<Rightarrow> give (Again latest received changed)
       | Inr (pulled, latest, changed) \<Rightarrow>
           andthen (if \<not> pulled \<or> latest \<le> before
                    then pullPeerCanonicalChain W peer peerLatestBlockId MAX_BLOCKS_PER_SYNC_BATCH changed
                    else give (False, changed)) (\<lambda>(_, changed).
           andthen (if latest \<le> before then adoptStoredPeerTip W status changed else give (False, changed)) (\<lambda>(_, changed).
           andthen (peek latest_id) (\<lambda>latest.
             if before < latest then andthen (update notePeerSyncProgress) (\<lambda>_. give (Again latest received changed))
             else give (Leave changed)))))"

definition step_nothing_stored ::
    "world \<Rightarrow> string \<Rightarrow> peer_status \<Rightarrow> int \<Rightarrow> int \<Rightarrow> int \<Rightarrow> int \<Rightarrow> bool \<Rightarrow> turn act" where
  "step_nothing_stored W peer status firstBlockId peerLatestBlockId before received changed =
     andthen (try_repair W peer firstBlockId peerLatestBlockId before (MAX_BLOCKS_PER_SYNC_BATCH - received) changed) (\<lambda>r.
       case r of
         Inl (latest, changed) \<Rightarrow> give (Again latest received changed)
       | Inr (pulled, latest, changed) \<Rightarrow>
           andthen (if \<not> pulled \<or> latest \<le> before then adoptStoredPeerTip W status changed else give (False, changed)) (\<lambda>(_, changed).
           andthen (peek latest_id) (\<lambda>latest.
             if \<not> pulled \<or> latest \<le> before then give (Leave changed)
             else andthen (update notePeerSyncProgress) (\<lambda>_. give (Again latest received changed)))))"

definition step_stored ::
    "world \<Rightarrow> string \<Rightarrow> peer_status \<Rightarrow> int \<Rightarrow> int \<Rightarrow> int \<Rightarrow> int \<Rightarrow> int \<Rightarrow> bool \<Rightarrow> turn act" where
  "step_stored W peer status firstBlockId peerLatestBlockId before received sawBlocks changed =
     (let maxBlocks = MAX_BLOCKS_PER_SYNC_BATCH - received;
          proceed = (\<lambda>latest changed. andthen (update notePeerSyncProgress) (\<lambda>_. give (Again latest (received + sawBlocks) changed)))
      in andthen (calm (latest_or_rebuild W before changed)) (\<lambda>(latest, changed).
         if before < latest then proceed latest changed
         else
           andthen (pullPeerHashLinkedFromTip W peer peerLatestBlockId maxBlocks changed) (\<lambda>(progressed, changed).
           andthen (peek latest_id) (\<lambda>latest.
             if progressed \<and> before < latest then proceed latest changed
             else
               andthen (pullPeerForkRepairWindow W peer firstBlockId before peerLatestBlockId maxBlocks changed) (\<lambda>(pulled, changed).
               andthen (peek latest_id) (\<lambda>latest.
               andthen (if \<not> pulled \<or> latest \<le> before
                        then pullPeerCanonicalChain W peer peerLatestBlockId maxBlocks changed
                        else give (False, changed)) (\<lambda>(_, changed).
               andthen (peek latest_id) (\<lambda>latest.
               andthen (if latest \<le> before then adoptStoredPeerTip W status changed else give (False, changed)) (\<lambda>(_, changed).
               andthen (peek latest_id) (\<lambda>latest.
                 if latest \<le> before then andthen (update (notePeerSyncStall W)) (\<lambda>_. give (Leave changed))
                 else proceed latest changed))))))))))"

definition fetch_next :: "world \<Rightarrow> string \<Rightarrow> block_structure \<Rightarrow> int \<Rightarrow> int \<Rightarrow> string act" where
  "fetch_next W peer latestBlock latestBlockId limit =
     (let after = peer @ ''/api/blocks/after/'' @ show_long latestBlockId
      in if b_hash latestBlock = [] then fetch W after
         else andthen (fetch_after W peer (b_hash latestBlock) limit) (\<lambda>response.
                if response = [] then fetch W after else give response))"

definition sync_step ::
    "world \<Rightarrow> string \<Rightarrow> peer_status \<Rightarrow> int \<Rightarrow> int \<Rightarrow> int \<Rightarrow> int \<Rightarrow> bool \<Rightarrow> turn act" where
  "sync_step W peer status firstBlockId peerLatestBlockId before received changed =
     andthen (peek (\<lambda>s. getBlock (env_now W s) (n_db s) before)) (\<lambda>latestBlock.
     andthen (fetch_next W peer latestBlock before (request_limit MAX_BLOCKS_PER_SYNC_BATCH received)) (\<lambda>response.
       if response = [] then step_no_answer W peer status firstBlockId peerLatestBlockId before received changed
       else
         andthen (parsed W response) (\<lambda>blocks.
         andthen (storeParsedBlocks W blocks changed) (\<lambda>(sawBlocks, changed).
           if sawBlocks \<le> 0 then step_nothing_stored W peer status firstBlockId peerLatestBlockId before received changed
           else step_stored W peer status firstBlockId peerLatestBlockId before received sawBlocks changed))))"

text \<open>What every result of an action satisfies.\<close>

definition yields :: "('a \<Rightarrow> bool) \<Rightarrow> 'a act \<Rightarrow> bool" where
  "yields P f \<longleftrightarrow> (\<forall>s a s'. f s = (Some a, s') \<longrightarrow> P a)"

lemma yields_give [simp]: "yields P (give a) \<longleftrightarrow> P a"
  by (simp add: yields_def give_def)

lemma yields_bind: "yields Q f \<Longrightarrow> (\<And>a. Q a \<Longrightarrow> yields P (g a)) \<Longrightarrow> yields P (andthen f g)"
  unfolding yields_def andthen_def by (auto split: prod.splits option.splits) blast

lemma yields_andthen: "(\<And>a. yields P (g a)) \<Longrightarrow> yields P (andthen f g)"
  by (rule yields_bind [where Q = "\<lambda>_. True"]) (simp_all add: yields_def)

text \<open>
  A turn of the loop goes on only with a latest block above the one before, and the number
  received does not shrink.
\<close>

definition onward :: "int \<Rightarrow> int \<Rightarrow> turn \<Rightarrow> bool" where
  "onward before received t \<longleftrightarrow>
     (case t of Again latest received' _ \<Rightarrow> before < latest \<and> received \<le> received' | Leave _ \<Rightarrow> True)"

lemma try_repair_yields:
  "yields (\<lambda>r. case r of Inl (latest, _) \<Rightarrow> before < latest | Inr _ \<Rightarrow> True)
     (try_repair W peer firstBlockId peerLatestBlockId before maxBlocks changed)"
  unfolding try_repair_def by (auto intro!: yields_andthen)

lemma sync_step_onward: "yields (onward before received) (sync_step W peer status firstBlockId peerLatestBlockId before received changed)"
proof -
  have 1: "yields (onward before received) (step_no_answer W peer status firstBlockId peerLatestBlockId before received changed)" for changed
    unfolding step_no_answer_def
    by (rule yields_bind [OF try_repair_yields]) (auto intro!: yields_andthen simp: onward_def split: sum.splits)
  have 2: "yields (onward before received) (step_nothing_stored W peer status firstBlockId peerLatestBlockId before received changed)" for changed
    unfolding step_nothing_stored_def
    by (rule yields_bind [OF try_repair_yields]) (auto intro!: yields_andthen simp: onward_def split: sum.splits)
  have 3: "yields (onward before received) (step_stored W peer status firstBlockId peerLatestBlockId before received n changed)"
    if "0 < n" for n changed
    unfolding step_stored_def Let_def using that by (auto intro!: yields_andthen simp: onward_def)
  show ?thesis unfolding sync_step_def using 1 2 3 by (auto intro!: yields_andthen)
qed

text \<open>
  The loop of \<open>syncFromPeer\<close>. The source ends it where \<open>peerLatestBlockId > -1 && latestBlockId >=
  peerLatestBlockId\<close>; it is entered only with a \<open>peerLatestBlockId\<close> that is not negative, so the
  first condition always holds. The latest block grows with every turn.
\<close>

function sync_loop ::
    "world \<Rightarrow> string \<Rightarrow> peer_status \<Rightarrow> int \<Rightarrow> int \<Rightarrow> int \<Rightarrow> int \<Rightarrow> bool \<Rightarrow> node \<Rightarrow> bool option \<times> node" where
  "sync_loop W peer status firstBlockId peerLatestBlockId latestBlockId received changed s =
     (if \<not> (-1 < latestBlockId \<and> received < MAX_BLOCKS_PER_SYNC_BATCH) then (Some changed, s)
      else case is_running W s of
        (False, s) \<Rightarrow> (Some changed, s)
      | (True, s) \<Rightarrow>
          if peerLatestBlockId \<le> latestBlockId then (Some changed, s)
          else case sync_step W peer status firstBlockId peerLatestBlockId latestBlockId received changed s of
            (None, s) \<Rightarrow> (None, s)
          | (Some (Leave changed), s) \<Rightarrow> (Some changed, s)
          | (Some (Again latest' received' changed'), s) \<Rightarrow>
              sync_loop W peer status firstBlockId peerLatestBlockId latest' received' changed' s)"
  by pat_completeness auto
termination
proof (relation "measure (\<lambda>(W, peer, status, first, peerLatest, latest, received, changed, s). nat (peerLatest - latest))",
    goal_cases)
  case (2 W peer status first peerLatest latest received changed s)
  then show ?case using sync_step_onward [of latest received W peer status first peerLatest changed]
    unfolding yields_def onward_def by (auto split: turn.splits) (metis prod.collapse)
qed simp

declare sync_loop.simps [simp del]

definition set_error :: "world \<Rightarrow> string \<Rightarrow> string \<Rightarrow> node \<Rightarrow> node" where
  "set_error W peer error s =
     notePeerSyncStall W (savePeerCache W (set_status peer ((status_of s peer)\<lparr>p_lastError := error\<rparr>) s))"

text \<open>The end of \<open>syncFromPeer\<close>.\<close>

definition note_result :: "world \<Rightarrow> bool \<Rightarrow> bool act" where
  "note_result W changed =
     andthen (update (if changed then notePeerSyncProgress else notePeerSyncStall W)) (\<lambda>_. give changed)"

definition sync_down ::
    "world \<Rightarrow> string \<Rightarrow> peer_status \<Rightarrow> int \<Rightarrow> int \<Rightarrow> int \<Rightarrow> bool \<Rightarrow> bool act" where
  "sync_down W peer status firstBlockId peerLatestBlockId latestBlockId changed =
     andthen (if firstBlockId = -1
              then andthen (fetch W (peer @ ''/api/blocks/first'')) (\<lambda>response.
                   andthen (storeBlocks W response) (\<lambda>stored.
                   andthen (peek (\<lambda>s. (getFirstBlockId (n_db s), latest_id s))) (\<lambda>(firstBlockId, latestBlockId).
                     give (firstBlockId, latestBlockId, stored \<or> changed))))
              else give (firstBlockId, latestBlockId, changed)) (\<lambda>(firstBlockId, latestBlockId, changed).
     andthen (sync_loop W peer status firstBlockId peerLatestBlockId latestBlockId 0 changed) (\<lambda>changed.
     andthen (adoptStoredPeerTip W status changed) (\<lambda>(_, changed).
     andthen (peek latest_id) (\<lambda>latest.
       if changed \<or> latest < peerLatestBlockId then note_result W changed else give changed))))"

text \<open>The local tip is not below the one of the peer: where the hashes differ the fork is repaired.\<close>

definition sync_level ::
    "world \<Rightarrow> string \<Rightarrow> peer_status \<Rightarrow> int \<Rightarrow> int \<Rightarrow> string \<Rightarrow> int \<Rightarrow> bool \<Rightarrow> bool act" where
  "sync_level W peer status firstBlockId peerLatestBlockId peerLatestBlockHash latestBlockId changed =
     andthen (peek (\<lambda>s. getBlock (env_now W s) (n_db s) latestBlockId)) (\<lambda>latestBlock.
       if peerLatestBlockHash \<noteq> [] \<and> b_hash latestBlock \<noteq> peerLatestBlockHash
       then
         andthen (peek latest_id) (\<lambda>before.
         andthen (pullPeerForkRepairWindow W peer firstBlockId latestBlockId peerLatestBlockId MAX_BLOCKS_PER_SYNC_BATCH changed)
           (\<lambda>(pulled, changed).
         andthen (peek latest_id) (\<lambda>after.
         andthen (if \<not> pulled \<or> after \<le> before
                  then pullPeerCanonicalChain W peer peerLatestBlockId MAX_BLOCKS_PER_SYNC_BATCH changed
                  else give (False, changed)) (\<lambda>(_, changed).
         andthen (adoptStoredPeerTip W status changed) (\<lambda>(_, changed). note_result W changed)))))
       else andthen (update notePeerSyncProgress) (\<lambda>_. give False))"

definition sync_blocks ::
    "world \<Rightarrow> string \<Rightarrow> peer_status \<Rightarrow> int \<Rightarrow> int \<Rightarrow> string \<Rightarrow> int \<Rightarrow> bool \<Rightarrow> bool act" where
  "sync_blocks W peer status firstBlockId peerLatestBlockId peerLatestBlockHash latestBlockId changed =
     andthen (adoptStoredPeerTip W status changed) (\<lambda>(adopted, changed).
     andthen (if adopted then andthen (peek latest_id) (\<lambda>latest. give (latest, changed))
              else andthen (calm (rebuild W)) (\<lambda>repaired.
                     give (if latestBlockId < repaired then (repaired, True) else (latestBlockId, changed))))
       (\<lambda>(latestBlockId, changed).
       if peerLatestBlockId \<le> latestBlockId
       then sync_level W peer status firstBlockId peerLatestBlockId peerLatestBlockHash latestBlockId changed
       else sync_down W peer status firstBlockId peerLatestBlockId latestBlockId changed))"

text \<open>
  The local chain must start at the genesis block. Where the first block cannot be read, the
  chain of the peer is pulled first. The result has the first and latest block and \<open>changed\<close>,
  or \<open>None\<close> where the genesis block is another one.
\<close>

definition check_local ::
    "world \<Rightarrow> string \<Rightarrow> int \<Rightarrow> int \<Rightarrow> int \<Rightarrow> ((int \<times> int \<times> bool) option) act" where
  "check_local W peer firstBlockId latestBlockId peerLatestBlockId =
     (if 0 < firstBlockId
      then
        andthen (peek (\<lambda>s. getBlock (env_now W s) (n_db s) firstBlockId)) (\<lambda>firstBlock.
        andthen (if bad_block firstBlock
                 then andthen (pullPeerCanonicalChain W peer peerLatestBlockId MAX_BLOCKS_PER_SYNC_BATCH False) (\<lambda>(_, changed).
                      peek (\<lambda>s. (getFirstBlockId (n_db s), latest_id s, changed,
                                  getBlock (env_now W s) (n_db s) (getFirstBlockId (n_db s)))))
                 else give (firstBlockId, latestBlockId, False, firstBlock))
          (\<lambda>(firstBlockId, latestBlockId, changed, firstBlock).
          give (if genesisMatches (env_config (w_env W)) firstBlockId (b_hash firstBlock)
                then Some (firstBlockId, latestBlockId, changed) else None)))
      else give (Some (firstBlockId, latestBlockId, False)))"

text \<open>
  The status is asked for twice; the numbers of the first answer decide on the download, the
  second one on the compatibility and on the tip to adopt.
\<close>

definition sync_with :: "world \<Rightarrow> string \<Rightarrow> int \<Rightarrow> int \<Rightarrow> bool act" where
  "sync_with W peer firstBlockId latestBlockId =
     andthen (fetch W (peer @ ''/api/status'')) (\<lambda>peerStatus.
     andthen (calm (refresh_status W peer)) (\<lambda>status.
       let peerLatestBlockId = latestBlockFromStatus peerStatus;
           fail = (\<lambda>error. andthen (update (set_error W peer error)) (\<lambda>_. give False))
       in if \<not> p_rulesCompatible status then fail ''consensus rules mismatch''
          else if peerLatestBlockId < 0 then fail ''missing latest block''
          else if \<not> genesisMatches (env_config (w_env W)) (firstBlockFromStatus peerStatus) (firstBlockHashFromStatus peerStatus)
          then fail ''genesis mismatch''
          else
            andthen (check_local W peer firstBlockId latestBlockId peerLatestBlockId) (\<lambda>local.
              case local of
                None \<Rightarrow> fail ''local genesis mismatch''
              | Some (firstBlockId, latestBlockId, changed) \<Rightarrow>
                  sync_blocks W peer status firstBlockId peerLatestBlockId (latestBlockHashFromStatus peerStatus)
                    latestBlockId changed)))"

definition syncFromPeer :: "world \<Rightarrow> string \<Rightarrow> bool act" where
  "syncFromPeer W peerUrl s =
     (if w_busy W (n_events s) then (Some False, s)
      else case peerSyncBackoffActive W s of
        (True, s) \<Rightarrow> (Some False, s)
      | (False, s) \<Rightarrow>
          (case is_running W s of
             (False, s) \<Rightarrow> (Some False, s)
           | (True, s) \<Rightarrow>
               let peer = normalizePeerUrl peerUrl;
                   firstBlockId = getFirstBlockId (n_db s); latestBlockId = latest_id s
               in if peer = [] then (Some False, s)
                  else if firstBlockId < 0 \<and> 0 \<le> latestBlockId
                  then sync_with W peer (-1) (-1) (s\<lparr>n_db := DeleteAll (n_db s)\<rparr>)
                  else sync_with W peer firstBlockId latestBlockId s))"

section \<open>One round of the thread\<close>

fun sync_peers :: "world \<Rightarrow> int \<Rightarrow> peer_status list \<Rightarrow> unit act" where
  "sync_peers W activePeers [] = give ()"
| "sync_peers W activePeers (st # sts) =
     andthen (peek (\<lambda>s. shouldSkipPeerForScore s st)) (\<lambda>skip.
       if skip then sync_peers W activePeers sts
       else if MAX_ACTIVE_SYNC_PEERS \<le> activePeers then give ()
       else andthen (syncFromPeer W (p_url st)) (\<lambda>_.
            andthen (calm (pushToPeer W (p_url st))) (\<lambda>_. sync_peers W (activePeers + 1) sts)))"

definition sync_order :: "string list \<Rightarrow> peer_status \<Rightarrow> bool \<times> int \<times> int" where
  "sync_order priority st = (p_url st \<notin> set priority, - p_score st, - p_latestBlockId st)"

text \<open>The body of the loop of \<open>syncThread\<close> without its sleeping; the result is \<open>lastAnnounceEpoch\<close>.\<close>

definition sync_round :: "world \<Rightarrow> int \<Rightarrow> int act" where
  "sync_round W lastAnnounceEpoch =
     andthen (calm (syncNetworkTime W)) (\<lambda>_.
     andthen (update (discoverPeers W)) (\<lambda>_.
     andthen (calm (local_epoch W)) (\<lambda>now.
     andthen (if lastAnnounceEpoch = 0 \<or> ANNOUNCE_INTERVAL_SECONDS \<le> now - lastAnnounceEpoch
              then andthen (update (announceToPeers W)) (\<lambda>_. give now) else give lastAnnounceEpoch) (\<lambda>lastAnnounceEpoch.
     andthen (update (purgeUnavailablePeers W)) (\<lambda>_.
     andthen (calm (peerSyncBackoffActive W)) (\<lambda>resting.
       if resting then give lastAnnounceEpoch
       else
         andthen (calm (getPeerStatuses W False)) (\<lambda>statuses.
         andthen (calm (getPriorityPeersForUpcomingCreators W 20)) (\<lambda>priority.
         andthen (sync_peers W 0 (sort_key (sync_order priority) (w_ties W statuses))) (\<lambda>_.
           give lastAnnounceEpoch)))))))))"

end
