(* ===== verification/ChainFacts.thy ===== *)
theory ChainFacts
  imports ChainValidator
begin

text \<open>
  What \<open>validateConnectedChain\<close> guarantees. The runs of the validator are an inductive
  relation between the blocks accepted so far and the state reached; each guarantee is an
  invariant of that relation, proved by rule induction: the links and numbers of the blocks,
  the authenticity of blocks and records, the uniqueness of record hashes and of names, the
  sequence of nonces and who may create blocks.
\<close>

section \<open>Runs of the validator\<close>

inductive branch_run :: "env \<Rightarrow> block_structure list \<Rightarrow> branch_state \<Rightarrow> bool" for E where
  run_start: "branch_run E [] branch_start"
| run_block: "branch_run E before s \<Longrightarrow> branch_block E (env_config E) before s b = Inr s' \<Longrightarrow>
    branch_run E (before @ [b]) s'"

inductive_cases branch_runE: "branch_run E chain s"

lemma branch_blocks_run:
  "branch_run E before s \<Longrightarrow> branch_blocks E (env_config E) before s bs = Inr s' \<Longrightarrow> branch_run E (before @ bs) s'"
proof (induction bs arbitrary: before s)
  case Nil
  then show ?case by simp
next
  case (Cons b bs)
  then obtain s1 where "branch_block E (env_config E) before s b = Inr s1"
      "branch_blocks E (env_config E) (before @ [b]) s1 bs = Inr s'"
    by (auto split: sum.splits)
  with Cons.IH [of "before @ [b]" s1] Cons.prems(1) show ?case by (auto intro: run_block)
qed

lemma branch_blocks_append:
  "branch_blocks E c before s (xs @ ys) =
     (case branch_blocks E c before s xs of Inl e \<Rightarrow> Inl e | Inr s \<Rightarrow> branch_blocks E c (before @ xs) s ys)"
  by (induction xs arbitrary: before s) (auto split: sum.splits)

lemma valid_run: "validateConnectedChain E chain = Inr () \<Longrightarrow> chain \<noteq> [] \<and> (\<exists>s. branch_run E chain s)"
  using branch_blocks_run [OF run_start, of E chain]
  by (auto simp: validateConnectedChain_def split: if_splits sum.splits)

lemma branch_block_Inr:
  assumes "branch_block E c before s b = Inr s'"
  obtains s1 where "check_block_header E b = Inr ()"
    and "before = [] \<Longrightarrow> branch_genesis c b = Inr ()"
    and "before \<noteq> [] \<Longrightarrow> branch_successor E c before s b = Inr ()"
    and "branch_records E (before = []) b {} s (b_records b) = Inr s1" and "s' = branch_snapshot b s1"
  using assms by (auto simp: branch_block_def split: sum.splits if_splits)

lemma branch_record_Inr:
  assumes "branch_record E g b hs s r = Inr s'"
  shows "check_record_form E hs r = Inr ()" and "r_hash r \<notin> br_accepted s"
    and "check_record_signature E r = Inr ()"
    and "branch_rules g b (s\<lparr>br_accepted := insert (r_hash r) (br_accepted s)\<rparr>) r = Inr s'"
  using assms by (auto simp: branch_record_def split: sum.splits if_splits)

text \<open>An invariant of the rules for one record is an invariant of the records of a block.\<close>

lemma branch_records_induct [consumes 1, case_names Nil Cons]:
  assumes "branch_records E g b hs s rs = Inr s'"
    and "\<And>hs s. P hs s [] s"
    and "\<And>hs s r rs s1 s'. branch_record E g b hs s r = Inr s1 \<Longrightarrow>
      branch_records E g b (insert (r_hash r) hs) s1 rs = Inr s' \<Longrightarrow>
      P (insert (r_hash r) hs) s1 rs s' \<Longrightarrow> P hs s (r # rs) s'"
  shows "P hs s rs s'"
  using assms(1)
proof (induction rs arbitrary: hs s)
  case Nil
  then show ?case using assms(2) by simp
next
  case (Cons r rs)
  then obtain s1 where "branch_record E g b hs s r = Inr s1" "branch_records E g b (insert (r_hash r) hs) s1 rs = Inr s'"
    by (auto split: sum.splits)
  with Cons.IH assms(3) show ?case by blast
qed

text \<open>The rules for one record, by its type, and what each does to the state.\<close>

lemma branch_rules_Inr:
  assumes "branch_rules g b s r = Inr s'"
  obtains (issue) "r_type r = ISSUE_CURRENCY" "branch_issue b s r = Inr s'"
    | (transfer) "r_type r = TRANSFER_CURRENCY" "branch_transfer b s r = Inr s'"
    | (vote) "r_type r = VOTE" "branch_vote b s r = Inr s'"
    | (join) "r_type r = JOIN_NETWORK" "branch_join g b s r = Inr s'"
    | (rename) "r_type r = UPDATE_NAME" "branch_update_name s r = Inr s'"
    | (heartbeat) "r_type r = HEART_BEAT" "branch_heartbeat g b s r = Inr s'"
    | (carry) "r_type r = CARRY_FORWARD" "branch_carry_forward b s r = Inr s'"
  using assms by (cases "r_type r") (simp_all add: branch_rules_def)

lemma branch_issue_Inr:
  assumes "branch_issue b s r = Inr s'"
  obtains "\<not> dlt (r_amount r) (DFin 0)" "\<not> dlt (DFin 1) (r_amount r)" "r_sender r = b_creator b" "r_recipient r = b_creator b"
    "s' = s\<lparr>br_balances := credit (r_recipient r) (r_amount r) (br_balances s)\<rparr>"
  using assms by (simp add: branch_issue_def split: if_splits)

lemma branch_transfer_Inr:
  assumes "branch_transfer b s r = Inr s'"
  obtains "\<not> dle (r_amount r) (DFin 0)" "\<not> dlt (r_fee r) (DFin 0)"
    "b_merkle_root b \<noteq> [] \<Longrightarrow> r_nonce r = sm_at 0 (br_nonces s) (r_sender r) + 1"
    "\<not> dlt (dadd (sm_at (DFin 0) (br_balances s) (r_sender r)) EPS) (transfer_debit r)"
    "s' = s\<lparr>br_balances := transfer_balances b r (sm_touch (r_sender r) (DFin 0) (br_balances s)),
      br_nonces := (if b_merkle_root b \<noteq> [] then sm_put (r_sender r) (r_nonce r) (sm_touch (r_sender r) 0 (br_nonces s))
                    else br_nonces s)\<rparr>"
proof -
  note d = branch_transfer_def Let_def sm_at_touch
  show thesis
  proof (rule that)
    show "\<not> dle (r_amount r) (DFin 0)" "\<not> dlt (r_fee r) (DFin 0)" using assms by (auto simp: d split: if_splits)
    show "b_merkle_root b \<noteq> [] \<Longrightarrow> r_nonce r = sm_at 0 (br_nonces s) (r_sender r) + 1"
      using assms by (simp add: d split: if_splits)
    show "\<not> dlt (dadd (sm_at (DFin 0) (br_balances s) (r_sender r)) EPS) (transfer_debit r)"
      using assms by (simp add: d split: if_splits)
    show "s' = s\<lparr>br_balances := transfer_balances b r (sm_touch (r_sender r) (DFin 0) (br_balances s)),
      br_nonces := (if b_merkle_root b \<noteq> [] then sm_put (r_sender r) (r_nonce r) (sm_touch (r_sender r) 0 (br_nonces s))
                    else br_nonces s)\<rparr>"
      using assms by (simp add: d split: if_splits)
  qed
qed

lemma branch_vote_Inr:
  assumes "branch_vote b s r = Inr s'"
  obtains "\<not> dlt (r_fee r) (DFin 0)"
    "\<not> dlt (dadd (sm_at (DFin 0) (br_balances s) (r_sender r)) EPS) (r_fee r)"
    "s' = s\<lparr>br_balances := credit (b_creator b) (r_fee r)
       (debit (r_sender r) (r_fee r) (sm_touch (r_sender r) (DFin 0) (br_balances s)))\<rparr>"
  using assms by (simp add: branch_vote_def Let_def sm_at_touch split: if_splits)

definition new_member :: "block_structure \<Rightarrow> record_structure \<Rightarrow> BranchMember" where
  "new_member b r = \<lparr>bm_key = r_sender r, bm_name = [], bm_join_block = b_number b, bm_last_heartbeat = -1\<rparr>"

definition joined_state :: "block_structure \<Rightarrow> record_structure \<Rightarrow> branch_state \<Rightarrow> branch_state" where
  "joined_state b r s =
     (if branchMemberIndexByKey (br_members s) (r_sender r) = None
      then s\<lparr>br_members := br_members s @ [new_member b r]\<rparr> else s)"

lemma joined_state_simps [simp]:
  "br_accepted (joined_state b r s) = br_accepted s" "br_balances (joined_state b r s) = br_balances s"
  "br_nonces (joined_state b r s) = br_nonces s" "br_owners (joined_state b r s) = br_owners s"
  "br_snapshots (joined_state b r s) = br_snapshots s"
  by (simp_all add: joined_state_def)

lemma branch_join_Inr:
  assumes "branch_join g b s r = Inr s'"
  obtains "s' = joined_state b r s" | "branch_claim (r_sender r) (r_name r) (joined_state b r s) = Inr s'"
proof -
  have "(if r_name r \<noteq> [] then branch_claim (r_sender r) (r_name r) (joined_state b r s) else Inr (joined_state b r s)) = Inr s'"
    using assms unfolding branch_join_def joined_state_def new_member_def Let_def by (metis Inl_Inr_False)
  then show thesis using that by (metis sum.inject(2))
qed

lemma branch_update_name_Inr:
  assumes "branch_update_name s r = Inr s'"
  shows "branch_claim (r_sender r) (r_name r) s = Inr s'"
  using assms unfolding branch_update_name_def by (metis Inl_Inr_False)

lemma branch_claim_Inr:
  assumes "branch_claim k n s = Inr s'"
  obtains ms os where "claimBranchName (br_members s) (br_owners s) k n = (True, ms, os)"
    "s' = s\<lparr>br_members := ms, br_owners := os\<rparr>"
  using assms by (auto simp: branch_claim_def split: prod.splits if_splits)

lemma branch_heartbeat_Inr:
  assumes "branch_heartbeat g b s r = Inr s'"
  obtains "s' = s" | i where "branchMemberIndexByKey (br_members s) (r_sender r) = Some i"
    "s' = s\<lparr>br_members := (br_members s)[i := (br_members s ! i)\<lparr>bm_last_heartbeat := b_number b\<rparr>],
            br_has_heartbeats := True\<rparr>"
  using assms by (auto simp: branch_heartbeat_def split: if_splits option.splits)

lemma branch_carry_forward_Inr:
  assumes "branch_carry_forward b s r = Inr s'"
  obtains "s' = s" | "s' = s\<lparr>br_cf_keys := insert (carryForwardKey r) (br_cf_keys s),
      br_balances := credit (r_sender r) CARRY_FORWARD_REWARD (br_balances s)\<rparr>"
  using assms by (auto simp: branch_carry_forward_def Let_def split: if_splits)

text \<open>
  Validation is closed under prefixes: if a chain is accepted, so is every non-empty
  initial part of it.
\<close>

theorem validate_prefix:
  assumes "validateConnectedChain E (xs @ ys) = Inr ()" and "xs \<noteq> []"
  shows "validateConnectedChain E xs = Inr ()"
  using assms by (auto simp: validateConnectedChain_def branch_blocks_append split: sum.splits if_splits)

section \<open>Links\<close>

definition linked :: "block_structure list \<Rightarrow> bool" where
  "linked chain \<longleftrightarrow> successively (\<lambda>p b. b_previous_id b = b_number p \<and> b_previous_hash b = b_hash p \<and> b_number p < b_number b) chain"

lemma run_linked: "branch_run E chain s \<Longrightarrow> linked chain"
proof (induction rule: branch_run.induct)
  case run_start
  then show ?case by (simp add: linked_def)
next
  case (run_block before s b s')
  show ?case
  proof (cases "before = []")
    case True
    then show ?thesis by (simp add: linked_def)
  next
    case False
    with run_block(2) have "branch_successor E (env_config E) before s b = Inr ()" by (auto elim: branch_block_Inr)
    then have "b_previous_id b = b_number (last before)" "b_previous_hash b = b_hash (last before)"
        "b_number (last before) < b_number b"
      by (auto simp: branch_successor_def Let_def split: if_splits)
    with run_block.IH False show ?thesis by (auto simp: linked_def successively_append_iff)
  qed
qed

lemma linked_sorted: "linked chain \<Longrightarrow> sorted_wrt (<) (map b_number chain)"
proof (induction chain)
  case Nil
  then show ?case by simp
next
  case (Cons b chain)
  have chain: "linked chain" using Cons.prems by (cases chain) (auto simp: linked_def)
  show ?case
  proof (cases chain)
    case Nil
    then show ?thesis by simp
  next
    case (Cons c bs)
    then have "b_number b < b_number c" using Cons.prems by (simp add: linked_def)
    then show ?thesis using Cons.IH [OF chain] Cons by auto
  qed
qed

lemma run_genesis: "branch_run E chain s \<Longrightarrow> chain \<noteq> [] \<Longrightarrow> branch_genesis (env_config E) (hd chain) = Inr ()"
proof (induction rule: branch_run.induct)
  case run_start
  then show ?case by simp
next
  case (run_block before s b s')
  then show ?case by (cases "before = []") (auto elim: branch_block_Inr)
qed

text \<open>
  C8. An accepted chain starts with a block that has no parent and is the configured genesis
  block, and every later block names the number and the hash of the block before it; the
  numbers increase strictly.
\<close>

theorem validated_links:
  assumes "validateConnectedChain E chain = Inr ()"
  shows "b_previous_id (hd chain) \<le> 0 \<and> b_previous_hash (hd chain) = [] \<and>
    genesisMatches (env_config E) (b_number (hd chain)) (b_hash (hd chain)) \<and>
    linked chain \<and> sorted_wrt (<) (map b_number chain)"
proof -
  from valid_run [OF assms] obtain s where "chain \<noteq> []" and run: "branch_run E chain s" by blast
  then have "branch_genesis (env_config E) (hd chain) = Inr ()" by (simp add: run_genesis)
  then show ?thesis
    using run_linked [OF run] linked_sorted by (auto simp: branch_genesis_def split: if_splits)
qed

section \<open>Authenticity\<close>

definition authentic_block :: "env \<Rightarrow> block_structure \<Rightarrow> bool" where
  "authentic_block E b \<longleftrightarrow>
     getBlockHash E b = b_hash b \<and>
     (b_merkle_root b \<noteq> [] \<longrightarrow> getRecordsMerkleRoot E (b_records b) = b_merkle_root b) \<and>
     VerifyMessageCompressed E (b_hash b) (b_signature b) (b_creator b) = 1 \<and>
     int (length (b_records b)) \<le> MAX_BLOCK_RECORDS"

definition authentic_record :: "env \<Rightarrow> record_structure \<Rightarrow> bool" where
  "authentic_record E r \<longleftrightarrow>
     getRecordHash E r = r_hash r \<and> isRecordSizeValid E r \<and> r_sender r \<noteq> [] \<and>
     VerifyMessageCompressed E (r_hash r) (r_signature r) (r_sender r) = 1"

lemma rules_type:
  assumes "branch_rules g b s r = Inr s'"
  shows "recordRequiresSenderSignature r"
  using assms by (auto simp: branch_rules_def recordRequiresSenderSignature_def split: transaction_type.splits)

lemma record_authentic: "branch_record E g b hs s r = Inr s' \<Longrightarrow> authentic_record E r"
  using rules_type branch_record_Inr [of E g b hs s r s']
  by (fastforce simp: authentic_record_def check_record_form_def check_record_signature_def split: if_splits)

lemma records_authentic: "branch_records E g b hs s rs = Inr s' \<Longrightarrow> \<forall>r \<in> set rs. authentic_record E r"
  by (induction rule: branch_records_induct) (auto dest: record_authentic)

lemma header_authentic: "check_block_header E b = Inr () \<Longrightarrow> 0 < b_number b \<and> b_hash b \<noteq> [] \<and> b_creator b \<noteq> [] \<and> authentic_block E b"
  by (auto simp: check_block_header_def authentic_block_def split: if_splits)

lemma run_authentic:
  "branch_run E chain s \<Longrightarrow>
   \<forall>b \<in> set chain. 0 < b_number b \<and> b_hash b \<noteq> [] \<and> b_creator b \<noteq> [] \<and> authentic_block E b \<and>
     (\<forall>r \<in> set (b_records b). authentic_record E r)"
proof (induction rule: branch_run.induct)
  case run_start
  then show ?case by simp
next
  case (run_block before s b s')
  from run_block(2) obtain s1 where "check_block_header E b = Inr ()"
      "branch_records E (before = []) b {} s (b_records b) = Inr s1" by (rule branch_block_Inr)
  with run_block.IH show ?case using header_authentic records_authentic by auto
qed

text \<open>
  C7. In an accepted chain every block is authentic (its hash is the hash of its content,
  its Merkle root, where it has one, is the root of its records, and its creator signed it)
  and every record is: its hash is the hash of its content and its sender signed it.
\<close>

theorem validated_authentic:
  assumes "validateConnectedChain E chain = Inr ()"
  shows "\<forall>b \<in> set chain. authentic_block E b \<and> (\<forall>r \<in> set (b_records b). authentic_record E r)"
  using valid_run [OF assms] run_authentic by blast

section \<open>Record hashes are unique\<close>

lemma accepted_claim: "branch_claim k n s = Inr s' \<Longrightarrow> br_accepted s' = br_accepted s"
  by (erule branch_claim_Inr) simp

lemma accepted_rules: "branch_rules g b s r = Inr s' \<Longrightarrow> br_accepted s' = br_accepted s"
proof (erule branch_rules_Inr)
  assume "branch_join g b s r = Inr s'"
  then show "br_accepted s' = br_accepted s"
    by (rule branch_join_Inr) (auto dest: accepted_claim)
next
  assume "branch_update_name s r = Inr s'"
  then show "br_accepted s' = br_accepted s"
    by (auto dest: branch_update_name_Inr accepted_claim)
qed (auto elim!: branch_issue_Inr branch_transfer_Inr branch_vote_Inr branch_heartbeat_Inr branch_carry_forward_Inr)

lemma records_accepted:
  "branch_records E g b hs s rs = Inr s' \<Longrightarrow>
   distinct (map r_hash rs) \<and> r_hash ` set rs \<inter> br_accepted s = {} \<and>
   br_accepted s' = br_accepted s \<union> r_hash ` set rs"
proof (induction rule: branch_records_induct)
  case (Nil hs s)
  then show ?case by simp
next
  case (Cons hs s r rs s1 s')
  note r = branch_record_Inr [OF Cons(1)]
  have "br_accepted s1 = insert (r_hash r) (br_accepted s)" using accepted_rules [OF r(4)] by simp
  with Cons.IH r(2) show ?case by auto
qed

lemma run_hashes:
  "branch_run E chain s \<Longrightarrow>
   distinct (map r_hash (concat (map b_records chain))) \<and>
   br_accepted s = r_hash ` set (concat (map b_records chain))"
proof (induction rule: branch_run.induct)
  case run_start
  then show ?case by (simp add: branch_start_def)
next
  case (run_block before s b s')
  from run_block(2) obtain s1 where "branch_records E (before = []) b {} s (b_records b) = Inr s1"
      "s' = branch_snapshot b s1" by (rule branch_block_Inr)
  with records_accepted [OF this(1)] run_block.IH show ?case
    by (auto simp: branch_snapshot_def)
qed

text \<open>
  C4. No record is accepted twice: the hashes of all records of all blocks of an accepted
  chain are pairwise different.
\<close>

theorem validated_records_once:
  assumes "validateConnectedChain E chain = Inr ()"
  shows "distinct (map r_hash (concat (map b_records chain)))"
  using valid_run [OF assms] run_hashes by blast

section \<open>Names stay unique\<close>

definition branch_norm :: "string \<Rightarrow> string option" where
  "branch_norm n = (if normalizedBranchName n = [] \<or> normalizedBranchName n = INVALID_NAME then None
                    else Some (normalizedBranchName n))"

lemma claimBranchName_True:
  assumes "claimBranchName ms os k n = (True, ms', os')"
  obtains i where "branch_norm n = Some (normalizedBranchName n)" and "key_index bm_key ms k = Some i"
    and "sm_get os (normalizedBranchName n) \<in> {None, Some k}"
    and "ms' = ms[i := (ms ! i)\<lparr>bm_name := n\<rparr>]"
    and "os' = sm_put (normalizedBranchName n) k
      (if normalizedBranchName (bm_name (ms ! i)) \<noteq> [] \<and> sm_get os (normalizedBranchName (bm_name (ms ! i))) = Some k
       then sm_del (normalizedBranchName (bm_name (ms ! i))) os else os)"
proof -
  obtain i where i: "key_index bm_key ms k = Some i"
    using assms by (auto simp: claimBranchName_def Let_def branchMemberIndexByKey_def split: if_splits option.splits)
  show thesis
    by (rule that [OF _ i];
        use assms i in \<open>auto simp: claimBranchName_def Let_def branchMemberIndexByKey_def branch_norm_def
          branchNameTakenByAnother_def split: if_splits\<close>)
qed

interpretation branch_names:
  name_registry bm_key bm_name "\<lambda>n m. m\<lparr>bm_name := n\<rparr>" branch_norm claimBranchName
proof
  show "branch_norm [] = None" by (simp add: branch_norm_def normalizedBranchName_def)
  fix ms os k n ms' os'
  show "claimBranchName ms os k n = (False, ms', os') \<Longrightarrow> ms' = ms \<and> os' = os"
    by (auto simp: claimBranchName_def Let_def split: if_splits option.splits)
  assume c: "claimBranchName ms os k n = (True, ms', os')"
  then obtain i where i:
    "branch_norm n = Some (normalizedBranchName n)" "key_index bm_key ms k = Some i"
    "sm_get os (normalizedBranchName n) \<in> {None, Some k}" "ms' = ms[i := (ms ! i)\<lparr>bm_name := n\<rparr>]"
    "os' = sm_put (normalizedBranchName n) k
      (if normalizedBranchName (bm_name (ms ! i)) \<noteq> [] \<and> sm_get os (normalizedBranchName (bm_name (ms ! i))) = Some k
       then sm_del (normalizedBranchName (bm_name (ms ! i))) os else os)"
    by (rule claimBranchName_True)
  have "bm_name (ms ! i) = [] \<or> branch_norm (bm_name (ms ! i)) \<noteq> None \<longrightarrow>
    sm_get os' = (\<lambda>v. if v = normalizedBranchName n then Some k
            else if branch_norm (bm_name (ms ! i)) = Some v \<and> sm_get os v = Some k then None else sm_get os v)"
    unfolding i(5) by (auto simp: branch_norm_def smap_simps fun_eq_iff normalizedBranchName_def [of "[]"] split: if_splits)
  with i(1-4) show "\<exists>u i. branch_norm n = Some u \<and> key_index bm_key ms k = Some i \<and> sm_get os u \<in> {None, Some k} \<and>
        ms' = ms[i := (ms ! i)\<lparr>bm_name := n\<rparr>] \<and>
        (bm_name (ms ! i) = [] \<or> branch_norm (bm_name (ms ! i)) \<noteq> None \<longrightarrow>
          sm_get os' = (\<lambda>v. if v = u then Some k
            else if branch_norm (bm_name (ms ! i)) = Some v \<and> sm_get os v = Some k then None else sm_get os v))"
    by blast
qed simp_all

definition branch_names_inv :: "branch_state \<Rightarrow> bool" where
  "branch_names_inv s \<longleftrightarrow> registry_inv bm_key bm_name branch_norm (br_members s) (br_owners s)"

lemma branch_names_claim: "branch_names_inv s \<Longrightarrow> branch_claim k n s = Inr s' \<Longrightarrow> branch_names_inv s'"
  by (auto elim!: branch_claim_Inr simp: branch_names_inv_def intro: branch_names.reg_inv_claim)

lemma branch_names_joined: "branch_names_inv s \<Longrightarrow> branch_names_inv (joined_state b r s)"
  using branch_names.reg_inv_join [of "br_members s" "br_owners s" "new_member b r"]
  by (simp add: branch_names_inv_def joined_state_def new_member_def branchMemberIndexByKey_def key_index_None)

lemma branch_names_rules: "branch_rules g b s r = Inr s' \<Longrightarrow> branch_names_inv s \<Longrightarrow> branch_names_inv s'"
proof (erule branch_rules_Inr)
  assume s: "branch_names_inv s"
  {
    assume "branch_join g b s r = Inr s'"
    then show "branch_names_inv s'"
      by (rule branch_join_Inr) (use branch_names_joined [OF s] in \<open>auto dest: branch_names_claim\<close>)
  next
    assume "branch_update_name s r = Inr s'"
    then show "branch_names_inv s'" using s by (auto dest: branch_update_name_Inr branch_names_claim)
  next
    assume "branch_heartbeat g b s r = Inr s'"
    then show "branch_names_inv s'"
    proof (rule branch_heartbeat_Inr)
      fix i
      assume s': "s' = s\<lparr>br_members := (br_members s)[i := (br_members s ! i)\<lparr>bm_last_heartbeat := b_number b\<rparr>],
            br_has_heartbeats := True\<rparr>"
      have "map (\<lambda>m. (bm_key m, bm_name m)) ((br_members s)[i := (br_members s ! i)\<lparr>bm_last_heartbeat := b_number b\<rparr>]) =
          map (\<lambda>m. (bm_key m, bm_name m)) (br_members s)"
        by (rule map_key_update) simp
      from branch_names.reg_inv_cong [OF this] s show ?thesis by (simp add: s' branch_names_inv_def)
    qed (use s in simp)
  }
qed (auto simp: branch_names_inv_def elim!: branch_issue_Inr branch_transfer_Inr branch_vote_Inr branch_carry_forward_Inr)

lemma run_names: "branch_run E chain s \<Longrightarrow> branch_names_inv s"
proof (induction rule: branch_run.induct)
  case run_start
  then show ?case by (simp add: branch_names_inv_def branch_start_def branch_names.reg_inv_Nil)
next
  case (run_block before s b s')
  from run_block(2) obtain s1 where rs: "branch_records E (before = []) b {} s (b_records b) = Inr s1"
    and s': "s' = branch_snapshot b s1" by (rule branch_block_Inr)
  from rs have "branch_names_inv s \<longrightarrow> branch_names_inv s1"
  proof (induction rule: branch_records_induct)
    case (Cons hs s r rs s1 s')
    then show ?case using branch_names_rules [OF branch_record_Inr(4) [OF Cons(1)]] by (simp add: branch_names_inv_def)
  qed simp
  with run_block.IH show ?case by (simp add: s' branch_names_inv_def branch_snapshot_def)
qed

text \<open>
  C9. While a chain is validated, members have distinct keys and no two of them hold names
  that normalise to the same text.
\<close>

theorem validated_names_unique:
  assumes "branch_blocks E (env_config E) [] branch_start chain = Inr s"
  shows "distinct (map bm_key (br_members s)) \<and>
    inj_on (\<lambda>m. normalizedBranchName (bm_name m))
      {m \<in> set (br_members s). bm_name m \<noteq> []}"
proof -
  have inv: "branch_names_inv s" using branch_blocks_run [OF run_start assms] run_names by simp
  then have named: "\<forall>m \<in> set (br_members s). bm_name m \<noteq> [] \<longrightarrow> branch_norm (bm_name m) = Some (normalizedBranchName (bm_name m))"
    by (auto simp: branch_names_inv_def registry_inv_def branch_norm_def split: if_splits)
  have "m = m'" if "m \<in> set (br_members s)" "m' \<in> set (br_members s)" "bm_name m \<noteq> []" "bm_name m' \<noteq> []"
      "normalizedBranchName (bm_name m) = normalizedBranchName (bm_name m')" for m m'
    using that named inv by (intro branch_names.name_unique [of "br_members s" "br_owners s"]) (auto simp: branch_names_inv_def)
  moreover have "distinct (map bm_key (br_members s))" using inv by (simp add: branch_names_inv_def registry_inv_def)
  ultimately show ?thesis by (auto intro: inj_onI)
qed

section \<open>Nonces\<close>

definition transfers_of :: "string \<Rightarrow> record_structure list \<Rightarrow> record_structure list" where
  "transfers_of k rs = filter (\<lambda>r. r_type r = TRANSFER_CURRENCY \<and> r_sender r = k) rs"

lemma nonces_rules:
  assumes "branch_rules g b s r = Inr s'" and "b_merkle_root b \<noteq> []"
  shows "sm_at 0 (br_nonces s') k =
      (if r_type r = TRANSFER_CURRENCY \<and> r_sender r = k then sm_at 0 (br_nonces s) k + 1 else sm_at 0 (br_nonces s) k) \<and>
    (r_type r = TRANSFER_CURRENCY \<longrightarrow> r_nonce r = sm_at 0 (br_nonces s) (r_sender r) + 1)"
  using assms(1)
proof (cases rule: branch_rules_Inr)
  case transfer
  then show ?thesis using assms(2) by (auto elim!: branch_transfer_Inr simp: smap_simps)
next
  case join
  then show ?thesis by (auto elim!: branch_join_Inr branch_claim_Inr)
next
  case rename
  then show ?thesis by (auto dest!: branch_update_name_Inr elim!: branch_claim_Inr)
qed (auto elim!: branch_issue_Inr branch_vote_Inr branch_heartbeat_Inr branch_carry_forward_Inr)

lemma records_nonces:
  assumes "branch_records E g b hs s rs = Inr s'" and "b_merkle_root b \<noteq> []"
  shows "map r_nonce (transfers_of k rs) =
      [sm_at 0 (br_nonces s) k + 1 .. sm_at 0 (br_nonces s) k + int (length (transfers_of k rs))] \<and>
    sm_at 0 (br_nonces s') k = sm_at 0 (br_nonces s) k + int (length (transfers_of k rs))"
  using assms(1)
proof (induction rule: branch_records_induct)
  case (Nil hs s)
  then show ?case by (simp add: transfers_of_def)
next
  case (Cons hs s r rs s1 s')
  note rule = nonces_rules [OF branch_record_Inr(4) [OF Cons(1)] assms(2), of k]
  show ?case
  proof (cases "r_type r = TRANSFER_CURRENCY \<and> r_sender r = k")
    case True
    then have "transfers_of k (r # rs) = r # transfers_of k rs" by (simp add: transfers_of_def)
    then show ?thesis using Cons.IH rule True by (simp add: upto_rec1 add.assoc)
  next
    case False
    then have "transfers_of k (r # rs) = transfers_of k rs" by (auto simp: transfers_of_def)
    then show ?thesis using Cons.IH rule False by auto
  qed
qed

lemma upto_join: "[1 .. int m] @ [int m + 1 .. int m + int n] = [1 .. int m + int n]"
  using upto_split2 [of 1 "int m" "int m + int n"] by (cases m) auto

lemma run_nonces:
  "branch_run E chain s \<Longrightarrow> \<forall>b \<in> set chain. b_merkle_root b \<noteq> [] \<Longrightarrow>
   map r_nonce (transfers_of k (concat (map b_records chain))) = [1 .. sm_at 0 (br_nonces s) k] \<and>
   sm_at 0 (br_nonces s) k = int (length (transfers_of k (concat (map b_records chain))))"
proof (induction rule: branch_run.induct)
  case run_start
  then show ?case by (simp add: branch_start_def transfers_of_def smap_simps)
next
  case (run_block before s b s')
  from run_block(2) obtain s1 where rs: "branch_records E (before = []) b {} s (b_records b) = Inr s1"
    and s': "s' = branch_snapshot b s1" by (rule branch_block_Inr)
  have app: "transfers_of k (xs @ ys) = transfers_of k xs @ transfers_of k ys" for xs ys by (simp add: transfers_of_def)
  have "b_merkle_root b \<noteq> []" using run_block.prems by simp
  from records_nonces [OF rs this, of k] run_block.IH run_block.prems show ?case
    by (auto simp: s' branch_snapshot_def app upto_join)
qed

text \<open>
  C3. Transfers are ordered by their nonces: in an accepted chain whose blocks carry Merkle
  roots, the transfers of each sender bear the nonces 1, 2, 3 and so on without gaps, in the
  order of the chain, so that no transfer can be replayed, dropped or reordered.
\<close>

theorem validated_nonces:
  assumes "validateConnectedChain E chain = Inr ()" and "\<forall>b \<in> set chain. b_merkle_root b \<noteq> []"
  shows "map r_nonce (transfers_of k (concat (map b_records chain))) =
    [1 .. int (length (transfers_of k (concat (map b_records chain))))]"
  using valid_run [OF assms(1)] run_nonces [OF _ assms(2)] by metis

section \<open>Who creates blocks\<close>

definition joined_keys :: "block_structure list \<Rightarrow> string set" where
  "joined_keys chain = {r_sender r | b r. b \<in> set chain \<and> r \<in> set (b_records b) \<and> r_type r = JOIN_NETWORK}"

definition record_joins :: "record_structure list \<Rightarrow> string set" where
  "record_joins rs = r_sender ` {r \<in> set rs. r_type r = JOIN_NETWORK}"

lemma joined_keys_snoc: "joined_keys (chain @ [b]) = joined_keys chain \<union> record_joins (b_records b)"
  by (auto simp: joined_keys_def record_joins_def)

lemma members_claim: "branch_claim k n s = Inr s' \<Longrightarrow> bm_key ` set (br_members s') = bm_key ` set (br_members s)"
  by (erule branch_claim_Inr) (metis branch_names.claim_keys branch_state.select_convs(3) branch_state.update_convs(3,4)
    branch_state.surjective list.set_map)

lemma members_rules:
  assumes "branch_rules g b s r = Inr s'"
  shows "bm_key ` set (br_members s') \<subseteq> bm_key ` set (br_members s) \<union> record_joins [r] \<and> br_snapshots s' = br_snapshots s"
  using assms
proof (cases rule: branch_rules_Inr)
  case join
  have "bm_key ` set (br_members (joined_state b r s)) \<subseteq> bm_key ` set (br_members s) \<union> record_joins [r]"
    using join by (auto simp: joined_state_def new_member_def record_joins_def)
  moreover from join(2) have "bm_key ` set (br_members s') = bm_key ` set (br_members (joined_state b r s))"
    by (rule branch_join_Inr) (auto dest: members_claim)
  moreover from join(2) have "br_snapshots s' = br_snapshots s"
    by (rule branch_join_Inr) (auto elim: branch_claim_Inr)
  ultimately show ?thesis by simp
next
  case rename
  note c = branch_update_name_Inr [OF rename(2)]
  show ?thesis using members_claim [OF c] c by (auto elim: branch_claim_Inr)
next
  case heartbeat
  from heartbeat(2) show ?thesis
  proof (rule branch_heartbeat_Inr)
    fix i
    assume s': "s' = s\<lparr>br_members := (br_members s)[i := (br_members s ! i)\<lparr>bm_last_heartbeat := b_number b\<rparr>],
            br_has_heartbeats := True\<rparr>"
    have "map bm_key (br_members s') = map bm_key (br_members s)" unfolding s' by (simp add: map_key_update)
    then have "bm_key ` set (br_members s') = bm_key ` set (br_members s)" by (metis list.set_map)
    then show ?thesis by (simp add: s')
  qed simp
qed (auto elim!: branch_issue_Inr branch_vote_Inr branch_transfer_Inr branch_carry_forward_Inr)

lemma records_members:
  "branch_records E g b hs s rs = Inr s' \<Longrightarrow>
   bm_key ` set (br_members s') \<subseteq> bm_key ` set (br_members s) \<union> record_joins rs \<and> br_snapshots s' = br_snapshots s"
proof (induction rule: branch_records_induct)
  case (Nil hs s)
  then show ?case by simp
next
  case (Cons hs s r rs s1 s')
  have eq: "record_joins (r # rs) = record_joins [r] \<union> record_joins rs" by (auto simp: record_joins_def)
  have m1: "bm_key ` set (br_members s1) \<subseteq> bm_key ` set (br_members s) \<union> record_joins [r]" "br_snapshots s1 = br_snapshots s"
    using members_rules [OF branch_record_Inr(4) [OF Cons(1)]] by simp_all
  have "bm_key ` set (br_members s') \<subseteq> bm_key ` set (br_members s1) \<union> record_joins rs" using Cons.IH by simp
  also have "\<dots> \<subseteq> bm_key ` set (br_members s) \<union> record_joins (r # rs)" unfolding eq using m1(1) by auto
  finally show ?case using Cons.IH m1(2) by simp
qed

definition members_joined :: "block_structure list \<Rightarrow> branch_state \<Rightarrow> bool" where
  "members_joined chain s \<longleftrightarrow> bm_key ` set (br_members s) \<subseteq> joined_keys chain \<and>
     (\<forall>sn \<in> set (br_snapshots s). bm_key ` set (sn_members sn) \<subseteq> joined_keys chain)"

lemma run_members: "branch_run E chain s \<Longrightarrow> members_joined chain s"
proof (induction rule: branch_run.induct)
  case run_start
  then show ?case by (simp add: members_joined_def branch_start_def)
next
  case (run_block before s b s')
  from run_block(2) obtain s1 where rs: "branch_records E (before = []) b {} s (b_records b) = Inr s1"
    and s': "s' = branch_snapshot b s1" by (rule branch_block_Inr)
  note m = records_members [OF rs] and ih = run_block.IH [unfolded members_joined_def]
  have "bm_key ` set (br_members s') \<subseteq> joined_keys (before @ [b])"
    using m ih unfolding s' branch_snapshot_def joined_keys_snoc by simp blast
  moreover have "bm_key ` set (sn_members sn) \<subseteq> joined_keys (before @ [b])" if "sn \<in> set (br_snapshots s')" for sn
  proof (cases "sn \<in> set (br_snapshots s)")
    case True
    then show ?thesis using ih unfolding joined_keys_snoc by blast
  next
    case False
    then have "sn_members sn = br_members s1" using that m by (auto simp: s' branch_snapshot_def)
    then show ?thesis using m ih unfolding joined_keys_snoc by simp blast
  qed
  ultimately show ?case by (simp add: members_joined_def)
qed

lemma selected_user_member: "getSelectedUserForBlock E n seed users \<noteq> [] \<Longrightarrow> getSelectedUserForBlock E n seed users \<in> set users"
  by (auto simp: getSelectedUserForBlock_def Let_def nat_less_iff split: if_splits)

lemma active_keys_members: "set (activeMemberKeysForBlock ms hb n) \<subseteq> bm_key ` set ms"
  by (auto simp: activeMemberKeysForBlock_def Let_def)

lemma snapshot_in: "selectionSnapshotForBlock sns n g = Some sn \<Longrightarrow> sn \<in> set sns"
  by (auto simp: selectionSnapshotForBlock_def Let_def dest: last_in_set set_takeWhileD split: if_splits)

lemma branch_selected_entitled:
  assumes m: "members_joined before s" "sn \<in> set (br_snapshots s)" and ne: "branch_selected E c before s sn b \<noteq> []"
  shows "branch_selected E c before s sn b \<in> joined_keys before \<or>
    branch_selected E c before s sn b = configuredRecoveryPublicKey c (b_creator (hd before)) \<and>
    consecutiveRecoveryBlocksInBranch before (configuredRecoveryPublicKey c (b_creator (hd before))) < getRecoveryWindowBlocks"
proof -
  define rk cps lts where "rk = configuredRecoveryPublicKey c (b_creator (hd before))"
    and "cps = activeMemberKeysForBlock (sn_members sn) (sn_has_heartbeats sn) (b_number b)"
    and "lts = activeMemberKeysForBlock (br_members s) (br_has_heartbeats s) (b_number b)"
  have cps: "set cps \<subseteq> joined_keys before" and lts: "set lts \<subseteq> joined_keys before"
    unfolding cps_def lts_def
    by (rule subset_trans [OF active_keys_members], use m in \<open>simp add: members_joined_def\<close>)+
  have "branch_selected E c before s sn b =
      fst (getAuthorizedCreatorForBlock E (b_number b) (sn_hash sn) cps (b_hash (last before)) lts rk
        (consecutiveRecoveryBlocksInBranch before rk))"
    unfolding branch_selected_def Let_def rk_def cps_def lts_def by (rule refl)
  with ne cps lts show ?thesis
    unfolding rk_def [symmetric] getAuthorizedCreatorForBlock_def
    by (auto split: if_splits dest!: selected_user_member)
qed

text \<open>
  C6. Only entitled keys create blocks: in an accepted chain the creator of every block
  after the first is a member that joined in an earlier block, or the recovery key, and then
  fewer than ten blocks in a row before it are by the recovery key.
\<close>

theorem validated_creators:
  assumes "validateConnectedChain E (before @ b # after) = Inr ()" and "before \<noteq> []"
  shows "b_creator b \<in> joined_keys before \<or>
    b_creator b = configuredRecoveryPublicKey (env_config E) (b_creator (hd before)) \<and>
    consecutiveRecoveryBlocksInBranch before (b_creator b) < getRecoveryWindowBlocks"
proof -
  obtain s s' where s: "branch_blocks E (env_config E) [] branch_start before = Inr s"
    and b: "branch_block E (env_config E) before s b = Inr s'"
    using assms by (auto simp: validateConnectedChain_def branch_blocks_append split: sum.splits if_splits)
  have run: "branch_run E before s" using branch_blocks_run [OF run_start s] by simp
  from b assms(2) have "branch_successor E (env_config E) before s b = Inr ()" by (auto elim: branch_block_Inr)
  then obtain sn where sn: "sn \<in> set (br_snapshots s)" and sel: "branch_selected E (env_config E) before s sn b = b_creator b"
      "b_creator b \<noteq> []"
    by (auto simp: branch_successor_def Let_def split: if_splits option.splits dest: snapshot_in)
  from branch_selected_entitled [OF run_members [OF run] sn, of E "env_config E" b] sel show ?thesis by auto
qed

end
