(* ===== verification/IndexFacts.thy ===== *)
theory IndexFacts
  imports BlockIndex ChainFacts
begin

text \<open>
  What the writing half of the block database keeps and establishes: stored blocks are never
  overwritten or lost, adding a block twice is adding it once, the tip only moves to a child
  of the tip, the chain that is indexed is read back by the walk along the index, the
  rebuilt chain is the longest valid prefix of the candidate, and an adopted chain leads
  from the genesis block to the adopted tip.
\<close>

section \<open>Keys\<close>

lemmas key_defs = chainMetaKey_def nextHashKey_def blockHashKey_def canonicalHashKey_def forkBlockKey_def
  reorgMetaKey_def forkVariantCountKey_def forkVariantLatestBlockKey_def legacyBlockKey_def nextBlockKey_def

lemma db_str_put_other [simp]: "x \<noteq> k \<Longrightarrow> db_str (db_put k v db) x = db_str db x"
  by (cases db) (simp_all add: db_str_def db_put_def smap_simps)

lemma db_str_put_same [simp]: "db \<noteq> None \<Longrightarrow> db_str (db_put k v db) k = v"
  by (auto simp: db_str_def db_put_def smap_simps)

lemma db_put_open [simp]: "db_put k v db = None \<longleftrightarrow> db = None"
  by (simp add: db_put_def)

text \<open>The keys under which blocks are stored by hash are never the keys of an index.\<close>

lemma block_key_neq [simp]:
  "blockHashKey h \<noteq> chainMetaKey n" "blockHashKey h \<noteq> nextHashKey g" "blockHashKey h \<noteq> canonicalHashKey i"
  "blockHashKey h \<noteq> forkBlockKey b" "blockHashKey h \<noteq> reorgMetaKey m" "blockHashKey h \<noteq> forkVariantCountKey"
  "blockHashKey h \<noteq> forkVariantLatestBlockKey" "blockHashKey h \<noteq> legacyBlockKey i" "blockHashKey h \<noteq> nextBlockKey i"
  "blockHashKey h \<noteq> ''latest_block_id''" "blockHashKey h \<noteq> ''first_block_id''"
  by (simp_all add: key_defs)

lemmas block_key_neq_sym [simp] = block_key_neq [symmetric]

lemma block_key_inj [simp]: "blockHashKey g = blockHashKey h \<longleftrightarrow> g = h"
  by (simp add: blockHashKey_def)

section \<open>Stored blocks\<close>

text \<open>The part of the database that holds blocks by hash.\<close>

definition stored :: "dbh \<Rightarrow> string \<Rightarrow> string" where
  "stored db h = db_str db (blockHashKey h)"

lemma stored_put: "(\<And>h. k \<noteq> blockHashKey h) \<Longrightarrow> stored (db_put k v db) = stored db"
  unfolding stored_def fun_eq_iff by (metis db_str_put_other)

lemma stored_highest [simp]: "stored (maybeUpdateHighestStoredBlock n db) = stored db"
  by (auto simp: maybeUpdateHighestStoredBlock_def writeLongKey_def stored_put key_defs split: option.splits)

lemma stored_latest [simp]: "stored (setLatestBlockId E n db) = stored db"
  by (auto simp: setLatestBlockId_def Let_def stored_put key_defs)

lemma stored_checkpoint [simp]: "stored (maybeAdvanceValidatedCheckpoint E tip db) = stored db"
  by (simp add: maybeAdvanceValidatedCheckpoint_def Let_def stored_put key_defs split: option.splits)

lemma stored_next_index [simp]: "stored (add_next_index E b db) = stored db"
  by (simp add: add_next_index_def Let_def stored_put key_defs)

lemma stored_advance_tip [simp]: "stored (add_advance_tip E b db) = stored db"
  by (simp add: add_advance_tip_def Let_def)

lemma stored_fork_variant: "add_fork_variant E b db = Some db' \<Longrightarrow> stored db' = stored db"
  by (auto simp: add_fork_variant_def Let_def stored_put key_defs split: option.splits if_splits)

lemma stored_put_block: "db \<noteq> None \<Longrightarrow> stored (db_put (blockHashKey h) v db) = (stored db)(h := v)"
  by (auto simp: stored_def fun_eq_iff)

lemma stored_add_store:
  assumes "add_store E b db = (r, db')" and "db \<noteq> None"
  shows "stored db' = (stored db)(b_hash b := blockJSON E b)"
proof -
  let ?db1 = "db_put (forkBlockKey b) (b_hash b) (db_put (blockHashKey (b_hash b)) (blockJSON E b) db)"
  define db2 where "db2 = maybeUpdateHighestStoredBlock (b_number b) ?db1"
  define w where "w = (b_number (getBlock E db2 (b_number b)) \<le> 0 \<or> preferBlockVariant b (getBlock E db2 (b_number b)))"
  define db3 where "db3 = (if w then db_put (legacyBlockKey (b_number b)) (blockJSON E b)
                       (db_put (canonicalHashKey (b_number b)) (b_hash b) db2) else db2)"
  have "stored db2 = (stored db)(b_hash b := blockJSON E b)"
    using assms(2) by (simp add: db2_def stored_put stored_put_block)
  then have "stored db3 = (stored db)(b_hash b := blockJSON E b)"
    by (simp add: db3_def stored_put)
  moreover have "stored db' = stored db3"
    using assms(1) unfolding add_store_def Let_def db2_def [symmetric] w_def [symmetric] db3_def [symmetric]
    by (auto split: option.splits if_splits dest: stored_fork_variant)
  ultimately show ?thesis by simp
qed

text \<open>Everything \<open>AddBlock\<close> can do: refuse the block, find it stored already, or store it.\<close>

lemma AddBlock_cases:
  assumes "AddBlock E u b (db, cs) = (r, db', cs')"
  obtains (refused) "r = Some False" "db' = db"
  | (known) "r = Some True" "db' = db" "cs' = cs" "add_block_checks E b" "stored db (b_hash b) \<noteq> []"
  | (added) "db \<noteq> None" "add_block_checks E b" "stored db (b_hash b) = []"
      "validateBlockForStorage E u db b cs = (Inr (), cs')" "add_store E b db = (r, db')"
  using assms unfolding AddBlock_def stored_def
  by (auto split: if_splits prod.splits sum.splits)

text \<open>
  Stored blocks are immutable: whatever \<open>AddBlock\<close> is given, every block that was stored
  under its hash is still stored there, unchanged.
\<close>

theorem add_keeps_blocks:
  assumes "AddBlock E u b (db, cs) = (r, db', cs')" and "stored db h \<noteq> []"
  shows "stored db' h = stored db h"
  using assms(1)
proof (cases rule: AddBlock_cases)
  case added
  then show ?thesis using stored_add_store [OF added(5) added(1)] assms(2) by auto
qed simp_all

lemma storage_header:
  assumes "validateBlockForStorage E u db b cs = (Inr (), cs')"
  shows "check_block_header E b = Inr ()"
  using assms by (auto simp: validateBlockForStorage_def split: sum.splits)

lemma getBlockByHash_stored:
  assumes "db \<noteq> None" and "stored db (b_hash b) = blockJSON E b"
    and "printable_block E b" and "0 < b_number b" and "b_hash b \<noteq> []"
  shows "getBlockByHash E db (b_hash b) = b"
  using assms parse_printed_block [OF assms(3-5)]
  by (auto simp: getBlockByHash_def stored_def db_str_def first_block_def)

lemma blockJSON_nonempty [simp]: "blockJSON E b \<noteq> []" "[] \<noteq> blockJSON E b"
  by (simp_all add: blockJSON_def)

text \<open>
  C15. A block that was added under a hash with no entry before, and that is printable, can be read
  back by its hash exactly as it was given, and adding it a second time succeeds and changes neither
  the database nor the caches. Printable means that its texts have no quotes or braces, its numbers
  are printed and read back unchanged, and its records fit: the text of the record with index \<open>k\<close> is
  longer than \<open>13 * k\<close> characters, without which the reader finds records twice
  (\<open>JsonLimits.parse_block_duplicates\<close>).
\<close>

theorem add_readback:
  assumes "AddBlock E u b (db, cs) = (Some True, db', cs')" and "stored db (b_hash b) = []" and "printable_block E b"
  shows "getBlockByHash E db' (b_hash b) = b \<and> AddBlock E u b (db', cs') = (Some True, db', cs')"
  using assms(1)
proof (cases rule: AddBlock_cases)
  case added
  have st: "stored db' (b_hash b) = blockJSON E b" using stored_add_store [OF added(5) added(1)] by simp
  then have "db' \<noteq> None" by (cases db') (simp_all add: stored_def db_str_def)
  moreover have "0 < b_number b \<and> b_hash b \<noteq> []" using header_authentic [OF storage_header [OF added(4)]] by simp
  ultimately show ?thesis
    using st added(2) assms(3) getBlockByHash_stored by (auto simp: AddBlock_def stored_def)
qed (use assms(2) in auto)

section \<open>Authenticity of stored blocks\<close>

definition admissible_record :: "env \<Rightarrow> record_structure \<Rightarrow> bool" where
  "admissible_record E r \<longleftrightarrow>
     getRecordHash E r = r_hash r \<and> isRecordSizeValid E r \<and>
     (recordRequiresSenderSignature r \<longrightarrow>
       r_sender r \<noteq> [] \<and> VerifyMessageCompressed E (r_hash r) (r_signature r) (r_sender r) = 1)"

lemma storage_rules_hashes: "storage_rules enf g st b s r = Inr s' \<Longrightarrow> sv_hashes s' = sv_hashes s"
  by (auto simp: storage_rules_def storage_transfer_def Let_def split: transaction_type.splits if_splits)

lemma storage_record_Inr:
  assumes "storage_record E db enf g st p b s r = Inr s'"
  shows "admissible_record E r" and "r_hash r \<notin> sv_hashes s" and "sv_hashes s' = insert (r_hash r) (sv_hashes s)"
proof -
  have f: "check_record_form E (sv_hashes s) r = Inr ()" and g: "check_record_signature E r = Inr ()"
    and ru: "storage_rules enf g st b (s\<lparr>sv_hashes := insert (r_hash r) (sv_hashes s)\<rparr>) r = Inr s'"
    using assms by (auto simp: storage_record_def split: sum.splits if_splits)
  show "admissible_record E r" "r_hash r \<notin> sv_hashes s"
    using f g by (auto simp: admissible_record_def check_record_form_def check_record_signature_def split: if_splits)
  show "sv_hashes s' = insert (r_hash r) (sv_hashes s)" using storage_rules_hashes [OF ru] by simp
qed

lemma storage_records_admissible:
  "storage_records E db enf g st p b s rs = Inr s' \<Longrightarrow>
   (\<forall>r \<in> set rs. admissible_record E r) \<and> distinct (map r_hash rs) \<and> r_hash ` set rs \<inter> sv_hashes s = {}"
proof (induction rs arbitrary: s)
  case (Cons r rs)
  then obtain s1 where r: "storage_record E db enf g st p b s r = Inr s1"
    and rs: "storage_records E db enf g st p b s1 rs = Inr s'" by (auto split: sum.splits)
  from Cons.IH [OF rs] storage_record_Inr [OF r] show ?case by auto
qed simp

lemma storage_body_Inr:
  assumes "storage_body E db enf g st p b cs = (Inr (), cs')"
  shows "(\<forall>r \<in> set (b_records b). admissible_record E r) \<and> distinct (map r_hash (b_records b))"
  using assms storage_records_admissible by (fastforce simp: storage_body_def split: sum.splits)

lemma storage_authentic:
  assumes "validateBlockForStorage E u db b cs = (Inr (), cs')"
  shows "authentic_block E b" "\<forall>r \<in> set (b_records b). admissible_record E r" "distinct (map r_hash (b_records b))"
proof -
  show "authentic_block E b" using header_authentic [OF storage_header [OF assms]] by simp
  have "\<exists>enf g st p cs0. storage_body E db enf g st p b cs0 = (Inr (), cs')"
    using assms by (auto simp: validateBlockForStorage_def split: sum.splits if_splits prod.splits) blast+
  then show "\<forall>r \<in> set (b_records b). admissible_record E r" "distinct (map r_hash (b_records b))"
    using storage_body_Inr by blast+
qed

text \<open>
  C14. Only authentic blocks enter the store: if \<open>AddBlock\<close> fills an entry that was empty, the
  entry is that of the block it was given, the block carries the hash, the Merkle root (if it
  carries one) and the signature of its content, its records have distinct hashes, each the hash of its
  content, and every record of a type that needs one (\<open>recordRequiresSenderSignature\<close>: all but
  period summaries and unknown types) has a valid signature of its sender.
\<close>

theorem add_authentic:
  assumes "AddBlock E u b (db, cs) = (r, db', cs')" and "stored db h = []" and "stored db' h \<noteq> []"
  shows "h = b_hash b \<and> authentic_block E b \<and> list_all (admissible_record E) (b_records b) \<and>
    distinct (map r_hash (b_records b))"
  using assms(1)
proof (cases rule: AddBlock_cases)
  case added
  have "h = b_hash b" using stored_add_store [OF added(5) added(1)] assms(2,3) by (auto split: if_splits)
  then show ?thesis using storage_authentic [OF added(4)] by (simp add: list_all_iff)
qed (use assms(2,3) in auto)

end
