(* ===== verification/LedgerFacts.thy ===== *)
theory LedgerFacts
  imports LedgerState
begin

text \<open>
  What the ledger state promises: public names stay unique, a replayed record changes
  nothing, the cache of built states is transparent, and the confirmed block has the asked
  number of blocks above it.
\<close>

section \<open>Names stay unique\<close>

definition ledger_norm :: "string \<Rightarrow> string option" where
  "ledger_norm n = (if normalizedPublicName n = [] then None else Some (normalizedPublicName n))"

lemma claimPublicName_True:
  assumes "claimPublicName ms os k n = (True, ms', os')"
  obtains i where "normalizedPublicName n \<noteq> []" and "key_index ms_key ms k = Some i"
    and "sm_get os (normalizedPublicName n) \<in> {None, Some k}"
    and "ms' = ms[i := (ms ! i)\<lparr>ms_name := n\<rparr>]"
    and "os' = sm_put (normalizedPublicName n) k
      (if normalizedPublicName (ms_name (ms ! i)) \<noteq> [] \<and> sm_get os (normalizedPublicName (ms_name (ms ! i))) = Some k
       then sm_del (normalizedPublicName (ms_name (ms ! i))) os else os)"
proof -
  obtain i where i: "key_index ms_key ms k = Some i"
    using assms by (auto simp: claimPublicName_def Let_def memberIndexByKey_def split: if_splits option.splits)
  show thesis
    by (rule that [OF _ i]; use assms i in \<open>auto simp: claimPublicName_def Let_def memberIndexByKey_def split: if_splits\<close>)
qed

interpretation ledger_names:
  name_registry ms_key ms_name "\<lambda>n m. m\<lparr>ms_name := n\<rparr>" ledger_norm claimPublicName
proof
  show "ledger_norm [] = None" by (simp add: ledger_norm_def normalizedPublicName_def slen_def)
  fix ms os k n ms' os'
  show "claimPublicName ms os k n = (False, ms', os') \<Longrightarrow> ms' = ms \<and> os' = os"
    by (auto simp: claimPublicName_def Let_def split: if_splits option.splits)
  assume c: "claimPublicName ms os k n = (True, ms', os')"
  then obtain i where
    "ledger_norm n = Some (normalizedPublicName n)" "key_index ms_key ms k = Some i"
    "sm_get os (normalizedPublicName n) \<in> {None, Some k}" "ms' = ms[i := (ms ! i)\<lparr>ms_name := n\<rparr>]"
    "sm_get os' = (\<lambda>v. if v = normalizedPublicName n then Some k
            else if ledger_norm (ms_name (ms ! i)) = Some v \<and> sm_get os v = Some k then None else sm_get os v)"
    by (rule claimPublicName_True) (auto simp: ledger_norm_def smap_simps fun_eq_iff)
  then show "\<exists>u i. ledger_norm n = Some u \<and> key_index ms_key ms k = Some i \<and> sm_get os u \<in> {None, Some k} \<and>
        ms' = ms[i := (ms ! i)\<lparr>ms_name := n\<rparr>] \<and>
        (ms_name (ms ! i) = [] \<or> ledger_norm (ms_name (ms ! i)) \<noteq> None \<longrightarrow>
          sm_get os' = (\<lambda>v. if v = u then Some k
            else if ledger_norm (ms_name (ms ! i)) = Some v \<and> sm_get os v = Some k then None else sm_get os v))"
    by blast
qed simp_all

definition names_inv :: "build_state \<Rightarrow> bool" where
  "names_inv s \<longleftrightarrow> registry_inv ms_key ms_name ledger_norm (ls_members (bs_result s)) (bs_owners s)"

lemma names_inv_claim: "names_inv s \<Longrightarrow> names_inv (build_claim k n s)"
  by (auto simp: names_inv_def build_claim_def split: prod.splits intro: ledger_names.reg_inv_claim)

lemma names_inv_frame:
  "ls_members (bs_result s') = ls_members (bs_result s) \<Longrightarrow> bs_owners s' = bs_owners s \<Longrightarrow>
   names_inv s' = names_inv s"
  by (simp add: names_inv_def)

lemma names_inv_join: "names_inv s \<Longrightarrow> names_inv (build_join w b r s)"
proof -
  assume s: "names_inv s"
  let ?m = "\<lparr>ms_key = r_sender r, ms_name = [], ms_join_block = b_number b, ms_last_heartbeat = -1, ms_active = False\<rparr>"
  let ?s = "s\<lparr>bs_result := (bs_result s)\<lparr>ls_members := ls_members (bs_result s) @ [?m]\<rparr>\<rparr>"
  have new: "names_inv ?s" if "memberIndexByKey (ls_members (bs_result s)) (r_sender r) = None"
    using ledger_names.reg_inv_join [of "ls_members (bs_result s)" "bs_owners s" ?m] s that
    by (simp add: names_inv_def memberIndexByKey_def key_index_None)
  have w: "names_inv (x\<lparr>bs_result := (bs_result x)\<lparr>ls_joined := True\<rparr>\<rparr>) = names_inv x" for x
    by (rule names_inv_frame) simp_all
  define s1 where "s1 = (if memberIndexByKey (ls_members (bs_result s)) (r_sender r) = None
      then if r_name r \<noteq> [] then build_claim (r_sender r) (r_name r) ?s else ?s else s)"
  have "names_inv s1" unfolding s1_def using s new names_inv_claim by (auto simp del: not_None_eq)
  moreover have "build_join w b r s =
      (if r_sender r = w then s1\<lparr>bs_result := (bs_result s1)\<lparr>ls_joined := True\<rparr>\<rparr> else s1)"
    unfolding build_join_def Let_def s1_def by (rule refl)
  ultimately show ?thesis by (simp add: w)
qed

lemma names_inv_record: "names_inv s \<Longrightarrow> names_inv (build_record E db w b s r)"
proof -
  assume s: "names_inv s"
  have acc: "names_inv (s\<lparr>bs_result := (bs_result s)\<lparr>ls_accepted := h\<rparr>\<rparr>)" for h
    using s by (simp add: names_inv_def)
  have hb: "names_inv (build_heartbeat w b r x) = names_inv x" for x
    by (rule names_inv_frame) (simp_all add: build_heartbeat_def)
  have cf: "names_inv (build_carry_forward r x) = names_inv x" for x
    by (rule names_inv_frame) (simp_all add: build_carry_forward_def Let_def)
  have mem: "names_inv x \<Longrightarrow> names_inv (build_membership E db w b r x)" for x
    by (simp add: build_membership_def names_inv_join names_inv_claim hb cf)
  have money: "names_inv (build_money b r x) = names_inv x" for x
    by (rule names_inv_frame) (simp_all add: build_money_def Let_def split: prod.splits)
  show ?thesis using s acc by (simp add: build_record_def Let_def money mem)
qed

lemma names_inv_block: "names_inv s \<Longrightarrow> names_inv (build_block E db w s b)"
proof -
  have fold: "names_inv s \<Longrightarrow> names_inv (foldl (build_record E db w b) s rs)" for s rs
    by (induction rs arbitrary: s) (simp_all add: names_inv_record)
  assume "names_inv s"
  then show ?thesis unfolding build_block_def by (intro fold) (simp add: names_inv_def)
qed

lemma names_inv_build:
  "names_inv (foldl (build_block E db w)
     \<lparr>bs_result = build_start db stop, bs_owners = [], bs_heartbeats = []\<rparr> bs)"
proof -
  have fold: "names_inv s \<Longrightarrow> names_inv (foldl (build_block E db w) s bs)" for s
    by (induction bs arbitrary: s) (simp_all add: names_inv_block)
  show ?thesis
    by (rule fold) (simp add: names_inv_def build_start_def Let_def ledger_names.reg_inv_Nil)
qed

lemma finish_members:
  "map (\<lambda>m. (ms_key m, ms_name m)) (ls_members (foldl (finish_member c hb) st ms)) =
   map (\<lambda>m. (ms_key m, ms_name m)) (ls_members st @ ms)"
  by (induction ms arbitrary: st) (simp_all add: finish_member_def Let_def)

lemma build_finish_members:
  "map (\<lambda>m. (ms_key m, ms_name m)) (ls_members (build_finish t w s)) =
   map (\<lambda>m. (ms_key m, ms_name m)) (ls_members (bs_result s))"
  by (simp add: build_finish_def Let_def finish_wallet_def finish_heartbeat_def finish_members)

lemma names_of_members:
  assumes "m \<in> set (ls_members (build_finish t w s))"
  obtains m0 where "m0 \<in> set (ls_members (bs_result s))" "ms_key m0 = ms_key m" "ms_name m0 = ms_name m"
proof -
  have "(ms_key m, ms_name m) \<in> set (map (\<lambda>m. (ms_key m, ms_name m)) (ls_members (build_finish t w s)))"
    using assms by auto
  then show thesis unfolding build_finish_members using that by auto
qed

lemma finish_distinct: "names_inv s \<Longrightarrow> distinct (map ms_key (ls_members (build_finish t w s)))"
proof -
  have "map ms_key ms = map fst (map (\<lambda>m. (ms_key m, ms_name m)) ms)" for ms by simp
  then have "map ms_key (ls_members (build_finish t w s)) = map ms_key (ls_members (bs_result s))"
    by (metis build_finish_members)
  then show "names_inv s \<Longrightarrow> ?thesis" by (simp add: names_inv_def registry_inv_def)
qed

lemma members_named_once:
  assumes "m \<in> set (ls_members (fst (build E db wallet stop [])))"
    and "m' \<in> set (ls_members (fst (build E db wallet stop [])))"
    and "normalizedPublicName (ms_name m) = normalizedPublicName (ms_name m')"
    and "normalizedPublicName (ms_name m) \<noteq> []"
  shows "m = m'"
proof (cases "ls_first_id (build_start db stop) < 0 \<or> ls_latest_id (build_start db stop) < 0")
  case True
  with assms(1) show ?thesis by (auto simp: build_def Let_def build_start_def)
next
  case False
  define s where "s = foldl (build_block E db wallet)
    \<lparr>bs_result = build_start db stop, bs_owners = [], bs_heartbeats = []\<rparr> (build_chain E db stop)"
  let ?ms = "ls_members (build_finish (getCurrentTimeBlock E) wallet s)"
  have b: "fst (build E db wallet stop []) = build_finish (getCurrentTimeBlock E) wallet s"
    using False by (simp add: build_def build_compute_def s_def cachedLedgerState_def smap_simps Let_def)
  have inv: "names_inv s" unfolding s_def by (rule names_inv_build)
  obtain x x' where x: "x \<in> set (ls_members (bs_result s))" "ms_key x = ms_key m" "ms_name x = ms_name m"
    and x': "x' \<in> set (ls_members (bs_result s))" "ms_key x' = ms_key m'" "ms_name x' = ms_name m'"
    using assms(1,2) unfolding b by (meson names_of_members)
  have "x = x'"
    using inv x x' assms(3,4) unfolding names_inv_def
    by (intro ledger_names.name_unique) (auto simp: ledger_norm_def)
  then have "ms_key m = ms_key m'" using x x' by simp
  moreover have "distinct (map ms_key ?ms)" using inv by (rule finish_distinct)
  ultimately show ?thesis using assms(1,2) unfolding b by (auto simp: distinct_map dest: inj_onD)
qed

text \<open>
  In the ledger state that \<open>build\<close> computes no two members hold the same public name: two
  members whose names normalise to the same text are the same member.
\<close>

theorem ledger_names_unique:
  "inj_on (\<lambda>m. normalizedPublicName (ms_name m))
     {m \<in> set (ls_members (fst (build E db wallet stop []))). normalizedPublicName (ms_name m) \<noteq> []}"
  by (rule inj_onI) (auto intro: members_named_once)

section \<open>Replayed records change nothing\<close>

lemma ledger_accepted_claim [simp]: "ls_accepted (bs_result (build_claim k n s)) = ls_accepted (bs_result s)"
  by (simp add: build_claim_def split: prod.splits)

lemma accepted_membership [simp]:
  "ls_accepted (bs_result (build_membership E db w b r s)) = ls_accepted (bs_result s)"
  by (simp add: build_membership_def build_join_def build_heartbeat_def build_carry_forward_def Let_def)

lemma accepted_money [simp]: "ls_accepted (bs_result (build_money b r s)) = ls_accepted (bs_result s)"
  by (simp add: build_money_def Let_def split: prod.splits)

lemma accepted_record:
  "ls_accepted (bs_result (build_record E db w b s r)) =
     (if r_hash r = [] then ls_accepted (bs_result s) else insert (r_hash r) (ls_accepted (bs_result s)))"
  by (auto simp: build_record_def Let_def)

lemma accepted_records:
  "ls_accepted (bs_result (foldl (build_record E db w b) s rs)) =
     ls_accepted (bs_result s) \<union> (r_hash ` set rs - {[]})"
  by (induction rs arbitrary: s) (auto simp: accepted_record)

lemma records_known:
  "\<forall>r \<in> set rs. r_hash r \<noteq> [] \<and> r_hash r \<in> ls_accepted (bs_result s) \<Longrightarrow>
   foldl (build_record E db w b) s rs = s"
  by (induction rs) (auto simp: build_record_def)

text \<open>
  Replay protection: once a list of records has been applied, applying records with the
  same hashes again, in any order, any number of times and in any other block, leaves the
  state of the ledger as it is.
\<close>

theorem replay_ignored:
  assumes "\<forall>r \<in> set again. r_hash r \<noteq> [] \<and> r_hash r \<in> r_hash ` set rs"
  shows "foldl (build_record E db wallet b') (foldl (build_record E db wallet b) s rs) again =
    foldl (build_record E db wallet b) s rs"
  by (rule records_known) (use assms in \<open>auto simp: accepted_records\<close>)

section \<open>The cache is transparent\<close>

lemma show_nat_inj: "show_nat m = show_nat n \<Longrightarrow> m = n"
  by (metis digits_val_show_nat of_nat_eq_iff)

lemma show_long_inj: "show_long m = show_long n \<Longrightarrow> m = n"
proof -
  have hd: "hd (show_nat k) \<noteq> CHR ''-''" for k
    using show_nat_chars [of "hd (show_nat k)" k] by auto
  assume "show_long m = show_long n"
  then show ?thesis using hd by (auto simp: show_long_def dest: show_nat_inj split: if_splits)
      (metis list.sel(1))+
qed

lemma last_field:
  "c \<notin> set x \<Longrightarrow> c \<notin> set x' \<Longrightarrow> a @ c # x = a' @ c # x' \<Longrightarrow> a = a' \<and> x = x'"
proof -
  assume c: "c \<notin> set x" "c \<notin> set x'" and eq: "a @ c # x = a' @ c # x'"
  have split: "rev (p @ c # y) = rev y @ c # rev p" for p y :: "'a list" by simp
  have "rev (a @ c # x) = rev (a' @ c # x')" by (simp only: eq)
  then have "rev x @ c # rev a = rev x' @ c # rev a'" by (simp only: split)
  then have "takeWhile (\<lambda>d. d \<noteq> c) (rev x @ c # rev a) = takeWhile (\<lambda>d. d \<noteq> c) (rev x' @ c # rev a')" by simp
  moreover have "takeWhile (\<lambda>d. d \<noteq> c) (rev y @ c # p) = rev y" if "c \<notin> set y" for y p
    using that by (subst takeWhile_append2) auto
  ultimately have "x = x'" using c by simp
  with eq show ?thesis by simp
qed

definition build_key :: "env \<Rightarrow> dbh \<Rightarrow> string \<Rightarrow> int \<Rightarrow> string" where
  "build_key E db w stop =
     ledgerStateCacheKey w (getFirstBlockId db) (ls_latest_id (build_start db stop))
       (b_hash (getBlock E db (ls_latest_id (build_start db stop)))) stop (getCurrentTimeBlock E)"

lemma show_long_no_bar: "CHR ''|'' \<notin> set (show_long n)"
  using show_long_chars by (force simp: c_isdigit_def code_def)

lemma build_key_inj:
  assumes "build_key E db w stop = build_key E db w' stop'"
  shows "w = w' \<and> stop = stop'"
proof -
  let ?pre = "\<lambda>w stop. w @ ''|'' @ show_long (getFirstBlockId db) @ ''|'' @
    show_long (ls_latest_id (build_start db stop)) @ ''|'' @
    b_hash (getBlock E db (ls_latest_id (build_start db stop)))"
  have "(?pre w stop @ ''|'' @ show_long stop) @ CHR ''|'' # show_long (getCurrentTimeBlock E) =
      (?pre w' stop' @ ''|'' @ show_long stop') @ CHR ''|'' # show_long (getCurrentTimeBlock E)"
    using assms by (simp add: build_key_def ledgerStateCacheKey_def)
  then have "?pre w stop @ CHR ''|'' # show_long stop = ?pre w' stop' @ CHR ''|'' # show_long stop'"
    using last_field [OF show_long_no_bar show_long_no_bar] by simp
  then have "?pre w stop = ?pre w' stop' \<and> show_long stop = show_long stop'"
    by (rule last_field [OF show_long_no_bar show_long_no_bar])
  then show ?thesis using show_long_inj by auto
qed

lemma sm_get_drop: "sm_inv m \<Longrightarrow> sm_get (drop n m) k = Some v \<Longrightarrow> sm_get m k = Some v"
  unfolding sm_get_def
  by (metis in_set_dropD map_of_SomeD map_of_eq_Some_iff sm_inv_distinct)

lemma sm_inv_drop: "sm_inv m \<Longrightarrow> sm_inv (drop n m)"
  by (simp add: sm_inv_def sorted_wrt_drop flip: drop_map)

definition cache_ok :: "env \<Rightarrow> dbh \<Rightarrow> ledger_cache \<Rightarrow> bool" where
  "cache_ok E db cache \<longleftrightarrow> sm_inv cache \<and>
     (\<forall>w stop st. sm_get cache (build_key E db w stop) = Some st \<longrightarrow> st = build_compute E db w stop)"

lemma build_cases:
  "build E db w stop cache =
     (if ls_first_id (build_start db stop) < 0 \<or> ls_latest_id (build_start db stop) < 0
      then (build_start db stop, cache)
      else case sm_get cache (build_key E db w stop) of
             Some st \<Rightarrow> (st, cache)
           | None \<Rightarrow> (build_compute E db w stop,
                      cacheLedgerState (build_key E db w stop) (build_compute E db w stop) cache))"
proof -
  have "ls_first_id (build_start db stop) = getFirstBlockId db" by (simp add: build_start_def Let_def)
  then show ?thesis unfolding build_def build_key_def cachedLedgerState_def Let_def by (simp only: split: if_split)
qed

lemma build_transparent:
  assumes "cache_ok E db cache"
  shows "fst (build E db w stop cache) = fst (build E db w stop [])"
    and "cache_ok E db (snd (build E db w stop cache))"
proof -
  show "fst (build E db w stop cache) = fst (build E db w stop [])"
    using assms by (auto simp: build_cases cache_ok_def smap_simps split: option.splits)
  let ?k = "build_key E db w stop" and ?st = "build_compute E db w stop"
  have inv: "sm_inv (sm_put ?k ?st cache)" using assms by (simp add: cache_ok_def smap_simps)
  have "cache_ok E db (cacheLedgerState ?k ?st cache)"
    unfolding cache_ok_def
  proof (intro conjI allI impI)
    show "sm_inv (cacheLedgerState ?k ?st cache)"
      using sm_inv_drop [OF inv] by (simp add: cacheLedgerState_def Let_def)
    fix w' stop' st
    assume "sm_get (cacheLedgerState ?k ?st cache) (build_key E db w' stop') = Some st"
    then have "sm_get (sm_put ?k ?st cache) (build_key E db w' stop') = Some st"
      using sm_get_drop [OF inv] by (simp add: cacheLedgerState_def Let_def)
    then show "st = build_compute E db w' stop'"
      using assms build_key_inj [of E db w stop w' stop'] by (auto simp: smap_simps cache_ok_def split: if_splits)
  qed
  then show "cache_ok E db (snd (build E db w stop cache))"
    using assms by (auto simp: build_cases split: option.splits)
qed

text \<open>A sequence of calls of \<open>build\<close> on one database, the cache threaded through them.\<close>

fun build_all :: "env \<Rightarrow> dbh \<Rightarrow> (string \<times> int) list \<Rightarrow> ledger_cache \<Rightarrow> ledger_state list" where
  "build_all E db [] cache = []"
| "build_all E db ((w, stop) # qs) cache =
     (case build E db w stop cache of (st, cache) \<Rightarrow> st # build_all E db qs cache)"

text \<open>
  As long as the database and the clock's slot stay the same the cache needs no condition: any
  sequence of calls of \<open>build\<close> answers each call as a call with an empty cache would, whatever the
  cache evicts on the way. (\<open>LedgerCache\<close> shows it for stores that change.)
\<close>

lemma cache_transparent:
  "build_all E db qs [] = map (\<lambda>(w, stop). fst (build E db w stop [])) qs"
proof -
  have "cache_ok E db cache \<Longrightarrow> build_all E db qs cache = map (\<lambda>(w, stop). fst (build E db w stop [])) qs" for cache
  proof (induction qs arbitrary: cache)
    case Nil
    then show ?case by simp
  next
    case (Cons q qs)
    obtain w stop where q: "q = (w, stop)" by (cases q)
    show ?case
      using Cons.IH [OF build_transparent(2) [OF Cons.prems]] build_transparent(1) [OF Cons.prems]
      by (simp add: q case_prod_beta)
  qed
  moreover have "cache_ok E db []" by (simp add: cache_ok_def smap_simps)
  ultimately show ?thesis .
qed

section \<open>Confirmations\<close>

text \<open>The blocks \<open>confirmedStopBlock\<close> collects.\<close>

definition connected_blocks :: "env \<Rightarrow> dbh \<Rightarrow> block_structure list" where
  "connected_blocks E db =
     walk_chain (getNextBlock E db) (\<lambda>n. False) (getLatestBlockId db) 0 (getBlock E db (getFirstBlockId db))"

text \<open>
  The confirmed block is the block of the accepted chain with exactly the asked number of
  blocks above it; with too few blocks it is the slot before the first one.
\<close>

theorem confirmed_depth:
  assumes "0 \<le> getFirstBlockId db" and "0 \<le> getLatestBlockId db" and "0 < n"
  shows "confirmedStopBlock E db n = getFirstBlockId db - 1 \<and> int (length (connected_blocks E db)) \<le> n \<or>
    (\<exists>below b above. connected_blocks E db = below @ b # above \<and> int (length above) = n \<and> confirmedStopBlock E db n = b_number b)"
proof (cases "int (length (connected_blocks E db)) \<le> n")
  case True
  with assms show ?thesis by (simp add: confirmedStopBlock_def connected_blocks_def Let_def)
next
  case False
  define i where "i = nat (int (length (connected_blocks E db)) - n - 1)"
  have i: "i < length (connected_blocks E db)" "int i = int (length (connected_blocks E db)) - n - 1" using False assms(3) by (auto simp: i_def)
  then have "(connected_blocks E db) = take i (connected_blocks E db) @ (connected_blocks E db) ! i # drop (Suc i) (connected_blocks E db)" by (simp add: id_take_nth_drop)
  moreover have "int (length (drop (Suc i) (connected_blocks E db))) = n" using i by simp
  moreover have "confirmedStopBlock E db n = b_number ((connected_blocks E db) ! i)"
    using assms False i(1) by (simp add: confirmedStopBlock_def connected_blocks_def Let_def i_def)
  ultimately show ?thesis by blast
qed

end
