(* ===== verification/IndexWalk.thy ===== *)
theory IndexWalk
  imports IndexFacts LedgerFacts
begin

text \<open>
  The index of the accepted chain is faithful: after the entries of a chain have been
  written, looking up a number of the chain gives its block, the successor of a block is the
  next block of the chain, and the walk from the first to the latest block is the chain.
\<close>

section \<open>Indexed chains\<close>

text \<open>A block the database can hold without loss.\<close>

definition storable :: "env \<Rightarrow> block_structure \<Rightarrow> bool" where
  "storable E b \<longleftrightarrow> printable_block E b \<and> 0 < b_number b \<and> b_hash b \<noteq> []"

text \<open>The entries of one block, given the blocks that follow it.\<close>

definition entry :: "env \<Rightarrow> dbh \<Rightarrow> block_structure \<Rightarrow> block_structure list \<Rightarrow> bool" where
  "entry E db b following \<longleftrightarrow>
     db_str db (canonicalHashKey (b_number b)) = b_hash b \<and> stored db (b_hash b) = blockJSON E b \<and>
     (following \<noteq> [] \<longrightarrow> db_str db (nextHashKey (b_hash b)) = b_hash (hd following))"

fun indexed :: "env \<Rightarrow> dbh \<Rightarrow> block_structure list \<Rightarrow> bool" where
  "indexed E db [] \<longleftrightarrow> True"
| "indexed E db (b # bs) \<longleftrightarrow> entry E db b bs \<and> indexed E db bs"

fun connected :: "block_structure list \<Rightarrow> bool" where
  "connected (b # c # bs) \<longleftrightarrow> childConnectsToParent c b \<and> connected (c # bs)"
| "connected _ \<longleftrightarrow> True"

lemma entry_open: "entry E db b bs \<Longrightarrow> db \<noteq> None"
  by (cases db) (simp_all add: entry_def stored_def db_str_def)

lemma entry_block: "entry E db b bs \<Longrightarrow> storable E b \<Longrightarrow> getBlock E db (b_number b) = b"
  using entry_open [of E db b bs] getBlockByHash_stored [of db b E]
  by (auto simp: entry_def storable_def getBlock_def db_str_def Let_def)

lemma entry_next:
  assumes "entry E db b (c # bs)" and "storable E b" and "entry E db c bs'" and "storable E c" and "childConnectsToParent c b"
  shows "getNextBlock E db b = c"
proof -
  have "getBlockByHash E db (b_hash c) = c"
    using entry_open [OF assms(3)] assms(3,4) by (intro getBlockByHash_stored) (auto simp: entry_def storable_def)
  then have "getNextBlockByHash E db b = c"
    using assms by (auto simp: getNextBlockByHash_def entry_def storable_def Let_def)
  then show ?thesis using assms(4) by (simp add: getNextBlock_def storable_def)
qed

lemma walk_indexed:
  assumes "indexed E db (b # bs)" and "\<forall>c \<in> set (b # bs). storable E c" and "connected (b # bs)"
    and "distinct (map b_number (b # bs))" and "guard + int (length bs) < 100000"
  shows "walk_chain (getNextBlock E db) (\<lambda>n. False) (b_number (last (b # bs))) guard b = b # bs"
  using assms
proof (induction bs arbitrary: b guard)
  case Nil
  then show ?case by (subst walk_chain.simps) (simp add: storable_def)
next
  case (Cons c bs)
  have nx: "getNextBlock E db b = c" using Cons.prems(1-3) by (auto intro!: entry_next)
  have pos: "0 < b_number b" "0 < b_number c" using Cons.prems(2) by (auto simp: storable_def)
  have "b_number (last (c # bs)) \<in> b_number ` set (c # bs)" using last_in_set [of "c # bs"] by blast
  then have "b_number b \<noteq> b_number (last (c # bs))" "b_number c \<noteq> b_number b" using Cons.prems(4) by auto
  moreover have "walk_chain (getNextBlock E db) (\<lambda>n. False) (b_number (last (c # bs))) (guard + 1) c = c # bs"
    using Cons.prems by (intro Cons.IH) auto
  moreover have "guard < 100000" using Cons.prems(5) by simp
  ultimately show ?case using pos nx by (subst walk_chain.simps) (simp add: Let_def)
qed

section \<open>Writing the entries\<close>

lemma entry_put:
  assumes "entry E db b bs" and "k \<noteq> canonicalHashKey (b_number b)" and "k \<noteq> blockHashKey (b_hash b)"
    and "k \<noteq> nextHashKey (b_hash b)"
  shows "entry E (db_put k v db) b bs"
  using assms by (simp add: entry_def stored_def)

lemma indexed_put:
  assumes "indexed E db bs" and "\<And>n. k \<noteq> canonicalHashKey n" and "\<And>h. k \<noteq> blockHashKey h" and "\<And>h. k \<noteq> nextHashKey h"
  shows "indexed E (db_put k v db) bs"
  using assms(1)
proof (induction bs)
  case (Cons b bs)
  then show ?case using entry_put assms(2-4) by (simp add: entry_put)
qed simp

lemma key_injs [simp]:
  "canonicalHashKey m = canonicalHashKey n \<longleftrightarrow> m = n" "nextHashKey g = nextHashKey h \<longleftrightarrow> g = h"
  "nextBlockKey m = nextBlockKey n \<longleftrightarrow> m = n" "legacyBlockKey m = legacyBlockKey n \<longleftrightarrow> m = n"
  using show_long_inj by (auto simp: key_defs)

lemma index_key_neq [simp]:
  "canonicalHashKey n \<noteq> nextHashKey h" "canonicalHashKey n \<noteq> legacyBlockKey m" "canonicalHashKey n \<noteq> nextBlockKey m"
  "nextHashKey h \<noteq> legacyBlockKey m" "nextHashKey h \<noteq> nextBlockKey m" "legacyBlockKey m \<noteq> nextBlockKey n"
  "canonicalHashKey n \<noteq> chainMetaKey x" "nextHashKey h \<noteq> chainMetaKey x" "canonicalHashKey n \<noteq> reorgMetaKey x"
  "nextHashKey h \<noteq> reorgMetaKey x" "canonicalHashKey n \<noteq> ''latest_block_id''" "nextHashKey h \<noteq> ''latest_block_id''"
  by (simp_all add: key_defs)

lemmas index_key_neq_sym [simp] = index_key_neq [symmetric]

lemma entry_index_block: "db \<noteq> None \<Longrightarrow> entry E (index_block E b bs db) b bs"
  by (auto simp: entry_def index_block_def Let_def stored_def split: list.splits)

lemma entry_index_other:
  assumes "entry E db c cs" and "b_number b \<noteq> b_number c" and "b_hash b \<noteq> b_hash c"
  shows "entry E (index_block E b bs db) c cs"
  using assms by (auto simp: index_block_def Let_def split: list.splits intro!: entry_put)

lemma entry_index_chain:
  assumes "entry E db c cs" and "\<forall>b \<in> set bs. b_number b \<noteq> b_number c \<and> b_hash b \<noteq> b_hash c"
  shows "entry E (index_chain E bs db) c cs"
  using assms by (induction bs arbitrary: db) (auto intro: entry_index_other)

lemma index_block_open [simp]: "index_block E b bs db = None \<longleftrightarrow> db = None"
  by (auto simp: index_block_def Let_def split: list.splits)

lemma index_chain_open [simp]: "index_chain E bs db = None \<longleftrightarrow> db = None"
  by (induction bs arbitrary: db) auto

lemma indexed_index_chain:
  assumes "db \<noteq> None" and "distinct (map b_number bs)" and "distinct (map b_hash bs)"
  shows "indexed E (index_chain E bs db) bs"
  using assms
proof (induction bs arbitrary: db)
  case (Cons b bs)
  have "entry E (index_chain E bs (index_block E b bs db)) b bs"
    using Cons.prems by (intro entry_index_chain entry_index_block) (auto, (metis imageI)+)
  moreover have "indexed E (index_chain E bs (index_block E b bs db)) bs"
    using Cons.prems by (intro Cons.IH) (auto simp del: not_None_eq)
  ultimately show ?case by simp
qed simp

section \<open>The rest of a rebuild\<close>

lemma indexed_latest: "indexed E db bs \<Longrightarrow> indexed E (setLatestBlockId E' n db) bs"
  by (auto simp: setLatestBlockId_def Let_def intro!: indexed_put)

lemma indexed_checkpoint: "indexed E db bs \<Longrightarrow> indexed E (maybeAdvanceValidatedCheckpoint E' tip db) bs"
  by (auto simp: maybeAdvanceValidatedCheckpoint_def Let_def intro!: indexed_put split: option.splits)

lemma indexed_reorg: "indexed E db bs \<Longrightarrow> indexed E (note_reorg E' reason p t db) bs"
  by (auto simp: note_reorg_def intro!: indexed_put)

text \<open>The numbers of the first and the latest block, as the database has them.\<close>

definition meta_id :: "string \<Rightarrow> string \<Rightarrow> dbh \<Rightarrow> string" where
  "meta_id name legacy db = (let t = db_str db (chainMetaKey name) in if t = [] then db_str db legacy else t)"

lemma read_id_meta: "read_id db (chainMetaKey name) legacy =
    (case parseLongValue (meta_id name legacy db) of None \<Rightarrow> -1 | Some v \<Rightarrow> v)"
  by (cases db) (auto simp: read_id_def meta_id_def db_str_def Let_def parseLongValue_def)

lemma meta_put: "k \<noteq> chainMetaKey name \<Longrightarrow> k \<noteq> legacy \<Longrightarrow> meta_id name legacy (db_put k v db) = meta_id name legacy db"
  by (simp add: meta_id_def Let_def)

lemma show_long_nonempty [simp]: "show_long n \<noteq> []"
  by (simp add: show_long_def)

lemma getLatestBlockId_set: "db \<noteq> None \<Longrightarrow> in_long n \<Longrightarrow> getLatestBlockId (setLatestBlockId E n db) = n"
  by (simp add: getLatestBlockId_def read_id_meta setLatestBlockId_def Let_def meta_put)
     (auto simp: meta_id_def key_defs)

lemma first_put: "k \<noteq> chainMetaKey ''first_block'' \<Longrightarrow> k \<noteq> ''first_block_id'' \<Longrightarrow> getFirstBlockId (db_put k v db) = getFirstBlockId db"
  by (simp add: getFirstBlockId_def read_id_meta meta_put)

lemma latest_put: "k \<noteq> chainMetaKey ''latest_block'' \<Longrightarrow> k \<noteq> ''latest_block_id'' \<Longrightarrow> getLatestBlockId (db_put k v db) = getLatestBlockId db"
  by (simp add: getLatestBlockId_def read_id_meta meta_put)

lemma first_set_latest: "getFirstBlockId (setLatestBlockId E n db) = getFirstBlockId db"
  by (auto simp: setLatestBlockId_def Let_def first_put key_defs)

lemma ids_checkpoint:
  "getFirstBlockId (maybeAdvanceValidatedCheckpoint E tip db) = getFirstBlockId db"
  "getLatestBlockId (maybeAdvanceValidatedCheckpoint E tip db) = getLatestBlockId db"
  by (simp_all add: maybeAdvanceValidatedCheckpoint_def Let_def first_put latest_put key_defs split: option.splits)

lemma ids_reorg:
  "getFirstBlockId (note_reorg E reason p t db) = getFirstBlockId db"
  "getLatestBlockId (note_reorg E reason p t db) = getLatestBlockId db"
  by (simp_all add: note_reorg_def first_put latest_put key_defs)

lemma ids_index_block: "getFirstBlockId (index_block E b bs db) = getFirstBlockId db"
  by (simp add: index_block_def Let_def first_put latest_put key_defs split: list.splits)

lemma ids_index_chain: "getFirstBlockId (index_chain E bs db) = getFirstBlockId db"
  by (induction bs arbitrary: db) (simp_all add: ids_index_block)

lemma ids_clear: "getFirstBlockId (clear_next_keys db) = getFirstBlockId db"
proof -
  have "sm_get (fold sm_del (filter is_next_key ks) d) k = sm_get d k" if "\<not> is_next_key k" for ks k and d :: kvdb
    using that by (simp add: ldb.get_fold_del)
  then have "db_str (clear_next_keys db) k = db_str db k" if "\<not> is_next_key k" for k
    using that by (cases db) (simp_all add: clear_next_keys_def db_str_def db_text_def)
  moreover have "\<not> is_next_key (chainMetaKey ''first_block'')" "\<not> is_next_key ''first_block_id''"
    by (simp_all add: is_next_key_def key_defs starts_with_def)
  ultimately show ?thesis by (simp add: getFirstBlockId_def read_id_meta meta_id_def Let_def)
qed

lemma latest_index_write:
  assumes "db \<noteq> None" and "in_long n"
  shows "getLatestBlockId (maybeAdvanceValidatedCheckpoint E t (db_put (chainMetaKey ''connected_latest'') v (setLatestBlockId E n db))) = n"
  using assms by (simp add: ids_checkpoint latest_put key_defs) (simp add: getLatestBlockId_set)

lemma linked_connected:
  assumes "linked chain" and "\<forall>b \<in> set chain. storable E b"
  shows "connected chain"
  using assms
  by (induction chain rule: connected.induct)
     (auto simp: linked_def childConnectsToParent_def storable_def)

text \<open>An accepted chain of printable blocks can be stored without loss, and its rebuilt index has all its entries.\<close>

lemma valid_storable:
  assumes "validateConnectedChain E chain = Inr ()" and "\<forall>b \<in> set chain. printable_block E b"
  shows "\<forall>b \<in> set chain. storable E b" and "connected chain" and "distinct (map b_number chain)"
proof -
  obtain s where run: "branch_run E chain s" using valid_run [OF assms(1)] by blast
  show st: "\<forall>b \<in> set chain. storable E b" using run_authentic [OF run] assms(2) by (simp add: storable_def)
  have "sorted_wrt (<) (map b_number chain)" using run_linked [OF run] linked_sorted by blast
  then show "distinct (map b_number chain)" using strict_sorted_iff by blast
  show "connected chain" using run_linked [OF run] st by (rule linked_connected)
qed

lemma rebuild_write_indexed:
  assumes "db \<noteq> None" and "distinct (map b_number chain)" and "distinct (map b_hash chain)"
  shows "indexed E (rebuild_write E previousTip chain db) chain"
proof -
  have "indexed E (index_chain E chain (clear_next_keys db)) chain"
    using assms by (intro indexed_index_chain) (auto simp: clear_next_keys_def)
  then show ?thesis
    by (simp add: rebuild_write_def Let_def indexed_reorg indexed_checkpoint indexed_put indexed_latest)
qed

text \<open>
  C16. The index is faithful: after the index of an accepted chain of printable blocks with
  distinct hashes has been rebuilt, the walk from the first to the latest block of the
  database visits exactly the blocks of that chain, in order.
\<close>

theorem rebuild_write_walk:
  assumes "validateConnectedChain E chain = Inr ()" and "\<forall>b \<in> set chain. printable_block E b"
    and "distinct (map b_hash chain)" and "length chain \<le> 100000"
    and "db \<noteq> None" and "getFirstBlockId db = b_number (hd chain)"
  shows "connected_blocks E (rebuild_write E previousTip chain db) = chain"
proof -
  have ne: "chain \<noteq> []" using assms(1) by (auto simp: validateConnectedChain_def)
  then obtain b bs where chain: "chain = b # bs" by (cases chain) auto
  note st = valid_storable [OF assms(1,2)]
  define db1 where "db1 = index_chain E chain (clear_next_keys db)"
  have db1: "db1 \<noteq> None" using assms(5) by (simp add: db1_def clear_next_keys_def)
  note ix = rebuild_write_indexed [OF assms(5) st(3) assms(3), of E previousTip]
  have "in_long (b_number (last chain))" using assms(2) ne by (simp add: printable_block_def plain_block_def)
  then have lat: "getLatestBlockId (rebuild_write E previousTip chain db) = b_number (last chain)"
    using db1 by (simp add: rebuild_write_def Let_def db1_def [symmetric] ids_reorg latest_index_write)
  have "getFirstBlockId (rebuild_write E previousTip chain db) = b_number b"
    using assms(6) by (simp add: rebuild_write_def Let_def ids_reorg ids_checkpoint first_put key_defs first_set_latest
        ids_index_chain ids_index_block ids_clear chain)
  moreover have "getBlock E (rebuild_write E previousTip chain db) (b_number b) = b"
    using ix st(1) by (auto simp: chain intro: entry_block)
  ultimately show ?thesis
    using walk_indexed [of E "rebuild_write E previousTip chain db" b bs 0] ix st assms(4) lat
    by (simp add: connected_blocks_def chain)
qed

end
