(* ===== verification/BestChain.thy ===== *)
theory BestChain
  imports IndexWalk
begin

text \<open>
  The choice of the best chain in \<open>rebuildBestChainIndex\<close>: the table of lengths that is filled
  from the highest numbers down holds, for every stored block, the length of the longest
  chain of stored blocks that starts there, and following the best children from the best
  genesis block gives a longest chain.
\<close>

section \<open>Stored blocks and paths\<close>

definition well_stored :: "block_structure list \<Rightarrow> bool" where
  "well_stored bs \<longleftrightarrow> distinct (map b_hash bs) \<and> (\<forall>b \<in> set bs. 0 < b_number b \<and> b_hash b \<noteq> [])"

definition path :: "block_structure list \<Rightarrow> block_structure list \<Rightarrow> bool" where
  "path bs p \<longleftrightarrow> p \<noteq> [] \<and> set p \<subseteq> set bs \<and> connected p"

lemma path_Cons:
  "path bs (b # p) \<longleftrightarrow> b \<in> set bs \<and> (p = [] \<or> path bs p \<and> childConnectsToParent (hd p) b)"
  by (cases p) (auto simp: path_def)

lemma same_hash: "well_stored bs \<Longrightarrow> b \<in> set bs \<Longrightarrow> c \<in> set bs \<Longrightarrow> b_hash b = b_hash c \<Longrightarrow> b = c"
  by (auto simp: well_stored_def distinct_map dest: inj_onD)

lemma child_number: "childConnectsToParent c b \<Longrightarrow> b_number b < b_number c"
  by (auto simp: childConnectsToParent_def split: if_splits)

lemma child_hash: "childConnectsToParent c b \<Longrightarrow> b_previous_hash c = b_hash b \<and> b_hash b \<noteq> []"
  by (auto simp: childConnectsToParent_def split: if_splits)

lemma add_stored_hashes:
  "distinct (map b_hash bs) \<Longrightarrow> distinct (map b_hash (foldl add_stored bs xs))"
  by (induction xs arbitrary: bs) (auto simp: add_stored_def)

lemma add_stored_set: "set (foldl add_stored bs xs) \<subseteq> set bs \<union> {x \<in> set xs. 0 < b_number x}"
proof (induction xs arbitrary: bs)
  case (Cons x xs)
  have "set (add_stored bs x) \<subseteq> set bs \<union> (if 0 < b_number x then {x} else {})" by (auto simp: add_stored_def)
  with Cons [of "add_stored bs x"] show ?case by (auto split: if_splits)
qed simp

lemma parsed_hash: "b \<in> set (parseBlockJson E s) \<Longrightarrow> b_hash b \<noteq> []"
  by (auto simp: parseBlockJson_def)

lemma getStoredBlocks_well: "well_stored (getStoredBlocks E db)"
proof (cases db)
  case None
  then show ?thesis by (simp add: getStoredBlocks_def well_stored_def)
next
  case (Some d)
  let ?f = "\<lambda>blocks (k, v). if is_block_key k then foldl add_stored blocks (parseBlockJson E v) else blocks"
  have "well_stored (foldl ?f bs d)" if "well_stored bs" for bs d
    using that
  proof (induction d arbitrary: bs)
    case (Cons e d)
    obtain k v where e: "e = (k, v)" by fastforce
    have "well_stored (foldl add_stored bs (parseBlockJson E v))"
      using Cons.prems add_stored_hashes [of bs "parseBlockJson E v"] add_stored_set [of bs "parseBlockJson E v"]
        parsed_hash unfolding well_stored_def by fast
    then show ?case using Cons by (simp add: e)
  qed simp
  moreover have "well_stored []" by (simp add: well_stored_def)
  ultimately show ?thesis using Some by (simp add: getStoredBlocks_def)
qed

section \<open>The tables of blocks and children\<close>

lemma block_by_hash_get:
  assumes "well_stored bs"
  shows "sm_get (block_by_hash bs) h = Some b \<longleftrightarrow> b \<in> set bs \<and> b_hash b = h"
proof -
  have "well_stored bs \<Longrightarrow> sm_get (block_by_hash bs) h = Some b \<longleftrightarrow> b \<in> set bs \<and> b_hash b = h" for b
  proof (induction bs rule: rev_induct)
    case Nil
    then show ?case by (simp add: block_by_hash_def smap_simps)
  next
    case (snoc x bs)
    have w: "well_stored bs" "b_hash x \<noteq> []" "b_hash x \<notin> b_hash ` set bs" using snoc.prems by (auto simp: well_stored_def)
    show ?case using snoc.IH [OF w(1)] w(2,3) by (auto simp: block_by_hash_def smap_simps) (metis imageI)
  qed
  then show ?thesis using assms .
qed

lemma add_child_set:
  "set (sm_at [] (foldl (add_child m) t xs) h) =
   set (sm_at [] t h) \<union> {c \<in> set xs. b_hash c \<noteq> [] \<and> h \<noteq> [] \<and> b_previous_hash c = h \<and>
     (\<exists>p. sm_get m h = Some p \<and> childConnectsToParent c p)}"
proof (induction xs arbitrary: t)
  case (Cons x xs)
  have "set (sm_at [] (add_child m t x) h) = set (sm_at [] t h) \<union> (if b_hash x \<noteq> [] \<and> h \<noteq> [] \<and> b_previous_hash x = h \<and>
     (\<exists>p. sm_get m h = Some p \<and> childConnectsToParent x p) then {x} else {})"
    by (auto simp: add_child_def smap_simps split: option.splits)
  with Cons show ?case by (auto split: if_splits)
qed simp

lemma children_set:
  assumes "well_stored bs" and "b \<in> set bs"
  shows "set (sm_at [] (children_by_parent bs) (b_hash b)) = {c \<in> set bs. childConnectsToParent c b}"
proof -
  have "sm_get (block_by_hash bs) (b_hash b) = Some p \<longleftrightarrow> p = b" for p
    using block_by_hash_get [OF assms(1)] assms same_hash by blast
  then show ?thesis
    using assms child_hash by (auto simp: children_by_parent_def add_child_set smap_simps well_stored_def)
qed

section \<open>Choosing by length\<close>

definition chain_len :: "(string, int) smap \<Rightarrow> block_structure \<Rightarrow> int" where
  "chain_len len b = sm_at 1 len (b_hash b)"

lemma prefer_len: "0 < b_number cur \<Longrightarrow> preferChainChild c cur len tip \<Longrightarrow> chain_len len cur \<le> chain_len len c"
  by (auto simp: preferChainChild_def chain_len_def Let_def split: if_splits)

lemma not_prefer_len: "\<not> preferChainChild c cur len tip \<Longrightarrow> chain_len len c \<le> chain_len len cur"
  by (auto simp: preferChainChild_def chain_len_def Let_def split: if_splits)

lemma not_prefer_positive: "\<not> preferChainChild c cur len tip \<Longrightarrow> 0 < b_number cur"
  by (auto simp: preferChainChild_def split: if_splits)

definition pick :: "(block_structure \<Rightarrow> bool) \<Rightarrow> (string, int) smap \<Rightarrow> (string, int) smap \<Rightarrow> block_structure list \<Rightarrow> block_structure" where
  "pick skip len tip cs = foldl (\<lambda>best c. if skip c then best else if preferChainChild c best len tip then c else best) no_block cs"

lemma pick_best:
  assumes "\<forall>c \<in> set cs. 0 < b_number c"
  shows "(list_all skip cs \<and> pick skip len tip cs = no_block) \<or>
    (pick skip len tip cs \<in> set cs \<and> \<not> skip (pick skip len tip cs) \<and>
     (\<forall>c \<in> set cs. skip c \<or> chain_len len c \<le> chain_len len (pick skip len tip cs)))"
  using assms
proof (induction cs rule: rev_induct)
  case Nil
  then show ?case by (simp add: pick_def)
next
  case (snoc c cs)
  let ?r = "pick skip len tip cs"
  have step: "pick skip len tip (cs @ [c]) = (if skip c then ?r else if preferChainChild c ?r len tip then c else ?r)"
    by (simp add: pick_def)
  consider (none) "list_all skip cs" "?r = no_block"
    | (some) "?r \<in> set cs" "\<not> skip ?r" "\<forall>c \<in> set cs. skip c \<or> chain_len len c \<le> chain_len len ?r" using snoc by auto
  then show ?case
  proof cases
    case none
    moreover have "preferChainChild c no_block len tip" by (simp add: preferChainChild_def no_block_def)
    ultimately show ?thesis by (auto simp: step list_all_iff)
  next
    case some
    then have "0 < b_number ?r" using snoc.prems by simp
    then show ?thesis using some prefer_len [of ?r c len tip] not_prefer_len [of c ?r len tip] by (auto simp: step)
  qed
qed

lemma best_child_pick:
  "best_child t bi b =
   pick (\<lambda>c. b_hash c = [] \<or> b_hash c = b_hash b) (bi_length bi) (bi_tip bi) (by_number_down (sm_at [] t (b_hash b)))"
  by (simp add: best_child_def pick_def)

text \<open>The best child of a stored block: a child with the greatest length, if there is a child at all.\<close>

lemma best_child_max:
  fixes bs :: "block_structure list" and b :: block_structure and bi :: best_index
  assumes "well_stored bs" and "b \<in> set bs"
  defines "r \<equiv> best_child (children_by_parent bs) bi b"
  shows "(r = no_block \<and> (\<forall>c \<in> set bs. \<not> childConnectsToParent c b)) \<or>
    (r \<in> set bs \<and> childConnectsToParent r b \<and>
     (\<forall>c \<in> set bs. childConnectsToParent c b \<longrightarrow> chain_len (bi_length bi) c \<le> chain_len (bi_length bi) r))"
proof -
  let ?cs = "by_number_down (sm_at [] (children_by_parent bs) (b_hash b))"
  have cs: "set ?cs = {c \<in> set bs. childConnectsToParent c b}"
    using children_set [OF assms(1,2)] by (simp add: by_number_down_def)
  have "\<forall>c \<in> set ?cs. 0 < b_number c" using assms(1) by (simp add: cs well_stored_def)
  from pick_best [OF this, of "\<lambda>c. b_hash c = [] \<or> b_hash c = b_hash b" "bi_length bi" "bi_tip bi"]
  have p: "list_all (\<lambda>c. b_hash c = [] \<or> b_hash c = b_hash b) ?cs \<and> r = no_block \<or>
      (r \<in> set ?cs \<and> (\<forall>c \<in> set ?cs. (b_hash c = [] \<or> b_hash c = b_hash b) \<or> chain_len (bi_length bi) c \<le> chain_len (bi_length bi) r))"
    unfolding r_def best_child_pick by blast
  have "\<not> (b_hash c = [] \<or> b_hash c = b_hash b)" if "c \<in> set ?cs" for c
    using that assms(1,2) same_hash [of bs c b] child_number [of c b] by (auto simp: cs well_stored_def)
  then show ?thesis using p by (auto simp: cs list_all_iff)
qed

section \<open>The table of lengths\<close>

text \<open>
  What the loop has established for the blocks it has met: the length is that of a longest
  chain of stored blocks from there, and the best child is a child one shorter.
\<close>

definition table_ok :: "block_structure list \<Rightarrow> block_structure set \<Rightarrow> best_index \<Rightarrow> bool" where
  "table_ok bs met bi \<longleftrightarrow> (\<forall>h. sm_get (bi_child bi) h \<noteq> None \<longrightarrow> h \<in> b_hash ` met) \<and> (\<forall>b \<in> met. \<exists>n. sm_get (bi_length bi) (b_hash b) = Some n \<and> 1 \<le> n \<and>
     (\<forall>p. path bs (b # p) \<longrightarrow> int (length (b # p)) \<le> n) \<and>
     (case sm_get (bi_child bi) (b_hash b) of
        None \<Rightarrow> n = 1
      | Some h \<Rightarrow> \<exists>c \<in> met. b_hash c = h \<and> childConnectsToParent c b \<and> n = chain_len (bi_length bi) c + 1))"

lemma table_len: "table_ok bs met bi \<Longrightarrow> b \<in> met \<Longrightarrow> sm_get (bi_length bi) (b_hash b) = Some (chain_len (bi_length bi) b)"
  by (force simp: table_ok_def chain_len_def sm_at_def)

lemma table_path:
  "table_ok bs met bi \<Longrightarrow> b \<in> met \<Longrightarrow> path bs (b # p) \<Longrightarrow> int (length (b # p)) \<le> chain_len (bi_length bi) b"
  using table_len [of bs met bi b] by (force simp: table_ok_def)

lemma table_ok_insert:
  assumes ok: "table_ok bs met bi" and new: "b_hash b \<notin> b_hash ` met"
    and len: "1 \<le> n" "\<And>p. path bs (b # p) \<Longrightarrow> int (length (b # p)) \<le> n"
    and child: "case ch of None \<Rightarrow> n = 1
      | Some h \<Rightarrow> \<exists>c \<in> met. b_hash c = h \<and> childConnectsToParent c b \<and> n = chain_len (bi_length bi) c + 1"
  shows "table_ok bs (insert b met)
    \<lparr>bi_length = sm_put (b_hash b) n (bi_length bi), bi_tip = tips,
     bi_child = (case ch of None \<Rightarrow> bi_child bi | Some h \<Rightarrow> sm_put (b_hash b) h (bi_child bi))\<rparr>"
    (is "table_ok bs (insert b met) ?bi")
proof -
  have neq: "b_hash c \<noteq> b_hash b" if "c \<in> met" for c using that new by (metis imageI)
  have other: "sm_get (bi_length ?bi) (b_hash c) = sm_get (bi_length bi) (b_hash c)"
      "sm_get (bi_child ?bi) (b_hash c) = sm_get (bi_child bi) (b_hash c)"
      "chain_len (bi_length ?bi) c = chain_len (bi_length bi) c" if "c \<in> met" for c
    using neq [OF that] by (auto simp: chain_len_def sm_at_def smap_simps split: option.splits)
  have old: "sm_get (bi_child bi) (b_hash b) = None" using ok new by (auto simp: table_ok_def)
  have keys: "\<forall>h. sm_get (bi_child ?bi) h \<noteq> None \<longrightarrow> h \<in> b_hash ` insert b met"
    using ok by (auto simp: table_ok_def smap_simps split: option.splits)
  have here: "sm_get (bi_length ?bi) (b_hash b) = Some n" "sm_get (bi_child ?bi) (b_hash b) = ch"
    using old by (auto simp: smap_simps split: option.splits)
  have "case sm_get (bi_child ?bi) (b_hash b) of None \<Rightarrow> n = 1
      | Some h \<Rightarrow> \<exists>c \<in> insert b met. b_hash c = h \<and> childConnectsToParent c b \<and> n = chain_len (bi_length ?bi) c + 1"
    using child other unfolding here(2) by (cases ch) auto
  moreover have "\<exists>m. sm_get (bi_length ?bi) (b_hash c) = Some m \<and> 1 \<le> m \<and> (\<forall>p. path bs (c # p) \<longrightarrow> int (length (c # p)) \<le> m) \<and>
      (case sm_get (bi_child ?bi) (b_hash c) of None \<Rightarrow> m = 1
       | Some h \<Rightarrow> \<exists>d \<in> insert b met. b_hash d = h \<and> childConnectsToParent d c \<and> m = chain_len (bi_length ?bi) d + 1)"
    if c: "c \<in> met" for c
  proof -
    obtain m where "sm_get (bi_length bi) (b_hash c) = Some m" "1 \<le> m" "\<forall>p. path bs (c # p) \<longrightarrow> int (length (c # p)) \<le> m"
      "case sm_get (bi_child bi) (b_hash c) of None \<Rightarrow> m = 1
       | Some h \<Rightarrow> \<exists>d \<in> met. b_hash d = h \<and> childConnectsToParent d c \<and> m = chain_len (bi_length bi) d + 1"
      using ok c by (auto simp: table_ok_def)
    then show ?thesis using other c by (auto split: option.splits)
  qed
  ultimately show ?thesis using keys len here(1) unfolding table_ok_def by blast
qed

lemma table_step:
  assumes bs: "well_stored bs" "b \<in> set bs" and met: "met \<subseteq> set bs" "b \<notin> met" and ok: "table_ok bs met bi"
    and children: "\<And>c. c \<in> set bs \<Longrightarrow> childConnectsToParent c b \<Longrightarrow> c \<in> met"
  shows "table_ok bs (insert b met) (best_step (children_by_parent bs) bi b)"
proof -
  define r where "r = best_child (children_by_parent bs) bi b"
  have new: "b_hash b \<notin> b_hash ` met" using same_hash [OF bs(1) bs(2)] met by blast
  consider (none) "r = no_block" "\<forall>c \<in> set bs. \<not> childConnectsToParent c b"
    | (some) "r \<in> set bs" "childConnectsToParent r b"
        "\<forall>c \<in> set bs. childConnectsToParent c b \<longrightarrow> chain_len (bi_length bi) c \<le> chain_len (bi_length bi) r"
    using best_child_max [OF bs, of bi] unfolding r_def by blast
  then show ?thesis
  proof cases
    case none
    have "int (length (b # p)) \<le> 1" if "path bs (b # p)" for p
    proof (cases p)
      case (Cons c q)
      then have "c \<in> set bs" "childConnectsToParent c b" using that by (auto simp: path_def)
      then show ?thesis using none(2) by blast
    qed simp
    from table_ok_insert [OF ok new _ this, of None] show ?thesis
      using none(1) by (simp add: best_step_def r_def [symmetric] Let_def no_block_def)
  next
    case some
    then have rm: "r \<in> met" using children by blast
    have pos: "0 < b_number r" "b_hash r \<noteq> []" using some(1) bs(1) by (auto simp: well_stored_def)
    have n: "1 \<le> chain_len (bi_length bi) r" using ok rm table_len [OF ok rm] by (force simp: table_ok_def)
    have "int (length (b # p)) \<le> chain_len (bi_length bi) r + 1" if "path bs (b # p)" for p
    proof (cases p)
      case Nil
      then show ?thesis using n by simp
    next
      case (Cons c q)
      then have c: "c \<in> set bs" "childConnectsToParent c b" "path bs (c # q)" using that by (auto simp: path_def)
      then have "int (length (c # q)) \<le> chain_len (bi_length bi) c" using table_path [OF ok children] by blast
      then show ?thesis using some(3) c Cons by fastforce
    qed
    from table_ok_insert [OF ok new _ this, of "Some (b_hash r)"] show ?thesis
      using n pos some(2) rm by (simp add: best_step_def r_def [symmetric] Let_def table_len [OF ok rm]) blast
  qed
qed

lemma table_complete:
  assumes bs: "well_stored bs"
  shows "table_ok bs (set bs) (best_index_of bs)"
proof -
  define ord where "ord = by_number_down bs"
  let ?start = "\<lparr>bi_length = [], bi_tip = [], bi_child = []\<rparr>"
  have set_ord: "set ord = set bs" and dist: "distinct ord"
    using bs by (auto simp: ord_def by_number_down_def well_stored_def distinct_map)
  have srt: "sorted (map (\<lambda>b. (- b_number b, b_hash b)) ord)" by (simp add: ord_def by_number_down_def)
  have "table_ok bs (set ys) (foldl (best_step (children_by_parent bs)) ?start ys)" if "ord = ys @ rest" for ys rest
    using that
  proof (induction ys arbitrary: rest rule: rev_induct)
    case Nil
    then show ?case by (simp add: table_ok_def smap_simps)
  next
    case (snoc b xs)
    have "b \<in> set bs" "set xs \<subseteq> set bs" "b \<notin> set xs" using set_ord dist snoc.prems by auto
    moreover have "c \<in> set xs" if "c \<in> set bs" "childConnectsToParent c b" for c
    proof -
      have "c \<notin> set (b # rest)"
        using child_number [OF that(2)] srt by (auto simp: snoc.prems sorted_append)
      then show ?thesis using that(1) set_ord snoc.prems by auto
    qed
    ultimately show ?case using table_step [OF bs] snoc.IH [of "b # rest"] snoc.prems by simp
  qed
  from this [of ord "[]"] have "table_ok bs (set bs) (foldl (best_step (children_by_parent bs)) ?start ord)"
    by (simp add: set_ord)
  moreover have "filter (\<lambda>b. b_hash b \<noteq> []) bs = bs" using bs by (auto simp: well_stored_def filter_id_conv)
  ultimately show ?thesis by (simp add: best_index_of_def ord_def)
qed

section \<open>Following the best children\<close>

lemma best_chain_follow:
  assumes bs: "well_stored bs" and ok: "table_ok bs (set bs) bi" and m: "\<And>h c. sm_get m h = Some c \<longleftrightarrow> c \<in> set bs \<and> b_hash c = h"
  shows "b \<in> set bs \<Longrightarrow> set acc \<subseteq> set bs \<Longrightarrow> \<forall>x \<in> set acc. b_number x < b_number b \<Longrightarrow>
    int (length acc) < MAX_REBUILD_CHAIN_DEPTH \<Longrightarrow>
    \<exists>q. best_chain_from m (bi_child bi) acc b = acc @ b # q \<and> path bs (b # q) \<and>
      int (length (b # q)) = min (chain_len (bi_length bi) b) (MAX_REBUILD_CHAIN_DEPTH - int (length acc))"
proof (induction "nat (MAX_REBUILD_CHAIN_DEPTH - int (length acc))" arbitrary: acc b rule: less_induct)
  case less
  let ?n = "chain_len (bi_length bi) b"
  have b: "0 < b_number b" "b_hash b \<noteq> []" using bs less.prems(1) by (auto simp: well_stored_def)
  have "b_hash b \<notin> b_hash ` set acc" using same_hash [OF bs less.prems(1)] less.prems(2,3) by fastforce
  note unf = best_chain_from.simps [of m "bi_child bi" acc b]
  have n: "1 \<le> ?n" and ch: "case sm_get (bi_child bi) (b_hash b) of None \<Rightarrow> ?n = 1
      | Some h \<Rightarrow> \<exists>c \<in> set bs. b_hash c = h \<and> childConnectsToParent c b \<and> ?n = chain_len (bi_length bi) c + 1"
    using ok less.prems(1) table_len [OF ok less.prems(1)] by (force simp: table_ok_def)+
  have single: "path bs [b]" using less.prems(1) by (simp add: path_def)
  show ?case
  proof (cases "MAX_REBUILD_CHAIN_DEPTH \<le> int (length (acc @ [b])) \<or> sm_get (bi_child bi) (b_hash b) = None")
    case True
    then have "best_chain_from m (bi_child bi) acc b = acc @ [b]" using b \<open>b_hash b \<notin> b_hash ` set acc\<close> by (auto simp: unf Let_def)
    moreover have "min ?n (MAX_REBUILD_CHAIN_DEPTH - int (length acc)) = 1" using True less.prems(4) ch n by auto
    ultimately show ?thesis using single by (intro exI [of _ "[]"]) simp
  next
    case False
    then obtain c where c: "c \<in> set bs" "sm_get (bi_child bi) (b_hash b) = Some (b_hash c)" "childConnectsToParent c b"
      "?n = chain_len (bi_length bi) c + 1" using ch by auto
    have "best_chain_from m (bi_child bi) acc b = best_chain_from m (bi_child bi) (acc @ [b]) c"
      using b False c m [of "b_hash c" c] \<open>b_hash b \<notin> b_hash ` set acc\<close> by (simp add: unf Let_def)
    moreover obtain q where "best_chain_from m (bi_child bi) (acc @ [b]) c = (acc @ [b]) @ c # q" "path bs (c # q)"
      "int (length (c # q)) = min (chain_len (bi_length bi) c) (MAX_REBUILD_CHAIN_DEPTH - int (length (acc @ [b])))"
      using less.hyps [of "acc @ [b]" c] False less.prems c child_number [OF c(3)] by fastforce
    ultimately show ?thesis using c less.prems(1) by (intro exI [of _ "c # q"]) (simp add: path_Cons)
  qed
qed

text \<open>
  C17. The rebuilt index follows a longest chain: among the stored blocks, the candidate
  chain starts at a genesis block with the first number, every block of it is a stored child
  of the one before, and no chain of stored blocks from a genesis block is longer (unless
  the candidate has reached the limit of 20000 blocks).
\<close>

theorem candidate_longest:
  fixes E db first p
  defines "bs \<equiv> getStoredBlocks E db"
  assumes "path bs p" and "hd p \<in> set (genesis_candidates first bs)"
  shows "path bs (candidate_chain E db first bs) \<and> hd (candidate_chain E db first bs) \<in> set (genesis_candidates first bs) \<and>
    (length p \<le> length (candidate_chain E db first bs) \<or>
     int (length (candidate_chain E db first bs)) = MAX_REBUILD_CHAIN_DEPTH)"
proof -
  have bs: "well_stored bs" unfolding bs_def by (rule getStoredBlocks_well)
  let ?bi = "best_index_of bs" and ?gs = "genesis_candidates first bs"
  note ok = table_complete [OF bs]
  define g where "g = pick (\<lambda>c. False) (bi_length ?bi) (bi_tip ?bi) (by_number ?gs)"
  have gs: "set (by_number ?gs) = set ?gs" "set ?gs \<subseteq> set bs" "?gs \<noteq> []"
    using assms(3) by (auto simp: by_number_def genesis_candidates_def filter_empty_conv)
  then have "\<forall>c \<in> set (by_number ?gs). 0 < b_number c" using bs by (auto simp: well_stored_def)
  from pick_best [OF this, of "\<lambda>c. False" "bi_length ?bi" "bi_tip ?bi"] gs(1,3)
  have g: "g \<in> set ?gs" "\<forall>c \<in> set ?gs. chain_len (bi_length ?bi) c \<le> chain_len (bi_length ?bi) g"
    unfolding g_def [symmetric] by (auto simp: list_all_iff)
  have "candidate_chain E db first bs = best_chain_from (block_by_hash bs) (bi_child ?bi) [] g"
    using gs(3) by (simp add: candidate_chain_def Let_def g_def pick_def)
  moreover obtain q where "best_chain_from (block_by_hash bs) (bi_child ?bi) [] g = g # q" "path bs (g # q)"
      "int (length (g # q)) = min (chain_len (bi_length ?bi) g) MAX_REBUILD_CHAIN_DEPTH"
    using best_chain_follow [OF bs ok block_by_hash_get [OF bs], of g "[]"] g(1) gs(2) by (auto simp: MAX_REBUILD_CHAIN_DEPTH_def)
  moreover have "int (length p) \<le> chain_len (bi_length ?bi) (hd p)"
    using assms(2,3) gs(2) table_path [OF ok, of "hd p" "tl p"] by (auto simp: path_def)
  moreover have "chain_len (bi_length ?bi) (hd p) \<le> chain_len (bi_length ?bi) g" using g(2) assms(3) by blast
  ultimately show ?thesis using g(1) by auto
qed

section \<open>The longest valid prefix\<close>

lemma longest_valid_take: "\<exists>k \<le> length chain. longest_valid E chain = take k chain \<and>
    (k = 0 \<or> validateConnectedChain E (take k chain) = Inr ()) \<and>
    (\<forall>n. k < n \<and> n \<le> length chain \<longrightarrow> validateConnectedChain E (take n chain) \<noteq> Inr ())"
proof (induction chain rule: rev_induct)
  case Nil
  then show ?case by (simp add: longest_valid.simps)
next
  case (snoc b chain)
  show ?case
  proof (cases "validateConnectedChain E (chain @ [b]) = Inr ()")
    case True
    then show ?thesis by (intro exI [of _ "Suc (length chain)"]) (auto simp: longest_valid.simps [of E "chain @ [b]"])
  next
    case False
    obtain k where k: "k \<le> length chain" "longest_valid E chain = take k chain"
      "k = 0 \<or> validateConnectedChain E (take k chain) = Inr ()"
      "\<forall>n. k < n \<and> n \<le> length chain \<longrightarrow> validateConnectedChain E (take n chain) \<noteq> Inr ()" using snoc by blast
    have "validateConnectedChain E (take n (chain @ [b])) \<noteq> Inr ()" if "k < n" "n \<le> Suc (length chain)" for n
      using that k(4) False by (cases "n = Suc (length chain)") auto
    then show ?thesis using k False by (intro exI [of _ k]) (simp add: longest_valid.simps [of E "chain @ [b]"])
  qed
qed

text \<open>
  What is left of the candidate chain is its longest accepted prefix: it is a prefix, it is
  empty or accepted by \<open>validateConnectedChain\<close>, and every accepted prefix of the candidate
  is a prefix of it.
\<close>

theorem longest_valid_prefix:
  assumes "validateConnectedChain E (take n chain) = Inr ()"
  shows "(\<exists>k. longest_valid E chain = take k chain) \<and>
    validateConnectedChain E (longest_valid E chain) = Inr () \<and>
    take n chain = take n (longest_valid E chain)"
proof -
  obtain k where k: "k \<le> length chain" "longest_valid E chain = take k chain"
    "k = 0 \<or> validateConnectedChain E (take k chain) = Inr ()"
    "\<forall>n. k < n \<and> n \<le> length chain \<longrightarrow> validateConnectedChain E (take n chain) \<noteq> Inr ()"
    using longest_valid_take [of chain E] by blast
  have n: "take (min n (length chain)) chain = take n chain" by (cases "n \<le> length chain") auto
  then have le: "min n (length chain) \<le> k" using k(4) assms by (metis linorder_not_le min.cobounded2)
  have "validateConnectedChain E [] \<noteq> Inr ()" by (simp add: validateConnectedChain_def)
  then have "take n chain \<noteq> []" using assms by metis
  then have "0 < min n (length chain)" by (cases chain) auto
  then have "k \<noteq> 0" using le by linarith
  moreover have "take n chain = take n (take k chain)" using n le k(1) by (metis min.absorb1 min.cobounded1 min.commute min_def take_take)
  ultimately show ?thesis using k(2,3) by auto
qed

end
