(* ===== verification/StoreGrowth.thy ===== *)
theory StoreGrowth
  imports BestChain IndexWalk
begin

text \<open>
  How the writing operations of the block database change the store as a whole. An operation
  lets the store grow soundly where each entry under a block hash is as before or is the text
  of an authentic block with that hash, and where the number of the first block, once it is
  set, stays. Adding a block, rebuilding the index and adopting a stored chain do so; the
  download of blocks from peers is built from these three.
\<close>

definition sound_growth :: "env \<Rightarrow> dbh \<Rightarrow> dbh \<Rightarrow> bool" where
  "sound_growth E db db' \<longleftrightarrow>
     (\<forall>h. stored db' h = stored db h \<or> (\<exists>b. b_hash b = h \<and> authentic_block E b \<and> stored db' h = blockJSON E b)) \<and>
     (getFirstBlockId db \<noteq> -1 \<longrightarrow> getFirstBlockId db' = getFirstBlockId db)"

lemma growth_refl: "sound_growth E db db"
  by (simp add: sound_growth_def)

lemma growth_same: "stored db' = stored db \<Longrightarrow> getFirstBlockId db' = getFirstBlockId db \<Longrightarrow> sound_growth E db db'"
  by (simp add: sound_growth_def)

lemma growth_trans: "sound_growth E a b \<Longrightarrow> sound_growth E b c \<Longrightarrow> sound_growth E a c"
  unfolding sound_growth_def by metis

section \<open>Adding a block\<close>

lemma first_highest: "getFirstBlockId (maybeUpdateHighestStoredBlock n db) = getFirstBlockId db"
  by (auto simp: maybeUpdateHighestStoredBlock_def writeLongKey_def first_put key_defs split: option.splits)

lemma first_fork_variant: "add_fork_variant E b db = Some db' \<Longrightarrow> getFirstBlockId db' = getFirstBlockId db"
  by (auto simp: add_fork_variant_def Let_def first_put key_defs split: option.splits if_splits)

lemma first_next_index: "getFirstBlockId (add_next_index E b db) = getFirstBlockId db"
  by (simp add: add_next_index_def Let_def first_put key_defs)

lemma first_advance_tip: "getFirstBlockId (add_advance_tip E b db) = getFirstBlockId db"
  by (simp add: add_advance_tip_def Let_def first_set_latest ids_checkpoint)

lemmas first_simps = first_put first_highest first_next_index first_advance_tip first_set_latest ids_checkpoint(1)
  ids_reorg(1) ids_index_chain ids_clear

lemma first_add_store:
  assumes "add_store E b db = (r, db')"
  shows "getFirstBlockId db' = getFirstBlockId db"
proof -
  let ?db1 = "db_put (forkBlockKey b) (b_hash b) (db_put (blockHashKey (b_hash b)) (blockJSON E b) db)"
  define db2 where "db2 = maybeUpdateHighestStoredBlock (b_number b) ?db1"
  define w where "w = (b_number (getBlock E db2 (b_number b)) \<le> 0 \<or> preferBlockVariant b (getBlock E db2 (b_number b)))"
  define db3 where "db3 = (if w then db_put (legacyBlockKey (b_number b)) (blockJSON E b)
                       (db_put (canonicalHashKey (b_number b)) (b_hash b) db2) else db2)"
  have "getFirstBlockId db3 = getFirstBlockId db"
    by (simp add: db3_def db2_def first_simps key_defs)
  moreover have "getFirstBlockId db' = getFirstBlockId db3"
    using assms unfolding add_store_def Let_def db2_def [symmetric] w_def [symmetric] db3_def [symmetric]
    by (auto simp: first_simps split: option.splits if_splits dest: first_fork_variant)
  ultimately show ?thesis by simp
qed

lemma growth_add:
  assumes "AddBlock E u b (db, cs) = (r, db', cs')"
  shows "sound_growth E db db'"
  using assms
proof (cases rule: AddBlock_cases)
  case added
  then show ?thesis
    using stored_add_store [OF added(5) added(1)] first_add_store [OF added(5)] storage_authentic(1) [OF added(4)]
    by (auto simp: sound_growth_def)
qed (simp_all add: growth_refl)

lemma stored_first [simp]: "stored (setFirstBlockId n db) = stored db"
  by (simp add: setFirstBlockId_def stored_put key_defs)

lemma growth_first: "getFirstBlockId db = -1 \<Longrightarrow> sound_growth E db (setFirstBlockId n db)"
  by (simp add: sound_growth_def)

section \<open>Writing an index\<close>

lemma stored_clear: "stored (clear_next_keys db) = stored db"
proof -
  have "sm_get (fold sm_del (filter is_next_key ks) d) (blockHashKey h) = sm_get d (blockHashKey h)" for ks h and d :: kvdb
  proof -
    have "\<not> is_next_key (blockHashKey h)" by (simp add: is_next_key_def key_defs starts_with_def)
    then show ?thesis by (simp add: ldb.get_fold_del)
  qed
  then show ?thesis
    by (cases db) (simp_all add: clear_next_keys_def stored_def db_str_def db_text_def fun_eq_iff)
qed

lemma stored_reorg: "stored (note_reorg E reason p t db) = stored db"
  by (simp add: note_reorg_def stored_put key_defs)

lemma growth_index_block:
  assumes "authentic_block E b"
  shows "sound_growth E db (index_block E b bs db)"
proof (cases "db = None")
  case True
  then show ?thesis by (simp add: index_block_def Let_def db_put_def growth_refl split: list.splits)
next
  case False
  then have "stored (index_block E b bs db) = (stored db)(b_hash b := blockJSON E b)"
    by (simp add: index_block_def Let_def stored_put stored_put_block split: list.splits)
  then show ?thesis using assms by (auto simp: sound_growth_def ids_index_block)
qed

lemma growth_index_chain: "\<forall>b \<in> set bs. authentic_block E b \<Longrightarrow> sound_growth E db (index_chain E bs db)"
proof (induction bs arbitrary: db)
  case (Cons b bs)
  then show ?case using growth_trans growth_index_block by fastforce
qed (simp add: growth_refl)

text \<open>What follows the writing of the index leaves the store and the first block alone.\<close>

definition tip_written :: "env \<Rightarrow> string \<Rightarrow> bool \<Rightarrow> block_structure \<Rightarrow> block_structure \<Rightarrow> dbh \<Rightarrow> dbh" where
  "tip_written E reason reorg previousTip newTip db =
     (let db = setLatestBlockId E (b_number newTip) db;
          db = db_put (chainMetaKey ''connected_latest'') (show_long (b_number newTip)) db;
          db = maybeAdvanceValidatedCheckpoint E newTip db
      in if reorg then note_reorg E reason previousTip newTip db else db)"

lemma growth_tip: "sound_growth E db (tip_written E' reason reorg p t db)"
proof (rule growth_same)
  show "stored (tip_written E' reason reorg p t db) = stored db"
    by (simp add: tip_written_def Let_def stored_put stored_reorg)
  show "getFirstBlockId (tip_written E' reason reorg p t db) = getFirstBlockId db"
    by (simp add: tip_written_def Let_def first_simps key_defs)
qed

lemma growth_rebuild_write:
  assumes "validateConnectedChain E chain = Inr ()"
  shows "sound_growth E db (rebuild_write E p chain db)"
proof -
  have auth: "\<forall>b \<in> set chain. authentic_block E b"
    using valid_run [OF assms] run_authentic by blast
  have written: "sound_growth E db (index_chain E chain (clear_next_keys db))"
    by (rule growth_trans [OF growth_same growth_index_chain [OF auth]]) (simp_all add: stored_clear ids_clear)
  have "\<exists>reorg. rebuild_write E p chain db =
      tip_written E ''best chain index rebuilt'' reorg p (last chain) (index_chain E chain (clear_next_keys db))"
    unfolding rebuild_write_def tip_written_def Let_def by meson
  then show ?thesis by (auto intro: growth_trans [OF written growth_tip])
qed

lemma growth_highest: "highestStoredBlock E db = (n, db') \<Longrightarrow> sound_growth E' db db'"
  by (rule growth_same) (auto simp: highestStoredBlock_def Let_def writeLongKey_def stored_put first_put key_defs
      split: option.splits if_splits)

lemma growth_fast: "tryValidatedCheckpointFastPath E db = (r, db') \<Longrightarrow> sound_growth E' db db'"
proof -
  assume f: "tryValidatedCheckpointFastPath E db = (r, db')"
  have "\<exists>n db1. highestStoredBlock E db = (n, db1)" by (metis surj_pair)
  then obtain n db1 where h: "highestStoredBlock E db = (n, db1)" by blast
  have "db' = db \<or> db' = db1 \<or> (\<exists>c m. db' = maybeAdvanceValidatedCheckpoint E c
      (db_put (chainMetaKey ''connected_latest'') m db1))"
    using f h by (auto simp: tryValidatedCheckpointFastPath_def Let_def split: if_splits option.splits prod.splits)
  moreover have step: "sound_growth E' db1 (maybeAdvanceValidatedCheckpoint E c
      (db_put (chainMetaKey ''connected_latest'') m db1))" for c m
    by (rule growth_same) (simp_all add: stored_put first_simps key_defs)
  ultimately show ?thesis using growth_highest [OF h] growth_trans [OF growth_highest [OF h] step] growth_refl by auto
qed

lemma growth_rebuild:
  assumes "rebuildBestChainIndex E db = (n, db')"
  shows "sound_growth E db db'"
proof -
  obtain r db1 where f: "tryValidatedCheckpointFastPath E db = (r, db1)" by (metis surj_pair)
  have "validateConnectedChain E (longest_valid E c) = Inr ()" if "longest_valid E c \<noteq> []" for c
    using longest_valid_take [of c E] that by auto
  moreover have "db' = db \<or> db' = db1 \<or> (\<exists>p c. longest_valid E c \<noteq> [] \<and> db' = rebuild_write E p (longest_valid E c) db1)"
    using assms f by (auto simp: rebuildBestChainIndex_def Let_def split: if_splits option.splits)
  ultimately show ?thesis
    using growth_fast [OF f] growth_trans [OF growth_fast [OF f] growth_rebuild_write] growth_refl by auto
qed

section \<open>Adopting a chain\<close>

lemma envelope_authentic: "blockEnvelopeIsValid E b \<Longrightarrow> authentic_block E b"
  by (auto simp: blockEnvelopeIsValid_def authentic_block_def split: if_splits)

lemma adopt_back_authentic:
  "adopt_back E db first chain current = Some chain' \<Longrightarrow> \<forall>b \<in> set chain. authentic_block E b \<Longrightarrow>
   \<forall>b \<in> set chain'. authentic_block E b"
proof (induction E db first chain current rule: adopt_back.induct)
  case (1 E db first chain current)
  show ?case
    using 1 by (subst (asm) (2) adopt_back.simps)
      (auto simp: Let_def envelope_authentic split: if_splits)
qed

lemma growth_adopt_write:
  assumes "\<forall>b \<in> set chain. authentic_block E b"
  shows "sound_growth E db (adopt_write E p chain db)"
proof -
  have "\<exists>n reorg. adopt_write E p chain db =
      tip_written E ''peer hash-linked tip adopted'' reorg p (last chain) (index_chain E (drop n chain) db)"
    unfolding adopt_write_def tip_written_def Let_def by (intro exI, rule refl)
  moreover have written: "sound_growth E db (index_chain E (drop n chain) db)" for n
    using assms by (intro growth_index_chain) (meson in_set_dropD)
  ultimately show ?thesis by (auto intro: growth_trans [OF written growth_tip])
qed

lemma growth_adopt:
  assumes "adoptStoredChainEndingAtHash E h db = (r, db')"
  shows "sound_growth E db db'"
proof -
  have "db' = db \<or> (\<exists>first tip chain p. adopt_back E db first [] tip = Some chain \<and> db' = adopt_write E p (rev chain) db)"
    using assms by (auto simp: adoptStoredChainEndingAtHash_def Let_def split: if_splits option.splits)
  then show ?thesis using adopt_back_authentic growth_adopt_write growth_refl
    by (metis empty_iff empty_set set_rev)
qed

end
