(* ===== verification/SyncFacts.thy ===== *)
theory SyncFacts
  imports PeerSync StoreGrowth
begin

text \<open>
  What a download from a peer can and cannot do to the node. The functions of \<open>PeerSync\<close> change
  the block database only by storing a block, by rebuilding the index and by adopting a stored
  chain. The locale \<open>sync_frame\<close> states this once, for every relation between nodes that these
  three steps respect; no assumption is made on the answers of the peer.
\<close>

section \<open>The parts of the node a function leaves alone\<close>

lemma db_event [simp]: "n_db (event s) = n_db s"
  by (simp add: event_def)

lemma db_http [simp]: "n_db (snd (http W rq s)) = n_db s"
  by (simp add: http_def)

lemma db_epoch [simp]: "n_db (snd (local_epoch W s)) = n_db s"
  by (simp add: local_epoch_def)

lemma db_running [simp]: "n_db (snd (is_running W s)) = n_db s"
  by (simp add: is_running_def Let_def)

lemma db_save [simp]: "n_db (savePeerCache W s) = n_db s"
  by (simp add: savePeerCache_def)

lemma db_set_status [simp]: "n_db (set_status p st s) = n_db s"
  by (simp add: set_status_def)

lemma db_touch [simp]: "n_db (touch_status p s) = n_db s"
  by (simp add: touch_status_def)

lemma db_status [simp]: "n_db (snd (statusFromPeer W p s)) = n_db s"
  by (simp add: statusFromPeer_def Let_def case_prod_beta)

lemma db_refresh [simp]: "n_db (snd (refresh_status W p s)) = n_db s"
  by (simp add: refresh_status_def Let_def case_prod_beta)

lemma db_progress [simp]: "n_db (notePeerSyncProgress s) = n_db s"
  by (simp add: notePeerSyncProgress_def)

lemma db_stall [simp]: "n_db (notePeerSyncStall W s) = n_db s"
  by (simp add: notePeerSyncStall_def Let_def case_prod_beta)

lemma db_error [simp]: "n_db (set_error W p e s) = n_db s"
  by (simp add: set_error_def)

lemma db_backoff [simp]: "n_db (snd (peerSyncBackoffActive W s)) = n_db s"
  by (simp add: peerSyncBackoffActive_def case_prod_beta)

section \<open>The loops as compositions of actions\<close>

lemmas act_defs = andthen_def give_def peek_def parsed_def

lemma canonical_loop_unfold:
  "canonical_loop W peer latest m before pb n c =
     (if \<not> (0 < b_number pb \<and> b_number pb < latest \<and> n < m) then give (Exhausted n c)
      else
        andthen (fetch_after W peer (b_hash pb) (request_limit m n)) (\<lambda>response.
        andthen (parsed W response) (\<lambda>blocks.
          if response = [] \<or> blocks = []
          then andthen (rebuild_after W before c) (\<lambda>changed. give (Ended (1 < n) changed))
          else andthen (store_batch W m blocks pb n c) (\<lambda>(pb', n', c', bad).
                 if n' = n \<or> bad then andthen (rebuild_after W before c') (\<lambda>changed. give (Ended (1 < n') changed))
                 else canonical_loop W peer latest m before pb' n' c'))))"
  by (rule ext, subst canonical_loop.simps) (auto simp: act_defs Let_def split: prod.split option.split)

lemma from_block_loop_unfold:
  "from_block_loop W peer latest m pb n c =
     (if \<not> (0 < b_number pb \<and> b_number pb < latest \<and> n < m) then give (n, c)
      else
        andthen (fetch_after W peer (b_hash pb) (request_limit m n)) (\<lambda>response.
        andthen (parsed W response) (\<lambda>blocks.
          if response = [] \<or> blocks = [] then give (n, c)
          else andthen (store_batch W m blocks pb n c) (\<lambda>(pb', n', c', bad).
                 if n' = n then give (n', c') else from_block_loop W peer latest m pb' n' c'))))"
  by (rule ext, subst from_block_loop.simps) (auto simp: act_defs Let_def split: prod.split option.split)

lemma hash_linked_loop_unfold:
  "hash_linked_loop W peer latest m n progressed c =
     (if m \<le> n then give (progressed, c)
      else
        andthen (peek latest_id) (\<lambda>before.
        andthen (peek (\<lambda>s. getBlock (env_now W s) (n_db s) before)) (\<lambda>block.
          if -1 < latest \<and> latest \<le> before \<or> bad_block block then give (progressed, c)
          else
            andthen (fetch_after W peer (b_hash block) (request_limit m n)) (\<lambda>response.
            andthen (parsed W response) (\<lambda>blocks.
              if response = [] \<or> blocks = [] then give (progressed, c)
              else
                andthen (storeParsedBlocks W blocks c) (\<lambda>(count, c).
                andthen (calm (latest_or_rebuild W before c)) (\<lambda>(tip, c).
                  if before < tip
                  then hash_linked_loop W peer latest m (n + max 1 (int (length blocks))) True c
                  else if count \<le> 0 then give (progressed, c)
                  else hash_linked_loop W peer latest m (n + max 1 (int (length blocks))) progressed c)))))))"
  by (rule ext, subst hash_linked_loop.simps) (auto simp: act_defs calm_def Let_def split: prod.split option.split)

lemma range_loop_unfold:
  "range_loop W peer latest m i k n c =
     (if \<not> (i \<le> latest \<and> n < m \<and> k < MAX_BLOCK_NUMBER_REPAIR_SCAN) then give (n, c)
      else
        andthen (fetch W (peer @ ''/api/blocks/'' @ show_long i)) (\<lambda>response.
          if response = [] then range_loop W peer latest m (i + 1) (k + 1) n c
          else
            andthen (parsed W response) (\<lambda>blocks.
            andthen (store_numbered W blocks n c) (\<lambda>(n, c). range_loop W peer latest m (i + 1) (k + 1) n c))))"
  by (rule ext, subst range_loop.simps) (auto simp: act_defs Let_def split: prod.split option.split)

lemma sync_loop_unfold:
  "sync_loop W peer status first peerLatest latest n c =
     (if \<not> (-1 < latest \<and> n < MAX_BLOCKS_PER_SYNC_BATCH) then give c
      else
        andthen (calm (is_running W)) (\<lambda>running.
          if \<not> running \<or> peerLatest \<le> latest then give c
          else
            andthen (sync_step W peer status first peerLatest latest n c) (\<lambda>t.
              case t of Leave c \<Rightarrow> give c
              | Again latest' n' c' \<Rightarrow> sync_loop W peer status first peerLatest latest' n' c')))"
  by (rule ext, subst sync_loop.simps)
    (auto simp: act_defs calm_def split: prod.split option.split turn.split bool.split)

section \<open>Frames\<close>

named_theorems carried \<open>actions that respect a relation\<close>

definition carries :: "(node \<Rightarrow> node \<Rightarrow> bool) \<Rightarrow> 'a act \<Rightarrow> bool" where
  "carries R f \<longleftrightarrow> (\<forall>s. R s (snd (f s)))"

locale sync_frame =
  fixes W :: world and R :: "node \<Rightarrow> node \<Rightarrow> bool"
  assumes R_refl: "R s s"
    and R_trans: "R s t \<Longrightarrow> R t u \<Longrightarrow> R s u"
    and R_http: "R s (snd (http W rq s))"
    and R_running: "R s (snd (is_running W s))"
    and R_backoff: "R s (snd (peerSyncBackoffActive W s))"
    and R_refresh: "R s (snd (refresh_status W peer s))"
    and R_error: "R s (set_error W peer e s)"
    and R_progress: "R s (notePeerSyncProgress s)"
    and R_stall: "R s (notePeerSyncStall W s)"
    and R_store: "carries R (storeBlock W b)"
    and R_rebuild: "R s (snd (rebuild W s))"
    and R_adopt: "carries R (adoptStoredPeerTip W st c)"
begin

lemma carries_give [carried]: "carries R (give a)"
  by (simp add: carries_def give_def R_refl)

lemma carries_peek [carried]: "carries R (peek f)"
  by (simp add: carries_def peek_def R_refl)

lemma carries_andthen [carried]: "carries R f \<Longrightarrow> (\<And>a. carries R (g a)) \<Longrightarrow> carries R (andthen f g)"
  unfolding carries_def andthen_def
  by (auto simp: case_prod_beta split: option.split) (metis R_trans)

lemma carries_calm: "(\<And>s. R s (snd (f s))) \<Longrightarrow> carries R (calm f)"
  by (simp add: carries_def calm_def case_prod_beta)

lemma carries_update: "(\<And>s. R s (f s)) \<Longrightarrow> carries R (update f)"
  by (simp add: carries_def update_def)

lemmas carries_notes = carries_update [OF R_progress] carries_update [OF R_stall] carries_update [OF R_error]

lemma carries_if [carried]: "(c \<Longrightarrow> carries R f) \<Longrightarrow> (\<not> c \<Longrightarrow> carries R g) \<Longrightarrow> carries R (if c then f else g)"
  by simp

lemma carries_prod [carried]: "(\<And>a b. p = (a, b) \<Longrightarrow> carries R (f a b)) \<Longrightarrow> carries R (case p of (a, b) \<Rightarrow> f a b)"
  by (cases p) simp

lemma carries_fetch [carried]: "carries R (fetch W url)"
  unfolding fetch_def by (rule carries_calm) (rule R_http)

lemma carries_parsed [carried]: "carries R (parsed W response)"
  unfolding parsed_def by (rule carries_peek)

lemma carries_fetch_after [carried]: "carries R (fetch_after W peer h n)"
  unfolding fetch_after_def by (intro carried)

lemma carries_rebuild_after [carried]: "carries R (rebuild_after W latest changed)"
  unfolding rebuild_after_def by (intro carried carries_calm R_rebuild)

lemma latest_or_rebuild_R: "R s (snd (latest_or_rebuild W before changed s))"
  using R_rebuild [of s] by (auto simp: latest_or_rebuild_def Let_def case_prod_beta intro: R_refl)

lemma carries_store_all: "carries R (store_all W bs c)"
  by (induction bs arbitrary: c) (auto intro: carried R_store)

lemma carries_store_parsed: "carries R (store_parsed W bs n c)"
  by (induction bs arbitrary: n c) (auto intro!: carried R_store)

lemma carries_store_batch: "carries R (store_batch W m bs pb n c)"
  by (induction bs arbitrary: pb n c) (auto intro!: carried R_store)

lemma carries_store_numbered: "carries R (store_numbered W bs n c)"
  by (induction bs arbitrary: n c) (auto intro!: carried R_store)

lemma carries_bind:
  "carries R f \<Longrightarrow> yields Q f \<Longrightarrow> (\<And>a. Q a \<Longrightarrow> carries R (g a)) \<Longrightarrow> carries R (andthen f g)"
  unfolding carries_def yields_def andthen_def
  by (auto simp: case_prod_beta split: option.split) (metis R_trans prod.collapse)

lemma carries_canonical_loop: "carries R (canonical_loop W peer latest m before pb n c)"
proof (induction "nat (m - n)" arbitrary: pb n c rule: less_induct)
  case less
  have batch: "yields (\<lambda>(pb', n', c', bad). n \<le> n') (store_batch W m bs pb n c)" for bs
    using store_batch_received by (fastforce simp: yields_def)
  have rest: "carries R (canonical_loop W peer latest m before pb' n' c')" if "n \<le> n'" "n' \<noteq> n" "n < m" for pb' n' c'
    using that by (intro less) simp
  show ?case
    by (subst canonical_loop_unfold)
      (intro carried carries_bind [OF carries_store_batch batch]; auto intro!: carried rest)
qed

lemma carries_from_block_loop: "carries R (from_block_loop W peer latest m pb n c)"
proof (induction "nat (m - n)" arbitrary: pb n c rule: less_induct)
  case less
  have batch: "yields (\<lambda>(pb', n', c', bad). n \<le> n') (store_batch W m bs pb n c)" for bs
    using store_batch_received by (fastforce simp: yields_def)
  have rest: "carries R (from_block_loop W peer latest m pb' n' c')" if "n \<le> n'" "n' \<noteq> n" "n < m" for pb' n' c'
    using that by (intro less) simp
  show ?case
    by (subst from_block_loop_unfold)
      (intro carried carries_bind [OF carries_store_batch batch]; auto intro!: carried rest)
qed

lemma carries_hash_linked_loop: "carries R (hash_linked_loop W peer latest m n p c)"
proof (induction "nat (m - n)" arbitrary: n p c rule: less_induct)
  case less
  have rest: "carries R (hash_linked_loop W peer latest m (n + max 1 (int k)) p c)" if "n < m" for k p c
    using that by (intro less) auto
  show ?case
    by (subst hash_linked_loop_unfold)
      (auto simp: storeParsedBlocks_def intro!: carried carries_store_parsed carries_calm latest_or_rebuild_R rest)
qed

lemma carries_range_loop: "carries R (range_loop W peer latest m i k n c)"
proof (induction "nat (MAX_BLOCK_NUMBER_REPAIR_SCAN - k)" arbitrary: i k n c rule: less_induct)
  case less
  have rest: "carries R (range_loop W peer latest m (i + 1) (k + 1) n c)" if "k < MAX_BLOCK_NUMBER_REPAIR_SCAN" for n c
    using that by (intro less) auto
  show ?case by (subst range_loop_unfold) (auto intro!: carried carries_store_numbered rest)
qed

lemma carries_pulls [carried]:
  "carries R (pullPeerCanonicalChain W peer latest m c)"
  "carries R (pullPeerCanonicalChainFromBlock W peer start latest m c)"
  "carries R (pullPeerHashLinkedFromTip W peer latest m c)"
  "carries R (pullPeerBlocksByNumberRange W peer start latest m c)"
  unfolding pullPeerCanonicalChain_def pullPeerCanonicalChainFromBlock_def pullPeerHashLinkedFromTip_def
    pullPeerBlocksByNumberRange_def
  by (auto intro!: carried R_store carries_canonical_loop carries_from_block_loop carries_hash_linked_loop
      carries_range_loop split: pulled.split)

lemma carries_repair [carried]: "carries R (pullPeerForkRepairWindow W peer first local latest m c)"
  unfolding pullPeerForkRepairWindow_def repair_window_def Let_def by (auto intro!: carried)

lemma carries_try_repair: "carries R (try_repair W peer first latest before m c)"
  unfolding try_repair_def by (auto intro!: carried carries_calm latest_or_rebuild_R)

lemma carries_step_no_answer: "carries R (step_no_answer W peer status first latest before n c)"
  unfolding step_no_answer_def
  by (auto intro!: carried carries_try_repair R_adopt carries_notes split: sum.split)

lemma carries_step_nothing_stored: "carries R (step_nothing_stored W peer status first latest before n c)"
  unfolding step_nothing_stored_def
  by (auto intro!: carried carries_try_repair R_adopt carries_notes split: sum.split)

lemma carries_step_stored: "carries R (step_stored W peer status first latest before n k c)"
  unfolding step_stored_def Let_def
  by (auto intro!: carried carries_calm latest_or_rebuild_R R_adopt carries_notes)

lemma carries_sync_step: "carries R (sync_step W peer status first latest before n c)"
  unfolding sync_step_def fetch_next_def storeParsedBlocks_def Let_def
  by (auto intro!: carried carries_store_parsed carries_step_no_answer carries_step_nothing_stored carries_step_stored)

lemma carries_running: "carries R (calm (is_running W))"
  by (rule carries_calm) (rule R_running)

lemma carries_sync_loop: "carries R (sync_loop W peer status first peerLatest latest n c)"
proof (induction "nat (peerLatest - latest)" arbitrary: latest n c rule: less_induct)
  case less
  have rest: "carries R (sync_loop W peer status first peerLatest latest' n' c')"
    if "latest < latest'" "\<not> peerLatest \<le> latest" for latest' n' c'
    using that by (intro less) auto
  show ?case
    by (subst sync_loop_unfold)
      (auto intro!: carried carries_running carries_bind [OF carries_sync_step sync_step_onward] rest
        simp: onward_def split: turn.splits)
qed

lemma carries_note_result: "carries R (note_result W c)"
  unfolding note_result_def by (cases c) (auto intro!: carried carries_notes)

lemma carries_sync_down: "carries R (sync_down W peer status first peerLatest latest c)"
  unfolding sync_down_def storeBlocks_def
  by (auto intro!: carried carries_store_all carries_sync_loop R_adopt carries_note_result)

lemma carries_sync_level: "carries R (sync_level W peer status first peerLatest h latest c)"
  unfolding sync_level_def by (auto intro!: carried R_adopt carries_note_result carries_notes)

lemma carries_sync_with: "carries R (sync_with W peer first latest)"
  unfolding sync_with_def sync_blocks_def check_local_def Let_def
  by (auto intro!: carried carries_calm R_adopt R_rebuild carries_sync_level carries_sync_down carries_notes
      R_refresh split: option.split)

text \<open>
  \<open>syncFromPeer\<close> as a whole, but for a database that has a latest block and no first one, which
  it empties before it starts.
\<close>

lemma syncFromPeer_R:
  assumes "0 \<le> getFirstBlockId (n_db s) \<or> getLatestBlockId (n_db s) < 0"
  shows "R s (snd (syncFromPeer W url s))"
proof -
  let ?s = "snd (is_running W (snd (peerSyncBackoffActive W s)))"
  have s: "R s ?s" by (rule R_trans [OF R_backoff R_running])
  have "R ?s (snd (sync_with W peer first latest ?s))" for peer first latest
    using carries_sync_with unfolding carries_def by blast
  from R_trans [OF s this] show ?thesis
    using assms s R_backoff [of s] R_refl
    by (auto simp: syncFromPeer_def case_prod_beta Let_def latest_id_def split: bool.split)
qed

end

text \<open>Where the relation looks at the database only, it is enough that the three writing steps respect it.\<close>

locale store_frame =
  fixes W :: world and Q :: "dbh \<Rightarrow> dbh \<Rightarrow> bool"
  assumes Q_refl: "Q db db"
    and Q_trans: "Q a b \<Longrightarrow> Q b c \<Longrightarrow> Q a c"
    and Q_store: "Q (n_db s) (n_db (snd (storeBlock W block s)))"
    and Q_rebuild: "Q (n_db s) (n_db (snd (rebuild W s)))"
    and Q_adopt: "Q (n_db s) (n_db (snd (adoptStoredPeerTip W st changed s)))"

sublocale store_frame \<subseteq> sync_frame W "\<lambda>s t. Q (n_db s) (n_db t)"
  by unfold_locales (auto simp: carries_def Q_refl Q_store Q_rebuild Q_adopt intro: Q_trans)

section \<open>The store under any peer\<close>

text \<open>
  The texts, hashes and signatures of blocks rest on the digests, the check of signatures and the
  text of numbers only: the clock and the settings play no part in them.
\<close>

definition text_rules :: "env \<Rightarrow> env \<Rightarrow> bool" where
  "text_rules E F \<longleftrightarrow> e_sha256 E = e_sha256 F \<and> e_ecdsa E = e_ecdsa F \<and> e_lexical E = e_lexical F"

lemma blockJSON_rules: "text_rules E F \<Longrightarrow> blockJSON E = blockJSON F"
proof -
  assume "text_rules E F"
  then have "recordJSON E = recordJSON F" by (simp add: text_rules_def fun_eq_iff recordJSON_def record_fields_def)
  then show ?thesis by (intro ext) (simp add: blockJSON_def)
qed

lemma sha256_rules: "text_rules E F \<Longrightarrow> sha256 E = sha256 F"
  by (simp add: text_rules_def fun_eq_iff sha256_def)

lemma record_hash_rules: "text_rules E F \<Longrightarrow> record_hash_or_computed E = record_hash_or_computed F"
proof -
  assume a: "text_rules E F"
  then have "e_lexical E = e_lexical F" by (simp add: text_rules_def)
  then have "getRecordHash E r = getRecordHash F r" for r by (simp add: getRecordHash_def sha256_rules [OF a])
  then show ?thesis by (simp add: fun_eq_iff record_hash_or_computed_def)
qed

lemma merkle_rules: "text_rules E F \<Longrightarrow> getRecordsMerkleRoot E = getRecordsMerkleRoot F"
proof -
  assume a: "text_rules E F"
  have level: "merkle_level E = merkle_level F"
  proof
    fix xs show "merkle_level E xs = merkle_level F xs"
      by (induction xs rule: induct_list012) (simp_all add: sha256_rules [OF a])
  qed
  have "merkle_reduce E xs = merkle_reduce F xs" for xs
  proof (induction xs rule: length_induct)
    case (1 xs)
    then show ?case
      by (subst (1 2) merkle_reduce.simps) (simp add: level length_merkle_level)
  qed
  then show ?thesis by (simp add: fun_eq_iff getRecordsMerkleRoot_def sha256_rules [OF a] record_hash_rules [OF a])
qed

lemma authentic_rules: "text_rules E F \<Longrightarrow> authentic_block E = authentic_block F"
proof -
  assume a: "text_rules E F"
  then have "e_ecdsa E = e_ecdsa F" by (simp add: text_rules_def)
  then show ?thesis
    by (intro ext) (simp add: authentic_block_def getBlockHash_def VerifyMessageCompressed_def
        sha256_rules [OF a] record_hash_rules [OF a] merkle_rules [OF a])
qed

lemma growth_rules: "text_rules E F \<Longrightarrow> sound_growth E = sound_growth F"
  by (intro ext) (simp add: sound_growth_def blockJSON_rules [of E F] authentic_rules [of E F])

lemma rules_now: "text_rules (env_now W s) (w_env W)"
  by (simp add: text_rules_def env_now_def)

lemmas blockJSON_now [simp] = blockJSON_rules [OF rules_now]
lemmas sha256_now [simp] = sha256_rules [OF rules_now]
lemmas record_hash_now [simp] = record_hash_rules [OF rules_now]
lemmas merkle_now [simp] = merkle_rules [OF rules_now]
lemmas authentic_now [simp] = authentic_rules [OF rules_now]
lemmas growth_now [simp] = growth_rules [OF rules_now]

lemma env_now_text [simp]:
  "e_sha256 (env_now W s) = e_sha256 (w_env W)" "e_ecdsa (env_now W s) = e_ecdsa (w_env W)"
  "e_lexical (env_now W s) = e_lexical (w_env W)"
  by (simp_all add: env_now_def)

interpretation growth: store_frame W "sound_growth (w_env W)" for W
proof (unfold_locales, goal_cases)
  case (1 db)
  show ?case by (rule growth_refl)
next
  case (2 a b c)
  then show ?case by (rule growth_trans)
next
  case (3 s b)
  obtain r db cs where a: "AddBlock (env_now W s) (w_uninit W) b (n_db s, n_caches s) = (r, db, cs)"
    by (metis prod_cases3)
  have g: "sound_growth (w_env W) (n_db s) db" using growth_add [OF a] by simp
  then have "getFirstBlockId db = -1 \<Longrightarrow> sound_growth (w_env W) (n_db s) (setFirstBlockId n db)" for n
    using growth_trans growth_first by blast
  then show ?case using a g growth_refl by (simp add: storeBlock_def Let_def)
next
  case (4 s)
  show ?case
    using growth_rebuild [OF prod.collapse [symmetric], of "env_now W s" "n_db s"] by (simp add: rebuild_def case_prod_beta)
next
  case (5 s st c)
  obtain r db where a: "adoptStoredChainEndingAtHash (env_now W s) (p_latestBlockHash st) (n_db s) = (r, db)" by fastforce
  have "sound_growth (w_env W) (n_db s) db" using growth_adopt [OF a] by simp
  then show ?case using a growth_refl by (simp add: adoptStoredPeerTip_def Let_def split: option.split)
qed

text \<open>
  C23. No peer can damage the store: from a store with a first block or without a latest one, whatever
  a peer answers, and however its answers change from request to request, after a download every entry under a block hash is as before or is
  the text of a block with that hash whose hash, Merkle root and signature are those of its
  content; nothing stored is lost, and the first block of the chain, once it is set, stays.
\<close>

theorem sync_keeps_store:
  assumes "0 \<le> getFirstBlockId (n_db s) \<or> getLatestBlockId (n_db s) < 0"
    and "syncFromPeer W url s = (r, s')"
  shows "(stored (n_db s') h = stored (n_db s) h \<or>
      (\<exists>b. b_hash b = h \<and> authentic_block (w_env W) b \<and> stored (n_db s') h = blockJSON (w_env W) b)) \<and>
    (stored (n_db s) h \<noteq> [] \<longrightarrow> stored (n_db s') h \<noteq> []) \<and>
    (getFirstBlockId (n_db s) \<noteq> -1 \<longrightarrow> getFirstBlockId (n_db s') = getFirstBlockId (n_db s))"
proof -
  have "sound_growth (w_env W) (n_db s) (n_db s')"
    using growth.syncFromPeer_R [OF assms(1), of W url] assms(2) by simp
  then show ?thesis unfolding sound_growth_def by (metis blockJSON_nonempty(1))
qed

end
