(* ===== verification/PeerFacts.thy ===== *)
theory PeerFacts
  imports SyncFacts
begin

text \<open>
  What the table of peers promises: its invariant and that every operation keeps it, whatever
  peers answer; the file of peers read back; the peers chosen for gossip; the gate that lets
  the node create blocks; the back-off; the network time.
\<close>

section \<open>The invariant of the table\<close>

definition score_ok :: "peer_status \<Rightarrow> bool" where
  "score_ok st \<longleftrightarrow> -100 \<le> p_score st \<and> p_score st \<le> 100"

definition scores_ok :: "(string, peer_status) smap \<Rightarrow> bool" where
  "scores_ok m \<longleftrightarrow> (\<forall>e \<in> set m. score_ok (snd e))"

text \<open>An addition to a score in range stays within an \<open>int\<close>.\<close>

lemma score_plus_exact: "-100 \<le> v \<Longrightarrow> v \<le> 100 \<Longrightarrow> -100 \<le> d \<Longrightarrow> d \<le> 100 \<Longrightarrow> score_plus v d = v + d"
  unfolding score_plus_def by (rule signed_take_bit_int_eq_self) simp_all

text \<open>
  Peers are listed once and have a status, configured peers are listed, there are at most 64
  peers unless more are configured.
\<close>

definition listed_ok :: "node \<Rightarrow> bool" where
  "listed_ok s \<longleftrightarrow>
     distinct (n_peers s) \<and> (\<forall>p \<in> set (n_peers s). known s p) \<and> n_configured s \<subseteq> set (n_peers s) \<and>
     int (length (n_peers s)) \<le> max MAX_KNOWN_PEERS (int (card (n_configured s)))"

text \<open>
  Scores lie between -100 and 100 where those of the file did: the flag \<open>sc\<close> says whether the
  scores are followed, too, so that one lemma for each operation serves both.
\<close>

definition score_in :: "bool \<Rightarrow> peer_status \<Rightarrow> bool" where
  "score_in sc st \<longleftrightarrow> (sc \<longrightarrow> score_ok st)"

definition scores_in :: "bool \<Rightarrow> (string, peer_status) smap \<Rightarrow> bool" where
  "scores_in sc m \<longleftrightarrow> (\<forall>e \<in> set m. score_in sc (snd e))"

definition peers_ok :: "bool \<Rightarrow> node \<Rightarrow> bool" where
  "peers_ok sc s \<longleftrightarrow> listed_ok s \<and> scores_in sc (n_statuses s)"

lemmas score_defs = score_in_def score_ok_def

lemma peers_ok_cong:
  "n_peers t = n_peers s \<Longrightarrow> n_statuses t = n_statuses s \<Longrightarrow> n_configured t = n_configured s \<Longrightarrow> peers_ok sc t = peers_ok sc s"
  by (simp add: peers_ok_def listed_ok_def known_def)

lemma peers_ok_frame [simp]:
  "peers_ok sc (event s) = peers_ok sc s" "peers_ok sc (snd (http W rq s)) = peers_ok sc s"
  "peers_ok sc (snd (local_epoch W s)) = peers_ok sc s" "peers_ok sc (snd (is_running W s)) = peers_ok sc s"
  "peers_ok sc (savePeerCache W s) = peers_ok sc s" "peers_ok sc (snd (peerSyncBackoffActive W s)) = peers_ok sc s"
  "peers_ok sc (notePeerSyncProgress s) = peers_ok sc s" "peers_ok sc (notePeerSyncStall W s) = peers_ok sc s"
  "peers_ok sc (snd (statusFromPeer W p s)) = peers_ok sc s" "peers_ok sc (resetStablePeerTip s) = peers_ok sc s"
  "peers_ok sc (snd (noteStablePeerTip i h s)) = peers_ok sc s" "peers_ok sc (snd (ledger_at W b s)) = peers_ok sc s"
  "peers_ok sc (setAdvertisedPeer url s) = peers_ok sc s" "peers_ok sc (PeerClient.stop s) = peers_ok sc s"
  "peers_ok sc (n_offset_update f s) = peers_ok sc s" "peers_ok sc (n_running_update g s) = peers_ok sc s"
  by (rule peers_ok_cong; simp add: event_def http_def local_epoch_def is_running_def savePeerCache_def
      peerSyncBackoffActive_def notePeerSyncProgress_def notePeerSyncStall_def statusFromPeer_def
      resetStablePeerTip_def noteStablePeerTip_def ledger_at_def setAdvertisedPeer_def stop_def Let_def case_prod_beta)+

lemma known_set_status [simp]: "known (set_status p st s) q \<longleftrightarrow> q = p \<or> known s q"
  by (auto simp: known_def set_status_def smap_simps)

lemma scores_put: "scores_in sc m \<Longrightarrow> score_in sc st \<Longrightarrow> scores_in sc (sm_put p st m)"
  using set_sm_put [of p st m] by (auto simp: scores_in_def)

lemma peers_ok_set_status: "peers_ok sc s \<Longrightarrow> score_in sc st \<Longrightarrow> peers_ok sc (set_status p st s)"
proof -
  assume ok: "peers_ok sc s" "score_in sc st"
  have "n_peers (set_status p st s) = n_peers s" "n_configured (set_status p st s) = n_configured s"
    "n_statuses (set_status p st s) = sm_put p st (n_statuses s)" by (simp_all add: set_status_def)
  then show ?thesis using ok by (auto simp: peers_ok_def listed_ok_def intro: scores_put)
qed

lemma score_empty [simp]: "score_in sc (emptyPeerStatus p)"
  by (simp add: score_defs emptyPeerStatus_def)

lemma score_status_of: "peers_ok sc s \<Longrightarrow> score_in sc (status_of s p)"
  by (auto simp: peers_ok_def listed_ok_def scores_in_def status_of_def sm_at_def sm_get_def dest!: map_of_SomeD split: option.split)

lemma peers_ok_touch: "peers_ok sc s \<Longrightarrow> peers_ok sc (touch_status p s)"
  by (simp add: touch_status_def peers_ok_set_status)

lemma score_fresh: "score_in sc (fst (statusFromPeer W p s))"
  by (simp add: statusFromPeer_def judge_status_def status_failed_def score_defs Let_def case_prod_beta)

lemma score_merge: "score_in sc a \<Longrightarrow> score_in sc (mergePeerStatus a b)"
  by (auto simp: mergePeerStatus_def score_defs Let_def score_plus_exact)

lemma peers_ok_refresh: "peers_ok sc s \<Longrightarrow> peers_ok sc (snd (refresh_status W p s))"
  by (simp add: refresh_status_def Let_def case_prod_beta peers_ok_set_status score_merge score_status_of peers_ok_touch)

section \<open>The operations keep it\<close>

lemma peers_ok_add: "peers_ok sc s \<Longrightarrow> peers_ok sc (snd (addPeer W url persist s))"
proof -
  assume ok: "peers_ok sc s"
  let ?p = "normalizePeerUrl url"
  let ?s = "set_status ?p (emptyPeerStatus ?p) (s\<lparr>n_peers := n_peers s @ [?p]\<rparr>)"
  have "peers_ok sc ?s" if "\<not> known s ?p" "int (length (n_peers s)) < MAX_KNOWN_PEERS"
  proof -
    have "n_peers ?s = n_peers s @ [?p]" "n_configured ?s = n_configured s"
      "n_statuses ?s = sm_put ?p (emptyPeerStatus ?p) (n_statuses s)" by (simp_all add: set_status_def)
    moreover have "known ?s q \<longleftrightarrow> q = ?p \<or> known s q" for q by (auto simp: known_def set_status_def smap_simps)
    ultimately show ?thesis using ok that by (auto simp: peers_ok_def listed_ok_def intro: scores_put)
  qed
  then show ?thesis using ok by (simp add: addPeer_def Let_def)
qed

lemma peers_ok_verified: "peers_ok sc s \<Longrightarrow> peers_ok sc (snd (addVerifiedPeer W url persist s))"
  by (simp add: addVerifiedPeer_def Let_def case_prod_beta peers_ok_set_status score_fresh peers_ok_add split: bool.split)

lemma purge_peers_kept:
  assumes "distinct ps"
  shows "set (fst (purge_peers now ps s)) \<subseteq> set ps \<and> distinct (fst (purge_peers now ps s)) \<and>
    (\<forall>p \<in> set ps. p \<in> n_configured s \<longrightarrow> p \<in> set (fst (purge_peers now ps s))) \<and>
    n_configured (snd (purge_peers now ps s)) = n_configured s \<and>
    set (n_statuses (snd (purge_peers now ps s))) \<subseteq> set (n_statuses s) \<and>
    (\<forall>p. known s p \<longrightarrow> p \<notin> set ps \<or> p \<in> set (fst (purge_peers now ps s)) \<longrightarrow> known (snd (purge_peers now ps s)) p)"
  using assms
proof (induction now ps s rule: purge_peers.induct)
  case (2 now p ps s)
  let ?d = "s\<lparr>n_statuses := sm_del p (n_statuses s)\<rparr>"
  have del: "known ?d q \<longleftrightarrow> q \<noteq> p \<and> known s q" "set (n_statuses ?d) \<subseteq> set (n_statuses s)" "n_configured ?d = n_configured s" for q
    by (auto simp: known_def smap_simps) (simp add: sm_del_def)
  show ?case
  proof (cases "purge_expired s now p")
    case True
    then have "p \<notin> n_configured s" by (auto simp: purge_expired_def Let_def)
    obtain k u where ku: "purge_peers now ps ?d = (k, u)" by fastforce
    have eq: "purge_peers now (p # ps) s = (k, u)" using True ku by simp
    have notin: "p \<notin> set ps" using 2(3) by simp
    have ih: "set k \<subseteq> set ps" "distinct k" "\<forall>q \<in> set ps. q \<in> n_configured s \<longrightarrow> q \<in> set k"
      "n_configured u = n_configured s" "set (n_statuses u) \<subseteq> set (n_statuses ?d)"
      "\<forall>q. known ?d q \<longrightarrow> q \<notin> set ps \<or> q \<in> set k \<longrightarrow> known u q"
      using 2(1) [OF True] 2(3) unfolding ku fst_conv snd_conv by simp_all
    have "known u q" if "known s q" "q \<notin> set (p # ps) \<or> q \<in> set k" for q
    proof -
      have "q \<noteq> p" using that(2) ih(1) notin by auto
      then have "known ?d q" using that(1) del(1) by blast
      moreover have "q \<notin> set ps \<or> q \<in> set k" using that(2) by auto
      ultimately show ?thesis using ih(6) by blast
    qed
    moreover have "set k \<subseteq> set (p # ps)" "\<forall>q \<in> set (p # ps). q \<in> n_configured s \<longrightarrow> q \<in> set k"
      using ih(1,3) \<open>p \<notin> n_configured s\<close> by auto
    moreover have "set (n_statuses u) \<subseteq> set (n_statuses s)" using ih(5) del(2) by (rule subset_trans)
    ultimately show ?thesis using ih(2,4) unfolding eq fst_conv snd_conv by blast
  next
    case False
    then show ?thesis using 2(2) [OF False] 2(3) by (auto simp: case_prod_beta)
  qed
qed simp

lemma peers_ok_purge: "peers_ok sc s \<Longrightarrow> peers_ok sc (purgeUnavailablePeers W s)"
proof -
  assume ok: "peers_ok sc s"
  define now t where "now = fst (local_epoch W s)" and "t = snd (local_epoch W s)"
  define kept u where "kept = fst (purge_peers now (n_peers t) t)" and "u = snd (purge_peers now (n_peers t) t)"
  have t: "peers_ok sc t" using ok by (simp add: t_def)
  then have d: "distinct (n_peers t)" by (simp add: peers_ok_def listed_ok_def)
  note kept = purge_peers_kept [OF d, of now t, folded kept_def u_def]
  have len: "length kept \<le> length (n_peers t)" by (simp add: kept_def purge_peers_length)
  have pu: "n_peers u = n_peers t" by (simp add: u_def)
  have "\<forall>p \<in> set kept. known (u\<lparr>n_peers := kept\<rparr>) p"
    using t kept by (auto simp: peers_ok_def listed_ok_def known_def [of "u\<lparr>n_peers := kept\<rparr>"]) (metis known_def not_None_eq subsetD)
  moreover have "n_configured u \<subseteq> set kept" "scores_in sc (n_statuses u)"
    using t kept by (auto simp: peers_ok_def listed_ok_def scores_in_def)
  moreover have "int (length kept) \<le> max MAX_KNOWN_PEERS (int (card (n_configured u)))"
    using t kept len by (auto simp: peers_ok_def listed_ok_def)
  ultimately have "peers_ok sc (u\<lparr>n_peers := kept\<rparr>)" using kept by (simp add: peers_ok_def listed_ok_def)
  moreover have "peers_ok sc u" if "\<not> length kept < length (n_peers t)"
  proof -
    have "set kept = set (n_peers t)"
      using that kept d len by (intro card_subset_eq) (auto simp: distinct_card)
    then show ?thesis using t kept pu unfolding peers_ok_def listed_ok_def scores_in_def by auto
  qed
  ultimately show ?thesis
    by (simp add: purgeUnavailablePeers_def case_prod_beta Let_def now_def [symmetric] t_def [symmetric]
        kept_def [symmetric] u_def [symmetric] pu)
qed

lemma peers_ok_success: "peers_ok sc s \<Longrightarrow> peers_ok sc (notePeerSuccess W url s)"
proof -
  assume ok: "peers_ok sc s"
  let ?p = "normalizePeerUrl url" and ?t = "touch_status (normalizePeerUrl url) s"
  have "score_in sc (status_of ?t ?p)" using ok by (simp add: score_status_of peers_ok_touch)
  then show ?thesis
    using ok by (auto simp: notePeerSuccess_def Let_def case_prod_beta score_defs score_plus_exact peers_ok_touch intro!: peers_ok_set_status)
qed

lemma score_touched: "peers_ok sc s \<Longrightarrow> score_in sc (status_of (snd (local_epoch W (touch_status p s))) q)"
  by (simp add: score_status_of peers_ok_touch)

lemma peers_ok_failure: "peers_ok sc s \<Longrightarrow> peers_ok sc (notePeerFailure W url e s)"
  using score_touched [of sc s W "normalizePeerUrl url" "normalizePeerUrl url"]
  by (auto simp: notePeerFailure_def Let_def case_prod_beta score_defs score_plus_exact peers_ok_touch intro!: peers_ok_set_status)

lemma peers_ok_push:
  assumes "peers_ok sc s"
  shows "peers_ok sc (push_failed W p r s)" "peers_ok sc (push_done W p s)"
  using assms score_touched [of sc s W p p]
  by (auto simp: push_failed_def push_done_def Let_def case_prod_beta score_defs score_plus_exact peers_ok_touch intro!: peers_ok_set_status)

lemma peers_ok_statuses: "peers_ok sc s \<Longrightarrow> peers_ok sc (snd (getPeerStatuses W refresh s))"
proof -
  have "peers_ok sc s \<Longrightarrow> peers_ok sc (snd (status_loop W refresh ps s))" for ps s refresh
    by (induction ps arbitrary: s)
      (simp_all add: Let_def case_prod_beta peers_ok_touch peers_ok_set_status score_merge score_status_of)
  then show "peers_ok sc s \<Longrightarrow> peers_ok sc (snd (getPeerStatuses W refresh s))"
    by (simp add: getPeerStatuses_def case_prod_beta Let_def)
qed

lemma peers_ok_schedule: "peers_ok sc s \<Longrightarrow> peers_ok sc (snd (getPriorityPeersForUpcomingCreators W n s))"
proof -
  have "peers_ok sc s \<Longrightarrow> peers_ok sc (snd (schedule_slots W first slots c s))" for first slots c s
    by (induction slots arbitrary: c s) (auto simp: Let_def case_prod_beta)
  then show "peers_ok sc s \<Longrightarrow> peers_ok sc (snd (getPriorityPeersForUpcomingCreators W n s))"
    by (simp add: getPriorityPeersForUpcomingCreators_def getUpcomingCreatorSchedule_def case_prod_beta Let_def)
qed

lemma peers_ok_gossip: "peers_ok sc s \<Longrightarrow> peers_ok sc (snd (getGossipPeers W n priority s))"
  by (simp add: getGossipPeers_def Let_def case_prod_beta peers_ok_statuses peers_ok_schedule)

lemma peers_ok_discover: "peers_ok sc s \<Longrightarrow> peers_ok sc (discoverPeers W s)"
proof -
  have one: "peers_ok sc s \<Longrightarrow> peers_ok sc (discover_in W peer ds s)" for peer ds s
    by (induction ds arbitrary: s)
      (simp_all add: case_prod_beta peers_ok_verified split: bool.split)
  have "peers_ok sc s \<Longrightarrow> peers_ok sc (discover_from W ps s)" for ps s
    by (induction ps arbitrary: s)
      (simp_all add: Let_def case_prod_beta one peers_ok_success peers_ok_failure split: bool.split)
  then show "peers_ok sc s \<Longrightarrow> peers_ok sc (discoverPeers W s)"
    by (simp add: discoverPeers_def Let_def case_prod_beta peers_ok_gossip peers_ok_purge split: bool.split)
qed

lemma peers_ok_announce: "peers_ok sc s \<Longrightarrow> peers_ok sc (announceToPeers W s)"
proof -
  have one: "peers_ok sc s \<Longrightarrow> peers_ok sc (announce_to W peer s)" for peer s
    by (simp add: announce_to_def Let_def case_prod_beta peers_ok_success peers_ok_failure)
  have "peers_ok sc s \<Longrightarrow> peers_ok sc (announce_loop W ps s)" for ps s
    by (induction ps arbitrary: s) (simp_all add: Let_def case_prod_beta one split: bool.split)
  then show "peers_ok sc s \<Longrightarrow> peers_ok sc (announceToPeers W s)"
    by (simp add: announceToPeers_def Let_def case_prod_beta peers_ok_gossip split: bool.split)
qed

lemma peers_ok_latest: "peers_ok sc s \<Longrightarrow> peers_ok sc (snd (getPeerLatestBlockId W url s))"
  by (simp add: getPeerLatestBlockId_def Let_def case_prod_beta peers_ok_refresh peers_ok_purge split: bool.split)

lemma peers_ok_best: "peers_ok sc s \<Longrightarrow> peers_ok sc (snd (getBestPeerStatus W s))"
proof -
  have "peers_ok sc s \<Longrightarrow> peers_ok sc (refresh_outdated W now i s)" for now i s
  proof (induction W now i s rule: refresh_outdated.induct)
    case (1 W now i s)
    then show ?case by (subst refresh_outdated.simps) (simp add: peers_ok_latest)
  qed
  then show "peers_ok sc s \<Longrightarrow> peers_ok sc (snd (getBestPeerStatus W s))"
    by (simp add: getBestPeerStatus_def Let_def case_prod_beta peers_ok_statuses)
qed

lemma peers_ok_gate: "peers_ok sc s \<Longrightarrow> peers_ok sc (snd (canCreateBlocks W s))"
  by (simp add: canCreateBlocks_def Let_def case_prod_beta peers_ok_best)

lemma peers_ok_time: "peers_ok sc s \<Longrightarrow> peers_ok sc (snd (syncNetworkTime W s))"
proof -
  have "peers_ok sc s \<Longrightarrow> peers_ok sc (snd (time_offsets W sts s))" for sts s
    by (induction sts arbitrary: s) (auto simp: Let_def case_prod_beta split: bool.split)
  then show "peers_ok sc s \<Longrightarrow> peers_ok sc (snd (syncNetworkTime W s))"
    by (simp add: syncNetworkTime_def Let_def case_prod_beta peers_ok_statuses split: bool.split)
qed

lemma peers_ok_pushes:
  assumes "peers_ok sc s"
  shows "peers_ok sc (snd (pushToPeerDetailed W url s))" "peers_ok sc (snd (pushFullChainToPeerDetailed W url s))"
proof -
  have submit: "peers_ok sc (snd (submitBlockToPeer W p b s)) = peers_ok sc s" for p b s
    by (simp add: submitBlockToPeer_def Let_def case_prod_beta)
  have loop: "peers_ok sc s \<Longrightarrow> peers_ok sc (snd (push_blocks W noted p r bs s))" for noted p r bs s
    by (induction bs arbitrary: r s)
      (auto simp: case_prod_beta submit peers_ok_push split: bool.split)
  show "peers_ok sc (snd (pushToPeerDetailed W url s))" "peers_ok sc (snd (pushFullChainToPeerDetailed W url s))"
    using assms
    by (simp_all add: pushToPeerDetailed_def pushFullChainToPeerDetailed_def Let_def case_prod_beta loop
        peers_ok_refresh split: bool.split)
qed

lemma peers_ok_broadcasts:
  assumes "peers_ok sc s"
  shows "peers_ok sc (broadcastRecord W r s)" "peers_ok sc (broadcastBlock W b s)" "peers_ok sc (broadcastHandoff W b key s)"
proof -
  have "peers_ok sc s \<Longrightarrow> peers_ok sc (offer W acc path q ann body fail p s)" for acc path q ann body fail p s
    by (simp add: offer_def Let_def case_prod_beta peers_ok_success peers_ok_failure)
  then have loop: "peers_ok sc s \<Longrightarrow> peers_ok sc (broadcast W (offer W acc path q ann body fail) ps s)" for acc path q ann body fail ps s
    by (induction ps arbitrary: s) (simp_all add: case_prod_beta split: bool.split)
  have handoff: "peers_ok sc s \<Longrightarrow> peers_ok sc (handoff_loop W body ps s)" for body ps s
    by (induction ps arbitrary: s) (simp_all add: Let_def case_prod_beta peers_ok_success peers_ok_failure)
  have json: "peers_ok sc (snd (handoffJson W b key s)) = peers_ok sc s" for b key s
    by (simp add: handoffJson_def Let_def case_prod_beta)
  show "peers_ok sc (broadcastRecord W r s)" "peers_ok sc (broadcastBlock W b s)" "peers_ok sc (broadcastHandoff W b key s)"
    using assms
    by (simp_all add: broadcastRecord_def broadcastBlock_def broadcastHandoff_def Let_def case_prod_beta loop handoff
        json peers_ok_gossip split: bool.split)
qed

text \<open>A download changes the table only by refreshing and marking statuses.\<close>

lemma peers_ok_store: "peers_ok sc (snd (storeBlock W b s)) = peers_ok sc s"
  by (rule peers_ok_cong; simp add: storeBlock_def Let_def case_prod_beta)

lemma peers_ok_rebuild: "peers_ok sc (snd (rebuild W s)) = peers_ok sc s"
  by (rule peers_ok_cong; simp add: rebuild_def case_prod_beta)

lemma peers_ok_adopt: "peers_ok sc (snd (adoptStoredPeerTip W st c s)) = peers_ok sc s"
  by (rule peers_ok_cong; simp add: adoptStoredPeerTip_def Let_def case_prod_beta split: option.split)

lemma peers_ok_error: "peers_ok sc s \<Longrightarrow> peers_ok sc (set_error W p e s)"
  using score_status_of [of sc s p] by (simp add: set_error_def peers_ok_set_status score_defs)

interpretation table: sync_frame W "\<lambda>s t. peers_ok sc s \<longrightarrow> peers_ok sc t" for W
  by unfold_locales
    (auto simp: carries_def peers_ok_store peers_ok_rebuild peers_ok_adopt peers_ok_refresh peers_ok_error)

lemma peers_ok_sync: "peers_ok sc s \<Longrightarrow> peers_ok sc (snd (syncFromPeer W url s))"
proof -
  assume ok: "peers_ok sc s"
  let ?s = "snd (is_running W (snd (peerSyncBackoffActive W s)))"
  have "peers_ok sc (?s\<lparr>n_db := db\<rparr>)" for db using ok peers_ok_cong [of "?s\<lparr>n_db := db\<rparr>" ?s] by simp
  then have "peers_ok sc (snd (sync_with W peer first latest (?s\<lparr>n_db := db\<rparr>)))" for peer first latest db
    using table.carries_sync_with unfolding carries_def by blast
  moreover have "peers_ok sc (snd (sync_with W peer first latest ?s))" for peer first latest
    using table.carries_sync_with ok unfolding carries_def by simp
  ultimately show ?thesis
    using ok by (auto simp: syncFromPeer_def case_prod_beta Let_def split: bool.split)
qed

section \<open>Any sequence of operations\<close>

datatype peer_op =
    SetAdvertised string | AddPeer string bool | AddVerifiedPeer string bool | Statuses bool | Discover | Announce
  | LatestOf string | CanCreate | SyncTime | SyncFrom string | PushTo string | PushChainTo string
  | SendRecord record_structure | SendBlock block_structure | SendHandoff block_structure string | Stop

fun run_op :: "world \<Rightarrow> peer_op \<Rightarrow> node \<Rightarrow> node" where
  "run_op W (SetAdvertised url) s = setAdvertisedPeer url s"
| "run_op W (AddPeer url persist) s = snd (addPeer W url persist s)"
| "run_op W (AddVerifiedPeer url persist) s = snd (addVerifiedPeer W url persist s)"
| "run_op W (Statuses refresh) s = snd (getPeerStatuses W refresh s)"
| "run_op W Discover s = discoverPeers W s"
| "run_op W Announce s = announceToPeers W s"
| "run_op W (LatestOf url) s = snd (getPeerLatestBlockId W url s)"
| "run_op W CanCreate s = snd (canCreateBlocks W s)"
| "run_op W SyncTime s = snd (syncNetworkTime W s)"
| "run_op W (SyncFrom url) s = snd (syncFromPeer W url s)"
| "run_op W (PushTo url) s = snd (pushToPeerDetailed W url s)"
| "run_op W (PushChainTo url) s = snd (pushFullChainToPeerDetailed W url s)"
| "run_op W (SendRecord r) s = broadcastRecord W r s"
| "run_op W (SendBlock b) s = broadcastBlock W b s"
| "run_op W (SendHandoff b key) s = broadcastHandoff W b key s"
| "run_op W Stop s = PeerClient.stop s"

lemma peers_ok_op: "peers_ok sc s \<Longrightarrow> peers_ok sc (run_op W op s)"
  by (cases op) (simp_all add: peers_ok_add peers_ok_verified peers_ok_statuses peers_ok_discover peers_ok_announce
      peers_ok_latest peers_ok_gate peers_ok_time peers_ok_sync peers_ok_pushes peers_ok_broadcasts)

lemma set_configured_ok:
  assumes "distinct (n_peers s)" "set (n_peers s) = n_configured s" "\<forall>p \<in> set (n_peers s). known s p"
    "\<forall>p. known s p \<longrightarrow> p \<in> set (n_peers s)" "scores_in sc (n_statuses s)"
  shows "peers_ok sc (set_configured urls s)"
  using assms
proof (induction urls arbitrary: s)
  case Nil
  then show ?case using distinct_card [of "n_peers s"] by (simp add: peers_ok_def listed_ok_def)
next
  case (Cons url urls)
  let ?p = "normalizePeerUrl url"
  let ?s = "set_status ?p (emptyPeerStatus ?p) (s\<lparr>n_peers := n_peers s @ [?p], n_configured := insert ?p (n_configured s)\<rparr>)"
  have "known ?s q \<longleftrightarrow> q = ?p \<or> known s q" for q by (auto simp: known_def set_status_def smap_simps)
  moreover have "n_peers ?s = n_peers s @ [?p]" "n_configured ?s = insert ?p (n_configured s)"
    "n_statuses ?s = sm_put ?p (emptyPeerStatus ?p) (n_statuses s)" by (simp_all add: set_status_def)
  ultimately have "peers_ok sc (set_configured urls ?s)" if "\<not> known s ?p"
    using Cons.prems that by (intro Cons.IH) (auto intro: scores_put)
  then show ?case using Cons by (simp add: Let_def)
qed

lemma setPeers_ok:
  assumes "list_all (score_in sc) (loadPeerCache (n_peers_dat s))"
  shows "peers_ok sc (setPeers W urls s)"
proof -
  let ?s = "set_configured urls (s\<lparr>n_peers := [], n_statuses := [], n_configured := {}\<rparr>)"
  have dat: "n_peers_dat (set_configured urls t) = n_peers_dat t" for t
    by (induction urls arbitrary: t) (simp_all add: Let_def set_status_def)
  have conf: "peers_ok sc ?s" by (rule set_configured_ok) (simp_all add: known_def sm_get_def scores_in_def)
  have "peers_ok sc t \<Longrightarrow> list_all (score_in sc) sts \<Longrightarrow> peers_ok sc (add_cached W sts t)" for sts t
    by (induction sts arbitrary: t) (simp_all add: case_prod_beta peers_ok_add peers_ok_set_status)
  then have "peers_ok sc (add_cached W (loadPeerCache (n_peers_dat ?s)) ?s)" using conf assms by (simp add: dat)
  then show ?thesis using conf by (cases "urls = []") (simp_all add: setPeers_def Let_def peers_ok_purge dat)
qed

text \<open>
  C25. The table of peers keeps its invariant: after \<open>setPeers\<close>, whatever the file \<open>peers.dat\<close> holds,
  and after any sequence of operations in any order, whatever peers answer, every peer is listed
  once and has a status, configured peers are listed, and at most 64 peers are listed unless more
  are configured. If moreover every score read from \<open>peers.dat\<close> lies between -100 and 100, which the
  code does not check, then so does every score of the table, from then on.
\<close>

theorem peer_table_invariant:
  "listed_ok (fold (run_op W) ops (setPeers W urls s)) \<and>
   (list_all score_ok (loadPeerCache (n_peers_dat s)) \<longrightarrow> scores_ok (n_statuses (fold (run_op W) ops (setPeers W urls s))))"
proof -
  have "peers_ok sc t \<Longrightarrow> peers_ok sc (fold (run_op W) ops t)" for sc t
    by (induction ops arbitrary: t) (simp_all add: peers_ok_op)
  then have "peers_ok sc (fold (run_op W) ops (setPeers W urls s))" if "list_all (score_in sc) (loadPeerCache (n_peers_dat s))" for sc
    using setPeers_ok [OF that] by blast
  from this [of False] this [of True] show ?thesis
    by (simp add: peers_ok_def scores_in_def scores_ok_def score_in_def list_all_iff)
qed

text \<open>
  The condition on the file is needed: a score below the range that is read from it stays there,
  even after the peer answered well.
\<close>

lemma loaded_score_kept:
  "p_score (mergePeerStatus ((emptyPeerStatus p)\<lparr>p_score := -1000\<rparr>)
     ((emptyPeerStatus p)\<lparr>p_reachable := True, p_genesisMatch := True, p_rulesCompatible := True\<rparr>)) = -990"
  by (simp add: mergePeerStatus_def Let_def score_plus_def emptyPeerStatus_def signed_take_bit_int_eq_self)

end
