(* ===== verification/PeerGate.thy ===== *)
theory PeerGate
  imports PeerFacts
begin

text \<open>
  The gate \<open>canCreateBlocks\<close>, the median of the network time, the back-off, the file of peers
  and the choice of peers for gossip.
\<close>

section \<open>The gate for the creation of blocks\<close>

text \<open>The parts of the node that looking for the best peer leaves alone.\<close>

definition tip_view :: "node \<Rightarrow> dbh \<times> int \<times> string \<times> int" where
  "tip_view s = (n_db s, n_stable_id s, n_stable_hash s, n_stable_checks s)"

lemma view_frame [simp]:
  "tip_view (event s) = tip_view s" "tip_view (snd (http W rq s)) = tip_view s"
  "tip_view (snd (local_epoch W s)) = tip_view s" "tip_view (snd (is_running W s)) = tip_view s"
  "tip_view (savePeerCache W s) = tip_view s" "tip_view (set_status p st s) = tip_view s"
  "tip_view (touch_status p s) = tip_view s" "tip_view (snd (statusFromPeer W p s)) = tip_view s"
  "tip_view (snd (refresh_status W p s)) = tip_view s" "tip_view (n_peers_update f s) = tip_view s"
  "tip_view (n_statuses_update g s) = tip_view s"
  by (simp_all add: tip_view_def event_def http_def local_epoch_def is_running_def savePeerCache_def set_status_def
      touch_status_def statusFromPeer_def refresh_status_def Let_def case_prod_beta)

lemma view_purge_peers [simp]: "tip_view (snd (purge_peers now ps s)) = tip_view s"
  by (induction ps arbitrary: s) (simp_all add: case_prod_beta)

lemma view_purge [simp]: "tip_view (purgeUnavailablePeers W s) = tip_view s"
  by (simp add: purgeUnavailablePeers_def Let_def case_prod_beta)

lemma view_statuses [simp]: "tip_view (snd (getPeerStatuses W r s)) = tip_view s"
proof -
  have "tip_view (snd (status_loop W r ps s)) = tip_view s" for ps s r
    by (induction ps arbitrary: s) (simp_all add: Let_def case_prod_beta)
  then show ?thesis by (simp add: getPeerStatuses_def Let_def case_prod_beta)
qed

lemma view_best [simp]: "tip_view (snd (getBestPeerStatus W s)) = tip_view s"
proof -
  have latest: "tip_view (snd (getPeerLatestBlockId W p s)) = tip_view s" for p s
    by (simp add: getPeerLatestBlockId_def Let_def case_prod_beta split: bool.split)
  have "tip_view (refresh_outdated W now i s) = tip_view s" for now i s
  proof (induction W now i s rule: refresh_outdated.induct)
    case (1 W now i s)
    have "tip_view (snd (getPeerLatestBlockId W p s)) = tip_view s" for p
      by (simp add: getPeerLatestBlockId_def Let_def case_prod_beta split: bool.split)
    then show ?case using 1 by (subst refresh_outdated.simps) simp
  qed
  then show ?thesis by (simp add: getBestPeerStatus_def Let_def case_prod_beta)
qed

text \<open>
  At this moment the best peer and the local chain have the same tip, number \<open>i\<close> and hash \<open>h\<close>.
\<close>

definition tips_agree :: "world \<Rightarrow> node \<Rightarrow> int \<Rightarrow> string \<Rightarrow> bool" where
  "tips_agree W s i h \<longleftrightarrow>
     (let (best, s') = getBestPeerStatus W s; tip = getBlock (env_now W s') (n_db s') i
      in p_latestBlockId best = i \<and> p_latestBlockHash best = h \<and> latest_id s = i \<and> 0 < b_number tip \<and> b_hash tip = h \<and>
         0 < i \<and> h \<noteq> [])"

lemma view_parts:
  assumes "tip_view t = tip_view s"
  shows "n_db t = n_db s" "n_stable_id t = n_stable_id s" "n_stable_hash t = n_stable_hash s"
    "n_stable_checks t = n_stable_checks s"
  using assms by (simp_all add: tip_view_def)

lemma best_parts:
  assumes "getBestPeerStatus W s = (best, s')"
  shows "n_db s' = n_db s" "n_stable_id s' = n_stable_id s" "n_stable_hash s' = n_stable_hash s"
    "n_stable_checks s' = n_stable_checks s"
  using view_best [of W s] assms view_parts by (metis snd_conv)+

text \<open>What the gate does where the tips agree.\<close>

lemma gate_agree:
  assumes "tips_agree W s i h" "n_peers s \<noteq> []" and "getBestPeerStatus W s = (best, s')"
  shows "canCreateBlocks W s = (case noteStablePeerTip i h s' of (isStable, t) \<Rightarrow>
    (if isStable then (True, ''ok'') else (False, ''peer tip not stable yet''), t))"
  using assms best_parts [OF assms(3)]
  by (auto simp: tips_agree_def canCreateBlocks_def latest_id_def Let_def)

text \<open>
  C26. The gate is safe: with peers listed, \<open>canCreateBlocks\<close> says yes only where the local chain
  and the best usable peer agree on number and hash of the tip, and only where this very tip
  was noted by an earlier call and not reset since.
\<close>

theorem gate_safe:
  assumes "canCreateBlocks W s = ((True, reason), s')" and "n_peers s \<noteq> []"
  shows "tips_agree W s (n_stable_id s) (n_stable_hash s) \<and> 1 \<le> n_stable_checks s"
proof -
  obtain best t where best: "getBestPeerStatus W s = (best, t)" by fastforce
  note t = best_parts [OF best]
  show ?thesis
    using assms best t
    by (auto simp: canCreateBlocks_def tips_agree_def noteStablePeerTip_def REQUIRED_STABLE_TIP_CHECKS_def Let_def
        latest_id_def split: if_splits prod.splits)
qed

text \<open>
  C27. The gate opens: once a call of \<open>canCreateBlocks\<close> has found the tips of the local chain and
  of the best peer to agree, the next call that finds the same tip says yes, if nothing reset
  the note in between.
\<close>

theorem gate_opens:
  assumes "tips_agree W s i h" "n_peers s \<noteq> []" "0 \<le> n_stable_checks s" and "canCreateBlocks W s = (r, s')"
    and "n_stable_id t = n_stable_id s'" "n_stable_hash t = n_stable_hash s'" "n_stable_checks t = n_stable_checks s'"
    and "tips_agree W t i h" "n_peers t \<noteq> []"
  shows "fst (canCreateBlocks W t) = (True, ''ok'')"
proof -
  obtain best u where best: "getBestPeerStatus W s = (best, u)" by fastforce
  obtain best' v where best': "getBestPeerStatus W t = (best', v)" by fastforce
  have ih: "0 < i" "h \<noteq> []" using assms(1) by (auto simp: tips_agree_def case_prod_beta Let_def)
  have noted: "n_stable_id s' = i \<and> n_stable_hash s' = h \<and> 1 \<le> n_stable_checks s'"
    using gate_agree [OF assms(1,2) best] assms(3,4) best_parts [OF best] ih
    by (auto simp: noteStablePeerTip_def Let_def REQUIRED_STABLE_TIP_CHECKS_def split: if_splits prod.splits)
  show ?thesis
    using gate_agree [OF assms(8,9) best'] noted best_parts [OF best'] assms(5-7) ih
    by (simp add: noteStablePeerTip_def Let_def REQUIRED_STABLE_TIP_CHECKS_def split: prod.splits)
qed

section \<open>The network time\<close>

lemma count_at_least:
  assumes "A \<subseteq> {i. i < length xs \<and> P (xs ! i)}"
  shows "card A \<le> length (filter P xs)"
  using card_mono [OF _ assms] by (simp add: length_filter_conv_card)

lemma median_between:
  assumes "2 * length (filter (\<lambda>x. \<not> (lo \<le> x \<and> x \<le> hi)) xs) < length xs"
  shows "lo \<le> median_offset xs \<and> median_offset xs \<le> hi"
proof -
  let ?bad = "\<lambda>x. \<not> (lo \<le> x \<and> x \<le> hi)" and ?ys = "sort xs" and ?m = "length xs div 2"
  have m: "?m < length ?ys" using assms by simp
  have same: "length (filter ?bad ?ys) = length (filter ?bad xs)"
    by (simp add: filter_sort)
  have low: "lo \<le> ?ys ! ?m"
  proof (rule ccontr)
    assume c: "\<not> lo \<le> ?ys ! ?m"
    have "?bad (?ys ! j)" if "j \<le> ?m" for j
      using sorted_nth_mono [OF sorted_sort that m] c by simp
    then have "card {..?m} \<le> length (filter ?bad ?ys)" using m by (intro count_at_least) auto
    then show False using assms same by simp
  qed
  have high: "?ys ! ?m \<le> hi"
  proof (rule ccontr)
    assume c: "\<not> ?ys ! ?m \<le> hi"
    have "?bad (?ys ! j)" if "?m \<le> j" "j < length ?ys" for j
      using sorted_nth_mono [OF sorted_sort that] c by simp
    then have "card {?m..<length ?ys} \<le> length (filter ?bad ?ys)" by (intro count_at_least) auto
    then show False using assms same by simp
  qed
  show ?thesis using low high by (simp add: median_offset_def)
qed

text \<open>
  C31. A minority cannot move the clock: where more than half of the offsets that the answers of
  the peers give lie in an interval, the offset that \<open>syncNetworkTime\<close> sets lies in it, too.
\<close>

theorem time_majority:
  assumes "syncNetworkTime W s = (True, s')"
    and "getPeerStatuses W False (snd (is_running W s)) = (statuses, s1)"
    and "time_offsets W statuses s1 = (offsets, s2)"
    and "2 * length (filter (\<lambda>x. \<not> (lo \<le> x \<and> x \<le> hi)) offsets) < length offsets"
  shows "lo \<le> n_offset s' \<and> n_offset s' \<le> hi"
  using assms(1-3) median_between [OF assms(4)]
  by (auto simp: syncNetworkTime_def Let_def case_prod_beta split: bool.splits if_splits)

section \<open>The back-off\<close>

text \<open>A stall lets the node rest for at most a minute; progress ends the rest at once.\<close>

lemma backoff_bounded:
  assumes "0 \<le> n_backoff_failures s" and "n_backoff_until s \<le> w_clock W (n_events s) + 60"
  shows "n_backoff_until (notePeerSyncStall W s) \<le> w_clock W (n_events s) + 60 \<and>
    0 \<le> n_backoff_failures (notePeerSyncStall W s)"
  using assms
  by (simp add: notePeerSyncStall_def local_epoch_def event_def Let_def PEER_SYNC_BACKOFF_BASE_SECONDS_def
      PEER_SYNC_BACKOFF_MAX_SECONDS_def)

section \<open>The file of peers\<close>

definition cacheable :: "(string, peer_status) smap \<Rightarrow> string \<Rightarrow> bool" where
  "cacheable statuses p \<longleftrightarrow>
     (let st = sm_at (emptyPeerStatus p) statuses p
      in normalizePeerUrl p = p \<and> field p \<and> in_long (p_lastSuccessEpoch st) \<and> in_long (p_firstFailureEpoch st) \<and> score_ok st)"

lemma show_long_field: "field (show_long n)"
  using show_long_chars [of TAB n] show_long_chars [of NL n] by (auto simp: field_def c_isdigit_def code_def)

lemma atoi_score: "score_ok st \<Longrightarrow> atoi (show_long (p_score st)) = p_score st"
  by (subst atoi_def, subst atol_show_long)
     (auto simp: score_ok_def in_long_def LONG_MAX_def LONG_MIN_def signed_take_bit_int_eq_self)

text \<open>What is kept of the status of a peer.\<close>

definition kept_status :: "(string, peer_status) smap \<Rightarrow> string \<Rightarrow> peer_status" where
  "kept_status statuses p =
     (let st = sm_at (emptyPeerStatus p) statuses p
      in (emptyPeerStatus p)\<lparr>p_lastSuccessEpoch := p_lastSuccessEpoch st,
           p_firstFailureEpoch := p_firstFailureEpoch st, p_score := p_score st\<rparr>)"

lemma cached_line:
  assumes "cacheable m p"
  shows "\<exists>l. cache_line m p = l @ [NL] \<and> NL \<notin> set l \<and> cached_status (split_items TAB [] l) = Some (kept_status m p)"
proof -
  define st where "st = sm_at (emptyPeerStatus p) m p"
  define l where "l = p @ TAB # show_long (p_lastSuccessEpoch st) @ TAB # show_long (p_firstFailureEpoch st) @ TAB #
      show_long (p_score st)"
  have c: "normalizePeerUrl p = p" "field p" "in_long (p_lastSuccessEpoch st)" "in_long (p_firstFailureEpoch st)" "score_ok st"
    using assms by (simp_all add: cacheable_def Let_def st_def)
  have f: "TAB \<notin> set (show_long n)" "NL \<notin> set (show_long n)" for n using show_long_field by (auto simp: field_def)
  have "split_items TAB [] l =
      [p, show_long (p_lastSuccessEpoch st), show_long (p_firstFailureEpoch st), show_long (p_score st)]"
    using c(2) f by (simp add: l_def split_items_field split_items_last field_def)
  moreover have "p \<noteq> []" using c(2) by (simp add: field_def)
  ultimately have "cached_status (split_items TAB [] l) = Some (kept_status m p)"
    using c by (simp add: cached_status_def Let_def parseLongOrZero_def atol_show_long atoi_score kept_status_def st_def [symmetric]
        numeral_nat)
  moreover have "cache_line m p = l @ [NL]" by (simp add: cache_line_def l_def st_def Let_def)
  moreover have "NL \<notin> set l" using c(2) f by (auto simp: l_def field_def)
  ultimately show ?thesis by blast
qed

text \<open>
  What \<open>writePeerCache\<close> writes \<open>loadPeerCache\<close> reads back: for peers with normalised addresses
  without tabs and line breaks, the peers that are not configured come back in order, with the
  times of their last success and first failure and their scores.
\<close>

theorem peer_cache_roundtrip:
  assumes "\<forall>p \<in> set peers. p \<notin> configured \<longrightarrow> cacheable statuses p"
  shows "loadPeerCache (writePeerCache peers statuses configured) =
    map (kept_status statuses) (filter (\<lambda>p. p \<notin> configured) peers)"
proof -
  have "\<forall>p \<in> set ps. cacheable statuses p \<Longrightarrow>
      List.map_filter (\<lambda>line. cached_status (split_items TAB [] line)) (getlines [] (concat (map (cache_line statuses) ps))) =
      map (kept_status statuses) ps" for ps
  proof (induction ps)
    case (Cons p ps)
    then obtain l where l: "cache_line statuses p = l @ [NL]" "NL \<notin> set l"
      "cached_status (split_items TAB [] l) = Some (kept_status statuses p)" using cached_line by (metis list.set_intros(1))
    with Cons show ?case by (simp add: getlines_line List.map_filter_simps)
  qed (simp add: List.map_filter_simps)
  from this [of "filter (\<lambda>p. p \<notin> configured) peers"] show ?thesis
    using assms by (simp add: loadPeerCache_def writePeerCache_def)
qed

section \<open>Peers for gossip\<close>

lemma gossip_fill_ok:
  "distinct ordered \<Longrightarrow> int (length ordered) \<le> m \<Longrightarrow>
   distinct (gossip_fill m ordered cs) \<and> int (length (gossip_fill m ordered cs)) \<le> m \<and>
   set ordered \<subseteq> set (gossip_fill m ordered cs)"
proof (induction m ordered cs rule: gossip_fill.induct)
  case (2 m ordered url skip cs)
  then show ?case by (auto simp: Let_def split: if_splits)
qed simp

lemma gossip_fill_all:
  "int (length (gossip_fill m ordered cs)) < m \<Longrightarrow> (url, False) \<in> set cs \<Longrightarrow> normalizePeerUrl url \<noteq> [] \<Longrightarrow>
   distinct ordered \<Longrightarrow> normalizePeerUrl url \<in> set (gossip_fill m ordered cs)"
proof (induction m ordered cs rule: gossip_fill.induct)
  case (2 m ordered u skip cs)
  let ?p = "normalizePeerUrl u"
  let ?next = "if ?p = [] \<or> ?p \<in> set ordered \<or> skip then ordered else ordered @ [?p]"
  have room: "\<not> m \<le> int (length ordered)" using 2(2) by (auto split: if_splits)
  then have step: "gossip_fill m ordered ((u, skip) # cs) = gossip_fill m ?next cs" by (simp add: Let_def)
  have d: "distinct ?next" "int (length ?next) \<le> m" using 2(5) room by auto
  show ?case
  proof (cases "(url, False) \<in> set cs")
    case True
    then show ?thesis using 2(1) [OF room refl] 2(2,4) d(1) unfolding step by simp
  next
    case False
    then have "url = u" "\<not> skip" using 2(3) by auto
    then have "normalizePeerUrl url \<in> set ?next" using 2(4) by auto
    then show ?thesis unfolding step using gossip_fill_ok [OF d] by blast
  qed
qed simp

text \<open>
  The peers chosen for gossip are distinct and no more than asked for. Where there is room,
  every listed peer is among them: the last loop adds also the peers that the one before it
  has left out for their score.
\<close>

theorem gossip_peers:
  assumes "getGossipPeers W m priority s = (ps, s')"
  shows "distinct ps \<and> int (length ps) \<le> max 0 m \<and>
    (\<forall>p \<in> set (n_peers s'). normalizePeerUrl p \<noteq> [] \<longrightarrow> int (length ps) < m \<longrightarrow> normalizePeerUrl p \<in> set ps)"
proof (cases "m \<le> 0")
  case True
  then show ?thesis using assms by (auto simp: getGossipPeers_def)
next
  case False
  have ok: "distinct (gossip_fill m xs cs) \<and> int (length (gossip_fill m xs cs)) \<le> m"
    if "distinct xs" "int (length xs) \<le> m" for xs cs using gossip_fill_ok [OF that] by blast
  have "\<exists>xs. ps = gossip_fill m xs (map (\<lambda>p. (p, False)) (n_peers s')) \<and> distinct xs \<and> int (length xs) \<le> m"
    using assms False ok by (auto simp: getGossipPeers_def Let_def case_prod_beta split: if_splits)
  then obtain xs where xs: "ps = gossip_fill m xs (map (\<lambda>p. (p, False)) (n_peers s'))" "distinct xs" "int (length xs) \<le> m"
    by blast
  then show ?thesis using ok [OF xs(2,3)] False gossip_fill_all [of m xs "map (\<lambda>p. (p, False)) (n_peers s')"] by auto
qed

text \<open>
  Normalising an address twice is not normalising it once: a blank before the last slash is
  left at the end of the address, where the next call removes it.
\<close>

theorem normalize_twice:
  "normalizePeerUrl ''http://a /'' = ''http://a ''" "normalizePeerUrl ''http://a '' = ''http://a''"
  by code_simp+

text \<open>
  An address with a tab, as a peer may send it, is split when \<open>peers.dat\<close> is read back: the
  address is cut and the time of the first failure is taken for the score.
\<close>

theorem peer_tab_splits:
  "map p_url (loadPeerCache (writePeerCache [''http://a'' @ [TAB] @ ''b'']
     [(''http://a'' @ [TAB] @ ''b'', (emptyPeerStatus ''http://a'')\<lparr>p_firstFailureEpoch := 7\<rparr>)] {})) = [''http://a'']"
  "map p_score (loadPeerCache (writePeerCache [''http://a'' @ [TAB] @ ''b'']
     [(''http://a'' @ [TAB] @ ''b'', (emptyPeerStatus ''http://a'')\<lparr>p_firstFailureEpoch := 7\<rparr>)] {})) = [7]"
  by code_simp+

end
