(* ===== verification/SyncBounds.thy ===== *)
theory SyncBounds
  imports SyncFacts
begin

text \<open>
  How long a download from one peer takes, in events (requests, looks at the clock and at the
  flag \<open>running\<close>), whatever the peer answers. Each way to pull blocks has a bound of its own in
  terms of the number of blocks it may receive; the loop of \<open>syncFromPeer\<close> makes a turn only
  where the latest block has grown, so the number of its turns is bounded by the tip the peer
  has claimed.
\<close>

named_theorems cost_intros \<open>rules for the number of events of an action\<close>

definition costs :: "nat \<Rightarrow> 'a act \<Rightarrow> bool" where
  "costs k f \<longleftrightarrow> (\<forall>s. n_events (snd (f s)) \<le> n_events s + k)"

lemma costs_le: "costs j f \<Longrightarrow> j \<le> k \<Longrightarrow> costs k f"
  unfolding costs_def by (meson add_le_mono1 add_left_mono le_trans)

lemma costs_andthen [cost_intros]: "costs j f \<Longrightarrow> (\<And>a. costs k (g a)) \<Longrightarrow> costs (j + k) (andthen f g)"
  unfolding costs_def andthen_def
  by (auto simp: case_prod_beta split: option.split) (metis add.assoc add_le_mono1 add_leE le_trans)+

lemma costs_bind:
  assumes "costs j f" "yields Q f" "\<And>a. Q a \<Longrightarrow> costs k (g a)"
  shows "costs (j + k) (andthen f g)"
  unfolding costs_def
proof
  fix s
  obtain r t where f: "f s = (r, t)" by fastforce
  have t: "n_events t \<le> n_events s + j" using assms(1) f unfolding costs_def by (metis snd_conv)
  show "n_events (snd (andthen f g s)) \<le> n_events s + (j + k)"
  proof (cases r)
    case (Some a)
    then have "costs k (g a)" using assms(2,3) f unfolding yields_def by blast
    then have "n_events (snd (g a t)) \<le> n_events t + k" unfolding costs_def by blast
    then show ?thesis using f Some t by (simp add: andthen_def)
  qed (use f t in \<open>simp add: andthen_def\<close>)
qed

lemma costs_if [cost_intros]: "costs j f \<Longrightarrow> costs k g \<Longrightarrow> costs (max j k) (if c then f else g)"
  using costs_le [of j f "max j k"] costs_le [of k g "max j k"] by simp

lemma costs_prod [cost_intros]: "(\<And>a b. costs k (f a b)) \<Longrightarrow> costs k (case p of (a, b) \<Rightarrow> f a b)"
  by (cases p) simp

lemma costs_give [cost_intros]: "costs 0 (give a)"
  by (simp add: costs_def give_def)

lemma costs_peek [cost_intros]: "costs 0 (peek f)"
  by (simp add: costs_def peek_def)

lemma costs_parsed [cost_intros]: "costs 0 (parsed W response)"
  by (simp add: parsed_def costs_peek)

lemma costs_fetch [cost_intros]: "costs 1 (fetch W url)"
  by (simp add: costs_def fetch_def calm_def http_def event_def)

lemma costs_fetch_after [cost_intros]: "costs 2 (fetch_after W peer h n)"
  unfolding fetch_after_def by (rule costs_le, (rule cost_intros)+) simp

lemma costs_store [cost_intros]: "costs 0 (storeBlock W b)"
  by (simp add: costs_def storeBlock_def Let_def case_prod_beta)

lemma costs_rebuild: "costs 0 (calm (rebuild W))"
  by (simp add: costs_def calm_def rebuild_def case_prod_beta)

lemma costs_rebuild_after [cost_intros]: "costs 0 (rebuild_after W latest c)"
  unfolding rebuild_after_def by (rule costs_le, (rule cost_intros costs_rebuild)+) simp

lemma costs_latest_or_rebuild: "costs 0 (calm (latest_or_rebuild W before c))"
  by (simp add: costs_def calm_def latest_or_rebuild_def rebuild_def Let_def case_prod_beta)

lemma costs_adopt [cost_intros]: "costs 0 (adoptStoredPeerTip W st c)"
  by (simp add: costs_def adoptStoredPeerTip_def Let_def case_prod_beta split: option.split)

lemma costs_progress: "costs 0 (update notePeerSyncProgress)"
  by (simp add: costs_def update_def notePeerSyncProgress_def)

lemma costs_stall: "costs 1 (update (notePeerSyncStall W))"
  by (simp add: costs_def update_def notePeerSyncStall_def local_epoch_def event_def Let_def)

lemma costs_store_all [cost_intros]: "costs 0 (store_all W bs c)"
  by (induction bs arbitrary: c) (auto intro: costs_give costs_andthen [of 0 _ 0, simplified] costs_store)

lemma costs_store_parsed [cost_intros]: "costs 0 (store_parsed W bs n c)"
  by (induction bs arbitrary: n c) (auto intro: costs_give costs_andthen [of 0 _ 0, simplified] costs_store)

lemma costs_store_batch [cost_intros]: "costs 0 (store_batch W m bs pb n c)"
  by (induction bs arbitrary: pb n c) (auto intro: costs_give costs_andthen [of 0 _ 0, simplified] costs_store)

lemma costs_store_numbered [cost_intros]: "costs 0 (store_numbered W bs n c)"
  by (induction bs arbitrary: n c) (auto intro: costs_give costs_andthen [of 0 _ 0, simplified] costs_store)

section \<open>The pulls\<close>

lemma batch_grows: "yields (\<lambda>(pb', n', c', bad). n \<le> n') (store_batch W m bs pb n c)"
  using store_batch_received by (fastforce simp: yields_def)

lemma costs_canonical_loop: "costs (2 * nat (m - n)) (canonical_loop W peer latest m before pb n c)"
proof (induction "nat (m - n)" arbitrary: pb n c rule: less_induct)
  case less
  define k where "k = 2 * nat (m - n) - 2"
  have leave: "costs k (andthen (rebuild_after W before c) (\<lambda>changed. give (Ended b changed)))" for b c
    by (rule costs_le, (rule cost_intros)+) simp
  have rest: "costs k (canonical_loop W peer latest m before pb' n' c')" if "n \<le> n'" "n' \<noteq> n" "n < m" for pb' n' c'
    using that unfolding k_def by (intro costs_le [OF less]) auto
  have turn: "costs (0 + k) (andthen (store_batch W m bs pb n c) (\<lambda>(pb', n', c', bad).
      if n' = n \<or> bad then andthen (rebuild_after W before c') (\<lambda>changed. give (Ended (1 < n') changed))
      else canonical_loop W peer latest m before pb' n' c'))" if "n < m" for bs
    by (rule costs_bind [OF costs_store_batch batch_grows]) (use that in \<open>clarsimp simp: leave rest\<close>)
  show ?case
  proof (cases "0 < b_number pb \<and> b_number pb < latest \<and> n < m")
    case True
    then have "costs (2 + (0 + k)) (canonical_loop W peer latest m before pb n c)"
      by (subst canonical_loop_unfold) (use turn leave in \<open>simp add: costs_andthen [OF costs_fetch_after]
        costs_andthen [OF costs_parsed, simplified] del: add_2_eq_Suc\<close>)
    then show ?thesis using True by (auto simp: k_def elim!: costs_le)
  next
    case False
    then show ?thesis by (subst canonical_loop_unfold) (auto intro: costs_le [OF costs_give])
  qed
qed

lemma costs_from_block_loop: "costs (2 * nat (m - n)) (from_block_loop W peer latest m pb n c)"
proof (induction "nat (m - n)" arbitrary: pb n c rule: less_induct)
  case less
  define k where "k = 2 * nat (m - n) - 2"
  have leave: "costs k (give r)" for r :: "int \<times> bool"
    by (rule costs_le [OF costs_give]) simp
  have rest: "costs k (from_block_loop W peer latest m pb' n' c')" if "n \<le> n'" "n' \<noteq> n" "n < m" for pb' n' c'
    using that unfolding k_def by (intro costs_le [OF less]) auto
  have turn: "costs (0 + k) (andthen (store_batch W m bs pb n c) (\<lambda>(pb', n', c', bad).
      if n' = n then give (n', c') else from_block_loop W peer latest m pb' n' c'))" if "n < m" for bs
    by (rule costs_bind [OF costs_store_batch batch_grows]) (use that in \<open>clarsimp simp: leave rest\<close>)
  show ?case
  proof (cases "0 < b_number pb \<and> b_number pb < latest \<and> n < m")
    case True
    then have "costs (2 + (0 + k)) (from_block_loop W peer latest m pb n c)"
      by (subst from_block_loop_unfold) (use turn leave in \<open>simp add: costs_andthen [OF costs_fetch_after]
        costs_andthen [OF costs_parsed, simplified] del: add_2_eq_Suc\<close>)
    then show ?thesis using True by (auto simp: k_def elim!: costs_le)
  next
    case False
    then show ?thesis by (subst from_block_loop_unfold) (auto intro: costs_le [OF costs_give])
  qed
qed

lemma costs_hash_linked_loop: "costs (2 * nat (m - n)) (hash_linked_loop W peer latest m n p c)"
proof (induction "nat (m - n)" arbitrary: n p c rule: less_induct)
  case less
  define k where "k = 2 * nat (m - n) - 2"
  have leave: "costs k (give r)" for r :: "bool \<times> bool"
    by (rule costs_le [OF costs_give]) simp
  have rest: "costs k (hash_linked_loop W peer latest m (n + max 1 (int j)) p c)" if "n < m" for j p c
    using that unfolding k_def by (intro costs_le [OF less]) auto
  note zero = costs_andthen [where j = 0, simplified]
  show ?case
  proof (cases "n < m")
    case True
    have turn: "costs (2 + k) (andthen (fetch_after W peer h j) (\<lambda>response.
            andthen (parsed W response) (\<lambda>blocks.
              if response = [] \<or> blocks = [] then give (p, c)
              else
                andthen (storeParsedBlocks W blocks c) (\<lambda>(count, c).
                andthen (calm (latest_or_rebuild W before c)) (\<lambda>(tip, c).
                  if before < tip
                  then hash_linked_loop W peer latest m (n + max 1 (int (length blocks))) True c
                  else if count \<le> 0 then give (p, c)
                  else hash_linked_loop W peer latest m (n + max 1 (int (length blocks))) p c)))))" for h j before
      unfolding storeParsedBlocks_def
      by (rule costs_andthen [OF costs_fetch_after])
        (auto intro!: zero costs_parsed costs_store_parsed costs_latest_or_rebuild simp: leave rest True)
    have "costs (2 + k) (hash_linked_loop W peer latest m n p c)"
      by (subst hash_linked_loop_unfold)
        (use turn True in \<open>auto intro!: zero costs_peek costs_le [OF costs_give] simp del: add_2_eq_Suc\<close>)
    then show ?thesis using True by (auto simp: k_def elim!: costs_le)
  next
    case False
    then show ?thesis by (subst hash_linked_loop_unfold) (auto intro: costs_le [OF costs_give])
  qed
qed

lemma costs_range_loop: "costs (nat (MAX_BLOCK_NUMBER_REPAIR_SCAN - k)) (range_loop W peer latest m i k n c)"
proof (induction "nat (MAX_BLOCK_NUMBER_REPAIR_SCAN - k)" arbitrary: i k n c rule: less_induct)
  case less
  define j where "j = nat (MAX_BLOCK_NUMBER_REPAIR_SCAN - k) - 1"
  note zero = costs_andthen [where j = 0, simplified]
  show ?case
  proof (cases "i \<le> latest \<and> n < m \<and> k < MAX_BLOCK_NUMBER_REPAIR_SCAN")
    case True
    have rest: "costs j (range_loop W peer latest m (i + 1) (k + 1) n c)" for n c
      using True unfolding j_def by (intro costs_le [OF less]) auto
    have "costs (1 + j) (range_loop W peer latest m i k n c)"
      by (subst range_loop_unfold, simp only: True simp_thms if_False, rule costs_andthen [OF costs_fetch])
        (auto intro!: zero costs_parsed costs_store_numbered rest)
    then show ?thesis using True by (auto simp: j_def elim!: costs_le)
  next
    case False
    then show ?thesis by (subst range_loop_unfold) (auto intro: costs_le [OF costs_give])
  qed
qed

text \<open>The bounds of the four pulls, in terms of the number of blocks they may receive.\<close>

lemma costs_pulls [cost_intros]:
  "costs (1 + 2 * nat m) (pullPeerCanonicalChain W peer latest m c)"
  "costs (1 + 2 * nat m) (pullPeerCanonicalChainFromBlock W peer start latest m c)"
  "costs (2 * nat m) (pullPeerHashLinkedFromTip W peer latest m c)"
  "costs 500 (pullPeerBlocksByNumberRange W peer start latest m c)"
proof -
  have ended: "costs 0 (case r of Ended result changed \<Rightarrow> give (result, changed)
      | Exhausted received changed \<Rightarrow> andthen (rebuild_after W before changed) (\<lambda>changed. give (0 < received, changed)))" for r before
    by (cases r) (auto intro!: costs_give costs_andthen [where j = 0 and k = 0, simplified] costs_rebuild_after)
  have canonical: "costs (2 * nat m) (canonical_loop W peer latest m before pb 1 c)" for before pb c
    by (rule costs_le [OF costs_canonical_loop]) simp
  have from_block: "costs (2 * nat m) (from_block_loop W peer latest m pb 1 c)" for pb c
    by (rule costs_le [OF costs_from_block_loop]) simp
  show "costs (1 + 2 * nat m) (pullPeerCanonicalChain W peer latest m c)"
    unfolding pullPeerCanonicalChain_def
    by (rule costs_le, (rule cost_intros ended canonical)+) auto
  show "costs (1 + 2 * nat m) (pullPeerCanonicalChainFromBlock W peer start latest m c)"
    unfolding pullPeerCanonicalChainFromBlock_def
    by (rule costs_le, (rule cost_intros from_block)+) auto
  show "costs (2 * nat m) (pullPeerHashLinkedFromTip W peer latest m c)"
    unfolding pullPeerHashLinkedFromTip_def using costs_hash_linked_loop [of m 0] by simp
  show "costs 500 (pullPeerBlocksByNumberRange W peer start latest m c)"
    unfolding pullPeerBlocksByNumberRange_def
    by (rule costs_le, (rule cost_intros costs_range_loop)+) (simp add: MAX_BLOCK_NUMBER_REPAIR_SCAN_def)
qed

lemma costs_repair [cost_intros]: "costs (502 + 4 * nat m) (pullPeerForkRepairWindow W peer first local latest m c)"
  unfolding pullPeerForkRepairWindow_def repair_window_def Let_def
  by (rule costs_le, (rule cost_intros)+) simp

section \<open>The whole download\<close>

lemma costs_try_repair [cost_intros]: "costs (502 + 6 * nat m) (try_repair W peer first latest before m c)"
  unfolding try_repair_def by (rule costs_le, (rule cost_intros costs_latest_or_rebuild)+) simp

lemma costs_sum [cost_intros]:
  "(\<And>a. costs j (f a)) \<Longrightarrow> (\<And>b. costs k (g b)) \<Longrightarrow> costs (max j k) (case r of Inl a \<Rightarrow> f a | Inr b \<Rightarrow> g b)"
  by (cases r) (auto intro: costs_le [of j] costs_le [of k])

lemma costs_steps:
  assumes "0 \<le> n"
  shows "costs 40503 (step_no_answer W peer status first latest before n c)"
    and "costs 40503 (step_nothing_stored W peer status first latest before n c)"
    and "costs 40504 (step_stored W peer status first latest before n k c)"
proof -
  have m: "nat (MAX_BLOCKS_PER_SYNC_BATCH - n) \<le> 5000" "nat MAX_BLOCKS_PER_SYNC_BATCH = 5000"
    using assms by (auto simp: MAX_BLOCKS_PER_SYNC_BATCH_def)
  show "costs 40503 (step_no_answer W peer status first latest before n c)"
    unfolding step_no_answer_def by (rule costs_le, (rule cost_intros costs_progress)+) (use m in auto)
  show "costs 40503 (step_nothing_stored W peer status first latest before n c)"
    unfolding step_nothing_stored_def by (rule costs_le, (rule cost_intros costs_progress)+) (use m in auto)
  show "costs 40504 (step_stored W peer status first latest before n k c)"
    unfolding step_stored_def Let_def
    by (rule costs_le, (rule cost_intros costs_progress costs_stall costs_latest_or_rebuild)+) (use m in auto)
qed

lemma costs_sync_step: "0 \<le> n \<Longrightarrow> costs 40507 (sync_step W peer status first latest before n c)"
  unfolding sync_step_def fetch_next_def storeParsedBlocks_def Let_def
  by (rule costs_le, (rule cost_intros costs_steps; assumption?)+) auto

lemma costs_sync_loop: "0 \<le> n \<Longrightarrow> costs (1 + 40508 * nat (peerLatest - latest)) (sync_loop W peer status first peerLatest latest n c)"
proof (induction "nat (peerLatest - latest)" arbitrary: latest n c rule: less_induct)
  case less
  define k where "k = 1 + 40508 * (nat (peerLatest - latest) - 1)"
  have run: "costs 1 (calm (is_running W))" by (simp add: costs_def calm_def is_running_def event_def Let_def)
  show ?case
  proof (cases "latest < peerLatest")
    case True
    have rest: "costs k (sync_loop W peer status first peerLatest latest' n' c')" if "latest < latest'" "n \<le> n'" for latest' n' c'
      using that True less.prems unfolding k_def by (intro costs_le [OF less.hyps]) auto
    have turn: "costs (40507 + k) (andthen (sync_step W peer status first peerLatest latest n c) (\<lambda>t.
        case t of Leave c \<Rightarrow> give c | Again latest' n' c' \<Rightarrow> sync_loop W peer status first peerLatest latest' n' c'))"
      by (rule costs_bind [OF costs_sync_step [OF less.prems] sync_step_onward])
        (auto simp: onward_def intro: rest costs_le [OF costs_give] split: turn.splits)
    have "costs (max 0 (1 + max 0 (40507 + k))) (sync_loop W peer status first peerLatest latest n c)"
      by (subst sync_loop_unfold) (intro costs_if costs_give costs_andthen [OF run] turn)
    then show ?thesis using True by (auto simp: k_def elim!: costs_le)
  next
    case False
    have "costs (max 0 (1 + 0)) (sync_loop W peer status first peerLatest latest n c)"
      by (subst sync_loop_unfold) (use False in \<open>simp only: linorder_not_less simp_thms if_True\<close>,
        intro costs_if costs_give costs_andthen [OF run])
    then show ?thesis by (auto elim!: costs_le)
  qed
qed

lemma costs_sync_loop_start: "costs (1 + 40508 * nat peerLatest) (sync_loop W peer status first peerLatest latest 0 c)"
proof (cases "-1 < latest")
  case True
  then show ?thesis by (intro costs_le [OF costs_sync_loop]) auto
next
  case False
  then show ?thesis by (subst sync_loop_unfold) (auto intro: costs_le [OF costs_give])
qed

lemma costs_note_result: "costs 1 (note_result W c)"
proof -
  have "costs 1 (update (if c then notePeerSyncProgress else notePeerSyncStall W))"
    using costs_progress costs_stall by (cases c) (auto intro: costs_le)
  then show ?thesis unfolding note_result_def by (rule costs_le [OF costs_andthen [OF _ costs_give]]) simp
qed

lemma costs_sync_down: "costs (3 + 40508 * nat peerLatest) (sync_down W peer status first peerLatest latest c)"
  unfolding sync_down_def storeBlocks_def
  by (rule costs_le, (rule cost_intros costs_sync_loop_start costs_note_result)+) simp

lemma costs_sync_level: "costs 30504 (sync_level W peer status first peerLatest h latest c)"
  unfolding sync_level_def
  by (rule costs_le, (rule cost_intros costs_progress costs_note_result)+) (simp add: MAX_BLOCKS_PER_SYNC_BATCH_def)

lemma costs_sync_blocks: "costs (30504 + 40508 * nat peerLatest) (sync_blocks W peer status first peerLatest h latest c)"
  unfolding sync_blocks_def
  by (rule costs_le, (rule cost_intros costs_rebuild costs_sync_level costs_sync_down)+) simp

lemma costs_check_local: "costs 10001 (check_local W peer first latest peerLatest)"
  unfolding check_local_def
  by (rule costs_le, (rule cost_intros)+) (simp add: MAX_BLOCKS_PER_SYNC_BATCH_def)

lemma costs_refresh: "costs 2 (calm (refresh_status W peer))"
  by (simp add: costs_def calm_def refresh_status_def statusFromPeer_def local_epoch_def http_def event_def
      touch_status_def set_status_def savePeerCache_def Let_def case_prod_beta)

lemma costs_error: "costs 1 (update (set_error W peer e))"
  by (simp add: costs_def update_def set_error_def notePeerSyncStall_def local_epoch_def event_def savePeerCache_def
      set_status_def Let_def)

lemma costs_option [cost_intros]:
  "costs j f \<Longrightarrow> (\<And>b. costs k (g b)) \<Longrightarrow> costs (max j k) (case r of None \<Rightarrow> f | Some b \<Rightarrow> g b)"
  by (cases r) (auto intro: costs_le [of j] costs_le [of k])

text \<open>The bound of \<open>sync_with\<close> depends on the tip that the first answer claims.\<close>

lemma sync_with_events:
  "n_events (snd (sync_with W peer first latest s)) \<le>
   n_events s + 40510 + 40508 * nat (latestBlockFromStatus (w_http W (n_events s) (Get (peer @ ''/api/status''))))"
proof -
  let ?json = "w_http W (n_events s) (Get (peer @ ''/api/status''))"
  let ?rest = "\<lambda>json. andthen (calm (refresh_status W peer)) (\<lambda>status.
       let peerLatestBlockId = latestBlockFromStatus json;
           fail = (\<lambda>error. andthen (update (set_error W peer error)) (\<lambda>_. give False))
       in if \<not> p_rulesCompatible status then fail ''consensus rules mismatch''
          else if peerLatestBlockId < 0 then fail ''missing latest block''
          else if \<not> genesisMatches (env_config (w_env W)) (firstBlockFromStatus json) (firstBlockHashFromStatus json)
          then fail ''genesis mismatch''
          else
            andthen (check_local W peer first latest peerLatestBlockId) (\<lambda>local.
              case local of
                None \<Rightarrow> fail ''local genesis mismatch''
              | Some (firstBlockId, latestBlockId, changed) \<Rightarrow>
                  sync_blocks W peer status firstBlockId peerLatestBlockId (latestBlockHashFromStatus json)
                    latestBlockId changed))"
  have rest: "costs (40508 + 40508 * nat (latestBlockFromStatus json)) (?rest json)" for json
    unfolding Let_def
    by (rule costs_le, (rule cost_intros costs_refresh costs_error costs_check_local costs_sync_blocks)+) simp
  have "sync_with W peer first latest s = ?rest ?json (event s)"
    unfolding sync_with_def andthen_def [of "fetch W (peer @ ''/api/status'')"]
    by (simp add: fetch_def calm_def http_def)
  moreover have "n_events (snd (?rest ?json (event s))) \<le> n_events (event s) + (40508 + 40508 * nat (latestBlockFromStatus ?json))"
    using rest unfolding costs_def by blast
  ultimately show ?thesis by (simp add: event_def)
qed

text \<open>
  C24. A download ends, whatever the peer answers: \<open>syncFromPeer\<close> returns after a number of
  requests and looks at the clock that is bounded in terms of the tip the peer claims in its
  first answer, however its answers change from request to request.
\<close>

theorem sync_terminates:
  "n_events (snd (syncFromPeer W url s)) \<le> n_events s +
     50000 * (1 + nat (latestBlockFromStatus (w_http W (n_events s + 2) (Get (normalizePeerUrl url @ ''/api/status'')))))"
proof -
  let ?s = "snd (is_running W (snd (peerSyncBackoffActive W s)))"
  have n: "n_events ?s = n_events s + 2" "n_events (snd (peerSyncBackoffActive W s)) = n_events s + 1"
    by (simp_all add: is_running_def peerSyncBackoffActive_def local_epoch_def event_def Let_def)
  have bound: "n_events (snd (sync_with W peer first latest t)) \<le> n_events s +
      50000 * (1 + nat (latestBlockFromStatus (w_http W (n_events s + 2) (Get (peer @ ''/api/status'')))))"
    if "n_events t = n_events s + 2" for peer first latest t
    using sync_with_events [of W peer first latest t] unfolding that by simp
  show ?thesis
    unfolding syncFromPeer_def case_prod_beta Let_def
    by (auto simp only: n snd_conv node.simps split: bool.split if_split intro!: bound) (simp_all add: n)
qed

end
