(* ===== verification/LedgerMoney.thy ===== *)
theory LedgerMoney
  imports LedgerFacts
begin

text \<open>
  The money of the ledger. Balances are doubles, so addition rounds; on amounts that are
  multiples of \<open>1 / 2 ^ k\<close> and whose total volume stays within \<open>2 ^ (53 - k)\<close> nothing is
  rounded. Under that bound the balances the code computes are the exact sums of the
  credits and debits of the records that count, and the balances add up to the issued
  supply.
\<close>

section \<open>Maps of amounts\<close>

definition vd :: "double \<Rightarrow> rat" where
  "vd d = (case dval d of None \<Rightarrow> 0 | Some x \<Rightarrow> x)"

lemma vd_Some [simp]: "dval d = Some x \<Longrightarrow> vd d = x"
  by (simp add: vd_def)

lemma vd_0 [simp]: "vd (DFin x) = x"
  by simp

definition vsum :: "(rat \<Rightarrow> rat) \<Rightarrow> balances \<Rightarrow> rat" where
  "vsum g bal = (\<Sum>e\<leftarrow>bal. g (vd (snd e)))"

lemma sm_get_above: "sm_inv (e # m) \<Longrightarrow> \<not> fst e < k \<Longrightarrow> fst e \<noteq> k \<Longrightarrow> sm_get (e # m) k = None"
proof -
  assume "sm_inv (e # m)" and "\<not> fst e < k" "fst e \<noteq> k"
  then have "k \<notin> fst ` set (e # m)" by (force simp: sm_inv_def)
  then show ?thesis unfolding sm_get_def map_of_eq_None_iff .
qed

lemma vsum_put:
  "sm_inv bal \<Longrightarrow> g 0 = 0 \<Longrightarrow>
   vsum g (sm_put k v bal) = vsum g bal - g (vd (sm_at (DFin 0) bal k)) + g (vd v)"
proof (induction bal)
  case Nil
  then show ?case by (simp add: vsum_def sm_at_def sm_get_def)
next
  case (Cons e bal)
  have inv: "sm_inv bal" using Cons.prems(1) by (simp add: sm_inv_def)
  consider "fst e = k" | "fst e < k" | "\<not> fst e < k" "fst e \<noteq> k" by blast
  then show ?case
  proof cases
    case 1
    then show ?thesis by (cases e) (simp add: vsum_def sm_at_def sm_get_def)
  next
    case 2
    then have "sm_at (DFin 0) (e # bal) k = sm_at (DFin 0) bal k"
      by (cases e) (auto simp: sm_at_def sm_get_def)
    with 2 Cons.IH [OF inv Cons.prems(2)] show ?thesis by (simp add: vsum_def)
  next
    case 3
    then show ?thesis
      using sm_get_above [OF Cons.prems(1) 3] Cons.prems(2) by (simp add: vsum_def sm_at_def)
  qed
qed

definition vtotal :: "balances \<Rightarrow> rat" where
  "vtotal bal = (\<Sum>e\<leftarrow>bal. vd (snd e))"

lemma vtotal_put:
  "sm_inv bal \<Longrightarrow> vtotal (sm_put k v bal) = vtotal bal - vd (sm_at (DFin 0) bal k) + vd v"
  using vsum_put [of bal "\<lambda>x. x"] by (simp add: vsum_def vtotal_def)

definition money :: "nat \<Rightarrow> rat \<Rightarrow> balances \<Rightarrow> bool" where
  "money k V bal \<longleftrightarrow> sm_inv bal \<and> (\<forall>e \<in> set bal. \<exists>x. dval (snd e) = Some x \<and> on_grid k x) \<and> vsum abs bal \<le> V"

lemma money_at: "money k V bal \<Longrightarrow> \<exists>x. dval (sm_at (DFin 0) bal key) = Some x \<and> on_grid k x"
  by (auto simp: money_def sm_at_def sm_get_def on_grid_0 split: option.splits dest!: map_of_SomeD)

lemma vsum_abs_nonneg: "0 \<le> vsum abs bal"
  unfolding vsum_def by (induction bal) auto

lemma money_at_le: "money k V bal \<Longrightarrow> \<bar>vd (sm_at (DFin 0) bal key)\<bar> \<le> V"
proof (cases "sm_get bal key")
  case None
  moreover assume "money k V bal"
  ultimately show ?thesis using vsum_abs_nonneg [of bal] by (simp add: money_def sm_at_def)
next
  case (Some v)
  then have "(key, v) \<in> set bal" by (simp add: sm_get_def map_of_SomeD)
  then have "\<bar>vd v\<bar> \<le> vsum abs bal"
    unfolding vsum_def by (intro member_le_sum_list) force+
  moreover assume "money k V bal"
  ultimately show ?thesis using Some by (simp add: money_def sm_at_def)
qed

text \<open>One change of a balance, within the bound: exact, and the volume grows by the amount.\<close>

lemma put_delta:
  fixes bal :: balances and key :: string and d :: double
  assumes m: "money k V bal" and d: "dval d = Some x" "on_grid k x" and V: "V + \<bar>x\<bar> \<le> grid_cap k" and k: "k \<le> 1074"
  defines "new \<equiv> sm_put key (dadd (sm_at (DFin 0) bal key) d) bal"
  shows "money k (V + \<bar>x\<bar>) new" and "vtotal new = vtotal bal + x"
    and "vd (sm_at (DFin 0) new q) = vd (sm_at (DFin 0) bal q) + (if q = key then x else 0)"
proof -
  obtain y where y: "dval (sm_at (DFin 0) bal key) = Some y" "on_grid k y" using money_at [OF m] by blast
  have "\<bar>y\<bar> \<le> V" using money_at_le [OF m, of key] y by simp
  then have "\<bar>y + x\<bar> \<le> grid_cap k" using V by linarith
  then have s: "dval (dadd (sm_at (DFin 0) bal key) d) = Some (y + x)"
    using y d k by (intro dadd_exact)
  have inv: "sm_inv bal" using m by (simp add: money_def)
  have "vsum abs new = vsum abs bal - \<bar>y\<bar> + \<bar>y + x\<bar>"
    unfolding new_def using vsum_put [OF inv, of abs] s y by simp
  then have "vsum abs new \<le> V + \<bar>x\<bar>" using m by (simp add: money_def) linarith
  moreover have "\<exists>z. dval (snd e) = Some z \<and> on_grid k z" if "e \<in> set new" for e
    using subsetD [OF set_sm_put that [unfolded new_def]] m s y(2) d(2) by (auto simp: money_def on_grid_add)
  ultimately show "money k (V + \<bar>x\<bar>) new" using inv by (simp add: money_def smap_simps new_def)
  show "vtotal new = vtotal bal + x"
    unfolding new_def using vtotal_put [OF inv] s y by simp
  show "vd (sm_at (DFin 0) new q) = vd (sm_at (DFin 0) bal q) + (if q = key then x else 0)"
    using s y by (simp add: new_def smap_simps)
qed

lemma money_mono: "money k V bal \<Longrightarrow> V \<le> W \<Longrightarrow> money k W bal"
  by (auto simp: money_def)

lemma add_delta:
  assumes m: "money k V bal" and d: "dval d = Some x" "on_grid k x" and V: "V + \<bar>x\<bar> \<le> grid_cap k" and k: "k \<le> 1074"
  shows "money k (V + \<bar>x\<bar>) (addBalanceDelta key d bal)"
    and "vtotal (addBalanceDelta key d bal) = vtotal bal + (if key = [] then 0 else x)"
    and "vd (sm_at (DFin 0) (addBalanceDelta key d bal) q) =
      vd (sm_at (DFin 0) bal q) + (if key \<noteq> [] \<and> q = key then x else 0)"
  using put_delta [OF assms, where key = key] money_mono [OF m, of "V + \<bar>x\<bar>"]
  by (simp_all add: addBalanceDelta_def)

section \<open>Records on the grid\<close>

text \<open>A record whose amount and fee are multiples of \<open>1 / 2 ^ k\<close>, and the volume it may move.\<close>

definition grid_record :: "nat \<Rightarrow> record_structure \<Rightarrow> bool" where
  "grid_record k r \<longleftrightarrow>
     (\<exists>a. dval (r_amount r) = Some a \<and> on_grid k a) \<and> (\<exists>f. dval (r_fee r) = Some f \<and> on_grid k f)"

definition rec_volume :: "record_structure \<Rightarrow> rat" where
  "rec_volume r = 2 + 2 * \<bar>vd (r_amount r)\<bar> + 2 * \<bar>vd (r_fee r)\<bar>"

text \<open>What a record does to the balance of a key and to the supply, in exact arithmetic.\<close>

definition exact_issue :: "record_structure \<Rightarrow> rat" where
  "exact_issue r = (let a = vd (r_amount r) in if 1 < a \<or> a < 0 then 1 else a)"

definition exact_delta :: "string \<Rightarrow> block_structure \<Rightarrow> record_structure \<Rightarrow> rat" where
  "exact_delta key b r =
     (let a = vd (r_amount r); f = vd (r_fee r)
      in if r_type r = ISSUE_CURRENCY then (if r_recipient r = key then exact_issue r else 0)
         else if r_type r = TRANSFER_CURRENCY then
           (if r_recipient r = key then a else 0) - (if r_sender r = key then a + f else 0) +
           (if b_creator b = key then f else 0)
         else if r_type r = VOTE then
           (if b_creator b = key then f else 0) - (if r_sender r = key then f else 0)
         else 0)"

definition exact_issued :: "record_structure \<Rightarrow> rat" where
  "exact_issued r = (if r_type r = ISSUE_CURRENCY then exact_issue r else 0)"

text \<open>The keys a record moves money between are all present.\<close>

definition paid_keys :: "block_structure \<Rightarrow> record_structure \<Rightarrow> bool" where
  "paid_keys b r \<longleftrightarrow>
     (r_type r = ISSUE_CURRENCY \<longrightarrow> r_recipient r \<noteq> []) \<and>
     (r_type r = TRANSFER_CURRENCY \<longrightarrow> r_recipient r \<noteq> [] \<and> r_sender r \<noteq> [] \<and> b_creator b \<noteq> []) \<and>
     (r_type r = VOTE \<longrightarrow> r_sender r \<noteq> [] \<and> b_creator b \<noteq> [])"

lemma issue_amount_exact:
  assumes "grid_record k r"
  shows "dval (issue_amount (r_amount r)) = Some (exact_issue r)" "on_grid k (exact_issue r)" "\<bar>exact_issue r\<bar> \<le> 1"
proof -
  obtain a where a: "dval (r_amount r) = Some a" "on_grid k a" using assms by (auto simp: grid_record_def)
  have "dlt (DFin 1) (r_amount r) \<longleftrightarrow> 1 < a" "dlt (r_amount r) (DFin 0) \<longleftrightarrow> a < 0"
    using a by (auto intro!: dlt_val)
  then show "dval (issue_amount (r_amount r)) = Some (exact_issue r)" "on_grid k (exact_issue r)" "\<bar>exact_issue r\<bar> \<le> 1"
    using a by (auto simp: issue_amount_def exact_issue_def exact_simps)
qed

lemma grid_recordE:
  assumes "grid_record k r"
  obtains a f where "dval (r_amount r) = Some a" "on_grid k a" "dval (r_fee r) = Some f" "on_grid k f"
    "rec_volume r = 2 + 2 * \<bar>a\<bar> + 2 * \<bar>f\<bar>"
  using assms by (auto simp: grid_record_def rec_volume_def)

text \<open>The changes of balances a record makes, in order.\<close>

definition record_deltas :: "block_structure \<Rightarrow> record_structure \<Rightarrow> (string \<times> double) list" where
  "record_deltas b r =
     (if r_type r = ISSUE_CURRENCY then [(r_recipient r, issue_amount (r_amount r))]
      else if r_type r = TRANSFER_CURRENCY then
        [(r_recipient r, r_amount r), (r_sender r, dsub (dneg (r_amount r)) (r_fee r)), (b_creator b, r_fee r)]
      else if r_type r = VOTE then [(r_sender r, dneg (r_fee r)), (b_creator b, r_fee r)]
      else [])"

definition add_deltas :: "(string \<times> double) list \<Rightarrow> balances \<Rightarrow> balances" where
  "add_deltas ds bal = foldl (\<lambda>bal (key, d). addBalanceDelta key d bal) bal ds"

lemma apply_deltas: "fst (applyRecordToBalances b r (bal, S)) = add_deltas (record_deltas b r) bal"
  by (simp add: applyRecordToBalances_def record_deltas_def add_deltas_def)

lemma add_deltas_exact:
  assumes "money k V bal" and "\<forall>e \<in> set ds. \<exists>x. dval (snd e) = Some x \<and> on_grid k x"
    and "V + (\<Sum>e\<leftarrow>ds. \<bar>vd (snd e)\<bar>) \<le> grid_cap k" and "k \<le> 1074"
  shows "money k (V + (\<Sum>e\<leftarrow>ds. \<bar>vd (snd e)\<bar>)) (add_deltas ds bal) \<and>
    vtotal (add_deltas ds bal) = vtotal bal + (\<Sum>e\<leftarrow>ds. if fst e = [] then 0 else vd (snd e)) \<and>
    vd (sm_at (DFin 0) (add_deltas ds bal) q) =
      vd (sm_at (DFin 0) bal q) + (\<Sum>e\<leftarrow>ds. if fst e \<noteq> [] \<and> q = fst e then vd (snd e) else 0)"
  using assms
proof (induction ds arbitrary: V bal)
  case Nil
  then show ?case by (simp add: add_deltas_def)
next
  case (Cons e ds)
  obtain x where x: "dval (snd e) = Some x" "on_grid k x" using Cons.prems(2) by auto
  have pos: "0 \<le> (\<Sum>e\<leftarrow>ds. \<bar>vd (snd e)\<bar>)" by (rule sum_list_nonneg) auto
  have le: "V + \<bar>x\<bar> \<le> grid_cap k" using Cons.prems(3) x pos by simp
  note step = add_delta [OF Cons.prems(1) x le Cons.prems(4)]
  have "V + \<bar>x\<bar> + (\<Sum>e\<leftarrow>ds. \<bar>vd (snd e)\<bar>) \<le> grid_cap k" using Cons.prems(3) x by (simp add: add.assoc)
  from Cons.IH [OF step(1) _ this Cons.prems(4), of "fst e"] Cons.prems(2)
  show ?case using step(2) [of "fst e"] step(3) [of "fst e" q] x
    by (cases e) (simp add: add_deltas_def add.assoc)
qed

lemma record_deltas_grid:
  assumes "grid_record k r" and "rec_volume r - 1 \<le> grid_cap k" and "k \<le> 1074"
  shows "\<forall>e \<in> set (record_deltas b r). \<exists>x. dval (snd e) = Some x \<and> on_grid k x"
    and "(\<Sum>e\<leftarrow>record_deltas b r. \<bar>vd (snd e)\<bar>) \<le> rec_volume r - 1"
    and "(\<Sum>e\<leftarrow>record_deltas b r. if fst e \<noteq> [] \<and> q = fst e then vd (snd e) else 0) =
      (if q = [] then 0 else exact_delta q b r)"
    and "paid_keys b r \<Longrightarrow> (\<Sum>e\<leftarrow>record_deltas b r. if fst e = [] then 0 else vd (snd e)) = exact_issued r"
proof -
  obtain a f where a: "dval (r_amount r) = Some a" "on_grid k a" and f: "dval (r_fee r) = Some f" "on_grid k f"
    and v: "rec_volume r = 2 + 2 * \<bar>a\<bar> + 2 * \<bar>f\<bar>" by (rule grid_recordE [OF assms(1)])
  note iss = issue_amount_exact [OF assms(1)]
  have "\<bar>- a - f\<bar> \<le> grid_cap k" using assms(2) v by linarith
  then have deb: "dval (dsub (dneg (r_amount r)) (r_fee r)) = Some (- a - f)"
    using a f assms(3) by (intro dsub_exact [of _ "- a" _ f]) (auto simp: exact_simps)
  have neg: "dval (dneg (r_fee r)) = Some (- f)" using f by simp
  note vals = a(1) f(1) deb neg iss(1)
  show "\<forall>e \<in> set (record_deltas b r). \<exists>x. dval (snd e) = Some x \<and> on_grid k x"
    using a(2) f(2) iss(2) by (auto simp: record_deltas_def vals exact_simps simp del: dval_dneg)
  show "(\<Sum>e\<leftarrow>record_deltas b r. \<bar>vd (snd e)\<bar>) \<le> rec_volume r - 1"
    using iss(3) by (simp add: record_deltas_def vals v del: dval_dneg) (intro conjI impI; linarith)
  show "(\<Sum>e\<leftarrow>record_deltas b r. if fst e \<noteq> [] \<and> q = fst e then vd (snd e) else 0) =
      (if q = [] then 0 else exact_delta q b r)"
    by (cases "q = []") (auto simp: record_deltas_def exact_delta_def vals simp del: dval_dneg)
  show "paid_keys b r \<Longrightarrow> (\<Sum>e\<leftarrow>record_deltas b r. if fst e = [] then 0 else vd (snd e)) = exact_issued r"
    by (simp add: record_deltas_def exact_issued_def paid_keys_def vals del: dval_dneg)
qed

lemma apply_record_exact:
  assumes m: "money k V bal" and r: "grid_record k r" and V: "V + rec_volume r - 1 \<le> grid_cap k" and k: "k \<le> 1074"
  shows "money k (V + rec_volume r - 1) (fst (applyRecordToBalances b r (bal, S)))"
    and "q \<noteq> [] \<Longrightarrow> vd (sm_at (DFin 0) (fst (applyRecordToBalances b r (bal, S))) q) =
      vd (sm_at (DFin 0) bal q) + exact_delta q b r"
    and "paid_keys b r \<Longrightarrow> vtotal (fst (applyRecordToBalances b r (bal, S))) = vtotal bal + exact_issued r"
proof -
  have V0: "0 \<le> V" using m vsum_abs_nonneg [of bal] by (simp add: money_def)
  then have rv: "rec_volume r - 1 \<le> grid_cap k" using V by linarith
  note d = record_deltas_grid [OF r rv k]
  have vol: "V + (\<Sum>e\<leftarrow>record_deltas b r. \<bar>vd (snd e)\<bar>) \<le> V + rec_volume r - 1" using d(2) [of b] by linarith
  then have cap: "V + (\<Sum>e\<leftarrow>record_deltas b r. \<bar>vd (snd e)\<bar>) \<le> grid_cap k" using V by linarith
  note ex = add_deltas_exact [OF m d(1) [of b] cap k]
  show "money k (V + rec_volume r - 1) (fst (applyRecordToBalances b r (bal, S)))"
    unfolding apply_deltas using ex vol by (blast intro: money_mono)
  show "q \<noteq> [] \<Longrightarrow> vd (sm_at (DFin 0) (fst (applyRecordToBalances b r (bal, S))) q) =
      vd (sm_at (DFin 0) bal q) + exact_delta q b r"
    unfolding apply_deltas using ex [of q] d(3) [of q b] by simp
  show "paid_keys b r \<Longrightarrow> vtotal (fst (applyRecordToBalances b r (bal, S))) = vtotal bal + exact_issued r"
    unfolding apply_deltas using ex d(4) [of b] by simp
qed

section \<open>Balances at a checkpoint\<close>

definition chain_records :: "block_structure list \<Rightarrow> (block_structure \<times> record_structure) list" where
  "chain_records chain = concat (map (\<lambda>b. map (Pair b) (b_records b)) chain)"

text \<open>The records that count: a record whose hash came before is left out.\<close>

fun effective :: "string set \<Rightarrow> (block_structure \<times> record_structure) list \<Rightarrow> (block_structure \<times> record_structure) list" where
  "effective seen [] = []"
| "effective seen ((b, r) # brs) =
     (if r_hash r \<noteq> [] \<and> r_hash r \<in> seen then effective seen brs
      else (b, r) # effective (if r_hash r = [] then seen else insert (r_hash r) seen) brs)"

definition volume :: "(block_structure \<times> record_structure) list \<Rightarrow> rat" where
  "volume brs = (\<Sum>br\<leftarrow>brs. rec_volume (snd br))"

lemma rec_volume_ge: "2 \<le> rec_volume r"
  by (simp add: rec_volume_def)

lemma volume_nonneg: "0 \<le> volume brs"
proof -
  have "0 \<le> rec_volume r" for r using rec_volume_ge [of r] by linarith
  then show ?thesis unfolding volume_def by (intro sum_list_nonneg) auto
qed

lemma fold_chain_records:
  "foldl (\<lambda>s b. foldl (f b) s (b_records b)) s chain = foldl (\<lambda>s (b, r). f b s r) s (chain_records chain)"
proof (induction chain arbitrary: s)
  case Nil
  then show ?case by (simp add: chain_records_def)
next
  case (Cons b chain)
  have "foldl (f b) s rs = foldl (\<lambda>s (b, r). f b s r) s (map (Pair b) rs)" for rs s
    by (induction rs arbitrary: s) simp_all
  with Cons show ?case by (simp add: chain_records_def)
qed

lemma checkpoint_exact:
  assumes "money k V bal" and "\<forall>br \<in> set brs. grid_record k (snd br)"
    and "V + volume brs \<le> grid_cap k" and "k \<le> 1074" and "q \<noteq> []"
  shows "\<exists>W bal' S'. foldl (\<lambda>s (b, r). checkpoint_record b s r) (seen, bal, S) brs = (W, bal', S') \<and>
    money k (V + volume brs) bal' \<and>
    vd (sm_at (DFin 0) bal' q) = vd (sm_at (DFin 0) bal q) + (\<Sum>(b, r)\<leftarrow>effective seen brs. exact_delta q b r)"
  using assms
proof (induction brs arbitrary: V seen bal S)
  case Nil
  then show ?case by (simp add: volume_def)
next
  case (Cons br brs)
  obtain b r where br: "br = (b, r)" by (cases br)
  have g: "grid_record k r" "\<forall>br \<in> set brs. grid_record k (snd br)" using Cons.prems(2) by (auto simp: br)
  have vol: "volume ((b, r) # brs) = rec_volume r + volume brs" by (simp add: volume_def)
  note pos = volume_nonneg [of brs] rec_volume_ge [of r]
  show ?case
  proof (cases "r_hash r \<noteq> [] \<and> r_hash r \<in> seen")
    case True
    have "money k (V + rec_volume r) bal" using Cons.prems(1) pos by (auto intro: money_mono)
    moreover have "checkpoint_record b (seen, bal, S) r = (seen, bal, S)"
      using True by (simp add: checkpoint_record_def)
    ultimately show ?thesis
      using Cons.IH [OF _ g(2) _ Cons.prems(4,5), of "V + rec_volume r" bal seen S] True Cons.prems(3)
      by (simp add: br vol add.assoc)
  next
    case False
    let ?seen = "if r_hash r = [] then seen else insert (r_hash r) seen"
    obtain bal1 S1 where a: "applyRecordToBalances b r (bal, S) = (bal1, S1)" by fastforce
    have le: "V + rec_volume r - 1 \<le> grid_cap k" using Cons.prems(3) pos vol unfolding br by linarith
    note step = apply_record_exact [OF Cons.prems(1) g(1) le Cons.prems(4), where b = b and S = S, unfolded a fst_conv]
    have m1: "money k (V + rec_volume r) bal1" using money_mono [OF step(1)] by simp
    have le1: "V + rec_volume r + volume brs \<le> grid_cap k" using Cons.prems(3) vol unfolding br by linarith
    have cr: "checkpoint_record b (seen, bal, S) r = (?seen, bal1, S1)"
      using False by (auto simp: checkpoint_record_def a)
    have eff: "effective seen (br # brs) = (b, r) # effective ?seen brs" using False by (auto simp: br)
    from Cons.IH [OF m1 g(2) le1 Cons.prems(4,5), of ?seen S1] step(2) [OF Cons.prems(5)]
    show ?thesis unfolding eff by (simp add: br cr vol add.assoc)
  qed
qed

text \<open>The blocks \<open>balancesThroughBlock\<close> visits.\<close>

definition checkpoint_chain :: "env \<Rightarrow> dbh \<Rightarrow> int \<Rightarrow> block_structure list" where
  "checkpoint_chain E db checkpoint =
     (if getFirstBlockId db < 0 \<or> getLatestBlockId db < 0 \<or> checkpoint < getFirstBlockId db then []
      else walk_chain (getNextBlock E db) (\<lambda>n. checkpoint < n) (getLatestBlockId db) 0
             (getBlock E db (getFirstBlockId db)))"

lemma balancesThroughBlock_fold:
  "balancesThroughBlock E db cp =
     fst (snd (foldl (\<lambda>s (b, r). checkpoint_record b s r) ({}, [], DFin 0) (chain_records (checkpoint_chain E db cp))))"
proof -
  have "chain_records [] = []" by (simp add: chain_records_def)
  then show ?thesis by (auto simp: balancesThroughBlock_def checkpoint_chain_def Let_def fold_chain_records)
qed

lemma money_Nil: "money k 0 []"
  by (simp add: money_def smap_simps vsum_def)

text \<open>
  C10. The balance of a key at a checkpoint is exact: when amounts and fees are multiples of
  \<open>1 / 2 ^ k\<close> and the volume of the chain stays within \<open>2 ^ (53 - k)\<close>, the double the code
  returns is the sum, in rational arithmetic, of what every record that counts credits to
  the key less what it debits.
\<close>

theorem balance_exact:
  assumes "key \<noteq> []" and "k \<le> 1074"
    and "\<forall>br \<in> set (chain_records (checkpoint_chain E db cp)). grid_record k (snd br)"
    and "volume (chain_records (checkpoint_chain E db cp)) \<le> grid_cap k"
  shows "dval (balanceAtBlock E db key cp) =
    Some (\<Sum>(b, r)\<leftarrow>effective {} (chain_records (checkpoint_chain E db cp)). exact_delta key b r)"
proof -
  let ?brs = "chain_records (checkpoint_chain E db cp)"
  from checkpoint_exact [OF money_Nil assms(3) _ assms(2,1), of "{}" "DFin 0"] assms(4)
  obtain W bal S where f: "foldl (\<lambda>s (b, r). checkpoint_record b s r) ({}, [], DFin 0) ?brs = (W, bal, S)"
    and m: "money k (volume ?brs) bal"
    and v: "vd (sm_at (DFin 0) bal key) = (\<Sum>(b, r)\<leftarrow>effective {} ?brs. exact_delta key b r)"
    by (auto simp: smap_simps)
  from money_at [OF m, of key] v show ?thesis
    using assms(1) by (auto simp: balanceAtBlock_def balancesThroughBlock_fold f)
qed

section \<open>Conservation\<close>

definition ledger_money :: "nat \<Rightarrow> rat \<Rightarrow> ledger_state \<Rightarrow> bool" where
  "ledger_money k V st \<longleftrightarrow> money k V (ls_balances st) \<and> ls_total st = DFin 0 \<and>
     (\<exists>x. dval (ls_issued st) = Some x \<and> on_grid k x \<and> \<bar>x\<bar> \<le> V \<and> vtotal (ls_balances st) = x)"

lemma ledger_money_frame:
  "ls_balances st' = ls_balances st \<Longrightarrow> ls_issued st' = ls_issued st \<Longrightarrow> ls_total st' = ls_total st \<Longrightarrow>
   ledger_money k V st' = ledger_money k V st"
  by (simp add: ledger_money_def)

lemma ledger_money_mono: "ledger_money k V st \<Longrightarrow> V \<le> W \<Longrightarrow> ledger_money k W st"
  by (auto simp: ledger_money_def intro: money_mono)

lemma ledger_money_claim: "ledger_money k V (bs_result (build_claim key n s)) = ledger_money k V (bs_result s)"
  by (rule ledger_money_frame) (simp_all add: build_claim_def split: prod.splits)

lemma ledger_money_join: "ledger_money k V (bs_result (build_join w b r s)) = ledger_money k V (bs_result s)"
  by (rule ledger_money_frame) (simp_all add: build_join_def Let_def build_claim_def split: prod.splits)

lemma ledger_money_heartbeat:
  "ledger_money k V (bs_result (build_heartbeat w b r s)) = ledger_money k V (bs_result s)"
  by (rule ledger_money_frame) (simp_all add: build_heartbeat_def)

lemma ledger_money_carry_forward:
  assumes s: "ledger_money k V (bs_result s)" and "r_sender r \<noteq> []" and le: "V + 1 \<le> grid_cap k" and k: "k \<le> 1074"
  shows "ledger_money k (V + 1) (bs_result (build_carry_forward r s))"
proof (cases "carryForwardKey r \<noteq> [] \<and> carryForwardKey r \<notin> ls_cf_keys (bs_result s)")
  case False
  then have "build_carry_forward r s = s" by (auto simp: build_carry_forward_def Let_def)
  then show ?thesis using s by (simp add: ledger_money_mono)
next
  case True
  obtain x where x: "dval (ls_issued (bs_result s)) = Some x" "on_grid k x" "\<bar>x\<bar> \<le> V"
      "vtotal (ls_balances (bs_result s)) = x" and m: "money k V (ls_balances (bs_result s))"
      "ls_total (bs_result s) = DFin 0"
    using s by (auto simp: ledger_money_def)
  have d: "dval CARRY_FORWARD_REWARD = Some 1" "on_grid k 1" by (simp_all add: CARRY_FORWARD_REWARD_def exact_simps)
  have "\<bar>x + 1\<bar> \<le> grid_cap k" using x(3) le by linarith
  then have i: "dval (dadd (ls_issued (bs_result s)) CARRY_FORWARD_REWARD) = Some (x + 1)"
    using x d k by (intro dadd_exact)
  note bal = add_delta [OF m(1) d _ k, of "r_sender r"]
  have "\<bar>x + 1\<bar> \<le> V + 1" using x(3) by linarith
  then show ?thesis
    using True i bal(1,2) le assms(2) x(2,4) m(2)
    by (simp add: build_carry_forward_def Let_def ledger_money_def exact_simps)
qed

lemma ledger_money_membership:
  assumes "ledger_money k V (bs_result s)" and "V + 1 \<le> grid_cap k" and "k \<le> 1074"
  shows "ledger_money k (V + 1) (bs_result (build_membership E db w b r s))"
proof -
  have "isBasicCarryForwardRecord r (b_number b) \<Longrightarrow> r_sender r \<noteq> []"
    by (auto simp: isBasicCarryForwardRecord_def split: if_splits)
  then show ?thesis
    using assms ledger_money_carry_forward [OF assms(1) _ assms(2,3), of r] ledger_money_mono [OF assms(1), of "V + 1"]
    by (simp add: build_membership_def ledger_money_join ledger_money_claim ledger_money_heartbeat)
qed

lemma supply_exact:
  assumes "dval S = Some x" "on_grid k x" "\<bar>x\<bar> \<le> V" and "grid_record k r" and "V + 1 \<le> grid_cap k" and "k \<le> 1074"
  shows "dval (snd (applyRecordToBalances b r (bal, S))) = Some (x + exact_issued r)"
    and "on_grid k (x + exact_issued r)" and "\<bar>x + exact_issued r\<bar> \<le> V + 1"
proof -
  note i = issue_amount_exact [OF assms(4)]
  have "\<bar>x + exact_issue r\<bar> \<le> grid_cap k" using i(3) assms(3,5) by linarith
  then have "dval (dadd S (issue_amount (r_amount r))) = Some (x + exact_issue r)"
    using assms i by (intro dadd_exact)
  then show "dval (snd (applyRecordToBalances b r (bal, S))) = Some (x + exact_issued r)"
    using assms(1) by (simp add: applyRecordToBalances_def exact_issued_def)
  show "on_grid k (x + exact_issued r)" using assms(2) i(2) by (simp add: exact_issued_def exact_simps)
  show "\<bar>x + exact_issued r\<bar> \<le> V + 1" using assms(3) i(3) by (simp add: exact_issued_def) linarith
qed

lemma ledger_money_money:
  assumes s: "ledger_money k V (bs_result s)" and r: "grid_record k r" "paid_keys b r"
    and le: "V + rec_volume r - 1 \<le> grid_cap k" and k: "k \<le> 1074"
  shows "ledger_money k (V + rec_volume r - 1) (bs_result (build_money b r s))"
proof -
  let ?st = "bs_result s"
  obtain x where x: "dval (ls_issued ?st) = Some x" "on_grid k x" "\<bar>x\<bar> \<le> V" "vtotal (ls_balances ?st) = x"
    and m: "money k V (ls_balances ?st)" "ls_total ?st = DFin 0" using s by (auto simp: ledger_money_def)
  obtain bal S where a: "applyRecordToBalances b r (ls_balances ?st, ls_issued ?st) = (bal, S)" by fastforce
  have le1: "V + 1 \<le> grid_cap k" using le rec_volume_ge [of r] by linarith
  note ex = apply_record_exact [OF m(1) r(1) le k, where b = b and S = "ls_issued ?st", unfolded a fst_conv]
  have "dval S = Some (x + exact_issued r)" using supply_exact(1) [OF x(1-3) r(1) le1 k, of b "ls_balances ?st"] a by simp
  note sup = this supply_exact(2,3) [OF x(1-3) r(1) le1 k]
  have "\<bar>x + exact_issued r\<bar> \<le> V + rec_volume r - 1" using sup(3) rec_volume_ge [of r] by linarith
  moreover have "bs_result (build_money b r s) =
      ?st\<lparr>ls_balances := bal, ls_issued := S, ls_nonces := build_nonce r (ls_nonces ?st)\<rparr>"
    by (simp add: build_money_def Let_def a)
  ultimately show ?thesis using ex(1) ex(3) [OF r(2)] sup(1,2) x(4) m(2) by (simp add: ledger_money_def)
qed

lemma ledger_money_record:
  assumes s: "ledger_money k V (bs_result s)" and r: "grid_record k r" "paid_keys b r"
    and le: "V + rec_volume r \<le> grid_cap k" and k: "k \<le> 1074"
  shows "ledger_money k (V + rec_volume r) (bs_result (build_record E db w b s r))"
proof (cases "r_hash r \<noteq> [] \<and> r_hash r \<in> ls_accepted (bs_result s)")
  case True
  then have "build_record E db w b s r = s" by (simp add: build_record_def)
  then show ?thesis using s rec_volume_ge [of r] by (auto intro: ledger_money_mono)
next
  case False
  let ?s = "if r_hash r \<noteq> [] then s\<lparr>bs_result := (bs_result s)\<lparr>ls_accepted := insert (r_hash r) (ls_accepted (bs_result s))\<rparr>\<rparr> else s"
  have "ledger_money k V (bs_result ?s)" using s by (simp add: ledger_money_def)
  then have "ledger_money k (V + 1) (bs_result (build_membership E db w b r ?s))"
    using le k rec_volume_ge [of r] by (intro ledger_money_membership) auto
  from ledger_money_money [OF this r _ k] le False show ?thesis by (auto simp: build_record_def Let_def)
qed

lemma ledger_money_block:
  assumes "ledger_money k V (bs_result s)" and "\<forall>r \<in> set (b_records b). grid_record k r \<and> paid_keys b r"
    and "V + volume (map (Pair b) (b_records b)) \<le> grid_cap k" and "k \<le> 1074"
  shows "ledger_money k (V + volume (map (Pair b) (b_records b))) (bs_result (build_block E db w s b))"
proof -
  have "ledger_money k V (bs_result s) \<Longrightarrow> \<forall>r \<in> set rs. grid_record k r \<and> paid_keys b r \<Longrightarrow>
      V + volume (map (Pair b) rs) \<le> grid_cap k \<Longrightarrow>
      ledger_money k (V + volume (map (Pair b) rs)) (bs_result (foldl (build_record E db w b) s rs))" for V s rs
  proof (induction rs arbitrary: V s)
    case Nil
    then show ?case by (simp add: volume_def)
  next
    case (Cons r rs)
    have vol: "V + volume (map (Pair b) (r # rs)) = V + rec_volume r + volume (map (Pair b) rs)"
      by (simp add: volume_def)
    have "V + rec_volume r \<le> grid_cap k" using Cons.prems(3) volume_nonneg [of "map (Pair b) rs"] vol by linarith
    then have "ledger_money k (V + rec_volume r) (bs_result (build_record E db w b s r))"
      using Cons.prems(1,2) assms(4) by (intro ledger_money_record) auto
    from Cons.IH [OF this] Cons.prems(2,3) show ?case unfolding vol by simp
  qed
  from this [OF _ assms(2,3)] show ?thesis
    unfolding build_block_def using assms(1) by (simp add: ledger_money_def)
qed

lemma ledger_money_chain:
  assumes "ledger_money k V (bs_result s)" and "\<forall>(b, r) \<in> set (chain_records bs). grid_record k r \<and> paid_keys b r"
    and "V + volume (chain_records bs) \<le> grid_cap k" and k: "k \<le> 1074"
  shows "ledger_money k (V + volume (chain_records bs)) (bs_result (foldl (build_block E db w) s bs))"
  using assms(1-3)
proof (induction bs arbitrary: V s)
  case Nil
  then show ?case by (simp add: volume_def chain_records_def)
next
  case (Cons b bs)
  have vol: "V + volume (chain_records (b # bs)) = V + volume (map (Pair b) (b_records b)) + volume (chain_records bs)"
    by (simp add: volume_def chain_records_def)
  have recs: "\<forall>r \<in> set (b_records b). grid_record k r \<and> paid_keys b r"
      "\<forall>(b, r) \<in> set (chain_records bs). grid_record k r \<and> paid_keys b r"
    using Cons.prems(2) by (auto simp: chain_records_def)
  have "V + volume (map (Pair b) (b_records b)) \<le> grid_cap k"
    using Cons.prems(3) volume_nonneg [of "chain_records bs"] vol by linarith
  from ledger_money_block [OF Cons.prems(1) recs(1) this k] Cons.IH [OF _ recs(2)] Cons.prems(3)
  show ?case unfolding vol by simp
qed

lemma total_exact:
  assumes "dval t = Some x" "on_grid k x" and "\<forall>e \<in> set bal. \<exists>x. dval (snd e) = Some x \<and> on_grid k x"
    and "\<bar>x\<bar> + vsum abs bal \<le> grid_cap k" and "k \<le> 1074"
  shows "dval (foldl (\<lambda>t e. dadd t (snd e)) t bal) = Some (x + vtotal bal)"
  using assms
proof (induction bal arbitrary: t x)
  case Nil
  then show ?case by (simp add: vtotal_def)
next
  case (Cons e bal)
  obtain y where y: "dval (snd e) = Some y" "on_grid k y" using Cons.prems(3) by auto
  have v: "vsum abs (e # bal) = \<bar>y\<bar> + vsum abs bal" using y by (simp add: vsum_def)
  have "\<bar>x + y\<bar> \<le> grid_cap k" using Cons.prems(4) v vsum_abs_nonneg [of bal] by linarith
  then have "dval (dadd t (snd e)) = Some (x + y)" using Cons.prems y by (intro dadd_exact) auto
  moreover have "\<bar>x + y\<bar> + vsum abs bal \<le> grid_cap k" using Cons.prems(4) v by linarith
  ultimately show ?case
    using Cons.IH [of "dadd t (snd e)" "x + y"] Cons.prems y by (simp add: vtotal_def exact_simps)
qed

lemma finish_member_money:
  "ls_balances (foldl (finish_member c hb) st ms) = ls_balances st"
  "ls_issued (foldl (finish_member c hb) st ms) = ls_issued st"
  "ls_total (foldl (finish_member c hb) st ms) = ls_total st"
  by (induction ms arbitrary: st) (simp_all add: finish_member_def Let_def)

lemma build_finish_money:
  "ls_issued (build_finish t w s) = ls_issued (bs_result s)"
  "ls_total (build_finish t w s) = foldl (\<lambda>t e. dadd t (snd e)) (ls_total (bs_result s)) (ls_balances (bs_result s))"
  by (simp_all add: build_finish_def Let_def finish_wallet_def finish_heartbeat_def finish_member_money)

text \<open>
  C2. Money is conserved: in the state \<open>build\<close> computes, the total of all balances equals the
  issued supply, as finite numbers, when amounts and fees are multiples of \<open>1 / 2 ^ k\<close>, the
  volume of the chain stays within \<open>2 ^ (53 - k)\<close> and the records name the keys they pay.
  Transfers, votes and fees only move money; issues and carry-forward rewards are counted.
\<close>

theorem ledger_conservation:
  assumes "0 \<le> getFirstBlockId db" and "0 \<le> getLatestBlockId db" and "k \<le> 1074"
    and "\<forall>(b, r) \<in> set (chain_records (build_chain E db stop)). grid_record k r \<and> paid_keys b r"
    and "volume (chain_records (build_chain E db stop)) \<le> grid_cap k"
  shows "\<exists>q. dval (ls_total (fst (build E db wallet stop []))) = Some q \<and>
    dval (ls_issued (fst (build E db wallet stop []))) = Some q"
proof -
  define s where "s = foldl (build_block E db wallet)
    \<lparr>bs_result = build_start db stop, bs_owners = [], bs_heartbeats = []\<rparr> (build_chain E db stop)"
  have b: "fst (build E db wallet stop []) = build_finish (getCurrentTimeBlock E) wallet s"
    using assms(1,2) by (simp add: build_cases smap_simps build_compute_def s_def) (simp add: build_start_def Let_def)
  have "ledger_money k 0 (build_start db stop)"
    by (simp add: ledger_money_def build_start_def Let_def money_Nil vtotal_def on_grid_0)
  then have "ledger_money k (volume (chain_records (build_chain E db stop))) (bs_result s)"
    unfolding s_def using ledger_money_chain [of k 0 _ "build_chain E db stop"] assms(3-5) by simp
  then obtain x where x: "dval (ls_issued (bs_result s)) = Some x" "vtotal (ls_balances (bs_result s)) = x"
    and m: "money k (volume (chain_records (build_chain E db stop))) (ls_balances (bs_result s))"
    and t: "ls_total (bs_result s) = DFin 0" by (auto simp: ledger_money_def)
  have "dval (foldl (\<lambda>t e. dadd t (snd e)) (DFin 0) (ls_balances (bs_result s))) = Some (0 + x)"
    unfolding x(2) [symmetric] using m assms(3,5)
    by (intro total_exact) (auto simp: money_def on_grid_0)
  then show ?thesis by (simp add: b build_finish_money t x)
qed

end
