(* ===== verification/ChainMoney.thy ===== *)
theory ChainMoney
  imports ChainFacts LedgerMoney
begin

text \<open>
  The money rules of \<open>validateConnectedChain\<close>. On amounts that are multiples of
  \<open>1 / 2 ^ k\<close> with \<open>k \<le> 18\<close>, within the volume in which doubles are exact, the tolerance of
  the overspend check never lets a balance become negative. An amount that is not a number
  passes every check.
\<close>

section \<open>Exact credits and debits\<close>

lemma credit_exact:
  assumes "money k V bal" and "dval d = Some x" "on_grid k x" and "V + \<bar>x\<bar> \<le> grid_cap k" and "k \<le> 1074"
  shows "money k (V + \<bar>x\<bar>) (credit key d bal)"
    and "vd (sm_at (DFin 0) (credit key d bal) q) = vd (sm_at (DFin 0) bal q) + (if q = key then x else 0)"
  unfolding credit_def by (rule put_delta [OF assms])+

lemma debit_exact:
  assumes "money k V bal" and "dval d = Some x" "on_grid k x" and "V + \<bar>x\<bar> \<le> grid_cap k" and "k \<le> 1074"
  shows "money k (V + \<bar>x\<bar>) (debit key d bal)"
    and "vd (sm_at (DFin 0) (debit key d bal) q) = vd (sm_at (DFin 0) bal q) - (if q = key then x else 0)"
proof -
  have d: "dval (dneg d) = Some (- x)" "on_grid k (- x)" "V + \<bar>- x\<bar> \<le> grid_cap k"
    using assms by (simp_all add: exact_simps)
  note p = put_delta [OF assms(1) d assms(5)]
  show "money k (V + \<bar>x\<bar>) (debit key d bal)" using p(1) [of key] by (simp add: debit_def dsub_def)
  show "vd (sm_at (DFin 0) (debit key d bal) q) = vd (sm_at (DFin 0) bal q) - (if q = key then x else 0)"
    using p(3) [of key q] by (auto simp: debit_def dsub_def)
qed

lemma touch_exact:
  assumes "money k V bal"
  shows "money k V (sm_touch key (DFin 0) bal)"
proof -
  show ?thesis
  proof (cases "sm_get bal key")
    case None
    then have at: "sm_at (DFin 0) bal key = DFin 0" by (simp add: sm_at_def)
    have inv: "sm_inv bal" using assms by (simp add: money_def)
    have "vsum abs (sm_put key (DFin 0) bal) = vsum abs bal" using vsum_put [OF inv, of abs key "DFin 0"] at by simp
    moreover have "\<exists>x. dval (snd e) = Some x \<and> on_grid k x" if "e \<in> set (sm_put key (DFin 0) bal)" for e
      using subsetD [OF set_sm_put that] assms by (auto simp: money_def on_grid_0)
    ultimately show ?thesis using None assms by (simp add: sm_touch_def money_def smap_simps)
  qed (use assms in \<open>simp add: sm_touch_def\<close>)
qed

definition solvent :: "balances \<Rightarrow> bool" where
  "solvent bal \<longleftrightarrow> (\<forall>q. 0 \<le> vd (sm_at (DFin 0) bal q))"

definition branch_money :: "nat \<Rightarrow> rat \<Rightarrow> branch_state \<Rightarrow> bool" where
  "branch_money k V s \<longleftrightarrow> money k V (br_balances s) \<and> solvent (br_balances s)"

lemma branch_money_mono: "branch_money k V s \<Longrightarrow> V \<le> W \<Longrightarrow> branch_money k W s"
  by (auto simp: branch_money_def intro: money_mono)

lemma branch_money_frame: "br_balances s' = br_balances s \<Longrightarrow> branch_money k V s' = branch_money k V s"
  by (simp add: branch_money_def)

section \<open>The rules keep balances from going negative\<close>

lemma solvent_credit:
  assumes "solvent bal" and "money k V bal" and "dval d = Some x" "on_grid k x" "0 \<le> x" and "V + \<bar>x\<bar> \<le> grid_cap k" "k \<le> 1074"
  shows "solvent (credit key d bal)"
  using assms credit_exact(2) [OF assms(2-4,6,7)] by (simp add: solvent_def)

lemma transfer_keeps:
  assumes s: "branch_money k V s" and r: "grid_record k r" and k: "k \<le> 18"
    and cap: "V + rec_volume r \<le> grid_cap k" and t: "branch_transfer b s r = Inr s'"
  shows "branch_money k (V + rec_volume r) s'"
proof -
  obtain a f where a: "dval (r_amount r) = Some a" "on_grid k a" and f: "dval (r_fee r) = Some f" "on_grid k f"
    and v: "rec_volume r = 2 + 2 * \<bar>a\<bar> + 2 * \<bar>f\<bar>" by (rule grid_recordE [OF r])
  let ?k = "r_sender r"
  let ?bal = "sm_touch ?k (DFin 0) (br_balances s)"
  have k': "k \<le> 1074" using k by simp
  obtain chk: "\<not> dle (r_amount r) (DFin 0)" "\<not> dlt (r_fee r) (DFin 0)"
      "\<not> dlt (dadd (sm_at (DFin 0) (br_balances s) ?k) EPS) (transfer_debit r)"
    and bal': "br_balances s' = transfer_balances b r ?bal"
    using t by (rule branch_transfer_Inr) simp
  have pos: "0 < a" "0 \<le> f" using chk(1,2) dle_val [OF a(1), of "DFin 0" 0] dlt_val [OF f(1), of "DFin 0" 0] by auto
  have m: "money k V (br_balances s)" and sol: "solvent (br_balances s)" using s by (simp_all add: branch_money_def)
  have V: "0 \<le> V" using m vsum_abs_nonneg [of "br_balances s"] by (simp add: money_def)
  obtain x where x: "dval (sm_at (DFin 0) (br_balances s) ?k) = Some x" "on_grid k x" using money_at [OF m] by blast
  have xV: "\<bar>x\<bar> \<le> V" using money_at_le [OF m, of ?k] x by simp
  have sum: "dval (dadd (r_amount r) (r_fee r)) = Some (a + f)"
    using a f cap v V k' pos by (intro dadd_exact) auto
  have deb: "dval (transfer_debit r) = Some (if ?k = r_recipient r then f else a + f)"
    using sum f by (simp add: transfer_debit_def)
  have enough: "(if ?k = r_recipient r then f else a + f) \<le> x"
    using x deb k chk(3) cap v xV a f by (intro tolerance_exact [OF x deb]) (auto simp: exact_simps)
  have m0: "money k V ?bal" by (rule touch_exact [OF m])
  have at0: "sm_at (DFin 0) ?bal q = sm_at (DFin 0) (br_balances s) q" for q by (simp add: smap_simps)
  have sumg: "on_grid k (a + f)" using a f by (simp add: exact_simps)
  note c1 = credit_exact [OF m0 a _ k', of "r_recipient r"]
  have c1m: "money k (V + \<bar>a\<bar>) (credit (r_recipient r) (r_amount r) ?bal)" using c1(1) cap v pos by simp
  note d1 = debit_exact [OF c1m sum sumg _ k', of ?k]
  have d1m: "money k (V + \<bar>a\<bar> + \<bar>a + f\<bar>) (debit ?k (dadd (r_amount r) (r_fee r)) (credit (r_recipient r) (r_amount r) ?bal))"
    using d1(1) cap v pos by simp
  note c2 = credit_exact [OF d1m f _ k', of "b_creator b"]
  have le: "V + \<bar>a\<bar> \<le> grid_cap k" "V + \<bar>a\<bar> + \<bar>a + f\<bar> \<le> grid_cap k" "V + \<bar>a\<bar> + \<bar>a + f\<bar> + \<bar>f\<bar> \<le> grid_cap k"
      "V + \<bar>a\<bar> + \<bar>a + f\<bar> + \<bar>f\<bar> \<le> V + rec_volume r"
    using cap v pos by linarith+
  have "money k (V + rec_volume r) (transfer_balances b r ?bal)"
    unfolding transfer_balances_def by (rule money_mono [OF c2(1) [OF le(3)] le(4)])
  moreover have "0 \<le> vd (sm_at (DFin 0) (transfer_balances b r ?bal) q)" for q
  proof -
    have "vd (sm_at (DFin 0) (transfer_balances b r ?bal) q) =
        vd (sm_at (DFin 0) (br_balances s) q) + (if q = r_recipient r then a else 0) -
        (if q = ?k then a + f else 0) + (if q = b_creator b then f else 0)"
      unfolding transfer_balances_def c2(2) [OF le(3)] d1(2) [OF le(2)] c1(2) [OF le(1)] at0 by (rule refl)
    moreover have "0 \<le> vd (sm_at (DFin 0) (br_balances s) q)" using sol by (simp add: solvent_def)
    moreover have "vd (sm_at (DFin 0) (br_balances s) ?k) = x" using x by simp
    ultimately show ?thesis using enough pos by (auto split: if_splits)
  qed
  ultimately show ?thesis by (simp add: branch_money_def bal' solvent_def)
qed

lemma vote_keeps:
  assumes s: "branch_money k V s" and r: "grid_record k r" and k: "k \<le> 18"
    and cap: "V + rec_volume r \<le> grid_cap k" and t: "branch_vote b s r = Inr s'"
  shows "branch_money k (V + rec_volume r) s'"
proof -
  obtain a f where f: "dval (r_fee r) = Some f" "on_grid k f"
    and v: "rec_volume r = 2 + 2 * \<bar>a\<bar> + 2 * \<bar>f\<bar>" by (rule grid_recordE [OF r])
  let ?k = "r_sender r"
  let ?bal = "sm_touch ?k (DFin 0) (br_balances s)"
  have k': "k \<le> 1074" using k by simp
  obtain chk: "\<not> dlt (r_fee r) (DFin 0)" "\<not> dlt (dadd (sm_at (DFin 0) (br_balances s) ?k) EPS) (r_fee r)"
    and bal': "br_balances s' = credit (b_creator b) (r_fee r) (debit ?k (r_fee r) ?bal)"
    using t by (rule branch_vote_Inr) simp
  have pos: "0 \<le> f" using chk(1) dlt_val [OF f(1), of "DFin 0" 0] by auto
  have m: "money k V (br_balances s)" and sol: "solvent (br_balances s)" using s by (simp_all add: branch_money_def)
  have V: "0 \<le> V" using m vsum_abs_nonneg [of "br_balances s"] by (simp add: money_def)
  obtain x where x: "dval (sm_at (DFin 0) (br_balances s) ?k) = Some x" "on_grid k x" using money_at [OF m] by blast
  have "\<bar>x\<bar> \<le> V" using money_at_le [OF m, of ?k] x by simp
  then have enough: "f \<le> x" using k chk(2) cap v by (intro tolerance_exact [OF x f]) auto
  have m0: "money k V ?bal" by (rule touch_exact [OF m])
  have at0: "sm_at (DFin 0) ?bal q = sm_at (DFin 0) (br_balances s) q" for q by (simp add: smap_simps)
  note d1 = debit_exact [OF m0 f _ k', of ?k]
  have d1m: "money k (V + \<bar>f\<bar>) (debit ?k (r_fee r) ?bal)" using d1(1) cap v pos by simp
  note c2 = credit_exact [OF d1m f _ k', of "b_creator b"]
  have le: "V + \<bar>f\<bar> \<le> grid_cap k" "V + \<bar>f\<bar> + \<bar>f\<bar> \<le> grid_cap k" "V + \<bar>f\<bar> + \<bar>f\<bar> \<le> V + rec_volume r"
    using cap v pos by linarith+
  have "money k (V + rec_volume r) (br_balances s')"
    unfolding bal' by (rule money_mono [OF c2(1) [OF le(2)] le(3)])
  moreover have "0 \<le> vd (sm_at (DFin 0) (br_balances s') q)" for q
  proof -
    have "vd (sm_at (DFin 0) (br_balances s') q) =
        vd (sm_at (DFin 0) (br_balances s) q) - (if q = ?k then f else 0) + (if q = b_creator b then f else 0)"
      unfolding bal' c2(2) [OF le(2)] d1(2) [OF le(1)] at0 by (rule refl)
    moreover have "0 \<le> vd (sm_at (DFin 0) (br_balances s) q)" using sol by (simp add: solvent_def)
    moreover have "vd (sm_at (DFin 0) (br_balances s) ?k) = x" using x by simp
    ultimately show ?thesis using enough pos by (auto split: if_splits)
  qed
  ultimately show ?thesis by (simp add: branch_money_def solvent_def)
qed

lemma rules_keep:
  assumes s: "branch_money k V s" and r: "grid_record k r" and k: "k \<le> 18"
    and cap: "V + rec_volume r \<le> grid_cap k" and t: "branch_rules g b s r = Inr s'"
  shows "branch_money k (V + rec_volume r) s'"
proof -
  have k': "k \<le> 1074" using k by simp
  have m: "money k V (br_balances s)" and sol: "solvent (br_balances s)" using s by (simp_all add: branch_money_def)
  have le: "V + 1 \<le> grid_cap k" "V + 1 \<le> V + rec_volume r" "V \<le> V + rec_volume r"
    using cap rec_volume_ge [of r] by linarith+
  have paid: "branch_money k (V + rec_volume r) s'"
    if x: "dval d = Some x" "on_grid k x" "0 \<le> x" "\<bar>x\<bar> \<le> 1" and s': "br_balances s' = credit key d (br_balances s)" for d x key
  proof -
    have le': "V + \<bar>x\<bar> \<le> grid_cap k" using le(1) x(4) by linarith
    have "V + \<bar>x\<bar> \<le> V + rec_volume r" using le(2) x(4) by linarith
    then show ?thesis
      using money_mono [OF credit_exact(1) [OF m x(1,2) le' k']] solvent_credit [OF sol m x(1-3) le' k']
      by (simp add: branch_money_def s')
  qed
  have same: "branch_money k (V + rec_volume r) s'" if "br_balances s' = br_balances s"
    using branch_money_mono [OF s le(3)] branch_money_frame [OF that] by simp
  from t show ?thesis
  proof (cases rule: branch_rules_Inr)
    case issue
    obtain a where a: "dval (r_amount r) = Some a" "on_grid k a" by (rule grid_recordE [OF r])
    from issue(2) show ?thesis
    proof (rule branch_issue_Inr)
      assume "\<not> dlt (r_amount r) (DFin 0)" "\<not> dlt (DFin 1) (r_amount r)"
      then have "0 \<le> a" "\<bar>a\<bar> \<le> 1" using dlt_val [OF a(1), of "DFin 0" 0] dlt_val [OF _ a(1), of "DFin 1" 1] by auto
      moreover assume "s' = s\<lparr>br_balances := credit (r_recipient r) (r_amount r) (br_balances s)\<rparr>"
      ultimately show ?thesis using paid [OF a] by simp
    qed
  next
    case transfer
    then show ?thesis using transfer_keeps [OF s r k cap] by blast
  next
    case vote
    then show ?thesis using vote_keeps [OF s r k cap] by blast
  next
    case join
    then have "br_balances s' = br_balances s" by (auto elim!: branch_join_Inr branch_claim_Inr)
    then show ?thesis by (rule same)
  next
    case rename
    then have "br_balances s' = br_balances s" by (auto dest!: branch_update_name_Inr elim!: branch_claim_Inr)
    then show ?thesis by (rule same)
  next
    case heartbeat
    then have "br_balances s' = br_balances s" by (auto elim!: branch_heartbeat_Inr)
    then show ?thesis by (rule same)
  next
    case carry
    have d: "dval CARRY_FORWARD_REWARD = Some 1" "on_grid k 1" by (simp_all add: CARRY_FORWARD_REWARD_def exact_simps)
    from carry(2) show ?thesis by (rule branch_carry_forward_Inr) (rule same, simp, rule paid [OF d], simp_all)
  qed
qed

lemma records_keep:
  assumes "branch_records E g b hs s rs = Inr s'" and "k \<le> 18" and "\<forall>r \<in> set rs. grid_record k r"
    and "branch_money k V s" and "V + volume (map (Pair b) rs) \<le> grid_cap k"
  shows "branch_money k (V + volume (map (Pair b) rs)) s'"
  using assms(1,3-5)
proof (induction arbitrary: V rule: branch_records_induct)
  case (Nil hs s)
  then show ?case by (simp add: volume_def)
next
  case (Cons hs s r rs s1 s')
  have vol: "V + volume (map (Pair b) (r # rs)) = V + rec_volume r + volume (map (Pair b) rs)" by (simp add: volume_def)
  have le: "V + rec_volume r \<le> grid_cap k" using Cons.prems(3) vol volume_nonneg [of "map (Pair b) rs"] by linarith
  have "branch_money k V (s\<lparr>br_accepted := insert (r_hash r) (br_accepted s)\<rparr>)"
    using Cons.prems(2) by (simp add: branch_money_def)
  then have "branch_money k (V + rec_volume r) s1"
    using rules_keep [OF _ _ assms(2) le branch_record_Inr(4) [OF Cons(1)]] Cons.prems(1) by simp
  from Cons.IH [OF _ this] Cons.prems(1,3) show ?case unfolding vol by simp
qed

lemma run_keeps:
  assumes "branch_run E chain s" and k: "k \<le> 18"
    and "\<forall>br \<in> set (chain_records chain). grid_record k (snd br)" and "volume (chain_records chain) \<le> grid_cap k"
  shows "branch_money k (volume (chain_records chain)) s"
  using assms(1,3,4)
proof (induction rule: branch_run.induct)
  case run_start
  then show ?case
    by (simp add: branch_money_def branch_start_def solvent_def smap_simps chain_records_def volume_def money_Nil)
next
  case (run_block before s b s')
  from run_block(2) obtain s1 where rs: "branch_records E (before = []) b {} s (b_records b) = Inr s1"
    and s': "s' = branch_snapshot b s1" by (rule branch_block_Inr)
  have split: "chain_records (before @ [b]) = chain_records before @ map (Pair b) (b_records b)"
    by (simp add: chain_records_def)
  have vol: "volume (chain_records (before @ [b])) = volume (chain_records before) + volume (map (Pair b) (b_records b))"
    by (simp add: split volume_def)
  have le: "volume (chain_records before) \<le> grid_cap k"
    using run_block.prems(2) vol volume_nonneg [of "map (Pair b) (b_records b)"] by linarith
  have "branch_money k (volume (chain_records before)) s" using run_block.IH run_block.prems(1) le by (simp add: split)
  moreover have "\<forall>r \<in> set (b_records b). grid_record k r" using run_block.prems(1) by (simp add: split ball_Un)
  ultimately have "branch_money k (volume (chain_records (before @ [b]))) s1"
    using records_keep [OF rs k] run_block.prems(2) unfolding vol by blast
  then show ?case by (simp add: s' branch_money_def branch_snapshot_def)
qed

text \<open>
  C1. No account of an accepted chain is overdrawn: when amounts and fees are multiples of
  \<open>1 / 2 ^ k\<close> for some \<open>k \<le> 18\<close> and the volume stays within \<open>2 ^ (53 - k)\<close>, every balance
  that validation ends with is a number that is not negative, in spite of the tolerance of
  one millionth in the overspend checks.
\<close>

theorem validated_no_overdraft:
  assumes "branch_blocks E (env_config E) [] branch_start chain = Inr s" and "k \<le> 18"
    and "\<forall>br \<in> set (chain_records chain). grid_record k (snd br)" and "volume (chain_records chain) \<le> grid_cap k"
  shows "\<exists>x. dval (sm_at (DFin 0) (br_balances s) key) = Some x \<and> 0 \<le> x"
proof -
  have "branch_run E chain s" using branch_blocks_run [OF run_start assms(1)] by simp
  then have m: "money k (volume (chain_records chain)) (br_balances s)" and "solvent (br_balances s)"
    using run_keeps assms(2-4) by (auto simp: branch_money_def)
  moreover obtain x where "dval (sm_at (DFin 0) (br_balances s) key) = Some x" using money_at [OF m, of key] by blast
  ultimately show ?thesis by (metis solvent_def vd_Some)
qed

section \<open>Amounts that are not numbers\<close>

lemma dlt_NaN [simp]: "\<not> dlt DNaN x" "\<not> dlt x DNaN" and dle_NaN [simp]: "\<not> dle DNaN x"
  by (cases x; simp add: dlt_def dle_def)+

lemma dadd_NaN [simp]: "dadd DNaN x = DNaN" "dadd x DNaN = DNaN"
  by (cases x; simp add: dadd_def)+

text \<open>
  C13. A transfer of NaN is accepted: whatever the sender's balance, a transfer whose amount
  is NaN (which \<open>atof\<close> reads from the text \<open>nan\<close>) with the next nonce and a fee that is not
  negative passes the rules; it leaves NaN as the balance of sender and recipient, and after
  it no transfer of theirs can fail the overspend check.
\<close>

theorem nan_transfer_accepted:
  assumes "r_amount r = DNaN" and "\<not> dlt (r_fee r) (DFin 0)" and "r_sender r \<noteq> r_recipient r"
    and "r_nonce r = sm_at 0 (br_nonces s) (r_sender r) + 1"
  shows "\<exists>s'. branch_transfer b s r = Inr s' \<and>
    sm_at (DFin 0) (br_balances s') (r_sender r) = DNaN \<and> sm_at (DFin 0) (br_balances s') (r_recipient r) = DNaN \<and>
    \<not> dlt (dadd (sm_at (DFin 0) (br_balances s') (r_recipient r)) EPS) amount"
proof -
  let ?bal = "transfer_balances b r (sm_touch (r_sender r) (DFin 0) (br_balances s))"
  have nan: "sm_at (DFin 0) ?bal (r_sender r) = DNaN" "sm_at (DFin 0) ?bal (r_recipient r) = DNaN"
    using assms(1,3) by (auto simp: transfer_balances_def credit_def debit_def dsub_def smap_simps)
  have "branch_transfer b s r = Inr (s\<lparr>br_balances := ?bal,
      br_nonces := (if b_merkle_root b \<noteq> [] then sm_put (r_sender r) (r_nonce r) (sm_touch (r_sender r) 0 (br_nonces s))
                    else br_nonces s)\<rparr>)"
    using assms by (simp add: branch_transfer_def Let_def transfer_debit_def smap_simps)
  with nan show ?thesis by simp
qed

section \<open>The validator and the ledger agree\<close>

text \<open>
  The ledger state is built by other code than the validator's, with \<open>- amount - fee\<close> added
  where the validator subtracts \<open>amount + fee\<close>, amounts of issues clamped and records with a
  known hash skipped. On a chain the validator accepts the two agree on every balance.
\<close>

definition agree :: "build_state \<Rightarrow> branch_state \<Rightarrow> bool" where
  "agree t s \<longleftrightarrow> ls_accepted (bs_result t) = br_accepted s \<and>
     (\<forall>key. key \<noteq> [] \<longrightarrow> sm_at (DFin 0) (ls_balances (bs_result t)) key = sm_at (DFin 0) (br_balances s) key)"

definition plain_record :: "record_structure \<Rightarrow> bool" where
  "plain_record r \<longleftrightarrow> r_type r \<noteq> CARRY_FORWARD \<and> representable (r_amount r)"

lemma add_credit:
  "\<forall>key. key \<noteq> [] \<longrightarrow> sm_at (DFin 0) bal key = sm_at (DFin 0) bal' key \<Longrightarrow>
   \<forall>key. key \<noteq> [] \<longrightarrow> sm_at (DFin 0) (addBalanceDelta q d bal) key = sm_at (DFin 0) (credit q d bal') key"
  by (auto simp: addBalanceDelta_def credit_def smap_simps)

lemma add_debit:
  "\<forall>key. key \<noteq> [] \<longrightarrow> sm_at (DFin 0) bal key = sm_at (DFin 0) bal' key \<Longrightarrow>
   \<forall>key. key \<noteq> [] \<longrightarrow> sm_at (DFin 0) (addBalanceDelta q (dneg d) bal) key = sm_at (DFin 0) (debit q d bal') key"
  by (auto simp: addBalanceDelta_def debit_def dsub_def smap_simps)

lemma membership_balances:
  "r_type r \<noteq> CARRY_FORWARD \<Longrightarrow>
   ls_balances (bs_result (build_membership E db w b r t)) = ls_balances (bs_result t)"
  by (auto simp: build_membership_def build_join_def build_claim_def build_heartbeat_def isBasicCarryForwardRecord_def
      Let_def split: prod.splits)

lemma rules_agree:
  assumes rec: "branch_record E g b hs s r = Inr s'" and t: "agree t s" and r: "plain_record r"
  shows "agree (build_record E db w b t r) s'"
proof -
  note inr = branch_record_Inr [OF rec]
  have hash: "r_hash r \<noteq> []" using inr(1) by (auto simp: check_record_form_def split: if_splits)
  let ?t = "t\<lparr>bs_result := (bs_result t)\<lparr>ls_accepted := insert (r_hash r) (ls_accepted (bs_result t))\<rparr>\<rparr>"
  let ?s = "s\<lparr>br_accepted := insert (r_hash r) (br_accepted s)\<rparr>"
  have new: "r_hash r \<notin> ls_accepted (bs_result t)" using inr(2) t by (simp add: agree_def)
  have br: "build_record E db w b t r = build_money b r (build_membership E db w b r ?t)"
    using hash new by (simp add: build_record_def Let_def)
  have acc: "ls_accepted (bs_result (build_record E db w b t r)) = br_accepted s'"
    using accepted_record [of E db w b t r] hash t accepted_rules [OF inr(4)] by (simp add: agree_def)
  let ?bal = "ls_balances (bs_result t)"
  have bal: "ls_balances (bs_result (build_record E db w b t r)) =
      fst (applyRecordToBalances b r (?bal, ls_issued (bs_result (build_membership E db w b r ?t))))"
    using r membership_balances [of r E db w b ?t]
    by (simp add: br build_money_def Let_def plain_record_def split: prod.splits)
  have eq: "\<forall>key. key \<noteq> [] \<longrightarrow> sm_at (DFin 0) ?bal key = sm_at (DFin 0) (br_balances s) key"
    using t by (simp add: agree_def)
  then have eqt: "\<forall>key. key \<noteq> [] \<longrightarrow> sm_at (DFin 0) ?bal key = sm_at (DFin 0) (sm_touch (r_sender r) (DFin 0) (br_balances s)) key"
    by (simp add: smap_simps)
  from inr(4) have "\<forall>key. key \<noteq> [] \<longrightarrow>
      sm_at (DFin 0) (ls_balances (bs_result (build_record E db w b t r))) key = sm_at (DFin 0) (br_balances s') key"
  proof (cases rule: branch_rules_Inr)
    case issue
    from issue(2) show ?thesis
      by (rule branch_issue_Inr) (use issue(1) add_credit [OF eq] in
        \<open>simp add: bal applyRecordToBalances_def issue_amount_def\<close>)
  next
    case transfer
    from transfer(2) show ?thesis
    proof (rule branch_transfer_Inr)
      assume "\<not> dle (r_amount r) (DFin 0)" "\<not> dlt (r_fee r) (DFin 0)"
      then have neg: "dsub (dneg (r_amount r)) (r_fee r) = dneg (dadd (r_amount r) (r_fee r))"
        using r by (intro dneg_sum) (auto simp: plain_record_def)
      assume "s' = ?s\<lparr>br_balances := transfer_balances b r (sm_touch (r_sender r) (DFin 0) (br_balances ?s)),
        br_nonces := (if b_merkle_root b \<noteq> [] then sm_put (r_sender r) (r_nonce r) (sm_touch (r_sender r) 0 (br_nonces ?s))
                    else br_nonces ?s)\<rparr>"
      then show ?thesis
        using add_credit [OF add_debit [OF add_credit [OF eqt]]] transfer(1) neg
        by (simp add: bal applyRecordToBalances_def transfer_balances_def)
    qed
  next
    case vote
    from vote(2) show ?thesis
      by (rule branch_vote_Inr) (use vote(1) add_credit [OF add_debit [OF eqt]] in
        \<open>simp add: bal applyRecordToBalances_def\<close>)
  next
    case join
    then have "br_balances s' = br_balances s" by (auto elim!: branch_join_Inr branch_claim_Inr)
    then show ?thesis using join(1) eq by (simp add: bal applyRecordToBalances_def)
  next
    case rename
    then have "br_balances s' = br_balances s" by (auto dest!: branch_update_name_Inr elim!: branch_claim_Inr)
    then show ?thesis using rename(1) eq by (simp add: bal applyRecordToBalances_def)
  next
    case heartbeat
    then have "br_balances s' = br_balances s" by (auto elim!: branch_heartbeat_Inr)
    then show ?thesis using heartbeat(1) eq by (simp add: bal applyRecordToBalances_def)
  next
    case carry
    then show ?thesis using r by (simp add: plain_record_def)
  qed
  with acc show ?thesis by (simp add: agree_def)
qed

lemma records_agree:
  assumes "branch_records E g b hs s rs = Inr s'" and "\<forall>r \<in> set rs. plain_record r" and "agree t s"
  shows "agree (foldl (build_record E db w b) t rs) s'"
  using assms by (induction arbitrary: t rule: branch_records_induct) (auto dest: rules_agree)

lemma run_agree:
  assumes "branch_run E chain s" and "\<forall>b \<in> set chain. \<forall>r \<in> set (b_records b). plain_record r"
  shows "agree (foldl (build_block E db w) \<lparr>bs_result = build_start db stop, bs_owners = [], bs_heartbeats = []\<rparr> chain) s"
  using assms
proof (induction rule: branch_run.induct)
  case run_start
  then show ?case by (simp add: agree_def branch_start_def build_start_def Let_def)
next
  case (run_block before s b s')
  from run_block(2) obtain s1 where rs: "branch_records E (before = []) b {} s (b_records b) = Inr s1"
    and s': "s' = branch_snapshot b s1" by (rule branch_block_Inr)
  let ?t = "foldl (build_block E db w) \<lparr>bs_result = build_start db stop, bs_owners = [], bs_heartbeats = []\<rparr> before"
  let ?t1 = "?t\<lparr>bs_result := (bs_result ?t)\<lparr>ls_latest_block := b, ls_count := ls_count (bs_result ?t) + 1\<rparr>\<rparr>"
  have "agree ?t1 s" using run_block.IH run_block.prems by (simp add: agree_def)
  moreover have "\<forall>r \<in> set (b_records b). plain_record r" using run_block.prems by simp
  ultimately have "agree (build_block E db w ?t b) s1" unfolding build_block_def by (intro records_agree [OF rs])
  then show ?case by (simp add: s' branch_snapshot_def agree_def)
qed

text \<open>
  C5. The ledger agrees with the validator: when the chain that \<open>build\<close> walks is accepted by
  validation, has no carry-forward records and its amounts are values of a double, the balance that
  \<open>build\<close>, computing afresh (with an empty cache), reports for any key is, bit for bit, the balance
  validation computed. With carry-forward records the two may differ: validation pays the reward
  without the check of the claimed balance that \<open>build\<close> makes.
\<close>

theorem ledger_agrees_with_validator:
  assumes "0 \<le> getFirstBlockId db" and "0 \<le> getLatestBlockId db"
    and "branch_blocks E (env_config E) [] branch_start (build_chain E db stop) = Inr s"
    and "\<forall>b \<in> set (build_chain E db stop). \<forall>r \<in> set (b_records b). plain_record r" and "key \<noteq> []"
  shows "sm_at (DFin 0) (ls_balances (fst (build E db wallet stop []))) key = sm_at (DFin 0) (br_balances s) key"
proof -
  define t where "t = foldl (build_block E db wallet)
    \<lparr>bs_result = build_start db stop, bs_owners = [], bs_heartbeats = []\<rparr> (build_chain E db stop)"
  have b: "fst (build E db wallet stop []) = build_finish (getCurrentTimeBlock E) wallet t"
    using assms(1,2) by (simp add: build_cases smap_simps build_compute_def t_def) (simp add: build_start_def Let_def)
  have "branch_run E (build_chain E db stop) s" using branch_blocks_run [OF run_start assms(3)] by simp
  then have "agree t s" unfolding t_def by (rule run_agree [OF _ assms(4)])
  then show ?thesis
    using assms(5) unfolding b agree_def
    by (simp add: build_finish_def Let_def finish_wallet_def finish_heartbeat_def finish_member_money smap_simps)
qed

end
