(* ===== verification/JsonLimits.thy ===== *)
theory JsonLimits
  imports JsonFormat
begin

text \<open>
  Where the JSON round trip fails, and a concrete block on which it holds. After reading a
  record, \<open>parseSectionBlock\<close> keeps \<open>content.substr (i - start.length ())\<close> although the
  record began at \<open>start_i\<close>; what it keeps in front of the next record grows by thirteen
  characters with every record. Once it is longer than the members of the record at hand,
  that record is found and read again.
\<close>

section \<open>Records that are read twice\<close>

lemma parseSectionBlock_again:
  assumes r: "printable_record E r" and g: "skips RECORD_KEY g (recordJSON E r @ t)"
    and len: "length (record_fields E r) < length g"
  shows "\<exists>g'. parseSectionBlock (g @ recordJSON E r @ t) RECORD_KEY =
      (CHR '' '' # record_fields E r, g' @ RECORD_KEY @ ''{ '' @ record_fields E r @ ''}}'' @ NL # t) \<and>
    skips RECORD_KEY g' (RECORD_KEY @ ''{ '' @ record_fields E r @ ''}}'' @ NL # t) \<and>
    length g' \<le> length g"
proof -
  let ?F = "record_fields E r"
  let ?u = "CHR ''{'' # CHR '' '' # ?F @ ''}}'' @ NL # t"
  have content: "g @ recordJSON E r @ t = (g @ ''{'') @ RECORD_KEY @ ?u"
    by (simp add: recordJSON_def RECORD_KEY_def)
  have g': "skips RECORD_KEY (g @ ''{'') (RECORD_KEY @ ?u)"
    using g by (intro skips_append skips_char) (auto simp: recordJSON_def RECORD_KEY_def)
  from skips_found [OF this] have find: "find_sub RECORD_KEY (g @ recordJSON E r @ t) = Some (length g + 1)"
    by (simp only: content) simp
  have dropped: "drop (length g + 1 + length RECORD_KEY) (g @ recordJSON E r @ t) = ?u"
    and dropped1: "drop (length g + 1 + length RECORD_KEY + 1) (g @ recordJSON E r @ t) = drop 1 ?u"
    by (simp_all only: content) simp_all
  have close: "block_end ?u 0 False = Some (length ?F + 2)"
    using block_end_gap [OF record_fields_no_brace [OF r], of 1 True] by simp
  have sub: "substr (g @ recordJSON E r @ t) (length g + 1 + length RECORD_KEY + 1) (length ?F + 2 - 1) =
      CHR '' '' # ?F"
    unfolding substr_def dropped1 by simp
  have rest: "drop (length ?F + 2) (g @ recordJSON E r @ t) = drop (length ?F + 2) (g @ ''{'') @ RECORD_KEY @ ?u"
    using len by (simp only: content drop_append) simp
  have "parseSectionBlock (g @ recordJSON E r @ t) RECORD_KEY =
      (CHR '' '' # ?F, drop (length ?F + 2) (g @ ''{'') @ RECORD_KEY @ ?u)"
    unfolding parseSectionBlock_def find option.case dropped close sub rest ..
  moreover have "skips RECORD_KEY (drop (length ?F + 2) (g @ ''{'')) (RECORD_KEY @ ?u)"
    by (rule skips_drop [OF g'])
  ultimately show ?thesis by (intro exI [of _ "drop (length ?F + 2) (g @ ''{'')"]) simp
qed

text \<open>The same step when the brace in front of the record may be gone already.\<close>

definition record_body :: "env \<Rightarrow> record_structure \<Rightarrow> string" where
  "record_body E r = RECORD_KEY @ ''{ '' @ record_fields E r @ ''}}'' @ [NL]"

lemma recordJSON_body: "recordJSON E r = CHR ''{'' # record_body E r"
  by (simp add: recordJSON_def record_body_def RECORD_KEY_def)

lemma parseSectionBlock_body:
  assumes r: "printable_record E r" and g: "skips RECORD_KEY g (record_body E r @ t)"
  shows "parseSectionBlock (g @ record_body E r @ t) RECORD_KEY =
    (CHR '' '' # record_fields E r, drop (length (record_fields E r) + 2) (g @ record_body E r @ t))"
proof -
  let ?F = "record_fields E r"
  let ?u = "CHR ''{'' # CHR '' '' # ?F @ ''}}'' @ NL # t"
  have content: "g @ record_body E r @ t = g @ RECORD_KEY @ ?u"
    by (simp add: record_body_def)
  have "skips RECORD_KEY g (RECORD_KEY @ ?u)" using g by (simp add: record_body_def)
  from skips_found [OF this] have find: "find_sub RECORD_KEY (g @ record_body E r @ t) = Some (length g)"
    by (simp only: content)
  have dropped: "drop (length g + length RECORD_KEY) (g @ record_body E r @ t) = ?u"
    and dropped1: "drop (length g + length RECORD_KEY + 1) (g @ record_body E r @ t) = drop 1 ?u"
    by (simp_all only: content) simp_all
  have close: "block_end ?u 0 False = Some (length ?F + 2)"
    using block_end_gap [OF record_fields_no_brace [OF r], of 1 True] by simp
  have sub: "substr (g @ record_body E r @ t) (length g + length RECORD_KEY + 1) (length ?F + 2 - 1) =
      CHR '' '' # ?F"
    unfolding substr_def dropped1 by simp
  show ?thesis
    unfolding parseSectionBlock_def find option.case dropped close sub ..
qed

lemma record_body_tail: "record_body E r = DQ # record_tail E r"
  by (simp add: record_body_def record_tail_def RECORD_KEY_def)

text \<open>What the loop leaves is again a gap followed by the records that are still to come.\<close>

lemma rest_after_record:
  assumes r: "printable_record E r" and g: "skips RECORD_KEY g (record_body E r @ t)"
  defines "n \<equiv> length (record_fields E r) + 2"
  shows "n \<le> length g \<Longrightarrow>
      drop n (g @ record_body E r @ t) = drop n g @ record_body E r @ t \<and>
      skips RECORD_KEY (drop n g) (record_body E r @ t)"
    and "length g < n \<Longrightarrow>
      drop n (g @ record_body E r @ t) = drop (n - length g - 1) (record_tail E r) @ t \<and>
      skips RECORD_KEY (drop (n - length g - 1) (record_tail E r)) t"
proof -
  show "n \<le> length g \<Longrightarrow> drop n (g @ record_body E r @ t) = drop n g @ record_body E r @ t \<and>
      skips RECORD_KEY (drop n g) (record_body E r @ t)"
    using skips_drop [OF g] by simp
next
  assume n: "length g < n"
  then obtain m where m: "n - length g = Suc m" by (metis Suc_diff_Suc)
  have "m \<le> length (record_tail E r)" using m by (simp add: n_def record_tail_def)
  then show "drop n (g @ record_body E r @ t) = drop (n - length g - 1) (record_tail E r) @ t \<and>
      skips RECORD_KEY (drop (n - length g - 1) (record_tail E r)) t"
    using n skips_drop [OF record_tail_skips [OF r]] by (simp add: record_body_tail m)
qed

definition bodies :: "env \<Rightarrow> record_structure list \<Rightarrow> string" where
  "bodies E rs = (case rs of [] \<Rightarrow> [] | r # rs' \<Rightarrow> record_body E r @ concat (map (recordJSON E) rs'))"

lemma concat_recordJSON_bodies:
  "rs \<noteq> [] \<Longrightarrow> concat (map (recordJSON E) rs) = CHR ''{'' # bodies E rs"
  by (cases rs) (simp_all add: bodies_def recordJSON_body)

lemma skips_to_bodies:
  assumes "skips RECORD_KEY g (concat (map (recordJSON E) rs))" "rs \<noteq> []"
  shows "skips RECORD_KEY (g @ ''{'') (bodies E rs)"
  using assms
  by (intro skips_append skips_char) (auto simp: concat_recordJSON_bodies RECORD_KEY_def)

text \<open>No record is lost: the loop reads at least as many sections as there are records.\<close>

lemma record_sections_at_least:
  assumes "\<forall>r \<in> set rs. printable_record E r" and "skips RECORD_KEY g (bodies E rs)"
  shows "length rs \<le> length (record_sections (g @ bodies E rs))"
  using assms
proof (induction "length (g @ bodies E rs)" arbitrary: g rs rule: less_induct)
  case less
  show ?case
  proof (cases rs)
    case Nil
    then show ?thesis by simp
  next
    case (Cons r rs')
    let ?t = "concat (map (recordJSON E) rs')" and ?n = "length (record_fields E r) + 2"
    have r: "printable_record E r" and rs': "\<forall>r \<in> set rs'. printable_record E r"
      using less.prems Cons by auto
    have b: "bodies E rs = record_body E r @ ?t" by (simp add: bodies_def Cons)
    have g: "skips RECORD_KEY g (record_body E r @ ?t)" using less.prems b by simp
    let ?rest = "drop ?n (g @ record_body E r @ ?t)"
    have "length (record_sections (g @ bodies E rs)) = Suc (length (record_sections ?rest))"
      by (subst record_sections.simps) (simp add: b parseSectionBlock_body [OF r g])
    moreover have "length rs' \<le> length (record_sections ?rest)"
    proof (cases "?n \<le> length g")
      case True
      then have eq: "?rest = drop ?n g @ bodies E rs" and s: "skips RECORD_KEY (drop ?n g) (bodies E rs)"
        using rest_after_record(1) [OF r g] b by auto
      have "length rs \<le> length (record_sections (drop ?n g @ bodies E rs))"
        using True less.prems(1) s by (intro less.hyps) auto
      then show ?thesis using eq Cons by simp
    next
      case False
      define h where "h = drop (?n - length g - 1) (record_tail E r)"
      have eq: "?rest = h @ ?t" and s: "skips RECORD_KEY h ?t"
        using rest_after_record(2) [OF r g] False by (auto simp: h_def)
      show ?thesis
      proof (cases "rs' = []")
        case True
        then show ?thesis by simp
      next
        case nonempty: False
        have eq': "?rest = (h @ ''{'') @ bodies E rs'" using eq nonempty by (simp add: concat_recordJSON_bodies)
        have "length ((h @ ''{'') @ bodies E rs') < length (g @ bodies E rs)"
          using arg_cong [OF eq', of length] b by (simp add: record_body_def)
        then have "length rs' \<le> length (record_sections ((h @ ''{'') @ bodies E rs'))"
          using rs' skips_to_bodies [OF s nonempty] by (intro less.hyps) auto
        then show ?thesis using eq' by simp
      qed
    qed
    ultimately show ?thesis by (simp add: Cons)
  qed
qed

text \<open>A record that is too short for its position is read more than once.\<close>

lemma record_sections_more:
  assumes "\<forall>r \<in> set rs. printable_record E r" and "skips RECORD_KEY g (concat (map (recordJSON E) rs))"
    and "\<exists>k < length rs. length (record_fields E (rs ! k)) < length g + 13 * k"
  shows "length rs < length (record_sections (g @ concat (map (recordJSON E) rs)))"
  using assms
proof (induction rs arbitrary: g)
  case Nil
  then show ?case by simp
next
  case (Cons r rs)
  let ?C = "concat (map (recordJSON E) rs)"
  have r: "printable_record E r" using Cons.prems by simp
  have g: "skips RECORD_KEY g (recordJSON E r @ ?C)" using Cons.prems by simp
  show ?case
  proof (cases "length (record_fields E r) < length g")
    case True
    from parseSectionBlock_again [OF r g True] obtain g' where
      p: "parseSectionBlock (g @ recordJSON E r @ ?C) RECORD_KEY =
        (CHR '' '' # record_fields E r, g' @ record_body E r @ ?C)"
      and s: "skips RECORD_KEY g' (record_body E r @ ?C)"
      by (auto simp: record_body_def)
    have "length (r # rs) \<le> length (record_sections (g' @ bodies E (r # rs)))"
      using Cons.prems(1) s by (intro record_sections_at_least) (auto simp: bodies_def)
    then show ?thesis by (subst record_sections.simps) (simp add: p bodies_def)
  next
    case False
    let ?g = "drop (length (record_fields E r) - length g) (record_tail E r)"
    have step: "parseSectionBlock (g @ recordJSON E r @ ?C) RECORD_KEY = (CHR '' '' # record_fields E r, ?g @ ?C)"
      using False by (intro parseSectionBlock_record [OF r g]) simp
    have lg: "length ?g = length g + 13" using False by (simp add: record_tail_def)
    obtain k where k: "k < length (r # rs)" "length (record_fields E ((r # rs) ! k)) < length g + 13 * k"
      using Cons.prems(3) by blast
    with False obtain j where j: "k = Suc j" by (cases k) auto
    have "length rs < length (record_sections (?g @ ?C))"
      using Cons.prems(1) k j skips_drop [OF record_tail_skips [OF r]]
      by (intro Cons.IH) (auto simp: lg intro!: exI [of _ j] simp del: length_drop)
    then show ?thesis using step by (subst record_sections.simps) simp
  qed
qed

text \<open>
  The reader does not keep the promise of the writer for every block: if a record of an
  otherwise printable block is too short for its position (\<open>13 * k\<close> characters or fewer at
  position \<open>k\<close>), \<open>parseBlockJson\<close> returns a block with more records than were written.
\<close>

theorem parse_block_duplicates:
  assumes "plain_block E b" and "\<not> records_fit E (b_records b)"
  shows "length (b_records b) < length (b_records (parse_block_section E (block_object E b)))"
proof -
  have rs: "\<forall>r \<in> set (b_records b). printable_record E r" using assms(1) by (simp add: plain_block_def)
  obtain k where "k < length (b_records b)" "length (record_fields E (b_records b ! k)) \<le> 13 * k"
    using assms(2) by (auto simp: records_fit_def not_less)
  then have k: "\<exists>k < length (b_records b). length (record_fields E (b_records b ! k)) < length [NL] + 13 * k"
    by auto
  have "length (b_records b) < length (record_sections ([NL] @ concat (map (recordJSON E) (b_records b))))"
    by (rule record_sections_more [OF rs _ k]) (simp add: RECORD_KEY_def skips_free)
  then show ?thesis
    by (simp add: parse_block_section_def block_records_section [OF assms(1)] records_text_def Let_def)
qed

section \<open>A concrete block\<close>

definition demo_record :: record_structure where
  "demo_record =
     \<lparr>r_network = ''n'', r_time = ''1'', r_type = JOIN_NETWORK, r_nonce = 0, r_amount = DFin 0,
      r_fee = DFin 0, r_sender = ''k'', r_recipient = [], r_hash = ''h'', r_signature = ''s'',
      r_name = [], r_value = []\<rparr>"

definition demo_block :: "record_structure list \<Rightarrow> block_structure" where
  "demo_block rs =
     \<lparr>b_network = ''n'', b_number = 100, b_time = ''1'', b_previous_id = -1, b_previous_hash = [],
      b_merkle_root = ''m'', b_creator = ''k'', b_hash = ''h'', b_signature = ''s'', b_records = rs\<rparr>"

lemma round_double_0 [simp]: "round_double 0 = DFin 0"
  by (simp add: round_double_def round_fin_def)

lemma atof_zero: "atof ''0'' = DFin 0"
  by (simp add: atof_def c_str_def c_isspace_def code_def split_sign_def c_tolower_def c_isupper_def
      starts_with_def decimal_value_def split_mantissa_def c_isdigit_def digits_val_def digit_val_def
      exponent_part_def Let_def)

lemma demo_record_printable: "printable_record demo_env demo_record"
  by (simp add: printable_record_def demo_record_def demo_env_def plain_def printable_double_def
      atof_zero in_long_def LONG_MAX_def LONG_MIN_def)

lemma demo_block_plain: "set rs \<subseteq> {demo_record} \<Longrightarrow> plain_block demo_env (demo_block rs)"
  using demo_record_printable
  by (auto simp: plain_block_def demo_block_def plain_def in_long_def LONG_MAX_def LONG_MIN_def)

lemma length_demo_record: "length (record_fields demo_env demo_record) = 121"
  by (simp add: record_fields_def demo_record_def demo_env_def jfield_def show_long_def show_nat.simps)

theorem parseBlockJson_blockJSON_witness:
  "parseBlockJson demo_env (blockJSON demo_env (demo_block [demo_record, demo_record])) =
    [demo_block [demo_record, demo_record]]"
proof (rule parseBlockJson_blockJSON)
  have "records_fit demo_env [demo_record, demo_record]"
    by (auto simp: records_fit_def length_demo_record less_Suc_eq)
  then show "printable_block demo_env (demo_block [demo_record, demo_record])"
    using demo_block_plain [of "[demo_record, demo_record]"]
    by (simp add: printable_block_def) (simp add: demo_block_def)
qed (simp_all add: demo_block_def)

theorem parse_block_duplicates_witness:
  "length (b_records (parse_block_section demo_env
      (block_object demo_env (demo_block (replicate 11 demo_record))))) > 11"
proof -
  have "\<not> records_fit demo_env (replicate 11 demo_record)"
    by (auto simp: records_fit_def length_demo_record intro!: exI [of _ 10])
  then have "length (b_records (demo_block (replicate 11 demo_record))) <
      length (b_records (parse_block_section demo_env (block_object demo_env (demo_block (replicate 11 demo_record)))))"
    using demo_block_plain [of "replicate 11 demo_record"]
    by (intro parse_block_duplicates) (auto simp: demo_block_def)
  then show ?thesis by (simp add: demo_block_def)
qed

end
