(* ===== verification/ExampleChain.thy ===== *)
theory ExampleChain
  imports ChainMoney JsonLimits
begin

text \<open>
  A concrete chain of two blocks, a database that holds its first block, and the properties
  of the ledger and of the chain validator at them. The digest of this environment is the
  length of the text, which tells the texts below apart, and its signatures all verify.
\<close>

section \<open>The chain\<close>

definition example_env :: env where
  "example_env =
     \<lparr>e_sha256 = (\<lambda>s. (length s mod 256) # replicate 31 0), e_ecdsa = (\<lambda>d r s k. True),
      e_lexical = (\<lambda>d. if d = DFin 1 then ''1'' else ''0''), e_local_epoch = 1500, e_time_offset = 0,
      e_conf = [], e_lexical_long = (\<lambda>s. None), e_uninit_type = OTHER_TYPE 99\<rparr>"

definition alice :: string where "alice = replicate 66 (CHR ''a'')"
definition bob :: string where "bob = replicate 66 (CHR ''b'')"
definition stamp :: string where "stamp = replicate 128 (CHR ''5'')"
definition zeros :: string where "zeros = replicate 62 (CHR ''0'')"

definition join_alice :: record_structure where
  "join_alice =
     \<lparr>r_network = ''main'', r_time = ''1'', r_type = JOIN_NETWORK, r_nonce = 0, r_amount = DFin 0, r_fee = DFin 0,
      r_sender = alice, r_recipient = [], r_hash = ''4f'' @ zeros, r_signature = stamp, r_name = ''Alice'', r_value = []\<rparr>"

definition issue_alice :: record_structure where
  "issue_alice =
     \<lparr>r_network = ''main'', r_time = ''1'', r_type = ISSUE_CURRENCY, r_nonce = 0, r_amount = DFin 1, r_fee = DFin 0,
      r_sender = alice, r_recipient = alice, r_hash = ''8c'' @ zeros, r_signature = stamp, r_name = [], r_value = []\<rparr>"

definition alice_pays_bob :: record_structure where
  "alice_pays_bob =
     \<lparr>r_network = ''main'', r_time = ''1'', r_type = TRANSFER_CURRENCY, r_nonce = 1, r_amount = DFin 1, r_fee = DFin 0,
      r_sender = alice, r_recipient = bob, r_hash = ''8d'' @ zeros, r_signature = stamp, r_name = [], r_value = []\<rparr>"

definition block_one :: block_structure where
  "block_one =
     \<lparr>b_network = ''main'', b_number = 100, b_time = ''1'', b_previous_id = -1, b_previous_hash = [],
      b_merkle_root = ''80'' @ zeros, b_creator = alice, b_hash = ''8a'' @ zeros, b_signature = stamp,
      b_records = [join_alice, issue_alice, alice_pays_bob]\<rparr>"

definition block_two :: block_structure where
  "block_two =
     \<lparr>b_network = ''main'', b_number = 101, b_time = ''2'', b_previous_id = 100, b_previous_hash = ''8a'' @ zeros,
      b_merkle_root = ''00'' @ zeros, b_creator = alice, b_hash = ''ca'' @ zeros, b_signature = stamp,
      b_records = []\<rparr>"

section \<open>Evaluating it\<close>

lemma sha256_example: "CHR 0x00 \<notin> set s \<Longrightarrow> sha256 example_env s = hex_byte (length s mod 256) @ zeros"
proof -
  have "concat (map hex_byte (replicate 31 0)) = zeros" by code_simp
  then show "CHR 0x00 \<notin> set s \<Longrightarrow> sha256 example_env s = hex_byte (length s mod 256) @ zeros"
    by (simp add: sha256_def example_env_def c_str_id)
qed

lemma show_long_digits:
  "show_long 0 = ''0''" "show_long 1 = ''1''" "show_long 2 = ''2''" "show_long 100 = ''100''" "show_long 101 = ''101''"
  "show_long (- 1) = ''-1''"
  by code_simp+

lemma hex_bytes:
  "hex_byte 79 = ''4f''" "hex_byte 140 = ''8c''" "hex_byte 141 = ''8d''" "hex_byte 128 = ''80''"
  "hex_byte 138 = ''8a''" "hex_byte 202 = ''ca''" "hex_byte 0 = ''00''"
  by code_simp+

lemma text_simps:
  "length zeros = 62" "set zeros = {CHR ''0''}" "length alice = 66" "set alice = {CHR ''a''}"
  "length bob = 66" "set bob = {CHR ''b''}" "length stamp = 128" "set stamp = {CHR ''5''}"
  "alice \<noteq> []" "bob \<noteq> []" "stamp \<noteq> []"
  by (simp_all add: zeros_def alice_def bob_def stamp_def)

lemma alice_bob: "alice \<noteq> bob" "bob \<noteq> alice"
proof -
  have "set alice \<noteq> set bob" by (simp add: text_simps)
  then show "alice \<noteq> bob" "bob \<noteq> alice" by metis+
qed

lemma lexical_example: "e_lexical example_env d = (if d = DFin 1 then ''1'' else ''0'')"
  by (simp add: example_env_def)

lemmas example_eval = sha256_example show_long_digits hex_bytes text_simps lexical_example alice_bob
lemmas example_defs = join_alice_def issue_alice_def alice_pays_bob_def block_one_def block_two_def

lemma record_hashes:
  "getRecordHash example_env join_alice = r_hash join_alice"
  "getRecordHash example_env issue_alice = r_hash issue_alice"
  "getRecordHash example_env alice_pays_bob = r_hash alice_pays_bob"
  by (simp_all add: getRecordHash_def example_defs example_eval)

lemma record_sizes:
  "isRecordSizeValid example_env join_alice" "isRecordSizeValid example_env issue_alice"
  "isRecordSizeValid example_env alice_pays_bob"
  by (simp_all add: isRecordSizeValid_def recordSizeError_def recordJSON_def record_fields_def jfield_def
      example_defs example_eval MAX_RECORD_NETWORK_BYTES_def MAX_RECORD_TIME_BYTES_def MAX_RECORD_NAME_BYTES_def
      MAX_RECORD_VALUE_BYTES_def MAX_RECORD_KEY_BYTES_def MAX_RECORD_HASH_BYTES_def MAX_RECORD_SIGNATURE_BYTES_def
      MAX_RECORD_JSON_BYTES_def slen_def)

lemma block_roots:
  "getRecordsMerkleRoot example_env (b_records block_one) = b_merkle_root block_one"
  "getRecordsMerkleRoot example_env (b_records block_two) = b_merkle_root block_two"
  by (simp_all add: getRecordsMerkleRoot_def record_hash_or_computed_def merkle_reduce.simps example_defs example_eval)

lemma block_hashes:
  "getBlockHash example_env block_one = b_hash block_one" "getBlockHash example_env block_two = b_hash block_two"
  by (simp_all add: getBlockHash_def block_header_text_def example_defs example_eval)

lemma stamps: "VerifyMessageCompressed example_env m stamp alice = 1"
  by (simp add: VerifyMessageCompressed_def example_eval slen_def) (simp add: example_env_def)

lemma header_checks: "check_block_header example_env block_one = Inr ()" "check_block_header example_env block_two = Inr ()"
  using block_roots block_hashes stamps
  by (simp_all add: check_block_header_def MAX_BLOCK_RECORDS_def) (simp_all add: example_defs example_eval)

lemma small_ints: "round_double 1 = DFin 1" "round_double 0 = DFin 0"
  using round_double_int [of 1] round_double_int [of 0] by simp_all

lemma tolerance_one: "\<not> dlt (dadd (DFin 1) EPS) (DFin 1)"
proof -
  obtain e where e: "EPS = DFin e" "1 / 2 ^ 20 < e" "e < 1 / 2 ^ 19" using EPS_small by blast
  define r where "r = round_fin (1 + e)"
  have lt: "\<bar>1 + e\<bar> < 2 powi (53 + - 52)" using e by simp
  have "\<bar>r - (1 + e)\<bar> \<le> 2 powi (- 52) / 2" unfolding r_def by (rule round_fin_error [OF lt]) simp
  moreover have "(2::rat) powi (- 52) / 2 < 1 / 2 ^ 20" by (simp add: power_int_def power_divide)
  ultimately have "\<bar>r - (1 + e)\<bar> < e" using e(2) by linarith
  then have r: "1 \<le> r" by linarith
  have "round_double (1 + e) = DFin r \<or> round_double (1 + e) = DInf False"
    using r by (auto simp: round_double_def Let_def r_def [symmetric])
  then show ?thesis using r by (auto simp: e(1) dadd_fin) (simp add: dlt_def)
qed

lemma double_sums:
  "dadd (DFin 0) (DFin 1) = DFin 1" "dadd (DFin 1) (DFin 0) = DFin 1" "dadd (DFin 0) (DFin 0) = DFin 0"
  "dsub (DFin 1) (DFin 1) = DFin 0" "\<not> dlt (dadd (DFin 1) EPS) (DFin 1)"
  using tolerance_one by (simp_all add: dadd_fin dsub_def small_ints)

section \<open>The chain is accepted\<close>

lemma example_config: "env_config example_env = load_config []"
  by (simp add: env_config_def example_env_def)

lemma example_genesis: "branch_genesis (load_config []) block_one = Inr ()"
  by code_simp

lemma example_record_checks:
  "r_hash r \<notin> hs \<Longrightarrow> r \<in> {join_alice, issue_alice, alice_pays_bob} \<Longrightarrow> check_record_form example_env hs r = Inr ()"
  "r \<in> {join_alice, issue_alice, alice_pays_bob} \<Longrightarrow> check_record_signature example_env r = Inr ()"
  using record_hashes record_sizes stamps
  by (auto simp: check_record_form_def check_record_signature_def) (auto simp: example_defs text_simps)

definition after_one :: branch_state where
  "after_one =
     \<lparr>br_balances = [(alice, DFin 0), (bob, DFin 1)], br_nonces = [(alice, 1)],
      br_members = [\<lparr>bm_key = alice, bm_name = ''Alice'', bm_join_block = 100, bm_last_heartbeat = -1\<rparr>],
      br_owners = [(''alice'', alice)], br_accepted = {r_hash join_alice, r_hash issue_alice, r_hash alice_pays_bob},
      br_cf_keys = {}, br_snapshots = [], br_has_heartbeats = False\<rparr>"

lemma alice_name: "normalizedBranchName ''Alice'' = ''alice''" "normalizedBranchName [] = []" "''alice'' \<noteq> INVALID_NAME"
  by code_simp+

lemma alice_less: "alice < bob" "\<not> bob < alice"
  by code_simp+

lemma example_join:
  "branch_join True block_one (branch_start\<lparr>br_accepted := A\<rparr>) join_alice =
    Inr (after_one\<lparr>br_balances := [], br_nonces := [], br_accepted := A\<rparr>)"
  by (simp add: branch_join_def branch_start_def branchMemberIndexByKey_def branchNameTakenByAnother_def
      branch_claim_def claimBranchName_def alice_name after_one_def join_alice_def block_one_def sm_get_def)

lemma example_issue:
  "br_balances s = [] \<Longrightarrow> branch_issue block_one s issue_alice = Inr (s\<lparr>br_balances := [(alice, DFin 1)]\<rparr>)"
  by (simp add: branch_issue_def issue_alice_def block_one_def credit_def sm_at_def sm_get_def double_sums)

lemma example_transfer:
  "br_balances s = [(alice, DFin 1)] \<Longrightarrow> br_nonces s = [] \<Longrightarrow> branch_transfer block_one s alice_pays_bob =
    Inr (s\<lparr>br_balances := [(alice, DFin 0), (bob, DFin 1)], br_nonces := [(alice, 1)]\<rparr>)"
  by (simp add: branch_transfer_def alice_pays_bob_def block_one_def credit_def debit_def transfer_balances_def
      transfer_debit_def sm_at_def sm_get_def sm_touch_def double_sums alice_bob alice_less)

definition after_example :: branch_state where
  "after_example = branch_snapshot block_two (branch_snapshot block_one after_one)"

lemma example_records: "branch_records example_env True block_one {} branch_start (b_records block_one) = Inr after_one"
proof -
  have h: "r_hash issue_alice \<noteq> r_hash join_alice" "r_hash alice_pays_bob \<noteq> r_hash join_alice"
    "r_hash alice_pays_bob \<noteq> r_hash issue_alice" by (simp_all add: example_defs)
  have t: "r_type join_alice = JOIN_NETWORK" "r_type issue_alice = ISSUE_CURRENCY" "r_type alice_pays_bob = TRANSFER_CURRENCY"
    "b_records block_one = [join_alice, issue_alice, alice_pays_bob]" by (simp_all add: example_defs)
  have a: "br_accepted branch_start = {}" by (simp add: branch_start_def)
  show ?thesis
    by (simp add: t branch_record_def example_record_checks h a branch_rules_def example_join example_issue example_transfer)
       (auto simp: after_one_def)
qed

lemma example_selected:
  "branch_selected example_env (load_config []) [block_one] (branch_snapshot block_one after_one)
     \<lparr>sn_number = 100, sn_hash = ''8a'' @ zeros, sn_members = br_members after_one, sn_has_heartbeats = False\<rparr> block_two = alice"
proof -
  have "getSelectedUserForBlock example_env 101 (''8a'' @ zeros) [alice] = alice"
    by (simp add: getSelectedUserForBlock_def getSelectedIndexForBlock_def)
  then show ?thesis
    by (simp add: branch_selected_def getAuthorizedCreatorForBlock_def activeMemberKeysForBlock_def after_one_def block_two_def)
qed

lemma example_successor:
  "branch_successor example_env (load_config []) [block_one] (branch_snapshot block_one after_one) block_two = Inr ()"
proof -
  have "selectionSnapshotForBlock (br_snapshots (branch_snapshot block_one after_one)) 101 100 =
      Some \<lparr>sn_number = 100, sn_hash = ''8a'' @ zeros, sn_members = br_members after_one, sn_has_heartbeats = False\<rparr>"
    by (simp add: selectionSnapshotForBlock_def branch_snapshot_def after_one_def block_one_def getSelectionBoundaryBlock_def
        getEpochForBlock_def cdiv_def getEpochSizeBlocks_def getSelectionLagEpochs_def)
  then show ?thesis
    using example_selected by (simp add: branch_successor_def block_one_def [THEN arg_cong [where f = b_number]]
      block_one_def [THEN arg_cong [where f = b_hash]] block_two_def text_simps)
qed

lemma example_run: "branch_blocks example_env (env_config example_env) [] branch_start [block_one, block_two] = Inr after_example"
proof -
  have "b_records block_two = []" by (simp add: block_two_def)
  then show ?thesis
    by (simp add: example_config branch_block_def header_checks example_genesis example_records example_successor after_example_def)
qed

lemma example_valid: "validateConnectedChain example_env ([block_one] @ [block_two]) = Inr ()"
  using example_run by (simp add: validateConnectedChain_def)

section \<open>A database with the first block\<close>

definition example_db :: dbh where
  "example_db =
     db_put (chainMetaKey ''latest_block'') ''100'' (db_put (chainMetaKey ''first_block'') ''100''
       (db_put (canonicalHashKey 100) (b_hash block_one)
         (db_put (blockHashKey (b_hash block_one)) (blockJSON example_env block_one) (Some []))))"

lemma example_db_keys:
  "db_str example_db (blockHashKey (b_hash block_one)) = blockJSON example_env block_one"
  "db_str example_db (canonicalHashKey 100) = b_hash block_one"
  "db_str example_db (chainMetaKey ''first_block'') = ''100''"
  "db_str example_db (chainMetaKey ''latest_block'') = ''100''"
proof -
  have keys: "chainMetaKey ''first_block'' \<noteq> chainMetaKey ''latest_block''"
    "chainMetaKey x \<noteq> canonicalHashKey n" "chainMetaKey x \<noteq> blockHashKey h" "canonicalHashKey n \<noteq> blockHashKey h" for x n h
    by (simp_all add: chainMetaKey_def canonicalHashKey_def blockHashKey_def)
  show "db_str example_db (blockHashKey (b_hash block_one)) = blockJSON example_env block_one"
    "db_str example_db (canonicalHashKey 100) = b_hash block_one"
    "db_str example_db (chainMetaKey ''first_block'') = ''100''"
    "db_str example_db (chainMetaKey ''latest_block'') = ''100''"
    using keys keys [symmetric] by (simp_all add: example_db_def db_put_def db_str_def smap_simps del: sm_put.simps)
qed

lemma example_db_open: "\<exists>d. example_db = Some d"
  by (simp add: example_db_def db_put_def)

lemma example_ids: "getFirstBlockId example_db = 100" "getLatestBlockId example_db = 100"
proof -
  obtain d where d: "example_db = Some d" using example_db_open by blast
  have "parseLongValue ''100'' = Some 100"
    using parseLongValue_show [of 100] by (simp add: show_long_digits in_long_def LONG_MAX_def LONG_MIN_def)
  then show "getFirstBlockId example_db = 100" "getLatestBlockId example_db = 100"
    using example_db_keys(3,4) by (simp_all add: d getFirstBlockId_def getLatestBlockId_def read_id_def db_str_def Let_def)
qed

lemma atof_one: "atof ''1'' = DFin 1"
  by (simp add: atof_def c_str_def c_isspace_def code_def split_sign_def c_tolower_def c_isupper_def
      starts_with_def decimal_value_def split_mantissa_def c_isdigit_def digits_val_def digit_val_def
      exponent_part_def Let_def small_ints)

lemma block_one_printable: "printable_block example_env block_one"
proof -
  have "printable_record example_env r" if "r \<in> {join_alice, issue_alice, alice_pays_bob}" for r
    using that
    by (elim insertE emptyE; simp add: printable_record_def printable_double_def plain_def text_simps lexical_example atof_one atof_zero
        in_long_def LONG_MAX_def LONG_MIN_def example_defs)
  moreover have "26 < length (record_fields example_env join_alice)" "26 < length (record_fields example_env issue_alice)"
    "26 < length (record_fields example_env alice_pays_bob)"
    by (simp_all add: record_fields_def jfield_def example_defs text_simps)
  then have "records_fit example_env [join_alice, issue_alice, alice_pays_bob]"
    by (auto simp: records_fit_def less_Suc_eq)
  ultimately show ?thesis
    by (simp add: printable_block_def plain_block_def plain_def text_simps in_long_def LONG_MAX_def LONG_MIN_def block_one_def)
qed

lemma example_block: "getBlock example_env example_db 100 = block_one"
proof -
  obtain d where d: "example_db = Some d" using example_db_open by blast
  have b: "0 < b_number block_one" "b_hash block_one \<noteq> []" by (simp_all add: block_one_def)
  have "getBlockByHash example_env example_db (b_hash block_one) = block_one"
    using example_db_keys(1) parse_printed_block [OF block_one_printable b] b
    by (simp add: getBlockByHash_def d db_str_def first_block_def)
  then show ?thesis using example_db_keys(2) b by (simp add: getBlock_def d db_str_def Let_def)
qed

lemma example_walk: "\<not> past 100 \<Longrightarrow> walk_chain nxt past 100 0 block_one = [block_one]"
  by (subst walk_chain.simps) (simp add: block_one_def)

lemma example_chains:
  "build_chain example_env example_db 0 = [block_one]" "connected_blocks example_env example_db = [block_one]"
  "checkpoint_chain example_env example_db 100 = [block_one]"
  by (simp_all add: build_chain_def connected_blocks_def checkpoint_chain_def build_start_def example_ids example_block example_walk)

section \<open>The properties at the example\<close>

lemma example_grid: "grid_record 0 r" if "r \<in> {join_alice, issue_alice, alice_pays_bob}"
  using that by (elim insertE emptyE; simp add: grid_record_def example_defs exact_simps)

lemma example_chain_records:
  "chain_records [block_one] = [(block_one, join_alice), (block_one, issue_alice), (block_one, alice_pays_bob)]"
  "chain_records [block_one, block_two] = [(block_one, join_alice), (block_one, issue_alice), (block_one, alice_pays_bob)]"
  by (simp_all add: chain_records_def block_one_def [THEN arg_cong [where f = b_records]]
      block_two_def [THEN arg_cong [where f = b_records]])

lemma example_volume: "volume (chain_records [block_one]) \<le> grid_cap 0" "volume (chain_records [block_one, block_two]) \<le> grid_cap 0"
  unfolding example_chain_records
  by (simp_all add: volume_def rec_volume_def grid_cap_def join_alice_def issue_alice_def alice_pays_bob_def)

theorem replay_ignored_witness:
  "foldl (build_record example_env None alice block_two)
     (foldl (build_record example_env None alice block_one)
       \<lparr>bs_result = build_start None 0, bs_owners = [], bs_heartbeats = []\<rparr> [issue_alice]) [issue_alice] =
   foldl (build_record example_env None alice block_one)
     \<lparr>bs_result = build_start None 0, bs_owners = [], bs_heartbeats = []\<rparr> [issue_alice]"
  by (rule replay_ignored) (simp add: issue_alice_def)

theorem confirmed_depth_witness:
  "confirmedStopBlock example_env example_db 1 = getFirstBlockId example_db - 1 \<and>
     int (length (connected_blocks example_env example_db)) \<le> 1 \<or>
   (\<exists>below b above. connected_blocks example_env example_db = below @ b # above \<and>
     int (length above) = 1 \<and> confirmedStopBlock example_env example_db 1 = b_number b)"
  by (rule confirmed_depth) (simp_all add: example_ids)

theorem balance_exact_witness:
  "dval (balanceAtBlock example_env example_db bob 100) =
     Some (\<Sum>(b, r)\<leftarrow>effective {} (chain_records (checkpoint_chain example_env example_db 100)). exact_delta bob b r)"
  by (rule balance_exact [where k = 0])
     (use example_grid example_volume in \<open>simp_all add: text_simps example_chains example_chain_records\<close>)

theorem ledger_conservation_witness:
  "\<exists>q. dval (ls_total (fst (build example_env example_db alice 0 []))) = Some q \<and>
     dval (ls_issued (fst (build example_env example_db alice 0 []))) = Some q"
proof (rule ledger_conservation [where k = 0])
  have "paid_keys block_one r" if "r \<in> {join_alice, issue_alice, alice_pays_bob}" for r
    using that by (elim insertE emptyE; simp add: paid_keys_def example_defs text_simps)
  then show "\<forall>(b, r) \<in> set (chain_records (build_chain example_env example_db 0)). grid_record 0 r \<and> paid_keys b r"
    using example_grid by (simp add: example_chains example_chain_records)
qed (use example_volume in \<open>simp_all add: example_ids example_chains\<close>)

theorem validate_prefix_witness: "validateConnectedChain example_env [block_one] = Inr ()"
  by (rule validate_prefix [OF example_valid]) simp

theorem validated_links_witness:
  "b_previous_id block_one \<le> 0 \<and> b_previous_hash block_one = [] \<and>
   genesisMatches (env_config example_env) (b_number block_one) (b_hash block_one) \<and>
   linked [block_one, block_two] \<and> sorted_wrt (<) (map b_number [block_one, block_two])"
  using validated_links [OF example_valid] by simp

theorem validated_authentic_witness: "authentic_block example_env block_one \<and> authentic_record example_env alice_pays_bob"
  using validated_authentic [OF example_valid] by (simp add: block_one_def [THEN arg_cong [where f = b_records]])

theorem validated_records_once_witness: "distinct (map r_hash (concat (map b_records ([block_one] @ [block_two]))))"
  by (rule validated_records_once [OF example_valid])

theorem validated_names_unique_witness:
  "distinct (map bm_key (br_members after_example)) \<and>
   inj_on (\<lambda>m. normalizedBranchName (bm_name m)) {m \<in> set (br_members after_example). bm_name m \<noteq> []}"
  by (rule validated_names_unique [OF example_run])

theorem validated_nonces_witness:
  "map r_nonce (transfers_of alice (concat (map b_records ([block_one] @ [block_two])))) =
     [1 .. int (length (transfers_of alice (concat (map b_records ([block_one] @ [block_two])))))]"
  by (rule validated_nonces [OF example_valid]) (simp add: block_one_def block_two_def)

theorem validated_creators_witness:
  "b_creator block_two \<in> joined_keys [block_one] \<or>
   b_creator block_two = configuredRecoveryPublicKey (env_config example_env) (b_creator (hd [block_one])) \<and>
   consecutiveRecoveryBlocksInBranch [block_one] (b_creator block_two) < getRecoveryWindowBlocks"
  by (rule validated_creators [where after = "[]"]) (use example_valid in simp_all)

theorem validated_no_overdraft_witness: "\<exists>x. dval (sm_at (DFin 0) (br_balances after_example) alice) = Some x \<and> 0 \<le> x"
  by (rule validated_no_overdraft [OF example_run, where k = 0])
     (use example_grid example_volume in \<open>simp_all add: example_chain_records\<close>)

theorem nan_transfer_accepted_witness:
  "\<exists>s'. branch_transfer block_one branch_start (alice_pays_bob\<lparr>r_amount := DNaN\<rparr>) = Inr s' \<and>
     sm_at (DFin 0) (br_balances s') alice = DNaN \<and> sm_at (DFin 0) (br_balances s') bob = DNaN \<and>
     \<not> dlt (dadd (sm_at (DFin 0) (br_balances s') bob) EPS) (DFin 1000)"
  using nan_transfer_accepted [of "alice_pays_bob\<lparr>r_amount := DNaN\<rparr>" branch_start block_one "DFin 1000"]
  by (simp add: alice_pays_bob_def branch_start_def smap_simps alice_bob)

theorem ledger_agrees_with_validator_witness:
  "sm_at (DFin 0) (ls_balances (fst (build example_env example_db alice 0 []))) bob = sm_at (DFin 0) (br_balances (branch_snapshot block_one after_one)) bob"
proof (rule ledger_agrees_with_validator)
  show "branch_blocks example_env (env_config example_env) [] branch_start (build_chain example_env example_db 0) =
      Inr (branch_snapshot block_one after_one)"
    by (simp add: example_chains example_config branch_block_def header_checks example_genesis example_records)
  have "plain_record r" if "r \<in> {join_alice, issue_alice, alice_pays_bob}" for r
    using that by (elim insertE emptyE; simp add: plain_record_def representable_def example_defs small_ints)
  then show "\<forall>b \<in> set (build_chain example_env example_db 0). \<forall>r \<in> set (b_records b). plain_record r"
    by (simp add: example_chains block_one_def [THEN arg_cong [where f = b_records]])
qed (simp_all add: example_ids text_simps)

end
