(* ===== verification/ExampleIndex.thy ===== *)
theory ExampleIndex
  imports ExampleChain BestChain
begin

text \<open>
  The properties of the block database at the example chain: its first block is added to an
  empty database, its two blocks are indexed, and the best chain is chosen among them.
\<close>

section \<open>The blocks in the database\<close>

lemma block_two_printable: "printable_block example_env block_two"
  by (simp add: printable_block_def plain_block_def plain_def records_fit_def text_simps in_long_def LONG_MAX_def LONG_MIN_def
      block_two_def)

lemma example_parsed:
  "parseBlockJson example_env (blockJSON example_env block_one) = [block_one]"
  "parseBlockJson example_env (blockJSON example_env block_two) = [block_two]"
  using parse_printed_block [OF block_one_printable] parse_printed_block [OF block_two_printable]
  by (simp_all add: block_one_def [THEN arg_cong [where f = b_number]] block_one_def [THEN arg_cong [where f = b_hash]]
      block_two_def [THEN arg_cong [where f = b_number]] block_two_def [THEN arg_cong [where f = b_hash]])

definition two_blocks_db :: dbh where
  "two_blocks_db = Some [(blockHashKey (b_hash block_one), blockJSON example_env block_one),
     (blockHashKey (b_hash block_two), blockJSON example_env block_two)]"

lemma example_block_fields:
  "b_number block_one = 100" "b_number block_two = 101" "b_previous_id block_one = -1" "b_hash block_one = ''8a'' @ zeros"
  "b_previous_id block_two = 100" "b_previous_hash block_two = ''8a'' @ zeros" "b_hash block_two = ''ca'' @ zeros"
  "b_previous_hash block_one = []"
  by (simp_all add: block_one_def block_two_def)

lemma example_stored: "getStoredBlocks example_env two_blocks_db = [block_one, block_two]"
  by (simp add: getStoredBlocks_def two_blocks_db_def is_block_key_def starts_with_def blockHashKey_def example_parsed
      add_stored_def example_block_fields)

lemma parse_no_text: "parseBlockJson E [] = []"
proof -
  have "json_objects [] = []" by code_simp
  then show ?thesis by (simp add: parseBlockJson_def)
qed

lemma example_add_store:
  "\<exists>db'. add_store example_env block_one (Some []) = (Some True, db')"
proof -
  let ?db = "maybeUpdateHighestStoredBlock 100 (db_put (forkBlockKey block_one) (b_hash block_one)
      (db_put (blockHashKey (b_hash block_one)) (blockJSON example_env block_one) (Some [])))"
  have other: "db_str ?db k = []" if "k = canonicalHashKey 100 \<or> k = legacyBlockKey 100" for k
    using that by (auto simp: maybeUpdateHighestStoredBlock_def writeLongKey_def key_defs split: option.splits)
       (simp_all add: db_str_def db_text_def smap_simps)
  have "b_number (getBlock example_env ?db 100) \<le> 0"
    using other [of "canonicalHashKey 100"] other [of "legacyBlockKey 100"]
    by (cases ?db) (auto simp: getBlock_def db_str_def Let_def no_block_def parse_no_text)
  then show ?thesis by (simp add: add_store_def Let_def example_block_fields)
qed

definition no_caches :: caches where "no_caches = \<lparr>c_ledger = [], c_states = []\<rparr>"
definition start_state :: ledger_state where "start_state = build_start None 0"

lemma example_storage_records:
  "\<exists>s. storage_records example_env (Some []) True True (unset_state start_state) no_block block_one
     \<lparr>sv_balances = [], sv_nonces = [], sv_hashes = {}\<rparr> (b_records block_one) = Inr s"
proof -
  have h: "r_hash issue_alice \<noteq> r_hash join_alice" "r_hash alice_pays_bob \<noteq> r_hash join_alice"
    "r_hash alice_pays_bob \<noteq> r_hash issue_alice" by (simp_all add: example_defs)
  have t: "r_type join_alice = JOIN_NETWORK" "r_type issue_alice = ISSUE_CURRENCY" "r_type alice_pays_bob = TRANSFER_CURRENCY"
    "b_records block_one = [join_alice, issue_alice, alice_pays_bob]" by (simp_all add: example_defs)
  have u: "ls_accepted (unset_state start_state) = {}" "ls_names (unset_state start_state) = []"
    by (simp_all add: unset_state_def)
  have join: "storage_rules True True (unset_state start_state) block_one s join_alice = Inr s" for s
    by (simp add: storage_rules_def t nameTakenByAnother_def u alice_name join_alice_def)
  have issue: "storage_rules True True (unset_state start_state) block_one s issue_alice =
      Inr (s\<lparr>sv_balances := [(alice, DFin 1)]\<rparr>)" if "sv_balances s = []" for s
    using that by (simp add: storage_rules_def t) (simp add: issue_alice_def block_one_def credit_def sm_at_def sm_get_def double_sums)
  have transfer: "\<exists>s'. storage_rules True True (unset_state start_state) block_one s alice_pays_bob = Inr s'"
    if "sv_balances s = [(alice, DFin 1)]" "sv_nonces s = []" for s
    using that by (simp add: storage_rules_def t storage_transfer_def Let_def)
      (simp add: alice_pays_bob_def transfer_debit_def sm_at_def sm_get_def sm_touch_def double_sums alice_bob)
  show ?thesis
    using transfer [of "\<lparr>sv_balances = [(alice, DFin 1)], sv_nonces = [],
        sv_hashes = {r_hash alice_pays_bob, r_hash issue_alice, r_hash join_alice}\<rparr>"]
    by (auto simp: t storage_record_def example_record_checks h u join issue)
qed

lemma example_validated:
  "\<exists>cs. validateBlockForStorage example_env start_state (Some []) block_one no_caches = (Inr (), cs)"
proof -
  have "genesisMatches (env_config example_env) (b_number block_one) (b_hash block_one)"
    using example_genesis by (auto simp: example_config branch_genesis_def split: if_splits)
  moreover have "ls_balances (unset_state start_state) = []" "ls_nonces (unset_state start_state) = []"
    by (simp_all add: unset_state_def)
  ultimately show ?thesis
    using example_storage_records
    by (auto simp: validateBlockForStorage_def header_checks storage_body_def example_block_fields)
qed

lemma example_add_checks: "add_block_checks example_env block_one"
proof -
  have "genesisMatches (env_config example_env) (b_number block_one) (b_hash block_one)"
    using example_genesis by (auto simp: example_config branch_genesis_def split: if_splits)
  moreover have "add_record_checks example_env {} (b_records block_one)"
    using record_sizes by (simp add: block_one_def) (simp add: example_defs)
  moreover have "slen (blockJSON example_env block_one) \<le> MAX_BLOCK_JSON_BYTES"
    by (simp add: slen_def MAX_BLOCK_JSON_BYTES_def blockJSON_def block_fields_def record_fields_def recordJSON_def jfield_def example_defs
        text_simps lexical_example show_long_digits)
  ultimately show ?thesis
    by (simp add: add_block_checks_def example_block_fields MAX_BLOCK_RECORDS_def) (simp add: block_one_def)
qed

lemma example_added: "\<exists>db' cs'. AddBlock example_env start_state block_one (Some [], no_caches) = (Some True, db', cs')"
proof -
  have "db_str (Some []) (blockHashKey (b_hash block_one)) = []" by (simp add: db_str_def db_text_def smap_simps)
  moreover obtain cs where "validateBlockForStorage example_env start_state (Some []) block_one no_caches = (Inr (), cs)"
    using example_validated by blast
  moreover obtain db' where "add_store example_env block_one (Some []) = (Some True, db')" using example_add_store by blast
  ultimately show ?thesis by (simp add: AddBlock_def example_add_checks)
qed

lemma nothing_stored: "stored (Some []) h = []"
  by (simp add: stored_def db_str_def db_text_def smap_simps)

section \<open>The properties at the example\<close>

theorem add_keeps_blocks_witness:
  "\<exists>r db' cs'. AddBlock example_env start_state block_two (two_blocks_db, no_caches) = (r, db', cs') \<and>
     stored db' (b_hash block_one) = blockJSON example_env block_one"
proof -
  obtain r db' cs' where add: "AddBlock example_env start_state block_two (two_blocks_db, no_caches) = (r, db', cs')"
    using prod_cases3 by blast
  have st: "stored two_blocks_db (b_hash block_one) = blockJSON example_env block_one"
    by (simp add: stored_def db_str_def db_text_def two_blocks_db_def smap_simps sm_get_def)
  then have "stored db' (b_hash block_one) = blockJSON example_env block_one"
    using add_keeps_blocks [OF add, of "b_hash block_one"] by simp
  then show ?thesis using add by blast
qed

theorem add_readback_witness:
  "\<exists>db' cs'. AddBlock example_env start_state block_one (Some [], no_caches) = (Some True, db', cs') \<and>
     getBlockByHash example_env db' (b_hash block_one) = block_one \<and>
     AddBlock example_env start_state block_one (db', cs') = (Some True, db', cs')"
  using example_added add_readback [OF _ nothing_stored block_one_printable] by blast

theorem add_authentic_witness:
  "authentic_block example_env block_one \<and> list_all (admissible_record example_env) (b_records block_one) \<and>
   distinct (map r_hash (b_records block_one))"
proof -
  obtain db' cs' where add: "AddBlock example_env start_state block_one (Some [], no_caches) = (Some True, db', cs')"
    using example_added by blast
  then have "stored db' (b_hash block_one) \<noteq> []"
    by (cases rule: AddBlock_cases) (use nothing_stored stored_add_store in auto)
  then show ?thesis using add_authentic [OF add nothing_stored] by blast
qed

theorem rebuild_write_walk_witness:
  "connected_blocks example_env (rebuild_write example_env block_one [block_one, block_two] example_db) = [block_one, block_two]"
  by (rule rebuild_write_walk)
     (use example_valid block_one_printable block_two_printable example_db_open example_ids in
       \<open>auto simp: example_block_fields\<close>)

theorem candidate_longest_witness:
  "2 \<le> length (candidate_chain example_env two_blocks_db 100 [block_one, block_two]) \<or>
   int (length (candidate_chain example_env two_blocks_db 100 [block_one, block_two])) = MAX_REBUILD_CHAIN_DEPTH"
  using candidate_longest [of example_env two_blocks_db "[block_one, block_two]" 100]
  by (simp add: example_stored path_def genesis_candidates_def childConnectsToParent_def example_block_fields numeral_2_eq_2)

theorem longest_valid_prefix_witness: "take 2 (longest_valid example_env [block_one, block_two]) = [block_one, block_two]"
  using longest_valid_prefix [of example_env 2 "[block_one, block_two]"] example_valid by simp

end
