(* ===== verification/ExamplePeers.thy ===== *)
theory ExamplePeers
  imports PeerGate SyncBounds ExampleIndex
begin

text \<open>
  The properties of the peer client at small examples: a node whose database holds the first
  block of the example chain, with one peer that has the same tip, and a node with three
  peers of which one has a wrong clock.
\<close>

definition peer_url :: string where "peer_url = ''http://peer''"

text \<open>A world whose clock stands still and whose peers send the same answer to everything.\<close>

definition still_world :: "(http_request \<Rightarrow> string) \<Rightarrow> world" where
  "still_world answer =
     \<lparr>w_env = example_env, w_uninit = start_state, w_http = (\<lambda>n. answer), w_clock = (\<lambda>n. 1500),
      w_stop = (\<lambda>n. False), w_busy = (\<lambda>n. False), w_escape = (\<lambda>s. s), w_ties = (\<lambda>xs. xs),
      w_sign = (\<lambda>key m. stamp), w_writable = True\<rparr>"

definition junk_world :: world where
  "junk_world = still_world (\<lambda>rq. jfield ''latest_block_id'' ''999999'')"

definition level_status :: peer_status where
  "level_status = (emptyPeerStatus peer_url)
     \<lparr>p_latestBlockId := 100, p_latestBlockHash := b_hash block_one, p_rulesCompatible := True, p_genesisMatch := True,
      p_reachable := True, p_lastSeenEpoch := 1500\<rparr>"

definition example_node :: node where
  "example_node =
     \<lparr>n_db = example_db, n_caches = no_caches, n_peers = [peer_url], n_statuses = [(peer_url, level_status)],
      n_configured = {}, n_advertised = [], n_running = True, n_peers_dat = [], n_backoff_until = 0,
      n_backoff_failures = 0, n_stable_id = -1, n_stable_hash = [], n_stable_checks = 0, n_offset = 0, n_events = 0\<rparr>"

section \<open>A peer that sends junk\<close>

lemma example_first: "0 \<le> getFirstBlockId (n_db example_node)"
  by (simp add: example_node_def example_ids)

theorem sync_keeps_store_witness:
  "\<exists>r s'. syncFromPeer junk_world peer_url example_node = (r, s') \<and> getFirstBlockId (n_db s') = 100"
proof -
  obtain r s' where sync: "syncFromPeer junk_world peer_url example_node = (r, s')" by fastforce
  have "getFirstBlockId (n_db example_node) = 100" by (simp add: example_node_def example_ids)
  then have "getFirstBlockId (n_db s') = 100"
    using sync_keeps_store [OF disjI1 [OF example_first] sync] by simp
  then show ?thesis using sync by blast
qed

theorem peer_table_invariant_witness:
  "scores_ok (n_statuses (fold (run_op junk_world) [AddPeer ''http://other'' True, SyncFrom peer_url, Discover, CanCreate]
     (setPeers junk_world [peer_url] example_node)))"
proof -
  have "loadPeerCache (n_peers_dat example_node) = []" by (simp add: example_node_def loadPeerCache_def List.map_filter_simps)
  then have "list_all score_ok (loadPeerCache (n_peers_dat example_node))" by simp
  with peer_table_invariant [of junk_world "[AddPeer ''http://other'' True, SyncFrom peer_url, Discover, CanCreate]" "[peer_url]" example_node]
  show ?thesis by blast
qed

section \<open>A peer with the same tip\<close>

lemma env_still [simp]: "n_offset s = 0 \<Longrightarrow> env_now (still_world a) s = example_env"
  by (simp add: env_now_def still_world_def example_env_def)

lemma peer_url_normal: "normalizePeerUrl peer_url = peer_url"
  unfolding peer_url_def by code_simp

text \<open>The node with any note of a stable tip.\<close>

definition noted_node :: "int \<Rightarrow> string \<Rightarrow> int \<Rightarrow> node" where
  "noted_node i h c = example_node\<lparr>n_stable_id := i, n_stable_hash := h, n_stable_checks := c\<rparr>"

lemma example_best: "getBestPeerStatus junk_world (noted_node i h c) = (level_status, event (noted_node i h c))"
proof -
  have status: "status_of (event (noted_node i h c)) peer_url = level_status" "known (event (noted_node i h c)) peer_url"
    by (simp_all add: status_of_def known_def event_def noted_node_def example_node_def sm_at_def sm_get_def)
  have fresh: "\<not> status_outdated (event (noted_node i h c)) 1500 peer_url"
    by (simp add: status_outdated_def status PEER_STATUS_REFRESH_SECONDS_def) (simp add: level_status_def)
  have peers: "n_peers (noted_node i h c) = [peer_url]" by (simp add: noted_node_def example_node_def)
  have old: "refresh_outdated junk_world 1500 0 (event (noted_node i h c)) = event (noted_node i h c)"
    by (subst refresh_outdated.simps, simp add: peers fresh) (subst refresh_outdated.simps, simp add: peers)
  have usable: "usable (event (noted_node i h c)) level_status"
    by (simp add: usable_def level_status_def shouldSkipPeerForScore_def emptyPeerStatus_def)
  show ?thesis
    by (simp add: getBestPeerStatus_def local_epoch_def junk_world_def still_world_def old [unfolded junk_world_def still_world_def])
      (simp add: getPeerStatuses_def peers touch_status_def status usable)
qed

lemma example_agree: "tips_agree junk_world (noted_node i h c) 100 (b_hash block_one)"
proof -
  have "env_now junk_world (event (noted_node i h c)) = example_env"
    unfolding junk_world_def by (rule env_still) (simp add: event_def noted_node_def example_node_def)
  moreover have "n_db (event (noted_node i h c)) = example_db" "n_db (noted_node i h c) = example_db"
    by (simp_all add: event_def noted_node_def example_node_def)
  ultimately show ?thesis
    by (simp add: tips_agree_def example_best example_block latest_id_def example_ids example_block_fields level_status_def)
qed

lemma noted_peers: "n_peers (noted_node i h c) \<noteq> []"
  by (simp add: noted_node_def example_node_def)

theorem gate_opens_witness: "fst (canCreateBlocks junk_world (noted_node 100 (b_hash block_one) 1)) = (True, ''ok'')"
proof (rule gate_opens [of junk_world "noted_node (-1) [] 0" 100 "b_hash block_one"])
  let ?t = "snd (noteStablePeerTip 100 (b_hash block_one) (event (noted_node (-1) [] 0)))"
  show "tips_agree junk_world (noted_node (-1) [] 0) 100 (b_hash block_one)"
    "tips_agree junk_world (noted_node 100 (b_hash block_one) 1) 100 (b_hash block_one)" by (rule example_agree)+
  show "n_peers (noted_node (-1) [] 0) \<noteq> []" "n_peers (noted_node 100 (b_hash block_one) 1) \<noteq> []" by (rule noted_peers)+
  show "0 \<le> n_stable_checks (noted_node (-1) [] 0)" by (simp add: noted_node_def)
  show "canCreateBlocks junk_world (noted_node (-1) [] 0) = ((False, ''peer tip not stable yet''), ?t)"
    unfolding gate_agree [OF example_agree noted_peers example_best]
    by (simp add: noteStablePeerTip_def REQUIRED_STABLE_TIP_CHECKS_def noted_node_def event_def example_block_fields)
  show "n_stable_id (noted_node 100 (b_hash block_one) 1) = n_stable_id ?t"
    "n_stable_hash (noted_node 100 (b_hash block_one) 1) = n_stable_hash ?t"
    "n_stable_checks (noted_node 100 (b_hash block_one) 1) = n_stable_checks ?t"
    by (simp_all add: noteStablePeerTip_def noted_node_def event_def example_block_fields Let_def)
qed

theorem gate_safe_witness: "tips_agree junk_world (noted_node 100 (b_hash block_one) 1) 100 (b_hash block_one)"
proof -
  let ?s = "noted_node 100 (b_hash block_one) 1"
  have "canCreateBlocks junk_world ?s =
      ((True, ''ok''), snd (noteStablePeerTip 100 (b_hash block_one) (event ?s)))"
    unfolding gate_agree [OF example_agree noted_peers example_best]
    by (simp add: noteStablePeerTip_def REQUIRED_STABLE_TIP_CHECKS_def noted_node_def event_def example_block_fields Let_def)
  from gate_safe [OF this noted_peers] show ?thesis by (simp add: noted_node_def)
qed

section \<open>The file of peers\<close>

theorem peer_cache_roundtrip_witness:
  "loadPeerCache (writePeerCache [peer_url, ''http://b''] [(peer_url, level_status)] {''http://b''}) = [kept_status [(peer_url, level_status)] peer_url]"
  using peer_cache_roundtrip [of "[peer_url, ''http://b'']" "{''http://b''}" "[(peer_url, level_status)]"]
  by (simp add: cacheable_def Let_def peer_url_normal sm_at_def sm_get_def level_status_def score_ok_def emptyPeerStatus_def
      in_long_def LONG_MAX_def LONG_MIN_def) (simp add: field_def peer_url_def)

section \<open>Three peers, one with a wrong clock\<close>

definition time_world :: world where
  "time_world = still_world (\<lambda>rq. if rq = Get ''http://c/api/time'' then jfield ''epoch'' ''9000'' else jfield ''epoch'' ''1510'')"

definition time_node :: node where
  "time_node = example_node\<lparr>n_db := None, n_peers := [''http://a'', ''http://b'', ''http://c''],
     n_statuses := map (\<lambda>p. (p, emptyPeerStatus p)) [''http://a'', ''http://b'', ''http://c'']\<rparr>"

definition after_events :: "nat \<Rightarrow> node" where
  "after_events n = time_node\<lparr>n_events := n\<rparr>"

lemma time_running: "is_running time_world (after_events n) = (True, after_events (Suc n))" "time_node = after_events 0"
  by (simp_all add: is_running_def time_world_def still_world_def event_def after_events_def time_node_def example_node_def)

lemma time_steps:
  "local_epoch time_world (after_events n) = (1500, after_events (Suc n))"
  "http time_world rq (after_events n) =
     (if rq = Get ''http://c/api/time'' then jfield ''epoch'' ''9000'' else jfield ''epoch'' ''1510'', after_events (Suc n))"
  by (simp_all add: local_epoch_def http_def time_world_def still_world_def event_def after_events_def)

lemma time_statuses: "getPeerStatuses time_world False (after_events n) =
    ([emptyPeerStatus ''http://a'', emptyPeerStatus ''http://b'', emptyPeerStatus ''http://c''], after_events n)"
  by (simp add: getPeerStatuses_def touch_status_def known_def status_of_def sm_at_def sm_get_def after_events_def time_node_def
      Let_def)

lemma time_answers:
  "contains (jfield ''epoch'' ''9000'') (jkey ''epoch'')" "contains (jfield ''epoch'' ''1510'') (jkey ''epoch'')"
  "parseSectionLong (jfield ''epoch'' ''9000'') (jkey ''epoch'') [DQ] = 9000"
  "parseSectionLong (jfield ''epoch'' ''1510'') (jkey ''epoch'') [DQ] = 1510"
  by code_simp+

lemma empty_fields: "p_url (emptyPeerStatus p) = p" "\<not> shouldSkipPeerForScore s (emptyPeerStatus p)"
  by (simp_all add: emptyPeerStatus_def shouldSkipPeerForScore_def)

lemma time_one:
  "time_offsets time_world (emptyPeerStatus p # sts) (after_events n) =
     (let (offsets, s) = time_offsets time_world sts (after_events (n + 4))
      in ((if p = ''http://c'' then 7500 else 10) # offsets, s))"
  by (simp add: time_running time_steps time_answers empty_fields cdiv_def Let_def numeral_eq_Suc)

lemma time_example:
  "time_offsets time_world [emptyPeerStatus ''http://a'', emptyPeerStatus ''http://b'', emptyPeerStatus ''http://c''] (after_events (Suc 0)) =
     ([10, 10, 7500], after_events 13)"
  by (simp add: time_one del: time_offsets.simps(2))

theorem time_majority_witness:
  "n_offset (snd (syncNetworkTime time_world time_node)) = 10"
proof -
  have running: "is_running time_world time_node = (True, after_events (Suc 0))" by (simp only: time_running)
  have sync: "syncNetworkTime time_world time_node = (True, (after_events 13)\<lparr>n_offset := median_offset [10, 10, 7500]\<rparr>)"
    by (simp add: syncNetworkTime_def running time_statuses time_example del: time_offsets.simps)
       (simp add: after_events_def time_node_def)
  have statuses: "getPeerStatuses time_world False (snd (is_running time_world time_node)) =
      ([emptyPeerStatus ''http://a'', emptyPeerStatus ''http://b'', emptyPeerStatus ''http://c''], after_events (Suc 0))"
    by (simp only: running snd_conv time_statuses)
  have "10 \<le> n_offset ((after_events 13)\<lparr>n_offset := median_offset [10, 10, 7500]\<rparr>) \<and>
      n_offset ((after_events 13)\<lparr>n_offset := median_offset [10, 10, 7500]\<rparr>) \<le> 10"
    by (rule time_majority [OF sync statuses time_example]) simp
  then show ?thesis unfolding sync snd_conv by linarith
qed

end
