(* ===== verification/RequestParser.thy ===== *)
theory RequestParser
  imports Prelude
begin

text \<open>
  The parser of HTTP requests of the node's API, \<open>src/src/network/request_parser.cpp\<close> and the
  loop in \<open>request_parser.h\<close>: a state machine that consumes one character at a time and
  answers with a \<open>boost::tribool\<close>. \<open>headers.back ()\<close> on an empty vector is undefined behaviour;
  the model makes it visible as \<open>None\<close>. The version numbers are accumulated in an \<open>int\<close> without a
  check: the model wraps them around at 32 bits, what the machine does with the additions that
  the language leaves undefined, and \<open>version_ok\<close> names the numbers that are reached without it.
\<close>

section \<open>Definitions\<close>

datatype tribool = TTrue | TFalse | Indeterminate

datatype parser_state =
    method_start | method_state | uri_start | uri_state
  | http_version_h | http_version_t_1 | http_version_t_2 | http_version_p | http_version_slash
  | http_version_major_start | http_version_major | http_version_minor_start | http_version_minor
  | expecting_newline_1 | header_line_start | header_lws | header_name
  | space_before_header_value | header_value | expecting_newline_2 | expecting_newline_3

record header =
  h_name :: string
  h_value :: string

record request =
  q_method :: string
  q_uri :: string
  q_body :: string
  q_major :: int
  q_minor :: int
  q_headers :: "header list"

text \<open>\<open>char\<close> is signed: bytes from 128 on are negative when they become an \<open>int\<close>.\<close>

definition scode :: "char \<Rightarrow> int" where
  "scode c = (if code c < 128 then code c else code c - 256)"

definition is_char :: "char \<Rightarrow> bool" where
  "is_char c \<longleftrightarrow> 0 \<le> scode c \<and> scode c \<le> 127"

definition is_ctl :: "char \<Rightarrow> bool" where
  "is_ctl c \<longleftrightarrow> 0 \<le> scode c \<and> scode c \<le> 31 \<or> scode c = 127"

definition is_tspecial :: "char \<Rightarrow> bool" where
  "is_tspecial c \<longleftrightarrow> c \<in> set ''()<>@,;:/[]?={} '' \<or> c = CHR 0x5C \<or> c = CHR 0x22 \<or> c = CHR 0x09"

definition is_digit :: "char \<Rightarrow> bool" where
  "is_digit c \<longleftrightarrow> 48 \<le> scode c \<and> scode c \<le> 57"

abbreviation CR :: char where "CR \<equiv> CHR 0x0D"
abbreviation LF :: char where "LF \<equiv> CHR 0x0A"
abbreviation TAB :: char where "TAB \<equiv> CHR 0x09"

type_synonym outcome = "(tribool \<times> parser_state \<times> request) option"

definition more :: "parser_state \<Rightarrow> request \<Rightarrow> outcome" where
  "more st req = Some (Indeterminate, st, req)"

definition reject :: "parser_state \<Rightarrow> request \<Rightarrow> outcome" where
  "reject st req = Some (TFalse, st, req)"

text \<open>\<open>req.headers.back ()\<close> changed by a function.\<close>

definition with_back :: "(header \<Rightarrow> header) \<Rightarrow> parser_state \<Rightarrow> request \<Rightarrow> outcome" where
  "with_back f st req =
     (if q_headers req = [] then None
      else more st (req\<lparr>q_headers := butlast (q_headers req) @ [f (last (q_headers req))]\<rparr>))"

definition push_name :: "char \<Rightarrow> header \<Rightarrow> header" where "push_name c h = h\<lparr>h_name := h_name h @ [c]\<rparr>"
definition push_value :: "char \<Rightarrow> header \<Rightarrow> header" where "push_value c h = h\<lparr>h_value := h_value h @ [c]\<rparr>"

definition not_token :: "char \<Rightarrow> bool" where
  "not_token c \<longleftrightarrow> \<not> is_char c \<or> is_ctl c \<or> is_tspecial c"

text \<open>The states of the request line up to the URI.\<close>

definition consume_target :: "parser_state \<Rightarrow> request \<Rightarrow> char \<Rightarrow> outcome" where
  "consume_target st req c =
     (case st of
        method_start \<Rightarrow> if not_token c then reject st req else more method_state (req\<lparr>q_method := q_method req @ [c]\<rparr>)
      | method_state \<Rightarrow>
          if c = CHR '' '' then more uri_state req
          else if not_token c then reject st req
          else more st (req\<lparr>q_method := q_method req @ [c]\<rparr>)
      | uri_start \<Rightarrow> if is_ctl c then reject st req else more uri_state (req\<lparr>q_uri := q_uri req @ [c]\<rparr>)
      | uri_state \<Rightarrow>
          if c = CHR '' '' then more http_version_h req
          else if is_ctl c then reject st req
          else more st (req\<lparr>q_uri := q_uri req @ [c]\<rparr>)
      | _ \<Rightarrow> reject st req)"

definition expect :: "char \<Rightarrow> parser_state \<Rightarrow> parser_state \<Rightarrow> request \<Rightarrow> char \<Rightarrow> outcome" where
  "expect x next st req c = (if c = x then more next req else reject st req)"

text \<open>\<open>http_version_major * 10 + input - '0'\<close>, computed in an \<open>int\<close>.\<close>

definition push_digit :: "int \<Rightarrow> char \<Rightarrow> int" where
  "push_digit n c = signed_take_bit 31 (n * 10 + scode c - 48)"

text \<open>The states of the version.\<close>

definition consume_version :: "parser_state \<Rightarrow> request \<Rightarrow> char \<Rightarrow> outcome" where
  "consume_version st req c =
     (case st of
        http_version_h \<Rightarrow> expect (CHR ''H'') http_version_t_1 st req c
      | http_version_t_1 \<Rightarrow> expect (CHR ''T'') http_version_t_2 st req c
      | http_version_t_2 \<Rightarrow> expect (CHR ''T'') http_version_p st req c
      | http_version_p \<Rightarrow> expect (CHR ''P'') http_version_slash st req c
      | http_version_slash \<Rightarrow>
          if c = CHR ''/'' then more http_version_major_start (req\<lparr>q_major := 0, q_minor := 0\<rparr>) else reject st req
      | http_version_major_start \<Rightarrow>
          if is_digit c then more http_version_major (req\<lparr>q_major := push_digit (q_major req) c\<rparr>) else reject st req
      | http_version_major \<Rightarrow>
          if c = CHR ''.'' then more http_version_minor_start req
          else if is_digit c then more st (req\<lparr>q_major := push_digit (q_major req) c\<rparr>)
          else reject st req
      | http_version_minor_start \<Rightarrow>
          if is_digit c then more http_version_minor (req\<lparr>q_minor := push_digit (q_minor req) c\<rparr>) else reject st req
      | http_version_minor \<Rightarrow>
          if c = CR then more expecting_newline_1 req
          else if is_digit c then more st (req\<lparr>q_minor := push_digit (q_minor req) c\<rparr>)
          else reject st req
      | expecting_newline_1 \<Rightarrow> expect LF header_line_start st req c
      | _ \<Rightarrow> reject st req)"

text \<open>The states of the headers.\<close>

definition consume_header :: "parser_state \<Rightarrow> request \<Rightarrow> char \<Rightarrow> outcome" where
  "consume_header st req c =
     (case st of
        header_line_start \<Rightarrow>
          if c = CR then more expecting_newline_3 req
          else if q_headers req \<noteq> [] \<and> (c = CHR '' '' \<or> c = TAB) then more header_lws req
          else if not_token c then reject st req
          else with_back (push_name c) header_name
                 (req\<lparr>q_headers := q_headers req @ [\<lparr>h_name = [], h_value = []\<rparr>]\<rparr>)
      | header_lws \<Rightarrow>
          if c = CR then more expecting_newline_2 req
          else if c = CHR '' '' \<or> c = TAB then more st req
          else if is_ctl c then reject st req
          else with_back (push_value c) header_value req
      | header_name \<Rightarrow>
          if c = CHR '':'' then more space_before_header_value req
          else if not_token c then reject st req
          else with_back (push_name c) st req
      | space_before_header_value \<Rightarrow> expect (CHR '' '') header_value st req c
      | header_value \<Rightarrow>
          if c = CR then more expecting_newline_2 req
          else if is_ctl c then reject st req
          else with_back (push_value c) st req
      | expecting_newline_2 \<Rightarrow> expect LF header_line_start st req c
      | expecting_newline_3 \<Rightarrow> if c = LF then Some (TTrue, st, req) else reject st req
      | _ \<Rightarrow> reject st req)"

definition consume :: "parser_state \<Rightarrow> request \<Rightarrow> char \<Rightarrow> outcome" where
  "consume st req c =
     (if st \<in> {method_start, method_state, uri_start, uri_state} then consume_target st req c
      else if st \<in> {http_version_h, http_version_t_1, http_version_t_2, http_version_p, http_version_slash,
          http_version_major_start, http_version_major, http_version_minor_start, http_version_minor,
          expecting_newline_1} then consume_version st req c
      else consume_header st req c)"

text \<open>\<open>parse\<close>: the answer, the state and request reached and the input that is left.\<close>

fun parse :: "parser_state \<Rightarrow> request \<Rightarrow> string \<Rightarrow> (tribool \<times> parser_state \<times> request \<times> string) option" where
  "parse st req [] = Some (Indeterminate, st, req, [])"
| "parse st req (c # cs) =
     (case consume st req c of
        None \<Rightarrow> None
      | Some (Indeterminate, st, req) \<Rightarrow> parse st req cs
      | Some (result, st, req) \<Rightarrow> Some (result, st, req, cs))"

definition empty_request :: request where
  "empty_request = \<lparr>q_method = [], q_uri = [], q_body = [], q_major = 0, q_minor = 0, q_headers = []\<rparr>"

section \<open>The state machine\<close>

text \<open>One character of input that leaves the answer open, and the states reached by such steps.\<close>

inductive parser_step :: "parser_state \<times> request \<Rightarrow> parser_state \<times> request \<Rightarrow> bool" where
  "consume st req c = Some (Indeterminate, st', req') \<Longrightarrow> parser_step (st, req) (st', req')"

inductive parser_reach :: "parser_state \<times> request \<Rightarrow> bool" where
  reach_start: "parser_reach (method_start, empty_request)"
| reach_step: "parser_reach x \<Longrightarrow> parser_step x y \<Longrightarrow> parser_reach y"

inductive_cases parser_stepE: "parser_step (st, req) (st', req')"

definition needs_header :: "parser_state set" where
  "needs_header = {header_lws, header_name, space_before_header_value, header_value, expecting_newline_2}"

definition parser_inv :: "parser_state \<times> request \<Rightarrow> bool" where
  "parser_inv = (\<lambda>(st, req). st \<noteq> uri_start \<and> (st \<in> needs_header \<longrightarrow> q_headers req \<noteq> []))"

lemmas consume_defs = consume_def consume_target_def consume_version_def consume_header_def expect_def
  more_def reject_def with_back_def

lemma consume_inv:
  assumes "parser_inv (st, req)" and "consume st req c = Some (Indeterminate, st', req')"
  shows "parser_inv (st', req')"
  using assms by (cases st) (auto simp: parser_inv_def needs_header_def consume_defs split: if_splits)

lemma reach_inv: "parser_reach x \<Longrightarrow> parser_inv x"
proof (induction rule: parser_reach.induct)
  case reach_start
  then show ?case by (simp add: parser_inv_def needs_header_def)
next
  case (reach_step x y)
  obtain st req st' req' where xy: "x = (st, req)" "y = (st', req')" by (meson surj_pair)
  from reach_step(2) obtain c where "consume st req c = Some (Indeterminate, st', req')"
    unfolding xy by (rule parser_stepE)
  with reach_step.IH show ?case unfolding xy by (rule consume_inv)
qed

lemma consume_defined: "parser_inv (st, req) \<Longrightarrow> consume st req c \<noteq> None"
  by (cases st) (auto simp: parser_inv_def needs_header_def consume_defs)

lemma parse_defined: "parser_inv (st, req) \<Longrightarrow> parse st req cs \<noteq> None"
proof (induction cs arbitrary: st req)
  case Nil
  then show ?case by simp
next
  case (Cons c cs)
  then obtain r st' req' where c: "consume st req c = Some (r, st', req')" using consume_defined by fastforce
  then show ?case using Cons.IH consume_inv [OF Cons.prems] by (cases r) auto
qed

text \<open>
  The parser never touches a header that is not there: from the start, on any input,
  \<open>headers.back ()\<close> is only reached when there is a header, so parsing always returns an
  answer.
\<close>

theorem parse_no_undefined: "parse method_start empty_request input \<noteq> None"
  by (rule parse_defined) (simp add: parser_inv_def needs_header_def)

text \<open>
  Parsing can be interrupted: the answer on two chunks of input is the answer on the
  first one, or, as long as that is open, the answer of going on with the second one from
  the state reached.
\<close>

theorem parse_chunks:
  "parse st req (xs @ ys) =
     (case parse st req xs of
        None \<Rightarrow> None
      | Some (Indeterminate, st', req', rest) \<Rightarrow> parse st' req' ys
      | Some (result, st', req', rest) \<Rightarrow> Some (result, st', req', rest @ ys))"
  by (induction xs arbitrary: st req) (auto split: option.splits tribool.splits)

section \<open>Well-formed requests are read back\<close>

definition print_header :: "header \<Rightarrow> string" where
  "print_header h = h_name h @ '': '' @ h_value h @ [CR, LF]"

definition print_request :: "request \<Rightarrow> string" where
  "print_request req =
     q_method req @ '' '' @ q_uri req @ '' HTTP/'' @ show_long (q_major req) @ ''.'' @ show_long (q_minor req) @ [CR, LF] @
     concat (map print_header (q_headers req)) @ [CR, LF]"

definition token :: "string \<Rightarrow> bool" where
  "token s \<longleftrightarrow> s \<noteq> [] \<and> list_all (\<lambda>c. \<not> not_token c) s"

text \<open>
  The version numbers whose accumulation stays within an \<open>int\<close>, the sum before \<open>'0'\<close> is taken off
  included.
\<close>

definition version_ok :: "int \<Rightarrow> bool" where
  "version_ok v \<longleftrightarrow> 0 \<le> v \<and> v + 48 \<le> 2147483647"

definition well_formed :: "request \<Rightarrow> bool" where
  "well_formed req \<longleftrightarrow>
     token (q_method req) \<and> list_all (\<lambda>c. \<not> is_ctl c \<and> c \<noteq> CHR '' '') (q_uri req) \<and> q_body req = [] \<and>
     version_ok (q_major req) \<and> version_ok (q_minor req) \<and>
     list_all (\<lambda>h. token (h_name h) \<and> list_all (\<lambda>c. \<not> is_ctl c) (h_value h)) (q_headers req)"

lemma token_char: "\<not> not_token c \<Longrightarrow> c \<noteq> CHR '' '' \<and> c \<noteq> CHR '':'' \<and> c \<noteq> CR \<and> c \<noteq> TAB"
proof -
  have "not_token (CHR '' '')" "not_token (CHR '':'')" "not_token CR" "not_token TAB"
    by (simp_all add: not_token_def is_tspecial_def is_ctl_def scode_def code_def)
  then show "\<not> not_token c \<Longrightarrow> c \<noteq> CHR '' '' \<and> c \<noteq> CHR '':'' \<and> c \<noteq> CR \<and> c \<noteq> TAB" by metis
qed

lemma not_ctl_CR: "\<not> is_ctl c \<Longrightarrow> c \<noteq> CR"
  by (auto simp: is_ctl_def scode_def code_def)

lemma parse_method:
  "list_all (\<lambda>c. \<not> not_token c) m \<Longrightarrow>
   parse method_state req (m @ CHR '' '' # rest) = parse uri_state (req\<lparr>q_method := q_method req @ m\<rparr>) rest"
proof (induction m arbitrary: req)
  case Nil
  then show ?case by (simp add: consume_defs)
next
  case (Cons c m)
  then show ?case using token_char [of c] by (simp add: consume_defs)
qed

lemma parse_uri:
  "list_all (\<lambda>c. \<not> is_ctl c \<and> c \<noteq> CHR '' '') u \<Longrightarrow>
   parse uri_state req (u @ CHR '' '' # rest) = parse http_version_h (req\<lparr>q_uri := q_uri req @ u\<rparr>) rest"
proof (induction u arbitrary: req)
  case Nil
  then show ?case by (simp add: consume_defs)
next
  case (Cons c u)
  then show ?case by (simp add: consume_defs)
qed

lemma digit_facts:
  "c_isdigit c \<Longrightarrow> is_digit c \<and> c \<noteq> CHR ''.'' \<and> c \<noteq> CR \<and> push_digit n c = signed_take_bit 31 (10 * n + digit_val c)"
  by (auto simp: c_isdigit_def is_digit_def scode_def push_digit_def digit_val_def algebra_simps) (auto simp: code_def)

lemma digit_val_range: "c_isdigit c \<Longrightarrow> 0 \<le> digit_val c"
  by (auto simp: c_isdigit_def digit_val_def)

text \<open>The number read so far never exceeds the number in the end, so no addition leaves the \<open>int\<close>.\<close>

lemma digits_grow: "list_all c_isdigit ds \<Longrightarrow> 0 \<le> a \<Longrightarrow> a \<le> foldl (\<lambda>a c. 10 * a + digit_val c) a ds"
proof (induction ds arbitrary: a)
  case (Cons d ds)
  then have "10 * a + digit_val d \<le> foldl (\<lambda>a c. 10 * a + digit_val c) (10 * a + digit_val d) ds"
    using digit_val_range [of d] by simp
  then show ?case using Cons.prems digit_val_range [of d] by simp
qed simp

lemma push_digits:
  assumes "list_all c_isdigit ds" and "0 \<le> a" and "foldl (\<lambda>a c. 10 * a + digit_val c) a ds < 2 ^ 31"
  shows "foldl push_digit a ds = foldl (\<lambda>a c. 10 * a + digit_val c) a ds"
  using assms
proof (induction ds arbitrary: a)
  case (Cons d ds)
  let ?a = "10 * a + digit_val d"
  have a: "0 \<le> ?a" using Cons.prems digit_val_range [of d] by simp
  have "?a < 2 ^ 31" using digits_grow [OF _ a, of ds] Cons.prems by simp
  then have "push_digit a d = ?a"
    using a Cons.prems(1) digit_facts [of d a] by (simp add: signed_take_bit_int_eq_self)
  then show ?case using Cons.IH [OF _ a] Cons.prems by simp
qed simp

lemma parse_major:
  "list_all c_isdigit ds \<Longrightarrow>
   parse http_version_major req (ds @ CHR ''.'' # rest) =
   parse http_version_minor_start (req\<lparr>q_major := foldl push_digit (q_major req) ds\<rparr>) rest"
proof (induction ds arbitrary: req)
  case Nil
  then show ?case by (simp add: consume_defs)
next
  case (Cons d ds)
  then show ?case using digit_facts [of d] by (simp add: consume_defs)
qed

lemma parse_minor:
  "list_all c_isdigit ds \<Longrightarrow>
   parse http_version_minor req (ds @ CR # LF # rest) =
   parse header_line_start (req\<lparr>q_minor := foldl push_digit (q_minor req) ds\<rparr>) rest"
proof (induction ds arbitrary: req)
  case Nil
  then show ?case by (simp add: consume_defs)
next
  case (Cons d ds)
  then show ?case using digit_facts [of d] by (simp add: consume_defs)
qed

text \<open>Longer version numbers are read, but as other numbers: 4294967297 becomes version 1.\<close>

lemma version_wraps:
  "q_major req = 0 \<Longrightarrow>
   parse http_version_major_start req (''4294967297.'' @ rest) = parse http_version_minor_start (req\<lparr>q_major := 1\<rparr>) rest"
proof -
  assume "q_major req = 0"
  moreover have "foldl push_digit (push_digit 0 (CHR ''4'')) ''294967297'' = 1" by code_simp
  moreover have "list_all c_isdigit ''294967297''" "is_digit (CHR ''4'')" by code_simp+
  ultimately show ?thesis
    using parse_major [of "''294967297''" "req\<lparr>q_major := push_digit 0 (CHR ''4'')\<rparr>" rest] by (simp add: consume_defs)
qed

lemma number_digits:
  assumes "version_ok n"
  obtains d ds where "show_long n = d # ds" "c_isdigit d" "list_all c_isdigit ds" "foldl push_digit (push_digit 0 d) ds = n"
proof -
  have s: "show_long n = show_nat (nat n)" using assms by (simp add: show_long_def version_ok_def)
  obtain d ds where d: "show_nat (nat n) = d # ds" by (cases "show_nat (nat n)") auto
  have "digits_val (show_nat (nat n)) = n" using assms by (simp add: digits_val_show_nat version_ok_def)
  then have "foldl (\<lambda>a c. 10 * a + digit_val c) 0 (d # ds) = n" by (simp add: d digits_val_def)
  moreover have all: "list_all c_isdigit (d # ds)" using show_nat_isdigit [of "nat n"] d by simp
  ultimately have "foldl push_digit 0 (d # ds) = n" using push_digits [OF all] assms by (simp add: version_ok_def)
  then show thesis using that s d all by simp
qed

lemma parse_version:
  assumes "version_ok a" and "version_ok b"
  shows "parse http_version_h req (''HTTP/'' @ show_long a @ ''.'' @ show_long b @ CR # LF # rest) =
    parse header_line_start (req\<lparr>q_major := a, q_minor := b\<rparr>) rest"
proof -
  obtain d ds where d: "show_long a = d # ds" "c_isdigit d" "list_all c_isdigit ds"
    "foldl push_digit (push_digit 0 d) ds = a" by (rule number_digits [OF assms(1)])
  obtain e es where e: "show_long b = e # es" "c_isdigit e" "list_all c_isdigit es"
    "foldl push_digit (push_digit 0 e) es = b" by (rule number_digits [OF assms(2)])
  have "is_digit d" "is_digit e" using digit_facts d(2) e(2) by auto
  then show ?thesis
    by (simp add: d(1) e(1) consume_defs parse_major [OF d(3)] parse_minor [OF e(3)] d(4) e(4))
qed

lemma parse_name:
  "list_all (\<lambda>c. \<not> not_token c) m \<Longrightarrow>
   parse header_name (req\<lparr>q_headers := hs @ [h]\<rparr>) (m @ CHR '':'' # CHR '' '' # rest) =
   parse header_value (req\<lparr>q_headers := hs @ [h\<lparr>h_name := h_name h @ m\<rparr>]\<rparr>) rest"
proof (induction m arbitrary: h)
  case Nil
  then show ?case by (simp add: consume_defs)
next
  case (Cons c m)
  then show ?case using token_char [of c] by (simp add: consume_defs push_name_def)
qed

lemma parse_value:
  "list_all (\<lambda>c. \<not> is_ctl c) v \<Longrightarrow>
   parse header_value (req\<lparr>q_headers := hs @ [h]\<rparr>) (v @ CR # LF # rest) =
   parse header_line_start (req\<lparr>q_headers := hs @ [h\<lparr>h_value := h_value h @ v\<rparr>]\<rparr>) rest"
proof (induction v arbitrary: h)
  case Nil
  then show ?case by (simp add: consume_defs)
next
  case (Cons c v)
  then show ?case using not_ctl_CR [of c] by (simp add: consume_defs push_value_def)
qed

lemma parse_headers:
  "list_all (\<lambda>h. token (h_name h) \<and> list_all (\<lambda>c. \<not> is_ctl c) (h_value h)) hs \<Longrightarrow>
   parse header_line_start req (concat (map print_header hs) @ CR # LF # rest) =
   Some (TTrue, expecting_newline_3, req\<lparr>q_headers := q_headers req @ hs\<rparr>, rest)"
proof (induction hs arbitrary: req)
  case Nil
  then show ?case by (simp add: consume_defs)
next
  case (Cons h hs)
  obtain c m where n: "h_name h = c # m" using Cons.prems by (cases "h_name h") (auto simp: token_def)
  have c: "\<not> not_token c" and m: "list_all (\<lambda>c. \<not> not_token c) m" and v: "list_all (\<lambda>c. \<not> is_ctl c) (h_value h)"
    using Cons.prems by (auto simp: token_def n)
  let ?h = "\<lparr>h_name = [c], h_value = []\<rparr>"
  have same: "\<lparr>h_name = h_name h, h_value = h_value h\<rparr> = h" by (cases h) simp
  have "parse header_line_start req (print_header h @ t) =
      parse header_line_start (req\<lparr>q_headers := q_headers req @ [h]\<rparr>) t" for t
  proof -
    have "parse header_line_start req (print_header h @ t) =
        parse header_name (req\<lparr>q_headers := q_headers req @ [?h]\<rparr>) (m @ CHR '':'' # CHR '' '' # h_value h @ CR # LF # t)"
      using token_char [OF c] c by (simp add: print_header_def n consume_defs push_name_def)
    also have "\<dots> = parse header_line_start (req\<lparr>q_headers := q_headers req @ [h]\<rparr>) t"
      by (simp add: parse_name [OF m] parse_value [OF v] same flip: n)
    finally show ?thesis .
  qed
  with Cons show ?case by simp
qed

text \<open>
  Well-formed requests are accepted and read exactly: on the text of a request whose
  method and header names are tokens, whose URI has no blanks or control characters, whose
  header values have no control characters and whose version numbers fit an \<open>int\<close>, followed by anything, the parser answers
  true, returns that request and leaves what follows untouched.
\<close>

theorem parse_print_request:
  assumes "well_formed req"
  shows "parse method_start empty_request (print_request req @ rest) = Some (TTrue, expecting_newline_3, req, rest)"
proof -
  obtain c m where n: "q_method req = c # m" using assms by (cases "q_method req") (auto simp: well_formed_def token_def)
  have c: "\<not> not_token c" and m: "list_all (\<lambda>c. \<not> not_token c) m" using assms by (auto simp: well_formed_def token_def n)
  have u: "list_all (\<lambda>c. \<not> is_ctl c \<and> c \<noteq> CHR '' '') (q_uri req)" and v: "version_ok (q_major req)" "version_ok (q_minor req)"
    and h: "list_all (\<lambda>h. token (h_name h) \<and> list_all (\<lambda>c. \<not> is_ctl c) (h_value h)) (q_headers req)"
    and b: "q_body req = []"
    using assms by (auto simp: well_formed_def)
  let ?tail = "concat (map print_header (q_headers req)) @ CR # LF # rest"
  have "parse method_start empty_request (print_request req @ rest) =
      parse method_state (empty_request\<lparr>q_method := [c]\<rparr>)
        (m @ CHR '' '' # q_uri req @ CHR '' '' # ''HTTP/'' @ show_long (q_major req) @ ''.'' @ show_long (q_minor req) @
         CR # LF # ?tail)"
    using c by (simp add: print_request_def n consume_defs empty_request_def)
  also have "\<dots> = parse header_line_start (empty_request\<lparr>q_method := c # m, q_uri := q_uri req,
      q_major := q_major req, q_minor := q_minor req\<rparr>) ?tail"
    unfolding parse_method [OF m] parse_uri [OF u] parse_version [OF v] by (simp add: empty_request_def)
  also have "\<dots> = Some (TTrue, expecting_newline_3, req, rest)"
    unfolding parse_headers [OF h] by (simp add: empty_request_def n [symmetric] b [symmetric])
  finally show ?thesis .
qed

end
