(* ===== verification/HttpServer.thy ===== *)
theory HttpServer
  imports RequestParser
begin

text \<open>
  The HTTP server around the request parser: replies (\<open>src/src/network/reply.cpp\<close>), file types
  (\<open>mime_types.cpp\<close>) and one connection (\<open>connection.cpp\<close>), which reads chunks of at most 8192
  bytes, parses the head, waits for the body and hands the request over exactly once.
\<close>

section \<open>Replies\<close>

datatype status_type =
    reply_ok | reply_created | reply_accepted | reply_no_content
  | reply_multiple_choices | reply_moved_permanently | reply_moved_temporarily | reply_not_modified
  | reply_bad_request | reply_unauthorized | reply_forbidden | reply_not_found
  | reply_internal_server_error | reply_not_implemented | reply_bad_gateway | reply_service_unavailable

record reply =
  rep_status :: status_type
  rep_headers :: "header list"
  rep_content :: string

fun status_line :: "status_type \<Rightarrow> string" where
  "status_line reply_ok = ''200 OK''"
| "status_line reply_created = ''201 Created''"
| "status_line reply_accepted = ''202 Accepted''"
| "status_line reply_no_content = ''204 No Content''"
| "status_line reply_multiple_choices = ''300 Multiple Choices''"
| "status_line reply_moved_permanently = ''301 Moved Permanently''"
| "status_line reply_moved_temporarily = ''302 Moved Temporarily''"
| "status_line reply_not_modified = ''304 Not Modified''"
| "status_line reply_bad_request = ''400 Bad Request''"
| "status_line reply_unauthorized = ''401 Unauthorized''"
| "status_line reply_forbidden = ''403 Forbidden''"
| "status_line reply_not_found = ''404 Not Found''"
| "status_line reply_internal_server_error = ''500 Internal Server Error''"
| "status_line reply_not_implemented = ''501 Not Implemented''"
| "status_line reply_bad_gateway = ''502 Bad Gateway''"
| "status_line reply_service_unavailable = ''503 Service Unavailable''"

definition to_buffer :: "status_type \<Rightarrow> string" where
  "to_buffer status = ''HTTP/1.0 '' @ status_line status @ [CR, LF]"

text \<open>The buffers that are written, one after the other.\<close>

definition to_buffers :: "reply \<Rightarrow> string list" where
  "to_buffers rep =
     to_buffer (rep_status rep) #
     concat (map (\<lambda>h. [h_name h, '': '', h_value h, [CR, LF]]) (rep_headers rep)) @
     [[CR, LF], rep_content rep]"

definition content_headers :: "string \<Rightarrow> string \<Rightarrow> header list" where
  "content_headers content content_type =
     [\<lparr>h_name = ''Content-Length'', h_value = show_nat (length content)\<rparr>,
      \<lparr>h_name = ''Content-Type'', h_value = content_type\<rparr>]"

definition stock_page :: "string \<Rightarrow> string \<Rightarrow> string" where
  "stock_page title heading =
     ''<html><head><title>'' @ title @ ''</title></head><body><h1>'' @ heading @ ''</h1></body></html>''"

text \<open>The heading of \<open>no_content\<close> leaves out a word, as the source does.\<close>

definition stock_content :: "status_type \<Rightarrow> string" where
  "stock_content status =
     (if status = reply_ok then []
      else stock_page (drop 4 (status_line status))
             (if status = reply_no_content then ''204 Content'' else status_line status))"

definition stock_reply :: "status_type \<Rightarrow> reply" where
  "stock_reply status =
     (let content = stock_content status
      in \<lparr>rep_status = status, rep_headers = content_headers content ''text/html'', rep_content = content\<rparr>)"

definition mappings :: "(string \<times> string) list" where
  "mappings = [(''gif'', ''image/gif''), (''htm'', ''text/html''), (''html'', ''text/html''),
     (''jpg'', ''image/jpeg''), (''png'', ''image/png'')]"

definition extension_to_type :: "string \<Rightarrow> string" where
  "extension_to_type extension = (case map_of mappings extension of None \<Rightarrow> ''text/plain'' | Some t \<Rightarrow> t)"

section \<open>A connection\<close>

record connection =
  cn_state :: parser_state
  cn_request :: request
  cn_reading_body :: bool
  cn_content_length :: int

definition new_connection :: connection where
  "new_connection = \<lparr>cn_state = method_start, cn_request = empty_request, cn_reading_body = False, cn_content_length = 0\<rparr>"

text \<open>
  \<open>request_content_length\<close>: the first header with one of the two spellings; \<open>atol\<close> and the
  conversion to \<open>std::size_t\<close>, which makes a negative length a huge one.
\<close>

definition request_content_length :: "request \<Rightarrow> int" where
  "request_content_length req =
     (case find (\<lambda>h. h_name h = ''Content-Length'' \<or> h_name h = ''content-length'') (q_headers req) of
        None \<Rightarrow> 0
      | Some h \<Rightarrow> atol (h_value h) mod 2 ^ 64)"

text \<open>
  What a chunk of bytes leads to: another read, the request handed over, a stock reply to a
  malformed head, or (\<open>Undefined\<close>) the undefined behaviour of the parser.
\<close>

datatype connection_act = Read | Process request | Refuse | Undefined

definition handle_read :: "string \<Rightarrow> connection \<Rightarrow> connection_act \<times> connection" where
  "handle_read bytes cn =
     (if cn_reading_body cn
      then
        let req = (cn_request cn)\<lparr>q_body := q_body (cn_request cn) @ bytes\<rparr>;
            cn = cn\<lparr>cn_request := req\<rparr>
        in if cn_content_length cn \<le> int (length (q_body req)) then (Process req, cn) else (Read, cn)
      else
        case parse (cn_state cn) (cn_request cn) bytes of
          None \<Rightarrow> (Undefined, cn)
        | Some (TTrue, st, req, parse_end) \<Rightarrow>
            let n = request_content_length req;
                req = (if 0 < n then req\<lparr>q_body := q_body req @ parse_end\<rparr> else req);
                cn = cn\<lparr>cn_state := st, cn_request := req, cn_content_length := n\<rparr>
            in if 0 < n \<and> int (length (q_body req)) < n then (Read, cn\<lparr>cn_reading_body := True\<rparr>)
               else (Process req, cn)
        | Some (TFalse, st, req, parse_end) \<Rightarrow> (Refuse, cn\<lparr>cn_state := st, cn_request := req\<rparr>)
        | Some (Indeterminate, st, req, parse_end) \<Rightarrow> (Read, cn\<lparr>cn_state := st, cn_request := req\<rparr>))"

text \<open>
  Successive chunks, as long as the connection reads. What is left of the chunks when the
  connection stops reading is not looked at.
\<close>

fun handle_reads :: "string list \<Rightarrow> connection \<Rightarrow> connection_act \<times> connection" where
  "handle_reads [] cn = (Read, cn)"
| "handle_reads (chunk # chunks) cn =
     (case handle_read chunk cn of
        (Read, cn) \<Rightarrow> handle_reads chunks cn
      | (act, cn) \<Rightarrow> (act, cn))"

section \<open>Facts\<close>

lemma reads_body:
  assumes "cn_reading_body cn" and "int (length (q_body (cn_request cn))) < cn_content_length cn"
    and "cn_content_length cn = int (length (q_body (cn_request cn) @ concat chunks))"
  shows "fst (handle_reads chunks cn) =
    Process ((cn_request cn)\<lparr>q_body := q_body (cn_request cn) @ concat chunks\<rparr>)"
  using assms
proof (induction chunks arbitrary: cn)
  case Nil
  then show ?case by simp
next
  case (Cons chunk chunks)
  let ?cn = "cn\<lparr>cn_request := (cn_request cn)\<lparr>q_body := q_body (cn_request cn) @ chunk\<rparr>\<rparr>"
  show ?case
  proof (cases "concat chunks = []")
    case True
    then show ?thesis using Cons.prems by (simp add: handle_read_def Let_def)
  next
    case False
    then have "0 < length (concat chunks)" by blast
    then have "handle_read chunk cn = (Read, ?cn)" using Cons.prems by (simp add: handle_read_def Let_def)
    then show ?thesis using Cons.IH [of ?cn] Cons.prems False by simp
  qed
qed

text \<open>
  The head of a request in any number of chunks: as long as no chunk completes it the
  connection reads on.
\<close>

lemma parse_append_open:
  "parse st req xs = Some (Indeterminate, st', req', r) \<Longrightarrow> r = []"
  by (induction xs arbitrary: st req) (auto split: option.splits tribool.splits)

lemma reads_request:
  assumes "\<not> cn_reading_body cn" and "q_body req = []" and "cn_content_length cn = 0"
    and "parse (cn_state cn) (cn_request cn) (concat chunks) = Some (TTrue, st, req, body)"
    and "request_content_length req = int (length body)"
  shows "fst (handle_reads chunks cn) = Process (req\<lparr>q_body := body\<rparr>)"
  using assms
proof (induction chunks arbitrary: cn)
  case Nil
  then show ?case by simp
next
  case (Cons chunk chunks)
  show ?case
  proof (cases "parse (cn_state cn) (cn_request cn) chunk")
    case None
    then show ?thesis using Cons.prems(4) by (simp add: parse_chunks)
  next
    case (Some p)
    obtain r st' req' rest where p: "p = (r, st', req', rest)" by (cases p) auto
    show ?thesis
    proof (cases r)
      case TTrue
      then have eq: "st' = st" "req' = req" "body = rest @ concat chunks"
        using Cons.prems(4) Some by (auto simp: p parse_chunks)
      show ?thesis
      proof (cases "concat chunks = []")
        case True
        have "req\<lparr>q_body := []\<rparr> = req" using Cons.prems(2) by (cases req) simp
        then show ?thesis
          using Cons.prems Some TTrue True eq by (auto simp: p handle_read_def Let_def)
      next
        case False
        let ?cn = "cn\<lparr>cn_state := st, cn_request := req\<lparr>q_body := rest\<rparr>,
          cn_content_length := int (length body), cn_reading_body := True\<rparr>"
        have l: "length rest < length body" using False eq(3) by simp
        have "handle_read chunk cn = (Read, ?cn)"
          using Cons.prems(1, 2, 5) Some TTrue eq(1, 2) l by (cases body) (simp_all add: p handle_read_def Let_def)
        moreover have "fst (handle_reads chunks ?cn) = Process (req\<lparr>q_body := body\<rparr>)"
          using reads_body [of ?cn chunks] l eq(3) by simp
        ultimately show ?thesis by simp
      qed
    next
      case TFalse
      then show ?thesis using Cons.prems(4) Some by (simp add: p parse_chunks)
    next
      case Indeterminate
      let ?cn = "cn\<lparr>cn_state := st', cn_request := req'\<rparr>"
      have "handle_read chunk cn = (Read, ?cn)" using Cons.prems(1) Some Indeterminate by (simp add: p handle_read_def)
      moreover have "parse st' req' (concat chunks) = Some (TTrue, st, req, body)"
        using Cons.prems(4) Some Indeterminate by (simp add: p parse_chunks)
      ultimately show ?thesis using Cons.IH [of ?cn] Cons.prems by simp
    qed
  qed
qed

text \<open>
  C35. A request arrives whole, however it is cut into chunks: if the chunks together are
  the text of a well-formed request (tokens for method and header names, no blanks in the URI,
  no control characters, version numbers that an \<open>int\<close> holds) followed by a body, and the request
  announces the length of that body (or announces none and the body is empty), then the
  connection hands over exactly that request with that body.
\<close>

theorem request_delivered:
  assumes "well_formed req" and "request_content_length req = int (length body)"
    and "concat chunks = print_request req @ body"
  shows "fst (handle_reads chunks new_connection) = Process (req\<lparr>q_body := body\<rparr>)"
proof -
  have "parse method_start empty_request (concat chunks) = Some (TTrue, expecting_newline_3, req, body)"
    unfolding assms(3) by (rule parse_print_request [OF assms(1)])
  then show ?thesis using assms(1, 2) by (intro reads_request) (auto simp: new_connection_def well_formed_def)
qed

theorem request_delivered_witness:
  "fst (handle_reads [''POST /api HT'', ''TP/1.0'' @ [CR], LF # ''Content-Length: 5'' @ [CR, LF, CR, LF] @ ''ab'', ''cde''] new_connection) =
     Process \<lparr>q_method = ''POST'', q_uri = ''/api'', q_body = ''abcde'', q_major = 1, q_minor = 0,
       q_headers = [\<lparr>h_name = ''Content-Length'', h_value = ''5''\<rparr>]\<rparr>"
proof -
  let ?req = "\<lparr>q_method = ''POST'', q_uri = ''/api'', q_body = [], q_major = 1, q_minor = 0,
    q_headers = [\<lparr>h_name = ''Content-Length'', h_value = ''5''\<rparr>]\<rparr>"
  have "well_formed ?req"
    by (simp add: well_formed_def version_ok_def token_def not_token_def is_char_def is_ctl_def is_tspecial_def scode_def code_def)
  moreover have "request_content_length ?req = int (length ''abcde'')" by code_simp
  moreover have "print_request ?req = ''POST /api HTTP/1.0'' @ [CR, LF] @ ''Content-Length: 5'' @ [CR, LF, CR, LF]"
    by code_simp
  ultimately have "fst (handle_reads chunks new_connection) = Process (?req\<lparr>q_body := ''abcde''\<rparr>)"
    if "concat chunks = ''POST /api HTTP/1.0'' @ [CR, LF] @ ''Content-Length: 5'' @ [CR, LF, CR, LF] @ ''abcde''" for chunks
    using request_delivered [of ?req "''abcde''" chunks] that by simp
  from this [of "[''POST /api HT'', ''TP/1.0'' @ [CR], LF # ''Content-Length: 5'' @ [CR, LF, CR, LF] @ ''ab'', ''cde'']"]
  show ?thesis by (simp del: handle_reads.simps)
qed

text \<open>
  A negative length is never reached: once the head of a request with a negative
  \<open>Content-Length\<close> is complete, the connection reads on, whatever it is sent (fewer than
  \<open>2^63\<close> bytes), and keeps every byte of it.
\<close>

lemma negative_length:
  assumes "cn_reading_body cn" and "2 ^ 63 \<le> cn_content_length cn"
    and "length (q_body (cn_request cn) @ concat chunks) < 2 ^ 63"
  shows "fst (handle_reads chunks cn) = Read \<and>
    q_body (cn_request (snd (handle_reads chunks cn))) = q_body (cn_request cn) @ concat chunks"
  using assms
proof (induction chunks arbitrary: cn)
  case Nil
  then show ?case by simp
next
  case (Cons chunk chunks)
  let ?cn = "cn\<lparr>cn_request := (cn_request cn)\<lparr>q_body := q_body (cn_request cn) @ chunk\<rparr>\<rparr>"
  have "int (length (q_body (cn_request cn) @ chunk)) < 2 ^ 63" using Cons.prems(3) by simp
  then have "handle_read chunk cn = (Read, ?cn)" using Cons.prems by (simp add: handle_read_def Let_def)
  then show ?case using Cons.IH [of ?cn] Cons.prems by simp
qed

end
