(* ===== verification/ApiText.thy ===== *)
theory ApiText
  imports JsonFormat HttpServer
begin

text \<open>
  The text functions of \<open>src/src/network/request_handler.cpp\<close>: escaping and decoding, the values
  submitted with a request, amounts, the settings file, and how a stream prints a double.
\<close>

section \<open>Escaping and decoding\<close>

abbreviation BACKSLASH :: char where "BACKSLASH \<equiv> CHR 0x5C"

definition json_escape_char :: "char \<Rightarrow> string" where
  "json_escape_char c =
     (if c = DQ \<or> c = BACKSLASH then [BACKSLASH, c]
      else if c = LF then [BACKSLASH, CHR ''n'']
      else if c = CR then [BACKSLASH, CHR ''r'']
      else [c])"

definition json_escape :: "string \<Rightarrow> string" where
  "json_escape value = concat (map json_escape_char value)"

text \<open>
  \<open>std::istringstream (text) >> std::hex >> value\<close> on two characters: blanks are skipped, a sign
  is read, then digits up to the first other character; a prefix \<open>0x\<close> without digits fails.
\<close>

definition read_hex :: "string \<Rightarrow> int option" where
  "read_hex text =
     (let (neg, u) = split_sign (dropWhile c_isspace text);
          ds = takeWhile c_isxdigit u;
          v = foldl (\<lambda>a c. 16 * a + xdigit_val c) 0 ds
      in if ds = [] \<or> starts_with (map c_tolower u) ''0x'' then None
         else Some (if neg then - v else v))"

definition byte_char :: "int \<Rightarrow> char" where
  "byte_char v = char_of (nat (v mod 256))"

fun url_decode :: "string \<Rightarrow> string option" where
  "url_decode [] = Some []"
| "url_decode (c # cs) =
     (if c = CHR ''%''
      then case cs of
             a # b # rest \<Rightarrow>
               (case read_hex [a, b] of
                  None \<Rightarrow> None
                | Some v \<Rightarrow> map_option ((#) (byte_char v)) (url_decode rest))
           | _ \<Rightarrow> None
      else map_option ((#) (if c = CHR ''+'' then CHR '' '' else c)) (url_decode cs))"

text \<open>The decoder of form values is the same loop.\<close>

definition form_url_decode :: "string \<Rightarrow> string option" where
  "form_url_decode text = url_decode text"

definition lowercase :: "string \<Rightarrow> string" where
  "lowercase value = map c_tolower value"

definition trim_trailing_slash :: "string \<Rightarrow> string" where
  "trim_trailing_slash value = rev (dropWhile (\<lambda>c. c = CHR ''/'') (rev value))"

definition normalize_peer_url :: "string \<Rightarrow> string" where
  "normalize_peer_url value =
     (let url = trim_trailing_slash value
      in if \<not> starts_with url ''http://'' \<and> \<not> starts_with url ''https://'' then [] else url)"

section \<open>Submitted values\<close>

definition request_header_value :: "request \<Rightarrow> string \<Rightarrow> string" where
  "request_header_value req name =
     (case find (\<lambda>h. lowercase (h_name h) = lowercase name) (q_headers req) of
        None \<Rightarrow> [] | Some h \<Rightarrow> h_value h)"

definition is_blank :: "char \<Rightarrow> bool" where
  "is_blank c \<longleftrightarrow> c = CHR '' '' \<or> c = TAB \<or> c = CR \<or> c = LF"

definition first_forwarded_address :: "string \<Rightarrow> string" where
  "first_forwarded_address value =
     rev (dropWhile is_blank (rev (dropWhile is_blank (takeWhile (\<lambda>c. c \<noteq> CHR '','') value))))"

definition gossip_rate_key :: "request \<Rightarrow> string \<Rightarrow> string" where
  "gossip_rate_key req fallback =
     (let forwarded = first_forwarded_address (request_header_value req ''X-Forwarded-For'');
          realIp = first_forwarded_address (request_header_value req ''X-Real-IP'');
          peerUrl = normalize_peer_url fallback
      in if forwarded \<noteq> [] then forwarded
         else if realIp \<noteq> [] then realIp
         else if peerUrl \<noteq> [] then peerUrl
         else ''unknown'')"

text \<open>The text from a position up to the next ampersand or the end.\<close>

definition up_to_amp :: "string \<Rightarrow> nat \<Rightarrow> string" where
  "up_to_amp text i =
     (case find_str text ''&'' i of None \<Rightarrow> drop i text | Some j \<Rightarrow> substr text i (j - i))"

definition query_value :: "string \<Rightarrow> string \<Rightarrow> string" where
  "query_value path key =
     (let tok = key @ ''=''
      in case find_sub ''?'' path of
           None \<Rightarrow> []
         | Some query_start \<Rightarrow>
             (case find_str path tok (query_start + 1) of
                None \<Rightarrow> []
              | Some value_start \<Rightarrow> up_to_amp path (value_start + length tok)))"

definition submitted_value :: "request \<Rightarrow> string \<Rightarrow> string \<Rightarrow> string" where
  "submitted_value req request_path key =
     (if q_method req = ''POST'' \<and> q_body req \<noteq> []
      then
        let tok = key @ ''=''
        in case find_sub tok (q_body req) of
             None \<Rightarrow> q_body req
           | Some i \<Rightarrow>
               let encoded_value = up_to_amp (q_body req) (i + length tok)
               in (case form_url_decode encoded_value of None \<Rightarrow> encoded_value | Some v \<Rightarrow> v)
      else query_value request_path key)"

definition json_field :: "string \<Rightarrow> string \<Rightarrow> string" where
  "json_field json key = parseSectionString json (jkey key) [DQ]"

definition json_field_long :: "string \<Rightarrow> string \<Rightarrow> int" where
  "json_field_long json key = parseSectionLong json (jkey key) [DQ]"

definition submitted_value_any :: "request \<Rightarrow> string \<Rightarrow> string \<Rightarrow> string" where
  "submitted_value_any req request_path key =
     (if q_method req = ''POST'' \<and> q_body req \<noteq> [] \<and> find_sub (jkey key) (q_body req) \<noteq> None
      then json_field (q_body req) key
      else submitted_value req request_path key)"

definition path_argument_after_prefix :: "string \<Rightarrow> string \<Rightarrow> string" where
  "path_argument_after_prefix request_path prefix =
     takeWhile (\<lambda>c. c \<noteq> CHR ''?'') (drop (length prefix) request_path)"

section \<open>Amounts and settings\<close>

text \<open>What \<open>strtod\<close> leaves unread after the exponent of a number.\<close>

definition exponent_rest :: "char \<Rightarrow> string \<Rightarrow> string" where
  "exponent_rest e r =
     (case r of [] \<Rightarrow> []
      | c # t \<Rightarrow> if c_tolower c = e \<and> takeWhile c_isdigit (snd (split_sign t)) \<noteq> []
          then dropWhile c_isdigit (snd (split_sign t)) else r)"

definition mantissa_rest :: "(char \<Rightarrow> bool) \<Rightarrow> char \<Rightarrow> string \<Rightarrow> string" where
  "mantissa_rest P e b = exponent_rest e (snd (snd (split_mantissa P b)))"

text \<open>\<open>nan (...)\<close>: the letters, digits and underscores in parentheses belong to the number.\<close>

definition nan_rest :: "string \<Rightarrow> string" where
  "nan_rest b =
     (let r = drop 3 b; t = dropWhile (\<lambda>c. c_isalnum c \<or> c = CHR ''_'') (drop 1 r)
      in if starts_with r ''('' \<and> starts_with t '')'' then drop 1 t else r)"

text \<open>\<open>strtod (text, &end)\<close>: \<open>None\<close> where nothing was read (\<open>end\<close> is the start), else the rest at \<open>end\<close>.\<close>

definition strtod_rest :: "string \<Rightarrow> string option" where
  "strtod_rest text =
     (let (neg, b) = split_sign (dropWhile c_isspace (c_str text)); low = map c_tolower b
      in if starts_with low ''infinity'' then Some (drop 8 b)
         else if starts_with low ''inf'' then Some (drop 3 b)
         else if starts_with low ''nan'' then Some (nan_rest b)
         else if starts_with low ''0x'' \<and> hex_value (drop 2 b) \<noteq> None
           then Some (mantissa_rest c_isxdigit (CHR ''p'') (drop 2 b))
         else if decimal_value b = None then None
         else Some (mantissa_rest c_isdigit (CHR ''e'') b))"

definition parse_amount_value :: "string \<Rightarrow> double option" where
  "parse_amount_value value = (if strtod_rest value = Some [] then Some (atof value) else None)"

definition API_DEFAULT_TRANSACTION_FEE :: double where "API_DEFAULT_TRANSACTION_FEE = DFin 0"
definition API_MAX_TRANSACTION_FEE :: double where "API_MAX_TRANSACTION_FEE = round_double (1 / 10)"

definition parse_fee_amount :: "string \<Rightarrow> double option" where
  "parse_fee_amount value =
     (case parse_amount_value value of
        None \<Rightarrow> None
      | Some fee \<Rightarrow> if dle (DFin 0) fee \<and> dle fee API_MAX_TRANSACTION_FEE then Some fee else None)"

text \<open>The lines \<open>std::getline\<close> reads: the last one only if it is not empty.\<close>

definition file_lines :: "string \<Rightarrow> string list" where
  "file_lines text =
     foldr (\<lambda>c ls. if c = LF then [] # ls else case ls of [] \<Rightarrow> [[c]] | l # ls \<Rightarrow> (c # l) # ls) text []"

text \<open>The values of the lines that begin with a key, in order.\<close>

definition setting_values :: "string \<Rightarrow> string \<Rightarrow> string list" where
  "setting_values settings key =
     map (drop (length key)) (filter (\<lambda>l. starts_with l key) (file_lines settings))"

definition first_or_empty :: "string list \<Rightarrow> string" where
  "first_or_empty xs = (case xs of [] \<Rightarrow> [] | x # _ \<Rightarrow> x)"

definition api_default_transaction_fee :: "string \<Rightarrow> double" where
  "api_default_transaction_fee settings =
     (case List.map_filter parse_fee_amount (setting_values settings ''fee:'') of
        [] \<Rightarrow> API_DEFAULT_TRANSACTION_FEE | fee # _ \<Rightarrow> fee)"

definition configured_exchange_api_key :: "string \<Rightarrow> string" where
  "configured_exchange_api_key settings = first_or_empty (setting_values settings ''exchange_api_key:'')"

definition configured_admin_api_key :: "string \<Rightarrow> string" where
  "configured_admin_api_key settings = first_or_empty (setting_values settings ''admin_api_key:'')"

definition key_authorized :: "string \<Rightarrow> request \<Rightarrow> string \<Rightarrow> bool" where
  "key_authorized configured_key req request_path \<longleftrightarrow>
     configured_key \<noteq> [] \<and>
     (let submitted_key = submitted_value_any req request_path ''api_key''
      in submitted_key \<noteq> [] \<and> submitted_key = configured_key)"

definition exchange_api_authorized :: "string \<Rightarrow> request \<Rightarrow> string \<Rightarrow> bool" where
  "exchange_api_authorized settings = key_authorized (configured_exchange_api_key settings)"

definition admin_api_authorized :: "string \<Rightarrow> request \<Rightarrow> string \<Rightarrow> bool" where
  "admin_api_authorized settings = key_authorized (configured_admin_api_key settings)"

section \<open>Printing\<close>

text \<open>
  \<open>operator<< (double)\<close> of a stream in its default state: six significant digits, trailing zeros
  dropped, scientific notation for exponents below -4 and from 6 on.
\<close>

definition ilog10 :: "rat \<Rightarrow> int" where
  "ilog10 a =
     (let (p, q) = quotient_of a; e = int (length (show_nat (nat p))) - int (length (show_nat (nat q)))
      in if a < 10 powi e then e - 1 else e)"

definition drop_zeros :: "string \<Rightarrow> string" where
  "drop_zeros ds = rev (dropWhile (\<lambda>c. c = CHR ''0'') (rev ds))"

definition with_point :: "string \<Rightarrow> string \<Rightarrow> string" where
  "with_point ip fp = (if drop_zeros fp = [] then ip else ip @ ''.'' @ drop_zeros fp)"

definition show_exponent :: "int \<Rightarrow> string" where
  "show_exponent e =
     (let ds = show_nat (nat \<bar>e\<bar>)
      in ''e'' @ (if e < 0 then ''-'' else ''+'') @ (if length ds < 2 then ''0'' else []) @ ds)"

definition show_positive :: "rat \<Rightarrow> string" where
  "show_positive a =
     (let e0 = ilog10 a;
          n0 = round_half_even (a * 10 powi (5 - e0));
          (n, e) = (if n0 = 1000000 then (100000, e0 + 1) else (n0, e0));
          ds = show_nat (nat n)
      in if e < -4 \<or> 6 \<le> e then with_point (take 1 ds) (drop 1 ds) @ show_exponent e
         else if e < 0 then with_point ''0'' (replicate (nat (- e - 1)) (CHR ''0'') @ ds)
         else with_point (take (nat e + 1) ds) (drop (nat e + 1) ds))"

fun show_double :: "double \<Rightarrow> string" where
  "show_double (DFin x) = (if x = 0 then ''0'' else if x < 0 then CHR ''-'' # show_positive (- x) else show_positive x)"
| "show_double DNegZero = ''-0''"
| "show_double (DInf neg) = (if neg then ''-inf'' else ''inf'')"
| "show_double DNaN = ''nan''"

definition yes_no :: "bool \<Rightarrow> string" where
  "yes_no b = (if b then ''yes'' else ''no'')"

text \<open>An object of string members, and values separated by commas.\<close>

definition json_object :: "(string \<times> string) list \<Rightarrow> string" where
  "json_object kvs = ''{'' @ fields_text kvs @ ''}''"

fun comma_separated :: "string list \<Rightarrow> string" where
  "comma_separated [] = []"
| "comma_separated [x] = x"
| "comma_separated (x # y # xs) = x @ '','' @ comma_separated (y # xs)"

definition member_text :: "string \<Rightarrow> string \<Rightarrow> string" where
  "member_text key text = DQ # key @ [DQ, CHR '':''] @ text"

definition text_reply :: "status_type \<Rightarrow> string \<Rightarrow> string \<Rightarrow> reply" where
  "text_reply status content content_type =
     \<lparr>rep_status = status, rep_headers = content_headers content content_type, rep_content = content\<rparr>"

definition json_reply :: "status_type \<Rightarrow> string \<Rightarrow> reply" where
  "json_reply status content = text_reply status content ''application/json''"

definition rate_limited_reply :: "string \<Rightarrow> reply" where
  "rate_limited_reply message =
     json_reply reply_service_unavailable
       (json_object [(''status'', ''rate_limited''), (''message'', json_escape message)])"

text \<open>\<open>{"status":"error","message":"..."}\<close>, with a message that needs no escaping.\<close>

definition error_object :: "string \<Rightarrow> string" where
  "error_object message = json_object [(''status'', ''error''), (''message'', message)]"

fun record_type_name :: "transaction_type \<Rightarrow> string" where
  "record_type_name JOIN_NETWORK = ''JOIN_NETWORK''"
| "record_type_name ISSUE_CURRENCY = ''ISSUE_CURRENCY''"
| "record_type_name TRANSFER_CURRENCY = ''TRANSFER_CURRENCY''"
| "record_type_name CARRY_FORWARD = ''CARRY_FORWARD''"
| "record_type_name PERIOD_SUMMARY = ''PERIOD_SUMMARY''"
| "record_type_name VOTE = ''VOTE''"
| "record_type_name HEART_BEAT = ''HEART_BEAT''"
| "record_type_name UPDATE_NAME = ''UPDATE_NAME''"
| "record_type_name (OTHER_TYPE n) = ''UNKNOWN''"

end
