(* ===== verification/Daemon.thy ===== *)
theory Daemon
  imports PeerSync ApiText
begin

text \<open>
  The state of the whole node process as the HTTP API sees it: the part that the peer client
  works on (\<open>node\<close>: block database, caches, table of peers, clock), the files of the wallet and of
  the queue, \<open>handoff.dat\<close>, the buckets of the rate limiter, the flags of the two background
  downloads, the keys of the relay's nodes and the state of the port mapper. The constants and
  globals are those of \<open>src/src/network/request_handler.cpp\<close>.

  \<open>site\<close> holds what the handlers read and never write: the world of the peer client, the text of
  \<open>settings.dat\<close> (empty when there is no file), the permutation of \<open>std::random_shuffle\<close>, new key
  pairs, what an unset block happens to hold, and the text of the administration page.
\<close>

section \<open>State\<close>

record nat_status =
  nt_enabled :: bool
  nt_mapped :: bool
  nt_method :: string
  nt_externalAddress :: string
  nt_externalPort :: int
  nt_message :: string

record api_rate_limit_bucket =
  window_start :: int
  bucket_count :: int

text \<open>A detached thread that the API has started and that has not ended yet.\<close>

datatype job = SyncJob | RecoveryJob

record daemon =
  d_node :: node
  d_queue_dat :: string
  d_wallet :: wallet_files
  d_handoff_dat :: string
  d_buckets :: "(string, api_rate_limit_bucket) smap"
  d_sync_in_progress :: bool
  d_recovery_in_progress :: bool
  d_recovery_status :: string
  d_nat :: nat_status
  d_relay_nodes :: "string list"
  d_jobs :: "job list"

record site =
  si_world :: world
  si_settings :: string
  si_shuffle :: "nat \<Rightarrow> peer_status list \<Rightarrow> peer_status list"
  si_keys :: "nat \<Rightarrow> (string \<times> string) option"
  si_handoff_writable :: bool
  si_unset_block :: block_structure \<comment> \<open>a \<open>block_structure\<close> whose numbers were never set\<close>
  si_admin_page :: string

definition PEER_EXCHANGE_MAX_PEERS :: int where "PEER_EXCHANGE_MAX_PEERS = 24"
definition PEER_EXCHANGE_RANDOM_PEERS :: int where "PEER_EXCHANGE_RANDOM_PEERS = 4"
definition ANNOUNCE_RATE_WINDOW_SECONDS :: int where "ANNOUNCE_RATE_WINDOW_SECONDS = 60"
definition MAX_PEER_ANNOUNCES_PER_WINDOW :: int where "MAX_PEER_ANNOUNCES_PER_WINDOW = 20"
definition MAX_BLOCK_ANNOUNCES_PER_WINDOW :: int where "MAX_BLOCK_ANNOUNCES_PER_WINDOW = 80"
definition MAX_RECORD_ANNOUNCES_PER_WINDOW :: int where "MAX_RECORD_ANNOUNCES_PER_WINDOW = 80"
definition MAX_SAME_HASH_ANNOUNCES_PER_WINDOW :: int where "MAX_SAME_HASH_ANNOUNCES_PER_WINDOW = 12"
definition MAX_RATE_LIMIT_BUCKETS :: int where "MAX_RATE_LIMIT_BUCKETS = 20000"
definition WALLET_CONFIRMATION_BLOCKS :: int where "WALLET_CONFIRMATION_BLOCKS = 1"

section \<open>Parts of the state\<close>

definition on_node :: "(node \<Rightarrow> 'a \<times> node) \<Rightarrow> daemon \<Rightarrow> 'a \<times> daemon" where
  "on_node f s = (let (a, n) = f (d_node s) in (a, s\<lparr>d_node := n\<rparr>))"

definition upd_node :: "(node \<Rightarrow> node) \<Rightarrow> daemon \<Rightarrow> daemon" where
  "upd_node f s = s\<lparr>d_node := f (d_node s)\<rparr>"

definition on_wallet :: "(wallet_files \<Rightarrow> 'a \<times> wallet_files) \<Rightarrow> daemon \<Rightarrow> 'a \<times> daemon" where
  "on_wallet f s = (let (a, w) = f (d_wallet s) in (a, s\<lparr>d_wallet := w\<rparr>))"

definition the_db :: "daemon \<Rightarrow> dbh" where
  "the_db s = n_db (d_node s)"

definition set_db :: "dbh \<Rightarrow> daemon \<Rightarrow> daemon" where
  "set_db db s = s\<lparr>d_node := (d_node s)\<lparr>n_db := db\<rparr>\<rparr>"

definition on_queue :: "(queue \<Rightarrow> 'a \<times> queue) \<Rightarrow> daemon \<Rightarrow> 'a \<times> daemon" where
  "on_queue f s =
     (let (a, db, file) = f (the_db s, d_queue_dat s) in (a, set_db db (s\<lparr>d_queue_dat := file\<rparr>)))"

definition env_of :: "site \<Rightarrow> daemon \<Rightarrow> env" where
  "env_of S s = env_now (si_world S) (d_node s)"

definition now_local :: "site \<Rightarrow> daemon \<Rightarrow> int \<times> daemon" where
  "now_local S = on_node (local_epoch (si_world S))"

text \<open>\<open>CNetworkTime::getEpoch\<close>.\<close>

definition now_epoch :: "site \<Rightarrow> daemon \<Rightarrow> int \<times> daemon" where
  "now_epoch S s = (let (t, s) = now_local S s in (t + n_offset (d_node s), s))"

text \<open>\<open>CLedgerState::build\<close> with the cache of the process.\<close>

definition ledger_of :: "site \<Rightarrow> string \<Rightarrow> int \<Rightarrow> daemon \<Rightarrow> ledger_state \<times> daemon" where
  "ledger_of S wallet stopBlock s =
     (let n = d_node s;
          (st, cache) = build (env_of S s) (n_db n) wallet stopBlock (c_ledger (n_caches n))
      in (st, s\<lparr>d_node := n\<lparr>n_caches := (n_caches n)\<lparr>c_ledger := cache\<rparr>\<rparr>\<rparr>))"

definition peek_queue :: "site \<Rightarrow> daemon \<Rightarrow> record_structure list \<times> daemon" where
  "peek_queue S s = on_queue (peekQueueRecords (env_of S s)) s"

definition add_queue :: "site \<Rightarrow> record_structure \<Rightarrow> daemon \<Rightarrow> int \<times> daemon" where
  "add_queue S r s = on_queue (addToQueue (env_of S s) r) s"

text \<open>\<open>CWallet::read\<close> into two empty strings.\<close>

definition read_keys :: "daemon \<Rightarrow> (bool \<times> string \<times> string) \<times> daemon" where
  "read_keys s =
     (case on_wallet wallet_read s of
        (None, s') \<Rightarrow> ((False, case keys_left (d_wallet s) of None \<Rightarrow> ([], []) | Some keys \<Rightarrow> keys), s')
      | (Some (privateKey, publicKey), s) \<Rightarrow> ((True, privateKey, publicKey), s))"

definition has_wallet :: "daemon \<Rightarrow> bool" where
  "has_wallet s = wallet_fileExists ''wallet.dat'' False (d_wallet s)"

section \<open>The rate limiter\<close>

definition expired_bucket :: "int \<Rightarrow> int \<Rightarrow> api_rate_limit_bucket \<Rightarrow> bool" where
  "expired_bucket now window_seconds b \<longleftrightarrow> window_start b \<le> 0 \<or> window_seconds \<le> now - window_start b"

definition too_many :: "(string, api_rate_limit_bucket) smap \<Rightarrow> bool" where
  "too_many buckets \<longleftrightarrow> MAX_RATE_LIMIT_BUCKETS < int (length buckets)"

definition live_buckets ::
    "int \<Rightarrow> int \<Rightarrow> (string, api_rate_limit_bucket) smap \<Rightarrow> (string, api_rate_limit_bucket) smap" where
  "live_buckets now window_seconds buckets =
     (if too_many buckets then filter (\<lambda>(k, b). \<not> expired_bucket now window_seconds b) buckets else buckets)"

definition hit_bucket :: "int \<Rightarrow> int \<Rightarrow> api_rate_limit_bucket \<Rightarrow> api_rate_limit_bucket" where
  "hit_bucket now window_seconds b =
     (let b = (if expired_bucket now window_seconds b then \<lparr>window_start = now, bucket_count = 0\<rparr> else b)
      in b\<lparr>bucket_count := bucket_count b + 1\<rparr>)"

definition rate_step ::
    "int \<Rightarrow> string \<Rightarrow> int \<Rightarrow> int \<Rightarrow> (string, api_rate_limit_bucket) smap \<Rightarrow>
     bool \<times> (string, api_rate_limit_bucket) smap" where
  "rate_step now bucket_key max_count window_seconds buckets =
     (let buckets = live_buckets now window_seconds buckets
      in if too_many buckets then (True, buckets)
         else
           let b = hit_bucket now window_seconds (sm_at \<lparr>window_start = 0, bucket_count = 0\<rparr> buckets bucket_key)
           in (max_count < bucket_count b, sm_put bucket_key b buckets))"

definition gossip_rate_limited :: "site \<Rightarrow> string \<Rightarrow> int \<Rightarrow> int \<Rightarrow> daemon \<Rightarrow> bool \<times> daemon" where
  "gossip_rate_limited S bucket_key max_count window_seconds s =
     (let (now, s) = now_local S s;
          (limited, buckets) = rate_step now bucket_key max_count window_seconds (d_buckets s)
      in (limited, s\<lparr>d_buckets := buckets\<rparr>))"

text \<open>The two buckets of an announcement; the second one only if the first lets it pass.\<close>

definition announce_limited ::
    "site \<Rightarrow> string \<Rightarrow> int \<Rightarrow> string \<Rightarrow> daemon \<Rightarrow> bool \<times> daemon" where
  "announce_limited S source_key max_count subject_key s =
     (case gossip_rate_limited S source_key max_count ANNOUNCE_RATE_WINDOW_SECONDS s of
        (True, s) \<Rightarrow> (True, s)
      | (False, s) \<Rightarrow> gossip_rate_limited S subject_key MAX_SAME_HASH_ANNOUNCES_PER_WINDOW ANNOUNCE_RATE_WINDOW_SECONDS s)"

section \<open>Sending a record\<close>

text \<open>\<open>CRelayClient::sendRecord\<close>: one message per node of the relay.\<close>

definition relay_url :: string where
  "relay_url = ''http://safire.org/relay.php''"

definition relay_message :: "string \<Rightarrow> string \<Rightarrow> string \<Rightarrow> string \<Rightarrow> string" where
  "relay_message kind sender receiver message =
     ''action=sendmessage&type='' @ kind @ ''&sender_key='' @ sender @ ''&receiver_key='' @ receiver @
     ''&message='' @ message"

fun relay_send :: "world \<Rightarrow> string \<Rightarrow> string \<Rightarrow> string \<Rightarrow> string list \<Rightarrow> node \<Rightarrow> node" where
  "relay_send W kind sender message [] s = s"
| "relay_send W kind sender message (receiver # receivers) s =
     relay_send W kind sender message receivers
       (snd (http W (Post relay_url (relay_message kind sender receiver message)) s))"

definition sendRecord :: "site \<Rightarrow> record_structure \<Rightarrow> daemon \<Rightarrow> daemon" where
  "sendRecord S r s =
     (if \<not> isRecordSizeValid (env_of S s) r then s
      else
        let ((found, privateKey, publicKey), s) = read_keys s
        in upd_node (relay_send (si_world S) ''trans'' publicKey (recordJSON (env_of S s) r) (d_relay_nodes s)) s)"

text \<open>\<open>queue_and_broadcast_record\<close>: the error text, or \<open>None\<close> when the record was taken.\<close>

definition queue_and_broadcast_record :: "site \<Rightarrow> record_structure \<Rightarrow> daemon \<Rightarrow> string option \<times> daemon" where
  "queue_and_broadcast_record S r s =
     (if \<not> isRecordSizeValid (env_of S s) r then (Some (recordSizeError (env_of S s) r), s)
      else if isExpiredHeartbeatRecord (env_of S s) r (-1) then (None, s)
      else
        let (queued, s) = add_queue S r s
        in if queued = 0 then (Some ''unable to queue record'', s)
           else (None, upd_node (broadcastRecord (si_world S) r) (sendRecord S r s)))"

end
