(* ===== verification/ApiChain.thy ===== *)
theory ApiChain
  imports Daemon
begin

text \<open>
  What the API reads from the chain (\<open>src/src/network/request_handler.cpp\<close>): walks along the
  connected chain, the search for a record, deposits and the history of a wallet, the sums of
  records that are not confirmed yet, and the comparison with the peers.
\<close>

section \<open>Walks\<close>

text \<open>The blocks of the loops that start at the first block and follow \<open>getNextBlock\<close>.\<close>

definition api_chain :: "env \<Rightarrow> dbh \<Rightarrow> block_structure list" where
  "api_chain E db =
     (let first_block_id = getFirstBlockId db; latest_block_id = getLatestBlockId db
      in if first_block_id < 0 \<or> latest_block_id < 0 then []
         else walk_chain (getNextBlock E db) (\<lambda>n. False) latest_block_id 0 (getBlock E db first_block_id))"

type_synonym entry = "block_structure \<times> nat \<times> record_structure"

definition entries :: "block_structure list \<Rightarrow> entry list" where
  "entries chain = concat (map (\<lambda>b. map (\<lambda>(i, r). (b, i, r)) (enumerate 0 (b_records b))) chain)"

text \<open>Records whose hash was seen before are passed over.\<close>

fun fresh_entries :: "string set \<Rightarrow> entry list \<Rightarrow> entry list" where
  "fresh_entries seen [] = []"
| "fresh_entries seen (e # es) =
     (let h = r_hash (snd (snd e))
      in if h \<noteq> [] \<and> h \<in> seen then fresh_entries seen es
         else e # fresh_entries (if h \<noteq> [] then insert h seen else seen) es)"

function count_blocks :: "env \<Rightarrow> dbh \<Rightarrow> int \<Rightarrow> string set \<Rightarrow> int \<Rightarrow> block_structure \<Rightarrow> int" where
  "count_blocks E db latest_block_id seen count b =
     (if \<not> (0 < b_number b \<and> count < 1000000) \<or> b_hash b \<in> seen then count
      else if b_number b = latest_block_id then count + 1
      else
        let next_block = getNextBlock E db b
        in if b_number next_block \<le> 0 then count + 1
           else count_blocks E db latest_block_id (insert (b_hash b) seen) (count + 1) next_block)"
  by pat_completeness auto
termination
  by (relation "measure (\<lambda>(E, db, latest, seen, count, b). nat (1000000 - count))") auto

declare count_blocks.simps [simp del]

definition connected_block_count :: "env \<Rightarrow> dbh \<Rightarrow> int" where
  "connected_block_count E db =
     (let first_block_id = getFirstBlockId db; latest_block_id = getLatestBlockId db
      in if first_block_id < 0 \<or> latest_block_id < 0 then 0
         else count_blocks E db latest_block_id {} 0 (getBlock E db first_block_id))"

definition configured_recovery_public_key :: "env \<Rightarrow> dbh \<Rightarrow> string" where
  "configured_recovery_public_key E db =
     (let config = env_config E; first_block_id = getFirstBlockId db
      in if recoveryPublicKey config \<noteq> [] then recoveryPublicKey config
         else if 0 < first_block_id then b_creator (getBlock E db first_block_id)
         else [])"

function recovery_run :: "env \<Rightarrow> dbh \<Rightarrow> string \<Rightarrow> int \<Rightarrow> block_structure \<Rightarrow> int" where
  "recovery_run E db key count parent =
     (if \<not> (0 < b_number parent \<and> b_creator parent = key \<and> count < getRecoveryWindowBlocks) then count
      else if b_previous_hash parent = [] then count + 1
      else
        let previous = getBlockByHash E db (b_previous_hash parent)
        in if b_number previous \<le> 0 \<or> b_number previous = b_number parent then count + 1
           else recovery_run E db key (count + 1) previous)"
  by pat_completeness auto
termination
  by (relation "measure (\<lambda>(E, db, key, count, b). nat (getRecoveryWindowBlocks - count))") auto

declare recovery_run.simps [simp del]

definition consecutive_recovery_blocks :: "env \<Rightarrow> dbh \<Rightarrow> block_structure \<Rightarrow> string \<Rightarrow> int" where
  "consecutive_recovery_blocks E db parent recovery_public_key =
     (if recovery_public_key = [] then 0 else recovery_run E db recovery_public_key 0 parent)"

section \<open>Names\<close>

definition name_for_key :: "(string, string) smap \<Rightarrow> string \<Rightarrow> string" where
  "name_for_key names public_key = (case sm_get names public_key of None \<Rightarrow> [] | Some n \<Rightarrow> n)"

definition ledger_member_by_key :: "ledger_state \<Rightarrow> string \<Rightarrow> member_state option" where
  "ledger_member_by_key st public_key = find (\<lambda>m. ms_key m = public_key) (ls_members st)"

definition accepted_member_names :: "site \<Rightarrow> daemon \<Rightarrow> (string, string) smap \<times> daemon" where
  "accepted_member_names S s = (let (st, s) = ledger_of S [] (-1) s in (ls_names st, s))"

text \<open>The members as pairs of key and name; the other fields of the records are not looked at.\<close>

definition accepted_membership_records :: "site \<Rightarrow> daemon \<Rightarrow> (string \<times> string) list \<times> daemon" where
  "accepted_membership_records S s =
     (let (st, s) = ledger_of S [] (-1) s in (map (\<lambda>m. (ms_key m, ms_name m)) (ls_members st), s))"

definition public_name_available_for_owner :: "site \<Rightarrow> string \<Rightarrow> string \<Rightarrow> daemon \<Rightarrow> bool \<times> daemon" where
  "public_name_available_for_owner S name owner_public_key s =
     (let normalized = normalizedPublicName name
      in if normalized = [] then (False, s)
         else
           let (members, s) = accepted_membership_records S s
           in (\<not> (\<exists>(key, n) \<in> set members. normalizedPublicName n = normalized \<and> key \<noteq> owner_public_key), s))"

section \<open>Looking for a record\<close>

record exchange_record_location =
  xl_found :: bool
  xl_pending :: bool
  xl_block_number :: int
  xl_record_index :: int
  xl_confirmations :: int
  xl_block_hash :: string
  xl_record :: "record_structure option"

definition empty_exchange_record_location :: exchange_record_location where
  "empty_exchange_record_location =
     \<lparr>xl_found = False, xl_pending = False, xl_block_number = -1, xl_record_index = -1, xl_confirmations = 0,
      xl_block_hash = [], xl_record = None\<rparr>"

definition confirmations :: "int \<Rightarrow> block_structure \<Rightarrow> int" where
  "confirmations latest_block_id b = (if b_number b \<le> latest_block_id then latest_block_id - b_number b + 1 else 0)"

definition accepted_location :: "int \<Rightarrow> entry \<Rightarrow> exchange_record_location" where
  "accepted_location latest_block_id = (\<lambda>(b, i, r).
     \<lparr>xl_found = True, xl_pending = False, xl_block_number = b_number b, xl_record_index = int i,
      xl_confirmations = confirmations latest_block_id b, xl_block_hash = b_hash b, xl_record = Some r\<rparr>)"

definition pending_location :: "nat \<times> record_structure \<Rightarrow> exchange_record_location" where
  "pending_location = (\<lambda>(i, r).
     \<lparr>xl_found = True, xl_pending = True, xl_block_number = -1, xl_record_index = int i, xl_confirmations = 0,
      xl_block_hash = [], xl_record = Some r\<rparr>)"

definition find_accepted :: "env \<Rightarrow> dbh \<Rightarrow> string \<Rightarrow> entry option" where
  "find_accepted E db record_hash =
     find (\<lambda>(b, i, r). r_hash r = record_hash) (fresh_entries {} (entries (api_chain E db)))"

definition find_exchange_record :: "site \<Rightarrow> string \<Rightarrow> daemon \<Rightarrow> exchange_record_location \<times> daemon" where
  "find_exchange_record S record_hash s =
     (if record_hash = [] then (empty_exchange_record_location, s)
      else case find_accepted (env_of S s) (the_db s) record_hash of
             Some e \<Rightarrow> (accepted_location (getLatestBlockId (the_db s)) e, s)
           | None \<Rightarrow>
               let (pending_records, s) = peek_queue S s
               in (case find (\<lambda>(i, r). r_hash r = record_hash) (enumerate 0 pending_records) of
                     Some p \<Rightarrow> pending_location p | None \<Rightarrow> empty_exchange_record_location, s))"

definition nonce_field :: "record_structure \<Rightarrow> (string \<times> string) list" where
  "nonce_field r = (if 0 < r_nonce r then [(''nonce'', show_long (r_nonce r))] else [])"

definition key_and_name :: "(string, string) smap \<Rightarrow> string \<Rightarrow> string \<Rightarrow> (string \<times> string) list" where
  "key_and_name names who key =
     [(who @ ''_key'', json_escape key), (who @ ''_name'', json_escape (name_for_key names key))]"

definition located_record_fields ::
    "exchange_record_location \<Rightarrow> (string, string) smap \<Rightarrow> record_structure \<Rightarrow> (string \<times> string) list" where
  "located_record_fields l names r =
     [(''hash'', json_escape (r_hash r)), (''status'', if xl_pending l then ''pending'' else ''accepted''),
      (''confirmations'', show_long (xl_confirmations l)), (''block'', show_long (xl_block_number l)),
      (''index'', show_long (xl_record_index l)), (''block_hash'', json_escape (xl_block_hash l)),
      (''type'', record_type_name (r_type r)), (''network'', json_escape (r_network r)),
      (''time'', json_escape (r_time r))] @
     nonce_field r @
     [(''amount'', show_double (r_amount r)), (''fee'', show_double (r_fee r))] @
     key_and_name names ''from'' (r_sender r) @ key_and_name names ''to'' (r_recipient r) @
     [(''name'', json_escape (r_name r)), (''value'', json_escape (r_value r))]"

text \<open>Only found locations are printed.\<close>

definition exchange_record_json :: "exchange_record_location \<Rightarrow> (string, string) smap \<Rightarrow> string" where
  "exchange_record_json l names =
     (case xl_record l of None \<Rightarrow> [] | Some r \<Rightarrow> json_object (located_record_fields l names r))"

definition last_n :: "nat \<Rightarrow> 'a list \<Rightarrow> 'a list" where
  "last_n n xs = drop (length xs - n) xs"

definition deposits :: "env \<Rightarrow> dbh \<Rightarrow> string \<Rightarrow> exchange_record_location list" where
  "deposits E db address =
     last_n 500 (map (accepted_location (getLatestBlockId db))
       (filter (\<lambda>(b, i, r). r_type r = TRANSFER_CURRENCY \<and> r_recipient r = address)
         (fresh_entries {} (entries (api_chain E db)))))"

definition exchange_deposits_json :: "site \<Rightarrow> string \<Rightarrow> daemon \<Rightarrow> string \<times> daemon" where
  "exchange_deposits_json S address s =
     (if address = []
      then (''{'' @ fields_text [(''status'', ''error''), (''message'', ''Deposit address is required.'')] @ '','' @
              member_text ''deposits'' ''[]'' @ ''}'', s)
      else
        let (names, s) = accepted_member_names S s
        in (''{'' @ fields_text [(''status'', ''ok''), (''address'', json_escape address), (''limit'', ''500'')] @ '','' @
            member_text ''deposits''
              (''['' @ comma_separated (map (\<lambda>l. exchange_record_json l names) (deposits (env_of S s) (the_db s) address)) @ '']'') @
            ''}'', s))"

section \<open>Sums over pending and recent records\<close>

definition touches :: "string \<Rightarrow> record_structure \<Rightarrow> bool" where
  "touches public_key r \<longleftrightarrow> r_sender r = public_key \<or> r_recipient r = public_key"

definition pending_delta :: "string \<Rightarrow> double \<Rightarrow> record_structure \<Rightarrow> double" where
  "pending_delta public_key delta r =
     (if touches public_key r \<and> r_type r = TRANSFER_CURRENCY
      then if r_sender r = public_key \<and> r_recipient r = public_key then dsub delta (r_fee r)
           else if r_sender r = public_key then dsub delta (dadd (r_amount r) (r_fee r))
           else dadd delta (r_amount r)
      else delta)"

definition pending_wallet_balance_delta :: "string \<Rightarrow> record_structure list \<Rightarrow> double \<times> int" where
  "pending_wallet_balance_delta public_key records =
     (foldl (pending_delta public_key) (DFin 0) records, int (length (filter (touches public_key) records)))"

definition outgoing :: "string \<Rightarrow> double \<Rightarrow> record_structure \<Rightarrow> double" where
  "outgoing public_key delta r =
     (if r_type r = TRANSFER_CURRENCY \<and> r_sender r = public_key
      then if r_recipient r = public_key then dsub delta (r_fee r) else dsub delta (dadd (r_amount r) (r_fee r))
      else if r_type r = VOTE \<and> r_sender r = public_key then dsub delta (r_fee r)
      else delta)"

definition pending_wallet_negative_delta :: "string \<Rightarrow> record_structure list \<Rightarrow> double" where
  "pending_wallet_negative_delta public_key records = foldl (outgoing public_key) (DFin 0) records"

definition record_affects_wallet_balance :: "block_structure \<Rightarrow> record_structure \<Rightarrow> string \<Rightarrow> bool" where
  "record_affects_wallet_balance b r public_key \<longleftrightarrow>
     public_key \<noteq> [] \<and>
     (case r_type r of
        ISSUE_CURRENCY \<Rightarrow> r_recipient r = public_key
      | TRANSFER_CURRENCY \<Rightarrow> r_sender r = public_key \<or> r_recipient r = public_key \<or> b_creator b = public_key
      | VOTE \<Rightarrow> r_sender r = public_key \<or> b_creator b = public_key
      | CARRY_FORWARD \<Rightarrow> r_sender r = public_key \<or> r_recipient r = public_key
      | _ \<Rightarrow> False)"

text \<open>The records of the blocks above the confirmed one.\<close>

definition recent_entries :: "env \<Rightarrow> dbh \<Rightarrow> int \<Rightarrow> entry list" where
  "recent_entries E db confirmed_stop_block =
     fresh_entries {} (entries (filter (\<lambda>b. confirmed_stop_block < b_number b) (api_chain E db)))"

definition recent_accepted_wallet_record_count :: "env \<Rightarrow> dbh \<Rightarrow> string \<Rightarrow> int \<Rightarrow> int" where
  "recent_accepted_wallet_record_count E db public_key confirmed_stop_block =
     (if public_key = [] then 0
      else int (length (filter (\<lambda>(b, i, r). record_affects_wallet_balance b r public_key)
             (recent_entries E db confirmed_stop_block))))"

definition recent_accepted_wallet_negative_delta :: "env \<Rightarrow> dbh \<Rightarrow> string \<Rightarrow> int \<Rightarrow> double" where
  "recent_accepted_wallet_negative_delta E db public_key confirmed_stop_block =
     (if public_key = [] then DFin 0
      else foldl (outgoing public_key) (DFin 0) (map (\<lambda>(b, i, r). r) (recent_entries E db confirmed_stop_block)))"

definition higher_nonce :: "string \<Rightarrow> int \<Rightarrow> record_structure \<Rightarrow> int" where
  "higher_nonce public_key nonce r =
     (if r_type r = TRANSFER_CURRENCY \<and> r_sender r = public_key \<and> nonce < r_nonce r then r_nonce r else nonce)"

definition next_transfer_nonce :: "site \<Rightarrow> string \<Rightarrow> daemon \<Rightarrow> int \<times> daemon" where
  "next_transfer_nonce S public_key s =
     (let (st, s) = ledger_of S [] (-1) s; (records, s) = peek_queue S s
      in (foldl (higher_nonce public_key) (sm_at 0 (ls_nonces st) public_key) records + 1, s))"

definition ledger_balance_total :: "balances \<Rightarrow> double" where
  "ledger_balance_total balances = foldl dadd (DFin 0) (map snd balances)"

section \<open>Comparison with the peers\<close>

definition best_peer_status :: "peer_status list \<Rightarrow> peer_status option" where
  "best_peer_status local_peers =
     foldl (\<lambda>best p.
        if \<not> p_reachable p \<or> \<not> p_genesisMatch p \<or> \<not> p_rulesCompatible p then best
        else case best of
               None \<Rightarrow> Some p
             | Some q \<Rightarrow> if p_latestBlockId q < p_latestBlockId p then Some p else best) None local_peers"

definition higher_tip :: "int \<Rightarrow> peer_status \<Rightarrow> int" where
  "higher_tip best p =
     (if p_reachable p \<and> p_genesisMatch p \<and> best < p_latestBlockId p then p_latestBlockId p else best)"

definition best_peer_latest_block_id :: "peer_status list \<Rightarrow> int" where
  "best_peer_latest_block_id local_peers = foldl higher_tip (-1) local_peers"

text \<open>\<open>(double) a / (double) b * 100.0\<close>, for a positive \<open>b\<close>.\<close>

definition percent :: "int \<Rightarrow> int \<Rightarrow> double" where
  "percent a b = round_double (round_fin (round_fin (of_int a) / round_fin (of_int b)) * 100)"

definition sync_progress_percent :: "int \<Rightarrow> int \<Rightarrow> peer_status list \<Rightarrow> double" where
  "sync_progress_percent first_block_id latest_block_id local_peers =
     (if latest_block_id < 0 then DFin 0
      else
        let best = foldl higher_tip latest_block_id local_peers
        in if first_block_id < 0 \<or> best \<le> latest_block_id then DFin 100
           else
             let total_span = best - first_block_id; local_span = latest_block_id - first_block_id
             in if total_span \<le> 0 then DFin 100
                else
                  let progress = percent local_span total_span
                  in if dlt progress (DFin 0) then DFin 0
                     else if dlt (DFin 100) progress then DFin 100
                     else progress)"

definition local_chain_matches_peer :: "env \<Rightarrow> dbh \<Rightarrow> peer_status \<Rightarrow> bool" where
  "local_chain_matches_peer E db p \<longleftrightarrow>
     p_latestBlockId p < 0 \<or> p_latestBlockHash p = [] \<or> getLatestBlockId db < p_latestBlockId p \<or>
     (let local_peer_tip = getBlock E db (p_latestBlockId p)
      in b_hash local_peer_tip \<noteq> [] \<and> b_hash local_peer_tip = p_latestBlockHash p)"

definition synced_with_peer_latest :: "env \<Rightarrow> dbh \<Rightarrow> int \<Rightarrow> peer_status list \<Rightarrow> bool" where
  "synced_with_peer_latest E db latest_block_id local_peers =
     (case best_peer_status local_peers of
        None \<Rightarrow> local_peers = []
      | Some p \<Rightarrow> p_latestBlockId p \<le> latest_block_id \<and> local_chain_matches_peer E db p)"

definition peer_exchange_preferred :: "peer_status \<Rightarrow> bool" where
  "peer_exchange_preferred p \<longleftrightarrow> p_reachable p \<and> p_genesisMatch p \<and> p_rulesCompatible p \<and> -20 \<le> p_score p"

text \<open>
  \<open>shuffle\<close> is the permutation of \<open>std::random_shuffle\<close>; \<open>ties\<close> the order in which \<open>std::sort\<close>
  finds elements that compare as equal.
\<close>

definition peer_exchange_sample ::
    "(peer_status list \<Rightarrow> peer_status list) \<Rightarrow> (peer_status list \<Rightarrow> peer_status list) \<Rightarrow>
     peer_status list \<Rightarrow> int \<Rightarrow> peer_status list" where
  "peer_exchange_sample shuffle ties peers limit =
     (let limit = (if limit \<le> 0 \<or> PEER_EXCHANGE_MAX_PEERS < limit then PEER_EXCHANGE_MAX_PEERS else limit);
          preferred = sort_key (\<lambda>p. (- p_score p, - p_lastSuccessEpoch p, - p_latestBlockId p))
                        (ties (filter peer_exchange_preferred peers));
          others = shuffle (filter (\<lambda>p. \<not> peer_exchange_preferred p) peers);
          randomSlots = min PEER_EXCHANGE_RANDOM_PEERS limit;
          preferredLimit = nat (max 0 (limit - randomSlots));
          selected = take preferredLimit preferred;
          selected = selected @ take (nat limit - length selected) others
      in selected @ take (nat limit - length selected) (drop preferredLimit preferred))"

end
