(* ===== verification/ApiStatus.thy ===== *)
theory ApiStatus
  imports ApiChain
begin

text \<open>
  The answers of the API that describe the node: status, peers, users, accounts, the queue,
  forks, the schedule and the exchange status (\<open>src/src/network/request_handler.cpp\<close>). They
  change nothing but caches and counters of the database; \<open>None\<close> is an exception that
  \<open>boost::lexical_cast\<close> throws.
\<close>

section \<open>Queue, forks, reorganisations\<close>

definition mempool_record :: "nat \<times> record_structure \<Rightarrow> string" where
  "mempool_record = (\<lambda>(i, r). json_object (
     [(''index'', show_nat i), (''type'', record_type_name (r_type r)), (''network'', json_escape (r_network r)),
      (''time'', json_escape (r_time r))] @
     nonce_field r @
     [(''amount'', show_double (r_amount r)), (''fee'', show_double (r_fee r)),
      (''from_key'', json_escape (r_sender r)), (''to_key'', json_escape (r_recipient r)),
      (''member_key'', json_escape (r_sender r)), (''name'', json_escape (r_name r)),
      (''value'', json_escape (r_value r)), (''hash'', json_escape (r_hash r))]))"

definition status_and_list :: "(string \<times> string) list \<Rightarrow> string \<Rightarrow> string list \<Rightarrow> string" where
  "status_and_list kvs key items =
     ''{'' @ fields_text kvs @ '','' @ member_text key (''['' @ comma_separated items @ '']'') @ ''}''"

definition mempool_json :: "site \<Rightarrow> daemon \<Rightarrow> string \<times> daemon" where
  "mempool_json S s =
     (let (records, s) = peek_queue S s
      in (status_and_list [(''status'', ''ok'')] ''records'' (map mempool_record (enumerate 0 records)), s))"

definition fork_variant_json :: "fork_variant \<Rightarrow> string" where
  "fork_variant_json v = json_object
     [(''block_id'', show_long (fk_block_number v)), (''hash'', json_escape (fk_hash v)),
      (''previous_hash'', json_escape (fk_previous_hash v)), (''creator_key'', json_escape (fk_creator v)),
      (''canonical'', yes_no (fk_canonical v))]"

definition fork_count :: "site \<Rightarrow> daemon \<Rightarrow> int option \<times> daemon" where
  "fork_count S s = (let (n, db) = getForkVariantCount (env_of S s) (the_db s) in (n, set_db db s))"

definition forks_json :: "site \<Rightarrow> daemon \<Rightarrow> string option \<times> daemon" where
  "forks_json S s =
     (case fork_count S s of
        (None, s) \<Rightarrow> (None, s)
      | (Some forkCount, s) \<Rightarrow>
          (Some (status_and_list [(''status'', ''ok''), (''fork_count'', show_long forkCount)] ''variants''
             (map fork_variant_json (getForkVariants (env_of S s) (the_db s) 100))), s))"

definition reorg_json :: "site \<Rightarrow> daemon \<Rightarrow> string option \<times> daemon" where
  "reorg_json S s =
     (case getLastReorgInfo (env_of S s) (the_db s) of
        None \<Rightarrow> (None, s)
      | Some info \<Rightarrow>
          (Some (json_object
             [(''status'', ''ok''), (''has_reorg'', yes_no (0 < ri_previous_block info \<and> 0 < ri_new_block info)),
              (''previous_block'', show_long (ri_previous_block info)),
              (''previous_hash'', json_escape (ri_previous_hash info)),
              (''new_block'', show_long (ri_new_block info)), (''new_hash'', json_escape (ri_new_hash info)),
              (''time'', show_long (ri_time info)), (''reason'', json_escape (ri_reason info))]), s))"

section \<open>Users and accounts\<close>

definition network_users_json :: "site \<Rightarrow> daemon \<Rightarrow> string \<times> daemon" where
  "network_users_json S s =
     (let (members, s) = accepted_membership_records S s;
          (st, s) = ledger_of S [] (-1) s
      in (status_and_list [(''status'', ''ok'')] ''users''
            (map (\<lambda>(key, name). json_object
               [(''public_key'', json_escape key), (''name'', json_escape name),
                (''balance'', show_double (sm_at (DFin 0) (ls_balances st) key))])
             (filter (\<lambda>(key, name). key \<noteq> []) members)), s))"

definition account_json :: "ledger_state \<Rightarrow> ledger_state \<Rightarrow> string \<Rightarrow> string \<Rightarrow> account \<Rightarrow> string" where
  "account_json chain_state confirmed_chain_state active_id creator_id a =
     (let m = ledger_member_by_key chain_state (a_public a)
      in json_object
        [(''wallet_id'', json_escape (a_id a)), (''label'', json_escape (a_label a)),
         (''public_key'', json_escape (a_public a)),
         (''public_name'', json_escape (name_for_key (ls_names chain_state) (a_public a))),
         (''active'', yes_no (a_id a = active_id)), (''creator'', yes_no (a_id a = creator_id)),
         (''balance'', show_double (sm_at (DFin 0) (ls_balances confirmed_chain_state) (a_public a))),
         (''estimated_balance'', show_double (sm_at (DFin 0) (ls_balances chain_state) (a_public a))),
         (''joined'', yes_no (m \<noteq> None)),
         (''active_heartbeat'', yes_no (case m of None \<Rightarrow> False | Some m \<Rightarrow> ms_active m)),
         (''last_heartbeat_block'', show_long (case m of None \<Rightarrow> -1 | Some m \<Rightarrow> ms_last_heartbeat m))])"

definition wallet_accounts_json :: "site \<Rightarrow> daemon \<Rightarrow> string \<times> daemon" where
  "wallet_accounts_json S s =
     (let (accounts, s) = on_wallet listAccounts s;
          (active_id, s) = on_wallet activeAccountId s;
          (creator_id, s) = on_wallet creatorAccountId s;
          (chain_state, s) = ledger_of S [] (-1) s;
          confirmed = confirmedStopBlock (env_of S s) (the_db s) WALLET_CONFIRMATION_BLOCKS;
          (confirmed_chain_state, s) = ledger_of S [] confirmed s
      in (status_and_list
            [(''status'', ''ok''), (''active_wallet_id'', json_escape active_id),
             (''creator_wallet_id'', json_escape creator_id)] ''accounts''
            (map (account_json chain_state confirmed_chain_state active_id creator_id) accounts), s))"

section \<open>The status of the node\<close>

definition nat_fields :: "nat_status \<Rightarrow> (string \<times> string) list" where
  "nat_fields n =
     [(''nat_enabled'', yes_no (nt_enabled n)), (''nat_mapped'', yes_no (nt_mapped n)),
      (''nat_method'', json_escape (nt_method n)), (''nat_external_address'', json_escape (nt_externalAddress n)),
      (''nat_external_port'', show_long (nt_externalPort n)), (''nat_message'', json_escape (nt_message n))]"

text \<open>The key of the wallet and its public name; both are empty where there is no wallet.\<close>

definition own_identity :: "site \<Rightarrow> daemon \<Rightarrow> (string \<times> string) \<times> daemon" where
  "own_identity S s =
     (let ((found, privateKey, publicKey), s) = read_keys s
      in if found then let (names, s) = accepted_member_names S s in ((publicKey, name_for_key names publicKey), s)
         else (([], []), s))"

definition reorg_fields :: "reorg_info \<Rightarrow> (string \<times> string) list" where
  "reorg_fields info =
     [(''last_reorg_previous_block'', show_long (ri_previous_block info)),
      (''last_reorg_previous_hash'', json_escape (ri_previous_hash info)),
      (''last_reorg_new_block'', show_long (ri_new_block info)),
      (''last_reorg_new_hash'', json_escape (ri_new_hash info)),
      (''last_reorg_time'', show_long (ri_time info))]"

definition selection_fields :: "(string \<times> string) list" where
  "selection_fields =
     [(''epoch_size_blocks'', show_long getEpochSizeBlocks), (''selection_lag_epochs'', show_long getSelectionLagEpochs)]"

text \<open>The members of the answer to \<open>/api/status\<close>.\<close>

definition status_fields ::
    "env \<Rightarrow> dbh \<Rightarrow> string \<Rightarrow> string \<Rightarrow> int \<Rightarrow> reorg_info \<Rightarrow> string \<Rightarrow> nat_status \<Rightarrow> (string \<times> string) list" where
  "status_fields E db publicKey publicName forkCount reorgInfo advertised n =
     (let config = env_config E; firstBlockId = getFirstBlockId db; latestBlockId = getLatestBlockId db;
          firstBlock = getBlock E db firstBlockId; latestBlock = getBlock E db latestBlockId
      in [(''status'', ''ok''), (''protocol_version'', show_long PROTOCOL_VERSION),
          (''consensus_rules_version'', show_long CONSENSUS_RULES_VERSION),
          (''schema_version'', show_long (getSchemaVersion db))] @ selection_fields @
         [(''network'', nc_network config), (''public_key'', json_escape publicKey),
          (''public_name'', json_escape publicName), (''first_block_id'', show_long firstBlockId),
          (''first_block_hash'', b_hash firstBlock), (''expected_genesis_block'', show_long (genesisBlock config)),
          (''expected_genesis_hash'', genesisHash config),
          (''genesis_match'', yes_no (genesisMatches config firstBlockId (b_hash firstBlock))),
          (''latest_block_id'', show_long latestBlockId), (''latest_block_hash'', b_hash latestBlock),
          (''fork_count'', show_long forkCount)] @ reorg_fields reorgInfo @
         [(''public_peer_url'', json_escape advertised)] @ nat_fields n)"

definition status_json :: "site \<Rightarrow> daemon \<Rightarrow> string option \<times> daemon" where
  "status_json S s =
     (case fork_count S s of
        (None, s) \<Rightarrow> (None, s)
      | (Some forkCount, s) \<Rightarrow>
          (case getLastReorgInfo (env_of S s) (the_db s) of
             None \<Rightarrow> (None, s)
           | Some reorgInfo \<Rightarrow>
               let ((publicKey, publicName), s) = own_identity S s
               in (Some (json_object (status_fields (env_of S s) (the_db s) publicKey publicName forkCount reorgInfo
                          (n_advertised (d_node s)) (d_nat s))), s)))"

section \<open>Peers\<close>

definition peer_fields :: "peer_status \<Rightarrow> (string \<times> string) list" where
  "peer_fields p =
     [(''url'', json_escape (p_url p)), (''public_key'', json_escape (p_publicKey p)),
      (''public_name'', json_escape (p_publicName p)), (''latest_block_id'', show_long (p_latestBlockId p)),
      (''latest_block_hash'', p_latestBlockHash p), (''protocol_version'', show_long (p_protocolVersion p)),
      (''consensus_rules_version'', show_long (p_consensusRulesVersion p)),
      (''rules_compatible'', yes_no (p_rulesCompatible p)), (''genesis_match'', yes_no (p_genesisMatch p)),
      (''reachable'', yes_no (p_reachable p)), (''last_success_epoch'', show_long (p_lastSuccessEpoch p)),
      (''first_failure_epoch'', show_long (p_firstFailureEpoch p)), (''score'', show_long (p_score p))]"

definition self_fields :: "env \<Rightarrow> dbh \<Rightarrow> string \<Rightarrow> string \<Rightarrow> string \<Rightarrow> (string \<times> string) list" where
  "self_fields E db advertised publicKey publicName =
     (let firstBlockId = getFirstBlockId db; latestBlockId = getLatestBlockId db
      in [(''url'', json_escape advertised), (''public_key'', json_escape publicKey),
          (''public_name'', json_escape publicName), (''latest_block_id'', show_long latestBlockId),
          (''latest_block_hash'', json_escape (b_hash (getBlock E db latestBlockId))),
          (''protocol_version'', show_long PROTOCOL_VERSION),
          (''consensus_rules_version'', show_long CONSENSUS_RULES_VERSION), (''rules_compatible'', ''yes''),
          (''genesis_match'', yes_no (genesisMatches (env_config E) firstBlockId (b_hash (getBlock E db firstBlockId)))),
          (''reachable'', yes_no (0 \<le> latestBlockId)), (''last_success_epoch'', ''0''), (''first_failure_epoch'', ''0''),
          (''score'', ''100'')])"

definition peer_objects :: "env \<Rightarrow> dbh \<Rightarrow> string \<Rightarrow> string \<Rightarrow> string \<Rightarrow> peer_status list \<Rightarrow> string list" where
  "peer_objects E db advertised publicKey publicName peers =
     (if advertised \<noteq> [] then [json_object (self_fields E db advertised publicKey publicName)] else []) @
     map (\<lambda>p. json_object (peer_fields p)) (filter (\<lambda>p. \<not> (advertised \<noteq> [] \<and> p_url p = advertised)) peers)"

definition peers_json :: "site \<Rightarrow> daemon \<Rightarrow> string \<times> daemon" where
  "peers_json S s =
     (let W = si_world S;
          (peers, s) = on_node (getPeerStatuses W False) s;
          peers = peer_exchange_sample (si_shuffle S (n_events (d_node s))) (w_ties W) peers PEER_EXCHANGE_MAX_PEERS;
          advertisedPeer = n_advertised (d_node s);
          ((publicKey, publicName), s) = own_identity S s
      in (status_and_list
            ([(''protocol_version'', show_long PROTOCOL_VERSION),
              (''consensus_rules_version'', show_long CONSENSUS_RULES_VERSION)] @ selection_fields @
             [(''peer_limit'', show_long PEER_EXCHANGE_MAX_PEERS), (''self_url'', json_escape advertisedPeer)])
            ''peers'' (peer_objects (env_of S s) (the_db s) advertisedPeer publicKey publicName peers), s))"

section \<open>Schedule, time, exchange status\<close>

definition slot_json :: "(string, string) smap \<Rightarrow> creator_schedule_slot \<Rightarrow> string" where
  "slot_json names i = json_object
     [(''block_id'', show_long (sl_blockId i)), (''creator_key'', json_escape (sl_creatorKey i)),
      (''creator_name'', json_escape (name_for_key names (sl_creatorKey i))),
      (''creator_peer_url'', json_escape (sl_creatorPeerUrl i)),
      (''selection_boundary_block'', show_long (sl_selectionBoundaryBlock i)),
      (''selection_checkpoint_block'', show_long (sl_selectionCheckpointBlock i)),
      (''selection_checkpoint_hash'', json_escape (sl_selectionCheckpointHash i))]"

definition schedule_limit :: "string \<Rightarrow> int" where
  "schedule_limit limitValue =
     (let limit = (if limitValue \<noteq> [] then atoi limitValue else 20);
          limit = (if limit \<le> 0 then 20 else limit)
      in min 100 limit)"

definition schedule_json :: "site \<Rightarrow> int \<Rightarrow> daemon \<Rightarrow> string \<times> daemon" where
  "schedule_json S limit s =
     (let (names, s) = accepted_member_names S s;
          (schedule, s) = on_node (getUpcomingCreatorSchedule (si_world S) limit) s
      in (status_and_list ((''status'', ''ok'') # selection_fields) ''slots'' (map (slot_json names) schedule), s))"

definition time_json :: "site \<Rightarrow> daemon \<Rightarrow> string \<times> daemon" where
  "time_json S s =
     (let (epoch, s) = now_epoch S s; (local, s) = now_local S s
      in (json_object
            [(''epoch'', show_long epoch), (''local_epoch'', show_long local),
             (''offset'', show_long (n_offset (d_node s))), (''slot'', show_long (cdiv epoch 15)),
             (''block_interval'', ''15'')], s))"

definition exchange_status_json :: "site \<Rightarrow> daemon \<Rightarrow> string \<times> daemon" where
  "exchange_status_json S s =
     (let E = env_of S s; db = the_db s;
          first_block_id = getFirstBlockId db; latest_block_id = getLatestBlockId db;
          block_count = connected_block_count E db;
          first_block = getBlock E db first_block_id; latest_block = getBlock E db latest_block_id;
          (local_peers, s) = on_node (getPeerStatuses (si_world S) False) s;
          best_peer = best_peer_status local_peers;
          peer_chain_match = (case best_peer of None \<Rightarrow> True | Some p \<Rightarrow> local_chain_matches_peer E db p);
          peer_sync = synced_with_peer_latest E db latest_block_id local_peers;
          (st, s) = ledger_of S [] (-1) s;
          exists = has_wallet s;
          ((found, privateKey, publicKey), s) = (if exists then read_keys s else ((False, [], []), s));
          wallet_balance = (if exists then sm_at (DFin 0) (ls_balances st) publicKey else DFin 0)
      in (json_object
            [(''status'', ''ok''), (''role'', ''exchange_node''), (''public_key'', json_escape publicKey),
             (''wallet_balance'', show_double wallet_balance), (''first_block_id'', show_long first_block_id),
             (''first_block_hash'', json_escape (b_hash first_block)), (''latest_block_id'', show_long latest_block_id),
             (''latest_block_hash'', json_escape (b_hash latest_block)),
             (''latest_block_time'', json_escape (b_time latest_block)), (''block_count'', show_long block_count),
             (''issued_supply'', show_double (ls_issued st)), (''ledger_balance_total'', show_double (ls_total st)),
             (''user_count'', show_nat (length (ls_members st))),
             (''genesis_match'', yes_no (genesisMatches (env_config E) first_block_id (b_hash first_block))),
             (''peer_sync'', yes_no peer_sync), (''peer_chain_match'', yes_no peer_chain_match),
             (''peer_latest_block_id'', show_long (case best_peer of None \<Rightarrow> -1 | Some p \<Rightarrow> p_latestBlockId p)),
             (''peer_latest_block_hash'', json_escape (case best_peer of None \<Rightarrow> [] | Some p \<Rightarrow> p_latestBlockHash p)),
             (''sync_progress'', show_double (sync_progress_percent first_block_id latest_block_id local_peers)),
             (''network_time_offset'', show_long (n_offset (d_node s))), (''local_peers'', show_nat (length local_peers)),
             (''withdrawal_api'', if configured_exchange_api_key (si_settings S) \<noteq> [] then ''configured'' else ''disabled'')], s))"

end
