(* ===== verification/ApiExplorer.thy ===== *)
theory ApiExplorer
  imports ApiStatus
begin

text \<open>
  The history of a wallet, the recent blocks and the block explorer of
  \<open>src/src/network/request_handler.cpp\<close>.
\<close>

section \<open>History of a wallet\<close>

record wallet_history_record =
  wh_direction :: string
  wh_block_number :: int
  wh_record_index :: int
  wh_record :: record_structure
  wh_from_key :: string
  wh_to_key :: string
  wh_net_amount :: double

definition history_item :: "entry \<Rightarrow> string \<Rightarrow> string \<Rightarrow> string \<Rightarrow> double \<Rightarrow> wallet_history_record" where
  "history_item = (\<lambda>(b, i, r) direction from_key to_key net.
     \<lparr>wh_direction = direction, wh_block_number = b_number b, wh_record_index = int i, wh_record = r,
      wh_from_key = from_key, wh_to_key = to_key, wh_net_amount = net\<rparr>)"

definition transfer_items :: "string \<Rightarrow> entry \<Rightarrow> wallet_history_record list" where
  "transfer_items public_key e =
     (case e of (b, i, r) \<Rightarrow>
        let sent_by_wallet = (r_sender r = public_key); received_by_wallet = (r_recipient r = public_key)
        in if r_type r \<noteq> TRANSFER_CURRENCY then []
           else if sent_by_wallet \<and> received_by_wallet then [history_item e ''SELF'' public_key public_key (DFin 0)]
           else if sent_by_wallet
             then [history_item e ''SENT'' (r_sender r) (r_recipient r) (dneg (dadd (r_amount r) (r_fee r)))]
           else if received_by_wallet then [history_item e ''RECEIVED'' (r_sender r) (r_recipient r) (r_amount r)]
           else [])"

definition history_items :: "string \<Rightarrow> entry \<Rightarrow> wallet_history_record list" where
  "history_items public_key e =
     (case e of (b, i, r) \<Rightarrow>
        (if r_type r = ISSUE_CURRENCY \<and> r_recipient r = public_key
         then [history_item e ''REWARD'' (r_sender r) (r_recipient r) (r_amount r)] else []) @
        transfer_items public_key e @
        (if (r_type r = TRANSFER_CURRENCY \<or> r_type r = VOTE) \<and> b_creator b = public_key \<and> dlt (DFin 0) (r_fee r)
         then [history_item e ''FEE'' (r_sender r) (b_creator b) (r_fee r)] else []) @
        (if r_type r = CARRY_FORWARD \<and> r_sender r = public_key
         then [history_item e ''CARRY_FORWARD'' (r_sender r) (r_recipient r) (dadd (r_amount r) CARRY_FORWARD_REWARD)]
         else []))"

definition wallet_history :: "env \<Rightarrow> dbh \<Rightarrow> string \<Rightarrow> wallet_history_record list" where
  "wallet_history E db public_key =
     last_n 500 (concat (map (history_items public_key) (fresh_entries {} (entries (api_chain E db)))))"

definition history_json :: "(string, string) smap \<Rightarrow> wallet_history_record \<Rightarrow> string" where
  "history_json names h = json_object (
     [(''direction'', wh_direction h), (''block'', show_long (wh_block_number h)),
      (''index'', show_long (wh_record_index h)), (''time'', json_escape (r_time (wh_record h))),
      (''net'', show_double (wh_net_amount h))] @
     nonce_field (wh_record h) @
     [(''amount'', show_double (r_amount (wh_record h))), (''fee'', show_double (r_fee (wh_record h)))] @
     key_and_name names ''from'' (wh_from_key h) @ key_and_name names ''to'' (wh_to_key h) @
     [(''hash'', json_escape (r_hash (wh_record h)))])"

definition wallet_history_json :: "site \<Rightarrow> string \<Rightarrow> daemon \<Rightarrow> string \<times> daemon" where
  "wallet_history_json S public_key s =
     (if getFirstBlockId (the_db s) < 0 \<or> getLatestBlockId (the_db s) < 0
      then (status_and_list [(''status'', ''ok'')] ''records'' [], s)
      else
        let history = wallet_history (env_of S s) (the_db s) public_key;
            (names, s) = accepted_member_names S s
        in (status_and_list [(''status'', ''ok'')] ''records'' (map (history_json names) history), s))"

section \<open>Walking back from the tip\<close>

definition previous_of :: "env \<Rightarrow> dbh \<Rightarrow> block_structure \<Rightarrow> block_structure \<Rightarrow> block_structure" where
  "previous_of E db unset b =
     (let previous_block = (if b_previous_hash b \<noteq> [] then getBlockByHash E db (b_previous_hash b) else unset)
      in if b_number previous_block \<le> 0 then getBlock E db (b_previous_id b) else previous_block)"

text \<open>The blocks from \<open>b\<close> back to one at which \<open>ends\<close> holds, at most \<open>limit\<close> of them.\<close>

function back_chain ::
    "env \<Rightarrow> dbh \<Rightarrow> block_structure \<Rightarrow> (block_structure \<Rightarrow> bool) \<Rightarrow> int \<Rightarrow> int \<Rightarrow> block_structure \<Rightarrow> block_structure list" where
  "back_chain E db unset ends limit guard b =
     (if \<not> (0 < b_number b \<and> guard < limit) then []
      else b #
        (if ends b then []
         else let previous_block = previous_of E db unset b
              in if b_number previous_block \<le> 0 \<or> b_number previous_block = b_number b then []
                 else back_chain E db unset ends limit (guard + 1) previous_block))"
  by pat_completeness auto
termination
  by (relation "measure (\<lambda>(E, db, unset, ends, limit, guard, b). nat (limit - guard))") auto

declare back_chain.simps [simp del]

definition blocks_by_number :: "block_structure list \<Rightarrow> (int, block_structure) smap" where
  "blocks_by_number bs = foldl (\<lambda>m b. sm_put (b_number b) b m) [] bs"

text \<open>
  The expected creator of each slot, with the states built so far by boundary; \<open>None\<close> where
  there is nobody to choose from.
\<close>

fun expected_creators ::
    "site \<Rightarrow> int \<Rightarrow> int list \<Rightarrow> (int, ledger_state) smap \<Rightarrow> daemon \<Rightarrow>
     (string option list \<times> (int, ledger_state) smap) \<times> daemon" where
  "expected_creators S first_block_id [] built s = (([], built), s)"
| "expected_creators S first_block_id (slot # slots) built s =
     (let selection_boundary = getSelectionBoundaryBlock slot first_block_id;
          (built, s) = (case sm_get built selection_boundary of
                          Some st \<Rightarrow> (built, s)
                        | None \<Rightarrow> let (st, s) = ledger_of S [] selection_boundary s
                                  in (sm_put selection_boundary st built, s));
          st = sm_at (w_uninit (si_world S)) built selection_boundary;
          keys = activeMemberKeysAt st slot;
          creator = (if keys \<noteq> [] \<and> b_hash (ls_latest_block st) \<noteq> []
                     then Some (getSelectedUserForBlock (env_of S s) slot (b_hash (ls_latest_block st)) keys) else None);
          ((creators, built), s) = expected_creators S first_block_id slots built s
      in ((creator # creators, built), s))"

definition slots_between :: "int \<Rightarrow> int \<Rightarrow> int list" where
  "slots_between a b = [a..b]"

section \<open>Recent blocks\<close>

text \<open>How the tip of the best peer relates to the local chain: it is the tip, or below it.\<close>

definition peer_tip_matches_tip :: "peer_status \<Rightarrow> block_structure \<Rightarrow> bool" where
  "peer_tip_matches_tip p local_tip \<longleftrightarrow>
     p_latestBlockHash p \<noteq> [] \<and> p_latestBlockId p = b_number local_tip \<and> p_latestBlockHash p = b_hash local_tip"

definition peer_tip_matches_ancestor :: "env \<Rightarrow> dbh \<Rightarrow> peer_status \<Rightarrow> block_structure \<Rightarrow> bool" where
  "peer_tip_matches_ancestor E db p local_tip \<longleftrightarrow>
     p_latestBlockHash p \<noteq> [] \<and> \<not> peer_tip_matches_tip p local_tip \<and> p_latestBlockId p < b_number local_tip \<and>
     (let local_peer_tip = getBlock E db (p_latestBlockId p)
      in b_number local_peer_tip = p_latestBlockId p \<and> p_latestBlockHash p = b_hash local_peer_tip)"

text \<open>The status of a block and the hash the peer has for it.\<close>

definition network_status :: "env \<Rightarrow> dbh \<Rightarrow> peer_status option \<Rightarrow> block_structure \<Rightarrow> block_structure \<Rightarrow> string \<times> string" where
  "network_status E db best local_tip b =
     (case best of
        None \<Rightarrow> (''unknown'', [])
      | Some p \<Rightarrow>
          if p_latestBlockId p < b_number b then (''ahead'', [])
          else if peer_tip_matches_tip p local_tip \<or>
                  peer_tip_matches_ancestor E db p local_tip \<and> b_number b \<le> p_latestBlockId p
            then (''match'', b_hash b)
          else if b_number b = p_latestBlockId p \<and> p_latestBlockHash p \<noteq> []
            then (if b_hash b = p_latestBlockHash p then ''match'' else ''mismatch'', p_latestBlockHash p)
          else (''unknown'', []))"

definition append_record_json :: "(string, string) smap \<Rightarrow> nat \<times> record_structure \<Rightarrow> string" where
  "append_record_json names = (\<lambda>(i, r). json_object (
     [(''index'', show_nat i), (''type'', record_type_name (r_type r)), (''network'', json_escape (r_network r)),
      (''time'', json_escape (r_time r))] @
     nonce_field r @
     [(''amount'', show_double (r_amount r)), (''fee'', show_double (r_fee r))] @
     key_and_name names ''from'' (r_sender r) @ key_and_name names ''to'' (r_recipient r) @
     key_and_name names ''member'' (r_sender r) @
     [(''name'', json_escape (r_name r)), (''value'', json_escape (r_value r)), (''hash'', json_escape (r_hash r))]))"

definition records_list :: "(string, string) smap \<Rightarrow> record_structure list \<Rightarrow> string" where
  "records_list names rs =
     member_text ''records'' (''['' @ comma_separated (map (append_record_json names) (enumerate 0 rs)) @ '']'')"

definition block_json ::
    "env \<Rightarrow> dbh \<Rightarrow> peer_status option \<Rightarrow> block_structure \<Rightarrow> (string, string) smap \<Rightarrow> block_structure \<Rightarrow> string" where
  "block_json E db best local_tip names b =
     (let (status, peer_hash) = network_status E db best local_tip b
      in ''{'' @ fields_text
           [(''number'', show_long (b_number b)), (''network_status'', status), (''peer_hash'', json_escape peer_hash),
            (''peer_url'', json_escape (case best of None \<Rightarrow> [] | Some p \<Rightarrow> p_url p)),
            (''time'', json_escape (b_time b)), (''previous_block_id'', show_long (b_previous_id b)),
            (''creator_key'', json_escape (b_creator b)),
            (''creator_name'', json_escape (name_for_key names (b_creator b))), (''hash'', json_escape (b_hash b)),
            (''previous_hash'', json_escape (b_previous_hash b)),
            (''records_merkle_root'', json_escape (b_merkle_root b)),
            (''record_count'', show_nat (length (b_records b)))] @ '','' @ records_list names (b_records b) @ ''}'')"

text \<open>The members that a slot shows of its block; a missing block shows as empty.\<close>

definition slot_block_fields :: "(string, string) smap \<Rightarrow> block_structure option \<Rightarrow> (string \<times> string) list" where
  "slot_block_fields names b =
     (case b of
        None \<Rightarrow> [(''time'', []), (''previous_block_id'', ''-1''), (''creator_key'', []), (''creator_name'', []),
                 (''hash'', []), (''previous_hash'', []), (''records_merkle_root'', []), (''record_count'', ''0'')]
      | Some b \<Rightarrow>
          [(''time'', json_escape (b_time b)), (''previous_block_id'', show_long (b_previous_id b)),
           (''creator_key'', json_escape (b_creator b)),
           (''creator_name'', json_escape (name_for_key names (b_creator b))), (''hash'', json_escape (b_hash b)),
           (''previous_hash'', json_escape (b_previous_hash b)),
           (''records_merkle_root'', json_escape (b_merkle_root b)), (''record_count'', show_nat (length (b_records b)))])"

definition activity_json ::
    "env \<Rightarrow> dbh \<Rightarrow> peer_status option \<Rightarrow> block_structure \<Rightarrow> (string, string) smap \<Rightarrow> int \<Rightarrow>
     (int, block_structure) smap \<Rightarrow> int \<times> string option \<Rightarrow> string" where
  "activity_json E db best local_tip names latest_block_id stored = (\<lambda>(slot, creator).
     let b = sm_get stored slot;
         (status, peer_hash) = (case b of None \<Rightarrow> (''unknown'', []) | Some b \<Rightarrow> network_status E db best local_tip b);
         expected = (case creator of None \<Rightarrow> [] | Some k \<Rightarrow> k);
         expected_name = (case creator of None \<Rightarrow> [] | Some k \<Rightarrow> name_for_key names k)
     in json_object (
          [(''number'', show_long slot), (''missing'', yes_no (b = None)), (''expected'', yes_no (latest_block_id < slot)),
           (''expected_creator_key'', json_escape expected), (''expected_creator_name'', json_escape expected_name),
           (''network_status'', status), (''peer_hash'', json_escape peer_hash),
           (''peer_url'', json_escape (case best of None \<Rightarrow> [] | Some p \<Rightarrow> p_url p))] @
          slot_block_fields names b))"

definition recent_blockchain_json :: "site \<Rightarrow> daemon \<Rightarrow> string \<times> daemon" where
  "recent_blockchain_json S s =
     (let E = env_of S s; db = the_db s;
          first_block_id = getFirstBlockId db; latest_block_id = getLatestBlockId db
      in if first_block_id < 0 \<or> latest_block_id < 0
         then (status_and_list [(''status'', ''ok''), (''limit'', ''50'')] ''blocks'' [], s)
         else
           let recent = take 50 (back_chain E db (si_unset_block S)
                          (\<lambda>b. b_number b = first_block_id \<or> b_previous_id b \<le> 0) 100000 0 (getBlock E db latest_block_id));
               (peers, s) = on_node (getPeerStatuses (si_world S) False) s;
               best = best_peer_status peers;
               local_tip = getBlock E db latest_block_id;
               (names, s) = accepted_member_names S s;
               stored = blocks_by_number (rev recent);
               (epoch, s) = now_epoch S s;
               visible_latest_block = max latest_block_id (cdiv epoch 15);
               first_activity_slot = max first_block_id (visible_latest_block - 19);
               slots = slots_between first_activity_slot visible_latest_block;
               ((creators, built), s) = expected_creators S first_block_id slots [] s
           in (''{'' @ fields_text [(''status'', ''ok''), (''limit'', ''50'')] @ '','' @
               member_text ''blocks'' (''['' @ comma_separated (map (block_json E db best local_tip names) recent) @ '']'') @ '','' @
               member_text ''activity_slots''
                 (''['' @ comma_separated (map (activity_json E db best local_tip names latest_block_id stored)
                                            (zip slots creators)) @ '']'') @ ''}'', s))"

section \<open>The block explorer\<close>

definition slot_status :: "bool \<Rightarrow> bool \<Rightarrow> string" where
  "slot_status slot_missing slot_future =
     (if slot_missing then if slot_future then ''future'' else ''missing'' else ''match'')"

definition explorer_slot ::
    "(string, string) smap \<Rightarrow> int \<Rightarrow> (int, block_structure) smap \<Rightarrow> int \<Rightarrow> int \<times> string option \<Rightarrow> string" where
  "explorer_slot names current_time_block stored epoch = (\<lambda>(slot, creator).
     let b = sm_get stored slot;
         slot_future = (b = None \<and> current_time_block \<le> slot);
         expected = (case creator of None \<Rightarrow> [] | Some k \<Rightarrow> k)
     in ''{'' @ fields_text (
          [(''number'', show_long slot), (''epoch'', show_long epoch), (''missing'', yes_no (b = None)),
           (''expected'', yes_no slot_future), (''expected_creator_key'', json_escape expected),
           (''expected_creator_name'', json_escape (name_for_key names expected)),
           (''network_status'', slot_status (b = None) slot_future)] @
          slot_block_fields names b) @ '','' @
        records_list names (case b of None \<Rightarrow> [] | Some b \<Rightarrow> b_records b) @ ''}'')"

definition explorer_epoch ::
    "(string, string) smap \<Rightarrow> int \<Rightarrow> (int, block_structure) smap \<Rightarrow> int \<Rightarrow> int list \<Rightarrow> string option list \<Rightarrow> string" where
  "explorer_epoch names current_time_block stored epoch slots creators =
     (let present = filter (\<lambda>slot. sm_get stored slot \<noteq> None) slots;
          absent = filter (\<lambda>slot. sm_get stored slot = None) slots;
          future = filter (\<lambda>slot. current_time_block \<le> slot) absent;
          epoch_start_block = hd slots; epoch_end_block = last slots
      in ''{'' @ fields_text
           [(''epoch'', show_long epoch), (''start_block'', show_long epoch_start_block),
            (''end_block'', show_long epoch_end_block), (''start_time'', show_long (epoch_start_block * 15)),
            (''end_time'', show_long (epoch_end_block * 15)), (''produced_blocks'', show_nat (length present)),
            (''missing_blocks'', show_nat (length absent - length future)), (''future_slots'', show_nat (length future)),
            (''expected_creator_count'', show_nat (card (set (List.map_filter (\<lambda>x. x) creators))))] @ '','' @
         member_text ''slots''
           (''['' @ comma_separated (map (explorer_slot names current_time_block stored epoch) (zip slots creators)) @ '']'') @
         ''}'')"

fun explorer_epochs ::
    "site \<Rightarrow> int \<Rightarrow> (string, string) smap \<Rightarrow> int \<Rightarrow> (int, block_structure) smap \<Rightarrow> int list \<Rightarrow>
     (int, ledger_state) smap \<Rightarrow> daemon \<Rightarrow> string list \<times> daemon" where
  "explorer_epochs S first_block_id names current_time_block stored [] built s = ([], s)"
| "explorer_epochs S first_block_id names current_time_block stored (epoch # epochs) built s =
     (let start = first_block_id + epoch * getEpochSizeBlocks;
          slots = slots_between start (start + getEpochSizeBlocks - 1);
          ((creators, built), s) = expected_creators S first_block_id slots built s;
          text = explorer_epoch names current_time_block stored epoch slots creators;
          (texts, s) = explorer_epochs S first_block_id names current_time_block stored epochs built s
      in (text # texts, s))"

definition block_explorer_json :: "site \<Rightarrow> int \<Rightarrow> int \<Rightarrow> daemon \<Rightarrow> string \<times> daemon" where
  "block_explorer_json S requested_epoch epoch_count s =
     (let E = env_of S s; db = the_db s;
          first_block_id = getFirstBlockId db; latest_block_id = getLatestBlockId db
      in if first_block_id < 0 \<or> latest_block_id < 0
         then (status_and_list [(''status'', ''ok'')] ''epochs'' [], s)
         else
           let epoch_count = (if epoch_count < 1 then 2 else min 3 epoch_count);
               latest_epoch = getEpochForBlock latest_block_id first_block_id;
               current_time_block = getCurrentTimeBlock E;
               start_epoch = max 0 (if 0 \<le> requested_epoch then requested_epoch else latest_epoch - epoch_count + 1);
               end_epoch = start_epoch + epoch_count - 1;
               first_slot = max first_block_id (first_block_id + start_epoch * getEpochSizeBlocks);
               last_slot = first_block_id + (end_epoch + 1) * getEpochSizeBlocks - 1;
               visited = back_chain E db (si_unset_block S)
                 (\<lambda>b. b_number b < first_slot \<or> b_number b = first_block_id \<or> b_previous_id b \<le> 0) 200000 0
                 (getBlock E db latest_block_id);
               stored = blocks_by_number (filter (\<lambda>b. first_slot \<le> b_number b \<and> b_number b \<le> last_slot) visited);
               (names, s) = accepted_member_names S s;
               (texts, s) = explorer_epochs S first_block_id names current_time_block stored
                              (slots_between start_epoch end_epoch) [] s
           in (status_and_list
                 ([(''status'', ''ok''), (''first_block_id'', show_long first_block_id),
                   (''latest_block_id'', show_long latest_block_id), (''current_time_block'', show_long current_time_block)] @
                  selection_fields @
                  [(''latest_epoch'', show_long latest_epoch), (''start_epoch'', show_long start_epoch),
                   (''count'', show_long epoch_count)]) ''epochs'' texts, s))"

end
