(* ===== verification/ApiWallet.thy ===== *)
theory ApiWallet
  imports ApiExplorer
begin

text \<open>
  The requests of the API that act for the wallet: accounts, joining, naming, sending and the
  withdrawals of an exchange (\<open>handle_request\<close> in \<open>src/src/network/request_handler.cpp\<close>). Each is one
  function with the guards of the source in their order; the reply and the new state.
\<close>

section \<open>Accounts\<close>

definition selected_wallet_keys :: "request \<Rightarrow> string \<Rightarrow> daemon \<Rightarrow> (bool \<times> string \<times> string) \<times> daemon" where
  "selected_wallet_keys req request_path s =
     (let wallet_id = submitted_value_any req request_path ''wallet_id'';
          wallet_id = (if wallet_id = [] then submitted_value_any req request_path ''address'' else wallet_id)
      in if wallet_id \<noteq> []
         then case on_wallet (readAccount wallet_id) s of
                (Some (privateKey, publicKey), s) \<Rightarrow> ((True, privateKey, publicKey), s)
              | (None, s) \<Rightarrow> read_keys s
         else read_keys s)"

text \<open>Choosing the active or the creator account: \<open>pick\<close> is the operation of the wallet.\<close>

definition choose_account ::
    "site \<Rightarrow> (string \<Rightarrow> wallet_files \<Rightarrow> bool \<times> wallet_files) \<Rightarrow> request \<Rightarrow> string \<Rightarrow> daemon \<Rightarrow> reply \<times> daemon" where
  "choose_account S pick req request_path s =
     (let wallet_id = submitted_value_any req request_path ''wallet_id'';
          wallet_id = (if wallet_id = [] then submitted_value_any req request_path ''address'' else wallet_id)
      in if wallet_id = [] then (json_reply reply_bad_request (error_object ''wallet_id is required.''), s)
         else
           let (found, s) = on_wallet (pick wallet_id) s
           in if \<not> found
              then (json_reply reply_not_found
                      (json_object [(''status'', ''not_found''), (''message'', ''Wallet account was not found.'')]), s)
              else let (text, s) = wallet_accounts_json S s in (json_reply reply_ok text, s))"

definition create_account :: "site \<Rightarrow> request \<Rightarrow> string \<Rightarrow> daemon \<Rightarrow> reply \<times> daemon" where
  "create_account S req request_path s =
     (let label = submitted_value_any req request_path ''label'';
          (result, s) = on_wallet (createAccount (si_keys S (n_events (d_node s))) label) s
      in case result of
           (True, Some created) \<Rightarrow>
             (json_reply reply_created (json_object
                [(''status'', ''ok''), (''message'', ''Wallet account created.''), (''wallet_id'', json_escape (a_id created)),
                 (''label'', json_escape (a_label created)), (''public_key'', json_escape (a_public created))]), s)
         | _ \<Rightarrow> (json_reply reply_bad_request (error_object ''Unable to create wallet account.''), s))"

section \<open>Signed records\<close>

definition unsigned_record ::
    "transaction_type \<Rightarrow> int \<Rightarrow> string \<Rightarrow> string \<Rightarrow> double \<Rightarrow> double \<Rightarrow> string \<Rightarrow> int \<Rightarrow> record_structure" where
  "unsigned_record t nonce sender recipient amount fee name epoch =
     \<lparr>r_network = ''main'', r_time = show_long epoch, r_type = t, r_nonce = nonce, r_amount = amount, r_fee = fee,
      r_sender = sender, r_recipient = recipient, r_hash = [], r_signature = [], r_name = name, r_value = []\<rparr>"

definition sign_record :: "site \<Rightarrow> daemon \<Rightarrow> string \<Rightarrow> record_structure \<Rightarrow> record_structure" where
  "sign_record S s privateKey r =
     (let hash = getRecordHash (env_of S s) r in r\<lparr>r_hash := hash, r_signature := w_sign (si_world S) privateKey hash\<rparr>)"

definition queue_error_reply :: "string \<Rightarrow> string \<Rightarrow> reply" where
  "queue_error_reply what err = json_reply reply_bad_request (error_object (what @ json_escape err @ ''.''))"

definition no_wallet_object :: "string \<Rightarrow> string" where
  "no_wallet_object message = json_object [(''status'', ''no_wallet''), (''message'', message)]"

section \<open>Joining and naming\<close>

text \<open>
  The two requests differ in the state of membership they ask for, in the type of the record
  and in their texts.
\<close>

record naming =
  nm_type :: transaction_type
  nm_joined :: bool
  nm_wrong_state :: string
  nm_failed :: string
  nm_done :: string

definition joining :: naming where
  "joining = \<lparr>nm_type = JOIN_NETWORK, nm_joined = False, nm_wrong_state = ''This wallet is already joined.'',
     nm_failed = ''Unable to join network: '',
     nm_done = ''Join request queued and broadcast. Joined network will show yes after a block includes this record.''\<rparr>"

definition renaming :: naming where
  "renaming = \<lparr>nm_type = UPDATE_NAME, nm_joined = True,
     nm_wrong_state = ''Join the network before updating your public name.'',
     nm_failed = ''Unable to update public name: '',
     nm_done = ''Name update queued and broadcast. The new name will show after a block includes this record.''\<rparr>"

definition submit_name :: "site \<Rightarrow> naming \<Rightarrow> string \<Rightarrow> string \<Rightarrow> string \<Rightarrow> daemon \<Rightarrow> reply \<times> daemon" where
  "submit_name S N name privateKey publicKey s =
     (let (epoch, s) = now_epoch S s;
          r = sign_record S s privateKey (unsigned_record (nm_type N) 0 publicKey [] (DFin 0) (DFin 0) name epoch);
          (err, s) = queue_and_broadcast_record S r s
      in case err of
           Some e \<Rightarrow> (queue_error_reply (nm_failed N) e, s)
         | None \<Rightarrow>
             (json_reply reply_accepted (json_object
                [(''status'', ''ok''), (''message'', nm_done N), (''name'', json_escape name), (''hash'', json_escape (r_hash r))]), s))"

definition name_request :: "site \<Rightarrow> naming \<Rightarrow> request \<Rightarrow> string \<Rightarrow> daemon \<Rightarrow> reply \<times> daemon" where
  "name_request S N req request_path s =
     (if \<not> has_wallet s then (json_reply reply_not_found (no_wallet_object ''Wallet file not found.''), s)
      else
        let name = submitted_value req request_path ''name''
        in if normalizedPublicName name = []
           then (json_reply reply_bad_request (error_object ''Use 3-32 characters: letters, numbers, dash, or underscore.''), s)
           else
             let ((found, privateKey, publicKey), s) = selected_wallet_keys req request_path s
             in if \<not> found then (json_reply reply_not_found (no_wallet_object ''Wallet account not found.''), s)
                else
                  let (walletState, s) = ledger_of S publicKey (-1) s
                  in if ls_joined walletState \<noteq> nm_joined N then (json_reply reply_bad_request (error_object (nm_wrong_state N)), s)
                     else
                       let (available, s) = public_name_available_for_owner S name publicKey s
                       in if \<not> available then (json_reply reply_bad_request (error_object ''That public name is already taken.''), s)
                          else submit_name S N name privateKey publicKey s)"

section \<open>Sending\<close>

text \<open>
  The fee of a request: the submitted one, or the default where nothing was submitted;
  \<open>None\<close> where the submitted text is no admissible fee.
\<close>

definition requested_fee :: "site \<Rightarrow> string \<Rightarrow> double option" where
  "requested_fee S fee_value =
     (if fee_value \<noteq> [] then parse_fee_amount fee_value else Some (api_default_transaction_fee (si_settings S)))"

definition spendable_balance :: "double \<Rightarrow> double \<Rightarrow> double \<Rightarrow> double" where
  "spendable_balance confirmed accepted_negative mempool_negative =
     (let b = dadd (dadd confirmed accepted_negative) mempool_negative
      in if dlt b (DFin 0) \<and> dlt (dneg EPS) b then DFin 0 else b)"

text \<open>What the wallet can spend: confirmed money less what is on its way out.\<close>

definition available_balance :: "site \<Rightarrow> string \<Rightarrow> daemon \<Rightarrow> double \<times> daemon" where
  "available_balance S publicKey s =
     (let confirmed = confirmedStopBlock (env_of S s) (the_db s) WALLET_CONFIRMATION_BLOCKS;
          (st, s) = ledger_of S publicKey confirmed s;
          (pendingRecords, s) = peek_queue S s;
          acceptedNegativeDelta = recent_accepted_wallet_negative_delta (env_of S s) (the_db s) publicKey confirmed;
          mempoolNegativeDelta = pending_wallet_negative_delta publicKey pendingRecords
      in (spendable_balance (ls_wallet st) acceptedNegativeDelta mempoolNegativeDelta, s))"

definition make_transfer ::
    "site \<Rightarrow> string \<Rightarrow> string \<Rightarrow> string \<Rightarrow> double \<Rightarrow> double \<Rightarrow> daemon \<Rightarrow> record_structure \<times> daemon" where
  "make_transfer S privateKey publicKey recipient amount fee s =
     (let (epoch, s) = now_epoch S s;
          (nonce, s) = next_transfer_nonce S publicKey s
      in (sign_record S s privateKey (unsigned_record TRANSFER_CURRENCY nonce publicKey recipient amount fee [] epoch), s))"

definition transfer_fields :: "record_structure \<Rightarrow> (string \<times> string) list" where
  "transfer_fields r =
     [(''amount'', show_double (r_amount r)), (''fee'', show_double (r_fee r)),
      (''total'', show_double (dadd (r_amount r) (r_fee r))), (''nonce'', show_long (r_nonce r))]"

definition send_transfer ::
    "site \<Rightarrow> string \<Rightarrow> string \<Rightarrow> string \<Rightarrow> double \<Rightarrow> double \<Rightarrow> daemon \<Rightarrow> reply \<times> daemon" where
  "send_transfer S privateKey publicKey recipient amount fee s =
     (let (r, s) = make_transfer S privateKey publicKey recipient amount fee s;
          (err, s) = queue_and_broadcast_record S r s
      in case err of
           Some e \<Rightarrow> (queue_error_reply ''Unable to send transfer: '' e, s)
         | None \<Rightarrow>
             (json_reply reply_accepted (json_object (
                [(''status'', ''ok''), (''message'', ''Transfer request queued and broadcast.'')] @ transfer_fields r @
                [(''recipient'', json_escape recipient), (''hash'', json_escape (r_hash r))])), s))"

definition insufficient_reply :: "double \<Rightarrow> double \<Rightarrow> reply" where
  "insufficient_reply total_debit spendable = json_reply reply_bad_request (error_object
     (''Insufficient balance. Amount plus fee is '' @ show_double total_debit @
      '' SFR. Available confirmed balance is '' @ show_double spendable @ '' SFR.''))"

definition send_request :: "site \<Rightarrow> request \<Rightarrow> string \<Rightarrow> daemon \<Rightarrow> reply \<times> daemon" where
  "send_request S req request_path s =
     (if \<not> has_wallet s then (json_reply reply_not_found (no_wallet_object ''Wallet file not found.''), s)
      else
        let recipient = submitted_value req request_path ''recipient''
        in if recipient = [] then (json_reply reply_bad_request (error_object ''Recipient address is required.''), s)
           else case parse_amount_value (submitted_value req request_path ''amount'') of
             None \<Rightarrow> (json_reply reply_bad_request (error_object ''Amount must be greater than zero.''), s)
           | Some amount \<Rightarrow>
               if dle amount (DFin 0) then (json_reply reply_bad_request (error_object ''Amount must be greater than zero.''), s)
               else
                 let ((found, privateKey, publicKey), s) = selected_wallet_keys req request_path s
                 in if \<not> found then (json_reply reply_not_found (no_wallet_object ''Wallet account not found.''), s)
                    else
                      let (spendable, s) = available_balance S publicKey s
                      in case requested_fee S (submitted_value req request_path ''fee'') of
                           None \<Rightarrow> (json_reply reply_bad_request (error_object ''Fee must be zero or greater.''), s)
                         | Some fee \<Rightarrow>
                             if dlt spendable (dadd amount fee) then (insufficient_reply (dadd amount fee) spendable, s)
                             else send_transfer S privateKey publicKey recipient amount fee s)"

section \<open>Withdrawals of an exchange\<close>

definition withdraw_transfer ::
    "site \<Rightarrow> string \<Rightarrow> string \<Rightarrow> string \<Rightarrow> double \<Rightarrow> double \<Rightarrow> daemon \<Rightarrow> reply \<times> daemon" where
  "withdraw_transfer S privateKey publicKey recipient amount fee s =
     (let (r, s) = make_transfer S privateKey publicKey recipient amount fee s;
          (err, s) = queue_and_broadcast_record S r s
      in case err of
           Some e \<Rightarrow> (queue_error_reply ''Unable to send exchange withdrawal: '' e, s)
         | None \<Rightarrow>
             (json_reply reply_accepted (json_object (
                [(''status'', ''accepted''), (''message'', ''Withdrawal queued and broadcast.''),
                 (''sender'', json_escape publicKey), (''recipient'', json_escape recipient)] @ transfer_fields r @
                [(''hash'', json_escape (r_hash r))])), s))"

text \<open>The guards on the balance and what follows; the wallet's balance is that of the tip.\<close>

definition withdraw_funds ::
    "site \<Rightarrow> request \<Rightarrow> string \<Rightarrow> string \<Rightarrow> double \<Rightarrow> daemon \<Rightarrow> reply \<times> daemon" where
  "withdraw_funds S req request_path recipient amount s =
     (let ((found, privateKey, publicKey), s) = read_keys s
      in case requested_fee S (submitted_value_any req request_path ''fee'') of
           None \<Rightarrow> (json_reply reply_bad_request (error_object ''Fee must be zero or greater.''), s)
         | Some fee \<Rightarrow>
             let (walletState, s) = ledger_of S publicKey (-1) s
             in if dlt (ls_wallet walletState) (dadd amount fee)
                then (json_reply reply_bad_request (error_object
                        (''Insufficient balance. Amount plus fee is '' @ show_double (dadd amount fee) @ '' SFR.'')), s)
                else withdraw_transfer S privateKey publicKey recipient amount fee s)"

definition withdraw_request :: "site \<Rightarrow> request \<Rightarrow> string \<Rightarrow> daemon \<Rightarrow> reply \<times> daemon" where
  "withdraw_request S req request_path s =
     (if configured_exchange_api_key (si_settings S) = []
      then (json_reply reply_forbidden (error_object
              ''Exchange withdrawal API is disabled. Add exchange_api_key:<secret> to settings.dat to enable it.''), s)
      else if \<not> exchange_api_authorized (si_settings S) req request_path
      then (json_reply reply_unauthorized (error_object ''Invalid or missing exchange API key.''), s)
      else if \<not> has_wallet s then (json_reply reply_not_found (no_wallet_object ''Wallet file not found.''), s)
      else
        let recipient = submitted_value_any req request_path ''recipient''
        in if recipient = [] then (json_reply reply_bad_request (error_object ''Recipient address is required.''), s)
           else case parse_amount_value (submitted_value_any req request_path ''amount'') of
             None \<Rightarrow> (json_reply reply_bad_request (error_object ''Amount must be greater than zero.''), s)
           | Some amount \<Rightarrow>
               if dle amount (DFin 0) then (json_reply reply_bad_request (error_object ''Amount must be greater than zero.''), s)
               else withdraw_funds S req request_path recipient amount s)"

section \<open>History\<close>

definition history_request :: "site \<Rightarrow> request \<Rightarrow> string \<Rightarrow> daemon \<Rightarrow> reply \<times> daemon" where
  "history_request S req request_path s =
     (if \<not> has_wallet s then (json_reply reply_not_found (status_and_list [(''status'', ''no_wallet'')] ''records'' []), s)
      else
        let ((found, privateKey, publicKey), s) = selected_wallet_keys req request_path s
        in if \<not> found
           then (json_reply reply_not_found (status_and_list
                   [(''status'', ''no_wallet''), (''message'', ''Wallet account not found.'')] ''records'' []), s)
           else let (text, s) = wallet_history_json S publicKey s in (json_reply reply_ok text, s))"

end
