(* ===== verification/ApiWalletStatus.thy ===== *)
theory ApiWalletStatus
  imports ApiWallet
begin

text \<open>
  The answer to \<open>/api/wallet/status\<close> (\<open>handle_request\<close> in \<open>src/src/network/request_handler.cpp\<close>):
  balances and what is pending, who creates the current and the next block, and when the
  creator account becomes eligible.
\<close>

section \<open>Creators of the current and the next slot\<close>

record slot_choice =
  sc_block :: int
  sc_boundary :: int
  sc_state :: ledger_state
  sc_active :: "string list"
  sc_latest_active :: "string list"
  sc_creator :: string
  sc_recovery :: bool
  sc_fallback :: bool

definition choose_creator ::
    "env \<Rightarrow> dbh \<Rightarrow> int \<Rightarrow> int \<Rightarrow> ledger_state \<Rightarrow> ledger_state \<Rightarrow> block_structure \<Rightarrow> slot_choice" where
  "choose_creator E db slot boundary selectionState chainState latestBlock =
     (let active = activeMemberKeysAt selectionState slot;
          latest_active = activeMemberKeysAt chainState slot;
          recoveryPublicKey = configured_recovery_public_key E db;
          recoveryRun = consecutive_recovery_blocks E db latestBlock recoveryPublicKey;
          (creator, recovery, fallback) = getAuthorizedCreatorForBlock E slot (b_hash (ls_latest_block selectionState)) active
             (b_hash latestBlock) latest_active recoveryPublicKey recoveryRun
      in \<lparr>sc_block = slot, sc_boundary = boundary, sc_state = selectionState, sc_active = active,
          sc_latest_active = latest_active, sc_creator = creator, sc_recovery = recovery, sc_fallback = fallback\<rparr>)"

definition creator_eligible :: "slot_choice \<Rightarrow> string \<Rightarrow> bool" where
  "creator_eligible c creatorPublicKey \<longleftrightarrow>
     creatorPublicKey \<in> set (sc_active c) \<or> sc_fallback c \<and> creatorPublicKey \<in> set (sc_latest_active c)"

text \<open>The block at which the creator account becomes eligible, and the seconds until then.\<close>

definition awaits_eligibility :: "bool \<Rightarrow> ledger_state \<Rightarrow> int \<Rightarrow> bool" where
  "awaits_eligibility eligible creatorState firstBlockId \<longleftrightarrow>
     \<not> eligible \<and> ls_joined creatorState \<and> -1 < ls_last_heartbeat creatorState \<and> 0 < firstBlockId"

definition creator_eligibility :: "bool \<Rightarrow> ledger_state \<Rightarrow> int \<Rightarrow> int \<Rightarrow> int \<times> int" where
  "creator_eligibility eligible creatorState firstBlockId epoch =
     (if awaits_eligibility eligible creatorState firstBlockId
      then
        let heartbeatEpoch = getEpochForBlock (ls_last_heartbeat creatorState) firstBlockId;
            block = firstBlockId + (heartbeatEpoch + getSelectionLagEpochs) * getEpochSizeBlocks
        in (block, max 0 (block * 15 - epoch))
      else (-1, -1))"

section \<open>Balances\<close>

definition near_zero :: "double \<Rightarrow> double" where
  "near_zero x = (if dlt (dabs x) EPS then DFin 0 else x)"

record wallet_sums =
  ws_confirmed :: double
  ws_tip :: double
  ws_accepted_delta :: double
  ws_accepted_count :: int
  ws_mempool_delta :: double
  ws_mempool_count :: int
  ws_queue_length :: nat

definition wallet_sums_of ::
    "env \<Rightarrow> dbh \<Rightarrow> string \<Rightarrow> int \<Rightarrow> ledger_state \<Rightarrow> ledger_state \<Rightarrow> record_structure list \<Rightarrow> wallet_sums" where
  "wallet_sums_of E db publicKey confirmed chainState confirmedChainState pendingRecords =
     (let (mempoolWalletDelta, pendingWalletRecordCount) = pending_wallet_balance_delta publicKey pendingRecords
      in \<lparr>ws_confirmed = ls_wallet confirmedChainState, ws_tip = ls_wallet chainState,
          ws_accepted_delta = near_zero (dsub (ls_wallet chainState) (ls_wallet confirmedChainState)),
          ws_accepted_count = recent_accepted_wallet_record_count E db publicKey confirmed,
          ws_mempool_delta = mempoolWalletDelta, ws_mempool_count = pendingWalletRecordCount,
          ws_queue_length = length pendingRecords\<rparr>)"

definition pending_sum :: "wallet_sums \<Rightarrow> double" where
  "pending_sum w = dadd (ws_accepted_delta w) (ws_mempool_delta w)"

definition sum_fields :: "wallet_sums \<Rightarrow> int \<Rightarrow> (string \<times> string) list" where
  "sum_fields w confirmed =
     [(''balance'', show_double (ws_confirmed w)), (''tip_balance'', show_double (ws_tip w)),
      (''confirmed_block_id'', show_long confirmed), (''confirmation_blocks'', show_long WALLET_CONFIRMATION_BLOCKS),
      (''accepted_pending_balance_delta'', show_double (ws_accepted_delta w)),
      (''accepted_pending_wallet_records'', show_long (ws_accepted_count w)),
      (''mempool_pending_balance_delta'', show_double (ws_mempool_delta w)),
      (''pending_balance_delta'', show_double (pending_sum w)),
      (''estimated_balance'', show_double (dadd (ws_confirmed w) (pending_sum w))),
      (''pending_wallet_records'', show_long (ws_accepted_count w + ws_mempool_count w)),
      (''mempool_pending_wallet_records'', show_long (ws_mempool_count w)),
      (''mempool_record_count'', show_nat (ws_queue_length w))]"

section \<open>The groups of members\<close>

definition identity_fields ::
    "string \<Rightarrow> string \<Rightarrow> int \<Rightarrow> string \<Rightarrow> string \<Rightarrow> (string, string) smap \<Rightarrow> (string \<times> string) list" where
  "identity_fields active_id creator_id schema creatorPublicKey publicKey names =
     [(''status'', ''ok''), (''active_wallet_id'', json_escape active_id), (''schema_version'', show_long schema),
      (''creator_wallet_id'', json_escape creator_id), (''creator_public_key'', json_escape creatorPublicKey),
      (''creator_public_name'', json_escape (name_for_key names creatorPublicKey)), (''wallet_id'', json_escape publicKey),
      (''public_key'', publicKey), (''public_name'', json_escape (name_for_key names publicKey))]"

definition selection_status_fields ::
    "env \<Rightarrow> dbh \<Rightarrow> slot_choice \<Rightarrow> slot_choice \<Rightarrow> block_structure \<Rightarrow> string \<Rightarrow> (string, string) smap \<Rightarrow> int \<Rightarrow>
     (string \<times> string) list" where
  "selection_status_fields E db current upcoming latestBlock creatorPublicKey names epoch =
     (let recoveryPublicKey = configured_recovery_public_key E db
      in [(''active_member_count'', show_nat (length (sc_active current))),
          (''latest_active_member_count'', show_nat (length (sc_latest_active current)))] @ selection_fields @
         [(''selection_boundary_block'', show_long (sc_boundary current)),
          (''selection_checkpoint_block'', show_long (b_number (ls_latest_block (sc_state current)))),
          (''selection_checkpoint_hash'', json_escape (b_hash (ls_latest_block (sc_state current)))),
          (''recovery_public_key'', json_escape recoveryPublicKey),
          (''recovery_window_blocks'', show_long getRecoveryWindowBlocks),
          (''recovery_run_blocks'', show_long (consecutive_recovery_blocks E db latestBlock recoveryPublicKey)),
          (''recovery_mode'', yes_no (sc_recovery current)),
          (''latest_state_creator_fallback'', yes_no (sc_fallback current)),
          (''current_block_id'', show_long (sc_block current)),
          (''current_block_creator'', json_escape (sc_creator current)),
          (''current_block_creator_name'', json_escape (name_for_key names (sc_creator current))),
          (''current_block_creator_is_wallet'', yes_no (sc_creator current = creatorPublicKey)),
          (''next_block_id'', show_long (sc_block upcoming)), (''next_block_creator'', json_escape (sc_creator upcoming)),
          (''next_block_creator_name'', json_escape (name_for_key names (sc_creator upcoming))),
          (''next_block_creator_is_wallet'', yes_no (sc_creator upcoming = creatorPublicKey)),
          (''next_recovery_mode'', yes_no (sc_recovery upcoming)),
          (''next_latest_state_creator_fallback'', yes_no (sc_fallback upcoming)),
          (''seconds_until_next_block'', show_long (max 0 (sc_block upcoming * 15 - epoch)))])"

definition creator_fields ::
    "env \<Rightarrow> ledger_state \<Rightarrow> bool \<times> string \<Rightarrow> slot_choice \<Rightarrow> string \<Rightarrow> int \<Rightarrow> int \<Rightarrow> double \<Rightarrow> (string \<times> string) list" where
  "creator_fields E creatorState safety current creatorPublicKey firstBlockId epoch default_fee =
     (let eligible = creator_eligible current creatorPublicKey;
          (block, eta) = creator_eligibility eligible creatorState firstBlockId epoch
      in [(''transaction_fee'', show_double default_fee), (''joined'', yes_no (ls_joined creatorState)),
          (''active_heartbeat'', yes_no (ls_active_heartbeat creatorState)),
          (''creator_mode'', yes_no (enableBlockCreation (env_config E))), (''block_creation_safe'', yes_no (fst safety)),
          (''block_creation_reason'', json_escape (snd safety)), (''creator_eligible'', yes_no eligible),
          (''creator_eligibility_boundary_block'', show_long (sc_boundary current)),
          (''creator_eligibility_checkpoint_block'', show_long (b_number (ls_latest_block (sc_state current)))),
          (''creator_eligibility_eta_block'', show_long block), (''creator_eligibility_eta_seconds'', show_long eta),
          (''heartbeat_renewal_due'', yes_no (ls_renewal_due creatorState)),
          (''last_heartbeat_block'', show_long (ls_last_heartbeat creatorState))])"

definition supply_fields :: "ledger_state \<Rightarrow> (string \<times> string) list" where
  "supply_fields chainState =
     [(''currency_supply'', show_double (ls_issued chainState)), (''ledger_balance_total'', show_double (ls_total chainState)),
      (''supply_difference'', show_double (near_zero (dsub (ls_total chainState) (ls_issued chainState)))),
      (''user_count'', show_nat (length (ls_members chainState)))]"

definition latest_block_time :: "int \<Rightarrow> block_structure \<Rightarrow> string" where
  "latest_block_time latestBlockId latestBlock =
     (if b_time latestBlock = [] \<and> 0 < latestBlockId then show_long (latestBlockId * 15) else b_time latestBlock)"

definition network_fields ::
    "env \<Rightarrow> dbh \<Rightarrow> peer_status list \<Rightarrow> block_structure \<Rightarrow> int \<Rightarrow> (string \<times> string) list" where
  "network_fields E db localPeers latestBlock blockCount =
     (let firstBlockId = getFirstBlockId db; latestBlockId = getLatestBlockId db; best = best_peer_status localPeers
      in [(''network_up_to_date'', yes_no (-1 < latestBlockId)),
          (''peer_sync'', yes_no (synced_with_peer_latest E db latestBlockId localPeers)),
          (''peer_latest_block_id'', show_long (best_peer_latest_block_id localPeers)),
          (''peer_latest_block_hash'', json_escape (case best of None \<Rightarrow> [] | Some p \<Rightarrow> p_latestBlockHash p)),
          (''peer_chain_match'', yes_no (case best of None \<Rightarrow> True | Some p \<Rightarrow> local_chain_matches_peer E db p)),
          (''sync_progress'', show_double (sync_progress_percent firstBlockId latestBlockId localPeers)),
          (''first_block_id'', show_long firstBlockId), (''latest_block_id'', show_long latestBlockId),
          (''latest_block_hash'', json_escape (b_hash latestBlock)),
          (''latest_block_time'', json_escape (latest_block_time latestBlockId latestBlock)),
          (''latest_block_record_count'', show_nat (length (b_records latestBlock))),
          (''block_count'', show_long blockCount)])"

section \<open>The request\<close>

text \<open>The creator account, or the selected one where there is none.\<close>

definition creator_key_or :: "string \<Rightarrow> daemon \<Rightarrow> string \<times> daemon" where
  "creator_key_or publicKey s =
     (case on_wallet readCreatorAccount s of
        (None, s) \<Rightarrow> (publicKey, s)
      | (Some (creatorPrivateKey, creatorPublicKey), s) \<Rightarrow> (creatorPublicKey, s))"

definition wallet_status_json :: "site \<Rightarrow> string \<Rightarrow> daemon \<Rightarrow> string option \<times> daemon" where
  "wallet_status_json S publicKey s =
     (let W = si_world S; (creatorPublicKey, s) = creator_key_or publicKey s;
          E = env_of S s; db = the_db s;
          firstBlockId = getFirstBlockId db; latestBlockId = getLatestBlockId db;
          blockCount = connected_block_count E db;
          latestBlock = (if 0 < latestBlockId then getBlock E db latestBlockId else no_block\<lparr>b_number := 0\<rparr>)
      in case fork_count S s of (None, s) \<Rightarrow> (None, s) | (Some forkCount, s) \<Rightarrow>
        (case getLastReorgInfo (env_of S s) (the_db s) of None \<Rightarrow> (None, s) | Some reorgInfo \<Rightarrow>
           let (localPeers, s) = on_node (getPeerStatuses W False) s;
               (safety, s) = on_node (canCreateBlocks W) s;
               (chainState, s) = ledger_of S publicKey (-1) s;
               confirmed = confirmedStopBlock (env_of S s) (the_db s) WALLET_CONFIRMATION_BLOCKS;
               (confirmedChainState, s) = ledger_of S publicKey confirmed s;
               (creatorState, s) = (if creatorPublicKey = publicKey then (chainState, s) else ledger_of S creatorPublicKey (-1) s);
               names = ls_names chainState;
               (pendingRecords, s) = peek_queue S s;
               amounts = wallet_sums_of (env_of S s) (the_db s) publicKey confirmed chainState confirmedChainState pendingRecords;
               (epoch, s) = now_epoch S s;
               slot = cdiv epoch 15;
               boundary = getSelectionBoundaryBlock slot firstBlockId;
               next_boundary = getSelectionBoundaryBlock (slot + 1) firstBlockId;
               (selectionState, s) = ledger_of S [] boundary s;
               (nextState, s) = (if next_boundary = boundary then (selectionState, s) else ledger_of S [] next_boundary s);
               E = env_of S s; db = the_db s;
               current = choose_creator E db slot boundary selectionState chainState latestBlock;
               upcoming = choose_creator E db (slot + 1) next_boundary nextState chainState latestBlock;
               (eta_epoch, s) = (if awaits_eligibility (creator_eligible current creatorPublicKey) creatorState firstBlockId
                                 then now_epoch S s else (0, s));
               (end_epoch, s) = now_epoch S s;
               (active_id, s) = on_wallet activeAccountId s;
               (creator_id, s) = on_wallet creatorAccountId s
           in (Some (json_object (
                 identity_fields active_id creator_id (getSchemaVersion db) creatorPublicKey publicKey names @
                 selection_status_fields E db current upcoming latestBlock creatorPublicKey names end_epoch @
                 sum_fields amounts confirmed @
                 creator_fields E creatorState safety current creatorPublicKey firstBlockId eta_epoch
                   (api_default_transaction_fee (si_settings S)) @
                 supply_fields chainState @
                 network_fields E db localPeers latestBlock blockCount @
                 [(''fork_count'', show_long forkCount)] @ reorg_fields reorgInfo @
                 [(''genesis_match'', yes_no (genesisMatches (env_config E) firstBlockId (b_hash (getBlock E db firstBlockId)))),
                  (''network_time_offset'', show_long (n_offset (d_node s))), (''local_peers'', show_nat (length localPeers))] @
                 nat_fields (d_nat s))), s)))"

definition wallet_status_request :: "site \<Rightarrow> request \<Rightarrow> string \<Rightarrow> daemon \<Rightarrow> reply option \<times> daemon" where
  "wallet_status_request S req request_path s =
     (if \<not> has_wallet s then (Some (json_reply reply_not_found (json_object [(''status'', ''no_wallet'')])), s)
      else
        let ((found, privateKey, publicKey), s) = selected_wallet_keys req request_path s
        in if \<not> found then (Some (json_reply reply_not_found (no_wallet_object ''Wallet account not found.'')), s)
           else case wallet_status_json S publicKey s of
                  (None, s) \<Rightarrow> (None, s)
                | (Some text, s) \<Rightarrow> (Some (json_reply reply_ok text), s))"

end
