(* ===== verification/ApiBlocks.thy ===== *)
theory ApiBlocks
  imports ApiStatus
begin

text \<open>
  The requests with which peers talk to a node (\<open>handle_request\<close> in
  \<open>src/src/network/request_handler.cpp\<close>): blocks that are served, submitted and announced,
  records, handoff messages, announced peers, and the two background downloads. \<open>None\<close> is an
  exception out of \<open>AddBlock\<close>.
\<close>

section \<open>Serving blocks\<close>

definition not_there :: reply where
  "not_there = text_reply reply_not_found [] ''text/plain''"

definition serve_block :: "env \<Rightarrow> block_structure \<Rightarrow> reply" where
  "serve_block E b = json_reply reply_ok (blockJSON E b)"

text \<open>\<open>/api/blocks/first\<close> and \<open>/api/blocks/latest\<close>.\<close>

definition block_at_id :: "env \<Rightarrow> dbh \<Rightarrow> int \<Rightarrow> reply" where
  "block_at_id E db block_id =
     (if block_id < 0 then not_there
      else let b = getBlock E db block_id
           in if b_number b \<le> 0 \<or> b_hash b = [] then not_there else serve_block E b)"

definition block_by_hash_request :: "env \<Rightarrow> dbh \<Rightarrow> string \<Rightarrow> reply" where
  "block_by_hash_request E db blockHash =
     (let b = getBlockByHash E db blockHash
      in if b_number b \<le> 0 \<or> b_hash b = [] then not_there else serve_block E b)"

definition block_by_number_request :: "env \<Rightarrow> dbh \<Rightarrow> string \<Rightarrow> reply" where
  "block_by_number_request E db text =
     (let b = getBlock E db (atol text) in if b_number b \<le> 0 then not_there else serve_block E b)"

text \<open>The successor of a block, by \<open>nxt\<close>.\<close>

definition successor_request :: "env \<Rightarrow> (block_structure \<Rightarrow> block_structure) \<Rightarrow> block_structure \<Rightarrow> reply" where
  "successor_request E nxt b =
     (if b_number b \<le> 0 then not_there
      else let nextBlock = nxt b
           in if b_number nextBlock \<le> 0 \<or> b_number nextBlock = b_number b then not_there else serve_block E nextBlock)"

definition block_after_request :: "env \<Rightarrow> dbh \<Rightarrow> string \<Rightarrow> reply" where
  "block_after_request E db text = successor_request E (getNextBlock E db) (getBlock E db (atol text))"

definition block_after_hash_request :: "env \<Rightarrow> dbh \<Rightarrow> string \<Rightarrow> reply" where
  "block_after_hash_request E db blockHash =
     successor_request E (getNextBlockByHash E db) (getBlockByHash E db blockHash)"

text \<open>The loop of \<open>/api/blocks/batch-after-hash\<close>: at most \<open>n\<close> successors.\<close>

fun batch_after :: "env \<Rightarrow> dbh \<Rightarrow> nat \<Rightarrow> block_structure \<Rightarrow> block_structure list" where
  "batch_after E db 0 b = []"
| "batch_after E db (Suc n) b =
     (let nextBlock = getNextBlockByHash E db b
      in if b_number nextBlock \<le> 0 \<or> b_number nextBlock = b_number b then []
         else nextBlock # batch_after E db n nextBlock)"

text \<open>The hash and the limit of a batch: the limit after the first slash, between 1 and 250.\<close>

definition batch_arguments :: "string \<Rightarrow> string \<times> int" where
  "batch_arguments text =
     (case find_sub ''/'' text of
        None \<Rightarrow> (text, 100)
      | Some separator \<Rightarrow>
          let limit = atoi (drop (separator + 1) text)
          in (take separator text, if limit \<le> 0 then 1 else min 250 limit))"

definition batch_request :: "env \<Rightarrow> dbh \<Rightarrow> string \<Rightarrow> reply" where
  "batch_request E db text =
     (let (blockHash, limit) = batch_arguments text; b = getBlockByHash E db blockHash
      in if b_number b \<le> 0 then not_there
         else case batch_after E db (nat limit) b of
                [] \<Rightarrow> not_there
              | bs \<Rightarrow> json_reply reply_ok (concat (map (blockJSON E) bs)))"

section \<open>Taking in blocks\<close>

text \<open>What became of a block: known before, added, on the canonical chain, and sent on.\<close>

record taken =
  tk_known :: bool
  tk_added :: bool
  tk_canonical :: bool
  tk_rebroadcast :: bool

definition is_canonical :: "env \<Rightarrow> dbh \<Rightarrow> block_structure \<Rightarrow> bool" where
  "is_canonical E db b \<longleftrightarrow>
     (let canonicalBlock = getBlock E db (b_number b)
      in b_number canonicalBlock = b_number b \<and> b_hash canonicalBlock = b_hash b \<and> b_number b \<le> getLatestBlockId db)"

text \<open>
  Adding a block and noting it as the first one; the known blocks are offered to \<open>AddBlock\<close>,
  too.
\<close>

definition add_block :: "site \<Rightarrow> block_structure \<Rightarrow> daemon \<Rightarrow> (bool \<times> bool) option \<times> daemon" where
  "add_block S b s =
     (let E = env_of S s; n = d_node s;
          alreadyStored = (0 < b_number (getBlockByHash E (n_db n) (b_hash b)))
      in case AddBlock E (w_uninit (si_world S)) b (n_db n, n_caches n) of
           (None, db, cs) \<Rightarrow> (None, s\<lparr>d_node := n\<lparr>n_db := db, n_caches := cs\<rparr>\<rparr>)
         | (Some blockAdded, db, cs) \<Rightarrow>
             let db = (if \<not> alreadyStored \<and> blockAdded \<and> getFirstBlockId db = -1 \<and> b_previous_id b \<le> 0
                       then setFirstBlockId (b_number b) db else db)
             in (Some (alreadyStored, blockAdded), s\<lparr>d_node := n\<lparr>n_db := db, n_caches := cs\<rparr>\<rparr>))"

definition send_on :: "site \<Rightarrow> block_structure \<Rightarrow> int \<Rightarrow> bool \<times> bool \<Rightarrow> daemon \<Rightarrow> taken \<times> daemon" where
  "send_on S b latestBefore = (\<lambda>(alreadyStored, blockAdded) s.
     let latestAfter = getLatestBlockId (the_db s);
         canonical = is_canonical (env_of S s) (the_db s) b;
         (epoch, s) = now_epoch S s;
         recentBlock = (cdiv epoch 15 \<le> b_number b + 120);
         advancedTip = (b_number b \<le> latestAfter \<and> latestBefore \<le> latestAfter);
         rebroadcast = (\<not> alreadyStored \<and> blockAdded \<and> canonical \<and> advancedTip \<and> recentBlock)
     in (\<lparr>tk_known = alreadyStored, tk_added = blockAdded, tk_canonical = canonical, tk_rebroadcast = rebroadcast\<rparr>,
         if rebroadcast then upd_node (broadcastBlock (si_world S) b) s else s))"

text \<open>The body of the loop of \<open>/api/blocks/submit\<close> for one block, and whether it asks for a repair.\<close>

definition submit_one :: "site \<Rightarrow> block_structure \<Rightarrow> daemon \<Rightarrow> (taken \<times> bool) option \<times> daemon" where
  "submit_one S b s =
     (let latestBefore = getLatestBlockId (the_db s)
      in case add_block S b s of
           (None, s) \<Rightarrow> (None, s)
         | (Some (alreadyStored, blockAdded), s) \<Rightarrow>
             let needsRepair = (\<not> alreadyStored \<and> blockAdded \<and> getLatestBlockId (the_db s) < b_number b);
                 (t, s) = send_on S b latestBefore (alreadyStored, blockAdded) s
             in (Some (t, needsRepair), s))"

record submission =
  sb_stored :: bool
  sb_canonical :: bool
  sb_rebroadcast :: bool
  sb_repair :: bool
  sb_message :: string
  sb_block :: int
  sb_hash :: string

definition empty_submission :: submission where
  "empty_submission = \<lparr>sb_stored = False, sb_canonical = False, sb_rebroadcast = False, sb_repair = False,
     sb_message = ''invalid block'', sb_block = -1, sb_hash = []\<rparr>"

definition note_taken :: "block_structure \<Rightarrow> taken \<times> bool \<Rightarrow> submission \<Rightarrow> submission" where
  "note_taken b = (\<lambda>(t, needsRepair) sb.
     let sb = (if tk_known t \<or> tk_added t
               then sb\<lparr>sb_stored := True,
                       sb_message := (if tk_canonical t then ''block accepted into canonical chain'' else ''block stored but not connected''),
                       sb_block := b_number b, sb_hash := b_hash b\<rparr> else sb)
     in sb\<lparr>sb_canonical := sb_canonical sb \<or> tk_canonical t, sb_rebroadcast := sb_rebroadcast sb \<or> tk_rebroadcast t,
           sb_repair := sb_repair sb \<or> needsRepair\<rparr>)"

fun submit_blocks :: "site \<Rightarrow> block_structure list \<Rightarrow> submission \<Rightarrow> daemon \<Rightarrow> submission option \<times> daemon" where
  "submit_blocks S [] sb s = (Some sb, s)"
| "submit_blocks S (b # bs) sb s =
     (if b_number b \<le> 0 then submit_blocks S bs sb s
      else case submit_one S b s of
             (None, s) \<Rightarrow> (None, s)
           | (Some t, s) \<Rightarrow> submit_blocks S bs (note_taken b t sb) s)"

definition rebuild_index :: "site \<Rightarrow> daemon \<Rightarrow> daemon" where
  "rebuild_index S s = snd (on_node (rebuild (si_world S)) s)"

definition submission_reply :: "submission \<Rightarrow> int \<Rightarrow> reply" where
  "submission_reply sb latestBlockId =
     json_reply (if sb_stored sb then reply_accepted else reply_bad_request) (json_object
       [(''status'', if sb_canonical sb then ''accepted'' else if sb_stored sb then ''stored'' else ''invalid''),
        (''stored'', yes_no (sb_stored sb)), (''canonical'', yes_no (sb_canonical sb)),
        (''rebroadcast'', yes_no (sb_rebroadcast sb)), (''block'', show_long (sb_block sb)),
        (''hash'', json_escape (sb_hash sb)), (''latest_block_id'', show_long latestBlockId),
        (''message'', json_escape (sb_message sb))])"

definition submit_block_request :: "site \<Rightarrow> request \<Rightarrow> string \<Rightarrow> daemon \<Rightarrow> reply option \<times> daemon" where
  "submit_block_request S req request_path s =
     (let blocks = parseBlockJson (env_of S s) (submitted_value req request_path ''block'')
      in case submit_blocks S blocks empty_submission s of
           (None, s) \<Rightarrow> (None, s)
         | (Some sb, s) \<Rightarrow>
             let s = (if sb_repair sb then rebuild_index S s else s)
             in (Some (submission_reply sb (getLatestBlockId (the_db s))), s))"

text \<open>
  The block of an announcement after it was fetched: the first one with the announced number
  and hash.
\<close>

definition take_announced :: "site \<Rightarrow> block_structure \<Rightarrow> daemon \<Rightarrow> taken option \<times> daemon" where
  "take_announced S b s =
     (let latestBefore = getLatestBlockId (the_db s)
      in case add_block S b s of
           (None, s) \<Rightarrow> (None, s)
         | (Some (alreadyStored, blockAdded), s) \<Rightarrow>
             let s = (if blockAdded \<and> getLatestBlockId (the_db s) < b_number b then rebuild_index S s else s);
                 (t, s) = send_on S b latestBefore (alreadyStored, blockAdded) s
             in (Some t, s))"

definition announced_reply :: "int \<Rightarrow> string \<Rightarrow> taken option \<Rightarrow> reply" where
  "announced_reply blockNumber blockHash t =
     (let stored = (case t of None \<Rightarrow> False | Some t \<Rightarrow> tk_known t \<or> tk_added t);
          canonical = (case t of None \<Rightarrow> False | Some t \<Rightarrow> tk_canonical t);
          rebroadcast = (case t of None \<Rightarrow> False | Some t \<Rightarrow> tk_rebroadcast t);
          message = (case t of None \<Rightarrow> ''announced block not fetched''
                     | Some t \<Rightarrow> if tk_canonical t then ''announced block accepted into canonical chain''
                                 else ''announced block stored but not connected'')
      in json_reply (if stored then reply_accepted else reply_not_found) (json_object
           [(''status'', if canonical then ''accepted'' else if stored then ''stored'' else ''missing''),
            (''stored'', yes_no stored), (''canonical'', yes_no canonical), (''rebroadcast'', yes_no rebroadcast),
            (''block'', show_long blockNumber), (''hash'', json_escape blockHash), (''message'', json_escape message)]))"

definition fetch_announced :: "site \<Rightarrow> string \<Rightarrow> int \<Rightarrow> string \<Rightarrow> daemon \<Rightarrow> reply option \<times> daemon" where
  "fetch_announced S peerUrl blockNumber blockHash s =
     (let (response, s) = on_node (http (si_world S) (Get (peerUrl @ ''/api/blocks/hash/'' @ blockHash))) s
      in case find (\<lambda>b. b_number b = blockNumber \<and> b_hash b = blockHash) (parseBlockJson (env_of S s) response) of
           None \<Rightarrow> (Some (announced_reply blockNumber blockHash None), s)
         | Some b \<Rightarrow>
             (case take_announced S b s of
                (None, s) \<Rightarrow> (None, s)
              | (Some t, s) \<Rightarrow> (Some (announced_reply blockNumber blockHash (Some t)), s)))"

definition from_peer :: "request \<Rightarrow> string \<Rightarrow> string" where
  "from_peer req request_path =
     (let fromPeer = submitted_value_any req request_path ''from''
      in if fromPeer = [] then submitted_value_any req request_path ''url'' else fromPeer)"

definition missing_source_reply :: "string \<Rightarrow> reply" where
  "missing_source_reply what = json_reply reply_accepted (json_object
     [(''status'', ''missing_source''), (''message'', what @ '' unknown and no fetch peer supplied'')])"

definition announce_block_request :: "site \<Rightarrow> request \<Rightarrow> string \<Rightarrow> daemon \<Rightarrow> reply option \<times> daemon" where
  "announce_block_request S req request_path s =
     (let blockHash = submitted_value_any req request_path ''hash'';
          fromPeer = from_peer req request_path;
          blockNumber = atol (submitted_value_any req request_path ''block'')
      in if blockNumber \<le> 0 \<or> blockHash = []
         then (Some (json_reply reply_bad_request (json_object
                [(''status'', ''invalid''), (''message'', ''missing block or hash'')])), s)
         else
           let (limited, s) = announce_limited S (''block-announce:source:'' @ gossip_rate_key req fromPeer)
                 MAX_BLOCK_ANNOUNCES_PER_WINDOW (''block-announce:hash:'' @ blockHash) s
           in if limited then (Some (rate_limited_reply ''Too many block announce requests.''), s)
              else
                let existingBlock = getBlockByHash (env_of S s) (the_db s) blockHash
                in if 0 < b_number existingBlock
                   then (Some (json_reply reply_ok (json_object
                          [(''status'', ''known''), (''block'', show_long (b_number existingBlock)),
                           (''hash'', json_escape (b_hash existingBlock))])), s)
                   else
                     let peerUrl = normalize_peer_url fromPeer
                     in if peerUrl = [] then (Some (missing_source_reply ''block''), s)
                        else fetch_announced S peerUrl blockNumber blockHash s)"

section \<open>Taking in records\<close>

definition submit_record_request :: "site \<Rightarrow> request \<Rightarrow> string \<Rightarrow> daemon \<Rightarrow> reply \<times> daemon" where
  "submit_record_request S req request_path s =
     (let r = parseRecordJson (env_of S s) (submitted_value req request_path ''record'')
      in if r_sender r = [] \<and> r_recipient r = [] then (text_reply reply_bad_request ''invalid record'' ''text/plain'', s)
         else (text_reply reply_accepted ''accepted'' ''text/plain'', snd (add_queue S r s)))"

definition record_by_hash_request :: "site \<Rightarrow> string \<Rightarrow> daemon \<Rightarrow> reply \<times> daemon" where
  "record_by_hash_request S recordHash s =
     (let (l, s) = find_exchange_record S recordHash s
      in case xl_record l of
           None \<Rightarrow> (not_there, s)
         | Some r \<Rightarrow> (json_reply reply_ok (recordJSON (env_of S s) r), s))"

definition fetch_record :: "site \<Rightarrow> string \<Rightarrow> string \<Rightarrow> daemon \<Rightarrow> reply \<times> daemon" where
  "fetch_record S peerUrl recordHash s =
     (let (response, s) = on_node (http (si_world S) (Get (peerUrl @ ''/api/records/hash/'' @ recordHash))) s;
          r = parseRecordJson (env_of S s) response
      in if r_hash r \<noteq> recordHash \<or> (r_sender r = [] \<and> r_recipient r = []) \<or> \<not> isRecordSizeValid (env_of S s) r
         then (json_reply reply_not_found (json_object
                 [(''status'', ''missing''), (''message'', ''announced record not fetched'')]), s)
         else
           let (queued, s) = add_queue S r s
           in if queued = 0
              then (json_reply reply_bad_request (json_object
                      [(''status'', ''invalid''), (''message'', ''announced record could not be queued'')]), s)
              else (json_reply reply_accepted (json_object
                      [(''status'', ''accepted''), (''hash'', json_escape (r_hash r)), (''rebroadcast'', ''yes''),
                       (''message'', ''announced record queued'')]),
                    upd_node (broadcastRecord (si_world S) r) s))"

definition announce_record_request :: "site \<Rightarrow> request \<Rightarrow> string \<Rightarrow> daemon \<Rightarrow> reply \<times> daemon" where
  "announce_record_request S req request_path s =
     (let recordHash = submitted_value_any req request_path ''hash'';
          fromPeer = from_peer req request_path
      in if recordHash = []
         then (json_reply reply_bad_request (json_object [(''status'', ''invalid''), (''message'', ''missing hash'')]), s)
         else
           let (limited, s) = announce_limited S (''record-announce:source:'' @ gossip_rate_key req fromPeer)
                 MAX_RECORD_ANNOUNCES_PER_WINDOW (''record-announce:hash:'' @ recordHash) s
           in if limited then (rate_limited_reply ''Too many record announce requests.'', s)
              else
                let (existing, s) = find_exchange_record S recordHash s
                in if xl_found existing
                   then (json_reply reply_ok (json_object
                           [(''status'', ''known''), (''hash'', json_escape recordHash), (''pending'', yes_no (xl_pending existing))]), s)
                   else
                     let peerUrl = normalize_peer_url fromPeer
                     in if peerUrl = [] then (missing_source_reply ''record'', s)
                        else fetch_record S peerUrl recordHash s)"

section \<open>Announced peers\<close>

definition announce_peer_request :: "site \<Rightarrow> request \<Rightarrow> string \<Rightarrow> daemon \<Rightarrow> reply \<times> daemon" where
  "announce_peer_request S req request_path s =
     (let submitted = submitted_value req request_path ''url'';
          peerUrl = (if find_sub (jkey ''url'') submitted \<noteq> None then json_field submitted ''url'' else submitted)
      in if peerUrl = [] then (json_reply reply_bad_request (error_object ''Missing peer URL.''), s)
         else
           let (limited, s) = announce_limited S (''peer-announce:source:'' @ gossip_rate_key req peerUrl)
                 MAX_PEER_ANNOUNCES_PER_WINDOW (''peer-announce:url:'' @ peerUrl) s
           in if limited then (rate_limited_reply ''Too many peer announce requests.'', s)
              else if n_advertised (d_node s) \<noteq> [] \<and> peerUrl = n_advertised (d_node s)
                then (json_reply reply_ok (json_object [(''status'', ''known''), (''message'', ''Peer is this node.'')]), s)
              else
                let (knownPeers, s) = on_node (getPeerStatuses (si_world S) False) s
                in if \<exists>p \<in> set knownPeers. p_url p = peerUrl
                   then (json_reply reply_ok (json_object [(''status'', ''known''), (''message'', ''Peer is already known.'')]), s)
                   else
                     let (verified, s) = on_node (addVerifiedPeer (si_world S) peerUrl True) s
                     in if verified
                        then (json_reply reply_ok (json_object
                                [(''status'', ''ok''), (''message'', ''Peer announced and verified.'')]), s)
                        else (json_reply reply_bad_request (error_object ''Peer could not be verified.''), s))"

section \<open>Handoff messages\<close>

definition handoff_hash_seed :: "env \<Rightarrow> int \<Rightarrow> string \<Rightarrow> string \<Rightarrow> string \<Rightarrow> int \<Rightarrow> string \<Rightarrow> string \<Rightarrow> string" where
  "handoff_hash_seed E block_number block_hash parent_hash creator next_slot next_creator active_member_set_hash =
     sha256 E (show_long block_number @ ''|'' @ block_hash @ ''|'' @ parent_hash @ ''|'' @ creator @ ''|'' @
       show_long next_slot @ ''|'' @ next_creator @ ''|'' @ active_member_set_hash)"

definition handoff_latest_json :: "env \<Rightarrow> dbh \<Rightarrow> string \<Rightarrow> string" where
  "handoff_latest_json E db handoff =
     (if handoff = [] then json_object [(''status'', ''empty''), (''message'', ''No handoff message has been received.'')]
      else
        let b = getBlockByHash E db (json_field handoff ''block_hash'')
        in ''{'' @ fields_text [(''status'', ''ok''), (''block_known'', yes_no (0 < b_number b))] @ '','' @
           member_text ''handoff'' handoff @ ''}'')"

definition handoff_complete :: "string \<Rightarrow> bool" where
  "handoff_complete h \<longleftrightarrow>
     0 < json_field_long h ''block_number'' \<and> json_field h ''block_hash'' \<noteq> [] \<and> json_field h ''creator'' \<noteq> [] \<and>
     0 < json_field_long h ''next_slot'' \<and> json_field h ''handoff_hash'' \<noteq> [] \<and> json_field h ''signature'' \<noteq> []"

definition handoff_expected_hash :: "env \<Rightarrow> string \<Rightarrow> string" where
  "handoff_expected_hash E h =
     handoff_hash_seed E (json_field_long h ''block_number'') (json_field h ''block_hash'') (json_field h ''parent_hash'')
       (json_field h ''creator'') (json_field_long h ''next_slot'') (json_field h ''next_creator'')
       (json_field h ''active_member_set_hash'')"

definition handoff_reply_text :: "env \<Rightarrow> dbh \<Rightarrow> string \<Rightarrow> string" where
  "handoff_reply_text E db h =
     (let b = getBlockByHash E db (json_field h ''block_hash'');
          block_known = (0 < b_number b);
          block_matches = (block_known \<and> b_number b = json_field_long h ''block_number'' \<and>
            b_previous_hash b = json_field h ''parent_hash'' \<and> b_creator b = json_field h ''creator'')
      in json_object
        [(''status'', ''accepted''), (''verification'', ''hash_signature_valid''), (''block_known'', yes_no block_known),
         (''block_matches'', if block_matches then ''yes'' else if block_known then ''no'' else ''unknown''),
         (''block_number'', show_long (json_field_long h ''block_number'')),
         (''next_slot'', show_long (json_field_long h ''next_slot'')),
         (''next_creator'', json_escape (json_field h ''next_creator''))])"

definition invalid_object :: "string \<Rightarrow> string" where
  "invalid_object message = json_object [(''status'', ''invalid''), (''message'', message)]"

definition submit_handoff_json :: "site \<Rightarrow> string \<Rightarrow> daemon \<Rightarrow> (bool \<times> string) \<times> daemon" where
  "submit_handoff_json S h s =
     (let E = env_of S s
      in if h = [] then ((False, error_object ''Missing handoff message.''), s)
         else if \<not> handoff_complete h then ((False, error_object ''Incomplete handoff message.''), s)
         else if handoff_expected_hash E h \<noteq> json_field h ''handoff_hash''
           then ((False, invalid_object ''Handoff hash does not match message fields.''), s)
         else if VerifyMessageCompressed E (json_field h ''handoff_hash'') (json_field h ''signature'') (json_field h ''creator'') \<noteq> 1
           then ((False, invalid_object ''Handoff signature is invalid.''), s)
         else if \<not> si_handoff_writable S then ((False, error_object ''Unable to store handoff message.''), s)
         else ((True, handoff_reply_text E (the_db s) h), s\<lparr>d_handoff_dat := h\<rparr>))"

definition submit_handoff_request :: "site \<Rightarrow> request \<Rightarrow> string \<Rightarrow> daemon \<Rightarrow> reply \<times> daemon" where
  "submit_handoff_request S req request_path s =
     (let ((accepted, response), s) = submit_handoff_json S (submitted_value req request_path ''handoff'') s
      in (json_reply (if accepted then reply_accepted else reply_bad_request) response, s))"

section \<open>Resetting the node\<close>

definition reset_request :: "request \<Rightarrow> string \<Rightarrow> daemon \<Rightarrow> reply \<times> daemon" where
  "reset_request req request_path s =
     (if submitted_value req request_path ''confirm'' \<noteq> ''reset-local-chain''
      then (json_reply reply_bad_request (error_object ''Reset confirmation is required.''), s)
      else (json_reply reply_ok (json_object
              [(''status'', ''ok''),
               (''message'', ''Local blockchain data was reset. Restart the node to resync from configured peers.'')]),
            upd_node (\<lambda>n. n\<lparr>n_db := DeleteAll (n_db n), n_peers_dat := []\<rparr>) (s\<lparr>d_queue_dat := []\<rparr>)))"

section \<open>Background downloads\<close>

text \<open>The loop of \<open>sync_peers_json\<close> over the peers; its text is built and dropped by the caller.\<close>

fun sync_each :: "world \<Rightarrow> string list \<Rightarrow> node \<Rightarrow> unit option \<times> node" where
  "sync_each W [] n = (Some (), n)"
| "sync_each W (peer # peers) n =
     (let (peerBefore, n) = getPeerLatestBlockId W peer n
      in case syncFromPeer W peer n of
           (None, n) \<Rightarrow> (None, n)
         | (Some pulled, n) \<Rightarrow>
             let after = latest_id n; (peerAfter, n) = getPeerLatestBlockId W peer n;
                 n = (if peerAfter < 0 \<or> peerAfter \<le> after then snd (pushToPeerDetailed W peer n) else n)
             in sync_each W peers n)"

definition sync_peers_json :: "world \<Rightarrow> node \<Rightarrow> unit option \<times> node" where
  "sync_peers_json W n = (let peers = n_peers n; (synced, n) = syncNetworkTime W n in sync_each W peers n)"

definition start_sync_peers_json :: "daemon \<Rightarrow> string \<times> daemon" where
  "start_sync_peers_json s =
     (if d_sync_in_progress s
      then (json_object [(''status'', ''ok''), (''sync_running'', ''yes''), (''message'', ''Peer sync is already running.'')], s)
      else (json_object [(''status'', ''ok''), (''sync_started'', ''yes''), (''sync_running'', ''yes''),
              (''message'', ''Peer sync started.'')],
            s\<lparr>d_sync_in_progress := True, d_jobs := d_jobs s @ [SyncJob]\<rparr>))"

definition start_chain_recovery_json :: "daemon \<Rightarrow> string \<times> daemon" where
  "start_chain_recovery_json s =
     (let refused = (\<lambda>message. json_object [(''status'', ''ok''), (''recovery_started'', ''no''), (''recovery_running'', ''yes''),
            (''message'', message)])
      in if d_recovery_in_progress s then (refused ''Chain recovery is already running.'', s)
         else if d_sync_in_progress s
           then (refused ''Peer sync is already running; try recovery again after it finishes.'', s)
         else (json_object [(''status'', ''ok''), (''recovery_started'', ''yes''), (''recovery_running'', ''yes''),
                 (''message'', ''Chain recovery started.'')],
               s\<lparr>d_recovery_in_progress := True, d_sync_in_progress := True,
                 d_recovery_status := json_object [(''status'', ''ok''), (''recovery_running'', ''yes''),
                   (''message'', ''Chain recovery is running.'')],
                 d_jobs := d_jobs s @ [RecoveryJob]\<rparr>))"

definition connected_latest :: "site \<Rightarrow> daemon \<Rightarrow> int \<times> daemon" where
  "connected_latest S s = (let (tip, db) = getConnectedLatestBlockId (env_of S s) (the_db s) in (tip, set_db db s))"

definition recovery_report :: "int \<times> int \<Rightarrow> int \<times> int \<Rightarrow> int \<times> int \<Rightarrow> int \<times> int \<Rightarrow> reorg_info \<Rightarrow> string" where
  "recovery_report = (\<lambda>(latestBefore, latestAfter) (connectedBefore, connectedAfter) (repairBefore, repairedLatest)
       (forkCountBefore, forkCountAfter) info.
     let changed = (latestBefore \<noteq> latestAfter \<or> connectedBefore \<noteq> connectedAfter \<or> forkCountBefore \<noteq> forkCountAfter \<or>
           repairBefore \<noteq> repairedLatest)
     in json_object
       [(''status'', ''ok''), (''recovery_running'', ''no''), (''changed'', yes_no changed),
        (''latest_before'', show_long latestBefore), (''latest_after'', show_long latestAfter),
        (''connected_before'', show_long connectedBefore), (''connected_after'', show_long connectedAfter),
        (''repair_before'', show_long repairBefore), (''repair_after'', show_long repairedLatest),
        (''fork_count_before'', show_long forkCountBefore), (''fork_count_after'', show_long forkCountAfter),
        (''last_reorg_previous_block'', show_long (ri_previous_block info)),
        (''last_reorg_new_block'', show_long (ri_new_block info)),
        (''message'', if changed then ''Chain recovery completed with local changes.''
                      else ''Chain recovery completed; no local changes were needed.'')])"

definition run_chain_recovery_json :: "site \<Rightarrow> daemon \<Rightarrow> string option \<times> daemon" where
  "run_chain_recovery_json S s =
     (let W = si_world S; latestBefore = getLatestBlockId (the_db s);
          (connectedBefore, s) = connected_latest S s
      in case fork_count S s of (None, s) \<Rightarrow> (None, s) | (Some forkCountBefore, s) \<Rightarrow>
         (case on_node (sync_peers_json W) s of (None, s) \<Rightarrow> (None, s) | (Some _, s) \<Rightarrow>
            let repairBefore = getLatestBlockId (the_db s);
                (repairedLatest, s) = on_node (rebuild W) s
            in (case on_node (sync_peers_json W) s of (None, s) \<Rightarrow> (None, s) | (Some _, s) \<Rightarrow>
                  let latestAfter = getLatestBlockId (the_db s);
                      (connectedAfter, s) = connected_latest S s
                  in (case fork_count S s of (None, s) \<Rightarrow> (None, s) | (Some forkCountAfter, s) \<Rightarrow>
                        (case getLastReorgInfo (env_of S s) (the_db s) of
                           None \<Rightarrow> (None, s)
                         | Some info \<Rightarrow>
                             (Some (recovery_report (latestBefore, latestAfter) (connectedBefore, connectedAfter)
                                (repairBefore, repairedLatest) (forkCountBefore, forkCountAfter) info), s))))))"

text \<open>
  The work of a detached thread; whatever is thrown is caught. It is one step here: the code runs it
  beside the requests, which may be answered between its reads and writes, and clears the two flags
  of a recovery one after the other. Requests before and after it in any number are covered, those
  answered in the middle of it are not.
\<close>

definition end_job :: "job \<Rightarrow> daemon \<Rightarrow> daemon" where
  "end_job j s =
     (let s = s\<lparr>d_jobs := remove1 j (d_jobs s), d_sync_in_progress := False\<rparr>
      in case j of SyncJob \<Rightarrow> s | RecoveryJob \<Rightarrow> s\<lparr>d_recovery_in_progress := False\<rparr>)"

fun run_job :: "site \<Rightarrow> job \<Rightarrow> daemon \<Rightarrow> daemon" where
  "run_job S SyncJob s = end_job SyncJob (snd (on_node (sync_peers_json (si_world S)) s))"
| "run_job S RecoveryJob s =
     (let (result, s) = run_chain_recovery_json S s;
          status = (case result of
             Some text \<Rightarrow> text
           | None \<Rightarrow> json_object [(''status'', ''error''), (''recovery_running'', ''no''), (''message'', ''Chain recovery failed.'')])
      in end_job RecoveryJob (s\<lparr>d_recovery_status := status\<rparr>))"

end
