(* ===== verification/ApiRouter.thy ===== *)
theory ApiRouter
  imports ApiWalletStatus ApiBlocks
begin

text \<open>
  \<open>request_handler::handle_request\<close> of \<open>src/src/network/request_handler.cpp\<close>: the routes in the
  order in which the source tests them. A group of routes answers \<open>None\<close> when none of its
  routes matches; a reply that is \<open>None\<close> is an exception that leaves the handler.
\<close>

type_synonym answer = "reply option \<times> daemon"

section \<open>Matching a path\<close>

text \<open>\<open>path == p || path.find (p + "?") == 0\<close>, and \<open>path.find (p + "?") == 0 || (POST && path == p)\<close>.\<close>

definition path_or_query :: "string \<Rightarrow> string \<Rightarrow> bool" where
  "path_or_query path p \<longleftrightarrow> path = p \<or> starts_with path (p @ ''?'')"

definition query_or_post :: "request \<Rightarrow> string \<Rightarrow> string \<Rightarrow> bool" where
  "query_or_post req path p \<longleftrightarrow> starts_with path (p @ ''?'') \<or> q_method req = ''POST'' \<and> path = p"

definition plain_answer :: "reply \<times> daemon \<Rightarrow> answer" where
  "plain_answer = (\<lambda>(r, s). (Some r, s))"

definition ok_text :: "string \<times> daemon \<Rightarrow> answer" where
  "ok_text = (\<lambda>(text, s). (Some (json_reply reply_ok text), s))"

definition ok_or_throw :: "string option \<times> daemon \<Rightarrow> answer" where
  "ok_or_throw = (\<lambda>(text, s). (map_option (json_reply reply_ok) text, s))"

section \<open>Administration\<close>

definition admin_payload :: "site \<Rightarrow> string \<Rightarrow> daemon \<Rightarrow> string option \<times> daemon" where
  "admin_payload S c s =
     (if c \<in> {''status'', ''network'', ''exchange''} then map_prod Some id (exchange_status_json S s)
      else if c = ''users'' then map_prod Some id (network_users_json S s)
      else if c = ''sync'' then map_prod Some id (start_sync_peers_json s)
      else if c \<in> {''recover'', ''repair''} then map_prod Some id (start_chain_recovery_json s)
      else if c = ''mempool'' then map_prod Some id (mempool_json S s)
      else if c \<in> {''blockchain'', ''chain''} then map_prod Some id (recent_blockchain_json S s)
      else if c = ''peers'' then map_prod Some id (peers_json S s)
      else if c = ''accounts'' then map_prod Some id (wallet_accounts_json S s)
      else (None, s))"

definition admin_command_json :: "site \<Rightarrow> string \<Rightarrow> daemon \<Rightarrow> string \<times> daemon" where
  "admin_command_json S command s =
     (let normalized = lowercase command
      in case admin_payload S normalized s of
           (None, s) \<Rightarrow>
             (error_object (''Unsupported admin command. Allowed: status, network, sync, recover, users, mempool, '' @
                ''blockchain, peers, exchange, accounts.''), s)
         | (Some payload, s) \<Rightarrow>
             (''{'' @ fields_text [(''status'', ''ok''), (''command'', json_escape normalized)] @ '','' @
              member_text ''output'' payload @ ''}'', s))"

definition admin_command_request :: "site \<Rightarrow> request \<Rightarrow> string \<Rightarrow> daemon \<Rightarrow> reply \<times> daemon" where
  "admin_command_request S req path s =
     (if configured_admin_api_key (si_settings S) = []
      then (json_reply reply_forbidden (error_object
              ''Admin command API is disabled. Add admin_api_key:<secret> to settings.dat to enable it.''), s)
      else if \<not> admin_api_authorized (si_settings S) req path
      then (json_reply reply_unauthorized (error_object ''Invalid or missing admin API key.''), s)
      else
        let command = submitted_value_any req path ''command''
        in if command = [] then (json_reply reply_bad_request (error_object ''Command is required.''), s)
           else let (text, s) = admin_command_json S command s in (json_reply reply_ok text, s))"

definition admin_status_json :: "site \<Rightarrow> string" where
  "admin_status_json S = json_object [(''status'', ''ok''),
     (''command_api'', if configured_admin_api_key (si_settings S) \<noteq> [] then ''enabled'' else ''disabled'')]"

definition admin_routes :: "site \<Rightarrow> request \<Rightarrow> string \<Rightarrow> daemon \<Rightarrow> answer option" where
  "admin_routes S req path s =
     (if path = ''/admin'' \<or> path = ''/admin/'' then Some (Some (text_reply reply_ok (si_admin_page S) ''text/html''), s)
      else if path = ''/api/admin/status'' then Some (ok_text (admin_status_json S, s))
      else if query_or_post req path ''/api/admin/command'' then Some (plain_answer (admin_command_request S req path s))
      else None)"

section \<open>State of the node\<close>

definition node_routes :: "site \<Rightarrow> request \<Rightarrow> string \<Rightarrow> daemon \<Rightarrow> answer option" where
  "node_routes S req path s =
     (if path = ''/api/status'' then Some (ok_or_throw (status_json S s))
      else if path = ''/api/forks'' then Some (ok_or_throw (forks_json S s))
      else if path = ''/api/chain/recover'' then Some (ok_text (start_chain_recovery_json s))
      else if path = ''/api/chain/recover/status'' then Some (ok_text (d_recovery_status s, s))
      else if path = ''/api/reorgs'' \<or> path = ''/api/reorg'' then Some (ok_or_throw (reorg_json S s))
      else if path_or_query path ''/api/schedule/upcoming''
        then Some (ok_text (schedule_json S (schedule_limit (submitted_value_any req path ''limit'')) s))
      else if starts_with path ''/api/peers/announce'' then Some (plain_answer (announce_peer_request S req path s))
      else if path = ''/api/peers'' then Some (ok_text (peers_json S s))
      else if path = ''/api/sync'' then Some (ok_text (start_sync_peers_json s))
      else None)"

section \<open>Wallet\<close>

definition wallet_routes :: "site \<Rightarrow> request \<Rightarrow> string \<Rightarrow> daemon \<Rightarrow> answer option" where
  "wallet_routes S req path s =
     (if path = ''/api/wallet/accounts'' then Some (ok_text (wallet_accounts_json S s))
      else if query_or_post req path ''/api/wallet/accounts/active''
        then Some (plain_answer (choose_account S setActiveAccount req path s))
      else if query_or_post req path ''/api/wallet/accounts/creator''
        then Some (plain_answer (choose_account S setCreatorAccount req path s))
      else if query_or_post req path ''/api/wallet/accounts/create'' then Some (plain_answer (create_account S req path s))
      else if path_or_query path ''/api/wallet/status'' then Some (wallet_status_request S req path s)
      else if path_or_query path ''/api/wallet/history'' then Some (plain_answer (history_request S req path s))
      else if query_or_post req path ''/api/wallet/join'' then Some (plain_answer (name_request S joining req path s))
      else if query_or_post req path ''/api/wallet/setname'' then Some (plain_answer (name_request S renaming req path s))
      else if query_or_post req path ''/api/wallet/send'' then Some (plain_answer (send_request S req path s))
      else None)"

section \<open>Exchange\<close>

text \<open>The argument of a path, or a submitted value where the path has none.\<close>

definition path_or_submitted :: "request \<Rightarrow> string \<Rightarrow> string \<Rightarrow> string \<Rightarrow> string" where
  "path_or_submitted req path prefix key =
     (let value = (if starts_with path (prefix @ ''/'') then path_argument_after_prefix path (prefix @ ''/'') else [])
      in if value = [] then submitted_value_any req path key else value)"

definition is_exchange_path :: "string \<Rightarrow> string \<Rightarrow> bool" where
  "is_exchange_path path prefix \<longleftrightarrow> starts_with path (prefix @ ''/'') \<or> starts_with path (prefix @ ''?'')"

definition deposits_request :: "site \<Rightarrow> request \<Rightarrow> string \<Rightarrow> daemon \<Rightarrow> reply \<times> daemon" where
  "deposits_request S req path s =
     (let address = path_or_submitted req path ''/api/exchange/deposits'' ''address''
      in if address = []
         then (json_reply reply_bad_request (status_and_list
                 [(''status'', ''error''), (''message'', ''Deposit address is required.'')] ''deposits'' []), s)
         else let (text, s) = exchange_deposits_json S address s in (json_reply reply_ok text, s))"

definition transaction_request :: "site \<Rightarrow> request \<Rightarrow> string \<Rightarrow> daemon \<Rightarrow> reply \<times> daemon" where
  "transaction_request S req path s =
     (let hash = path_or_submitted req path ''/api/exchange/tx'' ''hash''
      in if hash = [] then (json_reply reply_bad_request (error_object ''Transaction hash is required.''), s)
         else
           let (l, s) = find_exchange_record S hash s
           in if \<not> xl_found l
              then (json_reply reply_not_found (json_object
                      [(''status'', ''not_found''), (''message'', ''Transaction was not found.'')]), s)
              else
                let (names, s) = accepted_member_names S s
                in (json_reply reply_ok (''{'' @ fields_text [(''status'', ''ok'')] @ '','' @
                      member_text ''transaction'' (exchange_record_json l names) @ ''}''), s))"

definition confirmations_request :: "site \<Rightarrow> request \<Rightarrow> string \<Rightarrow> daemon \<Rightarrow> reply \<times> daemon" where
  "confirmations_request S req path s =
     (let hash = path_or_submitted req path ''/api/exchange/confirmations'' ''hash''
      in if hash = [] then (json_reply reply_bad_request (error_object ''Transaction hash is required.''), s)
         else
           let (l, s) = find_exchange_record S hash s
           in case xl_record l of
                None \<Rightarrow>
                  (json_reply reply_not_found (json_object
                     [(''status'', ''not_found''), (''hash'', []), (''confirmations'', ''0'')]), s)
              | Some r \<Rightarrow>
                  (json_reply reply_ok (json_object
                     [(''status'', ''ok''), (''hash'', json_escape (r_hash r)),
                      (''transaction_status'', if xl_pending l then ''pending'' else ''accepted''),
                      (''block'', show_long (xl_block_number l)), (''confirmations'', show_long (xl_confirmations l))]), s))"

definition exchange_routes :: "site \<Rightarrow> request \<Rightarrow> string \<Rightarrow> daemon \<Rightarrow> answer option" where
  "exchange_routes S req path s =
     (if path = ''/api/exchange/status'' then Some (ok_text (exchange_status_json S s))
      else if is_exchange_path path ''/api/exchange/deposits'' then Some (plain_answer (deposits_request S req path s))
      else if is_exchange_path path ''/api/exchange/tx'' then Some (plain_answer (transaction_request S req path s))
      else if is_exchange_path path ''/api/exchange/confirmations'' then Some (plain_answer (confirmations_request S req path s))
      else if query_or_post req path ''/api/exchange/withdraw'' then Some (plain_answer (withdraw_request S req path s))
      else None)"

section \<open>Chain\<close>

definition explorer_request :: "site \<Rightarrow> request \<Rightarrow> string \<Rightarrow> daemon \<Rightarrow> string \<times> daemon" where
  "explorer_request S req path s =
     (let epoch_value = submitted_value_any req path ''epoch''; count_value = submitted_value_any req path ''count''
      in block_explorer_json S (if epoch_value \<noteq> [] then atol epoch_value else -1)
           (if count_value \<noteq> [] then atoi count_value else 2) s)"

definition chain_routes :: "site \<Rightarrow> request \<Rightarrow> string \<Rightarrow> daemon \<Rightarrow> answer option" where
  "chain_routes S req path s =
     (if path = ''/api/network/users'' then Some (ok_text (network_users_json S s))
      else if path = ''/api/mempool'' then Some (ok_text (mempool_json S s))
      else if path = ''/api/blockchain/recent'' then Some (ok_text (recent_blockchain_json S s))
      else if path_or_query path ''/api/block-explorer'' then Some (ok_text (explorer_request S req path s))
      else if path = ''/api/handoff/latest''
        then Some (ok_text (handoff_latest_json (env_of S s) (the_db s) (d_handoff_dat s), s))
      else if q_method req = ''POST'' \<and> path = ''/api/handoff/submit'' then Some (plain_answer (submit_handoff_request S req path s))
      else if q_method req = ''POST'' \<and> path = ''/api/blockchain/reset'' then Some (plain_answer (reset_request req path s))
      else if path = ''/api/time'' then Some (ok_text (time_json S s))
      else None)"

definition block_routes :: "site \<Rightarrow> request \<Rightarrow> string \<Rightarrow> daemon \<Rightarrow> answer option" where
  "block_routes S req path s =
     (let E = env_of S s; db = the_db s; rest = (\<lambda>p. drop (length p) path); serve = (\<lambda>r. Some (Some r, s))
      in if path = ''/api/blocks/first'' then serve (block_at_id E db (getFirstBlockId db))
         else if path = ''/api/blocks/latest'' then serve (block_at_id E db (getLatestBlockId db))
         else if query_or_post req path ''/api/blocks/announce'' then Some (announce_block_request S req path s)
         else if query_or_post req path ''/api/blocks/submit'' then Some (submit_block_request S req path s)
         else if starts_with path ''/api/blocks/hash/'' then serve (block_by_hash_request E db (rest ''/api/blocks/hash/''))
         else if starts_with path ''/api/blocks/batch-after-hash/''
           then serve (batch_request E db (rest ''/api/blocks/batch-after-hash/''))
         else if starts_with path ''/api/blocks/'' \<and> \<not> starts_with path ''/api/blocks/after/'' \<and>
                 \<not> starts_with path ''/api/blocks/after-hash/''
           then serve (block_by_number_request E db (rest ''/api/blocks/''))
         else if starts_with path ''/api/blocks/after/'' then serve (block_after_request E db (rest ''/api/blocks/after/''))
         else if starts_with path ''/api/blocks/after-hash/''
           then serve (block_after_hash_request E db (rest ''/api/blocks/after-hash/''))
         else None)"

definition record_routes :: "site \<Rightarrow> request \<Rightarrow> string \<Rightarrow> daemon \<Rightarrow> answer option" where
  "record_routes S req path s =
     (if query_or_post req path ''/api/records/submit'' then Some (plain_answer (submit_record_request S req path s))
      else if starts_with path ''/api/records/hash/''
        then Some (plain_answer (record_by_hash_request S (drop (length ''/api/records/hash/'') path) s))
      else if query_or_post req path ''/api/records/announce'' then Some (plain_answer (announce_record_request S req path s))
      else None)"

section \<open>The page for everything else\<close>

definition default_page :: "string \<Rightarrow> int \<Rightarrow> string \<Rightarrow> string" where
  "default_page key_line epoch path =
     (let br = ''<br>''
      in ''Safire Client v0.0.1. '' @ br @ br @ key_line @ ''Balance 0'' @ br @ ''My Transactions 0'' @ br @ br @
         ''Network Users 0'' @ br @ ''Pending Users 0'' @ br @ ''Time '' @ show_long epoch @ br @ ''Block Time 0'' @ br @
         ''Block Creator Key '' @ br @ br @ ''Blocks Stored 0'' @ br @ ''Network Transactions 0'' @ br @
         ''Pending Transactions 0'' @ br @ ''Request '' @ path @ br)"

definition default_request :: "site \<Rightarrow> string \<Rightarrow> daemon \<Rightarrow> reply \<times> daemon" where
  "default_request S path s =
     (let exists = has_wallet s;
          ((found, privateKey, publicKey), s) = (if exists then read_keys s else ((False, [], []), s));
          (epoch, s) = now_epoch S s
      in (text_reply reply_ok (default_page (if exists then ''Public Key: '' @ publicKey @ ''<br>'' else []) epoch path)
            (extension_to_type ''html''), s))"

section \<open>The handler\<close>

fun first_route :: "(daemon \<Rightarrow> answer option) list \<Rightarrow> daemon \<Rightarrow> answer option" where
  "first_route [] s = None"
| "first_route (f # fs) s = (case f s of None \<Rightarrow> first_route fs s | Some a \<Rightarrow> Some a)"

definition all_routes :: "site \<Rightarrow> request \<Rightarrow> string \<Rightarrow> (daemon \<Rightarrow> answer option) list" where
  "all_routes S req path =
     [admin_routes S req path, node_routes S req path, wallet_routes S req path, exchange_routes S req path,
      chain_routes S req path, block_routes S req path, record_routes S req path]"

definition handle_request :: "site \<Rightarrow> request \<Rightarrow> daemon \<Rightarrow> answer" where
  "handle_request S req s =
     (case url_decode (q_uri req) of
        None \<Rightarrow> (Some (stock_reply reply_bad_request), s)
      | Some path \<Rightarrow>
          (case first_route (all_routes S req path) s of
             Some a \<Rightarrow> a
           | None \<Rightarrow> plain_answer (default_request S path s)))"

text \<open>
  The process over time: requests, and the work of the threads that requests have started.
  A job that was not started does nothing.
\<close>

datatype daemon_event = Request request | Work job

fun daemon_step :: "site \<Rightarrow> daemon_event \<Rightarrow> daemon \<Rightarrow> daemon" where
  "daemon_step S (Request req) s = snd (handle_request S req s)"
| "daemon_step S (Work j) s = (if j \<in> set (d_jobs s) then run_job S j s else s)"

definition daemon_run :: "site \<Rightarrow> daemon_event list \<Rightarrow> daemon \<Rightarrow> daemon" where
  "daemon_run S evs s = fold (daemon_step S) evs s"

end
