(* ===== verification/ApiFrame.thy ===== *)
theory ApiFrame
  imports ApiRouter SyncFacts
begin

text \<open>
  What a request can do to the process. The handlers of \<open>ApiRouter\<close> change the state by a few
  primitive steps only: the peer client may change its own tables, the queue takes a record or
  drops what is no longer pending, a block is added, the index is rebuilt, a counter is written,
  a bucket of the rate limiter is hit, a background job is started. The locale \<open>api_frame\<close> states
  this once, for every relation between states that these steps respect; three interpretations
  follow: on the store of blocks, on the background jobs, and on the buckets.
\<close>

section \<open>The peer client and the database\<close>

lemma db_status_loop [simp]: "n_db (snd (status_loop W r ps n)) = n_db n"
  by (induction W r ps n rule: status_loop.induct) (auto simp: Let_def case_prod_beta)

lemma db_statuses [simp]: "n_db (snd (getPeerStatuses W r n)) = n_db n"
  by (simp add: getPeerStatuses_def Let_def case_prod_beta)

lemma db_ledger_at [simp]: "n_db (snd (ledger_at W b n)) = n_db n"
  by (simp add: ledger_at_def Let_def case_prod_beta)

lemma db_schedule_slots [simp]: "n_db (snd (schedule_slots W f slots c n)) = n_db n"
  by (induction W f slots c n rule: schedule_slots.induct) (auto simp: Let_def case_prod_beta)

lemma db_schedule [simp]: "n_db (snd (getUpcomingCreatorSchedule W k n)) = n_db n"
  by (simp add: getUpcomingCreatorSchedule_def Let_def case_prod_beta)

lemma db_gossip [simp]: "n_db (snd (getGossipPeers W m p n)) = n_db n"
  by (simp add: getGossipPeers_def getPriorityPeersForUpcomingCreators_def Let_def case_prod_beta)

lemma db_success [simp]: "n_db (notePeerSuccess W p n) = n_db n"
  by (simp add: notePeerSuccess_def Let_def case_prod_beta)

lemma db_failure [simp]: "n_db (notePeerFailure W p e n) = n_db n"
  by (simp add: notePeerFailure_def Let_def case_prod_beta)

lemma db_add_peer [simp]: "n_db (snd (addPeer W p b n)) = n_db n"
  by (simp add: addPeer_def Let_def)

lemma db_add_verified [simp]: "n_db (snd (addVerifiedPeer W p b n)) = n_db n"
  by (simp add: addVerifiedPeer_def Let_def case_prod_beta split: bool.split)

lemma db_purge_peers [simp]: "n_db (snd (purge_peers now ps n)) = n_db n"
  by (induction now ps n rule: purge_peers.induct) (auto simp: Let_def case_prod_beta)

lemma db_purge [simp]: "n_db (purgeUnavailablePeers W n) = n_db n"
  by (simp add: purgeUnavailablePeers_def Let_def case_prod_beta)

lemma db_peer_latest [simp]: "n_db (snd (getPeerLatestBlockId W p n)) = n_db n"
  by (simp add: getPeerLatestBlockId_def Let_def case_prod_beta split: bool.split)

lemma db_refresh_outdated [simp]: "n_db (refresh_outdated W now i n) = n_db n"
proof (induction W now i n rule: refresh_outdated.induct)
  case (1 W now i s)
  then show ?case by (subst refresh_outdated.simps) auto
qed

lemma db_can_create [simp]: "n_db (snd (canCreateBlocks W n)) = n_db n"
  by (simp add: canCreateBlocks_def getBestPeerStatus_def resetStablePeerTip_def noteStablePeerTip_def Let_def case_prod_beta)

lemma db_offer [simp]: "n_db (offer W a p q an body f peer n) = n_db n"
  by (simp add: offer_def Let_def case_prod_beta)

lemma db_broadcast: "(\<And>p n. n_db (send p n) = n_db n) \<Longrightarrow> n_db (broadcast W send ps n) = n_db n"
  by (induction ps arbitrary: n) (auto simp: case_prod_beta split: bool.split)

lemma db_broadcasts [simp]: "n_db (broadcastRecord W r n) = n_db n" "n_db (broadcastBlock W b n) = n_db n"
  by (simp_all add: broadcastRecord_def broadcastBlock_def db_broadcast Let_def case_prod_beta split: bool.split)

lemma db_relay_send [simp]: "n_db (relay_send W k f m rs n) = n_db n"
  by (induction W k f m rs n rule: relay_send.induct) auto

lemma db_time_offsets [simp]: "n_db (snd (time_offsets W sts n)) = n_db n"
  by (induction sts arbitrary: n) (auto simp: Let_def case_prod_beta split: bool.split)

lemma db_sync_time [simp]: "n_db (snd (syncNetworkTime W n)) = n_db n"
  by (simp add: syncNetworkTime_def Let_def case_prod_beta split: bool.split)

lemma db_submit [simp]: "n_db (snd (submitBlockToPeer W p b n)) = n_db n"
  by (simp add: submitBlockToPeer_def Let_def case_prod_beta)

lemma db_pushed [simp]: "n_db (push_failed W p e n) = n_db n" "n_db (push_done W p n) = n_db n"
  by (simp_all add: push_failed_def push_done_def Let_def case_prod_beta)

lemma db_push_blocks [simp]: "n_db (snd (push_blocks W noted p r bs n)) = n_db n"
  by (induction bs arbitrary: r n) (auto simp: case_prod_beta split: bool.split)

lemma db_push [simp]: "n_db (snd (pushToPeerDetailed W p n)) = n_db n"
  by (simp add: pushToPeerDetailed_def Let_def case_prod_beta split: bool.split)

section \<open>Frames\<close>

text \<open>
  The one request that throws the chain away: a POST to the reset path with the word of
  confirmation. Nothing else is asked of its sender. And an event that is not such a request.
\<close>

definition is_reset :: "request \<Rightarrow> string \<Rightarrow> bool" where
  "is_reset req rp \<longleftrightarrow> q_method req = ''POST'' \<and> rp = ''/api/blockchain/reset'' \<and>
     submitted_value req rp ''confirm'' = ''reset-local-chain''"

lemma reset_refused: "submitted_value req rp ''confirm'' \<noteq> ''reset-local-chain'' \<Longrightarrow> snd (reset_request req rp s) = s"
  by (simp add: reset_request_def)

definition no_reset :: "daemon_event \<Rightarrow> bool" where
  "no_reset e = (case e of Request req \<Rightarrow> (case url_decode (q_uri req) of None \<Rightarrow> True | Some rp \<Rightarrow> \<not> is_reset req rp)
                 | Work j \<Rightarrow> True)"

named_theorems kept \<open>steps that respect the relation of a frame\<close>

locale api_frame =
  fixes S :: site and Q :: "daemon \<Rightarrow> daemon \<Rightarrow> bool"
  assumes Q_refl: "Q s s"
    and Q_trans: "Q s t \<Longrightarrow> Q t u \<Longrightarrow> Q s u"
    and Q_node: "n_db n = n_db (d_node s) \<Longrightarrow> Q s (s\<lparr>d_node := n\<rparr>)"
    and Q_wallet: "Q s (s\<lparr>d_wallet := w\<rparr>)"
    and Q_handoff: "Q s (s\<lparr>d_handoff_dat := h\<rparr>)"
    and Q_peek: "Q s (snd (peek_queue S s))"
    and Q_queue: "Q s (snd (add_queue S r s))"
    and Q_fork: "Q s (snd (fork_count S s))"
    and Q_add: "Q s (snd (add_block S b s))"
    and Q_rebuild: "Q s (rebuild_index S s)"
    and Q_rate: "Q s (snd (gossip_rate_limited S key m window s))"
    and Q_sync: "Q s (snd (start_sync_peers_json s))"
    and Q_recover: "Q s (snd (start_chain_recovery_json s))"
begin

text \<open>The shapes in which the handlers pass the state on.\<close>

lemma keep_self [kept]: "Q a a"
  by (rule Q_refl)

lemma keep_return [kept]: "Q a t \<Longrightarrow> Q a (snd (x, t))"
  by simp

lemma keep_bind [kept]: "Q a (snd p) \<Longrightarrow> (\<And>x t. Q a t \<Longrightarrow> Q a (snd (g x t))) \<Longrightarrow> Q a (snd (case p of (x, t) \<Rightarrow> g x t))"
  by (cases p) simp

lemma keep_pair [kept]: "(\<And>x y. Q a (snd (g x y t))) \<Longrightarrow> Q a (snd ((case p of (x, y) \<Rightarrow> g x y) t))"
  by (cases p) simp

text \<open>A pair whose second component is no state.\<close>

lemma keep_tuple [kept]:
  "(\<And>x y. Q a (snd (g x y))) \<Longrightarrow> Q a (snd (case (p :: 'b \<times> 'c list) of (x, y) \<Rightarrow> g x y))"
  "(\<And>x y. Q a (snd (h x y))) \<Longrightarrow> Q a (snd (case (q :: 'd \<times> bool) of (x, y) \<Rightarrow> h x y))"
  by (cases p; simp) (cases q; simp)

lemma keep_if [kept]:
  "Q a (snd x) \<Longrightarrow> Q a (snd y) \<Longrightarrow> Q a (snd (if c then x else y))" "Q a t \<Longrightarrow> Q a u \<Longrightarrow> Q a (if c then t else u)"
  by simp_all

lemma keep_bool [kept]: "Q a (snd x) \<Longrightarrow> Q a (snd y) \<Longrightarrow> Q a (snd (case z of True \<Rightarrow> x | False \<Rightarrow> y))"
  by (cases z) simp_all

lemma keep_option [kept]: "Q a (snd x) \<Longrightarrow> (\<And>v. Q a (snd (f v))) \<Longrightarrow> Q a (snd (case z of None \<Rightarrow> x | Some v \<Rightarrow> f v))"
  by (cases z) simp_all

lemmas keep_step [kept] = Q_trans [OF _ Q_peek] Q_trans [OF _ Q_queue] Q_trans [OF _ Q_fork] Q_trans [OF _ Q_add]
  Q_trans [OF _ Q_rebuild] Q_trans [OF _ Q_rate] Q_trans [OF _ Q_sync] Q_trans [OF _ Q_recover] Q_trans [OF _ Q_handoff]

lemma keep_wallet [kept]: "Q a t \<Longrightarrow> Q a (snd (on_wallet f t))"
  by (simp add: on_wallet_def case_prod_beta Q_trans [OF _ Q_wallet])

lemma keep_on_node: "(\<And>n. n_db (snd (f n)) = n_db n) \<Longrightarrow> Q a t \<Longrightarrow> Q a (snd (on_node f t))"
  by (simp add: on_node_def case_prod_beta Q_trans [OF _ Q_node])

lemma keep_upd_node: "(\<And>n. n_db (f n) = n_db n) \<Longrightarrow> Q a t \<Longrightarrow> Q a (upd_node f t)"
  by (simp add: upd_node_def Q_trans [OF _ Q_node])

lemmas keep_client [kept] =
  keep_on_node [OF db_statuses] keep_on_node [OF db_can_create] keep_on_node [OF db_schedule]
  keep_on_node [OF db_add_verified] keep_on_node [OF db_http] keep_upd_node [OF db_broadcasts(1)]
  keep_upd_node [OF db_broadcasts(2)] keep_upd_node [OF db_relay_send]

lemma keep_local [kept]: "Q a t \<Longrightarrow> Q a (snd (now_local S t))"
  unfolding now_local_def by (rule keep_on_node [OF db_epoch])

lemma keep_epoch [kept]: "Q a t \<Longrightarrow> Q a (snd (now_epoch S t))"
  unfolding now_epoch_def Let_def by (intro kept)

lemma keep_ledger [kept]: "Q a t \<Longrightarrow> Q a (snd (ledger_of S w b t))"
  by (simp add: ledger_of_def Let_def case_prod_beta Q_trans [OF _ Q_node])

lemma keep_keys [kept]: "Q a t \<Longrightarrow> Q a (snd (read_keys t))"
  unfolding read_keys_def by (intro kept)

text \<open>The functions on which the handlers rest.\<close>

lemma keep_names [kept]:
  "Q a t \<Longrightarrow> Q a (snd (accepted_member_names S t))"
  "Q a t \<Longrightarrow> Q a (snd (accepted_membership_records S t))"
  "Q a t \<Longrightarrow> Q a (snd (own_identity S t))"
  "Q a t \<Longrightarrow> Q a (snd (public_name_available_for_owner S name owner t))"
  unfolding accepted_member_names_def accepted_membership_records_def own_identity_def public_name_available_for_owner_def
    Let_def by (intro kept; assumption)+

lemma keep_find [kept]: "Q a t \<Longrightarrow> Q a (snd (find_exchange_record S h t))"
  unfolding find_exchange_record_def Let_def by (intro kept)

lemma keep_announce [kept]: "Q a t \<Longrightarrow> Q a (snd (announce_limited S k m j t))"
  unfolding announce_limited_def by (intro kept)

text \<open>The state of the node.\<close>

lemma keep_status [kept]:
  "Q a t \<Longrightarrow> Q a (snd (mempool_json S t))"
  "Q a t \<Longrightarrow> Q a (snd (forks_json S t))"
  "Q a t \<Longrightarrow> Q a (snd (reorg_json S t))"
  "Q a t \<Longrightarrow> Q a (snd (network_users_json S t))"
  "Q a t \<Longrightarrow> Q a (snd (wallet_accounts_json S t))"
  "Q a t \<Longrightarrow> Q a (snd (status_json S t))"
  "Q a t \<Longrightarrow> Q a (snd (peers_json S t))"
  "Q a t \<Longrightarrow> Q a (snd (schedule_json S n t))"
  "Q a t \<Longrightarrow> Q a (snd (time_json S t))"
  unfolding mempool_json_def forks_json_def reorg_json_def network_users_json_def wallet_accounts_json_def
    status_json_def peers_json_def schedule_json_def time_json_def Let_def by (intro kept; assumption)+

lemma keep_exchange_status [kept]: "Q a t \<Longrightarrow> Q a (snd (exchange_status_json S t))"
  unfolding exchange_status_json_def Let_def by (intro kept)

lemma keep_deposits [kept]: "Q a t \<Longrightarrow> Q a (snd (exchange_deposits_json S d t))"
  unfolding exchange_deposits_json_def Let_def by (intro kept)

text \<open>The chain as the API shows it.\<close>

lemma keep_history [kept]: "Q a t \<Longrightarrow> Q a (snd (wallet_history_json S k t))"
  unfolding wallet_history_json_def Let_def by (intro kept)

lemma keep_creators [kept]: "Q a t \<Longrightarrow> Q a (snd (expected_creators S f slots built t))"
proof (induction slots arbitrary: built t)
  case Nil
  then show ?case by simp
next
  case (Cons slot slots)
  show ?case unfolding expected_creators.simps Let_def by (intro kept Cons)
qed

lemma keep_epochs [kept]: "Q a t \<Longrightarrow> Q a (snd (explorer_epochs S f names now bs es built t))"
proof (induction es arbitrary: built t)
  case Nil
  then show ?case by simp
next
  case (Cons e es)
  show ?case unfolding explorer_epochs.simps Let_def by (intro kept Cons)
qed

lemma keep_recent [kept]: "Q a t \<Longrightarrow> Q a (snd (recent_blockchain_json S t))"
  unfolding recent_blockchain_json_def Let_def by (intro kept)

lemma keep_explorer [kept]: "Q a t \<Longrightarrow> Q a (snd (block_explorer_json S e c t))"
  unfolding block_explorer_json_def Let_def by (intro kept)

text \<open>Wallet requests.\<close>

lemma keep_send_record [kept]: "Q a t \<Longrightarrow> Q a (sendRecord S r t)"
  unfolding sendRecord_def Let_def by (auto simp: case_prod_beta intro: kept)

lemma keep_record [kept]: "Q a t \<Longrightarrow> Q a (snd (queue_and_broadcast_record S r t))"
  unfolding queue_and_broadcast_record_def Let_def by (intro kept)

lemma keep_selected [kept]: "Q a t \<Longrightarrow> Q a (snd (selected_wallet_keys req rp t))"
  unfolding selected_wallet_keys_def Let_def by (intro kept)

lemma keep_nonce [kept]: "Q a t \<Longrightarrow> Q a (snd (next_transfer_nonce S k t))"
  unfolding next_transfer_nonce_def Let_def by (intro kept)

lemma keep_transfer [kept]:
  "Q a t \<Longrightarrow> Q a (snd (make_transfer S pk k r am fee t))"
  "Q a t \<Longrightarrow> Q a (snd (available_balance S k t))"
  unfolding make_transfer_def available_balance_def Let_def by (intro kept; assumption)+

lemma keep_wallet_steps [kept]:
  "Q a t \<Longrightarrow> Q a (snd (submit_name S N name pk k t))"
  "Q a t \<Longrightarrow> Q a (snd (send_transfer S pk k r am fee t))"
  "Q a t \<Longrightarrow> Q a (snd (withdraw_transfer S pk k r am fee t))"
  "Q a t \<Longrightarrow> Q a (snd (choose_account S op req rp t))"
  "Q a t \<Longrightarrow> Q a (snd (history_request S req rp t))"
  unfolding submit_name_def send_transfer_def withdraw_transfer_def choose_account_def history_request_def Let_def
  by (intro kept; assumption)+

lemma keep_create_account [kept]: "Q a t \<Longrightarrow> Q a (snd (create_account S req rp t))"
  unfolding create_account_def Let_def
  by (auto simp: case_prod_beta intro: kept split: option.split bool.split)

lemma keep_wallet_requests [kept]:
  "Q a t \<Longrightarrow> Q a (snd (name_request S N req rp t))"
  "Q a t \<Longrightarrow> Q a (snd (send_request S req rp t))"
  "Q a t \<Longrightarrow> Q a (snd (withdraw_funds S req rp r am t))"
  unfolding name_request_def send_request_def withdraw_funds_def Let_def by (intro kept; assumption)+

lemma keep_withdraw [kept]: "Q a t \<Longrightarrow> Q a (snd (withdraw_request S req rp t))"
  unfolding withdraw_request_def Let_def by (intro kept)

lemma keep_creator_key [kept]: "Q a t \<Longrightarrow> Q a (snd (creator_key_or k t))"
  unfolding creator_key_or_def by (intro kept)

lemma keep_wallet_status [kept]: "Q a t \<Longrightarrow> Q a (snd (wallet_status_json S k t))"
  unfolding wallet_status_json_def Let_def by (intro kept)

lemma keep_wallet_status_request [kept]: "Q a t \<Longrightarrow> Q a (snd (wallet_status_request S req rp t))"
  unfolding wallet_status_request_def Let_def by (intro kept)

text \<open>What peers send.\<close>

lemma keep_send_on [kept]: "Q a t \<Longrightarrow> Q a (snd (send_on S b before p t))"
  unfolding send_on_def Let_def by (intro kept)

lemma keep_submit_one [kept]: "Q a t \<Longrightarrow> Q a (snd (submit_one S b t))"
  unfolding submit_one_def Let_def by (intro kept)

lemma keep_submit_blocks [kept]: "Q a t \<Longrightarrow> Q a (snd (submit_blocks S bs sb t))"
proof (induction bs arbitrary: sb t)
  case Nil
  then show ?case by simp
next
  case (Cons b bs)
  show ?case unfolding submit_blocks.simps by (intro kept Cons)
qed

lemma keep_submit_block [kept]: "Q a t \<Longrightarrow> Q a (snd (submit_block_request S req rp t))"
  unfolding submit_block_request_def Let_def by (intro kept)

lemma keep_take_announced [kept]: "Q a t \<Longrightarrow> Q a (snd (take_announced S b t))"
  unfolding take_announced_def Let_def by (intro kept)

lemma keep_fetch [kept]:
  "Q a t \<Longrightarrow> Q a (snd (fetch_announced S u n h t))"
  "Q a t \<Longrightarrow> Q a (snd (fetch_record S u h t))"
  unfolding fetch_announced_def fetch_record_def Let_def by (intro kept; assumption)+

lemma keep_announcements [kept]:
  "Q a t \<Longrightarrow> Q a (snd (announce_block_request S req rp t))"
  "Q a t \<Longrightarrow> Q a (snd (announce_record_request S req rp t))"
  "Q a t \<Longrightarrow> Q a (snd (announce_peer_request S req rp t))"
  "Q a t \<Longrightarrow> Q a (snd (submit_record_request S req rp t))"
  "Q a t \<Longrightarrow> Q a (snd (record_by_hash_request S h t))"
  unfolding announce_block_request_def announce_record_request_def announce_peer_request_def submit_record_request_def
    record_by_hash_request_def Let_def by (intro kept; assumption)+

lemma keep_handoff [kept]: "Q a t \<Longrightarrow> Q a (snd (submit_handoff_request S req rp t))"
  unfolding submit_handoff_request_def submit_handoff_json_def Let_def by (intro kept)

text \<open>The routes.\<close>

lemma keep_admin_payload [kept]: "Q a t \<Longrightarrow> Q a (snd (admin_payload S c t))"
  unfolding admin_payload_def by (auto intro!: kept)

lemma keep_admin [kept]: "Q a t \<Longrightarrow> Q a (snd (admin_command_request S req rp t))"
  unfolding admin_command_request_def admin_command_json_def Let_def by (intro kept)

lemma keep_exchange [kept]:
  "Q a t \<Longrightarrow> Q a (snd (deposits_request S req rp t))"
  "Q a t \<Longrightarrow> Q a (snd (transaction_request S req rp t))"
  "Q a t \<Longrightarrow> Q a (snd (confirmations_request S req rp t))"
  "Q a t \<Longrightarrow> Q a (snd (explorer_request S req rp t))"
  "Q a t \<Longrightarrow> Q a (snd (default_request S rp t))"
  unfolding deposits_request_def transaction_request_def confirmations_request_def explorer_request_def
    default_request_def Let_def by (intro kept; assumption)+

definition keeps_route :: "daemon \<Rightarrow> answer option \<Rightarrow> bool" where
  "keeps_route a r \<longleftrightarrow> (\<forall>ans. r = Some ans \<longrightarrow> Q a (snd ans))"

lemma keep_answers:
  "Q a (snd p) \<Longrightarrow> Q a (snd (plain_answer p))" "Q a (snd q) \<Longrightarrow> Q a (snd (ok_text q))"
  "Q a (snd u) \<Longrightarrow> Q a (snd (ok_or_throw u))"
  by (simp_all add: plain_answer_def ok_text_def ok_or_throw_def case_prod_beta)

lemma keep_choices:
  "Q a (snd ans) \<Longrightarrow> keeps_route a (Some ans)" "keeps_route a None"
  "keeps_route a x \<Longrightarrow> keeps_route a y \<Longrightarrow> keeps_route a (if c then x else y)"
  by (simp_all add: keeps_route_def)

lemma keep_routes:
  "keeps_route s (admin_routes S req rp s)" "keeps_route s (node_routes S req rp s)"
  "keeps_route s (wallet_routes S req rp s)" "keeps_route s (exchange_routes S req rp s)"
  "keeps_route s (block_routes S req rp s)" "keeps_route s (record_routes S req rp s)"
  unfolding admin_routes_def node_routes_def wallet_routes_def exchange_routes_def block_routes_def record_routes_def Let_def
  by (intro keep_choices keep_answers kept)+

lemma keep_chain_routes:
  assumes "is_reset req rp \<Longrightarrow> Q s (snd (reset_request req rp s))"
  shows "keeps_route s (chain_routes S req rp s)"
proof -
  have "Q s (snd (reset_request req rp s))" if "q_method req = ''POST'' \<and> rp = ''/api/blockchain/reset''"
    using assms that reset_refused [of req rp s] by (cases "is_reset req rp") (auto simp: is_reset_def Q_refl)
  then show ?thesis unfolding chain_routes_def by (auto intro!: keep_choices keep_answers kept)
qed

lemma keep_first_route: "\<forall>f \<in> set fs. keeps_route s (f s) \<Longrightarrow> keeps_route s (first_route fs s)"
  by (induction fs) (auto simp: keeps_route_def split: option.splits)

text \<open>Every request, where the one that throws the chain away does so too.\<close>

lemma keep_request:
  assumes "\<And>rp. url_decode (q_uri req) = Some rp \<Longrightarrow> is_reset req rp \<Longrightarrow> Q s (snd (reset_request req rp s))"
  shows "Q s (snd (handle_request S req s))"
proof (cases "url_decode (q_uri req)")
  case None
  then show ?thesis by (simp add: handle_request_def Q_refl)
next
  case (Some rp)
  have "\<forall>f \<in> set (all_routes S req rp). keeps_route s (f s)"
    using keep_routes keep_chain_routes [of req rp s] assms [OF Some] by (auto simp: all_routes_def)
  then have "keeps_route s (first_route (all_routes S req rp) s)" by (rule keep_first_route)
  then show ?thesis
    by (auto simp: handle_request_def Some keeps_route_def intro: keep_answers kept split: option.split)
qed

end

text \<open>The process as a whole: requests and the work of the background jobs.\<close>

locale daemon_frame = api_frame +
  assumes Q_job: "j \<in> set (d_jobs s) \<Longrightarrow> Q s (run_job S j s)"
begin

lemma keep_event: "no_reset e \<Longrightarrow> Q s (daemon_step S e s)"
  by (cases e) (auto simp: no_reset_def Q_refl Q_job intro!: keep_request)

lemma keep_run: "list_all no_reset evs \<Longrightarrow> Q s (daemon_run S evs s)"
  unfolding daemon_run_def
proof (induction evs arbitrary: s)
  case Nil
  then show ?case by (simp add: Q_refl)
next
  case (Cons e evs)
  then show ?case using Q_trans [OF keep_event [of e s]] by simp
qed

end

locale total_frame = daemon_frame +
  assumes Q_reset: "Q s (snd (reset_request req rp s))"
begin

lemma keep_all: "Q s (daemon_run S evs s)"
  unfolding daemon_run_def
proof (induction evs arbitrary: s)
  case Nil
  then show ?case by (simp add: Q_refl)
next
  case (Cons e evs)
  have "Q s (daemon_step S e s)" by (cases e) (auto simp: Q_refl Q_job Q_reset intro!: keep_request)
  then show ?case using Q_trans Cons by simp
qed

end

end
