(* ===== verification/ApiPeers.thy ===== *)
theory ApiPeers
  imports ApiFrame IndexWalk
begin

text \<open>
  Two nodes that talk to each other: what one node asks for, the answer of the other node's
  handlers, and what the first one reads in it.
\<close>

section \<open>Blocks\<close>

lemma json_objects_skip: "c \<noteq> CHR ''{'' \<Longrightarrow> json_objects (c # t) = json_objects t"
  by (subst (1 2) json_objects.simps) (cases "find_sub ''{'' t"; simp split: option.split)

lemma json_objects_blocks:
  assumes "plain_block E b"
  shows "json_objects (blockJSON E b @ t) = block_object E b # json_objects t"
proof -
  have f: "find_sub ''{'' (blockJSON E b @ t) = Some 0"
    by (simp add: blockJSON_object block_object_def block_prefix_def)
  have len: "0 < length (block_object E b)" by (simp add: block_object_def block_prefix_def)
  show ?thesis
    using block_end_object [OF assms, of "NL # t"] len f
    by (subst json_objects.simps) (simp add: blockJSON_object json_objects_skip)
qed

lemma parse_printed_blocks:
  "\<forall>b \<in> set bs. storable E b \<Longrightarrow> parseBlockJson E (concat (map (blockJSON E) bs)) = bs"
proof (induction bs)
  case Nil
  then show ?case by (simp add: parseBlockJson_def json_objects.simps)
next
  case (Cons b bs)
  then have b: "printable_block E b" "0 < b_number b" "b_hash b \<noteq> []" by (auto simp: storable_def)
  then show ?case
    using Cons by (simp add: parseBlockJson_def json_objects_blocks printable_block_def parse_block_object)
qed

text \<open>The successors of a block of an indexed chain.\<close>

lemma batch_indexed:
  assumes "indexed E db (b # bs)" and "\<forall>c \<in> set (b # bs). storable E c" and "connected (b # bs)"
    and "distinct (map b_number (b # bs))" and "n \<le> length bs"
  shows "batch_after E db n b = take n bs"
  using assms
proof (induction n arbitrary: b bs)
  case 0
  then show ?case by simp
next
  case (Suc n)
  then obtain c cs where bs: "bs = c # cs" by (cases bs) auto
  have "getBlockByHash E db (b_hash c) = c"
    using Suc.prems(1,2) entry_open [of E db c cs] by (intro getBlockByHash_stored) (auto simp: bs entry_def storable_def)
  then have "getNextBlockByHash E db b = c"
    using Suc.prems(1-3) by (auto simp: bs getNextBlockByHash_def entry_def storable_def Let_def)
  moreover have "0 < b_number c" "b_number c \<noteq> b_number b" using Suc.prems(2,4) by (auto simp: bs storable_def)
  moreover have "batch_after E db n c = take n cs" using Suc.prems by (intro Suc.IH) (auto simp: bs)
  ultimately show ?case by (simp add: bs)
qed

lemma indexed_drop: "indexed E db bs \<Longrightarrow> indexed E db (drop i bs)"
  by (induction bs arbitrary: i) (auto simp: drop_Cons split: nat.split)

lemma connected_drop: "connected bs \<Longrightarrow> connected (drop i bs)"
proof (induction bs arbitrary: i rule: connected.induct)
  case (1 b c bs)
  then show ?case by (cases i) auto
qed (auto simp: drop_Cons split: nat.split)

lemma batch_arguments_text:
  assumes "CHR ''/'' \<notin> set h" and "0 < n" and "n \<le> 250"
  shows "batch_arguments (h @ CHR ''/'' # show_long n) = (h, n)"
proof -
  have "find_sub ''/'' (h @ CHR ''/'' # show_long n) = Some (length h)"
    using skips_found [OF skips_free [OF assms(1), of "[]"], of "show_long n"] by simp
  then show ?thesis using assms(2, 3) by (simp add: batch_arguments_def atoi_show_long)
qed

lemma batch_served:
  assumes "indexed E db (b # bs)" and "\<forall>c \<in> set (b # bs). storable E c" and "connected (b # bs)"
    and "distinct (map b_number (b # bs))" and "0 < n" and "n \<le> length bs" and "n \<le> 250"
    and "CHR ''/'' \<notin> set (b_hash b)"
  shows "rep_content (batch_request E db (b_hash b @ CHR ''/'' # show_long (int n))) = concat (map (blockJSON E) (take n bs))"
proof -
  have b: "getBlockByHash E db (b_hash b) = b" "0 < b_number b"
    using assms(1,2) entry_open [of E db b bs] by (auto intro!: getBlockByHash_stored simp: entry_def storable_def)
  have "take n bs \<noteq> []" using assms(5,6) by (cases bs) auto
  then obtain c cs where cs: "take n bs = c # cs" by (cases "take n bs") auto
  have "batch_after E db n b = c # cs" using batch_indexed [OF assms(1-4) assms(6)] cs by simp
  moreover have "batch_arguments (b_hash b @ CHR ''/'' # show_long (int n)) = (b_hash b, int n)"
    using batch_arguments_text [OF assms(8), of "int n"] assms(5,7) by simp
  ultimately show ?thesis
    using b by (simp add: batch_request_def cs json_reply_def text_reply_def)
qed

text \<open>The path of the request that a node sends for the blocks after a block.\<close>

definition batch_path :: "string \<Rightarrow> int \<Rightarrow> string" where
  "batch_path h n = ''/api/blocks/batch-after-hash/'' @ h @ ''/'' @ show_long n"

lemma route_batch:
  assumes "url_decode (q_uri req) = Some (batch_path h n)"
  shows "handle_request S req s = (Some (batch_request (env_of S s) (the_db s) (h @ CHR ''/'' # show_long n)), s)"
  using assms
  by (simp add: handle_request_def all_routes_def admin_routes_def node_routes_def wallet_routes_def exchange_routes_def
      chain_routes_def block_routes_def batch_path_def query_or_post_def path_or_query_def is_exchange_path_def starts_with_def Let_def)

text \<open>What is read in an answer does not depend on the clock of the reader.\<close>

lemma parse_any_clock: "parseBlockJson (E\<lparr>e_local_epoch := t, e_time_offset := d\<rparr>) = parseBlockJson E"
proof -
  have "parseRecordJson (E\<lparr>e_local_epoch := t, e_time_offset := d\<rparr>) = parseRecordJson E"
    by (rule ext) (simp add: parseRecordJson_def parse_type_def)
  then show ?thesis by (intro ext) (simp add: parseBlockJson_def parse_block_section_def fun_eq_iff cong: map_cong)
qed

lemma url_decode_plain: "\<forall>c \<in> set t. c \<noteq> CHR ''%'' \<and> c \<noteq> CHR ''+'' \<Longrightarrow> url_decode t = Some t"
  by (induction t) auto

lemma batch_path_plain:
  assumes "\<forall>c \<in> set h. c \<noteq> CHR ''%'' \<and> c \<noteq> CHR ''+''"
  shows "url_decode (batch_path h n) = Some (batch_path h n)"
proof (rule url_decode_plain)
  have "\<forall>c \<in> set (show_long n). c \<noteq> CHR ''%'' \<and> c \<noteq> CHR ''+''"
    using show_long_chars [of _ n] by (fastforce simp: c_isdigit_def code_def)
  then show "\<forall>c \<in> set (batch_path h n). c \<noteq> CHR ''%'' \<and> c \<noteq> CHR ''+''"
    using assms by (auto simp: batch_path_def)
qed

text \<open>Hashes that stand in a URL as they are, such as texts of hexadecimal digits.\<close>

definition url_safe :: "string \<Rightarrow> bool" where
  "url_safe h \<longleftrightarrow> (\<forall>c \<in> set h. c \<notin> set ''%+/'')"

text \<open>
  C33. A chain travels between two nodes: when a node whose index was rebuilt over an accepted
  chain of printable blocks is asked for the \<open>n\<close> blocks after the block at some place of that chain
  (\<open>n\<close> at most 250 and not beyond the tip), in the very request that the other node's download
  sends, the other node, which has the same settings and any clock, reads in the answer exactly
  those \<open>n\<close> blocks of the chain, in order; and the node that answers is left as it was.
\<close>

theorem chain_downloaded:
  assumes "validateConnectedChain (env_of S a) chain = Inr ()" and "\<forall>b \<in> set chain. printable_block (env_of S a) b"
    and "distinct (map b_hash chain)" and "db \<noteq> None"
    and "the_db a = rebuild_write (env_of S a) previousTip chain db"
    and "0 < n" and "n \<le> 250" and "i + n < length chain" and "url_safe (b_hash (chain ! i))"
    and "q_uri req = batch_path (b_hash (chain ! i)) (int n)"
    and "w_env W = w_env (si_world S)"
    and "\<And>k r a'. handle_request S req a = (Some r, a') \<Longrightarrow> w_http W k (Get (peer @ q_uri req)) = rep_content r"
  shows "fst (andthen (fetch_after W peer (b_hash (chain ! i)) (int n)) (parsed W) b) = Some (take n (drop (Suc i) chain)) \<and>
    snd (handle_request S req a) = a"
proof -
  let ?E = "env_of S a"
  let ?b = "chain ! i" and ?bs = "drop (Suc i) chain"
  note st = valid_storable [OF assms(1,2)]
  have chain: "drop i chain = ?b # ?bs" using assms(8) by (intro Cons_nth_drop_Suc [symmetric]) simp
  have sub: "set (?b # ?bs) \<subseteq> set chain" unfolding chain [symmetric] by (rule set_drop_subset)
  have "indexed ?E (the_db a) (?b # ?bs)"
    unfolding chain [symmetric] assms(5) by (intro indexed_drop rebuild_write_indexed) (use assms(3,4) st(3) in auto)
  moreover have "\<forall>c \<in> set (?b # ?bs). storable ?E c" using st(1) sub by blast
  moreover have "connected (?b # ?bs)" unfolding chain [symmetric] by (rule connected_drop [OF st(2)])
  moreover have "distinct (map b_number (?b # ?bs))" unfolding chain [symmetric] drop_map [symmetric] by (rule distinct_drop [OF st(3)])
  ultimately have served: "rep_content (batch_request ?E (the_db a) (b_hash ?b @ CHR ''/'' # show_long (int n))) =
      concat (map (blockJSON ?E) (take n ?bs))"
    using assms(6-9) by (intro batch_served) (auto simp: url_safe_def)
  have "url_decode (q_uri req) = Some (batch_path (b_hash ?b) (int n))"
    unfolding assms(10) by (rule batch_path_plain) (use assms(9) in \<open>auto simp: url_safe_def\<close>)
  note answer = route_batch [OF this, of S a]
  have web: "w_http W k (Get (peer @ q_uri req)) = concat (map (blockJSON ?E) (take n ?bs))" for k
    using assms(12) [OF answer] served by simp
  have full: "take n ?bs \<noteq> []" using assms(6,8) by (cases ?bs) auto
  then have "concat (map (blockJSON ?E) (take n ?bs)) \<noteq> []"
    by (cases "take n ?bs") (auto simp: blockJSON_object)
  moreover have "parseBlockJson (env_now W s) = parseBlockJson ?E" for s
    by (simp only: env_now_def env_of_def assms(11) parse_any_clock)
  moreover have "parseBlockJson ?E (concat (map (blockJSON ?E) (take n ?bs))) = take n ?bs"
    by (rule parse_printed_blocks) (use st(1) in_set_dropD in_set_takeD in fast)
  ultimately show ?thesis
    using web answer
    by (simp add: fetch_after_def fetch_def calm_def http_def andthen_def give_def parsed_def peek_def assms(10) batch_path_def)
qed

section \<open>Status\<close>

text \<open>What the peer client reads of an object that the API prints.\<close>

lemma json_object_section:
  assumes "good_key key" and "quote_free kvs" and "map_of kvs key = Some v"
  shows "has_section (json_object kvs) (jkey key) v"
proof -
  have "skips (jkey key) ''{'' (fields_text kvs @ ''}'')" by (rule skips_char) (simp add: jkey_def)
  from has_section_skip [OF this fields_text_has_section [OF assms]]
  show ?thesis by (simp add: json_object_def after_field_def)
qed

lemma section_present: "has_section content p v \<Longrightarrow> find_sub p content \<noteq> None"
  using skips_found by (fastforce simp: has_section_def)

lemma object_read:
  assumes "good_key key" and "quote_free kvs" and "map_of kvs key = Some v"
  shows "status_string (json_object kvs) key = v" and "status_long (json_object kvs) key = atol v"
    and "status_version (json_object kvs) key = atoi v"
proof -
  note found = json_object_section [OF assms]
  moreover have "DQ \<notin> set v" using assms(2) map_of_SomeD [OF assms(3)] by (auto simp: quote_free_def)
  ultimately have "parseSectionString (json_object kvs) (jkey key) [DQ] = v" by (rule parseSectionString_found)
  then show "status_string (json_object kvs) key = v" "status_long (json_object kvs) key = atol v"
    "status_version (json_object kvs) key = atoi v"
    using section_present [OF found]
    by (auto simp: status_string_def status_long_def status_version_def parseSectionLong_def atoi_def)
qed

lemma has_section_field: "has_section content (jkey k) v \<Longrightarrow> \<exists>g t. content = g @ jfield k v @ t"
  by (auto simp: has_section_def jfield_def jkey_def)

lemma find_sub_somewhere: "find_sub p (g @ p @ t) \<noteq> None"
  by (induction g) (auto split: option.split)

lemma read_id_long: "in_long (read_id db key legacy)"
proof -
  have c: "in_long (clamp_long v)" for v by (auto simp: in_long_def clamp_long_def LONG_MAX_def LONG_MIN_def)
  have z: "in_long 0" "in_long (- 1)" by (simp_all add: in_long_def LONG_MAX_def LONG_MIN_def)
  have "in_long (st_value (strtol x))" for x
    using c z by (simp add: strtol_def Let_def split: prod.split)
  then show ?thesis using z by (auto simp: read_id_def parseLongValue_def Let_def split: option.split if_splits)
qed

lemma route_status:
  assumes "q_uri req = ''/api/status''"
  shows "handle_request S req s = ok_or_throw (status_json S s)"
  using assms
  by (simp add: handle_request_def all_routes_def admin_routes_def node_routes_def query_or_post_def path_or_query_def
      starts_with_def Let_def)

text \<open>The members of the status that a peer looks at.\<close>

lemma status_members:
  fixes E db pk pn n info adv nt
  defines "kvs \<equiv> status_fields E db pk pn n info adv nt"
  shows "map_of kvs ''protocol_version'' = Some (show_long PROTOCOL_VERSION)"
    and "map_of kvs ''consensus_rules_version'' = Some (show_long CONSENSUS_RULES_VERSION)"
    and "map_of kvs ''first_block_id'' = Some (show_long (getFirstBlockId db))"
    and "map_of kvs ''first_block_hash'' = Some (b_hash (getBlock E db (getFirstBlockId db)))"
    and "map_of kvs ''latest_block_id'' = Some (show_long (getLatestBlockId db))"
    and "map_of kvs ''latest_block_hash'' = Some (b_hash (getBlock E db (getLatestBlockId db)))"
    and "map_of kvs ''public_key'' = Some (json_escape pk)" and "map_of kvs ''public_name'' = Some (json_escape pn)"
    and "map_of kvs ''genesis_match'' =
      Some (yes_no (genesisMatches (env_config E) (getFirstBlockId db) (b_hash (getBlock E db (getFirstBlockId db)))))"
  by (simp_all add: kvs_def status_fields_def selection_fields_def Let_def)

lemma status_keys:
  "good_key ''protocol_version''" "good_key ''consensus_rules_version''" "good_key ''first_block_id''"
  "good_key ''first_block_hash''" "good_key ''latest_block_id''" "good_key ''latest_block_hash''" "good_key ''public_key''"
  "good_key ''public_name''" "good_key ''genesis_match''"
  by (simp_all add: good_key_def)

lemma ids_shown: "atol (show_long (getFirstBlockId db)) = getFirstBlockId db" "atol (show_long (getLatestBlockId db)) = getLatestBlockId db"
  using read_id_long by (simp_all add: atol_show_long getFirstBlockId_def getLatestBlockId_def)

lemma versions_shown: "atoi (show_long PROTOCOL_VERSION) = PROTOCOL_VERSION" "atoi (show_long CONSENSUS_RULES_VERSION) = CONSENSUS_RULES_VERSION"
  by (simp_all add: PROTOCOL_VERSION_def CONSENSUS_RULES_VERSION_def atoi_show_long)

text \<open>The status that a node prints, as a peer with the same configuration reads it.\<close>

definition seen_status :: "env \<Rightarrow> dbh \<Rightarrow> string \<Rightarrow> string \<Rightarrow> int \<Rightarrow> string \<Rightarrow> peer_status" where
  "seen_status E db pk pn now peer =
     (let first = getFirstBlockId db; firstHash = b_hash (getBlock E db first); latest = getLatestBlockId db
      in (emptyPeerStatus peer)
           \<lparr>p_firstBlockId := first, p_firstBlockHash := firstHash, p_latestBlockId := latest,
            p_latestBlockHash := b_hash (getBlock E db latest), p_publicKey := json_escape pk,
            p_publicName := json_escape pn, p_protocolVersion := PROTOCOL_VERSION,
            p_consensusRulesVersion := CONSENSUS_RULES_VERSION, p_rulesCompatible := True,
            p_genesisMatch := genesisMatches (env_config E) first firstHash, p_reachable := (0 \<le> latest),
            p_lastSeenEpoch := now\<rparr>)"

lemma status_read:
  assumes "quote_free (status_fields E db pk pn n info adv nt)"
  shows "read_status (env_config E) now peer (json_object (status_fields E db pk pn n info adv nt)) =
    seen_status E db pk pn now peer"
proof -
  let ?kvs = "status_fields E db pk pn n info adv nt"
  let ?ok = "genesisMatches (env_config E) (getFirstBlockId db) (b_hash (getBlock E db (getFirstBlockId db)))"
  note r = object_read [OF _ assms]
  have g: "genesisMatchFromStatus (json_object ?kvs)" if ?ok
  proof -
    have "has_section (json_object ?kvs) (jkey ''genesis_match'') ''yes''"
      using json_object_section [OF status_keys(9) assms status_members(9)] that by (simp add: yes_no_def)
    then obtain u v where "json_object ?kvs = u @ jfield ''genesis_match'' ''yes'' @ v" using has_section_field by blast
    then show ?thesis using find_sub_somewhere by (simp add: genesisMatchFromStatus_def)
  qed
  have t: "protocolVersionFromStatus (json_object ?kvs) = PROTOCOL_VERSION"
    "consensusRulesVersionFromStatus (json_object ?kvs) = CONSENSUS_RULES_VERSION"
    "firstBlockFromStatus (json_object ?kvs) = getFirstBlockId db"
    "latestBlockFromStatus (json_object ?kvs) = getLatestBlockId db"
    by (simp_all only: protocolVersionFromStatus_def consensusRulesVersionFromStatus_def firstBlockFromStatus_def
        latestBlockFromStatus_def r(2,3) [OF status_keys(1) status_members(1)] r(2,3) [OF status_keys(2) status_members(2)]
        r(2) [OF status_keys(3) status_members(3)] r(2) [OF status_keys(5) status_members(5)] ids_shown versions_shown)
  moreover have "firstBlockHashFromStatus (json_object ?kvs) = b_hash (getBlock E db (getFirstBlockId db))"
    "latestBlockHashFromStatus (json_object ?kvs) = b_hash (getBlock E db (getLatestBlockId db))"
    "publicKeyFromStatus (json_object ?kvs) = json_escape pk" "publicNameFromStatus (json_object ?kvs) = json_escape pn"
    by (simp_all only: firstBlockHashFromStatus_def latestBlockHashFromStatus_def publicKeyFromStatus_def publicNameFromStatus_def
        r(1) [OF status_keys(4) status_members(4)] r(1) [OF status_keys(6) status_members(6)]
        r(1) [OF status_keys(7) status_members(7)] r(1) [OF status_keys(8) status_members(8)])
  moreover have "(?ok \<and> genesisMatchFromStatus (json_object ?kvs)) = ?ok" using g by blast
  ultimately show ?thesis by (simp only: read_status_def seen_status_def Let_def simp_thms)
qed

text \<open>
  A node is seen as it is: when a peer with the same configuration asks a node for its
  status and no text in it holds a quotation mark, the status that the peer's client keeps has
  the node's first and latest block, its key and name (escaped), compatible rules, and a genesis
  match exactly if the node's first block is the configured one; the score is 10 if the node has
  a latest block and the right genesis, and the failure is recorded with -5 or -20 otherwise.
\<close>

theorem status_seen:
  assumes "fork_count S a = (Some n, a1)" and "getLastReorgInfo (env_of S a1) (the_db a1) = Some info"
    and "own_identity S a1 = ((pk, pn), t)"
    and "quote_free (status_fields (env_of S t) (the_db t) pk pn n info (n_advertised (d_node t)) (d_nat t))"
    and "q_uri req = ''/api/status''" and "env_config (w_env W) = env_config (env_of S t)"
    and "\<And>k r a'. handle_request S req a = (Some r, a') \<Longrightarrow> w_http W k (Get (peer @ q_uri req)) = rep_content r"
  shows "fst (statusFromPeer W peer b) =
    (let now = w_clock W (n_events b); st = seen_status (env_of S t) (the_db t) pk pn now peer
     in if getLatestBlockId (the_db t) < 0 then st\<lparr>p_score := -5, p_firstFailureEpoch := now, p_lastError := ''missing latest block''\<rparr>
        else if \<not> p_genesisMatch st then st\<lparr>p_score := -20, p_firstFailureEpoch := now, p_lastError := ''genesis mismatch''\<rparr>
        else st\<lparr>p_score := 10, p_lastSuccessEpoch := now, p_firstFailureEpoch := 0, p_lastError := []\<rparr>)"
proof -
  let ?text = "json_object (status_fields (env_of S t) (the_db t) pk pn n info (n_advertised (d_node t)) (d_nat t))"
  have "handle_request S req a = (Some (json_reply reply_ok ?text), t)"
    unfolding route_status [OF assms(5)] by (simp add: ok_or_throw_def status_json_def assms(1-3))
  from assms(7) [OF this] have "w_http W k (Get (peer @ ''/api/status'')) = ?text" for k
    by (simp add: assms(5) json_reply_def text_reply_def)
  moreover have "?text \<noteq> []" by (simp add: json_object_def)
  moreover have "p_reachable (seen_status E db pk pn now peer) \<longleftrightarrow> \<not> getLatestBlockId db < 0"
    "p_rulesCompatible (seen_status E db pk pn now peer)" for E db now
    by (auto simp: seen_status_def Let_def)
  ultimately show ?thesis
    by (simp add: statusFromPeer_def local_epoch_def http_def assms(6) status_read [OF assms(4)] judge_status_def status_failed_def Let_def)
qed

end
