(* ===== verification/MempoolFacts.thy ===== *)
theory MempoolFacts
  imports Mempool LedgerFacts
begin

text \<open>
  The queue of pending records refines a first-in first-out queue without duplicates. The
  contract is the locale \<open>fifo_queue\<close>; the queue in the database and the queue in the file
  \<open>queue.dat\<close> both meet it, with the records that \<open>peekQueueRecords\<close> offers as the abstract
  value.
\<close>

section \<open>The contract\<close>

text \<open>
  The abstract queue is a list. Adding a record whose key is that of a waiting one changes
  nothing, any other record goes to the end; draining returns the list and leaves none.
\<close>

datatype 'r queue_op = Add 'r | Drain

definition fifo_add :: "('r \<Rightarrow> 'k) \<Rightarrow> 'r \<Rightarrow> 'r list \<Rightarrow> 'r list" where
  "fifo_add key r xs = (if key r \<in> key ` set xs then xs else xs @ [r])"

definition fifo_drain :: "'r list \<Rightarrow> 'r list \<times> 'r list" where
  "fifo_drain xs = (xs, [])"

text \<open>A sequence of operations: what each drain returned, and the queue in the end.\<close>

fun run_ops :: "('r \<Rightarrow> 'q \<Rightarrow> 'q) \<Rightarrow> ('q \<Rightarrow> 'r list \<times> 'q) \<Rightarrow> 'r queue_op list \<Rightarrow> 'q \<Rightarrow> 'r list list \<times> 'q" where
  "run_ops add drain [] q = ([], q)"
| "run_ops add drain (Add r # ops) q = run_ops add drain ops (add r q)"
| "run_ops add drain (Drain # ops) q =
     (let (rs, q') = drain q; (out, q'') = run_ops add drain ops q' in (rs # out, q''))"

definition added_records :: "'r queue_op list \<Rightarrow> 'r set" where
  "added_records ops = {r. Add r \<in> set ops}"

lemma added_records_simps [simp]:
  "added_records [] = {}" "added_records (Add r # ops) = insert r (added_records ops)" "added_records (Drain # ops) = added_records ops" "added_records (map Add rs) = set rs"
  by (auto simp: added_records_def)

lemma fifo_add_distinct: "distinct (map key xs) \<Longrightarrow> distinct (map key (fifo_add key r xs))"
  by (simp add: fifo_add_def)

text \<open>
  A queue with room for a number of further records, whose records are told apart by a key:
  each operation does on the waiting records what the list does.
\<close>

locale fifo_queue =
  fixes ok :: "'q \<Rightarrow> bool" and items :: "'q \<Rightarrow> 'r list" and fits :: "'q \<Rightarrow> 'r \<Rightarrow> bool" and room :: "'q \<Rightarrow> nat \<Rightarrow> bool"
    and add :: "'r \<Rightarrow> 'q \<Rightarrow> 'q" and drain :: "'q \<Rightarrow> 'r list \<times> 'q" and key :: "'r \<Rightarrow> 'k"
  assumes ok_add: "ok q \<Longrightarrow> fits q r \<Longrightarrow> room q (Suc n) \<Longrightarrow> ok (add r q)"
    and items_add: "ok q \<Longrightarrow> fits q r \<Longrightarrow> room q (Suc n) \<Longrightarrow> items (add r q) = fifo_add key r (items q)"
    and fits_add: "ok q \<Longrightarrow> fits q r \<Longrightarrow> room q (Suc n) \<Longrightarrow> fits q s \<Longrightarrow> fits (add r q) s"
    and room_add: "ok q \<Longrightarrow> fits q r \<Longrightarrow> room q (Suc n) \<Longrightarrow> room (add r q) n"
    and drain_items: "ok q \<Longrightarrow> fst (drain q) = items q"
    and items_drain: "ok q \<Longrightarrow> items (snd (drain q)) = []"
    and ok_drain: "ok q \<Longrightarrow> ok (snd (drain q))"
    and fits_drain: "ok q \<Longrightarrow> fits q s \<Longrightarrow> fits (snd (drain q)) s"
    and room_drain: "ok q \<Longrightarrow> room q (Suc n) \<Longrightarrow> room (snd (drain q)) n"
begin

text \<open>The simulation: any sequence of additions and drains runs as on the list.\<close>

lemma simulation:
  assumes "ok q" and "\<forall>r \<in> added_records ops. fits q r" and "room q (length ops)"
  shows "ok (snd (run_ops add drain ops q)) \<and>
    (fst (run_ops add drain ops q), items (snd (run_ops add drain ops q))) = run_ops (fifo_add key) fifo_drain ops (items q)"
  using assms
proof (induction ops arbitrary: q)
  case (Cons op ops)
  show ?case
  proof (cases op)
    case (Add r)
    have r: "ok q" "fits q r" "room q (Suc (length ops))" using Cons.prems Add by auto
    have "\<forall>s \<in> added_records ops. fits (add r q) s" using Cons.prems(2) Add fits_add [OF r] by simp
    then show ?thesis
      using Cons.IH [OF ok_add [OF r] _ room_add [OF r]] Add by (simp add: items_add [OF r])
  next
    case Drain
    have q: "ok q" "room q (Suc (length ops))" using Cons.prems by auto
    have "\<forall>s \<in> added_records ops. fits (snd (drain q)) s" using Cons.prems(2) Drain fits_drain [OF q(1)] by simp
    from Cons.IH [OF ok_drain [OF q(1)] this room_drain [OF q]] show ?thesis
      using drain_items [OF q(1)] Drain by (auto simp: items_drain [OF q(1)] fifo_drain_def split: prod.splits)
  qed
qed simp

end

section \<open>The chain does not see the queue\<close>

text \<open>Keys the walk along the chain does not read: those of the queue, and the noted tip.\<close>

definition queue_key :: "string \<Rightarrow> bool" where
  "queue_key k \<longleftrightarrow> starts_with k ''mempool:'' \<or> k = chainMetaKey ''connected_latest''"

definition chain_part :: "kvdb \<Rightarrow> kvdb" where
  "chain_part d = filter (\<lambda>(k, v). \<not> queue_key k) d"

lemma chain_part_put: "queue_key k \<Longrightarrow> chain_part (sm_put k v d) = chain_part d"
  unfolding chain_part_def by (induction k v d rule: sm_put.induct) auto

lemma chain_part_del: "queue_key k \<Longrightarrow> chain_part (sm_del k d) = chain_part d"
  unfolding chain_part_def sm_del_def by (induction d) auto

lemma chain_part_get: "\<not> queue_key k \<Longrightarrow> sm_get (chain_part d) k = sm_get d k"
  unfolding chain_part_def sm_get_def by (induction d) auto

lemma chain_part_text: "\<not> queue_key k \<Longrightarrow> db_text (chain_part d) k = db_text d k"
  by (simp add: db_text_def chain_part_get)

lemma chain_keys:
  "\<not> queue_key (chainMetaKey ''first_block'')" "\<not> queue_key (chainMetaKey ''latest_block'')" "\<not> queue_key (nextHashKey h)" "\<not> queue_key (blockHashKey h)"
  "\<not> queue_key (canonicalHashKey i)" "\<not> queue_key (legacyBlockKey i)" "\<not> queue_key (nextBlockKey i)"
  "\<not> queue_key ''first_block_id''" "\<not> queue_key ''latest_block_id''"
  by (simp_all add: queue_key_def chainMetaKey_def nextHashKey_def blockHashKey_def canonicalHashKey_def
      legacyBlockKey_def nextBlockKey_def starts_with_def)

lemmas chain_reads = chain_part_text chain_keys

lemma stored_chain_part: "getStoredBlocks E (Some (chain_part d)) = getStoredBlocks E (Some d)"
proof -
  let ?f = "\<lambda>blocks (k, v). if is_block_key k then foldl add_stored blocks (parseBlockJson E v) else blocks"
  have "queue_key k \<Longrightarrow> \<not> is_block_key k" for k by (cases k) (auto simp: is_block_key_def queue_key_def chainMetaKey_def)
  then have "foldl ?f bs (chain_part d) = foldl ?f bs d" for bs
    by (induction d arbitrary: bs) (auto simp: chain_part_def)
  then show ?thesis by (simp add: getStoredBlocks_def)
qed

lemma hash_chain_part: "getBlockByHash E (Some (chain_part d)) h = getBlockByHash E (Some d) h"
  by (simp add: getBlockByHash_def chain_reads)

lemma block_chain_part: "getBlock E (Some (chain_part d)) n = getBlock E (Some d) n"
  by (simp add: getBlock_def hash_chain_part chain_reads Let_def split: list.split)

lemma ids_chain_part:
  "getFirstBlockId (Some (chain_part d)) = getFirstBlockId (Some d)"
  "getLatestBlockId (Some (chain_part d)) = getLatestBlockId (Some d)"
  by (simp_all add: getFirstBlockId_def getLatestBlockId_def read_id_def chain_reads Let_def)

lemma next_chain_part: "getNextBlock E (Some (chain_part d)) = getNextBlock E (Some d)"
proof
  fix b
  have "getNextBlockByHash E (Some (chain_part d)) b = getNextBlockByHash E (Some d) b"
    by (simp add: getNextBlockByHash_def db_str_def chain_reads hash_chain_part block_chain_part stored_chain_part Let_def)
  moreover have "getNextBlockId E (Some (chain_part d)) n = getNextBlockId E (Some d) n" for n
    by (simp add: getNextBlockId_def chain_reads hash_chain_part block_chain_part Let_def)
  ultimately show "getNextBlock E (Some (chain_part d)) b = getNextBlock E (Some d) b"
    by (simp add: getNextBlock_def block_chain_part Let_def)
qed

lemma accepted_chain_part:
  "recordExistsInAcceptedChain E (Some (chain_part d)) h = recordExistsInAcceptedChain E (Some d) h"
  by (simp add: recordExistsInAcceptedChain_def ids_chain_part next_chain_part block_chain_part Let_def)

lemma pending_chain_part: "still_pending E (Some (chain_part d)) r = still_pending E (Some d) r"
  by (simp add: still_pending_def accepted_chain_part)

lemma same_chain_pending:
  "chain_part d = chain_part d' \<Longrightarrow> still_pending E (Some d) = still_pending E (Some d')"
  by (rule ext) (metis pending_chain_part)

section \<open>Keys in the order of their sequence numbers\<close>

lemma digit_val_bounds: "c_isdigit c \<Longrightarrow> 0 \<le> digit_val c \<and> digit_val c \<le> 9"
  by (auto simp: c_isdigit_def digit_val_def)

lemma digits_val_Cons: "digits_val (c # s) = digit_val c * 10 ^ length s + digits_val s"
proof (induction s rule: rev_induct)
  case (snoc x s)
  have "digits_val (c # s @ [x]) = 10 * digits_val (c # s) + digit_val x" using digits_val_snoc [of "c # s" x] by simp
  then show ?case using snoc by (simp add: digits_val_snoc algebra_simps)
qed (simp add: digits_val_def)

lemma digits_val_bounds: "list_all c_isdigit s \<Longrightarrow> 0 \<le> digits_val s \<and> digits_val s < 10 ^ length s"
proof (induction s)
  case (Cons c s)
  then have "digit_val c * 10 ^ length s \<le> 9 * 10 ^ length s" using digit_val_bounds [of c] by (intro mult_right_mono) auto
  then have "digit_val c * 10 ^ length s + digits_val s < 10 * 10 ^ length s" using Cons.IH Cons.prems unfolding list.pred_inject by linarith
  then show ?case using Cons digit_val_bounds [of c] by (simp add: digits_val_Cons)
qed (simp add: digits_val_def)

lemma digit_less: "c_isdigit c \<Longrightarrow> c_isdigit e \<Longrightarrow> digit_val c < digit_val e \<Longrightarrow> c < e"
  by (simp add: digit_val_def code_def less_char_def)

lemma digits_less:
  assumes "length s = length t" and "list_all c_isdigit s" and "list_all c_isdigit t" and "digits_val s < digits_val t"
  shows "s < t"
  using assms
proof (induction s t rule: list_induct2)
  case (Cons c s e t)
  have b: "0 \<le> digits_val s" "digits_val t < 10 ^ length s" using Cons.prems Cons.hyps digits_val_bounds [of s] digits_val_bounds [of t] by auto
  have "(digit_val c - digit_val e) * 10 ^ length s < 10 ^ length s"
    using Cons.prems(3) Cons.hyps b by (simp add: digits_val_Cons algebra_simps)
  then have "digit_val c \<le> digit_val e"
    by (metis linorder_not_le mult_le_cancel_right1 not_less_iff_gr_or_eq int_one_le_iff_zero_less diff_gt_0_iff_gt zero_less_power zero_less_numeral)
  then consider "digit_val c < digit_val e" | "digit_val c = digit_val e" by linarith
  then show ?case
  proof cases
    case 1
    then have "c < e" using Cons.prems digit_less by simp
    then show ?thesis by simp
  next
    case 2
    then have "c = e" using Cons.prems digit_less by (auto simp: digit_val_def code_def)
    moreover have "s < t" using Cons 2 by (simp add: digits_val_Cons)
    ultimately show ?thesis by simp
  qed
qed (simp add: digits_val_def)

lemma less_append: "(s::string) < t \<Longrightarrow> length s = length t \<Longrightarrow> s @ u < t @ v"
  by (induction s t rule: list_induct2') auto

lemma less_same_prefix: "(s::string) < t \<Longrightarrow> p @ s < p @ t"
  by (induction p) auto

lemma length_show_nat: "n < 10 ^ Suc k \<Longrightarrow> length (show_nat n) \<le> Suc k"
proof (induction k arbitrary: n)
  case 0
  then show ?case by (simp add: show_nat.simps)
next
  case (Suc k)
  have "n div 10 < 10 ^ Suc k" using Suc.prems by (simp add: less_mult_imp_div_less)
  then have "length (show_nat (n div 10)) \<le> Suc k" by (rule Suc.IH)
  then show ?case by (subst show_nat.simps) simp
qed

lemma digits_val_zeros: "digits_val (replicate k (CHR ''0'') @ s) = digits_val s"
proof (induction k)
  case (Suc k)
  have "digit_val (CHR ''0'') = 0" by code_simp
  then show ?case using Suc by (simp add: digits_val_Cons)
qed simp

lemma pad20_digits:
  assumes "0 \<le> n" and "n \<le> LONG_MAX"
  shows "length (pad20 (show_long n)) = 20" "list_all c_isdigit (pad20 (show_long n))" "digits_val (pad20 (show_long n)) = n"
proof -
  have "nat n < 10 ^ Suc 19" using assms by (simp add: LONG_MAX_def)
  then have "length (show_nat (nat n)) \<le> Suc 19" by (rule length_show_nat)
  moreover have s: "show_long n = show_nat (nat n)" using assms by (simp add: show_long_def)
  ultimately show "length (pad20 (show_long n)) = 20" by (simp add: pad20_def)
  have "c_isdigit (CHR ''0'')" by code_simp
  then show "list_all c_isdigit (pad20 (show_long n))" using show_nat_isdigit [of "nat n"] by (auto simp: pad20_def s list_all_iff)
  show "digits_val (pad20 (show_long n)) = n" using assms by (simp add: pad20_def digits_val_zeros s digits_val_show_nat)
qed

lemma record_key_less:
  assumes "0 \<le> m" and "m < n" and "n \<le> LONG_MAX"
  shows "mempoolRecordKey m g < mempoolRecordKey n h"
proof -
  have "pad20 (show_long m) < pad20 (show_long n)"
    using assms pad20_digits [of m] pad20_digits [of n] by (intro digits_less) auto
  then show ?thesis
    unfolding mempoolRecordKey_def using assms pad20_digits(1) [of m] pad20_digits(1) [of n]
    by (intro less_same_prefix less_append) auto
qed

section \<open>The queue in the database\<close>

lemma queue_prefixes:
  "queue_key (mempoolRecordKey n h)" "queue_key (MEMPOOL_HASH_PREFIX @ h)" "queue_key MEMPOOL_SEQUENCE_KEY"
  "starts_with (mempoolRecordKey n h) MEMPOOL_RECORD_PREFIX"
  "\<not> starts_with (mempoolRecordKey n h) MEMPOOL_HASH_PREFIX"
  "\<not> starts_with (MEMPOOL_HASH_PREFIX @ h) MEMPOOL_RECORD_PREFIX"
  "\<not> starts_with MEMPOOL_SEQUENCE_KEY MEMPOOL_RECORD_PREFIX"
  "\<not> starts_with MEMPOOL_SEQUENCE_KEY MEMPOOL_HASH_PREFIX"
  by (simp_all add: queue_key_def mempoolRecordKey_def MEMPOOL_RECORD_PREFIX_def MEMPOOL_HASH_PREFIX_def
      MEMPOOL_SEQUENCE_KEY_def starts_with_def)

lemma queue_keys_neq [simp]:
  "mempoolRecordKey n h \<noteq> MEMPOOL_HASH_PREFIX @ g" "mempoolRecordKey n h \<noteq> MEMPOOL_SEQUENCE_KEY"
  "MEMPOOL_HASH_PREFIX @ h \<noteq> MEMPOOL_SEQUENCE_KEY"
  by (simp_all add: mempoolRecordKey_def MEMPOOL_RECORD_PREFIX_def MEMPOOL_HASH_PREFIX_def MEMPOOL_SEQUENCE_KEY_def)

lemmas queue_keys_neq_sym [simp] = queue_keys_neq [symmetric]

definition mempool_records :: "env \<Rightarrow> kvdb \<Rightarrow> record_structure list" where
  "mempool_records E d = map (\<lambda>k. parseRecordJson E (db_text d k)) (keys_with_prefix d MEMPOOL_RECORD_PREFIX)"

text \<open>A record that may wait in the queue: it can be written without loss, and it is wanted.\<close>

definition queueable :: "env \<Rightarrow> dbh \<Rightarrow> record_structure \<Rightarrow> bool" where
  "queueable E db r \<longleftrightarrow> printable_record E r \<and> r_hash r \<noteq> [] \<and> still_pending E db r"

text \<open>An entry under a record key, given the next sequence number.\<close>

definition mempool_entry :: "env \<Rightarrow> kvdb \<Rightarrow> string \<Rightarrow> bool" where
  "mempool_entry E d k \<longleftrightarrow>
     (\<exists>n r. 1 \<le> n \<and> n < nextMempoolSequence d \<and> k = mempoolRecordKey n (r_hash r) \<and> db_text d k = recordJSON E r \<and>
       queueable E (Some d) r)"

definition mempool_ok :: "env \<Rightarrow> kvdb \<Rightarrow> bool" where
  "mempool_ok E d \<longleftrightarrow>
     sm_inv d \<and> (\<forall>k \<in> set (keys_with_prefix d MEMPOOL_RECORD_PREFIX). mempool_entry E d k) \<and>
     distinct (map r_hash (mempool_records E d)) \<and>
     (\<forall>h. h \<noteq> [] \<longrightarrow> (sm_get d (MEMPOOL_HASH_PREFIX @ h) \<noteq> None \<longleftrightarrow> h \<in> r_hash ` set (mempool_records E d)))"

lemma mempool_records_queueable: "mempool_ok E d \<Longrightarrow> r \<in> set (mempool_records E d) \<Longrightarrow> queueable E (Some d) r"
  by (auto simp: mempool_ok_def mempool_records_def mempool_entry_def queueable_def parseRecordJson_recordJSON)

lemma dedupe_distinct:
  "distinct (map r_hash rs) \<Longrightarrow> \<forall>r \<in> set rs. r_hash r \<noteq> [] \<and> r_hash r \<notin> seen \<Longrightarrow> dedupe_from seen rs = rs"
proof (induction rs arbitrary: seen)
  case (Cons r rs)
  then have "dedupe_from (insert (r_hash r) seen) rs = rs" by (intro Cons.IH) (auto, metis imageI)
  then show ?case using Cons.prems by simp
qed simp

lemma legacy_none [simp]: "legacyQueueRecords E [] = []"
  by (simp add: legacyQueueRecords_def)

lemma database_records:
  assumes "mempool_ok E d"
  shows "databaseMempoolRecords E (Some d) = (mempool_records E d, Some d)"
proof -
  have p: "still_pending E (Some d) (parseRecordJson E (db_text d k))" if "k \<in> set (keys_with_prefix d MEMPOOL_RECORD_PREFIX)" for k
    using mempool_records_queueable [OF assms, of "parseRecordJson E (db_text d k)"] that
    by (auto simp: mempool_records_def queueable_def)
  have "filter (still_pending E (Some d)) (mempool_records E d) = mempool_records E d"
    using p by (auto simp: mempool_records_def filter_id_conv)
  moreover have "concat (map (\<lambda>k. if still_pending E (Some d) (parseRecordJson E (db_text d k)) then [] else f k)
      (keys_with_prefix d MEMPOOL_RECORD_PREFIX)) = []" for f :: "string \<Rightarrow> db_op list"
    using p by simp
  ultimately show ?thesis
    by (simp add: databaseMempoolRecords_def Let_def write_batch_def mempool_records_def comp_def del: concat_eq_Nil_conv)
qed

lemma dedupe_mempool: "mempool_ok E d \<Longrightarrow> dedupePendingRecords (mempool_records E d) = mempool_records E d"
  using mempool_records_queueable [of E d]
  by (simp add: dedupePendingRecords_def dedupe_distinct mempool_ok_def queueable_def)

lemma peek_database: "mempool_ok E d \<Longrightarrow> peekQueueRecords E (Some d, []) = (mempool_records E d, (Some d, []))"
  by (simp add: peekQueueRecords_def database_records dedupe_mempool)

lemma keys_with_prefix_sorted: "sm_inv d \<Longrightarrow> sorted_wrt (<) (keys_with_prefix d p)"
  by (simp add: keys_with_prefix_filter sorted_wrt_filter ldb.keys_sorted)

lemma keys_with_prefix_set: "sm_inv d \<Longrightarrow> set (keys_with_prefix d p) = {k. starts_with k p \<and> sm_get d k \<noteq> None}"
  by (auto simp: keys_with_prefix_filter kv_keys_dom)

lemma keys_with_prefix_snoc:
  assumes "sm_inv d" and "sm_inv d'" and "\<forall>x \<in> set (keys_with_prefix d p). x < k"
    and "\<And>x. starts_with x p \<and> sm_get d' x \<noteq> None \<longleftrightarrow> x = k \<or> starts_with x p \<and> sm_get d x \<noteq> None"
  shows "keys_with_prefix d' p = keys_with_prefix d p @ [k]"
proof (rule strict_sorted_equal)
  show "sorted_wrt (<) (keys_with_prefix d p @ [k])" using keys_with_prefix_sorted [OF assms(1)] assms(3) by (simp add: sorted_wrt_append)
  show "sorted_wrt (<) (keys_with_prefix d' p)" by (rule keys_with_prefix_sorted [OF assms(2)])
  show "set (keys_with_prefix d' p) = set (keys_with_prefix d p @ [k])"
    using assms(4) unfolding set_append keys_with_prefix_set [OF assms(1)] keys_with_prefix_set [OF assms(2)] by auto
qed

text \<open>Adding a record writes three entries.\<close>

definition mempool_added :: "env \<Rightarrow> record_structure \<Rightarrow> kvdb \<Rightarrow> kvdb" where
  "mempool_added E r d =
     (let n = nextMempoolSequence d; k = mempoolRecordKey n (r_hash r)
      in sm_put MEMPOOL_SEQUENCE_KEY (show_long (n + 1)) (sm_put (MEMPOOL_HASH_PREFIX @ r_hash r) k (sm_put k (recordJSON E r) d)))"

lemma queueable_add_checks:
  assumes "queueable E db r"
  shows "isRecordSizeValid E r" "\<not> isExpiredHeartbeatRecord E r (-1)" "\<not> recordExistsInAcceptedChain E db (r_hash r)" "r_hash r \<noteq> []"
  using assms by (auto simp: queueable_def still_pending_def pendingRecordLooksUsable_def)

lemma add_database:
  assumes "mempool_ok E d" and "queueable E (Some d) r"
  shows "addToQueue E r (Some d, []) =
    (1, (Some (if r_hash r \<in> r_hash ` set (mempool_records E d) then d else mempool_added E r d), []))"
proof -
  have "sm_get d (MEMPOOL_HASH_PREFIX @ r_hash r) \<noteq> None \<longleftrightarrow> r_hash r \<in> r_hash ` set (mempool_records E d)"
    using assms(1) queueable_add_checks(4) [OF assms(2)] by (auto simp: mempool_ok_def)
  then show ?thesis
    using queueable_add_checks [OF assms(2)]
    by (auto simp: addToQueue_def Let_def write_batch_def apply_op_def mempool_added_def)
qed

lemma next_positive: "1 \<le> nextMempoolSequence d"
  by (auto simp: nextMempoolSequence_def split: option.splits)

lemma next_added: "nextMempoolSequence d < LONG_MAX \<Longrightarrow> nextMempoolSequence (mempool_added E r d) = nextMempoolSequence d + 1"
  using next_positive [of d] atol_show_long [of "nextMempoolSequence d + 1"]
  by (subst nextMempoolSequence_def) (auto simp: mempool_added_def Let_def smap_simps in_long_def LONG_MIN_def)

lemma chain_part_added: "chain_part (mempool_added E r d) = chain_part d"
  by (simp add: mempool_added_def Let_def chain_part_put queue_prefixes)

lemma queueable_added: "queueable E (Some (mempool_added E r d)) = queueable E (Some d)"
  by (rule ext) (simp add: queueable_def same_chain_pending [OF chain_part_added])

lemma mempool_added_text:
  "starts_with k MEMPOOL_RECORD_PREFIX \<Longrightarrow>
   db_text (mempool_added E r d) k = (if k = mempoolRecordKey (nextMempoolSequence d) (r_hash r) then recordJSON E r else db_text d k)"
  using queue_prefixes(6) [of "r_hash r"] queue_prefixes(7) by (auto simp: mempool_added_def Let_def smap_simps)

lemma mempool_keys_less:
  assumes "mempool_ok E d" and "nextMempoolSequence d < LONG_MAX" and "k \<in> set (keys_with_prefix d MEMPOOL_RECORD_PREFIX)"
  shows "k < mempoolRecordKey (nextMempoolSequence d) h"
  using assms by (auto simp: mempool_ok_def mempool_entry_def intro!: record_key_less)

lemma mempool_added_keys:
  assumes "mempool_ok E d" and "nextMempoolSequence d < LONG_MAX"
  shows "keys_with_prefix (mempool_added E r d) MEMPOOL_RECORD_PREFIX =
    keys_with_prefix d MEMPOOL_RECORD_PREFIX @ [mempoolRecordKey (nextMempoolSequence d) (r_hash r)]"
proof (rule keys_with_prefix_snoc)
  show d: "sm_inv d" using assms(1) by (simp add: mempool_ok_def)
  then show "sm_inv (mempool_added E r d)" by (simp add: mempool_added_def Let_def smap_simps)
  show "\<forall>x \<in> set (keys_with_prefix d MEMPOOL_RECORD_PREFIX). x < mempoolRecordKey (nextMempoolSequence d) (r_hash r)"
    using mempool_keys_less [OF assms] by blast
  show "starts_with x MEMPOOL_RECORD_PREFIX \<and> sm_get (mempool_added E r d) x \<noteq> None \<longleftrightarrow>
      x = mempoolRecordKey (nextMempoolSequence d) (r_hash r) \<or> starts_with x MEMPOOL_RECORD_PREFIX \<and> sm_get d x \<noteq> None" for x
    using queue_prefixes(4) [of "nextMempoolSequence d" "r_hash r"] queue_prefixes(6) [of "r_hash r"] queue_prefixes(7)
    by (auto simp: mempool_added_def Let_def smap_simps)
qed

lemma mempool_added_records:
  assumes "mempool_ok E d" and "nextMempoolSequence d < LONG_MAX" and "printable_record E r"
  shows "mempool_records E (mempool_added E r d) = mempool_records E d @ [r]"
proof -
  have "mempoolRecordKey (nextMempoolSequence d) (r_hash r) \<notin> set (keys_with_prefix d MEMPOOL_RECORD_PREFIX)"
    using mempool_keys_less [OF assms(1,2)] order_less_irrefl by blast
  moreover have "starts_with k MEMPOOL_RECORD_PREFIX" if "k \<in> set (keys_with_prefix d MEMPOOL_RECORD_PREFIX)" for k
    using that assms(1) by (auto simp: mempool_ok_def keys_with_prefix_set)
  ultimately show ?thesis
    using assms(3) unfolding mempool_records_def mempool_added_keys [OF assms(1,2)]
    by (simp add: mempool_added_text queue_prefixes parseRecordJson_recordJSON)
qed

lemma mempool_added_ok:
  assumes ok: "mempool_ok E d" and room: "nextMempoolSequence d < LONG_MAX" and r: "queueable E (Some d) r"
    and new: "r_hash r \<notin> r_hash ` set (mempool_records E d)"
  shows "mempool_ok E (mempool_added E r d)"
proof -
  let ?d = "mempool_added E r d" and ?k = "mempoolRecordKey (nextMempoolSequence d) (r_hash r)"
  have pr: "printable_record E r" using r by (simp add: queueable_def)
  have inv: "sm_inv d" using ok by (simp add: mempool_ok_def)
  then have inv': "sm_inv ?d" by (simp add: mempool_added_def Let_def smap_simps)
  have recs: "mempool_records E ?d = mempool_records E d @ [r]" by (rule mempool_added_records [OF ok room pr])
  have "mempool_entry E ?d k" if k: "k \<in> set (keys_with_prefix ?d MEMPOOL_RECORD_PREFIX)" for k
  proof -
    consider "k = ?k" | "k \<in> set (keys_with_prefix d MEMPOOL_RECORD_PREFIX)" using k mempool_added_keys [OF ok room] by auto
    then show ?thesis
    proof cases
      case 1
      have "db_text ?d ?k = recordJSON E r" by (simp add: mempool_added_text queue_prefixes)
      then show ?thesis
        using 1 r next_positive [of d] unfolding mempool_entry_def next_added [OF room] queueable_added
        by (intro exI [of _ "nextMempoolSequence d"] exI [of _ r]) simp
    next
      case 2
      then have "mempool_entry E d k" using ok by (simp add: mempool_ok_def)
      moreover have "db_text ?d k = db_text d k"
        using 2 mempool_keys_less [OF ok room 2, of "r_hash r"] inv
        by (subst mempool_added_text) (auto simp: keys_with_prefix_set)
      ultimately show ?thesis unfolding mempool_entry_def next_added [OF room] queueable_added by force
    qed
  qed
  moreover have "distinct (map r_hash (mempool_records E ?d))" using ok new by (simp add: recs mempool_ok_def)
  moreover have "sm_get ?d (MEMPOOL_HASH_PREFIX @ h) \<noteq> None \<longleftrightarrow> h \<in> r_hash ` set (mempool_records E ?d)" if "h \<noteq> []" for h
  proof -
    have "sm_get ?d (MEMPOOL_HASH_PREFIX @ h) \<noteq> None \<longleftrightarrow> h = r_hash r \<or> sm_get d (MEMPOOL_HASH_PREFIX @ h) \<noteq> None"
      by (simp add: mempool_added_def Let_def smap_simps)
    also have "\<dots> \<longleftrightarrow> h = r_hash r \<or> h \<in> r_hash ` set (mempool_records E d)" using ok that by (simp add: mempool_ok_def)
    finally show ?thesis by (auto simp: recs)
  qed
  ultimately show ?thesis using inv' unfolding mempool_ok_def by blast
qed

text \<open>Draining removes the records and their index, and nothing else.\<close>

lemma mempool_prefixed:
  "starts_with k MEMPOOL_RECORD_PREFIX \<Longrightarrow> queue_key k" "starts_with k MEMPOOL_HASH_PREFIX \<Longrightarrow> queue_key k"
proof -
  have "starts_with k (p @ s) \<Longrightarrow> starts_with k p" for p s
    unfolding starts_with_def by (drule arg_cong [of _ _ "take (length p)"]) (simp add: min_def)
  from this [of "''mempool:''" "''record:''"] this [of "''mempool:''" "''hash:''"]
  show "starts_with k MEMPOOL_RECORD_PREFIX \<Longrightarrow> queue_key k" "starts_with k MEMPOOL_HASH_PREFIX \<Longrightarrow> queue_key k"
    by (auto simp: queue_key_def MEMPOOL_RECORD_PREFIX_def MEMPOOL_HASH_PREFIX_def)
qed

lemma clear_database:
  assumes "sm_inv d"
  obtains d' where "clearDatabaseMempool (Some d) = Some d'" "sm_inv d'"
    "\<And>k. sm_get d' k = (if starts_with k MEMPOOL_RECORD_PREFIX \<or> starts_with k MEMPOOL_HASH_PREFIX then None else sm_get d k)"
    "chain_part d' = chain_part d"
proof -
  define ks where "ks = keys_with_prefix d MEMPOOL_RECORD_PREFIX @ keys_with_prefix d MEMPOOL_HASH_PREFIX"
  have "clearDatabaseMempool (Some d) = Some (fold sm_del ks d)"
    by (simp add: clearDatabaseMempool_def ks_def map_append [symmetric] write_batch_deletes del: map_append)
  moreover have "sm_get (fold sm_del ks d) k =
      (if starts_with k MEMPOOL_RECORD_PREFIX \<or> starts_with k MEMPOOL_HASH_PREFIX then None else sm_get d k)" for k
    unfolding ldb.get_fold_del ks_def by (auto simp: keys_with_prefix_set assms)
  moreover have "\<forall>k \<in> set ks. queue_key k"
    by (auto simp: ks_def keys_with_prefix_set assms mempool_prefixed)
  then have "chain_part (fold sm_del ks d) = chain_part d"
    by (induction ks arbitrary: d) (simp_all add: chain_part_del)
  ultimately show ?thesis using that ldb.ok_fold_del [OF assms] by blast
qed

lemma mempool_clear:
  assumes "mempool_ok E d"
  obtains d' where "clearDatabaseMempool (Some d) = Some d'" "mempool_ok E d'" "mempool_records E d' = []"
    "chain_part d' = chain_part d" "nextMempoolSequence d' = nextMempoolSequence d"
proof -
  have inv: "sm_inv d" using assms by (simp add: mempool_ok_def)
  obtain d' where d': "clearDatabaseMempool (Some d) = Some d'" "sm_inv d'"
    "\<And>k. sm_get d' k = (if starts_with k MEMPOOL_RECORD_PREFIX \<or> starts_with k MEMPOOL_HASH_PREFIX then None else sm_get d k)"
    "chain_part d' = chain_part d"
    using clear_database [OF inv] by metis
  have "set (keys_with_prefix d' MEMPOOL_RECORD_PREFIX) = {}" using keys_with_prefix_set [OF d'(2), of MEMPOOL_RECORD_PREFIX] d'(3) by auto
  then have none: "keys_with_prefix d' MEMPOOL_RECORD_PREFIX = []" by simp
  then have recs: "mempool_records E d' = []" by (simp add: mempool_records_def)
  moreover have "mempool_ok E d'" using d'(2,3) none recs by (simp add: mempool_ok_def)
  moreover have "nextMempoolSequence d' = nextMempoolSequence d" by (simp add: nextMempoolSequence_def d'(3) queue_prefixes)
  ultimately show ?thesis using that d'(1,4) by blast
qed

section \<open>Both queues meet the contract\<close>

definition pending :: "env \<Rightarrow> queue \<Rightarrow> record_structure list" where
  "pending E q = fst (peekQueueRecords E q)"

definition enqueue :: "env \<Rightarrow> record_structure \<Rightarrow> queue \<Rightarrow> queue" where
  "enqueue E r q = snd (addToQueue E r q)"

definition database_queue :: "env \<Rightarrow> queue \<Rightarrow> bool" where
  "database_queue E q \<longleftrightarrow> (\<exists>d. q = (Some d, []) \<and> mempool_ok E d)"

text \<open>The sequence number is a \<open>long\<close>: there is room until it is used up.\<close>

definition database_room :: "queue \<Rightarrow> nat \<Rightarrow> bool" where
  "database_room q n \<longleftrightarrow> (\<forall>d. fst q = Some d \<longrightarrow> nextMempoolSequence d + int n \<le> LONG_MAX)"

interpretation dbq: fifo_queue "database_queue E" "pending E" "\<lambda>q. queueable E (fst q)" database_room "enqueue E"
    "parseQueueRecords E" r_hash for E
proof unfold_locales
  fix q r s and n :: nat
  {
    assume ok: "database_queue E q" and fits: "queueable E (fst q) r" and room: "database_room q (Suc n)"
    then obtain d where d: "q = (Some d, [])" "mempool_ok E d" "queueable E (Some d) r" "nextMempoolSequence d < LONG_MAX"
      by (auto simp: database_queue_def database_room_def)
    have add: "enqueue E r q = (Some (if r_hash r \<in> r_hash ` set (mempool_records E d) then d else mempool_added E r d), [])"
      using add_database [OF d(2,3)] by (simp add: enqueue_def d(1))
    note added = mempool_added_ok [OF d(2,4,3)]
    show "database_queue E (enqueue E r q)" using added d(2) by (auto simp: add database_queue_def)
    have pr: "printable_record E r" using fits by (simp add: queueable_def)
    have "pending E q = mempool_records E d" using peek_database [OF d(2)] by (simp add: pending_def d(1))
    then show "pending E (enqueue E r q) = fifo_add r_hash r (pending E q)"
      using peek_database [OF added] peek_database [OF d(2)] mempool_added_records [OF d(2,4) pr]
      by (simp add: add fifo_add_def) (simp add: pending_def)
    show "queueable E (fst q) s \<Longrightarrow> queueable E (fst (enqueue E r q)) s" using queueable_added unfolding add by (simp add: d(1))
    show "database_room (enqueue E r q) n" using room next_added [OF d(4)] unfolding add by (simp add: database_room_def d(1))
  }
  {
    assume "database_queue E q"
    then obtain d where d: "q = (Some d, [])" "mempool_ok E d" by (auto simp: database_queue_def)
    obtain d' where d': "clearDatabaseMempool (Some d) = Some d'" "mempool_ok E d'" "mempool_records E d' = []"
      "chain_part d' = chain_part d" "nextMempoolSequence d' = nextMempoolSequence d"
      using mempool_clear [OF d(2)] by metis
    have parse: "parseQueueRecords E q = (mempool_records E d, (Some d', []))"
      by (simp add: parseQueueRecords_def d(1) database_records [OF d(2)] dedupe_mempool [OF d(2)] d'(1))
    show "fst (parseQueueRecords E q) = pending E q" using peek_database [OF d(2)] by (simp add: parse) (simp add: pending_def d(1))
    show "pending E (snd (parseQueueRecords E q)) = []" using peek_database [OF d'(2)] d'(3) by (simp add: parse) (simp add: pending_def)
    show "database_queue E (snd (parseQueueRecords E q))" using d'(2) by (simp add: parse database_queue_def)
    show "queueable E (fst q) s \<Longrightarrow> queueable E (fst (snd (parseQueueRecords E q))) s"
      unfolding parse by (simp add: d(1) queueable_def same_chain_pending [OF d'(4)])
    show "database_room q (Suc n) \<Longrightarrow> database_room (snd (parseQueueRecords E q)) n"
      unfolding parse by (simp add: d(1) database_room_def d'(5))
  }
qed

text \<open>The file: one record on each line.\<close>

definition on_a_line :: "env \<Rightarrow> record_structure \<Rightarrow> bool" where
  "on_a_line E r \<longleftrightarrow> queueable E None r \<and> NL \<notin> set (record_fields E r)"

definition file_queue :: "env \<Rightarrow> queue \<Rightarrow> bool" where
  "file_queue E q \<longleftrightarrow> (\<exists>rs. q = (None, concat (map (recordJSON E) rs)) \<and> (\<forall>r \<in> set rs. on_a_line E r) \<and> distinct (map r_hash rs))"

lemma file_lines:
  assumes "\<forall>r \<in> set rs. on_a_line E r"
  shows "legacyQueueRecords E (concat (map (recordJSON E) rs)) = rs"
  using assms
proof (induction rs)
  case (Cons r rs)
  have "NL \<notin> set (record_open @ record_fields E r @ ''}}'')" using Cons.prems by (auto simp: on_a_line_def record_open_def)
  from getlines_line [OF this, of "[]" "concat (map (recordJSON E) rs)"]
  have "getlines [] (concat (map (recordJSON E) (r # rs))) =
      (record_open @ record_fields E r @ ''}}'') # getlines [] (concat (map (recordJSON E) rs))"
    by (simp add: recordJSON_def record_open_def)
  moreover have "parseRecordJson E (record_open @ record_fields E r @ ''}}'') = r"
    using Cons.prems parseRecordJson_shell [OF _ shell_record [of "[]"], of E r] by (simp add: on_a_line_def queueable_def)
  moreover have "pendingRecordLooksUsable E r" using Cons.prems by (simp add: on_a_line_def queueable_def still_pending_def)
  ultimately show ?case using Cons by (simp add: legacyQueueRecords_def)
qed simp

lemma no_database [simp]: "databaseMempoolRecords E None = ([], None)" "clearDatabaseMempool None = None"
  by (simp_all add: databaseMempoolRecords_def clearDatabaseMempool_def)

lemma peek_file:
  assumes "\<forall>r \<in> set rs. on_a_line E r" and "distinct (map r_hash rs)"
  shows "pending E (None, concat (map (recordJSON E) rs)) = rs"
  using assms by (simp add: pending_def peekQueueRecords_def file_lines dedupePendingRecords_def)
    (rule dedupe_distinct; auto simp: on_a_line_def queueable_def)

lemma file_queue_Nil: "file_queue E (None, [])"
  unfolding file_queue_def by (rule exI [of _ "[]"]) simp

interpretation fileq: fifo_queue "file_queue E" "pending E" "\<lambda>q. on_a_line E" "\<lambda>q n. True" "enqueue E"
    "parseQueueRecords E" r_hash for E
proof unfold_locales
  fix q r s
  {
    assume "file_queue E q" and fits: "on_a_line E r"
    then obtain rs where rs: "q = (None, concat (map (recordJSON E) rs))" "\<forall>r \<in> set rs. on_a_line E r" "distinct (map r_hash rs)"
      by (auto simp: file_queue_def)
    have "queueable E None r" using fits by (simp add: on_a_line_def)
    from queueable_add_checks [OF this]
    have add: "enqueue E r q = (None, concat (map (recordJSON E) (if r_hash r \<in> r_hash ` set rs then rs else rs @ [r])))"
      by (simp add: enqueue_def addToQueue_def rs(1) file_lines [OF rs(2)] image_iff) metis
    have new: "\<forall>r \<in> set (rs @ [r]). on_a_line E r" using rs(2) fits by simp
    show "file_queue E (enqueue E r q)"
      unfolding add file_queue_def using rs(2,3) new
      by (intro exI [of _ "if r_hash r \<in> r_hash ` set rs then rs else rs @ [r]"]) auto
    have "pending E q = rs" using peek_file [OF rs(2,3)] by (simp add: rs(1))
    then show "pending E (enqueue E r q) = fifo_add r_hash r (pending E q)"
      using rs(2,3) peek_file [OF rs(2,3)] peek_file [OF new] unfolding add fifo_add_def by auto
  }
  {
    assume "file_queue E q"
    then obtain rs where rs: "q = (None, concat (map (recordJSON E) rs))" "\<forall>r \<in> set rs. on_a_line E r" "distinct (map r_hash rs)"
      by (auto simp: file_queue_def)
    have parse: "parseQueueRecords E q = (pending E q, (None, []))" by (simp add: parseQueueRecords_def pending_def peekQueueRecords_def rs(1))
    show "fst (parseQueueRecords E q) = pending E q" by (simp add: parse)
    have none: "file_queue E (None, [])" by (rule file_queue_Nil)
    show "pending E (snd (parseQueueRecords E q)) = []" using peek_file [of "[]" E] by (simp add: parse)
    show "file_queue E (snd (parseQueueRecords E q))" using none by (simp add: parse)
  }
qed

section \<open>The refinement\<close>

text \<open>
  C18. The queue of pending records in the database implements a first-in first-out queue
  without duplicates, over any sequence of additions and drains. The abstract queue is the list of
  waiting records: adding a record whose hash is that of a waiting record changes nothing, any
  other record goes to the end, and draining returns all of them in order and leaves none. From a
  well-formed queue, if the records that are added are printable and wanted (not in the chain,
  usable) and enough sequence numbers of type \<open>long\<close> are left, then every drain returns what the
  abstract queue returns, the records that \<open>peekQueueRecords\<close> offers in the end are those of the
  abstract queue, and the queue is well-formed. Nothing is assumed of the hashes of the records:
  duplicates among them and of waiting ones are the code's to find.
\<close>

theorem queue_refines_fifo:
  assumes "mempool_ok E d" and "\<forall>r \<in> added_records ops. queueable E (Some d) r" and "nextMempoolSequence d + int (length ops) \<le> LONG_MAX"
  shows "map_prod id (pending E) (run_ops (enqueue E) (parseQueueRecords E) ops (Some d, [])) =
      run_ops (fifo_add r_hash) fifo_drain ops (pending E (Some d, [])) \<and>
    database_queue E (snd (run_ops (enqueue E) (parseQueueRecords E) ops (Some d, [])))"
proof -
  have "database_queue E (Some d, [])" "\<forall>r \<in> added_records ops. queueable E (fst (Some d, [])) r" "database_room (Some d, []) (length ops)"
    using assms by (simp_all add: database_queue_def database_room_def)
  from dbq.simulation [OF this] show ?thesis by (metis map_prod_simp id_apply prod.collapse)
qed

text \<open>
  Where the database is not open the file \<open>queue.dat\<close> is used in its place, and it
  implements the same queue for records whose texts hold no line break.
\<close>

theorem queue_file_refines_fifo:
  assumes "\<forall>r \<in> added_records ops. on_a_line E r"
  shows "map_prod id (pending E) (run_ops (enqueue E) (parseQueueRecords E) ops (None, [])) =
      run_ops (fifo_add r_hash) fifo_drain ops []"
proof -
  have "file_queue E (None, [])" "pending E (None, []) = []" using peek_file [of "[]" E] file_queue_Nil by simp_all
  with fileq.simulation [of E "(None, [])" ops] assms show ?thesis by (metis map_prod_simp id_apply prod.collapse)
qed

end
