(* ===== verification/ApiSafety.thy ===== *)
theory ApiSafety
  imports ApiFrame MempoolFacts
begin

text \<open>
  The three interpretations of the frames of \<open>ApiFrame\<close>: no sequence of requests and background
  work damages the store of blocks, there is never more than one background job, and the table
  of the rate limiter stays bounded.
\<close>

section \<open>What leaves the store alone\<close>

lemma growth_chain_part:
  assumes "chain_part d' = chain_part d"
  shows "sound_growth E (Some d) (Some d')"
proof (rule growth_same)
  have "stored (Some d) h = stored (Some (chain_part d)) h" for d h
    by (simp add: stored_def db_str_def chain_reads)
  then show "stored (Some d') = stored (Some d)" using assms by (metis ext)
  show "getFirstBlockId (Some d') = getFirstBlockId (Some d)" using ids_chain_part(1) assms by metis
qed

lemma chain_part_batch:
  "\<forall>op \<in> set ops. case op of Put k v \<Rightarrow> queue_key k | Delete k \<Rightarrow> queue_key k \<Longrightarrow> chain_part (write_batch ops d) = chain_part d"
  unfolding write_batch_def
proof (induction ops arbitrary: d)
  case Nil
  then show ?case by simp
next
  case (Cons op ops)
  then show ?case by (cases op) (simp_all add: apply_op_def chain_part_put chain_part_del)
qed

lemma record_prefix_key: "starts_with k MEMPOOL_RECORD_PREFIX \<Longrightarrow> queue_key k"
proof -
  assume "starts_with k MEMPOOL_RECORD_PREFIX"
  then have "k = MEMPOOL_RECORD_PREFIX @ drop (length MEMPOOL_RECORD_PREFIX) k"
    by (metis append_take_drop_id starts_with_def)
  then obtain r where "k = MEMPOOL_RECORD_PREFIX @ r" ..
  then show ?thesis by (simp add: queue_key_def MEMPOOL_RECORD_PREFIX_def starts_with_def)
qed

lemma chain_part_peek: "snd (databaseMempoolRecords E (Some d)) = Some d' \<Longrightarrow> chain_part d' = chain_part d"
proof -
  assume a: "snd (databaseMempoolRecords E (Some d)) = Some d'"
  have "queue_key k" if "k \<in> set (keys_with_prefix d MEMPOOL_RECORD_PREFIX)" for k
    using that record_prefix_key unfolding keys_with_prefix_def by (meson set_takeWhileD)
  then show ?thesis
    using a by (auto simp: databaseMempoolRecords_def Let_def queue_prefixes intro!: chain_part_batch)
qed

lemma growth_peek: "sound_growth E' db (fst (snd (peekQueueRecords E (db, file))))"
proof (cases db)
  case None
  then show ?thesis by (simp add: peekQueueRecords_def databaseMempoolRecords_def growth_refl)
next
  case (Some d)
  obtain d' where d': "snd (databaseMempoolRecords E (Some d)) = Some d'" by (simp add: databaseMempoolRecords_def Let_def)
  then show ?thesis
    using growth_chain_part [OF chain_part_peek [OF d']] by (simp add: Some peekQueueRecords_def case_prod_beta)
qed

lemma growth_queue: "sound_growth E' db (fst (snd (addToQueue E r (db, file))))"
  by (cases db) (auto simp: addToQueue_def growth_refl Let_def queue_prefixes
      intro!: growth_chain_part chain_part_batch split: if_splits)

lemma growth_count: "getForkVariantCount E db = (n, db') \<Longrightarrow> sound_growth E' db db'"
  by (rule growth_same) (auto simp: getForkVariantCount_def Let_def stored_put first_put key_defs split: option.splits if_splits)

lemma growth_connected: "getConnectedLatestBlockId E db = (n, db') \<Longrightarrow> sound_growth E' db db'"
  by (rule growth_same) (auto simp: getConnectedLatestBlockId_def Let_def stored_put first_put key_defs split: if_splits)

section \<open>The store under any sequence of requests\<close>

text \<open>Sound growth of a database that has a first block.\<close>

definition grows :: "world \<Rightarrow> dbh \<Rightarrow> dbh \<Rightarrow> bool" where
  "grows W db db' \<longleftrightarrow> (0 \<le> getFirstBlockId db \<longrightarrow> sound_growth (w_env W) db db')"

lemma grows_intro: "sound_growth (w_env W) db db' \<Longrightarrow> grows W db db'"
  by (simp add: grows_def)

lemma grows_refl: "grows W db db"
  by (simp add: grows_def growth_refl)

lemma grows_trans:
  assumes "grows W a b" and "grows W b c"
  shows "grows W a c"
  unfolding grows_def
proof
  assume f: "0 \<le> getFirstBlockId a"
  then have ab: "sound_growth (w_env W) a b" using assms(1) by (simp add: grows_def)
  then have "0 \<le> getFirstBlockId b" using f by (auto simp: sound_growth_def)
  then show "sound_growth (w_env W) a c" using assms(2) growth_trans [OF ab] by (simp add: grows_def)
qed

lemma grows_rebuild: "grows W (n_db n) (n_db (snd (rebuild W n)))"
  by (rule grows_intro) (rule growth.Q_rebuild)

lemma grows_sync: "grows W (n_db n) (n_db (snd (syncFromPeer W url n)))"
  using growth.syncFromPeer_R [of n W url] by (simp add: grows_def)

lemma grows_sync_each: "grows W (n_db n) (n_db (snd (sync_each W peers n)))"
proof (induction peers arbitrary: n)
  case Nil
  then show ?case by (simp add: grows_refl)
next
  case (Cons peer peers)
  let ?n = "snd (getPeerLatestBlockId W peer n)"
  have s: "grows W (n_db n) (n_db (snd (syncFromPeer W peer ?n)))" using grows_sync [of W ?n peer] by simp
  have r: "grows W (n_db n) (n_db (snd (sync_each W peers m)))" if "n_db m = n_db (snd (syncFromPeer W peer ?n))" for m
    using grows_trans [OF s] Cons [of m] that by simp
  show ?case using s by (auto simp: Let_def case_prod_beta intro!: r split: option.split)
qed

lemma grows_sync_peers: "grows W (n_db n) (n_db (snd (sync_peers_json W n)))"
  using grows_sync_each [of W "snd (syncNetworkTime W n)"] by (simp add: sync_peers_json_def Let_def case_prod_beta)

lemma node_of: "the_db (snd (on_node f s)) = n_db (snd (f (d_node s)))"
  by (simp add: the_db_def on_node_def case_prod_beta)

lemma db_set [simp]: "the_db (set_db db s) = db"
  by (simp add: the_db_def set_db_def)

lemma db_end_job [simp]: "the_db (end_job j s) = the_db s" "the_db (s\<lparr>d_recovery_status := st\<rparr>) = the_db s"
  by (cases j; simp add: end_job_def the_db_def) (simp add: the_db_def)

lemma grows_counts:
  "grows (si_world S) (the_db s) (the_db (snd (fork_count S s)))"
  "grows (si_world S) (the_db s) (the_db (snd (connected_latest S s)))"
  using growth_count [OF prod.collapse [symmetric]] growth_connected [OF prod.collapse [symmetric]]
  by (simp_all add: fork_count_def connected_latest_def case_prod_beta grows_intro)

lemma grows_recovery: "grows (si_world S) (the_db s) (the_db (snd (run_chain_recovery_json S s)))"
proof -
  have n: "grows (si_world S) (the_db s) (the_db (snd (on_node (sync_peers_json (si_world S)) s)))"
    "grows (si_world S) (the_db s) (the_db (snd (on_node (rebuild (si_world S)) s)))" for s
    using grows_sync_peers grows_rebuild by (simp_all only: node_of) (simp_all only: the_db_def)
  note step = grows_trans [OF _ n(1)] grows_trans [OF _ n(2)] grows_trans [OF _ grows_counts(1)] grows_trans [OF _ grows_counts(2)]
  show ?thesis
    unfolding run_chain_recovery_json_def Let_def case_prod_beta
    by (auto intro!: step grows_refl split: option.split)
qed

lemma grows_add_block: "grows (si_world S) (the_db s) (the_db (snd (add_block S b s)))"
proof -
  obtain r db cs where a: "AddBlock (env_of S s) (w_uninit (si_world S)) b (n_db (d_node s), n_caches (d_node s)) = (r, db, cs)"
    by (metis prod_cases3)
  have g: "sound_growth (w_env (si_world S)) (the_db s) db" using growth_add [OF a] by (simp add: env_of_def the_db_def)
  then have "getFirstBlockId db = -1 \<Longrightarrow> sound_growth (w_env (si_world S)) (the_db s) (setFirstBlockId n db)" for n
    using growth_trans growth_first by blast
  then show ?thesis
    using g by (auto simp: add_block_def a Let_def grows_def the_db_def split: option.split)
qed

interpretation store: daemon_frame S "\<lambda>s t. grows (si_world S) (the_db s) (the_db t)" for S
proof (unfold_locales, goal_cases)
  case (2 s t u)
  then show ?case by (rule grows_trans)
next
  case (6 s)
  show ?case using growth_peek by (simp add: peek_queue_def on_queue_def case_prod_beta grows_intro)
next
  case (7 s r)
  show ?case using growth_queue by (simp add: add_queue_def on_queue_def case_prod_beta grows_intro)
next
  case (8 s)
  show ?case by (rule grows_counts)
next
  case (9 s b)
  show ?case by (rule grows_add_block)
next
  case (10 s)
  show ?case by (simp add: rebuild_index_def node_of) (simp add: the_db_def grows_rebuild)
next
  case (14 j s)
  show ?case
  proof (cases j)
    case SyncJob
    then show ?thesis using grows_sync_peers [of "si_world S" "d_node s"] by (simp add: node_of) (simp add: the_db_def)
  next
    case RecoveryJob
    then show ?thesis using grows_recovery [of S s] by (simp add: Let_def case_prod_beta)
  qed
qed (simp_all add: the_db_def grows_refl gossip_rate_limited_def now_local_def on_node_def case_prod_beta
      start_sync_peers_json_def start_chain_recovery_json_def Let_def)

text \<open>
  C32. No sequence of requests damages the store, except by the reset: from a store with a first
  block, whatever requests a node is sent other than a POST to \<open>/api/blockchain/reset\<close> that carries
  the word \<open>reset-local-chain\<close> (which anyone may send: there is no authorisation), whatever its
  background downloads, each taken as one step, do in between and whatever its peers answer, every entry under a block hash is as before or is the
  text of a block with that hash whose hash, Merkle root and signature are those of its content;
  nothing stored is lost, and the first block stays.
\<close>

theorem api_keeps_store:
  assumes "0 \<le> getFirstBlockId (the_db s)" and "list_all no_reset evs"
  shows "sound_growth (w_env (si_world S)) (the_db s) (the_db (daemon_run S evs s))"
  using store.keep_run [OF assms(2), of S s] assms(1) by (simp add: grows_def)

section \<open>Background jobs\<close>

definition jobs_ok :: "daemon \<Rightarrow> bool" where
  "jobs_ok s \<longleftrightarrow> length (d_jobs s) \<le> 1 \<and> d_sync_in_progress s = (d_jobs s \<noteq> []) \<and>
     d_recovery_in_progress s = (RecoveryJob \<in> set (d_jobs s))"

text \<open>The parts of the state that the job table rests on.\<close>

definition job_part :: "daemon \<Rightarrow> job list \<times> bool \<times> bool" where
  "job_part s = (d_jobs s, d_sync_in_progress s, d_recovery_in_progress s)"

lemma jobs_same: "job_part t = job_part s \<Longrightarrow> jobs_ok s \<Longrightarrow> jobs_ok t"
  by (simp add: jobs_ok_def job_part_def)

lemma job_part_steps [simp]:
  "job_part (snd (on_node f s)) = job_part s" "job_part (upd_node g s) = job_part s" "job_part (set_db db s) = job_part s"
  "job_part (snd (on_queue q s)) = job_part s" "job_part (s\<lparr>d_recovery_status := st\<rparr>) = job_part s"
  by (simp_all add: job_part_def on_node_def upd_node_def set_db_def on_queue_def case_prod_beta)

lemma job_part_counts [simp]:
  "job_part (snd (fork_count S s)) = job_part s" "job_part (snd (connected_latest S s)) = job_part s"
  by (simp_all add: fork_count_def connected_latest_def case_prod_beta)

lemma job_part_recovery [simp]: "job_part (snd (run_chain_recovery_json S s)) = job_part s"
  by (simp add: run_chain_recovery_json_def Let_def case_prod_beta split: option.split)

lemma job_part_add [simp]: "job_part (snd (add_block S b s)) = job_part s"
  by (simp add: add_block_def job_part_def Let_def split: prod.split option.split)

text \<open>A job that ends clears what it has set.\<close>

lemma jobs_end:
  assumes "jobs_ok s" and "j \<in> set (d_jobs s)"
  shows "d_jobs (end_job j s) = []" "jobs_ok (end_job j s)"
proof -
  have "d_jobs s = [j]" using assms by (cases "d_jobs s") (auto simp: jobs_ok_def)
  then show "d_jobs (end_job j s) = []" "jobs_ok (end_job j s)"
    using assms(1) by (cases j; simp add: end_job_def jobs_ok_def)+
qed

lemma jobs_run:
  assumes "jobs_ok s" and "j \<in> set (d_jobs s)"
  shows "d_jobs (run_job S j s) = []" "jobs_ok (run_job S j s)"
proof -
  have p: "jobs_ok t \<and> j \<in> set (d_jobs t)" if "job_part t = job_part s" for t
    using assms jobs_same [OF that] that by (simp add: job_part_def)
  show "d_jobs (run_job S j s) = []" "jobs_ok (run_job S j s)"
    using p jobs_end by (cases j; simp add: Let_def case_prod_beta)+
qed

interpretation jobs: total_frame S "\<lambda>s t. jobs_ok s \<longrightarrow> jobs_ok t" for S
proof (unfold_locales, goal_cases)
  case (3 n s)
  show ?case by (simp add: jobs_ok_def)
next
  case (4 s w)
  show ?case by (simp add: jobs_ok_def)
next
  case (5 s h)
  show ?case by (simp add: jobs_ok_def)
next
  case (11 s key m window)
  show ?case by (simp add: jobs_ok_def gossip_rate_limited_def now_local_def on_node_def Let_def case_prod_beta)
next
  case (12 s)
  show ?case by (auto simp: jobs_ok_def start_sync_peers_json_def)
next
  case (13 s)
  show ?case by (auto simp: jobs_ok_def start_chain_recovery_json_def Let_def)
next
  case (14 j s)
  then show ?case by (simp add: jobs_run)
next
  case (15 s req rp)
  show ?case by (auto simp: reset_request_def jobs_ok_def upd_node_def)
qed (auto simp: peek_queue_def add_queue_def rebuild_index_def intro: jobs_same)

text \<open>
  C34. There is never more than one background download, and no flag is stuck: from a start with
  no job, after any requests and any work (each job taken as one step), at most one job is there, the flags
  \<open>api_sync_in_progress\<close> and \<open>api_chain_recovery_in_progress\<close> say exactly whether there is one and
  whether it is a recovery, and the step in which it ends, however the download goes, leaves no
  job and both flags clear.
\<close>

theorem background_jobs:
  assumes "d_jobs s = []" and "\<not> d_sync_in_progress s" and "\<not> d_recovery_in_progress s"
    and "t = daemon_run S evs s"
  shows "length (d_jobs t) \<le> 1 \<and> (d_sync_in_progress t \<longleftrightarrow> d_jobs t \<noteq> []) \<and>
    (d_recovery_in_progress t \<longleftrightarrow> RecoveryJob \<in> set (d_jobs t)) \<and>
    (\<forall>j \<in> set (d_jobs t). d_jobs (daemon_step S (Work j) t) = [] \<and>
      \<not> d_sync_in_progress (daemon_step S (Work j) t) \<and> \<not> d_recovery_in_progress (daemon_step S (Work j) t))"
proof -
  have "jobs_ok s" using assms(1-3) by (simp add: jobs_ok_def)
  then have ok: "jobs_ok t" using jobs.keep_all [of s S evs] assms(4) by simp
  have "d_jobs (daemon_step S (Work j) t) = [] \<and> \<not> d_sync_in_progress (daemon_step S (Work j) t) \<and>
      \<not> d_recovery_in_progress (daemon_step S (Work j) t)" if "j \<in> set (d_jobs t)" for j
    using jobs_run [OF ok that, of S] that by (simp add: jobs_ok_def)
  then show ?thesis using ok by (simp add: jobs_ok_def)
qed

section \<open>The buckets of the rate limiter\<close>

definition buckets_ok :: "daemon \<Rightarrow> bool" where
  "buckets_ok s \<longleftrightarrow> int (length (d_buckets s)) \<le> MAX_RATE_LIMIT_BUCKETS + 1"

lemma length_put: "length (sm_put k v m) \<le> Suc (length m)"
  by (induction k v m rule: sm_put.induct) auto

lemma rate_step_length:
  "int (length b) \<le> MAX_RATE_LIMIT_BUCKETS + 1 \<Longrightarrow>
   int (length (snd (rate_step now key m window b))) \<le> MAX_RATE_LIMIT_BUCKETS + 1"
proof -
  assume b: "int (length b) \<le> MAX_RATE_LIMIT_BUCKETS + 1"
  have "length (live_buckets now window b) \<le> length b" by (simp add: live_buckets_def)
  moreover have "length (sm_put key v (live_buckets now window b)) \<le> Suc (length (live_buckets now window b))" for v
    by (rule length_put)
  ultimately show ?thesis using b by (auto simp: rate_step_def too_many_def Let_def) (smt (verit) of_nat_Suc of_nat_mono)
qed

interpretation buckets: total_frame S "\<lambda>s t. buckets_ok s \<longrightarrow> buckets_ok t" for S
proof (unfold_locales, goal_cases)
  case (6 s)
  show ?case by (simp add: buckets_ok_def peek_queue_def on_queue_def set_db_def case_prod_beta)
next
  case (7 s r)
  show ?case by (simp add: buckets_ok_def add_queue_def on_queue_def set_db_def case_prod_beta)
next
  case (11 s key m window)
  show ?case
    using rate_step_length by (simp add: buckets_ok_def gossip_rate_limited_def now_local_def on_node_def Let_def case_prod_beta)
next
  case (14 j s)
  have "d_buckets (snd (run_chain_recovery_json S s)) = d_buckets s"
    by (simp add: run_chain_recovery_json_def fork_count_def connected_latest_def set_db_def on_node_def Let_def case_prod_beta
        split: option.split)
  then show ?case by (cases j) (simp_all add: buckets_ok_def end_job_def on_node_def Let_def case_prod_beta)
qed (auto simp: buckets_ok_def rebuild_index_def on_node_def case_prod_beta add_block_def fork_count_def set_db_def Let_def
      start_sync_peers_json_def start_chain_recovery_json_def reset_request_def upd_node_def split: option.split prod.split)

end
