(* ===== verification/ExampleApi.thy ===== *)
theory ExampleApi
  imports ExamplePeers ApiPeers ApiSafety
begin

text \<open>
  The properties of the HTTP API at small examples: a node without a wallet whose database
  holds the example chain, and a second node that asks it.
\<close>

definition example_site :: site where
  "example_site =
     \<lparr>si_world = junk_world, si_settings = [], si_shuffle = (\<lambda>n xs. xs), si_keys = (\<lambda>n. None),
      si_handoff_writable = True, si_unset_block = no_block, si_admin_page = []\<rparr>"

definition daemon_with :: "dbh \<Rightarrow> daemon" where
  "daemon_with db =
     \<lparr>d_node = example_node\<lparr>n_db := db\<rparr>, d_queue_dat = [], d_wallet = \<lparr>wf_legacy = None, wf_store = None, wf_writable = True\<rparr>,
      d_handoff_dat = [], d_buckets = [], d_sync_in_progress = False, d_recovery_in_progress = False,
      d_recovery_status = [],
      d_nat = \<lparr>nt_enabled = False, nt_mapped = False, nt_method = [], nt_externalAddress = [], nt_externalPort = 0, nt_message = []\<rparr>,
      d_relay_nodes = [], d_jobs = []\<rparr>"

definition get_request :: "string \<Rightarrow> request" where
  "get_request uri = \<lparr>q_method = ''GET'', q_uri = uri, q_body = [], q_major = 1, q_minor = 0, q_headers = []\<rparr>"

lemma daemon_with_db [simp]: "the_db (daemon_with db) = db"
  by (simp add: the_db_def daemon_with_def)

lemma example_site_env: "n_offset (d_node s) = 0 \<Longrightarrow> env_of example_site s = example_env"
  by (simp add: env_of_def example_site_def junk_world_def)

lemma daemon_with_env [simp]: "env_of example_site (daemon_with db) = example_env"
  by (simp add: example_site_env daemon_with_def example_node_def)

section \<open>Requests and background work\<close>

definition unconfirmed_reset :: request where
  "unconfirmed_reset = (get_request ''/api/blockchain/reset'')\<lparr>q_method := ''POST'', q_body := ''confirm=no''\<rparr>"

theorem api_keeps_store_witness:
  "getFirstBlockId (the_db (daemon_run example_site
     [Request (get_request ''/api/sync''), Work SyncJob, Request unconfirmed_reset, Request (get_request ''/api/chain/recover''), Work RecoveryJob]
     (daemon_with example_db))) = 100"
proof -
  let ?evs = "[Request (get_request ''/api/sync''), Work SyncJob, Request unconfirmed_reset,
    Request (get_request ''/api/chain/recover''), Work RecoveryJob]"
  have "0 \<le> getFirstBlockId (the_db (daemon_with example_db))" by (simp add: example_ids)
  moreover have "list_all no_reset ?evs" by code_simp
  ultimately show ?thesis
    using api_keeps_store [of "daemon_with example_db" ?evs example_site] example_ids by (simp add: sound_growth_def)
qed

theorem background_jobs_witness:
  "length (d_jobs (daemon_run example_site
     [Request (get_request ''/api/sync''), Request (get_request ''/api/chain/recover''), Request (get_request ''/api/sync'')]
     (daemon_with example_db))) \<le> 1"
  using background_jobs [of "daemon_with example_db" _ example_site
      "[Request (get_request ''/api/sync''), Request (get_request ''/api/chain/recover''), Request (get_request ''/api/sync'')]", OF _ _ _ refl]
  by (simp add: daemon_with_def)

section \<open>Two nodes\<close>

text \<open>The world of a node whose peer is the example node.\<close>

definition answers :: "daemon \<Rightarrow> string \<Rightarrow> string" where
  "answers a uri = (case fst (handle_request example_site (get_request uri) a) of None \<Rightarrow> [] | Some r \<Rightarrow> rep_content r)"

definition asking :: "daemon \<Rightarrow> string \<Rightarrow> world" where
  "asking a uri = still_world (\<lambda>rq. answers a uri)"

definition indexed_db :: dbh where
  "indexed_db = rebuild_write example_env block_one [block_one, block_two] example_db"

theorem chain_downloaded_witness:
  "fst (andthen (fetch_after (asking (daemon_with indexed_db) (batch_path (b_hash block_one) 1)) peer_url (b_hash block_one) 1)
     (parsed (asking (daemon_with indexed_db) (batch_path (b_hash block_one) 1))) example_node) = Some [block_two]"
proof -
  let ?a = "daemon_with indexed_db" and ?uri = "batch_path (b_hash block_one) 1"
  have "fst (andthen (fetch_after (asking ?a ?uri) peer_url (b_hash ([block_one, block_two] ! 0)) (int 1)) (parsed (asking ?a ?uri))
      example_node) = Some (take 1 (drop (Suc 0) [block_one, block_two])) \<and>
    snd (handle_request example_site (get_request ?uri) ?a) = ?a"
  proof (rule chain_downloaded [where previousTip = block_one and db = example_db])
    show "w_http (asking ?a ?uri) k (Get (peer_url @ q_uri (get_request ?uri))) = rep_content r"
      if "handle_request example_site (get_request ?uri) ?a = (Some r, a')" for k r a'
      using that by (simp add: asking_def still_world_def answers_def)
    show "w_env (asking ?a ?uri) = w_env (si_world example_site)"
      by (simp add: asking_def still_world_def example_site_def junk_world_def)
    show "url_safe (b_hash ([block_one, block_two] ! 0))" by (simp add: url_safe_def example_block_fields text_simps)
  qed (use example_valid block_one_printable block_two_printable example_db_open in
      \<open>simp_all add: indexed_db_def example_block_fields get_request_def\<close>)
  then show ?thesis by simp
qed

text \<open>The node with the first block of the chain.\<close>

definition level_db :: dbh where
  "level_db = db_put forkVariantCountKey ''0'' example_db"

lemma no_slots: "\<forall>k \<in> set ks. \<not> starts_with k ''slot:'' \<Longrightarrow> foldl (count_slot E) (Some m) ks = Some m"
  by (induction ks) (auto simp: count_slot_def)

lemma example_forks: "getForkVariantCount example_env example_db = (Some 0, level_db)"
proof -
  obtain d where d: "example_db = Some d" using example_db_open by blast
  have "kv_keys d = [blockHashKey (b_hash block_one), canonicalHashKey 100, chainMetaKey ''first_block'', chainMetaKey ''latest_block'']"
    using d by (auto simp: kv_keys_def example_db_def db_put_def key_defs show_long_digits example_block_fields)
  then have "\<forall>k \<in> set (kv_keys d). \<not> starts_with k ''slot:''" by (simp add: key_defs starts_with_def)
  then have "scanForkVariantStats example_env example_db = Some \<lparr>fv_count = 0, fv_latest_block = -1\<rparr>"
    by (simp add: scanForkVariantStats_def d no_slots)
  then show ?thesis by (simp add: getForkVariantCount_def d level_db_def show_long_digits)
qed

lemma level_str: "k \<noteq> forkVariantCountKey \<Longrightarrow> db_str level_db k = db_str example_db k"
  using example_db_open by (auto simp: level_db_def smap_simps)

lemma level_ids: "getFirstBlockId level_db = 100" "getLatestBlockId level_db = 100"
  by (simp_all add: level_db_def first_put latest_put key_defs example_ids)

lemma level_block: "getBlock example_env level_db 100 = block_one"
proof -
  have "db_str level_db (canonicalHashKey 100) = b_hash block_one" "stored level_db (b_hash block_one) = blockJSON example_env block_one"
    using example_db_keys by (simp_all add: level_str stored_def key_defs)
  then have "entry example_env level_db block_one []" by (simp add: entry_def example_block_fields)
  moreover have "storable example_env block_one" using block_one_printable by (simp add: storable_def example_block_fields)
  ultimately show ?thesis using entry_block by (fastforce simp: example_block_fields)
qed

definition no_reorg :: reorg_info where
  "no_reorg = \<lparr>ri_previous_block = -1, ri_previous_hash = [], ri_new_block = -1, ri_new_hash = [], ri_time = 0, ri_reason = []\<rparr>"

lemma level_reorg: "getLastReorgInfo example_env level_db = Some no_reorg"
proof -
  have "db_str example_db (reorgMetaKey x) = []" for x
    by (simp add: example_db_def db_put_def db_str_def smap_simps key_defs del: sm_put.simps) (simp add: db_text_def sm_get_def)
  then have "db_str level_db (reorgMetaKey x) = []" for x
    using level_str [of "reorgMetaKey x"] by (simp add: key_defs)
  then show ?thesis by (simp add: getLastReorgInfo_def reorg_number_def no_reorg_def)
qed

theorem status_seen_witness:
  "p_latestBlockId (fst (statusFromPeer (asking (daemon_with example_db) ''/api/status'') peer_url example_node)) = 100 \<and>
   p_score (fst (statusFromPeer (asking (daemon_with example_db) ''/api/status'') peer_url example_node)) = 10"
proof -
  let ?a = "daemon_with example_db" and ?t = "daemon_with level_db" and ?W = "asking (daemon_with example_db) ''/api/status''"
  have forks: "fork_count example_site ?a = (Some 0, ?t)"
    by (simp add: fork_count_def example_forks) (simp add: set_db_def daemon_with_def)
  have me: "own_identity example_site ?t = (([], []), ?t)"
    by (simp add: own_identity_def read_keys_def on_wallet_def daemon_with_def wallet_read_def ensureWalletStore_def
        readWalletStore_def readLegacyWallet_def legacy_keys_def keys_left_def)
  have q: "quote_free (status_fields example_env level_db [] [] 0 no_reorg (n_advertised (d_node ?t)) (d_nat ?t))"
  proof -
    have quiet: "DQ \<notin> set (show_long n)" "DQ \<notin> set (yes_no b)" "json_escape [] = []" for n b
      using plain_show_long [of n] by (simp_all add: plain_def yes_no_def json_escape_def)
    have "DQ \<notin> set (nc_network (load_config []))" "DQ \<notin> set (genesisHash (load_config []))" by code_simp+
    moreover have "DQ \<notin> set (b_hash block_one)" by (simp add: example_block_fields text_simps)
    moreover have "n_advertised (d_node ?t) = []" by (simp add: daemon_with_def example_node_def)
    ultimately show ?thesis
      by (simp add: status_fields_def selection_fields_def reorg_fields_def nat_fields_def no_reorg_def quiet level_ids level_block
          example_config Let_def daemon_with_def)
  qed
  have web: "w_http ?W k (Get (peer_url @ q_uri (get_request ''/api/status''))) = rep_content r"
    if "handle_request example_site (get_request ''/api/status'') ?a = (Some r, a')" for k r a'
    using that by (simp add: asking_def still_world_def answers_def)
  have "env_config (w_env ?W) = env_config (env_of example_site ?t)" by (simp add: asking_def still_world_def)
  then have "fst (statusFromPeer ?W peer_url example_node) =
      (let now = w_clock ?W (n_events example_node); st = seen_status (env_of example_site ?t) (the_db ?t) [] [] now peer_url
       in if getLatestBlockId (the_db ?t) < 0 then st\<lparr>p_score := -5, p_firstFailureEpoch := now, p_lastError := ''missing latest block''\<rparr>
          else if \<not> p_genesisMatch st then st\<lparr>p_score := -20, p_firstFailureEpoch := now, p_lastError := ''genesis mismatch''\<rparr>
          else st\<lparr>p_score := 10, p_lastSuccessEpoch := now, p_firstFailureEpoch := 0, p_lastError := []\<rparr>)"
    by (intro status_seen [OF forks _ me _ _ _ web]) (use level_reorg q in \<open>simp_all add: get_request_def\<close>)
  moreover have "genesisMatches (load_config []) 100 (b_hash block_one)"
    using example_genesis by (auto simp: branch_genesis_def example_block_fields split: if_splits)
  ultimately show ?thesis by (simp add: seen_status_def level_ids level_block example_config Let_def)
qed

end
