(* ===== verification/UserIndex.thy ===== *)
theory UserIndex
  imports BlockStore
begin

text \<open>
  The index of users of \<open>src/src/userdb.cpp\<close>: a second LevelDB database with a JSON text per user,
  the number of users and the last block that a scan has visited. The handle is the database
  itself: the source uses it without looking whether it could be opened.
\<close>

section \<open>Users as JSON\<close>

record user_structure =
  us_public_key :: string
  us_name :: string
  us_balance :: double
  us_start_date :: int
  us_last_date :: int

definition blank_user :: user_structure where
  "blank_user = \<lparr>us_public_key = [], us_name = [], us_balance = DFin 0, us_start_date = 0, us_last_date = 0\<rparr>"

definition user_entries :: "env \<Rightarrow> user_structure \<Rightarrow> (string \<times> string) list" where
  "user_entries E u =
     [(''public_key'', us_public_key u), (''name'', us_name u), (''balance'', e_lexical E (us_balance u)),
      (''start_date'', show_long (us_start_date u)), (''last_date'', show_long (us_last_date u))]"

definition userJSON :: "env \<Rightarrow> user_structure \<Rightarrow> string" where
  "userJSON E u = ''{'' @ [DQ] @ ''user'' @ [DQ] @ '':{'' @ fields_text (user_entries E u) @ ''}}}'' @ [NL]"

definition read_user :: "string \<Rightarrow> user_structure" where
  "read_user section =
     \<lparr>us_public_key = parseSectionString section (jkey ''public_key'') [DQ],
      us_name = parseSectionString section (jkey ''name'') [DQ],
      us_balance = parseSectionDouble section (jkey ''balance'') [DQ],
      us_start_date = parseSectionLong section (jkey ''start_date'') [DQ],
      us_last_date = parseSectionLong section (jkey ''last_date'') [DQ]\<rparr>"

text \<open>
  The loop of \<open>parseUserJson\<close>: \<open>i\<close> goes on where it was when \<open>content\<close> is shortened, and \<open>start_i\<close>
  is never found anew. Reads past the end of the text do not change the depth; \<open>None\<close> when
  \<open>substr\<close> throws.
\<close>

function user_loop :: "nat \<Rightarrow> string \<Rightarrow> nat \<Rightarrow> int \<Rightarrow> user_structure \<Rightarrow> user_structure option" where
  "user_loop start_i content i parenDepth user =
     (if i < length content
      then
        let c = (if start_i + i < length content then content ! (start_i + i) else CHR 0x00);
            d = (if c = CHR ''{'' then parenDepth + 1 else if c = CHR ''}'' then parenDepth - 1 else parenDepth)
        in if d = 0
           then if length content < start_i + i then None
                else user_loop start_i (drop (start_i + i) content) (Suc i) d (read_user (substr content start_i (i + 1)))
           else user_loop start_i content (Suc i) d user
      else Some user)"
  by pat_completeness auto
termination
  by (relation "measure (\<lambda>(start_i, content, i, d, u). length content - i)") auto

declare user_loop.simps [simp del]

definition parseUserJson :: "string \<Rightarrow> user_structure option" where
  "parseUserJson user_json =
     (case find_sub ''{'' user_json of None \<Rightarrow> Some blank_user | Some start_i \<Rightarrow> user_loop start_i user_json 0 0 blank_user)"

section \<open>The database\<close>

definition userKey :: "string \<Rightarrow> string" where
  "userKey public_key = ''u_'' @ public_key"

definition setScannedBlockId :: "int \<Rightarrow> kvdb \<Rightarrow> kvdb" where
  "setScannedBlockId number d = sm_put ''scanned_block_id'' (show_long number) d"

text \<open>\<open>None\<close> when \<open>lexical_cast\<close> throws.\<close>

definition getScannedBlockId :: "env \<Rightarrow> kvdb \<Rightarrow> int option" where
  "getScannedBlockId E d =
     (let text = db_text d ''scanned_block_id'' in if text = [] then Some (-1) else e_lexical_long E text)"

definition getUserCount :: "env \<Rightarrow> kvdb \<Rightarrow> int option" where
  "getUserCount E d = (let text = db_text d ''user_count'' in if text = [] then Some 0 else e_lexical_long E text)"

definition setUserCount :: "int \<Rightarrow> kvdb \<Rightarrow> kvdb" where
  "setUserCount n d = sm_put ''user_count'' (show_long n) d"

definition setUser :: "env \<Rightarrow> user_structure \<Rightarrow> kvdb \<Rightarrow> kvdb option" where
  "setUser E user d =
     (let key = userKey (us_public_key user)
      in if db_text d key = []
         then map_option (\<lambda>n. sm_put key (userJSON E user) (setUserCount (n + 1) d)) (getUserCount E d)
         else Some (sm_put key (userJSON E user) d))"

definition getUser :: "string \<Rightarrow> kvdb \<Rightarrow> user_structure option" where
  "getUser public_key d =
     (let text = db_text d (userKey public_key) in if text = [] then Some blank_user else parseUserJson text)"

text \<open>All users, in the order of their keys.\<close>

definition add_listed :: "user_structure list option \<Rightarrow> string \<times> string \<Rightarrow> user_structure list option" where
  "add_listed users = (\<lambda>(key, text).
     if \<not> starts_with key ''u_'' then users
     else Option.bind users (\<lambda>us. map_option (\<lambda>u. if us_public_key u \<noteq> [] then us @ [u] else us) (parseUserJson text)))"

definition getUsers :: "kvdb \<Rightarrow> user_structure list option" where
  "getUsers d = foldl add_listed (Some []) d"

definition DeleteIndex :: "kvdb \<Rightarrow> kvdb" where
  "DeleteIndex d = setUserCount 0 (setScannedBlockId 0 (fold sm_del (kv_keys d) d))"

section \<open>A user read back\<close>

definition printable_user :: "env \<Rightarrow> user_structure \<Rightarrow> bool" where
  "printable_user E u \<longleftrightarrow> plain (us_public_key u) \<and> plain (us_name u) \<and> printable_double E (us_balance u) \<and>
     in_long (us_start_date u) \<and> in_long (us_last_date u)"

lemma user_keys [simp]: "good_key ''public_key''" "good_key ''balance''" "good_key ''start_date''" "good_key ''last_date''"
  by (simp_all add: good_key_def)

definition user_prefix :: string where
  "user_prefix = CHR ''{'' # okey ''user'' @ ''{''"

lemma user_prefix_skips: "good_key key \<Longrightarrow> key \<noteq> ''user'' \<Longrightarrow> skips (jkey key) user_prefix t"
  unfolding user_prefix_def by (auto intro!: skips_Cons opener_skips [where u = "[]"]) (simp add: jkey_def)

text \<open>A text whose braces close late enough is read once, up to the closing brace.\<close>

lemma user_loop_block_end:
  assumes "block_end (drop i content) d True = Some j" and "length content \<le> 2 * (i + j) + 1"
  shows "user_loop 0 content i d u = Some (read_user (take (i + j + 1) content))"
  using assms
proof (induction j arbitrary: i d)
  case 0
  then obtain c cs where c: "drop i content = c # cs" by (cases "drop i content") auto
  then have i: "i < length content" "content ! i = c" by (auto simp: nth_via_drop intro: ccontr)
  have "user_loop 0 (drop i content) (Suc i) 0 v = Some v" for v
    using 0 by (subst user_loop.simps) simp
  then show ?case using 0 i c by (subst user_loop.simps) (auto simp: Let_def substr_def split: if_splits)
next
  case (Suc j)
  then obtain c cs where c: "drop i content = c # cs" by (cases "drop i content") auto
  then have i: "i < length content" "content ! i = c" "drop (Suc i) content = cs"
    by (auto simp: nth_via_drop drop_Suc tl_drop [symmetric] intro: ccontr)
  show ?case using Suc i c by (subst user_loop.simps) (auto simp: Let_def split: if_splits)
qed

lemma user_fields_no_brace: "printable_user E u \<Longrightarrow> no_brace (fields_text (user_entries E u))"
  using plain_show_long
  by (intro fields_text_no_brace) (auto simp: user_entries_def printable_user_def printable_double_def plain_def no_brace_def)

lemma user_entries_quote_free: "printable_user E u \<Longrightarrow> quote_free (user_entries E u)"
  using plain_show_long by (auto simp: user_entries_def printable_user_def printable_double_def plain_def)

lemma user_section:
  assumes "printable_user E u" and "good_key key" and "key \<noteq> ''user''" and "map_of (user_entries E u) key = Some v"
  shows "parseSectionString (user_prefix @ fields_text (user_entries E u) @ ''}}'') (jkey key) [DQ] = v"
proof (rule parseSectionString_found)
  show "has_section (user_prefix @ fields_text (user_entries E u) @ ''}}'') (jkey key) v"
    using assms by (intro has_section_skip user_prefix_skips fields_text_has_section user_entries_quote_free)
      (auto simp: after_field_def)
  show "DQ \<notin> set v"
    using user_entries_quote_free [OF assms(1)] map_of_SomeD [OF assms(4)] by (auto simp: quote_free_def)
qed

text \<open>What \<open>setUser\<close> writes is read back by \<open>getUser\<close> as it was.\<close>

lemma user_readback:
  assumes "printable_user E u"
  shows "parseUserJson (userJSON E u) = Some u"
proof -
  let ?F = "fields_text (user_entries E u)"
  have t: "userJSON E u = user_prefix @ ?F @ ''}}}'' @ [NL]" by (simp add: userJSON_def user_prefix_def okey_def)
  have "block_end (drop 1 (userJSON E u)) 1 True = Some (length ?F + 9)"
    using block_end_gap [OF user_fields_no_brace [OF assms], of 2 True]
    by (simp add: t user_prefix_def okey_def)
  moreover have "length (userJSON E u) = length ?F + 13" by (simp add: t user_prefix_def okey_def)
  moreover have "take (length ?F + 11) (userJSON E u) = user_prefix @ ?F @ ''}}''"
  proof -
    have "length (user_prefix @ ?F @ ''}}'') = length ?F + 11" by (simp add: user_prefix_def okey_def)
    then show ?thesis using append_eq_conv_conj [of "user_prefix @ ?F @ ''}}''" "''}'' @ [NL]" "userJSON E u"] by (simp add: t)
  qed
  ultimately have "user_loop 0 (userJSON E u) 1 1 blank_user = Some (read_user (user_prefix @ ?F @ ''}}''))"
    using user_loop_block_end [of 1 "userJSON E u" 1 "length ?F + 9" blank_user] by (simp add: add.commute)
  moreover have "read_user (user_prefix @ ?F @ ''}}'') = u"
    using assms user_section [OF assms]
    by (simp add: read_user_def user_entries_def parseSectionDouble_def parseSectionLong_def atol_show_long printable_user_def
        printable_double_def)
  moreover have "user_loop 0 (userJSON E u) 0 0 blank_user = user_loop 0 (userJSON E u) 1 1 blank_user"
    by (subst user_loop.simps) (simp add: t user_prefix_def okey_def Let_def)
  moreover have "find_sub ''{'' (userJSON E u) = Some 0" by (simp add: t user_prefix_def okey_def starts_with_def)
  ultimately show ?thesis by (simp add: parseUserJson_def)
qed

end
