(* ===== verification/LegacyScan.thy ===== *)
theory LegacyScan
  imports UserIndex Daemon
begin

text \<open>
  \<open>CFunctions::scanChain\<close> of \<open>src/src/functions/functions.cpp\<close>: the walk over the accepted chain that
  sets the members of \<open>CFunctions\<close> and writes the index of users. Its results are overwritten by
  those of \<open>LedgerState\<close> at the end; the index of users is not.

  The walk has no limit. \<open>scanChain\<close> is therefore partial: \<open>None\<close> when it does not come back, be it
  that the successors of blocks go in a circle or that \<open>lexical_cast\<close> or \<open>substr\<close> throws.
\<close>

section \<open>State\<close>

text \<open>The members of \<open>CFunctions\<close>; \<open>user_count\<close> is a \<open>double\<close> there.\<close>

record cfunctions =
  fn_latest_block :: block_structure
  fn_balance :: double
  fn_joined :: bool
  fn_currency_circulation :: double
  fn_user_count :: double
  fn_active_heartbeat :: bool
  fn_heartbeat_renewal_due :: bool
  fn_chain_has_heartbeat_records :: bool
  fn_last_heartbeat_block :: int
  fn_users :: "user_structure list"

definition new_functions :: "block_structure \<Rightarrow> cfunctions" where
  "new_functions unset =
     \<lparr>fn_latest_block = unset, fn_balance = DFin 0, fn_joined = False, fn_currency_circulation = DFin 0, fn_user_count = DFin 0,
      fn_active_heartbeat = False, fn_heartbeat_renewal_due = False, fn_chain_has_heartbeat_records = False,
      fn_last_heartbeat_block = -1, fn_users = []\<rparr>"

text \<open>What a scan works on: the process, the object it is called on, the index of users, \<open>CSelector::users\<close>.\<close>

record scanner =
  sn_daemon :: daemon
  sn_functions :: cfunctions
  sn_users :: kvdb
  sn_selector :: "string list"

text \<open>The local variables of the walk, with the object, the index and the text printed so far.\<close>

record scan_state =
  sc_functions :: cfunctions
  sc_users :: kvdb
  sc_updatedBalance :: double
  sc_members :: "record_structure list"
  sc_heartbeats :: "(string, int) smap"
  sc_cf_keys :: "string set"
  sc_hashes :: "string set"
  sc_saw_heartbeat :: bool
  sc_output :: string

section \<open>One record\<close>

definition scan_join :: "string \<Rightarrow> record_structure \<Rightarrow> scan_state \<Rightarrow> scan_state" where
  "scan_join my_public_key r st =
     (if r_type r \<noteq> JOIN_NETWORK then st
      else
        let f = sc_functions st;
            f = f\<lparr>fn_joined := (r_sender r = my_public_key \<or> fn_joined f), fn_user_count := dadd (fn_user_count f) (DFin 1)\<rparr>
        in st\<lparr>sc_functions := f,
              sc_members := (if \<exists>m \<in> set (sc_members st). r_sender m = r_sender r then sc_members st else sc_members st @ [r])\<rparr>)"

definition scan_heartbeat :: "string \<Rightarrow> block_structure \<Rightarrow> record_structure \<Rightarrow> scan_state \<Rightarrow> scan_state" where
  "scan_heartbeat my_public_key b r st =
     (if r_type r = HEART_BEAT \<and> r_sender r \<noteq> []
      then st\<lparr>sc_saw_heartbeat := True, sc_heartbeats := sm_put (r_sender r) (b_number b) (sc_heartbeats st),
              sc_functions := (if r_sender r = my_public_key then (sc_functions st)\<lparr>fn_last_heartbeat_block := b_number b\<rparr>
                               else sc_functions st)\<rparr>
      else st)"

definition scan_balance :: "string \<Rightarrow> block_structure \<Rightarrow> record_structure \<Rightarrow> double \<Rightarrow> double" where
  "scan_balance my_public_key b r d =
     (let d = (if r_type r \<in> {TRANSFER_CURRENCY, ISSUE_CURRENCY} \<and> r_recipient r = my_public_key then dadd d (r_amount r) else d);
          d = (if r_type r = TRANSFER_CURRENCY \<and> r_sender r = my_public_key \<and> r_recipient r \<noteq> my_public_key
               then dsub (dsub d (r_amount r)) (r_fee r) else d)
      in if b_creator b = my_public_key \<and> r_type r \<in> {TRANSFER_CURRENCY, VOTE} then dadd d (r_fee r) else d)"

definition add_circulation :: "double \<Rightarrow> scan_state \<Rightarrow> scan_state" where
  "add_circulation d st =
     st\<lparr>sc_functions := (sc_functions st)\<lparr>fn_currency_circulation := dadd (fn_currency_circulation (sc_functions st)) d\<rparr>\<rparr>"

text \<open>The user with the key in the index, with the balance changed.\<close>

definition credit_index :: "env \<Rightarrow> string \<Rightarrow> double \<Rightarrow> scan_state \<Rightarrow> scan_state option" where
  "credit_index E key amount st =
     Option.bind (getUser key (sc_users st)) (\<lambda>user.
       let user = (if us_public_key user \<noteq> key then user\<lparr>us_public_key := key\<rparr> else user)
       in map_option (\<lambda>d. st\<lparr>sc_users := d\<rparr>) (setUser E (user\<lparr>us_balance := dadd (us_balance user) amount\<rparr>) (sc_users st)))"

definition scan_carry_forward :: "env \<Rightarrow> dbh \<Rightarrow> string \<Rightarrow> block_structure \<Rightarrow> record_structure \<Rightarrow> scan_state \<Rightarrow> scan_state option" where
  "scan_carry_forward E db my_public_key b r st =
     (if basic_carry_forward r (b_number b) \<and> account_snapshot_matches E db r \<and>
         carryForwardKey r \<noteq> [] \<and> carryForwardKey r \<notin> sc_cf_keys st
      then
        let st = add_circulation CARRY_FORWARD_REWARD (st\<lparr>sc_cf_keys := insert (carryForwardKey r) (sc_cf_keys st)\<rparr>);
            st = (if r_sender r = my_public_key then st\<lparr>sc_updatedBalance := dadd (sc_updatedBalance st) CARRY_FORWARD_REWARD\<rparr> else st)
        in credit_index E (r_sender r) CARRY_FORWARD_REWARD st
      else Some st)"

text \<open>The amount of an issue that is not between 0 and 1 is taken as 1.\<close>

definition scan_amount :: "record_structure \<Rightarrow> record_structure" where
  "scan_amount r =
     (if r_type r = ISSUE_CURRENCY \<and> (dlt (DFin 1) (r_amount r) \<or> dlt (r_amount r) (DFin 0)) then r\<lparr>r_amount := DFin 1\<rparr> else r)"

text \<open>
  The loops over the vector \<open>users\<close>: the first user with the key \<open>search\<close> is changed; where there
  is none, or where that user has no key, a user with the key \<open>new_key\<close> is changed and added.
\<close>

definition change_user :: "string \<Rightarrow> string \<Rightarrow> (double \<Rightarrow> double) \<Rightarrow> user_structure list \<Rightarrow> user_structure list" where
  "change_user search new_key f users =
     (let change = (\<lambda>u. u\<lparr>us_balance := f (us_balance u)\<rparr>);
          before = takeWhile (\<lambda>u. us_public_key u \<noteq> search) users
      in case drop (length before) users of
           [] \<Rightarrow> users @ [change (blank_user\<lparr>us_public_key := new_key\<rparr>)]
         | u # rest \<Rightarrow>
             let users = before @ change u # rest
             in if us_public_key u = [] then users @ [change ((change u)\<lparr>us_public_key := new_key\<rparr>)] else users)"

definition scan_users :: "block_structure \<Rightarrow> record_structure \<Rightarrow> user_structure list \<Rightarrow> user_structure list" where
  "scan_users b r users =
     (let users = (if r_type r = TRANSFER_CURRENCY
                   then change_user (r_sender r) (r_sender r) (\<lambda>d. dsub (dsub d (r_amount r)) (r_fee r)) users else users)
      in if r_type r \<in> {TRANSFER_CURRENCY, VOTE} then change_user (b_creator b) (r_sender r) (\<lambda>d. dadd d (r_fee r)) users else users)"

text \<open>What a scan prints of a record when it is asked to.\<close>

abbreviation ESC :: char where "ESC \<equiv> CHR 0x1B"
definition ANSI_COLOR_RED :: string where "ANSI_COLOR_RED = ESC # ''[31m''"
definition ANSI_COLOR_GREEN :: string where "ANSI_COLOR_GREEN = ESC # ''[32m''"
definition ANSI_COLOR_RESET :: string where "ANSI_COLOR_RESET = ESC # ''[0m''"

fun scan_type_label :: "transaction_type \<Rightarrow> string" where
  "scan_type_label ISSUE_CURRENCY = ''ISSUE   ''"
| "scan_type_label JOIN_NETWORK = ''JOIN_NET''"
| "scan_type_label TRANSFER_CURRENCY = ''TRANSFER''"
| "scan_type_label CARRY_FORWARD = ''CARRY_F ''"
| "scan_type_label PERIOD_SUMMARY = ''SUMMARY ''"
| "scan_type_label VOTE = ''VOTE    ''"
| "scan_type_label HEART_BEAT = ''HEART BT''"
| "scan_type_label UPDATE_NAME = ''UPD_NAME''"
| "scan_type_label (OTHER_TYPE n) = []"

definition scan_record_text :: "env \<Rightarrow> record_structure \<Rightarrow> string" where
  "scan_record_text E r =
     (let hash = getRecordHash E r
      in ''        '' @ scan_type_label (r_type r) @ ''  sender: '' @ take 8 (r_sender r) @ '' -> '' @ take 8 (r_recipient r) @
         '' amt: '' @ show_double (r_amount r) @ '' time: '' @ r_time r @ '' net: '' @ r_network r @
         '' typ '' @ show_long (type_number (r_type r)) @ ''  '' @ '' fee '' @ e_lexical E (r_fee r) @ '' '' @
         (if hash = r_hash r then ANSI_COLOR_GREEN @ '' [HASH_OK]'' @ ANSI_COLOR_RESET
          else [NL] @ ANSI_COLOR_RED @ ''        [HASH_ERROR] '' @ hash @ '' == '' @ r_hash r @ ANSI_COLOR_RESET) @
         (if VerifyMessageCompressed E (r_hash r) (r_signature r) (r_sender r) \<noteq> 0
          then ANSI_COLOR_GREEN @ ''    [SIG_OK]'' @ ANSI_COLOR_RESET
          else ANSI_COLOR_RED @ ''    [SIG_ERROR]'' @ ANSI_COLOR_RESET) @ [NL])"

definition print_scan :: "bool \<Rightarrow> string \<Rightarrow> scan_state \<Rightarrow> scan_state" where
  "print_scan debug text st = (if debug then st\<lparr>sc_output := sc_output st @ text\<rparr> else st)"

definition scan_record :: "env \<Rightarrow> dbh \<Rightarrow> string \<Rightarrow> bool \<Rightarrow> block_structure \<Rightarrow> record_structure \<Rightarrow> scan_state \<Rightarrow> scan_state option" where
  "scan_record E db my_public_key debug b r st =
     (if r_hash r \<noteq> [] \<and> r_hash r \<in> sc_hashes st then Some st
      else
        let st = st\<lparr>sc_hashes := (if r_hash r \<noteq> [] then insert (r_hash r) (sc_hashes st) else sc_hashes st)\<rparr>;
            st = scan_heartbeat my_public_key b r (scan_join my_public_key r st);
            st = st\<lparr>sc_updatedBalance := scan_balance my_public_key b r (sc_updatedBalance st)\<rparr>;
            st = (if r_type r = ISSUE_CURRENCY then add_circulation (r_amount r) st else st)
        in Option.bind (scan_carry_forward E db my_public_key b r st) (\<lambda>st.
             let r = scan_amount r
             in Option.bind (if r_type r \<in> {TRANSFER_CURRENCY, ISSUE_CURRENCY} then credit_index E (r_recipient r) (r_amount r) st
                             else Some st) (\<lambda>st.
                  let f = sc_functions st
                  in Some (print_scan debug (scan_record_text E r)
                       (st\<lparr>sc_functions := f\<lparr>fn_users := scan_users b r (fn_users f)\<rparr>\<rparr>)))))"

fun scan_records :: "env \<Rightarrow> dbh \<Rightarrow> string \<Rightarrow> bool \<Rightarrow> block_structure \<Rightarrow> record_structure list \<Rightarrow> scan_state \<Rightarrow> scan_state option" where
  "scan_records E db my debug b [] st = Some st"
| "scan_records E db my debug b (r # rs) st = Option.bind (scan_record E db my debug b r st) (scan_records E db my debug b rs)"

section \<open>The walk\<close>

definition scan_block_text :: "int \<Rightarrow> block_structure \<Rightarrow> string" where
  "scan_block_text i b =
     [NL] @ ''Block '' @ show_long i @ '' '' @ [NL] @ ''  previous block: '' @ show_long (b_previous_id b) @ [NL] @
     ''  number: '' @ show_long (b_number b) @ [NL] @ ''  creator: '' @ b_creator b @ [NL]"

text \<open>The check of the block's hash is not written: every block is reported as wrong.\<close>

definition scan_hash_text :: "block_structure \<Rightarrow> string" where
  "scan_hash_text b = ''  hash: '' @ b_hash b @ '' '' @ ANSI_COLOR_RED @ ''    [ERROR]'' @ ANSI_COLOR_RESET @ [NL]"

definition scan_block :: "env \<Rightarrow> dbh \<Rightarrow> string \<Rightarrow> bool \<Rightarrow> int \<Rightarrow> block_structure \<Rightarrow> scan_state \<Rightarrow> scan_state option" where
  "scan_block E db my debug i b st =
     (let st = print_scan debug (scan_block_text i b) st;
          st = st\<lparr>sc_functions := (sc_functions st)\<lparr>fn_latest_block := b\<rparr>\<rparr>
      in map_option (\<lambda>st.
           let st = print_scan debug (scan_hash_text b) st
           in st\<lparr>sc_users := setScannedBlockId (b_number b) (sc_users st)\<rparr>)
         (scan_records E db my debug b (b_records b) st))"

text \<open>A successor with the number of the block is replaced by a block whose members are unset.\<close>

definition scan_next :: "env \<Rightarrow> dbh \<Rightarrow> block_structure \<Rightarrow> block_structure \<Rightarrow> block_structure" where
  "scan_next E db unset b = (let n = getNextBlock E db b in if b_number n = b_number b then unset else n)"

partial_function (option) scan_blocks ::
    "env \<Rightarrow> dbh \<Rightarrow> string \<Rightarrow> bool \<Rightarrow> block_structure \<Rightarrow> int \<Rightarrow> block_structure \<Rightarrow> scan_state \<Rightarrow> scan_state option" where
  "scan_blocks E db my debug unset i b st =
     (if 0 < b_number b
      then Option.bind (scan_block E db my debug i b st) (scan_blocks E db my debug unset (i + 1) (scan_next E db unset b))
      else Some st)"

definition scan_start :: "cfunctions \<Rightarrow> kvdb \<Rightarrow> scan_state" where
  "scan_start f users =
     \<lparr>sc_functions = f\<lparr>fn_joined := False, fn_active_heartbeat := False, fn_heartbeat_renewal_due := False,
        fn_chain_has_heartbeat_records := False, fn_last_heartbeat_block := -1, fn_currency_circulation := DFin 0,
        fn_user_count := DFin 0, fn_users := []\<rparr>,
      sc_users = users, sc_updatedBalance = DFin 0, sc_members = [], sc_heartbeats = [], sc_cf_keys = {}, sc_hashes = {},
      sc_saw_heartbeat = False, sc_output = []\<rparr>"

text \<open>What the code computes of heartbeats and of the selector before the ledger replaces it.\<close>

definition scan_heartbeat_state :: "env \<Rightarrow> scan_state \<Rightarrow> cfunctions" where
  "scan_heartbeat_state E st =
     (let f = (sc_functions st)\<lparr>fn_chain_has_heartbeat_records := sc_saw_heartbeat st\<rparr>; n = getCurrentTimeBlock E
      in if \<not> fn_joined f then f
         else if \<not> sc_saw_heartbeat st then f\<lparr>fn_active_heartbeat := True, fn_heartbeat_renewal_due := True\<rparr>
         else if n - HEARTBEAT_VALID_BLOCKS \<le> fn_last_heartbeat_block f
         then f\<lparr>fn_active_heartbeat := True, fn_heartbeat_renewal_due := fn_last_heartbeat_block f < n - HEARTBEAT_RENEW_BLOCKS\<rparr>
         else f\<lparr>fn_active_heartbeat := False, fn_heartbeat_renewal_due := True\<rparr>)"

definition scan_active :: "env \<Rightarrow> scan_state \<Rightarrow> string \<Rightarrow> bool" where
  "scan_active E st key \<longleftrightarrow>
     \<not> sc_saw_heartbeat st \<or>
     (case sm_get (sc_heartbeats st) key of None \<Rightarrow> False | Some n \<Rightarrow> getCurrentTimeBlock E - HEARTBEAT_VALID_BLOCKS \<le> n)"

definition scan_selector :: "env \<Rightarrow> scan_state \<Rightarrow> string list" where
  "scan_selector E st = foldl (\<lambda>users key. addUser key users) [] (filter (scan_active E st) (map r_sender (sc_members st)))"

text \<open>The ledger's state takes the place of what was computed.\<close>

definition adopt_ledger :: "ledger_state \<Rightarrow> cfunctions \<Rightarrow> cfunctions" where
  "adopt_ledger st f =
     f\<lparr>fn_balance := ls_wallet st, fn_currency_circulation := ls_issued st,
       fn_user_count := round_double (of_nat (length (ls_members st))), fn_joined := ls_joined st,
       fn_active_heartbeat := ls_active_heartbeat st, fn_heartbeat_renewal_due := ls_renewal_due st,
       fn_chain_has_heartbeat_records := ls_has_heartbeats st, fn_last_heartbeat_block := ls_last_heartbeat st,
       fn_latest_block := ls_latest_block st\<rparr>"

definition scan_finish :: "site \<Rightarrow> string \<Rightarrow> scan_state \<Rightarrow> daemon \<Rightarrow> string \<times> scanner" where
  "scan_finish S my_public_key st s =
     (let tip = b_number (fn_latest_block (sc_functions st));
          E = env_of S s;
          s = (if tip \<noteq> getLatestBlockId (the_db s) then set_db (setLatestBlockId E tip (the_db s)) s else s);
          f = scan_heartbeat_state E st;
          users = scan_selector E st;
          (ledgerState, s) = ledger_of S my_public_key (-1) s
      in (sc_output st,
          \<lparr>sn_daemon = s, sn_functions = adopt_ledger ledgerState f, sn_users = sc_users st,
           sn_selector = ls_active_keys ledgerState\<rparr>))"

definition scanChain :: "site \<Rightarrow> string \<Rightarrow> bool \<Rightarrow> scanner \<Rightarrow> (string \<times> scanner) option" where
  "scanChain S my_public_key debug sn =
     (let s = sn_daemon sn; E = env_of S s; db = the_db s;
          firstBlockId = getFirstBlockId db;
          start = scan_start (sn_functions sn) (sn_users sn)
      in if firstBlockId \<le> -1
         then Some ([], sn\<lparr>sn_functions := sc_functions start, sn_selector := []\<rparr>)
         else map_option (\<lambda>st. scan_finish S my_public_key st s)
                (scan_blocks E db my_public_key debug (si_unset_block S) 1 (getBlock E db firstBlockId) start))"

end
