(* ===== verification/ConsoleText.thy ===== *)
theory ConsoleText
  imports LegacyScan ApiWallet
begin

text \<open>
  The helpers of the command line, \<open>src/src/cli.cpp\<close>: reading commands and words, the default fee
  and the mode of the block creator in their files, and the texts of records, blocks and lists.
  Several of them are copies of what \<open>request_handler.cpp\<close> has; they are written out here as
  they stand there, and the copies are shown to agree.
\<close>

section \<open>The terminal\<close>

text \<open>
  What the command line takes from its surroundings: \<open>localtime\<close> with \<open>strftime\<close> (\<open>None\<close> for a null
  pointer), whether the standard input is a terminal, whether there is a desktop session, which
  files can be executed, the status of \<open>system\<close>, what the self-tests of the library for keys
  print, whether the files can be written, and \<open>std::sort\<close> by the number of blocks, which leaves
  the order of equal numbers open.
\<close>

record terminal =
  tm_local_time :: "int \<Rightarrow> string option"
  tm_isatty :: bool
  tm_graphical :: bool
  tm_executable :: "string \<Rightarrow> bool"
  tm_system :: "string \<Rightarrow> int"
  tm_tests_text :: string
  tm_settings_writable :: bool
  tm_conf_writable :: bool
  tm_sort_blocks :: "block_structure list \<Rightarrow> block_structure list"

text \<open>The standard input: the text that is left, and whether a read has failed.\<close>

type_synonym input = "string \<times> bool"

definition getline_in :: "input \<Rightarrow> string \<times> input" where
  "getline_in = (\<lambda>(t, failed).
     if failed then ([], (t, True))
     else if t = [] then ([], ([], True))
     else (takeWhile (\<lambda>c. c \<noteq> LF) t, (drop 1 (dropWhile (\<lambda>c. c \<noteq> LF) t), False)))"

text \<open>\<open>std::cin >> word\<close>\<close>

definition word_in :: "input \<Rightarrow> string \<times> input" where
  "word_in = (\<lambda>(t, failed).
     if failed then ([], (t, True))
     else
       let u = dropWhile c_isspace t
       in if u = [] then ([], ([], True))
          else (takeWhile (\<lambda>c. \<not> c_isspace c) u, (dropWhile (\<lambda>c. \<not> c_isspace c) u, False)))"

definition c_isprint :: "char \<Rightarrow> bool" where
  "c_isprint c \<longleftrightarrow> 32 \<le> code c \<and> code c \<le> 126"

definition rubout :: string where "rubout = [CHR 0x08, CHR '' '', CHR 0x08]"

text \<open>
  The line editor of a terminal, key by key: the command, what is left of the input, and what was
  echoed. An escape sequence takes two more keys, of which none may be left.
\<close>

function edit_line :: "string \<Rightarrow> string \<Rightarrow> string \<Rightarrow> string \<Rightarrow> string \<times> string \<times> string" where
  "edit_line lastCommand command echo [] = (command, [], echo)"
| "edit_line lastCommand command echo (c # keys) =
     (if c = LF \<or> c = CR then (command, keys, echo @ [NL])
      else if c = CHR 0x7F \<or> c = CHR 0x08
      then if command = [] then edit_line lastCommand command echo keys
           else edit_line lastCommand (butlast command) (echo @ rubout) keys
      else if c = ESC
      then if take 2 keys = ''[A'' \<and> lastCommand \<noteq> []
           then edit_line lastCommand lastCommand (echo @ concat (replicate (length command) rubout) @ lastCommand) (drop 2 keys)
           else edit_line lastCommand command echo (drop 2 keys)
      else if c_isprint c then edit_line lastCommand (command @ [c]) (echo @ [c]) keys
      else edit_line lastCommand command echo keys)"
  by pat_completeness auto
termination
  by (relation "measure (\<lambda>(l, c, e, keys). length keys)") auto

definition readCommandLine :: "terminal \<Rightarrow> string \<Rightarrow> input \<Rightarrow> string \<times> string \<times> string \<times> input" where
  "readCommandLine T lastCommand inp =
     (let (command, echo, inp) =
            (if tm_isatty T
             then let (command, keys, echo) = edit_line lastCommand [] [] (fst inp) in (command, echo, (keys, snd inp))
             else let (command, inp) = getline_in inp in (command, [], inp))
      in (command, if command \<noteq> [] then command else lastCommand, echo, inp))"

definition is_gap :: "char \<Rightarrow> bool" where
  "is_gap c \<longleftrightarrow> c = CHR '' '' \<or> c = CHR 0x09"

definition firstCommandToken :: "string \<Rightarrow> string" where
  "firstCommandToken command = takeWhile (\<lambda>c. \<not> c_isspace c) (dropWhile c_isspace command)"

definition commandArgument :: "string \<Rightarrow> string" where
  "commandArgument command = dropWhile is_gap (dropWhile (\<lambda>c. \<not> is_gap c) command)"

section \<open>Fees and modes\<close>

definition MAX_TRANSACTION_FEE :: double where "MAX_TRANSACTION_FEE = round_double (1 / 10)"

definition parseFeeAmount :: "string \<Rightarrow> double option" where
  "parseFeeAmount value =
     (if strtod_rest value \<noteq> Some [] then None
      else let fee = atof value in if dle (DFin 0) fee \<and> dle fee MAX_TRANSACTION_FEE then Some fee else None)"

fun fee_from :: "string list \<Rightarrow> double" where
  "fee_from [] = DFin 0"
| "fee_from (line # lines) =
     (if starts_with line ''fee:''
      then case parseFeeAmount (drop 4 line) of Some fee \<Rightarrow> fee | None \<Rightarrow> fee_from lines
      else fee_from lines)"

definition getDefaultTransactionFee :: "string \<Rightarrow> double" where
  "getDefaultTransactionFee settings = fee_from (file_lines settings)"

text \<open>The whole file is written anew.\<close>

definition setDefaultTransactionFee :: "terminal \<Rightarrow> double \<Rightarrow> site \<Rightarrow> bool \<times> site" where
  "setDefaultTransactionFee T fee S =
     (if dlt fee (DFin 0) \<or> dlt MAX_TRANSACTION_FEE fee then (False, S)
      else if \<not> tm_settings_writable T then (False, S)
      else (True, S\<lparr>si_settings := ''fee:'' @ show_double fee @ [NL]\<rparr>))"

definition parseOnOffValue :: "string \<Rightarrow> bool option" where
  "parseOnOffValue value =
     (let normalized = map c_tolower value
      in if normalized \<in> {''on'', ''yes'', ''true'', ''1''} then Some True
         else if normalized \<in> {''off'', ''no'', ''false'', ''0''} then Some False
         else None)"

definition site_config :: "site \<Rightarrow> network_config" where
  "site_config S = env_config (w_env (si_world S))"

definition setBlockCreatorMode :: "terminal \<Rightarrow> bool \<Rightarrow> site \<Rightarrow> bool \<times> site" where
  "setBlockCreatorMode T enabled S =
     (if \<not> tm_conf_writable T then (False, S)
      else
        let config = (site_config S)\<lparr>enableBlockCreation := enabled, hasBlockCreationSetting := True\<rparr>;
            W = si_world S
        in (True, S\<lparr>si_world := W\<lparr>w_env := (w_env W)\<lparr>e_conf := save_config config\<rparr>\<rparr>\<rparr>))"

section \<open>Texts\<close>

fun recordTypeName :: "transaction_type \<Rightarrow> string" where
  "recordTypeName JOIN_NETWORK = ''JOIN_NETWORK''"
| "recordTypeName ISSUE_CURRENCY = ''ISSUE_CURRENCY''"
| "recordTypeName TRANSFER_CURRENCY = ''TRANSFER_CURRENCY''"
| "recordTypeName CARRY_FORWARD = ''CARRY_FORWARD''"
| "recordTypeName PERIOD_SUMMARY = ''PERIOD_SUMMARY''"
| "recordTypeName VOTE = ''VOTE''"
| "recordTypeName HEART_BEAT = ''HEART_BEAT''"
| "recordTypeName UPDATE_NAME = ''UPDATE_NAME''"
| "recordTypeName (OTHER_TYPE n) = ''UNKNOWN''"

definition or_dash :: "string \<Rightarrow> string" where
  "or_dash s = (if s = [] then ''-'' else s)"

definition shortKey :: "string \<Rightarrow> string" where
  "shortKey key = (if key = [] then ''-'' else if length key \<le> 16 then key else take 12 key @ ''...'')"

definition formatSlotTime :: "terminal \<Rightarrow> int \<Rightarrow> string" where
  "formatSlotTime T timeBlock = (case tm_local_time T (timeBlock * 15) of None \<Rightarrow> ''-'' | Some t \<Rightarrow> t)"

definition formatEpochTimeString :: "terminal \<Rightarrow> string \<Rightarrow> string" where
  "formatEpochTimeString T epochString =
     (if epochString = [] then ''-''
      else if atol epochString \<le> 0 then epochString
      else case tm_local_time T (atol epochString) of None \<Rightarrow> epochString | Some t \<Rightarrow> t)"

definition namedAddress :: "string \<Rightarrow> (string, string) smap \<Rightarrow> string" where
  "namedAddress publicKey names =
     (if publicKey = [] then ''-''
      else case sm_get names publicKey of
             None \<Rightarrow> publicKey
           | Some name \<Rightarrow> if name \<noteq> [] then name @ '' ('' @ publicKey @ '')'' else publicKey)"

definition quoted :: "string \<Rightarrow> string \<Rightarrow> string" where
  "quoted label text = (if text = [] then [] else '' '' @ label @ '' '' @ [DQ] @ text @ [DQ])"

definition hash_part :: "string \<Rightarrow> string" where
  "hash_part hash = (if hash = [] then [] else '' hash '' @ shortKey hash)"

text \<open>The part that the summaries of accepted and of pending records share.\<close>

definition summary_body :: "record_structure \<Rightarrow> bool \<Rightarrow> string" where
  "summary_body r fullKeys =
     (let key = (\<lambda>k. if fullKeys then k else shortKey k)
      in recordTypeName (r_type r) @ '' time '' @ or_dash (r_time r) @ '' net '' @ or_dash (r_network r) @
         '' amt '' @ show_double (r_amount r) @ '' fee '' @ show_double (r_fee r) @
         (if 0 < r_nonce r then '' nonce '' @ show_long (r_nonce r) else []) @
         (if r_type r \<in> {JOIN_NETWORK, UPDATE_NAME} then '' member '' @ key (r_sender r)
          else '' from '' @ key (r_sender r) @ '' to '' @ key (r_recipient r)) @
         quoted ''name'' (r_name r) @ quoted ''value'' (r_value r) @ hash_part (r_hash r))"

definition recordSummary :: "int \<Rightarrow> nat \<Rightarrow> record_structure \<Rightarrow> bool \<Rightarrow> string" where
  "recordSummary blockNumber recordIndex r fullKeys =
     '' block '' @ show_long blockNumber @ '' #'' @ show_nat recordIndex @ '' '' @ summary_body r fullKeys"

definition mempoolRecordSummary :: "nat \<Rightarrow> record_structure \<Rightarrow> bool \<Rightarrow> string" where
  "mempoolRecordSummary recordIndex r fullKeys = '' mempool #'' @ show_nat recordIndex @ '' '' @ summary_body r fullKeys"

definition blockSummary :: "block_structure \<Rightarrow> string" where
  "blockSummary b =
     ''block '' @ show_long (b_number b) @ '' prev '' @ show_long (b_previous_id b) @
     '' records '' @ show_nat (length (b_records b)) @ '' creator '' @ shortKey (b_creator b) @ hash_part (b_hash b) @
     (if b_previous_hash b = [] then [] else '' prevhash '' @ shortKey (b_previous_hash b)) @
     (if b_merkle_root b = [] then [] else '' merkle '' @ shortKey (b_merkle_root b))"

end
