(* ===== verification/ConsoleLists.thy ===== *)
theory ConsoleLists
  imports ConsoleText ApiBlocks
begin

text \<open>
  What the commands of \<open>src/src/cli.cpp\<close> print about the chain: history of a wallet, records, members,
  votes, carry-forward records, selection of creators and diagnostics. Each definition gives the
  lines in order; the loops over the chain are the walk \<open>api_chain\<close>.
\<close>

definition no_chain :: "dbh \<Rightarrow> bool" where
  "no_chain db \<longleftrightarrow> getFirstBlockId db < 0 \<or> getLatestBlockId db < 0"

definition no_records_text :: string where
  "no_records_text = '' No blockchain records found.''"

section \<open>History of a wallet\<close>

text \<open>Direction, sender, recipient and net amount of the lines that a record gives.\<close>

type_synonym movement = "string \<times> string \<times> string \<times> double"

definition movements :: "string \<Rightarrow> block_structure \<Rightarrow> record_structure \<Rightarrow> movement list" where
  "movements publicKey b r =
     (let sent = r_sender r = publicKey; received = r_recipient r = publicKey
      in (if r_type r = ISSUE_CURRENCY \<and> received then [(''REWARD'', r_sender r, r_recipient r, r_amount r)] else []) @
         (if r_type r \<noteq> TRANSFER_CURRENCY then []
          else if sent \<and> received then [(''SELF'', publicKey, publicKey, DFin 0)]
          else if sent then [(''SENT'', r_sender r, r_recipient r, dneg (dadd (r_amount r) (r_fee r)))]
          else if received then [(''RECEIVED'', r_sender r, r_recipient r, r_amount r)]
          else []) @
         (if r_type r \<in> {TRANSFER_CURRENCY, VOTE} \<and> b_creator b = publicKey \<and> dlt (DFin 0) (r_fee r)
          then [(''FEE'', r_sender r, b_creator b, r_fee r)] else []))"

definition walletHistoryLine ::
    "terminal \<Rightarrow> block_structure \<Rightarrow> nat \<Rightarrow> record_structure \<Rightarrow> (string, string) smap \<Rightarrow> movement \<Rightarrow> string" where
  "walletHistoryLine T b i r names = (\<lambda>(direction, fromKey, toKey, netAmount).
     '' '' @ direction @ '' block '' @ show_long (b_number b) @ '' #'' @ show_nat i @
     '' time '' @ formatEpochTimeString T (r_time r) @ '' net '' @ show_double netAmount @ '' sfr'' @
     '' amt '' @ show_double (r_amount r) @ (if dlt (DFin 0) (r_fee r) then '' fee '' @ show_double (r_fee r) else []) @
     quoted ''note'' (r_name r) @ hash_part (r_hash r) @
     [NL] @ ''     from: '' @ namedAddress fromKey names @ [NL] @ ''       to: '' @ namedAddress toKey names)"

definition direction_shown :: "string \<Rightarrow> string \<Rightarrow> bool" where
  "direction_shown kind direction \<longleftrightarrow>
     (kind = ''sent'' \<longrightarrow> direction \<in> {''SENT'', ''SELF''}) \<and>
     (kind = ''received'' \<longrightarrow> direction \<in> {''RECEIVED'', ''REWARD'', ''FEE'', ''SELF''})"

definition history_lines :: "terminal \<Rightarrow> env \<Rightarrow> dbh \<Rightarrow> (string, string) smap \<Rightarrow> string \<Rightarrow> string \<Rightarrow> string list" where
  "history_lines T E db names publicKey kind =
     concat (map (\<lambda>(b, i, r). map (walletHistoryLine T b i r names)
        (filter (\<lambda>m. direction_shown kind (fst m)) (movements publicKey b r))) (fresh_entries {} (entries (api_chain E db))))"

definition printWalletHistory :: "terminal \<Rightarrow> site \<Rightarrow> string \<Rightarrow> string \<Rightarrow> daemon \<Rightarrow> string list \<times> daemon" where
  "printWalletHistory T S publicKey kind s =
     (if no_chain (the_db s) then ([no_records_text], s)
      else
        let (names, s) = accepted_member_names S s;
            history = last_n 25 (history_lines T (env_of S s) (the_db s) names publicKey kind)
        in if history = [] then (['' No wallet history found.''], s)
           else (('' Last '' @ show_nat (length history) @ '' '' @ (if kind \<noteq> [] then kind else ''wallet'') @ '' history records:'') #
                 map (\<lambda>l. ''  '' @ l) history, s))"

section \<open>Records\<close>

definition printMempoolRecords :: "record_structure list \<Rightarrow> string list" where
  "printMempoolRecords records =
     (if records = [] then ['' Mempool is empty.'']
      else ('' Mempool records: '' @ show_nat (length records)) #
           map (\<lambda>(i, r). ''  '' @ mempoolRecordSummary i r True) (enumerate 0 records))"

text \<open>A quotient of a whole number and a constant, printed.\<close>

definition show_ratio :: "int \<Rightarrow> int \<Rightarrow> string" where
  "show_ratio a b = show_double (round_double (round_fin (of_int a) / of_int b))"

definition printRecentBlockchainRecords :: "env \<Rightarrow> dbh \<Rightarrow> nat \<Rightarrow> string list" where
  "printRecentBlockchainRecords E db limit =
     (let firstBlockId = getFirstBlockId db; latestBlockId = getLatestBlockId db;
          chain = api_chain E db; es = entries chain;
          recent = last_n limit (map (\<lambda>(b, i, r). recordSummary (b_number b) i r False) es);
          connectedLatestBlockId = (if chain = [] then -1 else b_number (last chain));
          slotSpan = (if firstBlockId < connectedLatestBlockId then connectedLatestBlockId - firstBlockId else 0)
      in if no_chain db \<or> recent = [] then [no_records_text]
         else ('' Last '' @ show_nat (length recent) @ '' blockchain records:'') # map (\<lambda>l. ''  '' @ l) recent @
              ['' Blockchain stats:'', ''  first block: '' @ show_long firstBlockId,
               ''  latest connected block: '' @ show_long connectedLatestBlockId,
               ''  latest indexed block: '' @ show_long latestBlockId,
               ''  connected blocks: '' @ show_nat (length chain),
               ''  block span: '' @ show_long slotSpan @ '' slots (~'' @ show_ratio (slotSpan * 15) 86400 @ '' days)'',
               ''  records: '' @ show_nat (length es)])"

definition printMembershipRecords :: "env \<Rightarrow> dbh \<Rightarrow> string list" where
  "printMembershipRecords E db =
     (if no_chain db then [no_records_text]
      else
        let joins = filter (\<lambda>(b, i, r). r_type r = JOIN_NETWORK) (entries (api_chain E db))
        in (if joins = [] then [] else ['' Membership records:'']) @
           map (\<lambda>(b, i, r). ''  '' @ recordSummary (b_number b) i r True) joins @
           ['' Membership count: '' @ show_nat (length joins)])"

section \<open>Carry-forward records\<close>

definition cliCarryForwardSnapshotMatches :: "env \<Rightarrow> dbh \<Rightarrow> record_structure \<Rightarrow> bool" where
  "cliCarryForwardSnapshotMatches E db r =
     (let checkpoint = parseCarryForwardValueLong (r_value r) ''checkpoint''
      in if checkpoint < 0 then False
         else dlt (dabs (dsub (balanceAtBlock E db (r_recipient r) checkpoint) (r_amount r))) EPS)"

definition cli_carry_valid :: "env \<Rightarrow> dbh \<Rightarrow> block_structure \<Rightarrow> record_structure \<Rightarrow> bool" where
  "cli_carry_valid E db b r \<longleftrightarrow> basic_carry_forward r (b_number b) \<and> cliCarryForwardSnapshotMatches E db r"

definition cliAcceptedCarryForwardExists :: "env \<Rightarrow> dbh \<Rightarrow> string \<Rightarrow> int \<Rightarrow> bool" where
  "cliAcceptedCarryForwardExists E db accountPublicKey period \<longleftrightarrow>
     accountPublicKey \<noteq> [] \<and>
     (\<exists>(b, i, r) \<in> set (entries (api_chain E db)).
        r_type r = CARRY_FORWARD \<and> r_recipient r = accountPublicKey \<and>
        parseCarryForwardValueLong (r_value r) ''period'' = period \<and> cli_carry_valid E db b r)"

text \<open>The lines of the records and the number of accepted ones.\<close>

fun carry_lines :: "env \<Rightarrow> dbh \<Rightarrow> string set \<Rightarrow> entry list \<Rightarrow> string list \<times> nat" where
  "carry_lines E db seen [] = ([], 0)"
| "carry_lines E db seen ((b, i, r) # es) =
     (let valid = cli_carry_valid E db b r; key = carryForwardKey r;
          duplicate = key \<noteq> [] \<and> key \<in> seen;
          accepted = valid \<and> \<not> duplicate;
          (lines, n) = carry_lines E db (if accepted then insert key seen else seen) es
      in ((''  '' @ recordSummary (b_number b) i r True @ '' status '' @ (if accepted then ''accepted'' else ''ignored'') @
           (if duplicate then '' duplicate-period'' else [])) # lines, if accepted then Suc n else n))"

definition printCarryForwardRecords :: "env \<Rightarrow> dbh \<Rightarrow> string list" where
  "printCarryForwardRecords E db =
     (if no_chain db then [no_records_text]
      else
        let es = filter (\<lambda>(b, i, r). r_type r = CARRY_FORWARD) (entries (api_chain E db));
            (lines, n) = carry_lines E db {} es;
            policy = env_config E
        in (if es = [] then [] else ['' Carry-forward records:'']) @ lines @
           ['' Carry-forward count: '' @ show_nat (length es), '' Accepted carry-forwards: '' @ show_nat n,
            '' Carry-forward reward: '' @ show_double CARRY_FORWARD_REWARD @ '' sfr'',
            '' Storage profile: '' @ normalizedStorageProfile policy,
            '' Carry-forward period: '' @ show_long (carryForwardPeriodBlocks policy) @ '' blocks'',
            '' Carry-forward checkpoint age: '' @ show_long (carryForwardCheckpointAgeBlocks policy) @ '' blocks'',
            if prunesOldBlocks policy then '' Prune horizon: '' @ show_long (pruneHorizonBlocks policy) @ '' blocks''
            else '' Prune horizon: full history''])"

section \<open>Votes\<close>

definition vote_line :: "(string, string) smap \<Rightarrow> entry \<Rightarrow> string" where
  "vote_line names = (\<lambda>(b, i, r).
     ''  block '' @ show_long (b_number b) @ '' #'' @ show_nat i @ '' time '' @ or_dash (r_time r) @
     '' name '' @ [DQ] @ or_dash (r_name r) @ [DQ] @ '' value '' @ [DQ] @ or_dash (r_value r) @ [DQ] @
     '' voter '' @ namedAddress (r_sender r) names @ hash_part (r_hash r))"

definition tally :: "(string, (string, int) smap) smap \<Rightarrow> record_structure \<Rightarrow> (string, (string, int) smap) smap" where
  "tally t r =
     (let name = or_dash (r_name r); value = or_dash (r_value r); votes = sm_at [] t name
      in sm_put name (sm_put value (sm_at 0 votes value + 1) votes) t)"

definition tally_lines :: "(string, (string, int) smap) smap \<Rightarrow> string list" where
  "tally_lines t =
     concat (map (\<lambda>(topic, votes). (''  '' @ topic) # map (\<lambda>(value, n). ''    '' @ value @ '': '' @ show_long n) votes) t)"

definition printVoteRecords :: "site \<Rightarrow> daemon \<Rightarrow> string list \<times> daemon" where
  "printVoteRecords S s =
     (if no_chain (the_db s) then ([no_records_text], s)
      else
        let (names, s) = accepted_member_names S s;
            votes = filter (\<lambda>(b, i, r). r_type r = VOTE) (entries (api_chain (env_of S s) (the_db s)))
        in ((if votes = [] then [] else ['' Vote records:'']) @ map (vote_line names) votes @
            ['' Vote count: '' @ show_nat (length votes)] @
            (if votes = [] then []
             else '' Vote tallies:'' # tally_lines (foldl tally [] (map (\<lambda>(b, i, r). r) votes))), s))"

section \<open>Diagnostics\<close>

definition child_lines :: "env \<Rightarrow> dbh \<Rightarrow> int \<Rightarrow> block_structure list \<Rightarrow> string list" where
  "child_lines E db tip blocks =
     (let nextIndex = getNextBlockId E db tip; nextBlock = getBlock E db nextIndex;
          children = filter (\<lambda>b. b_previous_id b = tip) blocks; after = filter (\<lambda>b. tip < b_number b) blocks
      in [''  connected tip: '' @ blockSummary (getBlock E db tip),
          ''  indexed child after connected tip: '' @ (if 0 < nextIndex then show_long nextIndex else ''-'')] @
         (if 0 < nextIndex
          then [''  indexed child block: '' @ (if 0 < b_number nextBlock then blockSummary nextBlock else ''missing'')] else []) @
         [''  direct stored children of connected tip: '' @ show_nat (length children)] @
         map (\<lambda>b. ''    '' @ blockSummary b) (take 10 children) @
         [''  stored blocks after connected tip: '' @ show_nat (length after)] @
         map (\<lambda>b. let p = getNextBlockId E db (b_previous_id b)
                  in ''    '' @ blockSummary b @ (if 0 < p \<and> p \<noteq> b_number b then '' parent-index '' @ show_long p else []))
           (take 10 after))"

definition printChainDiagnostics :: "terminal \<Rightarrow> site \<Rightarrow> daemon \<Rightarrow> string list \<times> daemon" where
  "printChainDiagnostics T S s =
     (let E = env_of S s; firstBlockId = getFirstBlockId (the_db s); latestBlockId = getLatestBlockId (the_db s);
          (tip, s) = connected_latest S s;
          db = the_db s;
          chain = walk_chain (getNextBlock E db) (\<lambda>n. False) (-1) 0 (getBlock E db firstBlockId);
          blocks = tm_sort_blocks T (getStoredBlocks E db)
      in (['' Chain diagnostics:'', ''  schema version: '' @ show_long (getSchemaVersion db),
           ''  first block: '' @ show_long firstBlockId, ''  latest indexed block: '' @ show_long latestBlockId,
           ''  latest connected block: '' @ show_long tip, ''  connected blocks: '' @ show_nat (length chain),
           ''  stored blocks: '' @ show_nat (length blocks)] @
          (if tip < 0 then [] else child_lines E db tip blocks), s))"

definition fork_line :: "fork_variant \<Rightarrow> string" where
  "fork_line v =
     ''    block '' @ show_long (fk_block_number v) @ '' '' @ (if fk_canonical v then ''canonical'' else ''fork'') @
     '' hash '' @ shortKey (fk_hash v) @
     (if fk_previous_hash v = [] then [] else '' prevhash '' @ shortKey (fk_previous_hash v)) @
     (if fk_creator v = [] then [] else '' creator '' @ shortKey (fk_creator v))"

text \<open>\<open>None\<close> when \<open>lexical_cast\<close> throws.\<close>

definition printForkDiagnostics :: "site \<Rightarrow> daemon \<Rightarrow> (string list \<times> daemon) option" where
  "printForkDiagnostics S s =
     (case fork_count S s of
        (None, s) \<Rightarrow> None
      | (Some n, s) \<Rightarrow>
          let variants = getForkVariants (env_of S s) (the_db s) 50
          in Some (['' Fork diagnostics:'', ''  non-canonical fork variants: '' @ show_long n] @
               (if variants = [] then [''  variants: -''] else ''  recent fork slots:'' # map fork_line variants), s))"

definition printReorgDiagnostics :: "env \<Rightarrow> dbh \<Rightarrow> string list option" where
  "printReorgDiagnostics E db =
     map_option (\<lambda>info. '' Reorg diagnostics:'' #
       (if ri_previous_block info \<le> 0 \<or> ri_new_block info \<le> 0 then [''  last reorg: -'']
        else [''  previous tip: '' @ show_long (ri_previous_block info) @ '' hash '' @ shortKey (ri_previous_hash info),
              ''  new tip: '' @ show_long (ri_new_block info) @ '' hash '' @ shortKey (ri_new_hash info),
              ''  time: '' @ show_long (ri_time info), ''  reason: '' @ or_dash (ri_reason info)]))
     (getLastReorgInfo E db)"

definition printChainIdentity :: "env \<Rightarrow> dbh \<Rightarrow> string list" where
  "printChainIdentity E db =
     (let config = env_config E; firstBlockId = getFirstBlockId db; firstBlock = getBlock E db firstBlockId
      in ['' Chain identity:'', ''  network: '' @ nc_network config,
          ''  configured genesis block: '' @ show_long (genesisBlock config),
          ''  configured genesis hash: '' @ or_dash (genesisHash config), ''  strict genesis: '' @ yes_no (strictGenesis config),
          ''  local genesis block: '' @ show_long firstBlockId, ''  local genesis hash: '' @ or_dash (b_hash firstBlock),
          ''  matches configured genesis: '' @ yes_no (genesisMatches config firstBlockId (b_hash firstBlock))])"

end
