(* ===== verification/Console.thy ===== *)
theory Console
  imports ConsoleLists
begin

text \<open>
  The command line of \<open>src/src/cli.cpp\<close>, \<open>CCLI::processUserInput\<close>: its state, and the commands that
  join, rename, renew, set and send, in the order in which the source tries them. A command gives \<open>None\<close> when it does not come back: the scan of the chain has no limit, and an exception
  leaves the loop.
\<close>

section \<open>State\<close>

record console =
  co_site :: site
  co_scanner :: scanner
  co_private :: string
  co_public :: string
  co_last :: string
  co_input :: input
  co_output :: string

definition co_daemon :: "console \<Rightarrow> daemon" where
  "co_daemon c = sn_daemon (co_scanner c)"

definition set_daemon :: "daemon \<Rightarrow> console \<Rightarrow> console" where
  "set_daemon s c = c\<lparr>co_scanner := (co_scanner c)\<lparr>sn_daemon := s\<rparr>\<rparr>"

definition on_daemon :: "(daemon \<Rightarrow> 'a \<times> daemon) \<Rightarrow> console \<Rightarrow> 'a \<times> console" where
  "on_daemon f c = (let (a, s) = f (co_daemon c) in (a, set_daemon s c))"

definition co_env :: "console \<Rightarrow> env" where
  "co_env c = env_of (co_site c) (co_daemon c)"

definition co_db :: "console \<Rightarrow> dbh" where
  "co_db c = the_db (co_daemon c)"

definition co_functions :: "console \<Rightarrow> cfunctions" where
  "co_functions c = sn_functions (co_scanner c)"

definition put_text :: "string \<Rightarrow> console \<Rightarrow> console" where
  "put_text text c = c\<lparr>co_output := co_output c @ text\<rparr>"

definition say :: "string list \<Rightarrow> console \<Rightarrow> console" where
  "say lines = put_text (concat (map (\<lambda>l. l @ [NL]) lines))"

definition read_word :: "console \<Rightarrow> string \<times> console" where
  "read_word c = (let (w, inp) = word_in (co_input c) in (w, c\<lparr>co_input := inp\<rparr>))"

definition ask :: "string list \<Rightarrow> console \<Rightarrow> string \<times> console" where
  "ask lines c = read_word (say lines c)"

definition scan :: "bool \<Rightarrow> console \<Rightarrow> console option" where
  "scan debug c =
     map_option (\<lambda>(text, sn). put_text text (c\<lparr>co_scanner := sn\<rparr>)) (scanChain (co_site c) (co_public c) debug (co_scanner c))"

section \<open>Sending records\<close>

definition queueAndBroadcastRecord :: "record_structure \<Rightarrow> console \<Rightarrow> bool \<times> console" where
  "queueAndBroadcastRecord r c =
     (if \<not> isRecordSizeValid (co_env c) r then (False, say ['' Record not sent: '' @ recordSizeError (co_env c) r @ ''.''] c)
      else if isExpiredHeartbeatRecord (co_env c) r (-1) then (True, c)
      else
        let (queued, c) = on_daemon (add_queue (co_site c) r) c
        in if queued = 0 then (False, say ['' Record not sent: unable to queue record.''] c)
           else (True, set_daemon (upd_node (broadcastRecord (si_world (co_site c)) r) (co_daemon c)) c))"

text \<open>Making a record of the time, signing, queueing; the lines are printed when it was taken.\<close>

definition submit_record :: "(int \<Rightarrow> record_structure) \<Rightarrow> string list \<Rightarrow> console \<Rightarrow> console" where
  "submit_record mk lines c =
     (let (epoch, c) = on_daemon (now_epoch (co_site c)) c;
          r = sign_record (co_site c) (co_daemon c) (co_private c) (mk epoch);
          (sent, c) = queueAndBroadcastRecord r c
      in if sent then say lines c else c)"

definition plain_record :: "transaction_type \<Rightarrow> string \<Rightarrow> string \<Rightarrow> int \<Rightarrow> record_structure" where
  "plain_record t publicKey name = unsigned_record t 0 publicKey [] (DFin 0) (DFin 0) name"

definition name_available :: "string \<Rightarrow> console \<Rightarrow> bool \<times> console" where
  "name_available userName c = on_daemon (public_name_available_for_owner (co_site c) userName (co_public c)) c"

definition command_join :: "console \<Rightarrow> console option" where
  "command_join c =
     map_option (\<lambda>c.
       let (userName, c) = ask [''Enter public user name: '', []] c
       in if normalizedPublicName userName = []
          then say [''Name not accepted. Use 3-32 characters: letters, numbers, dash, or underscore.''] c
          else
            let (available, c) = name_available userName c
            in if \<not> available then say [''Name not accepted. That public name is already taken.''] c
               else if fn_joined (co_functions c) then say [''Allready joined network. '', []] c
               else submit_record (plain_record JOIN_NETWORK (co_public c) userName)
                      [''Join request queued and broadcast. Joined network will be yes after a block includes this record.'']
                      (say [''Joining request sending... '', []] c)) (scan False c)"

definition command_setname :: "console \<Rightarrow> console option" where
  "command_setname c =
     map_option (\<lambda>c.
       if \<not> fn_joined (co_functions c) then say ['' Join the network before updating your public name.''] c
       else
         let (userName, c) = ask [''Enter new public user name: '', []] c
         in if normalizedPublicName userName = []
            then say [''Name update not sent. Use 3-32 characters: letters, numbers, dash, or underscore.''] c
            else
              let (available, c) = name_available userName c
              in if \<not> available then say [''Name update not sent. That public name is already taken.''] c
                 else submit_record (plain_record UPDATE_NAME (co_public c) userName)
                        [''Name update queued and broadcast. The new name will show after a block includes this record.''] c)
       (scan False c)"

definition command_heartbeat :: "console \<Rightarrow> console option" where
  "command_heartbeat c =
     map_option (\<lambda>c.
       if \<not> fn_joined (co_functions c) then say ['' Join the network before sending a heartbeat.''] c
       else if \<not> enableBlockCreation (env_config (co_env c))
         then say ['' Block creator mode is off. Use creatormode on before sending heartbeats.''] c
       else submit_record (plain_record HEART_BEAT (co_public c) [])
              [''Heartbeat queued and broadcast. Eligibility renews after a block includes this record.''] c) (scan False c)"

section \<open>Settings\<close>

definition on_off :: "bool \<Rightarrow> string" where
  "on_off b = (if b then ''on'' else ''off'')"

definition command_creatormode :: "terminal \<Rightarrow> string \<Rightarrow> console \<Rightarrow> console" where
  "command_creatormode T command c =
     (let value = commandArgument command
      in if value = []
         then say ['' Block creator mode: '' @ on_off (enableBlockCreation (env_config (co_env c))),
                '' Use creatormode on to send heartbeats and create blocks, or creatormode off for a passive wallet.''] c
         else case parseOnOffValue value of
                None \<Rightarrow> say ['' Use creatormode on or creatormode off.''] c
              | Some enabled \<Rightarrow>
                  (case setBlockCreatorMode T enabled (co_site c) of
                     (False, S) \<Rightarrow> say ['' Unable to update safire.conf.''] c
                   | (True, S) \<Rightarrow> say ['' Block creator mode: '' @ on_off enabled] (c\<lparr>co_site := S\<rparr>)))"

definition command_fee :: "console \<Rightarrow> console" where
  "command_fee c =
     say ['' Default transaction fee: '' @ show_double (getDefaultTransactionFee (si_settings (co_site c))) @ '' sfr''] c"

definition command_setfee :: "terminal \<Rightarrow> string \<Rightarrow> console \<Rightarrow> console" where
  "command_setfee T command c =
     (let argument = commandArgument command;
          (feeValue, c) = (if argument = [] then ask [''Enter default transaction fee: '', []] c else (argument, c))
      in case parseFeeAmount feeValue of
           None \<Rightarrow> say ['' Fee not changed. Use a number from 0 to '' @ show_double MAX_TRANSACTION_FEE @ '' sfr.''] c
         | Some fee \<Rightarrow>
             (case setDefaultTransactionFee T fee (co_site c) of
                (False, S) \<Rightarrow> say ['' Fee not changed. Unable to write settings.''] c
              | (True, S) \<Rightarrow> say ['' Default transaction fee set to '' @ show_double fee @ '' sfr.''] (c\<lparr>co_site := S\<rparr>)))"

section \<open>Money\<close>

fun pendingWalletBalanceDelta :: "string \<Rightarrow> record_structure list \<Rightarrow> double \<times> int \<Rightarrow> double \<times> int" where
  "pendingWalletBalanceDelta publicKey [] (delta, count) = (delta, count)"
| "pendingWalletBalanceDelta publicKey (r # rs) (delta, count) =
     pendingWalletBalanceDelta publicKey rs
       (let sent = r_sender r = publicKey; received = r_recipient r = publicKey
        in if \<not> (sent \<or> received) then (delta, count)
           else (if r_type r \<noteq> TRANSFER_CURRENCY then delta
                 else if sent \<and> received then dsub delta (r_fee r)
                 else if sent then dsub delta (dadd (r_amount r) (r_fee r))
                 else dadd delta (r_amount r), count + 1))"

fun pendingWalletNegativeDelta :: "string \<Rightarrow> record_structure list \<Rightarrow> double \<Rightarrow> double" where
  "pendingWalletNegativeDelta publicKey [] delta = delta"
| "pendingWalletNegativeDelta publicKey (r # rs) delta =
     pendingWalletNegativeDelta publicKey rs
       (if r_type r = TRANSFER_CURRENCY \<and> r_sender r = publicKey
        then if r_recipient r = publicKey then dsub delta (r_fee r) else dsub delta (dadd (r_amount r) (r_fee r))
        else if r_type r = VOTE \<and> r_sender r = publicKey then dsub delta (r_fee r)
        else delta)"

definition recentAcceptedWalletNegativeDelta :: "env \<Rightarrow> dbh \<Rightarrow> string \<Rightarrow> int \<Rightarrow> double" where
  "recentAcceptedWalletNegativeDelta E db publicKey confirmedStop =
     (if no_chain db \<or> publicKey = [] then DFin 0
      else pendingWalletNegativeDelta publicKey
             (map (\<lambda>(b, i, r). r) (fresh_entries {} (entries (filter (\<lambda>b. confirmedStop < b_number b) (api_chain E db))))) (DFin 0))"

definition spendableConfirmedBalance :: "site \<Rightarrow> string \<Rightarrow> daemon \<Rightarrow> double \<times> daemon" where
  "spendableConfirmedBalance S publicKey s =
     (let confirmed = confirmedStopBlock (env_of S s) (the_db s) WALLET_CONFIRMATION_BLOCKS;
          (st, s) = ledger_of S publicKey confirmed s;
          (records, s) = peek_queue S s;
          spendable = dadd (ls_wallet st) (recentAcceptedWalletNegativeDelta (env_of S s) (the_db s) publicKey confirmed);
          spendable = dadd spendable (pendingWalletNegativeDelta publicKey records (DFin 0))
      in (if dlt spendable (DFin 0) \<and> dlt (dneg EPS) spendable then DFin 0 else spendable, s))"

fun highest_nonce :: "string \<Rightarrow> record_structure list \<Rightarrow> int \<Rightarrow> int" where
  "highest_nonce publicKey [] nonce = nonce"
| "highest_nonce publicKey (r # rs) nonce =
     highest_nonce publicKey rs
       (if r_type r = TRANSFER_CURRENCY \<and> r_sender r = publicKey \<and> nonce < r_nonce r then r_nonce r else nonce)"

definition nextTransferNonce :: "site \<Rightarrow> string \<Rightarrow> daemon \<Rightarrow> int \<times> daemon" where
  "nextTransferNonce S publicKey s =
     (let (st, s) = ledger_of S [] (-1) s; (records, s) = peek_queue S s
      in (highest_nonce publicKey records (sm_at 0 (ls_nonces st) publicKey) + 1, s))"

definition below_eps_zero :: "double \<Rightarrow> double" where
  "below_eps_zero d = (if dlt (dabs d) EPS then DFin 0 else d)"

definition command_balance :: "console \<Rightarrow> console" where
  "command_balance c =
     (let confirmed = confirmedStopBlock (co_env c) (co_db c) WALLET_CONFIRMATION_BLOCKS;
          (confirmedState, c) = on_daemon (ledger_of (co_site c) (co_public c) confirmed) c;
          (tipState, c) = on_daemon (ledger_of (co_site c) (co_public c) (-1)) c;
          (records, c) = on_daemon (peek_queue (co_site c)) c;
          (mempoolDelta, mempoolCount) = pendingWalletBalanceDelta (co_public c) records (DFin 0, 0);
          acceptedDelta = below_eps_zero (dsub (ls_wallet tipState) (ls_wallet confirmedState));
          pendingDelta = dadd acceptedDelta mempoolDelta;
          pendingCount = mempoolCount + (if dle EPS (dabs acceptedDelta) then 1 else 0)
      in say ['' Your balance: '' @ show_double (ls_wallet confirmedState) @ '' sfr'',
           '' Estimated balance: '' @ show_double (dadd (ls_wallet confirmedState) pendingDelta) @ '' sfr'',
           '' Pending settlement: '' @ show_double pendingDelta @ '' sfr'' @
             (if 0 < pendingCount
              then '' ('' @ show_long pendingCount @ '' record'' @ (if pendingCount = 1 then [] else ''s'') @ '')'' else []),
           '' Confirmed through block: '' @ show_long confirmed] c)"

definition command_history :: "terminal \<Rightarrow> string \<Rightarrow> console \<Rightarrow> console" where
  "command_history T kind c =
     (let c = (if kind = ''received'' then say [''Your receiving address is: '' @ co_public c, []] c else c);
          (lines, c) = on_daemon (printWalletHistory T (co_site c) (co_public c) kind) c
      in say lines c)"

text \<open>The guards of a transfer, and the transfer.\<close>

definition cli_transfer :: "string \<Rightarrow> double \<Rightarrow> double \<Rightarrow> console \<Rightarrow> console" where
  "cli_transfer destination amount fee c =
     (let (epoch, c) = on_daemon (now_epoch (co_site c)) c;
          (nonce, c) = on_daemon (nextTransferNonce (co_site c) (co_public c)) c;
          r = sign_record (co_site c) (co_daemon c) (co_private c)
                (unsigned_record TRANSFER_CURRENCY nonce (co_public c) destination amount fee [] epoch);
          (sent, c) = queueAndBroadcastRecord r c
      in if sent then say [''Sent transfer request. ''] c else c)"

definition cli_send :: "string \<Rightarrow> string \<Rightarrow> console \<Rightarrow> console" where
  "cli_send destination amountText c =
     (let amount = atof amountText; fee = getDefaultTransactionFee (si_settings (co_site c)); totalDebit = dadd amount fee
      in if dle amount (DFin 0) then say [''Invalid amount. Unable to send transfer request. ''] c
         else
           let (spendable, c) = on_daemon (spendableConfirmedBalance (co_site c) (co_public c)) c
           in if dlt spendable totalDebit
              then say [''Insuficient balance. Unable to send transfer request. Amount plus fee is '' @ show_double totalDebit @ '' sfr.''] c
              else cli_transfer destination amount fee c)"

definition command_send :: "console \<Rightarrow> console option" where
  "command_send c =
     map_option (\<lambda>c.
       let (destination, c) = ask [''Enter destination address: '', []] c;
           (amount, c) = ask [''Enter amount to send: '', []] c
       in cli_send destination amount (say [''Sending '' @ amount @ '' to user: '' @ destination @ '' '', []] c)) (scan False c)"

end
