(* ===== verification/ConsoleNet.thy ===== *)
theory ConsoleNet
  imports Console
begin

text \<open>
  The commands of \<open>src/src/cli.cpp\<close> that look at the network and the peers: the selection of block
  creators, the members with a recent heartbeat, \<open>network\<close>, \<open>peers\<close>, \<open>nextblock\<close>, the downloads
  \<open>requestblock\<close>, \<open>sync\<close>, \<open>recover\<close> and \<open>syncfull\<close>, and \<open>repairchain\<close>.
\<close>

text \<open>A step of the peer client; \<open>None\<close> when it throws.\<close>

definition on_net :: "(world \<Rightarrow> node \<Rightarrow> 'a \<times> node) \<Rightarrow> console \<Rightarrow> 'a \<times> console" where
  "on_net f c = on_daemon (on_node (f (si_world (co_site c)))) c"

definition try_daemon :: "(daemon \<Rightarrow> 'a option \<times> daemon) \<Rightarrow> console \<Rightarrow> ('a \<times> console) option" where
  "try_daemon f c = (case f (co_daemon c) of (None, s) \<Rightarrow> None | (Some a, s) \<Rightarrow> Some (a, set_daemon s c))"

definition try_net :: "(world \<Rightarrow> 'a act) \<Rightarrow> console \<Rightarrow> ('a \<times> console) option" where
  "try_net f c = try_daemon (on_node (f (si_world (co_site c)))) c"

definition co_node :: "console \<Rightarrow> node" where
  "co_node c = d_node (co_daemon c)"

definition sync_time :: "console \<Rightarrow> console" where
  "sync_time c = snd (on_net syncNetworkTime c)"

section \<open>Selection of block creators\<close>

text \<open>The members with key and name, and the block whose hash is the seed.\<close>

definition selectionMembersForSlot ::
    "site \<Rightarrow> int \<Rightarrow> daemon \<Rightarrow> ((string \<times> string) list \<times> block_structure) \<times> daemon" where
  "selectionMembersForSlot S timeBlock s =
     (let selectionBoundary = getSelectionBoundaryBlock timeBlock (getFirstBlockId (the_db s));
          (selectionState, s) = ledger_of S [] selectionBoundary s;
          activeKeys = activeMemberKeysAt selectionState timeBlock
      in ((map (\<lambda>m. (ms_key m, ms_name m)) (filter (\<lambda>m. ms_key m \<in> set activeKeys) (ls_members selectionState)),
           ls_latest_block selectionState), s))"

definition printSelectedBlockCreator ::
    "terminal \<Rightarrow> env \<Rightarrow> (string \<times> string) list \<Rightarrow> int \<Rightarrow> string \<Rightarrow> string \<Rightarrow> string \<Rightarrow> string list" where
  "printSelectedBlockCreator T E members timeBlock selectionSeedHash label localPublicKey =
     ['' '' @ label @ '' block: '' @ show_long timeBlock, '' Time: '' @ formatSlotTime T timeBlock] @
     (if members = [] then ['' Creator: none selected; no active heartbeat members loaded.'']
      else
        let userIndex = getSelectedIndexForBlock E timeBlock selectionSeedHash (int (length members))
        in if userIndex < 0 \<or> int (length members) \<le> userIndex
           then ['' Creator: none selected; parent block is unknown.'']
           else
             let (key, name) = members ! nat userIndex
             in ['' Creator: '' @ key, '' Name: '' @ or_dash name] @
                (if label = ''Current'' then ['' This node: '' @ yes_no (key = localPublicKey)] else []))"

fun find_local_slot :: "terminal \<Rightarrow> site \<Rightarrow> int \<Rightarrow> string \<Rightarrow> int list \<Rightarrow> daemon \<Rightarrow> string list \<times> daemon" where
  "find_local_slot T S startBlock localPublicKey [] s =
     (['' Next time this node is selected: not in the searched epoch window''], s)"
| "find_local_slot T S startBlock localPublicKey (offset # offsets) s =
     (let candidateBlock = startBlock + offset;
          ((members, seedBlock), s) = selectionMembersForSlot S candidateBlock s;
          userIndex = getSelectedIndexForBlock (env_of S s) candidateBlock (b_hash seedBlock) (int (length members))
      in if 0 \<le> userIndex \<and> userIndex < int (length members) \<and> fst (members ! nat userIndex) = localPublicKey
         then (['' Next time this node is selected:'', ''  block: '' @ show_long candidateBlock,
                ''  time: '' @ formatSlotTime T candidateBlock,
                ''  approximately: '' @ show_ratio (if startBlock < candidateBlock then offset * 15 else 0) 60 @ '' minutes''], s)
         else find_local_slot T S startBlock localPublicKey offsets s)"

definition slot_search_limit :: int where
  "slot_search_limit = getEpochSizeBlocks * (getSelectionLagEpochs + 2)"

definition printNextLocalCreatorSlot :: "terminal \<Rightarrow> site \<Rightarrow> int \<Rightarrow> string \<Rightarrow> daemon \<Rightarrow> string list \<times> daemon" where
  "printNextLocalCreatorSlot T S startBlock localPublicKey s =
     (if localPublicKey = [] then (['' Next time this node is selected: unknown''], s)
      else find_local_slot T S startBlock localPublicKey (map int [0..<Suc (nat slot_search_limit)]) s)"

definition printNextBlockSelection :: "terminal \<Rightarrow> site \<Rightarrow> string \<Rightarrow> daemon \<Rightarrow> string list \<times> daemon" where
  "printNextBlockSelection T S localPublicKey s =
     (let latestBlock = getBlock (env_of S s) (the_db s) (getLatestBlockId (the_db s));
          currentBlock = getCurrentTimeBlock (env_of S s);
          nextBlock = currentBlock + 1;
          (acceptedMembers, s) = accepted_membership_records S s;
          ((currentMembers, currentSeed), s) = selectionMembersForSlot S currentBlock s;
          ((nextMembers, nextSeed), s) = selectionMembersForSlot S nextBlock s;
          (now, s) = now_epoch S s;
          seconds = max 0 (nextBlock * 15 - now);
          E = env_of S s;
          (localSlot, s) = printNextLocalCreatorSlot T S currentBlock localPublicKey s
      in (['' Block creator selection:'', '' Network time offset: '' @ show_long (n_offset (d_node s)) @ ''s'',
           '' Epoch size: '' @ show_long getEpochSizeBlocks @ '' blocks'',
           '' Selection lag: '' @ show_long getSelectionLagEpochs @ '' epochs'',
           '' Accepted members: '' @ show_nat (length acceptedMembers),
           '' Active heartbeat members at selection checkpoint: '' @ show_nat (length currentMembers),
           '' Parent block: '' @ show_long (b_number latestBlock) @ '' hash '' @ shortKey (b_hash latestBlock),
           '' Selection checkpoint: '' @ show_long (b_number currentSeed) @ '' hash '' @ shortKey (b_hash currentSeed)] @
          printSelectedBlockCreator T E currentMembers currentBlock (b_hash currentSeed) ''Current'' localPublicKey @
          ['' Seconds until next block: '' @ show_long seconds] @
          (if b_hash nextSeed \<noteq> b_hash currentSeed
           then ['' Next selection checkpoint: '' @ show_long (b_number nextSeed) @ '' hash '' @ shortKey (b_hash nextSeed)] else []) @
          printSelectedBlockCreator T E nextMembers nextBlock (b_hash nextSeed) ''Next'' localPublicKey @ localSlot, s))"

definition command_nextblock :: "terminal \<Rightarrow> console \<Rightarrow> console" where
  "command_nextblock T c =
     (let c = sync_time c; (lines, c) = on_daemon (printNextBlockSelection T (co_site c) (co_public c)) c in say lines c)"

section \<open>Members with a recent heartbeat\<close>

definition cliClaimPublicName ::
    "record_structure list \<Rightarrow> owners \<Rightarrow> string \<Rightarrow> string \<Rightarrow> bool \<times> record_structure list \<times> owners" where
  "cliClaimPublicName members nameOwners publicKey name =
     (let normalized = normalizedPublicName name
      in if normalized = [] then (False, members, nameOwners)
         else case key_index r_sender members publicKey of
           None \<Rightarrow> (False, members, nameOwners)
         | Some memberIndex \<Rightarrow>
             if sm_get nameOwners normalized \<noteq> None \<and> sm_get nameOwners normalized \<noteq> Some publicKey
             then (False, members, nameOwners)
             else
               let previousName = normalizedPublicName (r_name (members ! memberIndex));
                   nameOwners = (if previousName \<noteq> [] \<and> sm_get nameOwners previousName = Some publicKey
                                 then sm_del previousName nameOwners else nameOwners)
               in (True, members[memberIndex := (members ! memberIndex)\<lparr>r_name := name\<rparr>],
                   sm_put normalized publicKey nameOwners))"

record member_scan =
  mc_members :: "record_structure list"
  mc_owners :: owners
  mc_heartbeats :: "(string, int) smap"
  mc_saw :: bool

definition claim_in :: "string \<Rightarrow> string \<Rightarrow> member_scan \<Rightarrow> member_scan" where
  "claim_in key name m =
     (case cliClaimPublicName (mc_members m) (mc_owners m) key name of
        (_, members, owners) \<Rightarrow> m\<lparr>mc_members := members, mc_owners := owners\<rparr>)"

definition member_record :: "member_scan \<Rightarrow> block_structure \<times> nat \<times> record_structure \<Rightarrow> member_scan" where
  "member_record m = (\<lambda>(b, i, r).
     case r_type r of
       JOIN_NETWORK \<Rightarrow>
         if \<exists>q \<in> set (mc_members m). r_sender q = r_sender r then m
         else let m = m\<lparr>mc_members := mc_members m @ [r\<lparr>r_name := []\<rparr>]\<rparr>
              in if r_name r \<noteq> [] then claim_in (r_sender r) (r_name r) m else m
     | UPDATE_NAME \<Rightarrow> if r_sender r \<noteq> [] \<and> r_name r \<noteq> [] then claim_in (r_sender r) (r_name r) m else m
     | HEART_BEAT \<Rightarrow>
         if r_sender r \<noteq> [] then m\<lparr>mc_saw := True, mc_heartbeats := sm_put (r_sender r) (b_number b) (mc_heartbeats m)\<rparr> else m
     | _ \<Rightarrow> m)"

definition activeMembershipRecords :: "env \<Rightarrow> dbh \<Rightarrow> record_structure list" where
  "activeMembershipRecords E db =
     (let m = foldl member_record \<lparr>mc_members = [], mc_owners = [], mc_heartbeats = [], mc_saw = False\<rparr>
                (entries (api_chain E db));
          heartbeatCutoff = getCurrentTimeBlock E - HEARTBEAT_VALID_BLOCKS
      in filter (\<lambda>q. \<not> mc_saw m \<or>
             (case sm_get (mc_heartbeats m) (r_sender q) of None \<Rightarrow> False | Some n \<Rightarrow> heartbeatCutoff \<le> n)) (mc_members m))"

section \<open>The command network\<close>

definition IsChainUpToDate :: "dbh \<Rightarrow> bool" where
  "IsChainUpToDate db \<longleftrightarrow> -1 < getLatestBlockId db"

definition SyncProgress :: "dbh \<Rightarrow> double" where
  "SyncProgress db = (if -1 < getLatestBlockId db then DFin 100 else DFin 0)"

definition yes_no_blank :: "bool \<Rightarrow> string" where
  "yes_no_blank b = (if b then ''yes'' else ''no '')"

definition network_sync :: "console \<Rightarrow> console" where
  "network_sync c =
     (if n_peers (co_node c) = [] then say ['' Sync Progress: '' @ show_double (SyncProgress (co_db c)) @ ''% ''] c
      else
        let (bestPeer, c) = on_net getBestPeerStatus c; (synced, c) = on_net isSyncedWithPeers c
        in say (['' Peer sync: '' @ yes_no_blank synced, '' Peer latest block: '' @ show_long (p_latestBlockId bestPeer)] @
                (if p_latestBlockHash bestPeer = [] then [] else ['' Peer latest hash: '' @ shortKey (p_latestBlockHash bestPeer)])) c)"

definition network_chain_lines :: "env \<Rightarrow> dbh \<Rightarrow> string list" where
  "network_chain_lines E db =
     (let config = env_config E; n = getFirstBlockId db
      in ['' First block: '' @ show_long n, '' Latest block: '' @ show_long (getLatestBlockId db),
          '' Genesis match: '' @ yes_no (genesisMatches config n (b_hash (getBlock E db n))),
          '' Storage profile: '' @ normalizedStorageProfile config,
          '' Carry-forward period: '' @ show_long (carryForwardPeriodBlocks config) @ '' blocks'',
          if prunesOldBlocks config then '' Retention target: '' @ show_long (pruneHorizonBlocks config) @ '' blocks''
          else '' Retention target: full history''])"

definition network_clock_lines :: "node \<Rightarrow> string list" where
  "network_clock_lines n =
     ['' Network time offset: '' @ show_long (n_offset n) @ ''s'',
      '' Clock status: '' @ (if isClockHealthy n then ''ok'' else ''check local clock'')]"

definition network_member_lines :: "env \<Rightarrow> dbh \<Rightarrow> string \<Rightarrow> cfunctions \<Rightarrow> string list" where
  "network_member_lines E db publicKey f =
     ['' Block creator mode: '' @ on_off (enableBlockCreation (env_config E)), '' Joined network: '' @ yes_no (fn_joined f),
      '' Active heartbeat: '' @ yes_no (\<exists>m \<in> set (activeMembershipRecords E db). r_sender m = publicKey),
      '' Heartbeat renewal due: '' @ yes_no (fn_heartbeat_renewal_due f),
      '' Last heartbeat block: '' @ (if -1 < fn_last_heartbeat_block f then show_long (fn_last_heartbeat_block f) else ''-'')]"

definition network_supply_lines :: "cfunctions \<Rightarrow> double \<Rightarrow> nat \<Rightarrow> string list" where
  "network_supply_lines f ledgerTotal members =
     ['' Your balance: '' @ show_double (fn_balance f) @ '' sfr'',
      '' Issued supply: '' @ show_double (fn_currency_circulation f) @ '' sfr'',
      '' Ledger balance total: '' @ show_double ledgerTotal @ '' sfr'',
      '' Supply difference: '' @ show_double (below_eps_zero (dsub ledgerTotal (fn_currency_circulation f))) @ '' sfr'',
      '' User count: '' @ show_nat members, '' Blockchain size:  0MB'', '' Pending transactions:  0'']"

definition network_peer_lines :: "daemon \<Rightarrow> string list" where
  "network_peer_lines s =
     (let t = d_nat s
      in ['' Peers: '' @ show_nat (length (d_relay_nodes s)), '' Local peers: '' @ show_nat (length (n_peers (d_node s))),
          '' Public peer mode: '' @ on_off (nt_enabled t) @
          (if nt_enabled t \<and> nt_mapped t
           then '' mapped'' @ (if nt_method t = [] then [] else '' via '' @ nt_method t) @
                (if nt_externalAddress t = [] then [] else '' '' @ nt_externalAddress t @ '':'' @ show_long (nt_externalPort t))
           else if nt_enabled t \<and> nt_message t \<noteq> [] then '' '' @ nt_message t else [])])"

definition command_network :: "console \<Rightarrow> console option" where
  "command_network c =
     map_option (\<lambda>c.
       let c = network_sync (say ['' Network up to date: '' @ yes_no_blank (IsChainUpToDate (co_db c))] c);
           c = say (network_chain_lines (co_env c) (co_db c) @ network_clock_lines (co_node c) @
                 network_member_lines (co_env c) (co_db c) (co_public c) (co_functions c)) c;
           (members, c) = on_daemon (accepted_membership_records (co_site c)) c;
           (st, c) = on_daemon (ledger_of (co_site c) [] (-1)) c
       in say (network_supply_lines (co_functions c) (ledger_balance_total (ls_balances st)) (length members) @
               network_peer_lines (co_daemon c)) c)
     (scan False (sync_time c))"

section \<open>The command peers\<close>

definition peer_lines :: "terminal \<Rightarrow> peer_status \<Rightarrow> string list" where
  "peer_lines T p =
     [''  '' @ p_url p, ''    reachable: '' @ yes_no (p_reachable p), ''    genesis match: '' @ yes_no (p_genesisMatch p),
      ''    protocol: '' @ show_long (p_protocolVersion p),
      ''    latest: '' @ show_long (p_latestBlockId p) @ hash_part (p_latestBlockHash p),
      ''    score: '' @ show_long (p_score p) @ '' successes '' @ show_long (p_successes p) @ '' failures '' @ show_long (p_failures p)] @
     (if 0 < p_lastSuccessEpoch p
      then [''    last success: '' @ formatEpochTimeString T (show_long (p_lastSuccessEpoch p))] else []) @
     (if 0 < p_firstFailureEpoch p
      then [''    failing since: '' @ formatEpochTimeString T (show_long (p_firstFailureEpoch p)),
            ''    purge after: 3 days unavailable''] else []) @
     (if p_lastError p = [] then [] else [''    last error: '' @ p_lastError p])"

text \<open>
  The loop over the statuses, which are read again for a peer that was never seen. \<open>None\<close> when
  \<open>at\<close> finds no status any more.
\<close>

definition fresh_statuses :: "peer_status \<Rightarrow> console \<Rightarrow> peer_status list \<times> console" where
  "fresh_statuses p c = on_net (\<lambda>W. getPeerStatuses W False) (snd (on_net (\<lambda>W. getPeerLatestBlockId W (p_url p)) c))"

partial_function (option) print_peers :: "terminal \<Rightarrow> nat \<Rightarrow> peer_status list \<Rightarrow> console \<Rightarrow> console option" where
  "print_peers T i statuses c =
     (if length statuses \<le> i then Some c
      else if p_lastSeenEpoch (statuses ! i) \<noteq> 0
        then print_peers T (Suc i) statuses (say (peer_lines T (statuses ! i)) c)
      else
        let r = fresh_statuses (statuses ! i) c
        in if length (fst r) \<le> i then None
           else print_peers T (Suc i) (fst r) (say (peer_lines T (fst r ! i)) (snd r)))"

definition command_peers :: "terminal \<Rightarrow> console \<Rightarrow> console option" where
  "command_peers T c =
     (let c = snd (on_net (\<lambda>W n. ((), discoverPeers W n)) c);
          (statuses, c) = on_net (\<lambda>W. getPeerStatuses W False) c;
          c = say (('' Local peers: '' @ show_nat (length statuses)) #
                (if statuses = []
                 then [''  No local peers configured. Start a wallet normally or use --peer http://host:port''] else [])) c
      in print_peers T 0 statuses c)"

section \<open>Downloads\<close>

definition command_repairchain :: "console \<Rightarrow> console" where
  "command_repairchain c =
     (let (before, c) = on_daemon (connected_latest (co_site c)) c; (after, c) = on_net rebuild c
      in say ['' Chain repair:'', ''  connected latest before: '' @ show_long before,
              ''  connected latest after: '' @ show_long after] c)"

fun request_each :: "string list \<Rightarrow> console \<Rightarrow> console option" where
  "request_each [] c = Some c"
| "request_each (peer # peers) c = Option.bind (try_net (\<lambda>W. syncFromPeer W peer) c) (\<lambda>(_, c). request_each peers c)"

definition command_requestblock :: "console \<Rightarrow> console option" where
  "command_requestblock c =
     (let c = say ['' Request block... '', '' id: '' @ show_long (getLatestBlockId (co_db c))] c
      in request_each (n_peers (co_node c)) c)"

definition push_lines :: "string \<Rightarrow> int \<times> int \<Rightarrow> int \<times> int \<Rightarrow> push_result \<Rightarrow> string list" where
  "push_lines again = (\<lambda>(before, after) (peerBefore, peerAfter) r.
     [''    local latest: '' @ show_long before @ '' -> '' @ show_long after,
      ''    peer latest: '' @ show_long peerBefore @ '' -> '' @ show_long peerAfter,
      ''    candidate blocks: '' @ show_long (pr_candidateBlocks r), ''    pushed blocks: '' @ show_long (pr_pushedBlocks r)] @
     (if pr_failedBlockId r = -1 \<and> pr_pushedBlocks r < pr_candidateBlocks r
      then [''    more blocks remain; run '' @ again @ '' again to continue this batch repair.''] else []) @
     (if -1 < pr_failedBlockId r
      then [''    failed block: '' @ show_long (pr_failedBlockId r),
            ''    response: '' @ (if pr_response r = [] then ''(empty response)'' else pr_response r)] else []))"

text \<open>\<open>sync\<close> and \<open>syncfull\<close> differ in how they push and in two words.\<close>

fun sync_with_each ::
    "string \<Rightarrow> (world \<Rightarrow> string \<Rightarrow> node \<Rightarrow> push_result \<times> node) \<Rightarrow> string list \<Rightarrow> console \<Rightarrow> console option" where
  "sync_with_each again push [] c = Some c"
| "sync_with_each again push (peer # peers) c =
     (let c = say [''  '' @ peer] c; before = getLatestBlockId (co_db c);
          (peerBefore, c) = on_net (\<lambda>W. getPeerLatestBlockId W peer) c
      in Option.bind (try_net (\<lambda>W. syncFromPeer W peer) c) (\<lambda>(_, c).
           let (result, c) = on_net (\<lambda>W. push W peer) c; after = getLatestBlockId (co_db c);
               (peerAfter, c) = on_net (\<lambda>W. getPeerLatestBlockId W peer) c
           in sync_with_each again push peers (say (push_lines again (before, after) (peerBefore, peerAfter) result) c)))"

definition no_peers_lines :: "string list \<Rightarrow> string list" where
  "no_peers_lines peers =
     (if peers = [] then [''  No local peers configured. Start with --peer http://host:port''] else [])"

definition sync_command ::
    "string \<Rightarrow> string \<Rightarrow> (world \<Rightarrow> string \<Rightarrow> node \<Rightarrow> push_result \<times> node) \<Rightarrow> console \<Rightarrow> console option" where
  "sync_command title again push c =
     (let peers = n_peers (co_node c);
          c = sync_time (say (title # no_peers_lines peers) c);
          c = say [''  Network time offset: '' @ show_long (n_offset (co_node c)) @ ''s''] c
      in sync_with_each again push peers c)"

definition command_sync :: "console \<Rightarrow> console option" where
  "command_sync = sync_command '' Syncing local peers... '' ''sync'' pushToPeerDetailed"

definition command_syncfull :: "console \<Rightarrow> console option" where
  "command_syncfull = sync_command '' Full syncing local peers... '' ''syncfull'' pushFullChainToPeerDetailed"

fun recover_each :: "string list \<Rightarrow> console \<Rightarrow> console option" where
  "recover_each [] c = Some c"
| "recover_each (peer # peers) c =
     Option.bind (try_net (\<lambda>W. syncFromPeer W peer) c) (\<lambda>(_, c).
       recover_each peers (snd (on_net (\<lambda>W. pushToPeerDetailed W peer) c)))"

definition chain_counts :: "console \<Rightarrow> ((int \<times> int \<times> int) \<times> console) option" where
  "chain_counts c =
     (let latest = getLatestBlockId (co_db c); (tip, c) = on_daemon (connected_latest (co_site c)) c
      in map_option (\<lambda>(n, c). ((latest, tip, n), c)) (try_daemon (fork_count (co_site c)) c))"

definition count_lines :: "string \<Rightarrow> int \<times> int \<times> int \<Rightarrow> string list" where
  "count_lines whn = (\<lambda>(latest, tip, n).
     [''  latest '' @ whn @ '': '' @ show_long latest, ''  connected '' @ whn @ '': '' @ show_long tip,
      ''  fork variants '' @ whn @ '': '' @ show_long n])"

definition recover_repair :: "console \<Rightarrow> console" where
  "recover_repair c =
     (let before = getLatestBlockId (co_db c); (after, c) = on_net rebuild c
      in say [''  repair: '' @ show_long before @ '' -> '' @ show_long after] c)"

definition command_recover :: "console \<Rightarrow> console option" where
  "command_recover c =
     Option.bind (chain_counts c) (\<lambda>(before, c).
       let peers = n_peers (co_node c);
           c = sync_time (say ('' Chain recovery:'' # count_lines ''before'' before @ no_peers_lines peers) c)
       in Option.bind (recover_each peers (say [''  sync pass 1''] c)) (\<lambda>c.
          Option.bind (recover_each peers (say [''  sync pass 2''] (recover_repair c))) (\<lambda>c.
          map_option (\<lambda>(after, c). say (count_lines ''after'' after) c) (chain_counts c))))"

end
