(* ===== verification/CarryForward.thy ===== *)
theory CarryForward
  imports MempoolFacts LedgerMoney ChainValidator
begin

text \<open>
  \<open>src/src/carryforward.cpp\<close>: once per period a member may queue a record that carries its
  balance at a checkpoint forward and earns a reward. The helpers for the value of such a
  record and for the balance have the same text as those of \<open>functions.cpp\<close>, whose model they
  share (\<open>basic_carry_forward\<close>, \<open>account_record\<close>). The thread that calls
  \<open>queueCarryForwardIfDue\<close> once a day only sleeps and reads the wallet.
\<close>

section \<open>The operations\<close>

text \<open>A reward of \<open>1.0\<close> is printed as \<open>1\<close> by the stream.\<close>

definition carryForwardValue :: "int \<Rightarrow> int \<Rightarrow> string" where
  "carryForwardValue checkpointBlock period =
     ''checkpoint='' @ show_long checkpointBlock @ '';period='' @ show_long period @ '';reward=1''"

definition accountBalanceAtBlock :: "env \<Rightarrow> dbh \<Rightarrow> string \<Rightarrow> int \<Rightarrow> double" where
  "accountBalanceAtBlock E db accountPublicKey checkpointBlock =
     (let firstBlockId = getFirstBlockId db; latestBlockId = getLatestBlockId db
      in if accountPublicKey = [] \<or> firstBlockId < 0 \<or> latestBlockId < 0 then DFin 0
         else snd (foldl (\<lambda>s b. foldl (account_record accountPublicKey b) s (b_records b)) ({}, DFin 0)
                (walk_chain (getNextBlock E db) (\<lambda>n. checkpointBlock < n) latestBlockId 0 (getBlock E db firstBlockId))))"

definition snapshotMatches :: "env \<Rightarrow> dbh \<Rightarrow> record_structure \<Rightarrow> bool" where
  "snapshotMatches E db r =
     (let checkpoint = parseCarryForwardValueLong (r_value r) ''checkpoint''
      in if checkpoint < 0 then False
         else
           let diff = dsub (accountBalanceAtBlock E db (r_recipient r) checkpoint) (r_amount r);
               diff = (if dlt diff (DFin 0) then dneg diff else diff)
           in dlt diff EPS)"

definition acceptedCarryForwardExists :: "env \<Rightarrow> dbh \<Rightarrow> string \<Rightarrow> int \<Rightarrow> bool" where
  "acceptedCarryForwardExists E db accountPublicKey period =
     (let firstBlockId = getFirstBlockId db; latestBlockId = getLatestBlockId db
      in if accountPublicKey = [] \<or> firstBlockId < 0 \<or> latestBlockId < 0 then False
         else \<exists>b \<in> set (walk_chain (getNextBlock E db) (\<lambda>n. False) latestBlockId 0 (getBlock E db firstBlockId)).
                \<exists>r \<in> set (b_records b).
                  r_type r = CARRY_FORWARD \<and> r_recipient r = accountPublicKey \<and>
                  parseCarryForwardValueLong (r_value r) ''period'' = period \<and>
                  basic_carry_forward r (b_number b) \<and> snapshotMatches E db r)"

definition pendingCarryForwardExists :: "env \<Rightarrow> string \<Rightarrow> int \<Rightarrow> queue \<Rightarrow> bool \<times> queue" where
  "pendingCarryForwardExists E accountPublicKey period q =
     (case peekQueueRecords E q of
        (records, q) \<Rightarrow>
          (\<exists>r \<in> set records. r_type r = CARRY_FORWARD \<and> r_recipient r = accountPublicKey \<and>
              parseCarryForwardValueLong (r_value r) ''period'' = period, q))"

definition carry_forward_record :: "env \<Rightarrow> (string \<Rightarrow> string) \<Rightarrow> string \<Rightarrow> int \<Rightarrow> int \<Rightarrow> double \<Rightarrow> record_structure" where
  "carry_forward_record E sign publicKey checkpointBlock period checkpointBalance =
     (let r = \<lparr>r_network = ''main'', r_time = show_long (getEpoch E), r_type = CARRY_FORWARD, r_nonce = 0,
               r_amount = checkpointBalance, r_fee = DFin 0, r_sender = publicKey, r_recipient = publicKey, r_hash = [],
               r_signature = [], r_name = ''carry-forward'', r_value = carryForwardValue checkpointBlock period\<rparr>;
          hash = getRecordHash E r
      in r\<lparr>r_hash := hash, r_signature := sign hash\<rparr>)"

text \<open>
  The record that was queued and sent to the peers, if there is one, and the queue. The tip of
  the connected chain is noted in the database by \<open>getConnectedLatestBlockId\<close>, and looking at
  the queue removes what is no longer pending.
\<close>

definition queueCarryForwardIfDue ::
    "env \<Rightarrow> (string \<Rightarrow> string) \<Rightarrow> string \<Rightarrow> string \<Rightarrow> queue \<Rightarrow> record_structure option \<times> queue" where
  "queueCarryForwardIfDue E sign privateKey publicKey = (\<lambda>(db, file).
     let storagePolicy = env_config E;
         checkpointAgeBlocks = carryForwardCheckpointAgeBlocks storagePolicy;
         periodBlocks = carryForwardPeriodBlocks storagePolicy;
         firstBlockId = getFirstBlockId db;
         (latestConnectedBlockId, db) = getConnectedLatestBlockId E db
     in if privateKey = [] \<or> publicKey = [] \<or> firstBlockId < 0 \<or> latestConnectedBlockId < 0 then (None, (db, file))
        else if checkpointAgeBlocks \<le> 0 \<or> periodBlocks \<le> 0 \<or> latestConnectedBlockId - firstBlockId < checkpointAgeBlocks
          then (None, (db, file))
        else
          let checkpointBlock = latestConnectedBlockId - checkpointAgeBlocks;
              period = cdiv checkpointBlock periodBlocks
          in if acceptedCarryForwardExists E db publicKey period then (None, (db, file))
             else case pendingCarryForwardExists E publicKey period (db, file) of
                    (True, q) \<Rightarrow> (None, q)
                  | (False, q) \<Rightarrow>
                      let checkpointBalance = accountBalanceAtBlock E (fst q) publicKey checkpointBlock
                      in if dle checkpointBalance (DFin 0) then (None, q)
                         else
                           let r = carry_forward_record E sign publicKey checkpointBlock period checkpointBalance
                           in case addToQueue E r q of (added, q) \<Rightarrow> (if added \<noteq> 0 then Some r else None, q))"

section \<open>The value of the record\<close>

lemma show_long_no_semicolon: "CHR '';'' \<notin> set (show_long n)"
  using show_long_chars [of "CHR '';''" n] by (auto simp: c_isdigit_def code_def)

lemma find_in_value:
  assumes "find_str value (key @ ''='') 0 = Some i" and "drop (i + length key + 1) value = v @ rest"
    and "CHR '';'' \<notin> set v" and "rest = [] \<or> hd rest = CHR '';''" and "v \<noteq> []"
  shows "parseCarryForwardValueLong value key = atol v"
proof -
  let ?s = "i + length key + 1"
  have "find_sub '';'' (v @ rest) = (if rest = [] then None else Some (length v))"
  proof (cases rest)
    case Nil
    then show ?thesis using find_sub_skip_gen [of v "[]" "'';''"] assms(3) skips_free [of "CHR '';''" v "[]" "[]"]
      by (simp add: skips_def)
  next
    case (Cons c t)
    then show ?thesis using find_sub_skip [OF assms(3), of "[]" t] assms(4) by simp
  qed
  then show ?thesis
    using assms by (cases rest) (auto simp: parseCarryForwardValueLong_def Let_def find_str_def substr_def)
qed

lemma carry_forward_value:
  assumes "in_long c" and "in_long p"
  shows "parseCarryForwardValueLong (carryForwardValue c p) ''checkpoint'' = c"
    and "parseCarryForwardValueLong (carryForwardValue c p) ''period'' = p"
proof -
  have "parseCarryForwardValueLong (carryForwardValue c p) ''checkpoint'' = atol (show_long c)"
    by (rule find_in_value [where i = 0 and rest = "'';period='' @ show_long p @ '';reward=1''"])
       (use show_long_no_semicolon in \<open>simp_all add: carryForwardValue_def find_str_def\<close>, simp add: show_long_def)
  then show "parseCarryForwardValueLong (carryForwardValue c p) ''checkpoint'' = c" using assms by (simp add: atol_show_long)
  let ?g = "''checkpoint='' @ show_long c @ '';''" and ?u = "show_long p @ '';reward=1''"
  have c: "carryForwardValue c p = ?g @ ''period='' @ ?u" by (simp add: carryForwardValue_def)
  have s: "skips ''period='' ?g (''period='' @ ?u)"
  proof -
    have "CHR ''p'' \<notin> set (show_long c)" using show_long_chars [of "CHR ''p''" c] isdigit_not by (auto simp: c_isdigit_def code_def)
    then have "skips ''period='' (show_long c @ '';'') (''period='' @ ?u)" by (intro skips_free) auto
    then show ?thesis by (simp, intro skips_Cons) auto
  qed
  have "parseCarryForwardValueLong (carryForwardValue c p) ''period'' = atol (show_long p)"
    by (rule find_in_value [where i = "length ?g" and rest = "'';reward=1''"])
       (use show_long_no_semicolon skips_found [OF s] in \<open>simp_all add: c find_str_def\<close>, simp add: show_long_def)
  then show "parseCarryForwardValueLong (carryForwardValue c p) ''period'' = p" using assms by (simp add: atol_show_long)
qed

end
