(* ===== verification/ConsoleLoop.thy ===== *)
theory ConsoleLoop
  imports ConsoleNet CarryForward
begin

text \<open>
  The remaining commands of \<open>src/src/cli.cpp\<close>, the start of the graphical interface
  (\<open>src/src/guilauncher.h\<close>), the order in which the commands are tried, and the loop of
  \<open>CCLI::processUserInput\<close>.
\<close>

section \<open>Starting the graphical interface\<close>

definition safireShellQuote :: "string \<Rightarrow> string" where
  "safireShellQuote value =
     [CHR 0x27] @ concat (map (\<lambda>c. if c = CHR 0x27 then [CHR 0x27, CHR 0x5C, CHR 0x27, CHR 0x27] else [c]) value) @ [CHR 0x27]"

definition safireGuiLauncherPath :: "terminal \<Rightarrow> string" where
  "safireGuiLauncherPath T =
     (case find (tm_executable T) [''gui_client/run.sh'', ''./gui_client/run.sh'', ''../gui_client/run.sh''] of
        None \<Rightarrow> [] | Some p \<Rightarrow> p)"

definition safireLaunchGuiInterface :: "terminal \<Rightarrow> bool \<times> string" where
  "safireLaunchGuiInterface T =
     (let launcher = safireGuiLauncherPath T
      in if \<not> tm_graphical T then (False, ''No graphical window session detected. Start the GUI from a desktop session.'')
         else if launcher = [] then (False, ''GUI launcher not found. Build the GUI with scripts/gui.sh first.'')
         else if tm_system T (safireShellQuote launcher @ '' >/tmp/safire-gui.log 2>&1 &'') \<noteq> 0
         then (False, ''GUI launch command failed. See /tmp/safire-gui.log for details.'')
         else (True, ''GUI launch requested.''))"

section \<open>Carry-forwards and votes\<close>

definition cli_carry_forward :: "int \<Rightarrow> int \<Rightarrow> double \<Rightarrow> console \<Rightarrow> console" where
  "cli_carry_forward checkpointBlock period checkpointBalance c =
     submit_record
       (\<lambda>epoch. (unsigned_record CARRY_FORWARD 0 (co_public c) (co_public c) checkpointBalance (DFin 0) ''carry-forward'' epoch)
          \<lparr>r_value := carryForwardValue checkpointBlock period\<rparr>)
       ['' Carry-forward queued and broadcast.'', '' Account: '' @ co_public c,
        '' Checkpoint block: '' @ show_long checkpointBlock, '' Period: '' @ show_long period,
        '' Snapshot balance: '' @ show_double checkpointBalance @ '' sfr'',
        '' Reward after accepted: '' @ show_double CARRY_FORWARD_REWARD @ '' sfr''] c"

definition command_carryforward :: "console \<Rightarrow> console" where
  "command_carryforward c =
     (let storagePolicy = env_config (co_env c);
          checkpointAge = carryForwardCheckpointAgeBlocks storagePolicy; periodBlocks = carryForwardPeriodBlocks storagePolicy;
          firstBlockId = getFirstBlockId (co_db c);
          (tip, c) = on_daemon (connected_latest (co_site c)) c;
          checkpointBlock = tip - checkpointAge; period = cdiv checkpointBlock periodBlocks;
          balance = balanceAtBlock (co_env c) (co_db c) (co_public c) checkpointBlock
      in if co_public c = [] then say ['' Wallet public key is not available.''] c
         else if firstBlockId < 0 \<or> tip < 0 then say ['' No accepted chain available for carry-forward.''] c
         else if checkpointAge \<le> 0 \<or> periodBlocks \<le> 0 \<or> tip - firstBlockId < checkpointAge
         then say ['' Chain is not old enough for carry-forward yet.'', '' Storage profile: '' @ normalizedStorageProfile storagePolicy,
                '' Required span: '' @ show_long checkpointAge @ '' blocks'',
                '' Current span: '' @ show_long (tip - firstBlockId) @ '' blocks''] c
         else if cliAcceptedCarryForwardExists (co_env c) (co_db c) (co_public c) period
         then say ['' Carry-forward already accepted for this wallet and period.'', '' Period: '' @ show_long period] c
         else if dle balance (DFin 0)
         then say ['' Carry-forward not queued; checkpoint balance is not positive.'',
                '' Checkpoint block: '' @ show_long checkpointBlock, '' Balance at checkpoint: '' @ show_double balance @ '' sfr''] c
         else cli_carry_forward checkpointBlock period balance c)"

definition command_vote :: "console \<Rightarrow> console" where
  "command_vote c =
     (let (voteName, c) = ask ['' Vote name: ''] c; (voteValue, c) = ask ['' Vote value: ''] c
      in if voteName = [] \<or> voteValue = [] then say ['' Vote not sent. Name and value are required.''] c
         else submit_record (\<lambda>epoch. (plain_record VOTE (co_public c) voteName epoch)\<lparr>r_value := voteValue\<rparr>)
                [''Vote queued and broadcast. It will appear in votes after a block includes it.'',
                 '' Name: '' @ voteName, '' Value: '' @ voteValue] c)"

section \<open>Lists and diagnostics\<close>

definition command_users :: "console \<Rightarrow> console" where
  "command_users c =
     (let (members, c) = on_daemon (accepted_membership_records (co_site c)) c;
          (st, c) = on_daemon (ledger_of (co_site c) [] (-1)) c
      in say ([''Users: '', ''User count: '' @ show_nat (length members)] @
              map (\<lambda>(key, name). ''  user: '' @ key @ '' '' @ show_double (sm_at (DFin 0) (ls_balances st) key) @ '' sfr'' @
                     quoted ''name'' name) members) c)"

definition command_mempool :: "console \<Rightarrow> console" where
  "command_mempool c = (let (records, c) = on_daemon (peek_queue (co_site c)) c in say (printMempoolRecords records) c)"

definition on_lines :: "(site \<Rightarrow> daemon \<Rightarrow> string list \<times> daemon) \<Rightarrow> console \<Rightarrow> console" where
  "on_lines f c = (let (lines, c) = on_daemon (f (co_site c)) c in say lines c)"

definition show_lines :: "(env \<Rightarrow> dbh \<Rightarrow> string list) \<Rightarrow> console \<Rightarrow> console" where
  "show_lines f c = say (f (co_env c) (co_db c)) c"

definition command_forks :: "console \<Rightarrow> console option" where
  "command_forks c =
     map_option (\<lambda>(lines, s). say lines (set_daemon s c)) (printForkDiagnostics (co_site c) (co_daemon c))"

definition command_reorgs :: "console \<Rightarrow> console option" where
  "command_reorgs c = map_option (\<lambda>lines. say lines c) (printReorgDiagnostics (co_env c) (co_db c))"

definition command_printchain :: "console \<Rightarrow> console option" where
  "command_printchain c =
     map_option (\<lambda>c. say [''First Block:  '' @ show_long (getFirstBlockId (co_db c)),
                         ''Latest Block: '' @ show_long (getLatestBlockId (co_db c))] c)
       (scan True (say ['' Blockchain detail: ''] c))"

definition command_reindex :: "console \<Rightarrow> console option" where
  "command_reindex c =
     (let c = say ['' Reindex: ''] c
      in scan True (c\<lparr>co_scanner := (co_scanner c)\<lparr>sn_users := DeleteIndex (sn_users (co_scanner c))\<rparr>\<rparr>))"

text \<open>The files \<open>block_*.dat\<close> and \<open>chain.index\<close>, which nothing here reads, are removed too.\<close>

definition command_resetall :: "console \<Rightarrow> console" where
  "command_resetall c =
     (let c = say ['' Purging node data: ''] c; s = (co_daemon c)\<lparr>d_queue_dat := []\<rparr>
      in set_daemon (set_db (DeleteAll (the_db s)) s) c)"

definition command_lines :: "string list" where
  "command_lines =
    [''Commands:'',
     '' join                    - request membership in the main network.'',
     '' setname                 - update your public member name.'',
     '' heartbeat               - renew block creator eligibility.'',
     '' creatormode [on|off]    - volunteer this node for block creation and rewards.'',
     '' switch [network name]   - switch current network. Default is '' @ [CHR 0x27] @ ''main'' @ [CHR 0x27] @ ''.'',
     '' balance                 - print balance and transaction summary.'',
     '' fee                     - print default transaction fee.'',
     '' setfee [amount]         - set default transaction fee for sends.'',
     '' history                 - print sent and received wallet history.'',
     '' sent                    - print sent transaction list details.'',
     '' received                - print received transaction list details.'',
     '' network                 - print network stats including currency and volumes.'',
     '' mempool                 - print pending records not yet in the blockchain.'',
     '' nextblock               - print current and upcoming selected block creators.'',
     '' blockchain              - print the last 10 blockchain records.'',
     '' memberships             - print blockchain membership records.'',
     '' carryforward            - submit a carry-forward candidate for this wallet.'',
     '' carryforwards           - print accepted carry-forward records.'',
     '' send                    - send a payment to another user address.'',
     '' receive                 - prints your public key address to have others send you payments.'',
     '' users                   - prints user address and balance information.'',
     '' peers                   - print peer discovery and health information.'',
     '' vote                    - submit a signed vote with a name and value.'',
     '' votes                   - print accepted vote submissions and tallies.'',
     '' gui                     - launch the graphical interface when available.'',
     '' debug                   - log debug information.'',
     '' advanced                - more commands for admin and testing functions.'',
     '' quit                    - shutdown the application.'', []]"

definition printCommands :: "console \<Rightarrow> console" where
  "printCommands = say command_lines"

definition printAdvancedCommands :: "console \<Rightarrow> console" where
  "printAdvancedCommands = say
    ['' Advanced: '',
     '' reindex                - Clear and parse the entire blockchain dataset.'',
     '' tests                  - Run tests to verify this build is functioning correctly.'',
     '' chainid                - Print configured and local genesis identity.'',
     '' chain                  - Scan the complete blockchain for verification. Reports findings.'',
     '' forks                  - Print stored fork variants and canonical choices.'',
     '' reorgs                 - Print the last local chain reorganization.'',
     '' repairchain            - Rebuild next-block indexes using the best stored branch.'',
     '' printchain             - Print the blockchain summary and validation.'',
     '' printqueue             - Print the local mempool queue.'',
     '' resetall               - Delete node data.'',
     '' requestblock           - Send network request for block data. '',
     '' sync                   - Pull blocks from configured local peers. '',
     '' recover                - Sync peers, rebuild best chain, then sync peers again. '',
     '' syncfull               - Push the full connected chain to local peers. '', []]"

section \<open>Which command is obeyed\<close>

text \<open>
  An action gives whether the loop goes on, and the console; the guards are tried in this order.
\<close>

type_synonym action = "string \<Rightarrow> console \<Rightarrow> (bool \<times> console) option"

definition total_action :: "(console \<Rightarrow> console) \<Rightarrow> action" where
  "total_action f command c = Some (True, f c)"

definition partial_action :: "(console \<Rightarrow> console option) \<Rightarrow> action" where
  "partial_action f command c = map_option (Pair True) (f c)"

definition mentions :: "string \<Rightarrow> string \<Rightarrow> bool" where
  "mentions word command = contains command word"

definition is_word :: "string \<Rightarrow> string \<Rightarrow> bool" where
  "is_word word command \<longleftrightarrow> command = word"

definition is_either :: "string \<Rightarrow> string \<Rightarrow> string \<Rightarrow> bool" where
  "is_either w1 w2 command \<longleftrightarrow> command = w1 \<or> command = w2"

definition is_token :: "string \<Rightarrow> string \<Rightarrow> bool" where
  "is_token word command \<longleftrightarrow> firstCommandToken command = word"

definition wallet_commands :: "terminal \<Rightarrow> ((string \<Rightarrow> bool) \<times> action) list" where
  "wallet_commands T =
    [(mentions ''join'', partial_action command_join),
     (is_word ''setname'', partial_action command_setname),
     (is_word ''heartbeat'', partial_action command_heartbeat),
     (is_token ''creatormode'', \<lambda>command c. Some (True, command_creatormode T command c)),
     (is_word ''fee'', total_action command_fee),
     (is_token ''setfee'', \<lambda>command c. Some (True, command_setfee T command c)),
     (mentions ''balance'', total_action command_balance),
     (is_word ''history'', total_action (command_history T [])),
     (is_word ''sent'', total_action (command_history T ''sent'')),
     (is_word ''received'', total_action (command_history T ''received'')),
     (is_word ''receive'', total_action (\<lambda>c. say [''Your receiving address is: '' @ co_public c, []] c)),
     (is_word ''send'', partial_action command_send)]"

definition network_commands :: "terminal \<Rightarrow> ((string \<Rightarrow> bool) \<times> action) list" where
  "network_commands T =
    [(mentions ''network'', partial_action command_network),
     (is_either ''blockchain'' ''messages'', total_action (show_lines (\<lambda>E db. printRecentBlockchainRecords E db 10))),
     (is_either ''mempool'' ''pending'', total_action command_mempool),
     (is_word ''peers'', partial_action (command_peers T)),
     (is_word ''nextblock'', total_action (command_nextblock T)),
     (is_either ''memberships'' ''members'', total_action (show_lines printMembershipRecords)),
     (is_word ''carryforwards'', total_action (show_lines printCarryForwardRecords)),
     (is_word ''carryforward'', total_action command_carryforward),
     (is_either ''gui'' ''launchgui'', total_action (\<lambda>c. say ['' '' @ snd (safireLaunchGuiInterface T)] c)),
     (mentions ''quit'', \<lambda>command c. Some (False, c)),
     (mentions ''advanced'', total_action printAdvancedCommands),
     (mentions ''tests'', total_action (put_text (tm_tests_text T)))]"

definition chain_commands :: "terminal \<Rightarrow> ((string \<Rightarrow> bool) \<times> action) list" where
  "chain_commands T =
    [(is_word ''chainid'', total_action (show_lines printChainIdentity)),
     (is_word ''chain'', total_action (on_lines (printChainDiagnostics T))),
     (is_word ''forks'', partial_action command_forks),
     (is_either ''reorgs'' ''reorg'', partial_action command_reorgs),
     (is_word ''repairchain'', total_action command_repairchain),
     (is_word ''printchain'', partial_action command_printchain),
     (is_word ''printqueue'', total_action command_mempool),
     (is_word ''resetall'', \<lambda>command c. Some (False, command_resetall c)),
     (is_word ''reindex'', partial_action command_reindex),
     (is_word ''requestblock'', partial_action command_requestblock),
     (is_word ''sync'', partial_action command_sync),
     (is_word ''recover'', partial_action command_recover),
     (is_word ''syncfull'', partial_action command_syncfull),
     (is_word ''users'', total_action command_users),
     (is_word ''votes'', total_action (on_lines printVoteRecords)),
     (is_word ''vote'', total_action command_vote)]"

definition all_commands :: "terminal \<Rightarrow> ((string \<Rightarrow> bool) \<times> action) list" where
  "all_commands T = wallet_commands T @ network_commands T @ chain_commands T"

definition obey :: "terminal \<Rightarrow> action" where
  "obey T command c =
     (case find (\<lambda>(guard, action). guard command) (all_commands T) of
        None \<Rightarrow> Some (True, printCommands c)
      | Some (guard, action) \<Rightarrow> action command c)"

section \<open>The loop\<close>

definition prompt :: "terminal \<Rightarrow> console \<Rightarrow> string \<times> console" where
  "prompt T c =
     (let (command, last, echo, inp) = readCommandLine T (co_last c) (co_input c)
      in (command, put_text (''>'' @ echo) (c\<lparr>co_last := last, co_input := inp\<rparr>)))"

text \<open>One turn: \<open>Inl\<close> with \<open>shutdownRequested\<close> when the loop ends; \<open>None\<close> when the command does not come back.\<close>

definition turn :: "terminal \<Rightarrow> console \<Rightarrow> ((bool \<times> console) + console) option" where
  "turn T c =
     (let (command, c) = prompt T c
      in if snd (co_input c) \<and> command = [] then Some (Inl (False, c))
         else if command = [] then Some (Inr c)
         else map_option (\<lambda>(running, c). if running then Inr c else Inl (True, c)) (obey T command c))"

partial_function (option) input_loop :: "terminal \<Rightarrow> console \<Rightarrow> (bool \<times> console) option" where
  "input_loop T c =
     Option.bind (turn T c) (\<lambda>r. case r of Inl e \<Rightarrow> Some e | Inr c \<Rightarrow> input_loop T c)"

text \<open>The keys are read from the wallet's file if there is one; only then is the chain scanned.\<close>

definition start_console :: "console \<Rightarrow> console option" where
  "start_console c =
     (if has_wallet (co_daemon c)
      then let ((found, privateKey, publicKey), c) = on_daemon read_keys c
           in scan False (c\<lparr>co_private := privateKey, co_public := publicKey\<rparr>)
      else Some c)"

definition processUserInput :: "terminal \<Rightarrow> console \<Rightarrow> (bool \<times> console) option" where
  "processUserInput T c = Option.bind (start_console c) (\<lambda>c. input_loop T (printCommands c))"

end
