(* ===== verification/ConsoleFrame.thy ===== *)
theory ConsoleFrame
  imports ConsoleLoop ApiSafety
begin

text \<open>
  What a command can do to the console. All commands are made of a few steps: they print, read a
  word, change the process by a step that the API's handlers take as well, download from a peer,
  note the latest block, or write one of two files. The locale \<open>console_frame\<close> states this for
  every relation that these steps respect, and shows that one turn of the loop respects it.
\<close>

named_theorems held \<open>steps that respect the relation of a console frame\<close>

locale console_frame =
  fixes R :: "console \<Rightarrow> console \<Rightarrow> bool" and D :: "site \<Rightarrow> daemon \<Rightarrow> daemon \<Rightarrow> bool"
  assumes R_refl: "R a a"
    and R_trans: "R a b \<Longrightarrow> R b c \<Longrightarrow> R a c"
    and R_scanner: "D (co_site c) (co_daemon c) (sn_daemon sn) \<Longrightarrow> R c (c\<lparr>co_scanner := sn\<rparr>)"
    and R_text: "R c (put_text t c)"
    and R_word: "R c (snd (read_word c))"
    and R_fee: "setDefaultTransactionFee T fee (co_site c) = (saved, S) \<Longrightarrow> R c (c\<lparr>co_site := S\<rparr>)"
    and R_mode: "setBlockCreatorMode T enabled (co_site c) = (saved, S) \<Longrightarrow> R c (c\<lparr>co_site := S\<rparr>)"
    and D_frame: "api_frame S (D S)"
    and D_connected: "D S s (snd (connected_latest S s))"
    and D_sync: "D S s (snd (on_node (syncFromPeer (si_world S) url) s))"
    and D_repair: "D S s (snd (on_node (rebuild (si_world S)) s))"
    and D_latest: "D S s (set_db (setLatestBlockId E n (the_db s)) s)"

sublocale console_frame \<subseteq> d: api_frame S "D S" for S
  by (rule D_frame)

lemma site_simps [simp]:
  "co_site (put_text t c) = co_site c" "co_site (say l c) = co_site c" "co_site (set_daemon s c) = co_site c"
  "co_daemon (put_text t c) = co_daemon c" "co_daemon (say l c) = co_daemon c" "co_daemon (set_daemon s c) = s"
  by (simp_all add: put_text_def say_def set_daemon_def co_daemon_def)

lemma db_discover_in [simp]: "n_db (discover_in W peer urls n) = n_db n"
  by (induction urls arbitrary: n) (auto simp: Let_def case_prod_beta split: bool.split)

lemma db_discover_from [simp]: "n_db (discover_from W peers n) = n_db n"
  by (induction peers arbitrary: n) (auto simp: Let_def case_prod_beta split: bool.split)

lemma db_discover [simp]: "n_db (discoverPeers W n) = n_db n"
  by (simp add: discoverPeers_def Let_def case_prod_beta split: bool.split)

context console_frame
begin

lemma held_self [held]: "R a a"
  by (rule R_refl)

lemma held_daemon [held]: "R a c \<Longrightarrow> D (co_site c) (co_daemon c) s \<Longrightarrow> R a (set_daemon s c)"
  unfolding set_daemon_def by (erule R_trans) (rule R_scanner, simp)

lemma held_on_daemon [held]: "R a c \<Longrightarrow> D (co_site c) (co_daemon c) (snd (f (co_daemon c))) \<Longrightarrow> R a (snd (on_daemon f c))"
  by (simp add: on_daemon_def case_prod_beta held_daemon)

lemma held_say [held]: "R a c \<Longrightarrow> R a (put_text t c)" "R a c \<Longrightarrow> R a (say l c)"
  unfolding say_def by (blast intro: R_trans R_text)+

lemma held_ask [held]: "R a c \<Longrightarrow> R a (snd (ask l c))"
  unfolding ask_def by (blast intro: R_trans R_word held_say)

lemma held_bind [held]:
  "R a (snd p) \<Longrightarrow> (\<And>x c. R a c \<Longrightarrow> R a (g x c)) \<Longrightarrow> R a (case p of (x, c) \<Rightarrow> g x c)"
  "R a (snd q) \<Longrightarrow> (\<And>x c. R a c \<Longrightarrow> R a (snd (h x c))) \<Longrightarrow> R a (snd (case q of (x, c) \<Rightarrow> h x c))"
  by (cases p; simp) (cases q; simp)

lemma held_pair [held]: "R a c \<Longrightarrow> R a (snd (x, c))"
  by simp

lemma held_if [held]:
  "R a c \<Longrightarrow> R a c' \<Longrightarrow> R a (if b then c else c')" "R a (snd p) \<Longrightarrow> R a (snd p') \<Longrightarrow> R a (snd (if b then p else p'))"
  by simp_all

lemma held_tuple [held]: "(\<And>x n. R a (g x n)) \<Longrightarrow> R a (case (p :: double \<times> int) of (x, n) \<Rightarrow> g x n)"
  by (cases p) simp

lemma held_queue [held]: "R a c \<Longrightarrow> R a (snd (queueAndBroadcastRecord r c))"
  unfolding queueAndBroadcastRecord_def Let_def by (intro held kept)

lemma held_submit [held]: "R a c \<Longrightarrow> R a (submit_record mk lines c)"
  unfolding submit_record_def Let_def by (intro held kept)

lemma held_name [held]: "R a c \<Longrightarrow> R a (snd (name_available n c))"
  unfolding name_available_def by (intro held kept)

text \<open>Steps that may not come back.\<close>

lemma held_map [held]: "pred_option (R a) m \<Longrightarrow> (\<And>c. R a c \<Longrightarrow> R a (f c)) \<Longrightarrow> pred_option (R a) (map_option f m)"
  by (cases m) simp_all

lemma held_then [held]:
  "pred_option (R a) m \<Longrightarrow> (\<And>c. R a c \<Longrightarrow> pred_option (R a) (f c)) \<Longrightarrow> pred_option (R a) (Option.bind m f)"
  "pred_option (\<lambda>(x, c). R a c) n \<Longrightarrow> (\<And>x c. R a c \<Longrightarrow> pred_option (R a) (g x c)) \<Longrightarrow>
   pred_option (R a) (Option.bind n (\<lambda>(x, c). g x c))"
  by (cases m; simp) (cases n; auto)

lemma held_some [held]: "R a c \<Longrightarrow> pred_option (R a) (Some c)"
  by simp

lemma held_scan [held]: "R a c \<Longrightarrow> pred_option (R a) (scan debug c)"
proof -
  assume a: "R a c"
  have "D (co_site c) (co_daemon c) (sn_daemon sn)" if "scanChain (co_site c) (co_public c) debug (co_scanner c) = Some (t, sn)" for t sn
  proof -
    have f: "D S s (sn_daemon (snd (scan_finish S k st s)))" for S k st s
      by (auto simp: scan_finish_def Let_def case_prod_beta intro!: kept D_latest)
    show ?thesis
      using that f [of "co_site c" "co_daemon c"]
      by (auto simp: scanChain_def Let_def co_daemon_def d.Q_refl split: if_splits) (metis snd_conv)
  qed
  then show ?thesis
    using a by (cases "scanChain (co_site c) (co_public c) debug (co_scanner c)")
      (auto simp: scan_def intro!: held_say R_trans [OF a R_scanner])
qed

section \<open>Commands\<close>

lemma held_names [held]:
  "R a c \<Longrightarrow> pred_option (R a) (command_join c)"
  "R a c \<Longrightarrow> pred_option (R a) (command_setname c)"
  "R a c \<Longrightarrow> pred_option (R a) (command_heartbeat c)"
  unfolding command_join_def command_setname_def command_heartbeat_def Let_def by (intro held; assumption)+

lemma held_settings [held]:
  "R a c \<Longrightarrow> R a (command_creatormode T command c)"
  "R a c \<Longrightarrow> R a (command_fee c)"
  "R a c \<Longrightarrow> R a (command_setfee T command c)"
proof -
  assume a: "R a c"
  show "R a (command_creatormode T command c)"
    using a unfolding command_creatormode_def Let_def
    by (auto intro!: held_say R_trans [OF a R_mode] split: option.split prod.split bool.split)
  show "R a (command_fee c)" using a unfolding command_fee_def by (intro held)
  show "R a (command_setfee T command c)"
    unfolding command_setfee_def Let_def
  proof (rule held_bind(1))
    show "R a (snd (if commandArgument command = [] then ask [''Enter default transaction fee: '', []] c else (commandArgument command, c)))"
      using a by (intro held) 
  next
    fix feeValue c'
    assume b: "R a c'"
    then show "R a (case parseFeeAmount feeValue of
           None \<Rightarrow> say ['' Fee not changed. Use a number from 0 to '' @ show_double MAX_TRANSACTION_FEE @ '' sfr.''] c'
         | Some fee \<Rightarrow>
             (case setDefaultTransactionFee T fee (co_site c') of
                (False, S) \<Rightarrow> say ['' Fee not changed. Unable to write settings.''] c'
              | (True, S) \<Rightarrow> say ['' Default transaction fee set to '' @ show_double fee @ '' sfr.''] (c'\<lparr>co_site := S\<rparr>)))"
      by (auto intro!: held_say R_trans [OF b R_fee] split: option.split prod.split bool.split)
  qed
qed

lemma kept_spendable [kept]:
  "D S s t \<Longrightarrow> D S s (snd (spendableConfirmedBalance S k t))"
  "D S s t \<Longrightarrow> D S s (snd (nextTransferNonce S k t))"
  "D S s t \<Longrightarrow> D S s (snd (printWalletHistory T S k kind t))"
  unfolding spendableConfirmedBalance_def nextTransferNonce_def printWalletHistory_def Let_def by (intro kept; assumption)+

lemma held_money [held]:
  "R a c \<Longrightarrow> R a (command_balance c)"
  "R a c \<Longrightarrow> R a (command_history T kind c)"
  "R a c \<Longrightarrow> R a (cli_transfer d am fee c)"
  unfolding command_balance_def command_history_def cli_transfer_def Let_def by (intro held kept; assumption)+

lemma held_send [held]: "R a c \<Longrightarrow> R a (cli_send d am c)"
  unfolding cli_send_def Let_def by (intro held kept)

lemma held_command_send [held]: "R a c \<Longrightarrow> pred_option (R a) (command_send c)"
  unfolding command_send_def Let_def by (intro held)

text \<open>The network and the peers.\<close>

lemma held_on_net: "R a c \<Longrightarrow> (\<And>W n. n_db (snd (f W n)) = n_db n) \<Longrightarrow> R a (snd (on_net f c))"
  unfolding on_net_def by (rule held_on_daemon) (auto intro: d.keep_on_node d.Q_refl)

lemma held_sync_time [held]: "R a c \<Longrightarrow> R a (sync_time c)"
  unfolding sync_time_def by (rule held_on_net) auto

lemma kept_slots [kept]: "D S s t \<Longrightarrow> D S s (snd (selectionMembersForSlot S n t))"
  unfolding selectionMembersForSlot_def Let_def by (intro kept)

lemma kept_find_slot: "D S s t \<Longrightarrow> D S s (snd (find_local_slot T S n k offsets t))"
proof (induction offsets arbitrary: t)
  case Nil
  then show ?case by simp
next
  case (Cons offset offsets)
  then show ?case
    unfolding find_local_slot.simps Let_def case_prod_beta by (intro kept Cons.IH)
qed

lemma kept_local_slot [kept]: "D S s t \<Longrightarrow> D S s (snd (printNextLocalCreatorSlot T S n k t))"
  unfolding printNextLocalCreatorSlot_def by (simp add: kept_find_slot)

lemma kept_selection [kept]: "D S s t \<Longrightarrow> D S s (snd (printNextBlockSelection T S k t))"
  unfolding printNextBlockSelection_def Let_def case_prod_beta snd_conv by (intro kept)

lemma held_nextblock [held]: "R a c \<Longrightarrow> R a (command_nextblock T c)"
  unfolding command_nextblock_def Let_def by (intro held kept)

lemma held_network_sync [held]: "R a c \<Longrightarrow> R a (network_sync c)"
  unfolding network_sync_def Let_def
  by (intro held held_on_net) (simp_all add: getBestPeerStatus_def isSyncedWithPeers_def Let_def case_prod_beta)

lemma held_network [held]: "R a c \<Longrightarrow> pred_option (R a) (command_network c)"
  unfolding command_network_def Let_def by (intro held kept)

lemma held_statuses [held]: "R a c \<Longrightarrow> R a (snd (fresh_statuses p c))"
  unfolding fresh_statuses_def by (intro held_on_net) simp_all

lemma held_print_peers:
  assumes "print_peers T i statuses c = Some c'"
  shows "R c c'"
proof (rule print_peers.raw_induct [where P = "\<lambda>T i statuses c c'. R c c'", OF _ assms], goal_cases)
  case (1 pp T i statuses c c')
  have "R c (say (peer_lines T p) c)" "R c (say (peer_lines T p) (snd (fresh_statuses q c)))" for p q
    by (intro held)+
  then show ?case using 1(2) by (auto simp: Let_def split: if_splits dest!: 1(1) intro: held R_trans)
qed

lemma held_peers [held]: "R a c \<Longrightarrow> pred_option (R a) (command_peers T c)"
proof -
  assume a: "R a c"
  have p: "pred_option (R a) (print_peers T i statuses c')" if "R a c'" for i statuses c'
    using held_print_peers R_trans [OF that] by (cases "print_peers T i statuses c'") auto
  show ?thesis
    using a unfolding command_peers_def Let_def case_prod_beta by (intro p held_say held_on_net) simp_all
qed

text \<open>Downloads.\<close>

lemma held_try [held]:
  "R a c \<Longrightarrow> (\<And>s. D (co_site c) s (snd (f s))) \<Longrightarrow> pred_option (\<lambda>(x, c). R a c) (try_daemon f c)"
proof -
  assume a: "R a c" and f: "\<And>s. D (co_site c) s (snd (f s))"
  show ?thesis
    using held_daemon [OF a f [of "co_daemon c"]]
    by (auto simp: try_daemon_def split: prod.split option.split)
qed

lemma held_download [held]: "R a c \<Longrightarrow> pred_option (\<lambda>(x, c). R a c) (try_net (\<lambda>W. syncFromPeer W peer) c)"
  unfolding try_net_def by (rule held_try) (auto intro: D_sync)

lemma held_rebuild [held]: "R a c \<Longrightarrow> R a (snd (on_net rebuild c))"
  unfolding on_net_def by (intro held D_repair)

lemma held_connected [held]: "R a c \<Longrightarrow> R a (snd (on_daemon (connected_latest (co_site c)) c))"
  by (intro held D_connected)

lemma held_client [held]:
  "R a c \<Longrightarrow> R a (snd (on_net (\<lambda>W. getPeerLatestBlockId W peer) c))"
  "R a c \<Longrightarrow> R a (snd (on_net (\<lambda>W. pushToPeerDetailed W peer) c))"
  "R a c \<Longrightarrow> R a (snd (on_net (\<lambda>W. pushFullChainToPeerDetailed W peer) c))"
  by (rule held_on_net; simp add: pushFullChainToPeerDetailed_def Let_def case_prod_beta split: bool.split)+

lemma held_request_each [held]: "R a c \<Longrightarrow> pred_option (R a) (request_each peers c)"
proof (induction peers arbitrary: c)
  case Nil
  then show ?case by simp
next
  case (Cons peer peers)
  then show ?case unfolding request_each.simps by (intro held Cons.IH)
qed

lemma held_recover_each [held]: "R a c \<Longrightarrow> pred_option (R a) (recover_each peers c)"
proof (induction peers arbitrary: c)
  case Nil
  then show ?case by simp
next
  case (Cons peer peers)
  then show ?case unfolding recover_each.simps by (intro held Cons.IH)
qed

lemma held_opt_bind [held]:
  "R a (snd p) \<Longrightarrow> (\<And>x c. R a c \<Longrightarrow> pred_option (R a) (g x c)) \<Longrightarrow> pred_option (R a) (case p of (x, c) \<Rightarrow> g x c)"
  by (cases p) simp

lemma held_sync_each:
  assumes push: "\<And>peer c. R a c \<Longrightarrow> R a (snd (on_net (\<lambda>W. push W peer) c))"
  shows "R a c \<Longrightarrow> pred_option (R a) (sync_with_each again push peers c)"
proof (induction peers arbitrary: c)
  case Nil
  then show ?case by simp
next
  case (Cons peer peers)
  then show ?case unfolding sync_with_each.simps Let_def by (intro held push Cons.IH)
qed

lemma held_syncs [held]:
  "R a c \<Longrightarrow> pred_option (R a) (command_requestblock c)"
  "R a c \<Longrightarrow> pred_option (R a) (command_sync c)"
  "R a c \<Longrightarrow> pred_option (R a) (command_syncfull c)"
  "R a c \<Longrightarrow> R a (command_repairchain c)"
  "R a c \<Longrightarrow> R a (recover_repair c)"
  unfolding command_requestblock_def command_sync_def command_syncfull_def sync_command_def command_repairchain_def
    recover_repair_def Let_def
  by (intro held held_sync_each; assumption)+

lemma held_counts: "R a c \<Longrightarrow> pred_option (\<lambda>(x, c). R a c) (chain_counts c)"
proof -
  assume a: "R a c"
  let ?c = "snd (on_daemon (connected_latest (co_site c)) c)"
  have "pred_option (\<lambda>(x, c). R a c) (try_daemon (fork_count (co_site ?c)) ?c)" by (intro held a d.Q_fork)
  then show ?thesis
    unfolding chain_counts_def Let_def case_prod_beta
    by (cases "try_daemon (fork_count (co_site ?c)) ?c") auto
qed

lemma held_recover [held]: "R a c \<Longrightarrow> pred_option (R a) (command_recover c)"
proof -
  assume a: "R a c"
  have "pred_option (R a) (map_option (\<lambda>(after, c). say (count_lines ''after'' after) c) (chain_counts c'))" if "R a c'" for c'
    using held_counts [OF that] by (cases "chain_counts c'") (auto intro: held_say)
  then show ?thesis unfolding command_recover_def Let_def by (intro held held_counts a)
qed

text \<open>The remaining commands.\<close>

lemma kept_lists:
  "D S s (snd (printChainDiagnostics T S s))"
  "D S s (snd (printVoteRecords S s))"
  unfolding printChainDiagnostics_def printVoteRecords_def Let_def by (auto simp: case_prod_beta intro!: kept D_connected)

lemma held_lines: "R a c \<Longrightarrow> (\<And>s. D (co_site c) s (snd (f (co_site c) s))) \<Longrightarrow> R a (on_lines f c)"
  unfolding on_lines_def Let_def by (intro held)

lemma held_forks [held]: "R a c \<Longrightarrow> pred_option (R a) (command_forks c)"
proof -
  assume a: "R a c"
  have "D (co_site c) (co_daemon c) s" if "printForkDiagnostics (co_site c) (co_daemon c) = Some (l, s)" for l s
    using that d.Q_fork [of "co_site c" "co_daemon c"]
    by (auto simp: printForkDiagnostics_def Let_def split: prod.splits option.splits)
  then show ?thesis
    by (cases "printForkDiagnostics (co_site c) (co_daemon c)") (auto simp: command_forks_def intro!: held a)
qed

lemma held_others [held]:
  "R a c \<Longrightarrow> R a (command_carryforward c)"
  "R a c \<Longrightarrow> R a (command_vote c)"
  "R a c \<Longrightarrow> R a (command_users c)"
  "R a c \<Longrightarrow> R a (command_mempool c)"
  "R a c \<Longrightarrow> R a (show_lines f c)"
  "R a c \<Longrightarrow> pred_option (R a) (command_printchain c)"
  unfolding command_carryforward_def cli_carry_forward_def command_vote_def command_users_def command_mempool_def
    show_lines_def command_printchain_def Let_def
  by (intro held kept; assumption)+

lemma held_reorgs [held]: "R a c \<Longrightarrow> pred_option (R a) (command_reorgs c)"
  unfolding command_reorgs_def by (cases "printReorgDiagnostics (co_env c) (co_db c)") (simp_all add: held_say)

lemma held_reindex [held]: "R a c \<Longrightarrow> pred_option (R a) (command_reindex c)"
proof -
  assume "R a c"
  then have "R a (say ['' Reindex: ''] c)" by (intro held)
  then show ?thesis
    unfolding command_reindex_def Let_def
    by (intro held_scan R_trans [OF _ R_scanner]) (simp_all add: co_daemon_def d.Q_refl)
qed

section \<open>One turn\<close>

text \<open>An action that leaves the loop running respects the relation.\<close>

abbreviation sound_action :: "action \<Rightarrow> bool" where
  "sound_action act \<equiv> \<forall>command c c'. act command c = Some (True, c') \<longrightarrow> R c c'"

lemma sound_total: "(\<And>c. R c (f c)) \<Longrightarrow> sound_action (total_action f)"
  by (auto simp: total_action_def)

lemma sound_partial: "(\<And>c. pred_option (R c) (f c)) \<Longrightarrow> sound_action (partial_action f)"
  by (fastforce simp: partial_action_def pred_option_def)

lemma sound_direct: "(\<And>command c. R c (f command c)) \<Longrightarrow> sound_action (\<lambda>command c. Some (b, f command c))"
  by auto

lemma sound_ends: "sound_action (\<lambda>command c. Some (False, f command c))"
  by simp

lemma wallet_sound: "\<forall>(guard, act) \<in> set (wallet_commands T). sound_action act"
  unfolding wallet_commands_def list.set ball_simps prod.case
  by (intro conjI TrueI sound_partial sound_total sound_direct held)

lemma network_sound: "\<forall>(guard, act) \<in> set (network_commands T). sound_action act"
  unfolding network_commands_def printAdvancedCommands_def list.set ball_simps prod.case
  by (intro conjI TrueI sound_partial sound_total sound_ends held)

lemma chain_sound: "\<forall>(guard, act) \<in> set (chain_commands T). sound_action act"
  unfolding chain_commands_def list.set ball_simps prod.case
  by (intro conjI TrueI sound_partial sound_total sound_ends held held_lines kept_lists)

lemma held_obey: "obey T command c = Some (True, c') \<Longrightarrow> R c c'"
proof (cases "find (\<lambda>(guard, action). guard command) (all_commands T)")
  case None
  then show "obey T command c = Some (True, c') \<Longrightarrow> R c c'" by (auto simp: obey_def printCommands_def intro: held)
next
  case (Some e)
  then have "e \<in> set (all_commands T)" by (metis find_Some_iff nth_mem)
  then have "sound_action (snd e)" using wallet_sound network_sound chain_sound by (fastforce simp: all_commands_def)
  then show "obey T command c = Some (True, c') \<Longrightarrow> R c c'" using Some by (cases e) (auto simp: obey_def)
qed

text \<open>A turn, for a relation that reading a command respects too.\<close>

lemma held_turn:
  assumes "R c (snd (prompt T c))" and "turn T c = Some (Inr c')"
  shows "R c c'"
  using assms by (auto simp: turn_def Let_def split: prod.splits if_splits intro: R_trans held_obey)

lemma held_start:
  assumes "\<And>c k p. R c (c\<lparr>co_private := k, co_public := p\<rparr>)" and "start_console c = Some c'"
  shows "R c c'"
proof -
  have "R c (snd (on_daemon read_keys c))" by (intro held kept)
  then have "pred_option (R c) (scan False ((snd (on_daemon read_keys c))\<lparr>co_private := k, co_public := p\<rparr>))" for k p
    by (intro held_scan R_trans [OF _ assms(1)])
  then show ?thesis
    using assms(2) R_refl by (fastforce simp: start_console_def Let_def case_prod_beta pred_option_def split: if_splits)
qed

end

end
