(* ===== verification/ConsoleFacts.thy ===== *)
theory ConsoleFacts
  imports ConsoleFrame
begin

text \<open>
  What holds as long as the command line runs: the states it passes through, that none of them
  has lost or damaged a block, and when its loop ends.
\<close>

section \<open>The states of the command line\<close>

inductive console_reaches :: "terminal \<Rightarrow> console \<Rightarrow> console \<Rightarrow> bool" for T c0 where
  started: "start_console c0 = Some c \<Longrightarrow> console_reaches T c0 (printCommands c)"
| next_turn: "console_reaches T c0 c \<Longrightarrow> turn T c = Some (Inr c') \<Longrightarrow> console_reaches T c0 c'"

section \<open>The store\<close>

text \<open>The command \<open>creatormode\<close> writes \<open>safire.conf\<close>, on which the content of blocks does not depend.\<close>

definition store_kept :: "console \<Rightarrow> console \<Rightarrow> bool" where
  "store_kept c c' \<longleftrightarrow> text_rules (w_env (si_world (co_site c'))) (w_env (si_world (co_site c))) \<and>
     grows (si_world (co_site c)) (co_db c) (co_db c')"

lemma growth_latest: "sound_growth E' db (setLatestBlockId E n db)"
  by (rule growth_same) (auto simp: setLatestBlockId_def Let_def stored_put first_put key_defs)

lemma store_trans:
  assumes "store_kept a b" and "store_kept b c"
  shows "store_kept a c"
proof -
  have "grows (si_world (co_site b)) = grows (si_world (co_site a))"
    using assms(1) growth_rules by (intro ext) (metis store_kept_def grows_def)
  then show ?thesis using assms by (auto simp: store_kept_def text_rules_def intro: grows_trans)
qed

lemma store_same: "co_db c' = co_db c \<Longrightarrow> text_rules (w_env (si_world (co_site c'))) (w_env (si_world (co_site c))) \<Longrightarrow> store_kept c c'"
  by (simp add: store_kept_def grows_refl)

lemma rules_refl [simp]: "text_rules E E"
  by (simp add: text_rules_def)

interpretation console_store: console_frame store_kept "\<lambda>S s t. grows (si_world S) (the_db s) (the_db t)"
proof (unfold_locales, goal_cases)
  case (2 a b c)
  then show ?case by (rule store_trans)
next
  case (3 c sn)
  then show ?case by (simp add: store_kept_def co_db_def co_daemon_def)
next
  case (6 T fee c saved S)
  then have "si_world S = si_world (co_site c)" by (auto simp: setDefaultTransactionFee_def split: if_splits)
  then show ?case by (intro store_same) (simp_all add: co_db_def co_daemon_def)
next
  case (7 T enabled c saved S)
  then have "text_rules (w_env (si_world S)) (w_env (si_world (co_site c)))"
    by (auto simp: setBlockCreatorMode_def text_rules_def Let_def split: if_splits)
  then show ?case by (intro store_same) (simp_all add: co_db_def co_daemon_def)
next
  case (8 S s)
  show ?case by (rule grows_counts)
next
  case (9 S s url)
  show ?case by (simp add: node_of) (simp add: the_db_def grows_sync)
next
  case (10 S s)
  show ?case by (simp add: node_of) (simp add: the_db_def grows_rebuild)
next
  case (11 S s E n)
  show ?case by (simp add: grows_intro growth_latest)
qed (auto simp: co_db_def co_daemon_def put_text_def read_word_def case_prod_beta intro: store_same)

lemma prompt_parts [simp]:
  "co_db (snd (prompt T c)) = co_db c" "co_site (snd (prompt T c)) = co_site c"
  by (simp_all add: prompt_def co_db_def co_daemon_def put_text_def case_prod_beta Let_def)

lemma store_reached:
  assumes "console_reaches T c0 c"
  shows "store_kept c0 c"
  using assms
proof induction
  case (started c)
  have "store_kept a (a\<lparr>co_private := k, co_public := p\<rparr>)" for a k p
    by (intro store_same) (simp_all add: co_db_def co_daemon_def)
  then have "store_kept c0 c" using started by (rule console_store.held_start)
  then show ?case by (simp add: printCommands_def console_store.held_say)
next
  case (next_turn c c')
  have "store_kept c (snd (prompt T c))" by (intro store_same) simp_all
  then have "store_kept c c'" using next_turn(2) by (rule console_store.held_turn)
  then show ?case using next_turn(3) store_trans by blast
qed

text \<open>
  C37. No sequence of commands damages the store: whatever is typed at the command line, whatever the
  peers answer meanwhile and whatever settings are changed by it, as long as the command line goes
  on running (\<open>resetall\<close> ends it) and the node had a first block when it started, every entry under a
  block hash is as before or is the text of a block with that hash whose hash, Merkle root and
  signature are those of its content; nothing stored is lost, and the first block stays.
\<close>

theorem console_keeps_store:
  assumes "0 \<le> getFirstBlockId (co_db c0)" and "console_reaches T c0 c"
  shows "sound_growth (w_env (si_world (co_site c0))) (co_db c0) (co_db c)"
  using store_reached [OF assms(2)] assms(1) by (simp add: store_kept_def grows_def)

section \<open>The end of the loop\<close>

text \<open>What is left of the input; a command never adds to it.\<close>

definition input_left :: "console \<Rightarrow> nat" where
  "input_left c = length (fst (co_input c))"

definition input_kept :: "console \<Rightarrow> console \<Rightarrow> bool" where
  "input_kept c c' \<longleftrightarrow> input_left c' \<le> input_left c"

lemma length_dropWhile: "length (dropWhile p xs) \<le> length xs"
  by (induction xs) auto

lemma word_left: "length (fst (snd (word_in inp))) \<le> length (fst inp)"
proof (cases inp)
  case (Pair t failed)
  have "length (dropWhile p (dropWhile q t)) \<le> length t" for p q
    using length_dropWhile [of p "dropWhile q t"] length_dropWhile [of q t] by simp
  then show ?thesis by (simp add: Pair word_in_def Let_def)
qed

interpretation console_input: console_frame input_kept "\<lambda>S s t. True"
proof (unfold_locales, goal_cases)
  case (5 c)
  show ?case using word_left [of "co_input c"] by (simp add: input_kept_def input_left_def read_word_def case_prod_beta)
qed (auto simp: input_kept_def input_left_def put_text_def)

lemma line_left:
  assumes "getline_in inp = (command, inp')"
  shows "command = [] \<and> snd inp' \<or> length (fst inp') < length (fst inp)"
proof (cases inp)
  case (Pair t failed)
  have "length (drop 1 (dropWhile p t)) < length t" if "t \<noteq> []" for p
    using that length_dropWhile [of p t] by (simp add: less_imp_diff_less le_imp_less_Suc Suc_le_eq flip: length_greater_0_conv)
  then show ?thesis using assms by (auto simp: Pair getline_in_def split: if_splits)
qed

lemma turn_left:
  assumes "\<not> tm_isatty T" and "turn T c = Some (Inr c')"
  shows "input_left c' < input_left c"
proof -
  obtain command d where p: "prompt T c = (command, d)" by (cases "prompt T c")
  obtain l inp where g: "getline_in (co_input c) = (l, inp)" by (cases "getline_in (co_input c)")
  then have d: "co_input d = inp" "command = l"
    using p assms(1) by (auto simp: prompt_def readCommandLine_def put_text_def Let_def)
  have "input_left d < input_left c" using line_left [OF g] assms(2) p d by (auto simp: turn_def input_left_def)
  moreover have "input_left c' \<le> input_left d"
    using assms(2) p by (auto simp: turn_def input_kept_def split: if_splits dest!: console_input.held_obey)
  ultimately show ?thesis by simp
qed

lemma loop_ends:
  assumes "\<not> tm_isatty T" and "\<And>c. console_reaches T c0 c \<Longrightarrow> turn T c \<noteq> None"
  shows "console_reaches T c0 c \<Longrightarrow> input_loop T c \<noteq> None"
proof (induction c rule: measure_induct_rule [of input_left])
  case (less c)
  then obtain r where r: "turn T c = Some r" using assms(2) by blast
  show ?case
  proof (cases r)
    case (Inl e)
    then show ?thesis using r by (subst input_loop.simps) simp
  next
    case (Inr c')
    then have "input_loop T c' \<noteq> None"
      using r less(1) turn_left [OF assms(1)] console_reaches.next_turn [OF less(2)] by blast
    then show ?thesis using r Inr by (subst input_loop.simps) simp
  qed
qed

text \<open>
  Commands from a pipe or a file come to an end: where the standard input is no terminal, the
  start comes back and no command fails to come back, \<open>processUserInput\<close> returns, whatever the input
  is, with or without \<open>quit\<close> and also where a command asks for a word that is not there.
\<close>

theorem piped_input_ends:
  assumes "\<not> tm_isatty T" and "start_console c0 \<noteq> None" and "\<forall>c. console_reaches T c0 c \<longrightarrow> turn T c \<noteq> None"
  shows "\<exists>shutdownRequested c. processUserInput T c0 = Some (shutdownRequested, c)"
proof -
  obtain c where c: "start_console c0 = Some c" using assms(2) by blast
  have "input_loop T (printCommands c) \<noteq> None"
    using loop_ends [OF assms(1)] assms(3) console_reaches.started [OF c] by blast
  then show ?thesis using c by (auto simp: processUserInput_def)
qed

lemma hangup_turn:
  assumes "tm_isatty T" and "co_input c = ([], False)"
  shows "turn T c = Some (Inr (put_text ''>'' c))"
  using assms by (cases c) (simp add: turn_def prompt_def readCommandLine_def put_text_def Let_def)

text \<open>
  C39. A terminal that hangs up keeps the loop busy for ever: where the standard input is a terminal
  with no keys left to come and \<open>std::cin\<close> has not failed before, \<open>readCommandLine\<close> gives an empty command and \<open>std::cin\<close>, which did not read,
  has not failed, so that the loop prints its prompt again and again and \<open>processUserInput\<close> never
  returns.
\<close>

theorem hangup_spins:
  assumes "tm_isatty T" and "co_input c = ([], False)"
  shows "turn T c = Some (Inr (put_text ''>'' c)) \<and> input_loop T c = None"
proof -
  have "co_input d \<noteq> ([], False) \<or> \<not> tm_isatty T'" if "input_loop T' d = Some r" for T' d r
  proof (rule input_loop.raw_induct [where P = "\<lambda>T d r. co_input d \<noteq> ([], False) \<or> \<not> tm_isatty T", OF _ that], goal_cases)
    case (1 loop T d r)
    have False if a: "tm_isatty T" "co_input d = ([], False)"
    proof -
      have "loop T (put_text ''>'' d) = Some r" using 1(2) hangup_turn [OF a] by simp
      from 1(1) [OF this] show False using a by (simp add: put_text_def)
    qed
    then show ?case by blast
  qed
  then have "input_loop T c = None" using assms by (cases "input_loop T c") blast+
  then show ?thesis using hangup_turn [OF assms] by simp
qed

end
