(* ===== verification/ConsoleSend.thy ===== *)
theory ConsoleSend
  imports ConsoleFrame
begin

text \<open>
  The command line and the HTTP API side by side. \<open>src/src/cli.cpp\<close> and
  \<open>src/src/network/request_handler.cpp\<close> each have their own copies of the functions that decide on a
  transfer; the copies agree, and so do the two ways of sending. What the command line writes to
  \<open>settings.dat\<close> takes the API's keys away.
\<close>

section \<open>The copies agree\<close>

lemma negative_delta: "pendingWalletNegativeDelta k rs d = foldl (outgoing k) d rs"
  by (induction k rs d rule: pendingWalletNegativeDelta.induct) (simp_all add: outgoing_def)

lemma balance_delta:
  "pendingWalletBalanceDelta k rs (d, n) = (foldl (pending_delta k) d rs, n + int (length (filter (touches k) rs)))"
  by (induction rs arbitrary: d n) (auto simp: pending_delta_def touches_def)

lemma highest_higher: "highest_nonce k rs n = foldl (higher_nonce k) n rs"
  by (induction k rs n rule: highest_nonce.induct) (simp_all add: higher_nonce_def)

lemma next_nonces: "nextTransferNonce S k s = next_transfer_nonce S k s"
  by (simp add: nextTransferNonce_def next_transfer_nonce_def highest_higher)

lemma recent_deltas: "recentAcceptedWalletNegativeDelta E db k n = recent_accepted_wallet_negative_delta E db k n"
  by (auto simp: recentAcceptedWalletNegativeDelta_def recent_accepted_wallet_negative_delta_def negative_delta
      recent_entries_def no_chain_def api_chain_def entries_def)

lemma spendables: "spendableConfirmedBalance S k s = available_balance S k s"
  by (simp add: spendableConfirmedBalance_def available_balance_def spendable_balance_def pending_wallet_negative_delta_def
      recent_deltas negative_delta Let_def)

lemma fee_amounts: "parseFeeAmount v = parse_fee_amount v"
  by (simp add: parseFeeAmount_def parse_fee_amount_def parse_amount_value_def MAX_TRANSACTION_FEE_def API_MAX_TRANSACTION_FEE_def Let_def)

lemma fees_from:
  "fee_from ls = (case List.map_filter parse_fee_amount (map (drop 4) (filter (\<lambda>l. starts_with l ''fee:'') ls)) of
     [] \<Rightarrow> DFin 0 | fee # _ \<Rightarrow> fee)"
  by (induction ls) (simp_all add: fee_amounts List.map_filter_simps split: option.split)

lemma default_fees: "getDefaultTransactionFee settings = api_default_transaction_fee settings"
  by (simp add: getDefaultTransactionFee_def api_default_transaction_fee_def setting_values_def fees_from API_DEFAULT_TRANSACTION_FEE_def numeral_eq_Suc split: list.split)

section \<open>Names\<close>

text \<open>The names of members as the command line keeps them: a third registry with the same contract.\<close>

lemma cli_claim_True:
  assumes "cliClaimPublicName ms os k n = (True, ms', os')"
  shows "\<exists>i. normalizedPublicName n \<noteq> [] \<and> key_index r_sender ms k = Some i \<and> sm_get os (normalizedPublicName n) \<in> {None, Some k} \<and>
    ms' = ms[i := (ms ! i)\<lparr>r_name := n\<rparr>] \<and>
    os' = sm_put (normalizedPublicName n) k
      (if normalizedPublicName (r_name (ms ! i)) \<noteq> [] \<and> sm_get os (normalizedPublicName (r_name (ms ! i))) = Some k
       then sm_del (normalizedPublicName (r_name (ms ! i))) os else os)"
  using assms by (auto simp: cliClaimPublicName_def Let_def split: if_splits option.splits)

interpretation cli_names: name_registry r_sender r_name "\<lambda>n m. m\<lparr>r_name := n\<rparr>" ledger_norm cliClaimPublicName
proof
  show "ledger_norm [] = None" by (rule ledger_names.norm_Nil)
  fix ms os k n ms' os'
  show "cliClaimPublicName ms os k n = (False, ms', os') \<Longrightarrow> ms' = ms \<and> os' = os"
    by (auto simp: cliClaimPublicName_def Let_def split: if_splits option.splits)
  assume "cliClaimPublicName ms os k n = (True, ms', os')"
  from cli_claim_True [OF this] obtain i where
    "ledger_norm n = Some (normalizedPublicName n)" "key_index r_sender ms k = Some i"
    "sm_get os (normalizedPublicName n) \<in> {None, Some k}" "ms' = ms[i := (ms ! i)\<lparr>r_name := n\<rparr>]"
    "sm_get os' = (\<lambda>v. if v = normalizedPublicName n then Some k
            else if ledger_norm (r_name (ms ! i)) = Some v \<and> sm_get os v = Some k then None else sm_get os v)"
    by (auto simp: ledger_norm_def smap_simps fun_eq_iff)
  then show "\<exists>u i. ledger_norm n = Some u \<and> key_index r_sender ms k = Some i \<and> sm_get os u \<in> {None, Some k} \<and>
        ms' = ms[i := (ms ! i)\<lparr>r_name := n\<rparr>] \<and>
        (r_name (ms ! i) = [] \<or> ledger_norm (r_name (ms ! i)) \<noteq> None \<longrightarrow>
          sm_get os' = (\<lambda>v. if v = u then Some k
            else if ledger_norm (r_name (ms ! i)) = Some v \<and> sm_get os v = Some k then None else sm_get os v))"
    by blast
qed simp_all

abbreviation scan_names :: "member_scan \<Rightarrow> bool" where
  "scan_names m \<equiv> registry_inv r_sender r_name ledger_norm (mc_members m) (mc_owners m)"

lemma scan_names_claim: "scan_names m \<Longrightarrow> scan_names (claim_in k n m)"
  by (auto simp: claim_in_def split: prod.splits intro: cli_names.reg_inv_claim)

lemma scan_names_record: "scan_names m \<Longrightarrow> scan_names (member_record m e)"
proof (cases e)
  case (fields b i r)
  assume m: "scan_names m"
  have "scan_names (m\<lparr>mc_members := mc_members m @ [r\<lparr>r_name := []\<rparr>]\<rparr>)" if "\<not> (\<exists>q \<in> set (mc_members m). r_sender q = r_sender r)"
    using cli_names.reg_inv_join [of "mc_members m" "mc_owners m" "r\<lparr>r_name := []\<rparr>"] m that by (simp add: image_iff) metis
  then show ?thesis
    using m scan_names_claim by (auto simp: fields member_record_def Let_def split: transaction_type.split)
qed

lemma active_names_unique:
  assumes "m \<in> set (activeMembershipRecords E db)" and "m' \<in> set (activeMembershipRecords E db)"
    and "ledger_norm (r_name m) = ledger_norm (r_name m')" and "ledger_norm (r_name m) \<noteq> None"
  shows "m = m'"
proof -
  define m0 where "m0 = \<lparr>mc_members = [], mc_owners = [], mc_heartbeats = [], mc_saw = False\<rparr>"
  have "scan_names (foldl member_record s es)" if "scan_names s" for s es
    using that by (induction es arbitrary: s) (simp_all add: scan_names_record)
  moreover have "scan_names m0" by (simp add: m0_def cli_names.reg_inv_Nil)
  ultimately have inv: "scan_names (foldl member_record m0 (entries (api_chain E db)))" .
  have "m \<in> set (mc_members (foldl member_record m0 (entries (api_chain E db))))"
    "m' \<in> set (mc_members (foldl member_record m0 (entries (api_chain E db))))"
    using assms(1,2) by (auto simp: activeMembershipRecords_def m0_def Let_def)
  then show ?thesis using cli_names.name_unique [OF inv] assms(3,4) by blast
qed

section \<open>Sending\<close>

text \<open>The part of the process that only the API's way of sending uses: the wallet's file and the relay.\<close>

definition no_relay :: "daemon \<Rightarrow> bool" where
  "no_relay s \<longleftrightarrow> d_relay_nodes s = [] \<and> snd (wallet_read (d_wallet s)) = d_wallet s"

lemma no_relay_steps [simp]:
  "no_relay (snd (now_epoch S s)) = no_relay s" "no_relay (snd (ledger_of S k n s)) = no_relay s"
  "no_relay (snd (peek_queue S s)) = no_relay s" "no_relay (snd (add_queue S r s)) = no_relay s"
  by (simp_all add: no_relay_def now_epoch_def now_local_def on_node_def ledger_of_def peek_queue_def add_queue_def on_queue_def
      set_db_def Let_def case_prod_beta)

lemma no_relay_money [simp]:
  "no_relay (snd (next_transfer_nonce S k s)) = no_relay s" "no_relay (snd (available_balance S k s)) = no_relay s"
  by (simp_all add: next_transfer_nonce_def available_balance_def Let_def case_prod_beta)

lemma send_record_idle: "no_relay s \<Longrightarrow> sendRecord S r s = s"
  by (cases s) (auto simp: sendRecord_def no_relay_def read_keys_def on_wallet_def upd_node_def Let_def case_prod_beta split: option.split)

lemma queue_daemons:
  assumes "no_relay (co_daemon c)"
  shows "co_daemon (snd (queueAndBroadcastRecord r c)) = snd (queue_and_broadcast_record (co_site c) r (co_daemon c))"
  using assms
  by (simp add: queueAndBroadcastRecord_def queue_and_broadcast_record_def co_env_def on_daemon_def send_record_idle Let_def
      case_prod_beta)

lemma key_parts [simp]:
  "co_private (say l c) = co_private c" "co_public (say l c) = co_public c" "co_private (set_daemon s c) = co_private c"
  "co_public (set_daemon s c) = co_public c"
  by (simp_all add: say_def put_text_def set_daemon_def)

lemma on_daemon_simp: "on_daemon f c = (fst (f (co_daemon c)), set_daemon (snd (f (co_daemon c))) c)"
  by (simp add: on_daemon_def case_prod_beta)

lemma transfer_daemons:
  assumes "no_relay (co_daemon c)"
  shows "co_daemon (cli_transfer recipient amount fee c) =
    snd (send_transfer (co_site c) (co_private c) (co_public c) recipient amount fee (co_daemon c))"
  using assms
  by (simp add: cli_transfer_def send_transfer_def make_transfer_def on_daemon_simp queue_daemons next_nonces Let_def
      case_prod_beta split: option.split)

text \<open>What follows the scan and the prompts of the command.\<close>

lemma sends_the_same:
  assumes "has_wallet (co_daemon c)" and "no_relay (co_daemon c)"
    and "selected_wallet_keys req rp (co_daemon c) = ((True, co_private c, co_public c), co_daemon c)"
    and "submitted_value req rp ''recipient'' = destination" and "destination \<noteq> []"
    and "submitted_value req rp ''amount'' = amount" and "strtod_rest amount = Some []"
    and "submitted_value req rp ''fee'' = []"
  shows "co_daemon (cli_send destination amount c) = snd (send_request (co_site c) req rp (co_daemon c))"
proof (cases "dle (atof amount) (DFin 0)")
  case True
  then show ?thesis using assms by (simp add: cli_send_def send_request_def parse_amount_value_def Let_def)
next
  case False
  let ?S = "co_site c" and ?s = "co_daemon c"
  let ?b = "available_balance ?S (co_public c) ?s"
  have "co_daemon (cli_send destination amount c) =
    (if dlt (fst ?b) (dadd (atof amount) (api_default_transaction_fee (si_settings ?S))) then snd ?b
     else snd (send_transfer ?S (co_private c) (co_public c) destination (atof amount) (api_default_transaction_fee (si_settings ?S)) (snd ?b)))"
    using False assms(2)
    by (simp add: cli_send_def on_daemon_simp spendables default_fees transfer_daemons Let_def)
  moreover have "snd (send_request ?S req rp ?s) = \<dots>"
    using False assms by (simp add: send_request_def parse_amount_value_def requested_fee_def Let_def case_prod_beta)
  ultimately show ?thesis by simp
qed

text \<open>The scan of the chain writes the store, and leaves the wallet's file and the relay alone.\<close>

lemma scan_keeps:
  assumes "scan False c = Some c1"
  shows "d_wallet (co_daemon c1) = d_wallet (co_daemon c)" "d_relay_nodes (co_daemon c1) = d_relay_nodes (co_daemon c)"
    "co_site c1 = co_site c" "co_private c1 = co_private c" "co_public c1 = co_public c" "co_input c1 = co_input c"
  using assms
  by (auto simp: scan_def scanChain_def scan_finish_def put_text_def co_daemon_def ledger_of_def set_db_def Let_def case_prod_beta
      split: if_splits)

lemma read_keys_eq:
  "read_keys u =
     (case fst (wallet_read (d_wallet u)) of
        None \<Rightarrow> (False, case keys_left (d_wallet u) of None \<Rightarrow> ([], []) | Some keys \<Rightarrow> keys)
      | Some keys \<Rightarrow> (True, keys), u\<lparr>d_wallet := snd (wallet_read (d_wallet u))\<rparr>)"
  by (simp add: read_keys_def on_wallet_def case_prod_beta split: option.split)

lemma keys_of_wallet:
  assumes "selected_wallet_keys req rp s = (keys, s)" and "d_wallet t = d_wallet s"
  shows "selected_wallet_keys req rp t = (keys, t)"
proof -
  have w: "on_wallet f u = (fst (f (d_wallet u)), u\<lparr>d_wallet := snd (f (d_wallet u))\<rparr>)" for f :: "wallet_files \<Rightarrow> 'a \<times> wallet_files" and u
    by (simp add: on_wallet_def case_prod_beta)
  obtain k v where kv: "\<And>u. d_wallet u = d_wallet s \<Longrightarrow> selected_wallet_keys req rp u = (k, u\<lparr>d_wallet := v\<rparr>)"
  proof -
    define i where "i = (if submitted_value_any req rp ''wallet_id'' = [] then submitted_value_any req rp ''address''
      else submitted_value_any req rp ''wallet_id'')"
    have "\<exists>k v. \<forall>u. d_wallet u = d_wallet s \<longrightarrow> read_keys u = (k, u\<lparr>d_wallet := v\<rparr>)" for s :: daemon
      by (intro exI [of _ "fst (read_keys s)"] exI [of _ "d_wallet (snd (read_keys s))"]) (simp add: read_keys_eq split: option.split)
    then obtain k1 v1 k2 v2 where r: "\<And>u. d_wallet u = d_wallet s \<Longrightarrow> read_keys u = (k1, u\<lparr>d_wallet := v1\<rparr>)"
      "\<And>u. d_wallet u = snd (readAccount i (d_wallet s)) \<Longrightarrow> read_keys u = (k2, u\<lparr>d_wallet := v2\<rparr>)"
      by (metis select_convs(3))
    show thesis
    proof (cases "i = []")
      case True
      then show thesis using that [of k1 v1] r(1) by (simp add: selected_wallet_keys_def Let_def i_def)
    next
      case False
      then have e: "selected_wallet_keys req rp u = (case on_wallet (readAccount i) u of
          (Some (p, q), u) \<Rightarrow> ((True, p, q), u) | (None, u) \<Rightarrow> read_keys u)" for u
        by (simp add: selected_wallet_keys_def Let_def i_def)
      show thesis
      proof (cases "fst (readAccount i (d_wallet s))")
        case None
        then show thesis using that [of k2 v2] r(2) by (simp add: e w)
      next
        case (Some pq)
        then show thesis using that [of "(True, fst pq, snd pq)" "snd (readAccount i (d_wallet s))"] by (simp add: e w case_prod_beta)
      qed
    qed
  qed
  from kv [OF refl] assms(1) have "k = keys" "s\<lparr>d_wallet := v\<rparr> = s" by simp_all
  moreover have "v = d_wallet s" using arg_cong [OF calculation(2), of d_wallet] by simp
  ultimately show ?thesis using kv [OF assms(2)] assms(2) by simp
qed

text \<open>
  C38. The command \<open>send\<close> does to the process what its scan of the chain does and then what a request
  for \<open>/api/wallet/send\<close> does: where there is a wallet whose file is in its present form, the relay
  has no nodes, and the request names the account of the command line, the two words that the
  command reads as recipient (not empty) and amount (a number as a whole), and no fee, the command
  comes back if and only if its scan does, and then leaves the process in exactly the state in
  which the request leaves the process that the scan left: the same record or none in the queue,
  and the same messages to the peers.
\<close>

theorem sends_agree:
  assumes "has_wallet (co_daemon c)" and "no_relay (co_daemon c)"
    and "selected_wallet_keys req rp (co_daemon c) = ((True, co_private c, co_public c), co_daemon c)"
    and "word_in (co_input c) = (destination, inp)" and "fst (word_in inp) = amount"
    and "submitted_value req rp ''recipient'' = destination" and "destination \<noteq> []"
    and "submitted_value req rp ''amount'' = amount" and "strtod_rest amount = Some []"
    and "submitted_value req rp ''fee'' = []"
  shows "map_option co_daemon (command_send c) =
    map_option (\<lambda>c1. snd (send_request (co_site c) req rp (co_daemon c1))) (scan False c)"
proof (cases "scan False c")
  case (Some c1)
  note k = scan_keeps [OF Some]
  define c2 where "c2 = say [''Sending '' @ amount @ '' to user: '' @ destination @ '' '', []]
    (snd (ask [''Enter amount to send: '', []] (snd (ask [''Enter destination address: '', []] c1))))"
  have c: "command_send c = Some (cli_send destination amount c2)"
    using assms(4,5) k(6) by (simp add: command_send_def Some c2_def ask_def read_word_def say_def put_text_def Let_def case_prod_beta)
  have d: "co_daemon c2 = co_daemon c1" "co_site c2 = co_site c" "co_private c2 = co_private c" "co_public c2 = co_public c"
    using k by (simp_all add: c2_def ask_def read_word_def say_def put_text_def co_daemon_def case_prod_beta)
  have "co_daemon (cli_send destination amount c2) = snd (send_request (co_site c2) req rp (co_daemon c2))"
  proof (rule sends_the_same)
    show "has_wallet (co_daemon c2)" "no_relay (co_daemon c2)" using assms(1,2) k by (simp_all add: d has_wallet_def no_relay_def)
    show "selected_wallet_keys req rp (co_daemon c2) = ((True, co_private c2, co_public c2), co_daemon c2)"
      using keys_of_wallet [OF assms(3) k(1)] by (simp add: d)
  qed (use assms in simp_all)
  then show ?thesis by (simp add: c Some d)
qed (simp add: command_send_def)

section \<open>Settings\<close>

text \<open>A number is printed with digits, signs and letters.\<close>

lemma show_nat_lines: "LF \<notin> set (show_nat n)"
  using show_nat_isdigit [of n] by (auto simp: list_all_iff c_isdigit_def code_def)

lemma with_point_lines: "set (with_point ip fp) \<subseteq> set ip \<union> set fp \<union> {CHR ''.''}"
  by (auto simp: with_point_def drop_zeros_def dest: set_dropWhileD)

lemma show_positive_lines: "LF \<notin> set (show_positive a)"
proof -
  have w: "LF \<notin> set ip \<Longrightarrow> LF \<notin> set fp \<Longrightarrow> LF \<notin> set (with_point ip fp)" for ip fp
    using with_point_lines [of ip fp] by auto
  have t: "LF \<notin> set (take k (show_nat n))" "LF \<notin> set (drop k (show_nat n))" for k n
    using show_nat_lines by (meson in_set_takeD in_set_dropD)+
  have "LF \<notin> set (with_point (take k (show_nat n)) (drop k (show_nat n)))"
    "LF \<notin> set (with_point ''0'' (replicate k (CHR ''0'') @ show_nat n))" for k n
    by (rule w; simp add: t show_nat_lines)+
  then show ?thesis by (simp add: show_positive_def show_exponent_def show_nat_lines Let_def case_prod_beta)
qed

lemma show_double_lines: "LF \<notin> set (show_double d)"
  by (cases d) (simp_all add: show_positive_lines)

lemma one_line: "LF \<notin> set l \<Longrightarrow> l \<noteq> [] \<Longrightarrow> file_lines (l @ [LF]) = [l]"
proof (induction l)
  case (Cons a l)
  then show ?case by (cases l) (auto simp: file_lines_def)
qed simp

lemma not_dlt: "dle a b \<Longrightarrow> \<not> dlt b a"
  by (cases a; cases b; auto simp: dle_def dlt_def)

text \<open>
  C40. Setting the default fee takes the keys of the API away: after a command \<open>setfee\<close> with an
  argument that was obeyed, whatever \<open>settings.dat\<close> held before, every request to withdraw and every command of an
  administrator is answered with 403 and changes nothing, with the right key as well.
\<close>

theorem setfee_disables_api:
  assumes "commandArgument command \<noteq> []" and "parseFeeAmount (commandArgument command) = Some fee" and "tm_settings_writable T"
    and "S = co_site (command_setfee T command c)"
  shows "withdraw_request S req rp s =
      (json_reply reply_forbidden (error_object
         ''Exchange withdrawal API is disabled. Add exchange_api_key:<secret> to settings.dat to enable it.''), s) \<and>
    admin_command_request S req rp s =
      (json_reply reply_forbidden (error_object
         ''Admin command API is disabled. Add admin_api_key:<secret> to settings.dat to enable it.''), s)"
proof -
  have range: "\<not> (dlt fee (DFin 0) \<or> dlt MAX_TRANSACTION_FEE fee)"
    using assms(2) by (auto simp: parseFeeAmount_def Let_def dest: not_dlt split: if_splits)
  then have "si_settings S = ''fee:'' @ show_double fee @ [LF]"
    using assms by (simp add: command_setfee_def setDefaultTransactionFee_def)
  then have "file_lines (si_settings S) = [''fee:'' @ show_double fee]"
    using one_line [of "''fee:'' @ show_double fee"] show_double_lines by simp
  then have "configured_exchange_api_key (si_settings S) = []" "configured_admin_api_key (si_settings S) = []"
    by (simp_all add: configured_exchange_api_key_def configured_admin_api_key_def setting_values_def first_or_empty_def starts_with_def)
  then show ?thesis by (simp add: withdraw_request_def admin_command_request_def)
qed

end
