(* ===== verification/ExampleConsole.thy ===== *)
theory ExampleConsole
  imports ExampleApi ConsoleFacts ConsoleSend
begin

text \<open>
  The properties of the command line at small examples: the node of the example chain with the
  keyboard, a pipe or a terminal that hangs up.
\<close>

definition example_terminal :: "bool \<Rightarrow> terminal" where
  "example_terminal tty =
     \<lparr>tm_local_time = (\<lambda>t. None), tm_isatty = tty, tm_graphical = False, tm_executable = (\<lambda>p. False), tm_system = (\<lambda>c. 1),
      tm_tests_text = [], tm_settings_writable = True, tm_conf_writable = True, tm_sort_blocks = sort_key b_number\<rparr>"

definition example_console :: "wallet_files \<Rightarrow> string \<Rightarrow> console" where
  "example_console w keys =
     \<lparr>co_site = example_site,
      co_scanner = \<lparr>sn_daemon = (daemon_with example_db)\<lparr>d_wallet := w\<rparr>, sn_functions = new_functions no_block,
        sn_users = [], sn_selector = []\<rparr>,
      co_private = ''k'', co_public = ''p'', co_last = [], co_input = (keys, False), co_output = []\<rparr>"

definition no_wallet :: wallet_files where
  "no_wallet = \<lparr>wf_legacy = None, wf_store = None, wf_writable = True\<rparr>"

definition old_wallet :: wallet_files where
  "old_wallet = \<lparr>wf_legacy = Some (''private:k'' @ [LF] @ ''public:p'' @ [LF]), wf_store = None, wf_writable = False\<rparr>"

lemma console_db [simp]: "co_db (example_console w keys) = example_db"
  by (simp add: example_console_def co_db_def co_daemon_def daemon_with_def the_db_def)

lemma start_without_wallet: "start_console (example_console no_wallet keys) = Some (example_console no_wallet keys)"
  by (simp add: start_console_def example_console_def no_wallet_def co_daemon_def has_wallet_def wallet_fileExists_def daemon_with_def)

section \<open>Commands\<close>

lemmas one_turn = turn_def prompt_def readCommandLine_def getline_in_def example_terminal_def example_console_def printCommands_def
  say_def put_text_def obey_def all_commands_def wallet_commands_def network_commands_def mentions_def contains_def is_word_def
  is_either_def is_token_def firstCommandToken_def c_isspace_def code_def total_action_def Let_def

text \<open>The command \<open>receive\<close>, from a pipe.\<close>

theorem console_keeps_store_witness:
  "\<exists>c. console_reaches (example_terminal False) (example_console no_wallet (''receive'' @ [LF])) c \<and>
     getFirstBlockId (co_db c) = 100"
proof -
  let ?c = "example_console no_wallet (''receive'' @ [LF])"
  have s: "console_reaches (example_terminal False) ?c (printCommands ?c)"
    by (rule console_reaches.started) (rule start_without_wallet)
  obtain c where t: "turn (example_terminal False) (printCommands ?c) = Some (Inr c)" by (simp add: one_turn)
  have r: "console_reaches (example_terminal False) ?c c" by (rule console_reaches.next_turn [OF s t])
  have "0 \<le> getFirstBlockId (co_db ?c)" by (simp add: example_ids)
  from console_keeps_store [OF this r] have "getFirstBlockId (co_db c) = 100"
    using example_ids by (simp add: sound_growth_def)
  with r show ?thesis by blast
qed

theorem piped_input_ends_witness:
  "\<exists>shutdownRequested c. processUserInput (example_terminal False) (example_console no_wallet (''quit'' @ [LF])) =
     Some (shutdownRequested, c)"
proof -
  let ?T = "example_terminal False" and ?c = "example_console no_wallet (''quit'' @ [LF])"
  obtain e where t: "turn ?T (printCommands ?c) = Some (Inl e)" by (simp add: one_turn)
  have "c = printCommands ?c" if "console_reaches ?T ?c c" for c
    using that
  proof induction
    case (next_turn c c')
    then show ?case using t by simp
  qed (simp add: start_without_wallet)
  then have "\<forall>c. console_reaches ?T ?c c \<longrightarrow> turn ?T c \<noteq> None" using t by auto
  then show ?thesis
    using piped_input_ends [of ?T ?c] by (simp add: start_without_wallet) (simp add: example_terminal_def)
qed

theorem hangup_spins_witness: "input_loop (example_terminal True) (example_console no_wallet []) = None"
  using hangup_spins [of "example_terminal True" "example_console no_wallet []"]
  by (simp add: example_terminal_def example_console_def)

text \<open>The command \<open>send\<close> of a node whose store is empty: the scan comes back, and nothing can be spent.\<close>

definition empty_console :: "string \<Rightarrow> console" where
  "empty_console keys = (example_console old_wallet keys)\<lparr>co_scanner := (co_scanner (example_console old_wallet keys))
     \<lparr>sn_daemon := (daemon_with None)\<lparr>d_wallet := old_wallet\<rparr>\<rparr>\<rparr>"

theorem sends_agree_witness:
  "\<exists>c1 c'. scan False (empty_console ''abc 5'') = Some c1 \<and> command_send (empty_console ''abc 5'') = Some c' \<and>
   co_daemon c' = snd (send_request example_site (get_request ''/api/wallet/send?recipient=abc&amount=5'')
     ''/api/wallet/send?recipient=abc&amount=5'' (co_daemon c1))"
proof -
  let ?c = "empty_console ''abc 5''" and ?p = "''/api/wallet/send?recipient=abc&amount=5''"
  have r: "wallet_read old_wallet = (Some (''k'', ''p''), old_wallet)" by code_simp
  have d: "d_wallet (co_daemon ?c) = old_wallet" "d_relay_nodes (co_daemon ?c) = []"
    by (simp_all add: empty_console_def co_daemon_def daemon_with_def)
  have v: "submitted_value (get_request ?p) ?p ''recipient'' = ''abc''" "submitted_value (get_request ?p) ?p ''amount'' = ''5''"
    "submitted_value (get_request ?p) ?p ''fee'' = []" "submitted_value_any (get_request ?p) ?p ''wallet_id'' = []"
    "submitted_value_any (get_request ?p) ?p ''address'' = []" "strtod_rest ''5'' = Some []"
    by code_simp+
  have i: "word_in (''abc 5'', False) = (''abc'', ('' 5'', False))" "fst (word_in ('' 5'', False)) = ''5''" by code_simp+
  have k: "selected_wallet_keys (get_request ?p) ?p (co_daemon ?c) = ((True, ''k'', ''p''), co_daemon ?c)"
    using r d by (simp add: selected_wallet_keys_def v read_keys_def on_wallet_def)
  have w: "has_wallet (co_daemon ?c)" "no_relay (co_daemon ?c)"
    using r d by (simp_all add: has_wallet_def wallet_fileExists_def no_relay_def old_wallet_def)
  have p: "co_private ?c = ''k''" "co_public ?c = ''p''" "co_site ?c = example_site" "co_input ?c = (''abc 5'', False)"
    by (simp_all add: empty_console_def example_console_def)
  have "the_db (co_daemon ?c) = None" by (simp add: empty_console_def co_daemon_def daemon_with_def the_db_def)
  then have "getFirstBlockId (the_db (co_daemon ?c)) = -1" by (simp add: getFirstBlockId_def read_id_def parseLongValue_def)
  then obtain c1 where s: "scan False ?c = Some c1" by (simp add: scan_def scanChain_def co_daemon_def Let_def)
  have "map_option co_daemon (command_send ?c) =
      map_option (\<lambda>c1. snd (send_request (co_site ?c) (get_request ?p) ?p (co_daemon c1))) (scan False ?c)"
    by (rule sends_agree [where destination = "''abc''" and amount = "''5''" and inp = "('' 5'', False)"])
      (use k w v p i in simp_all)
  then show ?thesis using s p(3) by auto
qed

lemma zero_fee: "parseFeeAmount ''0'' = Some (DFin 0)"
proof -
  have "(2::rat) powi (- 1074) \<le> 2 powi (- 4)" by (rule power_int_increasing) simp_all
  then have "0 < round_fin (1 / 10)" by (intro round_fin_pos) (simp add: power_int_minus)
  then have m: "dle (DFin 0) MAX_TRANSACTION_FEE" by (simp add: MAX_TRANSACTION_FEE_def round_double_def dle_def Let_def)
  have d: "decimal_value ''0'' = Some 0" "strtod_rest ''0'' = Some []" by code_simp+
  have "atof ''0'' = DFin 0"
    by (simp add: atof_def split_sign_def c_isspace_def code_def c_str_def d c_tolower_def c_isupper_def starts_with_def small_ints Let_def)
  then show ?thesis using m by (simp add: parseFeeAmount_def d dle_def)
qed

theorem setfee_disables_api_witness:
  "withdraw_request (co_site (command_setfee (example_terminal True) ''setfee 0''
       ((example_console no_wallet [])\<lparr>co_site := example_site\<lparr>si_settings := ''exchange_api_key:secret''\<rparr>\<rparr>)))
     (get_request ''/api/exchange/withdraw?api_key=secret'') ''/api/exchange/withdraw?api_key=secret'' (daemon_with None) =
   (json_reply reply_forbidden (error_object
      ''Exchange withdrawal API is disabled. Add exchange_api_key:<secret> to settings.dat to enable it.''), daemon_with None)"
proof -
  have c: "commandArgument ''setfee 0'' = ''0''" by code_simp
  have w: "tm_settings_writable (example_terminal True)" by (simp add: example_terminal_def)
  have f: "parseFeeAmount (commandArgument ''setfee 0'') = Some (DFin 0)" by (simp only: c zero_fee)
  have "commandArgument ''setfee 0'' \<noteq> []" by (simp add: c)
  from setfee_disables_api [OF this f w refl] show ?thesis by (rule conjunct1)
qed

end
