(* ===== verification/BlockBuilder.thy ===== *)
theory BlockBuilder
  imports Mempool BlockIndex
begin

text \<open>
  \<open>src/src/functions/blockbuilder.cpp\<close>: pruning and rebroadcasting the queue, the heartbeat of
  the node's own member, the choice of the pending records for a block, the decision to build
  and the construction of a block and of the genesis block. What a step sends to peers is a
  result; the thread that runs the steps in a loop is in \<open>BuilderThread\<close>.
  The node's signature of a text is the function \<open>sign\<close> (\<open>CECDSACrypto::SignMessage\<close> with the
  private key), an argument.
\<close>

section \<open>Modes\<close>

definition hasArg :: "string list \<Rightarrow> string \<Rightarrow> bool" where
  "hasArg argv name \<longleftrightarrow> name \<in> set (tl argv)"

definition blockCreatorModeEnabled :: "env \<Rightarrow> string list \<Rightarrow> bool" where
  "blockCreatorModeEnabled E argv =
     (let config = env_config E
      in if enableBlockCreation config \<or> hasArg argv ''--creator-mode'' \<or> hasArg argv ''--enable-block-creation'' then True
         else if hasBlockCreationSetting config then False
         else hasArg argv ''--node-port'')"

definition builderRecoveryPublicKey :: "env \<Rightarrow> dbh \<Rightarrow> string" where
  "builderRecoveryPublicKey E db =
     (let config = env_config E; firstBlockId = getFirstBlockId db
      in if recoveryPublicKey config \<noteq> [] then recoveryPublicKey config
         else if 0 < firstBlockId then b_creator (getBlock E db firstBlockId) else [])"

section \<open>The queue\<close>

definition hasPendingHeartbeat :: "env \<Rightarrow> string \<Rightarrow> queue \<Rightarrow> bool \<times> queue" where
  "hasPendingHeartbeat E publicKey q =
     (case peekQueueRecords E q of
        (records, q) \<Rightarrow>
          (\<exists>r \<in> set records. r_type r = HEART_BEAT \<and> \<not> isExpiredHeartbeatRecord E r (-1) \<and> r_sender r = publicKey, q))"

definition replacePendingQueueRecords :: "env \<Rightarrow> record_structure list \<Rightarrow> queue \<Rightarrow> queue" where
  "replacePendingQueueRecords E records q =
     foldl (\<lambda>q r. snd (addToQueue E r q)) (snd (parseQueueRecords E q)) records"

fun prune_from :: "env \<Rightarrow> dbh \<Rightarrow> string set \<Rightarrow> record_structure list \<Rightarrow> record_structure list \<times> bool" where
  "prune_from E db seenHashes [] = ([], False)"
| "prune_from E db seenHashes (r # rs) =
     (if isExpiredHeartbeatRecord E r (-1) then (fst (prune_from E db seenHashes rs), True)
      else if r_hash r \<noteq> [] \<and> r_hash r \<in> seenHashes then (fst (prune_from E db seenHashes rs), True)
      else if r_hash r \<noteq> [] \<and> recordExistsInAcceptedChain E db (r_hash r)
        then (fst (prune_from E db (insert (r_hash r) seenHashes) rs), True)
      else case prune_from E db (if r_hash r \<noteq> [] then insert (r_hash r) seenHashes else seenHashes) rs of
             (kept, changed) \<Rightarrow> (r # kept, changed))"

definition pruneAcceptedQueueRecords :: "env \<Rightarrow> queue \<Rightarrow> queue" where
  "pruneAcceptedQueueRecords E q =
     (case peekQueueRecords E q of
        (records, q) \<Rightarrow>
          (case prune_from E (fst q) {} records of
             (keptRecords, changed) \<Rightarrow> if changed then replacePendingQueueRecords E keptRecords q else q))"

text \<open>The records that are sent to the peers, and the queue.\<close>

definition rebroadcastPendingQueueRecords :: "env \<Rightarrow> queue \<Rightarrow> record_structure list \<times> queue" where
  "rebroadcastPendingQueueRecords E q =
     (case peekQueueRecords E (pruneAcceptedQueueRecords E q) of
        (records, q) \<Rightarrow>
          (filter (\<lambda>r. r_hash r \<noteq> [] \<and> \<not> recordExistsInAcceptedChain E (fst q) (r_hash r)) records, q))"

definition heartbeat_record :: "env \<Rightarrow> (string \<Rightarrow> string) \<Rightarrow> string \<Rightarrow> record_structure" where
  "heartbeat_record E sign publicKey =
     (let r = \<lparr>r_network = ''main'', r_time = show_long (getEpoch E), r_type = HEART_BEAT, r_nonce = 0,
               r_amount = DFin 0, r_fee = DFin 0, r_sender = publicKey, r_recipient = [], r_hash = [],
               r_signature = [], r_name = [], r_value = []\<rparr>;
          hash = getRecordHash E r
      in r\<lparr>r_hash := hash, r_signature := sign hash\<rparr>)"

text \<open>The heartbeat that is sent to the peers, if one was queued, and the queue.\<close>

definition queueHeartbeatIfDue ::
    "env \<Rightarrow> (string \<Rightarrow> string) \<Rightarrow> string \<Rightarrow> bool \<Rightarrow> ledger_state \<Rightarrow> queue \<Rightarrow> record_structure option \<times> queue" where
  "queueHeartbeatIfDue E sign publicKey creatorModeEnabled st q =
     (if \<not> creatorModeEnabled then (None, q)
      else if \<not> ls_joined st \<or> \<not> ls_renewal_due st then (None, q)
      else case hasPendingHeartbeat E publicKey q of
             (True, q) \<Rightarrow> (None, q)
           | (False, q) \<Rightarrow>
               let r = heartbeat_record E sign publicKey
               in case addToQueue E r q of (added, q) \<Rightarrow> (if added \<noteq> 0 then Some r else None, q))"

section \<open>Building a block\<close>

definition includePendingTransfer ::
    "record_structure \<Rightarrow> balances \<times> (string, int) smap \<Rightarrow> bool \<times> balances \<times> (string, int) smap" where
  "includePendingTransfer r = (\<lambda>(bal, nonces).
     if r_type r \<noteq> TRANSFER_CURRENCY then (True, bal, nonces)
     else if r_nonce r \<le> 0 then (False, bal, nonces)
     else
       let nonces = sm_touch (r_sender r) 0 nonces
       in if r_nonce r \<noteq> sm_at 0 nonces (r_sender r) + 1 then (False, bal, nonces)
          else
            let bal = sm_touch (r_sender r) (DFin 0) bal
            in if dlt (dadd (sm_at (DFin 0) bal (r_sender r)) EPS) (transfer_debit r) then (False, bal, nonces)
               else (True, debit (r_sender r) (dadd (r_amount r) (r_fee r)) (credit (r_recipient r) (r_amount r) bal),
                     sm_put (r_sender r) (r_nonce r) nonces))"

fun include_pending ::
    "string set \<Rightarrow> balances \<times> (string, int) smap \<Rightarrow> record_structure list \<Rightarrow> record_structure list" where
  "include_pending included pending [] = []"
| "include_pending included pending (r # rs) =
     (case includePendingTransfer r pending of
        (ok, pending) \<Rightarrow>
          if \<not> ok then include_pending included pending rs
          else if r_hash r = [] \<or> r_hash r \<notin> included
            then r # include_pending (if r_hash r \<noteq> [] then insert (r_hash r) included else included) pending rs
          else include_pending included pending rs)"

text \<open>The time \<open>ts\<close> is read from the clock once, for the records and the block.\<close>

definition reward_record :: "env \<Rightarrow> (string \<Rightarrow> string) \<Rightarrow> string \<Rightarrow> string \<Rightarrow> string \<Rightarrow> double \<Rightarrow> record_structure" where
  "reward_record E sign networkName publicKey ts fee =
     (let r = \<lparr>r_network = networkName, r_time = ts, r_type = ISSUE_CURRENCY, r_nonce = 0,
               r_amount = DFin 1, r_fee = fee, r_sender = publicKey, r_recipient = publicKey, r_hash = [],
               r_signature = [], r_name = [], r_value = []\<rparr>;
          hash = getRecordHash E r
      in r\<lparr>r_hash := hash, r_signature := sign hash\<rparr>)"

definition seal_block :: "env \<Rightarrow> (string \<Rightarrow> string) \<Rightarrow> block_structure \<Rightarrow> block_structure" where
  "seal_block E sign b =
     (let b = b\<lparr>b_merkle_root := getRecordsMerkleRoot E (b_records b)\<rparr>;
          hash = getBlockHash E b
      in b\<lparr>b_hash := hash, b_signature := sign hash\<rparr>)"

text \<open>Whether it is the node's turn to build, from the parent at the tip of the accepted chain.\<close>

definition builder_turn ::
    "env \<Rightarrow> dbh \<Rightarrow> string \<Rightarrow> block_structure \<Rightarrow> int \<Rightarrow> ledger_cache \<Rightarrow> bool \<times> ledger_cache" where
  "builder_turn E db publicKey previous timeBlock cache =
     (if 0 < b_number previous \<and> b_number previous < timeBlock
      then
        case build E db [] (getSelectionBoundaryBlock timeBlock (getFirstBlockId db)) cache of
          (selectionState, cache) \<Rightarrow>
            (case build E db [] (b_number previous) cache of
               (latestState, cache) \<Rightarrow>
                 let recoveryKey = builderRecoveryPublicKey E db;
                     selectedCreator = fst (getAuthorizedCreatorForBlock E timeBlock (b_hash (ls_latest_block selectionState))
                       (activeMemberKeysAt selectionState timeBlock) (b_hash previous)
                       (activeMemberKeysAt latestState timeBlock) recoveryKey
                       (consecutiveRecoveryBlocksInStore E db previous recoveryKey))
                 in (selectedCreator = publicKey, cache))
      else (False, cache))"

text \<open>
  The block that is built: the reward first, then the queued records that can be included. What
  the thread reads for it, one after the other, are arguments: the time \<open>ts\<close>, the number from a
  second look at the clock, the identifier of the latest block, the ledger at that block and the
  records taken from the queue; \<open>previous\<close> was read when the round began. The network of the block
  stays empty, as in the code.
\<close>

definition next_block ::
    "env \<Rightarrow> (string \<Rightarrow> string) \<Rightarrow> string \<Rightarrow> string \<Rightarrow> string \<Rightarrow> int \<Rightarrow> int \<Rightarrow> ledger_state \<Rightarrow> record_structure list \<Rightarrow>
     block_structure \<Rightarrow> block_structure" where
  "next_block E sign networkName publicKey ts number latestBlockId pendingState records previous =
     (let reward = reward_record E sign networkName publicKey ts (DFin 0);
          pendingBalances = credit publicKey (r_amount reward) (ls_balances pendingState);
          included = include_pending (if r_hash reward \<noteq> [] then {r_hash reward} else {})
            (pendingBalances, ls_nonces pendingState) records
      in seal_block E sign
           \<lparr>b_network = [], b_number = number, b_time = ts,
            b_previous_id = latestBlockId, b_previous_hash = b_hash previous, b_merkle_root = [],
            b_creator = publicKey, b_hash = [], b_signature = [], b_records = reward # included\<rparr>)"

text \<open>
  The genesis block: a join record and a reward whose fee the code leaves unset
  (\<open>uninit_fee\<close>), and the configuration that is saved with it.
\<close>

definition genesis_block :: "env \<Rightarrow> (string \<Rightarrow> string) \<Rightarrow> double \<Rightarrow> string \<Rightarrow> string \<Rightarrow> string \<Rightarrow> int \<Rightarrow> block_structure" where
  "genesis_block E sign uninit_fee networkName publicKey ts number =
     (let r = \<lparr>r_network = networkName, r_time = ts, r_type = JOIN_NETWORK, r_nonce = 0,
               r_amount = DFin 0, r_fee = DFin 0, r_sender = publicKey, r_recipient = [], r_hash = [],
               r_signature = [], r_name = [], r_value = []\<rparr>;
          hash = getRecordHash E r;
          joinRecord = r\<lparr>r_hash := hash, r_signature := sign hash\<rparr>
      in seal_block E sign
           \<lparr>b_network = networkName, b_number = number, b_time = ts,
            b_previous_id = -1, b_previous_hash = [], b_merkle_root = [], b_creator = publicKey, b_hash = [],
            b_signature = [], b_records = [joinRecord, reward_record E sign networkName publicKey ts uninit_fee]\<rparr>)"

definition genesis_config :: "env \<Rightarrow> string \<Rightarrow> string \<Rightarrow> block_structure \<Rightarrow> network_config" where
  "genesis_config E networkName publicKey b =
     (env_config E)\<lparr>nc_network := networkName, genesisBlock := b_number b, genesisHash := b_hash b,
        recoveryPublicKey := publicKey, strictGenesis := True, enableBlockCreation := True,
        hasBlockCreationSetting := True\<rparr>"

text \<open>Creating a network, once the database is empty: the configuration is saved, the block added.\<close>

definition create_network ::
    "env \<Rightarrow> ledger_state \<Rightarrow> string \<Rightarrow> string \<Rightarrow> block_structure \<Rightarrow> dbh \<times> caches \<Rightarrow> env \<times> bool option \<times> dbh \<times> caches" where
  "create_network E u networkName publicKey b = (\<lambda>(db, cs).
     let E' = E\<lparr>e_conf := save_config (genesis_config E networkName publicKey b)\<rparr>
     in case AddBlock E' u b (db, cs) of
          (added, db, cs) \<Rightarrow>
            (E', added, if added = None then db else setFirstBlockId (b_number b) db, cs))"

end
