(* ===== verification/BuilderThread.thy ===== *)
theory BuilderThread
  imports BlockBuilder ConsoleNet
begin

text \<open>
  The thread of \<open>src/src/functions/blockbuilder.cpp\<close>, \<open>CBlockBuilder::blockBuilderThread\<close>: its local
  variables and the process around it as the record \<open>builder\<close>, the start with the creation of a
  network and the first download, one round of the loop, and the loop.

  Sleeping takes no time of its own: every look at the clock or at the flag \<open>isBuildingBlocks\<close> is an
  event of the node, and the clock of the world moves with the events.

  The thread shares the process with others: the download (\<open>syncThread\<close> in \<open>main.cpp\<close>), the server and
  the console write the same store, queue, wallet files, table of peers and network time while a
  round is under way. They are the record \<open>others\<close>: \<open>ot_halt\<close> says at which events one of them has
  called \<open>CBlockBuilder::stop\<close>, and \<open>ot_acts\<close> what they did to the process by then, any function on
  its state. \<open>meanwhile\<close> lets them act between two steps of the thread; a step is one call into the
  clock, the store, the ledger, the queue, the wallet or the peers, and is taken as a whole. Nothing
  is assumed of them here; the configuration file alone is taken to be left to this thread. A step gives \<open>None\<close> when it does not come back:
  a wait that never ends, or an exception, which ends the process. The lines written to the
  terminal and to the log are left out.
\<close>

section \<open>State\<close>

record builder =
  bu_site :: site
  bu_daemon :: daemon
  bu_functions :: cfunctions
  bu_selector :: "string list" \<comment> \<open>\<open>CSelector::users\<close>\<close>
  bu_private :: string
  bu_public :: string
  bu_building :: bool \<comment> \<open>\<open>isBuildingBlocks\<close>\<close>
  bu_last_built :: int \<comment> \<open>\<open>lastLocalBuiltBlockId\<close>\<close>
  bu_last_rebroadcast :: int \<comment> \<open>\<open>lastPendingRecordRebroadcastEpoch\<close>\<close>
  bu_last_sync :: int \<comment> \<open>\<open>lastPeerSyncRequestEpoch\<close>\<close>
  bu_evaluated :: "int \<times> int \<times> string" \<comment> \<open>\<open>lastEvaluatedTimeBlock\<close> and the two that follow it\<close>

definition bu_world :: "builder \<Rightarrow> world" where
  "bu_world b = si_world (bu_site b)"

definition bu_env :: "builder \<Rightarrow> env" where
  "bu_env b = env_of (bu_site b) (bu_daemon b)"

definition bu_db :: "builder \<Rightarrow> dbh" where
  "bu_db b = the_db (bu_daemon b)"

definition bu_peers :: "builder \<Rightarrow> string list" where
  "bu_peers b = n_peers (d_node (bu_daemon b))"

definition on_process :: "(site \<Rightarrow> daemon \<Rightarrow> 'a \<times> daemon) \<Rightarrow> builder \<Rightarrow> 'a \<times> builder" where
  "on_process f b = (let (a, s) = f (bu_site b) (bu_daemon b) in (a, b\<lparr>bu_daemon := s\<rparr>))"

definition on_peers :: "(world \<Rightarrow> node \<Rightarrow> 'a \<times> node) \<Rightarrow> builder \<Rightarrow> 'a \<times> builder" where
  "on_peers f = on_process (\<lambda>S. on_node (f (si_world S)))"

definition to_peers :: "(world \<Rightarrow> node \<Rightarrow> node) \<Rightarrow> builder \<Rightarrow> builder" where
  "to_peers f b = b\<lparr>bu_daemon := upd_node (f (bu_world b)) (bu_daemon b)\<rparr>"

section \<open>The other threads\<close>

record others =
  ot_halt :: "nat \<Rightarrow> bool"
  ot_acts :: "nat \<Rightarrow> daemon \<Rightarrow> daemon"

definition meanwhile :: "others \<Rightarrow> builder \<Rightarrow> builder" where
  "meanwhile T b =
     (let s = bu_daemon b; k = n_events (d_node s)
      in b\<lparr>bu_daemon := upd_node (\<lambda>n. n\<lparr>n_events := Suc k\<rparr>) (ot_acts T k s)\<rparr>)"

section \<open>The flag and the clock\<close>

definition is_building :: "others \<Rightarrow> builder \<Rightarrow> bool \<times> builder" where
  "is_building T b =
     (let r = (bu_building b \<and> \<not> ot_halt T (n_events (d_node (bu_daemon b))))
      in (r, to_peers (\<lambda>W. event) (b\<lparr>bu_building := r\<rparr>)))"

definition builder_stop :: "builder \<Rightarrow> builder" where
  "builder_stop b = (if \<not> bu_building b then b else b\<lparr>bu_building := False\<rparr>)"

text \<open>\<open>CSelector::getCurrentTimeBlock\<close>, and the time of the machine.\<close>

definition slot_now :: "builder \<Rightarrow> int \<times> builder" where
  "slot_now b = (getCurrentTimeBlock (bu_env b), to_peers (\<lambda>W. event) b)"

definition seconds_now :: "builder \<Rightarrow> int \<times> builder" where
  "seconds_now = on_process now_local"

text \<open>\<open>CNetworkTime::getEpoch\<close>.\<close>

definition epoch_now :: "builder \<Rightarrow> int \<times> builder" where
  "epoch_now = on_process now_epoch"

partial_function (option) wait_slot :: "others \<Rightarrow> int \<Rightarrow> builder \<Rightarrow> builder option" where
  "wait_slot T timeBlock b =
     (let (currTimeBlock, b) = slot_now b; b = meanwhile T b
      in if currTimeBlock = timeBlock then wait_slot T timeBlock b else Some b)"

section \<open>Keys, ledger and queue\<close>

definition read_creator :: "builder \<Rightarrow> builder" where
  "read_creator b =
     (case on_process (\<lambda>S. on_wallet readCreatorAccount) b of
        (None, b') \<Rightarrow>
          (case keys_left (d_wallet (bu_daemon b)) of
             None \<Rightarrow> b'
           | Some (privateKey, publicKey) \<Rightarrow> b'\<lparr>bu_private := privateKey, bu_public := publicKey\<rparr>)
      | (Some (privateKey, publicKey), b) \<Rightarrow> b\<lparr>bu_private := privateKey, bu_public := publicKey\<rparr>)"

definition applyLedgerStateToFunctions :: "ledger_state \<Rightarrow> builder \<Rightarrow> builder" where
  "applyLedgerStateToFunctions ledgerState b =
     b\<lparr>bu_functions := adopt_ledger ledgerState (bu_functions b), bu_selector := ls_active_keys ledgerState\<rparr>"

definition read_ledger :: "builder \<Rightarrow> ledger_state \<times> builder" where
  "read_ledger b =
     (let (ledgerState, b) = on_process (\<lambda>S. ledger_of S (bu_public b) (-1)) b
      in (ledgerState, applyLedgerStateToFunctions ledgerState b))"

definition builder_sign :: "builder \<Rightarrow> string \<Rightarrow> string" where
  "builder_sign b = w_sign (bu_world b) (bu_private b)"

definition send_records :: "record_structure list \<Rightarrow> builder \<Rightarrow> builder" where
  "send_records records b = foldl (\<lambda>b r. to_peers (\<lambda>W. broadcastRecord W r) b) b records"

definition builder_heartbeat :: "bool \<Rightarrow> ledger_state \<Rightarrow> builder \<Rightarrow> builder" where
  "builder_heartbeat creatorModeEnabled st b =
     (let (sent, b) = on_process (\<lambda>S. on_queue
            (queueHeartbeatIfDue (bu_env b) (builder_sign b) (bu_public b) creatorModeEnabled st)) b
      in send_records (case sent of None \<Rightarrow> [] | Some r \<Rightarrow> [r]) b)"

definition builder_rebroadcast :: "others \<Rightarrow> builder \<Rightarrow> builder" where
  "builder_rebroadcast T b =
     (let (rebroadcastEpoch, b) = seconds_now b; b = meanwhile T b
      in if bu_last_rebroadcast b = 0 \<or> 30 \<le> rebroadcastEpoch - bu_last_rebroadcast b
         then
           let (records, b) = on_process (\<lambda>S. on_queue (rebroadcastPendingQueueRecords (bu_env b))) b
           in (send_records records b)\<lparr>bu_last_rebroadcast := rebroadcastEpoch\<rparr>
         else b)"

text \<open>The result is \<open>creatorModeEnabled\<close>.\<close>

definition builder_prepare :: "others \<Rightarrow> string list \<Rightarrow> builder \<Rightarrow> bool \<times> builder" where
  "builder_prepare T argv b =
     (let (ledgerState, b) = read_ledger (meanwhile T (read_creator b));
          b = meanwhile T b;
          creatorModeEnabled = blockCreatorModeEnabled (bu_env b) argv;
          b = builder_heartbeat creatorModeEnabled ledgerState b
      in (creatorModeEnabled, builder_rebroadcast T (meanwhile T b)))"

section \<open>The decision\<close>

definition turn_now :: "int \<Rightarrow> block_structure \<Rightarrow> builder \<Rightarrow> bool \<times> builder" where
  "turn_now timeBlock previous b =
     on_process (\<lambda>S. on_node (\<lambda>n.
       let (mine, cache) = builder_turn (bu_env b) (n_db n) (bu_public b) previous timeBlock (c_ledger (n_caches n))
       in (mine, n\<lparr>n_caches := (n_caches n)\<lparr>c_ledger := cache\<rparr>\<rparr>))) b"

text \<open>All the conditions are looked at, also when the first one fails.\<close>

definition builder_decide :: "others \<Rightarrow> bool \<Rightarrow> int \<Rightarrow> block_structure \<Rightarrow> builder \<Rightarrow> bool \<times> builder" where
  "builder_decide T creatorModeEnabled timeBlock previous b =
     (let (mine, b) = turn_now timeBlock previous b;
          ((safe, reason), b) = on_peers canCreateBlocks (meanwhile T b)
      in (mine \<and> fn_joined (bu_functions b) \<and> creatorModeEnabled \<and> safe, b))"

section \<open>Building\<close>

text \<open>
  The clock is read twice, for the time and for the number; the identifier of the latest block is
  read here, after the peers were asked, while \<open>previous\<close> was read when the round began. The queue
  is emptied.
\<close>

definition make_block :: "others \<Rightarrow> string \<Rightarrow> block_structure \<Rightarrow> builder \<Rightarrow> block_structure \<times> builder" where
  "make_block T networkName previous b =
     (let (epoch, b) = epoch_now b;
          (number, b) = slot_now (meanwhile T b);
          b = meanwhile T b;
          latestBlockId = getLatestBlockId (bu_db b);
          (pendingState, b) = on_process (\<lambda>S. ledger_of S [] latestBlockId) (meanwhile T b);
          b = meanwhile T b;
          (records, b) = on_process (\<lambda>S. on_queue (parseQueueRecords (bu_env b))) b
      in (next_block (bu_env b) (builder_sign b) networkName (bu_public b) (show_long epoch) number latestBlockId
            pendingState records previous, b))"

text \<open>\<open>AddBlock\<close>, whose answer is not looked at; \<open>None\<close> when it throws.\<close>

definition keep_block :: "block_structure \<Rightarrow> builder \<Rightarrow> builder option" where
  "keep_block blk b =
     (let s = bu_daemon b; n = d_node s
      in case AddBlock (bu_env b) (w_uninit (bu_world b)) blk (n_db n, n_caches n) of
           (None, _) \<Rightarrow> None
         | (Some _, db, cs) \<Rightarrow> Some (b\<lparr>bu_daemon := s\<lparr>d_node := n\<lparr>n_db := db, n_caches := cs\<rparr>\<rparr>\<rparr>))"

definition publish_block :: "block_structure \<Rightarrow> builder \<Rightarrow> builder" where
  "publish_block blk b = to_peers (\<lambda>W n. broadcastHandoff W blk (bu_private b) (broadcastBlock W blk n)) b"

text \<open>
  The results of a step of the loop: whether the thread goes on, the block that was handed out,
  and the state.
\<close>

definition builder_produce ::
    "others \<Rightarrow> string \<Rightarrow> int \<Rightarrow> block_structure \<Rightarrow> builder \<Rightarrow> (bool \<times> block_structure option \<times> builder) option" where
  "builder_produce T networkName timeBlock previous b =
     (let (building, b) = is_building T b
      in if \<not> building then Some (False, None, b)
         else
           let (blk, b) = make_block T networkName previous (meanwhile T b);
               b = meanwhile T b;
               fresh = (b_number blk \<noteq> bu_last_built b)
           in Option.bind (if fresh then map_option (\<lambda>b. publish_block blk (meanwhile T b)) (keep_block blk b) else Some b) (\<lambda>b.
              map_option (\<lambda>b. (True, if fresh then Some blk else None, b))
                (wait_slot T timeBlock (b\<lparr>bu_last_built := b_number blk\<rparr>))))"

section \<open>Waiting for the turn of another node\<close>

fun sync_from :: "others \<Rightarrow> string list \<Rightarrow> builder \<Rightarrow> builder option" where
  "sync_from T [] b = Some b"
| "sync_from T (peer # peers) b =
     (case on_peers (\<lambda>W. syncFromPeer W peer) (meanwhile T b) of
        (None, b) \<Rightarrow> None
      | (Some _, b) \<Rightarrow> sync_from T peers b)"

definition needs_peer_sync :: "builder \<Rightarrow> bool \<times> builder" where
  "needs_peer_sync b =
     (if bu_peers b = [] then (False, b)
      else let (synced, b) = on_peers isSyncedWithPeers b in (\<not> synced, b))"

definition builder_idle :: "others \<Rightarrow> builder \<Rightarrow> builder option" where
  "builder_idle T b =
     (let (needsLocalPeerSync, b) = needs_peer_sync b; b = meanwhile T b
      in if IsChainUpToDate (bu_db b) \<and> \<not> needsLocalPeerSync then Some b
         else
           let (currBlock, b) = slot_now b; (syncRequestEpoch, b) = seconds_now b
           in if bu_last_sync b = 0 \<or> 10 \<le> syncRequestEpoch - bu_last_sync b
              then sync_from T (bu_peers b) (b\<lparr>bu_last_sync := syncRequestEpoch\<rparr>)
              else Some b)"

section \<open>The loop\<close>

definition builder_round ::
    "others \<Rightarrow> string list \<Rightarrow> string \<Rightarrow> builder \<Rightarrow> (bool \<times> block_structure option \<times> builder) option" where
  "builder_round T argv networkName b =
     (let (timeBlock, b) = slot_now b;
          b = meanwhile T b;
          latestBlockId = getLatestBlockId (bu_db b);
          b = meanwhile T b;
          previous = getBlock (bu_env b) (bu_db b) latestBlockId;
          evaluated = (timeBlock, b_number previous, b_hash previous)
      in if evaluated = bu_evaluated b then Some (True, None, b)
         else
           let (creatorModeEnabled, b) = builder_prepare T argv (meanwhile T (b\<lparr>bu_evaluated := evaluated\<rparr>));
               (build_block, b) = builder_decide T creatorModeEnabled timeBlock previous (meanwhile T b);
               b = meanwhile T b
           in if build_block then builder_produce T networkName timeBlock previous b
              else map_option (\<lambda>b. (True, None, b)) (builder_idle T b))"

partial_function (option) builder_loop ::
    "others \<Rightarrow> string list \<Rightarrow> string \<Rightarrow> builder \<Rightarrow> builder option" where
  "builder_loop T argv networkName b =
     (let (building, b) = is_building T b
      in if \<not> building then Some b
         else Option.bind (builder_round T argv networkName (meanwhile T b)) (\<lambda>(goes_on, handed, b).
                if goes_on then builder_loop T argv networkName b else Some b))"

section \<open>The start\<close>

text \<open>
  A new network: the database is emptied, the block made and added, the block sent, and the slot
  waited out.
\<close>

definition builder_genesis :: "others \<Rightarrow> double \<Rightarrow> string \<Rightarrow> int \<Rightarrow> builder \<Rightarrow> builder option" where
  "builder_genesis T uninit_fee networkName timeBlock b =
     (let b = b\<lparr>bu_daemon := set_db (DeleteAll (bu_db b)) (bu_daemon b)\<rparr>;
          (epoch, b) = epoch_now (meanwhile T b);
          (number, b) = slot_now (meanwhile T b);
          b = meanwhile T b;
          s = bu_daemon b; n = d_node s; E = bu_env b; W = bu_world b;
          blk = genesis_block E (builder_sign b) uninit_fee networkName (bu_public b) (show_long epoch) number
      in case create_network E (w_uninit W) networkName (bu_public b) blk (n_db n, n_caches n) of
           (E', None, _) \<Rightarrow> None
         | (E', Some _, db, cs) \<Rightarrow>
             wait_slot T timeBlock (publish_block blk (meanwhile T
               (b\<lparr>bu_site := (bu_site b)\<lparr>si_world := W\<lparr>w_env := (w_env W)\<lparr>e_conf := e_conf E'\<rparr>\<rparr>\<rparr>,
                  bu_daemon := s\<lparr>d_node := n\<lparr>n_db := db, n_caches := cs\<rparr>\<rparr>\<rparr>))))"

text \<open>The download until there is a chain; \<open>localPeerMode\<close> is decided before it.\<close>

partial_function (option) initial_sync :: "others \<Rightarrow> bool \<Rightarrow> builder \<Rightarrow> builder option" where
  "initial_sync T localPeerMode b =
     (if IsChainUpToDate (bu_db b) then Some b
      else
        let (building, b) = is_building T (meanwhile T b); b = meanwhile T b
        in if \<not> building then Some b
           else if localPeerMode
           then
             let (targetBlock, b) = on_peers getBestPeerLatestBlockId b
             in Option.bind (sync_from T (bu_peers b) b) (initial_sync T localPeerMode)
           else initial_sync T localPeerMode b)"

definition builder_catch_up :: "others \<Rightarrow> builder \<Rightarrow> builder option" where
  "builder_catch_up T b =
     (let localPeerMode = (bu_peers b \<noteq> []);
          b = (if localPeerMode then snd (on_peers getBestPeerLatestBlockId b) else b)
      in initial_sync T localPeerMode b)"

definition network_genesis :: "string list \<Rightarrow> bool" where
  "network_genesis argv \<longleftrightarrow> 3 \<le> length argv \<and> argv ! 1 = ''genesis''"

definition network_name :: "string list \<Rightarrow> string" where
  "network_name argv = (if network_genesis argv then argv ! 2 else ''main'')"

definition builder_start :: "others \<Rightarrow> double \<Rightarrow> string list \<Rightarrow> builder \<Rightarrow> builder option" where
  "builder_start T uninit_fee argv b =
     (let b = (if has_wallet (bu_daemon b) then read_creator b else b);
          b = snd (read_ledger (meanwhile T b));
          (timeBlock, b) = slot_now (meanwhile T b)
      in map_option (\<lambda>b. b\<lparr>bu_last_built := -1, bu_last_rebroadcast := 0, bu_last_sync := 0, bu_evaluated := (-1, -1, [])\<rparr>)
           (if network_genesis argv then builder_genesis T uninit_fee (network_name argv) timeBlock b
            else if getFirstBlockId (bu_db b) = -1 then builder_catch_up T b
            else Some b))"

definition blockBuilderThread :: "others \<Rightarrow> double \<Rightarrow> string list \<Rightarrow> builder \<Rightarrow> builder option" where
  "blockBuilderThread T uninit_fee argv b =
     Option.bind (builder_start T uninit_fee argv b) (builder_loop T argv (network_name argv))"

end
