(* ===== verification/BuilderFrame.thy ===== *)
theory BuilderFrame
  imports BuilderThread ApiSafety
begin

text \<open>
  What the steps of the builder's thread leave alone: none of them sets the offset of the network
  time or turns events back, and up to the moment a block is stored they change only the queue
  in the database. \<open>elapsed\<close> is the relation between two states of a node that the first of these
  gives; it is an instance of the frame of downloads.
\<close>

section \<open>Time on a node\<close>

definition elapsed :: "node \<Rightarrow> node \<Rightarrow> bool" where
  "elapsed s t \<longleftrightarrow> n_offset t = n_offset s \<and> n_events s \<le> n_events t"

named_theorems passes \<open>steps after which it is not earlier\<close>

lemma elapsed_self [passes]: "elapsed a a"
  by (simp add: elapsed_def)

lemma elapsed_trans: "elapsed a b \<Longrightarrow> elapsed b c \<Longrightarrow> elapsed a c"
  by (auto simp: elapsed_def)

lemma elapsed_shapes [passes]:
  "elapsed a (snd p) \<Longrightarrow> (\<And>x s. elapsed a s \<Longrightarrow> elapsed a (snd (g x s))) \<Longrightarrow> elapsed a (snd (case p of (x, s) \<Rightarrow> g x s))"
  "elapsed a (snd p) \<Longrightarrow> (\<And>x s. elapsed a s \<Longrightarrow> elapsed a (h x s)) \<Longrightarrow> elapsed a (case p of (x, s) \<Rightarrow> h x s)"
  "elapsed a s \<Longrightarrow> elapsed a (snd (y, s))"
  "elapsed a s \<Longrightarrow> elapsed a s' \<Longrightarrow> elapsed a (if c then s else s')"
  "elapsed a (snd q) \<Longrightarrow> elapsed a (snd q') \<Longrightarrow> elapsed a (snd (if c then q else q'))"
  "elapsed a s \<Longrightarrow> elapsed a s' \<Longrightarrow> elapsed a (case c of True \<Rightarrow> s | False \<Rightarrow> s')"
  "elapsed a (snd q) \<Longrightarrow> elapsed a (snd q') \<Longrightarrow> elapsed a (snd (case c of True \<Rightarrow> q | False \<Rightarrow> q'))"
  by (auto split: prod.split bool.split)

lemma elapsed_updates [passes]:
  "elapsed a s \<Longrightarrow> elapsed a (event s)"
  "elapsed a s \<Longrightarrow> elapsed a (s\<lparr>n_peers := ps\<rparr>)"
  "elapsed a s \<Longrightarrow> elapsed a (s\<lparr>n_statuses := m\<rparr>)"
  "elapsed a s \<Longrightarrow> elapsed a (s\<lparr>n_caches := cs\<rparr>)"
  "elapsed a s \<Longrightarrow> elapsed a (s\<lparr>n_db := db\<rparr>)"
  "elapsed a s \<Longrightarrow> elapsed a (savePeerCache W s)"
  "elapsed a s \<Longrightarrow> elapsed a (set_status p st s)"
  "elapsed a s \<Longrightarrow> elapsed a (touch_status p s)"
  "elapsed a s \<Longrightarrow> elapsed a (resetStablePeerTip s)"
  "elapsed a s \<Longrightarrow> elapsed a (notePeerSyncProgress s)"
  "elapsed a s \<Longrightarrow> elapsed a (snd (noteStablePeerTip i h s))"
  by (auto simp: elapsed_def event_def savePeerCache_def set_status_def touch_status_def resetStablePeerTip_def
      notePeerSyncProgress_def noteStablePeerTip_def Let_def)

lemma elapsed_basics [passes]:
  "elapsed a s \<Longrightarrow> elapsed a (snd (http W rq s))"
  "elapsed a s \<Longrightarrow> elapsed a (snd (local_epoch W s))"
  "elapsed a s \<Longrightarrow> elapsed a (snd (is_running W s))"
  by (auto simp: elapsed_def http_def local_epoch_def is_running_def event_def Let_def)

lemma elapsed_notes [passes]:
  "elapsed a s \<Longrightarrow> elapsed a (snd (peerSyncBackoffActive W s))"
  "elapsed a s \<Longrightarrow> elapsed a (notePeerSyncStall W s)"
  "elapsed a s \<Longrightarrow> elapsed a (set_error W p e s)"
  "elapsed a s \<Longrightarrow> elapsed a (notePeerSuccess W p s)"
  "elapsed a s \<Longrightarrow> elapsed a (notePeerFailure W p e s)"
proof -
  assume a: "elapsed a s"
  show "elapsed a (snd (peerSyncBackoffActive W s))" using a unfolding peerSyncBackoffActive_def Let_def by (intro passes)
  have stall: "elapsed a (notePeerSyncStall W t)" if "elapsed a t" for t
    using that by (auto simp: elapsed_def notePeerSyncStall_def local_epoch_def event_def Let_def)
  then show "elapsed a (notePeerSyncStall W s)" using a .
  show "elapsed a (set_error W p e s)" using a unfolding set_error_def by (intro stall passes)
  show "elapsed a (notePeerSuccess W p s)" using a unfolding notePeerSuccess_def Let_def by (intro passes)
  show "elapsed a (notePeerFailure W p e s)" using a unfolding notePeerFailure_def Let_def by (intro passes)
qed

lemma elapsed_status [passes]:
  "elapsed a s \<Longrightarrow> elapsed a (snd (statusFromPeer W p s))" "elapsed a s \<Longrightarrow> elapsed a (snd (refresh_status W p s))"
proof -
  assume a: "elapsed a s"
  show s: "elapsed a (snd (statusFromPeer W p s))" using a unfolding statusFromPeer_def Let_def by (intro passes)
  then show "elapsed a (snd (refresh_status W p s))" unfolding refresh_status_def Let_def by (intro passes)
qed

lemma elapsed_purge [passes]: "elapsed a s \<Longrightarrow> elapsed a (purgeUnavailablePeers W s)"
proof -
  have "elapsed a (snd (purge_peers now ps s))" if "elapsed a s" for now ps s
    using that by (induction now ps s rule: purge_peers.induct) (auto intro: passes simp: Let_def case_prod_beta)
  then show "elapsed a s \<Longrightarrow> elapsed a (purgeUnavailablePeers W s)"
    unfolding purgeUnavailablePeers_def Let_def by (intro passes)
qed

lemma elapsed_latest [passes]: "elapsed a s \<Longrightarrow> elapsed a (snd (getPeerLatestBlockId W p s))"
  unfolding getPeerLatestBlockId_def Let_def by (intro passes)

lemma elapsed_statuses [passes]: "elapsed a s \<Longrightarrow> elapsed a (snd (getPeerStatuses W r s))"
proof -
  have "elapsed a (snd (status_loop W r ps s))" if "elapsed a s" for ps s
    using that
  proof (induction ps arbitrary: s)
    case (Cons p ps)
    show ?case unfolding status_loop.simps Let_def by (intro passes Cons)
  qed simp
  then show "elapsed a s \<Longrightarrow> elapsed a (snd (getPeerStatuses W r s))" unfolding getPeerStatuses_def Let_def by (intro passes)
qed

lemma elapsed_best [passes]: "elapsed a s \<Longrightarrow> elapsed a (snd (getBestPeerStatus W s))"
proof -
  have "elapsed a (refresh_outdated W now i s)" if "elapsed a s" for now i s
    using that
  proof (induction W now i s rule: refresh_outdated.induct)
    case (1 W now i s)
    have "elapsed a (if status_outdated s now (n_peers s ! i) then snd (getPeerLatestBlockId W (n_peers s ! i) s) else s)"
      using "1.prems" by (intro passes)
    then show ?case using "1.prems" "1.IH" by (subst refresh_outdated.simps) simp
  qed
  then show "elapsed a s \<Longrightarrow> elapsed a (snd (getBestPeerStatus W s))" unfolding getBestPeerStatus_def Let_def by (intro passes)
qed

lemma elapsed_gate [passes]:
  "elapsed a s \<Longrightarrow> elapsed a (snd (canCreateBlocks W s))" "elapsed a s \<Longrightarrow> elapsed a (snd (isSyncedWithPeers W s))"
  "elapsed a s \<Longrightarrow> elapsed a (snd (getBestPeerLatestBlockId W s))"
proof -
  assume a: "elapsed a s"
  show g: "elapsed a (snd (canCreateBlocks W s))" using a unfolding canCreateBlocks_def Let_def by (intro passes)
  then show "elapsed a (snd (isSyncedWithPeers W s))" unfolding isSyncedWithPeers_def Let_def by (intro passes)
  show "elapsed a (snd (getBestPeerLatestBlockId W s))"
    using a unfolding getBestPeerLatestBlockId_def Let_def by (intro passes)
qed

lemma elapsed_ledger [passes]: "elapsed a s \<Longrightarrow> elapsed a (snd (ledger_at W n s))"
  by (auto simp: elapsed_def ledger_at_def Let_def case_prod_beta)

lemma elapsed_gossip [passes]: "elapsed a s \<Longrightarrow> elapsed a (snd (getGossipPeers W m c s))"
proof -
  have "elapsed a (snd (schedule_slots W f slots c s))" if "elapsed a s" for f slots c s
    using that
  proof (induction slots arbitrary: c s)
    case (Cons slot slots)
    show ?case unfolding schedule_slots.simps Let_def by (intro passes Cons)
  qed simp
  then have "elapsed a (snd (getPriorityPeersForUpcomingCreators W n s))" if "elapsed a s" for n s
    using that unfolding getPriorityPeersForUpcomingCreators_def getUpcomingCreatorSchedule_def Let_def by (intro passes)
  then show "elapsed a s \<Longrightarrow> elapsed a (snd (getGossipPeers W m c s))" unfolding getGossipPeers_def Let_def by (intro passes)
qed

lemma elapsed_broadcast:
  "(\<And>p s. elapsed a s \<Longrightarrow> elapsed a (send p s)) \<Longrightarrow> elapsed a s \<Longrightarrow> elapsed a (broadcast W send ps s)"
proof (induction ps arbitrary: s)
  case (Cons p ps)
  show ?case unfolding broadcast.simps by (intro passes Cons)
qed simp

lemma elapsed_offer: "elapsed a s \<Longrightarrow> elapsed a (offer W acc p q an body f peer s)"
  unfolding offer_def Let_def by (intro passes)

lemma elapsed_broadcasts [passes]:
  "elapsed a s \<Longrightarrow> elapsed a (broadcastRecord W r s)" "elapsed a s \<Longrightarrow> elapsed a (broadcastBlock W blk s)"
  unfolding broadcastRecord_def broadcastBlock_def Let_def by (intro passes elapsed_broadcast elapsed_offer; assumption)+

lemma elapsed_handoff [passes]: "elapsed a s \<Longrightarrow> elapsed a (broadcastHandoff W blk key s)"
proof -
  have "elapsed a (handoff_loop W body ps s)" if "elapsed a s" for body ps s
    using that
  proof (induction ps arbitrary: s)
    case (Cons p ps)
    show ?case unfolding handoff_loop.simps Let_def by (intro passes Cons)
  qed simp
  moreover have "elapsed a (snd (handoffJson W blk key s))" if "elapsed a s" for s
    using that unfolding handoffJson_def Let_def by (intro passes)
  ultimately show "elapsed a s \<Longrightarrow> elapsed a (broadcastHandoff W blk key s)"
    unfolding broadcastHandoff_def Let_def by (intro passes)
qed

interpretation clock: sync_frame W elapsed for W
proof (unfold_locales, goal_cases)
  case (10 b)
  show ?case by (auto simp: carries_def storeBlock_def elapsed_def Let_def case_prod_beta)
next
  case (11 s)
  show ?case by (simp add: rebuild_def elapsed_def case_prod_beta)
next
  case (12 st c)
  show ?case by (auto simp: carries_def adoptStoredPeerTip_def elapsed_def Let_def split: prod.split option.split)
qed (blast intro: passes elapsed_trans)+

lemma elapsed_sync [passes]: "elapsed a s \<Longrightarrow> elapsed a (snd (syncFromPeer W url s))"
proof -
  assume a: "elapsed a s"
  have w: "elapsed a (snd (sync_with W peer first latest t))" if "elapsed a t" for peer first latest t
    using clock.carries_sync_with [of W peer first latest] that unfolding carries_def by (blast intro: elapsed_trans)
  show ?thesis using a unfolding syncFromPeer_def Let_def by (intro passes w)
qed

section \<open>The queue and the chain\<close>

text \<open>The database without the queue of pending records.\<close>

definition chain_of :: "dbh \<Rightarrow> dbh" where
  "chain_of db = map_option chain_part db"

lemma chain_peek [simp]: "chain_of (fst (snd (peekQueueRecords E q))) = chain_of (fst q)"
proof (cases q)
  case (Pair db queued)
  show ?thesis
  proof (cases db)
    case (Some d)
    obtain d' where d': "snd (databaseMempoolRecords E (Some d)) = Some d'" by (simp add: databaseMempoolRecords_def Let_def)
    then show ?thesis using chain_part_peek [OF d'] by (simp add: Pair Some peekQueueRecords_def chain_of_def case_prod_beta)
  qed (simp add: Pair peekQueueRecords_def databaseMempoolRecords_def)
qed

lemma hash_prefix_key: "starts_with k MEMPOOL_HASH_PREFIX \<Longrightarrow> queue_key k"
proof -
  assume "starts_with k MEMPOOL_HASH_PREFIX"
  then obtain r where "k = MEMPOOL_HASH_PREFIX @ r" by (metis append_take_drop_id starts_with_def)
  then show ?thesis by (simp add: queue_key_def MEMPOOL_HASH_PREFIX_def starts_with_def)
qed

lemma chain_clear: "chain_of (clearDatabaseMempool db) = chain_of db"
proof (cases db)
  case (Some d)
  have "queue_key k" if "k \<in> set (keys_with_prefix d MEMPOOL_RECORD_PREFIX)" for k
    using that record_prefix_key unfolding keys_with_prefix_def by (meson set_takeWhileD)
  moreover have "queue_key k" if "k \<in> set (keys_with_prefix d MEMPOOL_HASH_PREFIX)" for k
    using that hash_prefix_key unfolding keys_with_prefix_def by (meson set_takeWhileD)
  ultimately show ?thesis
    using Some by (auto simp: clearDatabaseMempool_def chain_of_def Let_def queue_prefixes intro!: chain_part_batch)
qed (simp add: clearDatabaseMempool_def)

lemma chain_parse [simp]: "chain_of (fst (snd (parseQueueRecords E q))) = chain_of (fst q)"
  using chain_peek [of E q] by (auto simp: parseQueueRecords_def peekQueueRecords_def case_prod_beta chain_clear)

lemma chain_add [simp]: "chain_of (fst (snd (addToQueue E r q))) = chain_of (fst q)"
proof (cases q)
  case (Pair db queued)
  show ?thesis
    by (cases db) (auto simp: Pair addToQueue_def chain_of_def Let_def queue_prefixes intro!: chain_part_batch split: if_splits)
qed

lemma chain_adds: "chain_of (fst (foldl (\<lambda>q r. snd (addToQueue E r q)) q rs)) = chain_of (fst q)"
  by (induction rs arbitrary: q) simp_all

lemma chain_prune [simp]: "chain_of (fst (pruneAcceptedQueueRecords E q)) = chain_of (fst q)"
  using chain_peek [of E q]
  by (auto simp: pruneAcceptedQueueRecords_def replacePendingQueueRecords_def chain_adds case_prod_beta split: prod.split)

lemma chain_rebroadcast [simp]: "chain_of (fst (snd (rebroadcastPendingQueueRecords E q))) = chain_of (fst q)"
  by (simp add: rebroadcastPendingQueueRecords_def case_prod_beta)

lemma chain_heartbeat [simp]: "chain_of (fst (snd (queueHeartbeatIfDue E sign key mode st q))) = chain_of (fst q)"
proof -
  have h: "chain_of (fst (snd (hasPendingHeartbeat E key q))) = chain_of (fst q)"
    by (simp add: hasPendingHeartbeat_def case_prod_beta)
  then show ?thesis by (auto simp: queueHeartbeatIfDue_def Let_def case_prod_beta split: prod.split bool.split)
qed

lemma chain_tip:
  assumes "chain_of db' = chain_of db"
  shows "getLatestBlockId db' = getLatestBlockId db" "getFirstBlockId db' = getFirstBlockId db"
    "getBlock E db' n = getBlock E db n"
proof -
  have "getLatestBlockId (chain_of db) = getLatestBlockId db \<and> getFirstBlockId (chain_of db) = getFirstBlockId db \<and>
      getBlock E (chain_of db) n = getBlock E db n" for db
    by (cases db) (simp_all add: chain_of_def ids_chain_part block_chain_part)
  then show "getLatestBlockId db' = getLatestBlockId db" "getFirstBlockId db' = getFirstBlockId db"
    "getBlock E db' n = getBlock E db n"
    using assms by metis+
qed

end
