(* ===== verification/ClockFree.thy ===== *)
theory ClockFree
  imports BlockIndex
begin

text \<open>
  Reading the store does not depend on the clock: parsing a block and looking blocks up give the
  same answer at any time of the machine and with any offset of the network time.
\<close>

text \<open>The same node at another time.\<close>

abbreviation later :: "env \<Rightarrow> int \<Rightarrow> int \<Rightarrow> env" where
  "later E t off \<equiv> E\<lparr>e_local_epoch := t, e_time_offset := off\<rparr>"

lemma later_record: "parseRecordJson (later E t off) = parseRecordJson E"
  by (rule ext) (simp add: parseRecordJson_def parse_type_def)

lemma later_block: "parseBlockJson (later E t off) = parseBlockJson E"
  by (rule ext) (simp add: parseBlockJson_def parse_block_section_def later_record fun_eq_iff cong: map_cong)

lemma later_hash: "getBlockByHash (later E t off) db h = getBlockByHash E db h"
  by (cases db) (simp_all add: getBlockByHash_def later_block)

lemma later_getBlock: "getBlock (later E t off) db n = getBlock E db n"
  by (cases db) (simp_all add: getBlock_def later_block later_hash Let_def split: list.split)

lemma later_stored: "getStoredBlocks (later E t off) db = getStoredBlocks E db"
  unfolding getStoredBlocks_def later_block ..

lemma later_next: "getNextBlock (later E t off) db = getNextBlock E db"
proof
  fix b
  have "getNextBlockByHash (later E t off) db b = getNextBlockByHash E db b"
    by (simp add: getNextBlockByHash_def later_hash later_getBlock later_stored Let_def)
  moreover have "getNextBlockId (later E t off) db n = getNextBlockId E db n" for n
    by (cases db) (simp_all add: getNextBlockId_def later_hash later_getBlock Let_def)
  ultimately show "getNextBlock (later E t off) db b = getNextBlock E db b"
    by (simp add: getNextBlock_def later_getBlock Let_def)
qed

end
