(* ===== verification/BuilderFacts.thy ===== *)
theory BuilderFacts
  imports BuilderFrame ClockFree
begin

text \<open>
  What the builder's thread does: when it hands out a block and what that block is, that it never
  hands out two blocks for one slot, and that it ends when it is told to.
\<close>

section \<open>Steps of the thread\<close>

definition bu_node :: "builder \<Rightarrow> node" where
  "bu_node b = d_node (bu_daemon b)"

definition slot_of :: "builder \<Rightarrow> int" where
  "slot_of b = getCurrentTimeBlock (bu_env b)"

text \<open>What may be asked of the other threads: that they do not set the network time back, or that they leave the chain alone.\<close>

definition forward :: "others \<Rightarrow> bool" where
  "forward T \<longleftrightarrow> (\<forall>k s. n_offset (d_node s) \<le> n_offset (d_node (ot_acts T k s)))"

definition quiet :: "others \<Rightarrow> bool" where
  "quiet T \<longleftrightarrow> (\<forall>k s. chain_of (the_db (ot_acts T k s)) = chain_of (the_db s))"

text \<open>Time went on: there were events, and the offset did not fall unless the others set it.\<close>

definition moved_on :: "others \<Rightarrow> node \<Rightarrow> node \<Rightarrow> bool" where
  "moved_on T s t \<longleftrightarrow> n_events s \<le> n_events t \<and> (forward T \<longrightarrow> n_offset s \<le> n_offset t)"

lemma moved_on_self: "moved_on T s s"
  by (simp add: moved_on_def)

lemma moved_on_trans: "moved_on T s t \<Longrightarrow> moved_on T t u \<Longrightarrow> moved_on T s u"
  by (auto simp: moved_on_def)

lemma elapsed_moved: "elapsed s t \<Longrightarrow> moved_on T s t"
  by (simp add: elapsed_def moved_on_def)

text \<open>Time went on, and no block was noted as built.\<close>

definition goes :: "others \<Rightarrow> builder \<Rightarrow> builder \<Rightarrow> bool" where
  "goes T b c \<longleftrightarrow> bu_site c = bu_site b \<and> bu_last_built c = bu_last_built b \<and> moved_on T (bu_node b) (bu_node c)"

text \<open>And the thread itself did not change the chain: it is what it was if the others left it alone.\<close>

definition readies :: "others \<Rightarrow> builder \<Rightarrow> builder \<Rightarrow> bool" where
  "readies T b c \<longleftrightarrow> goes T b c \<and> (quiet T \<longrightarrow> chain_of (bu_db c) = chain_of (bu_db b))"

lemma cdiv_mono: "a \<le> b \<Longrightarrow> 0 < k \<Longrightarrow> cdiv a k \<le> cdiv b k"
proof -
  assume "a \<le> b" "0 < k"
  moreover have "cdiv x k = - ((- x) div k)" if "x < 0" for x using that \<open>0 < k\<close> by (simp add: cdiv_def)
  moreover have "0 \<le> (- a) div k" if "a < 0" using that \<open>0 < k\<close> by (simp add: pos_imp_zdiv_nonneg_iff)
  moreover have "0 \<le> b div k" if "0 \<le> b" using that \<open>0 < k\<close> by (simp add: pos_imp_zdiv_nonneg_iff)
  ultimately show ?thesis by (cases "a < 0"; cases "b < 0") (auto simp: cdiv_nonneg intro!: zdiv_mono1)
qed

named_theorems steps \<open>steps of the thread that respect the relation\<close>

lemma goes_trans: "goes T a b \<Longrightarrow> goes T b c \<Longrightarrow> goes T a c"
  unfolding goes_def by (auto intro: moved_on_trans)

lemma readies_goes: "readies T a b \<Longrightarrow> goes T a b"
  by (simp add: readies_def)

lemma readies_self [steps]: "readies T a a"
  by (simp add: readies_def goes_def moved_on_self)

lemma goes_self: "goes T a a"
  by (rule readies_goes) (rule readies_self)

lemma readies_shapes [steps]:
  "readies T a (snd p) \<Longrightarrow> (\<And>x b. readies T a b \<Longrightarrow> readies T a (snd (g x b))) \<Longrightarrow> readies T a (snd (case p of (x, b) \<Rightarrow> g x b))"
  "readies T a (snd p) \<Longrightarrow> (\<And>x b. readies T a b \<Longrightarrow> readies T a (h x b)) \<Longrightarrow> readies T a (case p of (x, b) \<Rightarrow> h x b)"
  "(\<And>x y. readies T a (snd (k x y b))) \<Longrightarrow> readies T a (snd ((case pair of (x, y) \<Rightarrow> k x y) b))"
  "readies T a b \<Longrightarrow> readies T a (snd (x, b))"
  "readies T a b \<Longrightarrow> readies T a b' \<Longrightarrow> readies T a (if c then b else b')"
  by (auto split: prod.split)

lemma readies_process:
  "readies T a b \<Longrightarrow> elapsed (bu_node b) (d_node s) \<Longrightarrow> chain_of (the_db s) = chain_of (bu_db b) \<Longrightarrow> readies T a (b\<lparr>bu_daemon := s\<rparr>)"
  by (auto simp: readies_def goes_def bu_node_def bu_db_def intro: moved_on_trans elapsed_moved)

lemma readies_fields [steps]:
  "readies T a b \<Longrightarrow> readies T a (b\<lparr>bu_private := k, bu_public := l\<rparr>)"
  "readies T a b \<Longrightarrow> readies T a (b\<lparr>bu_evaluated := e\<rparr>)"
  "readies T a b \<Longrightarrow> readies T a (b\<lparr>bu_building := r\<rparr>)"
  "readies T a b \<Longrightarrow> readies T a (b\<lparr>bu_last_rebroadcast := n\<rparr>)"
  "readies T a b \<Longrightarrow> readies T a (b\<lparr>bu_last_sync := n\<rparr>)"
  "readies T a b \<Longrightarrow> readies T a (applyLedgerStateToFunctions st b)"
  by (simp_all add: readies_def goes_def bu_node_def bu_db_def applyLedgerStateToFunctions_def)

lemma readies_on_process:
  assumes "readies T a b" and "elapsed (bu_node b) (d_node (snd (f (bu_site b) (bu_daemon b))))"
    and "chain_of (the_db (snd (f (bu_site b) (bu_daemon b)))) = chain_of (bu_db b)"
  shows "readies T a (snd (on_process f b))"
  using readies_process [OF assms] by (simp add: on_process_def case_prod_beta)

lemma readies_to_peers:
  "readies T a b \<Longrightarrow> elapsed (bu_node b) (f (bu_world b) (bu_node b)) \<Longrightarrow> n_db (f (bu_world b) (bu_node b)) = n_db (bu_node b) \<Longrightarrow>
   readies T a (to_peers f b)"
  unfolding to_peers_def
  by (erule readies_process) (simp_all add: upd_node_def bu_node_def the_db_def bu_db_def)

lemma readies_on_peers:
  "readies T a b \<Longrightarrow> elapsed (bu_node b) (snd (f (bu_world b) (bu_node b))) \<Longrightarrow>
   n_db (snd (f (bu_world b) (bu_node b))) = n_db (bu_node b) \<Longrightarrow> readies T a (snd (on_peers f b))"
  unfolding on_peers_def
  by (erule readies_on_process) (simp_all add: on_node_def case_prod_beta bu_node_def the_db_def bu_db_def bu_world_def)

lemma readies_queue:
  "readies T a b \<Longrightarrow> (\<And>q. chain_of (fst (snd (f q))) = chain_of (fst q)) \<Longrightarrow> readies T a (snd (on_process (\<lambda>S. on_queue f) b))"
  by (erule readies_on_process)
    (simp_all add: on_queue_def case_prod_beta set_db_def bu_node_def the_db_def bu_db_def elapsed_def)

lemma readies_clock [steps]:
  "readies T a b \<Longrightarrow> readies T a (snd (slot_now b))"
  "readies T a b \<Longrightarrow> readies T a (snd (is_building U b))"
  "readies T a b \<Longrightarrow> readies T a (snd (seconds_now b))"
  unfolding slot_now_def is_building_def seconds_now_def Let_def snd_conv
    apply (rule readies_to_peers; simp add: passes)
   apply (rule readies_to_peers; simp add: passes steps)
  apply (erule readies_on_process; simp add: now_local_def on_node_def case_prod_beta bu_node_def the_db_def bu_db_def passes)
  done

lemma readies_epoch [steps]: "readies T a b \<Longrightarrow> readies T a (snd (epoch_now b))"
  unfolding epoch_now_def
  by (erule readies_on_process)
    (simp_all add: now_epoch_def now_local_def on_node_def case_prod_beta bu_node_def the_db_def bu_db_def passes)

lemma readies_meanwhile [steps]: "readies T a b \<Longrightarrow> readies T a (meanwhile T b)"
proof -
  assume a: "readies T a b"
  have "moved_on T (bu_node b) (bu_node (meanwhile T b))"
    by (auto simp: moved_on_def forward_def meanwhile_def upd_node_def bu_node_def Let_def)
  moreover have "quiet T \<Longrightarrow> chain_of (bu_db (meanwhile T b)) = chain_of (bu_db b)"
    by (simp add: quiet_def meanwhile_def upd_node_def bu_db_def the_db_def Let_def)
  moreover have "bu_site (meanwhile T b) = bu_site b" "bu_last_built (meanwhile T b) = bu_last_built b"
    by (simp_all add: meanwhile_def Let_def)
  ultimately show ?thesis using a by (auto simp: readies_def goes_def intro: moved_on_trans)
qed

lemma meanwhile_parts [simp]:
  "bu_public (meanwhile T b) = bu_public b" "bu_functions (meanwhile T b) = bu_functions b"
  "bu_evaluated (meanwhile T b) = bu_evaluated b" "bu_building (meanwhile T b) = bu_building b"
  "bu_last_built (meanwhile T b) = bu_last_built b" "bu_site (meanwhile T b) = bu_site b"
  "bu_private (meanwhile T b) = bu_private b"
  by (simp_all add: meanwhile_def Let_def)

lemma readies_keys [steps]: "readies T a b \<Longrightarrow> readies T a (read_creator b)"
proof -
  assume a: "readies T a b"
  have "readies T a (snd (on_process (\<lambda>S. on_wallet readCreatorAccount) b))"
    by (rule readies_on_process [OF a]) (simp_all add: on_wallet_def case_prod_beta bu_node_def the_db_def bu_db_def elapsed_self)
  then show ?thesis unfolding read_creator_def by (auto intro!: steps split: prod.split option.split)
qed

lemma readies_ledger [steps]: "readies T a b \<Longrightarrow> readies T a (snd (read_ledger b))"
proof -
  assume a: "readies T a b"
  have "readies T a (snd (on_process (\<lambda>S. ledger_of S (bu_public b) (-1)) b))"
    by (rule readies_on_process [OF a])
      (simp_all add: ledger_of_def Let_def case_prod_beta bu_node_def the_db_def bu_db_def elapsed_def)
  then show ?thesis unfolding read_ledger_def Let_def by (intro steps)
qed

lemma readies_records [steps]: "readies T a b \<Longrightarrow> readies T a (send_records rs b)"
  unfolding send_records_def
proof (induction rs arbitrary: b)
  case (Cons r rs)
  then show ?case by (simp add: readies_to_peers passes)
qed simp

lemma readies_prepare [steps]: "readies T a b \<Longrightarrow> readies T a (snd (builder_prepare T argv b))"
proof -
  have h: "readies T a (builder_heartbeat m st c)" if "readies T a c" for m st c
    using that unfolding builder_heartbeat_def Let_def by (intro steps readies_queue chain_heartbeat)
  have r: "readies T a (builder_rebroadcast T c)" if "readies T a c" for c
    using that unfolding builder_rebroadcast_def Let_def by (intro steps readies_queue chain_rebroadcast)
  show "readies T a b \<Longrightarrow> readies T a (snd (builder_prepare T argv b))"
    unfolding builder_prepare_def Let_def by (intro steps h r)
qed

lemma readies_turn [steps]: "readies T a b \<Longrightarrow> readies T a (snd (turn_now timeBlock previous b))"
  unfolding turn_now_def
  by (erule readies_on_process)
    (simp_all add: on_node_def case_prod_beta bu_node_def the_db_def bu_db_def elapsed_def Let_def)

lemma readies_decide [steps]: "readies T a b \<Longrightarrow> readies T a (snd (builder_decide T mode timeBlock previous b))"
proof -
  have g: "readies T a (snd (on_peers canCreateBlocks c))" if "readies T a c" for c
    using that by (rule readies_on_peers) (simp_all add: passes)
  show "readies T a b \<Longrightarrow> readies T a (snd (builder_decide T mode timeBlock previous b))"
    unfolding builder_decide_def Let_def by (intro steps g)
qed

section \<open>The block that is made\<close>

lemma sealed_fields [simp]:
  "b_number (seal_block E sign b) = b_number b" "b_previous_id (seal_block E sign b) = b_previous_id b"
  "b_previous_hash (seal_block E sign b) = b_previous_hash b" "b_creator (seal_block E sign b) = b_creator b"
  by (simp_all add: seal_block_def Let_def)

lemma next_block_fields [simp]:
  "b_number (next_block E sign networkName key ts number latest st rs previous) = number"
  "b_previous_id (next_block E sign networkName key ts number latest st rs previous) = latest"
  "b_previous_hash (next_block E sign networkName key ts number latest st rs previous) = b_hash previous"
  "b_creator (next_block E sign networkName key ts number latest st rs previous) = key"
  by (simp_all add: next_block_def Let_def)

lemma steps_public [simp]:
  "bu_public (snd (epoch_now b)) = bu_public b" "bu_public (snd (slot_now b)) = bu_public b"
  "bu_public (snd (is_building T b)) = bu_public b" "bu_public (snd (on_process f b)) = bu_public b"
  by (simp_all add: epoch_now_def slot_now_def is_building_def on_process_def to_peers_def Let_def case_prod_beta)

lemma readies_trans: "readies T a b \<Longrightarrow> readies T b c \<Longrightarrow> readies T a c"
  by (auto simp: readies_def intro: goes_trans)

text \<open>
  The moments at which the number (\<open>m\<close>) and the identifier of the latest block (\<open>l\<close>) are read.
\<close>

lemma made_block:
  assumes "make_block T networkName previous b = (blk, c)"
  obtains m l where "readies T b m" "b_number blk = slot_of m" "readies T m l" "b_previous_id blk = getLatestBlockId (bu_db l)"
    "readies T l c" "b_previous_hash blk = b_hash previous" "b_creator blk = bu_public b"
proof -
  define m where "m = meanwhile T (snd (epoch_now b))"
  define l where "l = meanwhile T (snd (slot_now m))"
  define n where "n = meanwhile T (snd (on_process (\<lambda>S. ledger_of S [] (getLatestBlockId (bu_db l))) (meanwhile T l)))"
  have c: "c = snd (on_process (\<lambda>S. on_queue (parseQueueRecords (bu_env n))) n)"
    and blk: "b_number blk = fst (slot_now m)" "b_previous_id blk = getLatestBlockId (bu_db l)"
    "b_previous_hash blk = b_hash previous" "b_creator blk = bu_public c"
    using assms by (auto simp: make_block_def m_def l_def n_def Let_def case_prod_beta)
  have bm: "readies T b m" unfolding m_def by (intro steps)
  have ml: "readies T m l" unfolding l_def by (intro steps)
  have "readies T l (snd (on_process (\<lambda>S. ledger_of S [] (getLatestBlockId (bu_db l))) (meanwhile T l)))"
    by (rule readies_on_process [OF readies_meanwhile [OF readies_self]])
      (simp_all add: ledger_of_def Let_def case_prod_beta bu_node_def the_db_def bu_db_def elapsed_def)
  then have "readies T l n" unfolding n_def by (rule readies_meanwhile)
  then have lc: "readies T l c" unfolding c by (rule readies_queue) simp
  have "bu_public c = bu_public b" by (simp add: c n_def l_def m_def)
  then show thesis using that [OF bm _ ml _ lc] blk by (simp add: slot_of_def slot_now_def)
qed

lemma keep_goes: "keep_block blk b = Some c \<Longrightarrow> goes T b c"
  by (auto simp: keep_block_def Let_def goes_def bu_node_def moved_on_def split: prod.splits option.splits)

lemma publish_goes: "goes T b (publish_block blk b)"
  by (auto simp: publish_block_def to_peers_def goes_def bu_node_def upd_node_def intro!: elapsed_moved passes)

lemma wait_goes: "wait_slot T timeBlock b = Some c \<Longrightarrow> goes T b c"
proof (induction rule: wait_slot.raw_induct [rotated, consumes 1])
  case (1 wait T t b c)
  have n: "goes T b (meanwhile T (snd (slot_now b)))" by (intro readies_goes steps)
  show ?case
    using 1 n goes_trans by (auto simp: case_prod_beta Let_def split: if_splits)
qed

lemma sync_goes: "sync_from T peers b = Some c \<Longrightarrow> goes T b c"
proof (induction peers arbitrary: b)
  case (Cons p ps)
  have m: "goes T b (meanwhile T b)" by (intro readies_goes steps)
  have "goes T (meanwhile T b) (snd (on_peers (\<lambda>W. syncFromPeer W p) (meanwhile T b)))"
    by (auto simp: on_peers_def on_process_def on_node_def goes_def bu_node_def case_prod_beta intro!: elapsed_moved passes)
  then have "goes T b (snd (on_peers (\<lambda>W. syncFromPeer W p) (meanwhile T b)))" using m goes_trans by blast
  then show ?case using Cons goes_trans by (fastforce split: prod.splits option.splits)
qed (simp add: goes_self)

lemma idle_goes: "builder_idle T b = Some c \<Longrightarrow> goes T b c"
proof -
  assume c: "builder_idle T b = Some c"
  let ?s = "meanwhile T (snd (needs_peer_sync b))"
  let ?t = "snd (seconds_now (snd (slot_now ?s)))"
  have "goes T b (snd (needs_peer_sync b))"
    by (auto simp: needs_peer_sync_def on_peers_def on_process_def on_node_def goes_def bu_node_def case_prod_beta
        intro!: elapsed_moved passes)
  moreover have "goes T (snd (needs_peer_sync b)) ?s" by (intro readies_goes steps)
  ultimately have s: "goes T b ?s" by (rule goes_trans)
  have t: "goes T b ?t" by (rule goes_trans [OF s]) (intro readies_goes steps)
  have u: "goes T b (?t\<lparr>bu_last_sync := n\<rparr>)" for n by (rule goes_trans [OF t]) (intro readies_goes steps)
  have "goes T b c" if "sync_from T ps (?t\<lparr>bu_last_sync := n\<rparr>) = Some c" for ps n
    using goes_trans [OF u sync_goes [OF that]] .
  then show ?thesis using c s t unfolding builder_idle_def Let_def case_prod_beta by (simp split: if_splits)
qed

text \<open>
  The wait for the end of a slot ends if from some later reading of the clock on another slot has
  begun, whatever the others do to the offset as long as they do not set it back.
\<close>

lemma wait_ends:
  assumes "forward T" and "\<forall>j \<ge> k. timeBlock < cdiv (w_clock (bu_world b) j + n_offset (bu_node b)) 15"
  shows "\<exists>c. wait_slot T timeBlock b = Some c"
  using assms(2)
proof (induction "k - n_events (bu_node b)" arbitrary: b rule: less_induct)
  case less
  let ?b = "meanwhile T (snd (slot_now b))"
  have now: "fst (slot_now b) = cdiv (w_clock (bu_world b) (n_events (bu_node b)) + n_offset (bu_node b)) 15"
    by (simp add: slot_now_def bu_env_def env_of_def env_now_def getCurrentTimeBlock_def getEpoch_def bu_world_def bu_node_def)
  have same: "bu_world ?b = bu_world b" "n_events (bu_node ?b) = Suc (Suc (n_events (bu_node b)))"
    by (simp_all add: slot_now_def to_peers_def upd_node_def event_def bu_world_def bu_node_def meanwhile_def Let_def)
  have "goes T b ?b" by (intro readies_goes steps)
  then have "n_offset (bu_node b) \<le> n_offset (bu_node ?b)" using assms(1) by (simp add: goes_def moved_on_def)
  then have rest: "\<forall>j \<ge> k. timeBlock < cdiv (w_clock (bu_world ?b) j + n_offset (bu_node ?b)) 15"
    unfolding same(1)
  proof (intro allI impI)
    fix j
    assume "k \<le> j"
    with less.prems have "timeBlock < cdiv (w_clock (bu_world b) j + n_offset (bu_node b)) 15" by blast
    also have "\<dots> \<le> cdiv (w_clock (bu_world b) j + n_offset (bu_node ?b)) 15"
      using \<open>n_offset (bu_node b) \<le> n_offset (bu_node ?b)\<close> by (intro cdiv_mono) simp_all
    finally show "timeBlock < cdiv (w_clock (bu_world b) j + n_offset (bu_node ?b)) 15" .
  qed
  show ?case
  proof (cases "fst (slot_now b) = timeBlock")
    case True
    then have "n_events (bu_node b) < k" using less.prems now by (metis less_irrefl not_le)
    then have "\<exists>c. wait_slot T timeBlock ?b = Some c" using rest same by (intro less.hyps) auto
    then show ?thesis using True by (subst wait_slot.simps) (simp add: case_prod_beta Let_def)
  qed (subst wait_slot.simps, simp add: case_prod_beta Let_def)
qed

section \<open>One round\<close>

lemma produced:
  assumes "builder_produce T networkName timeBlock previous b = Some (goes_on, handed, d)"
  shows "bu_site d = bu_site b \<and> moved_on T (bu_node b) (bu_node d) \<and>
    (case handed of
       None \<Rightarrow> bu_last_built d = bu_last_built b
     | Some blk \<Rightarrow> bu_last_built d = b_number blk \<and> b_number blk \<noteq> bu_last_built b \<and>
         b_previous_hash blk = b_hash previous \<and> b_creator blk = bu_public b \<and>
         (\<exists>m l. readies T b m \<and> b_number blk = slot_of m \<and> moved_on T (bu_node m) (bu_node d) \<and>
            readies T m l \<and> b_previous_id blk = getLatestBlockId (bu_db l)))"
proof -
  obtain building m0 where m0: "is_building T b = (building, m0)" by fastforce
  have b0: "readies T b m0" using readies_clock(2) [OF readies_self, of T b T] m0 by simp
  have p0: "bu_public m0 = bu_public b" using steps_public(3) [of T b] m0 by simp
  show ?thesis
  proof (cases building)
    case False
    then show ?thesis using assms m0 b0 by (auto simp: builder_produce_def Let_def readies_def goes_def)
  next
    case True
    obtain blk c0 where c: "make_block T networkName previous (meanwhile T m0) = (blk, c0)" by fastforce
    obtain m l where made: "readies T (meanwhile T m0) m" "b_number blk = slot_of m" "readies T m l"
      "b_previous_id blk = getLatestBlockId (bu_db l)" "readies T l c0"
      "b_previous_hash blk = b_hash previous" "b_creator blk = bu_public (meanwhile T m0)"
      by (rule made_block [OF c])
    let ?c = "meanwhile T c0"
    let ?fresh = "b_number blk \<noteq> bu_last_built ?c"
    obtain e where e: "(if ?fresh then map_option (\<lambda>b. publish_block blk (meanwhile T b)) (keep_block blk ?c) else Some ?c) = Some e"
      and w: "wait_slot T timeBlock (e\<lparr>bu_last_built := b_number blk\<rparr>) = Some d"
      and h: "handed = (if ?fresh then Some blk else None)"
      using assms by (auto simp: builder_produce_def m0 True c Let_def bind_eq_Some_conv)
    have mw: "goes T x (meanwhile T x)" for x by (intro readies_goes steps)
    have ce: "goes T ?c e"
      using e by (auto split: if_splits intro: goes_self goes_trans [OF goes_trans [OF keep_goes mw] publish_goes])
    have ed: "bu_site d = bu_site e" "bu_last_built d = b_number blk" "moved_on T (bu_node e) (bu_node d)"
      using wait_goes [OF w] by (simp_all add: goes_def bu_node_def)
    have bm: "readies T b m" using readies_trans [OF readies_meanwhile [OF b0] made(1)] .
    have mc: "goes T m ?c" using readies_trans [OF made(3,5)] mw goes_trans readies_goes by blast
    have bc: "goes T b ?c" using goes_trans [OF readies_goes [OF bm] mc] .
    have md: "moved_on T (bu_node m) (bu_node d)" using mc ce ed(3) moved_on_trans unfolding goes_def by blast
    have bd: "moved_on T (bu_node b) (bu_node d)" using bm md moved_on_trans unfolding readies_def goes_def by blast
    have last: "bu_last_built ?c = bu_last_built b" and site: "bu_site d = bu_site b"
      using bc ce ed(1) by (simp_all add: goes_def)
    have "\<exists>m l. readies T b m \<and> b_number blk = slot_of m \<and> moved_on T (bu_node m) (bu_node d) \<and>
        readies T m l \<and> b_previous_id blk = getLatestBlockId (bu_db l)"
      using bm made(2,3,4) md by blast
    then show ?thesis using site bd last ed(2) made(6,7) p0 by (simp add: h del: meanwhile_parts(5))
  qed
qed

text \<open>
  Leave to build: the key of the wallet is a member, blocks are created here, it is the turn of the
  key on top of \<open>tip\<close>, and, asked after that, the gate towards the peers is open.
\<close>

definition granted :: "others \<Rightarrow> string list \<Rightarrow> int \<Rightarrow> block_structure \<Rightarrow> string \<Rightarrow> builder \<Rightarrow> bool" where
  "granted T argv timeBlock tip creator m \<longleftrightarrow>
     creator = bu_public m \<and> fn_joined (bu_functions m) \<and> blockCreatorModeEnabled (bu_env m) argv \<and>
     fst (turn_now timeBlock tip m) \<and>
     fst (fst (on_peers canCreateBlocks (meanwhile T (snd (turn_now timeBlock tip m)))))"

lemma mode_of: "blockCreatorModeEnabled (bu_env b) argv = blockCreatorModeEnabled (w_env (bu_world b)) argv"
  by (simp add: blockCreatorModeEnabled_def env_config_def bu_env_def env_of_def env_now_def bu_world_def)

lemma prepared_mode:
  assumes "builder_prepare T argv b = (mode, m)"
  shows "mode = blockCreatorModeEnabled (bu_env m) argv"
proof -
  obtain st c where c: "read_ledger (meanwhile T (read_creator b)) = (st, c)" by fastforce
  have "readies T b c" using readies_ledger [OF readies_meanwhile [OF readies_keys [OF readies_self]], of T b] c by simp
  moreover have "readies T b m" using readies_prepare [OF readies_self, of T b argv] assms by simp
  ultimately have "bu_world m = bu_world (meanwhile T c)" by (simp add: readies_def goes_def bu_world_def)
  moreover have "mode = blockCreatorModeEnabled (bu_env (meanwhile T c)) argv" using assms by (simp add: builder_prepare_def c Let_def)
  ultimately show ?thesis by (simp add: mode_of)
qed

lemma decided:
  assumes "builder_decide T mode timeBlock tip m = (True, c)" and "mode = blockCreatorModeEnabled (bu_env m) argv"
  shows "granted T argv timeBlock tip (bu_public c) m"
  using assms
  by (auto simp: builder_decide_def granted_def turn_now_def on_peers_def on_process_def meanwhile_def case_prod_beta Let_def)

text \<open>What a round reads first: the slot, the identifier of the latest block, and the block with it.\<close>

definition round_tip :: "others \<Rightarrow> builder \<Rightarrow> block_structure" where
  "round_tip T b =
     (let b0 = meanwhile T (snd (slot_now b)); b1 = meanwhile T b0
      in getBlock (bu_env b1) (bu_db b1) (getLatestBlockId (bu_db b0)))"

lemma round_cases:
  assumes "builder_round T argv networkName b = Some (goes_on, handed, d)"
  defines "timeBlock \<equiv> fst (slot_now b)" and "tip \<equiv> round_tip T b"
  shows "handed = None \<and> goes T b d \<or>
    (\<exists>m c. readies T b m \<and> readies T m c \<and> granted T argv timeBlock tip (bu_public c) m \<and>
       builder_produce T networkName timeBlock tip c = Some (goes_on, handed, d))"
proof -
  let ?e = "(timeBlock, b_number tip, b_hash tip)"
  define b1 where "b1 = meanwhile T (meanwhile T (snd (slot_now b)))"
  have b1: "readies T b b1" unfolding b1_def by (intro steps)
  have round: "builder_round T argv networkName b =
     (if ?e = bu_evaluated b1 then Some (True, None, b1)
      else
        let (creatorModeEnabled, b) = builder_prepare T argv (meanwhile T (b1\<lparr>bu_evaluated := ?e\<rparr>));
            (build_block, b) = builder_decide T creatorModeEnabled timeBlock tip (meanwhile T b);
            b = meanwhile T b
        in if build_block then builder_produce T networkName timeBlock tip b
           else map_option (\<lambda>b. (True, None, b)) (builder_idle T b))"
    unfolding builder_round_def Let_def case_prod_beta timeBlock_def tip_def round_tip_def b1_def by simp
  show ?thesis
  proof (cases "?e = bu_evaluated b1")
    case True
    then show ?thesis using assms(1) b1 by (auto simp: round readies_def)
  next
    case False
    obtain mode m0 where m0: "builder_prepare T argv (meanwhile T (b1\<lparr>bu_evaluated := ?e\<rparr>)) = (mode, m0)" by fastforce
    let ?m = "meanwhile T m0"
    obtain build_block c0 where c0: "builder_decide T mode timeBlock tip ?m = (build_block, c0)" by fastforce
    have "readies T b (meanwhile T (b1\<lparr>bu_evaluated := ?e\<rparr>))" using b1 by (intro steps)
    from readies_prepare [OF this, of argv] have bm: "readies T b ?m" by (simp add: m0 steps)
    have mc: "readies T ?m (meanwhile T c0)"
      using readies_decide [OF readies_self, of T ?m mode timeBlock tip] c0 by (simp add: steps)
    have r: "(if build_block then builder_produce T networkName timeBlock tip (meanwhile T c0)
        else map_option (\<lambda>b. (True, None, b)) (builder_idle T (meanwhile T c0))) = Some (goes_on, handed, d)"
      using assms(1) False unfolding round by (simp add: m0 c0 Let_def)
    show ?thesis
    proof (cases build_block)
      case True
      have "mode = blockCreatorModeEnabled (bu_env ?m) argv"
        using prepared_mode [OF m0] by (simp add: mode_of bu_world_def)
      then have "granted T argv timeBlock tip (bu_public (meanwhile T c0)) ?m"
        using decided [of T mode timeBlock tip ?m c0] c0 True by simp
      then show ?thesis using bm mc r True by auto
    next
      case False
      then show ?thesis
        using r goes_trans [OF goes_trans [OF readies_goes readies_goes, OF bm mc] idle_goes] by auto
    qed
  qed
qed


lemma handed_parent:
  "builder_round T argv networkName b = Some (goes_on, Some blk, d) \<Longrightarrow> b_previous_hash blk = b_hash (round_tip T b)"
  by (drule round_cases) (auto dest!: produced)




section \<open>The run of the thread\<close>

text \<open>The states the loop passes through, and the blocks handed out on the way.\<close>

inductive builder_runs ::
    "others \<Rightarrow> string list \<Rightarrow> string \<Rightarrow> builder \<Rightarrow> block_structure list \<Rightarrow> builder \<Rightarrow> bool"
  for T argv networkName b where
  starts: "builder_runs T argv networkName b [] b"
| rounds: "builder_runs T argv networkName b blocks c \<Longrightarrow> is_building T c = (True, c') \<Longrightarrow>
    builder_round T argv networkName (meanwhile T c') = Some (goes_on, handed, d) \<Longrightarrow>
    builder_runs T argv networkName b (blocks @ (case handed of None \<Rightarrow> [] | Some blk \<Rightarrow> [blk])) d"

lemma round_numbers:
  assumes "builder_round T argv networkName b = Some (goes_on, handed, d)"
  shows "bu_site d = bu_site b \<and> moved_on T (bu_node b) (bu_node d) \<and>
    (case handed of
       None \<Rightarrow> bu_last_built d = bu_last_built b
     | Some blk \<Rightarrow> bu_last_built d = b_number blk \<and> b_number blk \<noteq> bu_last_built b \<and>
         (\<exists>m. bu_site m = bu_site b \<and> moved_on T (bu_node b) (bu_node m) \<and> b_number blk = slot_of m \<and>
            moved_on T (bu_node m) (bu_node d)))"
proof -
  from round_cases [OF assms] show ?thesis
  proof
    assume "handed = None \<and> goes T b d"
    then show ?thesis by (simp add: goes_def)
  next
    assume "\<exists>m c. readies T b m \<and> readies T m c \<and> granted T argv (fst (slot_now b)) (round_tip T b) (bu_public c) m \<and>
      builder_produce T networkName (fst (slot_now b)) (round_tip T b) c = Some (goes_on, handed, d)"
    then obtain c tip t where c: "goes T b c" and p: "builder_produce T networkName t tip c = Some (goes_on, handed, d)"
      by (blast intro: goes_trans readies_goes)
    show ?thesis
      using produced [OF p] c unfolding readies_def goes_def by (auto split: option.splits intro: moved_on_trans)
  qed
qed

lemma slot_mono:
  assumes "mono (w_clock (bu_world b))" and "forward T" and "bu_site c = bu_site b" and "moved_on T (bu_node b) (bu_node c)"
  shows "slot_of b \<le> slot_of c"
proof -
  have "w_clock (bu_world b) (n_events (bu_node b)) \<le> w_clock (bu_world b) (n_events (bu_node c))"
    using assms(4) by (intro monoD [OF assms(1)]) (simp add: moved_on_def)
  then have "w_clock (bu_world b) (n_events (bu_node b)) + n_offset (bu_node b) \<le>
      w_clock (bu_world b) (n_events (bu_node c)) + n_offset (bu_node c)"
    using assms(2,4) by (intro add_mono) (simp_all add: moved_on_def)
  then show ?thesis
    using assms(3)
    by (simp add: slot_of_def bu_env_def env_of_def env_now_def getCurrentTimeBlock_def getEpoch_def bu_world_def bu_node_def
        cdiv_mono)
qed

lemma below_last:
  assumes "sorted_wrt (<) (map f xs)" and "xs \<noteq> [] \<Longrightarrow> f (last xs) < (y :: int)" and "x \<in> set xs"
  shows "f x < y"
  using assms by (cases xs rule: rev_cases) (auto simp: sorted_wrt_append)

text \<open>What a run keeps: the last block handed out is the one that is noted, and none is for a slot to come.\<close>

lemma run_numbers:
  assumes "builder_runs T argv networkName b blocks c" and "mono (w_clock (bu_world b))" and "forward T"
  shows "bu_site c = bu_site b \<and> (blocks \<noteq> [] \<longrightarrow> b_number (last blocks) = bu_last_built c) \<and>
    (\<forall>x \<in> set blocks. b_number x \<le> slot_of c) \<and> sorted_wrt (<) (map b_number blocks)"
  using assms(1)
proof induction
  case (rounds blocks c c' goes_on handed d)
  let ?c = "meanwhile T c'"
  have "readies T c ?c" using readies_clock(2) [OF readies_self, of T c T] rounds(2) by (simp add: steps)
  then have c': "bu_site ?c = bu_site b" "bu_last_built ?c = bu_last_built c" and e: "moved_on T (bu_node c) (bu_node ?c)"
    using rounds.IH by (simp_all add: readies_def goes_def)
  note r = round_numbers [OF rounds(3)]
  have up: "slot_of x \<le> slot_of y" if "bu_site x = bu_site b" "bu_site y = bu_site b" "moved_on T (bu_node x) (bu_node y)" for x y
    using that assms(2,3) by (intro slot_mono [of _ T]) (simp_all add: bu_world_def)
  have cd: "slot_of c \<le> slot_of d" using r c' e rounds.IH by (intro up) (auto intro: moved_on_trans)
  show ?case
  proof (cases handed)
    case None
    then show ?thesis using rounds.IH r c' cd by fastforce
  next
    case (Some blk)
    then obtain m where m: "bu_site m = bu_site b" "moved_on T (bu_node ?c) (bu_node m)" "b_number blk = slot_of m"
      "moved_on T (bu_node m) (bu_node d)" and new: "b_number blk \<noteq> bu_last_built c" "bu_last_built d = b_number blk"
      using r c' by auto
    have low: "slot_of c \<le> b_number blk" using m(1,2) e rounds.IH unfolding m(3) by (intro up) (auto intro: moved_on_trans)
    have high: "b_number blk \<le> slot_of d" using m r c' unfolding m(3) by (intro up) auto
    have "b_number (last blocks) < b_number blk" if "blocks \<noteq> []"
      using that rounds.IH new(1) low last_in_set [OF that] by fastforce
    then have below: "b_number x < b_number blk" if "x \<in> set blocks" for x
      using below_last [OF _ _ that] rounds.IH by blast
    then have "\<forall>x \<in> set blocks. b_number x \<le> slot_of d" using high by fastforce
    then show ?thesis using rounds.IH r c' new(2) high below Some by (simp add: sorted_wrt_append)
  qed
qed simp

text \<open>
  C29. One block for a slot: as long as the clock of the machine does not go back and the other
  threads do not set the network time back, the numbers of the blocks that a run of the thread
  hands out increase strictly. It never hands out two blocks with the same number, whatever the
  peers and the store answer and whatever else the other threads do to the process.
\<close>

theorem handed_numbers_increase:
  assumes "builder_runs T argv networkName b blocks c" and "mono (w_clock (bu_world b))" and "forward T"
  shows "sorted_wrt (<) (map b_number blocks)"
  using run_numbers [OF assms] by blast

section \<open>The end of the thread\<close>

lemma building_steps:
  assumes "is_building T c = (r, c')"
  shows "n_events (bu_node c') = Suc (n_events (bu_node c))" "bu_building c' = r" "r \<Longrightarrow> \<not> ot_halt T (n_events (bu_node c))"
  using assms by (auto simp: is_building_def to_peers_def upd_node_def event_def bu_node_def Let_def)

lemma produce_ends: "builder_produce T networkName timeBlock tip b = Some (False, handed, d) \<Longrightarrow> \<not> bu_building d"
  by (auto simp: builder_produce_def Let_def bind_eq_Some_conv split: prod.splits if_splits dest: building_steps(2))

lemma round_ends: "builder_round T argv networkName b = Some (False, handed, d) \<Longrightarrow> \<not> bu_building d"
  by (auto simp: builder_round_def Let_def split: prod.splits if_splits dest: produce_ends)

lemma meanwhile_events: "n_events (bu_node (meanwhile T b)) = Suc (n_events (bu_node b))"
  by (simp add: meanwhile_def upd_node_def bu_node_def Let_def)

text \<open>
  C30. The thread ends when it is told to: if from some moment on \<open>stop\<close> has been called, and no
  round fails to come back, then the loop returns, whatever the chain, the peers and the other
  threads do.
\<close>

theorem builder_stops:
  assumes "\<forall>n \<ge> N. ot_halt T n"
    and "\<forall>blocks c c'. builder_runs T argv networkName b blocks c \<and> is_building T c = (True, c') \<longrightarrow>
           builder_round T argv networkName (meanwhile T c') \<noteq> None"
  shows "\<exists>d. builder_loop T argv networkName b = Some d \<and> \<not> bu_building d"
proof -
  have "\<exists>d. builder_loop T argv networkName c = Some d \<and> \<not> bu_building d"
    if "builder_runs T argv networkName b blocks c" for blocks c
    using that
  proof (induction "N - n_events (bu_node c)" arbitrary: blocks c rule: less_induct)
    case less
    obtain r c' where c': "is_building T c = (r, c')" by fastforce
    note s = building_steps [OF c']
    show ?case
    proof (cases r)
      case False
      then show ?thesis using s(2) by (subst builder_loop.simps) (simp add: c')
    next
      case True
      then have r: "is_building T c = (True, c')" using c' by simp
      obtain goes_on handed d where d: "builder_round T argv networkName (meanwhile T c') = Some (goes_on, handed, d)"
        using assms(2) less.prems r by (metis not_None_eq prod_cases3)
      have run: "builder_runs T argv networkName b (blocks @ (case handed of None \<Rightarrow> [] | Some blk \<Rightarrow> [blk])) d"
        by (rule rounds [OF less.prems r d])
      have "n_events (bu_node c) < n_events (bu_node d)" using round_numbers [OF d] s(1) by (simp add: moved_on_def meanwhile_events)
      moreover have "n_events (bu_node c) < N" using s(3) [OF True] assms(1) not_le by blast
      ultimately have "\<exists>e. builder_loop T argv networkName d = Some e \<and> \<not> bu_building e"
        by (intro less.hyps [OF _ run]) simp
      then show ?thesis using round_ends d by (subst builder_loop.simps) (cases goes_on; auto simp: r)
    qed
  qed
  then show ?thesis using starts by blast
qed

end
