(* ===== verification/CarryForwardFacts.thy ===== *)
theory CarryForwardFacts
  imports CarryForward ClockFree
begin

text \<open>
  Carry-forward records: how the balance they claim relates to the balance the ledger
  computes for the same checkpoint, that a queued record satisfies the rule of the chain
  validator, and that at most one record of an account and period is queued.
\<close>

section \<open>The claimed balance\<close>

text \<open>
  The rewards a key earned by carry-forward records along a chain: one for every record that
  is well formed and the first of its account and period.
\<close>

fun rewards :: "string \<Rightarrow> string set \<Rightarrow> (block_structure \<times> record_structure) list \<Rightarrow> nat" where
  "rewards key seen [] = 0"
| "rewards key seen ((b, r) # brs) =
     (if basic_carry_forward r (b_number b) \<and> carryForwardKey r \<noteq> [] \<and> carryForwardKey r \<notin> seen
      then (if r_sender r = key then 1 else 0) + rewards key (insert (carryForwardKey r) seen) brs
      else rewards key seen brs)"

text \<open>
  Records on which the two ways to sum up the balance of a key can only differ by rewards:
  issued amounts between zero and one, and no transfer from the key to itself.
\<close>

definition ordinary :: "string \<Rightarrow> record_structure \<Rightarrow> bool" where
  "ordinary key r \<longleftrightarrow>
     (r_type r = ISSUE_CURRENCY \<longrightarrow> 0 \<le> vd (r_amount r) \<and> vd (r_amount r) \<le> 1) \<and>
     (r_type r = TRANSFER_CURRENCY \<longrightarrow> r_sender r = key \<longrightarrow> r_recipient r \<noteq> key)"

lemma exact_add:
  assumes "dval d = Some x" "on_grid k x" "dval e = Some y" "on_grid k y" "\<bar>x\<bar> + \<bar>y\<bar> \<le> grid_cap k" "k \<le> 1074"
  shows "dval (dadd d e) = Some (x + y)" "dval (dsub d e) = Some (x - y)" "on_grid k (x + y)" "on_grid k (x - y)"
proof -
  have "\<bar>x + y\<bar> \<le> grid_cap k" "\<bar>x - y\<bar> \<le> grid_cap k" using assms(5) by linarith+
  then show "dval (dadd d e) = Some (x + y)" "dval (dsub d e) = Some (x - y)"
    using assms dadd_exact [of d x e y k] dsub_exact [of d x e y k] by auto
  show "on_grid k (x + y)" "on_grid k (x - y)" using assms by (simp_all add: exact_simps)
qed

definition near :: "nat \<Rightarrow> rat \<Rightarrow> double \<Rightarrow> bool" where
  "near k V d \<longleftrightarrow> (\<exists>x. dval d = Some x \<and> on_grid k x \<and> \<bar>x\<bar> \<le> V)"

lemma near_add:
  assumes "near k V d" and "dval e = Some y" "on_grid k y" and "V + \<bar>y\<bar> \<le> grid_cap k" and "k \<le> 1074"
  shows "near k (V + \<bar>y\<bar>) (dadd d e)" "vd (dadd d e) = vd d + y" "near k (V + \<bar>y\<bar>) (dsub d e)" "vd (dsub d e) = vd d - y"
proof -
  obtain x where x: "dval d = Some x" "on_grid k x" "\<bar>x\<bar> \<le> V" using assms(1) by (auto simp: near_def)
  have "\<bar>x\<bar> + \<bar>y\<bar> \<le> grid_cap k" using x(3) assms(4) by linarith
  note e = exact_add [OF x(1,2) assms(2,3) this assms(5)]
  have "\<bar>x + y\<bar> \<le> V + \<bar>y\<bar>" "\<bar>x - y\<bar> \<le> V + \<bar>y\<bar>" using x(3) by linarith+
  then show "near k (V + \<bar>y\<bar>) (dadd d e)" "vd (dadd d e) = vd d + y" "near k (V + \<bar>y\<bar>) (dsub d e)" "vd (dsub d e) = vd d - y"
    using e x(1) by (simp_all add: near_def)
qed

lemma near_mono: "near k V d \<Longrightarrow> V \<le> W \<Longrightarrow> near k W d"
  unfolding near_def by (meson order_trans)

lemma account_transfer_exact:
  fixes key creator :: string
  assumes d: "near k V d" and r: "grid_record k r" "r_sender r = key \<longrightarrow> r_recipient r \<noteq> key"
    and cap: "V + rec_volume r \<le> grid_cap k" "k \<le> 1074"
  defines "d1 \<equiv> if r_recipient r = key then dadd d (r_amount r) else d"
  defines "d2 \<equiv> if r_sender r = key \<and> r_recipient r \<noteq> key then dsub (dsub d1 (r_amount r)) (r_fee r) else d1"
  defines "d3 \<equiv> if creator = key then dadd d2 (r_fee r) else d2"
  shows "near k (V + rec_volume r) d3 \<and>
    vd d3 = vd d + (if r_recipient r = key then vd (r_amount r) else 0) -
      (if r_sender r = key then vd (r_amount r) + vd (r_fee r) else 0) + (if creator = key then vd (r_fee r) else 0)"
proof -
  obtain a f where a: "dval (r_amount r) = Some a" "on_grid k a" and f: "dval (r_fee r) = Some f" "on_grid k f"
    and v: "rec_volume r = 2 + 2 * \<bar>a\<bar> + 2 * \<bar>f\<bar>" by (rule grid_recordE [OF r(1)])
  have va: "vd (r_amount r) = a" "vd (r_fee r) = f" using a f by simp_all
  have c1: "V + \<bar>a\<bar> \<le> grid_cap k" and c2: "V + \<bar>a\<bar> + \<bar>f\<bar> \<le> grid_cap k" and c3: "V + \<bar>a\<bar> + \<bar>f\<bar> + \<bar>f\<bar> \<le> grid_cap k"
    using cap(1) unfolding v by linarith+
  note na = near_add [OF d a c1 cap(2)]
  have 2: "near k (V + \<bar>a\<bar> + \<bar>f\<bar>) d2 \<and> vd d2 = vd d + (if r_recipient r = key then a else 0) - (if r_sender r = key then a + f else 0)"
  proof (cases "r_sender r = key")
    case True
    have "d2 = dsub (dsub d (r_amount r)) (r_fee r)" using True r(2) by (simp add: d2_def d1_def)
    then show ?thesis using near_add [OF na(3) f c2 cap(2)] na(4) True r(2) by simp
  next
    case False
    have "near k (V + \<bar>a\<bar> + \<bar>f\<bar>) d" by (rule near_mono [OF d]) simp
    moreover have "near k (V + \<bar>a\<bar> + \<bar>f\<bar>) (dadd d (r_amount r))" by (rule near_mono [OF na(1)]) simp
    ultimately show ?thesis using na(2) False by (simp add: d2_def d1_def)
  qed
  have le: "V + \<bar>a\<bar> + \<bar>f\<bar> + \<bar>f\<bar> \<le> V + rec_volume r" "V + \<bar>a\<bar> + \<bar>f\<bar> \<le> V + rec_volume r" unfolding v by linarith+
  show ?thesis
  proof (cases "creator = key")
    case True
    note n = near_add [OF conjunct1 [OF 2] f c3 cap(2)]
    show ?thesis using True n(2) 2 near_mono [OF n(1) le(1)] by (simp add: d3_def va)
  next
    case False
    then show ?thesis using 2 near_mono [OF conjunct1 [OF 2] le(2)] by (simp add: d3_def va)
  qed
qed

lemma account_record_exact:
  assumes d: "near k V d" and r: "grid_record k r" "ordinary key r" and cap: "V + rec_volume r \<le> grid_cap k" "k \<le> 1074"
  shows "\<exists>seen' d'. account_record key b (seen, d) r = (seen', d') \<and> near k (V + rec_volume r) d' \<and>
    vd d' + of_nat (rewards key seen' brs) = vd d + exact_delta key b r + of_nat (rewards key seen ((b, r) # brs))"
proof -
  obtain a f where a: "dval (r_amount r) = Some a" "on_grid k a" and f: "dval (r_fee r) = Some f" "on_grid k f"
    and v: "rec_volume r = 2 + 2 * \<bar>a\<bar> + 2 * \<bar>f\<bar>" by (rule grid_recordE [OF r(1)])
  have va: "vd (r_amount r) = a" "vd (r_fee r) = f" using a f by simp_all
  have same: "near k (V + rec_volume r) d" using near_mono [OF d] v by simp
  consider (issue) "r_type r = ISSUE_CURRENCY" | (transfer) "r_type r = TRANSFER_CURRENCY" | (vote) "r_type r = VOTE"
    | (other) "r_type r \<notin> {ISSUE_CURRENCY, TRANSFER_CURRENCY, VOTE}" by blast
  then show ?thesis
  proof cases
    case issue
    have "V + \<bar>a\<bar> \<le> grid_cap k" using cap(1) v by linarith
    note n = near_add [OF d a this cap(2)]
    have "near k (V + rec_volume r) (dadd d (r_amount r))" by (rule near_mono [OF n(1)]) (simp add: v)
    moreover have "exact_issue r = a" using r(2) issue by (auto simp: ordinary_def exact_issue_def va)
    ultimately show ?thesis
      using same n(2) issue by (simp add: account_record_def exact_delta_def basic_carry_forward_def)
  next
    case transfer
    then have self: "r_sender r = key \<longrightarrow> r_recipient r \<noteq> key" using r(2) by (simp add: ordinary_def)
    show ?thesis
      using account_transfer_exact [OF d r(1) self cap, of "b_creator b"] transfer
      by (simp add: account_record_def exact_delta_def basic_carry_forward_def Let_def)
  next
    case vote
    have c: "V + \<bar>f\<bar> \<le> grid_cap k" "V + \<bar>f\<bar> + \<bar>f\<bar> \<le> grid_cap k" using cap(1) v by linarith+
    note n = near_add [OF d f c(1) cap(2)]
    note n2 = near_add [OF n(3) f c(2) cap(2)]
    have "near k (V + rec_volume r) (dadd d (r_fee r))" "near k (V + rec_volume r) (dsub d (r_fee r))"
      "near k (V + rec_volume r) (dadd (dsub d (r_fee r)) (r_fee r))"
      by (rule near_mono [OF n(1)], simp add: v, rule near_mono [OF n(3)], simp add: v, rule near_mono [OF n2(1)], simp add: v)
    then show ?thesis
      using same n n2(2) vote by (simp add: account_record_def exact_delta_def basic_carry_forward_def Let_def va)
  next
    case other
    have "V + \<bar>1\<bar> \<le> grid_cap k" using cap(1) v by simp
    from near_add [OF d _ _ this cap(2), of CARRY_FORWARD_REWARD]
    have "near k (V + 1) (dadd d CARRY_FORWARD_REWARD)" "vd (dadd d CARRY_FORWARD_REWARD) = vd d + 1"
      by (simp_all add: CARRY_FORWARD_REWARD_def exact_simps)
    then have "near k (V + rec_volume r) (dadd d CARRY_FORWARD_REWARD)" "vd (dadd d CARRY_FORWARD_REWARD) = vd d + 1"
      using near_mono v by auto
    then show ?thesis
      using same other by (simp add: account_record_def exact_delta_def Let_def)
  qed
qed

lemma account_records_exact:
  assumes "near k V d" and "\<forall>br \<in> set brs. grid_record k (snd br) \<and> ordinary key (snd br)"
    and "V + volume brs \<le> grid_cap k" and "k \<le> 1074"
  shows "\<exists>seen' d'. foldl (\<lambda>s (b, r). account_record key b s r) (seen, d) brs = (seen', d') \<and> near k (V + volume brs) d' \<and>
    vd d' = vd d + (\<Sum>(b, r)\<leftarrow>brs. exact_delta key b r) + of_nat (rewards key seen brs)"
  using assms
proof (induction brs arbitrary: V seen d)
  case Nil
  then show ?case by (simp add: volume_def)
next
  case (Cons br brs)
  obtain b r where br: "br = (b, r)" by fastforce
  have vol: "volume (br # brs) = rec_volume r + volume brs" by (simp add: volume_def br)
  then have cap: "V + rec_volume r \<le> grid_cap k" using Cons.prems(3) volume_nonneg [of brs] by linarith
  obtain seen1 d1 where s: "account_record key b (seen, d) r = (seen1, d1)" "near k (V + rec_volume r) d1"
    "vd d1 + of_nat (rewards key seen1 brs) = vd d + exact_delta key b r + of_nat (rewards key seen ((b, r) # brs))"
    using account_record_exact [OF Cons.prems(1) _ _ cap Cons.prems(4), of key b seen brs] Cons.prems(2) by (auto simp: br)
  have "V + rec_volume r + volume brs \<le> grid_cap k" using Cons.prems(3) vol by linarith
  from Cons.IH [OF s(2) _ this Cons.prems(4), of seen1] Cons.prems(2)
  obtain seen2 d2 where "foldl (\<lambda>s (b, r). account_record key b s r) (seen1, d1) brs = (seen2, d2)"
    "near k (V + rec_volume r + volume brs) d2"
    "vd d2 = vd d1 + (\<Sum>(b, r)\<leftarrow>brs. exact_delta key b r) + of_nat (rewards key seen1 brs)" by auto
  then show ?case using s(1,3) by (simp add: br vol [unfolded br] add.assoc algebra_simps del: rewards.simps)
qed

lemma effective_distinct:
  "distinct (map (r_hash \<circ> snd) brs) \<Longrightarrow> \<forall>br \<in> set brs. r_hash (snd br) \<noteq> [] \<and> r_hash (snd br) \<notin> seen \<Longrightarrow> effective seen brs = brs"
proof (induction brs arbitrary: seen)
  case (Cons br brs)
  obtain b r where br: "br = (b, r)" by fastforce
  have "effective (insert (r_hash r) seen) brs = brs"
    using Cons.prems by (intro Cons.IH) (auto simp: br, metis comp_apply image_eqI snd_conv)
  then show ?case using Cons.prems by (simp add: br)
qed simp

text \<open>A chain up to a checkpoint on which both sums are exact and count the same records.\<close>

definition ordinary_chain :: "nat \<Rightarrow> string \<Rightarrow> (block_structure \<times> record_structure) list \<Rightarrow> bool" where
  "ordinary_chain k key brs \<longleftrightarrow>
     k \<le> 1074 \<and> (\<forall>br \<in> set brs. grid_record k (snd br) \<and> ordinary key (snd br) \<and> r_hash (snd br) \<noteq> []) \<and>
     distinct (map (r_hash \<circ> snd) brs) \<and> volume brs \<le> grid_cap k"

lemma ledger_value:
  assumes "ordinary_chain k key (chain_records (checkpoint_chain E db cp))" and "key \<noteq> []"
  shows "near k (volume (chain_records (checkpoint_chain E db cp))) (balanceAtBlock E db key cp)"
    and "vd (balanceAtBlock E db key cp) = (\<Sum>(b, r)\<leftarrow>chain_records (checkpoint_chain E db cp). exact_delta key b r)"
proof -
  let ?brs = "chain_records (checkpoint_chain E db cp)"
  have eff: "effective {} ?brs = ?brs" using assms(1) by (intro effective_distinct) (auto simp: ordinary_chain_def)
  obtain W bal S where f: "foldl (\<lambda>s (b, r). checkpoint_record b s r) ({}, [], DFin 0) ?brs = (W, bal, S)"
    and m: "money k (volume ?brs) bal" and v: "vd (sm_at (DFin 0) bal key) = (\<Sum>(b, r)\<leftarrow>?brs. exact_delta key b r)"
    using checkpoint_exact [OF money_Nil _ _ _ assms(2), of ?brs k "{}" "DFin 0"] assms(1)
    by (auto simp: eff smap_simps ordinary_chain_def)
  have "balanceAtBlock E db key cp = sm_at (DFin 0) bal key"
    using assms(2) f by (simp add: balanceAtBlock_def balancesThroughBlock_fold)
  then show "near k (volume ?brs) (balanceAtBlock E db key cp)"
      "vd (balanceAtBlock E db key cp) = (\<Sum>(b, r)\<leftarrow>?brs. exact_delta key b r)"
    using v money_at [OF m, of key] money_at_le [OF m, of key] by (auto simp: near_def)
qed

lemma account_value:
  assumes "ordinary_chain k key (chain_records (checkpoint_chain E db cp))" and "key \<noteq> []" and "getFirstBlockId db \<le> cp"
  shows "near k (volume (chain_records (checkpoint_chain E db cp))) (accountBalanceAtBlock E db key cp)"
    and "vd (accountBalanceAtBlock E db key cp) =
      (\<Sum>(b, r)\<leftarrow>chain_records (checkpoint_chain E db cp). exact_delta key b r) +
      of_nat (rewards key {} (chain_records (checkpoint_chain E db cp)))"
proof -
  let ?brs = "chain_records (checkpoint_chain E db cp)"
  have "near k 0 (DFin 0)" by (simp add: near_def exact_simps)
  from account_records_exact [OF this, of ?brs key "{}"] assms(1)
  obtain seen d where a: "foldl (\<lambda>s (b, r). account_record key b s r) ({}, DFin 0) ?brs = (seen, d)" "near k (volume ?brs) d"
    "vd d = (\<Sum>(b, r)\<leftarrow>?brs. exact_delta key b r) + of_nat (rewards key {} ?brs)" by (auto simp: ordinary_chain_def)
  have "accountBalanceAtBlock E db key cp = d"
  proof (cases "getFirstBlockId db < 0 \<or> getLatestBlockId db < 0")
    case True
    then have "?brs = []" by (auto simp: checkpoint_chain_def chain_records_def)
    then show ?thesis using True a(1) by (auto simp: accountBalanceAtBlock_def)
  next
    case False
    then show ?thesis using a(1) assms(2,3) by (simp add: accountBalanceAtBlock_def fold_chain_records checkpoint_chain_def)
  qed
  then show "near k (volume ?brs) (accountBalanceAtBlock E db key cp)"
    "vd (accountBalanceAtBlock E db key cp) = (\<Sum>(b, r)\<leftarrow>?brs. exact_delta key b r) + of_nat (rewards key {} ?brs)"
    using a(2,3) by simp_all
qed

lemma near_dval: "near k V d \<Longrightarrow> dval d = Some (vd d)"
  by (auto simp: near_def)

lemma rewards_le: "of_nat (rewards key seen brs) \<le> volume brs"
proof (induction brs arbitrary: seen)
  case (Cons br brs)
  obtain b r where br: "br = (b, r)" by fastforce
  have "volume (br # brs) = rec_volume r + volume brs" by (simp add: volume_def br)
  then show ?case using Cons [of seen] Cons [of "insert (carryForwardKey r) seen"] rec_volume_ge [of r] by (simp add: br)
qed (simp add: volume_def)

text \<open>
  C19. The balance a carry-forward record claims and the balance the ledger checks it against
  are not computed alike: on an ordinary chain up to the checkpoint (amounts on the grid,
  distinct record hashes, issued amounts between zero and one, no transfer of the account to
  itself) the claimed balance is the balance of the ledger plus one for every carry-forward
  reward the account has earned so far.
\<close>

theorem claimed_balance:
  assumes "ordinary_chain k key (chain_records (checkpoint_chain E db cp))" and "key \<noteq> []" and "getFirstBlockId db \<le> cp"
  shows "\<exists>x. dval (balanceAtBlock E db key cp) = Some x \<and>
    dval (accountBalanceAtBlock E db key cp) = Some (x + of_nat (rewards key {} (chain_records (checkpoint_chain E db cp))))"
  using near_dval [OF ledger_value(1) [OF assms(1,2)]] near_dval [OF account_value(1) [OF assms]]
    ledger_value(2) [OF assms(1,2)] account_value(2) [OF assms] by simp

text \<open>
  C20. Therefore the two checks part as soon as a reward lies below the checkpoint: on such a chain,
  if a block up to the checkpoint holds a reward of the account, then a record that claims the
  balance \<open>queueCarryForwardIfDue\<close> computes for that checkpoint passes the check of \<open>carryforward.cpp\<close>
  and fails the one of \<open>LedgerState::build\<close>, so the ledger ignores it. (A claim whose checkpoint
  precedes the account's first reward, as the second claim usually does, is not concerned.)
\<close>

theorem second_carry_forward_ignored:
  assumes "ordinary_chain k key (chain_records (checkpoint_chain E db cp))" and "key \<noteq> []" and "getFirstBlockId db \<le> cp"
    and "0 \<le> cp" and "0 < rewards key {} (chain_records (checkpoint_chain E db cp))"
    and "r_recipient r = key" and "parseCarryForwardValueLong (r_value r) ''checkpoint'' = cp"
    and "r_amount r = accountBalanceAtBlock E db key cp"
  shows "snapshotMatches E db r \<and> \<not> carryForwardSnapshotMatches E db r"
proof -
  let ?brs = "chain_records (checkpoint_chain E db cp)" and ?n = "of_nat (rewards key {} (chain_records (checkpoint_chain E db cp))) :: rat"
  have k: "k \<le> 1074" and cap: "volume ?brs \<le> grid_cap k" using assms(1) by (simp_all add: ordinary_chain_def)
  obtain x where x: "dval (balanceAtBlock E db key cp) = Some x" "on_grid k x"
    using ledger_value(1) [OF assms(1,2)] by (auto simp: near_def)
  obtain y where y: "dval (r_amount r) = Some y" "on_grid k y" using account_value(1) [OF assms(1-3)] assms(8) by (auto simp: near_def)
  have xy: "y = x + ?n" using x(1) y(1) ledger_value(2) [OF assms(1,2)] account_value(2) [OF assms(1-3)] assms(8) by simp
  obtain e where e: "EPS = DFin e" "1 / 2 ^ 20 < e" "e < 1 / 2 ^ 19" using EPS_small by blast
  have de: "dval EPS = Some e" unfolding e(1) by simp
  have n: "1 \<le> ?n" "?n \<le> grid_cap k" using assms(5) rewards_le [of key "{}" ?brs] cap by simp_all
  have "dval (dsub (balanceAtBlock E db key cp) (r_amount r)) = Some (- ?n)"
    using dsub_exact [OF x(1) y(1) x(2) y(2) _ k] n xy by simp
  then have "\<not> dlt (dabs (dsub (balanceAtBlock E db key cp) (r_amount r))) EPS"
    using e(3) n(1) dlt_val [of "dabs (dsub (balanceAtBlock E db key cp) (r_amount r))" "?n" EPS e] de by simp
  moreover have "dval (dsub (accountBalanceAtBlock E db key cp) (r_amount r)) = Some 0"
    using dsub_exact [OF y(1) y(1) y(2) y(2) _ k] n by (simp add: assms(8))
  ultimately show ?thesis
    using assms(2,4,6,7) e(2) de dlt_val [of "dsub (accountBalanceAtBlock E db key cp) (r_amount r)" 0]
    by (simp add: snapshotMatches_def carryForwardSnapshotMatches_def Let_def balanceAtBlock_def)
qed

section \<open>Reading does not depend on the clock\<close>

lemma later_exists: "recordExistsInAcceptedChain (later E t off) db h = recordExistsInAcceptedChain E db h"
  by (simp add: recordExistsInAcceptedChain_def later_next later_getBlock)

lemma later_size: "isRecordSizeValid (later E t off) r = isRecordSizeValid E r"
  by (simp add: isRecordSizeValid_def recordSizeError_def recordJSON_def record_fields_def)

lemma later_pending: "r_type r \<noteq> HEART_BEAT \<Longrightarrow> still_pending (later E t off) db r = still_pending E db r"
  by (simp add: still_pending_def pendingRecordLooksUsable_def isExpiredHeartbeatRecord_def later_exists later_size)

lemma later_connected: "getConnectedLatestBlockId (later E t off) db = getConnectedLatestBlockId E db"
  by (simp add: getConnectedLatestBlockId_def later_next later_getBlock Let_def)

section \<open>At most one record of a period is queued\<close>

lemma connected_chain_part:
  "fst (getConnectedLatestBlockId E (Some (chain_part d))) = fst (getConnectedLatestBlockId E (Some d))"
  by (simp add: getConnectedLatestBlockId_def ids_chain_part next_chain_part block_chain_part Let_def)

lemma connected_snd:
  "0 \<le> getFirstBlockId (Some d) \<Longrightarrow> snd (getConnectedLatestBlockId E (Some d)) =
     Some (sm_put (chainMetaKey ''connected_latest'') (show_long (fst (getConnectedLatestBlockId E (Some d)))) d)"
  by (simp add: getConnectedLatestBlockId_def Let_def db_put_def)

text \<open>Noting the tip leaves the queue as it is.\<close>

lemma mempool_note:
  fixes d :: kvdb and v :: string
  assumes "mempool_ok E d"
  defines "d' \<equiv> sm_put (chainMetaKey ''connected_latest'') v d"
  shows "chain_part d' = chain_part d" "nextMempoolSequence d' = nextMempoolSequence d"
    "mempool_records E d' = mempool_records E d" "mempool_ok E d'"
proof -
  let ?k = "chainMetaKey ''connected_latest''"
  show c: "chain_part d' = chain_part d" unfolding d'_def by (rule chain_part_put) (simp add: queue_key_def)
  have neq: "?k \<noteq> MEMPOOL_SEQUENCE_KEY" "\<not> starts_with ?k MEMPOOL_RECORD_PREFIX" "?k \<noteq> MEMPOOL_HASH_PREFIX @ h" for h
    by (simp_all add: chainMetaKey_def MEMPOOL_SEQUENCE_KEY_def MEMPOOL_RECORD_PREFIX_def MEMPOOL_HASH_PREFIX_def)
  have get: "x \<noteq> ?k \<Longrightarrow> sm_get d' x = sm_get d x" for x by (simp add: d'_def smap_simps)
  show n: "nextMempoolSequence d' = nextMempoolSequence d" using get [OF neq(1) [symmetric]] by (simp add: nextMempoolSequence_def)
  have inv: "sm_inv d" "sm_inv d'" using assms(1) by (simp_all add: mempool_ok_def d'_def smap_simps)
  have rec: "starts_with x MEMPOOL_RECORD_PREFIX \<Longrightarrow> sm_get d' x = sm_get d x" for x using get [of x] neq(2) by (cases "x = ?k") auto
  have keys: "keys_with_prefix d' MEMPOOL_RECORD_PREFIX = keys_with_prefix d MEMPOOL_RECORD_PREFIX"
  proof (rule strict_sorted_equal)
    show "sorted_wrt (<) (keys_with_prefix d MEMPOOL_RECORD_PREFIX)" "sorted_wrt (<) (keys_with_prefix d' MEMPOOL_RECORD_PREFIX)"
      using keys_with_prefix_sorted inv by blast+
    show "set (keys_with_prefix d' MEMPOOL_RECORD_PREFIX) = set (keys_with_prefix d MEMPOOL_RECORD_PREFIX)"
      unfolding keys_with_prefix_set [OF inv(1)] keys_with_prefix_set [OF inv(2)] using rec by auto
  qed
  have same: "db_text d' k = db_text d k" if "k \<in> set (keys_with_prefix d MEMPOOL_RECORD_PREFIX)" for k
    using that rec [of k] by (simp add: keys_with_prefix_set [OF inv(1)] db_text_def)
  then show r: "mempool_records E d' = mempool_records E d" by (simp add: mempool_records_def keys cong: map_cong)
  have "queueable E (Some d') = queueable E (Some d)" by (rule ext) (simp add: queueable_def same_chain_pending [OF c])
  then have "mempool_entry E d' k \<longleftrightarrow> mempool_entry E d k" if "k \<in> set (keys_with_prefix d MEMPOOL_RECORD_PREFIX)" for k
    by (simp only: mempool_entry_def n same [OF that])
  moreover have "sm_get d' (MEMPOOL_HASH_PREFIX @ h) = sm_get d (MEMPOOL_HASH_PREFIX @ h)" for h
    using get [OF neq(3) [symmetric]] .
  ultimately show "mempool_ok E d'" using assms(1) inv(2) unfolding mempool_ok_def keys r by simp
qed

lemma peek_member:
  assumes "mempool_ok E d" and "r \<in> set (mempool_records E d)" and "still_pending (later E t off) (Some d) r"
  shows "r \<in> set (fst (peekQueueRecords (later E t off) (Some d, [])))"
proof -
  let ?rs = "filter (still_pending (later E t off) (Some d)) (mempool_records E d)"
  have "fst (databaseMempoolRecords (later E t off) (Some d)) = ?rs"
    by (simp add: databaseMempoolRecords_def Let_def mempool_records_def later_record comp_def)
  moreover have "dedupePendingRecords ?rs = ?rs"
    unfolding dedupePendingRecords_def using assms(1) mempool_records_queueable [OF assms(1)]
    by (intro dedupe_distinct) (auto simp: mempool_ok_def distinct_map_filter queueable_def)
  ultimately show ?thesis
    using assms(2,3) by (cases "databaseMempoolRecords (later E t off) (Some d)") (simp add: peekQueueRecords_def)
qed

text \<open>What is known when a record was queued.\<close>

lemma queued_record:
  assumes "mempool_ok E d" and "queueCarryForwardIfDue E sign privateKey publicKey (Some d, []) = (Some r, q')"
  obtains v where "0 \<le> getFirstBlockId (Some d)"
    "getFirstBlockId (Some d) \<le> fst (getConnectedLatestBlockId E (Some d)) - 172800"
    "r = carry_forward_record E sign publicKey (fst (getConnectedLatestBlockId E (Some d)) - 172800)
       (cdiv (fst (getConnectedLatestBlockId E (Some d)) - 172800) 172800)
       (accountBalanceAtBlock E (Some (sm_put (chainMetaKey ''connected_latest'') v d)) publicKey
         (fst (getConnectedLatestBlockId E (Some d)) - 172800))"
    "q' = enqueue E r (Some (sm_put (chainMetaKey ''connected_latest'') v d), [])"
    "publicKey \<noteq> []"
proof -
  define n where "n = fst (getConnectedLatestBlockId E (Some d))"
  define d1 where "d1 = sm_put (chainMetaKey ''connected_latest'') (show_long n) d"
  have first: "0 \<le> getFirstBlockId (Some d)"
    using assms(2) by (auto simp: queueCarryForwardIfDue_def Let_def split: prod.splits if_splits)
  then have con: "getConnectedLatestBlockId E (Some d) = (n, Some d1)"
    using connected_snd [OF first, of E] by (cases "getConnectedLatestBlockId E (Some d)") (simp add: n_def d1_def)
  have age: "carryForwardCheckpointAgeBlocks c = 172800" "carryForwardPeriodBlocks c = 172800" for c
    by (simp_all add: carryForwardCheckpointAgeBlocks_def carryForwardPeriodBlocks_def)
  note ok = mempool_note(4) [OF assms(1), of "show_long n", folded d1_def]
  have pend: "\<exists>x. pendingCarryForwardExists E publicKey p (Some d1, []) = (x, (Some d1, []))" for p
    using peek_database [OF ok] by (simp add: pendingCarryForwardExists_def)
  let ?p = "cdiv (n - 172800) 172800"
  obtain x where x: "pendingCarryForwardExists E publicKey ?p (Some d1, []) = (x, (Some d1, []))" using pend by blast
  have guards: "publicKey \<noteq> []" "getFirstBlockId (Some d) \<le> n - 172800" "\<not> x"
    and add: "(case addToQueue E (carry_forward_record E sign publicKey (n - 172800) ?p (accountBalanceAtBlock E (Some d1) publicKey (n - 172800)))
        (Some d1, []) of (added, q) \<Rightarrow>
          (if added \<noteq> 0 then Some (carry_forward_record E sign publicKey (n - 172800) ?p (accountBalanceAtBlock E (Some d1) publicKey (n - 172800)))
           else None, q)) = (Some r, q')"
    using assms(2) by (auto simp: queueCarryForwardIfDue_def con age x Let_def split: if_splits bool.splits)
  show ?thesis
  proof (rule that [of "show_long n"])
    show "r = carry_forward_record E sign publicKey (fst (getConnectedLatestBlockId E (Some d)) - 172800)
       (cdiv (fst (getConnectedLatestBlockId E (Some d)) - 172800) 172800)
       (accountBalanceAtBlock E (Some (sm_put (chainMetaKey ''connected_latest'') (show_long n) d)) publicKey
         (fst (getConnectedLatestBlockId E (Some d)) - 172800))"
      using add by (auto simp: n_def [symmetric] d1_def split: prod.splits if_splits)
    show "q' = enqueue E r (Some (sm_put (chainMetaKey ''connected_latest'') (show_long n) d), [])"
      using add by (auto simp: enqueue_def d1_def split: prod.splits if_splits)
  qed (use first guards in \<open>simp_all add: n_def\<close>)
qed

lemma carry_forward_fields [simp]:
  "r_type (carry_forward_record E sign key c p x) = CARRY_FORWARD" "r_sender (carry_forward_record E sign key c p x) = key"
  "r_recipient (carry_forward_record E sign key c p x) = key" "r_amount (carry_forward_record E sign key c p x) = x"
  "r_value (carry_forward_record E sign key c p x) = carryForwardValue c p"
  by (simp_all add: carry_forward_record_def Let_def)

lemma cdiv_in_long: "0 \<le> n \<Longrightarrow> in_long n \<Longrightarrow> 0 < p \<Longrightarrow> 0 \<le> cdiv n p \<and> in_long (cdiv n p)"
proof -
  assume a: "0 \<le> n" "in_long n" "0 < p"
  then have "n div p \<le> n" using zdiv_mono2 [of n 1 p] by simp
  moreover have "0 \<le> n div p" using a by (simp add: pos_imp_zdiv_nonneg_iff)
  ultimately show ?thesis using a by (auto simp: cdiv_nonneg in_long_def LONG_MIN_def)
qed

text \<open>
  While the record waits in a well-formed queue and the chain is the same, no call of
  \<open>queueCarryForwardIfDue\<close> for the account queues another one, at whatever time.
\<close>

lemma no_second_record:
  assumes ok: "mempool_ok E d'" and part: "chain_part d' = chain_part d" and wait: "r \<in> set (mempool_records E d')"
    and fits: "queueable E (Some d) r" and first: "0 \<le> getFirstBlockId (Some d)"
    and n: "n = fst (getConnectedLatestBlockId E (Some d))" "in_long n" "getFirstBlockId (Some d) \<le> n - 172800"
    and r: "r_type r = CARRY_FORWARD" "r_recipient r = publicKey" "r_value r = carryForwardValue (n - 172800) (cdiv (n - 172800) 172800)"
  shows "fst (queueCarryForwardIfDue (later E t off) sign privateKey publicKey (Some d', [])) = None"
proof -
  have con: "fst (getConnectedLatestBlockId (later E t off) (Some d')) = n" "getFirstBlockId (Some d') = getFirstBlockId (Some d)"
    using connected_chain_part [of E d'] connected_chain_part [of E d] ids_chain_part(1) [of d'] ids_chain_part(1) [of d]
    by (simp_all add: part later_connected n(1))
  define d3 where "d3 = sm_put (chainMetaKey ''connected_latest'') (show_long n) d'"
  note note3 = mempool_note [OF ok, of "show_long n", folded d3_def]
  have con3: "getConnectedLatestBlockId (later E t off) (Some d') = (n, Some d3)"
    using connected_snd [of d' "later E t off"] first con
    by (cases "getConnectedLatestBlockId (later E t off) (Some d')") (simp add: d3_def)
  have "still_pending (later E t off) (Some d3) r"
    using fits part note3(1) same_chain_pending [of d3 d E] by (simp add: later_pending r(1) queueable_def)
  then have "r \<in> set (fst (peekQueueRecords (later E t off) (Some d3, [])))" using peek_member [OF note3(4)] note3(3) wait by simp
  moreover have "parseCarryForwardValueLong (r_value r) ''period'' = cdiv (n - 172800) 172800"
  proof -
    have "in_long (n - 172800)" "0 \<le> n - 172800" using n(2,3) first by (auto simp: in_long_def LONG_MIN_def)
    then show ?thesis using carry_forward_value(2) cdiv_in_long [of "n - 172800" 172800] by (simp add: r(3))
  qed
  ultimately have "fst (pendingCarryForwardExists (later E t off) publicKey (cdiv (n - 172800) 172800) (Some d3, []))"
    using r(1,2) by (auto simp: pendingCarryForwardExists_def split: prod.splits)
  then show ?thesis
    by (auto simp: queueCarryForwardIfDue_def con3 Let_def carryForwardCheckpointAgeBlocks_def
        carryForwardPeriodBlocks_def split: prod.splits bool.splits)
qed

text \<open>
  C21. At most one carry-forward record of an account and period waits in the queue: when
  \<open>queueCarryForwardIfDue\<close> has queued a record with a new hash in a well-formed queue, the record is
  offered after those that waited before; and as long as it still waits and the chain is the
  same, whatever else was queued or taken out since and whatever the time, a call for the same
  account queues nothing. (Once the record was taken out for a block that is not accepted, or once
  the chain has grown into the next period, another one may be queued.)
\<close>

theorem carry_forward_queued_once:
  assumes "mempool_ok E d" and "nextMempoolSequence d < LONG_MAX" and "in_long (fst (getConnectedLatestBlockId E (Some d)))"
    and "queueCarryForwardIfDue E sign privateKey publicKey (Some d, []) = (Some r, q')"
    and "queueable E (Some d) r" and "r_hash r \<notin> r_hash ` set (pending E (Some d, []))"
  shows "pending E q' = pending E (Some d, []) @ [r] \<and>
    (\<forall>d' t off. mempool_ok E d' \<and> chain_part d' = chain_part d \<and> r \<in> set (pending E (Some d', [])) \<longrightarrow>
       fst (queueCarryForwardIfDue (E\<lparr>e_local_epoch := t, e_time_offset := off\<rparr>) sign' privateKey' publicKey (Some d', [])) = None)"
proof -
  define n where "n = fst (getConnectedLatestBlockId E (Some d))"
  obtain v where q: "0 \<le> getFirstBlockId (Some d)" "getFirstBlockId (Some d) \<le> n - 172800"
    "r = carry_forward_record E sign publicKey (n - 172800) (cdiv (n - 172800) 172800)
       (accountBalanceAtBlock E (Some (sm_put (chainMetaKey ''connected_latest'') v d)) publicKey (n - 172800))"
    "q' = enqueue E r (Some (sm_put (chainMetaKey ''connected_latest'') v d), [])" "publicKey \<noteq> []"
    unfolding n_def by (rule queued_record [OF assms(1,4)])
  define d1 where "d1 = sm_put (chainMetaKey ''connected_latest'') v d"
  note note1 = mempool_note [OF assms(1), of v, folded d1_def]
  have fits: "queueable E (Some d1) r" using assms(5) by (simp add: queueable_def same_chain_pending [OF note1(1)])
  have p: "pending E (Some d, []) = mempool_records E d" using peek_database [OF assms(1)] by (simp add: pending_def)
  then have new: "r_hash r \<notin> r_hash ` set (mempool_records E d1)" using assms(6) note1(3) by simp
  have next1: "nextMempoolSequence d1 < LONG_MAX" using note1(2) assms(2) by simp
  have q': "q' = (Some (mempool_added E r d1), [])"
    using add_database [OF note1(4) fits] new by (simp add: q(4) d1_def [symmetric] enqueue_def)
  have "pending E q' = pending E (Some d, []) @ [r]"
    using peek_database [OF mempool_added_ok [OF note1(4) next1 fits new]] mempool_added_records [OF note1(4) next1] fits note1(3) p
    by (simp add: q' pending_def queueable_def)
  moreover have "fst (queueCarryForwardIfDue (later E t off) sign' privateKey' publicKey (Some d', [])) = None"
    if d': "mempool_ok E d'" "chain_part d' = chain_part d" "r \<in> set (pending E (Some d', []))" for d' t off
  proof (rule no_second_record [OF d'(1,2) _ assms(5) q(1) n_def _ q(2)])
    show "r \<in> set (mempool_records E d')" using d'(3) peek_database [OF d'(1)] by (simp add: pending_def)
  qed (use assms(3) q(3) in \<open>simp_all add: n_def\<close>)
  ultimately show ?thesis by blast
qed

text \<open>
  What is queued can be included in a block: the record names the account as sender and
  recipient, its hash is the hash of its content, and the rule of the chain validator for
  carry-forward records accepts it in every block after the checkpoint, which lies before the
  tip, unless its amount is negative; it earns the reward when the account had none in the
  period.
\<close>

theorem carry_forward_valid:
  assumes "mempool_ok E d" and "in_long (fst (getConnectedLatestBlockId E (Some d)))"
    and "queueCarryForwardIfDue E sign privateKey publicKey (Some d, []) = (Some r, q')"
    and "fst (getConnectedLatestBlockId E (Some d)) \<le> b_number b" and "\<not> dlt (r_amount r) (DFin 0)"
  shows "carryForwardKey r = publicKey @ '':'' @ show_long (cdiv (fst (getConnectedLatestBlockId E (Some d)) - 172800) 172800) \<and>
    branch_rules isGenesis b s r =
      (if carryForwardKey r \<in> br_cf_keys s then Inr s
       else Inr (s\<lparr>br_cf_keys := insert (carryForwardKey r) (br_cf_keys s),
                   br_balances := credit publicKey CARRY_FORWARD_REWARD (br_balances s)\<rparr>))"
proof -
  define n where "n = fst (getConnectedLatestBlockId E (Some d))"
  obtain v where q: "0 \<le> getFirstBlockId (Some d)" "getFirstBlockId (Some d) \<le> n - 172800"
    "r = carry_forward_record E sign publicKey (n - 172800) (cdiv (n - 172800) 172800)
       (accountBalanceAtBlock E (Some (sm_put (chainMetaKey ''connected_latest'') v d)) publicKey (n - 172800))"
    "publicKey \<noteq> []"
    unfolding n_def by (rule queued_record [OF assms(1,3)])
  have c: "in_long (n - 172800)" "0 \<le> n - 172800" using assms(2) q(1,2) by (auto simp: in_long_def LONG_MIN_def n_def)
  note p = cdiv_in_long [OF c(2,1), of 172800]
  have "parseCarryForwardValueLong (r_value r) ''checkpoint'' = n - 172800"
    "parseCarryForwardValueLong (r_value r) ''period'' = cdiv (n - 172800) 172800"
    using carry_forward_value c p by (simp_all add: q(3))
  moreover have "r_type r = CARRY_FORWARD" "r_sender r = publicKey" "r_recipient r = publicKey" by (simp_all add: q(3))
  ultimately show ?thesis
    using assms(4,5) q(4) p c by (simp add: branch_rules_def branch_carry_forward_def carryForwardKey_def n_def Let_def)
qed

end
