(* ===== verification/LedgerCache.thy ===== *)
theory LedgerCache
  imports IndexWalk
begin

text \<open>
  The cache of ledger states is never stale. \<open>CLedgerState::build\<close> keeps computed states under a key
  made of the wallet, the numbers of the first and of the last block to be read, the hash of that last
  block, the block to stop at and the slot of the clock; the store and the clock change between
  two calls. A state found under the key is the state that would be computed: the hash of the last block
  determines the blocks below it, which are all that the computation reads.
\<close>

section \<open>What a walk visits\<close>

fun visit :: "(int \<Rightarrow> bool) \<Rightarrow> int \<Rightarrow> block_structure list \<Rightarrow> block_structure list" where
  "visit past latest [] = []"
| "visit past latest (b # bs) =
     (if past (b_number b) then [] else if b_number b = latest then [b] else b # visit past latest bs)"

lemma walk_visit:
  assumes "indexed E db (b # bs)" and "\<forall>c \<in> set (b # bs). storable E c" and "connected (b # bs)"
    and "latest \<in> b_number ` set (b # bs)" and "guard + int (length bs) < 100000"
  shows "walk_chain (getNextBlock E db) past latest guard b = visit past latest (b # bs)"
  using assms
proof (induction bs arbitrary: b guard)
  case Nil
  then show ?case by (subst walk_chain.simps) (auto simp: storable_def)
next
  case (Cons c bs)
  have nx: "getNextBlock E db b = c" using Cons.prems(1-3) by (auto intro!: entry_next)
  have pos: "0 < b_number b" "0 < b_number c" using Cons.prems(2) by (auto simp: storable_def)
  have "b_number c \<noteq> b_number b" using Cons.prems(3) by (auto simp: childConnectsToParent_def split: if_splits)
  moreover have "walk_chain (getNextBlock E db) past latest (guard + 1) c = visit past latest (c # bs)" if "b_number b \<noteq> latest"
    using Cons.prems that by (intro Cons.IH) auto
  moreover have "guard < 100000" using Cons.prems(5) by simp
  ultimately show ?case using pos nx by (subst walk_chain.simps) (simp add: Let_def)
qed

text \<open>A walk ends in the part of the chain in which its last block lies, or in which it is past its end.\<close>

lemma visit_latest: "latest \<in> b_number ` set p \<Longrightarrow> visit past latest (p @ q) = visit past latest p"
  by (induction p) auto

lemma visit_past:
  assumes "b \<in> set p" and "past (b_number b)" and "latest \<notin> b_number ` set p \<or> latest = b_number (last p)"
    and "distinct (map b_number p)"
  shows "visit past latest (p @ q) = takeWhile (\<lambda>c. \<not> past (b_number c)) p"
  using assms
proof (induction p)
  case (Cons c p)
  show ?case
  proof (cases "past (b_number c)")
    case False
    then have p: "b \<in> set p" using Cons.prems(1,2) by auto
    then have "last (c # p) \<in> set p" by (cases p) auto
    then have "b_number c \<noteq> latest" using Cons.prems(3,4) p by auto
    moreover have "visit past latest (p @ q) = takeWhile (\<lambda>c. \<not> past (b_number c)) p"
      using Cons.IH [OF p Cons.prems(2)] Cons.prems(3,4) p by auto
    ultimately show ?thesis using False by simp
  qed simp
qed simp

section \<open>The chain below a block\<close>

text \<open>A store with an indexed and linked chain; a rebuild of the index leaves one.\<close>

definition holds_chain :: "env \<Rightarrow> dbh \<Rightarrow> block_structure list \<Rightarrow> bool" where
  "holds_chain E db chain \<longleftrightarrow>
     chain \<noteq> [] \<and> indexed E db chain \<and> (\<forall>b \<in> set chain. storable E b) \<and> connected chain \<and> length chain \<le> 100000 \<and>
     getFirstBlockId db = b_number (hd chain) \<and> getLatestBlockId db = b_number (last chain)"

lemma rebuilt_latest:
  assumes "db \<noteq> None" and "in_long (b_number (last chain))"
  shows "getLatestBlockId (rebuild_write E previousTip chain db) = b_number (last chain)"
proof -
  define db1 where "db1 = index_chain E chain (clear_next_keys db)"
  have "db1 \<noteq> None" using assms(1) by (auto simp: db1_def clear_next_keys_def)
  then show ?thesis
    using assms(2) by (simp add: rebuild_write_def Let_def db1_def [symmetric] ids_reorg latest_index_write)
qed

lemma rebuilt_holds:
  assumes "validateConnectedChain E chain = Inr ()" and "\<forall>b \<in> set chain. printable_block E b" and "distinct (map b_hash chain)"
    and "length chain \<le> 100000" and "db \<noteq> None" and "getFirstBlockId db = b_number (hd chain)"
  shows "holds_chain E (rebuild_write E previousTip chain db) chain"
proof -
  have ne: "chain \<noteq> []" using assms(1) by (auto simp: validateConnectedChain_def)
  then have "in_long (b_number (last chain))" using assms(2) by (simp add: printable_block_def plain_block_def)
  then have "getLatestBlockId (rebuild_write E previousTip chain db) = b_number (last chain)" by (rule rebuilt_latest [OF assms(5)])
  moreover have "getFirstBlockId (rebuild_write E previousTip chain db) = b_number (hd chain)"
    using assms(6) by (simp add: rebuild_write_def Let_def ids_reorg ids_checkpoint first_put key_defs first_set_latest
        ids_index_chain ids_index_block ids_clear)
  ultimately show ?thesis
    using ne assms(4) valid_storable [OF assms(1,2)] rebuild_write_indexed [OF assms(5) _ assms(3)] by (simp add: holds_chain_def)
qed

lemma connected_sorted: "connected chain \<Longrightarrow> sorted_wrt (<) (map b_number chain)"
proof (induction chain rule: connected.induct)
  case (1 b c bs)
  then have s: "sorted_wrt (<) (map b_number (c # bs))" and "b_number b < b_number c"
    by (auto simp: childConnectsToParent_def split: if_splits)
  then show ?case by auto
qed simp_all

lemma connected_split: "connected (p @ q) \<Longrightarrow> connected p"
  by (induction p rule: connected.induct) (auto elim: connected.elims)

lemma connected_last:
  "connected (p @ [c]) \<Longrightarrow> p \<noteq> [] \<Longrightarrow> childConnectsToParent c (last p)"
  by (induction p rule: connected.induct) auto

text \<open>
  A block determines the blocks below it, if no two blocks of the chains have the same hash: two
  chains from the same first number that share a block share everything up to it.
\<close>

lemma same_below:
  assumes "connected (p @ [b])" and "connected (p' @ [b])" and "b_number (hd (p @ [b])) = b_number (hd (p' @ [b]))"
    and "\<forall>x \<in> set p. \<forall>y \<in> set p'. b_hash x = b_hash y \<longrightarrow> x = y"
  shows "p = p'"
  using assms
proof (induction p arbitrary: p' b rule: rev_induct)
  case Nil
  have "p' = []"
  proof (rule ccontr)
    assume "p' \<noteq> []"
    then have "b_number (hd (p' @ [b])) < b_number b" using connected_sorted [OF Nil(2)] by (cases p') auto
    then show False using Nil(3) by simp
  qed
  then show ?case by simp
next
  case (snoc a p)
  have "p' \<noteq> []"
  proof
    assume "p' = []"
    then have "b_number (hd ((p @ [a]) @ [b])) = b_number b" using snoc.prems(3) by simp
    moreover have "b_number (hd ((p @ [a]) @ [b])) < b_number b" using connected_sorted [OF snoc.prems(1)] by (cases p) auto
    ultimately show False by simp
  qed
  then obtain p1 a' where p': "p' = p1 @ [a']" by (metis rev_exhaust)
  have "b_previous_hash b = b_hash a" "b_previous_hash b = b_hash a'"
    using connected_last [OF snoc.prems(1)] connected_last [OF snoc.prems(2)] p'
    by (auto simp: childConnectsToParent_def split: if_splits)
  then have "a = a'" using snoc.prems(4) p' by auto
  moreover have "p = p1"
  proof (rule snoc.IH)
    show "connected (p @ [a])" "connected (p1 @ [a])"
      using connected_split snoc.prems(1,2) p' \<open>a = a'\<close> by (metis append_assoc)+
    show "b_number (hd (p @ [a])) = b_number (hd (p1 @ [a]))"
      using snoc.prems(3) p' \<open>a = a'\<close> by (metis append_is_Nil_conv hd_append2 not_Cons_self2)
    show "\<forall>x \<in> set p. \<forall>y \<in> set p1. b_hash x = b_hash y \<longrightarrow> x = y" using snoc.prems(4) p' by auto
  qed
  ultimately show ?case by (simp add: p')
qed

section \<open>The computation reads the chain below its last block\<close>

lemma balances_below:
  assumes "holds_chain E db (p @ q)" and "b \<in> set p" and "cp < b_number b"
  shows "balancesThroughBlock E db cp =
    (if b_number (hd p) < 0 \<or> b_number (last (p @ q)) < 0 \<or> cp < b_number (hd p) then []
     else fst (snd (foldl (\<lambda>s b. foldl (checkpoint_record b) s (b_records b)) ({}, [], DFin 0)
       (takeWhile (\<lambda>c. \<not> cp < b_number c) p))))"
proof -
  obtain c cs where c: "p @ q = c # cs" using assms(2) by (cases p) auto
  have hd: "hd (p @ q) = hd p" using assms(2) by (cases p) auto
  have h: "indexed E db (c # cs)" "\<forall>x \<in> set (c # cs). storable E x" "connected (c # cs)" "int (length cs) < 100000"
    "getFirstBlockId db = b_number c" "getLatestBlockId db = b_number (last (c # cs))"
    using assms(1) unfolding holds_chain_def c by auto
  have first: "getBlock E db (b_number c) = c" using h(1,2) by (auto intro: entry_block)
  have "sorted_wrt (<) (map b_number (p @ q))" using connected_sorted h(3) c by metis
  then have d: "distinct (map b_number p)" "\<forall>x \<in> set p. \<forall>y \<in> set q. b_number x < b_number y"
    using strict_sorted_iff by (auto simp: sorted_wrt_append)
  have "b_number (last (c # cs)) \<notin> b_number ` set p \<or> b_number (last (c # cs)) = b_number (last p)"
  proof (cases "q = []")
    case False
    then have "b_number x < b_number (last q)" if "x \<in> set p" for x using d(2) that by simp
    moreover have "last (c # cs) = last q" using False by (simp flip: c)
    ultimately show ?thesis by (metis imageE less_irrefl)
  qed (simp flip: c)
  then have "visit (\<lambda>n. cp < n) (b_number (last (c # cs))) (p @ q) = takeWhile (\<lambda>x. \<not> cp < b_number x) p"
    using visit_past [of b p "\<lambda>n. cp < n"] assms(2,3) d(1) by blast
  then have "walk_chain (getNextBlock E db) (\<lambda>n. cp < n) (b_number (last (c # cs))) 0 c = takeWhile (\<lambda>x. \<not> cp < b_number x) p"
    using walk_visit [OF h(1,2,3), of "b_number (last (c # cs))" 0] h(4) by (simp add: c)
  moreover have "b_number (hd p) = b_number c" using hd c by simp
  ultimately show ?thesis by (simp add: balancesThroughBlock_def h(5,6) first c)
qed

lemma build_chain_below:
  assumes "holds_chain E db (p @ q)" and "p \<noteq> []" and "ls_latest_id (build_start db stop) = b_number (last p)"
  shows "build_chain E db stop = visit (\<lambda>n. 0 < stop \<and> stop < n) (b_number (last p)) p"
proof -
  obtain c cs where c: "p @ q = c # cs" using assms(2) by (cases p) auto
  have h: "indexed E db (c # cs)" "\<forall>x \<in> set (c # cs). storable E x" "connected (c # cs)" "int (length cs) < 100000"
    "getFirstBlockId db = b_number c"
    using assms(1) unfolding holds_chain_def c by auto
  have first: "getBlock E db (b_number c) = c" using h(1,2) by (auto intro: entry_block)
  have l: "b_number (last p) \<in> b_number ` set p" using assms(2) by simp
  then have "b_number (last p) \<in> b_number ` set (c # cs)" unfolding c [symmetric] by auto
  from walk_visit [OF h(1,2,3) this, of 0] show ?thesis
    using visit_latest [OF l] h(4) by (simp add: build_chain_def assms(3) h(5) first flip: c)
qed

lemma foldl_same: "(\<And>s x. x \<in> set xs \<Longrightarrow> f s x = g s x) \<Longrightarrow> foldl f s xs = foldl g s xs"
  by (induction xs arbitrary: s) auto

lemma visited: "b \<in> set (visit past latest p) \<Longrightarrow> b \<in> set p"
  by (induction p) (auto split: if_splits)

text \<open>So two stores that agree up to the last block give the same ledger in the same slot.\<close>

lemma compute_below:
  assumes "holds_chain E db (p @ q)" and "holds_chain E' db' (p @ q')" and "p \<noteq> []"
    and "ls_latest_id (build_start db stop) = b_number (last p)" and "ls_latest_id (build_start db' stop) = b_number (last p)"
    and "getCurrentTimeBlock E = getCurrentTimeBlock E'"
  shows "build_compute E db w stop = build_compute E' db' w stop"
proof -
  have pos: "0 < b_number x" if "x \<in> set (p @ q) \<or> x \<in> set (p @ q')" for x
    using assms(1,2) that unfolding holds_chain_def storable_def by blast
  have "last (p @ q) \<in> set (p @ q)" "last (p @ q') \<in> set (p @ q')" using assms(3) by (metis append_is_Nil_conv last_in_set)+
  then have pl: "0 < b_number (last (p @ q))" "0 < b_number (last (p @ q'))" using pos by blast+
  have bal: "balancesThroughBlock E db cp = balancesThroughBlock E' db' cp" if "b \<in> set p" "cp < b_number b" for b cp
    using balances_below [OF assms(1) that] balances_below [OF assms(2) that] pl by simp
  have snap: "carryForwardSnapshotMatches E db r = carryForwardSnapshotMatches E' db' r"
    if "b \<in> set p" "isBasicCarryForwardRecord r (b_number b)" for b r
    using bal [OF that(1)] that(2)
    by (auto simp: carryForwardSnapshotMatches_def isBasicCarryForwardRecord_def Let_def split: if_splits)
  then have "build_membership E db w b r s = build_membership E' db' w b r s" if "b \<in> set p" for b s r
    using snap [OF that, of r] by (cases "isBasicCarryForwardRecord r (b_number b)") (simp_all add: build_membership_def)
  then have "build_record E db w b s r = build_record E' db' w b s r" if "b \<in> set p" for b s r
    using that by (simp add: build_record_def)
  then have block: "build_block E db w s b = build_block E' db' w s b" if "b \<in> set p" for b s
    using that by (simp add: build_block_def cong: foldl_cong)
  have hd: "hd (p @ q) = hd p" "hd (p @ q') = hd p" using assms(3) by simp_all
  have start: "build_start db stop = build_start db' stop"
    using assms(1,2,4,5) hd by (simp add: build_start_def holds_chain_def Let_def)
  have chains: "build_chain E db stop = build_chain E' db' stop"
    using build_chain_below [OF assms(1,3,4)] build_chain_below [OF assms(2,3,5)] by simp
  have "foldl (build_block E db w) s (build_chain E' db' stop) = foldl (build_block E' db' w) s (build_chain E' db' stop)" for s
    using block visited unfolding build_chain_below [OF assms(2,3,5)] by (intro foldl_same) blast
  then show ?thesis unfolding build_compute_def assms(6) start chains by simp
qed

section \<open>The key\<close>

text \<open>A key gives back what it was made of, if the hash in it holds no bar.\<close>

lemma key_fields:
  assumes "ledgerStateCacheKey w f l h s t = ledgerStateCacheKey w' f' l' h' s' t'" and "CHR ''|'' \<notin> set h" and "CHR ''|'' \<notin> set h'"
  shows "w = w' \<and> f = f' \<and> l = l' \<and> h = h' \<and> s = s' \<and> t = t'"
proof -
  let ?k = "\<lambda>w f l h s. w @ ''|'' @ show_long f @ ''|'' @ show_long l @ ''|'' @ h @ ''|'' @ show_long s"
  note bar = last_field [OF show_long_no_bar show_long_no_bar]
  have "?k w f l h s @ CHR ''|'' # show_long t = ?k w' f' l' h' s' @ CHR ''|'' # show_long t'"
    using assms(1) by (simp add: ledgerStateCacheKey_def)
  then have t: "?k w f l h s = ?k w' f' l' h' s'" "t = t'" using bar show_long_inj by blast+
  from t(1) have "(w @ ''|'' @ show_long f @ ''|'' @ show_long l @ ''|'' @ h) @ CHR ''|'' # show_long s =
      (w' @ ''|'' @ show_long f' @ ''|'' @ show_long l' @ ''|'' @ h') @ CHR ''|'' # show_long s'" by simp
  then have s: "w @ ''|'' @ show_long f @ ''|'' @ show_long l @ ''|'' @ h = w' @ ''|'' @ show_long f' @ ''|'' @ show_long l' @ ''|'' @ h'"
    "s = s'" using bar show_long_inj by blast+
  from s(1) have "(w @ ''|'' @ show_long f @ ''|'' @ show_long l) @ CHR ''|'' # h = (w' @ ''|'' @ show_long f' @ ''|'' @ show_long l') @ CHR ''|'' # h'"
    by simp
  then have h: "w @ ''|'' @ show_long f @ ''|'' @ show_long l = w' @ ''|'' @ show_long f' @ ''|'' @ show_long l'" "h = h'"
    using last_field [OF assms(2,3)] by blast+
  from h(1) have "(w @ ''|'' @ show_long f) @ CHR ''|'' # show_long l = (w' @ ''|'' @ show_long f') @ CHR ''|'' # show_long l'" by simp
  then have l: "w @ ''|'' @ show_long f = w' @ ''|'' @ show_long f'" "l = l'" using bar show_long_inj by blast+
  from l(1) have "w @ CHR ''|'' # show_long f = w' @ CHR ''|'' # show_long f'" by simp
  then have "w = w' \<and> f = f'" using bar show_long_inj by blast
  then show ?thesis using t(2) s(2) h(2) l(2) by blast
qed

section \<open>Calls on a store that changes\<close>

text \<open>
  A call of \<open>build\<close>: the environment with the clock and the store at that moment, the wallet, and
  the block to stop at. \<open>C\<close> are the chains that the store had at one time or another.
\<close>

type_synonym ledger_call = "env \<times> dbh \<times> string \<times> int"

text \<open>Without a first or a last block, nothing is read and nothing is kept.\<close>

definition reads_chain :: "ledger_call \<Rightarrow> bool" where
  "reads_chain = (\<lambda>(E, db, w, stop). 0 \<le> getFirstBlockId db \<and> 0 \<le> ls_latest_id (build_start db stop))"

text \<open>
  A call that reads the chain finds one, with a block of the number at which it stops reading
  (where there is none, the hash in the key is empty and the key does not tell chains apart).
\<close>

definition call_ok :: "block_structure list set \<Rightarrow> ledger_call \<Rightarrow> bool" where
  "call_ok C = (\<lambda>(E, db, w, stop).
     reads_chain (E, db, w, stop) \<longrightarrow>
     (\<exists>chain \<in> C. holds_chain E db chain \<and> ls_latest_id (build_start db stop) \<in> b_number ` set chain))"

text \<open>Blocks are told apart by their hashes, and hashes hold no bar (they are hexadecimal numerals).\<close>

definition hashes_tell :: "block_structure list set \<Rightarrow> bool" where
  "hashes_tell C \<longleftrightarrow> (\<forall>x \<in> \<Union> (set ` C). CHR ''|'' \<notin> set (b_hash x) \<and> (\<forall>y \<in> \<Union> (set ` C). b_hash x = b_hash y \<longrightarrow> x = y))"

lemma chain_at:
  assumes "call_ok C (E, db, w, stop)" and "reads_chain (E, db, w, stop)"
  obtains p q where "p @ q \<in> C" "p \<noteq> []" "holds_chain E db (p @ q)" "ls_latest_id (build_start db stop) = b_number (last p)"
    "getBlock E db (ls_latest_id (build_start db stop)) = last p" "getFirstBlockId db = b_number (hd p)"
proof -
  obtain chain where c: "chain \<in> C" "holds_chain E db chain" "ls_latest_id (build_start db stop) \<in> b_number ` set chain"
    using assms by (auto simp: call_ok_def)
  then obtain b where b: "b \<in> set chain" "ls_latest_id (build_start db stop) = b_number b" by auto
  then obtain p q where "chain = (p @ [b]) @ q" by (metis split_list append_Cons append_Nil append_assoc)
  moreover have "getBlock E db (b_number b) = b"
  proof -
    have "indexed E db chain \<Longrightarrow> \<forall>x \<in> set chain. storable E x \<Longrightarrow> b \<in> set chain \<Longrightarrow> getBlock E db (b_number b) = b" for chain
      by (induction chain) (auto intro: entry_block)
    then show ?thesis using c(2) b(1) unfolding holds_chain_def by blast
  qed
  ultimately show thesis
    using that [of "p @ [b]" q] c b by (cases p) (auto simp: holds_chain_def)
qed

text \<open>Two calls under the same key compute the same state.\<close>

lemma key_determines:
  assumes "hashes_tell C" and ok: "call_ok C (E, db, w, stop)" "call_ok C (E', db', w', stop')"
    and reads: "reads_chain (E, db, w, stop)" "reads_chain (E', db', w', stop')"
    and key: "build_key E db w stop = build_key E' db' w' stop'"
  shows "build_compute E db w stop = build_compute E' db' w' stop'"
proof -
  obtain p q where p: "p @ q \<in> C" "p \<noteq> []" "holds_chain E db (p @ q)" "ls_latest_id (build_start db stop) = b_number (last p)"
    "getBlock E db (ls_latest_id (build_start db stop)) = last p" "getFirstBlockId db = b_number (hd p)"
    by (rule chain_at [OF ok(1) reads(1)])
  obtain p' q' where p': "p' @ q' \<in> C" "p' \<noteq> []" "holds_chain E' db' (p' @ q')" "ls_latest_id (build_start db' stop') = b_number (last p')"
    "getBlock E' db' (ls_latest_id (build_start db' stop')) = last p'" "getFirstBlockId db' = b_number (hd p')"
    by (rule chain_at [OF ok(2) reads(2)])
  have tell: "x = y" if "x \<in> set p" "y \<in> set p'" "b_hash x = b_hash y" for x y
    using assms(1) p(1) p'(1) that unfolding hashes_tell_def by force
  have "CHR ''|'' \<notin> set (b_hash (last p))" "CHR ''|'' \<notin> set (b_hash (last p'))"
    using assms(1) p(1,2) p'(1,2) last_in_set unfolding hashes_tell_def by (metis UN_I Un_iff set_append)+
  then have f: "w = w'" "b_number (hd p) = b_number (hd p')" "b_hash (last p) = b_hash (last p')" "stop = stop'"
    "getCurrentTimeBlock E = getCurrentTimeBlock E'"
    using key_fields key unfolding build_key_def p(5,6) p'(5,6) by blast+
  have b: "last p = last p'" using tell [OF _ _ f(3)] p(2) p'(2) by simp
  have split: "p = butlast p @ [last p]" "p' = butlast p' @ [last p]" using p(2) p'(2) b append_butlast_last_id by metis+
  have "connected p" "connected p'" using p(3) p'(3) connected_split by (auto simp: holds_chain_def)
  then have "butlast p = butlast p'"
    using f(2) split tell by (intro same_below [of _ "last p"]) (auto dest: in_set_butlastD)
  then have "p = p'" using split by simp
  then show ?thesis using compute_below [OF p(3) _ p(2,4) _ f(5)] p'(3,4) f(1,4) by simp
qed

text \<open>A sequence of calls, the cache threaded through them.\<close>

fun build_calls :: "ledger_call list \<Rightarrow> ledger_cache \<Rightarrow> ledger_state list" where
  "build_calls [] cache = []"
| "build_calls ((E, db, w, stop) # calls) cache =
     (case build E db w stop cache of (st, cache) \<Rightarrow> st # build_calls calls cache)"

definition cache_valid :: "block_structure list set \<Rightarrow> ledger_cache \<Rightarrow> bool" where
  "cache_valid C cache \<longleftrightarrow> sm_inv cache \<and>
     (\<forall>E db w stop st. call_ok C (E, db, w, stop) \<and> reads_chain (E, db, w, stop) \<and> sm_get cache (build_key E db w stop) = Some st \<longrightarrow>
        st = build_compute E db w stop)"

lemma cache_valid_build:
  assumes "hashes_tell C" and "cache_valid C cache" and "call_ok C (E, db, w, stop)"
  shows "fst (build E db w stop cache) = fst (build E db w stop [])" "cache_valid C (snd (build E db w stop cache))"
proof -
  have first: "ls_first_id (build_start db stop) = getFirstBlockId db" by (simp add: build_start_def Let_def)
  show "fst (build E db w stop cache) = fst (build E db w stop [])"
    using assms(2,3) first by (auto simp: build_cases cache_valid_def reads_chain_def smap_simps split: option.splits)
  let ?k = "build_key E db w stop" and ?st = "build_compute E db w stop"
  have inv: "sm_inv (sm_put ?k ?st cache)" using assms(2) by (simp add: cache_valid_def smap_simps)
  have "cache_valid C (cacheLedgerState ?k ?st cache)" if reads: "reads_chain (E, db, w, stop)"
    unfolding cache_valid_def
  proof (intro conjI allI impI)
    show "sm_inv (cacheLedgerState ?k ?st cache)" using sm_inv_drop [OF inv] by (simp add: cacheLedgerState_def Let_def)
    fix E' db' w' stop' st
    assume c: "call_ok C (E', db', w', stop') \<and> reads_chain (E', db', w', stop') \<and>
      sm_get (cacheLedgerState ?k ?st cache) (build_key E' db' w' stop') = Some st"
    then have "sm_get (sm_put ?k ?st cache) (build_key E' db' w' stop') = Some st"
      using sm_get_drop [OF inv] by (auto simp: cacheLedgerState_def Let_def)
    then show "st = build_compute E' db' w' stop'"
      using c assms(2) key_determines [OF assms(1,3) _ reads, of E' db' w' stop']
      by (auto simp: smap_simps cache_valid_def split: if_splits)
  qed
  then show "cache_valid C (snd (build E db w stop cache))"
    using assms(2) first by (auto simp: build_cases reads_chain_def split: option.splits)
qed

text \<open>
  C11. The cache of ledger states is never stale. Take any sequence of calls of
  \<open>CLedgerState::build\<close>, with the store changed in any way between them (blocks added, the chain
  reorganised, the store emptied), with the clock moving and with any wallets and stop blocks, the
  cache threaded through the calls from an empty one, whatever it evicts. If at each call that
  reads the chain the store holds an indexed and linked chain in which a block has the number at which
  the call stops reading, and no two different blocks of all these chains have the same hash (and no
  hash holds the character \<open>|\<close>), then every call answers as a call with an empty cache would.
\<close>

theorem cache_never_stale:
  assumes "hashes_tell C" and "list_all (call_ok C) calls"
  shows "build_calls calls [] = map (\<lambda>(E, db, w, stop). fst (build E db w stop [])) calls"
proof -
  have "cache_valid C cache \<Longrightarrow> build_calls calls cache = map (\<lambda>(E, db, w, stop). fst (build E db w stop [])) calls" for cache
    using assms(2)
  proof (induction calls arbitrary: cache)
    case (Cons c calls)
    obtain E db w stop where c: "c = (E, db, w, stop)" by (cases c)
    then have "call_ok C (E, db, w, stop)" using Cons.prems(2) by simp
    from cache_valid_build [OF assms(1) Cons.prems(1) this] show ?case
      using Cons.IH Cons.prems(2) by (simp add: c case_prod_beta)
  qed simp
  moreover have "cache_valid C []" by (simp add: cache_valid_def smap_simps)
  ultimately show ?thesis .
qed

text \<open>
  The block at which a call stops reading has to be there: a slot may be empty, and then the hash in
  the key is empty, too. After the store was changed below such a slot, a call in the same slot of
  the clock answers with the ledger of the store as it was.
\<close>

lemma empty_slot_stale:
  assumes "getFirstBlockId db' = getFirstBlockId db" and "0 \<le> getFirstBlockId db"
    and "0 < stop" and "stop < getLatestBlockId db" and "stop < getLatestBlockId db'"
    and "b_hash (getBlock E db stop) = []" and "b_hash (getBlock E db' stop) = []"
  shows "fst (build E db' w stop (snd (build E db w stop []))) = build_compute E db w stop"
proof -
  have l: "ls_latest_id (build_start db stop) = stop" "ls_latest_id (build_start db' stop) = stop"
    "ls_first_id (build_start db stop) = getFirstBlockId db" "ls_first_id (build_start db' stop) = getFirstBlockId db"
    using assms by (simp_all add: build_start_def Let_def)
  then have k: "build_key E db' w stop = build_key E db w stop" using assms by (simp add: build_key_def)
  have "snd (build E db w stop []) = [(build_key E db w stop, build_compute E db w stop)]"
    using assms(2,3) l by (simp add: build_cases sm_get_def cacheLedgerState_def Let_def)
  then show ?thesis using assms(2,3) l k by (simp add: build_cases sm_get_def)
qed

end
