(* ===== verification/ExampleBuilder.thy ===== *)
theory ExampleBuilder
  imports ExampleConsole BuilderFacts CarryForwardFacts LedgerCache
begin

text \<open>
  The properties of the builder's thread at a small example: the only member of the example chain
  runs a node without peers in the slot after the first block. Its clock enters the next slot
  after forty events. Its signatures are longer than a record may hold, so that the store refuses
  what it builds. The other threads of the process rest, or one of them extends the chain while a
  block is being made.
\<close>

definition slot_env :: env where
  "slot_env = example_env\<lparr>e_local_epoch := 1515\<rparr>"

lemma slot_env_later: "slot_env = example_env\<lparr>e_local_epoch := 1515, e_time_offset := 0\<rparr>"
  by (simp add: slot_env_def example_env_def)

lemma slot_reads:
  "getBlock slot_env db n = getBlock example_env db n" "getNextBlock slot_env db = getNextBlock example_env db"
  "env_config slot_env = load_config []" "getCurrentTimeBlock slot_env = 101"
  unfolding slot_env_later by (simp_all only: later_getBlock later_next)
    (simp_all add: env_config_def example_env_def getCurrentTimeBlock_def getEpoch_def cdiv_def)

lemma slot_chain: "n = -1 \<or> n = 100 \<Longrightarrow> build_chain slot_env example_db n = [block_one]"
  by (auto simp: build_chain_def build_start_def example_ids slot_reads example_block example_walk)

lemma records_one: "b_records block_one = [join_alice, issue_alice, alice_pays_bob]" "b_number block_one = 100"
  by (simp_all add: block_one_def)

lemma claimed_keys: "map ms_key (fst (snd (claimPublicName ms owners k name))) = map ms_key ms"
proof -
  have "(map ms_key ms)[i := ms_key (ms ! i)] = map ms_key ms" for i
    by (metis list_update_beyond list_update_id length_map not_le nth_map)
  then show ?thesis by (auto simp: claimPublicName_def Let_def map_update split: option.split)
qed

lemma finish_parts:
  "map ms_key (ls_members (build_finish t w s)) = map ms_key (ls_members (bs_result s))"
  "ls_has_heartbeats (build_finish t w s) = ls_has_heartbeats (bs_result s)"
  "ls_latest_block (build_finish t w s) = ls_latest_block (bs_result s)"
  "ls_joined (build_finish t w s) = ls_joined (bs_result s)"
proof -
  have "map fst (map (\<lambda>m. (ms_key m, ms_name m)) ms) = map ms_key ms" for ms by simp
  then show "map ms_key (ls_members (build_finish t w s)) = map ms_key (ls_members (bs_result s))"
    using build_finish_members by metis
  have f: "ls_has_heartbeats (foldl (finish_member c hb) st ms) = ls_has_heartbeats st \<and>
      ls_latest_block (foldl (finish_member c hb) st ms) = ls_latest_block st \<and>
      ls_joined (foldl (finish_member c hb) st ms) = ls_joined st" for c hb st ms
    by (induction ms arbitrary: st) (simp_all add: finish_member_def Let_def)
  show "ls_has_heartbeats (build_finish t w s) = ls_has_heartbeats (bs_result s)"
    "ls_latest_block (build_finish t w s) = ls_latest_block (bs_result s)" "ls_joined (build_finish t w s) = ls_joined (bs_result s)"
    using f by (simp_all add: build_finish_def finish_wallet_def finish_heartbeat_def Let_def)
qed

text \<open>What the builder needs of a ledger: the keys of the members, heartbeats, the tip, whether the wallet has joined.\<close>

definition roll :: "build_state \<Rightarrow> string list \<times> bool \<times> block_structure \<times> bool" where
  "roll s = (let st = bs_result s in (map ms_key (ls_members st), ls_has_heartbeats st, ls_latest_block st, ls_joined st))"

lemma roll_money: "roll (build_money b r s) = roll s"
  by (simp add: build_money_def roll_def Let_def case_prod_beta)

lemma roll_payment:
  "r_type r = ISSUE_CURRENCY \<or> r_type r = TRANSFER_CURRENCY \<Longrightarrow> roll (build_record E db w b s r) = roll s"
proof -
  assume "r_type r = ISSUE_CURRENCY \<or> r_type r = TRANSFER_CURRENCY"
  then have "build_membership E db w b r t = t" for t by (auto simp: build_membership_def isBasicCarryForwardRecord_def)
  moreover have "roll (s\<lparr>bs_result := (bs_result s)\<lparr>ls_accepted := a\<rparr>\<rparr>) = roll s" for a by (simp add: roll_def Let_def)
  ultimately show ?thesis by (simp add: build_record_def roll_money Let_def)
qed

lemma roll_join:
  assumes "r_type r = JOIN_NETWORK" "r_sender r \<noteq> []" "ls_members (bs_result s) = []" "ls_accepted (bs_result s) = {}"
    "ls_joined (bs_result s) = False"
  shows "roll (build_record E db w b s r) =
    ([r_sender r], ls_has_heartbeats (bs_result s), ls_latest_block (bs_result s), r_sender r = w)"
proof -
  define s1 where "s1 = (if r_hash r \<noteq> [] then s\<lparr>bs_result := (bs_result s)\<lparr>ls_accepted := {r_hash r}\<rparr>\<rparr> else s)"
  have m: "memberIndexByKey [] k = None" for k by (simp add: memberIndexByKey_def key_index.simps)
  have "roll (build_record E db w b s r) = roll (build_join w b r s1)"
    using assms by (simp add: build_record_def roll_money build_membership_def s1_def)
  then show ?thesis
    using assms claimed_keys [of "[_]"]
    by (auto simp: build_join_def roll_def build_claim_def s1_def m Let_def case_prod_beta)
qed

lemma slot_roll:
  assumes "n = -1 \<or> n = 100"
  shows "roll (foldl (build_block slot_env example_db w) \<lparr>bs_result = build_start example_db n, bs_owners = [], bs_heartbeats = []\<rparr>
    (build_chain slot_env example_db n)) = ([alice], False, block_one, alice = w)"
proof -
  have t: "r_type join_alice = JOIN_NETWORK" "r_sender join_alice = alice" "alice \<noteq> []" "r_type issue_alice = ISSUE_CURRENCY"
    "r_type alice_pays_bob = TRANSFER_CURRENCY"
    by (simp_all add: join_alice_def issue_alice_def alice_pays_bob_def text_simps)
  have s: "ls_members (build_start db n) = []" "ls_accepted (build_start db n) = {}" "\<not> ls_joined (build_start db n)"
    "\<not> ls_has_heartbeats (build_start db n)" for db n
    by (simp_all add: build_start_def Let_def)
  show ?thesis
    unfolding slot_chain [OF assms] by (simp add: build_block_def records_one roll_payment t roll_join s)
qed

lemma slot_ledger:
  assumes "n = -1 \<or> n = 100"
  shows "map ms_key (ls_members (build_compute slot_env example_db w n)) = [alice]"
    "\<not> ls_has_heartbeats (build_compute slot_env example_db w n)"
    "ls_latest_block (build_compute slot_env example_db w n) = block_one"
    "ls_joined (build_compute slot_env example_db alice n)"
  using slot_roll [OF assms, of w] slot_roll [OF assms, of alice] by (simp_all add: build_compute_def finish_parts roll_def Let_def)

lemma slot_build:
  "n = -1 \<or> n = 100 \<Longrightarrow> cache_ok slot_env example_db cache \<Longrightarrow>
   fst (build slot_env example_db w n cache) = build_compute slot_env example_db w n"
  using build_transparent(1) [of slot_env example_db cache w n]
  by (auto simp: build_cases build_start_def example_ids sm_get_def)

lemma slot_turn:
  assumes "cache_ok slot_env example_db cache"
  shows "fst (builder_turn slot_env example_db alice block_one 101 cache)"
proof -
  let ?first = "build slot_env example_db [] 100 cache"
  have c: "cache_ok slot_env example_db (snd ?first)" by (rule build_transparent(2) [OF assms])
  have l: "fst ?first = build_compute slot_env example_db [] 100"
    "fst (build slot_env example_db [] 100 (snd ?first)) = build_compute slot_env example_db [] 100"
    using slot_build [OF _ assms] slot_build [OF _ c] by auto
  have k: "activeMemberKeysAt (build_compute slot_env example_db [] 100) 101 = [alice]"
    using slot_ledger(1,2) [of 100 "[]"] by (simp add: activeMemberKeysAt_def Let_def)
  have s: "getSelectedUserForBlock slot_env 101 h [alice] = alice" for h
    by (simp add: getSelectedUserForBlock_def getSelectedIndexForBlock_def)
  have b: "getSelectionBoundaryBlock 101 100 = 100"
    by (simp add: getSelectionBoundaryBlock_def getEpochForBlock_def cdiv_def getEpochSizeBlocks_def getSelectionLagEpochs_def)
  have h: "b_hash (ls_latest_block (build_compute slot_env example_db [] 100)) \<noteq> []"
    using slot_ledger(3) [of 100 "[]"] by (simp add: block_one_def)
  show ?thesis
    using l k h by (simp add: builder_turn_def records_one example_ids b case_prod_beta getAuthorizedCreatorForBlock_def s Let_def)
qed

section \<open>The queue\<close>

lemma example_queue: "databaseMempoolRecords E example_db = ([], example_db)"
proof -
  obtain d where d: "example_db = Some d" using example_db_open by blast
  have "kv_keys d = [blockHashKey (b_hash block_one), canonicalHashKey 100, chainMetaKey ''first_block'', chainMetaKey ''latest_block'']"
    using d by (auto simp: kv_keys_def example_db_def db_put_def key_defs show_long_digits example_block_fields)
  then have "keys_with_prefix d MEMPOOL_RECORD_PREFIX = []"
    by (simp add: keys_with_prefix_def key_defs MEMPOOL_RECORD_PREFIX_def starts_with_def)
  then show ?thesis by (simp add: databaseMempoolRecords_def d write_batch_def)
qed

definition long_stamp :: string where "long_stamp = replicate 1000 (CHR ''5'')"

lemma too_long: "r_signature r = long_stamp \<Longrightarrow> \<not> isRecordSizeValid E r"
  by (simp add: isRecordSizeValid_def recordSizeError_def long_stamp_def MAX_RECORD_SIGNATURE_BYTES_def slen_def)

lemma example_heartbeat:
  "queueHeartbeatIfDue E (\<lambda>m. long_stamp) key mode st (example_db, []) = (None, (example_db, []))"
proof -
  have "legacyQueueRecords E [] = []" by (simp add: legacyQueueRecords_def)
  then have "hasPendingHeartbeat E key (example_db, []) = (False, (example_db, []))"
    by (simp add: hasPendingHeartbeat_def peekQueueRecords_def example_queue dedupePendingRecords_def)
  moreover have "addToQueue E (heartbeat_record E (\<lambda>m. long_stamp) key) (example_db, []) = (0, (example_db, []))"
    by (simp add: addToQueue_def too_long heartbeat_record_def Let_def)
  ultimately show ?thesis by (simp add: queueHeartbeatIfDue_def)
qed

section \<open>The node\<close>

definition builder_world :: world where
  "builder_world = junk_world\<lparr>w_clock := (\<lambda>k. if k < 40 then 1515 else 1530), w_sign := (\<lambda>key m. long_stamp)\<rparr>"

definition alice_wallet :: wallet_files where
  "alice_wallet = \<lparr>wf_legacy = Some (''private:k'' @ [LF] @ ''public:'' @ alice @ [LF]), wf_store = None, wf_writable = False\<rparr>"

definition lone_daemon :: "nat \<Rightarrow> ledger_cache \<Rightarrow> daemon" where
  "lone_daemon k cache = (daemon_with example_db)\<lparr>d_wallet := alice_wallet,
     d_node := example_node\<lparr>n_peers := [], n_statuses := [], n_events := k, n_caches := no_caches\<lparr>c_ledger := cache\<rparr>\<rparr>\<rparr>"

text \<open>After \<open>k\<close> events, with what the ledgers in the cache, the last ledger and the last round left behind.\<close>

definition lone_builder :: "nat \<Rightarrow> ledger_cache \<Rightarrow> ledger_state option \<Rightarrow> int \<times> int \<times> string \<Rightarrow> builder" where
  "lone_builder k cache st evaluated =
     \<lparr>bu_site = example_site\<lparr>si_world := builder_world\<rparr>, bu_daemon = lone_daemon k cache,
      bu_functions = (case st of None \<Rightarrow> new_functions no_block | Some st \<Rightarrow> adopt_ledger st (new_functions no_block)),
      bu_selector = (case st of None \<Rightarrow> [] | Some st \<Rightarrow> ls_active_keys st), bu_private = ''k'', bu_public = alice,
      bu_building = True, bu_last_built = -1, bu_last_rebroadcast = 1515, bu_last_sync = 0, bu_evaluated = evaluated\<rparr>"

lemma lone_parts [simp]:
  "k < 40 \<Longrightarrow> bu_env (lone_builder k cache st e) = slot_env" "bu_db (lone_builder k cache st e) = example_db"
  "bu_world (lone_builder k cache st e) = builder_world" "n_events (bu_node (lone_builder k cache st e)) = k"
  "n_offset (bu_node (lone_builder k cache st e)) = 0" "bu_public (lone_builder k cache st e) = alice"
  "bu_last_built (lone_builder k cache st e) = -1"
  by (simp_all add: lone_builder_def bu_env_def env_of_def env_now_def builder_world_def junk_world_def still_world_def slot_env_def
      lone_daemon_def bu_db_def the_db_def bu_world_def bu_node_def example_node_def example_env_def daemon_with_def)

lemma lone_event: "to_peers (\<lambda>W. event) (lone_builder k cache st e) = lone_builder (Suc k) cache st e"
  by (simp add: to_peers_def upd_node_def event_def lone_builder_def lone_daemon_def)

text \<open>Other threads that leave the network time alone and do not stop the builder, and rest up to some event.\<close>

definition steady :: "others \<Rightarrow> bool" where
  "steady T \<longleftrightarrow> (\<forall>k s. n_offset (d_node (ot_acts T k s)) = n_offset (d_node s)) \<and> (\<forall>k. \<not> ot_halt T k)"

definition resting :: "others \<Rightarrow> nat \<Rightarrow> bool" where
  "resting T n \<longleftrightarrow> (\<forall>k < n. \<forall>s. ot_acts T k s = s)"

definition idle_others :: others where
  "idle_others = \<lparr>ot_halt = (\<lambda>k. False), ot_acts = (\<lambda>k s. s)\<rparr>"

text \<open>A thread that replaces the store at one event.\<close>

definition writer :: "nat \<Rightarrow> dbh \<Rightarrow> others" where
  "writer e db = \<lparr>ot_halt = (\<lambda>k. False), ot_acts = (\<lambda>k s. if k = e then set_db db s else s)\<rparr>"

lemma example_others:
  "steady idle_others" "resting idle_others n" "forward idle_others" "quiet idle_others"
  "steady (writer e db)" "n \<le> e \<Longrightarrow> resting (writer e db) n"
  by (auto simp: steady_def resting_def forward_def quiet_def idle_others_def writer_def set_db_def)

lemma steady_forward: "steady T \<Longrightarrow> forward T"
  by (simp add: steady_def forward_def)

lemma lone_meanwhile:
  "resting T n \<Longrightarrow> k < n \<Longrightarrow> meanwhile T (lone_builder k cache st e) = lone_builder (Suc k) cache st e"
  by (simp add: meanwhile_def resting_def upd_node_def Let_def lone_builder_def lone_daemon_def)

lemma lone_clock:
  "k < 40 \<Longrightarrow> slot_now (lone_builder k cache st e) = (101, lone_builder (Suc k) cache st e)"
  "k < 40 \<Longrightarrow> seconds_now (lone_builder k cache st e) = (1515, lone_builder (Suc k) cache st e)"
  "\<not> ot_halt T k \<Longrightarrow> is_building T (lone_builder k cache st e) = (True, lone_builder (Suc k) cache st e)"
proof -
  have b: "(lone_builder k cache st e)\<lparr>bu_building := True\<rparr> = lone_builder k cache st e" for k cache st e
    by (simp add: lone_builder_def)
  show "k < 40 \<Longrightarrow> slot_now (lone_builder k cache st e) = (101, lone_builder (Suc k) cache st e)"
    by (simp add: slot_now_def lone_event slot_reads)
  show "k < 40 \<Longrightarrow> seconds_now (lone_builder k cache st e) = (1515, lone_builder (Suc k) cache st e)"
    by (simp add: seconds_now_def on_process_def now_local_def on_node_def local_epoch_def lone_builder_def lone_daemon_def event_def
        builder_world_def)
  have r: "bu_building (lone_builder k cache st e)" "n_events (d_node (bu_daemon (lone_builder k cache st e))) = k"
    by (simp_all add: lone_builder_def lone_daemon_def)
  show "\<not> ot_halt T k \<Longrightarrow> is_building T (lone_builder k cache st e) = (True, lone_builder (Suc k) cache st e)"
    by (simp add: is_building_def r b lone_event)
qed

lemma lone_keys: "read_creator (lone_builder k cache st e) = lone_builder k cache st e"
proof -
  have "readCreatorAccount alice_wallet = (Some (''k'', alice), alice_wallet)" by code_simp
  then show ?thesis
    by (simp add: read_creator_def on_process_def on_wallet_def lone_builder_def lone_daemon_def)
qed

lemma lone_ledger:
  assumes "k < 40" and "build slot_env example_db alice (-1) cache = (st, cache')"
  shows "read_ledger (lone_builder k cache None e) = (st, lone_builder k cache' (Some st) e)"
proof -
  have "ledger_of (bu_site (lone_builder k cache None e)) alice (-1) (lone_daemon k cache) = (st, lone_daemon k cache')"
    using assms lone_parts(1) [OF assms(1), of cache None e]
    by (simp add: ledger_of_def bu_env_def Let_def) (simp add: lone_builder_def lone_daemon_def example_node_def)
  then show ?thesis
    by (simp add: read_ledger_def on_process_def applyLedgerStateToFunctions_def lone_builder_def)
qed

section \<open>One round\<close>

definition creator_argv :: "string list" where "creator_argv = [''safire'', ''--creator-mode'']"

lemma lone_prepare:
  assumes "k + 5 < 40" and "resting T (k + 5)" and "build slot_env example_db alice (-1) cache = (st, cache')"
  shows "builder_prepare T creator_argv (lone_builder k cache None e) = (True, lone_builder (k + 5) cache' (Some st) e)"
proof -
  let ?b = "lone_builder (Suc (Suc k)) cache' (Some st) e"
  have m: "blockCreatorModeEnabled slot_env creator_argv" by (simp add: blockCreatorModeEnabled_def hasArg_def creator_argv_def)
  have s: "builder_sign ?b = (\<lambda>m. long_stamp)" by (simp add: builder_sign_def builder_world_def)
  have q: "on_queue (queueHeartbeatIfDue slot_env (\<lambda>m. long_stamp) alice True st) (bu_daemon ?b) = (None, bu_daemon ?b)"
    using example_heartbeat by (simp add: on_queue_def lone_builder_def lone_daemon_def the_db_def set_db_def example_node_def daemon_with_def)
  have h: "builder_heartbeat True st ?b = ?b"
    using assms(1) by (simp add: builder_heartbeat_def s on_process_def q send_records_def)
  note w = lone_meanwhile [OF assms(2)]
  have "builder_rebroadcast T (lone_builder (Suc (Suc (Suc k))) cache' (Some st) e) = lone_builder (k + 5) cache' (Some st) e"
    using assms(1) w [of "Suc (Suc (Suc (Suc k)))"]
    by (simp add: builder_rebroadcast_def lone_clock numeral_eq_Suc) (simp add: lone_builder_def)
  then show ?thesis
    using assms(1) w lone_ledger [OF _ assms(3), of "Suc k" e] by (simp add: builder_prepare_def lone_keys m h)
qed

lemma lone_decide:
  assumes "k < 40" and "resting T (Suc k)" and "cache_ok slot_env example_db cache" and "ls_joined st"
  shows "\<exists>cache'. builder_decide T True 101 block_one (lone_builder k cache (Some st) e) = (True, lone_builder (Suc k) cache' (Some st) e)"
proof -
  let ?b = "lone_builder k cache (Some st) e"
  obtain cache' where t: "builder_turn slot_env example_db alice block_one 101 cache = (True, cache')"
    using slot_turn [OF assms(3)] by (metis prod.collapse)
  let ?c = "lone_builder (Suc k) cache' (Some st) e"
  have n: "n_db (d_node (bu_daemon ?b)) = example_db" "c_ledger (n_caches (d_node (bu_daemon ?b))) = cache"
    by (simp_all add: lone_builder_def lone_daemon_def example_node_def)
  have "turn_now 101 block_one ?b = (True, lone_builder k cache' (Some st) e)"
    using assms(1) t n by (simp add: turn_now_def on_process_def on_node_def Let_def) (simp add: lone_builder_def lone_daemon_def)
  moreover have "on_peers canCreateBlocks ?c = ((True, ''ok''), ?c)"
    by (simp add: on_peers_def on_process_def on_node_def canCreateBlocks_def lone_builder_def lone_daemon_def)
  moreover have "fn_joined (bu_functions ?c)" using assms(4) by (simp add: lone_builder_def adopt_ledger_def)
  ultimately show ?thesis using lone_meanwhile [OF assms(2), of k] by (auto simp: builder_decide_def)
qed

text \<open>The reward is refused for its signature, and the block with it; it is handed out all the same.\<close>

lemma refused: "records \<noteq> [] \<Longrightarrow> r_signature (hd records) = long_stamp \<Longrightarrow> b_records blk = records \<Longrightarrow> \<not> add_block_checks E blk"
  by (cases records) (simp_all add: add_block_checks_def too_long)

lemma make_parts:
  assumes "make_block T networkName previous b = (blk, c)"
  shows "b_number blk = slot_of (meanwhile T (snd (epoch_now b)))"
    "b_previous_id blk = getLatestBlockId (bu_db (meanwhile T (snd (slot_now (meanwhile T (snd (epoch_now b)))))))"
    "b_records blk \<noteq> []" "r_signature (hd (b_records blk)) = builder_sign c (r_hash (hd (b_records blk)))"
  using assms
  by (auto simp: make_block_def next_block_def seal_block_def reward_record_def Let_def case_prod_beta slot_of_def slot_now_def)

lemma steady_parts:
  assumes "steady T"
  shows "n_offset (bu_node (meanwhile T b)) = n_offset (bu_node b)" "n_offset (bu_node (snd (epoch_now b))) = n_offset (bu_node b)"
    "n_events (bu_node (snd (epoch_now b))) = Suc (n_events (bu_node b))" "bu_world (meanwhile T b) = bu_world b"
    "bu_world (snd (epoch_now b)) = bu_world b"
  using assms
  by (simp_all add: steady_def meanwhile_def upd_node_def bu_node_def bu_world_def epoch_now_def now_epoch_def now_local_def
      on_node_def on_process_def local_epoch_def event_def Let_def case_prod_beta)

lemma slot_of_clock: "slot_of b = cdiv (w_clock (bu_world b) (n_events (bu_node b)) + n_offset (bu_node b)) 15"
  by (simp add: slot_of_def bu_env_def env_of_def env_now_def getCurrentTimeBlock_def getEpoch_def bu_world_def bu_node_def)

lemma lone_produce:
  assumes "steady T"
  shows "\<exists>blk d. builder_produce T ''main'' 101 block_one (lone_builder k cache st e) = Some (True, Some blk, d) \<and>
    b_number blk = (if k + 4 < 40 then 101 else 102) \<and>
    b_previous_id blk = getLatestBlockId (bu_db (meanwhile T (snd (slot_now (meanwhile T (snd (epoch_now
      (meanwhile T (lone_builder (Suc k) cache st e)))))))))"
proof -
  let ?b = "meanwhile T (lone_builder (Suc k) cache st e)"
  obtain blk c where m: "make_block T ''main'' block_one ?b = (blk, c)" by fastforce
  note make = m
  note made = make_parts [OF m]
  have "goes T (lone_builder (Suc k) cache st e) c"
    by (rule made_block [OF m]) (blast intro: readies_goes readies_trans readies_meanwhile readies_self)
  then have c: "goes T (lone_builder (Suc k) cache st e) (meanwhile T c)"
    by (rule goes_trans) (intro readies_goes steps)
  have "slot_of (meanwhile T (snd (epoch_now ?b))) = (if k + 4 < 40 then 101 else 102)"
    by (simp add: slot_of_clock steady_parts [OF assms] meanwhile_events builder_world_def cdiv_def)
  then have n: "b_number blk = (if k + 4 < 40 then 101 else 102)" using made(1) by simp
  have w: "bu_world c = builder_world" using c by (simp add: goes_def bu_world_def lone_builder_def)
  then have "builder_sign c = (\<lambda>m. long_stamp)" by (simp add: builder_sign_def builder_world_def)
  then have "\<not> add_block_checks E blk" for E using made(3,4) by (intro refused [OF _ _ refl]) simp_all
  then have "AddBlock E u blk (db, cs) = (Some False, db, cs)" for E u db cs by (simp add: AddBlock_def)
  then obtain d where d: "keep_block blk (meanwhile T c) = Some d" by (simp add: keep_block_def Let_def)
  let ?d = "(publish_block blk (meanwhile T d))\<lparr>bu_last_built := b_number blk\<rparr>"
  have m: "goes T d (meanwhile T d)" by (intro readies_goes steps)
  have "goes T (lone_builder (Suc k) cache st e) (publish_block blk (meanwhile T d))"
    by (rule goes_trans [OF goes_trans [OF goes_trans [OF c keep_goes [OF d]] m] publish_goes])
  then have "bu_world ?d = builder_world" "0 \<le> n_offset (bu_node ?d)"
    using steady_forward [OF assms]
    by (simp_all add: goes_def bu_world_def bu_node_def moved_on_def) (simp_all add: lone_builder_def lone_daemon_def example_node_def)
  then have "\<forall>j \<ge> 40. 101 < cdiv (w_clock (bu_world ?d) j + n_offset (bu_node ?d)) 15"
    using cdiv_mono [of 1530 "1530 + n_offset (bu_node ?d)" 15] by (auto simp: builder_world_def cdiv_nonneg)
  then obtain f where f: "wait_slot T 101 ?d = Some f" using wait_ends [OF steady_forward [OF assms]] by blast
  have "b_number blk \<noteq> bu_last_built c" using c n by (simp add: goes_def)
  moreover have "is_building T (lone_builder k cache st e) = (True, lone_builder (Suc k) cache st e)"
    using assms by (intro lone_clock) (simp add: steady_def)
  ultimately show ?thesis using n f d made(2) by (simp add: builder_produce_def make)
qed

lemma lone_round:
  assumes "k < 28" and "steady T" and "resting T (k + 12)"
  shows "\<exists>cache' st blk d. builder_round T creator_argv ''main'' (lone_builder k [] None (-1, -1, [])) = Some (True, Some blk, d) \<and>
     b_number blk = (if k + 16 < 40 then 101 else 102) \<and>
     b_previous_id blk = getLatestBlockId (bu_db (meanwhile T (snd (slot_now (meanwhile T (snd (epoch_now
       (meanwhile T (lone_builder (k + 13) cache' st (101, 100, b_hash block_one))))))))))"
proof -
  let ?e = "(101, b_number block_one, b_hash block_one)"
  obtain st cache where l: "build slot_env example_db alice (-1) [] = (st, cache)" by fastforce
  have ok: "cache_ok slot_env example_db []" by (simp add: cache_ok_def sm_get_def sm_inv_def)
  have st: "ls_joined st" using slot_build [OF _ ok, of "-1" alice] slot_ledger(4) [of "-1"] l by simp
  have c: "cache_ok slot_env example_db cache" using build_transparent(2) [OF ok, of alice "-1"] l by simp
  have rest: "resting T n" if "n \<le> k + 12" for n using assms(3) that by (auto simp: resting_def)
  have w: "meanwhile T (lone_builder j cache st e) = lone_builder i cache st e" if "j < k + 12" "i = Suc j" for j i cache st e
    using lone_meanwhile [OF assms(3) that(1)] that(2) by simp
  have p: "builder_prepare T creator_argv (lone_builder (k + 4) [] None ?e) = (True, lone_builder (k + 9) cache (Some st) ?e)"
    using assms(1) lone_prepare [of "k + 4" T "[]" st cache ?e] l rest by (simp add: add.commute)
  obtain cache' where d: "builder_decide T True 101 block_one (lone_builder (k + 10) cache (Some st) ?e) =
      (True, lone_builder (k + 11) cache' (Some st) ?e)"
    using assms(1) lone_decide [OF _ rest c st, of "k + 10" ?e] by (auto simp: add.commute)
  have s: "slot_now (lone_builder k [] None (-1, -1, [])) = (101, lone_builder (k + 1) [] None (-1, -1, []))"
    using assms(1) lone_clock(1) by simp
  have e: "(lone_builder j [] None (-1, -1, []))\<lparr>bu_evaluated := ?e\<rparr> = lone_builder j [] None ?e"
    "bu_evaluated (lone_builder j [] None (-1, -1, [])) = (-1, -1, [])" for j
    by (simp_all add: lone_builder_def)
  have w': "meanwhile T (lone_builder (k + 1) [] None (-1, -1, [])) = lone_builder (k + 2) [] None (-1, -1, [])"
    "meanwhile T (lone_builder (k + 2) [] None (-1, -1, [])) = lone_builder (k + 3) [] None (-1, -1, [])"
    "meanwhile T (lone_builder (k + 3) [] None ?e) = lone_builder (k + 4) [] None ?e"
    "meanwhile T (lone_builder (k + 9) cache (Some st) ?e) = lone_builder (k + 10) cache (Some st) ?e"
    "meanwhile T (lone_builder (k + 11) cache' (Some st) ?e) = lone_builder (k + 12) cache' (Some st) ?e"
    by (rule w; simp)+
  have env: "bu_env (lone_builder (k + 3) [] None (-1, -1, [])) = slot_env" using assms(1) by (intro lone_parts) simp
  have round: "builder_round T creator_argv ''main'' (lone_builder k [] None (-1, -1, [])) =
      builder_produce T ''main'' 101 block_one (lone_builder (k + 12) cache' (Some st) ?e)"
    unfolding builder_round_def s Let_def prod.case w' lone_parts(2) env example_ids slot_reads(1) example_block e p d by simp
  show ?thesis
    using lone_produce [OF assms(2), of "k + 12" cache' "Some st" ?e] unfolding round
    by (intro exI [of _ cache'] exI [of _ "Some st"]) (simp add: records_one numeral_eq_Suc)
qed

text \<open>
  The number of a block is read from the clock after the decision: begun late in slot 101, the
  round decides for 101 and hands out a block for slot 102.
\<close>

lemma slot_race:
  "\<exists>blk d. fst (slot_now (lone_builder 26 [] None (-1, -1, []))) = 101 \<and>
     builder_round idle_others creator_argv ''main'' (lone_builder 26 [] None (-1, -1, [])) = Some (True, Some blk, d) \<and>
     b_number blk = 102"
  using lone_round [of 26 idle_others] lone_clock(1) [of 26] example_others by force


lemma two_blocks_latest: "getLatestBlockId indexed_db = b_number block_two"
  using rebuilt_latest [of example_db "[block_one, block_two]"] example_db_open block_two_printable
  by (simp add: indexed_db_def printable_block_def plain_block_def)

text \<open>
  The identifier of the previous block is read again while the block is made: when another thread
  adds a block after the decision, the new block names the number of that one and the hash of the
  one before.
\<close>

lemma split_parent:
  "\<exists>blk d. builder_round (writer 13 indexed_db) creator_argv ''main'' (lone_builder 0 [] None (-1, -1, [])) = Some (True, Some blk, d) \<and>
     b_previous_id blk = b_number block_two \<and> b_previous_hash blk = b_hash block_one"
proof -
  let ?T = "writer 13 indexed_db" and ?b = "lone_builder 0 [] None (-1, -1, [])"
  have db: "bu_db (meanwhile ?T b) = (if n_events (bu_node b) = 13 then indexed_db else bu_db b)" for b
    by (simp add: meanwhile_def writer_def upd_node_def set_db_def bu_db_def the_db_def bu_node_def Let_def)
  have keep: "bu_db (snd (epoch_now b)) = bu_db b" "bu_db (snd (slot_now b)) = bu_db b" for b
    by (simp_all add: epoch_now_def now_epoch_def now_local_def on_node_def on_process_def local_epoch_def event_def Let_def
        case_prod_beta slot_now_def to_peers_def upd_node_def bu_db_def the_db_def)
  have ev: "n_events (bu_node (snd (epoch_now b))) = Suc (n_events (bu_node b))"
    "n_events (bu_node (snd (slot_now b))) = Suc (n_events (bu_node b))" for b
    by (simp_all add: epoch_now_def now_epoch_def now_local_def on_node_def on_process_def local_epoch_def event_def Let_def
        case_prod_beta slot_now_def to_peers_def upd_node_def bu_node_def)
  obtain cache' st blk d where r: "builder_round ?T creator_argv ''main'' ?b = Some (True, Some blk, d)"
    and i: "b_previous_id blk = getLatestBlockId (bu_db (meanwhile ?T (snd (slot_now (meanwhile ?T (snd (epoch_now
       (meanwhile ?T (lone_builder 13 cache' st (101, 100, b_hash block_one)))))))))) "
    using lone_round [of 0 ?T] example_others by auto
  have "b_previous_id blk = getLatestBlockId indexed_db" unfolding i by (simp add: db keep ev meanwhile_events)
  moreover have "round_tip ?T ?b = block_one"
    using example_others(6) [of 12 13] lone_meanwhile [of ?T 12] lone_clock(1) [of 0]
    by (simp add: round_tip_def slot_reads example_ids example_block)
  then have "b_previous_hash blk = b_hash block_one"
    using handed_parent [OF r] by simp
  ultimately show ?thesis using r two_blocks_latest by auto
qed

theorem handed_numbers_increase_witness:
  "\<exists>blk d. builder_runs idle_others creator_argv ''main'' (lone_builder 0 [] None (-1, -1, [])) [blk] d \<and>
     b_number blk = 101 \<and> sorted_wrt (<) (map b_number [blk])"
proof -
  let ?b = "lone_builder 0 [] None (-1, -1, [])"
  obtain blk d where r: "builder_round idle_others creator_argv ''main'' (lone_builder 2 [] None (-1, -1, [])) = Some (True, Some blk, d)"
    and n: "b_number blk = 101"
    using lone_round [of 2 idle_others] example_others by auto
  have h: "is_building idle_others ?b = (True, lone_builder 1 [] None (-1, -1, []))"
    using lone_clock(3) [of idle_others 0] by (simp add: idle_others_def)
  have w: "meanwhile idle_others (lone_builder 1 [] None (-1, -1, [])) = lone_builder 2 [] None (-1, -1, [])"
    using lone_meanwhile [OF example_others(2), of 1 2] by (simp add: numeral_2_eq_2)
  have "builder_runs idle_others creator_argv ''main'' ?b ([] @ (case Some blk of None \<Rightarrow> [] | Some blk \<Rightarrow> [blk])) d"
    by (rule builder_runs.rounds [OF builder_runs.starts h]) (use r w in simp)
  then have run: "builder_runs idle_others creator_argv ''main'' ?b [blk] d" by simp
  have "mono (w_clock (bu_world ?b))" by (auto simp: mono_def builder_world_def)
  from handed_numbers_increase [OF run this example_others(3)] show ?thesis using run n by blast
qed

text \<open>Told to stop before the second round.\<close>

definition stop_at_once :: others where
  "stop_at_once = \<lparr>ot_halt = (\<lambda>n. 1 \<le> n), ot_acts = (\<lambda>k s. s)\<rparr>"

theorem builder_stops_witness:
  "\<exists>d. builder_loop stop_at_once creator_argv ''main'' (lone_builder 0 [] None (101, 100, b_hash block_one)) = Some d \<and>
     \<not> bu_building d"
proof (rule builder_stops [where N = 1])
  let ?T = stop_at_once
  let ?b = "\<lambda>k. lone_builder k [] None (101, 100, b_hash block_one)"
  have rest: "resting ?T n" for n by (simp add: resting_def stop_at_once_def)
  show "\<forall>n \<ge> 1. ot_halt ?T n" by (simp add: stop_at_once_def)
  have first: "c' = ?b 1"
    if "builder_runs ?T creator_argv ''main'' (?b 0) blocks c" "is_building ?T c = (True, c')" for blocks c c'
  proof -
    have early: "n_events (bu_node c) = 0" using building_steps(3) [OF that(2)] by (simp add: stop_at_once_def)
    from that(1) have "c = ?b 0"
    proof cases
      case (rounds blocks c c' goes_on handed)
      then show ?thesis
        using early building_steps(1) [OF rounds(3)] round_numbers [OF rounds(4)] by (simp add: moved_on_def meanwhile_events)
    qed simp
    then show ?thesis using that(2) lone_clock(3) [of ?T 0] by (simp add: stop_at_once_def)
  qed
  have "builder_round ?T a nm (meanwhile ?T (?b 1)) \<noteq> None" for a nm
  proof -
    have e: "bu_evaluated (lone_builder k cache st e) = e" for k cache st e by (simp add: lone_builder_def)
    have w: "meanwhile ?T (lone_builder k cache st e) = lone_builder (Suc k) cache st e" for k cache st e
      using lone_meanwhile [OF rest] lessI by blast
    show ?thesis
      using lone_clock(1) by (simp add: builder_round_def slot_reads example_ids example_block records_one e w)
  qed
  then show "\<forall>blocks c c'. builder_runs ?T creator_argv ''main'' (?b 0) blocks c \<and> is_building ?T c = (True, c') \<longrightarrow>
      builder_round ?T creator_argv ''main'' (meanwhile ?T c') \<noteq> None"
    using first by blast
qed

end
