(* ===== verification/ExampleCache.thy ===== *)
theory ExampleCache
  imports ExampleIndex LedgerCache
begin

text \<open>
  The cache of ledger states at the example chain: a call on the store with the first block, one on
  the store after the second block was added and the slot of the clock moved on, and one on the
  store with the first block again, as after a reorganisation.
\<close>

definition grown_db :: dbh where
  "grown_db = rebuild_write example_env block_one [block_one, block_two] example_db"

definition example_chains :: "block_structure list set" where
  "example_chains = {[block_one], [block_one, block_two]}"

lemma example_holds: "holds_chain example_env example_db [block_one]"
proof -
  have "stored example_db (b_hash block_one) = blockJSON example_env block_one" using example_db_keys(1) by (simp add: stored_def)
  then have "entry example_env example_db block_one []" using example_db_keys(2) by (simp add: entry_def example_block_fields)
  moreover have "storable example_env block_one" using block_one_printable by (simp add: storable_def example_block_fields)
  ultimately show ?thesis by (simp add: holds_chain_def example_ids example_block_fields)
qed

lemma grown_holds: "holds_chain example_env grown_db [block_one, block_two]"
  unfolding grown_db_def
  using example_valid block_one_printable block_two_printable example_db_open
  by (intro rebuilt_holds) (simp_all add: example_ids example_block_fields)

lemma holds_at: "holds_chain E db chain \<Longrightarrow> holds_chain (E\<lparr>e_local_epoch := t\<rparr>) db chain"
proof -
  have p: "printable_record (E\<lparr>e_local_epoch := t\<rparr>) r = printable_record E r" "record_fields (E\<lparr>e_local_epoch := t\<rparr>) r = record_fields E r" for r
    by (simp_all add: printable_record_def printable_double_def record_fields_def)
  have "recordJSON (E\<lparr>e_local_epoch := t\<rparr>) = recordJSON E" by (rule ext) (simp add: recordJSON_def p)
  then have j: "blockJSON (E\<lparr>e_local_epoch := t\<rparr>) b = blockJSON E b" for b
    by (simp add: blockJSON_def)
  have "printable_block (E\<lparr>e_local_epoch := t\<rparr>) b = printable_block E b" for b
    by (simp add: printable_block_def plain_block_def records_fit_def p j)
  moreover have "indexed (E\<lparr>e_local_epoch := t\<rparr>) db bs = indexed E db bs" for bs by (induction bs) (simp_all add: entry_def j)
  ultimately show "holds_chain E db chain \<Longrightarrow> holds_chain (E\<lparr>e_local_epoch := t\<rparr>) db chain"
    by (simp add: holds_chain_def storable_def)
qed

definition example_calls :: "ledger_call list" where
  "example_calls = [(example_env, example_db, alice, -1), (example_env\<lparr>e_local_epoch := 1515\<rparr>, grown_db, alice, -1),
     (example_env, example_db, alice, -1), (example_env, None, alice, -1)]"

theorem cache_never_stale_witness:
  "build_calls example_calls [] = map (\<lambda>(E, db, w, stop). fst (build E db w stop [])) example_calls"
proof (rule cache_never_stale)
  show "hashes_tell example_chains"
    by (auto simp: hashes_tell_def example_chains_def example_block_fields text_simps)
  have "getFirstBlockId None < 0" by (simp add: getFirstBlockId_def read_id_def parseLongValue_def)
  moreover have "getLatestBlockId grown_db = 101" "getLatestBlockId example_db = 100"
    using grown_holds example_ids by (simp_all add: holds_chain_def example_block_fields)
  ultimately show "list_all (call_ok example_chains) example_calls"
    using example_holds grown_holds holds_at [OF grown_holds, of 1515]
    by (auto simp: example_calls_def call_ok_def reads_chain_def example_chains_def build_start_def Let_def example_block_fields)
qed

end
