(* ===== verification/ExampleQueue.thy ===== *)
theory ExampleQueue
  imports ExampleChain MempoolFacts
begin

text \<open>
  The properties of the queue of pending records at two records of the example chain, which
  wait in an empty database or in an empty file.
\<close>

lemma example_pending_records:
  assumes "r = issue_alice \<or> r = alice_pays_bob" and "db = None \<or> db = Some []"
  shows "queueable example_env db r" "NL \<notin> set (record_fields example_env r)"
proof -
  have p: "printable_record example_env r"
    using assms(1)
    by (elim disjE; simp add: printable_record_def printable_double_def plain_def text_simps lexical_example atof_one atof_zero
        in_long_def LONG_MAX_def LONG_MIN_def example_defs)
  have "getFirstBlockId db = -1"
    using assms(2) by (elim disjE; simp add: getFirstBlockId_def read_id_def db_text_def smap_simps parseLongValue_def)
  then have "\<not> recordExistsInAcceptedChain example_env db (r_hash r)" by (simp add: recordExistsInAcceptedChain_def)
  moreover have "pendingRecordLooksUsable example_env r"
    using assms(1) record_sizes
    by (elim disjE; simp add: pendingRecordLooksUsable_def isExpiredHeartbeatRecord_def) (simp_all add: example_defs text_simps)
  moreover have "r_hash r \<noteq> []" using assms(1) by (elim disjE; simp add: example_defs)
  ultimately show "queueable example_env db r" using p by (simp add: queueable_def still_pending_def)
  show "NL \<notin> set (record_fields example_env r)"
    using assms(1) by (elim disjE; simp add: record_fields_def jfield_def example_defs text_simps lexical_example show_long_digits)
qed

lemma empty_mempool: "mempool_ok E []" "pending E (Some [], []) = []"
proof -
  show ok: "mempool_ok E []"
    by (simp add: mempool_ok_def smap_simps mempool_records_def keys_with_prefix_def kv_keys_def)
  show "pending E (Some [], []) = []"
    using peek_database [OF ok] by (simp add: pending_def mempool_records_def keys_with_prefix_def kv_keys_def)
qed

text \<open>
  The issue waits, is added again without effect, the payment follows, both are drained, and the
  payment is added once more.
\<close>

definition example_ops :: "record_structure queue_op list" where
  "example_ops = [Add issue_alice, Add issue_alice, Add alice_pays_bob, Add issue_alice, Drain, Add alice_pays_bob]"

lemma example_ops_fifo:
  "run_ops (fifo_add r_hash) fifo_drain example_ops [] = ([[issue_alice, alice_pays_bob]], [alice_pays_bob])"
  by (simp add: example_ops_def fifo_add_def fifo_drain_def) (simp add: example_defs)

theorem queue_refines_fifo_witness:
  "map_prod id (pending example_env)
     (run_ops (enqueue example_env) (parseQueueRecords example_env) example_ops (Some [], [])) =
   ([[issue_alice, alice_pays_bob]], [alice_pays_bob])"
proof -
  have "\<forall>r \<in> added_records example_ops. queueable example_env (Some []) r"
    using example_pending_records(1) [of _ "Some []"] by (simp add: example_ops_def)
  moreover have "nextMempoolSequence [] + int (length example_ops) \<le> LONG_MAX"
    by (simp add: nextMempoolSequence_def smap_simps LONG_MAX_def example_ops_def)
  ultimately show ?thesis
    using queue_refines_fifo [OF empty_mempool(1), of example_ops example_env] by (simp add: empty_mempool example_ops_fifo)
qed

lemma queue_file_example:
  "map_prod id (pending example_env)
     (run_ops (enqueue example_env) (parseQueueRecords example_env) example_ops (None, [])) =
   ([[issue_alice, alice_pays_bob]], [alice_pays_bob])"
proof -
  have "\<forall>r \<in> added_records example_ops. on_a_line example_env r"
    using example_pending_records [of _ None] by (simp add: example_ops_def on_a_line_def)
  from queue_file_refines_fifo [OF this] show ?thesis by (simp add: example_ops_fifo)
qed

end
