(* ===== verification/ExampleCarry.thy ===== *)
theory ExampleCarry
  imports ExampleIndex ExampleQueue CarryForwardFacts
begin

text \<open>
  The properties of carry-forward records at two databases that hold the first example block
  and one block on top of it: a block far ahead, after which a carry-forward is due, and a
  block with a carry-forward record.
\<close>

section \<open>Databases of two blocks\<close>

definition on_top :: "block_structure \<Rightarrow> kvdb" where
  "on_top b =
     [(blockHashKey (b_hash block_one), blockJSON example_env block_one), (blockHashKey (b_hash b), blockJSON example_env b),
      (canonicalHashKey 100, b_hash block_one), (chainMetaKey ''first_block'', ''100''),
      (chainMetaKey ''latest_block'', show_long (b_number b)), (nextHashKey (b_hash block_one), b_hash b)]"

definition top_block :: "block_structure \<Rightarrow> bool" where
  "top_block b \<longleftrightarrow> storable example_env b \<and> childConnectsToParent b block_one \<and> b_hash block_one < b_hash b"

lemma block_one_storable: "storable example_env block_one"
  using block_one_printable by (simp add: storable_def example_block_fields)

lemma top_parsed: "storable example_env b \<Longrightarrow> parseBlockJson example_env (blockJSON example_env b) = [b]"
  by (simp add: parse_printed_block storable_def)

lemma on_top_sorted: "top_block b \<Longrightarrow> sm_inv (on_top b)"
  by (auto simp: sm_inv_def on_top_def top_block_def key_defs show_long_digits)

lemma on_top_text:
  assumes "top_block b"
  shows "db_text (on_top b) (blockHashKey (b_hash block_one)) = blockJSON example_env block_one"
    "db_text (on_top b) (blockHashKey (b_hash b)) = blockJSON example_env b"
    "db_text (on_top b) (canonicalHashKey 100) = b_hash block_one"
    "db_text (on_top b) (chainMetaKey ''first_block'') = ''100''"
    "db_text (on_top b) (chainMetaKey ''latest_block'') = show_long (b_number b)"
    "db_text (on_top b) (nextHashKey (b_hash block_one)) = b_hash b"
    "db_text (on_top b) (nextHashKey (b_hash b)) = []"
    "db_text (on_top b) (nextBlockKey n) = []" "n \<noteq> 100 \<Longrightarrow> db_text (on_top b) (canonicalHashKey n) = []"
    "db_text (on_top b) (legacyBlockKey n) = []"
proof -
  have neq: "b_hash block_one \<noteq> b_hash b" "b_hash b \<noteq> b_hash block_one" using assms by (auto simp: top_block_def)
  have keys: "n \<noteq> 100 \<Longrightarrow> show_long n \<noteq> show_long 100" using show_long_inj by blast
  show "db_text (on_top b) (blockHashKey (b_hash block_one)) = blockJSON example_env block_one"
    "db_text (on_top b) (blockHashKey (b_hash b)) = blockJSON example_env b"
    "db_text (on_top b) (canonicalHashKey 100) = b_hash block_one"
    "db_text (on_top b) (chainMetaKey ''first_block'') = ''100''"
    "db_text (on_top b) (chainMetaKey ''latest_block'') = show_long (b_number b)"
    "db_text (on_top b) (nextHashKey (b_hash block_one)) = b_hash b"
    "db_text (on_top b) (nextHashKey (b_hash b)) = []"
    "db_text (on_top b) (nextBlockKey n) = []" "n \<noteq> 100 \<Longrightarrow> db_text (on_top b) (canonicalHashKey n) = []"
    "db_text (on_top b) (legacyBlockKey n) = []"
    using neq keys by (simp_all add: on_top_def db_text_def sm_get_def key_defs)
qed

lemma on_top_ids:
  assumes "top_block b"
  shows "getFirstBlockId (Some (on_top b)) = 100" "getLatestBlockId (Some (on_top b)) = b_number b"
proof -
  have "parseLongValue ''100'' = Some 100"
    using parseLongValue_show [of 100] by (simp add: show_long_digits in_long_def LONG_MAX_def LONG_MIN_def)
  moreover have "in_long (b_number b)" using assms by (simp add: top_block_def storable_def printable_block_def plain_block_def)
  ultimately show "getFirstBlockId (Some (on_top b)) = 100" "getLatestBlockId (Some (on_top b)) = b_number b"
    using on_top_text(4,5) [OF assms] by (simp_all add: getFirstBlockId_def getLatestBlockId_def read_id_def Let_def)
qed

lemma on_top_hash:
  assumes "top_block b"
  shows "getBlockByHash example_env (Some (on_top b)) (b_hash block_one) = block_one"
    "getBlockByHash example_env (Some (on_top b)) (b_hash b) = b"
  using on_top_text(1,2) [OF assms] assms block_one_storable
  by (simp_all add: getBlockByHash_def top_parsed top_block_def first_block_def storable_def)

lemma foldl_keep: "\<forall>c \<in> set cs. \<not> P c \<Longrightarrow> foldl (\<lambda>x c. if P c \<and> Q c x then c else x) x cs = x"
  by (induction cs) auto

lemma on_top_blocks:
  assumes "top_block b"
  shows "getBlock example_env (Some (on_top b)) 100 = block_one"
    "getNextBlock example_env (Some (on_top b)) block_one = b" "b_number (getNextBlock example_env (Some (on_top b)) b) = -1"
proof -
  show one: "getBlock example_env (Some (on_top b)) 100 = block_one"
    using on_top_text(3) [OF assms] on_top_hash(1) [OF assms] block_one_storable by (simp add: getBlock_def storable_def Let_def)
  have "getNextBlockByHash example_env (Some (on_top b)) block_one = b"
    using on_top_text(6) [OF assms] on_top_hash(2) [OF assms] assms block_one_storable
    by (simp add: getNextBlockByHash_def top_block_def storable_def db_str_def Let_def)
  then show "getNextBlock example_env (Some (on_top b)) block_one = b" using assms by (simp add: getNextBlock_def top_block_def storable_def)
  have "set (getStoredBlocks example_env (Some (on_top b))) \<subseteq> {block_one, b}"
    using assms block_one_storable by (simp add: getStoredBlocks_def on_top_def is_block_key_def key_defs starts_with_def top_parsed top_block_def
        add_stored_def) auto
  moreover have "\<not> childConnectsToParent c b" if "c = block_one \<or> c = b" for c
    using that assms by (auto simp: childConnectsToParent_def top_block_def split: if_splits)
  ultimately have "foldl (\<lambda>next c. if childConnectsToParent c b \<and> preferBlockVariant c next then c else next) no_block
      (getStoredBlocks example_env (Some (on_top b))) = no_block"
    by (intro foldl_keep) blast
  then have "getNextBlockByHash example_env (Some (on_top b)) b = no_block"
    using on_top_text(7,8) [OF assms] assms by (simp add: getNextBlockByHash_def db_str_def parseLongValue_def Let_def)
  moreover have none: "getBlock example_env (Some (on_top b)) n = no_block" if "n \<noteq> 100" for n
    using on_top_text(9,10) [OF assms] that by (simp add: getBlock_def parse_no_text Let_def)
  have "b_number b \<noteq> 100" using assms child_number [of b block_one] by (simp add: top_block_def example_block_fields)
  then have "getNextBlockId example_env (Some (on_top b)) (b_number b) = -1"
    using on_top_text(8) [OF assms] none by (simp add: getNextBlockId_def parseLongValue_def no_block_def)
  ultimately show "b_number (getNextBlock example_env (Some (on_top b)) b) = -1"
    using none [of "-1"] by (simp add: getNextBlock_def no_block_def childConnectsToParent_def)
qed

lemma on_top_walk:
  assumes "top_block b"
  shows "\<not> past 100 \<Longrightarrow> \<not> past (b_number b) \<Longrightarrow> n = b_number b \<or> n < 0 \<Longrightarrow>
      walk_chain (getNextBlock example_env (Some (on_top b))) past n 0 block_one = [block_one, b]"
    "\<not> past 100 \<Longrightarrow> past (b_number b) \<Longrightarrow> n = b_number b \<Longrightarrow>
      walk_chain (getNextBlock example_env (Some (on_top b))) past n 0 block_one = [block_one]"
proof -
  have n: "100 < b_number b" using assms child_number [of b block_one] by (simp add: top_block_def example_block_fields)
  have top: "past (b_number b) \<Longrightarrow> walk_chain (getNextBlock example_env (Some (on_top b))) past n 1 b = []"
    "\<not> past (b_number b) \<Longrightarrow> walk_chain (getNextBlock example_env (Some (on_top b))) past n 1 b = [b]" for n
    using n on_top_blocks(3) [OF assms] by (subst walk_chain.simps; simp add: Let_def)+
  have one: "\<not> past 100 \<Longrightarrow> n \<noteq> 100 \<Longrightarrow> walk_chain (getNextBlock example_env (Some (on_top b))) past n 0 block_one =
      block_one # walk_chain (getNextBlock example_env (Some (on_top b))) past n 1 b" for n
    using n on_top_blocks(2) [OF assms] by (subst walk_chain.simps) (simp add: example_block_fields Let_def)
  show "\<not> past 100 \<Longrightarrow> \<not> past (b_number b) \<Longrightarrow> n = b_number b \<or> n < 0 \<Longrightarrow>
      walk_chain (getNextBlock example_env (Some (on_top b))) past n 0 block_one = [block_one, b]"
    "\<not> past 100 \<Longrightarrow> past (b_number b) \<Longrightarrow> n = b_number b \<Longrightarrow>
      walk_chain (getNextBlock example_env (Some (on_top b))) past n 0 block_one = [block_one]"
    using one [of n] top [of n] n by auto
qed

section \<open>A block with a carry-forward record\<close>

definition carry_bob :: record_structure where
  "carry_bob =
     \<lparr>r_network = ''main'', r_time = ''1'', r_type = CARRY_FORWARD, r_nonce = 0, r_amount = DFin 1, r_fee = DFin 0,
      r_sender = bob, r_recipient = bob, r_hash = ''ab'' @ zeros, r_signature = stamp, r_name = ''carry-forward'',
      r_value = carryForwardValue 100 5\<rparr>"

definition carry_block :: block_structure where
  "carry_block = block_two\<lparr>b_hash := ''ff'' @ zeros, b_records := [carry_bob]\<rparr>"

definition far_block :: block_structure where
  "far_block = block_two\<lparr>b_hash := ''ff'' @ zeros, b_number := 180000\<rparr>"

lemma far_digits: "show_long 7200 = ''7200''" "show_long 5 = ''5''" "show_long 3 = ''3''" "show_long 1500 = ''1500''"
  by (simp_all add: show_long_def show_nat.simps digit_char_def char_of_def bit_0)

lemma top_fields:
  "b_network far_block = ''main''" "b_time far_block = ''2''" "b_previous_id far_block = 100" "b_previous_hash far_block = ''8a'' @ zeros"
  "b_merkle_root far_block = ''00'' @ zeros" "b_creator far_block = alice" "b_signature far_block = stamp" "b_records far_block = []"
  "b_number far_block = 180000" "b_hash far_block = ''ff'' @ zeros"
  "b_network carry_block = ''main''" "b_time carry_block = ''2''" "b_previous_id carry_block = 100" "b_previous_hash carry_block = ''8a'' @ zeros"
  "b_merkle_root carry_block = ''00'' @ zeros" "b_creator carry_block = alice" "b_signature carry_block = stamp"
  "b_records carry_block = [carry_bob]" "b_number carry_block = 101" "b_hash carry_block = ''ff'' @ zeros"
  by (simp_all add: far_block_def carry_block_def block_two_def)

lemma top_connects: "childConnectsToParent far_block block_one" "childConnectsToParent carry_block block_one"
  by (simp_all add: childConnectsToParent_def top_fields example_block_fields)

lemma top_less: "b_hash block_one < ''ff'' @ zeros"
  by (simp add: example_block_fields)

lemma far_block_top: "top_block far_block"
  using top_connects top_less
  by (simp add: top_block_def storable_def printable_block_def plain_block_def plain_def records_fit_def text_simps in_long_def LONG_MAX_def
      LONG_MIN_def top_fields)

lemma carry_bob_printable: "printable_record example_env carry_bob"
  by (simp add: printable_record_def printable_double_def plain_def text_simps lexical_example atof_one atof_zero
      in_long_def LONG_MAX_def LONG_MIN_def carry_bob_def carryForwardValue_def far_digits show_long_digits)

lemma carry_block_top: "top_block carry_block"
proof -
  have "26 < length (record_fields example_env carry_bob)" by (simp add: record_fields_def jfield_def carry_bob_def text_simps)
  then have "records_fit example_env [carry_bob]" by (auto simp: records_fit_def)
  then show ?thesis
    using carry_bob_printable top_connects top_less
    by (simp add: top_block_def storable_def printable_block_def plain_block_def plain_def text_simps in_long_def LONG_MAX_def LONG_MIN_def
        top_fields)
qed

abbreviation carry_db :: dbh where "carry_db \<equiv> Some (on_top carry_block)"

lemma carry_records:
  "chain_records (checkpoint_chain example_env carry_db 101) =
     [(block_one, join_alice), (block_one, issue_alice), (block_one, alice_pays_bob), (carry_block, carry_bob)]"
proof -
  show ?thesis
    using on_top_walk(1) [OF carry_block_top, of "\<lambda>n. 101 < n" 101]
    by (simp add: checkpoint_chain_def on_top_ids [OF carry_block_top] on_top_blocks [OF carry_block_top] chain_records_def
        block_one_def [THEN arg_cong [where f = b_records]] top_fields)
qed

lemma carry_key: "carryForwardKey carry_bob = bob @ '':5''" "basic_carry_forward carry_bob 101"
proof -
  have "in_long 100" "in_long 5" by (simp_all add: in_long_def LONG_MAX_def LONG_MIN_def)
  note v = carry_forward_value [OF this]
  show "carryForwardKey carry_bob = bob @ '':5''" using v by (simp add: carryForwardKey_def carry_bob_def text_simps far_digits)
  show "basic_carry_forward carry_bob 101"
    using v by (simp add: basic_carry_forward_def carry_bob_def text_simps dlt_def)
qed

lemma carry_ordinary: "ordinary_chain 0 bob (chain_records (checkpoint_chain example_env carry_db 101))"
proof -
  have g: "grid_record 0 carry_bob" by (simp add: grid_record_def carry_bob_def exact_simps)
  have o: "ordinary bob r \<and> r_hash r \<noteq> []" if "r = join_alice \<or> r = issue_alice \<or> r = alice_pays_bob \<or> r = carry_bob" for r
    using that by (elim disjE; simp add: ordinary_def example_defs carry_bob_def alice_bob)
  have v: "volume [(block_one, join_alice), (block_one, issue_alice), (block_one, alice_pays_bob), (carry_block, carry_bob)] \<le> grid_cap 0"
    by (simp add: volume_def rec_volume_def grid_cap_def join_alice_def issue_alice_def alice_pays_bob_def carry_bob_def)
  have d: "distinct (map r_hash [join_alice, issue_alice, alice_pays_bob, carry_bob])" by (simp add: example_defs carry_bob_def)
  show ?thesis using g o example_grid v d unfolding ordinary_chain_def carry_records by simp
qed

lemma carry_rewards: "rewards bob {} (chain_records (checkpoint_chain example_env carry_db 101)) = 1"
proof -
  have "\<not> basic_carry_forward r n" if "r = join_alice \<or> r = issue_alice \<or> r = alice_pays_bob" for r n
    using that by (elim disjE; simp add: basic_carry_forward_def example_defs)
  then show ?thesis using carry_key by (simp add: carry_records top_fields) (simp add: carry_bob_def)
qed

theorem claimed_balance_witness:
  "\<exists>x. dval (balanceAtBlock example_env carry_db bob 101) = Some x \<and> dval (accountBalanceAtBlock example_env carry_db bob 101) = Some (x + 1)"
  using claimed_balance [OF carry_ordinary] carry_rewards on_top_ids(1) [OF carry_block_top] by (simp add: text_simps)

definition carry_again :: record_structure where
  "carry_again = carry_bob\<lparr>r_value := carryForwardValue 101 7, r_amount := accountBalanceAtBlock example_env carry_db bob 101\<rparr>"

theorem second_carry_forward_ignored_witness:
  "snapshotMatches example_env carry_db carry_again \<and> \<not> carryForwardSnapshotMatches example_env carry_db carry_again"
proof (rule second_carry_forward_ignored [OF carry_ordinary])
  have "in_long 101" "in_long 7" by (simp_all add: in_long_def LONG_MAX_def LONG_MIN_def)
  then show "parseCarryForwardValueLong (r_value carry_again) ''checkpoint'' = 101" using carry_forward_value by (simp add: carry_again_def)
qed (use carry_rewards on_top_ids(1) [OF carry_block_top] in \<open>simp_all add: text_simps carry_again_def carry_bob_def\<close>)

section \<open>A carry-forward that is due\<close>

definition due_record :: record_structure where
  "due_record = carry_forward_record example_env (\<lambda>h. stamp) bob 7200 0 (DFin 1)"

lemma due_fields:
  "r_network due_record = ''main''" "r_time due_record = ''1500''" "r_nonce due_record = 0" "r_fee due_record = DFin 0"
  "r_hash due_record = ''bd'' @ zeros" "r_signature due_record = stamp" "r_name due_record = ''carry-forward''"
  "r_type due_record = CARRY_FORWARD" "r_sender due_record = bob" "r_recipient due_record = bob" "r_amount due_record = DFin 1"
  "r_value due_record = ''checkpoint=7200;period=0;reward=1''"
proof -
  have e: "getEpoch example_env = 1500" by (simp add: getEpoch_def example_env_def)
  have h: "hex_byte 189 = ''bd''" by code_simp
  show "r_network due_record = ''main''" "r_time due_record = ''1500''" "r_nonce due_record = 0" "r_fee due_record = DFin 0"
    "r_signature due_record = stamp" "r_name due_record = ''carry-forward''"
    "r_type due_record = CARRY_FORWARD" "r_sender due_record = bob" "r_recipient due_record = bob" "r_amount due_record = DFin 1"
    "r_value due_record = ''checkpoint=7200;period=0;reward=1''"
    by (simp_all add: due_record_def carry_forward_record_def Let_def e far_digits carryForwardValue_def show_long_digits)
  show "r_hash due_record = ''bd'' @ zeros"
    by (simp add: due_record_def carry_forward_record_def Let_def getRecordHash_def e far_digits carryForwardValue_def show_long_digits
        lexical_example sha256_example text_simps h)
qed

abbreviation far_kv :: kvdb where "far_kv \<equiv> on_top far_block"

lemma far_mempool: "mempool_ok example_env far_kv" "mempool_records example_env far_kv = []" "nextMempoolSequence far_kv = 1"
proof -
  have none: "keys_with_prefix far_kv MEMPOOL_RECORD_PREFIX = []"
    unfolding keys_with_prefix_filter [OF on_top_sorted [OF far_block_top]]
    by (simp add: kv_keys_def on_top_def key_defs MEMPOOL_RECORD_PREFIX_def starts_with_def)
  then show r: "mempool_records example_env far_kv = []" by (simp add: mempool_records_def)
  have "sm_get far_kv (MEMPOOL_HASH_PREFIX @ h) = None" for h
    by (simp add: sm_get_def on_top_def key_defs MEMPOOL_HASH_PREFIX_def)
  then show "mempool_ok example_env far_kv" using none r on_top_sorted [OF far_block_top] by (simp add: mempool_ok_def)
  show "nextMempoolSequence far_kv = 1"
    by (simp add: nextMempoolSequence_def sm_get_def on_top_def key_defs MEMPOOL_SEQUENCE_KEY_def)
qed

lemma far_connected: "fst (getConnectedLatestBlockId example_env (Some far_kv)) = 180000"
  using on_top_walk(1) [OF far_block_top, of "\<lambda>n. False" "-1"]
  by (simp add: getConnectedLatestBlockId_def on_top_ids [OF far_block_top] on_top_blocks [OF far_block_top] top_fields Let_def)

text \<open>Everything that walks the chain sees the two blocks, also after the tip was noted.\<close>

definition noted :: kvdb where
  "noted = sm_put (chainMetaKey ''connected_latest'') (show_long 180000) far_kv"

lemma noted_reads:
  "getFirstBlockId (Some noted) = 100" "getLatestBlockId (Some noted) = 180000" "getBlock example_env (Some noted) 100 = block_one"
  "getNextBlock example_env (Some noted) = getNextBlock example_env (Some far_kv)"
proof -
  have c: "chain_part noted = chain_part far_kv" unfolding noted_def by (rule chain_part_put) (simp add: queue_key_def)
  show "getFirstBlockId (Some noted) = 100" "getLatestBlockId (Some noted) = 180000"
    using ids_chain_part [of noted] ids_chain_part [of far_kv] on_top_ids [OF far_block_top] by (simp_all add: c top_fields)
  show "getBlock example_env (Some noted) 100 = block_one"
    using block_chain_part [of example_env noted 100] block_chain_part [of example_env far_kv 100] on_top_blocks(1) [OF far_block_top]
    by (simp add: c)
  show "getNextBlock example_env (Some noted) = getNextBlock example_env (Some far_kv)"
    using next_chain_part [of example_env noted] next_chain_part [of example_env far_kv] by (simp add: c)
qed

lemma noted_walks:
  "walk_chain (getNextBlock example_env (Some far_kv)) (\<lambda>n. False) 180000 0 block_one = [block_one, far_block]"
  "walk_chain (getNextBlock example_env (Some far_kv)) (\<lambda>n. 7200 < n) 180000 0 block_one = [block_one]"
proof -
  show "walk_chain (getNextBlock example_env (Some far_kv)) (\<lambda>n. False) 180000 0 block_one = [block_one, far_block]"
    by (rule on_top_walk(1) [OF far_block_top]) (simp_all add: top_fields)
  show "walk_chain (getNextBlock example_env (Some far_kv)) (\<lambda>n. 7200 < n) 180000 0 block_one = [block_one]"
    by (rule on_top_walk(2) [OF far_block_top]) (simp_all add: top_fields)
qed

lemma noted_balance: "accountBalanceAtBlock example_env (Some noted) bob 7200 = DFin 1"
  by (simp add: accountBalanceAtBlock_def noted_reads noted_walks text_simps block_one_def [THEN arg_cong [where f = b_records]])
     (simp add: account_record_def basic_carry_forward_def example_defs alice_bob double_sums)

lemma noted_accepted: "\<not> acceptedCarryForwardExists example_env (Some noted) bob 0"
  by (simp add: acceptedCarryForwardExists_def noted_reads noted_walks text_simps top_fields
      block_one_def [THEN arg_cong [where f = b_records]]) (simp add: example_defs)

lemma due_queueable: "queueable example_env (Some noted) due_record" "queueable example_env (Some far_kv) due_record"
proof -
  have p: "printable_record example_env due_record"
    by (simp add: printable_record_def printable_double_def plain_def text_simps lexical_example atof_one atof_zero
        in_long_def LONG_MAX_def LONG_MIN_def due_fields)
  have "isRecordSizeValid example_env due_record"
    by (simp add: isRecordSizeValid_def recordSizeError_def recordJSON_def record_fields_def jfield_def
      due_fields far_digits show_long_digits text_simps lexical_example MAX_RECORD_NETWORK_BYTES_def MAX_RECORD_TIME_BYTES_def MAX_RECORD_NAME_BYTES_def
      MAX_RECORD_VALUE_BYTES_def MAX_RECORD_KEY_BYTES_def MAX_RECORD_HASH_BYTES_def MAX_RECORD_SIGNATURE_BYTES_def
      MAX_RECORD_JSON_BYTES_def slen_def)
  moreover have "\<not> recordExistsInAcceptedChain example_env (Some noted) (r_hash due_record)"
    by (simp add: recordExistsInAcceptedChain_def noted_reads noted_walks top_fields due_fields
      block_one_def [THEN arg_cong [where f = b_records]]) (simp add: example_defs)
  ultimately show q: "queueable example_env (Some noted) due_record"
    using p by (simp add: queueable_def still_pending_def pendingRecordLooksUsable_def isExpiredHeartbeatRecord_def due_fields text_simps)
  have c: "chain_part noted = chain_part far_kv" unfolding noted_def by (rule chain_part_put) (simp add: queue_key_def)
  then show "queueable example_env (Some far_kv) due_record" using q same_chain_pending [OF c, of example_env] by (simp add: queueable_def)
qed

lemma example_due:
  "\<exists>q'. queueCarryForwardIfDue example_env (\<lambda>h. stamp) ''k'' bob (Some far_kv, []) = (Some due_record, q')"
proof -
  have con: "getConnectedLatestBlockId example_env (Some far_kv) = (180000, Some noted)"
    using connected_snd [of far_kv example_env] far_connected on_top_ids(1) [OF far_block_top]
    by (cases "getConnectedLatestBlockId example_env (Some far_kv)") (simp add: noted_def)
  note tip = mempool_note [OF far_mempool(1), of "show_long 180000", folded noted_def]
  have peek: "pendingCarryForwardExists example_env bob 0 (Some noted, []) = (False, (Some noted, []))"
    using peek_database [OF tip(4)] tip(3) far_mempool(2) by (simp add: pendingCarryForwardExists_def)
  have p: "cdiv 7200 172800 = 0" by code_simp
  have "\<not> dle (DFin 1) (DFin 0)" by (simp add: dle_def)
  then show ?thesis
    using on_top_ids(1) [OF far_block_top] peek add_database [OF tip(4) due_queueable(1)] tip(3) far_mempool(2)
    by (simp add: queueCarryForwardIfDue_def con carryForwardCheckpointAgeBlocks_def carryForwardPeriodBlocks_def text_simps
        noted_accepted p noted_balance due_record_def [symmetric] Let_def)
qed

lemma far_in_long: "in_long (fst (getConnectedLatestBlockId example_env (Some far_kv)))"
  by (simp add: far_connected in_long_def LONG_MAX_def LONG_MIN_def)

theorem carry_forward_queued_once_witness:
  "\<exists>d'. queueCarryForwardIfDue example_env (\<lambda>h. stamp) ''k'' bob (Some far_kv, []) = (Some due_record, (Some d', [])) \<and>
     pending example_env (Some d', []) = [due_record] \<and>
     fst (queueCarryForwardIfDue (example_env\<lparr>e_local_epoch := 99999, e_time_offset := 7\<rparr>) (\<lambda>h. stamp) ''k'' bob (Some d', [])) = None"
proof -
  obtain q' where q': "queueCarryForwardIfDue example_env (\<lambda>h. stamp) ''k'' bob (Some far_kv, []) = (Some due_record, q')"
    using example_due by blast
  obtain v where v: "q' = enqueue example_env due_record (Some (sm_put (chainMetaKey ''connected_latest'') v far_kv), [])"
    by (rule queued_record [OF far_mempool(1) q'])
  define d1 where "d1 = sm_put (chainMetaKey ''connected_latest'') v far_kv"
  note note1 = mempool_note [OF far_mempool(1), of v, folded d1_def]
  have p: "pending example_env (Some far_kv, []) = []" using peek_database [OF far_mempool(1)] far_mempool(2) by (simp add: pending_def)
  have fits: "queueable example_env (Some d1) due_record" using due_queueable(2) by (simp add: queueable_def same_chain_pending [OF note1(1)])
  have next1: "nextMempoolSequence d1 < LONG_MAX" using note1(2) by (simp add: far_mempool LONG_MAX_def)
  have new: "r_hash due_record \<notin> r_hash ` set (mempool_records example_env d1)" using note1(3) far_mempool(2) by simp
  define d' where "d' = mempool_added example_env due_record d1"
  have e: "q' = (Some d', [])"
    using add_database [OF note1(4) fits] new by (simp add: v d1_def [symmetric] enqueue_def d'_def)
  have ok: "mempool_ok example_env d'" "chain_part d' = chain_part far_kv"
    using mempool_added_ok [OF note1(4) next1 fits new] note1(1) by (simp_all add: d'_def chain_part_added)
  note once = carry_forward_queued_once [OF far_mempool(1) _ far_in_long q' due_queueable(2), of "\<lambda>h. stamp" "''k''"]
  have "pending example_env (Some d', []) = [due_record]" using once e by (simp add: p far_mempool LONG_MAX_def)
  moreover from this have "fst (queueCarryForwardIfDue (example_env\<lparr>e_local_epoch := 99999, e_time_offset := 7\<rparr>) (\<lambda>h. stamp) ''k'' bob
      (Some d', [])) = None"
    using once ok by (simp add: p far_mempool LONG_MAX_def)
  ultimately show ?thesis using q' e by blast
qed

theorem carry_forward_valid_witness:
  "branch_rules False far_block branch_start due_record =
     Inr (branch_start\<lparr>br_cf_keys := {bob @ '':0''}, br_balances := [(bob, DFin 1)]\<rparr>)"
proof -
  obtain q' where q': "queueCarryForwardIfDue example_env (\<lambda>h. stamp) ''k'' bob (Some far_kv, []) = (Some due_record, q')"
    using example_due by blast
  have "cdiv 7200 172800 = 0" "\<not> dlt (DFin 1) (DFin 0)" by code_simp+
  then show ?thesis
    using carry_forward_valid [OF far_mempool(1) far_in_long q', of far_block False branch_start]
    by (simp add: far_connected top_fields due_fields show_long_digits branch_start_def credit_def sm_at_def sm_get_def CARRY_FORWARD_REWARD_def double_sums)
qed

end
