(* ===== verification/RateFacts.thy ===== *)
theory RateFacts
  imports ApiSafety
begin

text \<open>
  What the rate limiter of the announcements guarantees, and what it does not: a source gets at
  most twice its quota through within a window, and whoever fills its table locks everybody out.
\<close>

type_synonym buckets = "(string, api_rate_limit_bucket) smap"

text \<open>Hits: the time, the key of the bucket and the quota of that key.\<close>

type_synonym hit = "int \<times> string \<times> int"

fun rate_table :: "int \<Rightarrow> hit list \<Rightarrow> buckets \<Rightarrow> buckets" where
  "rate_table window [] b = b"
| "rate_table window ((now, key, quota) # hits) b = rate_table window hits (snd (rate_step now key quota window b))"

text \<open>How many hits of one key the limiter lets pass.\<close>

fun passed :: "int \<Rightarrow> string \<Rightarrow> hit list \<Rightarrow> buckets \<Rightarrow> int" where
  "passed window k [] b = 0"
| "passed window k ((now, key, quota) # hits) b =
     (if key = k \<and> \<not> fst (rate_step now key quota window b) then 1 else 0) +
     passed window k hits (snd (rate_step now key quota window b))"

section \<open>The quota of a key\<close>

lemma sm_inv_filter: "sm_inv m \<Longrightarrow> sm_inv (filter P m)"
  by (induction m) (auto simp: sm_inv_def)

lemma sm_get_filter:
  "sm_inv m \<Longrightarrow> sm_get (filter P m) k = (case sm_get m k of None \<Rightarrow> None | Some v \<Rightarrow> if P (k, v) then Some v else None)"
proof (induction m)
  case Nil
  then show ?case by (simp add: sm_get_def)
next
  case (Cons e m)
  have "sm_get m k = None" if "k = fst e"
    using Cons.prems that by (auto simp: sm_inv_def sm_get_def map_of_eq_None_iff)
  then show ?case using Cons by (cases e) (auto simp: sm_inv_def sm_get_def split: option.splits)
qed

lemma inv_live: "sm_inv b \<Longrightarrow> sm_inv (live_buckets now window b)"
  by (simp add: live_buckets_def sm_inv_filter)

lemma inv_rate_step: "sm_inv b \<Longrightarrow> sm_inv (snd (rate_step now key quota window b))"
  by (simp add: rate_step_def Let_def inv_live smap_simps)

text \<open>What is left of the quota of a key for the hits between \<open>T\<close> and \<open>T + window\<close>.\<close>

definition budget :: "int \<Rightarrow> string \<Rightarrow> int \<Rightarrow> buckets \<Rightarrow> int" where
  "budget T k quota b =
     (case sm_get b k of None \<Rightarrow> quota
      | Some c \<Rightarrow> (if T \<le> window_start c then 0 else quota) + max 0 (quota - bucket_count c))"

lemma budget_live:
  assumes "sm_inv b" and "0 < T" and "T \<le> now" and "now < T + window" and "0 \<le> quota"
  shows "budget T k quota (live_buckets now window b) \<le> budget T k quota b"
  using assms by (auto simp: budget_def live_buckets_def sm_get_filter expired_bucket_def split: option.split)

lemma budget_hit:
  assumes "0 < T" and "T \<le> now" and "now < T + window" and "0 \<le> quota"
  shows "(if bucket_count (hit_bucket now window (sm_at \<lparr>window_start = 0, bucket_count = 0\<rparr> b k)) \<le> quota then 1 else 0) +
    budget T k quota (sm_put k (hit_bucket now window (sm_at \<lparr>window_start = 0, bucket_count = 0\<rparr> b k)) b) \<le> budget T k quota b"
  using assms
  by (cases "sm_get b k") (auto simp: budget_def hit_bucket_def expired_bucket_def sm_at_def smap_simps Let_def)

lemma budget_step:
  assumes "sm_inv b" and "0 < T" and "T \<le> now" and "now < T + window" and "0 \<le> quota" and "key = k \<longrightarrow> q = quota"
  shows "(if key = k \<and> \<not> fst (rate_step now key q window b) then 1 else 0) +
    budget T k quota (snd (rate_step now key q window b)) \<le> budget T k quota b"
proof -
  let ?b = "live_buckets now window b"
  have "budget T k quota (sm_put key v ?b) = budget T k quota ?b" if "key \<noteq> k" for v
    using that by (simp add: budget_def smap_simps)
  then show ?thesis
    using budget_live [OF assms(1-5), of k] budget_hit [OF assms(2-5), of ?b k] assms(6)
    by (cases "key = k") (auto simp: rate_step_def Let_def split: if_splits)
qed

text \<open>
  C36. The rate limiter bounds a source to twice its quota: of the announcements of one source (one
  bucket key) within any stretch of time no longer than the window, at most twice the quota pass,
  whatever other sources do and whatever counts (none below zero) the table held before. The windows
  are counted from the first hit of a bucket, so a stretch may meet two of them.
\<close>

theorem rate_limit_holds:
  assumes "sm_inv b" and "0 \<le> bucket_count (sm_at \<lparr>window_start = 0, bucket_count = 0\<rparr> b k)" and "0 < T" and "0 \<le> quota"
    and "\<forall>(now, key, q) \<in> set hits. T \<le> now \<and> now < T + window \<and> (key = k \<longrightarrow> q = quota)"
  shows "passed window k hits b \<le> 2 * quota"
proof -
  have "passed window k hits b \<le> budget T k quota b"
    using assms(1, 5)
  proof (induction hits arbitrary: b)
    case Nil
    then show ?case using assms(4) by (auto simp: budget_def split: option.split)
  next
    case (Cons h hits)
    obtain now key q where h: "h = (now, key, q)" by (cases h)
    let ?b = "snd (rate_step now key q window b)"
    have "passed window k hits ?b \<le> budget T k quota ?b" using Cons by (simp add: inv_rate_step)
    then show ?case
      using budget_step [OF Cons.prems(1) assms(3) _ _ assms(4), of now window key k q] Cons.prems(2) by (simp add: h)
  qed
  also have "\<dots> \<le> 2 * quota"
    using assms(2, 4) by (auto simp: budget_def sm_at_def split: option.splits)
  finally show ?thesis .
qed

theorem rate_limit_holds_witness:
  "passed 60 ''block-announce:source:a'' (replicate 500 (1000, ''block-announce:source:a'', 80)) [] \<le> 160"
  using rate_limit_holds [of "[]" "''block-announce:source:a''" 1000 80 "replicate 500 (1000, ''block-announce:source:a'', 80)" 60]
  by (simp add: smap_simps)

section \<open>A full table\<close>

lemma length_put_new: "k \<notin> fst ` set m \<Longrightarrow> length (sm_put k v m) = Suc (length m)"
  by (induction k v m rule: sm_put.induct) auto

text \<open>A table of buckets whose windows all began at \<open>T\<close> or later.\<close>

definition opened_since :: "int \<Rightarrow> buckets \<Rightarrow> bool" where
  "opened_since T b \<longleftrightarrow> (\<forall>(k, c) \<in> set b. T \<le> window_start c)"

lemma opened_live:
  assumes "opened_since T b" and "0 < T" and "now < T + window"
  shows "live_buckets now window b = b"
  using assms by (auto simp: opened_since_def live_buckets_def expired_bucket_def intro!: filter_True)

lemma opened_put:
  assumes "opened_since T b" and "k \<notin> fst ` set b" and "T \<le> now"
  shows "opened_since T (sm_put k (hit_bucket now window (sm_at \<lparr>window_start = 0, bucket_count = 0\<rparr> b k)) b)"
proof -
  have "sm_get b k = None" using assms(2) by (simp add: sm_get_def map_of_eq_None_iff)
  then show ?thesis
    using assms set_sm_put [of k "hit_bucket now window (sm_at \<lparr>window_start = 0, bucket_count = 0\<rparr> b k)" b]
    by (auto simp: opened_since_def hit_bucket_def expired_bucket_def sm_at_def)
qed

text \<open>Hits with new keys within one window, as long as there is room: each one opens a bucket.\<close>

lemma table_filled:
  assumes "opened_since T b" and "0 < T" and "\<forall>(now, key, q) \<in> set hits. T \<le> now \<and> now < T + window"
    and "distinct (map (\<lambda>(now, key, q). key) hits)" and "(\<lambda>(now, key, q). key) ` set hits \<inter> fst ` set b = {}"
    and "int (length b + length hits) \<le> MAX_RATE_LIMIT_BUCKETS + 1"
  shows "length (rate_table window hits b) = length b + length hits \<and> opened_since T (rate_table window hits b)"
  using assms(1, 3-)
proof (induction hits arbitrary: b)
  case Nil
  then show ?case by simp
next
  case (Cons h hits)
  obtain now key q where h: "h = (now, key, q)" by (cases h)
  let ?c = "hit_bucket now window (sm_at \<lparr>window_start = 0, bucket_count = 0\<rparr> b key)"
  have new: "key \<notin> fst ` set b" and t: "T \<le> now" "now < T + window" using Cons.prems by (auto simp: h)
  have "\<not> too_many b" using Cons.prems(5) by (simp add: too_many_def)
  then have step: "snd (rate_step now key q window b) = sm_put key ?c b"
    using opened_live [OF Cons.prems(1) assms(2) t(2)] by (simp add: rate_step_def Let_def)
  have keys: "fst ` set (sm_put key ?c b) = insert key (fst ` set b)" using keys_sm_put [of key ?c b] by simp
  have "length (rate_table window hits (sm_put key ?c b)) = length (sm_put key ?c b) + length hits \<and>
      opened_since T (rate_table window hits (sm_put key ?c b))"
    using Cons.prems(2-5) keys
    by (intro Cons.IH opened_put [OF Cons.prems(1) new t(1)]) (auto simp: h length_put_new [OF new])
  then show ?case using length_put_new [OF new] by (simp add: h step)
qed

lemma full_refuses:
  assumes "opened_since T b" and "0 < T" and "now < T + window" and "too_many b"
  shows "rate_step now key q window b = (True, b)"
  using opened_live [OF assms(1-3)] assms(4) by (simp add: rate_step_def Let_def)

lemma full_stays:
  assumes "opened_since T b" and "0 < T" and "too_many b" and "\<forall>(now, key, q) \<in> set hits. now < T + window"
  shows "rate_table window hits b = b"
  using assms(4)
proof (induction hits)
  case (Cons h hits)
  obtain now key q where h: "h = (now, key, q)" by (cases h)
  show ?case using Cons full_refuses [OF assms(1, 2) _ assms(3), of now window key q] by (simp add: h)
qed simp

text \<open>
  Whoever fills the table locks everybody out: after more than 20000 hits with different
  keys within one window, every further hit within that window is refused, whatever its key and
  however high its quota, though the key may never have been seen before.
\<close>

theorem full_table_lockout:
  assumes "0 < T" and "\<forall>(now, key, q) \<in> set hits. T \<le> now \<and> now < T + window"
    and "distinct (map (\<lambda>(now, key, q). key) hits)" and "MAX_RATE_LIMIT_BUCKETS < int (length hits)"
    and "now < T + window"
  shows "fst (rate_step now key quota window (rate_table window hits []))"
proof -
  let ?n = "nat (MAX_RATE_LIMIT_BUCKETS + 1)"
  have n: "int ?n = MAX_RATE_LIMIT_BUCKETS + 1" by (simp add: MAX_RATE_LIMIT_BUCKETS_def)
  define b where "b = rate_table window (take ?n hits) []"
  have "length b = ?n \<and> opened_since T b"
    unfolding b_def using assms(2-4) n set_take_subset [of ?n hits]
      table_filled [of T "[]" "take ?n hits" window, OF _ assms(1)]
    by (auto simp: opened_since_def take_map [symmetric] intro: distinct_take)
  then have b: "too_many b" "opened_since T b" using n by (auto simp: too_many_def)
  have "rate_table window (xs @ ys) c = rate_table window ys (rate_table window xs c)" for xs ys c
    by (induction xs arbitrary: c) auto
  then have "rate_table window hits [] = rate_table window (drop ?n hits) b"
    unfolding b_def by (metis append_take_drop_id)
  moreover have "\<forall>(now, key, q) \<in> set (drop ?n hits). now < T + window" using assms(2) set_drop_subset [of ?n hits] by auto
  ultimately have "rate_table window hits [] = b" using full_stays [OF b(2) assms(1) b(1)] by simp
  then show ?thesis using full_refuses [OF b(2) assms(1, 5) b(1)] by simp
qed

theorem full_table_lockout_witness:
  "fst (rate_step 1010 ''block-announce:source:http://honest:8080'' 80 60
     (rate_table 60 (map (\<lambda>i. (1000, ''block-announce:hash:'' @ show_nat i, 12)) [0..<20001]) []))"
proof (rule full_table_lockout [of 1000])
  have "inj_on (\<lambda>i. ''block-announce:hash:'' @ show_nat i) (set [0..<20001])"
    by (rule inj_onI) (auto dest: show_nat_inj)
  then show "distinct (map (\<lambda>(now, key, q). key) (map (\<lambda>i. (1000, ''block-announce:hash:'' @ show_nat i, 12)) [0..<20001]))"
    by (simp only: map_map o_def prod.case distinct_map distinct_upt simp_thms)
qed (simp_all only: set_map set_upt length_map length_upt MAX_RATE_LIMIT_BUCKETS_def, auto)

end
