(* ===== verification/ApiForms.thy ===== *)
theory ApiForms
  imports ApiText
begin

text \<open>
  What clients write and the handlers read: URL-encoded texts and the values of a submitted form.
\<close>

section \<open>URL encoding\<close>

text \<open>
  The encodings of a text: a byte as it is, unless it is one of the characters with a meaning;
  a blank as a plus sign; any byte as a percent sign and two hexadecimal digits.
\<close>

inductive url_text :: "string \<Rightarrow> string \<Rightarrow> bool" where
  none: "url_text [] []"
| plain: "url_text e t \<Longrightarrow> c \<notin> set ''%+&'' \<Longrightarrow> url_text (c # e) (c # t)"
| blank: "url_text e t \<Longrightarrow> url_text (CHR ''+'' # e) (CHR '' '' # t)"
| byte: "url_text e t \<Longrightarrow> c_isxdigit a \<Longrightarrow> c_isxdigit b \<Longrightarrow> 16 * xdigit_val a + xdigit_val b = code c \<Longrightarrow>
     url_text (CHR ''%'' # a # b # e) (c # t)"

inductive_cases url_text_NilE: "url_text e []"
inductive_cases url_text_ConsE: "url_text e (c # t)"

lemma xdigit_code:
  assumes "c_isxdigit a"
  shows "48 \<le> code a \<and> code a \<le> 57 \<or> 65 \<le> code a \<and> code a \<le> 70 \<or> 97 \<le> code a \<and> code a \<le> 102"
proof (cases "c_isupper a")
  case True
  then have "nat (code a) + 32 < 256" by (auto simp: c_isupper_def)
  then have "code (c_tolower a) = code a + 32" using True by (simp add: c_tolower_def code_def c_isupper_def)
  then show ?thesis using assms by (auto simp: c_isxdigit_def c_isdigit_def)
next
  case False
  then show ?thesis using assms by (auto simp: c_isxdigit_def c_isdigit_def c_tolower_def)
qed

lemma read_hex_digits:
  assumes "c_isxdigit a" and "c_isxdigit b"
  shows "read_hex [a, b] = Some (16 * xdigit_val a + xdigit_val b)"
proof -
  have "\<not> c_isspace a" "a \<noteq> CHR ''-''" "a \<noteq> CHR ''+''" "b \<noteq> CHR ''x''" "b \<noteq> CHR ''X''"
    using xdigit_code [OF assms(1)] xdigit_code [OF assms(2)] by (auto simp: c_isspace_def code_def)
  moreover have "c_tolower b \<noteq> CHR ''x''"
    using assms(2) xdigit_code [OF assms(2)] by (auto simp: c_isxdigit_def code_def c_tolower_def c_isupper_def c_isdigit_def)
  ultimately show ?thesis
    using assms by (simp add: read_hex_def split_sign_def starts_with_def Let_def)
qed

lemma byte_char_code: "byte_char (code c) = c"
proof -
  have "code c mod 256 = code c" using nat_of_char_less_256 [of c] by (simp add: code_def)
  then show ?thesis by (simp add: byte_char_def code_def)
qed

lemma url_text_decode: "url_text e t \<Longrightarrow> url_decode e = Some t"
proof (induction rule: url_text.induct)
  case (byte e t a b c)
  then show ?case by (simp add: read_hex_digits byte_char_code)
qed simp_all

lemma url_text_no_amp: "url_text e t \<Longrightarrow> CHR ''&'' \<notin> set e"
proof (induction rule: url_text.induct)
  case (byte e t a b c)
  then show ?case using xdigit_code [of a] xdigit_code [of b] by (auto simp: code_def)
qed auto

text \<open>Every text has an encoding: all its bytes as percent signs and digits.\<close>

definition xdigit_char :: "nat \<Rightarrow> char" where
  "xdigit_char d = char_of (if d < 10 then 48 + d else 87 + d)"

definition url_encode :: "string \<Rightarrow> string" where
  "url_encode t = concat (map (\<lambda>c. [CHR ''%'', xdigit_char (of_char c div 16), xdigit_char (of_char c mod 16)]) t)"

lemma xdigit_char_val:
  assumes "d < 16"
  shows "c_isxdigit (xdigit_char d)" "xdigit_val (xdigit_char d) = int d"
  using assms
  by (auto simp: c_isxdigit_def xdigit_val_def xdigit_char_def c_isdigit_def c_tolower_def c_isupper_def code_def)

lemma url_encode_text: "url_text (url_encode t) t"
proof (induction t)
  case Nil
  then show ?case by (simp add: url_encode_def url_text.none)
next
  case (Cons c t)
  have d: "of_char c div 16 < (16 :: nat)" using nat_of_char_less_256 [of c] by (simp add: less_mult_imp_div_less)
  then have "16 * xdigit_val (xdigit_char (of_char c div 16)) + xdigit_val (xdigit_char (of_char c mod 16)) = code c"
    by (simp add: xdigit_char_val code_def zdiv_int zmod_int)
  then show ?case using url_text.byte [OF Cons] xdigit_char_val(1) d by (simp add: url_encode_def)
qed

section \<open>The values of a form\<close>

lemma find_amp: "CHR ''&'' \<notin> set e \<Longrightarrow> find_sub ''&'' (e @ rest) = map_option ((+) (length e)) (find_sub ''&'' rest)"
  by (induction e; cases "find_sub ''&'' rest") (auto simp: starts_with_def)

lemma up_to_amp_found:
  assumes "CHR ''&'' \<notin> set e" and "rest = [] \<or> (\<exists>r. rest = CHR ''&'' # r)"
  shows "up_to_amp (pre @ e @ rest) (length pre) = e"
  using assms by (auto simp: up_to_amp_def find_str_def find_amp substr_def starts_with_def)

text \<open>
  A submitted value arrives as it was meant: if the body of a POST request holds a field
  whose name the handler looks for (for the first time at that place), followed by any
  URL encoding of a text and by the end of the body or an ampersand, the handler reads exactly
  that text. The same decoder reads every encoding of a path.
\<close>

theorem form_value_roundtrip:
  assumes "q_method req = ''POST''" and "q_body req = pre @ key @ ''='' @ e @ rest"
    and "find_sub (key @ ''='') (q_body req) = Some (length pre)" and "url_text e t"
    and "rest = [] \<or> (\<exists>r. rest = CHR ''&'' # r)"
  shows "submitted_value req rp key = t \<and> url_decode e = Some t"
proof -
  have "up_to_amp ((pre @ key @ ''='') @ e @ rest) (length (pre @ key @ ''='')) = e"
    by (rule up_to_amp_found [OF url_text_no_amp [OF assms(4)] assms(5)])
  moreover have "q_body req \<noteq> []" by (simp add: assms(2))
  ultimately show ?thesis
    using assms(1, 3) url_text_decode [OF assms(4)] by (simp add: submitted_value_def Let_def form_url_decode_def) (simp add: assms(2))
qed

theorem form_value_roundtrip_witness:
  "submitted_value \<lparr>q_method = ''POST'', q_uri = ''/api/wallet/send'', q_body = ''recipient=a%26b+c&amount=5'', q_major = 1,
     q_minor = 0, q_headers = []\<rparr> ''/api/wallet/send'' ''recipient'' = ''a&b c'' \<and> url_decode ''a%26b+c'' = Some ''a&b c''"
proof (rule form_value_roundtrip [where pre = "[]" and rest = "''&amount=5''"])
  have "url_text ''+c'' '' c''" by (intro url_text.blank url_text.plain url_text.none) simp
  then have "url_text ''b+c'' ''b c''" by (rule url_text.plain) simp
  then have "url_text ''%26b+c'' ''&b c''"
    by (intro url_text.byte) (simp_all add: c_isxdigit_def c_isdigit_def xdigit_val_def code_def)
  then show "url_text ''a%26b+c'' ''a&b c''" by (rule url_text.plain) simp
qed (simp_all add: starts_with_def)

end
