(* ===== verification/ApiWalletFacts.thy ===== *)
theory ApiWalletFacts
  imports ApiFrame
begin

text \<open>
  What the requests of the wallet and of an exchange guarantee, and where they do not do what
  they mean to do.
\<close>

section \<open>Numbers end before an equals sign\<close>

abbreviation EQ :: char where "EQ \<equiv> CHR ''=''"

lemma in_dropWhile: "x \<in> set xs \<Longrightarrow> \<not> P x \<Longrightarrow> x \<in> set (dropWhile P xs)"
  by (induction xs) auto

lemma eq_classes [simp]:
  "\<not> c_isspace EQ" "\<not> c_isdigit EQ" "\<not> c_isxdigit EQ" "\<not> c_isalnum EQ" "c_tolower EQ = EQ"
  by (simp_all add: c_isspace_def c_isdigit_def c_isxdigit_def c_isalnum_def c_isupper_def c_islower_def c_tolower_def code_def)

lemma eq_split_sign: "EQ \<in> set s \<Longrightarrow> EQ \<in> set (snd (split_sign s))"
  by (cases s) (auto simp: split_sign_def)

text \<open>A prefix in lower case does not reach beyond an equals sign that it does not have.\<close>

lemma eq_after_prefix:
  assumes "EQ \<in> set b" and "starts_with (map c_tolower b) p" and "EQ \<notin> set p"
  shows "EQ \<in> set (drop (length p) b)"
proof -
  have "EQ \<notin> set (take (length p) b)"
  proof
    assume "EQ \<in> set (take (length p) b)"
    then have "EQ \<in> c_tolower ` set (take (length p) b)" by (metis eq_classes(5) imageI)
    then have "EQ \<in> set (take (length p) (map c_tolower b))" by (simp add: take_map)
    then show False using assms(2, 3) by (simp add: starts_with_def)
  qed
  then show ?thesis using assms(1) by (metis Un_iff append_take_drop_id set_append)
qed

lemma eq_mantissa:
  assumes "EQ \<in> set b" and "\<not> P EQ"
  shows "EQ \<in> set (snd (snd (split_mantissa P b)))"
proof (cases "dropWhile P b")
  case Nil
  then show ?thesis using in_dropWhile [of EQ b P] assms by simp
next
  case (Cons c t)
  then have "c = EQ \<or> EQ \<in> set t" using in_dropWhile [of EQ b P] assms by auto
  then show ?thesis using in_dropWhile [of EQ t P] assms(2) by (auto simp: split_mantissa_def Cons Let_def)
qed

lemma eq_exponent: "EQ \<in> set r \<Longrightarrow> e \<noteq> EQ \<Longrightarrow> EQ \<in> set (exponent_rest e r)"
  by (cases r) (auto simp: exponent_rest_def intro!: in_dropWhile eq_split_sign)

lemma eq_tail: "EQ \<in> set t \<Longrightarrow> starts_with t [c] \<Longrightarrow> c \<noteq> EQ \<Longrightarrow> EQ \<in> set (drop 1 t)"
  by (cases t) (auto simp: starts_with_def)

lemma eq_nan: "EQ \<in> set (drop 3 b) \<Longrightarrow> EQ \<in> set (nan_rest b)"
  unfolding nan_rest_def Let_def using eq_tail [of "drop 3 b" "CHR ''(''"]
  by (auto intro!: eq_tail [of _ "CHR '')''", unfolded One_nat_def] in_dropWhile)

lemma eq_strtod:
  assumes "EQ \<in> set (c_str text)"
  shows "strtod_rest text \<noteq> Some []"
proof -
  define b where "b = snd (split_sign (dropWhile c_isspace (c_str text)))"
  have b: "EQ \<in> set b" unfolding b_def by (intro eq_split_sign in_dropWhile assms) simp
  have m: "mantissa_rest P x c \<noteq> []" if "EQ \<in> set c" "\<not> P EQ" "x \<noteq> EQ" for P x c
    using eq_exponent [OF eq_mantissa [of c P] that(3)] that by (auto simp: mantissa_rest_def)
  have d: "starts_with (map c_tolower b) p \<Longrightarrow> EQ \<notin> set p \<Longrightarrow> EQ \<in> set (drop (length p) b)" for p
    using eq_after_prefix [OF b] by blast
  have "starts_with (map c_tolower b) ''infinity'' \<Longrightarrow> drop 8 b \<noteq> []" "starts_with (map c_tolower b) ''inf'' \<Longrightarrow> drop 3 b \<noteq> []"
    "starts_with (map c_tolower b) ''nan'' \<Longrightarrow> nan_rest b \<noteq> []"
    "starts_with (map c_tolower b) ''0x'' \<Longrightarrow> mantissa_rest c_isxdigit (CHR ''p'') (drop 2 b) \<noteq> []"
    using d [of "''infinity''"] d [of "''inf''"] d [of "''nan''"] d [of "''0x''"] eq_nan [of b] m [of "drop 2 b" c_isxdigit "CHR ''p''"]
    by (force simp: eval_nat_numeral)+
  then show ?thesis
    using m [OF b, of c_isdigit "CHR ''e''"] by (simp add: strtod_rest_def case_prod_beta Let_def flip: b_def)
qed

lemma no_fee: "EQ \<in> set (c_str text) \<Longrightarrow> parse_fee_amount text = None"
  using eq_strtod by (simp add: parse_fee_amount_def parse_amount_value_def)

section \<open>Requests without a fee\<close>

lemma status_json_reply [simp]: "rep_status (json_reply st text) = st"
  by (simp add: json_reply_def text_reply_def)

lemma submitted_whole_body:
  "q_method req = ''POST'' \<Longrightarrow> q_body req \<noteq> [] \<Longrightarrow> find_sub (key @ ''='') (q_body req) = None \<Longrightarrow>
   submitted_value req rp key = q_body req"
  by (simp add: submitted_value_def Let_def)

text \<open>
  A transfer that is posted as a form without a fee is always refused: the whole body is
  taken for the fee, which is no number. The default fee of the settings applies to requests
  whose values are in the query only. The same holds for the withdrawals of an exchange.
\<close>

theorem post_without_fee_refused:
  assumes "q_method req = ''POST''" and "EQ \<in> set (c_str (q_body req))"
    and "find_sub ''fee='' (q_body req) = None" and "find_sub (jkey ''fee'') (q_body req) = None"
  shows "rep_status (fst (send_request S req rp s)) \<in> {reply_not_found, reply_bad_request} \<and>
    rep_status (fst (withdraw_request S req rp s)) \<in> {reply_forbidden, reply_unauthorized, reply_not_found, reply_bad_request}"
proof -
  have body: "q_body req \<noteq> []" using assms(2) by (auto simp: c_str_def)
  then have "submitted_value req rp ''fee'' = q_body req" "submitted_value_any req rp ''fee'' = q_body req"
    using submitted_whole_body [of req "''fee''"] assms by (simp_all add: submitted_value_any_def)
  then have fee: "requested_fee S (submitted_value req rp ''fee'') = None" "requested_fee S (submitted_value_any req rp ''fee'') = None"
    using body no_fee [OF assms(2)] by (simp_all add: requested_fee_def)
  show ?thesis
    by (auto simp: send_request_def withdraw_request_def withdraw_funds_def fee Let_def case_prod_beta split: option.split)
qed

theorem post_without_fee_refused_witness:
  "\<forall>S s. rep_status (fst (send_request S \<lparr>q_method = ''POST'', q_uri = ''/api/wallet/send'', q_body = ''recipient=abc&amount=5'',
       q_major = 1, q_minor = 0, q_headers = []\<rparr> ''/api/wallet/send'' s)) \<in> {reply_not_found, reply_bad_request}"
proof (intro allI)
  fix S s
  let ?req = "\<lparr>q_method = ''POST'', q_uri = ''/api/wallet/send'', q_body = ''recipient=abc&amount=5'',
    q_major = 1, q_minor = 0, q_headers = []\<rparr>"
  show "rep_status (fst (send_request S ?req ''/api/wallet/send'' s)) \<in> {reply_not_found, reply_bad_request}"
    using post_without_fee_refused [of ?req S "''/api/wallet/send''" s] by (simp add: c_str_def starts_with_def jkey_def)
qed

section \<open>Amounts that are no numbers\<close>

text \<open>
  \<open>nan\<close> is an amount: it is read, it is not below zero, and no balance is below it, so that the
  request goes on to make, queue and broadcast the transfer.
\<close>

lemma nan_amount: "parse_amount_value ''nan'' = Some DNaN"
  by (simp add: parse_amount_value_def strtod_rest_def nan_rest_def atof_def split_sign_def c_isspace_def code_def c_str_def
      c_tolower_def c_isupper_def starts_with_def Let_def)

end
