(* ===== verification/Base64.thy ===== *)
theory Base64
  imports Prelude "HOL-Library.Word"
begin

unbundle bit_operations_syntax

text \<open>
  \<open>src/src/base64.cpp\<close>: the encoding of bytes in groups of six bits. Bytes are words of eight
  bits, so sums and shifts are those of \<open>BYTE\<close>. The counters of the loops are the number of
  bytes or characters of the group that is being filled, so the loops are recursions over
  groups of three bytes and of four characters.
\<close>

section \<open>Encoding and decoding\<close>

definition base64_chars :: string where
  "base64_chars = ''ABCDEFGHIJKLMNOPQRSTUVWXYZabcdefghijklmnopqrstuvwxyz0123456789+/''"

definition is_base64 :: "char \<Rightarrow> bool" where
  "is_base64 c \<longleftrightarrow> c_isalnum c \<or> c = CHR ''+'' \<or> c = CHR ''/''"

definition group4 :: "8 word \<Rightarrow> 8 word \<Rightarrow> 8 word \<Rightarrow> 8 word list" where
  "group4 a b c =
     [drop_bit 2 (a AND 0xfc), push_bit 4 (a AND 0x03) + drop_bit 4 (b AND 0xf0),
      push_bit 2 (b AND 0x0f) + drop_bit 6 (c AND 0xc0), c AND 0x3f]"

definition base64_char :: "8 word \<Rightarrow> char" where
  "base64_char w = base64_chars ! unat w"

fun base64_encode :: "8 word list \<Rightarrow> string" where
  "base64_encode (a # b # c # buf) = map base64_char (group4 a b c) @ base64_encode buf"
| "base64_encode [a, b] = map base64_char (take 3 (group4 a b 0)) @ ''=''"
| "base64_encode [a] = map base64_char (take 2 (group4 a 0 0)) @ ''==''"
| "base64_encode [] = []"

text \<open>\<open>base64_chars.find\<close>, cut to a byte: a character that is not there gives 255.\<close>

definition base64_find :: "char \<Rightarrow> 8 word" where
  "base64_find c = (case find_sub [c] base64_chars of None \<Rightarrow> 255 | Some n \<Rightarrow> word_of_nat n)"

definition group3 :: "8 word \<Rightarrow> 8 word \<Rightarrow> 8 word \<Rightarrow> 8 word \<Rightarrow> 8 word list" where
  "group3 x y z w =
     [push_bit 2 x + drop_bit 4 (y AND 0x30), push_bit 4 (y AND 0xf) + drop_bit 2 (z AND 0x3c), push_bit 6 (z AND 0x3) + w]"

fun decode_groups :: "char list \<Rightarrow> 8 word list" where
  "decode_groups (x # y # z # w # cs) = group3 (base64_find x) (base64_find y) (base64_find z) (base64_find w) @ decode_groups cs"
| "decode_groups [x, y, z] = take 2 (group3 (base64_find x) (base64_find y) (base64_find z) (base64_find (CHR 0x00)))"
| "decode_groups [x, y] = take 1 (group3 (base64_find x) (base64_find y) (base64_find (CHR 0x00)) (base64_find (CHR 0x00)))"
| "decode_groups [x] = take 0 (group3 (base64_find x) (base64_find (CHR 0x00)) (base64_find (CHR 0x00)) (base64_find (CHR 0x00)))"
| "decode_groups [] = []"

definition base64_decode :: "string \<Rightarrow> 8 word list" where
  "base64_decode s = decode_groups (takeWhile (\<lambda>c. c \<noteq> CHR ''='' \<and> is_base64 c) s)"

section \<open>Decoding what was encoded\<close>

lemma byte_eqI:
  fixes x y :: "8 word"
  assumes "bit x 0 = bit y 0" "bit x 1 = bit y 1" "bit x 2 = bit y 2" "bit x 3 = bit y 3"
    "bit x 4 = bit y 4" "bit x 5 = bit y 5" "bit x 6 = bit y 6" "bit x 7 = bit y 7"
  shows "x = y"
proof (rule bit_word_eqI)
  fix n assume "n < LENGTH(8)"
  then have "n \<in> {0, 1, 2, 3, 4, 5, 6, 7}" by auto
  then show "bit x n = bit y n" using assms by auto
qed

text \<open>The parts that are added have no bit in common.\<close>

lemma group4_or:
  "push_bit 4 (a AND 0x03) + drop_bit 4 (b AND 0xf0) = (push_bit 4 (a AND 0x03) OR drop_bit 4 (b AND 0xf0) :: 8 word)"
  "push_bit 2 (b AND 0x0f) + drop_bit 6 (c AND 0xc0) = (push_bit 2 (b AND 0x0f) OR drop_bit 6 (c AND 0xc0) :: 8 word)"
  by (rule disjunctive_add_eq_or, rule byte_eqI; simp add: bit_simps)+

lemma group3_or:
  fixes x y z w :: "8 word"
  assumes "drop_bit 6 w = 0"
  shows "push_bit 2 x + drop_bit 4 (y AND 0x30) = push_bit 2 x OR drop_bit 4 (y AND 0x30)"
    "push_bit 4 (y AND 0xf) + drop_bit 2 (z AND 0x3c) = push_bit 4 (y AND 0xf) OR drop_bit 2 (z AND 0x3c)"
    "push_bit 6 (z AND 0x3) + w = push_bit 6 (z AND 0x3) OR w"
proof -
  show "push_bit 2 x + drop_bit 4 (y AND 0x30) = push_bit 2 x OR drop_bit 4 (y AND 0x30)"
    "push_bit 4 (y AND 0xf) + drop_bit 2 (z AND 0x3c) = push_bit 4 (y AND 0xf) OR drop_bit 2 (z AND 0x3c)"
    by (rule disjunctive_add_eq_or, rule byte_eqI; simp add: bit_simps)+
  have "bit (drop_bit 6 w) 0 = False" "bit (drop_bit 6 w) 1 = False" using assms by simp_all
  then show "push_bit 6 (z AND 0x3) + w = push_bit 6 (z AND 0x3) OR w"
    by (intro disjunctive_add_eq_or byte_eqI) (simp_all add: bit_simps)
qed

lemma group3_group4:
  assumes "group4 a b c = [x, y, z, w]"
  shows "group3 x y z w = [a, b, c]" "take 2 (group3 x y z v) = [a, b]" "take 1 (group3 x y u v) = [a]"
proof -
  have w: "drop_bit 6 (c AND 0x3f) = (0::8 word)" by (rule byte_eqI) (simp_all add: bit_simps)
  have x: "x = drop_bit 2 (a AND 0xfc)" and y: "y = push_bit 4 (a AND 0x03) OR drop_bit 4 (b AND 0xf0)"
    and z: "z = push_bit 2 (b AND 0x0f) OR drop_bit 6 (c AND 0xc0)" and wc: "w = c AND 0x3f"
    using assms unfolding group4_def group4_or by blast+
  have 1: "push_bit 2 x + drop_bit 4 (y AND 0x30) = a"
    unfolding group3_or(1) [OF w] x y by (rule byte_eqI; simp add: bit_simps)
  have 2: "push_bit 4 (y AND 0xf) + drop_bit 2 (z AND 0x3c) = b"
    unfolding group3_or(2) [OF w] y z by (rule byte_eqI; simp add: bit_simps)
  have 3: "push_bit 6 (z AND 0x3) + w = c"
    unfolding wc group3_or(3) [OF w] z by (rule byte_eqI; simp add: bit_simps)
  show "group3 x y z w = [a, b, c]" "take 2 (group3 x y z v) = [a, b]" "take 1 (group3 x y u v) = [a]"
    using 1 2 3 by (simp_all add: group3_def)
qed

lemma group4_less: "x \<in> set (group4 a b c) \<Longrightarrow> unat x < 64"
proof -
  assume "x \<in> set (group4 a b c)"
  then have "x = drop_bit 2 (a AND 0xfc) \<or> x = push_bit 4 (a AND 0x03) OR drop_bit 4 (b AND 0xf0) \<or>
      x = push_bit 2 (b AND 0x0f) OR drop_bit 6 (c AND 0xc0) \<or> x = c AND 0x3f"
    unfolding group4_def group4_or by simp
  then have "take_bit 6 x = x" by (elim disjE) (simp only:, rule byte_eqI; simp add: bit_simps)+
  then have "unat x = take_bit 6 (unat x)" by (metis unsigned_take_bit_eq)
  then show "unat x < 64" using take_bit_nat_less_exp [of 6 "unat x"] by simp
qed

lemma base64_alphabet: "n < 64 \<Longrightarrow> find_sub [base64_chars ! n] base64_chars = Some n \<and> is_base64 (base64_chars ! n) \<and> base64_chars ! n \<noteq> CHR ''=''"
proof -
  have "\<forall>n \<in> set [0..<64]. find_sub [base64_chars ! n] base64_chars = Some n \<and> is_base64 (base64_chars ! n) \<and> base64_chars ! n \<noteq> CHR ''=''"
    by code_simp
  then show "n < 64 \<Longrightarrow> find_sub [base64_chars ! n] base64_chars = Some n \<and> is_base64 (base64_chars ! n) \<and> base64_chars ! n \<noteq> CHR ''=''" by simp
qed

lemma base64_char_find:
  assumes "x \<in> set (group4 a b c)"
  shows "base64_find (base64_char x) = x" "is_base64 (base64_char x)" "base64_char x \<noteq> CHR ''=''"
  using base64_alphabet [OF group4_less [OF assms]] by (simp_all add: base64_find_def base64_char_def)

lemma group4_list: "\<exists>x y z w. group4 a b c = [x, y, z, w]"
  by (simp add: group4_def)

lemma decode_encode: "decode_groups (takeWhile (\<lambda>c. c \<noteq> CHR ''='' \<and> is_base64 c) (base64_encode bs)) = bs"
proof (induction bs rule: base64_encode.induct)
  case (1 a b c buf)
  obtain x y z w where g: "group4 a b c = [x, y, z, w]" using group4_list by blast
  have "v \<in> {x, y, z, w} \<Longrightarrow> base64_find (base64_char v) = v \<and> is_base64 (base64_char v) \<and> base64_char v \<noteq> CHR ''=''" for v
    using base64_char_find [of v a b c] by (auto simp: g)
  then show ?case using 1 group3_group4(1) [OF g] by (simp add: g)
next
  case (2 a b)
  obtain x y z w where g: "group4 a b 0 = [x, y, z, w]" using group4_list by blast
  have "v \<in> {x, y, z} \<Longrightarrow> base64_find (base64_char v) = v \<and> is_base64 (base64_char v) \<and> base64_char v \<noteq> CHR ''=''" for v
    using base64_char_find [of v a b 0] by (auto simp: g)
  then show ?case using group3_group4(2) [OF g] by (simp add: g)
next
  case (3 a)
  obtain x y z w where g: "group4 a 0 0 = [x, y, z, w]" using group4_list by blast
  have "v \<in> {x, y} \<Longrightarrow> base64_find (base64_char v) = v \<and> is_base64 (base64_char v) \<and> base64_char v \<noteq> CHR ''=''" for v
    using base64_char_find [of v a 0 0] by (auto simp: g)
  then show ?case using group3_group4(3) [OF g] by (simp add: g)
qed simp

text \<open>
  Base64 loses nothing: decoding the encoding of any sequence of bytes gives the sequence.
\<close>

theorem base64_roundtrip: "base64_decode (base64_encode bs) = bs"
  by (simp add: base64_decode_def decode_encode)

end
