(* ===== verification/Spec2Isabelle.thy ===== *)
theory Spec2Isabelle
  imports ExampleBuilder ExampleCache ExampleQueue ExampleCarry RateFacts ApiForms ApiWalletFacts Base64
begin

text \<open>
  \<^bold>\<open>A verification development of the Safire node.\<close>

  Safire is a peer-to-peer ledger. A node keeps blocks of signed records in a LevelDB database,
  computes from the connected chain who is a member, who may create the next block and what each
  account owns, collects records for the next block, downloads blocks from its peers and answers
  requests of wallets and peers over HTTP. The development follows the C++ sources of the node
  under \<open>src/src\<close>, one theory per component.

  \<^bold>\<open>Parts and how they interact.\<close> \<open>Records\<close> holds the data (\<open>functions/functions.h\<close>), their
  hashes and their JSON text (\<open>functions/functions.cpp\<close>, \<open>ecdsacrypto.cpp\<close>); \<open>JsonFormat\<close> reads
  that text back. \<open>KvStore\<close> is the interface to LevelDB, \<open>BlockStore\<close> and \<open>BlockIndex\<close> the block
  database on top of it (\<open>blockdb.cpp\<close>): lookups by hash and number, the walk along the connected
  chain, \<open>AddBlock\<close>, the search for the best chain and the rebuilding of its index.
  \<open>LedgerState\<close> computes members, names, balances and nonces from the connected chain
  (\<open>functions/ledgerstate.cpp\<close>) and \<open>Selector\<close> the creator of a block from them
  (\<open>functions/selector.cpp\<close>). Two validators judge blocks (\<open>functions/chainvalidator.cpp\<close>):
  \<open>ChainValidator\<close> a whole branch, \<open>StorageValidator\<close> one block against its stored parent.
  \<open>Mempool\<close> is the queue of pending records, \<open>BlockBuilder\<close> makes blocks of it and
  \<open>BuilderThread\<close> is the thread that decides when (\<open>functions/blockbuilder.cpp\<close>), \<open>CarryForward\<close> the periodic claims of
  \<open>carryforward.cpp\<close>. \<open>PeerTable\<close>, \<open>PeerClient\<close> and \<open>PeerSync\<close> are
  \<open>network/localpeerclient.cpp\<close>: the table of peers, announcing and gossip, the download of
  blocks. \<open>Wallet\<close>, \<open>Base64\<close>, \<open>NetworkConfig\<close> and \<open>RequestParser\<close> stand by themselves
  (\<open>wallet.cpp\<close>, \<open>base64.cpp\<close>, \<open>networkconfig.h\<close>, \<open>network/request_parser.cpp\<close>).

  The HTTP interface (\<open>network/connection.cpp\<close>, \<open>reply.cpp\<close>, \<open>request_handler.cpp\<close>) is on top of all
  of them. \<open>HttpServer\<close> collects a request from the pieces that arrive and prints replies;
  \<open>ApiText\<close> decodes what clients submit and prints JSON; \<open>Daemon\<close> is the state of the whole process
  (node, queue, wallet files, rate limiter, flags of the background downloads); \<open>ApiChain\<close>,
  \<open>ApiStatus\<close>, \<open>ApiExplorer\<close>, \<open>ApiWallet\<close>, \<open>ApiWalletStatus\<close> and \<open>ApiBlocks\<close> hold the handlers, one
  definition each, and \<open>ApiRouter\<close> the order in which \<open>handle_request\<close> tries them, together with
  the process over time: a sequence of requests and of steps of background work.

  The command line (\<open>cli.cpp\<close>, \<open>guilauncher.h\<close>) works on the same process. \<open>UserIndex\<close> is the index
  of users (\<open>userdb.cpp\<close>) and \<open>LegacyScan\<close> the scan of the chain that fills it
  (\<open>CFunctions::scanChain\<close>), which most commands begin with. \<open>ConsoleText\<close> reads lines and words and
  prints records, \<open>ConsoleLists\<close> holds the lists and diagnostics, \<open>Console\<close> and \<open>ConsoleNet\<close> the
  commands, one definition each, and \<open>ConsoleLoop\<close> the order in which they are tried and the loop of
  \<open>processUserInput\<close>.

  \<^bold>\<open>How state and effects are modelled.\<close> Structures are records, enumerations datatypes. The
  database handle is \<open>kvdb option\<close> (\<open>None\<close>: the database could not be opened), a map ordered by its
  keys because the code iterates over it. Functions that change state return the new state; an
  exception that leaves a function is the value \<open>None\<close>. Doubles are exact rationals rounded as
  IEEE 754 binary64 rounds them, with infinities, not-a-number and the negative zero (\<open>Binary64\<close>);
  \<open>long\<close> is \<open>int\<close> with the clamping of \<open>strtol\<close>, the selection seed a 64 bit word. SHA-256, the
  elliptic curve, \<open>boost::lexical_cast\<close> of doubles, the clock and the text of \<open>safire.conf\<close> are
  the parameters \<open>env\<close>. What a peer answers, the clock and the moment of \<open>stop\<close> are functions of
  a counter of events in the record \<open>world\<close>: nothing is assumed about the answers, and the same
  request may be answered differently each time. The thread of the block builder runs beside others
  (the download thread, the HTTP server, the command line): what they do to the process is the record
  \<open>others\<close>, an arbitrary function applied between the steps of the builder, and every reading of the
  clock is an event of its own. The requests of the API and the commands of the command line are taken
  one after the other, a background download as one step between them. Version numbers of requests
  and scores of peers are kept in an \<open>int\<close> by the code and wrap around at 32 bits here.

  \<^bold>\<open>What the lemmas show.\<close> \<open>ChainFacts\<close>, \<open>ChainMoney\<close>: what a validated branch guarantees (authentic
  blocks and records, links, creators, unique names, nonces in sequence, records once, no
  overdraft). \<open>LedgerFacts\<close>, \<open>LedgerMoney\<close>: conservation of money and exact balances for amounts on a
  grid, unique names, and that ledger and validator agree on chains without carry-forward records.
  \<open>LedgerCache\<close>: the cache of built states is never stale while the store changes, and the case of an
  empty slot, in which it is. \<open>ClockFree\<close>: what is read from the store does not depend on the clock. \<open>IndexFacts\<close>, \<open>IndexWalk\<close>,
  \<open>BestChain\<close>, \<open>StoreGrowth\<close>: \<open>AddBlock\<close> stores authentic blocks only and never loses one; a
  rebuilt index is walked block by block; the candidate is a longest stored chain and what is kept
  of it the longest valid prefix. \<open>MempoolFacts\<close>: over any sequence of additions and drains the queue in
  the database is a first-in first-out queue that takes no duplicates. \<open>CarryForwardFacts\<close>: the claimed
  balance is the ledger's plus the rewards, and no second claim is queued while one waits. \<open>SyncFacts\<close>, \<open>SyncBounds\<close>: whatever a peer answers, a download keeps the store sound and
  ends. \<open>PeerFacts\<close>, \<open>PeerGate\<close>: the table of peers is well formed (its scores
  where those of \<open>peers.dat\<close> were in range), blocks are created only at a tip
  that agrees with the best peer. \<open>ApiFrame\<close>, \<open>ApiSafety\<close>: what every request and every background
  step keeps (stored blocks, at most one background download, a bounded table of buckets).
  \<open>ApiPeers\<close>: two nodes, one asking with the peer client and one answering with the handlers, agree
  on the chain and on the status. \<open>RateFacts\<close>: the rate limiter lets at most twice the quota pass within the length
  of a window, and when it locks all clients out. \<open>ApiForms\<close>, \<open>ApiWalletFacts\<close>: values of submitted forms, and where sending money goes
  wrong. \<open>ConsoleFrame\<close>, \<open>ConsoleFacts\<close>: what every command keeps, that commands from a pipe come to
  an end and that a terminal that hangs up does not. \<open>ConsoleSend\<close>: the copies of the functions for
  transfers in \<open>cli.cpp\<close> and \<open>request_handler.cpp\<close> agree, and the command \<open>send\<close> is its scan of
  the chain followed by what the request does; setting the fee disables parts of the API. \<open>BuilderFrame\<close>, \<open>BuilderFacts\<close>: the
  builder's thread hands out a block only with leave and on top of the tip it read, never two for
  one slot, and ends when it is told to, whatever the other threads do; if they change the chain in
  between, number and hash of the previous block may part (\<open>ExampleBuilder\<close>). \<open>UserIndex\<close>: a stored user is read back.
  \<open>JsonFormat\<close>, \<open>JsonLimits\<close>, \<open>NetworkConfig\<close>, \<open>Base64\<close>, \<open>Wallet\<close>,
  \<open>RequestParser\<close>: round trips and refinements of the file formats. The theories \<open>Example...\<close>
  evaluate everything on one small chain and hold the witnesses.

  \<^bold>\<open>Interfaces.\<close> \<open>KvStore\<close> states the laws of the database as a locale and interprets it on the
  ordered map; \<open>NameRegistry\<close> the laws of claiming a name, interpreted on the members of the ledger,
  of the validator and of the command line; \<open>SyncFacts\<close> what a step of a download has to keep, interpreted on the
  growth of the store, on the table of peers and, in \<open>BuilderFrame\<close>, on the passing of time;
  \<open>PeerFacts\<close> what an operation on the table has to keep; \<open>MempoolFacts\<close> the laws by which a queue
  simulates a first-in first-out queue over any operations, interpreted on the database and on the
  queue file; \<open>ApiFrame\<close> what
  the primitive steps of the handlers have to keep for a relation to hold over every request, in
  three locales of which each extends the one before, interpreted in \<open>ApiSafety\<close> on the growth of
  the store, the job table and the buckets; \<open>ConsoleFrame\<close> what the steps of commands have to keep,
  with a sublocale of \<open>ApiFrame\<close> for the steps they share, interpreted in \<open>ConsoleFacts\<close> on the growth
  of the store and on what is left of the input.

  \<^bold>\<open>Bounds.\<close> A walk along the chain visits at most 100000 blocks, a rebuild considers chains of at
  most 20000 blocks, checkpoints are 2000 blocks deep and are followed for at most 20000 blocks: the
  guards of the code are arguments of the walks, so no fuel is added. The recovery window has 10
  blocks, a carry-forward period 172800 blocks. Money is exact where amounts are multiples of
  \<open>2^-k\<close> and the volume stays below \<open>2^(53-k)\<close>, which is where doubles add without rounding. A
  download makes at most \<open>50000 * (1 + tip)\<close> requests for a peer that claims the tip.

  \<^bold>\<open>Not modelled.\<close> The sockets and threads of the HTTP server, the HTML of the administration page,
  the graphical clients, the port mapper and the PHP relay server (input and output only); LevelDB,
  libsecp256k1 and the Bitcoin Core files that the node carries along (third-party code);
  \<open>parseBlockFile\<close>, which reads block files that nothing writes any more.
\<close>

end
